(* ===== verification/Prelude.thy ===== *)
theory Prelude
  imports Complex_Main "HOL-Library.AList" "HOL-Library.Char_ord" "HOL-Library.List_Lexorder"
begin

text \<open>
  Shared vocabulary of the development: Python's strings as lists of Latin-1 code points
  (\<open>string\<close>), its rounding, its insertion-ordered dictionaries as association lists with
  distinct keys, and the generic lemmas the components share. Instants and durations of
  \<open>datetime\<close> are \<open>int\<close> microseconds; \<open>time.monotonic()\<close> and the other
  floating-point values are exact \<open>real\<close> numbers, \<open>Decimal\<close> values exact \<open>rat\<close> numbers.
\<close>

named_theorems od_simps \<open>laws of the ordered dictionaries\<close>
named_theorems str_simps \<open>laws of the string helpers\<close>

type_synonym instant = int
type_synonym duration = int
type_synonym clock = real

abbreviation seconds :: "int \<Rightarrow> duration" where
  "seconds n \<equiv> n * 1000000"

abbreviation minutes :: "int \<Rightarrow> duration" where
  "minutes n \<equiv> seconds (60 * n)"

abbreviation hours :: "int \<Rightarrow> duration" where
  "hours n \<equiv> minutes (60 * n)"

abbreviation days :: "int \<Rightarrow> duration" where
  "days n \<equiv> hours (24 * n)"

section \<open>Strings\<close>

text \<open>\<open>str.strip\<close>, \<open>str.lower\<close>, \<open>str.split\<close> and \<open>in\<close> on Latin-1 text.\<close>

definition is_space :: "char \<Rightarrow> bool" where
  "is_space c \<longleftrightarrow> (let n = of_char c :: nat in
     (9 \<le> n \<and> n \<le> 13) \<or> (28 \<le> n \<and> n \<le> 32) \<or> n = 133 \<or> n = 160)"

definition py_strip :: "string \<Rightarrow> string" where
  "py_strip s = rev (dropWhile is_space (rev (dropWhile is_space s)))"

definition lower_char :: "char \<Rightarrow> char" where
  "lower_char c = (let n = of_char c :: nat in
     if (65 \<le> n \<and> n \<le> 90) \<or> (192 \<le> n \<and> n \<le> 222 \<and> n \<noteq> 215)
     then char_of (n + 32) else c)"

definition py_lower :: "string \<Rightarrow> string" where
  "py_lower s = List.map lower_char s"

fun py_split :: "char \<Rightarrow> string \<Rightarrow> string list" where
  "py_split sep [] = [[]]"
| "py_split sep (c # s) =
     (if c = sep then [] # py_split sep s
      else (case py_split sep s of [] \<Rightarrow> [[c]] | w # ws \<Rightarrow> (c # w) # ws))"

fun is_prefix :: "string \<Rightarrow> string \<Rightarrow> bool" where
  "is_prefix [] s = True"
| "is_prefix (p # ps) [] = False"
| "is_prefix (p # ps) (c # s) = (p = c \<and> is_prefix ps s)"

definition ends_with :: "string \<Rightarrow> string \<Rightarrow> bool" where
  "ends_with s t \<longleftrightarrow> is_prefix (rev t) (rev s)"

fun contains_text :: "string \<Rightarrow> string \<Rightarrow> bool" where
  "contains_text p [] = (p = [])"
| "contains_text p (c # s) = (is_prefix p (c # s) \<or> contains_text p s)"

definition is_ascii_digit :: "char \<Rightarrow> bool" where
  "is_ascii_digit c \<longleftrightarrow> (let n = of_char c :: nat in 48 \<le> n \<and> n \<le> 57)"

definition all_digits :: "string \<Rightarrow> bool" where
  "all_digits s \<longleftrightarrow> s \<noteq> [] \<and> list_all is_ascii_digit s"

definition digit_value :: "char \<Rightarrow> int" where
  "digit_value c = int (of_char c) - 48"

definition digits_to_int :: "string \<Rightarrow> int" where
  "digits_to_int s = foldl (\<lambda>n c. 10 * n + digit_value c) 0 s"

fun join :: "string \<Rightarrow> string list \<Rightarrow> string" where
  "join sep [] = []"
| "join sep [w] = w"
| "join sep (w # v # ws) = w @ sep @ join sep (v # ws)"

fun nat_to_string :: "nat \<Rightarrow> string" where
  "nat_to_string n =
     (if n < 10 then [char_of (48 + n)] else nat_to_string (n div 10) @ [char_of (48 + n mod 10)])"

declare nat_to_string.simps [simp del]

definition int_to_string :: "int \<Rightarrow> string" where
  "int_to_string i = (if i < 0 then CHR ''-'' # nat_to_string (nat (- i)) else nat_to_string (nat i))"

lemma is_prefix_iff [str_simps]: "is_prefix p s \<longleftrightarrow> (\<exists>t. s = p @ t)"
  by (induction p s rule: is_prefix.induct) auto

lemma ends_with_iff [str_simps]: "ends_with s t \<longleftrightarrow> (\<exists>u. s = u @ t)"
proof
  assume "ends_with s t"
  then obtain u where "rev s = rev t @ u" by (auto simp: ends_with_def is_prefix_iff)
  then have "s = rev u @ t" by (metis rev_append rev_rev_ident)
  then show "\<exists>u. s = u @ t" by blast
qed (auto simp: ends_with_def is_prefix_iff)

lemma contains_text_iff [str_simps]: "contains_text p s \<longleftrightarrow> (\<exists>u t. s = u @ p @ t)"
proof (induction s)
  case (Cons c s)
  show ?case
  proof
    assume "contains_text p (c # s)"
    then consider "is_prefix p (c # s)" | "contains_text p s" by auto
    then show "\<exists>u t. c # s = u @ p @ t"
    proof cases
      case 1
      then show ?thesis by (auto simp: is_prefix_iff intro: exI [of _ "[]"])
    next
      case 2
      then obtain u t where "s = u @ p @ t" using Cons.IH by blast
      then show ?thesis by (intro exI [of _ "c # u"] exI [of _ t]) simp
    qed
  next
    assume "\<exists>u t. c # s = u @ p @ t"
    then obtain u t where eq: "c # s = u @ p @ t" by blast
    show "contains_text p (c # s)"
    proof (cases u)
      case Nil
      then have "is_prefix p (c # s)" using eq by (auto simp: is_prefix_iff)
      then show ?thesis by simp
    next
      case (Cons d u')
      then show ?thesis using eq Cons.IH by auto
    qed
  qed
qed simp

lemma py_split_neq_Nil [simp]: "py_split sep s \<noteq> []"
  by (induction s) (auto split: list.splits)

lemma join_py_split [str_simps]: "join [sep] (py_split sep s) = s"
proof (induction s)
  case (Cons c s)
  show ?case
  proof (cases "py_split sep s")
    case Nil
    then show ?thesis by simp
  next
    case (Cons w ws)
    then show ?thesis using Cons.IH \<open>join [sep] (py_split sep s) = s\<close> by (cases ws) auto
  qed
qed simp

lemma py_split_no_sep: "w \<in> set (py_split sep s) \<Longrightarrow> sep \<notin> set w"
  by (induction s arbitrary: w) (auto split: if_splits list.splits)

lemma py_strip_space_ends:
  "py_strip s = [] \<or> (\<not> is_space (hd (py_strip s)) \<and> \<not> is_space (last (py_strip s)))"
proof (cases "py_strip s")
  case (Cons c t)
  have hd_dw: "dropWhile P ys \<noteq> [] \<Longrightarrow> \<not> P (hd (dropWhile P ys))" for P and ys :: "char list"
    by (induction ys) auto
  let ?m = "dropWhile is_space s" and ?r = "dropWhile is_space (rev (dropWhile is_space s))"
  have r: "?r \<noteq> []" using Cons by (auto simp: py_strip_def)
  have last: "\<not> is_space (last (py_strip s))"
    using hd_dw [OF r] by (simp add: py_strip_def last_rev)
  obtain z where z: "rev ?m = z @ ?r" by (metis takeWhile_dropWhile_id)
  then have m: "?m = rev ?r @ rev z" by (metis rev_append rev_rev_ident)
  have "?m \<noteq> []" using r by (metis dropWhile.simps(1) rev.simps(1))
  moreover have "hd ?m = hd (rev ?r)"
  proof -
    have "hd (rev ys @ rev z) = hd (rev ys)" if "ys \<noteq> []" for ys :: string
      using that by simp
    from this [OF r] show ?thesis using m by metis
  qed
  ultimately have "\<not> is_space (hd (py_strip s))"
    using hd_dw [of is_space s] unfolding py_strip_def by metis
  with last show ?thesis by blast
qed simp

section \<open>Rounding\<close>

text \<open>
  Python's \<open>round(x)\<close> and \<open>Decimal.quantize\<close> round half to even; \<open>round(x, n)\<close> does it at
  \<open>n\<close> decimal places.
\<close>

definition round_half_even :: "'a::floor_ceiling \<Rightarrow> int" where
  "round_half_even x =
     (let f = \<lfloor>x\<rfloor>; d = x - of_int f in
      if 2 * d < 1 then f else if 1 < 2 * d then f + 1 else if even f then f else f + 1)"

definition round_places :: "nat \<Rightarrow> 'a::floor_ceiling \<Rightarrow> 'a" where
  "round_places n x = of_int (round_half_even (x * 10 ^ n)) / 10 ^ n"

lemma round_half_even_bounds:
  fixes x :: "'a::floor_ceiling"
  shows "2 * (of_int (round_half_even x) - x) \<le> 1 \<and> 2 * (x - of_int (round_half_even x)) \<le> 1"
proof -
  have "of_int \<lfloor>x\<rfloor> \<le> x" and "x < of_int \<lfloor>x\<rfloor> + 1" by linarith+
  moreover define d where "d = x - of_int \<lfloor>x\<rfloor>"
  ultimately have "0 \<le> d" and "d < 1" and x: "x = of_int \<lfloor>x\<rfloor> + d" by linarith+
  then show ?thesis
    unfolding round_half_even_def Let_def d_def [symmetric] by (subst (2 4) x) auto
qed

lemma round_half_even_of_int [simp]: "round_half_even (of_int i :: 'a::floor_ceiling) = i"
  by (simp add: round_half_even_def)

lemma round_half_even_mono:
  fixes x y :: "'a::floor_ceiling"
  assumes "x \<le> y"
  shows "round_half_even x \<le> round_half_even y"
proof (cases "\<lfloor>x\<rfloor> = \<lfloor>y\<rfloor>")
  case True
  then show ?thesis using assms by (simp add: round_half_even_def Let_def)
next
  case False
  then have lt: "\<lfloor>x\<rfloor> + 1 \<le> \<lfloor>y\<rfloor>" using floor_mono [OF assms] by linarith
  have "round_half_even x \<le> \<lfloor>x\<rfloor> + 1" and "\<lfloor>y\<rfloor> \<le> round_half_even y"
    by (auto simp: round_half_even_def Let_def)
  then show ?thesis using lt by linarith
qed

lemma round_places_mono:
  fixes x y :: "'a::floor_ceiling"
  assumes "x \<le> y"
  shows "round_places n x \<le> round_places n y"
proof -
  have "x * 10 ^ n \<le> y * 10 ^ n" using assms by (simp add: mult_right_mono)
  then have "round_half_even (x * 10 ^ n) \<le> round_half_even (y * 10 ^ n)"
    by (rule round_half_even_mono)
  then show ?thesis by (simp add: round_places_def divide_right_mono)
qed

section \<open>Ordered dictionaries\<close>

text \<open>
  A Python \<open>dict\<close> or \<open>OrderedDict\<close> is an association list in insertion order; assignment
  keeps the place of a key that is present (\<^const>\<open>AList.update\<close>), deletion drops it.
\<close>

definition od_delete :: "'k \<Rightarrow> ('k \<times> 'v) list \<Rightarrow> ('k \<times> 'v) list" where
  "od_delete k xs = filter (\<lambda>p. fst p \<noteq> k) xs"

definition od_move_to_end :: "'k \<Rightarrow> ('k \<times> 'v) list \<Rightarrow> ('k \<times> 'v) list" where
  "od_move_to_end k xs =
     (case map_of xs k of None \<Rightarrow> xs | Some v \<Rightarrow> od_delete k xs @ [(k, v)])"

lemma set_od_delete [od_simps]: "set (od_delete k xs) = {p \<in> set xs. fst p \<noteq> k}"
  by (simp add: od_delete_def)

lemma map_of_od_delete [od_simps]: "map_of (od_delete k xs) = (map_of xs)(k := None)"
  by (induction xs) (auto simp: od_delete_def fun_eq_iff)

lemma distinct_od_delete [od_simps]:
  "distinct (List.map fst xs) \<Longrightarrow> distinct (List.map fst (od_delete k xs))"
  by (simp add: od_delete_def distinct_map_filter)

lemma od_delete_fresh: "k \<notin> fst ` set xs \<Longrightarrow> od_delete k xs = xs"
  unfolding od_delete_def by (rule filter_True) auto

lemma length_od_delete_le [od_simps]: "length (od_delete k xs) \<le> length xs"
  by (simp add: od_delete_def)

lemma length_od_delete_Some:
  assumes "distinct (List.map fst xs)" and "map_of xs k = Some v"
  shows "Suc (length (od_delete k xs)) = length xs"
  using assms
proof (induction xs)
  case (Cons p xs)
  show ?case
  proof (cases "fst p = k")
    case True
    then have "k \<notin> fst ` set xs" using Cons.prems(1) by auto
    then show ?thesis using True od_delete_fresh [of k xs] by (simp add: od_delete_def)
  next
    case False
    then show ?thesis using Cons by (cases p) (auto simp: od_delete_def split: if_splits)
  qed
qed simp

lemma map_of_od_move_to_end [od_simps]: "map_of (od_move_to_end k xs) = map_of xs"
  by (auto simp: od_move_to_end_def od_simps fun_eq_iff map_add_def split: option.splits)

lemma distinct_od_move_to_end [od_simps]:
  "distinct (List.map fst xs) \<Longrightarrow> distinct (List.map fst (od_move_to_end k xs))"
  by (auto simp: od_move_to_end_def od_simps split: option.splits)

lemma length_od_move_to_end:
  "distinct (List.map fst xs) \<Longrightarrow> length (od_move_to_end k xs) = length xs"
  by (auto simp: od_move_to_end_def length_od_delete_Some split: option.splits)

lemma set_od_move_to_end [od_simps]:
  "distinct (List.map fst xs) \<Longrightarrow> set (od_move_to_end k xs) = set xs"
  by (auto simp: od_move_to_end_def od_simps dest: map_of_SomeD eq_key_imp_eq_value
      split: option.splits)

lemma od_move_to_end_update:
  assumes "distinct (List.map fst xs)"
  shows "od_move_to_end k (AList.update k v xs) = od_delete k xs @ [(k, v)]"
proof -
  have "od_delete k (AList.update k v xs) = od_delete k xs"
    by (induction xs) (auto simp: od_delete_def)
  then show ?thesis by (simp add: od_move_to_end_def update_conv')
qed

lemma distinct_fst_update [od_simps]:
  "distinct (List.map fst xs) \<Longrightarrow> distinct (List.map fst (AList.update k v xs))"
  by (rule distinct_update)

section \<open>Lists\<close>

fun keep_first :: "('a \<Rightarrow> 'k) \<Rightarrow> 'a list \<Rightarrow> 'a list" where
  "keep_first f [] = []"
| "keep_first f (x # xs) = x # keep_first f (filter (\<lambda>y. f y \<noteq> f x) xs)"

definition min_by :: "('a \<Rightarrow> 'b::linorder) \<Rightarrow> 'a \<Rightarrow> 'a list \<Rightarrow> 'a" where
  "min_by f x xs = foldl (\<lambda>a b. if f b < f a then b else a) x xs"

lemma min_by_in: "min_by f x xs \<in> insert x (set xs)"
  by (induction xs arbitrary: x) (auto simp: min_by_def)

lemma min_by_le: "y \<in> insert x (set xs) \<Longrightarrow> f (min_by f x xs) \<le> f y"
proof (induction xs arbitrary: x y)
  case (Cons z xs)
  let ?w = "if f z < f x then z else x"
  have eq: "min_by f x (z # xs) = min_by f ?w xs" by (simp add: min_by_def)
  have w: "f (min_by f ?w xs) \<le> f ?w" by (rule Cons.IH) simp
  show ?case
  proof (cases "y \<in> set xs")
    case True
    then show ?thesis unfolding eq by (intro Cons.IH) simp
  next
    case False
    then have "f ?w \<le> f y" using Cons.prems by auto
    then show ?thesis unfolding eq using w by (rule order_trans [rotated])
  qed
qed (simp add: min_by_def)

lemma sorted_le_last: "sorted xs \<Longrightarrow> x \<in> set xs \<Longrightarrow> x \<le> last xs" for x :: "'a::linorder"
  by (induction xs) (auto split: if_splits)

lemma distinct_map_filterI [intro]:
  "distinct (List.map f xs) \<Longrightarrow> distinct (List.map f (filter P xs))"
  by (rule distinct_map_filter)

end
