(* ===== verification/Errors.thy ===== *)
theory Errors
  imports Prelude
begin

text \<open>
  The exception hierarchy of \<open>app/core/errors.py\<close> and the exception handlers of
  \<open>app/main.py\<close>. An error value carries its class and its non-\<open>None\<close> details; the
  Portuguese message is presentation text and is not part of the model.
\<close>

datatype error_kind =
    DomainError | NotFoundError | TerritoryNotFoundError | FollowedMunicipalityNotFoundError
  | ConflictError | AuthenticationError | ForbiddenError | AuthRateLimitedError
  | InvalidParameterError | ProviderError | ProviderRateLimitedError

datatype detail =
    DNone | DText string | DInt int | DBool bool | DInts "int list"
  | DFields "(string list \<times> string) list"

record domain_error =
  err_kind :: error_kind
  err_details :: "(string \<times> detail) list"

type_synonym 'a result = "domain_error + 'a"

text \<open>The direct base class of each class, which decides what an \<open>except\<close> clause catches.\<close>

fun base_class :: "error_kind \<Rightarrow> error_kind option" where
  "base_class DomainError = None"
| "base_class NotFoundError = Some DomainError"
| "base_class TerritoryNotFoundError = Some NotFoundError"
| "base_class FollowedMunicipalityNotFoundError = Some NotFoundError"
| "base_class ConflictError = Some DomainError"
| "base_class AuthenticationError = Some DomainError"
| "base_class ForbiddenError = Some DomainError"
| "base_class AuthRateLimitedError = Some DomainError"
| "base_class InvalidParameterError = Some DomainError"
| "base_class ProviderError = Some DomainError"
| "base_class ProviderRateLimitedError = Some ProviderError"

text \<open>The class attributes \<open>status_code\<close> and \<open>code\<close>, inherited where a class does not set them.\<close>

fun own_status :: "error_kind \<Rightarrow> int option" where
  "own_status DomainError = Some 500"
| "own_status NotFoundError = Some 404"
| "own_status ConflictError = Some 409"
| "own_status AuthenticationError = Some 401"
| "own_status ForbiddenError = Some 403"
| "own_status AuthRateLimitedError = Some 429"
| "own_status InvalidParameterError = Some 400"
| "own_status ProviderError = Some 502"
| "own_status ProviderRateLimitedError = Some 503"
| "own_status _ = None"

fun own_code :: "error_kind \<Rightarrow> string" where
  "own_code DomainError = ''internal_error''"
| "own_code NotFoundError = ''not_found''"
| "own_code TerritoryNotFoundError = ''territory_not_found''"
| "own_code FollowedMunicipalityNotFoundError = ''followed_municipality_not_found''"
| "own_code ConflictError = ''conflict''"
| "own_code AuthenticationError = ''authentication_required''"
| "own_code ForbiddenError = ''forbidden''"
| "own_code AuthRateLimitedError = ''auth_rate_limited''"
| "own_code InvalidParameterError = ''invalid_parameter''"
| "own_code ProviderError = ''provider_error''"
| "own_code ProviderRateLimitedError = ''provider_rate_limited''"

function status_code :: "error_kind \<Rightarrow> int" where
  "status_code k =
     (case own_status k of Some s \<Rightarrow> s
      | None \<Rightarrow> (case base_class k of Some b \<Rightarrow> status_code b | None \<Rightarrow> 500))"
  by pat_completeness auto
termination
  by (relation "measure (\<lambda>k. case base_class k of None \<Rightarrow> 0 | Some DomainError \<Rightarrow> 1 | Some _ \<Rightarrow> 2)")
    (auto elim!: base_class.elims own_status.elims)

declare status_code.simps [simp del]

definition is_instance :: "error_kind \<Rightarrow> error_kind \<Rightarrow> bool" where
  "is_instance k cls \<longleftrightarrow>
     k = cls \<or> base_class k = Some cls \<or>
     (case base_class k of Some b \<Rightarrow> base_class b = Some cls | None \<Rightarrow> False)"

text \<open>\<open>DomainError.__init__\<close> drops the details that are \<open>None\<close>.\<close>

definition mk_error :: "error_kind \<Rightarrow> (string \<times> detail) list \<Rightarrow> domain_error" where
  "mk_error k kw = \<lparr>err_kind = k, err_details = filter (\<lambda>(_, v). v \<noteq> DNone) kw\<rparr>"

definition territory_not_found :: "string \<Rightarrow> domain_error" where
  "territory_not_found code = mk_error TerritoryNotFoundError [(''ibgeCode'', DText code)]"

definition followed_not_found :: "string \<Rightarrow> domain_error" where
  "followed_not_found code =
     mk_error FollowedMunicipalityNotFoundError [(''municipalityCode'', DText code)]"

definition invalid_parameter :: "string option \<Rightarrow> (string \<times> detail) list \<Rightarrow> domain_error" where
  "invalid_parameter parameter kw =
     mk_error InvalidParameterError
       ((''parameter'', case parameter of None \<Rightarrow> DNone | Some p \<Rightarrow> DText p) # kw)"

definition rate_limited :: "int \<Rightarrow> domain_error" where
  "rate_limited retry = mk_error ProviderRateLimitedError [(''retryAfterSeconds'', DInt retry)]"

definition retry_after_seconds :: "domain_error \<Rightarrow> int option" where
  "retry_after_seconds e =
     (case map_of (err_details e) ''retryAfterSeconds'' of Some (DInt n) \<Rightarrow> Some n | _ \<Rightarrow> None)"

section \<open>The JSON body of an error and the exception handlers\<close>

record error_response =
  resp_status :: int
  resp_code :: string
  resp_details :: "(string \<times> detail) list option"
  resp_no_store :: bool

datatype raised =
    RaisedDomain domain_error
  | RaisedValidation "(string list \<times> string) list"
  | RaisedHttp int
  | RaisedOther

text \<open>\<open>error_body\<close>: \<open>details\<close> is present only when it is not empty.\<close>

definition error_body :: "string \<Rightarrow> (string \<times> detail) list option
    \<Rightarrow> string \<times> (string \<times> detail) list option" where
  "error_body code details =
     (code, (case details of Some (d # ds) \<Rightarrow> Some (d # ds) | _ \<Rightarrow> None))"

definition handle_domain_error :: "domain_error \<Rightarrow> error_response" where
  "handle_domain_error e =
     (let (code, details) = error_body (own_code (err_kind e)) (Some (err_details e)) in
      \<lparr>resp_status = status_code (err_kind e), resp_code = code, resp_details = details,
       resp_no_store = True\<rparr>)"

definition handle_validation_error :: "(string list \<times> string) list \<Rightarrow> error_response" where
  "handle_validation_error errors =
     (let (code, details) = error_body ''validation_error''
            (Some [(''fields'', DFields errors)]) in
      \<lparr>resp_status = 422, resp_code = code, resp_details = details, resp_no_store = False\<rparr>)"

definition handle_http_exception :: "int \<Rightarrow> error_response" where
  "handle_http_exception status =
     (let (code, details) =
            error_body (if status = 404 then ''not_found'' else ''http_error'') None in
      \<lparr>resp_status = status, resp_code = code, resp_details = details, resp_no_store = False\<rparr>)"

definition handle_unexpected_error :: "error_response" where
  "handle_unexpected_error =
     (let (code, details) = error_body ''internal_error'' None in
      \<lparr>resp_status = 500, resp_code = code, resp_details = details, resp_no_store = False\<rparr>)"

fun handle :: "raised \<Rightarrow> error_response" where
  "handle (RaisedDomain e) = handle_domain_error e"
| "handle (RaisedValidation errors) = handle_validation_error errors"
| "handle (RaisedHttp status) = handle_http_exception status"
| "handle RaisedOther = handle_unexpected_error"

section \<open>Laws\<close>

lemma err_kind_mk_error [simp]: "err_kind (mk_error k kw) = k"
  by (simp add: mk_error_def)

lemma err_details_mk_error [simp]:
  "err_details (mk_error k kw) = filter (\<lambda>(_, v). v \<noteq> DNone) kw"
  by (simp add: mk_error_def)

lemma err_kind_constructors [simp]:
  "err_kind (territory_not_found c) = TerritoryNotFoundError"
  "err_kind (followed_not_found c) = FollowedMunicipalityNotFoundError"
  "err_kind (invalid_parameter p kw) = InvalidParameterError"
  "err_kind (rate_limited n) = ProviderRateLimitedError"
  by (simp_all add: territory_not_found_def followed_not_found_def invalid_parameter_def
      rate_limited_def)

lemma retry_after_rate_limited [simp]: "retry_after_seconds (rate_limited n) = Some n"
  by (simp add: retry_after_seconds_def rate_limited_def)

lemma status_code_values [simp]:
  "status_code DomainError = 500" "status_code NotFoundError = 404"
  "status_code TerritoryNotFoundError = 404" "status_code FollowedMunicipalityNotFoundError = 404"
  "status_code ConflictError = 409" "status_code AuthenticationError = 401"
  "status_code ForbiddenError = 403" "status_code AuthRateLimitedError = 429"
  "status_code InvalidParameterError = 400" "status_code ProviderError = 502"
  "status_code ProviderRateLimitedError = 503"
  by (simp_all add: status_code.simps)

lemma provider_errors: "is_instance k ProviderError \<longleftrightarrow> k \<in> {ProviderError, ProviderRateLimitedError}"
  by (cases k) (auto simp: is_instance_def)

lemma own_code_inj: "own_code a = own_code b \<Longrightarrow> a = b"
  by (cases a; cases b) auto

end
