(* ===== verification/TTL_Cache.thy ===== *)
theory TTL_Cache
  imports Prelude
begin

text \<open>
  \<open>app/core/cache.py\<close>: the in-process cache with a time to live and a bounded number of
  entries, evicted in least-recently-used order. The theory also states the contract every
  read-through service relies on (locale \<open>memo_cache\<close>) and interprets it on this cache.
\<close>

section \<open>The class TTLCache\<close>

record ('k, 'v) ttl_cache =
  tc_ttl :: int
  tc_max :: int
  tc_data :: "('k \<times> (clock \<times> 'v)) list"
  tc_hits :: nat
  tc_misses :: nat

definition new_cache :: "int \<Rightarrow> int \<Rightarrow> ('k, 'v) ttl_cache" where
  "new_cache ttl_seconds max_entries =
     \<lparr>tc_ttl = ttl_seconds, tc_max = max_entries, tc_data = [], tc_hits = 0, tc_misses = 0\<rparr>"

definition cache_enabled :: "('k, 'v) ttl_cache \<Rightarrow> bool" where
  "cache_enabled c \<longleftrightarrow> tc_ttl c > 0 \<and> tc_max c > 0"

definition cache_get :: "clock \<Rightarrow> 'k \<Rightarrow> ('k, 'v) ttl_cache \<Rightarrow> 'v option \<times> ('k, 'v) ttl_cache" where
  "cache_get now key c =
     (if \<not> cache_enabled c then (None, c)
      else case map_of (tc_data c) key of
        None \<Rightarrow> (None, c\<lparr>tc_misses := tc_misses c + 1\<rparr>)
      | Some (expires_at, value) \<Rightarrow>
          if expires_at < now
          then (None, c\<lparr>tc_data := od_delete key (tc_data c), tc_misses := tc_misses c + 1\<rparr>)
          else (Some value,
                c\<lparr>tc_data := od_move_to_end key (tc_data c), tc_hits := tc_hits c + 1\<rparr>))"

fun evict_oldest :: "int \<Rightarrow> 'a list \<Rightarrow> 'a list" where
  "evict_oldest m [] = []"
| "evict_oldest m (x # xs) = (if int (length (x # xs)) > m then evict_oldest m xs else x # xs)"

definition cache_set ::
    "clock \<Rightarrow> 'k \<Rightarrow> 'v \<Rightarrow> int option \<Rightarrow> ('k, 'v) ttl_cache \<Rightarrow> ('k, 'v) ttl_cache" where
  "cache_set now key value ttl_seconds c =
     (if \<not> cache_enabled c then c
      else let ttl = (case ttl_seconds of None \<Rightarrow> tc_ttl c | Some t \<Rightarrow> t) in
        if ttl \<le> 0 then c
        else c\<lparr>tc_data := evict_oldest (tc_max c)
                 (od_move_to_end key (AList.update key (now + of_int ttl, value) (tc_data c)))\<rparr>)"

definition cache_clear :: "('k, 'v) ttl_cache \<Rightarrow> ('k, 'v) ttl_cache" where
  "cache_clear c = c\<lparr>tc_data := []\<rparr>"

definition cache_stats :: "('k, 'v) ttl_cache \<Rightarrow> nat \<times> nat \<times> nat" where
  "cache_stats c = (length (tc_data c), tc_hits c, tc_misses c)"

section \<open>Operations as a sequence of calls\<close>

datatype ('k, 'v) cache_op = OpGet clock 'k | OpSet clock 'k 'v "int option" | OpClear

fun cache_step :: "('k, 'v) ttl_cache \<Rightarrow> ('k, 'v) cache_op \<Rightarrow> ('k, 'v) ttl_cache" where
  "cache_step c (OpGet now k) = snd (cache_get now k c)"
| "cache_step c (OpSet now k v t) = cache_set now k v t c"
| "cache_step c OpClear = cache_clear c"

definition cache_run :: "('k, 'v) ttl_cache \<Rightarrow> ('k, 'v) cache_op list \<Rightarrow> ('k, 'v) ttl_cache" where
  "cache_run c ops = foldl cache_step c ops"

section \<open>Well-formedness\<close>

definition cache_wf :: "('k, 'v) ttl_cache \<Rightarrow> bool" where
  "cache_wf c \<longleftrightarrow> distinct (List.map fst (tc_data c)) \<and> int (length (tc_data c)) \<le> max 0 (tc_max c)"

lemma evict_oldest_eq: "evict_oldest m xs = drop (length xs - nat m) xs"
proof (induction m xs rule: evict_oldest.induct)
  case (2 m x xs)
  show ?case
  proof (cases "int (length (x # xs)) > m")
    case True
    then have "length (x # xs) - nat m = Suc (length xs - nat m)" by auto
    then show ?thesis using 2 True by simp
  qed auto
qed simp

lemma length_evict_oldest: "int (length (evict_oldest m xs)) \<le> max 0 m"
  by (simp add: evict_oldest_eq)

lemma set_evict_oldest: "set (evict_oldest m xs) \<subseteq> set xs"
  by (simp add: evict_oldest_eq set_drop_subset)

lemma distinct_evict_oldest:
  "distinct (List.map f xs) \<Longrightarrow> distinct (List.map f (evict_oldest m xs))"
  by (simp add: evict_oldest_eq drop_map [symmetric] distinct_drop)

lemma evict_oldest_keeps_last: "0 < m \<Longrightarrow> \<exists>ys. evict_oldest m (xs @ [x]) = ys @ [x]"
  by (auto simp: evict_oldest_eq)

lemma cache_wf_new [simp]: "cache_wf (new_cache t m)"
  by (simp add: cache_wf_def new_cache_def)

lemma cache_wf_clear [simp]: "cache_wf (cache_clear c)"
  by (simp add: cache_wf_def cache_clear_def)

lemma cache_get_params [simp]:
  "tc_ttl (snd (cache_get now k c)) = tc_ttl c" "tc_max (snd (cache_get now k c)) = tc_max c"
  by (auto simp: cache_get_def split: option.splits)

lemma cache_set_params [simp]:
  "tc_ttl (cache_set now k v t c) = tc_ttl c" "tc_max (cache_set now k v t c) = tc_max c"
  by (auto simp: cache_set_def Let_def)

lemma cache_clear_params [simp]:
  "tc_ttl (cache_clear c) = tc_ttl c" "tc_max (cache_clear c) = tc_max c"
  by (auto simp: cache_clear_def)

lemma cache_enabled_get [simp]: "cache_enabled (snd (cache_get now k c)) = cache_enabled c"
  by (simp add: cache_enabled_def)

lemma cache_enabled_set [simp]: "cache_enabled (cache_set now k v t c) = cache_enabled c"
  by (simp add: cache_enabled_def)

lemma cache_wf_get: "cache_wf c \<Longrightarrow> cache_wf (snd (cache_get now k c))"
  using length_od_delete_le [of k "tc_data c"]
  by (auto simp del: length_od_delete_le simp: cache_wf_def cache_get_def length_od_move_to_end
      distinct_od_delete distinct_od_move_to_end split: option.splits)

lemma cache_wf_set: "cache_wf c \<Longrightarrow> cache_wf (cache_set now k v t c)"
  using length_evict_oldest [of "tc_max c"]
  by (auto simp: cache_wf_def cache_set_def Let_def od_simps intro!: distinct_evict_oldest)

lemmas cache_wf_ops = cache_wf_new cache_wf_clear cache_wf_get cache_wf_set

lemma cache_wf_step: "cache_wf c \<Longrightarrow> cache_wf (cache_step c op)"
  by (cases op) (auto intro: cache_wf_ops)

lemma cache_wf_foldl: "cache_wf c \<Longrightarrow> cache_wf (foldl cache_step c ops)"
  by (induction ops arbitrary: c) (auto intro: cache_wf_step)

section \<open>Lookup laws\<close>

lemma cache_set_data:
  assumes "cache_wf c" and "cache_enabled c" and "0 < (case t of None \<Rightarrow> tc_ttl c | Some s \<Rightarrow> s)"
  shows "tc_data (cache_set now k v t c) =
    evict_oldest (tc_max c) (od_delete k (tc_data c) @
      [(k, (now + of_int (case t of None \<Rightarrow> tc_ttl c | Some s \<Rightarrow> s), v))])"
  using assms by (auto simp: cache_set_def Let_def cache_wf_def od_move_to_end_update)

lemma cache_set_lookup:
  assumes "cache_wf c" and "cache_enabled c" and "0 < (case t of None \<Rightarrow> tc_ttl c | Some s \<Rightarrow> s)"
  shows "map_of (tc_data (cache_set now k v t c)) k =
    Some (now + of_int (case t of None \<Rightarrow> tc_ttl c | Some s \<Rightarrow> s), v)"
proof -
  let ?e = "(k, (now + of_int (case t of None \<Rightarrow> tc_ttl c | Some s \<Rightarrow> s), v))"
  have "0 < tc_max c" using assms(2) by (simp add: cache_enabled_def)
  then obtain ys where "tc_data (cache_set now k v t c) = ys @ [?e]"
    using evict_oldest_keeps_last cache_set_data [OF assms] by metis
  moreover have "distinct (List.map fst (tc_data (cache_set now k v t c)))"
    using cache_wf_set [OF assms(1)] by (simp add: cache_wf_def)
  ultimately show ?thesis
    by (auto simp: map_add_def split: option.splits) (auto dest!: map_of_SomeD simp: image_iff)
qed

lemma cache_get_after_set:
  assumes "cache_wf c" and "cache_enabled c" and "0 < (case t of None \<Rightarrow> tc_ttl c | Some s \<Rightarrow> s)"
  shows "fst (cache_get later k (cache_set now k v t c)) =
    (if later \<le> now + of_int (case t of None \<Rightarrow> tc_ttl c | Some s \<Rightarrow> s) then Some v else None)"
  using cache_set_lookup [OF assms, of now k v] assms(2) by (auto simp: cache_get_def)

lemma cache_get_Some_entry:
  "fst (cache_get now k c) = Some v \<longleftrightarrow>
     cache_enabled c \<and> (\<exists>e. map_of (tc_data c) k = Some (e, v) \<and> now \<le> e)"
  by (auto simp: cache_get_def split: option.splits if_splits)

lemma cache_get_other:
  assumes "k' \<noteq> k"
  shows "map_of (tc_data (snd (cache_get now k c))) k' = map_of (tc_data c) k'"
  using assms by (auto simp: cache_get_def od_simps split: option.splits)

lemma cache_entries_get: "set (tc_data (snd (cache_get now k c))) \<subseteq> set (tc_data c)"
  by (auto simp: cache_get_def od_simps od_move_to_end_def dest: map_of_SomeD
      split: option.splits if_splits)

lemma cache_entries_set:
  assumes "p \<in> set (tc_data (cache_set now k v t c))"
  shows "p \<in> set (tc_data c) \<or> (fst p = k \<and> snd (snd p) = v)"
proof -
  have "set (AList.update k x ys) \<subseteq> insert (k, x) (set ys)" for x and ys :: "('a \<times> real \<times> 'b) list"
    by (induction ys) auto
  then have "set (od_move_to_end k (AList.update k x (tc_data c))) \<subseteq> insert (k, x) (set (tc_data c))" for x
    by (fastforce simp: od_move_to_end_def od_simps update_conv' split: option.splits)
  then show ?thesis
    using assms set_evict_oldest unfolding cache_set_def Let_def
    by (fastforce split: if_splits)
qed

section \<open>The contract of a memoising cache\<close>

text \<open>
  What a read-through service relies on: a lookup returns a stored entry, and only the
  service's own writes add entries. \<open>holds c k v\<close> reads "the cache may answer \<open>v\<close> for \<open>k\<close>".
\<close>

locale memo_cache =
  fixes get :: "clock \<Rightarrow> 'k \<Rightarrow> 'c \<Rightarrow> 'v option \<times> 'c"
    and put :: "clock \<Rightarrow> 'k \<Rightarrow> 'v \<Rightarrow> int option \<Rightarrow> 'c \<Rightarrow> 'c"
    and clear :: "'c \<Rightarrow> 'c"
    and holds :: "'c \<Rightarrow> 'k \<Rightarrow> 'v \<Rightarrow> bool"
  assumes get_holds: "fst (get now k c) = Some v \<Longrightarrow> holds c k v"
    and get_adds_nothing: "holds (snd (get now k c)) k' v' \<Longrightarrow> holds c k' v'"
    and put_adds_one: "holds (put now k v t c) k' v' \<Longrightarrow> (k' = k \<and> v' = v) \<or> holds c k' v'"
    and clear_empty: "\<not> holds (clear c) k v"
begin

lemma get_valid:
  assumes "\<And>k v. holds c k v \<Longrightarrow> P k v" and "get now k c = (r, c')"
  shows "(r = Some v \<longrightarrow> P k v) \<and> (holds c' k' v' \<longrightarrow> P k' v')"
  using assms get_holds [of now k c v] get_adds_nothing [of now k c k' v'] by auto

lemma put_valid:
  assumes "\<And>k v. holds c k v \<Longrightarrow> P k v" and "P k v" and "holds (put now k v t c) k' v'"
  shows "P k' v'"
  using assms put_adds_one by blast

lemma clear_valid: "holds (clear c) k v \<Longrightarrow> P k v"
  using clear_empty by blast

end

definition cache_holds :: "('k, 'v) ttl_cache \<Rightarrow> 'k \<Rightarrow> 'v \<Rightarrow> bool" where
  "cache_holds c k v \<longleftrightarrow> (\<exists>e. (k, (e, v)) \<in> set (tc_data c))"

interpretation ttl: memo_cache cache_get cache_set cache_clear cache_holds
proof unfold_locales
  fix now k v and c :: "('a, 'b) ttl_cache"
  assume "fst (cache_get now k c) = Some v"
  then show "cache_holds c k v"
    by (auto simp: cache_get_Some_entry cache_holds_def dest: map_of_SomeD)
next
  fix now k k' v' and c :: "('a, 'b) ttl_cache"
  assume "cache_holds (snd (cache_get now k c)) k' v'"
  then show "cache_holds c k' v'"
    using cache_entries_get [of now k c] by (auto simp: cache_holds_def)
next
  fix now k v t k' v' and c :: "('a, 'b) ttl_cache"
  assume "cache_holds (cache_set now k v t c) k' v'"
  then show "(k' = k \<and> v' = v) \<or> cache_holds c k' v'"
    using cache_entries_set [of _ now k v t c] by (fastforce simp: cache_holds_def)
qed (auto simp: cache_holds_def cache_clear_def)

text \<open>All entries of a cache satisfy a predicate: the invariant of a read-through service.\<close>

definition cache_all :: "('k \<Rightarrow> 'v \<Rightarrow> bool) \<Rightarrow> ('k, 'v) ttl_cache \<Rightarrow> bool" where
  "cache_all P c \<longleftrightarrow> list_all (\<lambda>(k, (_, v)). P k v) (tc_data c)"

lemma cache_all_holds: "cache_all P c \<longleftrightarrow> (\<forall>k v. cache_holds c k v \<longrightarrow> P k v)"
  by (auto simp: cache_all_def cache_holds_def list_all_iff)

lemma cache_all_new [simp]: "cache_all P (new_cache t m)"
  by (simp add: cache_all_def new_cache_def)

lemma cache_all_clear [simp]: "cache_all P (cache_clear c)"
  by (simp add: cache_all_def cache_clear_def)

lemma cache_all_get [intro]: "cache_all P c \<Longrightarrow> cache_all P (snd (cache_get now k c))"
  unfolding cache_all_holds by (meson ttl.get_adds_nothing)

lemma cache_all_set [intro]: "cache_all P c \<Longrightarrow> P k v \<Longrightarrow> cache_all P (cache_set now k v t c)"
  unfolding cache_all_holds using ttl.put_adds_one by metis

lemma cache_all_hit: "cache_all P c \<Longrightarrow> fst (cache_get now k c) = Some v \<Longrightarrow> P k v"
  unfolding cache_all_holds by (meson ttl.get_holds)

lemma cache_all_get_eq:
  assumes "cache_get now k c = (r, c')" and "cache_all P c"
  shows "cache_all P c'" and "r = Some v \<Longrightarrow> P k v"
  using cache_all_get [OF assms(2), of now k] cache_all_hit [OF assms(2), of now k v] assms(1) by auto

lemma cache_wf_get_eq: "cache_get now k c = (r, c') \<Longrightarrow> cache_wf c \<Longrightarrow> cache_wf c'"
  using cache_wf_get [of c now k] by simp

end
