(* ===== verification/Auth_Limits.thy ===== *)
theory Auth_Limits
  imports Errors TTL_Cache
begin

text \<open>
  \<open>app/core/auth.py\<close>: password hashes and the three counters that limit login attempts
  (account and IP, IP, progressive lock per e-mail), all kept in one \<open>TTLCache\<close>. The digests
  (\<open>scrypt\<close>, \<open>sha256\<close>) and the random salt are parameters.
\<close>

definition SESSION_SECONDS :: int where "SESSION_SECONDS = 30 * 24 * 60 * 60"
definition WINDOW_SECONDS :: int where "WINDOW_SECONDS = 300"
definition ACCOUNT_LIMIT :: int where "ACCOUNT_LIMIT = 10"
definition IP_LIMIT :: int where "IP_LIMIT = 30"
definition EMAIL_FAILURE_TTL :: int where "EMAIL_FAILURE_TTL = 24 * 60 * 60"
definition EMAIL_FREE_FAILURES :: int where "EMAIL_FREE_FAILURES = 5"
definition EMAIL_LOCK_LADDER :: "int list" where "EMAIL_LOCK_LADDER = [60, 300, 900, 3600]"

lemmas auth_constants = SESSION_SECONDS_def WINDOW_SECONDS_def ACCOUNT_LIMIT_def IP_LIMIT_def
  EMAIL_FAILURE_TTL_def EMAIL_FREE_FAILURES_def EMAIL_LOCK_LADDER_def

section \<open>Hexadecimal digests\<close>

text \<open>\<open>bytes.hex\<close> and \<open>bytes.fromhex\<close>; a byte is a \<^typ>\<open>char\<close>. \<open>fromhex\<close> skips ASCII
  whitespace between bytes and raises \<open>ValueError\<close> (here \<open>None\<close>) on anything else.\<close>

definition hex_digit :: "nat \<Rightarrow> char" where
  "hex_digit n = char_of (if n < 10 then 48 + n else 87 + n)"

definition hex_value :: "char \<Rightarrow> nat option" where
  "hex_value c = (let n = of_char c :: nat in
     if 48 \<le> n \<and> n \<le> 57 then Some (n - 48)
     else if 97 \<le> n \<and> n \<le> 102 then Some (n - 87)
     else if 65 \<le> n \<and> n \<le> 70 then Some (n - 55) else None)"

definition is_ascii_space :: "char \<Rightarrow> bool" where
  "is_ascii_space c \<longleftrightarrow> (let n = of_char c :: nat in (9 \<le> n \<and> n \<le> 13) \<or> n = 32)"

fun to_hex :: "string \<Rightarrow> string" where
  "to_hex [] = []"
| "to_hex (b # bs) = hex_digit (of_char b div 16) # hex_digit (of_char b mod 16) # to_hex bs"

fun from_hex :: "string \<Rightarrow> string option" where
  "from_hex [] = Some []"
| "from_hex [c] = (if is_ascii_space c then Some [] else None)"
| "from_hex (c # d # s) =
     (if is_ascii_space c then from_hex (d # s)
      else case (hex_value c, hex_value d) of
        (Some h, Some l) \<Rightarrow> map_option ((#) (char_of (16 * h + l))) (from_hex s)
      | _ \<Rightarrow> None)"

section \<open>Password hashes\<close>

definition hash_password :: "(string \<Rightarrow> string \<Rightarrow> string) \<Rightarrow> string \<Rightarrow> string \<Rightarrow> string" where
  "hash_password scrypt salt password =
     ''scrypt$'' @ to_hex salt @ ''$'' @ to_hex (scrypt password salt)"

definition verify_password :: "(string \<Rightarrow> string \<Rightarrow> string) \<Rightarrow> string \<Rightarrow> string \<Rightarrow> bool" where
  "verify_password scrypt password encoded =
     (case py_split (CHR ''$'') encoded of
        [algorithm, salt, expected] \<Rightarrow>
          if algorithm \<noteq> ''scrypt'' then False
          else (case from_hex salt of
              None \<Rightarrow> False
            | Some s \<Rightarrow> (case from_hex expected of
                None \<Rightarrow> False
              | Some e \<Rightarrow> scrypt password s = e))
      | _ \<Rightarrow> False)"

definition hash_token :: "(string \<Rightarrow> string) \<Rightarrow> string \<Rightarrow> string" where
  "hash_token sha256 token = sha256 token"

section \<open>Attempt counters\<close>

type_synonym attempts = "(string, int \<times> clock) ttl_cache"

definition new_attempts :: attempts where
  "new_attempts = new_cache WINDOW_SECONDS 20000"

definition account_key :: "(string \<Rightarrow> string) \<Rightarrow> string \<Rightarrow> string option \<Rightarrow> string" where
  "account_key sha256 email ip =
     ''account:'' @ sha256 email @ '':'' @ (case ip of None \<Rightarrow> ''None'' | Some a \<Rightarrow> a)"

definition ip_key :: "string \<Rightarrow> string" where
  "ip_key ip = ''ip:'' @ ip"

definition email_key :: "(string \<Rightarrow> string) \<Rightarrow> string \<Rightarrow> string" where
  "email_key sha256 email = ''email-fail:'' @ sha256 email"

definition rate_limit_error :: domain_error where
  "rate_limit_error = mk_error AuthRateLimitedError []"

text \<open>The first loop: read every counter, stop at the first one over its limit.\<close>

fun read_limits ::
    "clock \<Rightarrow> (string \<times> int) list \<Rightarrow> attempts \<Rightarrow> (string \<times> int \<times> clock) list result \<times> attempts" where
  "read_limits now [] c = (Inr [], c)"
| "read_limits now ((key, limit) # rest) c =
     (let (found, c1) = cache_get now key c;
          (n, until) = (case found of None \<Rightarrow> (0, now + of_int WINDOW_SECONDS) | Some e \<Rightarrow> e) in
      if n \<ge> limit then (Inl rate_limit_error, c1)
      else case read_limits now rest c1 of
          (Inl e, c2) \<Rightarrow> (Inl e, c2)
        | (Inr entries, c2) \<Rightarrow> (Inr ((key, n + 1, until) # entries), c2))"

fun write_limits :: "clock \<Rightarrow> (string \<times> int \<times> clock) list \<Rightarrow> attempts \<Rightarrow> attempts" where
  "write_limits now [] c = c"
| "write_limits now ((key, n, until) # rest) c =
     write_limits now rest (cache_set now key (n, until) (Some (max 1 \<lceil>until - now\<rceil>)) c)"

definition check_auth_attempt ::
    "(string \<Rightarrow> string) \<Rightarrow> clock \<Rightarrow> string \<Rightarrow> string option \<Rightarrow> attempts \<Rightarrow> unit result \<times> attempts" where
  "check_auth_attempt sha256 now email ip c =
     (let (found, c1) = cache_get now (email_key sha256 email) c;
          (_, locked_until) = (case found of None \<Rightarrow> (0, 0) | Some e \<Rightarrow> e) in
      if locked_until > now then (Inl rate_limit_error, c1)
      else
        let limits = [(account_key sha256 email ip, ACCOUNT_LIMIT)] @
              (case ip of None \<Rightarrow> [] | Some a \<Rightarrow> [(ip_key a, IP_LIMIT)]) in
        case read_limits now limits c1 of
          (Inl e, c2) \<Rightarrow> (Inl e, c2)
        | (Inr entries, c2) \<Rightarrow> (Inr (), write_limits now entries c2))"

text \<open>\<open>lock\<close> seconds for a number of failures: the ladder after the free failures.\<close>

definition lock_seconds :: "int \<Rightarrow> int" where
  "lock_seconds failures =
     (let over = failures - EMAIL_FREE_FAILURES in
      if over > 0
      then EMAIL_LOCK_LADDER ! nat (min over (int (length EMAIL_LOCK_LADDER)) - 1)
      else 0)"

definition record_auth_failure ::
    "(string \<Rightarrow> string) \<Rightarrow> clock \<Rightarrow> string \<Rightarrow> attempts \<Rightarrow> attempts" where
  "record_auth_failure sha256 now email c =
     (let (found, c1) = cache_get now (email_key sha256 email) c;
          (failures, _) = (case found of None \<Rightarrow> (0, 0) | Some e \<Rightarrow> e);
          failures = failures + 1 in
      cache_set now (email_key sha256 email) (failures, now + of_int (lock_seconds failures))
        (Some EMAIL_FAILURE_TTL) c1)"

definition clear_auth_attempts ::
    "(string \<Rightarrow> string) \<Rightarrow> clock \<Rightarrow> string \<Rightarrow> string option \<Rightarrow> attempts \<Rightarrow> attempts" where
  "clear_auth_attempts sha256 now email ip c =
     cache_set now (email_key sha256 email) (0, 0) (Some 1)
       (cache_set now (account_key sha256 email ip) (0, now + of_int WINDOW_SECONDS) None c)"

definition reset_attempts :: "attempts \<Rightarrow> attempts" where
  "reset_attempts c = cache_clear c"

section \<open>Laws of the digests\<close>

lemma hex_value_digit: "n < 16 \<Longrightarrow> hex_value (hex_digit n) = Some n"
  by (auto simp: hex_value_def hex_digit_def Let_def)

lemma hex_digit_not_space: "n < 16 \<Longrightarrow> \<not> is_ascii_space (hex_digit n)"
  by (auto simp: is_ascii_space_def hex_digit_def Let_def)

lemma hex_digit_not_dollar: "n < 16 \<Longrightarrow> hex_digit n \<noteq> CHR ''$''"
proof
  assume "n < 16" and "hex_digit n = CHR ''$''"
  then have "of_char (hex_digit n) = (36 :: nat)" by simp
  with \<open>n < 16\<close> show False by (simp add: hex_digit_def split: if_splits)
qed

lemma from_hex_to_hex [simp]: "from_hex (to_hex bs) = Some bs"
proof (induction bs)
  case (Cons b bs)
  have lt: "(of_char b :: nat) div 16 < 16" "(of_char b :: nat) mod 16 < 16"
    using nat_of_char_less_256 [of b] by (auto simp: less_mult_imp_div_less)
  have "16 * ((of_char b :: nat) div 16) + of_char b mod 16 = of_char b" by simp
  then show ?case using Cons lt by (simp add: hex_value_digit hex_digit_not_space)
qed simp

lemma to_hex_no_dollar: "CHR ''$'' \<notin> set (to_hex bs)"
proof (induction bs)
  case (Cons b bs)
  have "(of_char b :: nat) div 16 < 16" using nat_of_char_less_256 [of b] by (auto simp: less_mult_imp_div_less)
  then show ?case using Cons hex_digit_not_dollar by (metis list.set_intros(1) mod_less_divisor
    set_ConsD to_hex.simps(2) zero_less_numeral)
qed simp

lemma py_split_no_sep_append:
  "sep \<notin> set w \<Longrightarrow> py_split sep (w @ sep # s) = w # py_split sep s"
  by (induction w) auto

lemma py_split_no_sep_end: "sep \<notin> set w \<Longrightarrow> py_split sep w = [w]"
  by (induction w) auto

lemma py_split_hash_password:
  "py_split (CHR ''$'') (hash_password scrypt salt p) = [''scrypt'', to_hex salt, to_hex (scrypt p salt)]"
  using py_split_no_sep_append [of "CHR ''$''" "''scrypt''"
      "to_hex salt @ ''$'' @ to_hex (scrypt p salt)"]
    py_split_no_sep_append [OF to_hex_no_dollar, of salt "to_hex (scrypt p salt)"]
    py_split_no_sep_end [OF to_hex_no_dollar, of "scrypt p salt"]
  by (simp add: hash_password_def)

lemma verify_hash_password:
  "verify_password scrypt q (hash_password scrypt salt p) \<longleftrightarrow> scrypt q salt = scrypt p salt"
  by (simp add: verify_password_def py_split_hash_password)

section \<open>Laws of the counters\<close>

definition attempts_ok :: "attempts \<Rightarrow> bool" where
  "attempts_ok c \<longleftrightarrow> cache_wf c \<and> tc_ttl c = WINDOW_SECONDS \<and> tc_max c = 20000"

lemma attempts_ok_new [simp]: "attempts_ok new_attempts"
  unfolding attempts_ok_def new_attempts_def by (simp add: cache_wf_new) (simp add: new_cache_def)

lemma attempts_ok_enabled: "attempts_ok c \<Longrightarrow> cache_enabled c"
  by (simp add: attempts_ok_def cache_enabled_def WINDOW_SECONDS_def)

lemma attempts_ok_get [intro]: "attempts_ok c \<Longrightarrow> attempts_ok (snd (cache_get now k c))"
  by (simp add: attempts_ok_def cache_wf_get)

lemma attempts_ok_get_eq: "cache_get now k c = (r, c') \<Longrightarrow> attempts_ok c \<Longrightarrow> attempts_ok c'"
  using attempts_ok_get [of c now k] by simp

lemma attempts_ok_set [intro]: "attempts_ok c \<Longrightarrow> attempts_ok (cache_set now k v t c)"
  by (simp add: attempts_ok_def cache_wf_set)

lemma attempts_ok_read_limits:
  "read_limits now ls c = (r, c') \<Longrightarrow> attempts_ok c \<Longrightarrow> attempts_ok c'"
  by (induction now ls c arbitrary: r c' rule: read_limits.induct)
    (auto simp: Let_def split: prod.splits option.splits sum.splits if_splits
      dest: attempts_ok_get_eq)

lemma attempts_ok_write_limits: "attempts_ok c \<Longrightarrow> attempts_ok (write_limits now es c)"
  by (induction now es c rule: write_limits.induct) auto

lemma attempts_ok_check: "attempts_ok c \<Longrightarrow> attempts_ok (snd (check_auth_attempt sha now e ip c))"
  unfolding check_auth_attempt_def Let_def
  by (auto split: prod.splits sum.splits option.splits
      dest: attempts_ok_get_eq attempts_ok_read_limits intro!: attempts_ok_write_limits)

lemma attempts_ok_failure: "attempts_ok c \<Longrightarrow> attempts_ok (record_auth_failure sha now e c)"
  unfolding record_auth_failure_def Let_def
  by (auto split: prod.splits option.splits dest: attempts_ok_get_eq)

lemma attempts_ok_clear: "attempts_ok c \<Longrightarrow> attempts_ok (clear_auth_attempts sha now e ip c)"
  unfolding clear_auth_attempts_def by auto

lemmas attempts_ok_ops = attempts_ok_check attempts_ok_failure attempts_ok_clear

lemma lock_seconds_cases:
  "lock_seconds n = (if n \<le> 5 then 0 else if n = 6 then 60 else if n = 7 then 300
     else if n = 8 then 900 else 3600)"
proof -
  consider "n \<le> 5" | "n = 6" | "n = 7" | "n = 8" | "n \<ge> 9" by linarith
  then show ?thesis
    by cases (simp_all add: lock_seconds_def auth_constants Let_def min_def numeral_3_eq_3)
qed

lemma lock_seconds_nonneg [simp]: "0 \<le> lock_seconds n"
  by (simp add: lock_seconds_cases)

lemma lock_seconds_mono: "m \<le> n \<Longrightarrow> lock_seconds m \<le> lock_seconds n"
  by (simp add: lock_seconds_cases)

lemma lock_seconds_le_ttl: "lock_seconds n < EMAIL_FAILURE_TTL"
  by (simp add: lock_seconds_cases EMAIL_FAILURE_TTL_def)

text \<open>What a counter read gives, as a lookup.\<close>

definition counter :: "clock \<Rightarrow> string \<Rightarrow> attempts \<Rightarrow> (int \<times> clock) option" where
  "counter now k c = fst (cache_get now k c)"

lemma counter_after_failure:
  assumes "attempts_ok c" and "later \<le> now + of_int EMAIL_FAILURE_TTL"
  shows "counter later (email_key sha e) (record_auth_failure sha now e c) =
    (let n = (case counter now (email_key sha e) c of None \<Rightarrow> 1 | Some (m, _) \<Rightarrow> m + 1) in
     Some (n, now + of_int (lock_seconds n)))"
proof -
  obtain r c1 where g: "cache_get now (email_key sha e) c = (r, c1)" by fastforce
  then have c1: "attempts_ok c1" using assms(1) by (rule attempts_ok_get_eq)
  then have wf: "cache_wf c1" "cache_enabled c1" by (simp_all add: attempts_ok_def attempts_ok_enabled)
  have "0 < EMAIL_FAILURE_TTL" by (simp add: EMAIL_FAILURE_TTL_def)
  then show ?thesis
    using cache_get_after_set [OF wf, of "Some EMAIL_FAILURE_TTL"] assms(2) g
    unfolding counter_def record_auth_failure_def Let_def
    by (auto split: option.splits prod.splits)
qed

lemma check_locked:
  assumes "counter now (email_key sha e) c = Some (n, until)" and "until > now"
  shows "check_auth_attempt sha now e ip c =
    (Inl rate_limit_error, snd (cache_get now (email_key sha e) c))"
  using assms unfolding check_auth_attempt_def counter_def Let_def by (auto split: prod.splits)

end
