(* ===== verification/Tables.thy ===== *)
theory Tables
  imports Prelude
begin

text \<open>
  A database table is the list of its rows in insertion order. This theory models the
  statements the repositories issue (\<open>INSERT ... ON CONFLICT\<close>, \<open>UPDATE ... WHERE\<close>,
  \<open>DELETE ... WHERE\<close>, outer joins on a key) and states the contract of a table with unique
  constraints as a locale, which each component interprets on its own table.
\<close>

section \<open>Statements\<close>

definition no_conflicts :: "('r \<Rightarrow> 'r \<Rightarrow> bool) \<Rightarrow> 'r list \<Rightarrow> bool" where
  "no_conflicts conflict t = sorted_wrt (\<lambda>a b. \<not> conflict a b) t"

definition insert_ignore :: "('r \<Rightarrow> 'r \<Rightarrow> bool) \<Rightarrow> 'r \<Rightarrow> 'r list \<Rightarrow> bool \<times> 'r list" where
  "insert_ignore conflict r t =
     (if list_ex (conflict r) t then (False, t) else (True, t @ [r]))"

definition insert_or_update ::
    "('r \<Rightarrow> 'r \<Rightarrow> bool) \<Rightarrow> ('r \<Rightarrow> 'r \<Rightarrow> 'r) \<Rightarrow> 'r \<Rightarrow> 'r list \<Rightarrow> 'r list" where
  "insert_or_update conflict upd r t =
     (if list_ex (conflict r) t
      then List.map (\<lambda>x. if conflict r x then upd r x else x) t
      else t @ [r])"

definition update_where :: "('r \<Rightarrow> bool) \<Rightarrow> ('r \<Rightarrow> 'r) \<Rightarrow> 'r list \<Rightarrow> 'r list" where
  "update_where P f t = List.map (\<lambda>r. if P r then f r else r) t"

definition delete_where :: "('r \<Rightarrow> bool) \<Rightarrow> 'r list \<Rightarrow> 'r list" where
  "delete_where P t = filter (\<lambda>r. \<not> P r) t"

definition select_first :: "('r \<Rightarrow> bool) \<Rightarrow> 'r list \<Rightarrow> 'r option" where
  "select_first P t = List.find P t"

text \<open>\<open>LEFT JOIN\<close> on a column that is unique in the joined table.\<close>

definition outer_join :: "('r \<Rightarrow> bool) \<Rightarrow> 'r list \<Rightarrow> 'r option" where
  "outer_join P t = List.find P t"

section \<open>Laws of the statements\<close>

named_theorems table_simps \<open>laws of the table statements\<close>

lemma set_delete_where [table_simps]: "set (delete_where P t) = {r \<in> set t. \<not> P r}"
  by (simp add: delete_where_def)

lemma set_update_where [table_simps]:
  "set (update_where P f t) = (\<lambda>r. if P r then f r else r) ` set t"
  by (simp add: update_where_def)

lemma length_update_where [table_simps]: "length (update_where P f t) = length t"
  by (simp add: update_where_def)

lemma delete_where_idem [table_simps]: "delete_where P (delete_where P t) = delete_where P t"
  by (simp add: delete_where_def)

lemma delete_where_none: "\<forall>r \<in> set t. \<not> P r \<Longrightarrow> delete_where P t = t"
  by (simp add: delete_where_def filter_True)

lemma select_first_Some: "select_first P t = Some r \<Longrightarrow> r \<in> set t \<and> P r"
  unfolding select_first_def by (auto simp: find_Some_iff)

lemma select_first_None: "select_first P t = None \<longleftrightarrow> (\<forall>r \<in> set t. \<not> P r)"
  unfolding select_first_def by (auto simp: find_None_iff)

lemma select_first_unique:
  assumes "r \<in> set t" and "P r" and "\<And>x. x \<in> set t \<Longrightarrow> P x \<Longrightarrow> x = r"
  shows "select_first P t = Some r"
proof (cases "select_first P t")
  case None
  then show ?thesis using assms(1,2) by (auto simp: select_first_None)
next
  case (Some x)
  then show ?thesis using assms(3) select_first_Some by fastforce
qed

lemma no_conflicts_Nil [simp]: "no_conflicts c []"
  by (simp add: no_conflicts_def)

lemma no_conflicts_delete [table_simps, intro]:
  "no_conflicts c t \<Longrightarrow> no_conflicts c (delete_where P t)"
  by (simp add: no_conflicts_def delete_where_def sorted_wrt_filter)

lemma no_conflicts_update [intro]:
  assumes "no_conflicts c t"
    and "\<And>a b. c (if P a then f a else a) (if P b then f b else b) \<Longrightarrow> c a b"
  shows "no_conflicts c (update_where P f t)"
  using assms(1) unfolding no_conflicts_def update_where_def sorted_wrt_map
  by (rule sorted_wrt_mono_rel [rotated]) (use assms(2) in blast)

lemma no_conflicts_update_key:
  assumes "\<And>a b. c (f a) b = c a b" and "\<And>a b. c a (f b) = c a b"
  shows "no_conflicts c (update_where P f t) = no_conflicts c t"
proof -
  have "c (if P a then f a else a) (if P b then f b else b) = c a b" for a b
    by (simp add: assms)
  then show ?thesis by (simp add: no_conflicts_def update_where_def sorted_wrt_map)
qed

lemma no_conflicts_snoc:
  "no_conflicts c (t @ [r]) \<longleftrightarrow> no_conflicts c t \<and> (\<forall>x \<in> set t. \<not> c x r)"
  by (simp add: no_conflicts_def sorted_wrt_append)

lemma no_conflicts_unique:
  assumes "no_conflicts c t" and "a \<in> set t" and "b \<in> set t" and "c a b" and "c b a"
  shows "a = b"
proof (rule ccontr)
  assume "a \<noteq> b"
  obtain i j where i: "i < length t" "t ! i = a" and j: "j < length t" "t ! j = b"
    using assms(2,3) by (metis in_set_conv_nth)
  then have "i < j \<or> j < i" using \<open>a \<noteq> b\<close> by (metis linorder_less_linear)
  then show False
    using assms(1,4,5) i j unfolding no_conflicts_def sorted_wrt_iff_nth_less by blast
qed

lemma filter_key_unique:
  assumes "no_conflicts c t" and "\<And>a b. c a b \<longleftrightarrow> f a = f b" and "q \<in> set t"
  shows "filter (\<lambda>x. f x = f q) t = [q]"
  using assms(1,3)
proof (induction t)
  case (Cons x t)
  have x: "\<forall>y \<in> set t. f y \<noteq> f x" and nc: "no_conflicts c t"
    using Cons.prems(1) assms(2) by (auto simp: no_conflicts_def)
  show ?case
  proof (cases "q = x")
    case True
    then show ?thesis using x by (simp add: filter_empty_conv)
  next
    case False
    then show ?thesis using Cons nc x by auto
  qed
qed simp

lemma filter_upsert:
  assumes "\<And>x. c r x \<longleftrightarrow> f x = f r" and "\<And>x. f (u r x) = f x"
  shows "filter (\<lambda>x. f x \<noteq> f r) (insert_or_update c u r t) = filter (\<lambda>x. f x \<noteq> f r) t"
    and "filter (\<lambda>x. f x = f r) (insert_or_update c u r t) =
      (if list_ex (c r) t then List.map (u r) (filter (\<lambda>x. f x = f r) t) else [r])"
proof -
  have "filter (\<lambda>x. f x \<noteq> f r) (List.map (\<lambda>x. if c r x then u r x else x) t) = filter (\<lambda>x. f x \<noteq> f r) t"
    and "filter (\<lambda>x. f x = f r) (List.map (\<lambda>x. if c r x then u r x else x) t) =
      List.map (u r) (filter (\<lambda>x. f x = f r) t)"
    by (induction t) (auto simp: assms)
  moreover have "\<not> list_ex (c r) t \<Longrightarrow> filter (\<lambda>x. f x = f r) t = []"
    by (auto simp: list_ex_iff assms(1) filter_empty_conv)
  ultimately show "filter (\<lambda>x. f x \<noteq> f r) (insert_or_update c u r t) = filter (\<lambda>x. f x \<noteq> f r) t"
    and "filter (\<lambda>x. f x = f r) (insert_or_update c u r t) =
      (if list_ex (c r) t then List.map (u r) (filter (\<lambda>x. f x = f r) t) else [r])"
    by (auto simp: insert_or_update_def)
qed

text \<open>
  A foreign key: every value of \<open>f\<close> in the referring rows is a key \<open>g\<close> of a referred row.
  Deleting rows of either side, with the cascade, keeps it.
\<close>

definition refers :: "('r \<Rightarrow> 'k) \<Rightarrow> 'r list \<Rightarrow> ('q \<Rightarrow> 'k) \<Rightarrow> 'q list \<Rightarrow> bool" where
  "refers f xs g ys \<longleftrightarrow> list_all (\<lambda>x. list_ex (\<lambda>y. g y = f x) ys) xs"

lemma refers_iff: "refers f xs g ys \<longleftrightarrow> (\<forall>x \<in> set xs. \<exists>y \<in> set ys. g y = f x)"
  by (auto simp: refers_def list_all_iff list_ex_iff)

lemma refers_Nil [simp]: "refers f [] g ys"
  by (simp add: refers_iff)

lemma refers_delete [intro]: "refers f xs g ys \<Longrightarrow> refers f (delete_where P xs) g ys"
  by (simp add: refers_iff set_delete_where)

lemma refers_cascade [intro]:
  "refers f xs g ys \<Longrightarrow>
   refers f (delete_where (\<lambda>x. f x \<in> set (List.map g (filter P ys))) xs) g (delete_where P ys)"
  by (auto simp: refers_iff set_delete_where) (metis image_eqI mem_Collect_eq IntI)

lemma cascade_by_key:
  assumes "refers f xs g ys"
  shows "delete_where (\<lambda>x. f x \<in> set (List.map g (filter (\<lambda>y. g y = k) ys))) xs =
    filter (\<lambda>x. f x \<noteq> k) xs"
proof -
  have "f x \<in> set (List.map g (filter (\<lambda>y. g y = k) ys)) \<longleftrightarrow> f x = k" if "x \<in> set xs" for x
    using assms that by (fastforce simp: refers_iff)
  then show ?thesis unfolding delete_where_def by (intro filter_cong) auto
qed

lemma refers_snoc: "refers f (xs @ [x]) g ys \<longleftrightarrow> refers f xs g ys \<and> (\<exists>y \<in> set ys. g y = f x)"
  by (auto simp: refers_iff)

lemma refers_mono: "refers f xs g ys \<Longrightarrow> set xs' \<subseteq> set xs \<Longrightarrow> g ` set ys \<subseteq> g ` set ys' \<Longrightarrow> refers f xs' g ys'"
  unfolding refers_iff image_iff by (metis (no_types) image_iff subset_iff)

lemma refers_update:
  "refers f xs g ys \<Longrightarrow> (\<And>x. f (h x) = f x) \<Longrightarrow> refers f (update_where P h xs) g ys"
  by (auto simp: refers_iff set_update_where)

lemma refers_update_target:
  assumes "refers f xs g ys" and "\<And>y. g (h y) = g y"
  shows "refers f xs g (update_where P h ys)"
proof -
  have "g ` set (update_where P h ys) = g ` set ys"
    unfolding set_update_where image_image by (rule image_cong) (simp_all add: assms(2))
  then show ?thesis using assms(1) by (auto intro: refers_mono [OF _ subset_refl])
qed

section \<open>The contract of a table with unique constraints\<close>

text \<open>
  \<open>conflict r x\<close> reads "row \<open>x\<close> makes inserting \<open>r\<close> violate a unique constraint". The
  provider promises what \<open>INSERT ... ON CONFLICT DO NOTHING\<close> does; the lemmas are what
  the services rely on.
\<close>

locale unique_table =
  fixes conflict :: "'r \<Rightarrow> 'r \<Rightarrow> bool"
    and ins :: "'r \<Rightarrow> 'r list \<Rightarrow> bool \<times> 'r list"
  assumes conflict_sym: "conflict a b \<Longrightarrow> conflict b a"
    and conflict_refl: "conflict a a"
    and ins_fresh: "\<not> list_ex (conflict r) t \<Longrightarrow> ins r t = (True, t @ [r])"
    and ins_taken: "list_ex (conflict r) t \<Longrightarrow> ins r t = (False, t)"
begin

lemma ins_unique: "no_conflicts conflict t \<Longrightarrow> no_conflicts conflict (snd (ins r t))"
  by (cases "list_ex (conflict r) t")
    (auto simp: ins_fresh ins_taken no_conflicts_snoc list_ex_iff dest: conflict_sym)

lemma ins_keeps: "set t \<subseteq> set (snd (ins r t))"
  by (cases "list_ex (conflict r) t") (auto simp: ins_fresh ins_taken)

lemma ins_rows: "x \<in> set (snd (ins r t)) \<Longrightarrow> x = r \<or> x \<in> set t"
  by (cases "list_ex (conflict r) t") (auto simp: ins_fresh ins_taken)

lemma ins_present: "\<exists>x \<in> set (snd (ins r t)). conflict r x"
  by (cases "list_ex (conflict r) t")
    (auto simp: ins_fresh ins_taken list_ex_iff conflict_refl)

lemma ins_again: "ins r (snd (ins r t)) = (False, snd (ins r t))"
  using ins_present [of r t] by (auto simp: ins_taken list_ex_iff)

lemma ins_flag: "fst (ins r t) \<longleftrightarrow> \<not> (\<exists>x \<in> set t. conflict r x)"
  by (cases "list_ex (conflict r) t") (auto simp: ins_fresh ins_taken list_ex_iff)

lemma ins_all_unique:
  "no_conflicts conflict t \<Longrightarrow> no_conflicts conflict (fold (\<lambda>r t. snd (ins r t)) rs t)"
  by (induction rs arbitrary: t) (auto intro: ins_unique)

lemma ins_all_keeps: "set t \<subseteq> set (fold (\<lambda>r t. snd (ins r t)) rs t)"
  by (induction rs arbitrary: t) (use ins_keeps in fastforce)+

lemma ins_all_rows: "x \<in> set (fold (\<lambda>r t. snd (ins r t)) rs t) \<Longrightarrow> x \<in> set t \<or> x \<in> set rs"
  by (induction rs arbitrary: t) (use ins_rows in fastforce)+

lemma ins_all_present: "r \<in> set rs \<Longrightarrow> \<exists>x \<in> set (fold (\<lambda>r t. snd (ins r t)) rs t). conflict r x"
proof (induction rs arbitrary: t)
  case (Cons q rs)
  then show ?case
    using ins_present [of q t] ins_all_keeps [of "snd (ins q t)" rs] by auto
qed simp

lemma unique_lookup:
  "no_conflicts conflict t \<Longrightarrow> a \<in> set t \<Longrightarrow> b \<in> set t \<Longrightarrow> conflict a b \<Longrightarrow> a = b"
  by (erule no_conflicts_unique) (auto intro: conflict_sym)

end

text \<open>A table whose conflicting row is updated in place: \<open>ON CONFLICT ... DO UPDATE\<close>.\<close>

locale upsert_table = unique_table conflict ins
  for conflict :: "'r \<Rightarrow> 'r \<Rightarrow> bool" and ins :: "'r \<Rightarrow> 'r list \<Rightarrow> bool \<times> 'r list" +
  fixes ups :: "'r \<Rightarrow> 'r list \<Rightarrow> 'r list" and upd :: "'r \<Rightarrow> 'r \<Rightarrow> 'r"
  assumes conflict_trans: "conflict a b \<Longrightarrow> conflict b c \<Longrightarrow> conflict a c"
    and upd_key: "conflict (upd r x) y = conflict x y"
    and ups_fresh: "\<not> list_ex (conflict r) t \<Longrightarrow> ups r t = t @ [r]"
    and ups_taken: "list_ex (conflict r) t \<Longrightarrow>
          ups r t = List.map (\<lambda>x. if conflict r x then upd r x else x) t"
begin

lemma upd_key': "conflict y (upd r x) = conflict y x"
  by (metis upd_key conflict_sym)

lemma ups_unique: "no_conflicts conflict t \<Longrightarrow> no_conflicts conflict (ups r t)"
proof (cases "list_ex (conflict r) t")
  case True
  assume "no_conflicts conflict t"
  moreover have "conflict (if conflict r a then upd r a else a) (if conflict r b then upd r b else b)
      = conflict a b" for a b
    by (simp add: upd_key upd_key')
  ultimately show ?thesis using True by (simp add: ups_taken no_conflicts_def sorted_wrt_map)
next
  case False
  assume "no_conflicts conflict t"
  then show ?thesis using False
    by (auto simp: ups_fresh no_conflicts_snoc list_ex_iff dest: conflict_sym)
qed

lemma ups_present: "\<exists>x \<in> set (ups r t). conflict r x"
proof (cases "list_ex (conflict r) t")
  case True
  then obtain x where "x \<in> set t" and "conflict r x" by (auto simp: list_ex_iff)
  then have "upd r x \<in> set (ups r t)" and "conflict r (upd r x)"
    using True by (auto simp: ups_taken upd_key' image_iff)
  then show ?thesis by blast
qed (auto simp: ups_fresh conflict_refl)

lemma ups_others: "x \<in> set t \<Longrightarrow> \<not> conflict r x \<Longrightarrow> x \<in> set (ups r t)"
  by (cases "list_ex (conflict r) t") (auto simp: ups_fresh ups_taken intro: image_eqI [of _ _ x])

lemma ups_rows:
  "y \<in> set (ups r t) \<Longrightarrow> y = r \<or> y \<in> set t \<or> (\<exists>x \<in> set t. conflict r x \<and> y = upd r x)"
  by (cases "list_ex (conflict r) t") (auto simp: ups_fresh ups_taken split: if_splits)

lemma ups_noop:
  "\<exists>x \<in> set t. conflict r x \<Longrightarrow> (\<And>x. x \<in> set t \<Longrightarrow> conflict r x \<Longrightarrow> upd r x = x) \<Longrightarrow> ups r t = t"
  by (subst ups_taken) (auto simp: list_ex_iff intro: map_idI)

lemma ups_written: "\<exists>x \<in> set (ups r t). x = r \<or> (\<exists>y \<in> set t. conflict r y \<and> x = upd r y)"
proof (cases "list_ex (conflict r) t")
  case True
  then obtain y where "y \<in> set t" and "conflict r y" by (auto simp: list_ex_iff)
  moreover from this have "upd r y \<in> set (ups r t)" using True by (auto simp: ups_taken image_iff)
  ultimately show ?thesis by blast
qed (simp add: ups_fresh)

lemma ups_all_unique: "no_conflicts conflict t \<Longrightarrow> no_conflicts conflict (fold ups rs t)"
  by (induction rs arbitrary: t) (auto intro: ups_unique)

lemma ups_all_others:
  "x \<in> set t \<Longrightarrow> \<forall>r \<in> set rs. \<not> conflict r x \<Longrightarrow> x \<in> set (fold ups rs t)"
  by (induction rs arbitrary: t) (auto intro: ups_others)

lemma ups_all_noop:
  assumes "\<And>r. r \<in> set rs \<Longrightarrow> \<exists>x \<in> set t. conflict r x"
    and "\<And>r x. r \<in> set rs \<Longrightarrow> x \<in> set t \<Longrightarrow> conflict r x \<Longrightarrow> upd r x = x"
  shows "fold ups rs t = t"
  using assms
proof (induction rs)
  case (Cons q rs)
  have "ups q t = t" using Cons.prems by (intro ups_noop) auto
  then show ?case using Cons by simp
qed simp

lemma ups_all_written:
  assumes "no_conflicts conflict rs" and "r \<in> set rs"
  shows "\<exists>x \<in> set (fold ups rs t). x = r \<or> (\<exists>y \<in> set t. conflict r y \<and> x = upd r y)"
  using assms
proof (induction rs arbitrary: t)
  case (Cons q rs)
  have apart: "\<not> conflict q z" if "z \<in> set rs" for z
    using Cons.prems(1) that by (auto simp: no_conflicts_def)
  have apart': "\<not> conflict z y" if "z \<in> set rs" "conflict q y" for z y
    using apart [OF that(1)] that(2) by (meson conflict_sym conflict_trans)
  show ?case
  proof (cases "r = q")
    case True
    obtain x where x: "x \<in> set (ups q t)" and shape: "x = q \<or> (\<exists>y \<in> set t. conflict q y \<and> x = upd q y)"
      using ups_written by blast
    have "conflict q x" using shape by (auto simp: conflict_refl upd_key')
    then have "x \<in> set (fold ups rs (ups q t))" using x apart' ups_all_others by blast
    then show ?thesis using shape True by auto
  next
    case False
    then have r: "r \<in> set rs" and nc: "no_conflicts conflict rs"
      using Cons.prems by (auto simp: no_conflicts_def)
    obtain x where x: "x \<in> set (fold ups rs (ups q t))"
        "x = r \<or> (\<exists>y \<in> set (ups q t). conflict r y \<and> x = upd r y)"
      using Cons.IH [OF nc r] by blast
    have "y \<in> set t" if "y \<in> set (ups q t)" "conflict r y" for y
    proof -
      have "\<not> conflict q y" using apart' [OF r] that(2) by blast
      then show ?thesis using ups_rows [OF that(1)] by (auto simp: conflict_refl upd_key')
    qed
    then show ?thesis using x by auto
  qed
qed simp

end

lemma insert_ignore_table:
  assumes "\<And>a b. conflict a b \<Longrightarrow> conflict b a" and "\<And>a. conflict a a"
  shows "unique_table conflict (insert_ignore conflict)"
  by unfold_locales (auto simp: insert_ignore_def intro: assms)

lemma insert_or_update_table:
  assumes "\<And>a b. conflict a b \<Longrightarrow> conflict b a" and "\<And>a. conflict a a"
    and "\<And>a b c. conflict a b \<Longrightarrow> conflict b c \<Longrightarrow> conflict a c"
    and "\<And>r x y. conflict (upd r x) y = conflict x y"
  shows "upsert_table conflict (insert_ignore conflict) (insert_or_update conflict upd) upd"
  by unfold_locales
    (auto simp: insert_ignore_def insert_or_update_def assms(4) intro: assms(1,2,3))

end
