(* ===== verification/Database.thy ===== *)
theory Database
  imports Tables
begin

text \<open>
  The persistent state: one record per table of \<open>app/models/\<close>, the enumerations stored in
  the columns, and the unique and foreign keys of the schema with their \<open>ON DELETE CASCADE\<close>
  rules. Geometries stay opaque (the GeoJSON text PostGIS would return).
\<close>

section \<open>Enumerations\<close>

datatype territory_level = Country | Region | State | Municipality

fun level_value :: "territory_level \<Rightarrow> string" where
  "level_value Country = ''country''"
| "level_value Region = ''region''"
| "level_value State = ''state''"
| "level_value Municipality = ''municipality''"

text \<open>
  PostgreSQL compares the values of an enumeration in declaration order (\<open>func.min(level)\<close>).
\<close>

fun level_index :: "territory_level \<Rightarrow> nat" where
  "level_index Country = 0"
| "level_index Region = 1"
| "level_index State = 2"
| "level_index Municipality = 3"

lemma level_index_inj: "level_index a = level_index b \<longleftrightarrow> a = b"
  by (cases a; cases b) auto

instantiation territory_level :: linorder
begin

definition less_eq_territory_level :: "territory_level \<Rightarrow> territory_level \<Rightarrow> bool" where
  "less_eq_territory_level a b \<longleftrightarrow> level_index a \<le> level_index b"

definition less_territory_level :: "territory_level \<Rightarrow> territory_level \<Rightarrow> bool" where
  "less_territory_level a b \<longleftrightarrow> level_index a < level_index b"

instance
  by standard (auto simp: less_eq_territory_level_def less_territory_level_def level_index_inj)

end

datatype geometry_lod = Canonical | Overview | Detail

fun lod_value :: "geometry_lod \<Rightarrow> string" where
  "lod_value Canonical = ''canonical''"
| "lod_value Overview = ''overview''"
| "lod_value Detail = ''detail''"

fun requires_parent :: "territory_level \<Rightarrow> bool" where
  "requires_parent Municipality = True"
| "requires_parent _ = False"

fun expected_parent_level :: "territory_level \<Rightarrow> territory_level option" where
  "expected_parent_level Region = Some Country"
| "expected_parent_level State = Some Region"
| "expected_parent_level Municipality = Some State"
| "expected_parent_level Country = None"

datatype weather_provider = Inmet | Cemaden

fun provider_value :: "weather_provider \<Rightarrow> string" where
  "provider_value Inmet = ''inmet''"
| "provider_value Cemaden = ''cemaden''"

datatype ingestion_status = Running | Succeeded | Partial | Failed

section \<open>Rows\<close>

type_synonym geometry = string
type_synonym bbox = "real \<times> real \<times> real \<times> real"

record territory =
  t_id :: int
  t_level :: territory_level
  t_ibge_code :: string
  t_name :: string
  t_abbreviation :: "string option"
  t_parent_id :: "int option"
  t_capital_id :: "int option"
  t_west :: "real option"
  t_south :: "real option"
  t_east :: "real option"
  t_north :: "real option"
  t_normalized_name :: "string option"
  t_normalized_abbreviation :: "string option"

record territory_geometry =
  g_territory_id :: int
  g_lod :: geometry_lod
  g_geom :: geometry
  g_simplify_tolerance :: "real option"
  g_vertex_count :: int
  g_dataset_id :: "int option"

record user =
  u_id :: string
  u_name :: string
  u_email :: "string option"
  u_password_hash :: "string option"
  u_theme :: string
  u_terms_version :: "string option"
  u_terms_accepted_at :: "instant option"
  u_created_at :: instant

record user_session =
  s_token_hash :: string
  s_user_id :: string
  s_expires_at :: instant

record followed =
  f_id :: int
  f_user_id :: string
  f_municipality_code :: string
  f_notifications_enabled :: bool
  f_notifications_opt_in_at :: "instant option"
  f_created_at :: instant

record content =
  c_municipality_code :: string
  c_municipality_name :: string
  c_state_abbreviation :: "string option"
  c_source :: string
  c_event :: string
  c_severity :: string
  c_description :: "string option"
  c_risks :: "string list"
  c_instructions :: "string list"

record notification_event =
  e_id :: string
  e_user_id :: string
  e_alert_id :: int
  e_municipality_code :: string
  e_alert_version :: string
  e_content :: content
  e_created_at :: instant

record push_subscription =
  p_id :: string
  p_user_id :: string
  p_endpoint :: string
  p_p256dh :: string
  p_auth :: string
  p_created_at :: instant
  p_updated_at :: instant

record push_delivery =
  d_event_id :: string
  d_subscription_id :: string
  d_attempts :: int
  d_next_attempt_at :: instant
  d_sent_at :: "instant option"
  d_cancelled_at :: "instant option"
  d_last_error :: "string option"
  d_created_at :: instant

record weather_alert =
  a_id :: int
  a_provider :: weather_provider
  a_external_id :: string
  a_event :: string
  a_severity :: string
  a_color :: "string option"
  a_description :: "string option"
  a_onset :: instant
  a_expires :: instant
  a_polygon :: geometry
  a_affected_ibge_codes :: "string list"
  a_risks :: "string list"
  a_instructions :: "string list"

record dataset =
  ds_id :: int
  ds_source :: string
  ds_code :: string
  ds_name :: string
  ds_url :: "string option"
  ds_source_updated_at :: "instant option"

record ingestion_run =
  r_id :: int
  r_job :: string
  r_source :: string
  r_dataset_code :: "string option"
  r_status :: ingestion_status
  r_started_at :: instant
  r_finished_at :: "instant option"
  r_processed :: int
  r_written :: int
  r_failed :: int
  r_error :: "string option"
  r_details :: "(string \<times> string) list option"

record db =
  users :: "user list"
  user_sessions :: "user_session list"
  followed_municipalities :: "followed list"
  notification_events :: "notification_event list"
  push_subscriptions :: "push_subscription list"
  push_deliveries :: "push_delivery list"
  weather_alerts :: "weather_alert list"
  territories :: "territory list"
  territory_geometries :: "territory_geometry list"
  datasets :: "dataset list"
  ingestion_runs :: "ingestion_run list"

definition empty_db :: db where
  "empty_db = \<lparr>users = [], user_sessions = [], followed_municipalities = [],
     notification_events = [], push_subscriptions = [], push_deliveries = [],
     weather_alerts = [], territories = [], territory_geometries = [], datasets = [],
     ingestion_runs = []\<rparr>"

section \<open>Unique constraints\<close>

definition same_session :: "user_session \<Rightarrow> user_session \<Rightarrow> bool" where
  "same_session a b \<longleftrightarrow> s_token_hash a = s_token_hash b"

definition same_user_id :: "user \<Rightarrow> user \<Rightarrow> bool" where
  "same_user_id a b \<longleftrightarrow> u_id a = u_id b"

text \<open>A \<open>UNIQUE\<close> column holds any number of \<open>NULL\<close>s.\<close>

definition same_email :: "user \<Rightarrow> user \<Rightarrow> bool" where
  "same_email a b \<longleftrightarrow> u_email a \<noteq> None \<and> u_email a = u_email b"

definition same_followed :: "followed \<Rightarrow> followed \<Rightarrow> bool" where
  "same_followed a b \<longleftrightarrow>
     f_user_id a = f_user_id b \<and> f_municipality_code a = f_municipality_code b"

definition same_event :: "notification_event \<Rightarrow> notification_event \<Rightarrow> bool" where
  "same_event a b \<longleftrightarrow> e_id a = e_id b \<or>
     (e_user_id a = e_user_id b \<and> e_alert_id a = e_alert_id b \<and>
      e_municipality_code a = e_municipality_code b \<and> e_alert_version a = e_alert_version b)"

definition same_endpoint :: "push_subscription \<Rightarrow> push_subscription \<Rightarrow> bool" where
  "same_endpoint a b \<longleftrightarrow> p_endpoint a = p_endpoint b"

definition same_delivery :: "push_delivery \<Rightarrow> push_delivery \<Rightarrow> bool" where
  "same_delivery a b \<longleftrightarrow>
     d_event_id a = d_event_id b \<and> d_subscription_id a = d_subscription_id b"

definition same_alert :: "weather_alert \<Rightarrow> weather_alert \<Rightarrow> bool" where
  "same_alert a b \<longleftrightarrow> a_provider a = a_provider b \<and> a_external_id a = a_external_id b"

definition same_dataset :: "dataset \<Rightarrow> dataset \<Rightarrow> bool" where
  "same_dataset a b \<longleftrightarrow> ds_source a = ds_source b \<and> ds_code a = ds_code b"

definition uniques_ok :: "db \<Rightarrow> bool" where
  "uniques_ok d \<longleftrightarrow>
     no_conflicts same_user_id (users d) \<and> no_conflicts same_email (users d) \<and>
     no_conflicts same_session (user_sessions d) \<and>
     no_conflicts same_followed (followed_municipalities d) \<and>
     no_conflicts same_event (notification_events d) \<and>
     no_conflicts same_endpoint (push_subscriptions d) \<and>
     no_conflicts same_delivery (push_deliveries d)"

section \<open>Foreign keys and cascades\<close>

definition foreign_keys_ok :: "db \<Rightarrow> bool" where
  "foreign_keys_ok d \<longleftrightarrow>
     refers s_user_id (user_sessions d) u_id (users d) \<and>
     refers f_user_id (followed_municipalities d) u_id (users d) \<and>
     refers p_user_id (push_subscriptions d) u_id (users d) \<and>
     refers e_user_id (notification_events d) u_id (users d) \<and>
     refers e_alert_id (notification_events d) a_id (weather_alerts d) \<and>
     refers d_event_id (push_deliveries d) e_id (notification_events d) \<and>
     refers d_subscription_id (push_deliveries d) p_id (push_subscriptions d)"

definition delete_events :: "(notification_event \<Rightarrow> bool) \<Rightarrow> db \<Rightarrow> db" where
  "delete_events P d =
     (let gone = List.map e_id (filter P (notification_events d)) in
      d\<lparr>notification_events := delete_where P (notification_events d),
        push_deliveries := delete_where (\<lambda>v. d_event_id v \<in> set gone) (push_deliveries d)\<rparr>)"

definition delete_subscriptions :: "(push_subscription \<Rightarrow> bool) \<Rightarrow> db \<Rightarrow> db" where
  "delete_subscriptions P d =
     (let gone = List.map p_id (filter P (push_subscriptions d)) in
      d\<lparr>push_subscriptions := delete_where P (push_subscriptions d),
        push_deliveries := delete_where (\<lambda>v. d_subscription_id v \<in> set gone) (push_deliveries d)\<rparr>)"

definition delete_users :: "(user \<Rightarrow> bool) \<Rightarrow> db \<Rightarrow> db" where
  "delete_users P d =
     (let gone = List.map u_id (filter P (users d));
          d1 = delete_events (\<lambda>e. e_user_id e \<in> set gone) d;
          d2 = delete_subscriptions (\<lambda>p. p_user_id p \<in> set gone) d1 in
      d2\<lparr>users := delete_where P (users d2),
         user_sessions := delete_where (\<lambda>s. s_user_id s \<in> set gone) (user_sessions d2),
         followed_municipalities :=
           delete_where (\<lambda>f. f_user_id f \<in> set gone) (followed_municipalities d2)\<rparr>)"

section \<open>The cascades keep the constraints\<close>

lemmas conflict_defs = same_user_id_def same_email_def same_session_def same_followed_def
  same_event_def same_endpoint_def same_delivery_def same_alert_def same_dataset_def

interpretation users_by_email: unique_table "\<lambda>a b. same_email a b \<or> same_user_id a b"
    "insert_ignore (\<lambda>a b. same_email a b \<or> same_user_id a b)"
  by (rule insert_ignore_table) (unfold conflict_defs, metis+)

interpretation sessions_table: unique_table same_session "insert_ignore same_session"
  by (rule insert_ignore_table) (auto simp: conflict_defs)

interpretation followed_table: unique_table same_followed "insert_ignore same_followed"
  by (rule insert_ignore_table) (auto simp: conflict_defs)

interpretation events_table: unique_table same_event "insert_ignore same_event"
  by (rule insert_ignore_table) (auto simp: conflict_defs)

interpretation deliveries_table: unique_table same_delivery "insert_ignore same_delivery"
  by (rule insert_ignore_table) (auto simp: conflict_defs)

lemma uniques_ok_delete_events [intro]: "uniques_ok d \<Longrightarrow> uniques_ok (delete_events P d)"
  by (auto simp: uniques_ok_def delete_events_def Let_def)

lemma uniques_ok_delete_subscriptions [intro]:
  "uniques_ok d \<Longrightarrow> uniques_ok (delete_subscriptions P d)"
  by (auto simp: uniques_ok_def delete_subscriptions_def Let_def)

lemma uniques_ok_delete_users [intro]: "uniques_ok d \<Longrightarrow> uniques_ok (delete_users P d)"
  by (auto simp: uniques_ok_def delete_users_def delete_events_def delete_subscriptions_def Let_def)

lemma foreign_keys_delete_events [intro]:
  "foreign_keys_ok d \<Longrightarrow> foreign_keys_ok (delete_events P d)"
  by (simp add: foreign_keys_ok_def delete_events_def Let_def refers_delete refers_cascade
      del: set_map)

lemma foreign_keys_delete_subscriptions [intro]:
  "foreign_keys_ok d \<Longrightarrow> foreign_keys_ok (delete_subscriptions P d)"
  by (simp add: foreign_keys_ok_def delete_subscriptions_def Let_def refers_delete refers_cascade
      del: set_map)

lemma delete_events_frame [simp]:
  "users (delete_events P d) = users d" "user_sessions (delete_events P d) = user_sessions d"
  "followed_municipalities (delete_events P d) = followed_municipalities d"
  "push_subscriptions (delete_events P d) = push_subscriptions d"
  "weather_alerts (delete_events P d) = weather_alerts d"
  "territories (delete_events P d) = territories d"
  "notification_events (delete_events P d) = delete_where P (notification_events d)"
  by (simp_all add: delete_events_def Let_def)

lemma delete_subscriptions_frame [simp]:
  "users (delete_subscriptions P d) = users d"
  "user_sessions (delete_subscriptions P d) = user_sessions d"
  "followed_municipalities (delete_subscriptions P d) = followed_municipalities d"
  "notification_events (delete_subscriptions P d) = notification_events d"
  "weather_alerts (delete_subscriptions P d) = weather_alerts d"
  "territories (delete_subscriptions P d) = territories d"
  "push_subscriptions (delete_subscriptions P d) = delete_where P (push_subscriptions d)"
  by (simp_all add: delete_subscriptions_def Let_def)

lemma delete_users_frame [simp]:
  "weather_alerts (delete_users P d) = weather_alerts d"
  "territories (delete_users P d) = territories d"
  "users (delete_users P d) = delete_where P (users d)"
  by (simp_all add: delete_users_def Let_def)

lemma foreign_keys_delete_users [intro]:
  assumes "foreign_keys_ok d"
  shows "foreign_keys_ok (delete_users P d)"
proof -
  let ?gone = "set (List.map u_id (filter P (users d)))"
  define d2 where "d2 = delete_subscriptions (\<lambda>p. p_user_id p \<in> ?gone)
    (delete_events (\<lambda>e. e_user_id e \<in> ?gone) d)"
  have fk: "foreign_keys_ok d2" using assms unfolding d2_def by blast
  have "delete_users P d = d2\<lparr>users := delete_where P (users d2),
      user_sessions := delete_where (\<lambda>s. s_user_id s \<in> ?gone) (user_sessions d2),
      followed_municipalities := delete_where (\<lambda>f. f_user_id f \<in> ?gone) (followed_municipalities d2)\<rparr>"
    by (simp add: delete_users_def d2_def Let_def)
  moreover have "refers s_user_id (delete_where (\<lambda>s. s_user_id s \<in> ?gone) (user_sessions d)) u_id
      (delete_where P (users d))"
    and "refers f_user_id (delete_where (\<lambda>f. f_user_id f \<in> ?gone) (followed_municipalities d)) u_id
      (delete_where P (users d))"
    and "refers p_user_id (push_subscriptions d2) u_id (delete_where P (users d))"
    and "refers e_user_id (notification_events d2) u_id (delete_where P (users d))"
    using assms unfolding foreign_keys_ok_def d2_def
    by (simp_all add: refers_cascade del: set_map)
  ultimately show ?thesis using fk by (simp add: foreign_keys_ok_def d2_def del: set_map)
qed

end
