(* ===== verification/Accounts.thy ===== *)
theory Accounts
  imports Auth_Limits Database
begin

text \<open>
  Accounts and sessions: \<open>app/repositories/users.py\<close> (the statements), \<open>app/schemas/auth.py\<close>
  (the validation of the bodies), \<open>app/services/auth.py\<close> (the operations) and
  \<open>app/api/deps.py\<close>, \<open>app/api/v1/auth.py\<close> (the handlers, with the transaction that commits or
  rolls back). The services thread the attempt counters and the database explicitly; an
  exception is a value of \<^typ>\<open>raised\<close>.
\<close>

section \<open>Repository\<close>

text \<open>\<open>scalar_one_or_none\<close> and \<open>scalar_one\<close>: more rows than expected is an exception.\<close>

fun scalar_one_or_none :: "'a list \<Rightarrow> raised + 'a option" where
  "scalar_one_or_none [] = Inr None"
| "scalar_one_or_none [x] = Inr (Some x)"
| "scalar_one_or_none _ = Inl RaisedOther"

fun scalar_one :: "'a list \<Rightarrow> raised + 'a" where
  "scalar_one [x] = Inr x"
| "scalar_one _ = Inl RaisedOther"

text \<open>\<open>create\<close>: the e-mail is the arbiter of the conflict; a repeated \<open>id\<close> violates the primary key.\<close>

definition create_user :: "user \<Rightarrow> db \<Rightarrow> raised + user option \<times> db" where
  "create_user u d =
     (if list_ex (same_email u) (users d) then Inr (None, d)
      else if list_ex (same_user_id u) (users d) then Inl RaisedOther
      else Inr (Some u, d\<lparr>users := users d @ [u]\<rparr>))"

definition by_email :: "string \<Rightarrow> db \<Rightarrow> raised + user option" where
  "by_email email d = scalar_one_or_none (filter (\<lambda>u. u_email u = Some email) (users d))"

definition has_email :: "user \<Rightarrow> bool" where
  "has_email u \<longleftrightarrow> (case u_email u of None \<Rightarrow> False | Some _ \<Rightarrow> True)"

definition by_token :: "instant \<Rightarrow> string \<Rightarrow> db \<Rightarrow> raised + user option" where
  "by_token now token_hash d =
     scalar_one_or_none
       (concat (List.map (\<lambda>u. List.map (\<lambda>s. u)
          (filter (\<lambda>s. s_user_id s = u_id u \<and> s_token_hash s = token_hash
             \<and> s_expires_at s > now \<and> has_email u) (user_sessions d))) (users d)))"

definition add_session :: "instant \<Rightarrow> string \<Rightarrow> string \<Rightarrow> instant \<Rightarrow> db \<Rightarrow> raised + db" where
  "add_session now user_id token_hash expires d =
     (let kept = delete_where (\<lambda>s. s_expires_at s \<le> now) (user_sessions d);
          s = \<lparr>s_token_hash = token_hash, s_user_id = user_id, s_expires_at = expires\<rparr> in
      if list_ex (same_session s) kept \<or> \<not> list_ex (\<lambda>u. u_id u = user_id) (users d)
      then Inl RaisedOther
      else Inr (d\<lparr>user_sessions := kept @ [s]\<rparr>))"

definition remove_session :: "string \<Rightarrow> db \<Rightarrow> db" where
  "remove_session token_hash d =
     d\<lparr>user_sessions := delete_where (\<lambda>s. s_token_hash s = token_hash) (user_sessions d)\<rparr>"

definition set_theme :: "string \<Rightarrow> string \<Rightarrow> db \<Rightarrow> raised + user \<times> db" where
  "set_theme user_id theme d =
     (let d' = d\<lparr>users := update_where (\<lambda>u. u_id u = user_id) (\<lambda>u. u\<lparr>u_theme := theme\<rparr>) (users d)\<rparr> in
      case scalar_one (filter (\<lambda>u. u_id u = user_id) (users d')) of
        Inl e \<Rightarrow> Inl e | Inr u \<Rightarrow> Inr (u, d'))"

definition set_terms :: "instant \<Rightarrow> string \<Rightarrow> string \<Rightarrow> db \<Rightarrow> raised + user \<times> db" where
  "set_terms now user_id version d =
     (let d' = d\<lparr>users := update_where (\<lambda>u. u_id u = user_id)
             (\<lambda>u. u\<lparr>u_terms_version := Some version, u_terms_accepted_at := Some now\<rparr>) (users d)\<rparr> in
      case scalar_one (filter (\<lambda>u. u_id u = user_id) (users d')) of
        Inl e \<Rightarrow> Inl e | Inr u \<Rightarrow> Inr (u, d'))"

definition remove_user :: "string \<Rightarrow> db \<Rightarrow> db" where
  "remove_user user_id d = delete_users (\<lambda>u. u_id u = user_id) d"

record followed_record =
  fr_municipality_code :: string
  fr_name :: "string option"
  fr_state_abbreviation :: "string option"
  fr_followed_at :: instant
  fr_notifications_enabled :: bool
  fr_notifications_opt_in_at :: "instant option"

text \<open>The two outer joins of a municipality code to the municipality and its state.\<close>

definition municipality_of :: "string \<Rightarrow> db \<Rightarrow> territory option" where
  "municipality_of code d = outer_join (\<lambda>t. t_ibge_code t = code) (territories d)"

definition state_of :: "territory option \<Rightarrow> db \<Rightarrow> territory option" where
  "state_of m d =
     (case m of None \<Rightarrow> None
      | Some t \<Rightarrow> (case t_parent_id t of None \<Rightarrow> None
          | Some p \<Rightarrow> outer_join (\<lambda>s. t_id s = p) (territories d)))"

definition followed_records :: "string \<Rightarrow> db \<Rightarrow> followed_record list" where
  "followed_records user_id d =
     List.map (\<lambda>f. let m = municipality_of (f_municipality_code f) d; s = state_of m d in
        \<lparr>fr_municipality_code = f_municipality_code f, fr_name = map_option t_name m,
         fr_state_abbreviation = Option.bind s t_abbreviation, fr_followed_at = f_created_at f,
         fr_notifications_enabled = f_notifications_enabled f,
         fr_notifications_opt_in_at = f_notifications_opt_in_at f\<rparr>)
       (sort_key f_created_at
         (filter (\<lambda>f. f_user_id f = user_id) (followed_municipalities d)))"

definition device_records :: "string \<Rightarrow> db \<Rightarrow> (string \<times> instant) list" where
  "device_records user_id d =
     List.map (\<lambda>p. (p_endpoint p, p_created_at p))
       (sort_key p_created_at (filter (\<lambda>p. p_user_id p = user_id) (push_subscriptions d)))"

definition notification_records :: "string \<Rightarrow> db \<Rightarrow> (instant \<times> string \<times> content) list" where
  "notification_records user_id d =
     List.map (\<lambda>e. (e_created_at e, e_municipality_code e, e_content e))
       (sort_key e_created_at (filter (\<lambda>e. e_user_id e = user_id) (notification_events d)))"

definition active_sessions :: "instant \<Rightarrow> string \<Rightarrow> db \<Rightarrow> nat" where
  "active_sessions now user_id d =
     length (filter (\<lambda>s. s_user_id s = user_id \<and> s_expires_at s > now) (user_sessions d))"

section \<open>Request bodies\<close>

record login_request =
  lr_email :: string
  lr_password :: string

record register_request = login_request +
  rr_name :: string
  rr_theme :: string

text \<open>The regular expression \<open>^[^\s@]+@[^\s@]+\.[^\s@]+$\<close>.\<close>

definition is_regex_space :: "char \<Rightarrow> bool" where
  "is_regex_space c \<longleftrightarrow> (let n = of_char c :: nat in
     (9 \<le> n \<and> n \<le> 13) \<or> n = 32 \<or> n = 133 \<or> n = 160)"

definition email_pattern :: "string \<Rightarrow> bool" where
  "email_pattern s \<longleftrightarrow>
     list_all (\<lambda>c. \<not> is_regex_space c) s \<and>
     (case py_split (CHR ''@'') s of
        [local, domain] \<Rightarrow> local \<noteq> [] \<and> CHR ''.'' \<in> set (butlast (tl domain))
      | _ \<Rightarrow> False)"

definition is_common_password :: "string list \<Rightarrow> string \<Rightarrow> bool" where
  "is_common_password common password \<longleftrightarrow> py_lower password \<in> set (removeAll [] common)"

definition valid_login :: "string \<Rightarrow> string \<Rightarrow> login_request option" where
  "valid_login email password =
     (let e = py_lower (py_strip email) in
      if 3 \<le> length e \<and> length e \<le> 254 \<and> email_pattern e
         \<and> 1 \<le> length password \<and> length password \<le> 128
      then Some \<lparr>lr_email = e, lr_password = password\<rparr> else None)"

definition valid_register ::
    "string list \<Rightarrow> string \<Rightarrow> string \<Rightarrow> string \<Rightarrow> string \<Rightarrow> bool \<Rightarrow> register_request option" where
  "valid_register common email password name theme accept_terms =
     (let e = py_lower (py_strip email); n = py_strip name in
      if 3 \<le> length e \<and> length e \<le> 254 \<and> email_pattern e
         \<and> 8 \<le> length password \<and> length password \<le> 128 \<and> \<not> is_common_password common password
         \<and> 2 \<le> length n \<and> length n \<le> 80
         \<and> (theme = ''light'' \<or> theme = ''dark'') \<and> accept_terms
      then Some \<lparr>lr_email = e, lr_password = password, rr_name = n, rr_theme = theme\<rparr> else None)"

section \<open>Services\<close>

record user_out =
  uo_id :: string
  uo_name :: string
  uo_email :: string
  uo_theme :: string
  uo_terms_accepted :: bool

record account_export =
  ex_exported_at :: instant
  ex_account :: user
  ex_followed :: "followed_record list"
  ex_devices :: "(string \<times> instant) list"
  ex_notifications :: "(instant \<times> string \<times> content) list"
  ex_active_sessions :: nat

definition TERMS_VERSION :: string where "TERMS_VERSION = ''2026-11-02''"

definition DUMMY_HASH :: string where
  "DUMMY_HASH = ''scrypt$'' @ replicate 32 CHR ''0'' @ ''$'' @ replicate 64 CHR ''0''"

definition raise :: "error_kind \<Rightarrow> raised" where
  "raise k = RaisedDomain (mk_error k [])"

definition to_schema :: "user \<Rightarrow> raised + user_out" where
  "to_schema u =
     (case u_email u of None \<Rightarrow> Inl RaisedOther
      | Some email \<Rightarrow> Inr \<lparr>uo_id = u_id u, uo_name = u_name u, uo_email = email,
          uo_theme = u_theme u, uo_terms_accepted = (u_terms_version u = Some TERMS_VERSION)\<rparr>)"

text \<open>An absent and an empty cookie are both "no token".\<close>

definition current_user ::
    "(string \<Rightarrow> string) \<Rightarrow> instant \<Rightarrow> string option \<Rightarrow> db \<Rightarrow> raised + user" where
  "current_user sha256 now token d =
     (case (case token of None \<Rightarrow> Inr None
            | Some [] \<Rightarrow> Inr None
            | Some t \<Rightarrow> by_token now (hash_token sha256 t) d) of
        Inl e \<Rightarrow> Inl e
      | Inr None \<Rightarrow> Inl (raise AuthenticationError)
      | Inr (Some u) \<Rightarrow> Inr u)"

definition start_session ::
    "(string \<Rightarrow> string) \<Rightarrow> instant \<Rightarrow> string \<Rightarrow> user \<Rightarrow> string option \<Rightarrow> db
     \<Rightarrow> raised + (user_out \<times> string) \<times> db" where
  "start_session sha256 now token u old_token d =
     (let d1 = (case old_token of None \<Rightarrow> d | Some [] \<Rightarrow> d
                | Some t \<Rightarrow> remove_session (hash_token sha256 t) d);
          expires = now + seconds SESSION_SECONDS in
      case add_session now (u_id u) (hash_token sha256 token) expires d1 of
        Inl e \<Rightarrow> Inl e
      | Inr d2 \<Rightarrow> (case to_schema u of Inl e \<Rightarrow> Inl e | Inr out \<Rightarrow> Inr ((out, token), d2)))"

text \<open>
  The environment of one request: the digests and the values drawn during it. The clock is
  read before and after the password is hashed (\<open>n_clock\<close>, \<open>n_clock_after\<close>).
\<close>

record env =
  n_sha256 :: "string \<Rightarrow> string"
  n_scrypt :: "string \<Rightarrow> string \<Rightarrow> string"
  n_clock :: clock
  n_clock_after :: clock
  n_now :: instant
  n_salt :: string
  n_token :: string
  n_uuid :: string

definition new_user :: "env \<Rightarrow> register_request \<Rightarrow> user" where
  "new_user n body =
     \<lparr>u_id = n_uuid n, u_name = rr_name body, u_email = Some (lr_email body),
      u_password_hash = Some (hash_password (n_scrypt n) (n_salt n) (lr_password body)),
      u_theme = rr_theme body, u_terms_version = Some TERMS_VERSION,
      u_terms_accepted_at = Some (n_now n), u_created_at = n_now n\<rparr>"

definition register ::
    "env \<Rightarrow> register_request \<Rightarrow> string option \<Rightarrow> string option \<Rightarrow> attempts \<Rightarrow> db
     \<Rightarrow> (raised + (user_out \<times> string) \<times> db) \<times> attempts" where
  "register n body old_token ip c d =
     (case check_auth_attempt (n_sha256 n) (n_clock n) (lr_email body) ip c of
        (Inl e, c1) \<Rightarrow> (Inl (RaisedDomain e), c1)
      | (Inr _, c1) \<Rightarrow>
          (case create_user (new_user n body) d of
             Inl e \<Rightarrow> (Inl e, c1)
           | Inr (None, d1) \<Rightarrow> (Inl (raise ConflictError), c1)
           | Inr (Some u, d1) \<Rightarrow>
               (start_session (n_sha256 n) (n_now n) (n_token n) u old_token d1,
                clear_auth_attempts (n_sha256 n) (n_clock_after n) (lr_email body) ip c1)))"

definition login ::
    "env \<Rightarrow> 'm login_request_scheme \<Rightarrow> string option \<Rightarrow> string option \<Rightarrow> attempts \<Rightarrow> db
     \<Rightarrow> (raised + (user_out \<times> string) \<times> db) \<times> attempts" where
  "login n body old_token ip c d =
     (case check_auth_attempt (n_sha256 n) (n_clock n) (lr_email body) ip c of
        (Inl e, c1) \<Rightarrow> (Inl (RaisedDomain e), c1)
      | (Inr _, c1) \<Rightarrow>
          (case by_email (lr_email body) d of
             Inl e \<Rightarrow> (Inl e, c1)
           | Inr found \<Rightarrow>
               (let stored = (case found of None \<Rightarrow> None | Some u \<Rightarrow> u_password_hash u);
                    encoded = (case stored of None \<Rightarrow> DUMMY_HASH | Some [] \<Rightarrow> DUMMY_HASH | Some h \<Rightarrow> h);
                    valid = verify_password (n_scrypt n) (lr_password body) encoded in
                case found of
                  Some u \<Rightarrow>
                    if valid then
                      (start_session (n_sha256 n) (n_now n) (n_token n) u old_token d,
                       clear_auth_attempts (n_sha256 n) (n_clock_after n) (lr_email body) ip c1)
                    else (Inl (raise AuthenticationError),
                          record_auth_failure (n_sha256 n) (n_clock_after n) (lr_email body) c1)
                | None \<Rightarrow> (Inl (raise AuthenticationError),
                           record_auth_failure (n_sha256 n) (n_clock_after n) (lr_email body) c1))))"

definition logout :: "(string \<Rightarrow> string) \<Rightarrow> string option \<Rightarrow> db \<Rightarrow> db" where
  "logout sha256 token d =
     (case token of None \<Rightarrow> d | Some [] \<Rightarrow> d | Some t \<Rightarrow> remove_session (hash_token sha256 t) d)"

definition update_theme :: "string \<Rightarrow> string \<Rightarrow> db \<Rightarrow> raised + user_out \<times> db" where
  "update_theme user_id theme d =
     (case set_theme user_id theme d of Inl e \<Rightarrow> Inl e
      | Inr (u, d1) \<Rightarrow> (case to_schema u of Inl e \<Rightarrow> Inl e | Inr out \<Rightarrow> Inr (out, d1)))"

definition accept_terms :: "instant \<Rightarrow> string \<Rightarrow> db \<Rightarrow> raised + user_out \<times> db" where
  "accept_terms now user_id d =
     (case set_terms now user_id TERMS_VERSION d of Inl e \<Rightarrow> Inl e
      | Inr (u, d1) \<Rightarrow> (case to_schema u of Inl e \<Rightarrow> Inl e | Inr out \<Rightarrow> Inr (out, d1)))"

definition delete_account ::
    "env \<Rightarrow> user \<Rightarrow> string \<Rightarrow> string option \<Rightarrow> attempts \<Rightarrow> db \<Rightarrow> (raised + db) \<times> attempts" where
  "delete_account n u password ip c d =
     (case (u_email u, u_password_hash u) of
        (Some email, Some encoded) \<Rightarrow>
          (case check_auth_attempt (n_sha256 n) (n_clock n) email ip c of
             (Inl e, c1) \<Rightarrow> (Inl (RaisedDomain e), c1)
           | (Inr _, c1) \<Rightarrow>
               if \<not> verify_password (n_scrypt n) password encoded
               then (Inl (RaisedDomain (invalid_parameter (Some ''password'') [])),
                     record_auth_failure (n_sha256 n) (n_clock_after n) email c1)
               else (Inr (remove_user (u_id u) d),
                     clear_auth_attempts (n_sha256 n) (n_clock_after n) email ip c1))
      | _ \<Rightarrow> (Inl RaisedOther, c))"

text \<open>\<open>hostname\<close> stands for \<open>urlsplit(endpoint).hostname\<close>.\<close>

definition export_account ::
    "(string \<Rightarrow> string option) \<Rightarrow> instant \<Rightarrow> user \<Rightarrow> db \<Rightarrow> raised + account_export" where
  "export_account hostname now u d =
     (if u_email u = None then Inl RaisedOther
      else Inr \<lparr>ex_exported_at = now, ex_account = u,
        ex_followed = followed_records (u_id u) d,
        ex_devices = List.map (\<lambda>(endpoint, registered_at).
           ((case hostname endpoint of None \<Rightarrow> [] | Some h \<Rightarrow> h), registered_at)) (device_records (u_id u) d),
        ex_notifications = notification_records (u_id u) d,
        ex_active_sessions = active_sessions now (u_id u) d\<rparr>)"

section \<open>Handlers\<close>

record request =
  q_method :: string
  q_origin :: "string option"
  q_client_header :: "string option"
  q_cookie :: "string option"
  q_ip :: "string option"

definition require_trusted_write :: "string list \<Rightarrow> request \<Rightarrow> raised + unit" where
  "require_trusted_write cors_origins q =
     (if q_method q \<in> {''GET'', ''HEAD'', ''OPTIONS''} then Inr ()
      else if q_client_header q \<noteq> Some ''web''
           \<or> (case q_origin q of None \<Rightarrow> False | Some origin \<Rightarrow> origin \<notin> set cors_origins)
      then Inl (raise ForbiddenError)
      else Inr ())"

text \<open>\<open>get_write_session\<close>: commit what the handler returns, roll back when it raises.\<close>

definition in_write_session :: "db \<Rightarrow> (raised + 'a \<times> db) \<Rightarrow> (raised + 'a) \<times> db" where
  "in_write_session d outcome =
     (case outcome of Inl e \<Rightarrow> (Inl e, d) | Inr (a, d') \<Rightarrow> (Inr a, d'))"

datatype cookie_action = SetCookie string int bool | DeleteCookie bool | KeepCookie

record reply =
  a_user :: "user_out option"
  a_cookie :: cookie_action
  a_no_store :: bool

definition set_session :: "bool \<Rightarrow> string \<Rightarrow> cookie_action" where
  "set_session production token = SetCookie token SESSION_SECONDS production"

definition api_register ::
    "string list \<Rightarrow> bool \<Rightarrow> env \<Rightarrow> request \<Rightarrow> register_request \<Rightarrow> attempts \<Rightarrow> db
     \<Rightarrow> (raised + reply) \<times> attempts \<times> db" where
  "api_register cors production n q body c d =
     (case require_trusted_write cors q of
        Inl e \<Rightarrow> (Inl e, c, d)
      | Inr _ \<Rightarrow>
          (let (outcome, c1) = register n body (q_cookie q) (q_ip q) c d;
               (r, d1) = in_write_session d outcome in
           case r of Inl e \<Rightarrow> (Inl e, c1, d1)
           | Inr (out, token) \<Rightarrow>
               (Inr \<lparr>a_user = Some out, a_cookie = set_session production token, a_no_store = True\<rparr>,
                c1, d1)))"

definition api_login ::
    "string list \<Rightarrow> bool \<Rightarrow> env \<Rightarrow> request \<Rightarrow> login_request \<Rightarrow> attempts \<Rightarrow> db
     \<Rightarrow> (raised + reply) \<times> attempts \<times> db" where
  "api_login cors production n q body c d =
     (case require_trusted_write cors q of
        Inl e \<Rightarrow> (Inl e, c, d)
      | Inr _ \<Rightarrow>
          (let (outcome, c1) = login n body (q_cookie q) (q_ip q) c d;
               (r, d1) = in_write_session d outcome in
           case r of Inl e \<Rightarrow> (Inl e, c1, d1)
           | Inr (out, token) \<Rightarrow>
               (Inr \<lparr>a_user = Some out, a_cookie = set_session production token, a_no_store = True\<rparr>,
                c1, d1)))"

definition api_logout ::
    "string list \<Rightarrow> bool \<Rightarrow> env \<Rightarrow> request \<Rightarrow> db \<Rightarrow> (raised + reply) \<times> db" where
  "api_logout cors production n q d =
     (case require_trusted_write cors q of
        Inl e \<Rightarrow> (Inl e, d)
      | Inr _ \<Rightarrow>
          (Inr \<lparr>a_user = None, a_cookie = DeleteCookie production, a_no_store = True\<rparr>,
           logout (n_sha256 n) (q_cookie q) d))"

definition api_me :: "env \<Rightarrow> request \<Rightarrow> db \<Rightarrow> raised + reply" where
  "api_me n q d =
     (case current_user (n_sha256 n) (n_now n) (q_cookie q) d of
        Inl e \<Rightarrow> Inl e
      | Inr u \<Rightarrow> (case to_schema u of Inl e \<Rightarrow> Inl e
          | Inr out \<Rightarrow> Inr \<lparr>a_user = Some out, a_cookie = KeepCookie, a_no_store = True\<rparr>))"

definition api_preferences ::
    "string list \<Rightarrow> env \<Rightarrow> request \<Rightarrow> string \<Rightarrow> db \<Rightarrow> (raised + reply) \<times> db" where
  "api_preferences cors n q theme d =
     (case require_trusted_write cors q of
        Inl e \<Rightarrow> (Inl e, d)
      | Inr _ \<Rightarrow> (case current_user (n_sha256 n) (n_now n) (q_cookie q) d of
          Inl e \<Rightarrow> (Inl e, d)
        | Inr u \<Rightarrow> (case in_write_session d (update_theme (u_id u) theme d) of
            (Inl e, d1) \<Rightarrow> (Inl e, d1)
          | (Inr out, d1) \<Rightarrow>
              (Inr \<lparr>a_user = Some out, a_cookie = KeepCookie, a_no_store = True\<rparr>, d1))))"

definition api_terms :: "string list \<Rightarrow> env \<Rightarrow> request \<Rightarrow> db \<Rightarrow> (raised + reply) \<times> db" where
  "api_terms cors n q d =
     (case require_trusted_write cors q of
        Inl e \<Rightarrow> (Inl e, d)
      | Inr _ \<Rightarrow> (case current_user (n_sha256 n) (n_now n) (q_cookie q) d of
          Inl e \<Rightarrow> (Inl e, d)
        | Inr u \<Rightarrow> (case in_write_session d (accept_terms (n_now n) (u_id u) d) of
            (Inl e, d1) \<Rightarrow> (Inl e, d1)
          | (Inr out, d1) \<Rightarrow>
              (Inr \<lparr>a_user = Some out, a_cookie = KeepCookie, a_no_store = True\<rparr>, d1))))"

definition api_delete ::
    "string list \<Rightarrow> bool \<Rightarrow> env \<Rightarrow> request \<Rightarrow> string \<Rightarrow> attempts \<Rightarrow> db
     \<Rightarrow> (raised + reply) \<times> attempts \<times> db" where
  "api_delete cors production n q password c d =
     (case require_trusted_write cors q of
        Inl e \<Rightarrow> (Inl e, c, d)
      | Inr _ \<Rightarrow> (case current_user (n_sha256 n) (n_now n) (q_cookie q) d of
          Inl e \<Rightarrow> (Inl e, c, d)
        | Inr u \<Rightarrow> (case delete_account n u password (q_ip q) c d of
            (Inl e, c1) \<Rightarrow> (Inl e, c1, d)
          | (Inr d1, c1) \<Rightarrow>
              (Inr \<lparr>a_user = None, a_cookie = DeleteCookie production, a_no_store = True\<rparr>, c1, d1))))"

end
