(* ===== verification/Account_Laws.thy ===== *)
theory Account_Laws
  imports Accounts
begin

text \<open>
  What \<^theory_text>\<open>Accounts\<close> promises: every handler keeps the constraints of the database, a
  session authenticates exactly its user until it expires, a failed login tells nothing about
  the account, repeated failures lock the e-mail, and a deleted account leaves no row behind.
\<close>

section \<open>The invariant of the store\<close>

definition db_ok :: "db \<Rightarrow> bool" where
  "db_ok d \<longleftrightarrow> uniques_ok d \<and> foreign_keys_ok d"

lemma db_ok_empty [simp]: "db_ok empty_db"
  by (simp add: db_ok_def uniques_ok_def foreign_keys_ok_def empty_db_def)

lemma scalar_one_or_none_Inr:
  "scalar_one_or_none xs = Inr r \<longleftrightarrow> (xs = [] \<and> r = None) \<or> (\<exists>x. xs = [x] \<and> r = Some x)"
  by (cases xs rule: scalar_one_or_none.cases) auto

lemma scalar_one_Inr: "scalar_one xs = Inr x \<longleftrightarrow> xs = [x]"
  by (cases xs rule: scalar_one.cases) auto

lemma refers_users_snoc: "refers f xs u_id us \<Longrightarrow> refers f xs u_id (us @ [u])"
  by (auto simp: refers_iff)

lemma create_user_cases:
  assumes "create_user u d = Inr (r, d')"
  obtains (taken) "r = None" and "d' = d" and "\<exists>v \<in> set (users d). same_email u v"
    | (created) "r = Some u" and "d' = d\<lparr>users := users d @ [u]\<rparr>"
        and "\<forall>v \<in> set (users d). \<not> same_email u v \<and> u_id u \<noteq> u_id v"
  using assms by (auto simp: create_user_def list_ex_iff same_user_id_def split: if_splits)

lemma create_user_ok:
  assumes "create_user u d = Inr (r, d')" and "db_ok d"
  shows "db_ok d'"
  using assms(1)
proof (cases rule: create_user_cases)
  case created
  then show ?thesis using assms(2)
    by (auto simp: db_ok_def uniques_ok_def foreign_keys_ok_def no_conflicts_snoc conflict_defs
        refers_users_snoc)
qed (use assms(2) in simp)

lemma remove_session_ok [intro]: "db_ok d \<Longrightarrow> db_ok (remove_session t d)"
  by (auto simp: db_ok_def uniques_ok_def foreign_keys_ok_def remove_session_def)

lemma add_session_Inr:
  "add_session now uid th ex d = Inr d' \<longleftrightarrow>
     (\<forall>s \<in> set (user_sessions d). s_expires_at s > now \<longrightarrow> s_token_hash s \<noteq> th) \<and>
     uid \<in> u_id ` set (users d) \<and>
     d' = d\<lparr>user_sessions := delete_where (\<lambda>s. s_expires_at s \<le> now) (user_sessions d) @
              [\<lparr>s_token_hash = th, s_user_id = uid, s_expires_at = ex\<rparr>]\<rparr>"
  by (auto simp: add_session_def Let_def list_ex_iff same_session_def table_simps not_le)

lemma add_session_ok:
  assumes "add_session now uid th ex d = Inr d'" and "db_ok d"
  shows "db_ok d'"
  using assms
  by (auto simp: add_session_Inr db_ok_def uniques_ok_def foreign_keys_ok_def no_conflicts_snoc
      same_session_def refers_snoc table_simps intro!: no_conflicts_delete refers_delete)

lemma update_user_ok:
  assumes "db_ok d" and "\<And>u. u_id (h u) = u_id u" and "\<And>u. u_email (h u) = u_email u"
  shows "db_ok (d\<lparr>users := update_where P h (users d)\<rparr>)"
  using assms(1)
  by (simp add: db_ok_def uniques_ok_def foreign_keys_ok_def no_conflicts_update_key
      refers_update_target same_user_id_def same_email_def assms(2,3))

lemma remove_user_ok [intro]: "db_ok d \<Longrightarrow> db_ok (remove_user uid d)"
  by (auto simp: db_ok_def remove_user_def)

lemma logout_ok: "db_ok d \<Longrightarrow> db_ok (logout sha t d)"
  by (auto simp: logout_def split: option.splits list.splits)

lemma logout_frame [simp]:
  "users (logout sha t d) = users d"
  "followed_municipalities (logout sha t d) = followed_municipalities d"
  "notification_events (logout sha t d) = notification_events d"
  "push_subscriptions (logout sha t d) = push_subscriptions d"
  by (simp_all add: logout_def remove_session_def split: option.splits list.splits)

lemma start_session_Inr:
  "start_session sha now tok u old d = Inr (r, d') \<longleftrightarrow>
     add_session now (u_id u) (hash_token sha tok) (now + seconds SESSION_SECONDS)
       (logout sha old d) = Inr d' \<and> (\<exists>out. to_schema u = Inr out \<and> r = (out, tok))"
  by (auto simp: start_session_def logout_def Let_def split: sum.splits option.splits list.splits)

lemma start_session_ok:
  "start_session sha now tok u old d = Inr (r, d') \<Longrightarrow> db_ok d \<Longrightarrow> db_ok d'"
  by (auto simp: start_session_Inr intro: add_session_ok logout_ok)

lemma register_ok:
  assumes "register n body old ip c d = (Inr (r, d'), c')" and "db_ok d"
  shows "db_ok d'"
  using assms unfolding register_def
  by (auto split: sum.splits option.splits prod.splits dest: start_session_ok create_user_ok)

lemma login_ok:
  assumes "login n body old ip c d = (Inr (r, d'), c')" and "db_ok d"
  shows "db_ok d'"
  using assms unfolding login_def Let_def
  by (auto split: sum.splits option.splits prod.splits if_splits dest: start_session_ok)

lemma update_theme_ok: "update_theme uid th d = Inr (r, d') \<Longrightarrow> db_ok d \<Longrightarrow> db_ok d'"
  unfolding update_theme_def set_theme_def Let_def
  by (auto split: sum.splits intro!: update_user_ok)

lemma accept_terms_ok: "accept_terms now uid d = Inr (r, d') \<Longrightarrow> db_ok d \<Longrightarrow> db_ok d'"
  unfolding accept_terms_def set_terms_def Let_def
  by (auto split: sum.splits intro!: update_user_ok)

lemma delete_account_ok: "delete_account n u p ip c d = (Inr d', c') \<Longrightarrow> db_ok d \<Longrightarrow> db_ok d'"
  unfolding delete_account_def
  by (auto split: sum.splits option.splits prod.splits if_splits)

lemma attempts_ok_check_eq:
  "check_auth_attempt sha now e ip c = (r, c') \<Longrightarrow> attempts_ok c \<longrightarrow> attempts_ok c'"
  using attempts_ok_check [of c sha now e ip] by simp

lemma attempts_ok_register:
  "register n body old ip c d = (r, c') \<Longrightarrow> attempts_ok c \<Longrightarrow> attempts_ok c'"
  unfolding register_def
  by (auto split: sum.splits option.splits prod.splits
      dest!: attempts_ok_check_eq intro: attempts_ok_ops)

lemma attempts_ok_login:
  "login n body old ip c d = (r, c') \<Longrightarrow> attempts_ok c \<Longrightarrow> attempts_ok c'"
  unfolding login_def Let_def
  by (auto split: sum.splits option.splits prod.splits if_splits
      dest!: attempts_ok_check_eq intro: attempts_ok_ops)

lemma attempts_ok_delete_account:
  "delete_account n u p ip c d = (r, c') \<Longrightarrow> attempts_ok c \<Longrightarrow> attempts_ok c'"
  unfolding delete_account_def
  by (auto split: sum.splits option.splits prod.splits if_splits
      dest!: attempts_ok_check_eq intro: attempts_ok_ops)

section \<open>Runs of the account API\<close>

inductive account_step :: "string list \<Rightarrow> bool \<Rightarrow> attempts \<times> db \<Rightarrow> attempts \<times> db \<Rightarrow> bool"
  for cors production where
  step_register: "api_register cors production n q body c d = (r, c', d')
     \<Longrightarrow> account_step cors production (c, d) (c', d')"
| step_login: "api_login cors production n q lbody c d = (r, c', d')
     \<Longrightarrow> account_step cors production (c, d) (c', d')"
| step_logout: "api_logout cors production n q d = (r, d')
     \<Longrightarrow> account_step cors production (c, d) (c, d')"
| step_preferences: "api_preferences cors n q theme d = (r, d')
     \<Longrightarrow> account_step cors production (c, d) (c, d')"
| step_terms: "api_terms cors n q d = (r, d')
     \<Longrightarrow> account_step cors production (c, d) (c, d')"
| step_delete: "api_delete cors production n q password c d = (r, c', d')
     \<Longrightarrow> account_step cors production (c, d) (c', d')"

inductive account_reachable :: "string list \<Rightarrow> bool \<Rightarrow> attempts \<times> db \<Rightarrow> bool"
  for cors production where
  initial: "account_reachable cors production (new_attempts, empty_db)"
| more: "account_reachable cors production s \<Longrightarrow> account_step cors production s s'
     \<Longrightarrow> account_reachable cors production s'"

inductive_cases account_step_cases: "account_step cors production (c, d) (c', d')"

lemma in_write_session_ok:
  "in_write_session d outcome = (r, d') \<Longrightarrow> db_ok d
   \<Longrightarrow> (\<And>a d1. outcome = Inr (a, d1) \<Longrightarrow> db_ok d1) \<Longrightarrow> db_ok d'"
  by (auto simp: in_write_session_def split: sum.splits)

lemma account_step_ok:
  assumes "account_step cors production s s'" and "attempts_ok (fst s) \<and> db_ok (snd s)"
  shows "attempts_ok (fst s') \<and> db_ok (snd s')"
  using assms
proof (induction rule: account_step.induct)
  case step_register
  then show ?case unfolding api_register_def Let_def
    by (auto split: sum.splits prod.splits dest: attempts_ok_register
        elim!: in_write_session_ok dest!: register_ok)
next
  case step_login
  then show ?case unfolding api_login_def Let_def
    by (auto split: sum.splits prod.splits dest: attempts_ok_login
        elim!: in_write_session_ok dest!: login_ok)
next
  case step_logout
  then show ?case unfolding api_logout_def by (auto split: sum.splits intro: logout_ok)
next
  case step_preferences
  then show ?case unfolding api_preferences_def
    by (auto split: sum.splits prod.splits elim!: in_write_session_ok dest!: update_theme_ok)
next
  case step_terms
  then show ?case unfolding api_terms_def
    by (auto split: sum.splits prod.splits elim!: in_write_session_ok dest!: accept_terms_ok)
next
  case step_delete
  then show ?case unfolding api_delete_def
    by (auto split: sum.splits prod.splits dest: attempts_ok_delete_account delete_account_ok)
qed

lemma account_reachable_ok:
  "account_reachable cors production s \<Longrightarrow> attempts_ok (fst s) \<and> db_ok (snd s)"
  by (induction rule: account_reachable.induct) (auto dest: account_step_ok)

text \<open>
  Property C1. In every state the account API can reach, the schema's unique and foreign keys
  hold, and the attempt counters are a well-formed cache of at most 20000 entries.
\<close>

theorem account_api_invariant:
  assumes "account_reachable cors production (c, d)"
  shows "uniques_ok d \<and> foreign_keys_ok d \<and> cache_wf c \<and> length (tc_data c) \<le> 20000"
  using account_reachable_ok [OF assms] by (auto simp: db_ok_def attempts_ok_def cache_wf_def)

section \<open>Sessions\<close>

lemma no_conflicts_filter_single:
  assumes "no_conflicts conflict t" and "x \<in> set t" and "P x"
    and "\<And>y. y \<in> set t \<Longrightarrow> P y \<Longrightarrow> conflict x y \<and> conflict y x"
  shows "filter P t = [x]"
proof -
  have all: "\<forall>y \<in> set (filter P t). y = x"
    using assms(2,4) no_conflicts_unique [OF assms(1)] by auto
  have distinct: "no_conflicts conflict (filter P t)"
    using assms(1) by (simp add: no_conflicts_def sorted_wrt_filter)
  have "x \<in> set (filter P t)" using assms(2,3) by simp
  then obtain zs where zs: "filter P t = x # zs" using all by (cases "filter P t") auto
  have "zs = []"
  proof (cases zs)
    case (Cons z zs')
    then have "z = x" using all zs by simp
    then have "\<not> conflict x x" using distinct zs Cons by (simp add: no_conflicts_def)
    then show ?thesis using assms(2,3,4) by blast
  qed simp
  then show ?thesis using zs by simp
qed

text \<open>\<open>by_token\<close> finds exactly the user of an unexpired session.\<close>

lemma by_token_found:
  assumes "db_ok d" and "s \<in> set (user_sessions d)" and "s_token_hash s = th"
    and "s_expires_at s > now" and "u \<in> set (users d)" and "u_id u = s_user_id s"
    and "has_email u"
  shows "by_token now th d = Inr (Some u)"
proof -
  let ?Q = "\<lambda>v s. s_user_id s = u_id v \<and> s_token_hash s = th \<and> s_expires_at s > now \<and> has_email v"
  have sessions: "no_conflicts same_session (user_sessions d)"
    and ids: "no_conflicts same_user_id (users d)"
    using assms(1) by (auto simp: db_ok_def uniques_ok_def)
  have only: "t = s" if "t \<in> set (user_sessions d)" and "s_token_hash t = th" for t
    using no_conflicts_unique [OF sessions that(1) assms(2)] that(2) assms(3)
    by (simp add: same_session_def)
  have filt: "filter (?Q v) (user_sessions d) = (if v = u then [s] else [])" if v: "v \<in> set (users d)" for v
  proof (cases "v = u")
    case True
    have "filter (?Q u) (user_sessions d) = [s]"
      by (rule no_conflicts_filter_single [OF sessions assms(2)])
        (simp_all add: assms same_session_def)
    then show ?thesis using True by simp
  next
    case False
    have "u_id v \<noteq> s_user_id s"
      using no_conflicts_unique [OF ids v assms(5)] False assms(6) by (auto simp: same_user_id_def)
    then have "\<not> ?Q v t" if "t \<in> set (user_sessions d)" for t
      using only [OF that] by auto
    then show ?thesis using False by (simp add: filter_empty_conv)
  qed
  have "concat (List.map (\<lambda>v. List.map (\<lambda>s. v) (filter (?Q v) (user_sessions d))) (users d)) =
      concat (List.map (\<lambda>v. if v = u then [v] else []) (users d))"
    by (rule arg_cong [of _ _ concat], rule map_cong [OF refl]) (simp add: filt)
  also have "concat (List.map (\<lambda>v. if v = u then [v] else []) vs) = filter (\<lambda>v. v = u) vs" for vs
    by (induction vs) auto
  also have "filter (\<lambda>v. v = u) (users d) = [u]"
    by (rule no_conflicts_filter_single [OF ids assms(5)]) (simp_all add: same_user_id_def)
  finally show ?thesis by (simp add: by_token_def)
qed

lemma by_token_none:
  assumes "\<forall>s \<in> set (user_sessions d). s_token_hash s = th \<longrightarrow> s_expires_at s \<le> now"
  shows "by_token now th d = Inr None"
proof -
  have "filter (\<lambda>s. s_user_id s = u_id u \<and> s_token_hash s = th \<and> s_expires_at s > now
      \<and> has_email u) (user_sessions d) = []" for u
    using assms by (auto simp: filter_empty_conv)
  then have "concat (List.map (\<lambda>u. List.map (\<lambda>s. u) (filter (\<lambda>s. s_user_id s = u_id u
      \<and> s_token_hash s = th \<and> s_expires_at s > now \<and> has_email u) (user_sessions d))) (users d)) = []"
    by simp
  then show ?thesis by (simp only: by_token_def scalar_one_or_none.simps)
qed

lemma to_schema_Inr: "to_schema u = Inr r \<Longrightarrow> u_email u = Some (uo_email r) \<and> uo_id r = u_id u
   \<and> uo_name r = u_name u \<and> uo_theme r = u_theme u"
  by (auto simp: to_schema_def split: option.splits)

lemma start_session_authenticates:
  assumes "start_session sha now tok u old d = Inr ((r, t), d')" and "db_ok d"
    and "u \<in> set (users d)" and "tok \<noteq> []"
  shows "t = tok \<and> (\<forall>later. current_user sha later (Some tok) d' =
    (if later < now + seconds SESSION_SECONDS then Inr u else Inl (raise AuthenticationError)))"
proof -
  let ?th = "hash_token sha tok" and ?ex = "now + seconds SESSION_SECONDS"
  define d1 where "d1 = logout sha old d"
  have d1: "db_ok d1" "users d1 = users d" using assms(2) by (simp_all add: d1_def logout_ok)
  have add: "add_session now (u_id u) ?th ?ex d1 = Inr d'" and r: "to_schema u = Inr r" and t: "t = tok"
    using assms(1) by (auto simp: start_session_Inr d1_def)
  let ?s = "\<lparr>s_token_hash = ?th, s_user_id = u_id u, s_expires_at = ?ex\<rparr>"
  have ok: "db_ok d'" using add_session_ok [OF add d1(1)] .
  have d': "users d' = users d" "?s \<in> set (user_sessions d')"
    and others: "\<forall>s \<in> set (user_sessions d'). s_token_hash s = ?th \<longrightarrow> s = ?s"
    using add d1(2) by (auto simp: add_session_Inr table_simps not_le)
  have "by_token later ?th d' = (if later < ?ex then Inr (Some u) else Inr None)" for later
  proof (cases "later < ?ex")
    case True
    then show ?thesis
      using by_token_found [OF ok d'(2)] d'(1) assms(3) to_schema_Inr [OF r] by (simp add: has_email_def)
  next
    case False
    then show ?thesis using others by (auto intro!: by_token_none)
  qed
  then show ?thesis using t assms(4) by (auto simp: current_user_def raise_def split: list.splits)
qed

lemma register_session:
  assumes "register n body old ip c d = (Inr ((r, t), d'), c')"
  obtains d1 where "start_session (n_sha256 n) (n_now n) (n_token n) (new_user n body) old d1 = Inr ((r, t), d')"
    and "create_user (new_user n body) d = Inr (Some (new_user n body), d1)"
  using assms unfolding register_def
  by (auto split: sum.splits option.splits prod.splits elim: create_user_cases)

text \<open>
  Property C2. A successful registration returns a token that authenticates the new account,
  and only it, at every instant until 30 days later; from then on the token is refused.
\<close>

theorem register_authenticates:
  assumes "register n body old ip c d = (Inr ((out, token), d'), c')"
    and "db_ok d" and "n_token n \<noteq> []"
  shows "token = n_token n \<and> uo_email out = lr_email body \<and>
    current_user (n_sha256 n) later (Some token) d' =
      (if later < n_now n + seconds SESSION_SECONDS then Inr (new_user n body)
       else Inl (raise AuthenticationError))"
proof -
  obtain d1 where s: "start_session (n_sha256 n) (n_now n) (n_token n) (new_user n body) old d1 = Inr ((out, token), d')"
    and c: "create_user (new_user n body) d = Inr (Some (new_user n body), d1)"
    using assms(1) by (rule register_session)
  have "new_user n body \<in> set (users d1)" using c by (rule create_user_cases) auto
  moreover have "db_ok d1" using create_user_ok [OF c assms(2)] .
  moreover have "uo_email out = lr_email body"
    using s by (auto simp: start_session_Inr to_schema_def new_user_def)
  ultimately show ?thesis using start_session_authenticates [OF s] assms(3) by blast
qed


section \<open>Logging in\<close>

lemma by_email_found:
  assumes "db_ok d" and "u \<in> set (users d)" and "u_email u = Some e"
  shows "by_email e d = Inr (Some u)"
proof -
  have "no_conflicts same_email (users d)" using assms(1) by (simp add: db_ok_def uniques_ok_def)
  then have "filter (\<lambda>v. u_email v = Some e) (users d) = [u]"
    by (rule no_conflicts_filter_single [OF _ assms(2)]) (simp_all add: assms(3) same_email_def)
  then show ?thesis by (simp add: by_email_def)
qed

text \<open>
  Property C3. The answer to a failed login is the same for an unknown e-mail and for a wrong
  password, and so is its effect on the attempt counters: it does not tell whether the account
  exists.
\<close>

theorem login_hides_accounts:
  assumes "by_email (lr_email body) d1 = Inr None"
    and "by_email (lr_email body) d2 = Inr (Some u)" and "u_password_hash u = Some (h # hs)"
    and "\<not> verify_password (n_scrypt n) (lr_password body) (h # hs)"
  shows "login n body old ip c d1 = login n body old ip c d2 \<and>
    (\<exists>e. fst (login n body old ip c d1) = Inl (RaisedDomain e) \<and>
         err_kind e \<in> {AuthRateLimitedError, AuthenticationError})"
proof -
  obtain r c1 where check: "check_auth_attempt (n_sha256 n) (n_clock n) (lr_email body) ip c = (r, c1)"
    by fastforce
  have "err_kind e = AuthRateLimitedError" if "r = Inl e" for e
  proof -
    have "fst (read_limits now ls k) = Inl e \<Longrightarrow> e = rate_limit_error" for now ls k
      by (induction now ls k rule: read_limits.induct)
        (auto simp: Let_def split: prod.splits option.splits sum.splits if_splits)
    then have "e = rate_limit_error"
      using check that unfolding check_auth_attempt_def Let_def
      by (fastforce split: prod.splits option.splits sum.splits if_splits)
    then show ?thesis by (simp add: rate_limit_error_def)
  qed
  then show ?thesis using assms check
    by (cases r) (auto simp: login_def Let_def raise_def)
qed

text \<open>
  Property C4. After a registration, a login with that e-mail that is not rate limited succeeds
  exactly when \<open>scrypt\<close> maps its password to the stored digest, and otherwise raises
  \<open>AuthenticationError\<close>; the drawn token is assumed new.
\<close>

theorem login_after_register:
  assumes "register n body old ip c d = (Inr (r, d'), c')" and "db_ok d"
    and "n_scrypt m = n_scrypt n" and "lr_email again = lr_email body"
    and "check_auth_attempt (n_sha256 m) (n_clock m) (lr_email body) ip2 c2 = (Inr (), c3)"
    and "\<forall>s \<in> set (user_sessions d'). s_token_hash s \<noteq> hash_token (n_sha256 m) (n_token m)"
  shows "fst (login m again old2 ip2 c2 d') =
    (if n_scrypt n (lr_password again) (n_salt n) = n_scrypt n (lr_password body) (n_salt n)
     then start_session (n_sha256 m) (n_now m) (n_token m) (new_user n body) old2 d'
     else Inl (raise AuthenticationError)) \<and>
   isl (fst (login m again old2 ip2 c2 d')) =
    (n_scrypt n (lr_password again) (n_salt n) \<noteq> n_scrypt n (lr_password body) (n_salt n))"
proof -
  obtain out t where r: "r = (out, t)" by fastforce
  obtain d1 where s: "start_session (n_sha256 n) (n_now n) (n_token n) (new_user n body) old d1 = Inr (r, d')"
    and cu: "create_user (new_user n body) d = Inr (Some (new_user n body), d1)"
    using assms(1) unfolding r by (rule register_session)
  have "new_user n body \<in> set (users d1)" using cu by (rule create_user_cases) auto
  then have user: "new_user n body \<in> set (users d')"
    using s by (auto simp: start_session_Inr add_session_Inr)
  have ok: "db_ok d'" using s create_user_ok [OF cu assms(2)] by (rule start_session_ok)
  have found: "by_email (lr_email body) d' = Inr (Some (new_user n body))"
    by (rule by_email_found [OF ok user]) (simp add: new_user_def)
  have hash: "u_password_hash (new_user n body) =
      Some (hash_password (n_scrypt n) (n_salt n) (lr_password body))"
    by (simp add: new_user_def)
  have "hash_password (n_scrypt n) (n_salt n) (lr_password body) \<noteq> []"
    by (simp add: hash_password_def)
  then obtain x xs where x: "hash_password (n_scrypt n) (n_salt n) (lr_password body) = x # xs"
    by (meson neq_Nil_conv)
  have "fst (login m again old2 ip2 c2 d') =
    (if n_scrypt n (lr_password again) (n_salt n) = n_scrypt n (lr_password body) (n_salt n)
     then start_session (n_sha256 m) (n_now m) (n_token m) (new_user n body) old2 d'
     else Inl (raise AuthenticationError))"
    using assms(3,4,5) found hash x
      verify_hash_password [of "n_scrypt n" "lr_password again" "n_salt n" "lr_password body"]
    by (simp add: login_def Let_def)
  moreover have "\<not> isl (start_session (n_sha256 m) (n_now m) (n_token m) (new_user n body) old2 d')"
  proof -
    have "set (user_sessions (logout sha o2 d')) \<subseteq> set (user_sessions d')" for sha o2
      by (auto simp: logout_def remove_session_def table_simps split: option.splits list.splits)
    then have "\<exists>d2. add_session (n_now m) (u_id (new_user n body)) (hash_token (n_sha256 m) (n_token m))
        (n_now m + seconds SESSION_SECONDS) (logout (n_sha256 m) old2 d') = Inr d2"
      unfolding add_session_Inr using assms(6) user by fastforce
    moreover have "\<exists>w. to_schema (new_user n body) = Inr w" by (simp add: to_schema_def new_user_def)
    ultimately have "\<exists>x. start_session (n_sha256 m) (n_now m) (n_token m) (new_user n body) old2 d' = Inr x"
      by (auto simp: start_session_Inr)
    then show ?thesis by auto
  qed
  ultimately show ?thesis by simp
qed

section \<open>Deleting an account\<close>


section \<open>Trusted writes and transactions\<close>

text \<open>
  A write request without the client header or from an origin outside
  \<open>cors_origins\<close> is refused with \<open>ForbiddenError\<close> by every handler that writes, before it
  touches the counters or the database.
\<close>

theorem untrusted_write_refused:
  assumes "q_method q \<notin> {''GET'', ''HEAD'', ''OPTIONS''}"
    and "q_client_header q \<noteq> Some ''web'' \<or> (\<exists>or. q_origin q = Some or \<and> or \<notin> set cors)"
  shows "api_register cors production n q rbody c d = (Inl (raise ForbiddenError), c, d) \<and>
    api_login cors production n q lbody c d = (Inl (raise ForbiddenError), c, d) \<and>
    api_logout cors production n q d = (Inl (raise ForbiddenError), d) \<and>
    api_preferences cors n q theme d = (Inl (raise ForbiddenError), d) \<and>
    api_terms cors n q d = (Inl (raise ForbiddenError), d) \<and>
    api_delete cors production n q password c d = (Inl (raise ForbiddenError), c, d)"
proof -
  have "require_trusted_write cors q = Inl (raise ForbiddenError)"
    using assms by (auto simp: require_trusted_write_def)
  then show ?thesis
    by (simp add: api_register_def api_login_def api_logout_def api_preferences_def api_terms_def
        api_delete_def)
qed

text \<open>
  Whatever a handler raises, the database is rolled back to what it was, and an
  error is never answered together with a new session cookie.
\<close>

theorem failed_request_rolls_back:
  shows "(api_register cors production n q rbody c d = (Inl e, c1, d1) \<longrightarrow> d1 = d) \<and>
    (api_login cors production n q lbody c d = (Inl e, c1, d1) \<longrightarrow> d1 = d) \<and>
    (api_preferences cors n q theme d = (Inl e, d1) \<longrightarrow> d1 = d) \<and>
    (api_terms cors n q d = (Inl e, d1) \<longrightarrow> d1 = d) \<and>
    (api_delete cors production n q password c d = (Inl e, c1, d1) \<longrightarrow> d1 = d)"
  by (auto simp: api_register_def api_login_def api_preferences_def api_terms_def api_delete_def
      in_write_session_def Let_def split: sum.splits prod.splits)

section \<open>Brute force\<close>

definition record_failures ::
    "(string \<Rightarrow> string) \<Rightarrow> string \<Rightarrow> clock list \<Rightarrow> attempts \<Rightarrow> attempts" where
  "record_failures sha256 email ts c = fold (\<lambda>t c. record_auth_failure sha256 t email c) ts c"

lemma failures_counted:
  assumes "ts \<noteq> []" and "successively (\<lambda>a b. b \<le> a + of_int EMAIL_FAILURE_TTL) ts"
    and "attempts_ok c"
    and "k = (case counter (hd ts) (email_key sha e) c of None \<Rightarrow> 0 | Some (m, _) \<Rightarrow> m)"
    and "later \<le> last ts + of_int EMAIL_FAILURE_TTL"
  shows "counter later (email_key sha e) (record_failures sha e ts c) =
    Some (k + int (length ts), last ts + of_int (lock_seconds (k + int (length ts))))"
  using assms
proof (induction ts arbitrary: c k)
  case (Cons t ts)
  let ?c1 = "record_auth_failure sha t e c"
  have n: "(case counter t (email_key sha e) c of None \<Rightarrow> 1 | Some (m, _) \<Rightarrow> m + 1) = k + 1"
    using Cons.prems(4) by (auto split: option.splits)
  have run: "record_failures sha e (t # ts) c = record_failures sha e ts ?c1"
    by (simp add: record_failures_def)
  show ?case
  proof (cases ts)
    case Nil
    then show ?thesis using Cons.prems(3,5) n counter_after_failure [of c later t sha e]
      by (simp add: record_failures_def Let_def)
  next
    case (Cons t2 ts2)
    have "t2 \<le> t + of_int EMAIL_FAILURE_TTL" using Cons.prems(2) Cons by simp
    then have "counter (hd ts) (email_key sha e) ?c1 = Some (k + 1, t + of_int (lock_seconds (k + 1)))"
      using counter_after_failure [of c t2 t sha e] Cons.prems(3) n Cons by (simp add: Let_def)
    then have "counter later (email_key sha e) (record_failures sha e ts ?c1) =
      Some (k + 1 + int (length ts), last ts + of_int (lock_seconds (k + 1 + int (length ts))))"
      using Cons.prems Cons by (intro Cons.IH) (auto intro: attempts_ok_failure)
    then show ?thesis using run Cons by (simp add: algebra_simps)
  qed
qed simp

text \<open>
  Property C6. After six or more failed passwords for an e-mail, each within 24 hours of the one
  before, every attempt on it is refused until the ladder's time (1, 5, 15, then 60 minutes)
  has passed since the last one, from whatever IP it comes.
\<close>

theorem failures_lock_email:
  assumes "attempts_ok c" and "counter (hd ts) (email_key sha e) c = None"
    and "successively (\<lambda>a b. b \<le> a + of_int EMAIL_FAILURE_TTL) ts" and "6 \<le> length ts"
    and "later < last ts + of_int (if length ts = 6 then 60 else if length ts = 7 then 300
           else if length ts = 8 then 900 else 3600)"
  shows "fst (check_auth_attempt sha later e ip (record_failures sha e ts c)) = Inl rate_limit_error"
proof -
  let ?n = "int (length ts)"
  have lock: "lock_seconds ?n = (if length ts = 6 then 60 else if length ts = 7 then 300
      else if length ts = 8 then 900 else 3600)"
    using assms(4) by (simp add: lock_seconds_cases)
  then have soon: "later < last ts + of_int (lock_seconds ?n)" using assms(5) by simp
  have "real_of_int (lock_seconds ?n) \<le> of_int EMAIL_FAILURE_TTL"
    using lock_seconds_le_ttl [of ?n] by simp
  then have "counter later (email_key sha e) (record_failures sha e ts c) =
      Some (0 + ?n, last ts + of_int (lock_seconds (0 + ?n)))"
    using assms(1-4) soon by (intro failures_counted) auto
  then show ?thesis using soon by (simp add: check_locked)
qed

fun admitted ::
    "(string \<Rightarrow> string) \<Rightarrow> string \<Rightarrow> clock list \<Rightarrow> attempts \<Rightarrow> bool list" where
  "admitted sha256 email [] c = []"
| "admitted sha256 email (t # ts) c =
     (let (r, c1) = check_auth_attempt sha256 t email None c in
      (\<not> isl r) # admitted sha256 email ts c1)"

lemma account_key_neq_email_key: "account_key sha e ip \<noteq> email_key sha' e'"
  by (simp add: account_key_def email_key_def)

lemma cache_set_other_None:
  "k' \<noteq> k \<Longrightarrow> map_of (tc_data c) k' = None \<Longrightarrow> map_of (tc_data (cache_set now k v t c)) k' = None"
  by (auto simp: map_of_eq_None_iff dest: cache_entries_set)

lemma check_within_window:
  fixes now :: clock
  assumes "attempts_ok c" and "map_of (tc_data c) (email_key sha e) = None"
    and "map_of (tc_data c) (account_key sha e None) = Some (expires, (k, until))"
    and "until \<le> expires" and "0 \<le> now" and "now \<le> until"
    and "check_auth_attempt sha now e None c = (r, c')"
  shows "isl r = (k \<ge> ACCOUNT_LIMIT)" and "attempts_ok c'"
    and "map_of (tc_data c') (email_key sha e) = None"
    and "\<exists>x. until \<le> x \<and> map_of (tc_data c') (account_key sha e None) =
          Some (x, (if k \<ge> ACCOUNT_LIMIT then k else k + 1, until))"
proof -
  let ?a = "account_key sha e None" and ?m = "email_key sha e"
  define c1 where "c1 = snd (cache_get now ?m c)"
  define c2 where "c2 = snd (cache_get now ?a c1)"
  have en: "cache_enabled c" using assms(1) by (rule attempts_ok_enabled)
  have g1: "cache_get now ?m c = (None, c1)" using assms(2) en by (simp add: c1_def cache_get_def)
  have m1: "map_of (tc_data c1) = map_of (tc_data c)" "attempts_ok c1"
    using assms(1,2) en by (auto simp: c1_def) (simp add: cache_get_def)
  have g2: "cache_get now ?a c1 = (Some (k, until), c2)"
    and m2: "map_of (tc_data c2) = map_of (tc_data c)"
    using assms(3,4,6) m1 attempts_ok_enabled [OF m1(2)]
    by (auto simp: c2_def cache_get_def od_simps)
  have ok2: "attempts_ok c2" unfolding c2_def using m1(2) by blast
  show "attempts_ok c'" using attempts_ok_check_eq [OF assms(7)] assms(1) by blast
  show "isl r = (k \<ge> ACCOUNT_LIMIT)"
    using assms(5,7) g1 g2 by (auto simp: check_auth_attempt_def Let_def split: if_splits)
  have "map_of (tc_data c2) ?m = None" using m2 assms(2) by simp
  moreover from this have "map_of (tc_data (cache_set now ?a v t c2)) ?m = None" for v t
    by (rule cache_set_other_None [OF account_key_neq_email_key [symmetric]])
  ultimately show "map_of (tc_data c') ?m = None"
    using assms(5,7) g1 g2
    by (auto simp: check_auth_attempt_def Let_def split: if_splits)
  show "\<exists>x. until \<le> x \<and> map_of (tc_data c') ?a = Some (x, (if k \<ge> ACCOUNT_LIMIT then k else k + 1, until))"
  proof (cases "k \<ge> ACCOUNT_LIMIT")
    case True
    then show ?thesis using assms(3,4,5,7) g1 g2 m2 by (auto simp: check_auth_attempt_def Let_def)
  next
    case False
    let ?t = "max 1 \<lceil>until - now\<rceil>"
    have c': "c' = cache_set now ?a (k + 1, until) (Some ?t) c2"
      using assms(5,7) g1 g2 False by (auto simp: check_auth_attempt_def Let_def)
    have "until - now \<le> of_int ?t" by linarith
    moreover have "map_of (tc_data c') ?a = Some (now + of_int ?t, (k + 1, until))"
      unfolding c' using cache_set_lookup [of c2 "Some ?t"] ok2 attempts_ok_enabled [OF ok2]
      by (simp add: attempts_ok_def)
    ultimately show ?thesis using False by (intro exI [of _ "now + of_int ?t"]) simp
  qed
qed


lemma admitted_within_window:
  fixes ts :: "clock list"
  assumes "attempts_ok c" and "map_of (tc_data c) (email_key sha e) = None"
    and "map_of (tc_data c) (account_key sha e None) = Some (expires, (int k, until))"
    and "until \<le> expires" and "\<forall>t \<in> set ts. 0 \<le> t \<and> t \<le> until" and "k \<le> 10"
  shows "admitted sha e ts c =
    replicate (min (10 - k) (length ts)) True @ replicate (length ts - (10 - k)) False"
  using assms
proof (induction ts arbitrary: c k expires)
  case (Cons t ts)
  obtain r c1 where check: "check_auth_attempt sha t e None c = (r, c1)" by fastforce
  have t: "0 \<le> t" "t \<le> until" using Cons.prems(5) by auto
  note step = check_within_window [OF Cons.prems(1-4) t check]
  have adm: "admitted sha e (t # ts) c = (\<not> isl r) # admitted sha e ts c1"
    using check by simp
  show ?case
  proof (cases "k = 10")
    case True
    then obtain x where "until \<le> x" and "map_of (tc_data c1) (account_key sha e None) = Some (x, (int 10, until))"
      using step(4) by (auto simp: ACCOUNT_LIMIT_def)
    then have "admitted sha e ts c1 = replicate (min (10 - 10) (length ts)) True @ replicate (length ts - (10 - 10)) False"
      using step Cons.prems(5) by (intro Cons.IH) auto
    then show ?thesis using True adm step(1) by (simp add: ACCOUNT_LIMIT_def)
  next
    case False
    then have k: "k < 10" using Cons.prems(6) by simp
    then obtain x where "until \<le> x" and "map_of (tc_data c1) (account_key sha e None) = Some (x, (int (Suc k), until))"
      using step(4) by (auto simp: ACCOUNT_LIMIT_def algebra_simps)
    then have "admitted sha e ts c1 =
        replicate (min (10 - Suc k) (length ts)) True @ replicate (length ts - (10 - Suc k)) False"
      using step k Cons.prems(5) by (intro Cons.IH) auto
    moreover have "10 - k = Suc (10 - Suc k)" using k by simp
    ultimately show ?thesis using adm step(1) k by (simp add: ACCOUNT_LIMIT_def)
  qed
qed simp

text \<open>
  Of the attempts on one e-mail (no IP known) within the 300 seconds that follow the
  first one, exactly the first ten are admitted, however many are made.
\<close>

theorem account_limit_window:
  fixes ts :: "clock list"
  assumes "attempts_ok c" and "map_of (tc_data c) (email_key sha e) = None"
    and "map_of (tc_data c) (account_key sha e None) = None"
    and "0 \<le> t0" and "\<forall>t \<in> set ts. t0 \<le> t \<and> t \<le> t0 + 300"
  shows "admitted sha e (t0 # ts) c =
    replicate (min 10 (length (t0 # ts))) True @ replicate (length (t0 # ts) - 10) False"
proof -
  let ?a = "account_key sha e None" and ?m = "email_key sha e" and ?until = "t0 + of_int WINDOW_SECONDS"
  define c1 where "c1 = snd (cache_get t0 ?m c)"
  define c2 where "c2 = snd (cache_get t0 ?a c1)"
  define c3 where "c3 = cache_set t0 ?a (1, ?until) (Some (max 1 \<lceil>?until - t0\<rceil>)) c2"
  have en: "cache_enabled c" using assms(1) by (rule attempts_ok_enabled)
  have c1: "cache_get t0 ?m c = (None, c1)" "map_of (tc_data c1) = map_of (tc_data c)" "attempts_ok c1"
    using assms(1,2) en by (auto simp: c1_def) (simp_all add: cache_get_def)
  have c2: "cache_get t0 ?a c1 = (None, c2)" "map_of (tc_data c2) = map_of (tc_data c)" "attempts_ok c2"
    using assms(3) c1 attempts_ok_enabled [OF c1(3)] by (auto simp: c2_def) (simp_all add: cache_get_def)
  have check: "check_auth_attempt sha t0 e None c = (Inr (), c3)"
    using c1(1) c2(1) assms(4) by (simp add: check_auth_attempt_def c3_def ACCOUNT_LIMIT_def)
  have "map_of (tc_data c3) ?a = Some (t0 + of_int (max 1 \<lceil>?until - t0\<rceil>), (int 1, ?until))"
    unfolding c3_def using cache_set_lookup [of c2 "Some (max 1 \<lceil>?until - t0\<rceil>)"] c2(3)
      attempts_ok_enabled [OF c2(3)] by (simp add: attempts_ok_def)
  moreover have "?until \<le> t0 + of_int (max 1 \<lceil>?until - t0\<rceil>)" by linarith
  moreover have "map_of (tc_data c3) ?m = None"
    unfolding c3_def using assms(2) c2(2)
    by (intro cache_set_other_None account_key_neq_email_key [symmetric]) simp
  moreover have "attempts_ok c3" unfolding c3_def using c2(3) by blast
  ultimately have "admitted sha e ts c3 =
      replicate (min (10 - 1) (length ts)) True @ replicate (length ts - (10 - 1)) False"
    using assms(4,5)
    by (intro admitted_within_window
        [where until = ?until and expires = "t0 + of_int (max 1 \<lceil>?until - t0\<rceil>)"])
      (auto simp: WINDOW_SECONDS_def)
  then show ?thesis using check by (simp add: min_def eval_nat_numeral)
qed

text \<open>
  The window is not quite fixed: an attempt close to its end stores the counter for
  at least one more second, and each later attempt made before that expires renews it. After
  attempts at 0, 299.5, 300.4 and 301.3 seconds the count of the window that began at 0 and
  ended at 300 is still alive at 302.2 seconds, with four attempts.
\<close>

theorem window_outlives_its_end:
  "counter 302.2 (account_key id ''a@b.c'' None)
     (fold (\<lambda>t c. snd (check_auth_attempt id t ''a@b.c'' None c)) [0, 299.5, 300.4, 301.3] new_attempts)
   = Some (4, 300)"
  by (simp add: check_auth_attempt_def account_key_def email_key_def new_attempts_def new_cache_def
      cache_get_def cache_set_def cache_enabled_def auth_constants od_move_to_end_def od_delete_def
      counter_def Let_def)

end
