(* ===== verification/Account_Witnesses.thy ===== *)
theory Account_Witnesses
  imports Account_Laws
begin

text \<open>Concrete runs of the account operations, at which the properties apply.\<close>

definition env0 :: env where
  "env0 = \<lparr>n_sha256 = id, n_scrypt = (@), n_clock = 1, n_clock_after = 2, n_now = 0,
     n_salt = ''s'', n_token = ''t'', n_uuid = ''u1''\<rparr>"

definition body0 :: register_request where
  "body0 = \<lparr>lr_email = ''a@b.c'', lr_password = ''senha'', rr_name = ''Ana'', rr_theme = ''light''\<rparr>"

definition request0 :: request where
  "request0 = \<lparr>q_method = ''POST'', q_origin = None, q_client_header = None, q_cookie = None, q_ip = None\<rparr>"

lemmas cache_eval = new_attempts_def new_cache_def cache_get_def cache_set_def cache_enabled_def
  auth_constants od_move_to_end_def od_delete_def counter_def Let_def

lemmas limit_eval = check_auth_attempt_def account_key_def email_key_def ip_key_def
  record_auth_failure_def clear_auth_attempts_def cache_eval

lemma check0: "check_auth_attempt id 1 ''a@b.c'' None new_attempts =
   (Inr (), snd (check_auth_attempt id 1 ''a@b.c'' None new_attempts))"
  by (simp add: limit_eval)

lemma create0: "create_user (new_user env0 body0) empty_db =
   Inr (Some (new_user env0 body0), empty_db\<lparr>users := [new_user env0 body0]\<rparr>)"
  by (simp add: create_user_def empty_db_def)

definition db0 :: db where
  "db0 = empty_db\<lparr>users := [new_user env0 body0],
     user_sessions := [\<lparr>s_token_hash = ''t'', s_user_id = ''u1'', s_expires_at = seconds SESSION_SECONDS\<rparr>]\<rparr>"

definition out0 :: user_out where
  "out0 = \<lparr>uo_id = ''u1'', uo_name = ''Ana'', uo_email = ''a@b.c'', uo_theme = ''light'',
     uo_terms_accepted = True\<rparr>"

lemma start0: "start_session id 0 ''t'' (new_user env0 body0) None
    (empty_db\<lparr>users := [new_user env0 body0]\<rparr>) = Inr ((out0, ''t''), db0)"
  by (simp add: start_session_def add_session_def delete_where_def to_schema_def new_user_def
      env0_def body0_def out0_def db0_def empty_db_def Let_def hash_token_def)

lemma register0: "\<exists>c. register env0 body0 None None new_attempts empty_db = (Inr ((out0, ''t''), db0), c)"
  using check0 create0 start0 unfolding register_def
  by (auto simp: env0_def body0_def split: prod.splits)

lemma db_ok_db0: "db_ok db0"
  using register0 register_ok db_ok_empty by blast

lemma reachable0: "\<exists>c. account_reachable [] False (c, db0)"
proof -
  let ?q = "request0\<lparr>q_client_header := Some ''web''\<rparr>"
  obtain c where "register env0 body0 None None new_attempts empty_db = (Inr ((out0, ''t''), db0), c)"
    using register0 by blast
  then have "api_register [] False env0 ?q body0 new_attempts empty_db =
      (Inr \<lparr>a_user = Some out0, a_cookie = set_session False ''t'', a_no_store = True\<rparr>, c, db0)"
    by (simp add: api_register_def require_trusted_write_def request0_def in_write_session_def)
  then have "account_reachable [] False (c, db0)"
    by (intro account_reachable.more [OF account_reachable.initial] account_step.step_register)
  then show ?thesis by blast
qed

theorem account_api_invariant_witness:
  "\<exists>c. account_reachable [] False (c, db0) \<and> uniques_ok db0 \<and> cache_wf c \<and> users db0 \<noteq> []"
proof -
  obtain c where "account_reachable [] False (c, db0)" using reachable0 by blast
  with account_api_invariant [OF this] show ?thesis by (auto simp: db0_def)
qed

theorem register_authenticates_witness:
  "\<exists>c. register env0 body0 None None new_attempts empty_db = (Inr ((out0, ''t''), db0), c) \<and>
     current_user id 5 (Some ''t'') db0 = Inr (new_user env0 body0)"
proof -
  obtain c where r: "register env0 body0 None None new_attempts empty_db = (Inr ((out0, ''t''), db0), c)"
    using register0 by blast
  have "n_token env0 \<noteq> []" by (simp add: env0_def)
  from register_authenticates [OF r db_ok_empty this, of 5] show ?thesis
    using r by (simp add: env0_def SESSION_SECONDS_def)
qed

definition wrong0 :: login_request where
  "wrong0 = \<lparr>lr_email = ''a@b.c'', lr_password = ''errada''\<rparr>"

theorem login_hides_accounts_witness:
  "login env0 wrong0 None None new_attempts empty_db = login env0 wrong0 None None new_attempts db0"
proof -
  have stored: "u_password_hash (new_user env0 body0) =
      Some (hash_password (@) ''s'' ''senha'')"
    by (simp add: new_user_def env0_def body0_def)
  obtain h hs where h: "hash_password (@) ''s'' ''senha'' = h # hs"
    by (simp add: hash_password_def)
  have "\<not> verify_password (@) ''errada'' (hash_password (@) ''s'' ''senha'')"
    by (simp add: verify_hash_password)
  then have "\<not> verify_password (n_scrypt env0) (lr_password wrong0) (h # hs)"
    by (simp add: h env0_def wrong0_def)
  moreover have "by_email (lr_email wrong0) empty_db = Inr None"
    by (simp add: by_email_def empty_db_def)
  moreover have "by_email (lr_email wrong0) db0 = Inr (Some (new_user env0 body0))"
    by (simp add: by_email_def db0_def wrong0_def new_user_def env0_def body0_def)
  ultimately show ?thesis
    using login_hides_accounts [of wrong0 empty_db db0 "new_user env0 body0" h hs env0 None None new_attempts]
      stored h by simp
qed

theorem login_after_register_witness:
  "\<not> isl (fst (login (env0\<lparr>n_token := ''t2''\<rparr>)
      \<lparr>lr_email = ''a@b.c'', lr_password = ''senha''\<rparr> None None new_attempts db0))"
proof -
  let ?m = "env0\<lparr>n_token := ''t2''\<rparr>" and ?b = "\<lparr>lr_email = ''a@b.c'', lr_password = ''senha''\<rparr>"
  obtain c where r: "register env0 body0 None None new_attempts empty_db = (Inr ((out0, ''t''), db0), c)"
    using register0 by blast
  have check: "check_auth_attempt (n_sha256 ?m) (n_clock ?m) (lr_email body0) None new_attempts =
      (Inr (), snd (check_auth_attempt id 1 ''a@b.c'' None new_attempts))"
    using check0 by (simp add: env0_def body0_def)
  have new: "\<forall>s \<in> set (user_sessions db0). s_token_hash s \<noteq> hash_token (n_sha256 ?m) (n_token ?m)"
    by (simp add: db0_def env0_def hash_token_def)
  have "n_scrypt ?m = n_scrypt env0" and "lr_email ?b = lr_email body0"
    by (simp_all add: env0_def body0_def)
  from login_after_register [OF r db_ok_empty this check new, of None]
  have "isl (fst (login ?m ?b None None new_attempts db0)) =
      (n_scrypt env0 (lr_password ?b) (n_salt env0) \<noteq> n_scrypt env0 (lr_password body0) (n_salt env0))"
    by blast
  then show ?thesis by (simp add: body0_def)
qed


theorem untrusted_write_refused_witness:
  "api_login [] True env0 request0 wrong0 new_attempts db0 = (Inl (raise ForbiddenError), new_attempts, db0)"
  using untrusted_write_refused [of request0 "[]" True env0 body0 new_attempts db0 wrong0 "[]" "[]"]
  by (simp add: request0_def)

theorem failures_lock_email_witness:
  "fst (check_auth_attempt id 64 ''a@b.c'' (Some ''1.2.3.4'')
     (record_failures id ''a@b.c'' [0, 1, 2, 3, 4, 5] new_attempts)) = Inl rate_limit_error"
  by (rule failures_lock_email)
    (simp_all add: EMAIL_FAILURE_TTL_def counter_def cache_get_def new_attempts_def
      new_cache_def attempts_ok_def cache_wf_def)

theorem account_limit_window_witness:
  "admitted id ''a@b.c'' [0, 1, 2, 3, 4, 5, 6, 7, 8, 9, 10, 300] new_attempts =
     replicate 10 True @ [False, False]"
proof -
  have "admitted id ''a@b.c'' (0 # [1, 2, 3, 4, 5, 6, 7, 8, 9, 10, 300]) new_attempts =
    replicate (min 10 (length (0 # [1, 2, 3, 4, 5, 6, 7, 8, 9, 10, 300 :: clock]))) True
      @ replicate (length (0 # [1, 2, 3, 4, 5, 6, 7, 8, 9, 10, 300 :: clock]) - 10) False"
    by (rule account_limit_window) (simp_all add: new_attempts_def new_cache_def attempts_ok_def cache_wf_def WINDOW_SECONDS_def)
  then show ?thesis by (simp del: admitted.simps add: eval_nat_numeral)
qed

definition unknown0 :: login_request where
  "unknown0 = \<lparr>lr_email = ''z@b.c'', lr_password = ''senha''\<rparr>"

lemma unknown_check0: "check_auth_attempt id 1 ''z@b.c'' None new_attempts =
   (Inr (), snd (check_auth_attempt id 1 ''z@b.c'' None new_attempts))"
  by (simp add: limit_eval)

theorem failed_request_rolls_back_witness:
  "\<exists>e c1 d1. api_login [] False env0 (request0\<lparr>q_client_header := Some ''web''\<rparr>) unknown0 new_attempts db0
     = (Inl e, c1, d1) \<and> d1 = db0"
proof -
  let ?q = "request0\<lparr>q_client_header := Some ''web''\<rparr>"
  have "by_email ''z@b.c'' db0 = Inr None"
    by (simp add: by_email_def db0_def new_user_def body0_def env0_def)
  then have "\<exists>e c1. login env0 unknown0 None None new_attempts db0 = (Inl e, c1)"
    using unknown_check0 by (auto simp: login_def unknown0_def env0_def split: prod.splits)
  then obtain e c1 where "login env0 unknown0 None None new_attempts db0 = (Inl e, c1)" by blast
  then have run: "\<exists>d1. api_login [] False env0 ?q unknown0 new_attempts db0 = (Inl e, c1, d1)"
    by (simp add: api_login_def require_trusted_write_def request0_def in_write_session_def)
  then obtain d1 where run: "api_login [] False env0 ?q unknown0 new_attempts db0 = (Inl e, c1, d1)"
    by blast
  with failed_request_rolls_back [where cors = "[]" and production = False and n = env0 and q = ?q
      and lbody = unknown0 and c = new_attempts and d = db0 and e = e and ?c1.0 = c1 and ?d1.0 = d1]
  show ?thesis by blast
qed

end
