(* ===== verification/Json.thy ===== *)
theory Json
  imports Prelude
begin

text \<open>
  Decoded JSON (\<open>response.json()\<close>, \<open>orjson.loads\<close>) as Python values, with the accessors and
  conversions the providers apply to it: \<open>dict.get\<close>, \<open>isinstance\<close>, truthiness and \<open>str\<close>.
\<close>

datatype json =
    JNull | JBool bool | JInt int | JFloat real | JString string
  | JList "json list" | JObject "(string \<times> json) list"

fun is_dict :: "json \<Rightarrow> bool" where
  "is_dict (JObject _) = True"
| "is_dict _ = False"

fun dict_items :: "json \<Rightarrow> (string \<times> json) list" where
  "dict_items (JObject fields) = fields"
| "dict_items _ = []"

text \<open>\<open>d.get(key)\<close>: the value, or \<open>None\<close>. The keys of a decoded object are distinct.\<close>

definition jget :: "json \<Rightarrow> string \<Rightarrow> json" where
  "jget d key =
     (case map_of (dict_items d) key of None \<Rightarrow> JNull | Some v \<Rightarrow> v)"

definition has_key :: "json \<Rightarrow> string \<Rightarrow> bool" where
  "has_key d key \<longleftrightarrow> key \<in> fst ` set (dict_items d)"

fun truthy :: "json \<Rightarrow> bool" where
  "truthy JNull = False"
| "truthy (JBool b) = b"
| "truthy (JInt n) = (n \<noteq> 0)"
| "truthy (JFloat x) = (x \<noteq> 0)"
| "truthy (JString s) = (s \<noteq> [])"
| "truthy (JList xs) = (xs \<noteq> [])"
| "truthy (JObject fields) = (fields \<noteq> [])"

fun as_string :: "json \<Rightarrow> string option" where
  "as_string (JString s) = Some s"
| "as_string _ = None"

fun as_list :: "json \<Rightarrow> json list option" where
  "as_list (JList xs) = Some xs"
| "as_list _ = None"

text \<open>
  \<open>str(value)\<close>. \<open>repr\<close> stands for the shortest decimal text of a float and for the text of a
  list or dictionary.
\<close>

fun py_str :: "(json \<Rightarrow> string) \<Rightarrow> json \<Rightarrow> string" where
  "py_str repr JNull = ''None''"
| "py_str repr (JBool b) = (if b then ''True'' else ''False'')"
| "py_str repr (JInt n) = int_to_string n"
| "py_str repr (JString s) = s"
| "py_str repr v = repr v"

lemma jget_not_dict [simp]: "\<not> is_dict v \<Longrightarrow> jget v k = JNull"
  by (cases v) (auto simp: jget_def)

lemma jget_distinct:
  "distinct (List.map fst fields) \<Longrightarrow> (k, v) \<in> set fields \<Longrightarrow> jget (JObject fields) k = v"
  by (simp add: jget_def)

end
