(* ===== verification/Providers_Base.thy ===== *)
theory Providers_Base
  imports Json Errors
begin

text \<open>
  \<open>app/providers/base.py\<close>: one GET with retries, and the JSON of a successful answer. The
  network is the list of what each request in turn meets.
\<close>

record http_response =
  h_status :: int
  h_url :: string
  h_text :: string
  h_json :: "json option"
  h_retry_after :: string

text \<open>\<open>httpx.TransportError\<close> is a subclass of \<open>httpx.HTTPError\<close>, caught first.\<close>

datatype http_outcome = Answered http_response | TransportFailure | OtherHttpFailure

definition MAX_ATTEMPTS :: nat where "MAX_ATTEMPTS = 3"

definition RETRY_BACKOFF_SECONDS :: real where "RETRY_BACKOFF_SECONDS = 2"

definition TRANSIENT_STATUS :: "int set" where "TRANSIENT_STATUS = {429, 500, 502, 503, 504}"

text \<open>
  The result, the number of requests made and the seconds slept between them. \<open>net k\<close> is what
  request \<open>k\<close> meets.
\<close>

function get_with_retry_from ::
    "string \<Rightarrow> (nat \<Rightarrow> http_outcome) \<Rightarrow> nat \<Rightarrow> (raised + http_response) \<times> real list" where
  "get_with_retry_from url net attempt =
     (if MAX_ATTEMPTS < attempt then (Inl RaisedOther, [])
      else let again = (let (r, slept) = get_with_retry_from url net (attempt + 1) in
                        (r, RETRY_BACKOFF_SECONDS * of_nat attempt # slept)) in
      case net attempt of
        TransportFailure \<Rightarrow>
          if attempt = MAX_ATTEMPTS
          then (Inl (RaisedDomain (mk_error ProviderError
                  [(''url'', DText url), (''attempts'', DInt (int attempt))])), [])
          else again
      | OtherHttpFailure \<Rightarrow>
          (Inl (RaisedDomain (mk_error ProviderError [(''url'', DText url)])), [])
      | Answered response \<Rightarrow>
          if h_status response \<notin> TRANSIENT_STATUS \<or> attempt = MAX_ATTEMPTS
          then (Inr response, [])
          else again)"
  by pat_completeness auto
termination
  by (relation "measure (\<lambda>(_, _, attempt). Suc MAX_ATTEMPTS - attempt)") auto

declare get_with_retry_from.simps [simp del]

definition get_with_retry ::
    "string \<Rightarrow> (nat \<Rightarrow> http_outcome) \<Rightarrow> (raised + http_response) \<times> real list" where
  "get_with_retry url net = get_with_retry_from url net 1"

definition get_json :: "string \<Rightarrow> (nat \<Rightarrow> http_outcome) \<Rightarrow> (raised + json) \<times> real list" where
  "get_json url net =
     (case get_with_retry url net of
        (Inl e, slept) \<Rightarrow> (Inl e, slept)
      | (Inr response, slept) \<Rightarrow>
          if h_status response \<noteq> 200
          then (Inl (RaisedDomain (mk_error ProviderError
                  [(''url'', DText (h_url response)), (''status'', DInt (h_status response)),
                   (''body'', DText (take 500 (h_text response)))])), slept)
          else (case h_json response of
                  None \<Rightarrow> (Inl (RaisedDomain (mk_error ProviderError
                    [(''url'', DText (h_url response)),
                     (''body'', DText (take 500 (h_text response)))])), slept)
                | Some v \<Rightarrow> (Inr v, slept)))"

section \<open>Laws\<close>

text \<open>An outcome that ends the retries before the last attempt.\<close>

fun conclusive :: "http_outcome \<Rightarrow> bool" where
  "conclusive (Answered response) = (h_status response \<notin> TRANSIENT_STATUS)"
| "conclusive TransportFailure = False"
| "conclusive OtherHttpFailure = True"

text \<open>Reference: the first conclusive outcome of the first two requests, else the third outcome.\<close>

definition deciding_attempt :: "(nat \<Rightarrow> http_outcome) \<Rightarrow> nat" where
  "deciding_attempt net = (if conclusive (net 1) then 1 else if conclusive (net 2) then 2 else 3)"

fun outcome_value :: "string \<Rightarrow> http_outcome \<Rightarrow> raised + http_response" where
  "outcome_value url (Answered response) = Inr response"
| "outcome_value url TransportFailure =
     Inl (RaisedDomain (mk_error ProviderError [(''url'', DText url), (''attempts'', DInt 3)]))"
| "outcome_value url OtherHttpFailure =
     Inl (RaisedDomain (mk_error ProviderError [(''url'', DText url)]))"

definition backoffs :: "nat \<Rightarrow> real list" where
  "backoffs k = (if k = 1 then [] else if k = 2 then [2] else [2, 4])"

lemma backoffs_simps [simp]: "backoffs 1 = []" "backoffs (Suc 0) = []" "backoffs 2 = [2]" "backoffs 3 = [2, 4]"
  by (simp_all add: backoffs_def)

lemma get_with_retry_deciding:
  "get_with_retry url net =
     (outcome_value url (net (deciding_attempt net)),
      backoffs (deciding_attempt net))"
proof -
  have last: "get_with_retry_from url net 3 = (outcome_value url (net 3), [])"
    by (subst get_with_retry_from.simps) (simp add: MAX_ATTEMPTS_def Let_def split: http_outcome.split)
  have second: "get_with_retry_from url net 2 =
      (if conclusive (net 2) then (outcome_value url (net 2), [])
       else (outcome_value url (net 3), [4]))"
    by (subst get_with_retry_from.simps)
      (simp add: MAX_ATTEMPTS_def RETRY_BACKOFF_SECONDS_def Let_def last split: http_outcome.split)
  show ?thesis
    unfolding get_with_retry_def
    by (subst get_with_retry_from.simps)
      (simp add: MAX_ATTEMPTS_def RETRY_BACKOFF_SECONDS_def Let_def second [simplified] deciding_attempt_def
        numeral_2_eq_2 [symmetric] split: http_outcome.split)
qed

lemma attempts_upt: "[Suc 0 ..< 2] = [1]" "[Suc 0 ..< 3] = [1, 2]"
  by (simp_all add: upt_rec)

lemma snd_get_json: "snd (get_json url net) = backoffs (deciding_attempt net)"
  by (simp add: get_json_def get_with_retry_deciding split: sum.split option.split)

text \<open>
  Property C7. A JSON fetch makes at most three requests and sleeps at most six seconds; every
  request before the last one met a transport failure or a transient status, and the result, when
  there is one, is the JSON of the last answer, with status 200. Any error it raises is a
  \<open>ProviderError\<close>.
\<close>

theorem get_json_retries:
  assumes "get_json url net = (r, slept)"
  shows "length slept \<le> 2 \<and> sum_list slept \<le> 6 \<and>
    list_all (\<lambda>k. \<not> conclusive (net k)) [1 ..< Suc (length slept)] \<and>
    (case r of
       Inr v \<Rightarrow> (\<exists>a. net (Suc (length slept)) = Answered a \<and> h_status a = 200 \<and> h_json a = Some v)
     | Inl e \<Rightarrow> (\<exists>d. e = RaisedDomain d \<and> err_kind d = ProviderError))"
proof -
  let ?k = "deciding_attempt net"
  have k: "?k = 1 \<or> ?k = 2 \<or> ?k = 3" by (simp add: deciding_attempt_def)
  have slept: "slept = backoffs ?k" and r: "fst (get_json url net) = r"
    using assms snd_get_json [of url net] by simp_all
  have len: "Suc (length slept) = ?k" using k by (auto simp: slept)
  have "list_all (\<lambda>k. \<not> conclusive (net k)) [1 ..< ?k]"
    by (simp add: deciding_attempt_def attempts_upt)
  moreover have "sum_list slept \<le> 6" using k by (auto simp: slept)
  moreover have "case r of
       Inr v \<Rightarrow> (\<exists>a. net ?k = Answered a \<and> h_status a = 200 \<and> h_json a = Some v)
     | Inl e \<Rightarrow> (\<exists>d. e = RaisedDomain d \<and> err_kind d = ProviderError)"
    unfolding r [symmetric]
    by (cases "net ?k") (auto simp: get_json_def get_with_retry_deciding split: option.splits)
  moreover have "length slept \<le> 2" using k len by linarith
  ultimately show ?thesis unfolding len by blast
qed

theorem get_json_retries_witness:
  "let busy = Answered \<lparr>h_status = 503, h_url = [], h_text = [], h_json = None, h_retry_after = []\<rparr>;
       good = Answered \<lparr>h_status = 200, h_url = [], h_text = [], h_json = Some (JInt 7), h_retry_after = []\<rparr>;
       net = (\<lambda>k. if k = 1 then TransportFailure else if k = 2 then busy else good) in
   get_json ''/x'' net = (Inr (JInt 7), [2, 4]) \<and> \<not> conclusive (net 1) \<and> \<not> conclusive (net 2)"
proof -
  define net where "net = (\<lambda>k :: nat. if k = 1 then TransportFailure
    else if k = 2 then Answered \<lparr>h_status = 503, h_url = [], h_text = [], h_json = None, h_retry_after = []\<rparr>
    else Answered \<lparr>h_status = 200, h_url = [], h_text = [], h_json = Some (JInt 7), h_retry_after = []\<rparr>)"
  have run: "get_json ''/x'' net = (Inr (JInt 7), [2, 4])"
    by (simp add: net_def get_json_def get_with_retry_deciding deciding_attempt_def TRANSIENT_STATUS_def)
  from get_json_retries [OF this] have "\<not> conclusive (net 1) \<and> \<not> conclusive (net 2)"
    by (simp add: numeral_2_eq_2)
  with run show ?thesis unfolding net_def Let_def by blast
qed

end
