(* ===== verification/Followed.thy ===== *)
theory Followed
  imports Account_Laws
begin

text \<open>
  Followed municipalities: \<open>app/repositories/followed_municipalities.py\<close>,
  \<open>app/services/followed_municipalities.py\<close> and \<open>app/api/v1/followed_municipalities.py\<close>.
\<close>

section \<open>Repository\<close>

record followed_row =
  w_municipality_code :: string
  w_name :: "string option"
  w_state_code :: "string option"
  w_state_name :: "string option"
  w_state_abbreviation :: "string option"
  w_followed_at :: instant
  w_notifications_enabled :: bool

definition to_row :: "db \<Rightarrow> followed \<Rightarrow> followed_row" where
  "to_row d f =
     (let m = municipality_of (f_municipality_code f) d; s = state_of m d in
      \<lparr>w_municipality_code = f_municipality_code f, w_name = map_option t_name m,
       w_state_code = map_option t_ibge_code s, w_state_name = map_option t_name s,
       w_state_abbreviation = Option.bind s t_abbreviation, w_followed_at = f_created_at f,
       w_notifications_enabled = f_notifications_enabled f\<rparr>)"

definition of_user :: "string \<Rightarrow> db \<Rightarrow> followed list" where
  "of_user user_id d = filter (\<lambda>f. f_user_id f = user_id) (followed_municipalities d)"

text \<open>\<open>ORDER BY created_at DESC, id DESC\<close>: two stable sorts, the second key first.\<close>

definition list_for_user :: "string \<Rightarrow> db \<Rightarrow> followed_row list" where
  "list_for_user user_id d =
     List.map (to_row d)
       (sort_key (\<lambda>f. - f_created_at f) (sort_key (\<lambda>f. - f_id f) (of_user user_id d)))"

definition get_for_user :: "string \<Rightarrow> string \<Rightarrow> db \<Rightarrow> followed_row option" where
  "get_for_user user_id code d =
     map_option (to_row d)
       (select_first (\<lambda>f. f_user_id f = user_id \<and> f_municipality_code f = code)
         (followed_municipalities d))"

text \<open>The \<open>CHECK\<close> constraints of the table and its reference to \<open>users\<close>.\<close>

definition code_format :: "string \<Rightarrow> bool" where
  "code_format code \<longleftrightarrow> length code = 7 \<and> all_digits code"

definition followed_row_allowed :: "followed \<Rightarrow> db \<Rightarrow> bool" where
  "followed_row_allowed f d \<longleftrightarrow>
     code_format (f_municipality_code f) \<and> list_ex (\<lambda>c. c \<noteq> CHR '' '') (f_user_id f) \<and>
     list_ex (\<lambda>u. u_id u = f_user_id f) (users d)"

definition follow_row :: "instant \<Rightarrow> int \<Rightarrow> string \<Rightarrow> string \<Rightarrow> db \<Rightarrow> raised + bool \<times> db" where
  "follow_row now new_id user_id code d =
     (let f = \<lparr>f_id = new_id, f_user_id = user_id, f_municipality_code = code,
               f_notifications_enabled = False, f_notifications_opt_in_at = None, f_created_at = now\<rparr>;
          (created, rows) = insert_ignore same_followed f (followed_municipalities d) in
      if \<not> created then Inr (False, d)
      else if followed_row_allowed f d then Inr (True, d\<lparr>followed_municipalities := rows\<rparr>)
      else Inl RaisedOther)"

definition unfollow_row :: "string \<Rightarrow> string \<Rightarrow> db \<Rightarrow> db" where
  "unfollow_row user_id code d =
     d\<lparr>followed_municipalities :=
         delete_where (\<lambda>f. f_user_id f = user_id \<and> f_municipality_code f = code)
           (followed_municipalities d)\<rparr>"

definition set_notifications_row ::
    "instant \<Rightarrow> string \<Rightarrow> string \<Rightarrow> bool \<Rightarrow> db \<Rightarrow> raised + bool \<times> db" where
  "set_notifications_row now user_id code enabled d =
     (let hit = (\<lambda>f. f_user_id f = user_id \<and> f_municipality_code f = code);
          d' = d\<lparr>followed_municipalities := update_where hit
            (\<lambda>f. f\<lparr>f_notifications_enabled := enabled,
                   f_notifications_opt_in_at := if enabled then Some now else None\<rparr>)
            (followed_municipalities d)\<rparr> in
      case scalar_one_or_none (filter hit (followed_municipalities d)) of
        Inl e \<Rightarrow> Inl e
      | Inr found \<Rightarrow> Inr (found \<noteq> None, d'))"

text \<open>\<open>territories_repo.get_level_by_code\<close>.\<close>

definition get_level_by_code :: "string \<Rightarrow> db \<Rightarrow> raised + territory_level option" where
  "get_level_by_code code d =
     (case scalar_one_or_none (filter (\<lambda>t. t_ibge_code t = code) (territories d)) of
        Inl e \<Rightarrow> Inl e | Inr t \<Rightarrow> Inr (map_option t_level t))"

section \<open>Service\<close>

definition list_followed :: "string \<Rightarrow> db \<Rightarrow> followed_row list" where
  "list_followed user_id d = list_for_user user_id d"

definition follow ::
    "instant \<Rightarrow> int \<Rightarrow> string \<Rightarrow> string \<Rightarrow> db \<Rightarrow> raised + (followed_row \<times> bool) \<times> db" where
  "follow now new_id user_id code d =
     (case get_level_by_code code d of
        Inl e \<Rightarrow> Inl e
      | Inr None \<Rightarrow> Inl (RaisedDomain (territory_not_found code))
      | Inr (Some level) \<Rightarrow>
          if level \<noteq> Municipality
          then Inl (RaisedDomain (invalid_parameter (Some ''municipalityCode'') []))
          else (case follow_row now new_id user_id code d of
                  Inl e \<Rightarrow> Inl e
                | Inr (created, d1) \<Rightarrow>
                    (case get_for_user user_id code d1 of
                       None \<Rightarrow> Inl RaisedOther
                     | Some row \<Rightarrow> Inr ((row, created), d1))))"

definition unfollow :: "string \<Rightarrow> string \<Rightarrow> db \<Rightarrow> db" where
  "unfollow user_id code d = unfollow_row user_id code d"

definition set_notifications ::
    "instant \<Rightarrow> string \<Rightarrow> string \<Rightarrow> bool \<Rightarrow> db \<Rightarrow> raised + followed_row \<times> db" where
  "set_notifications now user_id code enabled d =
     (case set_notifications_row now user_id code enabled d of
        Inl e \<Rightarrow> Inl e
      | Inr (found, d1) \<Rightarrow>
          if \<not> found then Inl (RaisedDomain (followed_not_found code))
          else (case get_for_user user_id code d1 of
                  None \<Rightarrow> Inl RaisedOther
                | Some row \<Rightarrow> Inr (row, d1)))"

section \<open>Handlers\<close>

text \<open>
  The dependencies shared by the \<open>/me\<close> routes, in the order FastAPI resolves them: the origin
  check, the user of the session cookie, then the validation of the request (here: its outcome)
  and the handler in a write session.
\<close>

definition me_write ::
    "string list \<Rightarrow> env \<Rightarrow> request \<Rightarrow> bool \<Rightarrow> (string \<Rightarrow> db \<Rightarrow> raised + 'a \<times> db) \<Rightarrow> db
     \<Rightarrow> (raised + 'a) \<times> db" where
  "me_write cors n q valid act d =
     (case require_trusted_write cors q of
        Inl e \<Rightarrow> (Inl e, d)
      | Inr _ \<Rightarrow> (case current_user (n_sha256 n) (n_now n) (q_cookie q) d of
          Inl e \<Rightarrow> (Inl e, d)
        | Inr u \<Rightarrow> if \<not> valid then (Inl (RaisedValidation []), d)
                   else in_write_session d (act (u_id u) d)))"

definition api_list_followed ::
    "string list \<Rightarrow> env \<Rightarrow> request \<Rightarrow> db \<Rightarrow> (raised + followed_row list) \<times> db" where
  "api_list_followed cors n q d = me_write cors n q True (\<lambda>uid d. Inr (list_followed uid d, d)) d"

text \<open>The status is 201 with a \<open>Location\<close> when the row is new, otherwise 200.\<close>

definition api_follow ::
    "string list \<Rightarrow> env \<Rightarrow> int \<Rightarrow> request \<Rightarrow> string \<Rightarrow> db
     \<Rightarrow> (raised + followed_row \<times> int \<times> string option) \<times> db" where
  "api_follow cors n new_id q code d =
     me_write cors n q (code_format code)
       (\<lambda>uid d. case follow (n_now n) new_id uid code d of
          Inl e \<Rightarrow> Inl e
        | Inr ((row, created), d1) \<Rightarrow>
            Inr ((row, if created then 201 else 200,
                  if created then Some (''/api/v1/me/followed-municipalities/'' @ code) else None), d1)) d"

definition api_unfollow ::
    "string list \<Rightarrow> env \<Rightarrow> request \<Rightarrow> string \<Rightarrow> db \<Rightarrow> (raised + unit) \<times> db" where
  "api_unfollow cors n q code d =
     me_write cors n q (code_format code) (\<lambda>uid d. Inr ((), unfollow uid code d)) d"

definition api_set_notifications ::
    "string list \<Rightarrow> env \<Rightarrow> request \<Rightarrow> string \<Rightarrow> bool \<Rightarrow> db \<Rightarrow> (raised + followed_row) \<times> db" where
  "api_set_notifications cors n q code enabled d =
     me_write cors n q (code_format code)
       (\<lambda>uid d. set_notifications (n_now n) uid code enabled d) d"

section \<open>Laws\<close>

text \<open>The opt-in instant is recorded exactly while notifications are on.\<close>

definition opt_in_ok :: "db \<Rightarrow> bool" where
  "opt_in_ok d \<longleftrightarrow> list_all (\<lambda>f. f_notifications_enabled f =
     (case f_notifications_opt_in_at f of None \<Rightarrow> False | Some _ \<Rightarrow> True)) (followed_municipalities d)"

lemma me_write_cases:
  assumes "me_write cors n q valid act d = (r, d')"
  obtains (refused) e where "r = Inl e" and "d' = d"
    | (acted) u x where "require_trusted_write cors q = Inr ()"
        and "current_user (n_sha256 n) (n_now n) (q_cookie q) d = Inr u" and valid
        and "act (u_id u) d = Inr (x, d')" and "r = Inr x"
  using assms unfolding me_write_def in_write_session_def
  by (auto split: sum.splits if_splits prod.splits)

lemma me_write_rolls_back: "me_write cors n q valid act d = (Inl e, d') \<Longrightarrow> d' = d"
  by (erule me_write_cases) auto

lemma same_followed_iff: "same_followed a b \<longleftrightarrow> f_user_id a = f_user_id b \<and> f_municipality_code a = f_municipality_code b"
  by (simp add: same_followed_def)

lemma follow_row_cases:
  assumes "follow_row now i uid code d = Inr (created, d')"
  obtains (again) f where "created = False" and "d' = d" and "f \<in> set (followed_municipalities d)"
      and "f_user_id f = uid" and "f_municipality_code f = code"
    | (fresh) f where "created" and "d' = d\<lparr>followed_municipalities := followed_municipalities d @ [f]\<rparr>"
      and "f = \<lparr>f_id = i, f_user_id = uid, f_municipality_code = code, f_notifications_enabled = False,
               f_notifications_opt_in_at = None, f_created_at = now\<rparr>"
      and "\<forall>g \<in> set (followed_municipalities d). \<not> (f_user_id g = uid \<and> f_municipality_code g = code)"
      and "uid \<in> u_id ` set (users d)"
proof (cases created)
  case True
  show ?thesis
    by (rule fresh [of "\<lparr>f_id = i, f_user_id = uid, f_municipality_code = code,
          f_notifications_enabled = False, f_notifications_opt_in_at = None, f_created_at = now\<rparr>"])
      (use assms True in \<open>auto simp: follow_row_def insert_ignore_def Let_def list_ex_iff
        same_followed_def followed_row_allowed_def split: if_splits\<close>)
next
  case False
  then show ?thesis using assms again
    by (auto simp: follow_row_def insert_ignore_def Let_def list_ex_iff same_followed_def
        split: if_splits)
qed

lemma follow_cases:
  assumes "follow now i uid code d = Inr ((row, created), d')"
  shows "follow_row now i uid code d = Inr (created, d')" and "get_for_user uid code d' = Some row"
    and "get_level_by_code code d = Inr (Some Municipality)"
  using assms by (auto simp: follow_def split: sum.splits option.splits if_splits prod.splits)

lemma follow_row_ok: "follow_row now i uid code d = Inr (c, d') \<Longrightarrow> db_ok d \<Longrightarrow> db_ok d'"
  by (erule follow_row_cases)
    (auto simp: db_ok_def uniques_ok_def foreign_keys_ok_def no_conflicts_snoc same_followed_def refers_snoc)

lemma follow_row_opt_in: "follow_row now i uid code d = Inr (c, d') \<Longrightarrow> opt_in_ok d \<Longrightarrow> opt_in_ok d'"
  by (erule follow_row_cases) (auto simp: opt_in_ok_def)

lemma set_notifications_row_cases:
  assumes "set_notifications_row now uid code on d = Inr (found, d')"
  shows "d' = d\<lparr>followed_municipalities := update_where
          (\<lambda>f. f_user_id f = uid \<and> f_municipality_code f = code)
          (\<lambda>f. f\<lparr>f_notifications_enabled := on,
                 f_notifications_opt_in_at := if on then Some now else None\<rparr>)
          (followed_municipalities d)\<rparr>"
    and "found \<longleftrightarrow> (\<exists>f \<in> set (followed_municipalities d). f_user_id f = uid \<and> f_municipality_code f = code)"
  using assms
  by (auto simp: set_notifications_row_def Let_def scalar_one_or_none_Inr filter_empty_conv
      split: sum.splits) (metis (mono_tags, lifting) filter_eq_ConsD in_set_conv_decomp)+

lemma set_notifications_row_ok:
  assumes "set_notifications_row now uid code on d = Inr (found, d')" and "db_ok d"
  shows "db_ok d'"
  unfolding set_notifications_row_cases(1) [OF assms(1)] using assms(2)
  by (simp add: db_ok_def uniques_ok_def foreign_keys_ok_def no_conflicts_update_key same_followed_def
      refers_update)

lemma set_notifications_row_opt_in:
  assumes "set_notifications_row now uid code on d = Inr (found, d')" and "opt_in_ok d"
  shows "opt_in_ok d'"
  unfolding set_notifications_row_cases(1) [OF assms(1)] using assms(2)
  by (auto simp: opt_in_ok_def update_where_def list_all_iff)

lemma unfollow_ok: "db_ok d \<Longrightarrow> db_ok (unfollow uid code d)"
  by (auto simp: unfollow_def unfollow_row_def db_ok_def uniques_ok_def foreign_keys_ok_def)

lemma unfollow_opt_in: "opt_in_ok d \<Longrightarrow> opt_in_ok (unfollow uid code d)"
  by (auto simp: unfollow_def unfollow_row_def opt_in_ok_def list_all_iff table_simps)

lemma unfollow_gone:
  "\<not> (\<exists>f \<in> set (followed_municipalities (unfollow uid code d)).
        f_user_id f = uid \<and> f_municipality_code f = code)"
  by (simp add: unfollow_def unfollow_row_def table_simps)

lemma followed_unique:
  assumes "db_ok d" and "f \<in> set (followed_municipalities d)"
  shows "filter (\<lambda>g. f_municipality_code g = f_municipality_code f) (of_user (f_user_id f) d) = [f]"
proof -
  have "no_conflicts same_followed (followed_municipalities d)"
    using assms(1) by (simp add: db_ok_def uniques_ok_def)
  from filter_key_unique [OF this, of "\<lambda>g. (f_user_id g, f_municipality_code g)", OF _ assms(2)]
  show ?thesis by (simp add: same_followed_def of_user_def)
qed

text \<open>
  Following a municipality leaves it exactly once in the user's list: it is created (with
  notifications off) when it was missing and otherwise nothing changes, doing it again answers the same row
  and creates nothing, the other users' lists do not change, and unfollowing removes exactly that municipality.
\<close>

theorem follow_is_idempotent:
  assumes "follow now i uid code d = Inr ((row, created), d')" and "db_ok d"
  shows "(\<exists>f. filter (\<lambda>g. f_municipality_code g = code) (of_user uid d') = [f] \<and> row = to_row d' f) \<and>
    created = (filter (\<lambda>g. f_municipality_code g = code) (of_user uid d) = []) \<and>
    (if created then w_notifications_enabled row = False \<and> w_followed_at row = now else d' = d) \<and>
    follow now' i' uid code d' = Inr ((row, False), d') \<and>
    (uid' = uid \<or> of_user uid' d' = of_user uid' d) \<and>
    of_user uid (unfollow uid code d') = filter (\<lambda>g. f_municipality_code g \<noteq> code) (of_user uid d) \<and> db_ok d'"
proof -
  note parts = follow_cases [OF assms(1)]
  have ok: "db_ok d'" using follow_row_ok [OF parts(1) assms(2)] .
  obtain f where f: "f \<in> set (followed_municipalities d')" "f_user_id f = uid" "f_municipality_code f = code"
    and row: "row = to_row d' f"
    using parts(2) by (auto simp: get_for_user_def dest: select_first_Some)
  have one: "filter (\<lambda>g. f_municipality_code g = code) (of_user uid d') = [f]"
    using followed_unique [OF ok f(1)] f(2,3) by simp
  have shape: "if created then f = \<lparr>f_id = i, f_user_id = uid, f_municipality_code = code,
        f_notifications_enabled = False, f_notifications_opt_in_at = None, f_created_at = now\<rparr> \<and>
        d' = d\<lparr>followed_municipalities := followed_municipalities d @ [f]\<rparr> \<and>
        filter (\<lambda>g. f_municipality_code g = code) (of_user uid d) = []
      else d' = d"
    using parts(1)
  proof (cases rule: follow_row_cases)
    case (fresh g)
    then have "f = g" using f by auto
    with fresh show ?thesis by (auto simp: of_user_def filter_empty_conv)
  qed simp
  have again: "follow now' i' uid code d' = Inr ((row, False), d')"
  proof -
    have "get_level_by_code code d' = Inr (Some Municipality)"
      using parts(3) shape by (auto simp: get_level_by_code_def split: if_splits)
    moreover have "follow_row now' i' uid code d' = Inr (False, d')"
      using f by (auto simp: follow_row_def insert_ignore_def same_followed_def list_ex_iff Let_def)
    ultimately show ?thesis using parts(2) by (simp add: follow_def)
  qed
  have "of_user uid (unfollow uid code d') = filter (\<lambda>g. f_municipality_code g \<noteq> code) (of_user uid d)"
    using shape f(2,3)
    by (auto simp: of_user_def unfollow_def unfollow_row_def delete_where_def split: if_splits
        intro: filter_cong)
  moreover have "created = (filter (\<lambda>g. f_municipality_code g = code) (of_user uid d) = [])"
    using shape one by (auto split: if_splits)
  ultimately show ?thesis using one row again shape ok
    by (auto simp: to_row_def Let_def of_user_def split: if_splits)
qed

end
