(* ===== verification/Read_Through.thy ===== *)
theory Read_Through
  imports TTL_Cache Errors
begin

text \<open>
  The read-through pattern of the services: \<open>cached = cache.get(key)\<close>, return it unless it is
  \<open>None\<close>, otherwise compute the value and \<open>cache.set(key, value)\<close>. \<open>now\<close> and \<open>later\<close> are
  the clock readings of the two calls. The laws bound the age of what is served.
\<close>

definition read_through ::
    "clock \<Rightarrow> clock \<Rightarrow> 'k \<Rightarrow> (unit \<Rightarrow> raised + 'v) \<Rightarrow> ('k, 'v) ttl_cache
     \<Rightarrow> (raised + 'v) \<times> ('k, 'v) ttl_cache" where
  "read_through now later key load c =
     (case cache_get now key c of
        (Some v, c1) \<Rightarrow> (Inr v, c1)
      | (None, c1) \<Rightarrow>
          (case load () of
             Inl e \<Rightarrow> (Inl e, c1)
           | Inr v \<Rightarrow> (Inr v, cache_set later key v None c1)))"

text \<open>\<open>cache_loaded L c\<close>: every entry was loaded (\<open>L k t v\<close>: \<open>v\<close> for \<open>k\<close> at time \<open>t\<close>) and
  expires a time to live after that.\<close>

definition cache_loaded :: "('k \<Rightarrow> clock \<Rightarrow> 'v \<Rightarrow> bool) \<Rightarrow> ('k, 'v) ttl_cache \<Rightarrow> bool" where
  "cache_loaded L c \<longleftrightarrow>
     (\<forall>k e v. (k, (e, v)) \<in> set (tc_data c) \<longrightarrow> L k (e - of_int (tc_ttl c)) v)"

lemma cache_loaded_new [simp]: "cache_loaded L (new_cache t m)"
  by (simp add: cache_loaded_def new_cache_def)

lemma cache_loaded_clear [simp]: "cache_loaded L (cache_clear c)"
  by (simp add: cache_loaded_def cache_clear_def)

lemma cache_loaded_get: "cache_loaded L c \<Longrightarrow> cache_loaded L (snd (cache_get now k c))"
  using cache_entries_get [of now k c] by (auto simp: cache_loaded_def)

lemma cache_entries_set_default:
  assumes "p \<in> set (tc_data (cache_set now k v None c))"
  shows "p \<in> set (tc_data c) \<or> p = (k, (now + of_int (tc_ttl c), v))"
proof -
  have "set (AList.update k x ys) \<subseteq> insert (k, x) (set ys)" for x and ys :: "('a \<times> real \<times> 'b) list"
    by (induction ys) auto
  then have "set (od_move_to_end k (AList.update k x (tc_data c))) \<subseteq> insert (k, x) (set (tc_data c))" for x
    by (fastforce simp: od_move_to_end_def od_simps update_conv' split: option.splits)
  then show ?thesis
    using assms set_evict_oldest unfolding cache_set_def Let_def by (fastforce split: if_splits)
qed

lemma cache_loaded_set: "cache_loaded L c \<Longrightarrow> L k now v \<Longrightarrow> cache_loaded L (cache_set now k v None c)"
  using cache_entries_set_default [of _ now k v c] unfolding cache_loaded_def by fastforce

lemma cache_loaded_hit:
  assumes "cache_loaded L c" and "fst (cache_get now k c) = Some v"
  shows "\<exists>t. L k t v \<and> now \<le> t + of_int (tc_ttl c)"
proof -
  obtain e where "(k, (e, v)) \<in> set (tc_data c)" and "now \<le> e"
    using assms(2) by (auto simp: cache_get_Some_entry dest: map_of_SomeD)
  then show ?thesis using assms(1) by (intro exI [of _ "e - of_int (tc_ttl c)"]) (auto simp: cache_loaded_def)
qed

lemma cache_loaded_mono: "cache_loaded L c \<Longrightarrow> (\<And>k t v. L k t v \<Longrightarrow> M k t v) \<Longrightarrow> cache_loaded M c"
  by (auto simp: cache_loaded_def)

lemma read_through_params [simp]: "tc_ttl (snd (read_through now later k load c)) = tc_ttl c"
  by (simp add: read_through_def split: prod.split option.split sum.split)
    (metis cache_get_params(1) cache_set_params(1) snd_conv)

lemma read_through_loaded:
  assumes "cache_loaded L c" and "\<And>v. load () = Inr v \<Longrightarrow> L k later v"
  shows "cache_loaded L (snd (read_through now later k load c))"
proof -
  obtain r c1 where g: "cache_get now k c = (r, c1)" by force
  have "cache_loaded L c1" using cache_loaded_get [OF assms(1), of now k] by (simp add: g)
  then show ?thesis using assms(2)
    by (auto simp: read_through_def g cache_loaded_set split: option.split sum.split)
qed

lemma read_through_value:
  assumes "cache_loaded L c" and "\<And>v. load () = Inr v \<Longrightarrow> L k later v"
    and "fst (read_through now later k load c) = Inr v"
  shows "load () = Inr v \<or> (\<exists>t. L k t v \<and> now \<le> t + of_int (tc_ttl c))"
proof -
  obtain r c1 where g: "cache_get now k c = (r, c1)" by force
  show ?thesis
    using assms(3) cache_loaded_hit [OF assms(1), of now k v]
    by (auto simp: read_through_def g split: option.splits sum.splits)
qed

lemma read_through_error:
  "fst (read_through now later k load c) = Inl e \<Longrightarrow> load () = Inl e"
  by (auto simp: read_through_def split: prod.splits option.splits sum.splits)

lemma read_through_wf: "cache_wf c \<Longrightarrow> cache_wf (snd (read_through now later k load c))"
  by (auto simp: read_through_def cache_wf_set dest: cache_wf_get_eq split: prod.split option.split sum.split)

text \<open>A run of reads of one key against a changing store.\<close>

fun read_run ::
    "'k \<Rightarrow> ('s \<Rightarrow> raised + 'v) \<Rightarrow> (clock \<times> 's) list \<Rightarrow> ('k, 'v) ttl_cache \<Rightarrow> (raised + 'v) list" where
  "read_run k load [] c = []"
| "read_run k load ((now, s) # calls) c =
     (let (r, c1) = read_through now now k (\<lambda>_. load s) c in r # read_run k load calls c1)"

lemma length_read_run [simp]: "length (read_run k load calls c) = length calls"
  by (induction k load calls c rule: read_run.induct) (auto split: prod.splits)

text \<open>Every value served was the store's value at some earlier call, at most a time to live ago.\<close>

lemma read_run_fresh_gen:
  assumes "cache_loaded (\<lambda>k' t v. k' = k \<longrightarrow> (\<exists>s. (t, s) \<in> past \<and> load s = Inr v)) c"
    and "i < length calls" and "read_run k load calls c ! i = Inr v"
  shows "\<exists>t s. (t, s) \<in> past \<union> set (take (Suc i) calls) \<and> load s = Inr v \<and>
    fst (calls ! i) \<le> t + of_int (max 0 (tc_ttl c))"
  using assms
proof (induction calls arbitrary: c i past)
  case (Cons call calls)
  obtain now s where call: "call = (now, s)" by force
  let ?L = "\<lambda>past k' t v. k' = k \<longrightarrow> (\<exists>s. (t, s) \<in> past \<and> load s = Inr v)"
  obtain r c1 where rt: "read_through now now k (\<lambda>_. load s) c = (r, c1)" by force
  have "cache_loaded (?L (insert (now, s) past)) c"
    using Cons.prems(1) by (rule cache_loaded_mono) auto
  from read_through_loaded [OF this, of "\<lambda>_. load s" k now now]
  have loaded: "cache_loaded (?L (insert (now, s) past)) c1" by (auto simp: rt)
  have ttl: "tc_ttl c1 = tc_ttl c" using read_through_params [of now now k "\<lambda>_. load s" c] by (simp add: rt)
  show ?case
  proof (cases i)
    case 0
    then have r: "r = Inr v" using Cons.prems(3) by (simp add: call rt)
    have "cache_loaded (?L (insert (now, s) past)) c"
      using Cons.prems(1) by (rule cache_loaded_mono) auto
    from read_through_value [OF this, of "\<lambda>_. load s" k now now v] r
    have "load s = Inr v \<or> (\<exists>t s'. ((t, s') = (now, s) \<or> (t, s') \<in> past) \<and> load s' = Inr v \<and>
        now \<le> t + of_int (tc_ttl c))"
      by (auto simp: rt)
    then show ?thesis using 0 by (fastforce simp: call)
  next
    case (Suc j)
    then have "read_run k load calls c1 ! j = Inr v" using Cons.prems(3) by (simp add: call rt)
    from Cons.IH [OF loaded _ this] Cons.prems(2) Suc ttl show ?thesis
      by (fastforce simp: call)
  qed
qed simp

lemma read_run_fresh:
  assumes "i < length calls" and "read_run k load calls (new_cache ttl m) ! i = Inr v"
  shows "\<exists>j \<le> i. load (snd (calls ! j)) = Inr v \<and>
    fst (calls ! i) \<le> fst (calls ! j) + of_int (max 0 ttl)"
proof -
  have "cache_loaded (\<lambda>k' t v. k' = k \<longrightarrow> (\<exists>s. (t, s) \<in> {} \<and> load s = Inr v)) (new_cache ttl m)"
    by simp
  from read_run_fresh_gen [OF this assms] obtain t s where "(t, s) \<in> set (take (Suc i) calls)"
    and "load s = Inr v" and "fst (calls ! i) \<le> t + of_int (max 0 ttl)"
    by (auto simp: new_cache_def)
  then show ?thesis by (auto simp: in_set_conv_nth) (metis fst_conv less_Suc_eq_le snd_conv)
qed

lemma read_run_total:
  assumes "i < length calls" and "\<And>s. \<exists>v. load s = Inr v"
  shows "\<exists>v. read_run k load calls c ! i = Inr v"
  using assms(1)
proof (induction calls arbitrary: c i)
  case (Cons call calls)
  obtain now s where call: "call = (now, s)" by force
  obtain r c1 where rt: "read_through now now k (\<lambda>_. load s) c = (r, c1)" by force
  have "\<exists>v. r = Inr v"
    using assms(2) [of s] read_through_error [of now now k "\<lambda>_. load s" c] rt by (cases r) auto
  then show ?case using Cons by (cases i) (auto simp: call rt)
qed simp

end
