(* ===== verification/Jobs.thy ===== *)
theory Jobs
  imports Database Errors
begin

text \<open>
  The ingestion runner \<open>app/jobs/_runner.py\<close>: the report a job fills in, the row of
  \<open>ingestion_runs\<close> that is opened before and closed after it, and the upsert of the dataset
  it reads. A job body returns its result, the report and the database it leaves: what it
  committed when it raised, its working state when it returned.
\<close>

section \<open>The report\<close>

record run_report =
  rp_processed :: int
  rp_written :: int
  rp_failed :: int
  rp_details :: "(string \<times> string) list"
  rp_failures :: "(string \<times> string) list"

definition new_report :: run_report where
  "new_report = \<lparr>rp_processed = 0, rp_written = 0, rp_failed = 0, rp_details = [], rp_failures = []\<rparr>"

definition record_failure :: "string \<Rightarrow> string \<Rightarrow> run_report \<Rightarrow> run_report" where
  "record_failure scope err rep = rep\<lparr>rp_failures := rp_failures rep @ [(scope, err)]\<rparr>"

definition report_status :: "run_report \<Rightarrow> ingestion_status" where
  "report_status rep =
     (if rp_failures rep \<noteq> [] \<and> rp_written rep = 0 \<and> rp_processed rep \<le> rp_failed rep then Failed
      else if rp_failures rep \<noteq> [] then Partial
      else Succeeded)"

section \<open>Runs and datasets\<close>

text \<open>
  \<open>id\<close> is drawn from the identity sequence and \<open>now\<close> is the start of the transaction.
\<close>

definition start_run ::
    "int \<Rightarrow> instant \<Rightarrow> string \<Rightarrow> string \<Rightarrow> string option \<Rightarrow> db \<Rightarrow> int \<times> db" where
  "start_run run_id now job source dataset_code d =
     (run_id, d\<lparr>ingestion_runs := ingestion_runs d @
        [\<lparr>r_id = run_id, r_job = job, r_source = source, r_dataset_code = dataset_code,
          r_status = Running, r_started_at = now, r_finished_at = None,
          r_processed = 0, r_written = 0, r_failed = 0, r_error = None, r_details = None\<rparr>]\<rparr>)"

definition run_details :: "(string \<times> string \<Rightarrow> string) \<Rightarrow> run_report \<Rightarrow> (string \<times> string) list option" where
  "run_details show rep =
     (let failures = (if rp_failures rep = [] then []
                      else [(''failures'', join '', '' (List.map show (rp_failures rep)))]);
          details = (if failures = [] then rp_details rep
                     else AList.update ''failures'' (snd (hd failures)) (rp_details rep)) in
      if details = [] then None else Some details)"

text \<open>\<open>status or (FAILED if error else report.status)\<close>; no caller passes \<open>status\<close>.\<close>

definition close_run ::
    "(string \<times> string \<Rightarrow> string) \<Rightarrow> instant \<Rightarrow> run_report \<Rightarrow> string option \<Rightarrow> ingestion_run
     \<Rightarrow> ingestion_run" where
  "close_run show now rep err r =
     r\<lparr>r_status := (case err of Some (c # cs) \<Rightarrow> Failed | _ \<Rightarrow> report_status rep),
       r_finished_at := Some now, r_processed := rp_processed rep,
       r_written := rp_written rep, r_failed := rp_failed rep,
       r_error := err, r_details := run_details show rep\<rparr>"

definition finish_run ::
    "(string \<times> string \<Rightarrow> string) \<Rightarrow> instant \<Rightarrow> int \<Rightarrow> run_report \<Rightarrow> string option \<Rightarrow> db
     \<Rightarrow> raised + db" where
  "finish_run show now run_id rep err d =
     (case filter (\<lambda>r. r_id r = run_id) (ingestion_runs d) of
        [_] \<Rightarrow> Inr (d\<lparr>ingestion_runs := update_where (\<lambda>r. r_id r = run_id)
          (close_run show now rep err) (ingestion_runs d)\<rparr>)
      | _ \<Rightarrow> Inl RaisedOther)"

text \<open>
  \<open>ON CONFLICT ... DO UPDATE\<close> keeps the \<open>id\<close>, and keeps \<open>source_updated_at\<close> when the
  new value is \<open>None\<close>.
\<close>

definition merge_dataset :: "dataset \<Rightarrow> dataset \<Rightarrow> dataset" where
  "merge_dataset r x =
     x\<lparr>ds_name := ds_name r, ds_url := ds_url r,
       ds_source_updated_at :=
         (case ds_source_updated_at r of None \<Rightarrow> ds_source_updated_at x | Some t \<Rightarrow> Some t)\<rparr>"

definition upsert_dataset :: "dataset \<Rightarrow> db \<Rightarrow> int \<times> db" where
  "upsert_dataset r d =
     (let rows = insert_or_update same_dataset merge_dataset r (datasets d) in
      (case select_first (same_dataset r) rows of None \<Rightarrow> ds_id r | Some x \<Rightarrow> ds_id x,
       d\<lparr>datasets := rows\<rparr>))"

text \<open>\<open>describe\<close> is the text stored for an exception; it starts with the name of its class.\<close>

definition job_session ::
    "(string \<times> string \<Rightarrow> string) \<Rightarrow> (raised \<Rightarrow> string) \<Rightarrow> int \<Rightarrow> instant \<Rightarrow> instant
     \<Rightarrow> string \<Rightarrow> string \<Rightarrow> string option
     \<Rightarrow> (int \<Rightarrow> db \<Rightarrow> (raised + 'a) \<times> run_report \<times> db) \<Rightarrow> db \<Rightarrow> (raised + 'a) \<times> db" where
  "job_session show describe new_id started finished job source dataset_code body d =
     (let (run_id, d1) = start_run new_id started job source dataset_code d;
          (result, rep, d2) = body run_id d1 in
      case result of
        Inl e \<Rightarrow>
          (case finish_run show finished run_id rep (Some (describe e)) d2 of
             Inl e' \<Rightarrow> (Inl e', d2)
           | Inr d3 \<Rightarrow> (Inl e, d3))
      | Inr x \<Rightarrow>
          (case finish_run show finished run_id rep None d2 of
             Inl e' \<Rightarrow> (Inl e', d2)
           | Inr d3 \<Rightarrow> (Inr x, d3)))"

section \<open>Laws\<close>

lemma report_status_cases:
  "report_status rep = Succeeded \<longleftrightarrow> rp_failures rep = []"
  "report_status rep = Failed \<longleftrightarrow>
     rp_failures rep \<noteq> [] \<and> rp_written rep = 0 \<and> rp_processed rep \<le> rp_failed rep"
  "report_status rep \<noteq> Running"
  by (auto simp: report_status_def)

interpretation datasets_table: upsert_table same_dataset "insert_ignore same_dataset"
    "insert_or_update same_dataset merge_dataset" merge_dataset
  by (rule insert_or_update_table) (auto simp: same_dataset_def merge_dataset_def)

definition runs_of :: "int \<Rightarrow> db \<Rightarrow> ingestion_run list" where
  "runs_of run_id d = filter (\<lambda>r. r_id r = run_id) (ingestion_runs d)"

lemma filter_update_where:
  assumes "\<And>r. f (h r) = f r"
  shows "filter (\<lambda>r. f r = k) (update_where (\<lambda>r. f r = k) h rs) = List.map h (filter (\<lambda>r. f r = k) rs)"
    and "filter (\<lambda>r. f r \<noteq> k) (update_where (\<lambda>r. f r = k) h rs) = filter (\<lambda>r. f r \<noteq> k) rs"
  by (induction rs) (auto simp: update_where_def assms)

lemma r_id_close_run [simp]: "r_id (close_run show now rep err r) = r_id r"
  by (simp add: close_run_def)

lemma finish_run_Inr:
  assumes "runs_of rid d = [r]"
  obtains d' where "finish_run show now rid rep err d = Inr d'"
    and "runs_of rid d' = [close_run show now rep err r]"
    and "filter (\<lambda>r. r_id r \<noteq> rid) (ingestion_runs d') = filter (\<lambda>r. r_id r \<noteq> rid) (ingestion_runs d)"
  using assms that
  by (auto simp: finish_run_def runs_of_def filter_update_where [of r_id])

text \<open>
  Property C8. Whatever a job does (as long as it keeps its own run row), the row it opened is closed:
  it is \<open>failed\<close> with the error text when the body raised, otherwise it carries the status of
  the report and its counts. The exception is passed on, and the other runs keep their rows.
\<close>

theorem job_session_closes_run:
  assumes "job_session show describe rid t0 t1 job source code body d = (result, d')"
    and "body rid (snd (start_run rid t0 job source code d)) = (outcome, rep, d2)"
    and "runs_of rid d2 = [r]" and "\<forall>e. describe e \<noteq> []"
  shows "result = outcome \<and>
    filter (\<lambda>r. r_id r \<noteq> rid) (ingestion_runs d') = filter (\<lambda>r. r_id r \<noteq> rid) (ingestion_runs d2) \<and>
    (\<exists>r'. runs_of rid d' = [r'] \<and> r_finished_at r' = Some t1 \<and> r_status r' \<noteq> Running \<and>
       r_processed r' = rp_processed rep \<and> r_written r' = rp_written rep \<and> r_failed r' = rp_failed rep \<and>
       (case outcome of
          Inl e \<Rightarrow> r_status r' = Failed \<and> r_error r' = Some (describe e)
        | Inr _ \<Rightarrow> r_status r' = report_status rep \<and> r_error r' = None))"
proof -
  define err where "err = (case outcome of Inl e \<Rightarrow> Some (describe e) | Inr _ \<Rightarrow> None)"
  define r' where "r' = close_run show t1 rep err r"
  obtain d3 where d3: "finish_run show t1 rid rep err d2 = Inr d3" "runs_of rid d3 = [r']"
    "filter (\<lambda>r. r_id r \<noteq> rid) (ingestion_runs d3) = filter (\<lambda>r. r_id r \<noteq> rid) (ingestion_runs d2)"
    using finish_run_Inr [OF assms(3)] unfolding r'_def by metis
  have res: "result = outcome" "d' = d3"
    using assms(1,2) d3(1)
    by (auto simp: job_session_def start_run_def err_def Let_def split: sum.splits)
  have closed: "r_finished_at r' = Some t1" "r_processed r' = rp_processed rep"
    "r_written r' = rp_written rep" "r_failed r' = rp_failed rep" "r_error r' = err"
    by (simp_all add: r'_def close_run_def)
  have "r_status r' = (case outcome of Inl e \<Rightarrow> Failed | Inr _ \<Rightarrow> report_status rep)"
    using assms(4) by (auto simp: r'_def close_run_def err_def split: sum.split list.split)
  then have "r_status r' \<noteq> Running \<and> (case outcome of
      Inl e \<Rightarrow> r_status r' = Failed \<and> r_error r' = Some (describe e)
    | Inr _ \<Rightarrow> r_status r' = report_status rep \<and> r_error r' = None)"
    using closed(5) report_status_cases(3) [of rep]
    by (simp add: err_def split: sum.splits)
  then show ?thesis using closed d3 res by blast
qed

theorem job_session_closes_run_witness:
  "\<exists>r. runs_of 1 (snd (job_session (\<lambda>_. []) (\<lambda>_. ''ProviderError'') 1 0 5 ''job'' ''inmet'' None
       (\<lambda>_ d. (Inl RaisedOther :: raised + unit, new_report\<lparr>rp_processed := 3\<rparr>, d)) empty_db)) = [r] \<and>
     r_status r = Failed \<and> r_processed r = 3"
proof -
  let ?d = "snd (start_run 1 0 ''job'' ''inmet'' None empty_db)"
  let ?body = "\<lambda>(_ :: int) d. (Inl RaisedOther :: raised + unit, new_report\<lparr>rp_processed := 3\<rparr>, d)"
  obtain result d' where run: "job_session (\<lambda>_. []) (\<lambda>_. ''ProviderError'') 1 0 5 ''job'' ''inmet'' None
      ?body empty_db = (result, d')"
    by (cases "job_session (\<lambda>_. []) (\<lambda>_. ''ProviderError'') 1 0 5 ''job'' ''inmet'' None ?body empty_db")
  from job_session_closes_run [OF run refl, of "hd (ingestion_runs ?d)"]
  show ?thesis unfolding run
    by (auto simp: runs_of_def start_run_def empty_db_def)
qed

end
