(* ===== verification/Weather_Alerts.thy ===== *)
theory Weather_Alerts
  imports Read_Through Jobs
begin

text \<open>
  Official weather alerts: the upsert of \<open>app/jobs/_weather_alerts.py\<close>, the queries of
  \<open>app/repositories/weather.py\<close> over alerts and ingestion runs, and \<open>app/services/weather.py\<close>
  (severity scale, cached collection of active alerts, status of the sources).
\<close>

section \<open>Enumerations of \<open>app/schemas/weather.py\<close>\<close>

datatype alert_category = Meteorological | GeoHydrological

datatype severity_level = Moderate | High | VeryHigh | Extreme | Potential | Danger | OtherLevel

fun level_text :: "severity_level \<Rightarrow> string" where
  "level_text Moderate = ''moderate''"
| "level_text High = ''high''"
| "level_text VeryHigh = ''very_high''"
| "level_text Extreme = ''extreme''"
| "level_text Potential = ''potential''"
| "level_text Danger = ''danger''"
| "level_text OtherLevel = ''other''"

datatype source_status = SourceOk | SourceStale | SourceUnavailable

section \<open>Severity and category\<close>

definition category_for :: "string \<Rightarrow> alert_category" where
  "category_for provider = (if provider = ''cemaden'' then GeoHydrological else Meteorological)"

definition severity_level_for :: "string \<Rightarrow> string \<Rightarrow> severity_level" where
  "severity_level_for provider severity =
     (let text = py_lower (py_strip severity); has = (\<lambda>p. contains_text p text) in
      if provider = ''cemaden'' then
        (if has ''muito alto'' then VeryHigh
         else if has ''extremo'' then Extreme
         else if has ''alto'' then High
         else if has ''moderado'' then Moderate
         else Moderate)
      else if has ''grande perigo'' \<or> has ''extremo'' then Extreme
      else if has ''muito alto'' then VeryHigh
      else if has ''potencial'' \<or> has ''moderado'' then Moderate
      else if has ''perigo'' \<or> has ''alto'' then High
      else Moderate)"

section \<open>Upsert of the alerts read from a provider\<close>

record alert_record =
  ar_external_id :: string
  ar_event :: string
  ar_severity :: string
  ar_color :: "string option"
  ar_description :: "string option"
  ar_onset :: instant
  ar_expires :: instant
  ar_polygon :: geometry
  ar_affected_ibge_codes :: "string list"
  ar_risks :: "string list"
  ar_instructions :: "string list"

text \<open>
  The row proposed for a record; \<open>to_polygon\<close> stands for the PostGIS conversion of the GeoJSON
  (\<open>ST_Multi\<close> of the polygonal part of the repaired geometry).
\<close>

definition proposed_row ::
    "(geometry \<Rightarrow> geometry) \<Rightarrow> weather_provider \<Rightarrow> int \<Rightarrow> alert_record \<Rightarrow> weather_alert" where
  "proposed_row to_polygon provider new_id r =
     \<lparr>a_id = new_id, a_provider = provider, a_external_id = ar_external_id r, a_event = ar_event r,
      a_severity = ar_severity r, a_color = ar_color r, a_description = ar_description r,
      a_onset = ar_onset r, a_expires = ar_expires r, a_polygon = to_polygon (ar_polygon r),
      a_affected_ibge_codes = ar_affected_ibge_codes r, a_risks = ar_risks r,
      a_instructions = ar_instructions r\<rparr>"

definition alert_changed :: "(geometry \<Rightarrow> geometry \<Rightarrow> bool) \<Rightarrow> weather_alert \<Rightarrow> weather_alert \<Rightarrow> bool" where
  "alert_changed st_equals target excluded \<longleftrightarrow>
     a_expires target \<noteq> a_expires excluded \<or> a_severity target \<noteq> a_severity excluded \<or>
     a_description target \<noteq> a_description excluded \<or> a_event target \<noteq> a_event excluded \<or>
     a_color target \<noteq> a_color excluded \<or> a_onset target \<noteq> a_onset excluded \<or>
     a_affected_ibge_codes target \<noteq> a_affected_ibge_codes excluded \<or>
     a_risks target \<noteq> a_risks excluded \<or> a_instructions target \<noteq> a_instructions excluded \<or>
     \<not> st_equals (a_polygon target) (a_polygon excluded)"

definition merge_alert ::
    "(geometry \<Rightarrow> geometry \<Rightarrow> bool) \<Rightarrow> weather_alert \<Rightarrow> weather_alert \<Rightarrow> weather_alert" where
  "merge_alert st_equals excluded target =
     (if alert_changed st_equals target excluded
      then excluded\<lparr>a_id := a_id target, a_provider := a_provider target,
                    a_external_id := a_external_id target\<rparr>
      else target)"

text \<open>
  One row of the statement. Rows are numbered by the identity sequence whether or not they are
  inserted. A row that conflicts with one this statement inserted or updated is an error
  (\<open>ON CONFLICT DO UPDATE command cannot affect row a second time\<close>); \<open>touched\<close> holds the keys
  written so far and its length is the number of affected rows.
\<close>

definition upsert_alert_row ::
    "(geometry \<Rightarrow> geometry \<Rightarrow> bool) \<Rightarrow> weather_alert \<Rightarrow> weather_alert list \<times> weather_alert list
     \<Rightarrow> raised + weather_alert list \<times> weather_alert list" where
  "upsert_alert_row st_equals r = (\<lambda>(touched, t).
     if list_ex (same_alert r) touched then Inl RaisedOther
     else Inr ((case select_first (same_alert r) t of
                  None \<Rightarrow> touched @ [r]
                | Some x \<Rightarrow> if alert_changed st_equals x r then touched @ [r] else touched),
               insert_or_update same_alert (merge_alert st_equals) r t))"

fun upsert_alert_rows ::
    "(geometry \<Rightarrow> geometry \<Rightarrow> bool) \<Rightarrow> weather_alert list \<Rightarrow> weather_alert list \<times> weather_alert list
     \<Rightarrow> raised + weather_alert list \<times> weather_alert list" where
  "upsert_alert_rows st_equals [] s = Inr s"
| "upsert_alert_rows st_equals (r # rs) s =
     (case upsert_alert_row st_equals r s of
        Inl e \<Rightarrow> Inl e | Inr s1 \<Rightarrow> upsert_alert_rows st_equals rs s1)"

definition upsert_alerts ::
    "(geometry \<Rightarrow> geometry) \<Rightarrow> (geometry \<Rightarrow> geometry \<Rightarrow> bool) \<Rightarrow> (nat \<Rightarrow> int)
     \<Rightarrow> weather_provider \<Rightarrow> alert_record list \<Rightarrow> db \<Rightarrow> raised + int \<times> db" where
  "upsert_alerts to_polygon st_equals new_id provider records d =
     (if records = [] then Inr (0, d)
      else case upsert_alert_rows st_equals
             (map2 (\<lambda>i r. proposed_row to_polygon provider (new_id i) r) [0 ..< length records] records)
             ([], weather_alerts d) of
             Inl e \<Rightarrow> Inl e
           | Inr (touched, t) \<Rightarrow> Inr (int (length touched), d\<lparr>weather_alerts := t\<rparr>))"

section \<open>Queries\<close>

text \<open>\<open>WHERE expires > now() ORDER BY onset DESC\<close>.\<close>

definition list_active_alerts :: "instant \<Rightarrow> db \<Rightarrow> weather_alert list" where
  "list_active_alerts now d =
     sort_key (\<lambda>a. - a_onset a) (filter (\<lambda>a. a_expires a > now) (weather_alerts d))"

text \<open>\<open>SELECT DISTINCT ON (job) ... ORDER BY job, started_at DESC\<close> for one job.\<close>

definition latest_run :: "string \<Rightarrow> db \<Rightarrow> ingestion_run option" where
  "latest_run job d =
     (case sort_key (\<lambda>r. - r_started_at r)
             (filter (\<lambda>r. r_job r = job \<and> (case r_finished_at r of None \<Rightarrow> False | Some _ \<Rightarrow> True)
                \<and> r_status r \<noteq> Running) (ingestion_runs d)) of
        [] \<Rightarrow> None | r # _ \<Rightarrow> Some r)"

section \<open>Service\<close>

record alert_feature =
  af_id :: string
  af_provider :: string
  af_category :: alert_category
  af_event :: string
  af_severity :: string
  af_level :: severity_level
  af_color :: "string option"
  af_description :: "string option"
  af_onset :: instant
  af_expires :: instant
  af_affected_ibge_codes :: "string list"
  af_risks :: "string list"
  af_instructions :: "string list"
  af_geometry :: string

definition alert_feature_of :: "(geometry \<Rightarrow> string) \<Rightarrow> weather_alert \<Rightarrow> alert_feature" where
  "alert_feature_of geojson a =
     (let p = provider_value (a_provider a) in
      \<lparr>af_id = p @ '':'' @ a_external_id a, af_provider = p, af_category = category_for p,
       af_event = a_event a, af_severity = a_severity a,
       af_level = severity_level_for p (a_severity a), af_color = a_color a,
       af_description = a_description a, af_onset = a_onset a, af_expires = a_expires a,
       af_affected_ibge_codes = a_affected_ibge_codes a, af_risks = a_risks a,
       af_instructions = a_instructions a, af_geometry = geojson (a_polygon a)\<rparr>)"

record alerts_response =
  al_body :: string
  al_etag :: string

text \<open>
  \<open>geojson\<close>, \<open>to_json\<close> and \<open>blake2b\<close> stand for \<open>ST_AsGeoJSON\<close>, the JSON writer and the
  hexadecimal 8-byte digest.
\<close>

record render =
  rd_geojson :: "geometry \<Rightarrow> string"
  rd_to_json :: "alert_feature list \<Rightarrow> string"
  rd_blake2b :: "string \<Rightarrow> string"

definition alerts_of :: "render \<Rightarrow> instant \<Rightarrow> db \<Rightarrow> alerts_response" where
  "alerts_of rd now d =
     (let body = rd_to_json rd (List.map (alert_feature_of (rd_geojson rd)) (list_active_alerts now d)) in
      \<lparr>al_body = body, al_etag = ''W/'' @ [CHR 0x22] @ ''alerts:'' @ rd_blake2b rd body @ [CHR 0x22]\<rparr>)"

definition ALERTS_TTL :: int where "ALERTS_TTL = 90"

definition new_alerts_cache :: "(string, alerts_response) ttl_cache" where
  "new_alerts_cache = new_cache ALERTS_TTL 1"

definition get_alerts ::
    "render \<Rightarrow> clock \<Rightarrow> clock \<Rightarrow> instant \<Rightarrow> db \<Rightarrow> (string, alerts_response) ttl_cache
     \<Rightarrow> (raised + alerts_response) \<times> (string, alerts_response) ttl_cache" where
  "get_alerts rd clk later now d c =
     read_through clk later ''alerts'' (\<lambda>_. Inr (alerts_of rd now d)) c"

definition etag_matches :: "string \<Rightarrow> string \<Rightarrow> bool" where
  "etag_matches if_none_match etag \<longleftrightarrow>
     list_ex (\<lambda>tag. py_strip tag = etag) (py_split (CHR '','') if_none_match)"

text \<open>The handler: an empty 304 when the client already holds the body, else a 200.\<close>

definition api_alerts :: "string \<Rightarrow> alerts_response \<Rightarrow> int \<times> string" where
  "api_alerts if_none_match r =
     (if etag_matches if_none_match (al_etag r) then (304, []) else (200, al_body r))"

text \<open>\<open>_status_for\<close>; no source of the table has a \<open>zero_output_key\<close>.\<close>

definition STALE_MULTIPLIER :: int where "STALE_MULTIPLIER = 3"

definition status_for :: "instant \<Rightarrow> int \<Rightarrow> ingestion_run option \<Rightarrow> source_status \<times> instant option" where
  "status_for now frequency_seconds row =
     (case row of None \<Rightarrow> (SourceUnavailable, None)
      | Some r \<Rightarrow> (case r_finished_at r of None \<Rightarrow> (SourceUnavailable, None)
          | Some finished \<Rightarrow>
              if r_status r = Failed then (SourceUnavailable, None)
              else if now - finished > seconds (frequency_seconds * STALE_MULTIPLIER)
              then (SourceStale, Some finished)
              else (SourceOk, Some finished)))"

definition SOURCE_DEFINITIONS :: "(string \<times> string) list" where
  "SOURCE_DEFINITIONS =
     [(''import_weather_inmet_alerts'', ''inmet_alerts''),
      (''import_weather_cemaden_alerts'', ''cemaden_alerts'')]"

definition get_sources :: "instant \<Rightarrow> int \<Rightarrow> db \<Rightarrow> (string \<times> source_status \<times> instant option) list" where
  "get_sources now frequency d =
     List.map (\<lambda>(job, key). (key, status_for now frequency (latest_run job d))) SOURCE_DEFINITIONS"

section \<open>Laws of the upsert\<close>

lemma merge_alert_key [simp]:
  "a_provider (merge_alert q r x) = a_provider x" "a_external_id (merge_alert q r x) = a_external_id x"
  "a_id (merge_alert q r x) = a_id x"
  by (simp_all add: merge_alert_def)

interpretation alerts_table: upsert_table same_alert "insert_ignore same_alert"
    "insert_or_update same_alert (merge_alert q)" "merge_alert q" for q
  by (rule insert_or_update_table) (auto simp: same_alert_def)

lemma alert_changed_merge: "(\<And>g. q g g) \<Longrightarrow> \<not> alert_changed q (merge_alert q r x) r"
  by (simp add: merge_alert_def alert_changed_def)

lemma alert_changed_id [simp]: "alert_changed q x (r\<lparr>a_id := i\<rparr>) = alert_changed q x r"
  by (simp add: alert_changed_def)

lemma upsert_alert_rows_fold:
  assumes "no_conflicts same_alert rs" and "\<forall>r \<in> set rs. \<forall>x \<in> set touched. \<not> same_alert r x"
  shows "\<exists>w. upsert_alert_rows q rs (touched, t) =
    Inr (touched @ w, fold (insert_or_update same_alert (merge_alert q)) rs t) \<and> set w \<subseteq> set rs \<and>
    ((\<forall>r \<in> set rs. \<exists>x \<in> set t. same_alert r x) \<longrightarrow>
     (\<forall>r \<in> set rs. \<forall>x \<in> set t. same_alert r x \<longrightarrow> \<not> alert_changed q x r) \<longrightarrow> w = [])"
  using assms
proof (induction rs arbitrary: touched t)
  case (Cons r rs)
  obtain v where v: "upsert_alert_row q r (touched, t) =
      Inr (touched @ v, insert_or_update same_alert (merge_alert q) r t)" and v_sub: "set v \<subseteq> {r}"
    and v_nil: "(\<exists>x \<in> set t. same_alert r x) \<longrightarrow>
      (\<forall>x \<in> set t. same_alert r x \<longrightarrow> \<not> alert_changed q x r) \<longrightarrow> v = []"
  proof (cases "select_first (same_alert r) t")
    case None
    then have "\<forall>x \<in> set t. \<not> same_alert r x" by (simp add: select_first_None)
    then show ?thesis using Cons.prems(2) None that [of "[r]"]
      by (auto simp: upsert_alert_row_def list_ex_iff)
  next
    case (Some x)
    then have "x \<in> set t" and "same_alert r x" using select_first_Some by fast+
    then show ?thesis using Cons.prems(2) Some that [of "if alert_changed q x r then [r] else []"]
      by (cases "alert_changed q x r") (auto simp: upsert_alert_row_def list_ex_iff)
  qed
  have nc: "no_conflicts same_alert rs" and apart: "\<forall>z \<in> set rs. \<not> same_alert r z"
    using Cons.prems(1) by (auto simp: no_conflicts_def)
  have "\<forall>z \<in> set rs. \<forall>x \<in> set (touched @ v). \<not> same_alert z x"
    using Cons.prems(2) apart v_sub alerts_table.conflict_sym by fastforce
  from Cons.IH [OF nc this, of "insert_or_update same_alert (merge_alert q) r t"]
  obtain w where w: "upsert_alert_rows q rs (touched @ v, insert_or_update same_alert (merge_alert q) r t) =
      Inr ((touched @ v) @ w, fold (insert_or_update same_alert (merge_alert q)) rs
        (insert_or_update same_alert (merge_alert q) r t))"
    and sub: "set w \<subseteq> set rs"
    and nil: "(\<forall>z \<in> set rs. \<exists>x \<in> set (insert_or_update same_alert (merge_alert q) r t). same_alert z x) \<longrightarrow>
       (\<forall>z \<in> set rs. \<forall>x \<in> set (insert_or_update same_alert (merge_alert q) r t).
          same_alert z x \<longrightarrow> \<not> alert_changed q x z) \<longrightarrow> w = []" by blast
  show ?case
  proof (intro exI [of _ "v @ w"] conjI impI)
    assume all: "\<forall>z \<in> set (r # rs). \<exists>x \<in> set t. same_alert z x"
      and same: "\<forall>z \<in> set (r # rs). \<forall>x \<in> set t. same_alert z x \<longrightarrow> \<not> alert_changed q x z"
    have "insert_or_update same_alert (merge_alert q) r t = t"
      using all same by (intro alerts_table.ups_noop) (auto simp: merge_alert_def)
    then show "v @ w = []" using v_nil nil all same by auto
  qed (use v w v_sub sub in auto)
qed simp

definition proposed_rows ::
    "(geometry \<Rightarrow> geometry) \<Rightarrow> (nat \<Rightarrow> int) \<Rightarrow> weather_provider \<Rightarrow> alert_record list \<Rightarrow> weather_alert list" where
  "proposed_rows tp new_id p rs =
     map2 (\<lambda>i r. proposed_row tp p (new_id i) r) [0 ..< length rs] rs"

lemma proposed_row_key [simp]:
  "a_provider (proposed_row tp p i r) = p"
  "a_external_id (proposed_row tp p i r) = ar_external_id r"
  by (simp_all add: proposed_row_def)

lemma set_proposed_rows:
  "a \<in> set (proposed_rows tp new_id p rs) \<longleftrightarrow>
     (\<exists>i < length rs. a = proposed_row tp p (new_id i) (rs ! i))"
proof -
  have "length (proposed_rows tp new_id p rs) = length rs"
    and "i < length rs \<Longrightarrow> proposed_rows tp new_id p rs ! i = proposed_row tp p (new_id i) (rs ! i)" for i
    by (simp_all add: proposed_rows_def)
  then show ?thesis unfolding in_set_conv_nth by metis
qed

lemma no_conflicts_proposed:
  "distinct (List.map ar_external_id rs) \<Longrightarrow> no_conflicts same_alert (proposed_rows tp new_id p rs)"
  by (auto simp: no_conflicts_def sorted_wrt_iff_nth_less proposed_rows_def same_alert_def
      proposed_row_def nth_eq_iff_index_eq distinct_conv_nth)

lemma alert_changed_proposed:
  "alert_changed q x (proposed_row tp p i r) = alert_changed q x (proposed_row tp p j r)"
  by (simp add: alert_changed_def proposed_row_def)

lemma length_upsert_ge: "\<exists>new. insert_or_update same_alert (merge_alert q) r t =
    List.map (\<lambda>x. if same_alert r x then merge_alert q r x else x) t @ new"
  by (auto simp: insert_or_update_def list_ex_iff intro: map_idI [symmetric])

lemma weather_alerts_update: "weather_alerts (d\<lparr>weather_alerts := t\<rparr>) = t"
  by simp

lemma fold_upsert_ids:
  "\<exists>new. List.map a_id (fold (insert_or_update same_alert (merge_alert q)) rs t) = List.map a_id t @ new"
proof (induction rs arbitrary: t)
  case (Cons r rs)
  obtain new where n: "insert_or_update same_alert (merge_alert q) r t =
      List.map (\<lambda>x. if same_alert r x then merge_alert q r x else x) t @ new"
    using length_upsert_ge by blast
  have "List.map a_id (insert_or_update same_alert (merge_alert q) r t) = List.map a_id t @ List.map a_id new"
    unfolding n by (simp add: o_def if_distrib [of a_id] cong: if_cong)
  then show ?case using Cons.IH [of "insert_or_update same_alert (merge_alert q) r t"] by fastforce
qed simp

text \<open>A row carries a record: all it says is in the row, up to equality of the polygons.\<close>

definition carries :: "(geometry \<Rightarrow> geometry \<Rightarrow> bool) \<Rightarrow> (geometry \<Rightarrow> geometry) \<Rightarrow> alert_record \<Rightarrow> weather_alert \<Rightarrow> bool" where
  "carries st_equals to_polygon r a \<longleftrightarrow>
     a_external_id a = ar_external_id r \<and> a_event a = ar_event r \<and> a_severity a = ar_severity r \<and>
     a_color a = ar_color r \<and> a_description a = ar_description r \<and> a_onset a = ar_onset r \<and>
     a_expires a = ar_expires r \<and> st_equals (a_polygon a) (to_polygon (ar_polygon r)) \<and>
     a_affected_ibge_codes a = ar_affected_ibge_codes r \<and> a_risks a = ar_risks r \<and>
     a_instructions a = ar_instructions r"

lemma unchanged_carries:
  "a_external_id a = ar_external_id r \<Longrightarrow> \<not> alert_changed q a (proposed_row tp p i r) \<Longrightarrow> carries q tp r a"
  by (simp add: carries_def alert_changed_def proposed_row_def)

text \<open>What a feed makes of the table: the run, and the rows that are stored and that are kept.\<close>

definition fed ::
    "(geometry \<Rightarrow> geometry) \<Rightarrow> (geometry \<Rightarrow> geometry \<Rightarrow> bool) \<Rightarrow> (nat \<Rightarrow> int) \<Rightarrow> weather_provider \<Rightarrow> alert_record list \<Rightarrow> db \<Rightarrow> db" where
  "fed tp st_equals new_id p rs d =
     d\<lparr>weather_alerts := fold (insert_or_update same_alert (merge_alert st_equals)) (proposed_rows tp new_id p rs) (weather_alerts d)\<rparr>"

lemma upsert_alerts_run:
  assumes "distinct (List.map ar_external_id rs)"
  shows "\<exists>w :: weather_alert list. upsert_alerts tp q new_id p rs d = Inr (int (length w), fed tp q new_id p rs d)"
proof (cases "rs = []")
  case True
  then show ?thesis by (intro exI [of _ "[]"]) (simp add: upsert_alerts_def fed_def proposed_rows_def)
next
  case False
  obtain w where "upsert_alert_rows q (proposed_rows tp new_id p rs) ([], weather_alerts d) = Inr (w, weather_alerts (fed tp q new_id p rs d))"
    using upsert_alert_rows_fold [OF no_conflicts_proposed [OF assms], where touched = "[]" and q = q and t = "weather_alerts d", of tp new_id p]
    unfolding fed_def weather_alerts_update by auto
  then show ?thesis using False by (intro exI [of _ w]) (simp add: upsert_alerts_def proposed_rows_def fed_def)
qed

lemma fed_unique: "no_conflicts same_alert (weather_alerts d) \<Longrightarrow> no_conflicts same_alert (weather_alerts (fed tp q new_id p rs d))"
  unfolding fed_def weather_alerts_update by (rule alerts_table.ups_all_unique)

lemma fed_stores:
  assumes "distinct (List.map ar_external_id rs)" and "\<And>g. q g g" and "r \<in> set rs"
  shows "\<exists>a \<in> set (weather_alerts (fed tp q new_id p rs d)). a_provider a = p \<and> a_external_id a = ar_external_id r \<and>
    \<not> alert_changed q a (proposed_row tp p 0 r)"
proof -
  obtain i where i: "i < length rs" "r = rs ! i" using assms(3) by (auto simp: in_set_conv_nth)
  let ?r = "proposed_row tp p (new_id i) r"
  have "?r \<in> set (proposed_rows tp new_id p rs)" using i by (auto simp: set_proposed_rows)
  then obtain a where a: "a \<in> set (weather_alerts (fed tp q new_id p rs d))" "a = ?r \<or>
      (\<exists>y \<in> set (weather_alerts d). same_alert ?r y \<and> a = merge_alert q ?r y)"
    using alerts_table.ups_all_written [OF no_conflicts_proposed [OF assms(1)]] unfolding fed_def weather_alerts_update by blast
  then have "\<not> alert_changed q a ?r"
    using alert_changed_merge assms(2) by (auto simp: alert_changed_def)
  then show ?thesis using a alert_changed_proposed [of q a tp p "new_id i" r 0]
    by (intro bexI [OF _ a(1)]) (auto simp: same_alert_def proposed_row_def)
qed

lemma fed_keeps:
  assumes "a \<in> set (weather_alerts d)" and "a_provider a \<noteq> p \<or> a_external_id a \<notin> ar_external_id ` set rs"
  shows "a \<in> set (weather_alerts (fed tp q new_id p rs d))"
  unfolding fed_def weather_alerts_update
proof (rule alerts_table.ups_all_others [OF assms(1)], intro ballI)
  fix r assume "r \<in> set (proposed_rows tp new_id p rs)"
  then obtain i where i: "i < length rs" "r = proposed_row tp p (new_id i) (rs ! i)"
    by (auto simp: set_proposed_rows)
  then have "ar_external_id (rs ! i) \<in> ar_external_id ` set rs" by (metis image_eqI nth_mem)
  then show "\<not> same_alert r a" using assms(2) i(2) unfolding same_alert_def
    by (metis proposed_row_key)
qed

lemma fed_again:
  assumes "no_conflicts same_alert (weather_alerts d)" and "distinct (List.map ar_external_id rs)" and "\<And>g. q g g"
  shows "upsert_alerts tp q new_id' p rs (fed tp q new_id p rs d) = Inr (0, fed tp q new_id p rs d)"
proof (cases "rs = []")
  case True
  then show ?thesis by (simp add: upsert_alerts_def)
next
  case False
  let ?d = "fed tp q new_id p rs d" and ?P = "proposed_rows tp new_id' p rs"
  have row: "(\<exists>x \<in> set (weather_alerts ?d). same_alert r x) \<and>
      (\<forall>x \<in> set (weather_alerts ?d). same_alert r x \<longrightarrow> \<not> alert_changed q x r)" if r: "r \<in> set ?P" for r
  proof -
    obtain i where i: "i < length rs" "r = proposed_row tp p (new_id' i) (rs ! i)"
      using r by (auto simp: set_proposed_rows)
    obtain a where a: "a \<in> set (weather_alerts ?d)" "a_provider a = p" "a_external_id a = ar_external_id (rs ! i)"
        "\<not> alert_changed q a (proposed_row tp p 0 (rs ! i))"
      using fed_stores [OF assms(2), of q "rs ! i" tp new_id p d] assms(3) i by auto
    have key: "same_alert r a" using a i by (simp add: same_alert_def proposed_row_def)
    have "x = a" if "x \<in> set (weather_alerts ?d)" "same_alert r x" for x
      by (rule alerts_table.unique_lookup [OF fed_unique [OF assms(1)] that(1) a(1)])
        (rule alerts_table.conflict_trans [OF alerts_table.conflict_sym [OF that(2)] key])
    then show ?thesis
      using a key alert_changed_proposed [of q a tp p "new_id' i" "rs ! i" 0] i(2) by metis
  qed
  then have again: "fold (insert_or_update same_alert (merge_alert q)) ?P (weather_alerts ?d) = weather_alerts ?d"
    by (intro alerts_table.ups_all_noop) (auto simp: merge_alert_def)
  have "\<exists>w. upsert_alert_rows q ?P ([], weather_alerts ?d) = Inr ([] @ w, weather_alerts ?d) \<and> set w \<subseteq> set ?P \<and>
      ((\<forall>r \<in> set ?P. \<exists>x \<in> set (weather_alerts ?d). same_alert r x) \<longrightarrow>
       (\<forall>r \<in> set ?P. \<forall>x \<in> set (weather_alerts ?d). same_alert r x \<longrightarrow> \<not> alert_changed q x r) \<longrightarrow> w = [])"
    using upsert_alert_rows_fold [OF no_conflicts_proposed [OF assms(2)], where touched = "[]" and q = q and t = "weather_alerts ?d", of tp new_id' p] unfolding again by simp
  then have "upsert_alert_rows q ?P ([], weather_alerts ?d) = Inr ([], weather_alerts ?d)"
    using row by (metis append_Nil)
  then show ?thesis using False by (simp add: upsert_alerts_def proposed_rows_def)
qed

text \<open>
  Property C9. A feed without repeated identifiers is always stored: afterwards the table has
  exactly one row per alert read, with the content read; rows of other alerts are untouched; every
  alert known before keeps its primary key (so its notification events stay attached); and storing
  the same feed again writes nothing.
\<close>

theorem upsert_alerts_mirrors_feed:
  assumes "no_conflicts same_alert (weather_alerts d)" and "distinct (List.map ar_external_id rs)"
    and "\<And>g. st_equals g g"
  shows "\<exists>n d'. upsert_alerts tp st_equals new_id p rs d = Inr (n, d') \<and>
    no_conflicts same_alert (weather_alerts d') \<and>
    (\<forall>r \<in> set rs. \<exists>a \<in> set (weather_alerts d'). a_provider a = p \<and> carries st_equals tp r a) \<and>
    (\<forall>a \<in> set (weather_alerts d). a_provider a \<noteq> p \<or> a_external_id a \<notin> ar_external_id ` set rs \<longrightarrow>
       a \<in> set (weather_alerts d')) \<and>
    (\<exists>new. List.map a_id (weather_alerts d') = List.map a_id (weather_alerts d) @ new) \<and>
    upsert_alerts tp st_equals new_id' p rs d' = Inr (0, d')"
proof -
  obtain w :: "weather_alert list" where run: "upsert_alerts tp st_equals new_id p rs d = Inr (int (length w), fed tp st_equals new_id p rs d)"
    using upsert_alerts_run [OF assms(2)] by blast
  show ?thesis
  proof (intro exI conjI ballI impI)
    show "upsert_alerts tp st_equals new_id p rs d = Inr (int (length w), fed tp st_equals new_id p rs d)" by (rule run)
    show "no_conflicts same_alert (weather_alerts (fed tp st_equals new_id p rs d))" by (rule fed_unique [OF assms(1)])
    show "\<exists>a \<in> set (weather_alerts (fed tp st_equals new_id p rs d)). a_provider a = p \<and> carries st_equals tp r a" if "r \<in> set rs" for r
      using fed_stores [where q = st_equals, OF assms(2,3) that] unchanged_carries by blast
    show "a \<in> set (weather_alerts (fed tp st_equals new_id p rs d))"
      if "a \<in> set (weather_alerts d)" "a_provider a \<noteq> p \<or> a_external_id a \<notin> ar_external_id ` set rs" for a
      by (rule fed_keeps [OF that])
    show "List.map a_id (weather_alerts (fed tp st_equals new_id p rs d)) = List.map a_id (weather_alerts d) @
        drop (length (weather_alerts d)) (List.map a_id (weather_alerts (fed tp st_equals new_id p rs d)))"
      using fold_upsert_ids [of st_equals "proposed_rows tp new_id p rs" "weather_alerts d"] unfolding fed_def weather_alerts_update
      by (metis append_eq_conv_conj length_map)
    show "upsert_alerts tp st_equals new_id' p rs (fed tp st_equals new_id p rs d) = Inr (0, fed tp st_equals new_id p rs d)"
      by (rule fed_again [where q = st_equals, OF assms])
  qed
qed

definition feed0 :: "alert_record list" where
  "feed0 = [\<lparr>ar_external_id = ''7'', ar_event = ''Chuva'', ar_severity = ''Perigo'', ar_color = None,
     ar_description = None, ar_onset = 0, ar_expires = hours 6, ar_polygon = ''P'',
     ar_affected_ibge_codes = [''3550308''], ar_risks = [], ar_instructions = []\<rparr>]"

theorem upsert_alerts_mirrors_feed_witness:
  "\<exists>n d'. upsert_alerts id (=) (\<lambda>_. 1) Inmet feed0 empty_db = Inr (n, d') \<and>
     (\<exists>a \<in> set (weather_alerts d'). a_external_id a = ''7'') \<and>
     upsert_alerts id (=) (\<lambda>_. 9) Inmet feed0 d' = Inr (0, d')"
proof -
  have "no_conflicts same_alert (weather_alerts empty_db)" and "distinct (List.map ar_external_id feed0)"
    by (simp_all add: empty_db_def feed0_def)
  from upsert_alerts_mirrors_feed [OF this, of "(=)" id "\<lambda>_. 1" Inmet "\<lambda>_. 9"]
  show ?thesis by (auto simp: feed0_def carries_def)
qed

section \<open>Laws of the service\<close>

text \<open>
  The severity scale of CEMADEN (whose levels are \<open>Moderado\<close>, \<open>Alto\<close>, \<open>Muito Alto\<close>) and of INMET
  (\<open>Perigo Potencial\<close>, \<open>Perigo\<close>, \<open>Grande Perigo\<close>) never yields the last three members of the enumeration.
\<close>

lemma severity_level_range: "severity_level_for p s \<in> {Moderate, High, VeryHigh, Extreme}"
  by (simp add: severity_level_for_def Let_def)

lemma severity_levels_of_providers:
  "severity_level_for ''cemaden'' ''Muito Alto'' = VeryHigh"
  "severity_level_for ''cemaden'' ''Alto'' = High"
  "severity_level_for ''cemaden'' ''Moderado'' = Moderate"
  "severity_level_for ''inmet'' ''Grande Perigo'' = Extreme"
  "severity_level_for ''inmet'' ''Perigo'' = High"
  "severity_level_for ''inmet'' ''Perigo Potencial'' = Moderate"
  by code_simp+

lemma set_list_active_alerts:
  "a \<in> set (list_active_alerts now d) \<longleftrightarrow> a \<in> set (weather_alerts d) \<and> now < a_expires a"
  by (simp add: list_active_alerts_def)

text \<open>Calls of \<open>get_alerts\<close> one after another; each sees the database and the two clocks of its time.\<close>

fun alerts_served ::
    "render \<Rightarrow> (clock \<times> instant \<times> db) list \<Rightarrow> (string, alerts_response) ttl_cache
     \<Rightarrow> (raised + alerts_response) list" where
  "alerts_served rd [] c = []"
| "alerts_served rd ((clk, now, d) # calls) c =
     (let (r, c1) = get_alerts rd clk clk now d c in r # alerts_served rd calls c1)"

lemma alerts_served_read_run:
  "alerts_served rd calls c = read_run ''alerts'' (\<lambda>(now, d). Inr (alerts_of rd now d)) calls c"
  by (induction rd calls c rule: alerts_served.induct)
    (auto simp: get_alerts_def split: prod.split)

text \<open>
  Whoever asks for the alerts receives, without an error, exactly the rendering of the alerts
  that were active in the database at some call at most 90 seconds earlier (with its own ETag).
\<close>

theorem alerts_at_most_90s_old:
  assumes "i < length calls"
  shows "\<exists>j \<le> i. fst (calls ! i) \<le> fst (calls ! j) + 90 \<and>
    alerts_served rd calls new_alerts_cache ! i =
      Inr (alerts_of rd (fst (snd (calls ! j))) (snd (snd (calls ! j))))"
proof -
  let ?load = "\<lambda>(now, d). Inr (alerts_of rd now d) :: raised + alerts_response"
  obtain v where v: "read_run ''alerts'' ?load calls new_alerts_cache ! i = Inr v"
    using read_run_total [OF assms, of ?load "''alerts''"] by (auto split: prod.split)
  from read_run_fresh [OF assms v [unfolded new_alerts_cache_def]] show ?thesis
    unfolding alerts_served_read_run v by (auto simp: ALERTS_TTL_def case_prod_unfold)
qed

theorem alerts_at_most_90s_old_witness:
  "\<forall>rd. \<exists>j \<le> (1 :: nat). alerts_served rd [(0, 0, empty_db), (90, seconds 90, empty_db)] new_alerts_cache ! 1 =
     Inr (alerts_of rd (if j = 0 then 0 else seconds 90) empty_db)"
proof
  fix rd
  let ?calls = "[(0, 0, empty_db), (90, seconds 90, empty_db)] :: (clock \<times> instant \<times> db) list"
  have "\<exists>j \<le> 1. fst (?calls ! 1) \<le> fst (?calls ! j) + 90 \<and>
    alerts_served rd ?calls new_alerts_cache ! 1 =
      Inr (alerts_of rd (fst (snd (?calls ! j))) (snd (snd (?calls ! j))))"
    by (rule alerts_at_most_90s_old) simp
  then obtain j where j: "j \<le> (1 :: nat)" "alerts_served rd ?calls new_alerts_cache ! 1 =
      Inr (alerts_of rd (fst (snd (?calls ! j))) (snd (snd (?calls ! j))))" by blast
  moreover from j(1) have "j = 0 \<or> j = 1" by linarith
  ultimately show "\<exists>j \<le> (1 :: nat). alerts_served rd ?calls new_alerts_cache ! 1 =
      Inr (alerts_of rd (if j = 0 then 0 else seconds 90) empty_db)"
    by (intro exI [of _ j]) (auto simp del: alerts_served.simps)
qed

lemma status_for_cases:
  "fst (status_for now f row) = SourceUnavailable \<longleftrightarrow>
     (case row of None \<Rightarrow> True | Some r \<Rightarrow> r_finished_at r = None \<or> r_status r = Failed)"
  by (auto simp: status_for_def split: option.split)

end
