(* ===== verification/Notifications.thy ===== *)
theory Notifications
  imports Followed Weather_Alerts "HOL-Library.Product_Lexorder"
begin

text \<open>
  Push notifications: \<open>app/schemas/notification.py\<close> (validation of a subscription),
  \<open>app/repositories/notifications.py\<close> (the statements), \<open>app/providers/push.py\<close> (the errors of
  one send), \<open>app/services/notifications.py\<close> (the dispatch) and \<open>app/jobs/dispatch_notifications.py\<close>.
\<close>

section \<open>Subscriptions\<close>

text \<open>What \<open>urlsplit\<close> finds in the endpoint; an invalid port raises, which is a validation error too.\<close>

record split_url =
  su_scheme :: string
  su_hostname :: "string option"
  su_port :: "int option"
  su_port_valid :: bool
  su_username :: "string option"
  su_password :: "string option"
  su_fragment :: string

definition PUSH_DOMAINS :: "string list" where
  "PUSH_DOMAINS = [''push.services.mozilla.com'', ''push.apple.com'', ''notify.windows.com'',
     ''wns.windows.com'']"

definition blank :: "string option \<Rightarrow> bool" where
  "blank s \<longleftrightarrow> (case s of None \<Rightarrow> True | Some t \<Rightarrow> t = [])"

definition official_push_service :: "split_url \<Rightarrow> bool" where
  "official_push_service url \<longleftrightarrow>
     (let host = py_lower (case su_hostname url of None \<Rightarrow> [] | Some h \<Rightarrow> h);
          allowed = (host = ''fcm.googleapis.com'' \<or>
            list_ex (\<lambda>domain. host = domain \<or> ends_with host (CHR ''.'' # domain)) PUSH_DOMAINS) in
      allowed \<and> su_scheme url = ''https'' \<and>
      su_port_valid url \<and> (su_port url = None \<or> su_port url = Some 443) \<and>
      blank (su_username url) \<and> blank (su_password url) \<and> su_fragment url = [])"

record push_keys =
  pk_p256dh :: string
  pk_auth :: string

text \<open>
  \<open>decode\<close> stands for the strict URL-safe Base64 decoder applied to the padded text, and
  \<open>is_point\<close> for the test that bytes encode a point of the P-256 curve.
\<close>

definition padded :: "string \<Rightarrow> string" where
  "padded value = value @ replicate (nat ((- int (length value)) mod 4)) CHR ''=''"

definition valid_keys ::
    "(string \<Rightarrow> string option) \<Rightarrow> (string \<Rightarrow> bool) \<Rightarrow> push_keys \<Rightarrow> bool" where
  "valid_keys decode is_point k \<longleftrightarrow>
     length (pk_p256dh k) \<le> 100 \<and> length (pk_auth k) \<le> 30 \<and>
     (case decode (padded (pk_p256dh k)) of None \<Rightarrow> False | Some raw \<Rightarrow> is_point raw) \<and>
     (case decode (padded (pk_auth k)) of None \<Rightarrow> False | Some raw \<Rightarrow> length raw = 16)"

definition valid_endpoint :: "(string \<Rightarrow> split_url) \<Rightarrow> string \<Rightarrow> bool" where
  "valid_endpoint urlsplit value \<longleftrightarrow> length value \<le> 2000 \<and> official_push_service (urlsplit value)"

text \<open>
  \<open>ON CONFLICT (endpoint) DO UPDATE\<close>: the keys and \<open>updated_at\<close> change, the id, the owner and
  \<open>created_at\<close> stay.
\<close>

definition merge_subscription :: "push_subscription \<Rightarrow> push_subscription \<Rightarrow> push_subscription" where
  "merge_subscription r x = x\<lparr>p_p256dh := p_p256dh r, p_auth := p_auth r, p_updated_at := p_updated_at r\<rparr>"

definition register_subscription ::
    "instant \<Rightarrow> string \<Rightarrow> string \<Rightarrow> string \<Rightarrow> push_keys \<Rightarrow> db \<Rightarrow> raised + db" where
  "register_subscription now new_id user_id endpoint keys d =
     (let d1 = delete_subscriptions (\<lambda>p. p_endpoint p = endpoint \<and> p_user_id p \<noteq> user_id) d;
          r = \<lparr>p_id = new_id, p_user_id = user_id, p_endpoint = endpoint, p_p256dh = pk_p256dh keys,
               p_auth = pk_auth keys, p_created_at = now, p_updated_at = now\<rparr>;
          taken = list_ex (same_endpoint r) (push_subscriptions d1) in
      if \<not> taken \<and> (list_ex (\<lambda>p. p_id p = new_id) (push_subscriptions d1)
                   \<or> \<not> list_ex (\<lambda>u. u_id u = user_id) (users d1))
      then Inl RaisedOther
      else Inr (d1\<lparr>push_subscriptions :=
             insert_or_update same_endpoint merge_subscription r (push_subscriptions d1)\<rparr>))"

definition unregister_subscription :: "string \<Rightarrow> string \<Rightarrow> db \<Rightarrow> db" where
  "unregister_subscription user_id endpoint d =
     delete_subscriptions (\<lambda>p. p_user_id p = user_id \<and> p_endpoint p = endpoint) d"

definition register_device ::
    "instant \<Rightarrow> string \<Rightarrow> string \<Rightarrow> string \<Rightarrow> push_keys \<Rightarrow> db \<Rightarrow> raised + db" where
  "register_device now new_id user_id endpoint keys d =
     register_subscription now new_id user_id endpoint keys d"

definition unregister_device :: "string \<Rightarrow> string \<Rightarrow> db \<Rightarrow> db" where
  "unregister_device user_id endpoint d = unregister_subscription user_id endpoint d"

definition api_subscribe ::
    "string list \<Rightarrow> env \<Rightarrow> request \<Rightarrow> bool \<Rightarrow> string \<Rightarrow> push_keys \<Rightarrow> db \<Rightarrow> (raised + unit) \<times> db" where
  "api_subscribe cors n q valid endpoint keys d =
     me_write cors n q valid
       (\<lambda>uid d. map_sum id (\<lambda>d1. ((), d1)) (register_device (n_now n) (n_uuid n) uid endpoint keys d)) d"

definition api_unsubscribe ::
    "string list \<Rightarrow> env \<Rightarrow> request \<Rightarrow> bool \<Rightarrow> string \<Rightarrow> db \<Rightarrow> (raised + unit) \<times> db" where
  "api_unsubscribe cors n q valid endpoint d =
     me_write cors n q valid (\<lambda>uid d. Inr ((), unregister_device uid endpoint d)) d"

section \<open>Candidates and the queue\<close>

record candidate =
  k_user_id :: string
  k_municipality_code :: string
  k_municipality_name :: string
  k_state_abbreviation :: "string option"
  k_alert_id :: int
  k_provider :: string
  k_event :: string
  k_severity :: string
  k_description :: "string option"
  k_risks :: "string list"
  k_instructions :: "string list"

text \<open>\<open>LEFT JOIN\<close>: the matching rows, or one row of \<open>NULL\<close>s.\<close>

definition left_join :: "('r \<Rightarrow> bool) \<Rightarrow> 'r list \<Rightarrow> 'r option list" where
  "left_join P t = (case filter P t of [] \<Rightarrow> [None] | rows \<Rightarrow> List.map Some rows)"

text \<open>\<open>intersects\<close> stands for \<open>ST_Intersects\<close>.\<close>

definition alert_covers ::
    "(geometry \<Rightarrow> geometry \<Rightarrow> bool) \<Rightarrow> weather_alert \<Rightarrow> string \<Rightarrow> territory_geometry option \<Rightarrow> bool" where
  "alert_covers intersects a code g \<longleftrightarrow>
     code \<in> set (a_affected_ibge_codes a) \<or>
     (a_affected_ibge_codes a = [] \<and>
      (case g of None \<Rightarrow> False | Some shape \<Rightarrow> intersects (a_polygon a) (g_geom shape)))"

definition wants_notifications :: "followed \<Rightarrow> bool" where
  "wants_notifications f \<longleftrightarrow> f_notifications_enabled f \<and>
     (case f_notifications_opt_in_at f of None \<Rightarrow> False | Some _ \<Rightarrow> True)"

definition candidates :: "(geometry \<Rightarrow> geometry \<Rightarrow> bool) \<Rightarrow> instant \<Rightarrow> db \<Rightarrow> candidate list" where
  "candidates intersects now d =
     [\<lparr>k_user_id = f_user_id f, k_municipality_code = f_municipality_code f,
       k_municipality_name = t_name m, k_state_abbreviation = Option.bind s t_abbreviation,
       k_alert_id = a_id a, k_provider = provider_value (a_provider a), k_event = a_event a,
       k_severity = a_severity a, k_description = a_description a, k_risks = a_risks a,
       k_instructions = a_instructions a\<rparr>.
        f \<leftarrow> followed_municipalities d, wants_notifications f,
        m \<leftarrow> territories d, t_ibge_code m = f_municipality_code f \<and> t_level m = Municipality,
        s \<leftarrow> left_join (\<lambda>s. t_parent_id m = Some (t_id s)) (territories d),
        g \<leftarrow> left_join (\<lambda>g. g_territory_id g = t_id m \<and> g_lod g = Canonical) (territory_geometries d),
        a \<leftarrow> weather_alerts d, a_expires a > now \<and> alert_covers intersects a (f_municipality_code f) g]"

text \<open>\<open>version\<close>: the digest of the JSON of the content; renewing the validity does not change it.\<close>

type_synonym digest = "string \<times> string \<times> string option \<times> string list \<times> string list \<Rightarrow> string"

definition candidate_version :: "digest \<Rightarrow> candidate \<Rightarrow> string" where
  "candidate_version digest k =
     digest (k_event k, k_severity k, k_description k, k_risks k, k_instructions k)"

definition alert_version :: "digest \<Rightarrow> weather_alert \<Rightarrow> string" where
  "alert_version digest a =
     digest (a_event a, a_severity a, a_description a, a_risks a, a_instructions a)"

definition content_of :: "candidate \<Rightarrow> content" where
  "content_of k =
     \<lparr>c_municipality_code = k_municipality_code k, c_municipality_name = k_municipality_name k,
      c_state_abbreviation = k_state_abbreviation k, c_source = k_provider k, c_event = k_event k,
      c_severity = k_severity k, c_description = k_description k, c_risks = k_risks k,
      c_instructions = k_instructions k\<rparr>"

definition event_of :: "digest \<Rightarrow> instant \<Rightarrow> string \<Rightarrow> candidate \<Rightarrow> notification_event" where
  "event_of digest now new_id k =
     \<lparr>e_id = new_id, e_user_id = k_user_id k, e_alert_id = k_alert_id k,
      e_municipality_code = k_municipality_code k, e_alert_version = candidate_version digest k,
      e_content = content_of k, e_created_at = now\<rparr>"

text \<open>\<open>INSERT ... ON CONFLICT DO NOTHING\<close> of one event; a new row needs its user and its alert.\<close>

definition insert_event :: "notification_event \<Rightarrow> db \<Rightarrow> raised + db" where
  "insert_event e d =
     (case insert_ignore same_event e (notification_events d) of
        (False, _) \<Rightarrow> Inr d
      | (True, rows) \<Rightarrow>
          if list_ex (\<lambda>u. u_id u = e_user_id e) (users d) \<and> list_ex (\<lambda>a. a_id a = e_alert_id e) (weather_alerts d)
          then Inr (d\<lparr>notification_events := rows\<rparr>) else Inl RaisedOther)"

fun insert_events :: "notification_event list \<Rightarrow> db \<Rightarrow> raised + db" where
  "insert_events [] d = Inr d"
| "insert_events (e # es) d = (case insert_event e d of Inl x \<Rightarrow> Inl x | Inr d1 \<Rightarrow> insert_events es d1)"

definition new_delivery :: "instant \<Rightarrow> string \<Rightarrow> string \<Rightarrow> push_delivery" where
  "new_delivery now event_id subscription_id =
     \<lparr>d_event_id = event_id, d_subscription_id = subscription_id, d_attempts = 0,
      d_next_attempt_at = now, d_sent_at = None, d_cancelled_at = None, d_last_error = None,
      d_created_at = now\<rparr>"

definition due_deliveries :: "instant \<Rightarrow> db \<Rightarrow> push_delivery list" where
  "due_deliveries now d =
     [new_delivery now (e_id e) (p_id p).
        e \<leftarrow> notification_events d,
        p \<leftarrow> push_subscriptions d, p_user_id p = e_user_id e,
        a \<leftarrow> weather_alerts d, a_id a = e_alert_id e \<and> a_expires a > now,
        f \<leftarrow> followed_municipalities d, f_user_id f = e_user_id e
           \<and> f_municipality_code f = e_municipality_code e \<and> wants_notifications f]"

definition insert_deliveries :: "instant \<Rightarrow> db \<Rightarrow> db" where
  "insert_deliveries now d =
     d\<lparr>push_deliveries := fold (\<lambda>v t. snd (insert_ignore same_delivery v t)) (due_deliveries now d)
         (push_deliveries d)\<rparr>"

definition drop_old_events :: "instant \<Rightarrow> db \<Rightarrow> db" where
  "drop_old_events now d =
     delete_events (\<lambda>e. list_ex (\<lambda>a. a_id a = e_alert_id e \<and> a_expires a < now - days 30)
        (weather_alerts d)) d"

definition enqueue :: "instant \<Rightarrow> notification_event list \<Rightarrow> db \<Rightarrow> raised + db" where
  "enqueue now rows d =
     (case insert_events rows d of
        Inl x \<Rightarrow> Inl x
      | Inr d1 \<Rightarrow> Inr (drop_old_events now (insert_deliveries now d1)))"

section \<open>One send\<close>

definition upper_char :: "char \<Rightarrow> char" where
  "upper_char c = (let n = of_char c :: nat in
     if (97 \<le> n \<and> n \<le> 122) \<or> (224 \<le> n \<and> n \<le> 254 \<and> n \<noteq> 247) then char_of (n - 32) else c)"

record push_message =
  m_endpoint :: string
  m_p256dh :: string
  m_auth :: string
  m_title :: string
  m_body :: string
  m_tag :: string
  m_municipality_code :: string
  m_url :: string
  m_expires_at :: string
  m_severity_level :: string
  m_ttl :: int
  m_topic :: string

text \<open>
  What the dispatch takes from outside: the digest of a content, \<open>ST_Intersects\<close>, the text of
  an instant and of an error, whether the VAPID key is set, and the batch limit.
\<close>

record push_env =
  n_digest :: digest
  n_intersects :: "geometry \<Rightarrow> geometry \<Rightarrow> bool"
  n_isoformat :: "instant \<Rightarrow> string"
  n_error_text :: "domain_error \<Rightarrow> string"
  n_has_key :: bool
  n_batch_limit :: nat

text \<open>\<open>CHR 0xB7\<close> is the middle dot.\<close>

definition push_payload ::
    "push_env \<Rightarrow> notification_event \<Rightarrow> weather_alert \<Rightarrow> push_subscription \<Rightarrow> int \<Rightarrow> push_message" where
  "push_payload n e a s ttl =
     (let data = e_content e;
          city = c_municipality_name data @
            (case c_state_abbreviation data of None \<Rightarrow> [] | Some [] \<Rightarrow> []
             | Some uf \<Rightarrow> '' ('' @ uf @ '')'') in
      \<lparr>m_endpoint = p_endpoint s, m_p256dh = p_p256dh s, m_auth = p_auth s,
       m_title = ''Brasil Lens '' @ [CHR 0xB7] @ '' '' @ city,
       m_body = c_event data @ '' '' @ [CHR 0xB7] @ '' '' @ c_severity data @ '' '' @ [CHR 0xB7] @ '' '' @
         List.map upper_char (c_source data),
       m_tag = ''brasil-lens-'' @ e_id e, m_municipality_code = e_municipality_code e,
       m_url = ''/?municipality='' @ e_municipality_code e, m_expires_at = n_isoformat n (a_expires a),
       m_severity_level = level_text (severity_level_for (c_source data) (c_severity data)),
       m_ttl = ttl, m_topic = removeAll CHR ''-'' (e_id e)\<rparr>)"

text \<open>What \<open>webpush\<close> does with a message, and the exception \<open>_send\<close> turns it into.\<close>

datatype webpush_outcome =
    PushAccepted | PushRefused "int option" | PushUnreachable | PushBadConfiguration | PushCrash

fun push_error :: "webpush_outcome \<Rightarrow> raised option" where
  "push_error PushAccepted = None"
| "push_error (PushRefused status) = Some (RaisedDomain (mk_error ProviderError
     [(''status'', case status of None \<Rightarrow> DNone | Some s \<Rightarrow> DInt s)]))"
| "push_error PushUnreachable = Some (RaisedDomain (mk_error ProviderError []))"
| "push_error PushBadConfiguration = Some (RaisedDomain (mk_error ProviderError
     [(''configuration'', DBool True)]))"
| "push_error PushCrash = Some RaisedOther"

definition send :: "push_env \<Rightarrow> (push_message \<Rightarrow> webpush_outcome) \<Rightarrow> push_message \<Rightarrow> raised option" where
  "send n push m = (if n_has_key n then push_error (push m) else Some RaisedOther)"

section \<open>The dispatch\<close>

type_synonym queue_row = "push_delivery \<times> notification_event \<times> push_subscription \<times> weather_alert"

definition pending_rows :: "(push_delivery \<Rightarrow> bool) \<Rightarrow> instant \<Rightarrow> db \<Rightarrow> queue_row list" where
  "pending_rows locked now d =
     [(v, e, s, a).
        v \<leftarrow> push_deliveries d, d_sent_at v = None \<and> d_cancelled_at v = None \<and> d_attempts v < 5
           \<and> d_next_attempt_at v \<le> now \<and> \<not> locked v,
        e \<leftarrow> notification_events d, e_id e = d_event_id v,
        s \<leftarrow> push_subscriptions d, p_id s = d_subscription_id v \<and> e_user_id e = p_user_id s,
        a \<leftarrow> weather_alerts d, a_id a = e_alert_id e \<and> a_expires a > now
           \<and> list_ex (\<lambda>f. f_user_id f = e_user_id e \<and> f_municipality_code f = e_municipality_code e
                \<and> wants_notifications f) (followed_municipalities d)]"

text \<open>\<open>ORDER BY created_at, event_id, subscription_id LIMIT 1 FOR UPDATE SKIP LOCKED\<close>.\<close>

definition next_pending :: "(push_delivery \<Rightarrow> bool) \<Rightarrow> instant \<Rightarrow> db \<Rightarrow> queue_row option" where
  "next_pending locked now d =
     (case pending_rows locked now d of
        [] \<Rightarrow> None
      | r # rs \<Rightarrow> Some (min_by (\<lambda>(v, _). (d_created_at v, d_event_id v, d_subscription_id v)) r rs))"

text \<open>
  The session does not expire objects on commit, so an object that the previous turn of the loop
  still holds is returned again as it was, not as the new query found it.
\<close>

definition identity_map :: "queue_row option \<Rightarrow> queue_row \<Rightarrow> queue_row" where
  "identity_map held row =
     (case held of None \<Rightarrow> row
      | Some (v0, e0, s0, a0) \<Rightarrow>
          (let (v, e, s, a) = row in
           (if same_delivery v0 v then v0 else v, if e_id e0 = e_id e then e0 else e,
            if p_id s0 = p_id s then s0 else s, if a_id a0 = a_id a then a0 else a)))"

definition update_delivery ::
    "push_delivery \<Rightarrow> (push_delivery \<Rightarrow> push_delivery) \<Rightarrow> db \<Rightarrow> db" where
  "update_delivery v f d = d\<lparr>push_deliveries := update_where (same_delivery v) f (push_deliveries d)\<rparr>"

definition message_ttl :: "instant \<Rightarrow> instant \<Rightarrow> int" where
  "message_ttl expires now =
     (let whole = (if expires < now then - ((now - expires) div 1000000) else (expires - now) div 1000000) in
      max 0 (min 3600 whole))"

definition retry_delay :: "int \<Rightarrow> duration" where
  "retry_delay attempts = seconds (min 3600 (600 * 2 ^ nat (attempts - 1)))"

definition error_status :: "domain_error \<Rightarrow> int option" where
  "error_status e = (case map_of (err_details e) ''status'' of Some (DInt s) \<Rightarrow> Some s | _ \<Rightarrow> None)"

definition configuration_error :: "domain_error \<Rightarrow> bool" where
  "configuration_error e \<longleftrightarrow> map_of (err_details e) ''configuration'' = Some (DBool True)"

text \<open>The columns a refused send writes, from the attempts counted before the send.\<close>

definition after_refusal ::
    "push_env \<Rightarrow> instant \<Rightarrow> domain_error \<Rightarrow> int \<Rightarrow> (push_delivery \<Rightarrow> push_delivery) \<times> bool" where
  "after_refusal n now e before =
     (let attempts = before + 1; status = error_status e;
          next_at = now + retry_delay attempts;
          attempts1 = (if status = Some 400 then 5 else attempts);
          stop = (status \<in> {Some 401, Some 403, Some 429} \<or> configuration_error e);
          attempts2 = (if stop then attempts1 - 1 else attempts1) in
      (\<lambda>v. v\<lparr>d_attempts := attempts2, d_next_attempt_at := next_at,
             d_last_error := Some (n_error_text n e)\<rparr>, stop))"

record dispatch_state =
  x_db :: db
  x_held :: "queue_row option"
  x_sent :: nat
  x_log :: "(string \<times> string \<times> push_message \<times> bool) list"

text \<open>
  One turn of the loop sees: what other sessions committed since the last turn, whether it gets
  the advisory lock, the rows others have locked, the two clocks, and the push services.
\<close>

record tick =
  k_others :: "db \<Rightarrow> db"
  k_lock :: bool
  k_locked :: "push_delivery \<Rightarrow> bool"
  k_db_now :: instant
  k_now :: instant
  k_push :: "push_message \<Rightarrow> webpush_outcome"

definition dispatch_row ::
    "push_env \<Rightarrow> (string \<times> int \<times> string) list \<Rightarrow> tick \<Rightarrow> queue_row \<Rightarrow> dispatch_state
     \<Rightarrow> raised + bool \<times> dispatch_state" where
  "dispatch_row n eligible k row st =
     (let (v, e, s, a) = identity_map (x_held st) row;
          now = k_now k; d = x_db st;
          cancel = (\<lambda>v. v\<lparr>d_cancelled_at := Some now\<rparr>);
          ttl = message_ttl (a_expires a) now in
      if e_alert_version e \<noteq> alert_version (n_digest n) a
         \<or> (e_user_id e, e_alert_id e, e_municipality_code e) \<notin> set eligible \<or> ttl = 0
      then Inr (False, st\<lparr>x_db := update_delivery v cancel d, x_held := Some (cancel v, e, s, a)\<rparr>)
      else
        (let m = push_payload n e a s ttl;
             sent_as = (\<lambda>ok. x_log st @ [(d_event_id v, d_subscription_id v, m, ok)]) in
         case send n (k_push k) m of
           Some (RaisedDomain x) \<Rightarrow>
             if error_status x \<in> {Some 404, Some 410}
             then Inr (False, st\<lparr>x_db := delete_subscriptions (\<lambda>p. p_id p = p_id s)
                     (update_delivery v (\<lambda>r. r\<lparr>d_attempts := d_attempts v + 1\<rparr>) d),
                   x_held := Some (v\<lparr>d_attempts := d_attempts v + 1\<rparr>, e, s, a),
                   x_log := sent_as False\<rparr>)
             else (let (write, stop) = after_refusal n now x (d_attempts v) in
                   Inr (stop, st\<lparr>x_db := update_delivery v write d, x_held := Some (write v, e, s, a),
                                 x_log := sent_as False\<rparr>))
         | Some x \<Rightarrow> Inl x
         | None \<Rightarrow>
             (let write = (\<lambda>r. r\<lparr>d_attempts := d_attempts v + 1, d_sent_at := Some now, d_last_error := None\<rparr>) in
              Inr (False, st\<lparr>x_db := update_delivery v write d, x_held := Some (write v, e, s, a),
                             x_sent := x_sent st + 1, x_log := sent_as True\<rparr>))))"

text \<open>One transaction: \<open>Inr (True, _)\<close> ends the loop; an exception leaves what was committed.\<close>

definition dispatch_turn ::
    "push_env \<Rightarrow> (string \<times> int \<times> string) list \<Rightarrow> tick \<Rightarrow> dispatch_state
     \<Rightarrow> raised + bool \<times> dispatch_state" where
  "dispatch_turn n eligible k st0 =
     (let st = st0\<lparr>x_db := k_others k (x_db st0)\<rparr> in
      if \<not> k_lock k then Inr (True, st)
      else case next_pending (k_locked k) (k_db_now k) (x_db st) of
        None \<Rightarrow> Inr (True, st)
      | Some row \<Rightarrow> dispatch_row n eligible k row st)"

fun dispatch_loop ::
    "push_env \<Rightarrow> (string \<times> int \<times> string) list \<Rightarrow> tick list \<Rightarrow> dispatch_state
     \<Rightarrow> raised option \<times> dispatch_state" where
  "dispatch_loop n eligible [] st = (None, st)"
| "dispatch_loop n eligible (k # ks) st =
     (case dispatch_turn n eligible k st of
        Inl e \<Rightarrow> (Some e, st\<lparr>x_db := k_others k (x_db st)\<rparr>)
      | Inr (stop, st1) \<Rightarrow> if stop then (None, st1) else dispatch_loop n eligible ks st1)"

text \<open>
  \<open>dispatch\<close>: \<open>now\<close> is the transaction of the first two statements, \<open>new_id\<close> draws the event
  ids, and \<open>turns\<close> describes the turns the loop may take.
\<close>

definition eligible_of :: "candidate list \<Rightarrow> (string \<times> int \<times> string) list" where
  "eligible_of ks = List.map (\<lambda>k. (k_user_id k, k_alert_id k, k_municipality_code k)) ks"

definition dispatch ::
    "push_env \<Rightarrow> instant \<Rightarrow> (nat \<Rightarrow> string) \<Rightarrow> tick list \<Rightarrow> db \<Rightarrow> raised option \<times> dispatch_state" where
  "dispatch n now new_id turns d =
     (let ks = candidates (n_intersects n) now d;
          start = \<lparr>x_db = d, x_held = None, x_sent = 0, x_log = []\<rparr> in
      case enqueue now (map2 (\<lambda>i k. event_of (n_digest n) now (new_id i) k) [0 ..< length ks] ks) d of
        Inl e \<Rightarrow> (Some e, start)
      | Inr d1 \<Rightarrow> dispatch_loop n (eligible_of ks) (take (n_batch_limit n) turns) (start\<lparr>x_db := d1\<rparr>))"

text \<open>The job: off, misconfigured, or one dispatch; the value is the exit code.\<close>

definition dispatch_job ::
    "bool \<Rightarrow> string \<Rightarrow> push_env \<Rightarrow> instant \<Rightarrow> (nat \<Rightarrow> string) \<Rightarrow> tick list \<Rightarrow> db
     \<Rightarrow> (raised + int) \<times> db" where
  "dispatch_job enabled public_key n now new_id turns d =
     (if \<not> enabled then (Inr 0, d)
      else if \<not> n_has_key n \<or> public_key = [] then (Inr 1, d)
      else case dispatch n now new_id turns d of
             (Some e, st) \<Rightarrow> (Inl e, x_db st)
           | (None, st) \<Rightarrow> (Inr 0, x_db st))"

end
