(* ===== verification/Notification_Laws.thy ===== *)
theory Notification_Laws
  imports Notifications
begin

text \<open>
  What the notification queue promises: a message goes only to a device whose account still asks
  for the municipality, a delivery is accepted at most once and tried at most five times, failures
  are retried with a growing delay, and a device belongs to one account.
\<close>

section \<open>Keys of the queue\<close>

definition delivery_key :: "push_delivery \<Rightarrow> string \<times> string" where
  "delivery_key v = (d_event_id v, d_subscription_id v)"

lemma same_delivery_key: "same_delivery a b \<longleftrightarrow> delivery_key a = delivery_key b"
  by (simp add: same_delivery_def delivery_key_def)

definition delivery_ok :: "push_delivery \<Rightarrow> bool" where
  "delivery_ok v \<longleftrightarrow> 0 \<le> d_attempts v \<and> d_attempts v \<le> 5 \<and>
     (d_sent_at v = None \<or> d_cancelled_at v = None)"

definition deliveries_ok :: "db \<Rightarrow> bool" where
  "deliveries_ok d \<longleftrightarrow> list_all delivery_ok (push_deliveries d)"

lemma delivery_ok_new [simp]: "delivery_ok (new_delivery now e s)"
  by (simp add: delivery_ok_def new_delivery_def)

lemma deliveries_ok_delete_subscriptions: "deliveries_ok d \<Longrightarrow> deliveries_ok (delete_subscriptions P d)"
  by (auto simp: deliveries_ok_def delete_subscriptions_def Let_def list_all_iff table_simps)

lemma deliveries_ok_delete_events: "deliveries_ok d \<Longrightarrow> deliveries_ok (delete_events P d)"
  by (auto simp: deliveries_ok_def delete_events_def Let_def list_all_iff table_simps)

section \<open>The statements keep the constraints\<close>

lemma merge_subscription_key [simp]:
  "p_endpoint (merge_subscription r x) = p_endpoint x" "p_id (merge_subscription r x) = p_id x"
  "p_user_id (merge_subscription r x) = p_user_id x"
  by (simp_all add: merge_subscription_def)

interpretation subscriptions_table: upsert_table same_endpoint "insert_ignore same_endpoint"
    "insert_or_update same_endpoint merge_subscription" merge_subscription
  by (rule insert_or_update_table) (auto simp: same_endpoint_def)

lemma insert_or_update_keys:
  assumes "\<And>x. f (upd r x) = f x"
  shows "f ` set t \<subseteq> f ` set (insert_or_update conflict upd r t)"
proof
  fix k assume "k \<in> f ` set t"
  then obtain x where x: "x \<in> set t" "k = f x" by blast
  let ?y = "if conflict r x then upd r x else x"
  have "list_ex (conflict r) t \<Longrightarrow> ?y \<in> set (insert_or_update conflict upd r t)"
    using x(1) by (auto simp: insert_or_update_def)
  moreover have "\<not> list_ex (conflict r) t \<Longrightarrow> x \<in> set (insert_or_update conflict upd r t)"
    using x(1) by (simp add: insert_or_update_def)
  moreover have "f ?y = k" using assms x(2) by simp
  ultimately show "k \<in> f ` set (insert_or_update conflict upd r t)" using x(2) by (metis image_eqI)
qed

lemma insert_event_cases:
  assumes "insert_event e d = Inr d'"
  obtains (kept) "d' = d"
    | (added) "d' = d\<lparr>notification_events := notification_events d @ [e]\<rparr>"
        and "\<forall>x \<in> set (notification_events d). \<not> same_event x e"
        and "\<exists>u \<in> set (users d). u_id u = e_user_id e"
        and "\<exists>a \<in> set (weather_alerts d). a_id a = e_alert_id e"
proof (cases "list_ex (same_event e) (notification_events d)")
  case True
  then show ?thesis using assms kept by (simp add: insert_event_def insert_ignore_def)
next
  case False
  then have "\<forall>x \<in> set (notification_events d). \<not> same_event x e"
    using events_table.conflict_sym by (auto simp: list_ex_iff)
  with False show ?thesis using assms added
    by (auto simp: insert_event_def insert_ignore_def list_ex_iff split: if_splits)
qed

lemma insert_event_ok:
  assumes "insert_event e d = Inr d'" and "db_ok d"
  shows "db_ok d'"
  using assms(1)
proof (cases rule: insert_event_cases)
  case added
  then show ?thesis using assms(2)
    by (auto simp: db_ok_def uniques_ok_def foreign_keys_ok_def no_conflicts_snoc refers_snoc)
      (auto simp: refers_iff)
qed (use assms(2) in simp)

lemma insert_event_deliveries: "insert_event e d = Inr d' \<Longrightarrow> push_deliveries d' = push_deliveries d"
  by (erule insert_event_cases) auto

lemma insert_events_ok: "insert_events es d = Inr d' \<Longrightarrow> db_ok d \<Longrightarrow> db_ok d'"
  by (induction es d rule: insert_events.induct) (auto split: sum.splits dest: insert_event_ok)

lemma insert_events_deliveries: "insert_events es d = Inr d' \<Longrightarrow> push_deliveries d' = push_deliveries d"
  by (induction es d rule: insert_events.induct) (auto split: sum.splits dest: insert_event_deliveries)

lemma due_deliveries_refer:
  assumes "v \<in> set (due_deliveries now d)"
  shows "d_event_id v \<in> e_id ` set (notification_events d)"
    and "d_subscription_id v \<in> p_id ` set (push_subscriptions d)" and "delivery_ok v"
    and "d_attempts v = 0 \<and> d_sent_at v = None \<and> d_cancelled_at v = None"
  using assms by (auto simp: due_deliveries_def new_delivery_def delivery_ok_def)

lemma insert_deliveries_rows:
  "v \<in> set (push_deliveries (insert_deliveries now d)) \<Longrightarrow>
     v \<in> set (push_deliveries d) \<or> v \<in> set (due_deliveries now d)"
  by (auto simp: insert_deliveries_def dest!: deliveries_table.ins_all_rows)

lemma insert_deliveries_ok: "db_ok d \<Longrightarrow> db_ok (insert_deliveries now d)"
proof -
  assume ok: "db_ok d"
  have "no_conflicts same_delivery (push_deliveries (insert_deliveries now d))"
    using ok by (simp add: insert_deliveries_def db_ok_def uniques_ok_def deliveries_table.ins_all_unique)
  moreover have "refers d_event_id (push_deliveries (insert_deliveries now d)) e_id (notification_events d)"
    and "refers d_subscription_id (push_deliveries (insert_deliveries now d)) p_id (push_subscriptions d)"
    using ok due_deliveries_refer(1,2) [of _ now d]
    by (auto simp: refers_iff db_ok_def foreign_keys_ok_def dest!: insert_deliveries_rows) (metis imageE)+
  ultimately show ?thesis using ok
    by (simp add: db_ok_def uniques_ok_def foreign_keys_ok_def insert_deliveries_def)
qed

lemma enqueue_ok:
  assumes "enqueue now es d = Inr d'" and "db_ok d" and "deliveries_ok d"
  shows "db_ok d'" and "deliveries_ok d'"
proof -
  obtain d1 where d1: "insert_events es d = Inr d1" "d' = drop_old_events now (insert_deliveries now d1)"
    using assms(1) by (auto simp: enqueue_def split: sum.splits)
  have "db_ok d1" and "deliveries_ok d1"
    using insert_events_ok [OF d1(1) assms(2)] insert_events_deliveries [OF d1(1)] assms(3)
    by (simp_all add: deliveries_ok_def)
  moreover from this(2) have "deliveries_ok (insert_deliveries now d1)"
    by (auto simp: deliveries_ok_def list_all_iff dest!: insert_deliveries_rows due_deliveries_refer(3))
  ultimately show "db_ok d'" and "deliveries_ok d'"
    using insert_deliveries_ok [of d1 now] unfolding d1(2) drop_old_events_def
    by (auto simp: db_ok_def intro: deliveries_ok_delete_events)
qed

lemma register_subscription_ok:
  assumes "register_subscription now i uid ep keys d = Inr d'" and "db_ok d"
  shows "db_ok d'"
proof -
  define d1 where "d1 = delete_subscriptions (\<lambda>p. p_endpoint p = ep \<and> p_user_id p \<noteq> uid) d"
  define r where "r = \<lparr>p_id = i, p_user_id = uid, p_endpoint = ep, p_p256dh = pk_p256dh keys,
               p_auth = pk_auth keys, p_created_at = now, p_updated_at = now\<rparr>"
  let ?ps = "insert_or_update same_endpoint merge_subscription r (push_subscriptions d1)"
  have ok1: "db_ok d1" using assms(2) by (auto simp: d1_def db_ok_def)
  have d': "d' = d1\<lparr>push_subscriptions := ?ps\<rparr>" and
    user: "\<not> list_ex (same_endpoint r) (push_subscriptions d1) \<Longrightarrow> uid \<in> u_id ` set (users d1)"
    using assms(1)
    by (auto simp: register_subscription_def d1_def [symmetric] r_def [symmetric] Let_def list_ex_iff
        split: if_splits)
  have "no_conflicts same_endpoint ?ps"
    using ok1 by (auto simp: db_ok_def uniques_ok_def intro: subscriptions_table.ups_unique)
  moreover have "refers p_user_id ?ps u_id (users d1)"
  proof (cases "list_ex (same_endpoint r) (push_subscriptions d1)")
    case True
    then show ?thesis using ok1
      by (auto simp: refers_iff db_ok_def foreign_keys_ok_def subscriptions_table.ups_taken)
  next
    case False
    then show ?thesis using ok1 user
      by (auto simp: refers_iff db_ok_def foreign_keys_ok_def subscriptions_table.ups_fresh r_def)
  qed
  moreover have "refers d_subscription_id (push_deliveries d1) p_id ?ps"
  proof -
    have "p_id ` set (push_subscriptions d1) \<subseteq> p_id ` set ?ps"
      by (rule insert_or_update_keys) simp
    moreover have "refers d_subscription_id (push_deliveries d1) p_id (push_subscriptions d1)"
      using ok1 by (simp add: db_ok_def foreign_keys_ok_def)
    ultimately show ?thesis by (auto intro: refers_mono)
  qed
  ultimately show ?thesis using ok1
    by (simp add: d' db_ok_def uniques_ok_def foreign_keys_ok_def)
qed

section \<open>One turn of the dispatch\<close>

lemma pending_rows_iff:
  "(v, e, s, a) \<in> set (pending_rows locked now d) \<longleftrightarrow>
     v \<in> set (push_deliveries d) \<and> d_sent_at v = None \<and> d_cancelled_at v = None \<and> d_attempts v < 5 \<and>
     d_next_attempt_at v \<le> now \<and> \<not> locked v \<and>
     e \<in> set (notification_events d) \<and> e_id e = d_event_id v \<and>
     s \<in> set (push_subscriptions d) \<and> p_id s = d_subscription_id v \<and> e_user_id e = p_user_id s \<and>
     a \<in> set (weather_alerts d) \<and> a_id a = e_alert_id e \<and> a_expires a > now \<and>
     (\<exists>f \<in> set (followed_municipalities d). f_user_id f = e_user_id e \<and>
        f_municipality_code f = e_municipality_code e \<and> wants_notifications f)"
  by (auto simp: pending_rows_def list_ex_iff)

lemma next_pending_row:
  "next_pending locked now d = Some row \<Longrightarrow> row \<in> set (pending_rows locked now d)"
  using min_by_in by (fastforce simp: next_pending_def split: list.splits)

lemma delivery_key_update [simp]:
  "delivery_key (v\<lparr>d_attempts := x\<rparr>) = delivery_key v"
  "delivery_key (v\<lparr>d_sent_at := y\<rparr>) = delivery_key v"
  "delivery_key (v\<lparr>d_cancelled_at := y\<rparr>) = delivery_key v"
  "delivery_key (v\<lparr>d_last_error := z\<rparr>) = delivery_key v"
  "delivery_key (v\<lparr>d_next_attempt_at := t\<rparr>) = delivery_key v"
  by (simp_all add: delivery_key_def)

lemma update_delivery_rows:
  assumes "no_conflicts same_delivery (push_deliveries d)" and "v \<in> set (push_deliveries d)"
    and "w \<in> set (push_deliveries (update_delivery v f d))"
  shows "w = f v \<or> (w \<in> set (push_deliveries d) \<and> \<not> same_delivery v w)"
proof -
  have "r = v" if "r \<in> set (push_deliveries d)" "same_delivery v r" for r
    using deliveries_table.unique_lookup [OF assms(1) assms(2) that(1) that(2)] by simp
  then show ?thesis using assms(3) by (auto simp: update_delivery_def set_update_where)
qed

lemma update_delivery_ok:
  assumes "db_ok d" and "\<And>w. delivery_key (f w) = delivery_key w"
  shows "db_ok (update_delivery v f d)"
proof -
  have key: "d_event_id (f w) = d_event_id w" "d_subscription_id (f w) = d_subscription_id w" for w
    using assms(2) [of w] by (simp_all add: delivery_key_def)
  have "no_conflicts same_delivery (update_where (same_delivery v) f (push_deliveries d)) =
      no_conflicts same_delivery (push_deliveries d)"
    by (rule no_conflicts_update_key) (simp_all add: same_delivery_def key)
  then show ?thesis using assms(1)
    by (simp add: db_ok_def uniques_ok_def foreign_keys_ok_def update_delivery_def refers_update key)
qed

lemma after_refusal_write:
  assumes "after_refusal n now e before = (wr, stop)" and "0 \<le> before" and "before < 5"
  shows "\<exists>A N L. wr = (\<lambda>v. v\<lparr>d_attempts := A, d_next_attempt_at := N, d_last_error := L\<rparr>) \<and> 0 \<le> A \<and> A \<le> 5"
proof -
  let ?A = "(let attempts1 = (if error_status e = Some 400 then 5 else before + 1) in
    if error_status e \<in> {Some 401, Some 403, Some 429} \<or> configuration_error e then attempts1 - 1
    else attempts1)"
  have "fst (after_refusal n now e before) = (\<lambda>v. v\<lparr>d_attempts := ?A,
      d_next_attempt_at := now + retry_delay (before + 1), d_last_error := Some (n_error_text n e)\<rparr>)"
    by (simp only: after_refusal_def Let_def fst_conv)
  then have "wr = (\<lambda>v. v\<lparr>d_attempts := ?A, d_next_attempt_at := now + retry_delay (before + 1),
      d_last_error := Some (n_error_text n e)\<rparr>)"
    unfolding assms(1) fst_conv .
  moreover have "0 \<le> ?A \<and> ?A \<le> 5" using assms(2,3) by (simp add: Let_def)
  ultimately show ?thesis by blast
qed

text \<open>Whatever a turn does to its delivery \<open>v\<close>, it is one write \<open>f\<close> and at most one log entry.\<close>

definition row_effect ::
    "push_env \<Rightarrow> (string \<times> int \<times> string) list \<Rightarrow> tick \<Rightarrow> queue_row \<Rightarrow> dispatch_state \<Rightarrow> dispatch_state
     \<Rightarrow> (push_delivery \<Rightarrow> push_delivery) \<Rightarrow> bool \<Rightarrow> bool option \<Rightarrow> bool" where
  "row_effect n el k = (\<lambda>(v, e, s, a) st st' f gone entry.
     let d1 = update_delivery v f (x_db st) in
     x_db st' = (if gone then delete_subscriptions (\<lambda>p. p_id p = p_id s) d1 else d1) \<and>
     x_held st' = Some (f v, e, s, a) \<and> (\<forall>w. delivery_key (f w) = delivery_key w) \<and>
     delivery_ok (f v) \<and>
     (case entry of
        None \<Rightarrow> x_log st' = x_log st \<and> x_sent st' = x_sent st
      | Some ok \<Rightarrow> (ok \<longrightarrow> d_sent_at (f v) = Some (k_now k)) \<and>
          x_log st' = x_log st @ [(d_event_id v, d_subscription_id v,
            push_payload n e a s (message_ttl (a_expires a) (k_now k)), ok)] \<and>
          x_sent st' = x_sent st + (if ok then 1 else 0) \<and>
          message_ttl (a_expires a) (k_now k) \<noteq> 0 \<and> e_alert_version e = alert_version (n_digest n) a \<and>
          (e_user_id e, e_alert_id e, e_municipality_code e) \<in> set el))"

lemma row_effectI:
  assumes "x_db st' = (if gone then delete_subscriptions (\<lambda>p. p_id p = p_id s)
      (update_delivery v f (x_db st)) else update_delivery v f (x_db st))"
    and "x_held st' = Some (f v, e, s, a)" and "\<And>w. delivery_key (f w) = delivery_key w"
    and "delivery_ok (f v)"
    and "case entry of
        None \<Rightarrow> x_log st' = x_log st \<and> x_sent st' = x_sent st
      | Some ok \<Rightarrow> (ok \<longrightarrow> d_sent_at (f v) = Some (k_now k)) \<and>
          x_log st' = x_log st @ [(d_event_id v, d_subscription_id v,
            push_payload n e a s (message_ttl (a_expires a) (k_now k)), ok)] \<and>
          x_sent st' = x_sent st + (if ok then 1 else 0) \<and>
          message_ttl (a_expires a) (k_now k) \<noteq> 0 \<and> e_alert_version e = alert_version (n_digest n) a \<and>
          (e_user_id e, e_alert_id e, e_municipality_code e) \<in> set el"
  shows "\<exists>f gone entry. row_effect n el k (v, e, s, a) st st' f gone entry"
  using assms unfolding row_effect_def Let_def prod.case by blast

lemma dispatch_row_shape:
  assumes "dispatch_row n el k row st = Inr (stop, st')"
    and "identity_map (x_held st) row = (v, e, s, a)"
    and "0 \<le> d_attempts v" and "d_attempts v < 5" and "d_sent_at v = None" and "d_cancelled_at v = None"
  shows "\<exists>f gone entry. row_effect n el k (v, e, s, a) st st' f gone entry"
proof -
  let ?ttl = "message_ttl (a_expires a) (k_now k)"
  let ?m = "push_payload n e a s ?ttl"
  consider (cancel) "e_alert_version e \<noteq> alert_version (n_digest n) a
         \<or> (e_user_id e, e_alert_id e, e_municipality_code e) \<notin> set el \<or> ?ttl = 0"
    | (sending) "\<not> (e_alert_version e \<noteq> alert_version (n_digest n) a
         \<or> (e_user_id e, e_alert_id e, e_municipality_code e) \<notin> set el \<or> ?ttl = 0)" by blast
  then show ?thesis
  proof cases
    case cancel
    let ?f = "\<lambda>v. v\<lparr>d_cancelled_at := Some (k_now k)\<rparr>"
    have st': "st' = st\<lparr>x_db := update_delivery v ?f (x_db st), x_held := Some (?f v, e, s, a)\<rparr>"
      using assms(1) cancel by (simp add: dispatch_row_def assms(2) Let_def)
    show ?thesis
      by (rule row_effectI [where gone = False and entry = None and f = ?f])
        (use assms(3-6) in \<open>simp_all add: st' delivery_ok_def\<close>)
  next
    case sending
    then have row: "dispatch_row n el k row st =
      (case send n (k_push k) ?m of
         Some (RaisedDomain x) \<Rightarrow>
           if error_status x \<in> {Some 404, Some 410}
           then Inr (False, st\<lparr>x_db := delete_subscriptions (\<lambda>p. p_id p = p_id s)
                   (update_delivery v (\<lambda>r. r\<lparr>d_attempts := d_attempts v + 1\<rparr>) (x_db st)),
                 x_held := Some (v\<lparr>d_attempts := d_attempts v + 1\<rparr>, e, s, a),
                 x_log := x_log st @ [(d_event_id v, d_subscription_id v, ?m, False)]\<rparr>)
           else (let (write, stop) = after_refusal n (k_now k) x (d_attempts v) in
                 Inr (stop, st\<lparr>x_db := update_delivery v write (x_db st), x_held := Some (write v, e, s, a),
                               x_log := x_log st @ [(d_event_id v, d_subscription_id v, ?m, False)]\<rparr>))
       | Some x \<Rightarrow> Inl x
       | None \<Rightarrow>
           (let write = (\<lambda>r. r\<lparr>d_attempts := d_attempts v + 1, d_sent_at := Some (k_now k), d_last_error := None\<rparr>) in
            Inr (False, st\<lparr>x_db := update_delivery v write (x_db st), x_held := Some (write v, e, s, a),
                           x_sent := x_sent st + 1,
                           x_log := x_log st @ [(d_event_id v, d_subscription_id v, ?m, True)]\<rparr>)))"
      by (simp only: dispatch_row_def assms(2) Let_def prod.case if_False)
    show ?thesis
    proof (cases "send n (k_push k) ?m")
      case None
      let ?f = "\<lambda>r. r\<lparr>d_attempts := d_attempts v + 1, d_sent_at := Some (k_now k), d_last_error := None\<rparr>"
      have st': "st' = st\<lparr>x_db := update_delivery v ?f (x_db st), x_held := Some (?f v, e, s, a),
                           x_sent := x_sent st + 1,
                           x_log := x_log st @ [(d_event_id v, d_subscription_id v, ?m, True)]\<rparr>"
        using assms(1) unfolding row None by (simp add: Let_def)
      show ?thesis
        by (rule row_effectI [where gone = False and entry = "Some True" and f = ?f])
          (use assms(3-6) sending in \<open>auto simp: st' delivery_ok_def\<close>)
    next
      case (Some x)
      then obtain y where y: "x = RaisedDomain y" using assms(1) unfolding row by (cases x) auto
      show ?thesis
      proof (cases "error_status y \<in> {Some 404, Some 410}")
        case True
        let ?f = "\<lambda>r. r\<lparr>d_attempts := d_attempts v + 1\<rparr>"
        have st': "st' = st\<lparr>x_db := delete_subscriptions (\<lambda>p. p_id p = p_id s)
                   (update_delivery v ?f (x_db st)),
                 x_held := Some (?f v, e, s, a),
                 x_log := x_log st @ [(d_event_id v, d_subscription_id v, ?m, False)]\<rparr>"
          using assms(1) True unfolding row Some y by auto
        show ?thesis
          by (rule row_effectI [where gone = True and entry = "Some False" and f = ?f])
            (use assms(3-6) sending in \<open>auto simp: st' delivery_ok_def\<close>)
      next
        case False
        obtain wr st1 where w: "after_refusal n (k_now k) y (d_attempts v) = (wr, st1)" by force
        from after_refusal_write [OF this assms(3,4)] obtain A N L where
          wr: "wr = (\<lambda>v. v\<lparr>d_attempts := A, d_next_attempt_at := N, d_last_error := L\<rparr>)"
          and bound: "0 \<le> A" "A \<le> 5" by blast
        have st': "st' = st\<lparr>x_db := update_delivery v wr (x_db st), x_held := Some (wr v, e, s, a),
                 x_log := x_log st @ [(d_event_id v, d_subscription_id v, ?m, False)]\<rparr>"
          using assms(1) False unfolding row Some y by (simp add: w)
        show ?thesis
          by (rule row_effectI [where gone = False and entry = "Some False" and f = wr])
            (use assms(3-6) sending bound in \<open>auto simp: st' delivery_ok_def wr\<close>)
      qed
    qed
  qed
qed

section \<open>The invariant of a dispatch\<close>

definition accepted_keys ::
    "(string \<times> string \<times> push_message \<times> bool) list \<Rightarrow> (string \<times> string) list" where
  "accepted_keys entries = List.map (\<lambda>(ev, sub, _). (ev, sub)) (filter (\<lambda>(_, _, _, ok). ok) entries)"

definition used_keys :: "dispatch_state \<Rightarrow> (string \<times> string) list" where
  "used_keys st = List.map (\<lambda>(ev, sub, _). (ev, sub)) (x_log st) @
     (case x_held st of None \<Rightarrow> [] | Some (v, _) \<Rightarrow> [delivery_key v])"

definition dispatch_ok :: "dispatch_state \<Rightarrow> bool" where
  "dispatch_ok st \<longleftrightarrow>
     db_ok (x_db st) \<and> deliveries_ok (x_db st) \<and>
     (\<forall>v e s a. x_held st = Some (v, e, s, a) \<longrightarrow>
        (\<forall>w \<in> set (push_deliveries (x_db st)). same_delivery v w \<longrightarrow> w = v)) \<and>
     (\<forall>w \<in> set (push_deliveries (x_db st)). delivery_key w \<in> set (accepted_keys (x_log st)) \<longrightarrow>
        d_sent_at w \<noteq> None) \<and>
     distinct (accepted_keys (x_log st)) \<and> x_sent st = length (accepted_keys (x_log st))"

text \<open>
  What other sessions may do between two turns: keep the constraints, leave a delivery alone or
  delete it, and create deliveries only under keys the dispatch has not met (a key is a pair of
  fresh identifiers, and a row that is gone is not created again).
\<close>

definition others_ok :: "dispatch_state \<Rightarrow> db \<Rightarrow> bool" where
  "others_ok st d \<longleftrightarrow> db_ok d \<and>
     (\<forall>w \<in> set (push_deliveries d). w \<in> set (push_deliveries (x_db st)) \<or>
        (d_attempts w = 0 \<and> d_sent_at w = None \<and> d_cancelled_at w = None \<and>
         delivery_key w \<notin> set (used_keys st)))"

fun turns_ok :: "push_env \<Rightarrow> (string \<times> int \<times> string) list \<Rightarrow> tick list \<Rightarrow> dispatch_state \<Rightarrow> bool" where
  "turns_ok n el [] st = True"
| "turns_ok n el (k # ks) st =
     (others_ok st (k_others k (x_db st)) \<and>
      (case dispatch_turn n el k st of
         Inr (False, st1) \<Rightarrow> turns_ok n el ks st1
       | _ \<Rightarrow> True))"

lemma accepted_keys_simps [simp]:
  "accepted_keys [] = []"
  "accepted_keys (entries @ [(ev, sub, m, ok)]) = accepted_keys entries @ (if ok then [(ev, sub)] else [])"
  by (simp_all add: accepted_keys_def)

lemma accepted_keys_used: "set (accepted_keys (x_log st)) \<subseteq> set (used_keys st)"
  by (force simp: accepted_keys_def used_keys_def)

lemma dispatch_ok_others:
  assumes "dispatch_ok st" and "others_ok st d"
  shows "dispatch_ok (st\<lparr>x_db := d\<rparr>)"
  unfolding dispatch_ok_def
proof (intro conjI allI impI ballI)
  show "db_ok (x_db (st\<lparr>x_db := d\<rparr>))" using assms(2) by (simp add: others_ok_def)
  show "deliveries_ok (x_db (st\<lparr>x_db := d\<rparr>))"
    using assms by (fastforce simp: others_ok_def dispatch_ok_def deliveries_ok_def list_all_iff delivery_ok_def)
  show "distinct (accepted_keys (x_log (st\<lparr>x_db := d\<rparr>)))"
    and "x_sent (st\<lparr>x_db := d\<rparr>) = length (accepted_keys (x_log (st\<lparr>x_db := d\<rparr>)))"
    using assms(1) by (simp_all add: dispatch_ok_def)
next
  fix v e s a w
  assume held: "x_held (st\<lparr>x_db := d\<rparr>) = Some (v, e, s, a)" and w: "w \<in> set (push_deliveries (x_db (st\<lparr>x_db := d\<rparr>)))"
    and same: "same_delivery v w"
  have "delivery_key w \<in> set (used_keys st)"
    using held same by (simp add: used_keys_def same_delivery_key)
  then have "w \<in> set (push_deliveries (x_db st))" using assms(2) w by (auto simp: others_ok_def)
  then show "w = v" using assms(1) held same by (simp add: dispatch_ok_def)
next
  fix w
  assume w: "w \<in> set (push_deliveries (x_db (st\<lparr>x_db := d\<rparr>)))"
    and key: "delivery_key w \<in> set (accepted_keys (x_log (st\<lparr>x_db := d\<rparr>)))"
  then have "delivery_key w \<in> set (used_keys st)" using accepted_keys_used [of st] by auto
  then have "w \<in> set (push_deliveries (x_db st))" using assms(2) w by (auto simp: others_ok_def)
  then show "d_sent_at w \<noteq> None" using assms(1) key by (simp add: dispatch_ok_def)
qed

lemma identity_map_delivery:
  assumes "dispatch_ok st" and "(v, e, s, a) \<in> set (pending_rows locked now (x_db st))"
  obtains e1 s1 a1 where "identity_map (x_held st) (v, e, s, a) = (v, e1, s1, a1)"
    and "e_id e1 = e_id e" and "p_id s1 = p_id s" and "a_id a1 = a_id a"
proof (cases "x_held st")
  case None
  then show ?thesis using that by (simp add: identity_map_def)
next
  case (Some held)
  obtain v0 e0 s0 a0 where held: "held = (v0, e0, s0, a0)" by (cases held) auto
  have "v \<in> set (push_deliveries (x_db st))" using assms(2) by (simp add: pending_rows_iff)
  then have "same_delivery v0 v \<Longrightarrow> v0 = v"
    using assms(1) Some held by (auto simp: dispatch_ok_def)
  then show ?thesis using that Some held by (auto simp: identity_map_def)
qed

lemma dispatch_ok_row:
  assumes "dispatch_ok st" and "row \<in> set (pending_rows locked now (x_db st))"
    and "dispatch_row n el k row st = Inr (stop, st')"
  shows "dispatch_ok st'"
proof -
  obtain v e0 s0 a0 where row: "row = (v, e0, s0, a0)" by (cases row) auto
  have pend: "v \<in> set (push_deliveries (x_db st))" "d_sent_at v = None" "d_cancelled_at v = None"
      "d_attempts v < 5"
    using assms(2) by (simp_all add: row pending_rows_iff)
  have db: "db_ok (x_db st)" and dl: "deliveries_ok (x_db st)" using assms(1) by (simp_all add: dispatch_ok_def)
  then have nc: "no_conflicts same_delivery (push_deliveries (x_db st))"
    by (simp add: db_ok_def uniques_ok_def)
  obtain e s a where im: "identity_map (x_held st) row = (v, e, s, a)"
    using identity_map_delivery [OF assms(1) assms(2) [unfolded row]] unfolding row by metis
  have "0 \<le> d_attempts v" using dl pend(1) by (auto simp: deliveries_ok_def list_all_iff delivery_ok_def)
  from dispatch_row_shape [OF assms(3) im this pend(4,2,3)]
  obtain f gone entry where eff: "row_effect n el k (v, e, s, a) st st' f gone entry" by blast
  then have x: "x_db st' = (if gone then delete_subscriptions (\<lambda>p. p_id p = p_id s)
        (update_delivery v f (x_db st)) else update_delivery v f (x_db st))"
    and held: "x_held st' = Some (f v, e, s, a)" and key: "\<And>w. delivery_key (f w) = delivery_key w"
    and ok: "delivery_ok (f v)"
    unfolding row_effect_def Let_def prod.case by blast+
  have entry: "(accepted_keys (x_log st') = accepted_keys (x_log st) \<and> x_sent st' = x_sent st) \<or>
      (accepted_keys (x_log st') = accepted_keys (x_log st) @ [delivery_key v] \<and>
       x_sent st' = x_sent st + 1 \<and> d_sent_at (f v) \<noteq> None)"
    using eff by (auto simp: row_effect_def Let_def delivery_key_def split: option.splits)
  have rows: "w = f v \<or> (w \<in> set (push_deliveries (x_db st)) \<and> \<not> same_delivery v w)"
    if "w \<in> set (push_deliveries (x_db st'))" for w
  proof -
    have "w \<in> set (push_deliveries (update_delivery v f (x_db st)))"
      using that by (auto simp: x delete_subscriptions_def Let_def table_simps split: if_splits)
    then show ?thesis by (rule update_delivery_rows [OF nc pend(1)])
  qed
  have fresh: "delivery_key v \<notin> set (accepted_keys (x_log st))"
    using assms(1) pend(1,2) by (auto simp: dispatch_ok_def)
  show ?thesis
    unfolding dispatch_ok_def
  proof (intro conjI allI impI ballI)
    show "db_ok (x_db st')" using update_delivery_ok [OF db key] by (auto simp: x db_ok_def)
    show "deliveries_ok (x_db st')"
      using rows ok dl by (auto simp: deliveries_ok_def list_all_iff)
    show "distinct (accepted_keys (x_log st'))"
      using entry fresh assms(1) by (auto simp: dispatch_ok_def)
    show "x_sent st' = length (accepted_keys (x_log st'))"
      using entry assms(1) by (auto simp: dispatch_ok_def)
  next
    fix v' e' s' a' w
    assume "x_held st' = Some (v', e', s', a')" and "w \<in> set (push_deliveries (x_db st'))"
      and "same_delivery v' w"
    then show "w = v'" using rows [of w] held key [of v] by (auto simp: same_delivery_key)
  next
    fix w
    assume w: "w \<in> set (push_deliveries (x_db st'))" and k: "delivery_key w \<in> set (accepted_keys (x_log st'))"
    show "d_sent_at w \<noteq> None"
    proof (cases "w = f v")
      case True
      then have "delivery_key w = delivery_key v" by (simp add: key)
      then show ?thesis using k entry fresh True by auto
    next
      case False
      then have old: "w \<in> set (push_deliveries (x_db st))" "delivery_key w \<noteq> delivery_key v"
        using rows [OF w] by (auto simp: same_delivery_key)
      then have "delivery_key w \<in> set (accepted_keys (x_log st))"
        using k entry by auto
      then show ?thesis using old assms(1) by (simp add: dispatch_ok_def)
    qed
  qed
qed

lemma dispatch_ok_turn:
  assumes "dispatch_ok st" and "others_ok st (k_others k (x_db st))"
    and "dispatch_turn n el k st = Inr (stop, st')"
  shows "dispatch_ok st'"
proof -
  let ?st = "st\<lparr>x_db := k_others k (x_db st)\<rparr>"
  have ok: "dispatch_ok ?st" using assms(1,2) by (rule dispatch_ok_others)
  show ?thesis
  proof (cases "k_lock k \<and> next_pending (k_locked k) (k_db_now k) (x_db ?st) \<noteq> None")
    case True
    then obtain row where row: "next_pending (k_locked k) (k_db_now k) (x_db ?st) = Some row" by blast
    then have "dispatch_row n el k row ?st = Inr (stop, st')"
      using assms(3) True by (simp add: dispatch_turn_def Let_def)
    from dispatch_ok_row [OF ok next_pending_row [OF row] this] show ?thesis .
  next
    case False
    then have "st' = ?st" using assms(3) by (auto simp: dispatch_turn_def Let_def split: option.splits if_splits)
    then show ?thesis using ok by simp
  qed
qed

lemma dispatch_ok_loop:
  "dispatch_ok st \<Longrightarrow> turns_ok n el ks st \<Longrightarrow> dispatch_loop n el ks st = (r, st') \<Longrightarrow> dispatch_ok st'"
proof (induction n el ks st rule: dispatch_loop.induct)
  case (2 n el k ks st)
  show ?case
  proof (cases "dispatch_turn n el k st")
    case (Inl e)
    then show ?thesis using 2 dispatch_ok_others by auto
  next
    case (Inr p)
    obtain stop st1 where p: "p = (stop, st1)" by force
    have "dispatch_ok st1" using dispatch_ok_turn [OF 2(2)] 2(3) Inr p by auto
    then show ?thesis using 2 Inr p by (cases stop) auto
  qed
qed simp

lemma turns_ok_alone:
  "dispatch_ok st \<Longrightarrow> \<forall>k \<in> set ks. k_others k = id \<Longrightarrow> turns_ok n el ks st"
proof (induction ks arbitrary: st)
  case (Cons k ks)
  have others: "others_ok st (k_others k (x_db st))"
    using Cons.prems by (simp add: others_ok_def dispatch_ok_def)
  show ?case
    using others dispatch_ok_turn [OF Cons.prems(1) others, of n el False] Cons
    by (auto split: sum.split bool.split)
qed simp


section \<open>Who receives a message\<close>

lemma message_ttl_bounds: "0 \<le> message_ttl x y" "message_ttl x y \<le> 3600"
  by (simp_all add: message_ttl_def Let_def)

lemma message_ttl_expired: "x \<le> y \<Longrightarrow> message_ttl x y = 0"
  by (auto simp: message_ttl_def Let_def div_neg_pos_less0 pos_imp_zdiv_nonneg_iff)

text \<open>
  Property C13. A turn that sends anything sends one message, for a delivery that was due, unsent,
  uncancelled and tried fewer than five times in the database the turn saw, about an alert that had
  not expired and was a candidate when the dispatch began, to a device of the user of the event, who at that
  moment still followed the municipality with notifications on. The message lives between one second
  and one hour, and it is built from the rows read (or from the copies of the same rows which the
  previous turn left in the session).
\<close>

theorem dispatch_sends_only_to_followers:
  assumes "dispatch_turn n el k st = Inr (stop, st')" and "dispatch_ok st"
    and "others_ok st (k_others k (x_db st))" and "x_log st' \<noteq> x_log st"
  shows "\<exists>v e s a f e1 s1 a1 ok. let d = k_others k (x_db st) in
    v \<in> set (push_deliveries d) \<and> d_sent_at v = None \<and> d_cancelled_at v = None \<and> d_attempts v < 5 \<and>
    d_next_attempt_at v \<le> k_db_now k \<and>
    e \<in> set (notification_events d) \<and> e_id e = d_event_id v \<and>
    s \<in> set (push_subscriptions d) \<and> p_id s = d_subscription_id v \<and> p_user_id s = e_user_id e \<and>
    f \<in> set (followed_municipalities d) \<and> f_user_id f = e_user_id e \<and>
    f_municipality_code f = e_municipality_code e \<and> wants_notifications f \<and>
    a \<in> set (weather_alerts d) \<and> a_id a = e_alert_id e \<and> k_db_now k < a_expires a \<and>
    identity_map (x_held st) (v, e, s, a) = (v, e1, s1, a1) \<and>
    (e_user_id e1, e_alert_id e1, e_municipality_code e1) \<in> set el \<and>
    e_alert_version e1 = alert_version (n_digest n) a1 \<and> k_now k < a_expires a1 \<and>
    x_log st' = x_log st @ [(d_event_id v, d_subscription_id v,
      push_payload n e1 a1 s1 (message_ttl (a_expires a1) (k_now k)), ok)] \<and>
    0 < message_ttl (a_expires a1) (k_now k) \<and> message_ttl (a_expires a1) (k_now k) \<le> 3600"
proof -
  define d where "d = k_others k (x_db st)"
  let ?st = "st\<lparr>x_db := d\<rparr>"
  have ok: "dispatch_ok ?st" unfolding d_def using assms(2,3) by (rule dispatch_ok_others)
  obtain row where row: "next_pending (k_locked k) (k_db_now k) d = Some row"
    and step: "dispatch_row n el k row ?st = Inr (stop, st')"
    using assms(1,4) by (auto simp: dispatch_turn_def Let_def d_def split: if_splits option.splits)
  obtain v e s a where vesa: "row = (v, e, s, a)" by (cases row) auto
  have pend: "(v, e, s, a) \<in> set (pending_rows (k_locked k) (k_db_now k) d)"
    using next_pending_row [OF row] by (simp add: vesa)
  then have "(v, e, s, a) \<in> set (pending_rows (k_locked k) (k_db_now k) (x_db ?st))" by simp
  from identity_map_delivery [OF ok this] obtain e1 s1 a1 where
    im: "identity_map (x_held ?st) row = (v, e1, s1, a1)" unfolding vesa by metis
  note facts = pend [unfolded pending_rows_iff]
  have "0 \<le> d_attempts v" using ok facts by (auto simp: dispatch_ok_def deliveries_ok_def list_all_iff delivery_ok_def)
  with facts have "\<exists>f gone entry. row_effect n el k (v, e1, s1, a1) ?st st' f gone entry"
    by (intro dispatch_row_shape [OF step im]) simp_all
  then obtain f0 gone entry where eff: "row_effect n el k (v, e1, s1, a1) ?st st' f0 gone entry" by blast
  then obtain sent where sent: "x_log st' = x_log st @ [(d_event_id v, d_subscription_id v,
      push_payload n e1 a1 s1 (message_ttl (a_expires a1) (k_now k)), sent)]"
    and send: "message_ttl (a_expires a1) (k_now k) \<noteq> 0" "e_alert_version e1 = alert_version (n_digest n) a1"
      "(e_user_id e1, e_alert_id e1, e_municipality_code e1) \<in> set el"
    using assms(4) by (auto simp: row_effect_def Let_def split: option.splits)
  have ttl: "0 < message_ttl (a_expires a1) (k_now k)"
    using send(1) message_ttl_bounds [of "a_expires a1" "k_now k"] by linarith
  moreover have "k_now k < a_expires a1"
    using send(1) message_ttl_expired [of "a_expires a1" "k_now k"] by linarith
  moreover obtain f where "f \<in> set (followed_municipalities d)" "f_user_id f = e_user_id e"
      "f_municipality_code f = e_municipality_code e" "wants_notifications f" using facts by blast
  ultimately show ?thesis
    using facts im sent send message_ttl_bounds(2) [of "a_expires a1" "k_now k"]
    unfolding Let_def d_def [symmetric] vesa
    by (intro exI [of _ v] exI [of _ e] exI [of _ s] exI [of _ a] exI [of _ f] exI [of _ e1]
        exI [of _ s1] exI [of _ a1] exI [of _ sent]) simp
qed

section \<open>Refused sends\<close>

lemma retry_delays:
  "retry_delay 1 = minutes 10" "retry_delay 2 = minutes 20" "retry_delay 3 = minutes 40"
  "retry_delay 4 = hours 1" "retry_delay 5 = hours 1"
  by (simp_all add: retry_delay_def)

text \<open>
  Property C14. What a refusal with status \<open>code\<close> does: 404 and 410 remove the subscription with all its
  deliveries; 400 uses up the attempts; 401, 403 and 429 end the dispatch without counting the
  attempt; any other status counts it. The next attempt waits 10, 20, 40, then 60 minutes.
\<close>

theorem refused_send_outcome:
  assumes "dispatch_row n el k (v, e, s, a) st = Inr (stop, st')"
    and "(v, e, s, a) \<in> set (pending_rows locked now (x_db st))" and "db_ok (x_db st)"
    and "identity_map (x_held st) (v, e, s, a) = (v, e, s, a)"
    and "e_alert_version e = alert_version (n_digest n) a" and "message_ttl (a_expires a) (k_now k) \<noteq> 0"
    and "(e_user_id e, e_alert_id e, e_municipality_code e) \<in> set el" and "n_has_key n"
    and "\<And>m. k_push k m = PushRefused (Some code)"
  shows "if code \<in> {404, 410}
    then \<not> stop \<and> push_subscriptions (x_db st') = filter (\<lambda>p. p_id p \<noteq> p_id s) (push_subscriptions (x_db st)) \<and>
      list_all (\<lambda>w. d_subscription_id w \<noteq> p_id s) (push_deliveries (x_db st'))
    else (stop \<longleftrightarrow> code \<in> {401, 403, 429}) \<and> push_subscriptions (x_db st') = push_subscriptions (x_db st) \<and>
      (\<exists>w \<in> set (push_deliveries (x_db st')). same_delivery v w \<and> d_sent_at w = None \<and>
        d_attempts w = (if code = 400 then 5 else if code \<in> {401, 403, 429} then d_attempts v else d_attempts v + 1) \<and>
        d_next_attempt_at w = k_now k + retry_delay (d_attempts v + 1))"
proof -
  let ?m = "push_payload n e a s (message_ttl (a_expires a) (k_now k))"
  let ?x = "mk_error ProviderError [(''status'', DInt code)]"
  have send: "send n (k_push k) ?m = Some (RaisedDomain ?x)"
    using assms(8,9) by (simp add: send_def)
  have status: "error_status ?x = Some code" "\<not> configuration_error ?x"
    by (simp_all add: error_status_def configuration_error_def)
  note pend = assms(2) [unfolded pending_rows_iff]
  have step: "dispatch_row n el k (v, e, s, a) st =
    (if code \<in> {404, 410}
     then Inr (False, st\<lparr>x_db := delete_subscriptions (\<lambda>p. p_id p = p_id s)
             (update_delivery v (\<lambda>r. r\<lparr>d_attempts := d_attempts v + 1\<rparr>) (x_db st)),
           x_held := Some (v\<lparr>d_attempts := d_attempts v + 1\<rparr>, e, s, a),
           x_log := x_log st @ [(d_event_id v, d_subscription_id v, ?m, False)]\<rparr>)
     else (let (wr, stop) = after_refusal n (k_now k) ?x (d_attempts v) in
           Inr (stop, st\<lparr>x_db := update_delivery v wr (x_db st), x_held := Some (wr v, e, s, a),
                         x_log := x_log st @ [(d_event_id v, d_subscription_id v, ?m, False)]\<rparr>)))"
    unfolding dispatch_row_def assms(4) Let_def prod.case send
    using assms(5,6,7) by (simp add: status)
  show ?thesis
  proof (cases "code \<in> {404, 410}")
    case True
    then have st': "x_db st' = delete_subscriptions (\<lambda>p. p_id p = p_id s)
             (update_delivery v (\<lambda>r. r\<lparr>d_attempts := d_attempts v + 1\<rparr>) (x_db st))" and "\<not> stop"
      using assms(1) unfolding step by auto
    moreover have "s \<in> set (push_subscriptions (x_db st))" using pend by blast
    ultimately show ?thesis using True
      by (auto simp: delete_subscriptions_def update_delivery_def Let_def list_all_iff table_simps
          delete_where_def)
  next
    case False
    obtain wr st1 where w: "after_refusal n (k_now k) ?x (d_attempts v) = (wr, st1)" by force
    have "x_db st' = update_delivery v wr (x_db st)" and "stop = st1"
      using assms(1) False unfolding step w by auto
    moreover have "wr v \<in> set (push_deliveries (update_delivery v wr (x_db st)))"
      using pend by (auto simp: update_delivery_def set_update_where same_delivery_def image_iff)
    moreover have "st1 \<longleftrightarrow> code \<in> {401, 403, 429}" "same_delivery v (wr v)" "d_sent_at (wr v) = None"
        "d_attempts (wr v) = (if code = 400 then 5 else if code \<in> {401, 403, 429} then d_attempts v else d_attempts v + 1)"
        "d_next_attempt_at (wr v) = k_now k + retry_delay (d_attempts v + 1)"
      using w pend by (auto simp: after_refusal_def Let_def status same_delivery_def)
    ultimately show ?thesis using False
      by (auto simp: update_delivery_def)
  qed
qed

section \<open>Devices and opting out\<close>

text \<open>
  Property C15. After a device registers, its endpoint has exactly one subscription, owned by the
  account that registered it and holding the keys sent; no delivery of another account's events to that
  endpoint survives; and the subscriptions of other endpoints are untouched.
\<close>

theorem register_device_takes_endpoint:
  assumes "register_device now i uid ep keys d = Inr d'" and "db_ok d"
    and "\<forall>v \<in> set (push_deliveries d). \<forall>e \<in> set (notification_events d). \<forall>p \<in> set (push_subscriptions d).
       e_id e = d_event_id v \<longrightarrow> p_id p = d_subscription_id v \<longrightarrow> p_user_id p = e_user_id e"
  shows "(\<exists>p. filter (\<lambda>p. p_endpoint p = ep) (push_subscriptions d') = [p] \<and> p_user_id p = uid \<and>
      p_p256dh p = pk_p256dh keys \<and> p_auth p = pk_auth keys \<and>
      (\<forall>v \<in> set (push_deliveries d'). \<forall>e \<in> set (notification_events d').
         d_subscription_id v = p_id p \<and> e_id e = d_event_id v \<longrightarrow> e_user_id e = uid)) \<and>
    filter (\<lambda>p. p_endpoint p \<noteq> ep) (push_subscriptions d') = filter (\<lambda>p. p_endpoint p \<noteq> ep) (push_subscriptions d) \<and>
    db_ok d'"
proof -
  define d1 where "d1 = delete_subscriptions (\<lambda>p. p_endpoint p = ep \<and> p_user_id p \<noteq> uid) d"
  define r where "r = \<lparr>p_id = i, p_user_id = uid, p_endpoint = ep, p_p256dh = pk_p256dh keys,
               p_auth = pk_auth keys, p_created_at = now, p_updated_at = now\<rparr>"
  let ?t = "push_subscriptions d1"
  let ?ps = "insert_or_update same_endpoint merge_subscription r ?t"
  have r: "p_endpoint r = ep" "p_user_id r = uid" "p_id r = i" by (simp_all add: r_def)
  have ok1: "db_ok d1" using assms(2) by (auto simp: d1_def db_ok_def)
  then have nc: "no_conflicts same_endpoint ?t" and
    fk: "refers d_subscription_id (push_deliveries d1) p_id ?t"
    by (simp_all add: db_ok_def uniques_ok_def foreign_keys_ok_def)
  have d': "d' = d1\<lparr>push_subscriptions := ?ps\<rparr>" and
    new_id: "\<not> list_ex (same_endpoint r) ?t \<Longrightarrow> \<forall>p \<in> set ?t. p_id p \<noteq> i"
    using assms(1)
    by (auto simp: register_device_def register_subscription_def d1_def [symmetric] r_def [symmetric]
        Let_def list_ex_iff split: if_splits)
  have mine: "p_user_id p = uid" if "p \<in> set ?t" "p_endpoint p = ep" for p
    using that by (auto simp: d1_def table_simps)
  have owner: "e_user_id e = uid" if "v \<in> set (push_deliveries d1)" "e \<in> set (notification_events d1)"
    "p \<in> set ?t" "p_endpoint p = ep" "d_subscription_id v = p_id p" "e_id e = d_event_id v" for v e p
  proof -
    have "v \<in> set (push_deliveries d)" "e \<in> set (notification_events d)" "p \<in> set (push_subscriptions d)"
      using that(1-3) by (auto simp: d1_def delete_subscriptions_def Let_def table_simps)
    then have "p_user_id p = e_user_id e" using assms(3) that(5,6) by metis
    then show ?thesis using mine [OF that(3,4)] by simp
  qed
  have others: "filter (\<lambda>p. p_endpoint p \<noteq> ep) ?t = filter (\<lambda>p. p_endpoint p \<noteq> ep) (push_subscriptions d)"
    by (auto simp: d1_def delete_where_def intro: filter_cong)
  have "\<exists>p. filter (\<lambda>p. p_endpoint p = ep) ?ps = [p] \<and> p_user_id p = uid \<and>
      p_p256dh p = pk_p256dh keys \<and> p_auth p = pk_auth keys \<and>
      (\<forall>v \<in> set (push_deliveries d1). \<forall>e \<in> set (notification_events d1).
         d_subscription_id v = p_id p \<and> e_id e = d_event_id v \<longrightarrow> e_user_id e = uid)"
  proof (cases "list_ex (same_endpoint r) ?t")
    case True
    then obtain q where q: "q \<in> set ?t" "p_endpoint q = ep" by (auto simp: list_ex_iff same_endpoint_def r)
    have "filter (\<lambda>p. p_endpoint p = p_endpoint q) ?t = [q]"
      using nc q(1) by (intro filter_key_unique [of same_endpoint]) (auto simp: same_endpoint_def)
    then have "filter (\<lambda>p. p_endpoint p = ep) ?ps = [merge_subscription r q]"
      using True filter_upsert(2) [of same_endpoint r p_endpoint merge_subscription ?t]
      by (auto simp: same_endpoint_def r q(2))
    then show ?thesis using mine [OF q] owner [OF _ _ q]
      by (auto simp: merge_subscription_def r_def)
  next
    case False
    then have "filter (\<lambda>p. p_endpoint p = ep) ?t = []" by (auto simp: list_ex_iff same_endpoint_def r filter_empty_conv)
    moreover have "d_subscription_id v \<noteq> i" if "v \<in> set (push_deliveries d1)" for v
      using fk new_id [OF False] that by (auto simp: refers_iff)
    ultimately show ?thesis using False by (auto simp: subscriptions_table.ups_fresh r r_def)
  qed
  moreover have "filter (\<lambda>p. p_endpoint p \<noteq> ep) ?ps = filter (\<lambda>p. p_endpoint p \<noteq> ep) ?t"
    using filter_upsert(1) [of same_endpoint r p_endpoint merge_subscription ?t]
    by (auto simp: same_endpoint_def r)
  ultimately show ?thesis
    using others register_subscription_ok [OF assms(1) [unfolded register_device_def] assms(2)]
    by (simp add: d')
qed

text \<open>
  Opting out takes effect at once: from the commit that unfollows a municipality or turns its
  notifications off, no queued delivery of that user for it is selected any more (not even a retry), and no
  alert makes it a candidate again.
\<close>

theorem opt_out_is_immediate:
  assumes "d' = unfollow uid code d \<or> (\<exists>row. set_notifications t uid code False d = Inr (row, d'))"
  shows "list_all (\<lambda>(v, e, s, a). \<not> (e_user_id e = uid \<and> e_municipality_code e = code))
      (pending_rows locked now d') \<and>
    list_all (\<lambda>k. \<not> (k_user_id k = uid \<and> k_municipality_code k = code)) (candidates ix now d')"
proof -
  have silent: "\<not> wants_notifications f"
    if "f \<in> set (followed_municipalities d')" "f_user_id f = uid" "f_municipality_code f = code" for f
    using assms
  proof (elim disjE exE)
    assume "d' = unfollow uid code d"
    then show ?thesis using that unfollow_gone [of uid code d] by blast
  next
    fix row assume "set_notifications t uid code False d = Inr (row, d')"
    then obtain found where "set_notifications_row t uid code False d = Inr (found, d')"
      by (auto simp: set_notifications_def split: sum.splits if_splits option.splits prod.splits)
    from set_notifications_row_cases(1) [OF this] that(1)
    have "f \<in> set (update_where (\<lambda>f. f_user_id f = uid \<and> f_municipality_code f = code)
        (\<lambda>f. f\<lparr>f_notifications_enabled := False, f_notifications_opt_in_at := None\<rparr>)
        (followed_municipalities d))" by simp
    then obtain g where "f = (if f_user_id g = uid \<and> f_municipality_code g = code
        then g\<lparr>f_notifications_enabled := False, f_notifications_opt_in_at := None\<rparr> else g)"
      unfolding set_update_where by blast
    then show ?thesis using that(2,3)
      by (cases "f_user_id g = uid \<and> f_municipality_code g = code") (auto simp: wants_notifications_def)
  qed
  have "\<not> (e_user_id e = uid \<and> e_municipality_code e = code)"
    if "(v, e, s, a) \<in> set (pending_rows locked now d')" for v e s a
    using that silent unfolding pending_rows_iff by blast
  moreover have "\<not> (k_user_id k = uid \<and> k_municipality_code k = code)"
    if k: "k \<in> set (candidates ix now d')" for k
  proof -
    obtain f where "f \<in> set (followed_municipalities d')" "wants_notifications f"
        "k_user_id k = f_user_id f" "k_municipality_code k = f_municipality_code f"
      using k by (auto simp: candidates_def)
    then show ?thesis using silent by metis
  qed
  ultimately show ?thesis by (auto simp: list_all_iff)
qed

end
