(* ===== verification/Notification_Witnesses.thy ===== *)
theory Notification_Witnesses
  imports Notification_Laws Account_Witnesses
begin

text \<open>Concrete runs of the follow and notification operations, at which the properties apply.\<close>

definition town0 :: territory where
  "town0 = \<lparr>t_id = 1, t_level = Municipality, t_ibge_code = ''3550308'', t_name = ''Sao Paulo'',
     t_abbreviation = None, t_parent_id = None, t_capital_id = None, t_west = None, t_south = None,
     t_east = None, t_north = None, t_normalized_name = None, t_normalized_abbreviation = None\<rparr>"

definition followed0 :: followed where
  "followed0 = \<lparr>f_id = 1, f_user_id = ''u1'', f_municipality_code = ''3550308'',
     f_notifications_enabled = True, f_notifications_opt_in_at = Some 0, f_created_at = 0\<rparr>"

definition alert0 :: weather_alert where
  "alert0 = \<lparr>a_id = 7, a_provider = Inmet, a_external_id = ''x'', a_event = ''Chuva'', a_severity = ''Perigo'',
     a_color = None, a_description = None, a_onset = 0, a_expires = hours 6, a_polygon = ''P'',
     a_affected_ibge_codes = [''3550308''], a_risks = [], a_instructions = []\<rparr>"

definition device0 :: push_subscription where
  "device0 = \<lparr>p_id = ''p1'', p_user_id = ''u1'', p_endpoint = ''E'', p_p256dh = ''k'', p_auth = ''a'',
     p_created_at = 0, p_updated_at = 0\<rparr>"

definition event0 :: notification_event where
  "event0 = \<lparr>e_id = ''e1'', e_user_id = ''u1'', e_alert_id = 7, e_municipality_code = ''3550308'',
     e_alert_version = ''Chuva'', e_content = \<lparr>c_municipality_code = ''3550308'',
       c_municipality_name = ''Sao Paulo'', c_state_abbreviation = None, c_source = ''inmet'',
       c_event = ''Chuva'', c_severity = ''Perigo'', c_description = None, c_risks = [], c_instructions = []\<rparr>,
     e_created_at = 0\<rparr>"

text \<open>A user with a device who follows a town under an alert, before and after it is queued.\<close>

definition db1 :: db where
  "db1 = db0\<lparr>territories := [town0], followed_municipalities := [followed0],
     weather_alerts := [alert0], push_subscriptions := [device0]\<rparr>"

definition db2 :: db where
  "db2 = db1\<lparr>notification_events := [event0], push_deliveries := [new_delivery 0 ''e1'' ''p1'']\<rparr>"

lemmas row_defs = town0_def followed0_def alert0_def device0_def event0_def

lemma db_ok_db1: "db_ok db1"
  using db_ok_db0
  by (simp add: db1_def db_ok_def uniques_ok_def foreign_keys_ok_def refers_def no_conflicts_def row_defs
      db0_def empty_db_def new_user_def env0_def)

lemma db_ok_db2: "db_ok db2"
  using db_ok_db1
  by (simp add: db2_def db1_def db_ok_def uniques_ok_def foreign_keys_ok_def refers_def no_conflicts_def
      row_defs db0_def empty_db_def new_user_def env0_def new_delivery_def)

definition push0 :: push_env where
  "push0 = \<lparr>n_digest = (\<lambda>(ev, _). ev), n_intersects = (\<lambda>_ _. False), n_isoformat = (\<lambda>_. ''t''),
     n_error_text = (\<lambda>_. ''recusado''), n_has_key = True, n_batch_limit = 500\<rparr>"

definition tick0 :: "webpush_outcome \<Rightarrow> tick" where
  "tick0 outcome = \<lparr>k_others = id, k_lock = True, k_locked = (\<lambda>_. False), k_db_now = 0, k_now = 0,
     k_push = (\<lambda>_. outcome)\<rparr>"

lemma candidates1: "candidates ix 0 db1 = [\<lparr>k_user_id = ''u1'', k_municipality_code = ''3550308'',
     k_municipality_name = ''Sao Paulo'', k_state_abbreviation = None, k_alert_id = 7, k_provider = ''inmet'',
     k_event = ''Chuva'', k_severity = ''Perigo'', k_description = None, k_risks = [], k_instructions = []\<rparr>]"
  by (simp add: candidates_def db1_def row_defs wants_notifications_def left_join_def alert_covers_def
      db0_def empty_db_def)

lemma enqueue1: "enqueue 0 [event0] db1 = Inr db2"
  by (simp add: enqueue_def insert_event_def insert_ignore_def insert_deliveries_def due_deliveries_def
      drop_old_events_def delete_events_def delete_where_def db2_def db1_def db0_def empty_db_def row_defs
      wants_notifications_def new_user_def env0_def Let_def)

lemma dispatch1:
  "dispatch push0 0 (\<lambda>_. ''e1'') turns db1 =
     dispatch_loop push0 [(''u1'', 7, ''3550308'')] (take 500 turns)
       \<lparr>x_db = db2, x_held = None, x_sent = 0, x_log = []\<rparr>"
proof -
  have "event_of (n_digest push0) 0 ''e1'' (hd (candidates (n_intersects push0) 0 db1)) = event0"
    by (simp add: candidates1 event_of_def candidate_version_def content_of_def push0_def event0_def)
  then show ?thesis using enqueue1
    by (simp add: dispatch_def candidates1 Let_def eligible_of_def push0_def)
qed

lemma pending2: "next_pending (\<lambda>_. False) 0 db2 = Some (new_delivery 0 ''e1'' ''p1'', event0, device0, alert0)"
  by (simp add: next_pending_def pending_rows_def min_by_def db2_def db1_def row_defs new_delivery_def
      wants_notifications_def)

theorem follow_is_idempotent_witness:
  "\<exists>row. follow 5 2 ''u1'' ''3550308'' db1 = Inr ((row, False), db1) \<and>
     of_user ''u1'' (unfollow ''u1'' ''3550308'' db1) = []"
proof -
  obtain row d' where r: "follow 5 2 ''u1'' ''3550308'' db1 = Inr ((row, False), d')"
    by (simp add: follow_def get_level_by_code_def follow_row_def insert_ignore_def same_followed_def
        get_for_user_def select_first_def db1_def row_defs Let_def)
  from follow_is_idempotent [OF r db_ok_db1, of 0 0 "[]"] r show ?thesis
    by (auto simp: of_user_def db1_def row_defs)
qed

definition start0 :: dispatch_state where
  "start0 = \<lparr>x_db = db2, x_held = None, x_sent = 0, x_log = []\<rparr>"

lemma deliveries_ok_db2: "deliveries_ok db2" and deliveries_ok_db1: "deliveries_ok db1"
  by (simp_all add: deliveries_ok_def db2_def db1_def db0_def empty_db_def)

lemma dispatch_ok_start0: "dispatch_ok start0"
  by (simp add: dispatch_ok_def start0_def db_ok_db2 deliveries_ok_db2)

lemma eval_row:
  "dispatch_turn push0 [(''u1'', 7, ''3550308'')] (tick0 outcome) start0 =
   dispatch_row push0 [(''u1'', 7, ''3550308'')] (tick0 outcome)
     (new_delivery 0 ''e1'' ''p1'', event0, device0, alert0) start0"
proof -
  have "start0\<lparr>x_db := db2\<rparr> = start0" by (simp add: start0_def)
  then show ?thesis by (simp add: dispatch_turn_def tick0_def Let_def pending2 start0_def)
qed

lemma turn_accepted: "\<exists>st. dispatch_turn push0 [(''u1'', 7, ''3550308'')] (tick0 PushAccepted) start0 =
    Inr (False, st) \<and> x_sent st = 1 \<and> x_log st \<noteq> x_log start0 \<and>
    pending_rows (\<lambda>_. False) 0 (x_db st) = []"
  unfolding eval_row
  by (simp add: dispatch_row_def identity_map_def start0_def Let_def tick0_def push0_def alert_version_def
      message_ttl_def send_def update_delivery_def update_where_def db2_def pending_rows_def
      same_delivery_def new_delivery_def row_defs)

theorem dispatch_sends_only_to_followers_witness:
  "\<exists>st m. dispatch_turn push0 [(''u1'', 7, ''3550308'')] (tick0 PushAccepted) start0 = Inr (False, st) \<and>
     x_log st = [(''e1'', ''p1'', m, True)] \<and> 0 < m_ttl m"
proof -
  obtain st where st: "dispatch_turn push0 [(''u1'', 7, ''3550308'')] (tick0 PushAccepted) start0 = Inr (False, st)"
      "x_sent st = 1" "x_log st \<noteq> x_log start0"
    using turn_accepted by blast
  have others: "others_ok start0 (k_others (tick0 PushAccepted) (x_db start0))"
    using dispatch_ok_start0 by (simp add: tick0_def others_ok_def dispatch_ok_def)
  have sent: "x_sent st = length (accepted_keys (x_log st))"
    using dispatch_ok_turn [OF dispatch_ok_start0 others st(1)] by (simp add: dispatch_ok_def)
  from dispatch_sends_only_to_followers [OF st(1) dispatch_ok_start0 others st(3)]
  obtain v e1 s1 a1 ok where v: "v \<in> set (push_deliveries db2)" and
    log: "x_log st = [(d_event_id v, d_subscription_id v,
        push_payload push0 e1 a1 s1 (message_ttl (a_expires a1) 0), ok)]" "0 < message_ttl (a_expires a1) 0"
    by (auto simp: Let_def start0_def tick0_def)
  then have ok using sent st(2) by (cases ok) (simp_all add: accepted_keys_def)
  moreover have "v = new_delivery 0 ''e1'' ''p1''" using v by (simp add: db2_def)
  ultimately show ?thesis using st(1) log
    by (auto simp: new_delivery_def push_payload_def Let_def)
qed


theorem refused_send_outcome_witness:
  "\<exists>stop st. dispatch_turn push0 [(''u1'', 7, ''3550308'')] (tick0 (PushRefused (Some 410))) start0 = Inr (stop, st) \<and>
     \<not> stop \<and> push_subscriptions (x_db st) = []"
proof -
  let ?row = "(new_delivery 0 ''e1'' ''p1'', event0, device0, alert0)"
  have run: "\<exists>stop st. dispatch_row push0 [(''u1'', 7, ''3550308'')] (tick0 (PushRefused (Some 410))) ?row start0 =
      Inr (stop, st)"
    by (simp add: dispatch_row_def identity_map_def start0_def Let_def tick0_def push0_def alert_version_def
        message_ttl_def send_def row_defs error_status_def mk_error_def) blast
  then obtain stop st where run: "dispatch_row push0 [(''u1'', 7, ''3550308'')] (tick0 (PushRefused (Some 410)))
      ?row start0 = Inr (stop, st)" by blast
  have "?row \<in> set (pending_rows (\<lambda>_. False) 0 (x_db start0))"
    using next_pending_row [OF pending2] by (simp add: start0_def)
  moreover have "db_ok (x_db start0)" and "identity_map (x_held start0) ?row = ?row"
    by (simp_all add: start0_def db_ok_db2 identity_map_def)
  moreover have "e_alert_version event0 = alert_version (n_digest push0) alert0"
    and "message_ttl (a_expires alert0) (k_now (tick0 (PushRefused (Some 410)))) \<noteq> 0"
    and "(e_user_id event0, e_alert_id event0, e_municipality_code event0) \<in> set [(''u1'', 7, ''3550308'')]"
    and "n_has_key push0" and "\<And>m. k_push (tick0 (PushRefused (Some 410))) m = PushRefused (Some 410)"
    by (simp_all add: event0_def alert0_def alert_version_def push0_def message_ttl_def tick0_def)
  ultimately have out: "\<not> stop \<and> push_subscriptions (x_db st) =
      filter (\<lambda>p. p_id p \<noteq> p_id device0) (push_subscriptions (x_db start0))"
    using refused_send_outcome [OF run, of "\<lambda>_. False" 0 410] by simp
  then have "push_subscriptions (x_db st) = []"
    by (simp add: start0_def db2_def db1_def)
  then show ?thesis unfolding eval_row using run out by blast
qed

theorem register_device_takes_endpoint_witness:
  "\<exists>d. register_device 9 ''p2'' ''u1'' ''E'' \<lparr>pk_p256dh = ''k2'', pk_auth = ''a2''\<rparr> db2 = Inr d \<and>
     (\<exists>p. push_subscriptions d = [p] \<and> p_p256dh p = ''k2'')"
proof -
  obtain d where run: "register_device 9 ''p2'' ''u1'' ''E'' \<lparr>pk_p256dh = ''k2'', pk_auth = ''a2''\<rparr> db2 = Inr d"
    by (simp add: register_device_def register_subscription_def Let_def delete_subscriptions_def delete_where_def
        db2_def db1_def row_defs same_endpoint_def)
  have "\<forall>v \<in> set (push_deliveries db2). \<forall>e \<in> set (notification_events db2). \<forall>p \<in> set (push_subscriptions db2).
       e_id e = d_event_id v \<longrightarrow> p_id p = d_subscription_id v \<longrightarrow> p_user_id p = e_user_id e"
    by (simp add: db2_def db1_def row_defs)
  from register_device_takes_endpoint [OF run db_ok_db2 this] obtain p where
    p: "filter (\<lambda>p. p_endpoint p = ''E'') (push_subscriptions d) = [p]" "p_p256dh p = ''k2''"
      "filter (\<lambda>p. p_endpoint p \<noteq> ''E'') (push_subscriptions d) = []"
    by (auto simp: db2_def db1_def row_defs)
  then have "\<forall>q \<in> set (push_subscriptions d). p_endpoint q = ''E''" by (auto simp: filter_empty_conv)
  then have "push_subscriptions d = [p]" using p(1) by simp
  then show ?thesis using run p(2) by blast
qed

theorem opt_out_is_immediate_witness:
  "pending_rows (\<lambda>_. False) 0 db2 \<noteq> [] \<and>
   list_all (\<lambda>(v, e, s, a). \<not> (e_user_id e = ''u1'' \<and> e_municipality_code e = ''3550308''))
     (pending_rows (\<lambda>_. False) 0 (unfollow ''u1'' ''3550308'' db2))"
  using opt_out_is_immediate [of "unfollow ''u1'' ''3550308'' db2" "''u1''" "''3550308''" db2 0 "\<lambda>_. False" 0 "\<lambda>_ _. False"]
    next_pending_row [OF pending2] by auto

end
