(* ===== verification/Shared_Cache.thy ===== *)
theory Shared_Cache
  imports Prelude
begin

text \<open>
  \<open>app/core/cooldown.py\<close> (a source that failed is left alone for a while) and
  \<open>app/core/redis_cache.py\<close> (the cache shared by the processes, optional and never fatal). The
  Redis server is what each command meets; \<open>decode\<close> and \<open>encode\<close> stand for the compressed JSON.
\<close>

section \<open>SourceCooldown\<close>

record source_cooldown =
  cd_seconds :: real
  cd_until :: clock

definition new_cooldown :: "real \<Rightarrow> source_cooldown" where
  "new_cooldown secs = \<lparr>cd_seconds = secs, cd_until = 0\<rparr>"

definition cooldown_active :: "clock \<Rightarrow> source_cooldown \<Rightarrow> bool" where
  "cooldown_active now c \<longleftrightarrow> now < cd_until c"

definition cooldown_remaining :: "clock \<Rightarrow> source_cooldown \<Rightarrow> int" where
  "cooldown_remaining now c = max 0 \<lceil>cd_until c - now\<rceil>"

definition cooldown_trip :: "clock \<Rightarrow> source_cooldown \<Rightarrow> source_cooldown" where
  "cooldown_trip now c = c\<lparr>cd_until := now + cd_seconds c\<rparr>"

definition cooldown_reset :: "source_cooldown \<Rightarrow> source_cooldown" where
  "cooldown_reset c = c\<lparr>cd_until := 0\<rparr>"

definition cooldown_reset_all :: "source_cooldown list \<Rightarrow> source_cooldown list" where
  "cooldown_reset_all registry = List.map cooldown_reset registry"

section \<open>The shared cache\<close>

record shared =
  sh_url :: "string option"
  sh_prefix :: string
  sh_unavailable_until :: clock

text \<open>\<open>client()\<close>: there is a connection when Redis is configured and did not fail lately.\<close>

definition has_client :: "clock \<Rightarrow> shared \<Rightarrow> bool" where
  "has_client now sh \<longleftrightarrow>
     (case sh_url sh of None \<Rightarrow> False | Some [] \<Rightarrow> False | Some _ \<Rightarrow> \<not> now < sh_unavailable_until sh)"

definition shared_key :: "(string \<Rightarrow> string) \<Rightarrow> shared \<Rightarrow> string \<Rightarrow> string \<Rightarrow> string" where
  "shared_key sha256 sh namespace key = sh_prefix sh @ '':'' @ namespace @ '':'' @ sha256 key"

definition shared_failed :: "clock \<Rightarrow> shared \<Rightarrow> shared" where
  "shared_failed now sh = sh\<lparr>sh_unavailable_until := now + 30\<rparr>"

text \<open>What a command meets: its answer, or a \<open>RedisError\<close>.\<close>

datatype 'a redis_reply = RedisAnswer 'a | RedisFailure

definition shared_decode :: "(string \<Rightarrow> 'v option) \<Rightarrow> string option \<Rightarrow> 'v option" where
  "shared_decode decode value =
     (case value of None \<Rightarrow> None | Some [] \<Rightarrow> None | Some payload \<Rightarrow> decode payload)"

definition shared_encode :: "('v \<Rightarrow> string) \<Rightarrow> 'v \<Rightarrow> string option" where
  "shared_encode encode value =
     (let payload = encode value in if length payload \<le> 4000000 then Some payload else None)"

definition shared_read ::
    "(string \<Rightarrow> 'v option) \<Rightarrow> clock \<Rightarrow> string option redis_reply \<Rightarrow> shared \<Rightarrow> 'v option \<times> shared" where
  "shared_read decode now reply sh =
     (if \<not> has_client now sh then (None, sh)
      else case reply of
        RedisFailure \<Rightarrow> (None, shared_failed now sh)
      | RedisAnswer value \<Rightarrow> (shared_decode decode value, sh))"

definition shared_read_many ::
    "(string \<Rightarrow> 'v option) \<Rightarrow> clock \<Rightarrow> string option list redis_reply \<Rightarrow> string list \<Rightarrow> shared
     \<Rightarrow> 'v option list \<times> shared" where
  "shared_read_many decode now reply keys sh =
     (if \<not> has_client now sh \<or> keys = [] then (replicate (length keys) None, sh)
      else case reply of
        RedisFailure \<Rightarrow> (replicate (length keys) None, shared_failed now sh)
      | RedisAnswer values \<Rightarrow> (List.map (shared_decode decode) values, sh))"

text \<open>A write: the \<open>SET\<close> commands sent (key, payload, seconds to live) and the state left.\<close>

definition shared_write ::
    "(string \<Rightarrow> string) \<Rightarrow> ('v \<Rightarrow> string) \<Rightarrow> clock \<Rightarrow> unit redis_reply \<Rightarrow> string \<Rightarrow> string \<Rightarrow> 'v \<Rightarrow> int \<Rightarrow> shared
     \<Rightarrow> (string \<times> string \<times> int) list \<times> shared" where
  "shared_write sha256 encode now reply namespace key value ttl sh =
     (case (if has_client now sh then shared_encode encode value else None) of
        None \<Rightarrow> ([], sh)
      | Some payload \<Rightarrow> ([(shared_key sha256 sh namespace key, payload, ttl)],
          case reply of RedisFailure \<Rightarrow> shared_failed now sh | RedisAnswer _ \<Rightarrow> sh))"

definition shared_write_many ::
    "(string \<Rightarrow> string) \<Rightarrow> ('v \<Rightarrow> string) \<Rightarrow> clock \<Rightarrow> unit redis_reply \<Rightarrow> string \<Rightarrow> (string \<times> 'v) list \<Rightarrow> int
     \<Rightarrow> shared \<Rightarrow> (string \<times> string \<times> int) list \<times> shared" where
  "shared_write_many sha256 encode now reply namespace values ttl sh =
     (if \<not> has_client now sh \<or> values = [] then ([], sh)
      else (concat (List.map (\<lambda>(key, value).
              case shared_encode encode value of None \<Rightarrow> []
              | Some payload \<Rightarrow> [(shared_key sha256 sh namespace key, payload, ttl)]) values),
            case reply of RedisFailure \<Rightarrow> shared_failed now sh | RedisAnswer _ \<Rightarrow> sh))"

section \<open>Laws\<close>

lemma cooldown_active_after_trip:
  "cooldown_active later (cooldown_trip now c) \<longleftrightarrow> later < now + cd_seconds c"
  by (simp add: cooldown_active_def cooldown_trip_def)

lemma cooldown_remaining_pos: "cooldown_active now c \<Longrightarrow> 0 < cooldown_remaining now c"
  by (simp add: cooldown_active_def cooldown_remaining_def less_max_iff_disj)

lemma length_shared_read_many:
  assumes "\<And>values. reply = RedisAnswer values \<Longrightarrow> length values = length keys"
  shows "length (fst (shared_read_many decode now reply keys sh)) = length keys"
  using assms by (auto simp: shared_read_many_def split: redis_reply.split)

text \<open>
  The shared cache is optional: a command that fails yields no value and no error, and for
  the next 30 seconds no command is sent, so every read answers "absent" and every write sends nothing.
\<close>

theorem redis_failure_backs_off:
  assumes "has_client now sh" and "keys \<noteq> []" and "now \<le> later" and "later < now + 30"
  shows "fst (shared_read_many decode now RedisFailure keys sh) = replicate (length keys) None \<and>
    (let sh1 = snd (shared_read_many decode now RedisFailure keys sh) in
     \<not> has_client later sh1 \<and>
     shared_read decode later reply1 sh1 = (None, sh1) \<and>
     shared_read_many decode later reply2 keys2 sh1 = (replicate (length keys2) None, sh1) \<and>
     shared_write sha256 encode later reply3 ns key value ttl sh1 = ([], sh1) \<and>
     shared_write_many sha256 encode later reply3 ns values ttl sh1 = ([], sh1) \<and>
     (has_client (now + 30) sh1 \<longleftrightarrow> has_client now sh))"
proof -
  let ?sh = "shared_failed now sh"
  have run: "shared_read_many decode now RedisFailure keys sh = (replicate (length keys) None, ?sh)"
    using assms(1,2) by (simp add: shared_read_many_def)
  have off: "\<not> has_client later ?sh"
    using assms(4) by (auto simp: has_client_def shared_failed_def split: option.splits list.splits)
  moreover have "has_client (now + 30) ?sh"
    using assms(1) by (auto simp: has_client_def shared_failed_def split: option.splits list.splits)
  ultimately show ?thesis using assms(1) unfolding run Let_def fst_conv snd_conv
    by (simp add: shared_read_def shared_read_many_def shared_write_def shared_write_many_def)
qed

theorem redis_failure_backs_off_witness:
  "let sh = \<lparr>sh_url = Some ''redis://x'', sh_prefix = ''p'', sh_unavailable_until = 0\<rparr>;
       sh1 = snd (shared_read_many Some 5 RedisFailure [''a''] sh) in
   shared_read_many Some 34 (RedisAnswer [Some ''v'']) [''a''] sh1 = ([None], sh1)"
proof -
  let ?sh = "\<lparr>sh_url = Some ''redis://x'', sh_prefix = ''p'', sh_unavailable_until = 0\<rparr>"
  have "has_client 5 ?sh" by (simp add: has_client_def)
  from redis_failure_backs_off [OF this, of "[''a'']" 34 Some "RedisAnswer None" "RedisAnswer [Some ''v'']" "[''a'']"
      id id "RedisAnswer ()" "[]" "[]" "[]" 1 "[]"]
  show ?thesis by (simp add: Let_def)
qed

end
