(* ===== verification/Weather_Summary.thy ===== *)
theory Weather_Summary
  imports Prelude
begin

text \<open>
  The weather of a place (\<open>WeatherCity\<close>) and the summary of a list of them
  (\<open>build_weather_summary\<close>), from \<open>app/schemas/weather.py\<close>.
\<close>

record forecast_day =
  fd_date :: int
  fd_weather_code :: "int option"
  fd_temperature_min_c :: "real option"
  fd_temperature_max_c :: "real option"
  fd_precipitation_probability_pct :: "real option"
  fd_precipitation_sum_mm :: "real option"

record weather_city =
  wc_id :: string
  wc_name :: string
  wc_state_abbreviation :: string
  wc_latitude :: real
  wc_longitude :: real
  wc_timezone :: string
  wc_observed_at :: instant
  wc_temperature_c :: real
  wc_apparent_temperature_c :: "real option"
  wc_humidity_pct :: "real option"
  wc_wind_speed_kmh :: "real option"
  wc_precipitation_mm :: "real option"
  wc_precipitation_sum_mm :: "real option"
  wc_precipitation_probability_pct :: "real option"
  wc_precipitation_interval_minutes :: int
  wc_weather_code :: "int option"
  wc_precipitation_48h_mm :: "real option"
  wc_raining_now :: bool
  wc_sample_points :: "int option"
  wc_raining_points :: "int option"
  wc_forecast :: "forecast_day list"
  wc_is_inferred :: bool

record weather_summary =
  ws_min_temperature :: "real option"
  ws_max_temperature :: "real option"
  ws_max_rainfall :: "real option"
  ws_hottest :: "weather_city list"
  ws_coldest :: "weather_city list"
  ws_ranked_rainfall :: "weather_city list"

text \<open>The first value of a list of options that is not \<open>None\<close>.\<close>

fun first_value :: "'a option list \<Rightarrow> 'a option" where
  "first_value [] = None"
| "first_value (None # xs) = first_value xs"
| "first_value (Some x # xs) = Some x"

definition rain_val :: "weather_city \<Rightarrow> real" where
  "rain_val c =
     (case first_value [wc_precipitation_48h_mm c, wc_precipitation_sum_mm c, wc_precipitation_mm c] of
        None \<Rightarrow> 0 | Some v \<Rightarrow> v)"

text \<open>
  Temperatures are finite numbers, so every city counts. \<open>sorted(..., reverse=True)\<close> keeps the
  order of equal elements, as a sort by the negated key does.
\<close>

definition summary_extremes :: "weather_city list \<Rightarrow> weather_city list \<times> weather_city list" where
  "summary_extremes cities =
     (let desc = sort_key (\<lambda>c. - wc_temperature_c c) cities in
      if cities = [] then ([], [])
      else if length cities = 1 then ([hd desc], [])
      else if length cities = 2 then ([hd desc], [desc ! 1])
      else (let half = length cities div 2;
                per_group = min 3 (if half = 0 then 1 else half);
                hottest = take per_group desc;
                ids = set (List.map wc_id hottest);
                asc = sort_key wc_temperature_c cities in
            (hottest, take per_group (filter (\<lambda>c. wc_id c \<notin> ids) asc))))"

definition build_weather_summary :: "weather_city list \<Rightarrow> weather_summary" where
  "build_weather_summary cities =
     (let temps = List.map wc_temperature_c cities;
          (hottest, coldest) = summary_extremes cities;
          ranked = take 5 (sort_key (\<lambda>c. - rain_val c) (filter (\<lambda>c. rain_val c > 0) cities)) in
      \<lparr>ws_min_temperature = (case temps of [] \<Rightarrow> None | t # ts \<Rightarrow> Some (foldl min t ts)),
       ws_max_temperature = (case temps of [] \<Rightarrow> None | t # ts \<Rightarrow> Some (foldl max t ts)),
       ws_max_rainfall = (case ranked of [] \<Rightarrow> None | c # _ \<Rightarrow> Some (rain_val c)),
       ws_hottest = hottest, ws_coldest = coldest, ws_ranked_rainfall = ranked\<rparr>)"

section \<open>Laws\<close>

lemma foldl_min_in: "foldl min t ts \<in> insert t (set ts)" for t :: "'a::linorder"
  by (induction ts arbitrary: t) (auto simp: min_def)

lemma foldl_min_le: "y \<in> insert t (set ts) \<Longrightarrow> foldl min t ts \<le> y" for t :: "'a::linorder"
proof (induction ts arbitrary: t y)
  case (Cons z ts)
  have "foldl min (min t z) ts \<le> min t z" by (rule Cons.IH) simp
  then show ?case using Cons by auto
qed simp

lemma foldl_max_in: "foldl max t ts \<in> insert t (set ts)" for t :: "'a::linorder"
  by (induction ts arbitrary: t) (auto simp: max_def)

lemma foldl_max_ge: "y \<in> insert t (set ts) \<Longrightarrow> y \<le> foldl max t ts" for t :: "'a::linorder"
proof (induction ts arbitrary: t y)
  case (Cons z ts)
  have "max t z \<le> foldl max (max t z) ts" by (rule Cons.IH) simp
  then show ?case using Cons by auto
qed simp

text \<open>The first \<open>n\<close> of a sorted list are at least as small in the key as the rest.\<close>

lemma take_sort_key_le:
  assumes "x \<in> set (take n (sort_key f xs))" and "y \<in> set (drop n (sort_key f xs))"
  shows "f x \<le> f y"
proof -
  have "sorted (List.map f (take n (sort_key f xs) @ drop n (sort_key f xs)))"
    by (simp only: append_take_drop_id sorted_sort_key)
  then have "sorted (List.map f (take n (sort_key f xs)) @ List.map f (drop n (sort_key f xs)))"
    by (simp only: map_append)
  then show ?thesis using assms unfolding sorted_append by fastforce
qed

lemma sorted_take_sort_key: "sorted (List.map f (take n (sort_key f xs)))"
  by (metis sorted_sort_key sorted_wrt_take take_map)

lemma set_take_or_drop: "x \<in> set xs \<Longrightarrow> x \<in> set (take n xs) \<or> x \<in> set (drop n xs)"
  by (metis Un_iff append_take_drop_id set_append)

text \<open>
  The rainfall ranking holds at most five cities, all with rain, in decreasing order, and
  no city left out has more rain than one listed; the maximum is the rain of the first.
\<close>

theorem summary_ranks_rainfall:
  assumes "s = build_weather_summary cities"
  shows "length (ws_ranked_rainfall s) = min 5 (length (filter (\<lambda>c. rain_val c > 0) cities)) \<and>
    sorted (rev (List.map rain_val (ws_ranked_rainfall s))) \<and>
    (\<forall>c \<in> set (ws_ranked_rainfall s). c \<in> set cities \<and> rain_val c > 0) \<and>
    (\<forall>c \<in> set cities. c \<in> set (ws_ranked_rainfall s) \<or>
       (\<forall>r \<in> set (ws_ranked_rainfall s). rain_val c \<le> rain_val r)) \<and>
    ws_max_rainfall s = (if \<exists>c \<in> set cities. rain_val c > 0
       then Some (Max (rain_val ` set cities)) else None)"
proof -
  let ?f = "\<lambda>c. - rain_val c" and ?wet = "filter (\<lambda>c. rain_val c > 0) cities"
  let ?r = "take 5 (sort_key ?f ?wet)"
  have r: "ws_ranked_rainfall s = ?r" and
    m: "ws_max_rainfall s = (case ?r of [] \<Rightarrow> None | c # _ \<Rightarrow> Some (rain_val c))"
    using assms by (simp_all add: build_weather_summary_def Let_def split: prod.split)
  have sub: "set ?r \<subseteq> set ?wet" using set_take_subset [of 5 "sort_key ?f ?wet"] by simp
  have "sorted (List.map ?f ?r)" by (rule sorted_take_sort_key)
  then have "sorted_wrt (\<lambda>a b. rain_val b \<le> rain_val a) ?r" by (simp add: sorted_map)
  then have dec: "sorted (rev (List.map rain_val ?r))"
    by (simp add: sorted_wrt_rev rev_map [symmetric] sorted_wrt_map)
  have top: "c \<in> set ?r \<or> (\<forall>x \<in> set ?r. rain_val c \<le> rain_val x)" if "c \<in> set cities" for c
  proof (cases "rain_val c > 0")
    case True
    then have "c \<in> set (sort_key ?f ?wet)" using that by simp
    then have "c \<in> set ?r \<or> c \<in> set (drop 5 (sort_key ?f ?wet))" by (rule set_take_or_drop)
    then show ?thesis using take_sort_key_le [of _ 5 ?f ?wet c] by fastforce
  next
    case False
    then show ?thesis using sub by fastforce
  qed
  have "ws_max_rainfall s = (if \<exists>c \<in> set cities. rain_val c > 0
       then Some (Max (rain_val ` set cities)) else None)"
  proof (cases ?r)
    case Nil
    then have "sort_key ?f ?wet = []" by simp
    then have "?wet = []" by (metis length_0_conv length_sort)
    then show ?thesis using m Nil by (auto simp: filter_empty_conv)
  next
    case (Cons c cs)
    then have c: "c \<in> set ?r" by simp
    have "rain_val x \<le> rain_val c" if "x \<in> set ?r" for x
      using dec that unfolding Cons by (auto simp: sorted_append)
    then have "\<forall>x \<in> set cities. rain_val x \<le> rain_val c" using top c by blast
    moreover have "c \<in> set cities" and "rain_val c > 0" using c sub by auto
    ultimately have "Max (rain_val ` set cities) = rain_val c"
      by (intro Max_eqI) auto
    then show ?thesis using m Cons \<open>c \<in> set cities\<close> \<open>rain_val c > 0\<close> by auto
  qed
  then show ?thesis using r dec sub top by auto
qed

text \<open>
  With at least two cities (of distinct ids), the coldest list holds cities that are not in the
  hottest list; the two lists have the same length, between one and three; no city is hotter than one of the
  hottest unless it is listed there; and the extremes reported are the true minimum and maximum.
\<close>

theorem summary_extremes_correct:
  assumes "2 \<le> length cities" and "distinct (List.map wc_id cities)" and "s = build_weather_summary cities"
  shows "set (ws_hottest s) \<inter> set (ws_coldest s) = {} \<and>
    length (ws_hottest s) = length (ws_coldest s) \<and> 1 \<le> length (ws_hottest s) \<and> length (ws_hottest s) \<le> 3 \<and>
    set (ws_hottest s) \<union> set (ws_coldest s) \<subseteq> set cities \<and>
    (\<forall>c \<in> set cities. c \<in> set (ws_hottest s) \<or>
       (\<forall>h \<in> set (ws_hottest s). wc_temperature_c c \<le> wc_temperature_c h)) \<and>
    ws_min_temperature s = Some (Min (wc_temperature_c ` set cities)) \<and>
    ws_max_temperature s = Some (Max (wc_temperature_c ` set cities))"
proof -
  let ?desc = "sort_key (\<lambda>c. - wc_temperature_c c) cities"
  define n where "n = (if length cities = 2 then 1 else min 3 (length cities div 2))"
  define hot where "hot = take n ?desc"
  define cold where "cold = (if length cities = 2 then [?desc ! 1]
    else take n (filter (\<lambda>c. wc_id c \<notin> set (List.map wc_id hot)) (sort_key wc_temperature_c cities)))"
  have half: "length cities div 2 \<noteq> 0" using assms(1) by simp
  have "?desc \<noteq> []" using assms(1) by (metis length_0_conv length_sort not_numeral_le_zero)
  then have hd1: "take 1 ?desc = [hd ?desc]" by (cases ?desc) auto
  have many: "cities \<noteq> []" "length cities \<noteq> 1" using assms(1) by auto
  have "summary_extremes cities = (hot, cold)"
  proof (cases "length cities = 2")
    case True
    then have "hot = [hd ?desc]" and "cold = [?desc ! 1]"
      unfolding hot_def cold_def n_def by (simp_all only: if_True hd1 simp_thms)
    then show ?thesis unfolding summary_extremes_def Let_def using many True by simp
  next
    case False
    then show ?thesis unfolding summary_extremes_def Let_def hot_def cold_def n_def
      using many half by (simp only: if_False)
  qed
  then have ext: "ws_hottest s = hot" "ws_coldest s = cold"
    unfolding assms(3) build_weather_summary_def Let_def by simp_all
  have n: "1 \<le> n" "n \<le> 3" "2 * n \<le> length cities" using assms(1) half by (auto simp: n_def min_def)
  have hot_len: "length hot = n" using n by (simp add: hot_def)
  have sub: "set hot \<subseteq> set cities" using set_take_subset [of n ?desc] by (simp add: hot_def)
  have dist: "distinct ?desc" using assms(2) by (simp add: distinct_map)
  have cold: "set cold \<subseteq> set cities \<and> length cold = n \<and> set hot \<inter> set cold = {}"
  proof (cases "length cities = 2")
    case True
    then obtain a b where ab: "?desc = [a, b]"
      by (metis length_sort length_0_conv length_Suc_conv numeral_2_eq_2)
    then have "set ?desc = {a, b}" by simp
    then have "{a, b} = set cities" by simp
    moreover have "a \<noteq> b" using dist ab by simp
    ultimately show ?thesis using True ab by (auto simp: cold_def hot_def n_def)
  next
    case False
    let ?rest = "filter (\<lambda>c. wc_id c \<notin> set (List.map wc_id hot)) (sort_key wc_temperature_c cities)"
    have rest: "set ?rest = set cities - set hot"
      using sub assms(2) by (auto simp: distinct_map inj_on_def)
    have d: "distinct ?rest" using assms(2) by (simp add: distinct_map)
    have "card (set hot) = n" using hot_len dist by (metis distinct_card distinct_take hot_def)
    moreover have "card (set cities) = length cities"
      using assms(2) by (simp add: distinct_card distinct_map)
    ultimately have "card (set cities - set hot) = length cities - n"
      using sub by (simp add: card_Diff_subset)
    then have "length ?rest = length cities - n" using distinct_card [OF d] unfolding rest by simp
    then have "length (take n ?rest) = n" using n by (simp del: filter_sort)
    moreover have "set (take n ?rest) \<subseteq> set ?rest" by (rule set_take_subset)
    ultimately show ?thesis using False rest by (auto simp: cold_def)
  qed
  have top: "c \<in> set hot \<or> (\<forall>h \<in> set hot. wc_temperature_c c \<le> wc_temperature_c h)" if "c \<in> set cities" for c
  proof -
    have "c \<in> set hot \<or> c \<in> set (drop n ?desc)"
      unfolding hot_def using that by (intro set_take_or_drop) simp
    then show ?thesis using take_sort_key_le [of _ n "\<lambda>c. - wc_temperature_c c" cities c]
      by (fastforce simp: hot_def)
  qed
  obtain c cs where cs: "cities = c # cs" using assms(1) by (cases cities) auto
  have "ws_min_temperature s = Some (foldl min (wc_temperature_c c) (List.map wc_temperature_c cs))"
    and "ws_max_temperature s = Some (foldl max (wc_temperature_c c) (List.map wc_temperature_c cs))"
    using assms(3) by (simp_all add: build_weather_summary_def Let_def cs split: prod.split)
  moreover have "Min (wc_temperature_c ` set cities) = foldl min (wc_temperature_c c) (List.map wc_temperature_c cs)"
    using foldl_min_in [of "wc_temperature_c c" "List.map wc_temperature_c cs"]
      foldl_min_le [of _ "wc_temperature_c c" "List.map wc_temperature_c cs"]
    by (intro Min_eqI) (auto simp: cs)
  moreover have "Max (wc_temperature_c ` set cities) = foldl max (wc_temperature_c c) (List.map wc_temperature_c cs)"
    using foldl_max_in [of "wc_temperature_c c" "List.map wc_temperature_c cs"]
      foldl_max_ge [of _ "wc_temperature_c c" "List.map wc_temperature_c cs"]
    by (intro Max_eqI) (auto simp: cs)
  ultimately show ?thesis using ext hot_len cold sub top n by auto
qed

definition city0 :: "string \<Rightarrow> real \<Rightarrow> real option \<Rightarrow> weather_city" where
  "city0 code t rain = \<lparr>wc_id = code, wc_name = code, wc_state_abbreviation = ''SP'', wc_latitude = 0,
     wc_longitude = 0, wc_timezone = ''America/Sao_Paulo'', wc_observed_at = 0, wc_temperature_c = t,
     wc_apparent_temperature_c = None, wc_humidity_pct = None, wc_wind_speed_kmh = None,
     wc_precipitation_mm = rain, wc_precipitation_sum_mm = None, wc_precipitation_probability_pct = None,
     wc_precipitation_interval_minutes = 15, wc_weather_code = None, wc_precipitation_48h_mm = None,
     wc_raining_now = False, wc_sample_points = None, wc_raining_points = None, wc_forecast = [],
     wc_is_inferred = False\<rparr>"

theorem summary_ranks_rainfall_witness:
  "ws_max_rainfall (build_weather_summary [city0 ''a'' 20 (Some 3), city0 ''b'' 25 None]) = Some 3"
proof -
  have "rain_val (city0 ''a'' 20 (Some 3)) = 3" and "rain_val (city0 ''b'' 25 None) = 0"
    by (simp_all add: rain_val_def city0_def)
  then show ?thesis
    using summary_ranks_rainfall [OF refl, of "[city0 ''a'' 20 (Some 3), city0 ''b'' 25 None]"]
    by (simp add: max_def)
qed

theorem summary_extremes_correct_witness:
  "\<exists>s. s = build_weather_summary [city0 ''a'' 20 (Some 3), city0 ''b'' 25 None] \<and>
     set (ws_hottest s) \<inter> set (ws_coldest s) = {} \<and> ws_max_temperature s = Some 25"
proof -
  let ?cs = "[city0 ''a'' 20 (Some 3), city0 ''b'' 25 None]"
  have "2 \<le> length ?cs" and "distinct (List.map wc_id ?cs)" by (simp_all add: city0_def)
  from summary_extremes_correct [OF this refl]
  have "set (ws_hottest (build_weather_summary ?cs)) \<inter> set (ws_coldest (build_weather_summary ?cs)) = {}"
    and "ws_max_temperature (build_weather_summary ?cs) = Some (Max (wc_temperature_c ` set ?cs))" by blast+
  moreover have "Max (wc_temperature_c ` set ?cs) = 25" by (simp add: city0_def)
  ultimately show ?thesis by (intro exI [of _ "build_weather_summary ?cs"]) simp
qed

end
