(* ===== verification/Weather_Forecast.thy ===== *)
theory Weather_Forecast
  imports Read_Through Shared_Cache Weather_Summary
begin

text \<open>
  The readings of \<open>app/services/weather_forecast.py\<close>: freshness, the two cache levels, the fetch of
  missing places with the rate limit and the cooldown of the source, and the resolution of a list of
  places. Each function below is one stretch of code between two \<open>await\<close>s; what other tasks do
  while one waits is a parameter.
\<close>

datatype variant = Current | Forecast

fun variant_text :: "variant \<Rightarrow> string" where
  "variant_text Current = ''current''"
| "variant_text Forecast = ''forecast''"

record point =
  pt_code :: string
  pt_name :: string
  pt_uf :: string
  pt_lat :: real
  pt_lon :: real

record reading =
  wr_fetched_at :: instant
  wr_city :: weather_city

definition SELECTED_FRESHNESS :: duration where "SELECTED_FRESHNESS = minutes 15"
definition MAP_FRESHNESS :: duration where "MAP_FRESHNESS = minutes 30"
definition MIN_FRESHNESS_AFTER_FETCH :: duration where "MIN_FRESHNESS_AFTER_FETCH = minutes 2"
definition FORCE_MIN_AGE :: duration where "FORCE_MIN_AGE = minutes 5"
definition MAX_DATA_AGE :: duration where "MAX_DATA_AGE = hours 2"
definition MAX_FALLBACK_AGE :: duration where "MAX_FALLBACK_AGE = hours 12"
definition FUTURE_TOLERANCE :: duration where "FUTURE_TOLERANCE = minutes 15"
definition READING_TTL_SECONDS :: int where "READING_TTL_SECONDS = 43200"
definition FETCH_CHUNK :: nat where "FETCH_CHUNK = 100"

lemmas forecast_constants = SELECTED_FRESHNESS_def MAP_FRESHNESS_def MIN_FRESHNESS_AFTER_FETCH_def
  FORCE_MIN_AGE_def MAX_DATA_AGE_def MAX_FALLBACK_AGE_def FUTURE_TOLERANCE_def

text \<open>Tasks in flight are numbered.\<close>

type_synonym task = nat

record forecast_state =
  fs_readings :: "(string, reading) ttl_cache"
  fs_cooldown :: source_cooldown
  fs_limited_until :: clock
  fs_limit_error :: "domain_error option"
  fs_inflight :: "((variant \<times> string) \<times> task) list"

definition new_forecast_state :: forecast_state where
  "new_forecast_state = \<lparr>fs_readings = new_cache READING_TTL_SECONDS 12000, fs_cooldown = new_cooldown 60,
     fs_limited_until = 0, fs_limit_error = None, fs_inflight = []\<rparr>"

section \<open>The source limits us\<close>

definition rate_limit_cooldown :: "clock \<Rightarrow> forecast_state \<Rightarrow> domain_error option" where
  "rate_limit_cooldown now st =
     (let remaining = fs_limited_until st - now in
      if remaining \<le> 0 then None
      else case fs_limit_error st of None \<Rightarrow> None | Some _ \<Rightarrow> Some (rate_limited \<lceil>remaining\<rceil>))"

definition start_rate_limit_cooldown :: "clock \<Rightarrow> domain_error \<Rightarrow> forecast_state \<Rightarrow> forecast_state" where
  "start_rate_limit_cooldown now e st =
     st\<lparr>fs_limited_until := now + of_int (case retry_after_seconds e of None \<Rightarrow> 0 | Some n \<Rightarrow> n),
        fs_limit_error := Some e\<rparr>"

definition source_failing :: "clock \<Rightarrow> forecast_state \<Rightarrow> bool" where
  "source_failing now st \<longleftrightarrow>
     (case rate_limit_cooldown now st of None \<Rightarrow> cooldown_active now (fs_cooldown st) | Some _ \<Rightarrow> True)"

section \<open>Freshness\<close>

definition within_age :: "weather_city \<Rightarrow> instant \<Rightarrow> duration \<Rightarrow> bool" where
  "within_age city now max_age \<longleftrightarrow>
     - FUTURE_TOLERANCE \<le> now - wc_observed_at city \<and> now - wc_observed_at city \<le> max_age"

definition is_fresh :: "reading \<Rightarrow> instant \<Rightarrow> duration \<Rightarrow> bool" where
  "is_fresh r now freshness \<longleftrightarrow>
     now < max (wc_observed_at (wr_city r) + freshness) (wr_fetched_at r + MIN_FRESHNESS_AFTER_FETCH) \<and>
     within_age (wr_city r) now MAX_DATA_AGE"

definition reading_key :: "variant \<Rightarrow> string \<Rightarrow> string" where
  "reading_key v code = variant_text v @ '':'' @ code"

section \<open>Loading and saving readings\<close>

text \<open>The local lookups, in order; a dictionary of what was found and the cache left.\<close>

fun load_local ::
    "clock \<Rightarrow> string list \<Rightarrow> (string \<times> reading) list \<Rightarrow> (string, reading) ttl_cache
     \<Rightarrow> (string \<times> reading) list \<times> (string, reading) ttl_cache" where
  "load_local clk [] found c = (found, c)"
| "load_local clk (k # ks) found c =
     (let (r, c1) = cache_get clk k c in
      load_local clk ks (case r of None \<Rightarrow> found | Some x \<Rightarrow> AList.update k x found) c1)"

definition pending_keys :: "string list \<Rightarrow> (string \<times> reading) list \<Rightarrow> instant \<Rightarrow> duration \<Rightarrow> string list" where
  "pending_keys keys found now freshness =
     filter (\<lambda>k. case map_of found k of None \<Rightarrow> True | Some r \<Rightarrow> \<not> is_fresh r now freshness) keys"

text \<open>What the other processes shared replaces what is missing or was fetched earlier.\<close>

fun merge_shared ::
    "clock \<Rightarrow> (string \<times> reading option) list \<Rightarrow> (string \<times> reading) list \<Rightarrow> (string, reading) ttl_cache
     \<Rightarrow> (string \<times> reading) list \<times> (string, reading) ttl_cache" where
  "merge_shared clk [] found c = (found, c)"
| "merge_shared clk ((k, r) # rest) found c =
     (case r of
        None \<Rightarrow> merge_shared clk rest found c
      | Some x \<Rightarrow>
          if (case map_of found k of None \<Rightarrow> True | Some y \<Rightarrow> wr_fetched_at x > wr_fetched_at y)
          then merge_shared clk rest (AList.update k x found) (cache_set clk k x None c)
          else merge_shared clk rest found c)"

text \<open>\<open>meanwhile\<close>: what other tasks do while the shared cache is read.\<close>

definition load ::
    "clock \<Rightarrow> clock \<Rightarrow> instant \<Rightarrow> string list \<Rightarrow> duration \<Rightarrow> (string list \<Rightarrow> reading option list)
     \<Rightarrow> (forecast_state \<Rightarrow> forecast_state) \<Rightarrow> forecast_state
     \<Rightarrow> (string \<times> reading) list \<times> forecast_state" where
  "load clk later now keys freshness shared meanwhile st =
     (let (found, c1) = load_local clk keys [] (fs_readings st);
          st1 = meanwhile (st\<lparr>fs_readings := c1\<rparr>);
          pending = pending_keys keys found now freshness;
          (known, c2) = merge_shared later (zip pending (shared pending)) found (fs_readings st1) in
      (known, st1\<lparr>fs_readings := c2\<rparr>))"

definition save ::
    "clock \<Rightarrow> (string \<times> reading) list \<Rightarrow> (string, reading) ttl_cache \<Rightarrow> (string, reading) ttl_cache" where
  "save clk readings c = foldl (\<lambda>c (k, r). cache_set clk k r None c) c readings"

section \<open>One fetch\<close>

definition fetch_guard :: "clock \<Rightarrow> forecast_state \<Rightarrow> domain_error option" where
  "fetch_guard now st =
     (case rate_limit_cooldown now st of
        Some limited \<Rightarrow> Some limited
      | None \<Rightarrow> if cooldown_active now (fs_cooldown st) then Some (mk_error ProviderError []) else None)"

fun chunks :: "nat \<Rightarrow> 'a list \<Rightarrow> 'a list list" where
  "chunks n xs = (if xs = [] \<or> n = 0 then [] else take n xs # chunks n (drop n xs))"

declare chunks.simps [simp del]

text \<open>The requests for the chunks, one after the other, until one fails.\<close>

fun fetch_chunks ::
    "(point list \<Rightarrow> domain_error + weather_city list) \<Rightarrow> point list list
     \<Rightarrow> domain_error + weather_city list" where
  "fetch_chunks source [] = Inr []"
| "fetch_chunks source (c # cs) =
     (case source c of
        Inl e \<Rightarrow> Inl e
      | Inr cities \<Rightarrow>
          (case fetch_chunks source cs of Inl e \<Rightarrow> Inl e | Inr others \<Rightarrow> Inr (cities @ others)))"

definition fetched_readings :: "instant \<Rightarrow> point list \<Rightarrow> weather_city list \<Rightarrow> (string \<times> reading) list" where
  "fetched_readings now points cities =
     fold (\<lambda>(p, city) d. AList.update (pt_code p)
         \<lparr>wr_fetched_at = now, wr_city = city\<lparr>wc_id := pt_code p\<rparr>\<rparr> d) (zip points cities) []"

text \<open>A forecast also serves the current conditions, without the days.\<close>

definition stored_readings :: "variant \<Rightarrow> instant \<Rightarrow> point list \<Rightarrow> weather_city list \<Rightarrow> (string \<times> reading) list" where
  "stored_readings v now points cities =
     fold (\<lambda>(p, city) d.
        let r = \<lparr>wr_fetched_at = now, wr_city = city\<lparr>wc_id := pt_code p\<rparr>\<rparr>;
            d1 = AList.update (reading_key v (pt_code p)) r d in
        if v = Forecast
        then AList.update (reading_key Current (pt_code p)) (r\<lparr>wr_city := (wr_city r)\<lparr>wc_forecast := []\<rparr>\<rparr>) d1
        else d1) (zip points cities) []"

text \<open>
  After the requests: \<open>clk\<close> and \<open>now\<close> are the clocks at that moment. A limit starts the pause the
  source asked for, any other failure (stale data included) trips the cooldown.
\<close>

definition fetch_finish ::
    "clock \<Rightarrow> instant \<Rightarrow> variant \<Rightarrow> point list \<Rightarrow> domain_error + weather_city list \<Rightarrow> forecast_state
     \<Rightarrow> (domain_error + (string \<times> reading) list) \<times> forecast_state" where
  "fetch_finish clk now v points answer st =
     (let checked = (case answer of
            Inl e \<Rightarrow> Inl e
          | Inr cities \<Rightarrow> if list_all (\<lambda>c. within_age c now MAX_DATA_AGE) cities then Inr cities
                         else Inl (mk_error ProviderError [])) in
      case checked of
        Inl e \<Rightarrow>
          if is_instance (err_kind e) ProviderRateLimitedError then (Inl e, start_rate_limit_cooldown clk e st)
          else if is_instance (err_kind e) ProviderError
          then (Inl e, st\<lparr>fs_cooldown := cooldown_trip clk (fs_cooldown st)\<rparr>)
          else (Inl e, st)
      | Inr cities \<Rightarrow>
          (Inr (fetched_readings now points cities),
           st\<lparr>fs_readings := save clk (stored_readings v now points cities) (fs_readings st)\<rparr>))"

text \<open>The whole task: the number of requests made, the outcome, and the state. \<open>meanwhile\<close> is
  what other tasks do during the requests.\<close>

definition fetch_and_store ::
    "clock \<Rightarrow> clock \<Rightarrow> instant \<Rightarrow> (point list \<Rightarrow> domain_error + weather_city list)
     \<Rightarrow> (forecast_state \<Rightarrow> forecast_state) \<Rightarrow> point list \<Rightarrow> variant \<Rightarrow> forecast_state
     \<Rightarrow> (domain_error + (string \<times> reading) list) \<times> forecast_state" where
  "fetch_and_store clk later now source meanwhile points v st =
     (case fetch_guard clk st of
        Some e \<Rightarrow> (Inl e, st)
      | None \<Rightarrow> fetch_finish later now v points (fetch_chunks source (chunks FETCH_CHUNK points)) (meanwhile st))"

section \<open>Tasks in flight\<close>

definition start_fetch :: "task \<Rightarrow> point list \<Rightarrow> variant \<Rightarrow> forecast_state \<Rightarrow> forecast_state" where
  "start_fetch t points v st =
     st\<lparr>fs_inflight := fold (\<lambda>p d. AList.update (v, pt_code p) t d) points (fs_inflight st)\<rparr>"

definition fetch_finished :: "task \<Rightarrow> point list \<Rightarrow> variant \<Rightarrow> forecast_state \<Rightarrow> forecast_state" where
  "fetch_finished t points v st =
     st\<lparr>fs_inflight := fold (\<lambda>p d. if map_of d (v, pt_code p) = Some t then od_delete (v, pt_code p) d else d)
        points (fs_inflight st)\<rparr>"

text \<open>Which task each place waits for: those already in flight keep theirs, the others start one.\<close>

definition waiting_for :: "variant \<Rightarrow> point list \<Rightarrow> forecast_state \<Rightarrow> (task \<times> string list) list" where
  "waiting_for v points st =
     fold (\<lambda>p w. case map_of (fs_inflight st) (v, pt_code p) of
              None \<Rightarrow> w
            | Some t \<Rightarrow> AList.update t ((case map_of w t of None \<Rightarrow> [] | Some codes \<Rightarrow> codes) @ [pt_code p]) w)
       points []"

definition not_in_flight :: "variant \<Rightarrow> point list \<Rightarrow> forecast_state \<Rightarrow> point list" where
  "not_in_flight v points st = filter (\<lambda>p. map_of (fs_inflight st) (v, pt_code p) = None) points"

text \<open>Collecting the awaited tasks: the readings asked for, and the first error.\<close>

fun collect ::
    "(task \<Rightarrow> domain_error + (string \<times> reading) list) \<Rightarrow> (task \<times> string list) list
     \<Rightarrow> (string \<times> reading) list \<times> domain_error option \<Rightarrow> (string \<times> reading) list \<times> domain_error option" where
  "collect await [] acc = acc"
| "collect await ((t, codes) # rest) (results, err) =
     (case await t of
        Inl e \<Rightarrow> collect await rest (results, case err of None \<Rightarrow> Some e | Some e0 \<Rightarrow> Some e0)
      | Inr batch \<Rightarrow>
          collect await rest
            (fold (\<lambda>code d. case map_of batch code of None \<Rightarrow> d | Some r \<Rightarrow> AList.update code r d) codes results, err))"

definition fetch ::
    "task \<Rightarrow> (task \<Rightarrow> domain_error + (string \<times> reading) list) \<Rightarrow> point list \<Rightarrow> variant \<Rightarrow> forecast_state
     \<Rightarrow> ((string \<times> reading) list \<times> domain_error option) \<times> forecast_state" where
  "fetch new_task await points v st =
     (let new = not_in_flight v points st;
          old = waiting_for v points st;
          waiting = (if new = [] then old else AList.update new_task (List.map pt_code new) old) in
      (collect await waiting ([], None), if new = [] then st else start_fetch new_task new v st))"

section \<open>Resolving a list of places\<close>

text \<open>
  What a resolution meets: the clocks before and after it waits, the shared cache, the tasks it may
  start, what the awaited tasks return, and what the others do meanwhile.
\<close>

record resolve_env =
  v_clock :: clock
  v_now :: instant
  v_shared :: "string list \<Rightarrow> reading option list"
  v_during_load :: "forecast_state \<Rightarrow> forecast_state"
  v_clock_loaded :: clock
  v_task :: task
  v_await :: "task \<Rightarrow> domain_error + (string \<times> reading) list"
  v_meanwhile :: "forecast_state \<Rightarrow> forecast_state"
  v_clock_after :: clock
  v_task_after :: task

text \<open>The loop over the places sorts each into one of the lists.\<close>

record sorted_points =
  sp_usable :: "(string \<times> reading) list"
  sp_fallback :: "(string \<times> reading) list"
  sp_missing :: "point list"
  sp_renew :: "point list"
  sp_force :: "point list"

definition sort_point ::
    "instant \<Rightarrow> duration \<Rightarrow> bool \<Rightarrow> variant \<Rightarrow> (string \<times> reading) list \<Rightarrow> sorted_points \<Rightarrow> point \<Rightarrow> sorted_points" where
  "sort_point now freshness force v known sp p =
     (case map_of known (reading_key v (pt_code p)) of
        None \<Rightarrow> sp\<lparr>sp_missing := sp_missing sp @ [p]\<rparr>
      | Some r \<Rightarrow>
          if within_age (wr_city r) now MAX_DATA_AGE then
            (let sp1 = sp\<lparr>sp_usable := AList.update (pt_code p) r (sp_usable sp)\<rparr> in
             if force \<and> now - wr_fetched_at r \<ge> FORCE_MIN_AGE then sp1\<lparr>sp_force := sp_force sp1 @ [p]\<rparr>
             else if \<not> is_fresh r now freshness then sp1\<lparr>sp_renew := sp_renew sp1 @ [p]\<rparr>
             else sp1)
          else
            (let sp1 = sp\<lparr>sp_missing := sp_missing sp @ [p]\<rparr> in
             if within_age (wr_city r) now MAX_FALLBACK_AGE
             then sp1\<lparr>sp_fallback := AList.update (pt_code p) r (sp_fallback sp)\<rparr>
             else sp1))"

definition sort_points ::
    "instant \<Rightarrow> duration \<Rightarrow> bool \<Rightarrow> variant \<Rightarrow> (string \<times> reading) list \<Rightarrow> point list \<Rightarrow> sorted_points" where
  "sort_points now freshness force v known points =
     foldl (sort_point now freshness force v known)
       \<lparr>sp_usable = [], sp_fallback = [], sp_missing = [], sp_renew = [], sp_force = []\<rparr> points"

definition setdefault :: "'k \<Rightarrow> 'v \<Rightarrow> ('k \<times> 'v) list \<Rightarrow> ('k \<times> 'v) list" where
  "setdefault k v d = (case map_of d k of None \<Rightarrow> d @ [(k, v)] | Some _ \<Rightarrow> d)"

definition dict_update :: "('k \<times> 'v) list \<Rightarrow> ('k \<times> 'v) list \<Rightarrow> ('k \<times> 'v) list" where
  "dict_update d new = fold (\<lambda>(k, v) d. AList.update k v d) new d"

text \<open>What the resolution works with: the known readings, the places sorted, and the places it fetches.\<close>

definition resolve_known ::
    "resolve_env \<Rightarrow> point list \<Rightarrow> duration \<Rightarrow> variant \<Rightarrow> forecast_state
     \<Rightarrow> (string \<times> reading) list \<times> forecast_state" where
  "resolve_known n points freshness v st =
     load (v_clock n) (v_clock_loaded n) (v_now n) (List.map (\<lambda>p. reading_key v (pt_code p)) points) freshness
       (v_shared n) (v_during_load n) st"

definition resolve_sorted ::
    "resolve_env \<Rightarrow> point list \<Rightarrow> duration \<Rightarrow> variant \<Rightarrow> bool \<Rightarrow> forecast_state \<Rightarrow> sorted_points" where
  "resolve_sorted n points freshness v force st =
     sort_points (v_now n) freshness force v (fst (resolve_known n points freshness v st)) points"

definition resolve_fetched ::
    "resolve_env \<Rightarrow> point list \<Rightarrow> duration \<Rightarrow> variant \<Rightarrow> bool \<Rightarrow> forecast_state
     \<Rightarrow> ((string \<times> reading) list \<times> domain_error option) \<times> forecast_state" where
  "resolve_fetched n points freshness v force st =
     (let sp = resolve_sorted n points freshness v force st; to_fetch = sp_missing sp @ sp_force sp;
          st1 = snd (resolve_known n points freshness v st) in
      if to_fetch = [] then (([], None), st1)
      else let (r, s) = fetch (v_task n) (v_await n) to_fetch v st1 in (r, v_meanwhile n s))"

definition resolve_usable ::
    "resolve_env \<Rightarrow> point list \<Rightarrow> duration \<Rightarrow> variant \<Rightarrow> bool \<Rightarrow> forecast_state
     \<Rightarrow> (string \<times> reading) list" where
  "resolve_usable n points freshness v force st =
     (let sp = resolve_sorted n points freshness v force st;
          ((fetched, err), st2) = resolve_fetched n points freshness v force st;
          usable1 = dict_update (sp_usable sp) fetched in
      case err of None \<Rightarrow> usable1 | Some _ \<Rightarrow> fold (\<lambda>(k, r) d. setdefault k r d) (sp_fallback sp) usable1)"

text \<open>The whole function: the answer with its mark of outdated data, or the error when nothing is usable.\<close>

definition resolve ::
    "resolve_env \<Rightarrow> point list \<Rightarrow> duration \<Rightarrow> variant \<Rightarrow> bool \<Rightarrow> forecast_state
     \<Rightarrow> (domain_error + (string \<times> reading) list \<times> bool) \<times> forecast_state" where
  "resolve n points freshness v force st =
     (let usable = resolve_usable n points freshness v force st;
          ((fetched, err), st2) = resolve_fetched n points freshness v force st;
          renew = filter (\<lambda>p. map_of (fs_inflight st2) (v, pt_code p) = None \<and> map_of usable (pt_code p) \<noteq> None)
            (sp_renew (resolve_sorted n points freshness v force st)) in
      case (err, usable) of
        (Some e, []) \<Rightarrow> (Inl e, st2)
      | _ \<Rightarrow>
          if renew \<noteq> [] \<and> \<not> source_failing (v_clock_after n) st2
          then (Inr (usable, err \<noteq> None), start_fetch (v_task_after n) renew v st2)
          else (Inr (usable, err \<noteq> None \<or> renew \<noteq> []), st2))"

end
