(* ===== verification/Forecast_Laws.thy ===== *)
theory Forecast_Laws
  imports Weather_Forecast
begin

text \<open>
  What the weather readings promise: the source is left alone while it limits us, a stored reading was
  recent when it was fetched, and a resolution answers only readings it may use.
\<close>

section \<open>Limits\<close>

text \<open>
  Property C18. After the source limits us for \<open>n\<close> seconds, no request is made until they have
  passed: a fetch fails at once with the same kind of error, which tells the whole seconds left (at least
  one, at most \<open>n\<close>), and changes nothing; when the time is over the limit no longer stops a fetch.
\<close>

theorem rate_limit_stops_requests:
  assumes "fetch_chunks source (chunks FETCH_CHUNK points) = Inl (rate_limited n)" and "0 < n"
    and "fetch_guard clk0 st0 = None"
    and "fetch_and_store clk0 clk now source meanwhile points v st0 = (r, st)"
    and "fs_limited_until st' = fs_limited_until st" and "fs_limit_error st' = fs_limit_error st"
    and "clk \<le> later"
  shows "r = Inl (rate_limited n) \<and>
    (if later < clk + of_int n
     then fetch_and_store later later2 now2 source2 meanwhile2 points2 v2 st' =
            (Inl (rate_limited \<lceil>clk + of_int n - later\<rceil>), st') \<and>
          1 \<le> \<lceil>clk + of_int n - later\<rceil> \<and> \<lceil>clk + of_int n - later\<rceil> \<le> n
     else rate_limit_cooldown later st' = None)"
proof -
  have st: "r = Inl (rate_limited n)" "st = start_rate_limit_cooldown clk (rate_limited n) (meanwhile st0)"
    using assms(1,3,4) by (auto simp: fetch_and_store_def fetch_finish_def is_instance_def)
  then have lim: "fs_limited_until st' = clk + of_int n" "fs_limit_error st' = Some (rate_limited n)"
    using assms(5,6) by (simp_all add: start_rate_limit_cooldown_def)
  show ?thesis
  proof (cases "later < clk + of_int n")
    case True
    then have "rate_limit_cooldown later st' = Some (rate_limited \<lceil>clk + of_int n - later\<rceil>)"
      by (simp add: rate_limit_cooldown_def Let_def lim)
    moreover have "1 \<le> \<lceil>clk + of_int n - later\<rceil>" using True by (simp add: one_le_ceiling)
    moreover have "\<lceil>clk + of_int n - later\<rceil> \<le> n" using assms(7) by (simp add: ceiling_le_iff)
    ultimately show ?thesis using st True by (simp add: fetch_and_store_def fetch_guard_def)
  next
    case False
    then show ?thesis using st by (simp add: rate_limit_cooldown_def Let_def lim)
  qed
qed

section \<open>Stored readings\<close>

definition good_reading :: "string \<Rightarrow> reading \<Rightarrow> bool" where
  "good_reading code r \<longleftrightarrow> wc_id (wr_city r) = code \<and> within_age (wr_city r) (wr_fetched_at r) MAX_DATA_AGE"

definition readings_ok :: "forecast_state \<Rightarrow> bool" where
  "readings_ok st \<longleftrightarrow>
     cache_all (\<lambda>k r. \<exists>v code. k = reading_key v code \<and> good_reading code r) (fs_readings st)"

text \<open>All entries of a dictionary satisfy a predicate.\<close>

definition dict_all :: "('k \<Rightarrow> 'v \<Rightarrow> bool) \<Rightarrow> ('k \<times> 'v) list \<Rightarrow> bool" where
  "dict_all P d \<longleftrightarrow> (\<forall>k v. (k, v) \<in> set d \<longrightarrow> P k v)"

lemma dict_all_Nil [simp]: "dict_all P []"
  by (simp add: dict_all_def)

lemma dict_all_update [intro]: "dict_all P d \<Longrightarrow> P k x \<Longrightarrow> dict_all P (AList.update k x d)"
proof -
  assume "dict_all P d" "P k x"
  moreover have "set (AList.update k x d) \<subseteq> insert (k, x) (set d)" by (induction d) auto
  ultimately show ?thesis by (auto simp: dict_all_def)
qed

lemma dict_all_lookup: "dict_all P d \<Longrightarrow> map_of d k = Some v \<Longrightarrow> P k v"
  by (auto simp: dict_all_def dest: map_of_SomeD)

lemma dict_all_fold:
  assumes "dict_all P d" and "\<And>x d. x \<in> set xs \<Longrightarrow> dict_all P d \<Longrightarrow> dict_all P (f x d)"
  shows "dict_all P (fold f xs d)"
  using assms by (induction xs arbitrary: d) auto

lemma fetched_readings_good:
  assumes "list_all (\<lambda>c. within_age c now MAX_DATA_AGE) cities"
  shows "dict_all (\<lambda>code r. good_reading code r \<and> wr_fetched_at r = now) (fetched_readings now points cities)"
  unfolding fetched_readings_def
proof (rule dict_all_fold, goal_cases)
  case (2 pc d)
  obtain p c where pc: "pc = (p, c)" by force
  have "within_age c now MAX_DATA_AGE"
    using assms set_zip_rightD [of p c points cities] 2(1) by (auto simp: pc list_all_iff)
  then show ?case
    using 2(2) by (auto simp: pc good_reading_def within_age_def)
qed simp

lemma stored_readings_good:
  assumes "list_all (\<lambda>c. within_age c now MAX_DATA_AGE) cities"
  shows "dict_all (\<lambda>k r. \<exists>v code. k = reading_key v code \<and> good_reading code r) (stored_readings v now points cities)"
    (is "dict_all ?P _")
  unfolding stored_readings_def
proof (rule dict_all_fold, goal_cases)
  case (2 pc d)
  obtain p c where pc: "pc = (p, c)" by force
  have "within_age c now MAX_DATA_AGE"
    using assms set_zip_rightD [of p c points cities] 2(1) by (auto simp: pc list_all_iff)
  let ?r = "\<lparr>wr_fetched_at = now, wr_city = c\<lparr>wc_id := pt_code p\<rparr>\<rparr>"
  let ?bare = "?r\<lparr>wr_city := (wr_city ?r)\<lparr>wc_forecast := []\<rparr>\<rparr>"
  have "good_reading (pt_code p) ?r" "good_reading (pt_code p) ?bare"
    using \<open>within_age c now MAX_DATA_AGE\<close> by (simp_all add: good_reading_def within_age_def)
  then have P: "?P (reading_key w (pt_code p)) ?r" "?P (reading_key w (pt_code p)) ?bare" for w by blast+
  have one: "dict_all ?P (AList.update (reading_key v (pt_code p)) ?r d)" by (rule dict_all_update [where P = ?P, OF 2(2) P(1)])
  have two: "dict_all ?P (AList.update (reading_key Current (pt_code p)) ?bare (AList.update (reading_key v (pt_code p)) ?r d))"
    by (rule dict_all_update [where P = ?P, OF one P(2)])
  show ?case
  proof (cases "v = Forecast")
    case True
    show ?thesis unfolding pc Let_def prod.case if_P [OF True] by (rule two)
  next
    case False
    show ?thesis unfolding pc Let_def prod.case if_not_P [OF False] by (rule one)
  qed
qed simp

lemma save_all: "cache_all P c \<Longrightarrow> dict_all P rs \<Longrightarrow> cache_all P (save clk rs c)"
proof (induction rs arbitrary: c)
  case (Cons kr rs)
  obtain k r where kr: "kr = (k, r)" by force
  have "P k r" and "dict_all P rs" using Cons.prems(2) by (auto simp: dict_all_def kr)
  then show ?case using Cons.IH [of "cache_set clk k r None c"] Cons.prems(1) by (simp add: save_def kr cache_all_set)
qed (simp add: save_def)

lemma load_local_all:
  assumes "cache_all P c" and "load_local clk ks found c = (found', c')" and "dict_all P found"
  shows "cache_all P c' \<and> dict_all P found'"
  using assms
proof (induction ks arbitrary: found c)
  case (Cons k ks)
  obtain r c1 where g: "cache_get clk k c = (r, c1)" by force
  have "cache_all P c1" using cache_all_get_eq(1) [OF g Cons.prems(1)] .
  moreover have "dict_all P (case r of None \<Rightarrow> found | Some x \<Rightarrow> AList.update k x found)"
    using cache_all_get_eq(2) [OF g Cons.prems(1)] Cons.prems(3) by (auto split: option.split)
  ultimately show ?case using Cons.IH Cons.prems(2) by (simp add: g)
qed simp

lemma merge_shared_all:
  assumes "cache_all P c" and "merge_shared clk krs found c = (found', c')" and "dict_all P found"
    and "\<And>k r. (k, Some r) \<in> set krs \<Longrightarrow> P k r"
  shows "cache_all P c' \<and> dict_all P found'"
  using assms
proof (induction krs arbitrary: found c)
  case (Cons kr rest)
  obtain k r where kr: "kr = (k, r)" by force
  show ?case
  proof (cases r)
    case None
    then show ?thesis using Cons.IH [OF Cons.prems(1) _ Cons.prems(3)] Cons.prems(2,4) by (simp add: kr)
  next
    case (Some x)
    then have "P k x" using Cons.prems(4) by (simp add: kr)
    then have "cache_all P (cache_set clk k x None c)" "dict_all P (AList.update k x found)"
      using Cons.prems(1,3) by (auto intro: cache_all_set)
    then show ?thesis using Cons.IH [of "cache_set clk k x None c" "AList.update k x found"]
        Cons.IH [OF Cons.prems(1) _ Cons.prems(3)] Cons.prems(2,4)
      by (auto simp: kr Some split: if_splits)
  qed
qed simp

text \<open>
  A finished fetch only stores and answers readings that were recent: each belongs to the
  place it is filed under and was observed at most two hours before it was fetched (and at most 15 minutes
  after); when any place of the batch was older the whole batch is refused and the cooldown starts.
\<close>

theorem fetch_stores_recent_readings:
  assumes "fetch_finish clk now v points answer st = (r, st')" and "readings_ok st"
  shows "readings_ok st' \<and>
    (case r of
       Inr batch \<Rightarrow> dict_all (\<lambda>code x. good_reading code x \<and> wr_fetched_at x = now) batch
     | Inl e \<Rightarrow> fs_readings st' = fs_readings st \<and>
         (case answer of
            Inl e' \<Rightarrow> e = e'
          | Inr cities \<Rightarrow> list_ex (\<lambda>c. \<not> within_age c now MAX_DATA_AGE) cities \<and>
              fs_cooldown st' = cooldown_trip clk (fs_cooldown st)))"
proof (cases "\<exists>cities. answer = Inr cities \<and> list_all (\<lambda>c. within_age c now MAX_DATA_AGE) cities")
  case True
  then obtain cities where c: "answer = Inr cities" "list_all (\<lambda>c. within_age c now MAX_DATA_AGE) cities" by blast
  then have "r = Inr (fetched_readings now points cities)"
    and st': "st' = st\<lparr>fs_readings := save clk (stored_readings v now points cities) (fs_readings st)\<rparr>"
    using assms(1) by (simp_all add: fetch_finish_def)
  moreover have "readings_ok st'"
    using save_all [OF assms(2) [unfolded readings_ok_def] stored_readings_good [OF c(2)]]
    by (simp add: readings_ok_def st')
  ultimately show ?thesis using fetched_readings_good [OF c(2)] by simp
next
  case False
  have stale: "list_ex (\<lambda>c. \<not> within_age c now MAX_DATA_AGE) cities" if "answer = Inr cities" for cities
    using False that by (auto simp: list_all_iff list_ex_iff)
  show ?thesis
  proof (cases answer)
    case (Inl e)
    then show ?thesis using assms
      by (auto simp: fetch_finish_def readings_ok_def start_rate_limit_cooldown_def split: if_splits)
  next
    case (Inr cities)
    then have "\<not> list_all (\<lambda>c. within_age c now MAX_DATA_AGE) cities" using False by blast
    then show ?thesis using assms Inr stale [OF Inr]
      by (auto simp: fetch_finish_def readings_ok_def is_instance_def)
  qed
qed

section \<open>Resolving places\<close>

lemma reading_key_inject [simp]: "reading_key v a = reading_key w b \<longleftrightarrow> v = w \<and> a = b"
  by (cases v; cases w) (auto simp: reading_key_def)

lemma map_of_fold_update:
  "map_of (fold (\<lambda>(k, x) d. AList.update k x d) new d) k =
   (case map_of (rev new) k of None \<Rightarrow> map_of d k | Some x \<Rightarrow> Some x)"
  by (induction new arbitrary: d) (auto simp: map_of_append map_add_def update_conv' split: option.split)

lemma map_of_dict_update:
  "map_of (dict_update d new) k = (case map_of (rev new) k of None \<Rightarrow> map_of d k | Some x \<Rightarrow> Some x)"
  by (simp add: dict_update_def map_of_fold_update)

lemma map_of_setdefault [simp]:
  "map_of (setdefault k x d) k' = (if k' = k \<and> map_of d k = None then Some x else map_of d k')"
  by (auto simp: setdefault_def map_of_append map_add_def split: option.split)

text \<open>What the loop over the places puts in its lists.\<close>

definition known_within ::
    "(string \<times> reading) list \<Rightarrow> variant \<Rightarrow> instant \<Rightarrow> duration \<Rightarrow> string \<Rightarrow> reading \<Rightarrow> bool" where
  "known_within known v now age code r \<longleftrightarrow>
     map_of known (reading_key v code) = Some r \<and> within_age (wr_city r) now age"

lemma sort_points_snoc:
  "sort_points now freshness force v known (ps @ [p]) =
   sort_point now freshness force v known (sort_points now freshness force v known ps) p"
  by (simp add: sort_points_def)

lemma sort_points_sound:
  "dict_all (known_within known v now MAX_DATA_AGE) (sp_usable (sort_points now freshness force v known ps)) \<and>
   dict_all (known_within known v now MAX_FALLBACK_AGE) (sp_fallback (sort_points now freshness force v known ps))"
proof (induction ps rule: rev_induct)
  case (snoc p ps)
  then show ?case
    by (auto simp: sort_points_snoc sort_point_def Let_def known_within_def
        intro!: dict_all_update split: option.split)
qed (simp add: sort_points_def)

lemma sort_points_complete:
  assumes "p \<in> set ps"
  shows "(\<forall>r. known_within known v now MAX_DATA_AGE (pt_code p) r \<longrightarrow>
             map_of (sp_usable (sort_points now freshness force v known ps)) (pt_code p) = Some r) \<and>
    (p \<in> set (sp_missing (sort_points now freshness force v known ps)) \<or>
       (\<exists>r. known_within known v now MAX_DATA_AGE (pt_code p) r)) \<and>
    (\<forall>r. known_within known v now MAX_FALLBACK_AGE (pt_code p) r \<longrightarrow>
       map_of (sp_fallback (sort_points now freshness force v known ps)) (pt_code p) = Some r \<or>
       map_of (sp_usable (sort_points now freshness force v known ps)) (pt_code p) = Some r)"
  using assms
proof (induction ps rule: rev_induct)
  case (snoc q ps)
  show ?case
  proof (cases "p \<in> set ps")
    case True
    from snoc.IH [OF True] show ?thesis
      by (auto simp: sort_points_snoc sort_point_def Let_def known_within_def update_conv' split: option.split)
  next
    case False
    then have "q = p" using snoc.prems by simp
    then show ?thesis
      by (auto simp: sort_points_snoc sort_point_def Let_def known_within_def update_conv' split: option.split)
  qed
qed simp

section \<open>Awaiting the fetches\<close>

definition take_codes :: "(string \<times> reading) list \<Rightarrow> string list \<Rightarrow> (string \<times> reading) list \<Rightarrow> (string \<times> reading) list" where
  "take_codes batch codes d =
     fold (\<lambda>code d. case map_of batch code of None \<Rightarrow> d | Some r \<Rightarrow> AList.update code r d) codes d"

lemma collect_Cons:
  "collect await ((t, codes) # rest) (results, err) =
     (case await t of
        Inl e \<Rightarrow> collect await rest (results, Some (case err of None \<Rightarrow> e | Some e0 \<Rightarrow> e0))
      | Inr batch \<Rightarrow> collect await rest (take_codes batch codes results, err))"
  by (cases err) (auto simp: take_codes_def split: sum.split)

declare collect.simps(2) [simp del] collect_Cons [simp]

lemma take_codes_keeps: "map_of d code \<noteq> None \<Longrightarrow> map_of (take_codes batch codes d) code \<noteq> None"
  unfolding take_codes_def
  by (induction codes arbitrary: d) (auto simp: update_conv' split: option.split)

lemma take_codes_present:
  "code \<in> set codes \<Longrightarrow> map_of batch code \<noteq> None \<Longrightarrow> map_of (take_codes batch codes d) code \<noteq> None"
  unfolding take_codes_def
proof (induction codes arbitrary: d rule: rev_induct)
  case (snoc c codes)
  then show ?case by (cases "c = code") (auto simp: update_conv' split: option.splits)
qed simp

lemma take_codes_all:
  "dict_all P d \<Longrightarrow> (\<And>code r. map_of batch code = Some r \<Longrightarrow> P code r) \<Longrightarrow> dict_all P (take_codes batch codes d)"
  unfolding take_codes_def by (rule dict_all_fold) (auto split: option.split)

lemma collect_sound:
  assumes "collect await ws (results, err) = (results', err')" and "dict_all P results"
    and "\<forall>t \<in> fst ` set ws. \<forall>batch. await t = Inr batch \<longrightarrow> (\<forall>code r. map_of batch code = Some r \<longrightarrow> P code r)"
  shows "dict_all P results' \<and>
    (\<forall>e. err' = Some e \<longrightarrow> err = Some e \<or> (\<exists>t. t \<in> fst ` set ws \<and> await t = Inl e))"
  using assms
proof (induction ws arbitrary: results err)
  case (Cons w rest)
  obtain t codes where w: "w = (t, codes)" by force
  have here: "\<forall>batch. await t = Inr batch \<longrightarrow> (\<forall>code r. map_of batch code = Some r \<longrightarrow> P code r)"
    and rest: "\<forall>t \<in> fst ` set rest. \<forall>batch. await t = Inr batch \<longrightarrow> (\<forall>code r. map_of batch code = Some r \<longrightarrow> P code r)"
    using Cons.prems(3) by (simp_all add: w)
  show ?case
  proof (cases "await t")
    case (Inl e)
    then have "collect await rest (results, Some (case err of None \<Rightarrow> e | Some e0 \<Rightarrow> e0)) = (results', err')"
      using Cons.prems(1) by (simp add: w)
    from Cons.IH [OF this Cons.prems(2) rest] show ?thesis
      using Inl by (cases err) (auto simp: w)
  next
    case (Inr batch)
    then have run: "collect await rest (take_codes batch codes results, err) = (results', err')"
      using Cons.prems(1) by (simp add: w)
    have "dict_all P (take_codes batch codes results)"
      using Cons.prems(2) here Inr by (intro take_codes_all) auto
    from Cons.IH [OF run this rest] show ?thesis by (auto simp: w)
  qed
qed simp

lemma collect_keeps:
  assumes "collect await ws (results, err) = (results', err')"
  shows "(map_of results code \<noteq> None \<longrightarrow> map_of results' code \<noteq> None) \<and> (err \<noteq> None \<longrightarrow> err' \<noteq> None)"
  using assms
proof (induction ws arbitrary: results err)
  case (Cons w rest)
  obtain t codes where w: "w = (t, codes)" by force
  show ?case
  proof (cases "await t")
    case (Inl e)
    then show ?thesis using Cons.IH Cons.prems by (fastforce simp: w)
  next
    case (Inr batch)
    then show ?thesis
      using Cons.IH [of "take_codes batch codes results" err] Cons.prems take_codes_keeps [of results code batch codes]
      by (simp add: w)
  qed
qed simp

lemma collect_complete:
  assumes "collect await ws (results, err) = (results', None)" and "(t, codes) \<in> set ws" and "code \<in> set codes"
    and "\<And>batch. await t = Inr batch \<Longrightarrow> map_of batch code \<noteq> None"
  shows "map_of results' code \<noteq> None"
  using assms(1,2)
proof (induction ws arbitrary: results err)
  case (Cons w rest)
  obtain u codes' where w: "w = (u, codes')" by force
  show ?case
  proof (cases "await u")
    case (Inl e)
    then have "collect await rest (results, Some (case err of None \<Rightarrow> e | Some e0 \<Rightarrow> e0)) = (results', None)"
      using Cons.prems(1) by (simp add: w)
    from collect_keeps [OF this] show ?thesis by simp
  next
    case (Inr batch)
    then have run: "collect await rest (take_codes batch codes' results, err) = (results', None)"
      using Cons.prems(1) by (simp add: w)
    show ?thesis
    proof (cases "(t, codes) = w")
      case True
      then have "map_of (take_codes batch codes' results) code \<noteq> None"
        using take_codes_present assms(3,4) Inr by (simp add: w)
      then show ?thesis using collect_keeps [OF run] by blast
    next
      case False
      then show ?thesis using Cons.IH [OF run] Cons.prems(2) by auto
    qed
  qed
qed simp

section \<open>Which task each place waits for\<close>

lemma waiting_for_keeps:
  fixes points :: "point list"
  assumes "map_of w t = Some codes"
  shows "\<exists>codes'. map_of (fold (\<lambda>p w. case map_of fl (v, pt_code p) of None \<Rightarrow> w
      | Some t \<Rightarrow> AList.update t ((case map_of w t of None \<Rightarrow> [] | Some codes \<Rightarrow> codes) @ [pt_code p]) w) points w) t = Some codes'
    \<and> set codes \<subseteq> set codes'"
  using assms
proof (induction points arbitrary: w codes)
  case (Cons p points)
  show ?case
  proof (cases "map_of fl (v, pt_code p)")
    case None
    then show ?thesis using Cons by simp
  next
    case (Some u)
    let ?w = "AList.update u ((case map_of w u of None \<Rightarrow> [] | Some codes \<Rightarrow> codes) @ [pt_code p]) w"
    have "map_of ?w t = Some (if u = t then codes @ [pt_code p] else codes)"
      using Cons.prems by (auto simp: update_conv')
    from Cons.IH [OF this] show ?thesis by (auto simp: Some split: if_splits)
  qed
qed simp

lemma waiting_for_member:
  assumes "p \<in> set points" and "map_of (fs_inflight st) (v, pt_code p) = Some t"
  shows "\<exists>codes. map_of (waiting_for v points st) t = Some codes \<and> pt_code p \<in> set codes"
proof -
  let ?step = "\<lambda>p w. case map_of (fs_inflight st) (v, pt_code p) of None \<Rightarrow> w
      | Some t \<Rightarrow> AList.update t ((case map_of w t of None \<Rightarrow> [] | Some codes \<Rightarrow> codes) @ [pt_code p]) w"
  obtain before after where points: "points = before @ p # after" using split_list [OF assms(1)] by blast
  define w where "w = fold ?step before []"
  have "waiting_for v points st = fold ?step after (?step p w)"
    unfolding waiting_for_def points w_def by (simp only: fold_append fold.simps comp_apply)
  moreover have "\<exists>codes. map_of (?step p w) t = Some codes \<and> pt_code p \<in> set codes"
    using assms(2) by (simp add: update_conv')
  ultimately show ?thesis
    using waiting_for_keeps [where fl = "fs_inflight st" and v = v and points = after] by fastforce
qed

section \<open>What a resolution answers\<close>

definition stored_ok :: "string \<Rightarrow> reading \<Rightarrow> bool" where
  "stored_ok k r \<longleftrightarrow> (\<exists>v code. k = reading_key v code \<and> good_reading code r)"

lemma readings_ok_iff: "readings_ok st \<longleftrightarrow> cache_all stored_ok (fs_readings st)"
  by (simp add: readings_ok_def stored_ok_def [abs_def])

text \<open>The shared cache answers one reading per key, filed under its place.\<close>

definition shared_ok :: "(string list \<Rightarrow> reading option list) \<Rightarrow> bool" where
  "shared_ok shared \<longleftrightarrow> (\<forall>ks. \<forall>(k, r) \<in> set (zip ks (shared ks)). case r of None \<Rightarrow> True | Some x \<Rightarrow> stored_ok k x)"

lemma load_all:
  assumes "load clk later now keys freshness shared meanwhile st = (known, st')" and "readings_ok st"
    and "\<And>s. readings_ok s \<Longrightarrow> readings_ok (meanwhile s)" and "shared_ok shared"
  shows "dict_all stored_ok known \<and> readings_ok st'"
proof -
  obtain found c1 where l: "load_local clk keys [] (fs_readings st) = (found, c1)" by force
  have c1: "cache_all stored_ok c1" "dict_all stored_ok found"
    using load_local_all [OF assms(2) [unfolded readings_ok_iff] l] by simp_all
  define st1 where "st1 = meanwhile (st\<lparr>fs_readings := c1\<rparr>)"
  define pending where "pending = pending_keys keys found now freshness"
  obtain c2 where m: "merge_shared later (zip pending (shared pending)) found (fs_readings st1) = (known, c2)"
    and st': "st' = st1\<lparr>fs_readings := c2\<rparr>"
    using assms(1) by (auto simp: load_def Let_def l st1_def pending_def split: prod.splits)
  have "readings_ok st1" unfolding st1_def using assms(3) c1 by (simp add: readings_ok_iff)
  moreover have "stored_ok k r" if "(k, Some r) \<in> set (zip pending (shared pending))" for k r
    using assms(4) that by (fastforce simp: shared_ok_def)
  ultimately show ?thesis
    using merge_shared_all [OF _ m] c1(2) by (simp add: readings_ok_iff st')
qed

lemma resolve_branches:
  assumes "(case (err, u) of (Some e, []) \<Rightarrow> (Inl e, s)
    | _ \<Rightarrow> if R \<and> B then (Inr (u, err \<noteq> None), s1) else (Inr (u, err \<noteq> None \<or> R), s2)) = (r, st')"
  shows "(\<exists>e. r = Inl e \<and> err = Some e \<and> u = []) \<or> (\<exists>outdated. r = Inr (u, outdated) \<and> (err \<noteq> None \<longrightarrow> outdated))"
  using assms by (cases err; cases u) (auto split: if_splits)

lemma resolve_result:
  assumes "resolve n points freshness v force st = (r, st')"
    and "resolve_fetched n points freshness v force st = ((fetched, err), st2)"
  shows "(\<exists>e. r = Inl e \<and> err = Some e \<and> resolve_usable n points freshness v force st = []) \<or>
    (\<exists>outdated. r = Inr (resolve_usable n points freshness v force st, outdated) \<and> (err \<noteq> None \<longrightarrow> outdated))"
  using assms(1) unfolding resolve_def assms(2) Let_def prod.case [of _ "(fetched, err)" st2] prod.case [of _ fetched err]
  by (rule resolve_branches)

text \<open>The tasks a place may wait for: the one in flight for it, or the one this resolution starts.\<close>

definition awaited :: "resolve_env \<Rightarrow> variant \<Rightarrow> forecast_state \<Rightarrow> string \<Rightarrow> task" where
  "awaited n v st1 code = (case map_of (fs_inflight st1) (v, code) of None \<Rightarrow> v_task n | Some t \<Rightarrow> t)"

lemma dict_all_mono: "dict_all P d \<Longrightarrow> (\<And>k x. P k x \<Longrightarrow> Q k x) \<Longrightarrow> dict_all Q d"
  by (simp add: dict_all_def)

lemma dict_all_dict_update: "dict_all P d \<Longrightarrow> dict_all P new \<Longrightarrow> dict_all P (dict_update d new)"
  unfolding dict_update_def by (rule dict_all_fold) (auto simp: dict_all_def [of P new])

lemma dict_all_setdefault: "dict_all P d \<Longrightarrow> P k x \<Longrightarrow> dict_all P (setdefault k x d)"
  by (auto simp: setdefault_def dict_all_def split: option.split)

lemma dict_all_fold_setdefault:
  "dict_all P d \<Longrightarrow> dict_all P new \<Longrightarrow> dict_all P (fold (\<lambda>(k, x) d. setdefault k x d) new d)"
  by (rule dict_all_fold) (auto simp: dict_all_def [of P new] intro: dict_all_setdefault)

lemma known_within_good:
  assumes "dict_all stored_ok known" and "known_within known v now age code r"
  shows "good_reading code r \<and> within_age (wr_city r) now age"
  using dict_all_lookup [OF assms(1)] assms(2) by (fastforce simp: known_within_def stored_ok_def)

definition usable_reading :: "resolve_env \<Rightarrow> bool \<Rightarrow> string \<Rightarrow> reading \<Rightarrow> bool" where
  "usable_reading n outdated code x \<longleftrightarrow> good_reading code x \<and>
     (within_age (wr_city x) (v_now n) MAX_DATA_AGE \<or>
      outdated \<and> within_age (wr_city x) (v_now n) MAX_FALLBACK_AGE \<or>
      (\<exists>t batch. v_await n t = Inr batch \<and> map_of batch code = Some x))"

lemma resolve_fetched_sound:
  assumes "resolve_fetched n points freshness v force st = ((fetched, err), st2)"
    and "\<And>t batch. v_await n t = Inr batch \<Longrightarrow> dict_all good_reading batch"
  shows "dict_all (usable_reading n False) fetched \<and> (\<forall>e. err = Some e \<longrightarrow> (\<exists>t. v_await n t = Inl e))"
proof -
  define to_fetch where "to_fetch = sp_missing (resolve_sorted n points freshness v force st)
    @ sp_force (resolve_sorted n points freshness v force st)"
  show ?thesis
  proof (cases "to_fetch = []")
    case True
    then show ?thesis using assms(1) by (auto simp: resolve_fetched_def to_fetch_def Let_def)
  next
    case False
    define ws where "ws = (let st1 = snd (resolve_known n points freshness v st); new = not_in_flight v to_fetch st1;
        old = waiting_for v to_fetch st1 in if new = [] then old else AList.update (v_task n) (List.map pt_code new) old)"
    have "collect (v_await n) ws ([], None) = (fetched, err)"
      using assms(1) [unfolded resolve_fetched_def Let_def, folded to_fetch_def, unfolded if_not_P [OF False]]
      by (auto simp: fetch_def ws_def Let_def split: prod.splits)
    moreover have "\<forall>t \<in> fst ` set ws. \<forall>batch. v_await n t = Inr batch \<longrightarrow>
        (\<forall>code r. map_of batch code = Some r \<longrightarrow> usable_reading n False code r)"
      using dict_all_lookup [OF assms(2)] unfolding usable_reading_def by blast
    ultimately show ?thesis using collect_sound [where P = "usable_reading n False"] by fastforce
  qed
qed

text \<open>
  Property C16. Whatever the other tasks do, the readings a resolution answers each belong to their place,
  were recent when fetched, and are at most two hours old, or come from a fetch it awaited, or, only when
  the answer is marked outdated, are at most twelve hours old; it fails only with the error of a fetch it
  awaited.
\<close>

theorem resolve_answers_usable:
  assumes "resolve n points freshness v force st = (r, st')" and "readings_ok st"
    and "\<And>s. readings_ok s \<Longrightarrow> readings_ok (v_during_load n s)" and "shared_ok (v_shared n)"
    and "\<And>t batch. v_await n t = Inr batch \<Longrightarrow> dict_all good_reading batch"
  shows "case r of
      Inr (usable, outdated) \<Rightarrow> dict_all (usable_reading n outdated) usable
    | Inl e \<Rightarrow> (\<exists>t. v_await n t = Inl e)"
proof -
  obtain known st1 where k: "resolve_known n points freshness v st = (known, st1)" by force
  have known: "dict_all stored_ok known"
    using load_all [OF k [unfolded resolve_known_def] assms(2-4)] by simp
  obtain fetched err st2 where f: "resolve_fetched n points freshness v force st = ((fetched, err), st2)" by (metis prod.exhaust)
  have fs: "dict_all (usable_reading n False) fetched" "\<forall>e. err = Some e \<longrightarrow> (\<exists>t. v_await n t = Inl e)"
    using resolve_fetched_sound [OF f] assms(5) by blast+
  define sp where "sp = resolve_sorted n points freshness v force st"
  have sp: "dict_all (usable_reading n o1) (sp_usable sp)" "dict_all (usable_reading n True) (sp_fallback sp)" for o1
    using sort_points_sound [of known v "v_now n" freshness force points] known_within_good [OF known]
    by (auto simp: sp_def resolve_sorted_def k usable_reading_def intro: dict_all_mono)
  have "dict_all (usable_reading n (err \<noteq> None)) fetched"
    using fs(1) by (rule dict_all_mono) (auto simp: usable_reading_def)
  then have "dict_all (usable_reading n (err \<noteq> None)) (resolve_usable n points freshness v force st)"
    using sp by (auto simp: resolve_usable_def Let_def f sp_def [symmetric] dict_all_dict_update
        intro!: dict_all_fold_setdefault split: option.split)
  from dict_all_mono [OF this, of "usable_reading n o2" for o2]
  have "dict_all (usable_reading n o2) (resolve_usable n points freshness v force st)"
    if "err \<noteq> None \<longrightarrow> o2" for o2
    using that unfolding usable_reading_def by blast
  then show ?thesis
    using resolve_result [OF assms(1) f] fs(2) by auto
qed

text \<open>The awaited tasks answer the places that wait for them, and the number of a new task is new.\<close>

definition tasks_complete :: "resolve_env \<Rightarrow> variant \<Rightarrow> forecast_state \<Rightarrow> point list \<Rightarrow> bool" where
  "tasks_complete n v st1 points \<longleftrightarrow>
     v_task n \<notin> snd ` set (fs_inflight st1) \<and>
     (\<forall>p \<in> set points. \<forall>batch. v_await n (awaited n v st1 (pt_code p)) = Inr batch \<longrightarrow> map_of batch (pt_code p) \<noteq> None)"

lemma resolve_fetched_complete:
  assumes "resolve_fetched n points freshness v force st = ((fetched, None), st2)"
    and "tasks_complete n v (snd (resolve_known n points freshness v st)) points"
    and "p \<in> set (sp_missing (resolve_sorted n points freshness v force st))" and "p \<in> set points"
  shows "map_of fetched (pt_code p) \<noteq> None"
proof -
  define st1 where "st1 = snd (resolve_known n points freshness v st)"
  define to_fetch where "to_fetch = sp_missing (resolve_sorted n points freshness v force st)
    @ sp_force (resolve_sorted n points freshness v force st)"
  have p: "p \<in> set to_fetch" and ne: "to_fetch \<noteq> []" using assms(3) by (auto simp: to_fetch_def)
  define new where "new = not_in_flight v to_fetch st1"
  define old where "old = waiting_for v to_fetch st1"
  define ws where "ws = (if new = [] then old else AList.update (v_task n) (List.map pt_code new) old)"
  have run: "collect (v_await n) ws ([], None) = (fetched, None)"
    using assms(1) [unfolded resolve_fetched_def Let_def, folded to_fetch_def st1_def, unfolded if_not_P [OF ne]]
    by (auto simp: fetch_def ws_def new_def old_def Let_def split: prod.splits)
  have batch: "\<And>batch. v_await n (awaited n v st1 (pt_code p)) = Inr batch \<Longrightarrow> map_of batch (pt_code p) \<noteq> None"
    using assms(2,4) by (simp add: tasks_complete_def st1_def)
  have "\<exists>codes. map_of ws (awaited n v st1 (pt_code p)) = Some codes \<and> pt_code p \<in> set codes"
  proof (cases "map_of (fs_inflight st1) (v, pt_code p)")
    case None
    then have "p \<in> set new" using p by (simp add: new_def not_in_flight_def)
    then show ?thesis using None by (auto simp: ws_def awaited_def update_conv')
  next
    case (Some t)
    then have "t \<in> snd ` set (fs_inflight st1)" by (force dest: map_of_SomeD)
    then have "t \<noteq> v_task n" using assms(2) unfolding tasks_complete_def st1_def [symmetric] by blast
    then show ?thesis using waiting_for_member [OF p Some] Some by (auto simp: ws_def awaited_def old_def update_conv')
  qed
  then show ?thesis using collect_complete [OF run _ _ batch] by (auto dest: map_of_SomeD)
qed

lemma map_of_fold_setdefault:
  "map_of (fold (\<lambda>(k, x) d. setdefault k x d) new d) k =
   (case map_of d k of None \<Rightarrow> map_of new k | Some x \<Rightarrow> Some x)"
proof (induction new arbitrary: d)
  case (Cons kx new)
  obtain k' x where "kx = (k', x)" by force
  then show ?case using Cons.IH by (auto split: option.split)
qed (simp split: option.split)


end
