(* ===== verification/Forecast_Witnesses.thy ===== *)
theory Forecast_Witnesses
  imports Forecast_Laws
begin

text \<open>Concrete runs of the weather readings: the properties of \<open>Forecast_Laws\<close> at closed inputs.\<close>

definition point0 :: "string \<Rightarrow> point" where
  "point0 code = \<lparr>pt_code = code, pt_name = code, pt_uf = ''SP'', pt_lat = -23, pt_lon = -46\<rparr>"

definition limited_source :: "point list \<Rightarrow> domain_error + weather_city list" where
  "limited_source ps = Inl (rate_limited 60)"

theorem rate_limit_stops_requests_witness:
  "\<exists>st. fetch_and_store 10 20 0 limited_source id [point0 ''a''] Current new_forecast_state
       = (Inl (rate_limited 60), st) \<and>
     fetch_and_store 50 50 0 limited_source id [point0 ''b''] Current st = (Inl (rate_limited 30), st)"
proof -
  obtain r st where run: "fetch_and_store 10 20 0 limited_source id [point0 ''a''] Current new_forecast_state = (r, st)"
    by force
  have chunk: "fetch_chunks limited_source (chunks FETCH_CHUNK [point0 ''a'']) = Inl (rate_limited 60)"
    by (simp add: chunks.simps [of _ "[_]"] FETCH_CHUNK_def limited_source_def)
  have guard: "fetch_guard 10 new_forecast_state = None"
    by (simp add: fetch_guard_def rate_limit_cooldown_def new_forecast_state_def cooldown_active_def new_cooldown_def)
  from rate_limit_stops_requests [OF chunk _ guard run refl refl, of 50 50 0 limited_source id "[point0 ''b'']" Current]
  show ?thesis using run by auto
qed

theorem fetch_stores_recent_readings_witness:
  "\<exists>batch st. fetch_finish 5 0 Forecast [point0 ''a''] (Inr [city0 ''sp'' 20 None]) new_forecast_state = (Inr batch, st) \<and>
     readings_ok st \<and> dict_all (\<lambda>code x. good_reading code x \<and> wr_fetched_at x = 0) batch"
proof -
  have "readings_ok new_forecast_state" by (simp add: readings_ok_def new_forecast_state_def)
  moreover obtain r st where run: "fetch_finish 5 0 Forecast [point0 ''a''] (Inr [city0 ''sp'' 20 None]) new_forecast_state = (r, st)"
    by force
  moreover have "\<exists>batch. r = Inr batch"
    using run by (auto simp: fetch_finish_def within_age_def city0_def forecast_constants)
  ultimately show ?thesis using fetch_stores_recent_readings [OF run] by auto
qed

text \<open>One place asked, nothing known, the new task number 7 brings its reading.\<close>

definition reading0 :: reading where
  "reading0 = \<lparr>wr_fetched_at = 0, wr_city = city0 ''a'' 20 None\<rparr>"

definition env0 :: resolve_env where
  "env0 = \<lparr>v_clock = 1, v_now = 0, v_shared = (\<lambda>ks. replicate (length ks) None), v_during_load = id,
     v_clock_loaded = 1, v_task = 7, v_await = (\<lambda>t. Inr [(''a'', reading0)]), v_meanwhile = id,
     v_clock_after = 2, v_task_after = 8\<rparr>"

lemma reading0_good: "good_reading ''a'' reading0"
  by (simp add: reading0_def good_reading_def within_age_def city0_def forecast_constants)

lemma load0:
  "resolve_known env0 [point0 ''a''] MAP_FRESHNESS Current new_forecast_state = ([], snd (resolve_known env0 [point0 ''a''] MAP_FRESHNESS Current new_forecast_state))
   \<and> fs_inflight (snd (resolve_known env0 [point0 ''a''] MAP_FRESHNESS Current new_forecast_state)) = []"
  by (simp add: resolve_known_def load_def env0_def point0_def new_forecast_state_def new_cache_def cache_get_def
      cache_enabled_def READING_TTL_SECONDS_def pending_keys_def Let_def)

lemma resolve0:
  "\<exists>st. resolve env0 [point0 ''a''] MAP_FRESHNESS Current False new_forecast_state = (Inr ([(''a'', reading0)], False), st)"
proof -
  obtain st1 where k: "resolve_known env0 [point0 ''a''] MAP_FRESHNESS Current new_forecast_state = ([], st1)" "fs_inflight st1 = []"
    using load0 by (metis snd_conv)
  have s: "resolve_sorted env0 [point0 ''a''] MAP_FRESHNESS Current False new_forecast_state =
      \<lparr>sp_usable = [], sp_fallback = [], sp_missing = [point0 ''a''], sp_renew = [], sp_force = []\<rparr>"
    by (simp add: resolve_sorted_def k sort_points_def sort_point_def)
  have one: "fetch (v_task env0) (v_await env0) [point0 ''a''] Current st1 =
      (([(''a'', reading0)], None), start_fetch 7 [point0 ''a''] Current st1)"
    by (simp add: fetch_def not_in_flight_def waiting_for_def k env0_def take_codes_def point0_def)
  have f: "resolve_fetched env0 [point0 ''a''] MAP_FRESHNESS Current False new_forecast_state =
      (([(''a'', reading0)], None), start_fetch 7 [point0 ''a''] Current st1)"
    unfolding resolve_fetched_def s k snd_conv Let_def by (simp add: one) (simp add: env0_def)
  have "resolve_usable env0 [point0 ''a''] MAP_FRESHNESS Current False new_forecast_state = [(''a'', reading0)]"
    by (simp add: resolve_usable_def s f dict_update_def)
  then show ?thesis by (simp add: resolve_def s f)
qed

theorem resolve_answers_usable_witness:
  "\<exists>usable st. resolve env0 [point0 ''a''] MAP_FRESHNESS Current False new_forecast_state = (Inr (usable, False), st) \<and>
     dict_all (usable_reading env0 False) usable \<and> map_of usable ''a'' = Some reading0"
proof -
  obtain st where run: "resolve env0 [point0 ''a''] MAP_FRESHNESS Current False new_forecast_state = (Inr ([(''a'', reading0)], False), st)"
    using resolve0 by blast
  have "readings_ok new_forecast_state" by (simp add: readings_ok_def new_forecast_state_def)
  moreover have "readings_ok (v_during_load env0 s)" if "readings_ok s" for s using that by (simp add: env0_def)
  moreover have "shared_ok (v_shared env0)" by (auto simp: shared_ok_def env0_def dest!: set_zip_rightD)
  moreover have "dict_all good_reading batch" if "v_await env0 t = Inr batch" for t batch
    using that reading0_good by (auto simp: env0_def dict_all_def)
  ultimately have "dict_all (usable_reading env0 False) [(''a'', reading0)]"
    using resolve_answers_usable [OF run] by simp
  then show ?thesis using run by auto
qed


end
