(* ===== verification/Hydro_Lines.thy ===== *)
theory Hydro_Lines
  imports Prelude "HOL-Library.Multiset"
begin

text \<open>
  The line work of \<open>app/services/hydrography.py\<close>: joining the stretches of a river, simplifying a
  line, and clipping it to a rectangle. A position is a pair of exact reals (longitude, latitude).
\<close>

type_synonym pos = "real \<times> real"
type_synonym line = "pos list"
type_synonym rect = "real \<times> real \<times> real \<times> real"

fun pairwise :: "'a list \<Rightarrow> ('a \<times> 'a) list" where
  "pairwise (a # b # xs) = (a, b) # pairwise (b # xs)"
| "pairwise _ = []"

lemma pairwise_append:
  "xs \<noteq> [] \<Longrightarrow> pairwise (xs @ ys) = pairwise xs @ pairwise (last xs # ys)"
  by (induction xs rule: pairwise.induct) auto

lemma pairwise_nth: "pairwise xs = List.map (\<lambda>i. (xs ! i, xs ! Suc i)) [0..<length xs - 1]"
proof (induction xs rule: pairwise.induct)
  case (1 a b xs)
  then show ?case by (simp add: upt_conv_Cons map_Suc_upt [symmetric] del: upt_Suc)
qed simp_all

section \<open>Joining stretches\<close>

text \<open>
  \<open>starting_at\<close> is the lookup in \<open>by_start\<close>: the stretches that start at a position, in order.
  \<open>grow\<close> is the inner loop: while an unused stretch starts where the chain ends, it is appended
  without its first point.
\<close>

definition starting_at :: "line list \<Rightarrow> pos \<Rightarrow> nat list" where
  "starting_at lines p = filter (\<lambda>i. hd (lines ! i) = p) [0..<length lines]"

lemma next_stretch:
  assumes "filter (\<lambda>i. i \<notin> used) (starting_at lines p) = f # fs"
  shows "f < length lines \<and> f \<notin> used \<and> hd (lines ! f) = p"
proof -
  have "f \<in> set (filter (\<lambda>i. i \<notin> used) (starting_at lines p))" using assms by simp
  then show ?thesis by (simp add: starting_at_def)
qed

function grow :: "line list \<Rightarrow> nat set \<Rightarrow> line \<Rightarrow> nat set \<times> line" where
  "grow lines used chain =
     (case filter (\<lambda>i. i \<notin> used) (starting_at lines (last chain)) of
        [] \<Rightarrow> (used, chain)
      | f # _ \<Rightarrow> grow lines (insert f used) (chain @ tl (lines ! f)))"
  by pat_completeness auto

termination
proof (relation "measure (\<lambda>(lines, used, chain). card ({0..<length lines} - used))")
  fix lines used f fs and chain :: line
  assume "filter (\<lambda>i. i \<notin> used) (starting_at lines (last chain)) = f # fs"
  from next_stretch [OF this] have "f \<in> {0..<length lines} - used" by simp
  moreover have "{0..<length lines} - insert f used = ({0..<length lines} - used) - {f}" by blast
  ultimately have "card ({0..<length lines} - insert f used) < card ({0..<length lines} - used)"
    using card_Diff1_less [of "{0..<length lines} - used" f] by simp
  then show "((lines, insert f used, chain @ tl (lines ! f)), lines, used, chain)
      \<in> measure (\<lambda>(lines, used, chain). card ({0..<length lines} - used))" by simp
qed simp

declare grow.simps [simp del]

fun merge_from :: "line list \<Rightarrow> nat list \<Rightarrow> nat set \<Rightarrow> line list" where
  "merge_from lines [] used = []"
| "merge_from lines (i # is) used =
     (if i \<in> used then merge_from lines is used
      else let (used1, chain) = grow lines (insert i used) (lines ! i) in chain # merge_from lines is used1)"

text \<open>Stretches that continue no other come first; \<open>sorted\<close> is stable.\<close>

definition merge_lines :: "line list \<Rightarrow> line list" where
  "merge_lines all_lines =
     (let lines = filter (\<lambda>l. l \<noteq> []) all_lines;
          continued = last ` set lines;
          order = sort_key (\<lambda>i. if hd (lines ! i) \<in> continued then 1 else 0 :: nat) [0..<length lines] in
      merge_from lines order {})"

text \<open>The segments a list of lines draws.\<close>

definition segments :: "line list \<Rightarrow> (pos \<times> pos) multiset" where
  "segments ls = sum_list (List.map (\<lambda>l. mset (pairwise l)) ls)"

definition drawn :: "line list \<Rightarrow> nat set \<Rightarrow> (pos \<times> pos) multiset" where
  "drawn lines used = (\<Sum>i\<in>used. mset (pairwise (lines ! i)))"

lemma pairwise_join: "xs \<noteq> [] \<Longrightarrow> ys \<noteq> [] \<Longrightarrow> hd ys = last xs \<Longrightarrow> pairwise (xs @ tl ys) = pairwise xs @ pairwise ys"
  by (cases ys) (auto simp: pairwise_append)

lemma grow_draws:
  assumes "grow lines used chain = (used', chain')" and "\<forall>l \<in> set lines. l \<noteq> []" and "chain \<noteq> []"
    and "finite used" and "used \<subseteq> {0..<length lines}"
  shows "mset (pairwise chain') + drawn lines used = mset (pairwise chain) + drawn lines used' \<and>
    used \<subseteq> used' \<and> used' \<subseteq> {0..<length lines} \<and> chain' \<noteq> [] \<and> hd chain' = hd chain"
  using assms
proof (induction lines used chain rule: grow.induct)
  case (1 lines used chain)
  show ?case
  proof (cases "filter (\<lambda>i. i \<notin> used) (starting_at lines (last chain))")
    case Nil
    then show ?thesis using 1 by (simp add: grow.simps)
  next
    case (Cons f fs)
    note f = next_stretch [OF Cons]
    have ne: "lines ! f \<noteq> []" using f 1(3) by simp
    have run: "grow lines (insert f used) (chain @ tl (lines ! f)) = (used', chain')"
      using 1(2) by (simp add: grow.simps [of lines used] Cons)
    have d: "drawn lines (insert f used) = mset (pairwise (lines ! f)) + drawn lines used"
      using f 1(5) by (simp add: drawn_def)
    have "mset (pairwise (chain @ tl (lines ! f))) = mset (pairwise chain) + mset (pairwise (lines ! f))"
      using pairwise_join [OF 1(4) ne] f by simp
    then show ?thesis
      using 1(1) [OF Cons run 1(3)] 1(4,5,6) f d by (auto simp: ac_simps)
  qed
qed

lemma merge_from_draws:
  assumes "\<forall>l \<in> set lines. l \<noteq> []" and "finite used" and "used \<subseteq> {0..<length lines}" and "set is \<subseteq> {0..<length lines}"
  shows "\<exists>used'. segments (merge_from lines is used) + drawn lines used = drawn lines used' \<and>
    used \<union> set is \<subseteq> used' \<and> used' \<subseteq> {0..<length lines}"
  using assms
proof (induction "is" arbitrary: used)
  case Nil
  then show ?case by (auto simp: segments_def)
next
  case (Cons i "is")
  show ?case
  proof (cases "i \<in> used")
    case True
    then show ?thesis using Cons.IH [OF Cons.prems(1-3)] Cons.prems(4) by auto
  next
    case False
    obtain used1 chain where g: "grow lines (insert i used) (lines ! i) = (used1, chain)" by force
    have ne: "lines ! i \<noteq> []" using Cons.prems by auto
    have eq: "mset (pairwise chain) + drawn lines (insert i used) = mset (pairwise (lines ! i)) + drawn lines used1"
      and sub: "insert i used \<subseteq> used1" "used1 \<subseteq> {0..<length lines}"
      using grow_draws [OF g Cons.prems(1) ne] Cons.prems by auto
    have "mset (pairwise chain) + drawn lines used = drawn lines used1"
      using eq False Cons.prems(2) by (simp add: drawn_def)
    moreover obtain used' where "segments (merge_from lines is used1) + drawn lines used1 = drawn lines used'"
      "used1 \<union> set is \<subseteq> used'" "used' \<subseteq> {0..<length lines}"
      using Cons.IH [of used1] Cons.prems sub finite_subset [OF sub(2)] by auto
    ultimately have "mset (pairwise chain) + segments (merge_from lines is used1) + drawn lines used = drawn lines used'"
      by (metis add.assoc add.commute)
    then have "segments (merge_from lines (i # is) used) + drawn lines used = drawn lines used'"
      using False by (simp add: g segments_def)
    then show ?thesis using sub \<open>used1 \<union> set is \<subseteq> used'\<close> \<open>used' \<subseteq> {0..<length lines}\<close>
      by (intro exI [of _ used']) (auto simp del: merge_from.simps)
  qed
qed

lemma segments_filter: "segments (filter (\<lambda>l. l \<noteq> []) ls) = segments ls"
  by (induction ls) (auto simp: segments_def)

lemma merge_lines_segments: "segments (merge_lines ls) = segments ls"
proof -
  define lines where "lines = filter (\<lambda>l. l \<noteq> []) ls"
  define order where "order = sort_key (\<lambda>i. if hd (lines ! i) \<in> last ` set lines then 1 else 0 :: nat) [0..<length lines]"
  obtain used where "segments (merge_from lines order {}) + drawn lines {} = drawn lines used"
    and "{} \<union> set order \<subseteq> used" and "used \<subseteq> {0..<length lines}"
    using merge_from_draws [of lines "{}" order] by (auto simp: lines_def order_def)
  then have "segments (merge_lines ls) = drawn lines {0..<length lines}"
    by (auto simp: merge_lines_def Let_def lines_def [symmetric] order_def [symmetric])
      (simp add: order_def drawn_def subset_antisym)
  also have "\<dots> = segments lines"
    by (simp add: drawn_def segments_def sum_list_sum_nth)
  also have "\<dots> = segments ls" by (simp add: lines_def segments_filter)
  finally show ?thesis .
qed

text \<open>
  Property C19. Joining the stretches of a river draws the same river: the merged lines have exactly the
  segments of the stretches, each as many times; every stretch is used once and nothing is invented.
\<close>

theorem merge_lines_draws_the_same: "segments (merge_lines ls) = segments ls"
  by (rule merge_lines_segments)

section \<open>Simplifying a line\<close>

text \<open>The squared distance the loop computes, from a point to the segment of two others.\<close>

definition off_segment :: "pos \<Rightarrow> pos \<Rightarrow> pos \<Rightarrow> real" where
  "off_segment a b p =
     (let dx = fst b - fst a; dy = snd b - snd a; denom = dx * dx + dy * dy;
          t = (if denom \<noteq> 0 then max 0 (min 1 (((fst p - fst a) * dx + (snd p - snd a) * dy) / denom)) else 0) in
      (fst p - fst a - t * dx) ^ 2 + (snd p - snd a - t * dy) ^ 2)"

text \<open>The farthest point beyond the tolerance between two indices: the first of the greatest.\<close>

definition split_index :: "pos list \<Rightarrow> real \<Rightarrow> nat \<Rightarrow> nat \<Rightarrow> nat option" where
  "split_index points tolerance s e =
     snd (foldl (\<lambda>(greatest, split) i.
         let distance = off_segment (points ! s) (points ! e) (points ! i) in
         if distance > greatest then (distance, Some i) else (greatest, split))
       (tolerance * tolerance, None) [s + 1..<e])"

lemma split_loop:
  assumes "foldl (\<lambda>(greatest, split) i.
      if off_segment a b (points ! i) > greatest then (off_segment a b (points ! i), Some i) else (greatest, split))
    (g, r) is = (g', r')"
  shows "g \<le> g' \<and> (\<forall>i \<in> set is. off_segment a b (points ! i) \<le> g') \<and> (r' = r \<and> g' = g \<or> (\<exists>i \<in> set is. r' = Some i))"
  using assms
proof (induction "is" arbitrary: g r)
  case (Cons i "is")
  let ?d = "off_segment a b (points ! i)"
  have "foldl (\<lambda>(greatest, split) i. if off_segment a b (points ! i) > greatest
        then (off_segment a b (points ! i), Some i) else (greatest, split))
      (if ?d > g then (?d, Some i) else (g, r)) is = (g', r')"
    using Cons.prems by simp
  then show ?case using Cons.IH [of ?d "Some i"] Cons.IH [of g r] by (cases "?d > g") (auto intro: order_trans)
qed simp

lemma split_index_Some: "split_index points tolerance s e = Some i \<Longrightarrow> s < i \<and> i < e"
  and split_index_None: "split_index points tolerance s e = None \<Longrightarrow> s < i \<Longrightarrow> i < e \<Longrightarrow>
    off_segment (points ! s) (points ! e) (points ! i) \<le> tolerance * tolerance"
proof -
  obtain g r where run: "foldl (\<lambda>(greatest, split) i.
      if off_segment (points ! s) (points ! e) (points ! i) > greatest
      then (off_segment (points ! s) (points ! e) (points ! i), Some i) else (greatest, split))
    (tolerance * tolerance, None) [s + 1..<e] = (g, r)" by force
  then have r: "split_index points tolerance s e = r" by (simp add: split_index_def Let_def)
  note loop = split_loop [OF run]
  show "split_index points tolerance s e = Some i \<Longrightarrow> s < i \<and> i < e" using loop r by auto
  show "split_index points tolerance s e = None \<Longrightarrow> s < i \<Longrightarrow> i < e \<Longrightarrow>
      off_segment (points ! s) (points ! e) (points ! i) \<le> tolerance * tolerance" using loop r by auto
qed

text \<open>The stack of intervals still to look at, its top first.\<close>

function keep_points :: "pos list \<Rightarrow> real \<Rightarrow> (nat \<times> nat) list \<Rightarrow> nat set \<Rightarrow> nat set" where
  "keep_points points tolerance [] keep = keep"
| "keep_points points tolerance ((s, e) # stack) keep =
     (case split_index points tolerance s e of
        None \<Rightarrow> keep_points points tolerance stack keep
      | Some i \<Rightarrow> keep_points points tolerance ((i, e) # (s, i) # stack) (insert i keep))"
  by pat_completeness auto

termination
proof (relation "measures [\<lambda>(points, tolerance, stack, keep). \<Sum>(s, e)\<leftarrow>stack. 2 * (e - s) - 1,
    \<lambda>(points, tolerance, stack, keep). length stack]")
  fix points tolerance s e stack keep i
  assume "split_index points tolerance s e = Some i"
  then have "s < i" "i < e" using split_index_Some by blast+
  then have "(2 * (e - i) - 1) + (2 * (i - s) - 1) + n < 2 * (e - s) - 1 + n" for n by arith
  then show "((points, tolerance, (i, e) # (s, i) # stack, insert i keep), points, tolerance, (s, e) # stack, keep)
      \<in> measures [\<lambda>(points, tolerance, stack, keep). \<Sum>(s, e)\<leftarrow>stack. 2 * (e - s) - 1,
        \<lambda>(points, tolerance, stack, keep). length stack]"
    by (simp only: measures_less in_measure prod.case list.map sum_list.Cons add.assoc [symmetric])
qed auto

declare keep_points.simps [simp del]

definition kept_indices :: "pos list \<Rightarrow> real \<Rightarrow> nat list" where
  "kept_indices points tolerance =
     sorted_list_of_set (keep_points points tolerance [(0, length points - 1)] {0, length points - 1})"

definition simplify_line :: "line \<Rightarrow> real \<Rightarrow> line" where
  "simplify_line points tolerance =
     (if length points < 3 then points
      else List.map (\<lambda>i. (round_places 4 (fst (points ! i)), round_places 4 (snd (points ! i))))
        (kept_indices points tolerance))"

text \<open>Two kept indices with none between them.\<close>

definition neighbours :: "nat set \<Rightarrow> nat \<Rightarrow> nat \<Rightarrow> bool" where
  "neighbours keep s e \<longleftrightarrow> s \<in> keep \<and> e \<in> keep \<and> s < e \<and> (\<forall>i. s < i \<and> i < e \<longrightarrow> i \<notin> keep)"

definition close_between :: "pos list \<Rightarrow> real \<Rightarrow> nat \<Rightarrow> nat \<Rightarrow> bool" where
  "close_between points tolerance s e \<longleftrightarrow>
     (\<forall>i. s < i \<and> i < e \<longrightarrow> off_segment (points ! s) (points ! e) (points ! i) \<le> tolerance * tolerance)"

lemma neighbours_insert:
  assumes "neighbours keep s e" and "s < i" and "i < e"
  shows "neighbours (insert i keep) a b \<longleftrightarrow>
    (a, b) = (s, i) \<or> (a, b) = (i, e) \<or> (neighbours keep a b \<and> (a, b) \<noteq> (s, e))"
proof -
  have out: "\<And>j. s < j \<Longrightarrow> j < e \<Longrightarrow> j \<notin> keep" and se: "s \<in> keep" "e \<in> keep"
    using assms by (auto simp: neighbours_def)
  have i: "i \<notin> keep" using out assms(2,3) by blast
  show ?thesis
  proof
    assume n: "neighbours (insert i keep) a b"
    then have ab: "a < b" "\<And>j. a < j \<Longrightarrow> j < b \<Longrightarrow> j \<notin> insert i keep" by (auto simp: neighbours_def)
    consider "a = i" | "b = i" | "a \<noteq> i" "b \<noteq> i" by blast
    then show "(a, b) = (s, i) \<or> (a, b) = (i, e) \<or> (neighbours keep a b \<and> (a, b) \<noteq> (s, e))"
    proof cases
      case 1
      then have "b \<in> keep" using n ab(1) by (auto simp: neighbours_def)
      moreover have "\<not> e < b" using ab(2) [of e] 1 assms(3) se by blast
      ultimately have "b = e" using out [of b] ab(1) 1 assms(2) by fastforce
      then show ?thesis using 1 by simp
    next
      case 2
      then have "a \<in> keep" using n ab(1) by (auto simp: neighbours_def)
      moreover have "\<not> a < s" using ab(2) [of s] 2 assms(2) se by blast
      ultimately have "a = s" using out [of a] ab(1) 2 assms(3) by fastforce
      then show ?thesis using 2 by simp
    next
      case 3
      then have "neighbours keep a b" using n by (auto simp: neighbours_def)
      moreover have "(a, b) \<noteq> (s, e)" using ab(2) [of i] assms(2,3) by blast
      ultimately show ?thesis by blast
    qed
  next
    assume "(a, b) = (s, i) \<or> (a, b) = (i, e) \<or> (neighbours keep a b \<and> (a, b) \<noteq> (s, e))"
    then consider "(a, b) = (s, i)" | "(a, b) = (i, e)" | "neighbours keep a b" "(a, b) \<noteq> (s, e)" by blast
    then show "neighbours (insert i keep) a b"
    proof cases
      case 1
      then show ?thesis using assms(2,3) se out by (auto simp: neighbours_def)
    next
      case 2
      then show ?thesis using assms(2,3) se out by (auto simp: neighbours_def)
    next
      case 3
      then have ab: "a \<in> keep" "b \<in> keep" "a < b" "\<And>j. a < j \<Longrightarrow> j < b \<Longrightarrow> j \<notin> keep"
        by (auto simp: neighbours_def)
      have "\<not> (a < i \<and> i < b)"
      proof
        assume j: "a < i \<and> i < b"
        have "a = s" using out [OF _ _] ab(1) ab(4) [of s] se(1) j assms(2,3) by (metis less_trans linorder_neqE_nat)
        moreover have "b = e" using out [of b] ab(2) ab(4) [of e] se(2) j assms(2,3) by (metis less_trans linorder_neqE_nat)
        ultimately show False using 3(2) by simp
      qed
      then show ?thesis using ab by (auto simp: neighbours_def)
    qed
  qed
qed

lemma keep_points_close:
  assumes "\<forall>(s, e) \<in> set stack. neighbours keep s e"
    and "\<forall>s e. neighbours keep s e \<longrightarrow> (s, e) \<in> set stack \<or> close_between points tolerance s e"
    and "finite keep" and "distinct stack"
  shows "keep \<subseteq> keep_points points tolerance stack keep \<and> finite (keep_points points tolerance stack keep) \<and>
    (\<forall>i \<in> keep_points points tolerance stack keep. i \<in> keep \<or> (\<exists>e \<in> keep. i < e)) \<and>
    (\<forall>s e. neighbours (keep_points points tolerance stack keep) s e \<longrightarrow> close_between points tolerance s e)"
  using assms
proof (induction points tolerance stack keep rule: keep_points.induct)
  case (1 points tolerance keep)
  then show ?case by (simp add: keep_points.simps)
next
  case (2 points tolerance s e stack keep)
  show ?case
  proof (cases "split_index points tolerance s e")
    case None
    then have "close_between points tolerance s e" using split_index_None by (auto simp: close_between_def)
    then show ?thesis using 2(1) [OF None] 2(3-6) by (auto simp: keep_points.simps None)
  next
    case (Some i)
    have i: "s < i" "i < e" using split_index_Some [OF Some] by auto
    have n: "neighbours keep s e" using 2(3) by simp
    then have out: "i \<notin> keep" "e \<in> keep" using i by (auto simp: neighbours_def)
    note step = neighbours_insert [OF n i]
    let ?k = "keep_points points tolerance ((i, e) # (s, i) # stack) (insert i keep)"
    have not_in: "(i, e) \<notin> set stack" "(s, i) \<notin> set stack" "(i, e) \<noteq> (s, i)"
      using 2(3) out i by (auto simp: neighbours_def)
    have "\<forall>(a, b) \<in> set ((i, e) # (s, i) # stack). neighbours (insert i keep) a b"
      using 2(3,6) unfolding step by auto
    moreover have "\<forall>a b. neighbours (insert i keep) a b \<longrightarrow>
        (a, b) \<in> set ((i, e) # (s, i) # stack) \<or> close_between points tolerance a b"
      using 2(4) unfolding step by auto
    moreover have "finite (insert i keep)" and "distinct ((i, e) # (s, i) # stack)"
      using 2(5,6) not_in by auto
    ultimately have rest: "insert i keep \<subseteq> ?k \<and> finite ?k \<and>
        (\<forall>j \<in> ?k. j \<in> insert i keep \<or> (\<exists>e \<in> insert i keep. j < e)) \<and>
        (\<forall>s e. neighbours ?k s e \<longrightarrow> close_between points tolerance s e)"
      by (rule 2(2) [OF Some])
    have "j \<in> keep \<or> (\<exists>e \<in> keep. j < e)" if "j \<in> ?k" for j
    proof -
      have "j = i \<or> j \<in> keep \<or> j < i \<or> (\<exists>e \<in> keep. j < e)" using rest that by blast
      then show ?thesis using out(2) i(2) less_trans by blast
    qed
    then show ?thesis using rest by (simp add: keep_points.simps(2) [of _ _ s e] Some)
  qed
qed


section \<open>Clipping a line\<close>

text \<open>
  The loop over the four edges: \<open>None\<close> when it breaks with \<open>visible = False\<close>, otherwise the range
  of the parameter left.
\<close>

fun clip_range :: "(real \<times> real) list \<Rightarrow> real \<Rightarrow> real \<Rightarrow> (real \<times> real) option" where
  "clip_range [] low high = Some (low, high)"
| "clip_range ((p, q) # edges) low high =
     (if p = 0 then (if q < 0 then None else clip_range edges low high)
      else if p < 0 then clip_range edges (max low (q / p)) high
      else clip_range edges low (min high (q / p)))"

definition along :: "pos \<Rightarrow> pos \<Rightarrow> real \<Rightarrow> pos" where
  "along a b t = (fst a + t * (fst b - fst a), snd a + t * (snd b - snd a))"

definition clip_segment :: "rect \<Rightarrow> pos \<Rightarrow> pos \<Rightarrow> (pos \<times> pos) option" where
  "clip_segment bbox a b =
     (case bbox of (west, south, east, north) \<Rightarrow>
        let x = fst a; y = snd a; dx = fst b - x; dy = snd b - y in
        case clip_range [(- dx, x - west), (dx, east - x), (- dy, y - south), (dy, north - y)] 0 1 of
          None \<Rightarrow> None
        | Some (low, high) \<Rightarrow> if low > high then None else Some (along a b low, along a b high))"

definition clip_step :: "rect \<Rightarrow> line list \<Rightarrow> pos \<times> pos \<Rightarrow> line list" where
  "clip_step bbox lines seg =
     (case clip_segment bbox (fst seg) (snd seg) of
        None \<Rightarrow> lines
      | Some (begin, stop) \<Rightarrow>
          if lines \<noteq> [] \<and> last (last lines) = begin
          then butlast lines @ [last lines @ [stop]]
          else lines @ [[begin, stop]])"

definition clip_line :: "line \<Rightarrow> rect \<Rightarrow> line list" where
  "clip_line points bbox = foldl (clip_step bbox) [] (pairwise points)"

text \<open>The points a segment and a line go through, and the closed rectangle.\<close>

definition on_segment :: "pos \<times> pos \<Rightarrow> pos \<Rightarrow> bool" where
  "on_segment s p \<longleftrightarrow> (\<exists>t. 0 \<le> t \<and> t \<le> 1 \<and> p = along (fst s) (snd s) t)"

definition on_line :: "line \<Rightarrow> pos \<Rightarrow> bool" where
  "on_line l p \<longleftrightarrow> (\<exists>s \<in> set (pairwise l). on_segment s p)"

definition inside :: "rect \<Rightarrow> pos \<Rightarrow> bool" where
  "inside bbox p \<longleftrightarrow> (case bbox of (west, south, east, north) \<Rightarrow>
     west \<le> fst p \<and> fst p \<le> east \<and> south \<le> snd p \<and> snd p \<le> north)"

lemma clip_range_exact:
  "(case clip_range edges low high of None \<Rightarrow> False | Some (l, h) \<Rightarrow> l \<le> t \<and> t \<le> h) \<longleftrightarrow>
   low \<le> t \<and> t \<le> high \<and> (\<forall>(p, q) \<in> set edges. t * p \<le> q)"
proof (induction edges arbitrary: low high)
  case (Cons e edges)
  obtain p q where e: "e = (p, q)" by force
  consider "p = 0" | "p < 0" | "p > 0" by linarith
  then show ?case
  proof cases
    case 1
    then show ?thesis using Cons.IH by (auto simp: e)
  next
    case 2
    then have "q / p \<le> t \<longleftrightarrow> t * p \<le> q" by (simp add: divide_le_eq)
    then show ?thesis using 2 Cons.IH by (auto simp: e)
  next
    case 3
    then have "t \<le> q / p \<longleftrightarrow> t * p \<le> q" by (simp add: le_divide_eq)
    then show ?thesis using 3 Cons.IH by (auto simp: e)
  qed
qed simp

lemma along_along: "along (along a b l) (along a b h) t = along a b (l + t * (h - l))"
  by (simp add: along_def algebra_simps)

lemma clip_segment_exact:
  "(case clip_segment bbox a b of None \<Rightarrow> False | Some s \<Rightarrow> on_segment s p) \<longleftrightarrow> on_segment (a, b) p \<and> inside bbox p"
proof -
  obtain west south east north where bbox: "bbox = (west, south, east, north)" by (metis prod_cases4)
  define edges where "edges = [(fst a - fst b, fst a - west), (fst b - fst a, east - fst a),
    (snd a - snd b, snd a - south), (snd b - snd a, north - snd a)]"
  have inside: "inside bbox (along a b t) \<longleftrightarrow> (\<forall>(p, q) \<in> set edges. t * p \<le> q)" for t
    by (auto simp: inside_def bbox along_def edges_def algebra_simps)
  note exact = clip_range_exact [where edges = edges and low = 0 and high = 1, folded inside]
  have cs: "clip_segment bbox a b = (case clip_range edges 0 1 of None \<Rightarrow> None
      | Some (low, high) \<Rightarrow> if low > high then None else Some (along a b low, along a b high))"
    by (simp add: clip_segment_def bbox edges_def Let_def)
  show ?thesis
  proof (cases "clip_range edges 0 1")
    case None
    then show ?thesis using exact by (auto simp: cs on_segment_def)
  next
    case (Some lh)
    obtain l h where lh: "lh = (l, h)" by force
    have range: "l \<le> t \<and> t \<le> h \<longleftrightarrow> 0 \<le> t \<and> t \<le> 1 \<and> inside bbox (along a b t)" for t
      using exact [where t = t] by (simp add: Some lh)
    have right: "on_segment (a, b) p \<and> inside bbox p \<longleftrightarrow> (\<exists>t. l \<le> t \<and> t \<le> h \<and> p = along a b t)"
      using range by (auto simp: on_segment_def)
    show ?thesis
    proof (cases "l > h")
      case True
      then show ?thesis unfolding right by (auto simp: cs Some lh)
    next
      case False
      have "on_segment (along a b l, along a b h) p \<longleftrightarrow> (\<exists>t. l \<le> t \<and> t \<le> h \<and> p = along a b t)"
      proof
        assume "on_segment (along a b l, along a b h) p"
        then obtain t where t: "0 \<le> t" "t \<le> 1" "p = along a b (l + t * (h - l))"
          by (auto simp: on_segment_def along_along)
        have "0 \<le> t * (h - l)" using t(1) False by simp
        moreover have "t * (h - l) \<le> 1 * (h - l)" using t(2) False by (intro mult_right_mono) auto
        ultimately show "\<exists>t. l \<le> t \<and> t \<le> h \<and> p = along a b t"
          using t(3) by (intro exI [of _ "l + t * (h - l)"]) auto
      next
        assume "\<exists>t. l \<le> t \<and> t \<le> h \<and> p = along a b t"
        then obtain t where t: "l \<le> t" "t \<le> h" "p = along a b t" by blast
        show "on_segment (along a b l, along a b h) p"
        proof (cases "l = h")
          case True
          then show ?thesis using t by (auto simp: on_segment_def along_along intro!: exI [of _ 0])
        next
          case neq: False
          let ?s = "(t - l) / (h - l)"
          have "0 \<le> ?s" "?s \<le> 1" "l + ?s * (h - l) = t" using t neq False by (auto simp: divide_le_eq)
          then show ?thesis using t(3) by (auto simp: on_segment_def along_along intro!: exI [of _ ?s])
        qed
      qed
      then show ?thesis unfolding right using False by (simp add: cs Some lh)
    qed
  qed
qed

lemma on_line_snoc: "l \<noteq> [] \<Longrightarrow> on_line (l @ [q]) p \<longleftrightarrow> on_line l p \<or> on_segment (last l, q) p"
  by (auto simp: on_line_def pairwise_append)

lemma clip_step_draws:
  assumes "\<forall>l \<in> set lines. l \<noteq> []"
  shows "((\<exists>l \<in> set (clip_step bbox lines s). on_line l p) \<longleftrightarrow>
      (\<exists>l \<in> set lines. on_line l p) \<or> on_segment s p \<and> inside bbox p) \<and>
    (\<forall>l \<in> set (clip_step bbox lines s). l \<noteq> [])"
proof (cases "clip_segment bbox (fst s) (snd s)")
  case None
  then show ?thesis using clip_segment_exact [where bbox = bbox and a = "fst s" and b = "snd s" and p = p] assms
    by (auto simp: clip_step_def)
next
  case (Some be)
  obtain b e where be: "be = (b, e)" by (rule prod.exhaust)
  have seg: "on_segment (b, e) p \<longleftrightarrow> on_segment s p \<and> inside bbox p"
    using clip_segment_exact [where bbox = bbox and a = "fst s" and b = "snd s" and p = p] by (simp add: Some be)
  show ?thesis
  proof (cases "lines \<noteq> [] \<and> last (last lines) = b")
    case True
    then obtain init l where lines: "lines = init @ [l]" by (metis rev_exhaust)
    have "l \<noteq> []" using assms lines by simp
    from on_line_snoc [OF this, of e p] show ?thesis
      using True assms seg by (auto simp: clip_step_def Some be lines)
  next
    case False
    have "on_line [b, e] p \<longleftrightarrow> on_segment (b, e) p" by (simp add: on_line_def)
    then show ?thesis using False assms seg by (auto simp: clip_step_def Some be)
  qed
qed

lemma clip_line_iff:
  "(\<exists>l \<in> set (clip_line points bbox). on_line l p) \<longleftrightarrow> on_line points p \<and> inside bbox p"
proof -
  have "((\<exists>l \<in> set (foldl (clip_step bbox) lines segs). on_line l p) \<longleftrightarrow>
      (\<exists>l \<in> set lines. on_line l p) \<or> (\<exists>s \<in> set segs. on_segment s p \<and> inside bbox p))"
    if "\<forall>l \<in> set lines. l \<noteq> []" for lines segs
    using that
  proof (induction segs arbitrary: lines)
    case (Cons s segs)
    then show ?case using Cons.IH [of "clip_step bbox lines s"] clip_step_draws [of lines bbox s p] by auto
  qed simp
  from this [of "[]" "pairwise points"] show ?thesis by (auto simp: clip_line_def on_line_def)
qed

text \<open>
  Property C21. Clipping a line to a rectangle keeps exactly what the rectangle shows: the clipped lines go
  through a point if and only if the line does and the point lies in the (closed) rectangle.
\<close>

theorem clip_line_exact:
  "(\<exists>l \<in> set (clip_line points bbox). on_line l p) \<longleftrightarrow> on_line points p \<and> inside bbox p"
  by (rule clip_line_iff)


end
