(* ===== verification/Hydrography.thy ===== *)
theory Hydrography
  imports Hydro_Lines Shared_Cache TTL_Cache
begin

text \<open>
  \<open>app/services/hydrography.py\<close>: the rivers and water bodies of the ANA service, consolidated,
  simplified and clipped to the area asked, with the snapshot of the major rivers when the service
  fails. Coordinates are pairs of exact reals; a response is its collection (the JSON text is a function
  of it) and the cache key is the pair the key text shows.
\<close>

section \<open>Features\<close>

datatype hydro_geometry =
    LineString line | MultiLineString "line list" | Polygon "line list" | MultiPolygon "line list list"

datatype hydro_category = River | WaterBody

record hydro_feature =
  hf_id :: string
  hf_name :: "string option"
  hf_category :: hydro_category
  hf_drainage_area_km2 :: "real option"
  hf_dominion :: "string option"
  hf_management :: "string option"
  hf_segment_count :: "int option"
  hf_body_type :: "string option"
  hf_area_km2 :: "real option"
  hf_geometry :: hydro_geometry
  hf_bbox :: "rect option"

definition BRAZIL_BBOX :: rect where
  "BRAZIL_BBOX = (-73.99, -33.75, -28.84, 5.27)"

section \<open>Rivers\<close>

text \<open>A feature of the rivers layer: what the code reads of it. Other shapes have no lines.\<close>

datatype river_geometry = RiverLine line | RiverLines "line list" | RiverOther bool

record raw_river =
  rr_geometry :: "river_geometry option"
  rr_noriocomp :: "string option"
  rr_nuareamont :: "real option"
  rr_dedominial :: "string option"
  rr_orgao_gest :: "string option"

text \<open>\<open>RiverOther b\<close>: some other type, with coordinates when \<open>b\<close>.\<close>

fun has_coordinates :: "river_geometry option \<Rightarrow> bool" where
  "has_coordinates None = False"
| "has_coordinates (Some (RiverLine l)) = (l \<noteq> [])"
| "has_coordinates (Some (RiverLines ls)) = (ls \<noteq> [])"
| "has_coordinates (Some (RiverOther b)) = b"

fun river_lines :: "river_geometry option \<Rightarrow> line list" where
  "river_lines (Some (RiverLine l)) = [l]"
| "river_lines (Some (RiverLines ls)) = ls"
| "river_lines _ = []"

definition unnamed_river :: string where
  "unnamed_river = ''Curso d'' @ [CHR 0x27, CHR 0xE1] @ ''gua sem nome''"

definition river_name :: "raw_river \<Rightarrow> string" where
  "river_name f =
     (let name = py_strip (case rr_noriocomp f of None \<Rightarrow> [] | Some n \<Rightarrow> n) in
      if name = [] then unnamed_river else name)"

record river_group =
  rg_max_area :: real
  rg_dominion :: "string option"
  rg_management :: "string option"
  rg_lines :: "line list"
  rg_segment_count :: int

text \<open>A value is taken over when it is not empty.\<close>

definition truthy_or :: "string option \<Rightarrow> string option \<Rightarrow> string option" where
  "truthy_or new old = (case new of Some (c # cs) \<Rightarrow> Some (c # cs) | _ \<Rightarrow> old)"

definition add_segment :: "raw_river \<Rightarrow> (string \<times> river_group) list \<Rightarrow> (string \<times> river_group) list" where
  "add_segment f grouped =
     (if \<not> has_coordinates (rr_geometry f) then grouped
      else
        let name = river_name f;
            area = (case rr_nuareamont f of None \<Rightarrow> 0 | Some a \<Rightarrow> a);
            entry = (case map_of grouped name of
                None \<Rightarrow> \<lparr>rg_max_area = area, rg_dominion = rr_dedominial f, rg_management = rr_orgao_gest f,
                          rg_lines = [], rg_segment_count = 0\<rparr>
              | Some g \<Rightarrow> g);
            entry1 = entry\<lparr>rg_segment_count := rg_segment_count entry + 1\<rparr>;
            entry2 = (if area > rg_max_area entry1
              then entry1\<lparr>rg_max_area := area, rg_dominion := truthy_or (rr_dedominial f) (rg_dominion entry1),
                          rg_management := truthy_or (rr_orgao_gest f) (rg_management entry1)\<rparr>
              else entry1);
            entry3 = entry2\<lparr>rg_lines := rg_lines entry2 @ river_lines (rr_geometry f)\<rparr> in
        AList.update name entry3 grouped)"

definition slug_char :: "char \<Rightarrow> char" where
  "slug_char c =
     (if c = CHR '' '' then CHR ''-''
      else if c = CHR 0xE3 \<or> c = CHR 0xE1 then CHR ''a''
      else if c = CHR 0xE9 then CHR ''e''
      else if c = CHR 0xED then CHR ''i''
      else if c = CHR 0xF3 then CHR ''o''
      else if c = CHR 0xFA then CHR ''u''
      else if c = CHR 0xE7 then CHR ''c''
      else c)"

definition slug :: "string \<Rightarrow> string" where
  "slug name = List.map slug_char (py_lower name)"

definition river_feature :: "string \<times> river_group \<Rightarrow> hydro_feature" where
  "river_feature entry =
     (case entry of (name, g) \<Rightarrow>
        \<lparr>hf_id = ''river:'' @ slug name, hf_name = Some name, hf_category = River,
         hf_drainage_area_km2 = Some (round_places 1 (rg_max_area g)), hf_dominion = rg_dominion g,
         hf_management = rg_management g, hf_segment_count = Some (rg_segment_count g), hf_body_type = None,
         hf_area_km2 = None, hf_geometry = MultiLineString (merge_lines (rg_lines g)), hf_bbox = None\<rparr>)"

definition drainage_or_zero :: "hydro_feature \<Rightarrow> real" where
  "drainage_or_zero f = (case hf_drainage_area_km2 f of None \<Rightarrow> 0 | Some a \<Rightarrow> a)"

definition consolidate_river_segments :: "raw_river list \<Rightarrow> hydro_feature list" where
  "consolidate_river_segments raw =
     sort_key (\<lambda>f. - drainage_or_zero f) (List.map river_feature (fold add_segment raw []))"

text \<open>
  The snapshot file of the major rivers, already parsed: \<open>None\<close> when it is missing or unreadable.
\<close>

definition init_major_rivers :: "hydro_feature list option \<Rightarrow> hydro_feature list" where
  "init_major_rivers snapshot =
     (case snapshot of
        None \<Rightarrow> []
      | Some items \<Rightarrow> sort_key (\<lambda>f. - drainage_or_zero f)
          (List.map (\<lambda>f. case hf_geometry f of
             MultiLineString ls \<Rightarrow> f\<lparr>hf_geometry := MultiLineString (merge_lines ls)\<rparr> | _ \<Rightarrow> f) items))"

section \<open>Detail and visibility\<close>

definition hydro_detail :: "real \<Rightarrow> real \<times> real \<times> real" where
  "hydro_detail zoom =
     (if zoom < 6 then (200000, 250, 25 / 1000)
      else if zoom < 8 then (10000, 25, 8 / 1000)
      else if zoom < 10 then (2000, 2, 2 / 1000)
      else (100, 2 / 10, 5 / 10000))"

text \<open>Only rivers, whose geometry is one line or several, are clipped.\<close>

definition visible_river :: "hydro_feature \<Rightarrow> rect \<Rightarrow> real \<Rightarrow> hydro_feature option" where
  "visible_river f bbox tolerance =
     (let lines = (case hf_geometry f of MultiLineString ls \<Rightarrow> ls | LineString l \<Rightarrow> [l] | _ \<Rightarrow> []);
          clipped = concat (List.map (\<lambda>l. clip_line (simplify_line l tolerance) bbox) lines) in
      if clipped = [] then None
      else Some (f\<lparr>hf_geometry := MultiLineString clipped, hf_bbox := None\<rparr>))"

definition ring_area :: "line \<Rightarrow> real" where
  "ring_area ring = \<bar>\<Sum>(a, b)\<leftarrow>pairwise ring. fst a * snd b - fst b * snd a\<bar> / 2"

text \<open>
  The polygons a detail shows. Unpacking \<open>outer, *holes\<close> of a polygon without rings raises
  \<open>ValueError\<close> (\<open>Inl\<close>).
\<close>

datatype body_geometry = OnePolygon "line list" | Polygons "line list list"

definition visible_rings :: "body_geometry \<Rightarrow> real \<Rightarrow> unit + hydro_geometry option" where
  "visible_rings g min_area =
     (let polygons = (case g of OnePolygon p \<Rightarrow> [p] | Polygons ps \<Rightarrow> ps) in
      if list_ex (\<lambda>p. p = []) polygons then Inl ()
      else
        let kept = List.map (\<lambda>p. hd p # filter (\<lambda>hole. ring_area hole \<ge> min_area) (tl p))
              (filter (\<lambda>p. ring_area (hd p) \<ge> min_area) polygons) in
        Inr (case kept of [] \<Rightarrow> None | [p] \<Rightarrow> Some (Polygon p) | _ \<Rightarrow> Some (MultiPolygon kept)))"

section \<open>Asking the service\<close>

fun batches :: "nat \<Rightarrow> 'a list \<Rightarrow> 'a list list" where
  "batches n xs = (if xs = [] \<or> n = 0 then [] else take n xs # batches n (drop n xs))"

declare batches.simps [simp del]

text \<open>
  The answers of the service: the ids (\<open>Inl\<close>: an HTTP error; \<open>None\<close>: no \<open>objectIds\<close>, inside it
  \<open>None\<close>: null), and for each batch its features and whether they were cut.
\<close>

record 'f ana_layer =
  al_ids :: "unit + int list option option"
  al_batch :: "int list \<Rightarrow> unit + ('f list option \<times> bool)"

fun collect_batches :: "(int list \<Rightarrow> unit + ('f list option \<times> bool)) \<Rightarrow> int list list \<Rightarrow> unit + 'f list" where
  "collect_batches ask [] = Inr []"
| "collect_batches ask (b # bs) =
     (case ask b of
        Inl () \<Rightarrow> Inl ()
      | Inr (None, _) \<Rightarrow> Inl ()
      | Inr (Some fs, exceeded) \<Rightarrow>
          if exceeded then Inl ()
          else (case collect_batches ask bs of Inl () \<Rightarrow> Inl () | Inr others \<Rightarrow> Inr (fs @ others)))"

definition query_features :: "('f, 'm) ana_layer_scheme \<Rightarrow> unit + 'f list" where
  "query_features layer =
     (case al_ids layer of
        Inl () \<Rightarrow> Inl ()
      | Inr None \<Rightarrow> Inl ()
      | Inr (Some ids) \<Rightarrow> collect_batches (al_batch layer) (batches 250 (case ids of None \<Rightarrow> [] | Some xs \<Rightarrow> xs)))"

definition fetch_rivers :: "(raw_river, 'm) ana_layer_scheme \<Rightarrow> unit + hydro_feature list" where
  "fetch_rivers layer =
     (case query_features layer of Inl () \<Rightarrow> Inl () | Inr raw \<Rightarrow> Inr (consolidate_river_segments raw))"

text \<open>A feature of the water bodies layer; \<open>rb_gid = None\<close>: the property is missing.\<close>

record raw_body =
  rb_geometry :: "body_geometry option"
  rb_gid :: "int option"
  rb_nmoriginal :: "string option"
  rb_detipomass :: "string option"
  rb_dedominial :: "string option"
  rb_nuareakm2 :: "real option"

text \<open>\<open>hf_name = None\<close> stands for the placeholder text of a body without a name.\<close>

definition body_feature :: "raw_body \<Rightarrow> int \<Rightarrow> hydro_geometry \<Rightarrow> hydro_feature" where
  "body_feature b gid g =
     (let name = py_strip (case rb_nmoriginal b of None \<Rightarrow> [] | Some n \<Rightarrow> n) in
      \<lparr>hf_id = ''water_body:'' @ int_to_string gid, hf_name = (if name = [] then None else Some name),
       hf_category = WaterBody, hf_drainage_area_km2 = None, hf_dominion = rb_dedominial b,
       hf_management = None, hf_segment_count = None, hf_body_type = rb_detipomass b,
       hf_area_km2 = rb_nuareakm2 b, hf_geometry = g, hf_bbox = None\<rparr>)"

fun body_features :: "real \<Rightarrow> raw_body list \<Rightarrow> unit + hydro_feature list" where
  "body_features min_area [] = Inr []"
| "body_features min_area (b # bs) =
     (case (case rb_geometry b of None \<Rightarrow> Inr None | Some g \<Rightarrow> visible_rings g min_area) of
        Inl () \<Rightarrow> Inl ()
      | Inr None \<Rightarrow> body_features min_area bs
      | Inr (Some g) \<Rightarrow>
          (case rb_gid b of
             None \<Rightarrow> Inl ()
           | Some gid \<Rightarrow>
               (case body_features min_area bs of
                  Inl () \<Rightarrow> Inl () | Inr fs \<Rightarrow> Inr (body_feature b gid g # fs))))"

definition fetch_water_bodies :: "real \<Rightarrow> (raw_body, 'm) ana_layer_scheme \<Rightarrow> unit + hydro_feature list" where
  "fetch_water_bodies zoom layer =
     (case hydro_detail zoom of (_, _, tolerance) \<Rightarrow>
        (case query_features layer of Inl () \<Rightarrow> Inl () | Inr raw \<Rightarrow> body_features ((4 * tolerance) ^ 2) raw))"

definition or_none :: "unit + 'a \<Rightarrow> 'a option" where
  "or_none r = (case r of Inl () \<Rightarrow> None | Inr x \<Rightarrow> Some x)"

section \<open>The response\<close>

record hydro_collection =
  hc_river_count :: nat
  hc_water_body_count :: nat
  hc_partial :: bool
  hc_bbox :: rect
  hc_features :: "hydro_feature list"

type_synonym hydro_key = "real \<times> rect"

record hydro_state =
  hy_cache :: "(hydro_key, hydro_collection) ttl_cache"
  hy_cooldown :: source_cooldown
  hy_major :: "hydro_feature list"

definition new_hydro_state :: "hydro_feature list option \<Rightarrow> hydro_state" where
  "new_hydro_state snapshot =
     \<lparr>hy_cache = new_cache 86400 128, hy_cooldown = new_cooldown 60, hy_major = init_major_rivers snapshot\<rparr>"

text \<open>
  What a request meets: the clock when it takes the lock of its key, when it starts and when it ends
  asking, the shared cache, the two layers for its query, and what the requests for other keys do
  to the state while it reads the shared cache and while it asks.
\<close>

record hydro_env =
  he_clock :: clock
  he_clock_asking :: clock
  he_clock_asked :: clock
  he_shared :: "hydro_key \<Rightarrow> hydro_collection option"
  he_during_read :: "hydro_state \<Rightarrow> hydro_state"
  he_bodies :: "raw_body ana_layer"
  he_rivers :: "raw_river ana_layer"
  he_meanwhile :: "hydro_state \<Rightarrow> hydro_state"

definition hydro_area :: "real \<Rightarrow> rect option \<Rightarrow> rect" where
  "hydro_area zoom bbox = (if zoom \<ge> 6 then (case bbox of Some b \<Rightarrow> b | None \<Rightarrow> BRAZIL_BBOX) else BRAZIL_BBOX)"

definition hydro_key_of :: "real \<Rightarrow> rect option \<Rightarrow> hydro_key" where
  "hydro_key_of zoom bbox = (fst (hydro_detail zoom), hydro_area zoom bbox)"

definition build_collection :: "hydro_feature list \<Rightarrow> hydro_feature list option \<Rightarrow> bool \<Rightarrow> rect \<Rightarrow> real \<Rightarrow> hydro_collection" where
  "build_collection rivers bodies partial area tolerance =
     (let visible = List.map_filter (\<lambda>r. visible_river r area tolerance) rivers;
          bodies1 = (case bodies of None \<Rightarrow> [] | Some bs \<Rightarrow> bs) in
      \<lparr>hc_river_count = length visible, hc_water_body_count = length bodies1, hc_partial = partial,
       hc_bbox = area, hc_features = visible @ bodies1\<rparr>)"

text \<open>
  The answer, what is written to the shared cache (with its time to live in seconds), and the state.
\<close>

definition get_hydrography ::
    "hydro_env \<Rightarrow> real \<Rightarrow> rect option \<Rightarrow> hydro_state
     \<Rightarrow> (hydro_collection \<times> (hydro_key \<times> hydro_collection \<times> int) list) \<times> hydro_state" where
  "get_hydrography n zoom bbox st =
     (case hydro_detail zoom of (drainage, _, tolerance) \<Rightarrow>
        let area = hydro_area zoom bbox; key = hydro_key_of zoom bbox;
            (cached, c1) = cache_get (he_clock n) key (hy_cache st) in
        case cached of
          Some r \<Rightarrow> ((r, []), st\<lparr>hy_cache := c1\<rparr>)
        | None \<Rightarrow>
            (let st1 = he_during_read n (st\<lparr>hy_cache := c1\<rparr>) in
             case he_shared n key of
               Some stored \<Rightarrow>
                 ((stored, []), st1\<lparr>hy_cache := cache_set (he_clock_asking n) key stored (Some 30) (hy_cache st1)\<rparr>)
             | None \<Rightarrow>
                 (let snapshot = filter (\<lambda>r. drainage_or_zero r \<ge> drainage) (hy_major st1);
                      ask = \<not> cooldown_active (he_clock_asking n) (hy_cooldown st1);
                      bodies = (if ask then or_none (fetch_water_bodies zoom (he_bodies n)) else None);
                      rivers = (if ask \<and> zoom \<ge> 6 then or_none (fetch_rivers (he_rivers n)) else Some snapshot);
                      partial = (bodies = None \<or> rivers = None);
                      st2 = (if ask then he_meanwhile n st1 else st1);
                      st3 = (if ask \<and> partial then st2\<lparr>hy_cooldown := cooldown_trip (he_clock_asked n) (hy_cooldown st2)\<rparr>
                             else st2);
                      result = build_collection (case rivers of None \<Rightarrow> snapshot | Some rs \<Rightarrow> rs) bodies partial area tolerance in
                  if partial
                  then ((result, []), st3\<lparr>hy_cache := cache_set (he_clock_asked n) key result (Some 60) (hy_cache st3)\<rparr>)
                  else ((result, [(key, result, 86400)]),
                        st3\<lparr>hy_cache := cache_set (he_clock_asked n) key result None (hy_cache st3)\<rparr>))))"

end
