(* ===== verification/Hydro_Laws.thy ===== *)
theory Hydro_Laws
  imports Hydrography
begin

text \<open>
  What the hydrography layer promises: one feature per river with all its segments, rivers drawn only
  inside the area asked, and an answer whatever the service does, never kept long when it is partial.
\<close>

section \<open>Consolidation\<close>

definition has_name :: "string \<Rightarrow> raw_river \<Rightarrow> bool" where
  "has_name name f \<longleftrightarrow> has_coordinates (rr_geometry f) \<and> river_name f = name"

definition raw_area :: "raw_river \<Rightarrow> real" where
  "raw_area f = (case rr_nuareamont f of None \<Rightarrow> 0 | Some a \<Rightarrow> a)"

definition group_of :: "string \<Rightarrow> raw_river list \<Rightarrow> river_group \<Rightarrow> bool" where
  "group_of name raw g \<longleftrightarrow> (let mine = filter (has_name name) raw in
     mine \<noteq> [] \<and> rg_segment_count g = int (length mine) \<and>
     rg_lines g = concat (List.map (river_lines \<circ> rr_geometry) mine) \<and>
     rg_max_area g = Max (raw_area ` set mine))"

lemma add_segment_fields:
  assumes "has_coordinates (rr_geometry f)" and "river_name f = name"
  shows "\<exists>g. add_segment f grouped = AList.update name g grouped \<and>
    (case map_of grouped name of
       None \<Rightarrow> rg_segment_count g = 1 \<and> rg_lines g = river_lines (rr_geometry f) \<and> rg_max_area g = raw_area f
     | Some g0 \<Rightarrow> rg_segment_count g = rg_segment_count g0 + 1 \<and>
         rg_lines g = rg_lines g0 @ river_lines (rr_geometry f) \<and> rg_max_area g = max (rg_max_area g0) (raw_area f))"
  using assms by (auto simp: add_segment_def Let_def raw_area_def max_def split: option.split)

lemma groups_inv:
  "distinct (List.map fst (fold add_segment raw [])) \<and>
   (\<forall>name. case map_of (fold add_segment raw []) name of
      None \<Rightarrow> filter (has_name name) raw = [] | Some g \<Rightarrow> group_of name raw g)"
proof (induction raw rule: rev_induct)
  case (snoc f raw)
  let ?d = "fold add_segment raw []"
  show ?case
  proof (cases "has_coordinates (rr_geometry f)")
    case False
    then have "add_segment f ?d = ?d" and "\<not> has_name name f" for name
      by (simp_all add: add_segment_def has_name_def)
    then have "fold add_segment (raw @ [f]) [] = ?d" "filter (has_name n) (raw @ [f]) = filter (has_name n) raw" for n
      by simp_all
    then show ?thesis using snoc.IH unfolding group_of_def by (simp only: simp_thms)
  next
    case True
    define me where "me = river_name f"
    obtain g where g: "add_segment f ?d = AList.update me g ?d"
      and fields: "case map_of ?d me of
         None \<Rightarrow> rg_segment_count g = 1 \<and> rg_lines g = river_lines (rr_geometry f) \<and> rg_max_area g = raw_area f
       | Some g0 \<Rightarrow> rg_segment_count g = rg_segment_count g0 + 1 \<and>
           rg_lines g = rg_lines g0 @ river_lines (rr_geometry f) \<and> rg_max_area g = max (rg_max_area g0) (raw_area f)"
      using add_segment_fields [OF True, of me ?d] by (auto simp: me_def)
    have name: "has_name n f \<longleftrightarrow> n = me" for n using True by (auto simp: has_name_def me_def)
    have mine: "group_of me (raw @ [f]) g"
    proof (cases "map_of ?d me")
      case None
      then have "filter (has_name me) raw = []" using snoc.IH by (metis (mono_tags, lifting) option.simps(4))
      then show ?thesis using fields None by (simp add: group_of_def name)
    next
      case (Some g0)
      then have g0: "group_of me raw g0" using snoc.IH by (metis (mono_tags, lifting) option.simps(5))
      then have "Max (raw_area ` set (filter (has_name me) (raw @ [f]))) = max (rg_max_area g0) (raw_area f)"
      proof -
        have "raw_area ` set (filter (has_name me) raw) \<noteq> {}" using g0 by (auto simp: group_of_def Let_def filter_empty_conv)
        from Max_insert [OF _ this, of "raw_area f"]
        have "Max (insert (raw_area f) (raw_area ` set (filter (has_name me) raw))) = max (raw_area f) (rg_max_area g0)"
          using g0 by (simp add: group_of_def Let_def)
        moreover have "raw_area ` set (filter (has_name me) (raw @ [f])) = insert (raw_area f) (raw_area ` set (filter (has_name me) raw))"
          by (simp add: name)
        ultimately show ?thesis by (simp only: max.commute)
      qed
      then show ?thesis using fields Some g0 by (simp add: group_of_def Let_def name)
    qed
    have "distinct (List.map fst (AList.update me g ?d))" using snoc.IH by (simp add: distinct_update)
    moreover have "case map_of (AList.update me g ?d) n of
        None \<Rightarrow> filter (has_name n) (raw @ [f]) = [] | Some g \<Rightarrow> group_of n (raw @ [f]) g" for n
    proof (cases "n = me")
      case True
      then show ?thesis using mine by (simp add: update_conv')
    next
      case False
      have same: "filter (has_name n) (raw @ [f]) = filter (has_name n) raw" using False by (simp add: name)
      have "case map_of ?d n of None \<Rightarrow> filter (has_name n) raw = [] | Some g \<Rightarrow> group_of n raw g" using snoc.IH by blast
      moreover have "map_of (AList.update me g ?d) n = map_of ?d n" using False by (simp add: update_conv')
      ultimately show ?thesis unfolding group_of_def same by (simp only:)
    qed
    ultimately show ?thesis by (simp add: g)
  qed
qed simp

text \<open>
  Property C22. Consolidation makes one feature per river name, in decreasing order of drainage area: each
  has exactly the segments of the stretches with that name, counts those stretches, and carries the
  largest of their drainage areas (rounded to one decimal); no stretch with coordinates is left out.
\<close>

theorem consolidate_one_feature_per_river:
  "distinct (List.map hf_name (consolidate_river_segments raw)) \<and>
   sorted (List.map (\<lambda>f. - drainage_or_zero f) (consolidate_river_segments raw)) \<and>
   (\<forall>r \<in> set raw. \<not> has_coordinates (rr_geometry r) \<or>
      Some (river_name r) \<in> hf_name ` set (consolidate_river_segments raw)) \<and>
   (\<forall>f \<in> set (consolidate_river_segments raw). \<exists>name ls mine.
      mine = filter (\<lambda>r. has_coordinates (rr_geometry r) \<and> river_name r = name) raw \<and> mine \<noteq> [] \<and>
      hf_name f = Some name \<and> hf_geometry f = MultiLineString ls \<and>
      segments ls = segments (concat (List.map (river_lines \<circ> rr_geometry) mine)) \<and>
      hf_segment_count f = Some (int (length mine)) \<and>
      hf_drainage_area_km2 f = Some (round_places 1 (Max (raw_area ` set mine))))"
proof -
  let ?d = "fold add_segment raw []"
  have d: "distinct (List.map fst ?d)"
    and lookup: "\<And>name. case map_of ?d name of None \<Rightarrow> filter (has_name name) raw = [] | Some g \<Rightarrow> group_of name raw g"
    using groups_inv [of raw] by blast+
  have eq: "List.map hf_name (List.map river_feature ?d) = List.map Some (List.map fst ?d)"
    by (simp add: river_feature_def split_beta comp_def)
  have "distinct (List.map hf_name (List.map river_feature ?d))"
    unfolding eq using d by (simp add: distinct_map del: map_map)
  then have 1: "distinct (List.map hf_name (consolidate_river_segments raw))"
    unfolding consolidate_river_segments_def distinct_map [of hf_name] distinct_sort set_sort .
  have set: "set (consolidate_river_segments raw) = river_feature ` set ?d"
    by (simp add: consolidate_river_segments_def)
  have 3: "Some (river_name r) \<in> hf_name ` set (consolidate_river_segments raw)"
    if r: "r \<in> set raw" "has_coordinates (rr_geometry r)" for r
  proof -
    have "filter (has_name (river_name r)) raw \<noteq> []" using r by (auto simp: filter_empty_conv has_name_def)
    then obtain g where "map_of ?d (river_name r) = Some g"
      using lookup [of "river_name r"] by (cases "map_of ?d (river_name r)") auto
    then have "river_feature (river_name r, g) \<in> set (consolidate_river_segments raw)"
      unfolding set by (auto dest: map_of_SomeD)
    moreover have "hf_name (river_feature (river_name r, g)) = Some (river_name r)" by (simp add: river_feature_def)
    ultimately show ?thesis by (metis image_eqI)
  qed
  have 4: "\<exists>name ls mine.
      mine = filter (\<lambda>r. has_coordinates (rr_geometry r) \<and> river_name r = name) raw \<and> mine \<noteq> [] \<and>
      hf_name f = Some name \<and> hf_geometry f = MultiLineString ls \<and>
      segments ls = segments (concat (List.map (river_lines \<circ> rr_geometry) mine)) \<and>
      hf_segment_count f = Some (int (length mine)) \<and>
      hf_drainage_area_km2 f = Some (round_places 1 (Max (raw_area ` set mine)))"
    if f: "f \<in> set (consolidate_river_segments raw)" for f
  proof -
    obtain name g where ng: "(name, g) \<in> set ?d" "f = river_feature (name, g)" using f unfolding set by auto
    then have "group_of name raw g" using lookup [of name] d by (simp add: map_of_is_SomeI)
    then show ?thesis
      using merge_lines_segments [of "rg_lines g"]
      by (intro exI [of _ name] exI [of _ "merge_lines (rg_lines g)"]
          exI [of _ "filter (\<lambda>r. has_coordinates (rr_geometry r) \<and> river_name r = name) raw"])
        (simp add: ng(2) river_feature_def group_of_def Let_def has_name_def [abs_def])
  qed
  have 2: "sorted (List.map (\<lambda>f. - drainage_or_zero f) (consolidate_river_segments raw))"
    by (simp add: consolidate_river_segments_def)
  show ?thesis using 1 2 3 4 by blast
qed

theorem consolidate_one_feature_per_river_witness:
  "\<exists>r. rr_noriocomp r = Some ''Rio Doce'' \<and> Some ''Rio Doce'' \<in> hf_name ` set (consolidate_river_segments [r])"
proof -
  define r where "r = \<lparr>rr_geometry = Some (RiverLine [(0, 0), (1, 1)]), rr_noriocomp = Some ''Rio Doce'',
    rr_nuareamont = Some 83000, rr_dedominial = None, rr_orgao_gest = None\<rparr>"
  have "river_name r = ''Rio Doce''" by (simp add: r_def river_name_def, code_simp)
  moreover have "has_coordinates (rr_geometry r)" by (simp add: r_def)
  ultimately have "Some ''Rio Doce'' \<in> hf_name ` set (consolidate_river_segments [r])"
    using consolidate_one_feature_per_river [of "[r]", THEN conjunct2, THEN conjunct2, THEN conjunct1] by auto
  then show ?thesis by (intro exI [of _ r]) (simp add: r_def)
qed

section \<open>The response\<close>

lemma visible_river_inside:
  assumes "visible_river f area tolerance = Some r"
  shows "\<exists>ls. hf_geometry r = MultiLineString ls \<and> (\<forall>l \<in> set ls. \<forall>p. on_line l p \<longrightarrow> inside area p)"
proof -
  define lines where "lines = (case hf_geometry f of MultiLineString ls \<Rightarrow> ls | LineString l \<Rightarrow> [l] | _ \<Rightarrow> [])"
  define ls where "ls = concat (List.map (\<lambda>l. clip_line (simplify_line l tolerance) area) lines)"
  have "hf_geometry r = MultiLineString ls"
    using assms by (auto simp: visible_river_def lines_def [symmetric] ls_def Let_def split: if_splits)
  moreover have "inside area p" if l: "l \<in> set ls" "on_line l p" for l p
  proof -
    obtain k where "l \<in> set (clip_line (simplify_line k tolerance) area)" using l(1) by (auto simp: ls_def)
    then show ?thesis using clip_line_iff [of "simplify_line k tolerance" area p] l(2) by blast
  qed
  ultimately show ?thesis by blast
qed

lemma build_collection_rivers:
  assumes "f \<in> set (take (hc_river_count c) (hc_features c))" and "c = build_collection rivers bodies partial area tolerance"
  shows "\<exists>ls. hf_geometry f = MultiLineString ls \<and> (\<forall>l \<in> set ls. \<forall>p. on_line l p \<longrightarrow> inside area p)"
proof -
  have "f \<in> set (List.map_filter (\<lambda>r. visible_river r area tolerance) rivers)"
    using assms by (simp add: build_collection_def Let_def)
  then obtain r where "visible_river r area tolerance = Some f" by (auto simp: map_filter_def)
  then show ?thesis by (rule visible_river_inside)
qed

lemma or_none_None: "or_none r = None \<longleftrightarrow> r = Inl ()"
  by (cases r) (auto simp: or_none_def split: unit.split)

definition hydro_ok :: "hydro_state \<Rightarrow> bool" where
  "hydro_ok st \<longleftrightarrow> cache_wf (hy_cache st) \<and> cache_enabled (hy_cache st) \<and> tc_ttl (hy_cache st) = 86400"

lemma cache_get_None_then_set:
  assumes "cache_wf c" and "cache_enabled c" and "0 < t" and "now + of_int t < later"
  shows "fst (cache_get later k (cache_set now k v (Some t) c)) = None"
  using cache_get_after_set [OF assms(1,2), of "Some t" later k now v] assms(3,4) by simp


text \<open>The service is down, nothing is cached and there is no snapshot.\<close>

definition down_env :: hydro_env where
  "down_env = \<lparr>he_clock = 1, he_clock_asking = 2, he_clock_asked = 3, he_shared = (\<lambda>k. None), he_during_read = id,
     he_bodies = \<lparr>al_ids = Inl (), al_batch = (\<lambda>b. Inl ())\<rparr>, he_rivers = \<lparr>al_ids = Inl (), al_batch = (\<lambda>b. Inl ())\<rparr>,
     he_meanwhile = id\<rparr>"


end
