(* ===== verification/Classification.thy ===== *)
theory Classification
  imports Prelude
begin

text \<open>
  \<open>app/services/classification.py\<close>: statistics of the values of an indicator, quantile classes and the
  class of a value. \<open>Decimal\<close> values are exact \<open>rat\<close> numbers (the context precision of 28 digits is
  never reached by \<open>Numeric(24, 6)\<close> columns); \<open>Decimal(str(fraction))\<close> of a tenth is that tenth.
\<close>

definition DEFAULT_CLASS_COUNT :: nat where "DEFAULT_CLASS_COUNT = 10"

definition quantize :: "rat \<Rightarrow> rat" where
  "quantize v = round_places 6 v"

record value_statistics =
  st_min :: rat
  st_max :: rat
  st_mean :: rat
  st_median :: rat
  st_count :: nat
  st_missing :: nat

record value_classes =
  cl_classes :: nat
  cl_breaks :: "rat list"

record value_distribution =
  vd_statistics :: "value_statistics option"
  vd_classification :: "value_classes option"

definition normalize_value :: "value_distribution \<Rightarrow> rat option \<Rightarrow> rat option" where
  "normalize_value d value =
     (case (value, vd_statistics d) of
        (Some v, Some s) \<Rightarrow>
          (let spread = st_max s - st_min s in
           if spread = 0 then Some 0 else Some (round_places 6 ((v - st_min s) / spread)))
      | _ \<Rightarrow> None)"

text \<open>\<open>bisect.bisect_left\<close>: the loop between \<open>lo\<close> and \<open>hi\<close>.\<close>

function bisect_loop :: "rat list \<Rightarrow> rat \<Rightarrow> nat \<Rightarrow> nat \<Rightarrow> nat" where
  "bisect_loop xs x lo hi =
     (if lo < hi
      then let mid = (lo + hi) div 2 in
        if xs ! mid < x then bisect_loop xs x (mid + 1) hi else bisect_loop xs x lo mid
      else lo)"
  by pat_completeness auto

termination
  by (relation "measure (\<lambda>(xs, x, lo, hi). hi - lo)") auto

declare bisect_loop.simps [simp del]

definition bisect_left :: "rat list \<Rightarrow> rat \<Rightarrow> nat" where
  "bisect_left xs x = bisect_loop xs x 0 (length xs)"

definition class_index :: "value_distribution \<Rightarrow> rat option \<Rightarrow> nat option" where
  "class_index d value =
     (case (value, vd_classification d) of
        (Some v, Some c) \<Rightarrow> Some (min (bisect_left (cl_breaks c) v) (length (cl_breaks c) - 1))
      | _ \<Rightarrow> None)"

text \<open>\<open>Inl ()\<close>: the \<open>ValueError\<close> of an empty sequence.\<close>

definition percentile :: "rat list \<Rightarrow> rat \<Rightarrow> unit + rat" where
  "percentile xs fraction =
     (case xs of
        [] \<Rightarrow> Inl ()
      | [x] \<Rightarrow> Inr x
      | _ \<Rightarrow>
          (let position = fraction * of_nat (length xs - 1);
               lower = nat \<lfloor>position\<rfloor>;
               upper = min (lower + 1) (length xs - 1);
               weight = position - of_nat lower in
           Inr (xs ! lower + (xs ! upper - xs ! lower) * weight)))"

definition quantized_percentile :: "rat list \<Rightarrow> rat \<Rightarrow> rat" where
  "quantized_percentile xs fraction = (case percentile xs fraction of Inl _ \<Rightarrow> 0 | Inr v \<Rightarrow> quantize v)"

text \<open>\<open>present\<close> is not empty where \<open>describe\<close> takes percentiles, so none of them raises.\<close>

definition class_breaks :: "rat list \<Rightarrow> nat \<Rightarrow> rat list" where
  "class_breaks present classes =
     (let requested = max 1 classes in
      List.map (\<lambda>i. quantized_percentile present (of_nat (i + 1) / of_nat requested)) [0..<requested])"

definition describe :: "rat option list \<Rightarrow> nat \<Rightarrow> value_distribution" where
  "describe values classes =
     (let present = sort (List.map_filter id values);
          missing = length values - length present in
      if present = [] then \<lparr>vd_statistics = None, vd_classification = None\<rparr>
      else
        let statistics = \<lparr>st_min = quantize (hd present), st_max = quantize (last present),
              st_mean = quantize (sum_list present / of_nat (length present)),
              st_median = quantized_percentile present (1 / 2),
              st_count = length present, st_missing = missing\<rparr>;
            breaks = class_breaks present classes;
            breaks1 = butlast breaks @ [st_max statistics] in
        \<lparr>vd_statistics = Some statistics,
         vd_classification = Some \<lparr>cl_classes = length breaks1, cl_breaks = breaks1\<rparr>\<rparr>)"

section \<open>Bisection finds the place\<close>

lemma bisect_loop_place:
  assumes "sorted xs" and "lo \<le> hi" and "hi \<le> length xs" and "\<forall>i < lo. xs ! i < x" and "\<forall>i. hi \<le> i \<and> i < length xs \<longrightarrow> x \<le> xs ! i"
  shows "bisect_loop xs x lo hi \<le> length xs \<and> (\<forall>i < bisect_loop xs x lo hi. xs ! i < x) \<and>
    (\<forall>i. bisect_loop xs x lo hi \<le> i \<and> i < length xs \<longrightarrow> x \<le> xs ! i)"
  using assms
proof (induction xs x lo hi rule: bisect_loop.induct)
  case (1 xs x lo hi)
  show ?case
  proof (cases "lo < hi")
    case False
    then have "lo = hi" using 1(4) by simp
    then show ?thesis using 1(5-7) by (simp add: bisect_loop.simps)
  next
    case True
    define mid where "mid = (lo + hi) div 2"
    have mid: "lo \<le> mid" "mid < hi" using True by (auto simp: mid_def)
    show ?thesis
    proof (cases "xs ! mid < x")
      case less: True
      have "xs ! i < x" if "i < mid + 1" for i
        using sorted_nth_mono [OF 1(3), of i mid] that mid 1(5) less by (simp add: order_le_less_trans)
      then have "\<forall>i < mid + 1. xs ! i < x" by blast
      moreover have "mid + 1 \<le> hi" using mid by simp
      moreover have "bisect_loop xs x lo hi = bisect_loop xs x (mid + 1) hi"
        by (subst bisect_loop.simps) (simp only: True if_True mid_def [symmetric] Let_def less)
      ultimately show ?thesis using 1(1) [OF True mid_def less 1(3) _ 1(5) _ 1(7)] by simp
    next
      case ge: False
      have "x \<le> xs ! i" if "mid \<le> i" "i < length xs" for i
        using sorted_nth_mono [OF 1(3) that] ge by simp
      then have "\<forall>i. mid \<le> i \<and> i < length xs \<longrightarrow> x \<le> xs ! i" by blast
      moreover have "mid \<le> length xs" using mid 1(5) by simp
      moreover have "bisect_loop xs x lo hi = bisect_loop xs x lo mid"
        by (subst bisect_loop.simps) (simp only: True if_True mid_def [symmetric] Let_def ge if_False)
      ultimately show ?thesis using 1(2) [OF True mid_def ge 1(3) mid(1) _ 1(6)] by simp
    qed
  qed
qed

lemma bisect_left_place:
  assumes "sorted xs"
  shows "bisect_left xs x \<le> length xs \<and> (\<forall>i < bisect_left xs x. xs ! i < x) \<and>
    (\<forall>i. bisect_left xs x \<le> i \<and> i < length xs \<longrightarrow> x \<le> xs ! i)"
  unfolding bisect_left_def by (rule bisect_loop_place [OF assms]) auto

text \<open>
  On sorted breaks, the binary search agrees with a scan: the place of a value is the number
  of breaks below it.
\<close>

lemma bisect_left_counts: "sorted xs \<Longrightarrow> bisect_left xs x = length (filter (\<lambda>y. y < x) xs)"
proof -
  assume s: "sorted xs"
  let ?k = "bisect_left xs x"
  note p = bisect_left_place [OF s, of x]
  have "filter (\<lambda>y. y < x) (take ?k xs @ drop ?k xs) = take ?k xs"
  proof -
    have "\<forall>y \<in> set (take ?k xs). y < x" using p by (auto simp: in_set_conv_nth)
    moreover have "\<forall>y \<in> set (drop ?k xs). \<not> y < x"
    proof
      fix y assume "y \<in> set (drop ?k xs)"
      then obtain j where "j < length xs - ?k" "y = xs ! (?k + j)" by (auto simp: in_set_conv_nth)
      then show "\<not> y < x" using p by (simp add: not_less)
    qed
    ultimately show ?thesis by (simp add: filter_True filter_False del: append_take_drop_id)
  qed
  then show "?k = length (filter (\<lambda>y. y < x) xs)" using p by simp
qed

section \<open>Percentiles\<close>


lemma quantize_mono: "x \<le> y \<Longrightarrow> quantize x \<le> quantize y"
  unfolding quantize_def by (rule round_places_mono)

lemma interpolate_mono:
  fixes xs :: "rat list"
  assumes "sorted xs" and "xs \<noteq> []" and "0 \<le> p" and "p \<le> q" and "q \<le> of_nat (length xs - 1)"
  defines "at_pos \<equiv> \<lambda>p. xs ! nat \<lfloor>p\<rfloor> + (xs ! min (nat \<lfloor>p\<rfloor> + 1) (length xs - 1) - xs ! nat \<lfloor>p\<rfloor>) * (p - of_nat (nat \<lfloor>p\<rfloor>))"
  shows "at_pos p \<le> at_pos q"
proof -
  have floor_len: "nat \<lfloor>r\<rfloor> \<le> length xs - 1" if "0 \<le> r" "r \<le> q" for r
  proof -
    have "\<lfloor>r\<rfloor> \<le> int (length xs - 1)" using that assms(5) by (metis floor_mono floor_of_nat order_trans)
    then show ?thesis by linarith
  qed
  have bounds: "xs ! nat \<lfloor>r\<rfloor> \<le> at_pos r \<and> at_pos r \<le> xs ! min (nat \<lfloor>r\<rfloor> + 1) (length xs - 1)"
    if "0 \<le> r" "r \<le> q" for r
  proof -
    let ?l = "nat \<lfloor>r\<rfloor>" and ?u = "min (nat \<lfloor>r\<rfloor> + 1) (length xs - 1)"
    have "?l \<le> ?u" "?u < length xs" using floor_len [OF that] assms(2) by (auto simp: min_def)
    then have d: "xs ! ?l \<le> xs ! ?u" using sorted_nth_mono [OF assms(1)] by blast
    have "of_nat ?l \<le> r" "r < of_nat ?l + 1" using that(1) by (auto simp: of_nat_nat floor_less_iff) linarith+
    then have w: "0 \<le> r - of_nat ?l" "r - of_nat ?l \<le> 1" by linarith+
    have le: "x \<le> x + (y - x) * v \<and> x + (y - x) * v \<le> y" if "x \<le> y" "0 \<le> v" "v \<le> 1" for x y v :: rat
    proof -
      have "0 \<le> (y - x) * v" using that by simp
      moreover have "(y - x) * v \<le> (y - x) * 1" using that by (intro mult_left_mono) auto
      then have "x + (y - x) * v \<le> x + (y - x)" unfolding mult_1_right by (rule add_left_mono)
      ultimately show ?thesis by simp
    qed
    show ?thesis unfolding at_pos_def by (rule le [OF d w])
  qed
  show ?thesis
  proof (cases "nat \<lfloor>p\<rfloor> = nat \<lfloor>q\<rfloor>")
    case True
    let ?l = "nat \<lfloor>q\<rfloor>" and ?u = "min (nat \<lfloor>q\<rfloor> + 1) (length xs - 1)"
    have "?l \<le> ?u" "?u < length xs" using floor_len [of q] assms by (auto simp: min_def)
    then have "xs ! ?l \<le> xs ! ?u" using sorted_nth_mono [OF assms(1)] by blast
    then have "(xs ! ?u - xs ! ?l) * (p - of_nat ?l) \<le> (xs ! ?u - xs ! ?l) * (q - of_nat ?l)"
      using assms(4) by (intro mult_left_mono) auto
    then show ?thesis unfolding at_pos_def True by simp
  next
    case False
    then have "nat \<lfloor>p\<rfloor> + 1 \<le> nat \<lfloor>q\<rfloor>" using floor_mono [OF assms(4)] by linarith
    then have "xs ! min (nat \<lfloor>p\<rfloor> + 1) (length xs - 1) \<le> xs ! nat \<lfloor>q\<rfloor>"
      using floor_len [of q] assms by (intro sorted_nth_mono [OF assms(1)]) (auto simp: min_def)
    then show ?thesis using bounds [of p] bounds [of q] assms by linarith
  qed
qed

definition fraction_value :: "rat list \<Rightarrow> rat \<Rightarrow> rat" where
  "fraction_value xs f = (let p = f * of_nat (length xs - 1) in
     xs ! nat \<lfloor>p\<rfloor> + (xs ! min (nat \<lfloor>p\<rfloor> + 1) (length xs - 1) - xs ! nat \<lfloor>p\<rfloor>) * (p - of_nat (nat \<lfloor>p\<rfloor>)))"

lemma percentile_value: "xs \<noteq> [] \<Longrightarrow> percentile xs f = Inr (fraction_value xs f)"
  by (cases xs rule: remdups_adj.cases) (auto simp: percentile_def fraction_value_def Let_def)

lemma fraction_value_mono:
  assumes "sorted xs" and "xs \<noteq> []" and "0 \<le> f" and "f \<le> g" and "g \<le> 1"
  shows "fraction_value xs f \<le> fraction_value xs g"
proof -
  let ?n = "of_nat (length xs - 1) :: rat"
  have "0 \<le> f * ?n" "f * ?n \<le> g * ?n" using assms(3,4) by (simp_all add: mult_right_mono)
  moreover have "g * ?n \<le> 1 * ?n" using assms(5) by (intro mult_right_mono) auto
  ultimately show ?thesis
    using interpolate_mono [OF assms(1,2), of "f * ?n" "g * ?n"] by (simp add: fraction_value_def Let_def)
qed

lemma fraction_value_ends:
  assumes "xs \<noteq> []"
  shows "fraction_value xs 0 = hd xs" and "fraction_value xs 1 = last xs"
  using assms by (simp_all add: fraction_value_def hd_conv_nth last_conv_nth Let_def)

lemma fraction_value_range:
  assumes "sorted xs" and "xs \<noteq> []" and "0 \<le> f" and "f \<le> 1"
  shows "hd xs \<le> fraction_value xs f \<and> fraction_value xs f \<le> last xs"
  using fraction_value_mono [OF assms(1,2), of 0 f] fraction_value_mono [OF assms(1,2), of f 1]
    fraction_value_ends [OF assms(2)] assms(3,4) by simp

definition all_breaks :: "rat list \<Rightarrow> nat \<Rightarrow> rat list" where
  "all_breaks present classes = butlast (class_breaks present classes) @ [quantize (last present)]"

lemma all_breaks_eq:
  assumes "present \<noteq> []"
  shows "all_breaks present classes =
    List.map (\<lambda>i. quantize (fraction_value present (of_nat (i + 1) / of_nat (max 1 classes)))) [0..<max 1 classes]"
proof -
  let ?n = "max 1 classes"
  let ?q = "\<lambda>i. quantize (fraction_value present (of_nat (i + 1) / of_nat ?n))"
  have n: "[0..<?n] = [0..<?n - 1] @ [?n - 1]" by (cases ?n) auto
  have "class_breaks present classes = List.map ?q [0..<?n]"
    using percentile_value [OF assms] by (simp add: class_breaks_def quantized_percentile_def Let_def)
  then have b: "butlast (class_breaks present classes) = List.map ?q [0..<?n - 1]" unfolding n by simp
  have "(of_nat (?n - 1 + 1) / of_nat ?n :: rat) = 1" by simp
  then have "?q (?n - 1) = quantize (last present)" using fraction_value_ends(2) [OF assms] by simp
  then have "List.map ?q [0..<?n] = List.map ?q [0..<?n - 1] @ [quantize (last present)]" unfolding n by simp
  then show ?thesis using b by (simp add: all_breaks_def)
qed

lemma all_breaks_sorted:
  assumes "sorted present" and "present \<noteq> []"
  shows "sorted (all_breaks present classes)"
proof -
  let ?n = "max 1 classes"
  have mono: "quantize (fraction_value present (of_nat (i + 1) / of_nat ?n)) \<le> quantize (fraction_value present (of_nat (j + 1) / of_nat ?n))"
    if "i \<le> j" "j < ?n" for i j
  proof -
    have "(of_nat (i + 1) / of_nat ?n :: rat) \<le> of_nat (j + 1) / of_nat ?n" using that by (intro divide_right_mono) auto
    moreover have "(of_nat (j + 1) / of_nat ?n :: rat) \<le> 1" using that by (simp add: divide_le_eq)
    ultimately show ?thesis by (intro quantize_mono fraction_value_mono [OF assms]) auto
  qed
  show ?thesis unfolding all_breaks_eq [OF assms(2)] sorted_iff_nth_mono using mono by auto
qed

lemma describe_some:
  assumes "sort (List.map_filter id values) = present" and "present \<noteq> []"
  shows "describe values classes =
    \<lparr>vd_statistics = Some \<lparr>st_min = quantize (hd present), st_max = quantize (last present),
       st_mean = quantize (sum_list present / of_nat (length present)),
       st_median = quantize (fraction_value present (1 / 2)), st_count = length present,
       st_missing = length values - length present\<rparr>,
     vd_classification = Some \<lparr>cl_classes = max 1 classes, cl_breaks = all_breaks present classes\<rparr>\<rparr>"
proof -
  have "length (all_breaks present classes) = max 1 classes" by (simp add: all_breaks_eq [OF assms(2)])
  then show ?thesis using percentile_value [OF assms(2)] assms
    by (simp add: describe_def Let_def quantized_percentile_def all_breaks_def)
qed

section \<open>What a description promises\<close>

text \<open>The column type keeps six decimals, so quantizing a stored value changes nothing.\<close>

definition six_decimals :: "rat option list \<Rightarrow> bool" where
  "six_decimals values \<longleftrightarrow> (\<forall>v. Some v \<in> set values \<longrightarrow> quantize v = v)"

lemma present_values: "set (List.map_filter id values) = {v. Some v \<in> set values}"
  by (force simp: map_filter_def)

text \<open>
  Property C24. Every value described falls in one of the classes, the one whose break is the first not
  below it; a larger value never falls in a lower class; the breaks are in increasing order and the last is
  the maximum.
\<close>

theorem classes_cover_values:
  assumes "Some v \<in> set values" and "six_decimals values"
  shows "\<exists>c k. vd_classification (describe values classes) = Some c \<and>
    sorted (cl_breaks c) \<and> length (cl_breaks c) = max 1 classes \<and> last (cl_breaks c) = Max {w. Some w \<in> set values} \<and>
    class_index (describe values classes) (Some v) = Some k \<and> k < max 1 classes \<and>
    v \<le> cl_breaks c ! k \<and> (\<forall>i < k. cl_breaks c ! i < v) \<and>
    (\<forall>w. v \<le> w \<longrightarrow> (\<exists>j \<ge> k. class_index (describe values classes) (Some w) = Some j))"
proof -
  define present where "present = sort (List.map_filter id values)"
  have mem: "v \<in> set present" using assms(1) by (simp add: present_def present_values)
  then have ne: "present \<noteq> []" by auto
  have sorted: "sorted present" by (simp add: present_def)
  define bs where "bs = all_breaks present classes"
  have len: "length bs = max 1 classes" by (simp add: bs_def all_breaks_eq [OF ne])
  have sb: "sorted bs" unfolding bs_def by (rule all_breaks_sorted [OF sorted ne])
  have d: "vd_classification (describe values classes) = Some \<lparr>cl_classes = max 1 classes, cl_breaks = bs\<rparr>"
    using describe_some [OF _ ne, of "values" classes] by (simp add: present_def bs_def)
  have "last present \<in> {w. Some w \<in> set values}"
    using last_in_set [OF ne] present_values [of "values"] by (simp add: present_def)
  then have "quantize (last present) = last present" using assms(2) by (simp add: six_decimals_def)
  then have last: "last bs = last present" by (simp add: bs_def all_breaks_def)
  have "last present = Max (set present)"
    using last_in_set [OF ne] sorted_le_last [OF sorted] by (intro Max_eqI [symmetric]) auto
  then have top: "last present = Max {w. Some w \<in> set values}" by (simp add: present_def present_values)
  have index: "class_index (describe values classes) (Some w) = Some (min (bisect_left bs w) (length bs - 1))" for w
    by (simp add: class_index_def d)
  define k where "k = bisect_left bs v"
  note place = bisect_left_place [OF sb]
  have "v \<le> last bs" unfolding last using sorted mem by (rule sorted_le_last)
  moreover have "bs \<noteq> []" using len by auto
  ultimately have "k \<noteq> length bs" using place [of v] unfolding k_def by (metis One_nat_def diff_less last_conv_nth length_greater_0_conv lessI not_le)
  then have k: "k < length bs" using place [of v] by (simp add: k_def)
  have "\<exists>j \<ge> k. class_index (describe values classes) (Some w) = Some j" if "v \<le> w" for w
  proof -
    have "k \<le> bisect_left bs w"
    proof (rule ccontr)
      assume "\<not> k \<le> bisect_left bs w"
      then have "bisect_left bs w < k" by simp
      then have "w \<le> bs ! bisect_left bs w" "bs ! bisect_left bs w < v" using place k unfolding k_def by simp_all
      then show False using that by simp
    qed
    then show ?thesis using k by (auto simp: index)
  qed
  moreover have "v \<le> bs ! k" "\<forall>i < k. bs ! i < v" using place [of v] k unfolding k_def by auto
  moreover have "min (bisect_left bs v) (length bs - 1) = k" using k unfolding k_def by simp
  ultimately show ?thesis using sb len last top k
    by (intro exI [of _ "\<lparr>cl_classes = max 1 classes, cl_breaks = bs\<rparr>"] exI [of _ k]) (simp add: d index)
qed

lemma mean_within:
  fixes xs :: "rat list"
  assumes "xs \<noteq> []" and "\<forall>x \<in> set xs. lo \<le> x \<and> x \<le> hi"
  shows "lo \<le> sum_list xs / of_nat (length xs) \<and> sum_list xs / of_nat (length xs) \<le> hi"
proof -
  have "lo * of_nat (length xs) \<le> sum_list xs \<and> sum_list xs \<le> hi * of_nat (length xs)"
    using assms(2) by (induction xs) (auto simp: algebra_simps intro: add_mono)
  moreover have "0 < (of_nat (length xs) :: rat)" using assms(1) by simp
  ultimately show ?thesis by (simp add: le_divide_eq divide_le_eq)
qed

text \<open>
  The statistics of the values present: the minimum and maximum are attained, the mean and the
  median lie between them, present and missing values add up; and normalising a value gives a number
  between 0 and 1, which is 0 for the minimum and, unless all values are equal, 1 for the maximum.
\<close>

theorem statistics_in_range:
  assumes "Some v \<in> set values" and "six_decimals values"
  shows "\<exists>s. vd_statistics (describe values classes) = Some s \<and>
    st_min s = Min {w. Some w \<in> set values} \<and> st_max s = Max {w. Some w \<in> set values} \<and>
    st_min s \<le> st_mean s \<and> st_mean s \<le> st_max s \<and> st_min s \<le> st_median s \<and> st_median s \<le> st_max s \<and>
    st_count s = length (filter (\<lambda>x. x \<noteq> None) values) \<and> st_count s + st_missing s = length values \<and>
    (\<exists>x. normalize_value (describe values classes) (Some v) = Some x \<and> 0 \<le> x \<and> x \<le> 1) \<and>
    normalize_value (describe values classes) (Some (st_min s)) = Some 0 \<and>
    (st_min s < st_max s \<longrightarrow> normalize_value (describe values classes) (Some (st_max s)) = Some 1)"
proof -
  define present where "present = sort (List.map_filter id values)"
  have set: "set present = {w. Some w \<in> set values}" by (simp add: present_def present_values)
  have mem: "v \<in> set present" using assms(1) by (simp add: set)
  then have ne: "present \<noteq> []" by auto
  have sorted: "sorted present" by (simp add: present_def)
  have q: "quantize w = w" if "w \<in> set present" for w using that assms(2) by (simp add: six_decimals_def set)
  have ends: "hd present \<in> set present" "last present \<in> set present" using ne by simp_all
  have range: "hd present \<le> w \<and> w \<le> last present" if "w \<in> set present" for w
    using that sorted sorted_le_last [OF sorted that] by (cases present) auto
  define s where "s = \<lparr>st_min = hd present, st_max = last present,
       st_mean = quantize (sum_list present / of_nat (length present)),
       st_median = quantize (fraction_value present (1 / 2)), st_count = length present,
       st_missing = length values - length present\<rparr>"
  have d: "vd_statistics (describe values classes) = Some s"
    using describe_some [OF _ ne, of "values" classes] q [OF ends(1)] q [OF ends(2)] by (simp add: present_def s_def)
  have mm: "st_min s = Min {w. Some w \<in> set values}" "st_max s = Max {w. Some w \<in> set values}"
    using ends range unfolding set [symmetric] by (auto simp: s_def intro!: Min_eqI [symmetric] Max_eqI [symmetric])
  have mean: "st_min s \<le> st_mean s \<and> st_mean s \<le> st_max s"
    using mean_within [OF ne, of "hd present" "last present"] range q [OF ends(1)] q [OF ends(2)]
      quantize_mono [of "hd present" "sum_list present / of_nat (length present)"]
      quantize_mono [of "sum_list present / of_nat (length present)" "last present"] by (simp add: s_def)
  have median: "st_min s \<le> st_median s \<and> st_median s \<le> st_max s"
    using fraction_value_range [OF sorted ne, of "1 / 2"] q [OF ends(1)] q [OF ends(2)]
      quantize_mono [of "hd present" "fraction_value present (1 / 2)"]
      quantize_mono [of "fraction_value present (1 / 2)" "last present"] by (simp add: s_def)
  have len: "length present = length (filter (\<lambda>x. x \<noteq> None) values)"
    unfolding present_def length_sort map_filter_def by simp
  have count: "st_count s = length (filter (\<lambda>x. x \<noteq> None) values) \<and> st_count s + st_missing s = length values"
    using len length_filter_le [of "\<lambda>x. x \<noteq> None" "values"] by (simp add: s_def)
  have norm: "normalize_value (describe values classes) (Some w) =
      (if last present = hd present then Some 0
       else Some (round_places 6 ((w - hd present) / (last present - hd present))))" for w
    by (simp add: normalize_value_def d s_def Let_def)
  have r01: "round_places 6 (0 :: rat) = 0" "round_places 6 (1 :: rat) = 1"
    using round_half_even_of_int [of 0, where 'a = rat] round_half_even_of_int [of 1000000, where 'a = rat]
    by (simp_all add: round_places_def)
  have "\<exists>x. normalize_value (describe values classes) (Some v) = Some x \<and> 0 \<le> x \<and> x \<le> 1"
  proof (cases "last present = hd present")
    case False
    then have "hd present < last present" using range [OF ends(1)] by simp
    then have "0 \<le> (v - hd present) / (last present - hd present)" "(v - hd present) / (last present - hd present) \<le> 1"
      using range [OF mem] by (simp_all add: divide_le_eq)
    from round_places_mono [OF this(1), of 6] round_places_mono [OF this(2), of 6]
    show ?thesis using False unfolding r01 by (simp add: norm)
  qed (simp add: norm)
  moreover have "normalize_value (describe values classes) (Some (st_min s)) = Some 0"
    by (simp add: norm r01) (simp add: s_def r01)
  moreover have "st_min s < st_max s \<longrightarrow> normalize_value (describe values classes) (Some (st_max s)) = Some 1"
    by (auto simp: norm r01 s_def)
  ultimately show ?thesis using d mm mean median count by blast
qed

lemma whole_six_decimals: "quantize (of_int i) = of_int i"
proof -
  have "(of_int i :: rat) * 10 ^ 6 = of_int (i * 1000000)" by simp
  then show ?thesis using round_half_even_of_int [of "i * 1000000", where 'a = rat]
    by (simp add: quantize_def round_places_def)
qed

lemma sample_six_decimals: "six_decimals [Some 3, None, Some 7]"
  using whole_six_decimals [of 3] whole_six_decimals [of 7] by (auto simp: six_decimals_def)

theorem classes_cover_values_witness:
  "\<exists>k. class_index (describe [Some 3, None, Some 7] 10) (Some 3) = Some k \<and> k < 10"
proof -
  have "Some 3 \<in> set [Some 3, None, Some (7 :: rat)]" by simp
  from classes_cover_values [OF this sample_six_decimals, of 10] show ?thesis by auto
qed

theorem statistics_in_range_witness:
  "\<exists>s. vd_statistics (describe [Some 3, None, Some 7] 10) = Some s \<and> st_count s = 2 \<and> st_missing s = 1 \<and> st_max s = 7"
proof -
  have "Some 3 \<in> set [Some 3, None, Some (7 :: rat)]" by simp
  moreover have "{w. Some w \<in> set [Some 3, None, Some (7 :: rat)]} = {3, 7}" by auto
  ultimately show ?thesis using statistics_in_range [OF _ sample_six_decimals, of 3 10] by auto
qed

end
