(* ===== verification/Territories.thy ===== *)
theory Territories
  imports Followed Read_Through "HOL-Library.Multiset"
begin

text \<open>
  Territories: \<open>app/core/text.py\<close>, \<open>app/repositories/territories.py\<close>, \<open>app/services/territories.py\<close>,
  \<open>locate\<close> of \<open>app/repositories/viewport.py\<close> and the data version of
  \<open>app/repositories/map_projection.py\<close>. \<open>collate\<close> is the sort key of the database's text order.
\<close>

section \<open>Text\<close>

text \<open>The base letter of a Latin-1 letter with a mark (NFD without the marks).\<close>

definition base_letter :: "char \<Rightarrow> char" where
  "base_letter c = (let n = of_char c :: nat in
     if 192 \<le> n \<and> n \<le> 197 then CHR ''A'' else if n = 199 then CHR ''C''
     else if 200 \<le> n \<and> n \<le> 203 then CHR ''E'' else if 204 \<le> n \<and> n \<le> 207 then CHR ''I''
     else if n = 209 then CHR ''N'' else if 210 \<le> n \<and> n \<le> 214 then CHR ''O''
     else if 217 \<le> n \<and> n \<le> 220 then CHR ''U'' else if n = 221 then CHR ''Y''
     else if 224 \<le> n \<and> n \<le> 229 then CHR ''a'' else if n = 231 then CHR ''c''
     else if 232 \<le> n \<and> n \<le> 235 then CHR ''e'' else if 236 \<le> n \<and> n \<le> 239 then CHR ''i''
     else if n = 241 then CHR ''n'' else if 242 \<le> n \<and> n \<le> 246 then CHR ''o''
     else if 249 \<le> n \<and> n \<le> 252 then CHR ''u'' else if n = 253 \<or> n = 255 then CHR ''y''
     else c)"

definition normalize_text :: "string \<Rightarrow> string" where
  "normalize_text s = py_strip (py_lower (List.map base_letter s))"

section \<open>Rows with their relations\<close>

record territory_row =
  tr_ibge_code :: string
  tr_name :: string
  tr_level :: territory_level
  tr_abbreviation :: "string option"
  tr_parent_ibge_code :: "string option"
  tr_parent_name :: "string option"
  tr_parent_level :: "territory_level option"
  tr_capital_ibge_code :: "string option"
  tr_capital_name :: "string option"
  tr_bbox :: "bbox option"

definition row_bbox :: "real option \<Rightarrow> real option \<Rightarrow> real option \<Rightarrow> real option \<Rightarrow> bbox option" where
  "row_bbox west south east north =
     (case (west, south, east, north) of
        (Some w, Some s, Some e, Some n) \<Rightarrow> Some (w, s, e, n)
      | _ \<Rightarrow> None)"

definition territory_by_id :: "int option \<Rightarrow> db \<Rightarrow> territory option" where
  "territory_by_id i d = outer_join (\<lambda>t. Some (t_id t) = i) (territories d)"

definition to_territory_row :: "db \<Rightarrow> territory \<Rightarrow> territory_row" where
  "to_territory_row d t =
     (let parent = territory_by_id (t_parent_id t) d; capital = territory_by_id (t_capital_id t) d in
      \<lparr>tr_ibge_code = t_ibge_code t, tr_name = t_name t, tr_level = t_level t,
       tr_abbreviation = t_abbreviation t, tr_parent_ibge_code = map_option t_ibge_code parent,
       tr_parent_name = map_option t_name parent, tr_parent_level = map_option t_level parent,
       tr_capital_ibge_code = map_option t_ibge_code capital, tr_capital_name = map_option t_name capital,
       tr_bbox = row_bbox (t_west t) (t_south t) (t_east t) (t_north t)\<rparr>)"

definition get_by_code :: "string \<Rightarrow> db \<Rightarrow> territory_row option" where
  "get_by_code code d = map_option (to_territory_row d) (select_first (\<lambda>t. t_ibge_code t = code) (territories d))"

definition get_identity_by_code :: "string \<Rightarrow> db \<Rightarrow> (int \<times> territory_level) option" where
  "get_identity_by_code code d =
     map_option (\<lambda>t. (t_id t, t_level t)) (select_first (\<lambda>t. t_ibge_code t = code) (territories d))"

section \<open>Search\<close>

definition search_name :: "territory \<Rightarrow> string" where
  "search_name t = (case t_normalized_name t of Some n \<Rightarrow> n | None \<Rightarrow> py_lower (t_name t))"

definition search_abbreviation :: "territory \<Rightarrow> string option" where
  "search_abbreviation t =
     (case t_normalized_abbreviation t of Some a \<Rightarrow> Some a | None \<Rightarrow> map_option py_lower (t_abbreviation t))"

text \<open>A comparison with a \<open>NULL\<close> abbreviation is not true.\<close>

definition search_filter :: "string \<Rightarrow> territory \<Rightarrow> bool" where
  "search_filter search t =
     (let clean = normalize_text search in
      contains_text clean (search_name t) \<or>
      (case search_abbreviation t of None \<Rightarrow> False | Some a \<Rightarrow> a = clean \<or> is_prefix clean a))"

definition search_score :: "string \<Rightarrow> territory \<Rightarrow> nat" where
  "search_score search t =
     (let clean = normalize_text search; name = search_name t; abbr = search_abbreviation t in
      if abbr = Some clean then 0
      else if name = clean then 1
      else if is_prefix clean name then 2
      else if contains_text (CHR '' '' # clean) name then 3
      else if (case abbr of None \<Rightarrow> False | Some a \<Rightarrow> is_prefix clean a) then 4
      else 5)"

definition territory_matches ::
    "territory_level option \<Rightarrow> string option \<Rightarrow> string option \<Rightarrow> db \<Rightarrow> territory \<Rightarrow> bool" where
  "territory_matches level parent_code search d t \<longleftrightarrow>
     (case level of None \<Rightarrow> True | Some l \<Rightarrow> t_level t = l) \<and>
     (case parent_code of None \<Rightarrow> True
      | Some c \<Rightarrow> map_option t_ibge_code (territory_by_id (t_parent_id t) d) = Some c) \<and>
     (case search of None \<Rightarrow> True | Some [] \<Rightarrow> True | Some s \<Rightarrow> search_filter s t)"

text \<open>\<open>ORDER BY a, b, c, d\<close>: stable sorts, the last key first.\<close>

definition order_territories :: "(string \<Rightarrow> string) \<Rightarrow> string option \<Rightarrow> territory list \<Rightarrow> territory list" where
  "order_territories collate search ts =
     (let by_name = sort_key (\<lambda>t. collate (t_name t)) ts in
      case search of
        Some (c # cs) \<Rightarrow>
          sort_key (search_score (c # cs))
            (sort_key (\<lambda>t. if t_level t = State then 0 else 1 :: nat)
              (sort_key (\<lambda>t. length (t_name t)) by_name))
      | _ \<Rightarrow> by_name)"

definition all_territories ::
    "(string \<Rightarrow> string) \<Rightarrow> territory_level option \<Rightarrow> string option \<Rightarrow> string option \<Rightarrow> db \<Rightarrow> territory_row list" where
  "all_territories collate level parent_code search d =
     List.map (to_territory_row d)
       (order_territories collate search (filter (territory_matches level parent_code search d) (territories d)))"

definition list_territory_rows ::
    "(string \<Rightarrow> string) \<Rightarrow> territory_level option \<Rightarrow> string option \<Rightarrow> string option \<Rightarrow> nat \<Rightarrow> nat \<Rightarrow> db
     \<Rightarrow> territory_row list" where
  "list_territory_rows collate level parent_code search limit offset d =
     take limit (drop offset (all_territories collate level parent_code search d))"

definition count_territories :: "territory_level option \<Rightarrow> string option \<Rightarrow> string option \<Rightarrow> db \<Rightarrow> nat" where
  "count_territories level parent_code search d =
     length (filter (territory_matches level parent_code search d) (territories d))"

definition children_summary :: "string \<Rightarrow> db \<Rightarrow> nat \<times> territory_level option" where
  "children_summary code d =
     (let children = filter (\<lambda>t. map_option t_ibge_code (territory_by_id (t_parent_id t) d) = Some code) (territories d) in
      case List.map t_level children of
        [] \<Rightarrow> (0, None)
      | l # ls \<Rightarrow> (length children, Some (foldl min l ls)))"

section \<open>The service\<close>

record territory_ref =
  ref_ibge_code :: string
  ref_name :: string
  ref_level :: "territory_level option"

record territory_summary =
  ts_ibge_code :: string
  ts_name :: string
  ts_level :: territory_level
  ts_abbreviation :: "string option"
  ts_parent :: "territory_ref option"

record territory_detail = territory_summary +
  td_capital :: "territory_ref option"
  td_children_count :: nat
  td_children_level :: "territory_level option"
  td_bbox :: "bbox option"

definition or_empty :: "string option \<Rightarrow> string" where
  "or_empty s = (case s of None \<Rightarrow> [] | Some x \<Rightarrow> x)"

definition parent_ref :: "territory_row \<Rightarrow> territory_ref option" where
  "parent_ref row =
     (case tr_parent_ibge_code row of
        Some (c # cs) \<Rightarrow> Some \<lparr>ref_ibge_code = c # cs, ref_name = or_empty (tr_parent_name row), ref_level = tr_parent_level row\<rparr>
      | _ \<Rightarrow> None)"

definition capital_ref :: "territory_row \<Rightarrow> territory_ref option" where
  "capital_ref row =
     (case tr_capital_ibge_code row of
        Some (c # cs) \<Rightarrow> Some \<lparr>ref_ibge_code = c # cs, ref_name = or_empty (tr_capital_name row), ref_level = Some Municipality\<rparr>
      | _ \<Rightarrow> None)"

definition summary_of :: "territory_row \<Rightarrow> territory_summary" where
  "summary_of row = \<lparr>ts_ibge_code = tr_ibge_code row, ts_name = tr_name row, ts_level = tr_level row,
     ts_abbreviation = tr_abbreviation row, ts_parent = parent_ref row\<rparr>"

record territory_page =
  pg_territories :: "territory_summary list"
  pg_total :: nat
  pg_limit :: nat
  pg_offset :: nat

definition list_territories ::
    "(string \<Rightarrow> string) \<Rightarrow> territory_level option \<Rightarrow> string option \<Rightarrow> string option \<Rightarrow> nat \<Rightarrow> nat \<Rightarrow> db
     \<Rightarrow> raised + territory_page" where
  "list_territories collate level parent_code search limit offset d =
     (let page = \<lparr>pg_territories = List.map summary_of (list_territory_rows collate level parent_code search limit offset d),
            pg_total = count_territories level parent_code search d, pg_limit = limit, pg_offset = offset\<rparr> in
      case parent_code of
        None \<Rightarrow> Inr page
      | Some code \<Rightarrow>
          (case get_level_by_code code d of
             Inl e \<Rightarrow> Inl e
           | Inr None \<Rightarrow> Inl (RaisedDomain (territory_not_found code))
           | Inr (Some _) \<Rightarrow> Inr page))"

definition get_detail :: "string \<Rightarrow> db \<Rightarrow> raised + territory_detail" where
  "get_detail code d =
     (case get_by_code code d of
        None \<Rightarrow> Inl (RaisedDomain (territory_not_found code))
      | Some row \<Rightarrow>
          (let (count, level) = children_summary (tr_ibge_code row) d in
           Inr (territory_summary.extend (summary_of row)
             (territory_detail.fields (capital_ref row) count level (tr_bbox row)))))"

text \<open>\<open>covers\<close>: PostGIS \<open>ST_Covers\<close> of a geometry and a latitude and longitude.\<close>

definition locate :: "(geometry \<Rightarrow> real \<Rightarrow> real \<Rightarrow> bool) \<Rightarrow> real \<Rightarrow> real \<Rightarrow> db \<Rightarrow> string option" where
  "locate covers lat lon d =
     (case sort (List.map t_ibge_code (filter (\<lambda>t. t_level t = Municipality \<and>
         list_ex (\<lambda>g. g_territory_id g = t_id t \<and> g_lod g = Canonical \<and> covers (g_geom g) lat lon) (territory_geometries d))
         (territories d))) of [] \<Rightarrow> None | c # _ \<Rightarrow> Some c)"

definition locate_territory :: "(geometry \<Rightarrow> real \<Rightarrow> real \<Rightarrow> bool) \<Rightarrow> real \<Rightarrow> real \<Rightarrow> db \<Rightarrow> raised + territory_detail" where
  "locate_territory covers lat lon d =
     (case locate covers lat lon d of
        None \<Rightarrow> Inl (RaisedDomain (mk_error NotFoundError []))
      | Some code \<Rightarrow> get_detail code d)"

section \<open>The data version\<close>

text \<open>
  The end of the last import of the map data, in whole seconds (the cast of a number to \<open>bigint\<close> rounds
  to the nearest), cached for a minute.
\<close>

definition MAP_JOBS :: "string list" where
  "MAP_JOBS = [''import_territories'', ''import_geometries'']"

definition fetch_data_version :: "db \<Rightarrow> int" where
  "fetch_data_version d =
     (case List.map_filter r_finished_at (filter (\<lambda>r. r_job r \<in> set MAP_JOBS \<and> r_status r \<in> {Succeeded, Partial}) (ingestion_runs d)) of
        [] \<Rightarrow> 0
      | t # ts \<Rightarrow> (foldl max t ts + 500000) div 1000000)"

type_synonym version_cache = "(string, int) ttl_cache"

definition new_version_cache :: version_cache where
  "new_version_cache = new_cache 60 1"

definition data_version :: "clock \<Rightarrow> clock \<Rightarrow> db \<Rightarrow> version_cache \<Rightarrow> (raised + int) \<times> version_cache" where
  "data_version now later d c = read_through now later ''version'' (\<lambda>_. Inr (fetch_data_version d)) c"

section \<open>Listing\<close>

lemma mset_order_territories: "mset (order_territories collate search ts) = mset ts"
  by (auto simp: order_territories_def Let_def split: option.split list.split)

lemma length_all_territories:
  "length (all_territories collate level parent_code search d) = count_territories level parent_code search d"
  using mset_eq_length [OF mset_order_territories [of collate search "filter (territory_matches level parent_code search d) (territories d)"]]
  by (simp add: all_territories_def count_territories_def)

lemma concat_pages:
  "0 < n \<Longrightarrow> length xs \<le> k * n \<Longrightarrow> concat (List.map (\<lambda>i. take n (drop (i * n) xs)) [0..<k]) = xs"
proof (induction k arbitrary: xs)
  case (Suc k)
  have "[0..<Suc k] = 0 # List.map Suc [0..<k]" by (simp add: upt_conv_Cons map_Suc_upt del: upt_Suc)
  then have "concat (List.map (\<lambda>i. take n (drop (i * n) xs)) [0..<Suc k]) =
      take n xs @ concat (List.map (\<lambda>i. take n (drop (i * n) (drop n xs))) [0..<k])"
    by (simp add: comp_def add.commute)
  then show ?case using Suc.IH [of "drop n xs"] Suc.prems by simp
qed simp

text \<open>
  Paging through a listing shows each matching territory exactly once: every page says the same
  total, and the pages at offsets 0, \<open>limit\<close>, 2 \<open>limit\<close>, ... together are the whole listing, which holds
  the matching territories and no other and, for a search, is in increasing order of the match's rank.
\<close>

theorem listing_pages_cover:
  assumes "0 < limit" and "count_territories level parent_code search d \<le> pages * limit"
    and "case parent_code of None \<Rightarrow> True | Some c \<Rightarrow> \<exists>l. get_level_by_code c d = Inr (Some l)"
  shows "\<exists>listing. concat (List.map (\<lambda>i. case list_territories collate level parent_code search limit (i * limit) d of
        Inl e \<Rightarrow> [] | Inr page \<Rightarrow> pg_territories page) [0..<pages]) =
      List.map (summary_of \<circ> to_territory_row d) listing \<and>
    mset listing = mset (filter (territory_matches level parent_code search d) (territories d)) \<and>
    (\<forall>i. \<exists>page. list_territories collate level parent_code search limit (i * limit) d = Inr page \<and>
       pg_total page = length listing \<and> length (pg_territories page) \<le> limit) \<and>
    (\<forall>s. search = Some s \<and> s \<noteq> [] \<longrightarrow> sorted (List.map (search_score s) listing))"
proof -
  define listing where "listing = order_territories collate search (filter (territory_matches level parent_code search d) (territories d))"
  have mset: "mset listing = mset (filter (territory_matches level parent_code search d) (territories d))"
    by (simp add: listing_def mset_order_territories)
  have len: "length listing = count_territories level parent_code search d"
    using mset_eq_length [OF mset] by (simp add: count_territories_def)
  have page: "list_territories collate level parent_code search limit o1 d =
      Inr \<lparr>pg_territories = List.map (summary_of \<circ> to_territory_row d) (take limit (drop o1 listing)),
           pg_total = length listing, pg_limit = limit, pg_offset = o1\<rparr>" for o1
    using assms(3) by (auto simp: list_territories_def Let_def list_territory_rows_def all_territories_def len
        listing_def [symmetric] take_map drop_map split: option.splits)
  have "concat (List.map (\<lambda>i. List.map (summary_of \<circ> to_territory_row d) (take limit (drop (i * limit) listing))) [0..<pages]) =
      List.map (summary_of \<circ> to_territory_row d) (concat (List.map (\<lambda>i. take limit (drop (i * limit) listing)) [0..<pages]))"
    by (simp add: map_concat comp_def)
  also have "\<dots> = List.map (summary_of \<circ> to_territory_row d) listing"
    using concat_pages [OF assms(1), of listing pages] assms(2) len by simp
  finally have pages: "concat (List.map (\<lambda>i. List.map (summary_of \<circ> to_territory_row d) (take limit (drop (i * limit) listing))) [0..<pages]) =
      List.map (summary_of \<circ> to_territory_row d) listing" .
  have sorted: "sorted (List.map (search_score s) listing)" if "search = Some s" "s \<noteq> []" for s
    using that by (cases s) (simp_all add: listing_def order_territories_def Let_def)
  show ?thesis
    using pages mset sorted by (intro exI [of _ listing]) (simp add: page)
qed

theorem listing_pages_cover_witness:
  "concat (List.map (\<lambda>i. case list_territories id None None None 10 (i * 10) empty_db of
     Inl e \<Rightarrow> [] | Inr page \<Rightarrow> pg_territories page) [0..<3]) = []"
proof -
  have none: "territories empty_db = []" by (simp add: empty_db_def)
  have "count_territories None None None empty_db \<le> 3 * 10" by (simp add: count_territories_def none)
  from listing_pages_cover [OF _ this, of id] show ?thesis by (auto simp: none)
qed

end
