(* ===== verification/Spatial.thy ===== *)
theory Spatial
  imports Weather_Summary Errors
begin

text \<open>
  Estimates between measured places: \<open>app/services/spatial_interpolation.py\<close> (inverse-distance
  weighting of the three nearest measured cities).
\<close>

definition radians :: "real \<Rightarrow> real" where
  "radians x = x * pi / 180"

definition geo_dist_sq :: "real \<Rightarrow> real \<Rightarrow> real \<Rightarrow> real \<Rightarrow> real \<Rightarrow> real" where
  "geo_dist_sq lat1 lon1 lat2 lon2 cos_lat =
     (let d_lat = lat1 - lat2; d_lon = (lon1 - lon2) * cos_lat in d_lat * d_lat + d_lon * d_lon)"

text \<open>The loop over the nearest cities adds \<open>value * weight\<close> where the value is present.\<close>

fun weighted_sum :: "(weather_city \<Rightarrow> real option) \<Rightarrow> (real \<times> weather_city) list \<Rightarrow> real" where
  "weighted_sum f [] = 0"
| "weighted_sum f ((dist_sq, c) # ks) =
     (case f c of None \<Rightarrow> 0 | Some v \<Rightarrow> v * (1 / dist_sq)) + weighted_sum f ks"

definition has_value :: "(weather_city \<Rightarrow> real option) \<Rightarrow> (real \<times> weather_city) list \<Rightarrow> bool" where
  "has_value f ks \<longleftrightarrow> list_ex (\<lambda>(_, c). case f c of None \<Rightarrow> False | Some _ \<Rightarrow> True) ks"

definition apparent_or_temperature :: "weather_city \<Rightarrow> real option" where
  "apparent_or_temperature c =
     Some (case wc_apparent_temperature_c c of None \<Rightarrow> wc_temperature_c c | Some a \<Rightarrow> a)"

definition precip_total :: "weather_city \<Rightarrow> real option" where
  "precip_total c =
     (case wc_precipitation_sum_mm c of None \<Rightarrow> wc_precipitation_mm c | Some p \<Rightarrow> Some p)"

text \<open>\<open>x or y\<close> for a state abbreviation and for numbers.\<close>

definition or_text :: "string \<Rightarrow> string \<Rightarrow> string" where
  "or_text a b = (if a = [] then b else a)"

definition estimate :: "string \<Rightarrow> string \<Rightarrow> real \<Rightarrow> real \<Rightarrow> string \<Rightarrow> (real \<times> weather_city) list \<Rightarrow> weather_city
    \<Rightarrow> weather_city" where
  "estimate code name lat lon uf nearest closest =
     (let total = weighted_sum (\<lambda>_. Some 1) nearest;
          mean = (\<lambda>f. weighted_sum f nearest / total);
          temp = (if total > 0 then mean (\<lambda>c. Some (wc_temperature_c c)) else wc_temperature_c closest);
          apparent = (if total > 0 then Some (mean apparent_or_temperature)
                      else wc_apparent_temperature_c closest) in
      \<lparr>wc_id = code, wc_name = name, wc_state_abbreviation = or_text uf (wc_state_abbreviation closest),
       wc_latitude = lat, wc_longitude = lon, wc_timezone = wc_timezone closest,
       wc_observed_at = wc_observed_at closest, wc_temperature_c = round_places 1 temp,
       wc_apparent_temperature_c = map_option (round_places 1) apparent,
       wc_humidity_pct = (if has_value wc_humidity_pct nearest \<and> total > 0
         then Some (of_int (round_half_even (mean wc_humidity_pct))) else None),
       wc_wind_speed_kmh = wc_wind_speed_kmh closest,
       wc_precipitation_mm = Some (case wc_precipitation_mm closest of None \<Rightarrow> 0 | Some p \<Rightarrow> p),
       wc_precipitation_sum_mm = Some (if has_value precip_total nearest \<and> total > 0
         then round_places 1 (mean precip_total) else 0),
       wc_precipitation_probability_pct = (if has_value wc_precipitation_probability_pct nearest \<and> total > 0
         then Some (of_int (round_half_even (mean wc_precipitation_probability_pct))) else None),
       wc_precipitation_interval_minutes = wc_precipitation_interval_minutes closest,
       wc_weather_code = Some (case wc_weather_code closest of None \<Rightarrow> 0 | Some w \<Rightarrow> w),
       wc_precipitation_48h_mm = (if has_value wc_precipitation_48h_mm nearest \<and> total \<noteq> 0
         then Some (round_places 1 (mean wc_precipitation_48h_mm)) else None),
       wc_raining_now = wc_raining_now closest, wc_sample_points = None, wc_raining_points = None,
       wc_forecast = [], wc_is_inferred = True\<rparr>)"

definition scored_cities :: "real \<Rightarrow> real \<Rightarrow> weather_city list \<Rightarrow> (real \<times> weather_city) list" where
  "scored_cities lat lon cities =
     (let cos_lat = cos (radians lat) in
      sort_key fst (List.map (\<lambda>c. (geo_dist_sq lat lon (wc_latitude c) (wc_longitude c) cos_lat, c)) cities))"

definition interpolate_municipal_weather ::
    "string \<Rightarrow> string \<Rightarrow> real \<Rightarrow> real \<Rightarrow> weather_city list \<Rightarrow> string \<Rightarrow> raised + weather_city" where
  "interpolate_municipal_weather code name lat lon cities uf =
     (case scored_cities lat lon cities of
        [] \<Rightarrow> Inl RaisedOther
      | (closest_dist, closest) # rest \<Rightarrow>
          if closest_dist < 1 / 1000000
          then Inr (closest\<lparr>wc_id := code, wc_name := name,
                 wc_state_abbreviation := or_text uf (wc_state_abbreviation closest),
                 wc_latitude := lat, wc_longitude := lon, wc_is_inferred := True\<rparr>)
          else Inr (estimate code name lat lon uf (take 3 ((closest_dist, closest) # rest)) closest))"

section \<open>Laws\<close>

lemma weighted_sum_cong: "\<forall>(d, c) \<in> set ks. f c = g c \<Longrightarrow> weighted_sum f ks = weighted_sum g ks"
  by (induction f ks rule: weighted_sum.induct) auto

lemma weighted_total_pos:
  "\<forall>(d, c) \<in> set ks. 0 < d \<Longrightarrow> ks \<noteq> [] \<Longrightarrow> 0 < weighted_sum (\<lambda>_. Some 1) ks"
proof (induction "\<lambda>_ :: weather_city. Some (1 :: real)" ks rule: weighted_sum.induct)
  case (2 d c ks)
  then show ?case by (cases "ks = []") (auto intro: add_pos_pos)
qed simp

lemma weighted_sum_bounds:
  assumes "\<forall>(d, c) \<in> set ks. 0 < d \<and> (\<exists>v. f c = Some v \<and> lo \<le> v \<and> v \<le> hi)"
  shows "lo * weighted_sum (\<lambda>_. Some 1) ks \<le> weighted_sum f ks \<and>
    weighted_sum f ks \<le> hi * weighted_sum (\<lambda>_. Some 1) ks"
  using assms
proof (induction ks)
  case (Cons p ks)
  obtain d c where p: "p = (d, c)" by force
  obtain v where v: "f c = Some v" "lo \<le> v" "v \<le> hi" "0 < d" using Cons.prems by (auto simp: p)
  have "lo * (1 / d) \<le> v * (1 / d)" and "v * (1 / d) \<le> hi * (1 / d)"
    using v by (intro mult_right_mono; simp)+
  moreover have "lo * weighted_sum (\<lambda>_. Some 1) ks \<le> weighted_sum f ks \<and>
      weighted_sum f ks \<le> hi * weighted_sum (\<lambda>_. Some 1) ks"
    using Cons by simp
  moreover have "weighted_sum f (p # ks) = v * (1 / d) + weighted_sum f ks"
    and "weighted_sum (\<lambda>_. Some 1) (p # ks) = 1 / d + weighted_sum (\<lambda>_. Some 1) ks"
    by (simp_all add: p v(1))
  ultimately show ?case by (simp add: distrib_left)
qed simp

lemma weighted_mean_bounds:
  assumes "ks \<noteq> []" and "\<forall>(d, c) \<in> set ks. 0 < d \<and> (\<exists>v. f c = Some v \<and> lo \<le> v \<and> v \<le> hi)"
  shows "lo \<le> weighted_sum f ks / weighted_sum (\<lambda>_. Some 1) ks"
    and "weighted_sum f ks / weighted_sum (\<lambda>_. Some 1) ks \<le> hi"
proof -
  have "0 < weighted_sum (\<lambda>_. Some 1) ks" using assms by (intro weighted_total_pos) auto
  then show "lo \<le> weighted_sum f ks / weighted_sum (\<lambda>_. Some 1) ks"
    and "weighted_sum f ks / weighted_sum (\<lambda>_. Some 1) ks \<le> hi"
    using weighted_sum_bounds [OF assms(2)] by (simp_all add: pos_le_divide_eq pos_divide_le_eq)
qed

lemma scored_cities_set:
  "p \<in> set (scored_cities lat lon cities) \<Longrightarrow> snd p \<in> set cities \<and>
     fst p = geo_dist_sq lat lon (wc_latitude (snd p)) (wc_longitude (snd p)) (cos (radians lat))"
  by (auto simp: scored_cities_def Let_def)

lemma scored_cities_sorted: "sorted (List.map fst (scored_cities lat lon cities))"
  by (simp add: scored_cities_def Let_def)

lemma scored_cities_Nil [simp]: "scored_cities lat lon cities = [] \<longleftrightarrow> cities = []"
proof -
  have "length (scored_cities lat lon cities) = length cities" by (simp add: scored_cities_def Let_def)
  then show ?thesis by (metis length_0_conv)
qed

text \<open>
  From at least one measured city the interpolation always succeeds, and the estimated
  temperature lies between the lowest and the highest measured one (up to the rounding to one decimal).
\<close>

theorem interpolation_within_measured_range:
  assumes "cities \<noteq> []" and "\<forall>c \<in> set cities. lo \<le> wc_temperature_c c \<and> wc_temperature_c c \<le> hi"
  shows "\<exists>w. interpolate_municipal_weather code name lat lon cities uf = Inr w \<and>
    wc_id w = code \<and> wc_latitude w = lat \<and> wc_longitude w = lon \<and> wc_is_inferred w \<and>
    min lo (round_places 1 lo) \<le> wc_temperature_c w \<and> wc_temperature_c w \<le> max hi (round_places 1 hi)"
proof -
  obtain d c rest where s: "scored_cities lat lon cities = (d, c) # rest"
    using assms(1) scored_cities_Nil [of lat lon cities] by (cases "scored_cities lat lon cities") auto
  have c: "c \<in> set cities" using scored_cities_set [of "(d, c)" lat lon cities] by (simp add: s)
  show ?thesis
  proof (cases "d < 1 / 1000000")
    case True
    then show ?thesis using assms(2) c s
      by (auto simp: interpolate_municipal_weather_def min_le_iff_disj le_max_iff_disj)
  next
    case False
    let ?ks = "take 3 ((d, c) # rest)"
    have far: "\<forall>(d', c') \<in> set ?ks. 0 < d' \<and>
        (\<exists>v. Some (wc_temperature_c c') = Some v \<and> lo \<le> v \<and> v \<le> hi)"
    proof (clarify, intro conjI exI)
      fix d' c' assume "(d', c') \<in> set ?ks"
      then have mem: "(d', c') \<in> set (scored_cities lat lon cities)"
        unfolding s by (rule in_set_takeD)
      then have "d \<le> d'" using scored_cities_sorted [of lat lon cities] by (auto simp: s)
      then show "0 < d'" using False by simp
      show "Some (wc_temperature_c c') = Some (wc_temperature_c c')" ..
      show "lo \<le> wc_temperature_c c'" "wc_temperature_c c' \<le> hi"
        using scored_cities_set [OF mem] assms(2) by auto
    qed
    note bounds = weighted_mean_bounds [of ?ks "\<lambda>c. Some (wc_temperature_c c)", OF _ far]
    have "0 < weighted_sum (\<lambda>_. Some 1) ?ks" using far by (intro weighted_total_pos) auto
    then have t: "wc_temperature_c (estimate code name lat lon uf ?ks c) =
        round_places 1 (weighted_sum (\<lambda>c. Some (wc_temperature_c c)) ?ks / weighted_sum (\<lambda>_. Some 1) ?ks)"
      by (simp add: estimate_def Let_def del: take_Suc_Cons)
    have "round_places 1 lo \<le> wc_temperature_c (estimate code name lat lon uf ?ks c)"
      and "wc_temperature_c (estimate code name lat lon uf ?ks c) \<le> round_places 1 hi"
      unfolding t using bounds by (auto intro: round_places_mono)
    then show ?thesis using False s
      by (auto simp: interpolate_municipal_weather_def min_le_iff_disj le_max_iff_disj)
        (simp_all add: estimate_def Let_def)
  qed
qed

definition measured0 :: "weather_city list" where
  "measured0 = [(city0 ''a'' 20 None)\<lparr>wc_latitude := 1, wc_humidity_pct := Some 80\<rparr>,
     (city0 ''b'' 30 None)\<lparr>wc_latitude := - 1\<rparr>]"

theorem interpolation_within_measured_range_witness:
  "\<exists>w. interpolate_municipal_weather ''c'' ''C'' 0 0 measured0 ''SP'' = Inr w \<and>
     20 \<le> wc_temperature_c w \<and> wc_temperature_c w \<le> 30"
proof -
  have whole: "round_places (Suc 0) 20 = (20 :: real)" "round_places (Suc 0) 30 = (30 :: real)"
    using round_half_even_of_int [of 200, where 'a = real] round_half_even_of_int [of 300, where 'a = real]
    by (simp_all add: round_places_def)
  have "measured0 \<noteq> []" and "\<forall>c \<in> set measured0. 20 \<le> wc_temperature_c c \<and> wc_temperature_c c \<le> 30"
    by (simp_all add: measured0_def city0_def)
  from interpolation_within_measured_range [OF this, of "''c''" "''C''" 0 0 "''SP''"]
  show ?thesis by (auto simp: whole)
qed

text \<open>
  A neighbour without a humidity reading still counts in the total weight: with the only reading at
  80 percent, a place half-way between the two cities is estimated at 40 percent, below every
  measured value. The rain and the probability are averaged the same way.
\<close>

theorem missing_reading_lowers_estimate:
  "map_sum id wc_humidity_pct (interpolate_municipal_weather ''c'' ''C'' 0 0 measured0 ''SP'') = Inr (Some 40)"
proof -
  have "round_half_even (40 :: real) = 40" using round_half_even_of_int [of 40, where 'a = real] by simp
  moreover have "scored_cities 0 0 measured0 = List.map (Pair 1) measured0"
    by (simp add: scored_cities_def measured0_def city0_def geo_dist_sq_def Let_def)
  ultimately show ?thesis
    by (simp add: interpolate_municipal_weather_def estimate_def measured0_def city0_def has_value_def Let_def)
qed

end
