(* ===== verification/Sampling.thy ===== *)
theory Sampling
  imports Territories Spatial
begin

text \<open>
  The order in which the municipalities of a state are sampled (\<open>_farthest_point_sampling\<close> and
  \<open>list_weather_points\<close> of \<open>app/repositories/territories.py\<close>): from the capital, each next place is the
  farthest from those already taken. The flags \<open>visited\<close> are the membership in \<open>selected\<close>.
\<close>

type_synonym weather_point = "string \<times> string \<times> real \<times> real"

abbreviation wp_code :: "weather_point \<Rightarrow> string" where "wp_code p \<equiv> fst p"
abbreviation wp_lat :: "weather_point \<Rightarrow> real" where "wp_lat p \<equiv> fst (snd (snd p))"
abbreviation wp_lon :: "weather_point \<Rightarrow> real" where "wp_lon p \<equiv> snd (snd (snd p))"

definition planar_sq :: "real \<times> real \<Rightarrow> real \<times> real \<Rightarrow> real" where
  "planar_sq a b = (fst a - fst b) ^ 2 + (snd a - snd b) ^ 2"

text \<open>The first unvisited index with the greatest distance.\<close>

definition farthest :: "real list \<Rightarrow> nat list \<Rightarrow> nat option" where
  "farthest min_dists selected =
     fst (foldl (\<lambda>(best, best_dist) i.
         if i \<notin> set selected \<and> min_dists ! i > best_dist then (Some i, min_dists ! i) else (best, best_dist))
       (None, -1) [0..<length min_dists])"

definition nearer :: "(real \<times> real) list \<Rightarrow> nat \<Rightarrow> nat list \<Rightarrow> real list \<Rightarrow> real list" where
  "nearer coords new selected min_dists =
     List.map (\<lambda>i. if i \<notin> set selected \<and> planar_sq (coords ! i) (coords ! new) < min_dists ! i
               then planar_sq (coords ! i) (coords ! new) else min_dists ! i) [0..<length min_dists]"

fun sample_loop :: "nat \<Rightarrow> (real \<times> real) list \<Rightarrow> real list \<Rightarrow> nat list \<Rightarrow> nat list" where
  "sample_loop 0 coords min_dists selected = selected"
| "sample_loop (Suc n) coords min_dists selected =
     (case farthest min_dists selected of
        None \<Rightarrow> selected
      | Some best \<Rightarrow>
          (let selected1 = selected @ [best] in
           sample_loop n coords (nearer coords best selected1 min_dists) selected1))"

definition sample_order :: "(real \<times> real) list \<Rightarrow> nat \<Rightarrow> nat list" where
  "sample_order coords start =
     (let n = length coords;
          min_dists = List.map (\<lambda>i. planar_sq (coords ! i) (coords ! start)) [0..<n];
          selected = sample_loop (n - 1) coords min_dists [start] in
      selected @ filter (\<lambda>i. i \<notin> set selected) [0..<n])"

definition sample_coords :: "weather_point list \<Rightarrow> (real \<times> real) list" where
  "sample_coords points =
     (let mid_lat = sum_list (List.map wp_lat points) / of_nat (length points); cos_lat = cos (radians mid_lat) in
      List.map (\<lambda>p. (wp_lat p, wp_lon p * cos_lat)) points)"

definition farthest_point_sampling :: "weather_point list \<Rightarrow> nat \<Rightarrow> weather_point list" where
  "farthest_point_sampling points start_idx =
     (if length points \<le> 1 then points
      else let start = min start_idx (length points - 1) in
        List.map (\<lambda>i. points ! i) (sample_order (sample_coords points) start))"

section \<open>The points of a state\<close>

text \<open>\<open>surface_point\<close>: PostGIS \<open>ST_PointOnSurface\<close>, as latitude and longitude.\<close>

definition state_point_rows ::
    "(geometry \<Rightarrow> real \<times> real) \<Rightarrow> string \<Rightarrow> db \<Rightarrow> (weather_point \<times> int option \<times> int) list" where
  "state_point_rows surface_point parent_code d =
     sort_key (\<lambda>r. wp_code (fst r))
       [((t_ibge_code t, t_name t, surface_point (g_geom g)), t_capital_id p, t_id t).
          t \<leftarrow> territories d, g \<leftarrow> territory_geometries d, p \<leftarrow> territories d,
          t_level t = Municipality, g_territory_id g = t_id t, g_lod g = Overview,
          t_parent_id t = Some (t_id p), t_ibge_code p = parent_code]"

fun index_of :: "('a \<Rightarrow> bool) \<Rightarrow> 'a list \<Rightarrow> nat" where
  "index_of P [] = 0"
| "index_of P (x # xs) = (if P x then 0 else Suc (index_of P xs))"

definition start_index :: "(weather_point \<times> int option \<times> int) list \<Rightarrow> nat" where
  "start_index rows =
     (case rows of
        [] \<Rightarrow> 0
      | r # _ \<Rightarrow>
          (case fst (snd r) of
             None \<Rightarrow> 0
           | Some capital \<Rightarrow>
               if list_ex (\<lambda>r. snd (snd r) = capital) rows then index_of (\<lambda>r. snd (snd r) = capital) rows else 0))"

type_synonym dispersed_cache = "(int \<times> string, weather_point list) ttl_cache"

definition new_dispersed_cache :: dispersed_cache where
  "new_dispersed_cache = new_cache 86400 27"

text \<open>\<open>version\<close>: the answer of \<open>data_version\<close>.\<close>

definition list_weather_points ::
    "(geometry \<Rightarrow> real \<times> real) \<Rightarrow> clock \<Rightarrow> clock \<Rightarrow> int \<Rightarrow> db \<Rightarrow> string \<Rightarrow> nat \<Rightarrow> nat \<Rightarrow> dispersed_cache
     \<Rightarrow> weather_point list \<times> dispersed_cache" where
  "list_weather_points surface_point now later version d parent_code offset limit c =
     (case cache_get now (version, parent_code) c of
        (Some ps, c1) \<Rightarrow> (take limit (drop offset ps), c1)
      | (None, c1) \<Rightarrow>
          (let rows = state_point_rows surface_point parent_code d in
           if rows = [] then ([], c1)
           else let ordered = farthest_point_sampling (List.map fst rows) (start_index rows) in
             (take limit (drop offset ordered), cache_set later (version, parent_code) ordered None c1)))"

section \<open>What the sampling does\<close>

lemma farthest_loop:
  fixes ds :: "real list"
  assumes "foldl (\<lambda>(best, best_dist) i.
      if i \<notin> set selected \<and> ds ! i > best_dist then (Some i, ds ! i) else (best, best_dist)) (b, g) is = (b', g')"
  shows "g \<le> g' \<and> (\<forall>i \<in> set is. i \<notin> set selected \<longrightarrow> ds ! i \<le> g') \<and>
    ((b' = b \<and> g' = g) \<or> (\<exists>i \<in> set is. b' = Some i \<and> i \<notin> set selected \<and> g' = ds ! i))"
  using assms
proof (induction "is" arbitrary: b g)
  case (Cons i "is")
  show ?case
  proof (cases "i \<notin> set selected \<and> ds ! i > g")
    case True
    then show ?thesis using Cons.IH [of "Some i" "ds ! i"] Cons.prems by (auto intro: less_imp_le less_le_trans)
  next
    case False
    then show ?thesis using Cons.IH [of b g] Cons.prems by auto
  qed
qed simp

lemma farthest_Some:
  "farthest ds selected = Some i \<Longrightarrow> i < length ds \<and> i \<notin> set selected \<and> (\<forall>j < length ds. j \<notin> set selected \<longrightarrow> ds ! j \<le> ds ! i)"
  and farthest_None: "farthest ds selected = None \<Longrightarrow> (\<forall>i < length ds. 0 \<le> ds ! i) \<Longrightarrow> {0..<length ds} \<subseteq> set selected"
proof -
  obtain b g where run: "foldl (\<lambda>(best, best_dist) i.
      if i \<notin> set selected \<and> ds ! i > best_dist then (Some i, ds ! i) else (best, best_dist)) (None, -1) [0..<length ds] = (b, g)"
    by force
  then have b: "farthest ds selected = b" by (simp add: farthest_def)
  note loop = farthest_loop [OF run]
  show "farthest ds selected = Some i \<Longrightarrow> i < length ds \<and> i \<notin> set selected \<and> (\<forall>j < length ds. j \<notin> set selected \<longrightarrow> ds ! j \<le> ds ! i)"
    using loop b by auto
  show "farthest ds selected = None \<Longrightarrow> (\<forall>i < length ds. 0 \<le> ds ! i) \<Longrightarrow> {0..<length ds} \<subseteq> set selected"
    using loop b by force
qed

text \<open>The distance from a place to the nearest of those taken.\<close>

definition gap :: "(real \<times> real) list \<Rightarrow> nat list \<Rightarrow> nat \<Rightarrow> real" where
  "gap coords taken i = Min ((\<lambda>k. planar_sq (coords ! i) (coords ! k)) ` set taken)"

definition gaps_ok :: "(real \<times> real) list \<Rightarrow> nat list \<Rightarrow> real list \<Rightarrow> bool" where
  "gaps_ok coords taken ds \<longleftrightarrow> length ds = length coords \<and> (\<forall>i < length ds. 0 \<le> ds ! i) \<and>
     (\<forall>i < length ds. i \<notin> set taken \<longrightarrow> ds ! i = gap coords taken i)"

lemma gap_snoc: "taken \<noteq> [] \<Longrightarrow> gap coords (taken @ [k]) i = min (gap coords taken i) (planar_sq (coords ! i) (coords ! k))"
  by (simp add: gap_def min.commute)

lemma planar_sq_nonneg [simp]: "0 \<le> planar_sq a b"
  by (simp add: planar_sq_def)

lemma nearer_gaps:
  assumes "gaps_ok coords taken ds" and "taken \<noteq> []"
  shows "gaps_ok coords (taken @ [k]) (nearer coords k (taken @ [k]) ds)"
  using assms by (auto simp: gaps_ok_def nearer_def gap_snoc [OF assms(2)])

text \<open>Each element of a suffix was the farthest when it was taken.\<close>

definition greedy_from :: "(real \<times> real) list \<Rightarrow> nat \<Rightarrow> nat list \<Rightarrow> bool" where
  "greedy_from coords m order \<longleftrightarrow>
     (\<forall>k. m \<le> k \<and> k < length order \<longrightarrow> (\<forall>j < length coords. j \<notin> set (take k order) \<longrightarrow>
        gap coords (take k order) j \<le> gap coords (take k order) (order ! k)))"

lemma sample_loop_greedy:
  assumes "gaps_ok coords selected ds" and "selected \<noteq> []" and "distinct selected" and "set selected \<subseteq> {0..<length coords}"
    and "greedy_from coords 1 selected" and "length selected + n = length coords"
  shows "distinct (sample_loop n coords ds selected) \<and> set (sample_loop n coords ds selected) = {0..<length coords} \<and>
    greedy_from coords 1 (sample_loop n coords ds selected) \<and> hd (sample_loop n coords ds selected) = hd selected"
  using assms
proof (induction n arbitrary: ds selected)
  case 0
  have "card (set selected) = card {0..<length coords}" using 0(3,6) by (simp add: distinct_card)
  then have "set selected = {0..<length coords}" using 0(4) by (intro card_subset_eq) auto
  then show ?case using 0 by simp
next
  case (Suc n)
  show ?case
  proof (cases "farthest ds selected")
    case None
    then have "{0..<length coords} \<subseteq> set selected" using farthest_None [OF None] Suc.prems(1) by (simp add: gaps_ok_def)
    then have "length coords \<le> length selected"
      using card_mono [of "set selected" "{0..<length coords}"] card_length [of selected] by simp
    then show ?thesis using Suc.prems(6) by simp
  next
    case (Some b)
    note f = farthest_Some [OF Some]
    have len: "length ds = length coords" using Suc.prems(1) by (simp add: gaps_ok_def)
    have b: "b < length coords" "b \<notin> set selected" using f len by auto
    have best: "gap coords selected j \<le> gap coords selected b" if "j < length coords" "j \<notin> set selected" for j
    proof -
      have "ds ! j \<le> ds ! b" using f that len by simp
      moreover have "ds ! j = gap coords selected j" "ds ! b = gap coords selected b"
        using that b Suc.prems(1) len by (simp_all add: gaps_ok_def)
      ultimately show ?thesis by simp
    qed
    have "greedy_from coords 1 (selected @ [b])"
      using Suc.prems(5) best unfolding greedy_from_def by (auto simp: nth_append less_Suc_eq)
    moreover have "gaps_ok coords (selected @ [b]) (nearer coords b (selected @ [b]) ds)"
      by (rule nearer_gaps [OF Suc.prems(1,2)])
    ultimately show ?thesis
      using Suc.IH [of "selected @ [b]" "nearer coords b (selected @ [b]) ds"] Suc.prems b
      by (simp add: Some Let_def)
  qed
qed

text \<open>
  The sampling order is a reordering of the places that starts at the capital and is greedy:
  at every step the place taken next is at least as far from those already taken as any other left.
\<close>

theorem sampling_is_greedy:
  assumes "2 \<le> length points" and "start < length points"
  shows "mset (farthest_point_sampling points start) = mset points \<and>
    hd (farthest_point_sampling points start) = points ! start \<and>
    (\<exists>order. farthest_point_sampling points start = List.map (\<lambda>i. points ! i) order \<and> hd order = start \<and>
       distinct order \<and> set order = {0..<length points} \<and> greedy_from (sample_coords points) 1 order)"
proof -
  define coords where "coords = sample_coords points"
  have len: "length coords = length points" by (simp add: coords_def sample_coords_def Let_def)
  define ds where "ds = List.map (\<lambda>i. planar_sq (coords ! i) (coords ! start)) [0..<length coords]"
  define order where "order = sample_loop (length coords - 1) coords ds [start]"
  have "gaps_ok coords [start] ds" by (simp add: gaps_ok_def ds_def gap_def)
  moreover have "greedy_from coords 1 [start]" by (auto simp: greedy_from_def)
  ultimately have o: "distinct order" "set order = {0..<length coords}" "greedy_from coords 1 order" "hd order = start"
    using sample_loop_greedy [of coords "[start]" ds "length coords - 1"] assms len by (auto simp: order_def)
  have eq: "farthest_point_sampling points start = List.map (\<lambda>i. points ! i) order"
  proof -
    have "sample_order coords start = order @ filter (\<lambda>i. i \<notin> set order) [0..<length coords]"
      by (simp add: sample_order_def Let_def ds_def order_def)
    also have "\<dots> = order" using o(2) by simp
    finally have "sample_order (sample_coords points) start = order" by (simp add: coords_def)
    moreover have "min start (length points - 1) = start" "\<not> length points \<le> 1" using assms by simp_all
    ultimately show ?thesis by (simp only: farthest_point_sampling_def Let_def if_False)
  qed
  have "mset order = mset [0..<length points]" using mset_set_set [OF o(1)] o(2) len by simp
  then have "mset (List.map (\<lambda>i. points ! i) order) = mset (List.map (\<lambda>i. points ! i) [0..<length points])" by simp
  then have "mset (farthest_point_sampling points start) = mset points" unfolding eq map_nth .
  moreover have "order \<noteq> []" using o(2) len assms by auto
  ultimately show ?thesis using eq o len by (auto simp: hd_map coords_def)
qed

theorem sampling_is_greedy_witness:
  "hd (farthest_point_sampling [(''a'', ''A'', 0, 0), (''b'', ''B'', 1, 1), (''c'', ''C'', 0, 5)] 1) = (''b'', ''B'', 1, 1)"
proof -
  have "2 \<le> length [(''a'', ''A'', 0, 0), (''b'', ''B'', 1, 1), (''c'', ''C'', 0, 5) :: weather_point]"
    and "1 < length [(''a'', ''A'', 0, 0), (''b'', ''B'', 1, 1), (''c'', ''C'', 0, 5) :: weather_point]" by simp_all
  from sampling_is_greedy [OF this, THEN conjunct2, THEN conjunct1] show ?thesis by simp
qed

end
