(* ===== verification/Weather_Regions.thy ===== *)
theory Weather_Regions
  imports Weather_Forecast Sampling
begin

text \<open>
  The answers of \<open>app/services/weather_forecast.py\<close> for capitals, states, municipalities and map views,
  on top of the resolution of readings: national samples, state averages, pages, interpolation of the
  places that are not measured, and the cells of a view.
\<close>

section \<open>Capitals\<close>

text \<open>\<open>CAPITALS\<close> of \<open>app/providers/open_meteo.py\<close> and the codes of the service.\<close>

definition CAPITALS :: "(string \<times> string \<times> real \<times> real) list" where
  "CAPITALS =
    [(''AC'', ''Rio Branco'', -9.9754, -67.8249),
     (''AL'', ''Macei'' @ [CHR 0xF3], -9.6658, -35.7353),
     (''AP'', ''Macap'' @ [CHR 0xE1], 0.0349, -51.0694),
     (''AM'', ''Manaus'', -3.119, -60.0217),
     (''BA'', ''Salvador'', -12.9714, -38.5014),
     (''CE'', ''Fortaleza'', -3.7172, -38.5433),
     (''DF'', ''Bras'' @ [CHR 0xED] @ ''lia'', -15.7939, -47.8828),
     (''ES'', ''Vit'' @ [CHR 0xF3] @ ''ria'', -20.3155, -40.3128),
     (''GO'', ''Goi'' @ [CHR 0xE2] @ ''nia'', -16.6869, -49.2648),
     (''MA'', ''S'' @ [CHR 0xE3] @ ''o Lu'' @ [CHR 0xED] @ ''s'', -2.5297, -44.2825),
     (''MT'', ''Cuiab'' @ [CHR 0xE1], -15.6014, -56.0979),
     (''MS'', ''Campo Grande'', -20.4697, -54.6201),
     (''MG'', ''Belo Horizonte'', -19.9167, -43.9345),
     (''PA'', ''Bel'' @ [CHR 0xE9] @ ''m'', -1.4558, -48.4902),
     (''PB'', ''Jo'' @ [CHR 0xE3] @ ''o Pessoa'', -7.1195, -34.845),
     (''PR'', ''Curitiba'', -25.4284, -49.2733),
     (''PE'', ''Recife'', -8.0476, -34.877),
     (''PI'', ''Teresina'', -5.0892, -42.8019),
     (''RJ'', ''Rio de Janeiro'', -22.9068, -43.1729),
     (''RN'', ''Natal'', -5.7945, -35.211),
     (''RS'', ''Porto Alegre'', -30.0346, -51.2177),
     (''RO'', ''Porto Velho'', -8.7608, -63.8999),
     (''RR'', ''Boa Vista'', 2.8235, -60.6758),
     (''SC'', ''Florian'' @ [CHR 0xF3] @ ''polis'', -27.5954, -48.548),
     (''SP'', ''S'' @ [CHR 0xE3] @ ''o Paulo'', -23.5505, -46.6333),
     (''SE'', ''Aracaju'', -10.9472, -37.0731),
     (''TO'', ''Palmas'', -10.184, -48.3336)]"

definition CAPITAL_IBGE_CODES :: "(string \<times> string) list" where
  "CAPITAL_IBGE_CODES =
    [(''AC'', ''1200401''), (''AL'', ''2704302''), (''AM'', ''1302603''),
     (''AP'', ''1600303''), (''BA'', ''2927408''), (''CE'', ''2304400''),
     (''DF'', ''5300108''), (''ES'', ''3205309''), (''GO'', ''5208707''),
     (''MA'', ''2111300''), (''MG'', ''3106200''), (''MS'', ''5002704''),
     (''MT'', ''5103403''), (''PA'', ''1501402''), (''PB'', ''2507507''),
     (''PE'', ''2611606''), (''PI'', ''2211001''), (''PR'', ''4106902''),
     (''RJ'', ''3304557''), (''RN'', ''2408102''), (''RO'', ''1100205''),
     (''RR'', ''1400100''), (''RS'', ''4314902''), (''SC'', ''4205407''),
     (''SE'', ''2800308''), (''SP'', ''3550308''), (''TO'', ''1721000'')]"

definition STATE_SAMPLE_SIZE :: nat where "STATE_SAMPLE_SIZE = 20"
definition NATIONAL_KM2_PER_POINT :: real where "NATIONAL_KM2_PER_POINT = 60000"
definition NATIONAL_MIN_POINTS :: int where "NATIONAL_MIN_POINTS = 2"
definition NATIONAL_MAX_POINTS :: int where "NATIONAL_MAX_POINTS = 8"
definition STATE_RESPONSE_SECONDS :: int where "STATE_RESPONSE_SECONDS = 60"

record weather_response =
  wr_fetched :: instant
  wr_stale :: bool
  wr_cities :: "weather_city list"
  wr_next_offset :: "nat option"
  wr_summary :: "weather_summary option"

text \<open>The validator of \<open>WeatherCurrentResponse\<close> adds the summary when there are cities.\<close>

definition mk_response :: "instant \<Rightarrow> bool \<Rightarrow> weather_city list \<Rightarrow> nat option \<Rightarrow> weather_response" where
  "mk_response fetched stale cities next = \<lparr>wr_fetched = fetched, wr_stale = stale, wr_cities = cities,
     wr_next_offset = next, wr_summary = (if cities = [] then None else Some (build_weather_summary cities))\<rparr>"

definition response_of :: "instant \<Rightarrow> weather_city list \<Rightarrow> reading list \<Rightarrow> bool \<Rightarrow> nat option \<Rightarrow> weather_response" where
  "response_of now cities readings outdated next =
     mk_response (case List.map wr_fetched_at readings of [] \<Rightarrow> now | t # ts \<Rightarrow> foldl min t ts) outdated cities next"

definition capital_point :: "string \<times> string \<times> real \<times> real \<Rightarrow> point" where
  "capital_point capital =
     (case capital of (state, name, lat, lon) \<Rightarrow>
        \<lparr>pt_code = the (map_of CAPITAL_IBGE_CODES state), pt_name = name, pt_uf = state, pt_lat = lat, pt_lon = lon\<rparr>)"

definition named_city :: "string \<Rightarrow> string \<Rightarrow> reading \<Rightarrow> weather_city" where
  "named_city i name r = (wr_city r)\<lparr>wc_id := i, wc_name := name\<rparr>"

definition measured_city :: "point \<Rightarrow> reading \<Rightarrow> weather_city" where
  "measured_city p r = (wr_city r)\<lparr>wc_id := pt_code p, wc_name := pt_name p, wc_is_inferred := False\<rparr>"

definition readings_for :: "point list \<Rightarrow> (string \<times> reading) list \<Rightarrow> (point \<times> reading) list" where
  "readings_for points readings =
     List.map_filter (\<lambda>p. map_option (Pair p) (map_of readings (pt_code p))) points"

definition capitals ::
    "resolve_env \<Rightarrow> point list \<Rightarrow> variant \<Rightarrow> bool \<Rightarrow> forecast_state
     \<Rightarrow> (domain_error + weather_response) \<times> forecast_state" where
  "capitals n points v force st =
     (case resolve n points MAP_FRESHNESS v force st of
        (Inl e, st1) \<Rightarrow> (Inl e, st1)
      | (Inr (readings, outdated), st1) \<Rightarrow>
          (let found = readings_for points readings in
           (Inr (response_of (v_now n) (List.map (\<lambda>(p, r). named_city (pt_uf p) (pt_name p) r) found)
              (List.map snd found) outdated None), st1)))"

definition get_current ::
    "resolve_env \<Rightarrow> bool \<Rightarrow> bool \<Rightarrow> forecast_state \<Rightarrow> (domain_error + weather_response) \<times> forecast_state" where
  "get_current n include_forecast force st =
     capitals n (List.map capital_point CAPITALS) (if include_forecast then Forecast else Current) force st"

section \<open>State averages\<close>

record national_sample =
  ns_abbreviation :: string
  ns_name :: string
  ns_points :: "point list"
  ns_weights :: "real list"

definition sample_size :: "real \<Rightarrow> int \<Rightarrow> int" where
  "sample_size area_km2 municipalities =
     (let wanted = round_half_even (area_km2 / NATIONAL_KM2_PER_POINT) in
      min municipalities (max NATIONAL_MIN_POINTS (min NATIONAL_MAX_POINTS wanted)))"

definition sample_dist :: "real \<Rightarrow> point \<Rightarrow> point \<Rightarrow> real" where
  "sample_dist cos_lat p s = (pt_lat s - pt_lat p) ^ 2 + ((pt_lon s - pt_lon p) * cos_lat) ^ 2"

text \<open>\<open>distances.index(min(distances))\<close>: the first of the nearest.\<close>

definition nearest_index :: "real list \<Rightarrow> nat" where
  "nearest_index ds = index_of (\<lambda>d. \<forall>e \<in> set ds. d \<le> e) ds"

definition area_of :: "(string \<times> real) list \<Rightarrow> string \<Rightarrow> real" where
  "area_of area code = (case map_of area code of None \<Rightarrow> 0 | Some a \<Rightarrow> a)"

definition area_weights :: "point list \<Rightarrow> point list \<Rightarrow> (string \<times> real) list \<Rightarrow> real list" where
  "area_weights points sample area =
     (let cos_lat = cos (radians (sum_list (List.map pt_lat points) / of_nat (length points))) in
      foldl (\<lambda>weights p.
          let i = nearest_index (List.map (sample_dist cos_lat p) sample) in
          weights[i := weights ! i + area_of area (pt_code p)])
        (replicate (length sample) 0) points)"

definition mean_of_pairs :: "(real \<times> real) list \<Rightarrow> real option" where
  "mean_of_pairs pairs =
     (if pairs = [] then None
      else let total = sum_list (List.map fst pairs) in
        if total \<le> 0 then Some (round_places 1 (sum_list (List.map snd pairs) / of_nat (length pairs)))
        else Some (round_places 1 (sum_list (List.map (\<lambda>(w, v). w * v) pairs) / total)))"

definition mean_field :: "(weather_city \<Rightarrow> real option) \<Rightarrow> (real \<times> weather_city) list \<Rightarrow> real option" where
  "mean_field f measured = mean_of_pairs (List.map_filter (\<lambda>(w, c). map_option (Pair w) (f c)) measured)"

definition sky_weights :: "(real \<times> weather_city) list \<Rightarrow> (int \<times> real) list" where
  "sky_weights measured =
     foldl (\<lambda>sky (w, c). case wc_weather_code c of
         None \<Rightarrow> sky
       | Some code \<Rightarrow> AList.update code ((case map_of sky code of None \<Rightarrow> 0 | Some x \<Rightarrow> x) + w) sky) [] measured"

text \<open>\<open>max\<close> with a key keeps the first of the greatest.\<close>

definition max_sky :: "(int \<times> real) list \<Rightarrow> int option" where
  "max_sky sky =
     (case sky of [] \<Rightarrow> None | s # ss \<Rightarrow> Some (fst (foldl (\<lambda>a b. if snd b > snd a then b else a) s ss)))"

definition max_list :: "real list \<Rightarrow> real option" where
  "max_list xs = (case xs of [] \<Rightarrow> None | y # ys \<Rightarrow> Some (foldl max y ys))"

definition measured_points :: "national_sample \<Rightarrow> (string \<times> reading) list \<Rightarrow> (real \<times> weather_city) list" where
  "measured_points sample readings =
     List.map_filter (\<lambda>(p, w). map_option (\<lambda>r. (w, wr_city r)) (map_of readings (pt_code p)))
       (zip (ns_points sample) (ns_weights sample))"

definition state_average :: "national_sample \<Rightarrow> (string \<times> reading) list \<Rightarrow> weather_city option" where
  "state_average sample readings =
     (let measured = measured_points sample readings; cities = List.map snd measured in
      case cities of
        [] \<Rightarrow> None
      | first # others \<Rightarrow>
          (let base = (case Option.bind (map_of CAPITAL_IBGE_CODES (ns_abbreviation sample)) (map_of readings) of
                 None \<Rightarrow> first | Some r \<Rightarrow> wr_city r);
               chances = List.map_filter wc_precipitation_probability_pct cities in
           Some (base\<lparr>wc_id := ns_abbreviation sample, wc_name := ns_name sample,
             wc_observed_at := foldl min (wc_observed_at first) (List.map wc_observed_at others),
             wc_temperature_c := the (mean_field (\<lambda>c. Some (wc_temperature_c c)) measured),
             wc_apparent_temperature_c := mean_field wc_apparent_temperature_c measured,
             wc_humidity_pct := mean_field wc_humidity_pct measured,
             wc_wind_speed_kmh := mean_field wc_wind_speed_kmh measured,
             wc_weather_code := max_sky (sky_weights measured),
             wc_precipitation_48h_mm := mean_field wc_precipitation_48h_mm measured,
             wc_precipitation_sum_mm := mean_field wc_precipitation_sum_mm measured,
             wc_precipitation_mm := max_list (List.map (\<lambda>c. case wc_precipitation_mm c of None \<Rightarrow> 0 | Some x \<Rightarrow> x) cities),
             wc_precipitation_probability_pct := max_list chances,
             wc_raining_now := list_ex wc_raining_now cities,
             wc_sample_points := Some (int (length cities)),
             wc_raining_points := Some (int (length (filter wc_raining_now cities))),
             wc_forecast := [], wc_is_inferred := False\<rparr>)))"

section \<open>The state of the service\<close>

type_synonym cell = "int \<times> int"

record region_state =
  rs_forecast :: forecast_state
  rs_responses :: "(string, weather_response) ttl_cache"
  rs_representatives :: "((string \<times> real) \<times> (cell \<times> string) list) list"
  rs_samples :: "(string \<times> national_sample) list"
  rs_version :: "int option"
  rs_dispersed :: dispersed_cache

definition new_region_state :: region_state where
  "new_region_state = \<lparr>rs_forecast = new_forecast_state, rs_responses = new_cache STATE_RESPONSE_SECONDS 64,
     rs_representatives = [], rs_samples = [], rs_version = None, rs_dispersed = new_dispersed_cache\<rparr>"

text \<open>
  What a request meets: the database, PostGIS (\<open>ST_PointOnSurface\<close> and the area in square kilometres), the
  order of texts, the data version, the clocks, and the environment of its resolution.
\<close>

record region_env =
  re_db :: db
  re_surface :: "geometry \<Rightarrow> real \<times> real"
  re_area :: "geometry \<Rightarrow> real"
  re_collate :: "string \<Rightarrow> string"
  re_version :: int
  re_clock :: clock
  re_clock_end :: clock
  re_now :: instant
  re_resolve :: resolve_env

definition refresh_geography :: "int \<Rightarrow> region_state \<Rightarrow> region_state" where
  "refresh_geography version st =
     (if rs_version st = Some version then st
      else st\<lparr>rs_responses := cache_clear (rs_responses st), rs_representatives := [], rs_samples := [],
              rs_version := Some version\<rparr>)"

definition reset_region_state :: "region_state \<Rightarrow> region_state" where
  "reset_region_state st =
     (let f = rs_forecast st in
      st\<lparr>rs_forecast := f\<lparr>fs_readings := cache_clear (fs_readings f), fs_inflight := [],
           fs_cooldown := cooldown_reset (fs_cooldown f), fs_limited_until := 0, fs_limit_error := None\<rparr>,
         rs_responses := cache_clear (rs_responses st), rs_representatives := [], rs_samples := [], rs_version := None\<rparr>)"

definition points_of_rows :: "string \<Rightarrow> weather_point list \<Rightarrow> point list" where
  "points_of_rows uf rows =
     List.map (\<lambda>(code, name, lat, lon). \<lparr>pt_code = code, pt_name = name, pt_uf = uf, pt_lat = lat, pt_lon = lon\<rparr>) rows"

definition points_in_state :: "region_env \<Rightarrow> string \<Rightarrow> string \<Rightarrow> region_state \<Rightarrow> point list \<times> region_state" where
  "points_in_state n code uf st =
     (let (rows, c) = list_weather_points (re_surface n) (re_clock n) (re_clock n) (re_version n) (re_db n) code 0 10000
            (rs_dispersed st) in
      (points_of_rows uf rows, st\<lparr>rs_dispersed := c\<rparr>))"

section \<open>All states\<close>

text \<open>\<open>municipality_areas\<close>: \<open>None\<close> for a municipality without a canonical geometry or with area 0.\<close>

definition municipality_areas :: "(geometry \<Rightarrow> real) \<Rightarrow> db \<Rightarrow> (string \<times> real option) list" where
  "municipality_areas area d =
     List.map (\<lambda>t. (t_ibge_code t,
        case outer_join (\<lambda>g. g_territory_id g = t_id t \<and> g_lod g = Canonical) (territory_geometries d) of
          None \<Rightarrow> None | Some g \<Rightarrow> if area (g_geom g) = 0 then None else Some (area (g_geom g))))
       (filter (\<lambda>t. t_level t = Municipality \<and> territory_by_id (t_parent_id t) d \<noteq> None) (territories d))"

definition area_dict :: "(geometry \<Rightarrow> real) \<Rightarrow> db \<Rightarrow> (string \<times> real) list" where
  "area_dict area d =
     fold (\<lambda>(code, a) m. AList.update code (case a of None \<Rightarrow> 0 | Some x \<Rightarrow> x) m) (municipality_areas area d) []"

definition add_state_sample ::
    "region_env \<Rightarrow> (string \<times> real) list \<Rightarrow> territory_row \<Rightarrow> (string \<times> national_sample) list \<times> region_state
     \<Rightarrow> (string \<times> national_sample) list \<times> region_state" where
  "add_state_sample n area state acc =
     (let (samples, st) = acc; abbreviation = or_empty (tr_abbreviation state);
          (points, st1) = points_in_state n (tr_ibge_code state) abbreviation st in
      if points = [] \<or> map_of CAPITAL_IBGE_CODES abbreviation = None then (samples, st1)
      else
        let sz = sample_size (sum_list (List.map (\<lambda>p. area_of area (pt_code p)) points)) (int (length points));
            sample = take (nat sz) points in
        (AList.update abbreviation \<lparr>ns_abbreviation = abbreviation, ns_name = tr_name state, ns_points = sample,
           ns_weights = area_weights points sample area\<rparr> samples, st1))"

definition national_samples :: "region_env \<Rightarrow> region_state \<Rightarrow> national_sample list \<times> region_state" where
  "national_samples n st0 =
     (let st = refresh_geography (re_version n) st0 in
      if rs_samples st \<noteq> [] then (List.map snd (rs_samples st), st)
      else
        let area = area_dict (re_area n) (re_db n);
            states = list_territory_rows (re_collate n) (Some State) None None 100 0 (re_db n);
            (samples, st1) = fold (add_state_sample n area) states ([], st) in
        (List.map snd samples, st1\<lparr>rs_samples := samples\<rparr>))"

definition get_states_weather ::
    "region_env \<Rightarrow> bool \<Rightarrow> region_state \<Rightarrow> (raised + weather_response) \<times> region_state" where
  "get_states_weather n force st0 =
     (let (samples, st) = national_samples n st0 in
      case resolve (re_resolve n) (concat (List.map ns_points samples)) MAP_FRESHNESS Current force (rs_forecast st) of
        (Inl e, f) \<Rightarrow> (Inl (RaisedDomain e), st\<lparr>rs_forecast := f\<rparr>)
      | (Inr (readings, outdated), f) \<Rightarrow>
          (Inr (response_of (re_now n) (List.map_filter (\<lambda>s. state_average s readings) samples)
             (List.map snd readings) outdated None), st\<lparr>rs_forecast := f\<rparr>))"

section \<open>One territory\<close>

definition weather_point_of :: "region_env \<Rightarrow> string \<Rightarrow> (real \<times> real) option" where
  "weather_point_of n code =
     (case [g. g \<leftarrow> territory_geometries (re_db n), t \<leftarrow> territories (re_db n),
             t_id t = g_territory_id g, t_ibge_code t = code, g_lod g = Overview] of
        [] \<Rightarrow> None | g # _ \<Rightarrow> Some (re_surface n (g_geom g)))"

text \<open>One place: resolved, and answered under an identifier and a name; a missing reading is a \<open>KeyError\<close>.\<close>

definition one_place ::
    "region_env \<Rightarrow> point \<Rightarrow> string \<Rightarrow> string \<Rightarrow> variant \<Rightarrow> bool \<Rightarrow> region_state
     \<Rightarrow> (raised + weather_response) \<times> region_state" where
  "one_place n p i name v force st =
     (case resolve (re_resolve n) [p] SELECTED_FRESHNESS v force (rs_forecast st) of
        (Inl e, f) \<Rightarrow> (Inl (RaisedDomain e), st\<lparr>rs_forecast := f\<rparr>)
      | (Inr (readings, outdated), f) \<Rightarrow>
          (case map_of readings (pt_code p) of
             None \<Rightarrow> (Inl RaisedOther, st\<lparr>rs_forecast := f\<rparr>)
           | Some r \<Rightarrow> (Inr (response_of (re_now n) [named_city i name r] (List.map snd readings) outdated None),
                        st\<lparr>rs_forecast := f\<rparr>)))"

definition get_territory_current ::
    "region_env \<Rightarrow> string \<Rightarrow> bool \<Rightarrow> bool \<Rightarrow> region_state \<Rightarrow> (raised + weather_response) \<times> region_state" where
  "get_territory_current n code include_forecast force st =
     (let v = (if include_forecast then Forecast else Current) in
      case get_by_code code (re_db n) of
        None \<Rightarrow> (Inl (RaisedDomain (territory_not_found code)), st)
      | Some t \<Rightarrow>
          if tr_level t = State then
            (case List.find (\<lambda>c. Some (fst c) = tr_abbreviation t) CAPITALS of
               None \<Rightarrow> (Inl (RaisedDomain (invalid_parameter None [])), st)
             | Some capital \<Rightarrow>
                 (let p = capital_point capital in one_place n p (pt_uf p) (pt_name p) v force st))
          else if tr_level t \<noteq> Municipality then
            (Inl (RaisedDomain (invalid_parameter (Some ''territory'') [])), st)
          else
            (case weather_point_of n code of
               None \<Rightarrow> (Inl (RaisedDomain (mk_error ProviderError [])), st)
             | Some (lat, lon) \<Rightarrow>
                 (let parent = (case tr_parent_ibge_code t of Some (c # cs) \<Rightarrow> get_by_code (c # cs) (re_db n) | _ \<Rightarrow> None);
                      uf = (case parent of None \<Rightarrow> [] | Some q \<Rightarrow> or_empty (tr_abbreviation q)) in
                  one_place n \<lparr>pt_code = code, pt_name = tr_name t, pt_uf = uf, pt_lat = lat, pt_lon = lon\<rparr>
                    code (tr_name t) v force st)))"

section \<open>The municipalities of a state\<close>

definition state_points :: "region_env \<Rightarrow> string \<Rightarrow> region_state \<Rightarrow> (raised + point list) \<times> region_state" where
  "state_points n parent st0 =
     (let st = refresh_geography (re_version n) st0 in
      case get_by_code parent (re_db n) of
        None \<Rightarrow> (Inl (RaisedDomain (territory_not_found parent)), st)
      | Some s \<Rightarrow>
          if tr_level s \<noteq> State then (Inl (RaisedDomain (invalid_parameter (Some ''parent'') [])), st)
          else let (points, st1) = points_in_state n parent (or_empty (tr_abbreviation s)) st in (Inr points, st1))"

definition get_municipalities_current ::
    "region_env \<Rightarrow> string \<Rightarrow> nat \<Rightarrow> nat \<Rightarrow> bool \<Rightarrow> region_state \<Rightarrow> (raised + weather_response) \<times> region_state" where
  "get_municipalities_current n parent offset limit force st0 =
     (case state_points n parent st0 of
        (Inl e, st) \<Rightarrow> (Inl e, st)
      | (Inr points, st) \<Rightarrow>
          (let page = take limit (drop offset points) in
           if page = [] then (Inr (mk_response (re_now n) False [] None), st)
           else (case resolve (re_resolve n) page MAP_FRESHNESS Current force (rs_forecast st) of
               (Inl e, f) \<Rightarrow> (Inl (RaisedDomain e), st\<lparr>rs_forecast := f\<rparr>)
             | (Inr (readings, outdated), f) \<Rightarrow>
                 (let found = readings_for page readings in
                  (Inr (response_of (re_now n) (List.map (\<lambda>(p, r). measured_city p r) found) (List.map snd found) outdated
                     (if offset + limit < length points then Some (offset + limit) else None)),
                   st\<lparr>rs_forecast := f\<rparr>)))))"

text \<open>Places without a measured city are estimated; the interpolation raises when nothing is measured.\<close>

definition measured_or_estimated ::
    "(string \<times> weather_city) list \<Rightarrow> weather_city list \<Rightarrow> point \<Rightarrow> raised + weather_city" where
  "measured_or_estimated measured base p =
     (case map_of measured (pt_code p) of
        Some c \<Rightarrow> Inr c
      | None \<Rightarrow> interpolate_municipal_weather (pt_code p) (pt_name p) (pt_lat p) (pt_lon p) base (pt_uf p))"

fun collect_results :: "('e + 'a) list \<Rightarrow> 'e + 'a list" where
  "collect_results [] = Inr []"
| "collect_results (Inl e # rs) = Inl e"
| "collect_results (Inr x # rs) = (case collect_results rs of Inl e \<Rightarrow> Inl e | Inr xs \<Rightarrow> Inr (x # xs))"

definition get_state_weather ::
    "region_env \<Rightarrow> string \<Rightarrow> bool \<Rightarrow> region_state \<Rightarrow> (raised + weather_response) \<times> region_state" where
  "get_state_weather n parent force st0 =
     (case state_points n parent st0 of
        (Inl e, st) \<Rightarrow> (Inl e, st)
      | (Inr points, st) \<Rightarrow>
          (let (cached, c1) = (if force then (None, rs_responses st) else cache_get (re_clock n) parent (rs_responses st));
               st1 = st\<lparr>rs_responses := c1\<rparr> in
           case cached of
             Some r \<Rightarrow> (Inr r, st1)
           | None \<Rightarrow>
               if points = [] then (Inr (mk_response (re_now n) False [] None), st1)
               else
                 let sample = take STATE_SAMPLE_SIZE points in
                 (case resolve (re_resolve n) sample MAP_FRESHNESS Current force (rs_forecast st1) of
                    (Inl e, f) \<Rightarrow> (Inl (RaisedDomain e), st1\<lparr>rs_forecast := f\<rparr>)
                  | (Inr (readings, outdated), f) \<Rightarrow>
                      (let st2 = st1\<lparr>rs_forecast := f\<rparr>;
                           measured = fold (\<lambda>(p, r) m. AList.update (pt_code p) (measured_city p r) m)
                             (readings_for sample readings) [] in
                       case collect_results (List.map (measured_or_estimated measured (List.map snd measured)) points) of
                         Inl e \<Rightarrow> (Inl e, st2)
                       | Inr cities \<Rightarrow>
                           (let r = response_of (re_now n) cities (List.map snd readings) outdated None in
                            (Inr r, if outdated then st2
                                    else st2\<lparr>rs_responses := cache_set (re_clock_end n) parent r None (rs_responses st2)\<rparr>))))))"

section \<open>Map views\<close>

definition CELL_SIZES :: "real list" where "CELL_SIZES = [1, 0.5, 0.25, 0.1]"
definition MAX_MEASURED_PER_VIEW :: nat where "MAX_MEASURED_PER_VIEW = 80"

definition cell_size :: "int \<Rightarrow> bbox \<Rightarrow> real" where
  "cell_size zoom bbox =
     (case bbox of (west, south, east, north) \<Rightarrow>
        let span = max (east - west) (north - south) in
        if zoom \<ge> 10 \<and> span \<le> 3 then 0
        else if zoom \<ge> 9 \<and> span \<le> 6 then 0.25
        else if span \<le> 12 then 0.5 else 1)"

definition cell_at :: "real \<Rightarrow> real \<Rightarrow> real \<Rightarrow> cell" where
  "cell_at lat lon sz = (\<lfloor>lat / sz\<rfloor>, \<lfloor>lon / sz\<rfloor>)"

abbreviation cell_of :: "real \<Rightarrow> point \<Rightarrow> cell" where
  "cell_of sz p \<equiv> cell_at (pt_lat p) (pt_lon p) sz"

text \<open>The rank of a place in its cell: priority, squared distance to the centre, code.\<close>

definition cell_rank :: "point set \<Rightarrow> string set \<Rightarrow> real \<Rightarrow> point \<Rightarrow> nat \<times> real \<times> string" where
  "cell_rank sample coarser sz p =
     (let c = cell_of sz p; center_lat = (of_int (fst c) + 0.5) * sz; center_lon = (of_int (snd c) + 0.5) * sz;
          priority = (if pt_code p \<in> pt_code ` sample then 0 else if pt_code p \<in> coarser then 1 else 2) in
      (priority, (pt_lat p - center_lat) ^ 2 + (pt_lon p - center_lon) ^ 2, pt_code p))"

definition rank_less :: "nat \<times> real \<times> string \<Rightarrow> nat \<times> real \<times> string \<Rightarrow> bool" where
  "rank_less a b \<longleftrightarrow> fst a < fst b \<or> (fst a = fst b \<and>
     (fst (snd a) < fst (snd b) \<or> (fst (snd a) = fst (snd b) \<and> snd (snd a) < snd (snd b))))"

definition best_in_cells ::
    "(point \<Rightarrow> nat \<times> real \<times> string) \<Rightarrow> real \<Rightarrow> point list \<Rightarrow> (cell \<times> (nat \<times> real \<times> string) \<times> string) list" where
  "best_in_cells rank sz points =
     foldl (\<lambda>best p. case map_of best (cell_of sz p) of
         None \<Rightarrow> AList.update (cell_of sz p) (rank p, pt_code p) best
       | Some (r, _) \<Rightarrow> if rank_less (rank p) r then AList.update (cell_of sz p) (rank p, pt_code p) best else best)
       [] points"

text \<open>
  The representatives of the coarser sizes are computed (and cached) first; the recursion goes down the
  list of sizes larger than the one asked, in the order of \<open>_CELL_SIZES\<close>.
\<close>

function cell_representatives ::
    "string \<Rightarrow> point list \<Rightarrow> real \<Rightarrow> ((string \<times> real) \<times> (cell \<times> string) list) list
     \<Rightarrow> (cell \<times> string) list \<times> ((string \<times> real) \<times> (cell \<times> string) list) list" where
  "cell_representatives state points sz cache =
     (case map_of cache (state, sz) of
        Some reps \<Rightarrow> (reps, cache)
      | None \<Rightarrow>
          (let (coarser, cache1) =
                 foldl (\<lambda>acc larger.
                     if larger > sz
                     then let (reps, c1) = cell_representatives state points larger (snd acc) in (fst acc \<union> snd ` set reps, c1)
                     else acc) ({}, cache) CELL_SIZES;
               best = best_in_cells (cell_rank (set (take STATE_SAMPLE_SIZE points)) coarser sz) sz points;
               reps = List.map (\<lambda>(cell, _, code). (cell, code)) best in
           (reps, AList.update (state, sz) reps cache1)))"
  by pat_completeness auto

termination
proof (relation "measure (\<lambda>(state, points, sz, cache). card {s \<in> set CELL_SIZES. s > sz})", goal_cases)
  case (2 state points sz cache acc larger)
  have "{s \<in> set CELL_SIZES. s > larger} \<subset> {s \<in> set CELL_SIZES. s > sz}" using 2(2,3) by auto
  then have "card {s \<in> set CELL_SIZES. s > larger} < card {s \<in> set CELL_SIZES. s > sz}" by (intro psubset_card_mono) auto
  then show ?case by simp
qed simp

declare cell_representatives.simps [simp del]

text \<open>
  The view's places: the municipalities whose canonical geometry meets the box (\<open>intersects\<close>, with
  PostGIS's distance to its centre), nearest first, 2,500 at most.
\<close>

definition visible_points ::
    "region_env \<Rightarrow> (geometry \<Rightarrow> bbox \<Rightarrow> bool) \<Rightarrow> (real \<times> real \<Rightarrow> bbox \<Rightarrow> real) \<Rightarrow> bbox \<Rightarrow> string option \<Rightarrow> point list" where
  "visible_points n intersects distance bbox parent =
     (let rows = [\<lparr>pt_code = t_ibge_code t, pt_name = t_name t, pt_uf = or_empty (t_abbreviation s),
                   pt_lat = fst (re_surface n (g_geom g)), pt_lon = snd (re_surface n (g_geom g))\<rparr>.
            t \<leftarrow> territories (re_db n), s \<leftarrow> territories (re_db n), g \<leftarrow> territory_geometries (re_db n),
            t_parent_id t = Some (t_id s), g_territory_id g = t_id t, t_level t = Municipality, g_lod g = Canonical,
            intersects (g_geom g) bbox,
            case parent of Some (c # cs) \<Rightarrow> is_prefix (c # cs) (t_ibge_code t) | _ \<Rightarrow> True] in
      take 2500 (sort_key (\<lambda>p. distance (pt_lat p, pt_lon p) bbox) (sort_key pt_code rows)))"

definition view_size :: "real \<Rightarrow> point list \<Rightarrow> real" where
  "view_size start area =
     snd (foldl (\<lambda>(stop, sz) coarser.
         if stop then (stop, sz)
         else if (if sz \<noteq> 0 then card (cell_of sz ` set area) else length area) \<le> MAX_MEASURED_PER_VIEW then (True, sz)
         else (False, coarser)) (False, start) (filter (\<lambda>v. v > start) (sort CELL_SIZES)))"

definition choose_point ::
    "real \<Rightarrow> (string \<times> point list) list \<Rightarrow> (string \<times> point) list
     \<Rightarrow> (string \<times> point) list \<times> ((string \<times> real) \<times> (cell \<times> string) list) list \<Rightarrow> point
     \<Rightarrow> (string \<times> point) list \<times> ((string \<times> real) \<times> (cell \<times> string) list) list" where
  "choose_point sz by_state position acc p =
     (let state = take 2 (pt_code p);
          (cells, cache) = cell_representatives state (case map_of by_state state of None \<Rightarrow> [] | Some ps \<Rightarrow> ps) sz (snd acc);
          code = (case map_of cells (cell_of sz p) of None \<Rightarrow> pt_code p | Some c \<Rightarrow> c) in
      (setdefault code (case map_of position code of None \<Rightarrow> p | Some q \<Rightarrow> q) (fst acc), cache))"

definition to_measure ::
    "real \<Rightarrow> point list \<Rightarrow> (string \<times> point list) list \<Rightarrow> (string \<times> point) list
     \<Rightarrow> ((string \<times> real) \<times> (cell \<times> string) list) list
     \<Rightarrow> point list \<times> ((string \<times> real) \<times> (cell \<times> string) list) list" where
  "to_measure sz area by_state position cache =
     (if sz = 0 then (area, cache)
      else let (chosen, cache1) = foldl (choose_point sz by_state position) ([], cache) area in
        (List.map snd chosen, cache1))"

definition points_by_state ::
    "region_env \<Rightarrow> point list \<Rightarrow> region_state \<Rightarrow> (string \<times> point list) list \<times> region_state" where
  "points_by_state n visible st =
     (let states = fold (\<lambda>p m. AList.update (take 2 (pt_code p)) (pt_uf p) m) visible [] in
      foldl (\<lambda>acc (state, uf).
          let (points, st1) = points_in_state n state uf (snd acc) in (fst acc @ [(state, points)], st1)) ([], st) states)"

text \<open>\<open>_peek\<close>: the known readings that are recent, without asking the source.\<close>

definition peek ::
    "clock \<Rightarrow> clock \<Rightarrow> instant \<Rightarrow> (string list \<Rightarrow> reading option list) \<Rightarrow> (forecast_state \<Rightarrow> forecast_state)
     \<Rightarrow> point list \<Rightarrow> forecast_state \<Rightarrow> (string \<times> reading) list \<times> forecast_state" where
  "peek clk later now shared meanwhile points st =
     (let (known, st1) = load clk later now (List.map (\<lambda>p. reading_key Current (pt_code p)) points) MAP_FRESHNESS shared
            meanwhile st in
      (fold (\<lambda>p m. case map_of known (reading_key Current (pt_code p)) of
           None \<Rightarrow> m
         | Some r \<Rightarrow> if within_age (wr_city r) now MAX_DATA_AGE then AList.update (pt_code p) r m else m) points [], st1))"

definition measured_or_inferred :: "(string \<times> reading) list \<Rightarrow> point \<Rightarrow> raised + weather_city" where
  "measured_or_inferred known p =
     (case map_of known (pt_code p) of
        Some r \<Rightarrow> Inr (measured_city p r)
      | None \<Rightarrow> interpolate_municipal_weather (pt_code p) (pt_name p) (pt_lat p) (pt_lon p)
          (List.map (\<lambda>(k, r). wr_city r) known) (pt_uf p))"

definition get_viewport_current ::
    "region_env \<Rightarrow> resolve_env \<Rightarrow> (geometry \<Rightarrow> bbox \<Rightarrow> bool) \<Rightarrow> (real \<times> real \<Rightarrow> bbox \<Rightarrow> real)
     \<Rightarrow> bbox \<Rightarrow> int \<Rightarrow> string option \<Rightarrow> bool \<Rightarrow> region_state \<Rightarrow> (raised + weather_response) \<times> region_state" where
  "get_viewport_current n look intersects distance bbox zoom parent force st0 =
     (let st = refresh_geography (re_version n) st0; visible = visible_points n intersects distance bbox parent in
      if visible = [] then (Inr (mk_response (re_now n) False [] None), st)
      else
        let (by_state, st1) = points_by_state n visible st;
            position = fold (\<lambda>p m. AList.update (pt_code p) p m) (concat (List.map snd by_state)) [];
            area = List.map (\<lambda>p. case map_of position (pt_code p) of None \<Rightarrow> p | Some q \<Rightarrow> q) visible;
            sz = view_size (cell_size zoom bbox) area;
            (measure_points, reps) = to_measure sz area by_state position (rs_representatives st1);
            st2 = st1\<lparr>rs_representatives := reps\<rparr> in
        case resolve (re_resolve n) measure_points MAP_FRESHNESS Current force (rs_forecast st2) of
          (Inl e, f) \<Rightarrow> (Inl (RaisedDomain e), st2\<lparr>rs_forecast := f\<rparr>)
        | (Inr (readings, outdated), f) \<Rightarrow>
            (let sample = concat (List.map (\<lambda>(s, ps). take STATE_SAMPLE_SIZE ps) by_state);
                 rest = filter (\<lambda>p. map_of readings (pt_code p) = None) (sample @ area);
                 (peeked, f1) = peek (v_clock look) (v_clock_loaded look) (v_now look) (v_shared look) (v_during_load look) rest f;
                 known = dict_update peeked readings;
                 st3 = st2\<lparr>rs_forecast := f1\<rparr> in
             case collect_results (List.map (measured_or_inferred known) area) of
               Inl e \<Rightarrow> (Inl e, st3)
             | Inr cities \<Rightarrow> (Inr (response_of (re_now n) cities (List.map snd known) outdated None), st3)))"

end
