(* ===== verification/Python_Values.thy ===== *)
theory Python_Values
  imports Json Errors
begin

text \<open>
  Python's operations on decoded JSON that can raise: subscripts, \<open>.get\<close>, iteration, arithmetic, and the
  built-in exceptions they raise. A computation is a value or an exception (\<open>py_error + 'a\<close>).
\<close>

datatype py_error =
    ValueError | TypeError | KeyError | IndexError | AttributeError | OverflowError | DomainFailure domain_error

fun and_then :: "'e + 'a \<Rightarrow> ('a \<Rightarrow> 'e + 'b) \<Rightarrow> 'e + 'b" where
  "and_then (Inl e) f = Inl e"
| "and_then (Inr x) f = f x"

fun map_each :: "('a \<Rightarrow> 'e + 'b) \<Rightarrow> 'a list \<Rightarrow> 'e + 'b list" where
  "map_each f [] = Inr []"
| "map_each f (x # xs) = and_then (f x) (\<lambda>y. and_then (map_each f xs) (\<lambda>ys. Inr (y # ys)))"

fun fold_each :: "('s \<Rightarrow> 'a \<Rightarrow> 'e + 's) \<Rightarrow> 's \<Rightarrow> 'a list \<Rightarrow> 'e + 's" where
  "fold_each f s [] = Inr s"
| "fold_each f s (x # xs) = and_then (f s x) (\<lambda>t. fold_each f t xs)"

definition from_option :: "'e \<Rightarrow> 'a option \<Rightarrow> 'e + 'a" where
  "from_option e r = (case r of None \<Rightarrow> Inl e | Some x \<Rightarrow> Inr x)"

text \<open>\<open>v[key]\<close>, \<open>v[i]\<close>, \<open>v.get(key, default)\<close>, \<open>key in v\<close> and \<open>for x in v\<close>.\<close>

fun sub_key :: "json \<Rightarrow> string \<Rightarrow> py_error + json" where
  "sub_key (JObject kvs) k = from_option KeyError (map_of kvs k)"
| "sub_key v k = Inl TypeError"

fun sub_index :: "json \<Rightarrow> nat \<Rightarrow> py_error + json" where
  "sub_index (JList xs) i = (if i < length xs then Inr (xs ! i) else Inl IndexError)"
| "sub_index (JString s) i = (if i < length s then Inr (JString [s ! i]) else Inl IndexError)"
| "sub_index (JObject kvs) i = Inl KeyError"
| "sub_index v i = Inl TypeError"

fun get_key :: "json \<Rightarrow> string \<Rightarrow> json \<Rightarrow> py_error + json" where
  "get_key (JObject kvs) k d = Inr (case map_of kvs k of None \<Rightarrow> d | Some v \<Rightarrow> v)"
| "get_key v k d = Inl AttributeError"

fun iter_values :: "json \<Rightarrow> py_error + json list" where
  "iter_values (JList xs) = Inr xs"
| "iter_values (JString s) = Inr (List.map (\<lambda>c. JString [c]) s)"
| "iter_values (JObject kvs) = Inr (List.map (\<lambda>(k, v). JString k) kvs)"
| "iter_values v = Inl TypeError"

fun len_of :: "json \<Rightarrow> py_error + nat" where
  "len_of (JList xs) = Inr (length xs)"
| "len_of (JString s) = Inr (length s)"
| "len_of (JObject kvs) = Inr (length kvs)"
| "len_of v = Inl TypeError"

text \<open>The number a value counts as in arithmetic and comparisons with numbers.\<close>

fun number :: "json \<Rightarrow> py_error + real" where
  "number (JInt n) = Inr (of_int n)"
| "number (JFloat x) = Inr x"
| "number (JBool b) = Inr (if b then 1 else 0)"
| "number v = Inl TypeError"

definition or_empty_list :: "json \<Rightarrow> json" where
  "or_empty_list v = (if truthy v then v else JList [])"

text \<open>\<open>str.isdigit()\<close>, which also holds for the superscripts one, two and three, and \<open>int(text)\<close> for such texts.\<close>

definition is_digit_char :: "char \<Rightarrow> bool" where
  "is_digit_char c \<longleftrightarrow> is_ascii_digit c \<or> (of_char c :: nat) \<in> {178, 179, 185}"

definition py_isdigit :: "string \<Rightarrow> bool" where
  "py_isdigit s \<longleftrightarrow> s \<noteq> [] \<and> list_all is_digit_char s"

text \<open>\<open>int\<close> refuses the superscripts and more than 4,300 digits.\<close>

definition int_of_digits :: "string \<Rightarrow> py_error + int" where
  "int_of_digits s = (if all_digits s \<and> length s \<le> 4300 then Inr (digits_to_int s) else Inl ValueError)"

text \<open>The slices \<open>xs[start : start + n]\<close> for \<open>start in range(0, len(xs), n)\<close>.\<close>

fun batches :: "nat \<Rightarrow> 'a list \<Rightarrow> 'a list list" where
  "batches n xs = (if xs = [] \<or> n = 0 then [] else take n xs # batches n (drop n xs))"

declare batches.simps [simp del]

lemma concat_batches: "n \<noteq> 0 \<Longrightarrow> concat (batches n xs) = xs"
proof (induction n xs rule: batches.induct)
  case (1 n xs)
  then show ?case by (subst batches.simps) auto
qed

lemma and_then_Inr: "and_then r f = Inr y \<longleftrightarrow> (\<exists>x. r = Inr x \<and> f x = Inr y)"
  by (cases r) auto

lemma and_then_Inl: "and_then r f = Inl e \<longleftrightarrow> r = Inl e \<or> (\<exists>x. r = Inr x \<and> f x = Inl e)"
  by (cases r) auto

lemma map_each_Inr: "map_each f xs = Inr ys \<longleftrightarrow> list_all2 (\<lambda>x y. f x = Inr y) xs ys"
  by (induction xs arbitrary: ys) (auto simp: and_then_Inr list_all2_Cons1)

lemma map_each_Inl: "map_each f xs = Inl e \<Longrightarrow> \<exists>x \<in> set xs. f x = Inl e"
  by (induction xs) (auto simp: and_then_Inl)

lemma fold_each_append:
  "fold_each f s (xs @ ys) = and_then (fold_each f s xs) (\<lambda>t. fold_each f t ys)"
proof (induction xs arbitrary: s)
  case (Cons x xs)
  then show ?case by (cases "f s x") auto
qed simp

lemma from_option_Inr [simp]: "from_option e r = Inr x \<longleftrightarrow> r = Some x"
  by (cases r) (auto simp: from_option_def)

lemma from_option_Inl [simp]: "from_option e r = Inl e' \<longleftrightarrow> r = None \<and> e' = e"
  by (cases r) (auto simp: from_option_def)

section \<open>Computations that raise no error of the domain\<close>

named_theorems plain_intros \<open>computations that raise built-in exceptions only\<close>

definition plain :: "py_error + 'a \<Rightarrow> bool" where
  "plain r \<longleftrightarrow> (\<forall>e. r \<noteq> Inl (DomainFailure e))"

lemma plain_and_then [plain_intros]: "plain r \<Longrightarrow> (\<And>x. r = Inr x \<Longrightarrow> plain (f x)) \<Longrightarrow> plain (and_then r f)"
  by (cases r) (auto simp: plain_def)

lemma plain_Inr [plain_intros]: "plain (Inr x)"
  by (simp add: plain_def)

lemma plain_Inl [plain_intros]:
  "plain (Inl ValueError)" "plain (Inl TypeError)" "plain (Inl KeyError)" "plain (Inl IndexError)"
  "plain (Inl AttributeError)" "plain (Inl OverflowError)"
  by (auto simp: plain_def)

lemma plain_map_each [plain_intros]: "(\<And>x. plain (f x)) \<Longrightarrow> plain (map_each f xs)"
  by (induction xs) (auto intro!: plain_intros)

lemma plain_fold_each [plain_intros]: "(\<And>s x. plain (f s x)) \<Longrightarrow> plain (fold_each f s xs)"
  by (induction xs arbitrary: s) (auto intro!: plain_intros)

lemma plain_if [plain_intros]: "plain r \<Longrightarrow> plain q \<Longrightarrow> plain (if b then r else q)"
  by simp

lemma plain_from_option [plain_intros]: "plain (Inl e :: py_error + 'a) \<Longrightarrow> plain (from_option e (r :: 'a option))"
  by (cases r) (auto simp: from_option_def intro: plain_intros)

lemma plain_access [plain_intros]:
  "plain (sub_key v k)" "plain (sub_index v i)" "plain (get_key v k d)" "plain (iter_values v)"
  "plain (len_of v)" "plain (number v)" "plain (int_of_digits s)"
  by (cases v; auto simp: int_of_digits_def intro!: plain_intros)+

end
