(* ===== verification/Open_Meteo.thy ===== *)
theory Open_Meteo
  imports Python_Values Providers_Base Weather_Forecast
begin

text \<open>
  \<open>app/providers/open_meteo.py\<close>: one request for the weather of a list of places, the refusals of the
  source, and the reading of each place in the answer; a place is asked for under its state, so the service
  files each reading under its own code. Pydantic's conversions of a JSON value to a finite
  float, an integer and a text (\<open>cv_float\<close>, \<open>cv_int\<close>, \<open>cv_text\<close>, \<open>None\<close> when refused) and the time-zone
  database (\<open>cv_zone\<close>: the zone exists; \<open>cv_date\<close>: the local date of an instant) are parameters.
\<close>

record conversions =
  cv_float :: "json \<Rightarrow> real option"
  cv_int :: "json \<Rightarrow> int option"
  cv_text :: "json \<Rightarrow> string option"
  cv_zone :: "string \<Rightarrow> bool"
  cv_date :: "string \<Rightarrow> instant \<Rightarrow> int"

section \<open>Refusals\<close>

text \<open>\<open>_RATE_LIMIT_WINDOWS\<close> and \<open>_RATE_LIMIT_UNKNOWN\<close>, without the messages.\<close>

definition RATE_LIMIT_WINDOWS :: "(string \<times> int) list" where
  "RATE_LIMIT_WINDOWS = [(''minutely'', 60), (''hourly'', 300), (''daily'', 900)]"

definition RATE_LIMIT_UNKNOWN :: int where "RATE_LIMIT_UNKNOWN = 300"

definition refusal_reason :: "(json \<Rightarrow> string) \<Rightarrow> json option \<Rightarrow> string" where
  "refusal_reason repr body =
     (case body of
        Some (JObject kvs) \<Rightarrow>
          py_lower (py_str repr (case map_of kvs ''reason'' of None \<Rightarrow> JString [] | Some v \<Rightarrow> v))
      | _ \<Rightarrow> [])"

definition rate_limit_error :: "(json \<Rightarrow> string) \<Rightarrow> http_response \<Rightarrow> py_error + domain_error" where
  "rate_limit_error repr response =
     (let reason = refusal_reason repr (h_json response);
          wait = (case List.find (\<lambda>(window, wait). contains_text window reason) RATE_LIMIT_WINDOWS of
                    None \<Rightarrow> RATE_LIMIT_UNKNOWN | Some (_, wait) \<Rightarrow> wait);
          retry_after = h_retry_after response in
      and_then (if py_isdigit retry_after then int_of_digits retry_after else Inr wait)
        (\<lambda>n. Inr (rate_limited n)))"

section \<open>The reading of one place\<close>

definition RAIN_CODES :: "int set" where "RAIN_CODES = {51..<68} \<union> {80..<83} \<union> {95, 96, 99}"

text \<open>\<open>datetime.fromtimestamp\<close>: the years 1 to 9999; beyond 64 bits the error is another one.\<close>

definition to_instant :: "json \<Rightarrow> py_error + instant" where
  "to_instant v =
     and_then (number v) (\<lambda>s.
       if \<bar>s\<bar> \<ge> 2 ^ 63 then Inl OverflowError
       else let t = round_half_even (s * 1000000) in
         if t < - 62135596800 * 1000000 \<or> 253402300800 * 1000000 \<le> t then Inl ValueError else Inr t)"

definition in_window :: "real \<Rightarrow> json \<times> json \<Rightarrow> py_error + bool" where
  "in_window until tv =
     and_then (number (fst tv)) (\<lambda>time. Inr (until - 48 * 3600 < time \<and> time \<le> until \<and> snd tv \<noteq> JNull))"

definition last_48h :: "json \<Rightarrow> real \<Rightarrow> py_error + real option" where
  "last_48h hourly until =
     and_then (get_key hourly ''time'' (JList [])) (\<lambda>times.
     and_then (get_key hourly ''precipitation'' (JList [])) (\<lambda>rain.
     and_then (iter_values times) (\<lambda>ts.
     and_then (iter_values rain) (\<lambda>vs.
     and_then (map_each (\<lambda>tv. and_then (in_window until tv) (\<lambda>b. Inr (b, snd tv))) (zip ts vs)) (\<lambda>marked.
       let values = List.map snd (filter fst marked) in
       if values = [] then Inr None
       else and_then (map_each number values) (\<lambda>ns. Inr (Some (round_places 1 (sum_list ns)))))))))"

text \<open>\<open>value // 60\<close> of a number.\<close>

fun floor_minutes :: "json \<Rightarrow> py_error + json" where
  "floor_minutes (JInt n) = Inr (JInt (n div 60))"
| "floor_minutes (JFloat x) = Inr (JFloat (of_int \<lfloor>x / 60\<rfloor>))"
| "floor_minutes (JBool b) = Inr (JInt 0)"
| "floor_minutes v = Inl TypeError"

text \<open>\<open>code in RAIN_CODES\<close>: a list or dictionary cannot be hashed; a float equals an integer.\<close>

fun is_rain_code :: "json \<Rightarrow> py_error + bool" where
  "is_rain_code (JInt n) = Inr (n \<in> RAIN_CODES)"
| "is_rain_code (JFloat x) = Inr (\<exists>n \<in> RAIN_CODES. x = of_int n)"
| "is_rain_code (JList xs) = Inl TypeError"
| "is_rain_code (JObject kvs) = Inl TypeError"
| "is_rain_code v = Inr False"

text \<open>An optional field of the model: \<open>None\<close> stays, anything else must convert.\<close>

definition optional :: "(json \<Rightarrow> 'a option) \<Rightarrow> json \<Rightarrow> py_error + 'a option" where
  "optional conv v = (if v = JNull then Inr None else and_then (from_option ValueError (conv v)) (\<lambda>x. Inr (Some x)))"

definition first_or :: "json \<Rightarrow> json \<Rightarrow> py_error + json" where
  "first_or vs other = (if truthy vs then sub_index vs 0 else Inr other)"

text \<open>The day is built when its values are found; each field is then validated.\<close>

definition parse_day :: "conversions \<Rightarrow> string \<Rightarrow> json \<Rightarrow> json \<Rightarrow> nat \<times> json \<Rightarrow> py_error + forecast_day" where
  "parse_day cv zone daily precip_sums it =
     (let column = (\<lambda>k. and_then (sub_key daily k) (\<lambda>c. sub_index c (fst it))) in
      and_then (to_instant (snd it)) (\<lambda>t.
      and_then (column ''weather_code'') (\<lambda>code.
      and_then (column ''temperature_2m_min'') (\<lambda>tmin.
      and_then (column ''temperature_2m_max'') (\<lambda>tmax.
      and_then (column ''precipitation_probability_max'') (\<lambda>prob.
      and_then (len_of precip_sums) (\<lambda>n.
      and_then (if fst it < n then sub_index precip_sums (fst it) else Inr JNull) (\<lambda>rain.
      and_then (optional (cv_int cv) code) (\<lambda>code.
      and_then (optional (cv_float cv) tmin) (\<lambda>tmin.
      and_then (optional (cv_float cv) tmax) (\<lambda>tmax.
      and_then (optional (cv_float cv) prob) (\<lambda>prob.
      and_then (optional (cv_float cv) rain) (\<lambda>rain.
        Inr \<lparr>fd_date = cv_date cv zone t, fd_weather_code = code, fd_temperature_min_c = tmin,
          fd_temperature_max_c = tmax, fd_precipitation_probability_pct = prob,
          fd_precipitation_sum_mm = rain\<rparr>)))))))))))))"

definition parse_days :: "conversions \<Rightarrow> string \<Rightarrow> json \<Rightarrow> json \<Rightarrow> py_error + forecast_day list" where
  "parse_days cv zone daily precip_sums =
     and_then (get_key daily ''time'' (JList [])) (\<lambda>times.
     and_then (iter_values times) (\<lambda>ts.
       if has_key daily ''weather_code''
       then map_each (parse_day cv zone daily precip_sums) (zip [0..<length ts] ts)
       else Inr []))"

text \<open>What \<open>_parse_city\<close> reads, in its order, before \<open>WeatherCity\<close> validates the fields.\<close>

record raw_city =
  rc_zone :: string
  rc_observed :: instant
  rc_current :: json
  rc_rain_sum :: json
  rc_rain_chance :: json
  rc_interval :: json
  rc_rain_48h :: "real option"
  rc_raining :: bool
  rc_days :: "forecast_day list"

definition read_city :: "conversions \<Rightarrow> json \<Rightarrow> py_error + raw_city" where
  "read_city cv raw =
     and_then (sub_key raw ''current'') (\<lambda>current.
     and_then (get_key raw ''daily'' (JObject [])) (\<lambda>daily.
     and_then (sub_key raw ''timezone'') (\<lambda>tz.
     and_then (from_option TypeError (as_string tz)) (\<lambda>zone.
     and_then (if cv_zone cv zone then Inr () else Inl KeyError) (\<lambda>_.
     and_then (get_key daily ''precipitation_sum'' JNull) (\<lambda>rain_sums. let precip_sums = or_empty_list rain_sums in
     and_then (get_key daily ''precipitation_probability_max'' JNull) (\<lambda>probs. let precip_probs = or_empty_list probs in
     and_then (sub_key current ''time'') (\<lambda>time.
     and_then (to_instant time) (\<lambda>observed.
     and_then (sub_key current ''temperature_2m'') (\<lambda>_.
     and_then (first_or precip_sums (jget current ''precipitation'')) (\<lambda>rain_sum.
     and_then (first_or precip_probs JNull) (\<lambda>chance.
     and_then (sub_key current ''interval'') (\<lambda>seconds.
     and_then (floor_minutes seconds) (\<lambda>interval.
     and_then (get_key raw ''hourly'' (JObject [])) (\<lambda>hourly.
     and_then (number time) (\<lambda>until.
     and_then (last_48h hourly until) (\<lambda>rain_48h.
     and_then (if truthy (jget current ''precipitation'') then Inr True
               else is_rain_code (jget current ''weather_code'')) (\<lambda>raining.
     and_then (parse_days cv zone daily precip_sums) (\<lambda>days.
       Inr \<lparr>rc_zone = zone, rc_observed = observed, rc_current = current, rc_rain_sum = rain_sum,
         rc_rain_chance = chance, rc_interval = interval, rc_rain_48h = rain_48h, rc_raining = raining,
         rc_days = days\<rparr>)))))))))))))))))))"

definition parse_city :: "conversions \<Rightarrow> json \<Rightarrow> point \<Rightarrow> py_error + weather_city" where
  "parse_city cv raw p =
     and_then (read_city cv raw) (\<lambda>r. let field = jget (rc_current r); opt = optional (cv_float cv) in
     and_then (from_option ValueError (cv_float cv (field ''temperature_2m''))) (\<lambda>temperature.
     and_then (opt (field ''apparent_temperature'')) (\<lambda>apparent.
     and_then (opt (field ''relative_humidity_2m'')) (\<lambda>humidity.
     and_then (opt (field ''wind_speed_10m'')) (\<lambda>wind.
     and_then (opt (field ''precipitation'')) (\<lambda>rain.
     and_then (opt (rc_rain_sum r)) (\<lambda>rain_sum.
     and_then (opt (rc_rain_chance r)) (\<lambda>chance.
     and_then (from_option ValueError (cv_int cv (rc_interval r))) (\<lambda>interval.
     and_then (optional (cv_int cv) (field ''weather_code'')) (\<lambda>code.
       Inr \<lparr>wc_id = pt_uf p, wc_name = pt_name p, wc_state_abbreviation = pt_uf p,
         wc_latitude = pt_lat p, wc_longitude = pt_lon p, wc_timezone = rc_zone r,
         wc_observed_at = rc_observed r, wc_temperature_c = temperature, wc_apparent_temperature_c = apparent,
         wc_humidity_pct = humidity, wc_wind_speed_kmh = wind, wc_precipitation_mm = rain,
         wc_precipitation_sum_mm = rain_sum, wc_precipitation_probability_pct = chance,
         wc_precipitation_interval_minutes = interval, wc_weather_code = code,
         wc_precipitation_48h_mm = rc_rain_48h r, wc_raining_now = rc_raining r, wc_sample_points = None,
         wc_raining_points = None, wc_forecast = rc_days r, wc_is_inferred = False\<rparr>))))))))))"

section \<open>The request\<close>

text \<open>
  The exceptions of the \<open>except\<close> clause become a \<open>ProviderError\<close>; an error of the domain passes; what
  is left (\<open>AttributeError\<close>, \<open>OverflowError\<close>) is not caught here.
\<close>

fun provider_failure :: "py_error \<Rightarrow> raised" where
  "provider_failure (DomainFailure e) = RaisedDomain e"
| "provider_failure AttributeError = RaisedOther"
| "provider_failure OverflowError = RaisedOther"
| "provider_failure _ = RaisedDomain (mk_error ProviderError [])"

definition read_payload :: "conversions \<Rightarrow> point list \<Rightarrow> json option \<Rightarrow> py_error + weather_city list" where
  "read_payload cv locations body =
     and_then (from_option ValueError body) (\<lambda>payload.
       let payload = (if is_dict payload \<and> length locations = 1 then JList [payload] else payload) in
       case payload of
         JList raws \<Rightarrow>
           if length raws \<noteq> length locations then Inl ValueError
           else map_each (\<lambda>(raw, p). parse_city cv raw p) (zip raws locations)
       | _ \<Rightarrow> Inl ValueError)"

definition fetch_locations ::
    "conversions \<Rightarrow> (json \<Rightarrow> string) \<Rightarrow> http_outcome \<Rightarrow> point list \<Rightarrow> raised + weather_city list" where
  "fetch_locations cv repr outcome locations =
     (let result =
        (case outcome of
           Answered response \<Rightarrow>
             if h_status response = 429
             then and_then (rate_limit_error repr response) (\<lambda>e. Inl (DomainFailure e))
             else if \<not> (200 \<le> h_status response \<and> h_status response < 300) then Inl ValueError
             else read_payload cv locations (h_json response)
         | _ \<Rightarrow> Inl ValueError) in
      case result of Inl e \<Rightarrow> Inl (provider_failure e) | Inr cities \<Rightarrow> Inr cities)"

section \<open>What a request can give\<close>

lemma parse_city_place:
  assumes "parse_city cv raw p = Inr c"
  shows "wc_id c = pt_uf p \<and> wc_name c = pt_name p \<and> wc_latitude c = pt_lat p \<and> wc_longitude c = pt_lon p \<and>
    \<not> wc_is_inferred c"
  using assms by (auto simp: parse_city_def and_then_Inr Let_def)

lemma read_payload_places:
  assumes "read_payload cv locations body = Inr cities"
  shows "list_all2 (\<lambda>p c. wc_id c = pt_uf p \<and> wc_name c = pt_name p \<and> wc_latitude c = pt_lat p \<and>
    wc_longitude c = pt_lon p \<and> \<not> wc_is_inferred c) locations cities"
proof -
  obtain payload where p: "(case payload of
         JList raws \<Rightarrow>
           if length raws \<noteq> length locations then Inl ValueError
           else map_each (\<lambda>(raw, p). parse_city cv raw p) (zip raws locations)
       | _ \<Rightarrow> Inl ValueError) = Inr cities"
    using assms by (auto simp: read_payload_def and_then_Inr Let_def)
  then obtain raws where "length raws = length locations"
      "map_each (\<lambda>(raw, p). parse_city cv raw p) (zip raws locations) = Inr cities"
    by (cases payload) (auto split: if_splits)
  then show ?thesis
    by (auto simp: map_each_Inr list_all2_conv_all_nth dest!: parse_city_place)
qed

lemma rate_limit_error_wait:
  assumes "rate_limit_error repr r = Inr e"
  shows "\<exists>wait. e = rate_limited wait \<and>
    (if py_isdigit (h_retry_after r) then wait = digits_to_int (h_retry_after r) else wait \<in> {60, 300, 900})"
  using assms
  by (auto simp: rate_limit_error_def Let_def and_then_Inr int_of_digits_def RATE_LIMIT_WINDOWS_def
      RATE_LIMIT_UNKNOWN_def split: if_splits)

lemma plain_windows [plain_intros]:
  "plain (to_instant v)" "plain (in_window until tv)" "plain (last_48h hourly until)" "plain (floor_minutes v)"
  "plain (is_rain_code v)" "plain (optional conv v)" "plain (first_or vs other)"
  by (unfold to_instant_def in_window_def last_48h_def optional_def first_or_def Let_def)
    (intro plain_intros | cases v; auto intro!: plain_intros)+

lemma plain_parse_city [plain_intros]: "plain (parse_city cv raw p)"
  unfolding parse_city_def read_city_def parse_days_def parse_day_def Let_def by (intro plain_intros)

lemma plain_payload: "plain (read_payload cv locations body)"
  unfolding read_payload_def Let_def
  by (intro plain_intros) (auto split: json.splits intro!: plain_intros)

lemma provider_failure_plain:
  "plain (Inl x :: py_error + 'a) \<Longrightarrow> provider_failure x = RaisedOther \<or> provider_failure x = RaisedDomain (mk_error ProviderError [])"
  by (cases x) (auto simp: plain_def)

lemma rate_limit_error_value: "rate_limit_error repr r = Inl x \<Longrightarrow> x = ValueError"
  by (auto simp: rate_limit_error_def Let_def and_then_Inl int_of_digits_def split: if_splits)

text \<open>
  A request for places gives one reading per place, in the order asked and filed under the
  place, from a successful answer; or the pause the source asked for (its \<open>Retry-After\<close> when that is a
  number, otherwise one of the fixed pauses) after a refusal with status 429; or a \<open>ProviderError\<close>; or, for
  a successful answer that is not shaped as documented, an error that is not caught.
\<close>

theorem fetch_locations_outcomes:
  "case fetch_locations cv repr outcome locations of
     Inr cities \<Rightarrow> list_all2 (\<lambda>p c. wc_id c = pt_uf p \<and> wc_name c = pt_name p \<and> wc_latitude c = pt_lat p \<and>
       wc_longitude c = pt_lon p \<and> \<not> wc_is_inferred c) locations cities \<and>
       (\<exists>r. outcome = Answered r \<and> 200 \<le> h_status r \<and> h_status r < 300)
   | Inl (RaisedDomain e) \<Rightarrow>
       (\<exists>r wait. outcome = Answered r \<and> h_status r = 429 \<and> e = rate_limited wait \<and>
          (if py_isdigit (h_retry_after r) then wait = digits_to_int (h_retry_after r) else wait \<in> {60, 300, 900})) \<or>
       e = mk_error ProviderError []
   | Inl x \<Rightarrow> x = RaisedOther \<and> (\<exists>r. outcome = Answered r \<and> 200 \<le> h_status r \<and> h_status r < 300)"
proof (cases outcome)
  case (Answered r)
  consider (limited) "h_status r = 429" | (failed) "h_status r \<noteq> 429" "\<not> (200 \<le> h_status r \<and> h_status r < 300)"
    | (ok) "200 \<le> h_status r" "h_status r < 300" by force
  then show ?thesis
  proof cases
    case limited
    show ?thesis
    proof (cases "rate_limit_error repr r")
      case (Inl x)
      then have "x = ValueError" by (rule rate_limit_error_value)
      then show ?thesis using limited Inl by (simp add: fetch_locations_def Answered)
    next
      case (Inr e)
      then show ?thesis using limited rate_limit_error_wait [OF Inr] by (simp add: fetch_locations_def Answered)
    qed
  next
    case failed
    then show ?thesis by (auto simp: fetch_locations_def Answered)
  next
    case ok
    then have eq: "fetch_locations cv repr outcome locations =
        (case read_payload cv locations (h_json r) of Inl e \<Rightarrow> Inl (provider_failure e) | Inr cities \<Rightarrow> Inr cities)"
      by (simp add: fetch_locations_def Answered)
    show ?thesis
    proof (cases "read_payload cv locations (h_json r)")
      case (Inl x)
      have "plain (Inl x :: py_error + weather_city list)" using plain_payload [of cv locations "h_json r"] Inl by simp
      then show ?thesis unfolding eq Inl using ok Answered by (auto dest: provider_failure_plain)
    next
      case (Inr cities)
      then show ?thesis unfolding eq Inr using ok Answered read_payload_places [OF Inr] by simp
    qed
  qed
qed (simp_all add: fetch_locations_def)

end
