(* ===== verification/Map_Projection.thy ===== *)
theory Map_Projection
  imports Territories
begin

text \<open>
  The map's territories: \<open>app/repositories/map_projection.py\<close> (the rows of a scope), \<open>app/services/map.py\<close>
  (scope rules, the collection and its two caches), \<open>app/api/v1/map.py\<close> (the conditional answer) and the
  pages of \<open>municipality_map\<close> of \<open>app/repositories/boundaries.py\<close>. The JSON text of a collection
  (\<open>encode\<close>) and the distance of a geometry to a point (\<open>distance\<close>) are parameters.
\<close>

section \<open>Rows\<close>

record map_row =
  mr_ibge_code :: string
  mr_name :: string
  mr_level :: territory_level
  mr_abbreviation :: "string option"
  mr_parent_ibge_code :: "string option"
  mr_parent_name :: "string option"
  mr_geometry :: geometry
  mr_bbox :: "real option \<times> real option \<times> real option \<times> real option"

definition to_map_row :: "db \<Rightarrow> territory \<times> territory_geometry \<Rightarrow> map_row" where
  "to_map_row d tg =
     (let t = fst tg; p = territory_by_id (t_parent_id t) d in
      \<lparr>mr_ibge_code = t_ibge_code t, mr_name = t_name t, mr_level = t_level t, mr_abbreviation = t_abbreviation t,
       mr_parent_ibge_code = map_option t_ibge_code p, mr_parent_name = map_option t_name p,
       mr_geometry = g_geom (snd tg), mr_bbox = (t_west t, t_south t, t_east t, t_north t)\<rparr>)"

definition with_geometry :: "geometry_lod \<Rightarrow> db \<Rightarrow> (territory \<times> territory_geometry) list" where
  "with_geometry lod d =
     [(t, g). t \<leftarrow> territories d, g \<leftarrow> territory_geometries d, g_territory_id g = t_id t \<and> g_lod g = lod]"

definition fetch_map_projection ::
    "(string \<Rightarrow> string) \<Rightarrow> territory_level \<Rightarrow> geometry_lod \<Rightarrow> int option \<Rightarrow> db \<Rightarrow> map_row list" where
  "fetch_map_projection collate level lod parent_id d =
     List.map (to_map_row d) (sort_key (\<lambda>tg. collate (t_name (fst tg)))
       (filter (\<lambda>tg. t_level (fst tg) = level \<and> (parent_id = None \<or> t_parent_id (fst tg) = parent_id)) (with_geometry lod d)))"

definition fetch_single_feature :: "string \<Rightarrow> geometry_lod \<Rightarrow> db \<Rightarrow> map_row option" where
  "fetch_single_feature code lod d =
     map_option (to_map_row d) (select_first (\<lambda>tg. t_ibge_code (fst tg) = code) (with_geometry lod d))"

section \<open>The collection\<close>

record map_feature =
  mf_id :: string
  mf_ibge_code :: string
  mf_name :: string
  mf_level :: territory_level
  mf_abbreviation :: "string option"
  mf_parent_code :: "string option"
  mf_parent_name :: "string option"
  mf_geometry :: geometry

record map_collection =
  mc_level :: territory_level
  mc_parent :: "string option"
  mc_lod :: geometry_lod
  mc_count :: nat
  mc_bbox :: "bbox option"
  mc_features :: "map_feature list"
  mc_parent_feature :: "map_feature option"
  mc_next_offset :: "nat option"

definition feature_of :: "string \<Rightarrow> map_row \<Rightarrow> map_feature" where
  "feature_of i row = \<lparr>mf_id = i, mf_ibge_code = mr_ibge_code row, mf_name = mr_name row, mf_level = mr_level row,
     mf_abbreviation = mr_abbreviation row, mf_parent_code = mr_parent_ibge_code row,
     mf_parent_name = mr_parent_name row, mf_geometry = mr_geometry row\<rparr>"

fun default_lod :: "territory_level \<Rightarrow> geometry_lod" where
  "default_lod Country = Overview"
| "default_lod Region = Overview"
| "default_lod State = Detail"
| "default_lod Municipality = Detail"

definition side :: "(real \<Rightarrow> real \<Rightarrow> real) \<Rightarrow> real option list \<Rightarrow> real option" where
  "side pick vs = (case List.map_filter id vs of [] \<Rightarrow> None | v # rest \<Rightarrow> Some (foldl pick v rest))"

definition scope_bbox :: "map_row list \<Rightarrow> bbox option" where
  "scope_bbox rows =
     (case (side min (List.map (fst \<circ> mr_bbox) rows), side min (List.map (fst \<circ> snd \<circ> mr_bbox) rows),
            side max (List.map (fst \<circ> snd \<circ> snd \<circ> mr_bbox) rows), side max (List.map (snd \<circ> snd \<circ> snd \<circ> mr_bbox) rows)) of
        (Some w, Some s, Some e, Some n) \<Rightarrow> Some (w, s, e, n)
      | _ \<Rightarrow> None)"

definition is_given :: "string option \<Rightarrow> bool" where
  "is_given parent \<longleftrightarrow> parent \<noteq> None \<and> parent \<noteq> Some []"

definition validate_scope :: "territory_level \<Rightarrow> string option \<Rightarrow> domain_error option" where
  "validate_scope level parent =
     (if requires_parent level \<and> \<not> is_given parent
      then Some (invalid_parameter None [(''level'', DText (level_value level)), (''required'', DText ''parent'')])
      else if level = Country \<and> is_given parent
      then Some (invalid_parameter None [(''level'', DText (level_value level)), (''unexpected'', DText ''parent'')])
      else None)"

definition resolve_parent :: "territory_level \<Rightarrow> string option \<Rightarrow> db \<Rightarrow> domain_error + int option" where
  "resolve_parent level parent d =
     (case parent of
        None \<Rightarrow> Inr None
      | Some [] \<Rightarrow> Inr None
      | Some code \<Rightarrow>
          (case get_identity_by_code code d of
             None \<Rightarrow> Inl (territory_not_found code)
           | Some (i, parent_level) \<Rightarrow>
               (case expected_parent_level level of
                  Some expected \<Rightarrow>
                    if parent_level \<noteq> expected
                    then Inl (invalid_parameter None [(''parent'', DText code),
                           (''parent_level'', DText (level_value parent_level)),
                           (''expected_parent_level'', DText (level_value expected))])
                    else Inr (Some i)
                | None \<Rightarrow> Inr (Some i))))"

text \<open>The collection of a scope, from the database.\<close>

definition map_projection ::
    "(string \<Rightarrow> string) \<Rightarrow> territory_level \<Rightarrow> string option \<Rightarrow> geometry_lod \<Rightarrow> db \<Rightarrow> domain_error + map_collection" where
  "map_projection collate level parent lod d =
     (case resolve_parent level parent d of
        Inl e \<Rightarrow> Inl e
      | Inr parent_id \<Rightarrow>
          (let rows = fetch_map_projection collate level lod parent_id d;
               features = List.map (\<lambda>row. feature_of (mr_ibge_code row) row) rows in
           Inr \<lparr>mc_level = level, mc_parent = parent, mc_lod = lod, mc_count = length features,
             mc_bbox = scope_bbox rows, mc_features = features,
             mc_parent_feature = (case parent of Some (c # cs) \<Rightarrow>
                 map_option (\<lambda>row. feature_of (mr_ibge_code row @ '':detail'') row) (fetch_single_feature (c # cs) Detail d)
               | _ \<Rightarrow> None),
             mc_next_offset = None\<rparr>))"

section \<open>The caches\<close>

definition projection_key :: "territory_level \<Rightarrow> string option \<Rightarrow> geometry_lod option \<Rightarrow> int \<Rightarrow> string" where
  "projection_key level parent lod version =
     join '':'' [level_value level, (if is_given parent then the parent else ''root''),
       lod_value (case lod of None \<Rightarrow> default_lod level | Some l \<Rightarrow> l), int_to_string version]"

record map_env =
  me_clock :: clock
  me_clock_stored :: clock
  me_collate :: "string \<Rightarrow> string"
  me_encode :: "map_collection \<Rightarrow> string"
  me_shared :: "string \<Rightarrow> map_collection option"
  me_db :: db

type_synonym map_cache = "(string, string) ttl_cache"

text \<open>The answer, what is written to the shared cache (key, collection, seconds) and the local cache left.\<close>

definition get_map_json ::
    "map_env \<Rightarrow> territory_level \<Rightarrow> string option \<Rightarrow> geometry_lod option \<Rightarrow> int \<Rightarrow> map_cache
     \<Rightarrow> (domain_error + string) \<times> (string \<times> map_collection \<times> int) list \<times> map_cache" where
  "get_map_json n level parent lod version c =
     (let effective = (case lod of None \<Rightarrow> default_lod level | Some l \<Rightarrow> l);
          key = projection_key level parent (Some effective) version in
      case validate_scope level parent of
        Some e \<Rightarrow> (Inl e, [], c)
      | None \<Rightarrow>
          (case cache_get (me_clock n) key c of
             (Some body, c1) \<Rightarrow> (Inr body, [], c1)
           | (None, c1) \<Rightarrow>
               (case me_shared n key of
                  Some collection \<Rightarrow>
                    (let body = me_encode n collection in (Inr body, [], cache_set (me_clock_stored n) key body None c1))
                | None \<Rightarrow>
                    (case map_projection (me_collate n) level parent effective (me_db n) of
                       Inl e \<Rightarrow> (Inl e, [], c1)
                     | Inr collection \<Rightarrow>
                         (let body = me_encode n collection in
                          (Inr body, [(key, collection, 86400)], cache_set (me_clock_stored n) key body None c1))))))"

text \<open>The handler: the validator of the scope, and 304 when the client already has it.\<close>

datatype map_reply = NotModified string | MapBody string string

definition etag_matches :: "string option \<Rightarrow> string \<Rightarrow> bool" where
  "etag_matches if_none_match etag \<longleftrightarrow>
     etag \<in> py_strip ` set (py_split (CHR '','') (case if_none_match of None \<Rightarrow> [] | Some h \<Rightarrow> h))"

definition map_etag :: "string \<Rightarrow> string" where
  "map_etag key = ''W/'' @ [CHR 0x22] @ ''map:'' @ key @ [CHR 0x22]"

definition get_map ::
    "map_env \<Rightarrow> string option \<Rightarrow> territory_level \<Rightarrow> string option \<Rightarrow> geometry_lod option \<Rightarrow> int \<Rightarrow> map_cache
     \<Rightarrow> (domain_error + map_reply) \<times> (string \<times> map_collection \<times> int) list \<times> map_cache" where
  "get_map n if_none_match level parent lod version c =
     (let etag = map_etag (projection_key level parent lod version) in
      if etag_matches if_none_match etag then (Inr (NotModified etag), [], c)
      else case get_map_json n level parent lod version c of
        (Inl e, w, c1) \<Rightarrow> (Inl e, w, c1)
      | (Inr body, w, c1) \<Rightarrow> (Inr (MapBody etag body), w, c1))"

section \<open>Pages of municipalities\<close>

definition municipality_rows ::
    "(geometry \<Rightarrow> bbox \<Rightarrow> bool) \<Rightarrow> bbox option \<Rightarrow> string option \<Rightarrow> string option \<Rightarrow> db
     \<Rightarrow> (territory \<times> territory \<times> geometry) list" where
  "municipality_rows intersects bbox parent code d =
     [(t, s, g_geom g). (t, g) \<leftarrow> with_geometry Canonical d, s \<leftarrow> territories d,
        t_parent_id t = Some (t_id s) \<and> t_level t = Municipality \<and>
        (\<not> is_given parent \<or> Some (t_ibge_code s) = parent) \<and> (\<not> is_given code \<or> Some (t_ibge_code t) = code) \<and>
        (case bbox of None \<Rightarrow> True | Some b \<Rightarrow> intersects (g_geom g) b)]"

definition order_municipalities ::
    "(geometry \<Rightarrow> bbox \<Rightarrow> real) \<Rightarrow> bbox option \<Rightarrow> (territory \<times> territory \<times> geometry) list
     \<Rightarrow> (territory \<times> territory \<times> geometry) list" where
  "order_municipalities distance bbox rows =
     (let by_code = sort_key (\<lambda>(t, s, g). t_ibge_code t) rows in
      case bbox of
        Some b \<Rightarrow> sort_key (\<lambda>(t, s, g). distance g b) by_code
      | None \<Rightarrow> sort_key (\<lambda>(t, s, g). case t_capital_id s of None \<Rightarrow> (2 :: nat) | Some c \<Rightarrow> (if t_id t = c then 0 else 1)) by_code)"

definition municipality_page ::
    "(geometry \<Rightarrow> bbox \<Rightarrow> bool) \<Rightarrow> (geometry \<Rightarrow> bbox \<Rightarrow> real) \<Rightarrow> bbox option \<Rightarrow> string option \<Rightarrow> string option
     \<Rightarrow> nat \<Rightarrow> nat \<Rightarrow> db \<Rightarrow> map_collection" where
  "municipality_page intersects distance bbox parent code offset limit d =
     (let rows = take (limit + 1) (drop offset (order_municipalities distance bbox (municipality_rows intersects bbox parent code d)));
          features = List.map (\<lambda>(t, s, g). \<lparr>mf_id = t_ibge_code t, mf_ibge_code = t_ibge_code t, mf_name = t_name t,
             mf_level = Municipality, mf_abbreviation = None, mf_parent_code = Some (t_ibge_code s),
             mf_parent_name = Some (t_name s), mf_geometry = g\<rparr>) (take limit rows) in
      \<lparr>mc_level = Municipality, mc_parent = parent, mc_lod = Canonical, mc_count = length features, mc_bbox = None,
       mc_features = features, mc_parent_feature = None,
       mc_next_offset = (if length rows > limit then Some (offset + limit) else None)\<rparr>)"

text \<open>With the shared cache: a page without features is not stored.\<close>

definition municipality_map ::
    "(geometry \<Rightarrow> bbox \<Rightarrow> bool) \<Rightarrow> (geometry \<Rightarrow> bbox \<Rightarrow> real) \<Rightarrow> map_collection option \<Rightarrow> bbox option \<Rightarrow> string option
     \<Rightarrow> string option \<Rightarrow> nat \<Rightarrow> nat \<Rightarrow> db \<Rightarrow> map_collection \<times> (map_collection \<times> int) list" where
  "municipality_map intersects distance shared bbox parent code offset limit d =
     (case shared of
        Some collection \<Rightarrow> (collection, [])
      | None \<Rightarrow>
          (let result = municipality_page intersects distance bbox parent code offset limit d in
           (result, if mc_features result = [] then [] else [(result, 86400)])))"

end
