(* ===== verification/Map_Laws.thy ===== *)
theory Map_Laws
  imports Map_Projection Weather_Summary
begin

text \<open>
  What the map service promises: a key of its caches stands for one scope, level of detail and version of the
  data, so what a cache answers is the collection of that scope; and the box of a collection is the smallest
  that holds the boxes of its territories.
\<close>

section \<open>Texts of numbers and keys\<close>

lemma nat_to_string_neq_Nil: "nat_to_string n \<noteq> []"
  by (subst nat_to_string.simps) simp

lemma nat_to_string_digits: "c \<in> set (nat_to_string n) \<Longrightarrow> is_ascii_digit c"
proof (induction n rule: nat_to_string.induct)
  case (1 n)
  have digit: "is_ascii_digit (char_of (48 + k))" if "k < 10" for k :: nat using that by (simp add: is_ascii_digit_def)
  have unfold: "set (nat_to_string n) = (if n < 10 then {char_of (48 + n)} else insert (char_of (48 + n mod 10)) (set (nat_to_string (n div 10))))"
    by (subst nat_to_string.simps) auto
  show ?case using 1 unfolding unfold by (auto split: if_splits intro: digit)
qed

lemma digit_value_char: "k < 10 \<Longrightarrow> digit_value (char_of (48 + k)) = int k"
  by (simp add: digit_value_def)

lemma digits_to_int_nat_to_string: "digits_to_int (nat_to_string n) = int n"
proof (induction n rule: nat_to_string.induct)
  case (1 n)
  show ?case
  proof (cases "n < 10")
    case True
    then show ?thesis by (subst nat_to_string.simps) (simp add: digits_to_int_def digit_value_char)
  next
    case False
    then have "digits_to_int (nat_to_string n) = 10 * digits_to_int (nat_to_string (n div 10)) + digit_value (char_of (48 + n mod 10))"
      by (subst nat_to_string.simps) (simp add: digits_to_int_def)
    then show ?thesis using 1 False by (simp add: digit_value_char) presburger
  qed
qed

lemma nat_to_string_inject: "nat_to_string m = nat_to_string n \<Longrightarrow> m = n"
  using digits_to_int_nat_to_string by (metis of_nat_eq_iff)

lemma int_to_string_inject: "int_to_string i = int_to_string j \<Longrightarrow> i = j"
proof -
  assume eq: "int_to_string i = int_to_string j"
  have minus: "nat_to_string m \<noteq> CHR ''-'' # s" for m s
    using nat_to_string_digits [of "CHR ''-''" m] by (auto simp: is_ascii_digit_def)
  show "i = j"
    using eq minus minus [symmetric] nat_to_string_inject [of "nat (- i)" "nat (- j)"] nat_to_string_inject [of "nat i" "nat j"]
    by (auto simp: int_to_string_def split: if_splits)
qed

lemma split_at_colon:
  "CHR '':'' \<notin> set a \<Longrightarrow> CHR '':'' \<notin> set b \<Longrightarrow> a @ CHR '':'' # x = b @ CHR '':'' # y \<Longrightarrow> a = b \<and> x = y"
proof (induction a arbitrary: b)
  case Nil
  then show ?case by (cases b) auto
next
  case (Cons c a)
  then show ?case by (cases b) auto
qed

definition code_ok :: "string \<Rightarrow> bool" where
  "code_ok code \<longleftrightarrow> code \<noteq> [] \<and> CHR '':'' \<notin> set code \<and> code \<noteq> ''root''"

text \<open>The scopes a request can name: none, or a well-formed code.\<close>

definition scope_ok :: "string option \<Rightarrow> bool" where
  "scope_ok parent \<longleftrightarrow> (is_given parent \<longrightarrow> code_ok (the parent))"

definition same_scope :: "string option \<Rightarrow> string option \<Rightarrow> bool" where
  "same_scope p q \<longleftrightarrow> (if is_given p then p = q else \<not> is_given q)"

lemma projection_key_inject:
  assumes "projection_key level parent (Some lod) version = projection_key level' parent' (Some lod') version'"
    and "scope_ok parent" and "scope_ok parent'"
  shows "level = level' \<and> same_scope parent parent' \<and> lod = lod' \<and> version = version'"
proof -
  have level: "CHR '':'' \<notin> set (level_value l)" "level_value l = level_value l' \<longleftrightarrow> l = l'" for l l'
    by (cases l; cases l'; simp)+
  have lod: "CHR '':'' \<notin> set (lod_value l)" "lod_value l = lod_value l' \<longleftrightarrow> l = l'" for l l'
    by (cases l; cases l'; simp)+
  let ?p = "\<lambda>parent. if is_given parent then the parent else ''root''"
  have p: "CHR '':'' \<notin> set (?p q)" if "scope_ok q" for q using that by (auto simp: scope_ok_def code_ok_def)
  have eq: "level_value level @ CHR '':'' # ?p parent @ CHR '':'' # lod_value lod @ CHR '':'' # int_to_string version =
      level_value level' @ CHR '':'' # ?p parent' @ CHR '':'' # lod_value lod' @ CHR '':'' # int_to_string version'"
    using assms(1) by (simp add: projection_key_def)
  from split_at_colon [OF level(1) level(1) eq] have 1: "level = level'"
    and eq2: "?p parent @ CHR '':'' # lod_value lod @ CHR '':'' # int_to_string version =
      ?p parent' @ CHR '':'' # lod_value lod' @ CHR '':'' # int_to_string version'" by (auto simp: level(2))
  from split_at_colon [OF p [OF assms(2)] p [OF assms(3)] eq2] have 2: "?p parent = ?p parent'"
    and eq3: "lod_value lod @ CHR '':'' # int_to_string version = lod_value lod' @ CHR '':'' # int_to_string version'" by blast+
  from split_at_colon [OF lod(1) lod(1) eq3] have 3: "lod = lod'" "version = version'"
    by (auto simp: lod(2) dest: int_to_string_inject)
  have "same_scope parent parent'"
    using 2 assms(2,3) by (cases parent; cases parent') (auto simp: same_scope_def scope_ok_def code_ok_def is_given_def split: if_splits)
  then show ?thesis using 1 3 by blast
qed

section \<open>What is served\<close>

text \<open>\<open>history v\<close>: the databases at version \<open>v\<close>. A body is right for a scope when it is the text of the scope's collection.\<close>

definition right_body ::
    "(int \<Rightarrow> db set) \<Rightarrow> (string \<Rightarrow> string) \<Rightarrow> (map_collection \<Rightarrow> string) \<Rightarrow> territory_level \<Rightarrow> string option
     \<Rightarrow> geometry_lod \<Rightarrow> int \<Rightarrow> string \<Rightarrow> bool" where
  "right_body history collate encode level parent lod version body \<longleftrightarrow>
     (\<exists>d \<in> history version. \<exists>parent' collection. same_scope parent parent' \<and>
        map_projection collate level parent' lod d = Inr collection \<and> body = encode collection)"

definition right_entry ::
    "(int \<Rightarrow> db set) \<Rightarrow> (string \<Rightarrow> string) \<Rightarrow> (map_collection \<Rightarrow> string) \<Rightarrow> string \<Rightarrow> string \<Rightarrow> bool" where
  "right_entry history collate encode key body \<longleftrightarrow>
     (\<forall>level parent lod version. scope_ok parent \<longrightarrow> key = projection_key level parent (Some lod) version \<longrightarrow>
        right_body history collate encode level parent lod version body)"

lemma same_scope_trans: "same_scope p q \<Longrightarrow> same_scope q r \<Longrightarrow> same_scope p r"
  by (auto simp: same_scope_def split: if_splits)

lemma same_scope_sym: "same_scope p q \<Longrightarrow> same_scope q p"
  by (auto simp: same_scope_def split: if_splits)

lemma right_entryI:
  assumes "scope_ok parent" and "right_body history collate encode level parent lod version body"
  shows "right_entry history collate encode (projection_key level parent (Some lod) version) body"
  unfolding right_entry_def
proof (intro allI impI)
  fix level' parent' lod' version'
  assume "scope_ok parent'" "projection_key level parent (Some lod) version = projection_key level' parent' (Some lod') version'"
  with assms(1) have "level = level'" "same_scope parent parent'" "lod = lod'" "version = version'"
    using projection_key_inject by blast+
  then show "right_body history collate encode level' parent' lod' version' body"
    using assms(2) unfolding right_body_def by (metis same_scope_sym same_scope_trans)
qed

text \<open>A scope that has a collection is a well-formed one when the codes of the database are.\<close>

lemma map_projection_scope_ok:
  assumes "map_projection collate level parent lod d = Inr collection"
    and "\<forall>t \<in> set (territories d). code_ok (t_ibge_code t)"
  shows "scope_ok parent"
proof (cases "is_given parent")
  case True
  then obtain c cs where p: "parent = Some (c # cs)" by (cases parent) (auto simp: is_given_def neq_Nil_conv)
  have "get_identity_by_code (c # cs) d \<noteq> None"
    using assms(1) by (auto simp: map_projection_def resolve_parent_def p split: sum.splits option.splits)
  then obtain t where "t \<in> set (territories d)" "t_ibge_code t = c # cs"
    by (auto simp: get_identity_by_code_def dest: select_first_Some)
  then show ?thesis using assms(2) by (auto simp: scope_ok_def p)
qed (simp add: scope_ok_def)

lemma get_map_json_right:
  assumes "cache_all (right_entry history (me_collate n) (me_encode n)) c"
    and "\<And>key collection. me_shared n key = Some collection \<Longrightarrow>
      right_entry history (me_collate n) (me_encode n) key (me_encode n collection)"
    and "me_db n \<in> history version" and "\<forall>t \<in> set (territories (me_db n)). code_ok (t_ibge_code t)"
    and "get_map_json n level parent lod version c = (result, writes, c')"
    and "effective = (case lod of None \<Rightarrow> default_lod level | Some l \<Rightarrow> l)"
  shows "cache_all (right_entry history (me_collate n) (me_encode n)) c' \<and>
    (scope_ok parent \<longrightarrow> result = Inr body \<longrightarrow>
       right_body history (me_collate n) (me_encode n) level parent effective version body) \<and>
    (\<forall>(key, collection, ttl) \<in> set writes.
       right_entry history (me_collate n) (me_encode n) key (me_encode n collection) \<and> ttl = 86400)"
proof -
  let ?R = "right_entry history (me_collate n) (me_encode n)"
  let ?key = "projection_key level parent (Some effective) version"
  note run = assms(5) [unfolded get_map_json_def Let_def, folded assms(6)]
  obtain r c1 where get: "cache_get (me_clock n) ?key c = (r, c1)" by force
  note got = cache_all_get_eq [OF get assms(1)]
  show ?thesis
  proof (cases "validate_scope level parent")
    case (Some e)
    then show ?thesis using run assms(1) by auto
  next
    case valid: None
    show ?thesis
    proof (cases r)
      case (Some hit)
      then show ?thesis using run valid get got by (auto simp: right_entry_def)
    next
      case missed: None
      show ?thesis
      proof (cases "me_shared n ?key")
        case (Some collection)
        note ok = assms(2) [OF Some]
        have "c' = cache_set (me_clock_stored n) ?key (me_encode n collection) None c1"
          "result = Inr (me_encode n collection)" "writes = []"
          using run valid get missed Some by auto
        then show ?thesis using ok got by (auto simp: right_entry_def)
      next
        case None
        show ?thesis
        proof (cases "map_projection (me_collate n) level parent effective (me_db n)")
          case (Inl e)
          then show ?thesis using run valid get missed None got by auto
        next
          case (Inr collection)
          have scope: "scope_ok parent" by (rule map_projection_scope_ok [OF Inr assms(4)])
          have body: "right_body history (me_collate n) (me_encode n) level parent effective version (me_encode n collection)"
            unfolding right_body_def using assms(3) Inr by (intro bexI [of _ "me_db n"] exI [of _ parent] exI [of _ collection])
              (auto simp: same_scope_def)
          note entry = right_entryI [OF scope body]
          have "c' = cache_set (me_clock_stored n) ?key (me_encode n collection) None c1"
            "result = Inr (me_encode n collection)" "writes = [(?key, collection, 86400)]"
            using run valid get missed None Inr by auto
          then show ?thesis using entry got body by auto
        qed
      qed
    qed
  qed
qed


text \<open>
  A parent named \<open>root\<close> does not exist, but its key is the key of no parent: when the whole level is cached, the
  request gets the whole level instead of the error.
\<close>

lemma root_parent_hits_whole_level:
  assumes "fst (cache_get (me_clock n) (projection_key Region None (Some Overview) version) c) = Some body"
  shows "fst (get_map_json n Region (Some ''root'') None version c) = Inr body"
proof -
  have "projection_key Region (Some ''root'') (Some Overview) version = projection_key Region None (Some Overview) version"
    by (simp add: projection_key_def is_given_def)
  then show ?thesis
    using assms by (cases "cache_get (me_clock n) (projection_key Region None (Some Overview) version) c")
      (auto simp: get_map_json_def validate_scope_def Let_def)
qed

section \<open>The box of a scope\<close>

lemma set_present: "set (List.map_filter id vs) = {v. Some v \<in> set vs}"
  by (force simp: map_filter_def)

lemma side_min: "side min vs = Some w \<Longrightarrow> Some w \<in> set vs \<and> (\<forall>v. Some v \<in> set vs \<longrightarrow> w \<le> v)"
proof (cases "List.map_filter id vs")
  case (Cons x xs)
  assume "side min vs = Some w"
  then have w: "w = foldl min x xs" using Cons by (simp add: side_def)
  have "insert x (set xs) = {v. Some v \<in> set vs}" using set_present [of vs] unfolding Cons by simp
  moreover have "w \<in> insert x (set xs)" unfolding w by (rule foldl_min_in)
  moreover have "w \<le> v" if "v \<in> insert x (set xs)" for v unfolding w using that by (rule foldl_min_le)
  ultimately show ?thesis by blast
qed (simp add: side_def)

lemma side_max: "side max vs = Some e \<Longrightarrow> Some e \<in> set vs \<and> (\<forall>v. Some v \<in> set vs \<longrightarrow> v \<le> e)"
proof (cases "List.map_filter id vs")
  case (Cons x xs)
  assume "side max vs = Some e"
  then have e: "e = foldl max x xs" using Cons by (simp add: side_def)
  have "insert x (set xs) = {v. Some v \<in> set vs}" using set_present [of vs] unfolding Cons by simp
  moreover have "e \<in> insert x (set xs)" unfolding e by (rule foldl_max_in)
  moreover have "v \<le> e" if "v \<in> insert x (set xs)" for v unfolding e using that by (rule foldl_max_ge)
  ultimately show ?thesis by blast
qed (simp add: side_def)

text \<open>The box of a scope holds the box of every territory of it, and no side of it can be moved in.\<close>

lemma scope_bbox_smallest:
  assumes "scope_bbox rows = Some (w, s, e, n)"
  shows "(\<forall>row \<in> set rows. \<forall>w' s' e' n'. mr_bbox row = (Some w', Some s', Some e', Some n') \<longrightarrow>
      w \<le> w' \<and> s \<le> s' \<and> e' \<le> e \<and> n' \<le> n) \<and>
    Some w \<in> (fst \<circ> mr_bbox) ` set rows \<and> Some s \<in> (fst \<circ> snd \<circ> mr_bbox) ` set rows \<and>
    Some e \<in> (fst \<circ> snd \<circ> snd \<circ> mr_bbox) ` set rows \<and> Some n \<in> (snd \<circ> snd \<circ> snd \<circ> mr_bbox) ` set rows"
proof -
  have sides: "side min (List.map (fst \<circ> mr_bbox) rows) = Some w" "side min (List.map (fst \<circ> snd \<circ> mr_bbox) rows) = Some s"
      "side max (List.map (fst \<circ> snd \<circ> snd \<circ> mr_bbox) rows) = Some e" "side max (List.map (snd \<circ> snd \<circ> snd \<circ> mr_bbox) rows) = Some n"
    using assms by (auto simp: scope_bbox_def split: option.splits)
  note w = side_min [OF sides(1)] and s = side_min [OF sides(2)] and e = side_max [OF sides(3)] and n = side_max [OF sides(4)]
  have "w \<le> w' \<and> s \<le> s' \<and> e' \<le> e \<and> n' \<le> n"
    if "row \<in> set rows" "mr_bbox row = (Some w', Some s', Some e', Some n')" for row w' s' e' n'
  proof -
    have "Some w' \<in> set (List.map (fst \<circ> mr_bbox) rows)" "Some s' \<in> set (List.map (fst \<circ> snd \<circ> mr_bbox) rows)"
      "Some e' \<in> set (List.map (fst \<circ> snd \<circ> snd \<circ> mr_bbox) rows)" "Some n' \<in> set (List.map (snd \<circ> snd \<circ> snd \<circ> mr_bbox) rows)"
      unfolding set_map using that by (auto intro!: image_eqI [of _ _ row])
    then show ?thesis using w s e n by blast
  qed
  then show ?thesis using w s e n unfolding set_map by blast
qed

section \<open>A run\<close>

definition state35 :: territory where
  "state35 = \<lparr>t_id = 1, t_level = State, t_ibge_code = ''35'', t_name = ''SP'', t_abbreviation = Some ''SP'',
     t_parent_id = None, t_capital_id = None, t_west = Some (- 53), t_south = Some (- 25), t_east = Some (- 44),
     t_north = Some (- 19), t_normalized_name = None, t_normalized_abbreviation = None\<rparr>"

definition map_env0 :: map_env where
  "map_env0 = \<lparr>me_clock = 1, me_clock_stored = 2, me_collate = id, me_encode = (\<lambda>c. concat (List.map mf_id (mc_features c))),
     me_shared = (\<lambda>_. None), me_db = empty_db\<lparr>territories := [state35]\<rparr>\<rparr>"

end
