(* ===== verification/Agregados.thy ===== *)
theory Agregados
  imports Python_Values Providers_Base Database
begin

text \<open>
  \<open>app/providers/ibge/agregados.py\<close>: the values of IBGE's aggregates. Decimals are exact (\<open>rat\<close>), as the
  28 digits of the default context are for the values published.
\<close>

section \<open>Numbers in texts\<close>

text \<open>The finite decimals \<open>Decimal(text)\<close> accepts: a sign, digits with an optional point, an exponent.\<close>

definition split_sign :: "string \<Rightarrow> int \<times> string" where
  "split_sign s = (case s of c # cs \<Rightarrow> if c = CHR ''-'' then (- 1, cs) else if c = CHR ''+'' then (1, cs) else (1, s) | [] \<Rightarrow> (1, s))"

definition digits_part :: "string \<Rightarrow> string \<times> string" where
  "digits_part s = (takeWhile is_ascii_digit s, dropWhile is_ascii_digit s)"

definition power_of_ten :: "int \<Rightarrow> rat" where
  "power_of_ten e = (if e \<ge> 0 then 10 ^ nat e else 1 / 10 ^ nat (- e))"

definition parse_exponent :: "string \<Rightarrow> int option" where
  "parse_exponent s =
     (case s of
        [] \<Rightarrow> Some 0
      | c # cs \<Rightarrow>
          if c = CHR ''e'' \<or> c = CHR ''E''
          then let (sign, digits) = split_sign cs in if all_digits digits then Some (sign * digits_to_int digits) else None
          else None)"

definition parse_decimal :: "string \<Rightarrow> rat option" where
  "parse_decimal text =
     (let (sign, body) = split_sign (filter (\<lambda>c. c \<noteq> CHR ''_'') (py_strip text));
          (whole, rest) = digits_part body;
          (fraction, rest1) = (case rest of c # cs \<Rightarrow> if c = CHR ''.'' then digits_part cs else ([], rest) | [] \<Rightarrow> ([], rest)) in
      if whole = [] \<and> fraction = [] then None
      else map_option (\<lambda>e. of_int sign * of_int (digits_to_int (whole @ fraction)) * power_of_ten (e - int (length fraction)))
        (parse_exponent rest1))"

definition UNAVAILABLE_TOKENS :: "string list" where
  "UNAVAILABLE_TOKENS = [''...'', ''..'', ''-'', ''X'', '''', ''*'']"

definition parse_value :: "string \<Rightarrow> rat \<Rightarrow> rat option" where
  "parse_value raw multiplier =
     (let token = py_strip raw in
      if token \<in> set UNAVAILABLE_TOKENS then None else map_option (\<lambda>x. x * multiplier) (parse_decimal token))"

text \<open>\<open>int(text)\<close>: blanks around, a sign, digits with single underscores between them.\<close>

definition parse_int :: "string \<Rightarrow> int option" where
  "parse_int text =
     (let (sign, body) = split_sign (py_strip text); groups = py_split (CHR ''_'') body in
      if list_all all_digits groups then Some (sign * digits_to_int (concat groups)) else None)"

definition reference_year :: "string \<Rightarrow> int option" where
  "reference_year period = parse_int (take 4 period)"

section \<open>The answer of the source\<close>

fun level_by_sidra :: "string \<Rightarrow> territory_level option" where
  "level_by_sidra s =
     (if s = ''N1'' then Some Country else if s = ''N2'' then Some Region
      else if s = ''N3'' then Some State else if s = ''N6'' then Some Municipality else None)"

definition COUNTRY_CODE :: string where "COUNTRY_CODE = ''BR''"

definition territory_code :: "string \<Rightarrow> string \<Rightarrow> string" where
  "territory_code sidra_level locality_id = (if sidra_level = ''N1'' then COUNTRY_CODE else locality_id)"

record agg_series =
  as_level :: string
  as_locality :: string
  as_serie :: "(string \<times> string) list"

text \<open>A variable is the list of its results, each a list of series. Pydantic refuses what has another shape.\<close>

type_synonym agg_variable = "agg_series list list"

definition text_at :: "json \<Rightarrow> string \<Rightarrow> string option" where
  "text_at v k = as_string (jget v k)"

fun all_some :: "'a option list \<Rightarrow> 'a list option" where
  "all_some [] = Some []"
| "all_some (None # xs) = None"
| "all_some (Some x # xs) = map_option (Cons x) (all_some xs)"

definition read_series :: "json \<Rightarrow> agg_series option" where
  "read_series v =
     (let place = jget v ''localidade''; level = jget place ''nivel''; serie = jget v ''serie'' in
      case (text_at place ''id'', text_at place ''nome'', text_at level ''id'', text_at level ''nome'') of
        (Some i, Some _, Some l, Some _) \<Rightarrow>
          if is_dict serie
          then map_option (\<lambda>kvs. \<lparr>as_level = l, as_locality = i, as_serie = kvs\<rparr>)
            (all_some (List.map (\<lambda>(k, x). map_option (Pair k) (as_string x)) (dict_items serie)))
          else None
      | _ \<Rightarrow> None)"

definition read_result :: "json \<Rightarrow> agg_series list option" where
  "read_result v =
     (case as_list (jget v ''series'') of None \<Rightarrow> None | Some xs \<Rightarrow> all_some (List.map read_series xs))"

definition read_variable :: "json \<Rightarrow> agg_variable option" where
  "read_variable v =
     (case (text_at v ''id'', text_at v ''variavel'', text_at v ''unidade'', as_list (jget v ''resultados'')) of
        (Some _, Some _, Some _, Some xs) \<Rightarrow> all_some (List.map read_result xs)
      | _ \<Rightarrow> None)"

section \<open>Observations\<close>

record observation =
  ob_code :: string
  ob_year :: int
  ob_value :: rat

type_synonym parts = "((string \<times> string) \<times> rat list) list"

definition append_to :: "'k \<Rightarrow> 'v \<Rightarrow> ('k \<times> 'v list) list \<Rightarrow> ('k \<times> 'v list) list" where
  "append_to k v m = AList.update k ((case map_of m k of None \<Rightarrow> [] | Some vs \<Rightarrow> vs) @ [v]) m"

definition add_period :: "rat \<Rightarrow> string \<Rightarrow> parts \<times> nat \<Rightarrow> string \<times> string \<Rightarrow> parts \<times> nat" where
  "add_period multiplier code acc pv =
     (case (parse_value (snd pv) multiplier, reference_year (fst pv)) of
        (Some value, Some _) \<Rightarrow> (append_to (code, fst pv) value (fst acc), snd acc)
      | _ \<Rightarrow> (fst acc, snd acc + 1))"

definition add_series :: "rat \<Rightarrow> string set option \<Rightarrow> parts \<times> nat \<Rightarrow> agg_series \<Rightarrow> parts \<times> nat" where
  "add_series multiplier accept_levels acc s =
     (if (case accept_levels of None \<Rightarrow> False | Some ls \<Rightarrow> as_level s \<notin> ls) then acc
      else foldl (add_period multiplier (territory_code (as_level s) (as_locality s))) acc (as_serie s))"

definition collect_parts :: "rat \<Rightarrow> string set option \<Rightarrow> agg_variable list \<Rightarrow> parts \<times> nat" where
  "collect_parts multiplier accept_levels variables =
     foldl (add_series multiplier accept_levels) ([], 0) (concat (concat variables))"

text \<open>A period with fewer values than results is left out: the sum would be partial.\<close>

type_synonym yearly = "((string \<times> int) \<times> rat list) list"

definition add_year :: "nat \<Rightarrow> yearly \<times> nat \<Rightarrow> (string \<times> string) \<times> rat list \<Rightarrow> yearly \<times> nat" where
  "add_year expected acc part =
     (if length (snd part) < expected then (fst acc, snd acc + length (snd part))
      else case reference_year (snd (fst part)) of
        None \<Rightarrow> acc
      | Some year \<Rightarrow> (append_to (fst (fst part), year) (sum_list (snd part)) (fst acc), snd acc))"

definition VALUE_SCALE :: nat where "VALUE_SCALE = 6"

definition annual_mean :: "rat list \<Rightarrow> rat" where
  "annual_mean values =
     (case values of [v] \<Rightarrow> v | _ \<Rightarrow> round_places VALUE_SCALE (sum_list values / of_nat (length values)))"

definition observations_of :: "rat \<Rightarrow> string set option \<Rightarrow> agg_variable list \<Rightarrow> observation list \<times> nat" where
  "observations_of multiplier accept_levels variables =
     (let (parts, discarded) = collect_parts multiplier accept_levels variables;
          expected = length (concat variables);
          (by_year, left_out) = foldl (add_year expected) ([], discarded) parts in
      (List.map (\<lambda>((code, year), values). \<lparr>ob_code = code, ob_year = year, ob_value = annual_mean values\<rparr>)
         (sort_key (\<lambda>kv. fst (fst kv)) (sort_key (\<lambda>kv. snd (fst kv)) by_year)), left_out))"

text \<open>An empty answer is an error; a variable of another shape raises Pydantic's \<open>ValidationError\<close>.\<close>

definition parse_observations :: "json list \<Rightarrow> rat \<Rightarrow> string set option \<Rightarrow> raised + (observation list \<times> nat)" where
  "parse_observations payload multiplier accept_levels =
     (if payload = [] then Inl (RaisedDomain (mk_error ProviderError []))
      else case all_some (List.map read_variable payload) of
        None \<Rightarrow> Inl RaisedOther
      | Some variables \<Rightarrow> Inr (observations_of multiplier accept_levels variables))"

definition fetch_observations ::
    "string \<Rightarrow> (nat \<Rightarrow> http_outcome) \<Rightarrow> rat \<Rightarrow> string set option \<Rightarrow> raised + (observation list \<times> nat)" where
  "fetch_observations path net multiplier accept_levels =
     (case fst (get_json path net) of
        Inl e \<Rightarrow> Inl e
      | Inr (JList payload) \<Rightarrow> parse_observations payload multiplier accept_levels
      | Inr _ \<Rightarrow> Inl (RaisedDomain (mk_error ProviderError [(''path'', DText path)])))"

definition fetch_available_periods :: "(json \<Rightarrow> string) \<Rightarrow> string \<Rightarrow> string \<Rightarrow> (nat \<Rightarrow> http_outcome) \<Rightarrow> raised + string list" where
  "fetch_available_periods repr table path net =
     (case fst (get_json path net) of
        Inl e \<Rightarrow> Inl e
      | Inr (JList payload) \<Rightarrow>
          Inr (List.map (\<lambda>item. py_str repr (jget item ''id'')) (filter (\<lambda>item. is_dict item \<and> has_key item ''id'') payload))
      | Inr _ \<Rightarrow> Inl (RaisedDomain (mk_error ProviderError [(''table'', DText table)])))"

end
