(* ===== verification/Agregados_Laws.thy ===== *)
theory Agregados_Laws
  imports Agregados
begin

text \<open>
  The observations of an answer against their meaning: per place and year, the mean over the complete periods
  of the year of the sum of the parts.
\<close>

section \<open>Grouping\<close>

definition group_pairs :: "('k \<times> 'v) list \<Rightarrow> ('k \<times> 'v list) list \<Rightarrow> ('k \<times> 'v list) list" where
  "group_pairs kvs m = foldl (\<lambda>m kv. append_to (fst kv) (snd kv) m) m kvs"

lemma group_pairs_simps [simp]:
  "group_pairs [] m = m" "group_pairs (kv # kvs) m = group_pairs kvs (append_to (fst kv) (snd kv) m)"
  "group_pairs (kvs @ kws) m = group_pairs kws (group_pairs kvs m)"
  by (simp_all add: group_pairs_def)

definition values_at :: "'k \<Rightarrow> ('k \<times> 'v) list \<Rightarrow> 'v list" where
  "values_at k kvs = List.map snd (filter (\<lambda>kv. fst kv = k) kvs)"

lemma values_at_simps [simp]:
  "values_at k [] = []" "values_at k (kv # kvs) = (if fst kv = k then snd kv # values_at k kvs else values_at k kvs)"
  by (simp_all add: values_at_def)

lemma distinct_append_to: "distinct (List.map fst m) \<Longrightarrow> distinct (List.map fst (append_to k v m))"
  by (simp add: append_to_def distinct_update)

lemma map_of_append_to:
  "map_of (append_to k v m) j = (if j = k then Some ((case map_of m k of None \<Rightarrow> [] | Some vs \<Rightarrow> vs) @ [v]) else map_of m j)"
  by (simp add: append_to_def update_conv')

lemma distinct_group_pairs: "distinct (List.map fst m) \<Longrightarrow> distinct (List.map fst (group_pairs kvs m))"
  by (induction kvs arbitrary: m) (simp_all add: distinct_append_to)

lemma map_of_group_pairs:
  "map_of (group_pairs kvs m) k =
     (if values_at k kvs = [] then map_of m k
      else Some ((case map_of m k of None \<Rightarrow> [] | Some vs \<Rightarrow> vs) @ values_at k kvs))"
proof (induction kvs arbitrary: m)
  case (Cons kv kvs)
  show ?case by (simp add: Cons.IH map_of_append_to)
qed simp

lemma in_group_pairs:
  "(k, vs) \<in> set (group_pairs kvs []) \<longleftrightarrow> vs \<noteq> [] \<and> vs = values_at k kvs"
proof -
  have "distinct (List.map fst (group_pairs kvs []))" by (rule distinct_group_pairs) simp
  then have "(k, vs) \<in> set (group_pairs kvs []) \<longleftrightarrow> map_of (group_pairs kvs []) k = Some vs"
    by (auto dest: map_of_SomeD intro: map_of_is_SomeI)
  then show ?thesis by (auto simp: map_of_group_pairs)
qed

section \<open>The readings of an answer\<close>

definition series_readings :: "rat \<Rightarrow> string set option \<Rightarrow> agg_series \<Rightarrow> ((string \<times> string) \<times> rat) list" where
  "series_readings multiplier accept_levels s =
     (if (case accept_levels of None \<Rightarrow> False | Some ls \<Rightarrow> as_level s \<notin> ls) then []
      else List.map_filter (\<lambda>(period, raw).
          case (parse_value raw multiplier, reference_year period) of
            (Some v, Some _) \<Rightarrow> Some ((territory_code (as_level s) (as_locality s), period), v) | _ \<Rightarrow> None) (as_serie s))"

definition readings_of :: "rat \<Rightarrow> string set option \<Rightarrow> agg_variable list \<Rightarrow> ((string \<times> string) \<times> rat) list" where
  "readings_of multiplier accept_levels variables =
     concat (List.map (series_readings multiplier accept_levels) (concat (concat variables)))"

lemma add_period_group:
  "fst (foldl (add_period multiplier code) acc serie) =
     group_pairs (List.map_filter (\<lambda>(period, raw).
          case (parse_value raw multiplier, reference_year period) of
            (Some v, Some _) \<Rightarrow> Some ((code, period), v) | _ \<Rightarrow> None) serie) (fst acc)"
proof (induction serie arbitrary: acc)
  case (Cons pv serie)
  obtain period raw where pv: "pv = (period, raw)" by (cases pv)
  show ?case
  proof (cases "\<exists>v y. parse_value raw multiplier = Some v \<and> reference_year period = Some y")
    case True
    then obtain v y where vy: "parse_value raw multiplier = Some v" "reference_year period = Some y" by blast
    then have "add_period multiplier code acc pv = (append_to (code, period) v (fst acc), snd acc)"
      by (simp add: add_period_def pv)
    then show ?thesis using Cons.IH by (simp add: pv vy map_filter_simps)
  next
    case False
    then have "add_period multiplier code acc pv = (fst acc, snd acc + 1)"
      by (auto simp: add_period_def pv split: option.split)
    then show ?thesis using False Cons.IH by (auto simp: pv map_filter_simps split: option.splits)
  qed
qed (simp add: map_filter_simps)

lemma collect_parts_group: "fst (collect_parts multiplier accept_levels variables) = group_pairs (readings_of multiplier accept_levels variables) []"
proof -
  have "fst (foldl (add_series multiplier accept_levels) acc ss) =
      group_pairs (concat (List.map (series_readings multiplier accept_levels) ss)) (fst acc)" for acc ss
  proof (induction ss arbitrary: acc)
    case (Cons s ss)
    have "fst (add_series multiplier accept_levels acc s) = group_pairs (series_readings multiplier accept_levels s) (fst acc)"
      by (simp add: add_series_def series_readings_def add_period_group)
    then show ?case by (simp add: Cons.IH)
  qed simp
  then show ?thesis by (simp add: collect_parts_def readings_of_def)
qed

section \<open>Years\<close>

definition complete_sums :: "nat \<Rightarrow> ((string \<times> string) \<times> rat list) list \<Rightarrow> ((string \<times> int) \<times> rat) list" where
  "complete_sums expected parts = List.map_filter (\<lambda>((code, period), vs).
     if length vs < expected then None else map_option (\<lambda>year. ((code, year), sum_list vs)) (reference_year period)) parts"

lemma complete_sums_Cons:
  "complete_sums expected (((code, period), vs) # parts) =
     (if length vs < expected then complete_sums expected parts
      else case reference_year period of
        None \<Rightarrow> complete_sums expected parts
      | Some year \<Rightarrow> ((code, year), sum_list vs) # complete_sums expected parts)"
  by (simp add: complete_sums_def map_filter_simps split: option.split)

lemma add_year_group: "fst (foldl (add_year expected) acc parts) = group_pairs (complete_sums expected parts) (fst acc)"
proof (induction parts arbitrary: acc)
  case (Cons part parts)
  obtain code period vs where part: "part = ((code, period), vs)" by (metis prod.exhaust)
  show ?case
  proof (cases "length vs < expected")
    case True
    then have "add_year expected acc part = (fst acc, snd acc + length vs)" by (simp add: add_year_def part)
    then show ?thesis using True Cons.IH by (simp add: complete_sums_def part map_filter_simps)
  next
    case False
    show ?thesis
    proof (cases "reference_year period")
      case None
      then have "add_year expected acc part = acc" using False by (simp add: add_year_def part)
      then show ?thesis using None False Cons.IH by (simp add: complete_sums_def part map_filter_simps)
    next
      case (Some year)
      then have "add_year expected acc part = (append_to (code, year) (sum_list vs) (fst acc), snd acc)"
        using False by (simp add: add_year_def part)
      then show ?thesis using Some False Cons.IH by (simp add: complete_sums_def part map_filter_simps)
    qed
  qed
qed (simp add: complete_sums_def map_filter_simps)

text \<open>The complete periods of a place and a year.\<close>

definition complete_periods :: "nat \<Rightarrow> ((string \<times> string) \<times> rat) list \<Rightarrow> string \<Rightarrow> int \<Rightarrow> string set" where
  "complete_periods expected readings code year =
     {p. reference_year p = Some year \<and> values_at (code, p) readings \<noteq> [] \<and> expected \<le> length (values_at (code, p) readings)}"

lemma complete_sums_values:
  fixes readings :: "((string \<times> string) \<times> rat) list"
  defines "parts \<equiv> group_pairs readings []"
  shows "\<exists>ps. distinct ps \<and> set ps = complete_periods expected readings code year \<and>
    values_at (code, year) (complete_sums expected parts) = List.map (\<lambda>p. sum_list (values_at (code, p) readings)) ps"
proof -
  define mine where "mine = filter (\<lambda>part. fst (fst part) = code \<and> reference_year (snd (fst part)) = Some year \<and>
    \<not> length (snd part) < expected) parts"
  define ps where "ps = List.map (snd \<circ> fst) mine"
  have d: "distinct (List.map fst parts)" unfolding parts_def by (rule distinct_group_pairs) simp
  have member: "(k, vs) \<in> set parts \<longleftrightarrow> vs \<noteq> [] \<and> vs = values_at k readings" for k vs
    unfolding parts_def by (rule in_group_pairs)
  have "distinct (List.map fst mine)" unfolding mine_def using d by (rule distinct_map_filter)
  then have "distinct ps" unfolding ps_def distinct_map comp_def
    by (auto simp: inj_on_def mine_def distinct_map prod_eq_iff)
  moreover have "set ps = complete_periods expected readings code year"
  proof (intro set_eqI iffI)
    fix p assume "p \<in> set ps"
    then obtain vs where "((code, p), vs) \<in> set parts" "reference_year p = Some year" "\<not> length vs < expected"
      by (auto simp: ps_def mine_def)
    then show "p \<in> complete_periods expected readings code year" by (auto simp: member complete_periods_def)
  next
    fix p assume p: "p \<in> complete_periods expected readings code year"
    then have "((code, p), values_at (code, p) readings) \<in> set mine" by (auto simp: complete_periods_def mine_def member)
    then show "p \<in> set ps" unfolding ps_def by (force simp: image_iff)
  qed
  moreover have "values_at (code, year) (complete_sums expected xs) =
      List.map (\<lambda>part. sum_list (snd part)) (filter (\<lambda>part. fst (fst part) = code \<and> reference_year (snd (fst part)) = Some year \<and>
    \<not> length (snd part) < expected) xs)" for xs
  proof (induction xs)
    case (Cons part xs)
    then show ?case by (cases part, cases "fst part") (auto simp: complete_sums_Cons split: option.split)
  qed (simp add: complete_sums_def map_filter_simps)
  then have "values_at (code, year) (complete_sums expected parts) = List.map (\<lambda>part. sum_list (snd part)) mine"
    unfolding mine_def by simp
  moreover have "List.map (\<lambda>part. sum_list (snd part)) mine = List.map (\<lambda>p. sum_list (values_at (code, p) readings)) ps"
    unfolding ps_def using member by (auto simp: mine_def)
  ultimately show ?thesis by metis
qed

text \<open>What a place observes in a year: the mean over its complete periods of the sum of the parts.\<close>

definition observed_value :: "nat \<Rightarrow> ((string \<times> string) \<times> rat) list \<Rightarrow> string \<Rightarrow> int \<Rightarrow> rat option" where
  "observed_value expected readings code year =
     (let periods = complete_periods expected readings code year;
          total = (\<Sum>p \<in> periods. sum_list (values_at (code, p) readings)) in
      if periods = {} then None
      else if card periods = 1 then Some total
      else Some (round_places VALUE_SCALE (total / of_nat (card periods))))"

lemma annual_mean_sum:
  assumes "distinct ps" and "ps \<noteq> []"
  shows "annual_mean (List.map f ps) =
    (let total = (\<Sum>p \<in> set ps. f p) in
     if card (set ps) = 1 then total else round_places VALUE_SCALE (total / of_nat (card (set ps))))"
proof -
  have total: "sum_list (List.map f ps) = (\<Sum>p \<in> set ps. f p)" using assms(1) by (rule sum_list_distinct_conv_sum_set)
  have card: "card (set ps) = length ps" using assms(1) by (rule distinct_card)
  show ?thesis
  proof (cases ps)
    case (Cons p qs)
    then show ?thesis using total card by (cases qs) (auto simp: annual_mean_def Let_def)
  qed (use assms(2) in simp)
qed

lemma sorted_by_code_and_year:
  assumes "distinct (List.map fst kvs)"
  shows "sorted_wrt (\<lambda>a b. fst (fst a) < fst (fst b) \<or> fst (fst a) = fst (fst b) \<and> snd (fst a) < snd (fst b))
    (sort_key (\<lambda>kv. fst (fst kv)) (sort_key (\<lambda>kv. snd (fst kv)) (kvs :: ((string \<times> int) \<times> 'v) list)))"
proof -
  define xs where "xs = sort_key (\<lambda>kv. snd (fst kv)) kvs"
  define ys where "ys = sort_key (\<lambda>kv. fst (fst kv)) xs"
  have years: "sorted_wrt (\<lambda>a b. snd (fst a) \<le> snd (fst b)) xs"
    using sorted_sort_key [of "\<lambda>kv. snd (fst kv)" kvs] unfolding xs_def sorted_wrt_map .
  have codes: "sorted_wrt (\<lambda>a b. fst (fst a) \<le> fst (fst b)) ys"
    using sorted_sort_key [of "\<lambda>kv. fst (fst kv)" xs] unfolding ys_def sorted_wrt_map .
  have "distinct (List.map fst ys)"
    using assms unfolding ys_def xs_def by (simp add: distinct_map)
  then have d: "sorted_wrt (\<lambda>a b. fst a \<noteq> fst b) ys" by (simp add: distinct_map sorted_wrt_iff_nth_less distinct_conv_nth inj_on_def)
  have "sorted_wrt (\<lambda>a b. fst (fst a) = fst (fst b) \<longrightarrow> snd (fst a) \<le> snd (fst b)) ys"
  proof -
    have "snd (fst a) \<le> snd (fst b)" if ij: "i < j" "j < length ys" "a = ys ! i" "b = ys ! j" "fst (fst a) = fst (fst b)" for i j a b
    proof -
      define c where "c = fst (fst a)"
      have "filter (\<lambda>kv. fst (fst kv) = c) ys = filter (\<lambda>kv. fst (fst kv) = c) xs"
        unfolding ys_def by (rule sort_key_stable)
      then have s: "sorted_wrt (\<lambda>a b. snd (fst a) \<le> snd (fst b)) (filter (\<lambda>kv. fst (fst kv) = c) ys)"
        using sorted_wrt_filter [OF years] by metis
      let ?P = "\<lambda>kv. fst (fst kv) = c"
      have "ys = take j ys @ b # drop (Suc j) ys" unfolding ij(4) using ij(2) by (rule id_take_nth_drop)
      then have "filter ?P ys = filter ?P (take j ys) @ filter ?P (b # drop (Suc j) ys)" by (metis filter_append)
      then have "filter ?P ys = filter ?P (take j ys) @ b # filter ?P (drop (Suc j) ys)" using ij(5) c_def by simp
      then have "\<forall>x \<in> set (filter ?P (take j ys)). snd (fst x) \<le> snd (fst b)" using s by (simp add: sorted_wrt_append)
      moreover have "a \<in> set (take j ys)" using ij(1,2,3) by (auto simp: in_set_conv_nth)
      ultimately show ?thesis unfolding set_filter Ball_def mem_Collect_eq c_def by blast
    qed
    then show ?thesis by (simp add: sorted_wrt_iff_nth_less)
  qed
  with codes d show ?thesis unfolding ys_def [symmetric] xs_def [symmetric]
    by (simp add: sorted_wrt_iff_nth_less) (metis order_le_imp_less_or_eq prod_eq_iff)
qed

lemma observations_meaning:
  assumes "observations_of multiplier accept_levels variables = (obs, left_out)"
  shows "sorted_wrt (\<lambda>a b. ob_code a < ob_code b \<or> ob_code a = ob_code b \<and> ob_year a < ob_year b) obs \<and>
    (\<forall>code year v. (\<exists>ob \<in> set obs. ob_code ob = code \<and> ob_year ob = year \<and> ob_value ob = v) \<longleftrightarrow>
       observed_value (length (concat variables)) (readings_of multiplier accept_levels variables) code year = Some v)"
proof -
  let ?e = "length (concat variables)" and ?r = "readings_of multiplier accept_levels variables"
  define parts where "parts = group_pairs ?r []"
  define years where "years = group_pairs (complete_sums ?e parts) []"
  define mk where "mk = (\<lambda>((code, year), values). \<lparr>ob_code = code, ob_year = year, ob_value = annual_mean values\<rparr>)"
  have "fst (collect_parts multiplier accept_levels variables) = parts" by (simp add: collect_parts_group parts_def)
  then have "fst (foldl (add_year ?e) ([], snd (collect_parts multiplier accept_levels variables)) parts) = years"
    by (simp add: add_year_group years_def)
  then have obs: "obs = List.map mk (sort_key (\<lambda>kv. fst (fst kv)) (sort_key (\<lambda>kv. snd (fst kv)) years))"
    using assms \<open>fst (collect_parts multiplier accept_levels variables) = parts\<close>
    unfolding observations_of_def Let_def mk_def by (simp add: split_beta)
  have d: "distinct (List.map fst years)" unfolding years_def by (rule distinct_group_pairs) simp
  have sorted: "sorted_wrt (\<lambda>a b. ob_code a < ob_code b \<or> ob_code a = ob_code b \<and> ob_year a < ob_year b) obs"
    unfolding obs sorted_wrt_map
    by (rule sorted_wrt_mono_rel [OF _ sorted_by_code_and_year [OF d]]) (auto simp: mk_def split_beta)
  have member: "((code, year), vs) \<in> set years \<longleftrightarrow> vs \<noteq> [] \<and> vs = values_at (code, year) (complete_sums ?e parts)" for code year vs
    unfolding years_def by (rule in_group_pairs)
  have observed: "(\<exists>ob \<in> set obs. ob_code ob = code \<and> ob_year ob = year \<and> ob_value ob = v) \<longleftrightarrow>
       observed_value ?e ?r code year = Some v" for code year v
  proof -
    obtain ps where ps: "distinct ps" "set ps = complete_periods ?e ?r code year"
        "values_at (code, year) (complete_sums ?e parts) = List.map (\<lambda>p. sum_list (values_at (code, p) ?r)) ps"
      using complete_sums_values unfolding parts_def by blast
    have "(\<exists>ob \<in> set obs. ob_code ob = code \<and> ob_year ob = year \<and> ob_value ob = v) \<longleftrightarrow>
        (\<exists>vs. ((code, year), vs) \<in> set years \<and> v = annual_mean vs)"
      unfolding obs by (force simp: mk_def)
    also have "\<dots> \<longleftrightarrow> ps \<noteq> [] \<and> v = annual_mean (List.map (\<lambda>p. sum_list (values_at (code, p) ?r)) ps)"
      by (auto simp: member ps(3))
    also have "\<dots> \<longleftrightarrow> observed_value ?e ?r code year = Some v"
    proof (cases "ps = []")
      case True
      then show ?thesis using ps(2) by (simp add: observed_value_def)
    next
      case False
      then have "complete_periods ?e ?r code year \<noteq> {}" using ps(2) by auto
      moreover note annual_mean_sum [OF ps(1) False, of "\<lambda>p. sum_list (values_at (code, p) ?r)"]
      ultimately show ?thesis using False unfolding ps(2) observed_value_def Let_def by auto
    qed
    finally show ?thesis .
  qed
  show ?thesis using sorted observed by blast
qed

text \<open>
  Property C31. The observations of an answer: at most one per place and year, in increasing order; and a place
  has one for a year exactly when some period of that year has a value for every part asked, its value being the
  mean over those periods of the sums of the parts. A partial sum never enters.
\<close>

theorem observations_are_means_of_sums:
  "case observations_of multiplier accept_levels variables of (obs, left_out) \<Rightarrow>
     sorted_wrt (\<lambda>a b. ob_code a < ob_code b \<or> ob_code a = ob_code b \<and> ob_year a < ob_year b) obs \<and>
     (\<forall>code year v. (\<exists>ob \<in> set obs. ob_code ob = code \<and> ob_year ob = year \<and> ob_value ob = v) \<longleftrightarrow>
        observed_value (length (concat variables)) (readings_of multiplier accept_levels variables) code year = Some v)"
  using observations_meaning by (simp split: prod.split)

end
