(* ===== verification/Indicators.thy ===== *)
theory Indicators
  imports Agregados Jobs Territories
begin

text \<open>
  Indicators and their values: \<open>app/models/indicator.py\<close>, the upsert of \<open>app/jobs/import_indicators.py\<close>, the
  queries of \<open>app/repositories/socioeconomic.py\<close> and the derivations of \<open>app/services/derived.py\<close> with the
  specifications of \<open>app/providers/specs.py\<close>. PostgreSQL's division and power of \<open>numeric\<close> values, whose
  number of digits is the server's choice, are parameters.
\<close>

section \<open>Tables\<close>

datatype indicator_origin = Sourced | Derived

record indicator =
  in_id :: int
  in_key :: string
  in_name :: string
  in_description :: "string option"
  in_unit :: string
  in_origin :: indicator_origin
  in_decimal_places :: int
  in_display_order :: int
  in_context :: string

record indicator_value =
  iv_territory_id :: int
  iv_indicator_id :: int
  iv_year :: int
  iv_value :: rat
  iv_dataset_id :: int
  iv_run_id :: "int option"

record socio_db =
  so_indicators :: "indicator list"
  so_values :: "indicator_value list"

definition value_key :: "indicator_value \<Rightarrow> int \<times> int \<times> int" where
  "value_key v = (iv_territory_id v, iv_indicator_id v, iv_year v)"

definition same_value :: "indicator_value \<Rightarrow> indicator_value \<Rightarrow> bool" where
  "same_value a b \<longleftrightarrow> value_key a = value_key b"

text \<open>\<open>numeric(24, 6)\<close>: six decimals, halves away from zero, fewer than eighteen digits before the point.\<close>

definition round_away :: "nat \<Rightarrow> rat \<Rightarrow> rat" where
  "round_away n x = sgn x * of_int \<lfloor>\<bar>x\<bar> * 10 ^ n + 1 / 2\<rfloor> / 10 ^ n"

definition numeric_24_6 :: "rat \<Rightarrow> rat option" where
  "numeric_24_6 x = (let r = round_away 6 x in if \<bar>r\<bar> < 10 ^ 18 then Some r else None)"

section \<open>The upsert\<close>

definition value_changed :: "indicator_value \<Rightarrow> indicator_value \<Rightarrow> bool" where
  "value_changed target excluded \<longleftrightarrow>
     iv_value target \<noteq> iv_value excluded \<or> iv_dataset_id target \<noteq> iv_dataset_id excluded"

definition merge_value :: "indicator_value \<Rightarrow> indicator_value \<Rightarrow> indicator_value" where
  "merge_value excluded target =
     (if value_changed target excluded
      then target\<lparr>iv_value := iv_value excluded, iv_dataset_id := iv_dataset_id excluded, iv_run_id := iv_run_id excluded\<rparr>
      else target)"

text \<open>A row is refused when its year breaks the check or its value does not fit the column.\<close>

definition stored_row :: "indicator_value \<Rightarrow> indicator_value option" where
  "stored_row r =
     (if 1900 \<le> iv_year r \<and> iv_year r \<le> 2100
      then map_option (\<lambda>x. r\<lparr>iv_value := x\<rparr>) (numeric_24_6 (iv_value r)) else None)"

text \<open>
  One statement: the rows proposed in order. A row that conflicts with one this statement wrote is an error;
  \<open>touched\<close> are the rows it wrote.
\<close>

definition upsert_value ::
    "indicator_value list \<times> indicator_value list \<Rightarrow> indicator_value \<Rightarrow> raised + indicator_value list \<times> indicator_value list" where
  "upsert_value st r =
     (let (touched, t) = st in
      case stored_row r of
        None \<Rightarrow> Inl RaisedOther
      | Some s \<Rightarrow>
          if list_ex (same_value s) touched then Inl RaisedOther
          else case select_first (same_value s) t of
            None \<Rightarrow> Inr (touched @ [s], t @ [s])
          | Some x \<Rightarrow> Inr (if value_changed x s then touched @ [s] else touched,
                          insert_or_update same_value merge_value s t))"

definition upsert_values :: "indicator_value list \<Rightarrow> socio_db \<Rightarrow> raised + nat \<times> socio_db" where
  "upsert_values rows so =
     (case fold_each upsert_value ([], so_values so) rows of
        Inl e \<Rightarrow> Inl e
      | Inr (touched, t) \<Rightarrow> Inr (length touched, so\<lparr>so_values := t\<rparr>))"

definition proposed_values :: "observation list \<Rightarrow> int \<Rightarrow> int \<Rightarrow> int \<Rightarrow> db \<Rightarrow> indicator_value list" where
  "proposed_values observations indicator dataset run d =
     [\<lparr>iv_territory_id = t_id t, iv_indicator_id = indicator, iv_year = ob_year ob, iv_value = ob_value ob,
       iv_dataset_id = dataset, iv_run_id = Some run\<rparr>. ob \<leftarrow> observations, t \<leftarrow> territories d, t_ibge_code t = ob_code ob]"

definition persist :: "observation list \<Rightarrow> int \<Rightarrow> int \<Rightarrow> int \<Rightarrow> db \<Rightarrow> socio_db \<Rightarrow> raised + nat \<times> socio_db" where
  "persist observations indicator dataset run d so =
     (if observations = [] then Inr (0, so)
      else if list_ex (\<lambda>ob. \<not> (- 32768 \<le> ob_year ob \<and> ob_year ob \<le> 32767)) observations then Inl RaisedOther
      else upsert_values (proposed_values observations indicator dataset run d) so)"

section \<open>Derived indicators\<close>

record numeric_ops =
  no_div :: "rat \<Rightarrow> rat \<Rightarrow> rat"
  no_power :: "rat \<Rightarrow> rat \<Rightarrow> rat option"

text \<open>\<open>DerivedIndicatorSpec\<close> without the data set's name.\<close>

datatype derived_spec =
    Ratio string string string rat
  | Growth string string rat
  | Share string string rat

fun spec_key :: "derived_spec \<Rightarrow> string" where
  "spec_key (Ratio k n d f) = k"
| "spec_key (Growth k b f) = k"
| "spec_key (Share k b f) = k"

fun spec_dependencies :: "derived_spec \<Rightarrow> string list" where
  "spec_dependencies (Ratio k n d f) = [n, d]"
| "spec_dependencies (Growth k b f) = [b]"
| "spec_dependencies (Share k b f) = [b]"

definition spec_dataset_code :: "derived_spec \<Rightarrow> string" where
  "spec_dataset_code s = ''derived/'' @ spec_key s"

text \<open>\<open>ORDER BY reference_year DESC LIMIT 1\<close> over the values of a territory and an indicator.\<close>

definition latest_value :: "int \<Rightarrow> int \<Rightarrow> (int \<Rightarrow> bool) \<Rightarrow> indicator_value list \<Rightarrow> indicator_value option" where
  "latest_value territory indicator years vs =
     (case filter (\<lambda>v. iv_territory_id v = territory \<and> iv_indicator_id v = indicator \<and> years (iv_year v)) vs of
        [] \<Rightarrow> None
      | x # xs \<Rightarrow> Some (foldl (\<lambda>a b. if iv_year b > iv_year a then b else a) x xs))"

definition derived_row :: "int \<Rightarrow> int \<Rightarrow> int option \<Rightarrow> indicator_value \<Rightarrow> rat \<Rightarrow> indicator_value" where
  "derived_row target dataset run base x =
     \<lparr>iv_territory_id = iv_territory_id base, iv_indicator_id = target, iv_year = iv_year base,
      iv_value = round_away 6 x, iv_dataset_id = dataset, iv_run_id = run\<rparr>"

definition ratio_rows ::
    "numeric_ops \<Rightarrow> rat \<Rightarrow> int \<Rightarrow> int \<Rightarrow> int \<Rightarrow> int \<Rightarrow> int option \<Rightarrow> indicator_value list \<Rightarrow> indicator_value list" where
  "ratio_rows ops factor target num den dataset run vs =
     List.map_filter (\<lambda>n.
       if iv_indicator_id n \<noteq> num then None
       else case latest_value (iv_territory_id n) den (\<lambda>y. y \<le> iv_year n) vs of
         None \<Rightarrow> None
       | Some d \<Rightarrow> if iv_value d = 0 then None
                   else Some (derived_row target dataset run n (no_div ops (iv_value n) (iv_value d) * factor))) vs"

text \<open>A growth whose power is not defined fails the statement.\<close>

definition growth_rows ::
    "numeric_ops \<Rightarrow> rat \<Rightarrow> int \<Rightarrow> int \<Rightarrow> int \<Rightarrow> int option \<Rightarrow> indicator_value list \<Rightarrow> raised + indicator_value list" where
  "growth_rows ops factor target base dataset run vs =
     map_each (\<lambda>(v, previous).
         case no_power ops (no_div ops (iv_value v) (iv_value previous)) (no_div ops 1 (of_int (iv_year v - iv_year previous))) of
           None \<Rightarrow> Inl RaisedOther
         | Some x \<Rightarrow> Inr (derived_row target dataset run v ((x - 1) * factor)))
       (List.map_filter (\<lambda>v.
         if iv_indicator_id v \<noteq> base then None
         else case latest_value (iv_territory_id v) base (\<lambda>y. y < iv_year v) vs of
           None \<Rightarrow> None
         | Some previous \<Rightarrow> if iv_value previous > 0 then Some (v, previous) else None) vs)"

text \<open>The values of the country (each territory of that level) for the year of a value.\<close>

definition national_values :: "int \<Rightarrow> territory \<Rightarrow> int \<Rightarrow> indicator_value list \<Rightarrow> indicator_value list" where
  "national_values base country year vs =
     filter (\<lambda>n. iv_territory_id n = t_id country \<and> iv_indicator_id n = base \<and> iv_year n = year \<and> iv_value n \<noteq> 0) vs"

definition share_rows ::
    "numeric_ops \<Rightarrow> rat \<Rightarrow> int \<Rightarrow> int \<Rightarrow> int \<Rightarrow> int option \<Rightarrow> db \<Rightarrow> indicator_value list \<Rightarrow> indicator_value list" where
  "share_rows ops factor target base dataset run d vs =
     concat (List.map (\<lambda>p. concat (List.map (\<lambda>c.
         List.map (\<lambda>n. derived_row target dataset run p (no_div ops (iv_value p) (iv_value n) * factor))
           (national_values base c (iv_year p) vs))
         (filter (\<lambda>t. t_level t = Country) (territories d))))
       (filter (\<lambda>p. iv_indicator_id p = base) vs))"

definition derived_rows ::
    "numeric_ops \<Rightarrow> derived_spec \<Rightarrow> (string \<Rightarrow> int option) \<Rightarrow> int \<Rightarrow> int option \<Rightarrow> db \<Rightarrow> indicator_value list
     \<Rightarrow> raised + indicator_value list" where
  "derived_rows ops spec ids dataset run d vs =
     (let wanted = (\<lambda>k. from_option RaisedOther (ids k)) in
      and_then (wanted (spec_key spec)) (\<lambda>target.
        case spec of
          Ratio k n den factor \<Rightarrow>
            and_then (wanted n) (\<lambda>num. and_then (wanted den) (\<lambda>den. Inr (ratio_rows ops factor target num den dataset run vs)))
        | Growth k b factor \<Rightarrow> and_then (wanted b) (\<lambda>base. growth_rows ops factor target base dataset run vs)
        | Share k b factor \<Rightarrow> and_then (wanted b) (\<lambda>base. Inr (share_rows ops factor target base dataset run d vs))))"

definition derive ::
    "numeric_ops \<Rightarrow> derived_spec \<Rightarrow> (string \<Rightarrow> int option) \<Rightarrow> int \<Rightarrow> int option \<Rightarrow> db \<Rightarrow> socio_db
     \<Rightarrow> raised + nat \<times> socio_db" where
  "derive ops spec ids dataset run d so =
     and_then (derived_rows ops spec ids dataset run d (so_values so)) (\<lambda>rows. upsert_values rows so)"

text \<open>The reference formulas of the module, in Python's decimals (\<open>ops\<close>), round halves to even.\<close>

definition expected_value :: "numeric_ops \<Rightarrow> rat \<Rightarrow> rat \<Rightarrow> rat \<Rightarrow> rat" where
  "expected_value ops numerator denominator factor = round_places 6 (no_div ops numerator denominator * factor)"

definition expected_share :: "numeric_ops \<Rightarrow> rat \<Rightarrow> rat \<Rightarrow> rat \<Rightarrow> rat" where
  "expected_share ops v national_value factor = round_places 6 (no_div ops v national_value * factor)"

definition expected_growth :: "numeric_ops \<Rightarrow> rat \<Rightarrow> rat \<Rightarrow> int \<Rightarrow> rat \<Rightarrow> raised + rat" where
  "expected_growth ops v previous_value years factor =
     (if years \<le> 0 then Inl RaisedOther
      else case no_power ops (no_div ops v previous_value) (no_div ops 1 (of_int years)) of
        None \<Rightarrow> Inl RaisedOther
      | Some annualized \<Rightarrow> Inr (round_places 6 ((annualized - 1) * factor)))"

section \<open>Queries\<close>

definition SOCIO_JOBS :: "string list" where
  "SOCIO_JOBS = [''seed_indicators'', ''import_indicators'', ''import_environment'', ''import_education'']"

definition socio_version :: "db \<Rightarrow> string" where
  "socio_version d =
     int_to_string (case List.map r_id (filter (\<lambda>r. r_job r \<in> set SOCIO_JOBS \<and> r_status r = Succeeded) (ingestion_runs d)) of
        [] \<Rightarrow> 0 | i # is \<Rightarrow> foldl max i is)"

definition indicator_id :: "string \<Rightarrow> socio_db \<Rightarrow> int option" where
  "indicator_id key so = map_option in_id (select_first (\<lambda>i. in_key i = key) (so_indicators so))"

definition covered_years :: "territory_level \<Rightarrow> int \<Rightarrow> db \<Rightarrow> socio_db \<Rightarrow> int list" where
  "covered_years level indicator d so =
     sort (remdups [iv_year v. v \<leftarrow> so_values so, t \<leftarrow> territories d,
       iv_indicator_id v = indicator \<and> t_id t = iv_territory_id v \<and> t_level t = level])"

definition catalog_rows :: "(string \<Rightarrow> string) \<Rightarrow> territory_level \<Rightarrow> string \<Rightarrow> db \<Rightarrow> socio_db \<Rightarrow> (indicator \<times> int list) list" where
  "catalog_rows collate level context d so =
     List.map (\<lambda>i. (i, covered_years level (in_id i) d so))
       (sort_key in_display_order (sort_key (\<lambda>i. collate (in_key i)) (filter (\<lambda>i. in_context i = context) (so_indicators so))))"

text \<open>One row per territory of the level, with its value in the year when there is one.\<close>

definition level_values :: "(string \<Rightarrow> string) \<Rightarrow> territory_level \<Rightarrow> int \<Rightarrow> int option \<Rightarrow> db \<Rightarrow> socio_db
    \<Rightarrow> (string \<times> string option \<times> rat option) list" where
  "level_values collate level indicator year d so =
     List.map (\<lambda>t. (t_ibge_code t, map_option t_ibge_code (territory_by_id (t_parent_id t) d),
         map_option iv_value (outer_join (\<lambda>v. iv_territory_id v = t_id t \<and> iv_indicator_id v = indicator \<and> Some (iv_year v) = year)
           (so_values so))))
       (sort_key (\<lambda>t. collate (t_ibge_code t)) (filter (\<lambda>t. t_level t = level) (territories d)))"

text \<open>\<open>DISTINCT ON (key) ... ORDER BY key, reference_year DESC\<close>: per indicator, its value of the last year.\<close>

definition territory_values ::
    "string \<Rightarrow> int option \<Rightarrow> string \<Rightarrow> db \<Rightarrow> socio_db \<Rightarrow> (string \<times> int \<times> rat \<times> string) list" where
  "territory_values code year context d so =
     List.map_filter (\<lambda>i.
       let rows = [(v, ds_name s). v \<leftarrow> so_values so, s \<leftarrow> datasets d, t \<leftarrow> territories d,
             iv_indicator_id v = in_id i \<and> ds_id s = iv_dataset_id v \<and> t_id t = iv_territory_id v \<and> t_ibge_code t = code \<and>
             (year = None \<or> year = Some (iv_year v))] in
       case rows of
         [] \<Rightarrow> None
       | r # rs \<Rightarrow>
           (let (v, source) = foldl (\<lambda>a b. if iv_year (fst b) > iv_year (fst a) then b else a) r rs in
            Some (in_key i, iv_year v, iv_value v, source)))
       (filter (\<lambda>i. in_context i = context) (so_indicators so))"

end
