(* ===== verification/Indicator_Laws.thy ===== *)
theory Indicator_Laws
  imports Indicators
begin

text \<open>
  The upsert of indicator values and the derivations: what a statement leaves in the table, and that deriving
  again writes nothing.
\<close>

section \<open>The table of values\<close>

lemma value_key_merge [simp]: "value_key (merge_value r x) = value_key x"
  by (simp add: merge_value_def value_key_def)

interpretation values_table: upsert_table same_value "insert_ignore same_value" "insert_or_update same_value merge_value" merge_value
  by (rule insert_or_update_table) (auto simp: same_value_def)

lemma stored_row_Some:
  assumes "stored_row r = Some s"
  shows "value_key s = value_key r \<and> iv_dataset_id s = iv_dataset_id r \<and> iv_run_id s = iv_run_id r \<and>
    iv_indicator_id s = iv_indicator_id r \<and> 1900 \<le> iv_year s \<and> iv_year s \<le> 2100"
  using assms by (auto simp: stored_row_def value_key_def split: if_splits)

lemma upsert_value_step:
  assumes "upsert_value (touched, t) r = Inr (touched', t')"
  shows "\<exists>s. stored_row r = Some s \<and> t' = insert_or_update same_value merge_value s t"
proof -
  obtain s where s: "stored_row r = Some s" using assms by (auto simp: upsert_value_def split: option.splits)
  show ?thesis
  proof (cases "select_first (same_value s) t")
    case None
    then have "\<not> list_ex (same_value s) t" by (auto simp: select_first_None list_ex_iff)
    then show ?thesis using assms s None by (auto simp: upsert_value_def insert_or_update_def split: if_splits)
  next
    case (Some x)
    then show ?thesis using assms s by (auto simp: upsert_value_def split: if_splits)
  qed
qed

lemma upsert_values_fold:
  assumes "fold_each upsert_value (touched, t) rows = Inr (touched', t')"
  shows "\<exists>ss. list_all2 (\<lambda>r s. stored_row r = Some s) rows ss \<and> t' = fold (insert_or_update same_value merge_value) ss t"
  using assms
proof (induction rows arbitrary: touched t)
  case (Cons r rows)
  obtain touched1 t1 where 1: "upsert_value (touched, t) r = Inr (touched1, t1)" "fold_each upsert_value (touched1, t1) rows = Inr (touched', t')"
    using Cons.prems by (auto simp: and_then_Inr)
  obtain s where s: "stored_row r = Some s" "t1 = insert_or_update same_value merge_value s t"
    using upsert_value_step [OF 1(1)] by blast
  obtain ss where "list_all2 (\<lambda>r s. stored_row r = Some s) rows ss" "t' = fold (insert_or_update same_value merge_value) ss t1"
    using Cons.IH [OF 1(2)] by blast
  then show ?case using s by (intro exI [of _ "s # ss"]) simp
qed simp

lemma upsert_values_noop:
  assumes "list_all2 (\<lambda>r s. stored_row r = Some s) rows ss"
    and "\<forall>s \<in> set ss. \<exists>x \<in> set t. same_value s x" and "\<forall>s \<in> set ss. \<forall>x \<in> set t. same_value s x \<longrightarrow> \<not> value_changed x s"
  shows "fold_each upsert_value ([], t) rows = Inr ([], t)"
  using assms
proof (induction rows ss rule: list_all2_induct)
  case (Cons r rows s ss)
  obtain x where x: "select_first (same_value s) t = Some x"
    using Cons.prems by (cases "select_first (same_value s) t") (auto simp: select_first_None)
  then have "x \<in> set t" "same_value s x" using select_first_Some by fast+
  then have "\<not> value_changed x s" using Cons.prems by simp
  moreover have "insert_or_update same_value merge_value s t = t"
    using Cons.prems by (intro values_table.ups_noop) (auto simp: merge_value_def)
  ultimately have "upsert_value ([], t) r = Inr ([], t)" using Cons.hyps(1) x by (simp add: upsert_value_def)
  then show ?case using Cons by simp
qed simp

lemma filter_insert_or_update:
  assumes "\<not> P r" and "\<And>x. c r x \<Longrightarrow> \<not> P x \<and> \<not> P (u r x)"
  shows "filter P (insert_or_update c u r t) = filter P t"
proof -
  have "filter P (List.map (\<lambda>x. if c r x then u r x else x) t) = filter P t"
    using assms(2) by (induction t) auto
  then show ?thesis using assms(1) by (simp add: insert_or_update_def)
qed

lemma filter_upsert_values:
  assumes "\<forall>s \<in> set ss. iv_indicator_id s = target"
  shows "filter (\<lambda>v. iv_indicator_id v \<noteq> target) (fold (insert_or_update same_value merge_value) ss t) =
    filter (\<lambda>v. iv_indicator_id v \<noteq> target) t"
  using assms
proof (induction ss arbitrary: t)
  case (Cons s ss)
  have "filter (\<lambda>v. iv_indicator_id v \<noteq> target) (insert_or_update same_value merge_value s t) = filter (\<lambda>v. iv_indicator_id v \<noteq> target) t"
    using Cons.prems by (intro filter_insert_or_update) (auto simp: same_value_def value_key_def merge_value_def)
  then show ?case using Cons by simp
qed simp

text \<open>What a successful upsert of rows without repeated keys leaves.\<close>

lemma upsert_values_effect:
  assumes "upsert_values rows so = Inr (n, so')" and "no_conflicts same_value (so_values so)" and "no_conflicts same_value rows"
  shows "no_conflicts same_value (so_values so') \<and> so_indicators so' = so_indicators so \<and>
    (\<forall>r \<in> set rows. \<exists>v \<in> set (so_values so'). value_key v = value_key r \<and> Some (iv_value v) = numeric_24_6 (iv_value r) \<and>
       iv_dataset_id v = iv_dataset_id r) \<and>
    (\<forall>v \<in> set (so_values so). value_key v \<notin> value_key ` set rows \<longrightarrow> v \<in> set (so_values so')) \<and>
    upsert_values rows so' = Inr (0, so')"
proof -
  let ?ups = "insert_or_update same_value merge_value"
  obtain touched t where run: "fold_each upsert_value ([], so_values so) rows = Inr (touched, t)" "so' = so\<lparr>so_values := t\<rparr>"
    using assms(1) by (auto simp: upsert_values_def split: sum.splits)
  obtain ss where ss: "list_all2 (\<lambda>r s. stored_row r = Some s) rows ss" "t = fold ?ups ss (so_values so)"
    using upsert_values_fold [OF run(1)] by blast
  have key: "value_key (ss ! i) = value_key (rows ! i)" if "i < length rows" for i
    using list_all2_nthD [OF ss(1) that] stored_row_Some by blast
  have len: "length ss = length rows" using ss(1) by (simp add: list_all2_lengthD)
  have nc: "no_conflicts same_value ss"
    using assms(3) key by (simp add: no_conflicts_def sorted_wrt_iff_nth_less same_value_def len)
  have uniq: "no_conflicts same_value t" unfolding ss(2) by (rule values_table.ups_all_unique [OF assms(2)])
  have written: "\<exists>v \<in> set t. value_key v = value_key s \<and> \<not> value_changed v s" if mem: "s \<in> set ss" for s
  proof -
    obtain v where "v \<in> set t" "v = s \<or> (\<exists>y \<in> set (so_values so). same_value s y \<and> v = merge_value s y)"
      using values_table.ups_all_written [OF nc mem] unfolding ss(2) by blast
    then show ?thesis by (intro bexI [of _ v]) (auto simp: same_value_def value_changed_def merge_value_def value_key_def)
  qed
  have stored: "\<exists>v \<in> set t. value_key v = value_key r \<and> Some (iv_value v) = numeric_24_6 (iv_value r) \<and> iv_dataset_id v = iv_dataset_id r"
    if "r \<in> set rows" for r
  proof -
    obtain i where i: "i < length rows" "r = rows ! i" using \<open>r \<in> set rows\<close> by (auto simp: in_set_conv_nth)
    have s: "stored_row r = Some (ss ! i)" using list_all2_nthD [OF ss(1) i(1)] i(2) by simp
    obtain v where v: "v \<in> set t" "value_key v = value_key (ss ! i)" "\<not> value_changed v (ss ! i)"
      using written [of "ss ! i"] i len by auto
    obtain z where "numeric_24_6 (iv_value r) = Some z" "ss ! i = r\<lparr>iv_value := z\<rparr>"
      using s by (auto simp: stored_row_def split: if_splits)
    then show ?thesis using v by (intro bexI [of _ v]) (auto simp: value_changed_def value_key_def)
  qed
  have others: "v \<in> set t" if "v \<in> set (so_values so)" "value_key v \<notin> value_key ` set rows" for v
    unfolding ss(2)
  proof (rule values_table.ups_all_others [OF that(1)], intro ballI)
    fix s assume "s \<in> set ss"
    then obtain i where "i < length rows" "s = ss ! i" using len by (auto simp: in_set_conv_nth)
    then show "\<not> same_value s v" using key that(2) unfolding same_value_def by (metis image_eqI nth_mem)
  qed
  have "fold_each upsert_value ([], t) rows = Inr ([], t)"
  proof (rule upsert_values_noop [OF ss(1)]; intro ballI impI)
    fix s assume s: "s \<in> set ss"
    show "\<exists>x \<in> set t. same_value s x" using written [OF s] unfolding same_value_def by metis
    fix x assume x: "x \<in> set t" "same_value s x"
    obtain v where v: "v \<in> set t" "value_key v = value_key s" "\<not> value_changed v s" using written [OF s] by blast
    then have "x = v" using values_table.unique_lookup [OF uniq x(1) v(1)] x(2) by (simp add: same_value_def)
    then show "\<not> value_changed x s" using v by simp
  qed
  then have again: "upsert_values rows so' = Inr (0, so')" by (simp add: upsert_values_def run(2))
  show ?thesis using uniq stored others again by (simp add: run(2))
qed

section \<open>Derivations\<close>

lemma sorted_wrt_concat_map:
  assumes "sorted_wrt R xs" and "\<And>x y a b. R x y \<Longrightarrow> a \<in> set (g x) \<Longrightarrow> b \<in> set (g y) \<Longrightarrow> Q a b" and "\<And>x. length (g x) \<le> 1"
  shows "sorted_wrt Q (concat (List.map g xs))"
  using assms(1)
proof (induction xs)
  case (Cons x xs)
  have "sorted_wrt Q (g x)" using assms(3) [of x] by (cases "g x") auto
  then show ?case using Cons assms(2) by (auto simp: sorted_wrt_append)
qed simp

lemma map_filter_concat: "List.map_filter f xs = concat (List.map (\<lambda>x. case f x of None \<Rightarrow> [] | Some y \<Rightarrow> [y]) xs)"
  by (induction xs) (auto simp: map_filter_simps split: option.splits)

lemma set_map_filter: "y \<in> set (List.map_filter f xs) \<longleftrightarrow> (\<exists>x \<in> set xs. f x = Some y)"
  by (induction xs) (auto simp: map_filter_simps split: option.splits)

lemma sorted_wrt_map_filter:
  assumes "sorted_wrt R xs" and "\<And>x y a b. R x y \<Longrightarrow> f x = Some a \<Longrightarrow> f y = Some b \<Longrightarrow> Q a b"
  shows "sorted_wrt Q (List.map_filter f xs)"
  unfolding map_filter_concat using assms
  by (intro sorted_wrt_concat_map [where R = R]) (auto split: option.splits)

lemma derived_row_fields [simp]:
  "iv_territory_id (derived_row target dataset run v x) = iv_territory_id v"
  "iv_year (derived_row target dataset run v x) = iv_year v"
  "iv_indicator_id (derived_row target dataset run v x) = target"
  "iv_value (derived_row target dataset run v x) = round_away 6 x"
  "iv_dataset_id (derived_row target dataset run v x) = dataset"
  by (simp_all add: derived_row_def)

lemma ratio_rows_unique:
  assumes "no_conflicts same_value vs"
  shows "no_conflicts same_value (ratio_rows ops factor target num den dataset run vs)"
  unfolding ratio_rows_def no_conflicts_def
  by (rule sorted_wrt_map_filter [OF assms [unfolded no_conflicts_def]])
    (auto simp: same_value_def value_key_def split: if_splits option.splits)

lemma growth_rows_unique:
  assumes "no_conflicts same_value vs" and "growth_rows ops factor target base dataset run vs = Inr rows"
  shows "no_conflicts same_value rows"
proof -
  define pairs where "pairs = List.map_filter (\<lambda>v.
         if iv_indicator_id v \<noteq> base then None
         else case latest_value (iv_territory_id v) base (\<lambda>y. y < iv_year v) vs of
           None \<Rightarrow> None
         | Some previous \<Rightarrow> if iv_value previous > 0 then Some (v, previous) else None) vs"
  have base: "iv_indicator_id (fst p) = base" if "p \<in> set pairs" for p
    using that by (auto simp: pairs_def map_filter_def split: if_splits option.splits)
  have apart: "sorted_wrt (\<lambda>p q. \<not> same_value (fst p) (fst q)) pairs"
    unfolding pairs_def
    by (rule sorted_wrt_map_filter [OF assms(1) [unfolded no_conflicts_def]]) (auto split: if_splits option.splits)
  have rows: "list_all2 (\<lambda>p r. iv_territory_id r = iv_territory_id (fst p) \<and> iv_year r = iv_year (fst p) \<and> iv_indicator_id r = target) pairs rows"
    using assms(2) unfolding growth_rows_def pairs_def [symmetric] map_each_Inr
    by (rule list_all2_mono) (auto split: option.splits)
  have "\<not> same_value (rows ! i) (rows ! j)" if ij: "i < j" "j < length rows" for i j
  proof -
    have len: "length pairs = length rows" using rows by (rule list_all2_lengthD)
    have "\<not> same_value (fst (pairs ! i)) (fst (pairs ! j))" using apart ij len by (simp add: sorted_wrt_iff_nth_less)
    moreover have "iv_indicator_id (fst (pairs ! i)) = base" "iv_indicator_id (fst (pairs ! j)) = base"
      using base ij len by auto
    moreover note list_all2_nthD [OF rows, of i] list_all2_nthD [OF rows, of j]
    ultimately show ?thesis using ij len by (auto simp: same_value_def value_key_def)
  qed
  then show ?thesis by (simp add: no_conflicts_def sorted_wrt_iff_nth_less)
qed

lemma same_value_unique:
  assumes "no_conflicts same_value vs" and "a \<in> set vs" and "b \<in> set vs" and "value_key a = value_key b"
  shows "a = b"
  using values_table.unique_lookup [OF assms(1,2,3)] assms(4) by (simp add: same_value_def)

lemma length_filter_unique:
  assumes "no_conflicts same_value vs" and "\<And>v w. P v \<Longrightarrow> P w \<Longrightarrow> value_key v = value_key w"
  shows "length (filter P vs) \<le> 1"
proof (cases "filter P vs")
  case (Cons x xs)
  show ?thesis
  proof (cases xs)
    case (Cons y ys)
    have "sorted_wrt (\<lambda>a b. \<not> same_value a b) (filter P vs)"
      using assms(1) unfolding no_conflicts_def by (rule sorted_wrt_filter)
    then have apart: "\<not> same_value x y" unfolding \<open>filter P vs = x # xs\<close> Cons by simp
    have "{x, y} \<subseteq> set (filter P vs)" unfolding \<open>filter P vs = x # xs\<close> Cons by simp
    then have "P x" "P y" by auto
    from assms(2) [OF this] show ?thesis using apart by (simp add: same_value_def)
  qed (use Cons in simp)
qed simp

lemma share_rows_unique:
  assumes "no_conflicts same_value vs" and "length (filter (\<lambda>t. t_level t = Country) (territories d)) \<le> 1"
  shows "no_conflicts same_value (share_rows ops factor target base dataset run d vs)"
proof -
  define mine where "mine p = concat (List.map (\<lambda>c.
      List.map (\<lambda>n. derived_row target dataset run p (no_div ops (iv_value p) (iv_value n) * factor))
        (national_values base c (iv_year p) vs)) (filter (\<lambda>t. t_level t = Country) (territories d)))" for p
  have one: "length (mine p) \<le> 1" for p
  proof (cases "filter (\<lambda>t. t_level t = Country) (territories d)")
    case (Cons c cs)
    then have "cs = []" using assms(2) by simp
    moreover have "length (national_values base c (iv_year p) vs) \<le> 1"
      unfolding national_values_def by (rule length_filter_unique [OF assms(1)]) (simp add: value_key_def)
    ultimately show ?thesis using Cons by (simp add: mine_def)
  qed (simp add: mine_def)
  have "sorted_wrt (\<lambda>a b. \<not> same_value a b \<and> iv_indicator_id a = base \<and> iv_indicator_id b = base) (filter (\<lambda>p. iv_indicator_id p = base) vs)"
    using sorted_wrt_filter [OF assms(1) [unfolded no_conflicts_def], of "\<lambda>p. iv_indicator_id p = base"]
    by (rule sorted_wrt_mono_rel [rotated]) auto
  then have "sorted_wrt (\<lambda>a b. \<not> same_value a b) (concat (List.map mine (filter (\<lambda>p. iv_indicator_id p = base) vs)))"
    by (rule sorted_wrt_concat_map [OF _ _ one]) (auto simp: mine_def same_value_def value_key_def)
  then show ?thesis by (simp add: no_conflicts_def share_rows_def mine_def [abs_def])
qed

lemma map_filter_filter: "(\<And>x. \<not> P x \<Longrightarrow> f x = None) \<Longrightarrow> List.map_filter f (filter P xs) = List.map_filter f xs"
  by (induction xs) (auto simp: map_filter_simps split: option.split)

lemma latest_value_filter:
  assumes "indicator \<noteq> target"
  shows "latest_value territory indicator years (filter (\<lambda>v. iv_indicator_id v \<noteq> target) vs) = latest_value territory indicator years vs"
proof -
  have "filter (\<lambda>v. iv_territory_id v = territory \<and> iv_indicator_id v = indicator \<and> years (iv_year v)) (filter (\<lambda>v. iv_indicator_id v \<noteq> target) vs) =
      filter (\<lambda>v. iv_territory_id v = territory \<and> iv_indicator_id v = indicator \<and> years (iv_year v)) vs"
    using assms by (induction vs) auto
  then show ?thesis by (simp add: latest_value_def)
qed

text \<open>The rows derived depend on the other indicators only.\<close>

lemma derived_rows_others:
  assumes "filter (\<lambda>v. Some (iv_indicator_id v) \<noteq> ids (spec_key spec)) vs = filter (\<lambda>v. Some (iv_indicator_id v) \<noteq> ids (spec_key spec)) ws"
    and "\<forall>k \<in> set (spec_dependencies spec). ids k \<noteq> ids (spec_key spec)"
  shows "derived_rows ops spec ids dataset run d vs = derived_rows ops spec ids dataset run d ws"
proof (cases "ids (spec_key spec)")
  case (Some target)
  have same: "filter (\<lambda>v. iv_indicator_id v \<noteq> target) vs = filter (\<lambda>v. iv_indicator_id v \<noteq> target) ws"
    using assms(1) by (simp add: Some)
  have latest: "latest_value territory indicator years vs = latest_value territory indicator years ws" if "indicator \<noteq> target" for territory indicator years
    using latest_value_filter [OF that] same by metis
  have each: "List.map_filter f vs = List.map_filter f ws" if "\<And>v. iv_indicator_id v = target \<Longrightarrow> f v = None" for f :: "indicator_value \<Rightarrow> 'z option"
    using map_filter_filter [of "\<lambda>v. iv_indicator_id v \<noteq> target" f vs] map_filter_filter [of "\<lambda>v. iv_indicator_id v \<noteq> target" f ws] that same by auto
  have picked: "filter P vs = filter P ws" if "\<And>v. iv_indicator_id v = target \<Longrightarrow> \<not> P v" for P
  proof -
    have "filter P (filter (\<lambda>v. iv_indicator_id v \<noteq> target) us) = filter P us" for us using that by (induction us) auto
    then show ?thesis using same by metis
  qed
  show ?thesis
  proof (cases spec)
    case (Ratio k n den factor)
    have "ratio_rows ops factor target a b dataset run vs = ratio_rows ops factor target a b dataset run ws" if "a \<noteq> target" "b \<noteq> target" for a b
      unfolding ratio_rows_def latest [OF that(2)] by (rule each) (use that in auto)
    then show ?thesis using assms(2) Some
      by (cases "ids n"; cases "ids den") (auto simp: derived_rows_def Ratio from_option_def)
  next
    case (Growth k b factor)
    have "growth_rows ops factor target a dataset run vs = growth_rows ops factor target a dataset run ws" if "a \<noteq> target" for a
      unfolding growth_rows_def latest [OF that] using each by (rule arg_cong) (use that in auto)
    then show ?thesis using assms(2) Some by (cases "ids b") (auto simp: derived_rows_def Growth from_option_def)
  next
    case (Share k b factor)
    have "share_rows ops factor target a dataset run d vs = share_rows ops factor target a dataset run d ws" if "a \<noteq> target" for a
    proof -
      have "national_values a c y vs = national_values a c y ws" for c y
        unfolding national_values_def by (rule picked) (use that in auto)
      moreover have "filter (\<lambda>p. iv_indicator_id p = a) vs = filter (\<lambda>p. iv_indicator_id p = a) ws"
        by (rule picked) (use that in auto)
      ultimately show ?thesis by (simp add: share_rows_def)
    qed
    then show ?thesis using assms(2) Some by (cases "ids b") (auto simp: derived_rows_def Share from_option_def)
  qed
qed (simp add: derived_rows_def from_option_def)

lemma ratio_rows_member:
  "r \<in> set (ratio_rows ops factor target num den dataset run vs) \<longleftrightarrow>
     (\<exists>n \<in> set vs. iv_indicator_id n = num \<and>
        (\<exists>q. latest_value (iv_territory_id n) den (\<lambda>y. y \<le> iv_year n) vs = Some q \<and> iv_value q \<noteq> 0 \<and>
           r = derived_row target dataset run n (no_div ops (iv_value n) (iv_value q) * factor)))"
  unfolding ratio_rows_def set_map_filter by (rule bex_cong [OF refl]) (auto split: option.split)

lemma derived_rows_shape:
  assumes "derived_rows ops spec ids dataset run d vs = Inr rows"
  shows "\<exists>target. ids (spec_key spec) = Some target \<and> (\<forall>r \<in> set rows. iv_indicator_id r = target \<and> iv_dataset_id r = dataset)"
proof -
  obtain target where target: "ids (spec_key spec) = Some target"
    using assms by (auto simp: derived_rows_def and_then_Inr)
  have "\<forall>r \<in> set rows. iv_indicator_id r = target \<and> iv_dataset_id r = dataset"
  proof (cases spec)
    case (Ratio k n den factor)
    then show ?thesis using assms target
      by (auto simp: derived_rows_def and_then_Inr ratio_rows_member)
  next
    case (Growth k b factor)
    then obtain base where "growth_rows ops factor target base dataset run vs = Inr rows"
      using assms target by (auto simp: derived_rows_def and_then_Inr)
    then have "list_all2 (\<lambda>p r. iv_indicator_id r = target \<and> iv_dataset_id r = dataset)
        (List.map_filter (\<lambda>v. if iv_indicator_id v \<noteq> base then None
         else case latest_value (iv_territory_id v) base (\<lambda>y. y < iv_year v) vs of
           None \<Rightarrow> None
         | Some previous \<Rightarrow> if iv_value previous > 0 then Some (v, previous) else None) vs) rows"
      unfolding growth_rows_def map_each_Inr by (rule list_all2_mono) (auto split: option.splits)
    then show ?thesis by (auto simp: list_all2_conv_all_nth in_set_conv_nth)
  next
    case (Share k b factor)
    then show ?thesis using assms target by (auto simp: derived_rows_def and_then_Inr share_rows_def)
  qed
  then show ?thesis using target by blast
qed

lemma derived_rows_unique:
  assumes "derived_rows ops spec ids dataset run d vs = Inr rows" and "no_conflicts same_value vs"
    and "length (filter (\<lambda>t. t_level t = Country) (territories d)) \<le> 1"
  shows "no_conflicts same_value rows"
  using assms(1) ratio_rows_unique [OF assms(2)] growth_rows_unique [OF assms(2)] share_rows_unique [OF assms(2,3)]
  by (cases spec) (auto simp: derived_rows_def and_then_Inr)

lemma upsert_values_filter:
  assumes "upsert_values rows so = Inr (n, so')" and "\<forall>r \<in> set rows. iv_indicator_id r = target"
  shows "filter (\<lambda>v. iv_indicator_id v \<noteq> target) (so_values so') = filter (\<lambda>v. iv_indicator_id v \<noteq> target) (so_values so)"
proof -
  obtain touched t where run: "fold_each upsert_value ([], so_values so) rows = Inr (touched, t)" "so' = so\<lparr>so_values := t\<rparr>"
    using assms(1) by (auto simp: upsert_values_def split: sum.splits)
  obtain ss where ss: "list_all2 (\<lambda>r s. stored_row r = Some s) rows ss" "t = fold (insert_or_update same_value merge_value) ss (so_values so)"
    using upsert_values_fold [OF run(1)] by blast
  have "\<forall>s \<in> set ss. iv_indicator_id s = target"
    using ss(1) assms(2) stored_row_Some by (fastforce simp: list_all2_conv_all_nth in_set_conv_nth)
  then show ?thesis by (simp add: run(2) ss(2) filter_upsert_values)
qed

lemma derive_effect:
  assumes "no_conflicts same_value (so_values so)" and "length (filter (\<lambda>t. t_level t = Country) (territories d)) \<le> 1"
    and "\<forall>k \<in> set (spec_dependencies spec). ids k \<noteq> ids (spec_key spec)"
    and "derive ops spec ids dataset run d so = Inr (n, so')"
  shows "\<exists>target rows. ids (spec_key spec) = Some target \<and> derived_rows ops spec ids dataset run d (so_values so) = Inr rows \<and>
    no_conflicts same_value (so_values so') \<and>
    filter (\<lambda>v. iv_indicator_id v \<noteq> target) (so_values so') = filter (\<lambda>v. iv_indicator_id v \<noteq> target) (so_values so) \<and>
    (\<forall>r \<in> set rows. \<exists>v \<in> set (so_values so'). value_key v = value_key r \<and>
       Some (iv_value v) = numeric_24_6 (iv_value r) \<and> iv_dataset_id v = dataset) \<and>
    (\<forall>v \<in> set (so_values so). value_key v \<notin> value_key ` set rows \<longrightarrow> v \<in> set (so_values so')) \<and>
    derive ops spec ids dataset run d so' = Inr (0, so')"
proof -
  obtain rows where rows: "derived_rows ops spec ids dataset run d (so_values so) = Inr rows" and up: "upsert_values rows so = Inr (n, so')"
    using assms(4) by (auto simp: derive_def and_then_Inr)
  obtain target where target: "ids (spec_key spec) = Some target"
    and shape: "\<forall>r \<in> set rows. iv_indicator_id r = target \<and> iv_dataset_id r = dataset"
    using derived_rows_shape [OF rows] by blast
  note effect = upsert_values_effect [OF up assms(1) derived_rows_unique [OF rows assms(1,2)]]
  have same: "filter (\<lambda>v. iv_indicator_id v \<noteq> target) (so_values so') = filter (\<lambda>v. iv_indicator_id v \<noteq> target) (so_values so)"
    using upsert_values_filter [OF up] shape by blast
  then have "derived_rows ops spec ids dataset run d (so_values so') = derived_rows ops spec ids dataset run d (so_values so)"
    by (intro derived_rows_others [OF _ assms(3)]) (simp add: target)
  then have again: "derive ops spec ids dataset run d so' = Inr (0, so')" using effect rows by (simp add: derive_def)
  show ?thesis
  proof (intro exI conjI)
    show "\<forall>r \<in> set rows. \<exists>v \<in> set (so_values so'). value_key v = value_key r \<and>
       Some (iv_value v) = numeric_24_6 (iv_value r) \<and> iv_dataset_id v = dataset" using effect shape by metis
  qed (use target rows effect same again in blast)+
qed

text \<open>
  Property C30. Deriving an indicator keeps one value per territory, indicator and year, leaves the values of the
  other indicators and the values it does not derive as they were, stores every value derived, and can be
  repeated: deriving again writes nothing.
\<close>

theorem derive_refreshes_target:
  assumes "no_conflicts same_value (so_values so)" and "length (filter (\<lambda>t. t_level t = Country) (territories d)) \<le> 1"
    and "\<forall>k \<in> set (spec_dependencies spec). ids k \<noteq> ids (spec_key spec)"
    and "derive ops spec ids dataset run d so = Inr (n, so')"
  shows "\<exists>target rows. ids (spec_key spec) = Some target \<and> derived_rows ops spec ids dataset run d (so_values so) = Inr rows \<and>
    no_conflicts same_value (so_values so') \<and>
    filter (\<lambda>v. iv_indicator_id v \<noteq> target) (so_values so') = filter (\<lambda>v. iv_indicator_id v \<noteq> target) (so_values so) \<and>
    (\<forall>r \<in> set rows. \<exists>v \<in> set (so_values so'). value_key v = value_key r \<and>
       Some (iv_value v) = numeric_24_6 (iv_value r) \<and> iv_dataset_id v = dataset) \<and>
    (\<forall>v \<in> set (so_values so). value_key v \<notin> value_key ` set rows \<longrightarrow> v \<in> set (so_values so')) \<and>
    derive ops spec ids dataset run d so' = Inr (0, so')"
  using assms by (rule derive_effect)

section \<open>Ratios\<close>

lemma round_away_near: "\<bar>round_away n x - x\<bar> \<le> 1 / (2 * 10 ^ n)"
proof -
  define y where "y = \<bar>x\<bar> * 10 ^ n"
  have "of_int \<lfloor>y + 1 / 2\<rfloor> \<le> y + 1 / 2" "y + 1 / 2 < of_int \<lfloor>y + 1 / 2\<rfloor> + 1" by linarith+
  then have near: "\<bar>of_int \<lfloor>y + 1 / 2\<rfloor> - y\<bar> \<le> 1 / 2" by linarith
  have "sgn x * (y / 10 ^ n) = x" by (simp add: y_def sgn_mult_abs)
  moreover have "round_away n x = sgn x * (of_int \<lfloor>y + 1 / 2\<rfloor> / 10 ^ n)" by (simp add: round_away_def y_def)
  ultimately have "round_away n x - x = sgn x * (of_int \<lfloor>y + 1 / 2\<rfloor> / 10 ^ n) - sgn x * (y / 10 ^ n)" by simp
  also have "\<dots> = sgn x * (of_int \<lfloor>y + 1 / 2\<rfloor> - y) / 10 ^ n" by (simp add: right_diff_distrib diff_divide_distrib)
  finally have "round_away n x - x = sgn x * (of_int \<lfloor>y + 1 / 2\<rfloor> - y) / 10 ^ n" .
  then have "\<bar>round_away n x - x\<bar> = \<bar>sgn x\<bar> * \<bar>of_int \<lfloor>y + 1 / 2\<rfloor> - y\<bar> / 10 ^ n" by (simp add: abs_mult)
  also have "\<dots> \<le> 1 * (1 / 2) / 10 ^ n" by (intro divide_right_mono mult_mono near) (auto simp: sgn_if)
  finally show ?thesis by (simp add: field_simps)
qed

lemma round_away_idem: "round_away n (round_away n x) = round_away n x"
proof -
  define k where "k = \<lfloor>\<bar>x\<bar> * 10 ^ n + 1 / 2\<rfloor>"
  have k: "0 \<le> k" unfolding k_def by simp
  have r: "round_away n x = sgn x * of_int k / 10 ^ n" by (simp add: round_away_def k_def)
  have "\<bar>round_away n x\<bar> * 10 ^ n = \<bar>sgn x\<bar> * of_int k" using k unfolding r by (simp add: abs_mult)
  then have floor: "\<lfloor>\<bar>round_away n x\<bar> * 10 ^ n + 1 / 2\<rfloor> = (if x = 0 then 0 else k)" by (auto simp: sgn_if floor_eq_iff)
  show ?thesis
  proof (cases "k = 0 \<or> x = 0")
    case True
    then have zero: "round_away n x = 0" by (auto simp: r)
    show ?thesis unfolding zero by (simp add: round_away_def)
  next
    case False
    then have sgn: "sgn (round_away n x) = sgn x" using k unfolding r by (simp add: sgn_mult sgn_divide)
    have "round_away n (round_away n x) = sgn (round_away n x) * of_int \<lfloor>\<bar>round_away n x\<bar> * 10 ^ n + 1 / 2\<rfloor> / 10 ^ n"
      by (rule round_away_def)
    also have "\<dots> = sgn x * of_int k / 10 ^ n" using False unfolding floor sgn by simp
    finally show ?thesis unfolding r .
  qed
qed

lemma round_half_even_near: "\<bar>round_places n x - x\<bar> \<le> 1 / (2 * 10 ^ n)" for x :: rat
proof -
  define y where "y = x * 10 ^ n"
  have b: "\<bar>of_int (round_half_even y) - y\<bar> \<le> 1 / 2" using round_half_even_bounds [of y] by (cases "y \<le> of_int (round_half_even y)") (simp_all add: abs_if field_simps)
  have "round_places n x - x = (of_int (round_half_even y) - y) / 10 ^ n"
    by (simp add: round_places_def diff_divide_distrib y_def)
  then have "\<bar>round_places n x - x\<bar> = \<bar>of_int (round_half_even y) - y\<bar> / 10 ^ n" by simp
  also have "\<dots> \<le> (1 / 2) / 10 ^ n" using b by (rule divide_right_mono) simp
  finally show ?thesis by simp
qed

text \<open>
  A derived ratio: for every value of the numerator whose territory has a non-zero denominator of
  that year or before, the last such denominator gives the value stored for the year, the quotient times the
  factor to six decimals, which the reference formula of the module gives too up to a unit of the last decimal.
\<close>

theorem ratio_uses_last_denominator:
  assumes "no_conflicts same_value (so_values so)" and "length (filter (\<lambda>t. t_level t = Country) (territories d)) \<le> 1"
    and "derive ops (Ratio key a b factor) ids dataset run d so = Inr (n, so')"
    and "ids key = Some target" and "ids a = Some num" and "ids b = Some den" and "target \<noteq> num" and "target \<noteq> den"
    and "v \<in> set (so_values so)" and "iv_indicator_id v = num"
    and "latest_value (iv_territory_id v) den (\<lambda>y. y \<le> iv_year v) (so_values so) = Some q" and "iv_value q \<noteq> 0"
  shows "\<exists>w \<in> set (so_values so'). value_key w = (iv_territory_id v, target, iv_year v) \<and> iv_dataset_id w = dataset \<and>
    iv_value w = round_away 6 (no_div ops (iv_value v) (iv_value q) * factor) \<and>
    \<bar>iv_value w - expected_value ops (iv_value v) (iv_value q) factor\<bar> \<le> 1 / 10 ^ 6"
proof -
  let ?x = "no_div ops (iv_value v) (iv_value q) * factor" and ?spec = "Ratio key a b factor"
  have "\<forall>k \<in> set (spec_dependencies ?spec). ids k \<noteq> ids (spec_key ?spec)" using assms(4-8) by auto
  from derive_effect [OF assms(1,2) this assms(3)] obtain rows where
    rows: "derived_rows ops ?spec ids dataset run d (so_values so) = Inr rows" and
    stored: "\<forall>r \<in> set rows. \<exists>w \<in> set (so_values so'). value_key w = value_key r \<and>
       Some (iv_value w) = numeric_24_6 (iv_value r) \<and> iv_dataset_id w = dataset" by blast
  have "derived_row target dataset run v ?x \<in> set rows"
  proof -
    have "rows = ratio_rows ops factor target num den dataset run (so_values so)"
      using rows assms(4-6) by (auto simp: derived_rows_def and_then_Inr)
    then have "r \<in> set rows \<longleftrightarrow> r \<in> set (ratio_rows ops factor target num den dataset run (so_values so))" for r by simp
    then show ?thesis unfolding ratio_rows_member using assms(9-12) by blast
  qed
  from stored [THEN bspec, OF this] obtain w where w: "w \<in> set (so_values so')" "value_key w = value_key (derived_row target dataset run v ?x)"
      "Some (iv_value w) = numeric_24_6 (round_away 6 ?x)" "iv_dataset_id w = dataset" by auto
  then have val: "iv_value w = round_away 6 ?x" by (auto simp: numeric_24_6_def Let_def round_away_idem split: if_splits)
  have "\<bar>iv_value w - expected_value ops (iv_value v) (iv_value q) factor\<bar> \<le> 1 / 10 ^ 6"
    using round_away_near [of 6 ?x] round_half_even_near [of 6 ?x] unfolding val expected_value_def by linarith
  then show ?thesis using w val by (intro bexI [of _ w]) (auto simp: value_key_def)
qed

section \<open>A run\<close>

definition ops0 :: numeric_ops where "ops0 = \<lparr>no_div = (/), no_power = (\<lambda>_ _. None)\<rparr>"

definition density_spec :: derived_spec where
  "density_spec = Ratio ''population_density'' ''population'' ''area_km2'' 1"

definition ids0 :: "string \<Rightarrow> int option" where
  "ids0 = map_of [(''population'', 1), (''area_km2'', 2), (''population_density'', 3)]"

definition population0 :: indicator_value where
  "population0 = \<lparr>iv_territory_id = 7, iv_indicator_id = 1, iv_year = 2020, iv_value = 100, iv_dataset_id = 4, iv_run_id = None\<rparr>"

definition area0 :: indicator_value where
  "area0 = \<lparr>iv_territory_id = 7, iv_indicator_id = 2, iv_year = 2010, iv_value = 8, iv_dataset_id = 5, iv_run_id = None\<rparr>"

definition socio0 :: socio_db where "socio0 = \<lparr>so_indicators = [], so_values = [population0, area0]\<rparr>"

lemma latest0: "latest_value 7 2 (\<lambda>y. y \<le> 2020) [population0, area0] = Some area0"
  by (simp add: latest_value_def population0_def area0_def)

lemma derive0: "\<exists>so'. derive ops0 density_spec ids0 9 None empty_db socio0 = Inr (1, so')"
proof -
  have half: "round_away 6 (25 / 2) = 25 / 2" by (simp add: round_away_def floor_eq_iff)
  have rows: "derived_rows ops0 density_spec ids0 9 None empty_db [population0, area0] = Inr [derived_row 3 9 None population0 (25 / 2)]"
    using latest0 by (simp add: derived_rows_def density_spec_def ids0_def ratio_rows_def map_filter_simps from_option_def)
      (simp add: population0_def area0_def ops0_def)
  have "stored_row (derived_row 3 9 None population0 (25 / 2)) = Some (derived_row 3 9 None population0 (25 / 2))"
    by (simp add: stored_row_def numeric_24_6_def half round_away_idem) (simp add: population0_def derived_row_def half)
  then have "upsert_values [derived_row 3 9 None population0 (25 / 2)] socio0 =
      Inr (1, socio0\<lparr>so_values := [population0, area0, derived_row 3 9 None population0 (25 / 2)]\<rparr>)"
    by (simp add: upsert_values_def upsert_value_def socio0_def select_first_def same_value_def value_key_def)
      (simp add: population0_def area0_def)
  then show ?thesis using rows by (simp add: derive_def socio0_def)
qed

lemma socio0_unique: "no_conflicts same_value (so_values socio0)" "length (filter (\<lambda>t. t_level t = Country) (territories empty_db)) \<le> 1"
  by (simp_all add: socio0_def no_conflicts_def same_value_def value_key_def population0_def area0_def empty_db_def)

theorem derive_refreshes_target_witness:
  "\<exists>so'. derive ops0 density_spec ids0 9 None empty_db socio0 = Inr (1, so') \<and>
     derive ops0 density_spec ids0 9 None empty_db so' = Inr (0, so')"
proof -
  obtain so' where run: "derive ops0 density_spec ids0 9 None empty_db socio0 = Inr (1, so')" using derive0 by blast
  have "\<forall>k \<in> set (spec_dependencies density_spec). ids0 k \<noteq> ids0 (spec_key density_spec)"
    by (simp add: density_spec_def ids0_def)
  from derive_refreshes_target [OF socio0_unique this run] show ?thesis using run by blast
qed

theorem ratio_uses_last_denominator_witness:
  "\<exists>so'. derive ops0 density_spec ids0 9 None empty_db socio0 = Inr (1, so') \<and>
     (\<exists>w \<in> set (so_values so'). value_key w = (7, 3, 2020) \<and> iv_value w = round_away 6 (100 / 8))"
proof -
  obtain so' where run: "derive ops0 (Ratio ''population_density'' ''population'' ''area_km2'' 1) ids0 9 None empty_db socio0 = Inr (1, so')"
    using derive0 unfolding density_spec_def by blast
  from ratio_uses_last_denominator [OF socio0_unique run, of 3 1 2 population0 area0]
  have "\<exists>w \<in> set (so_values so'). value_key w = (7, 3, 2020) \<and> iv_value w = round_away 6 (100 / 8)"
    using latest0 by (simp add: ids0_def socio0_def) (auto simp: population0_def area0_def ops0_def)
  then show ?thesis using run unfolding density_spec_def by blast
qed

end
