(* ===== verification/Indicator_Registry.thy ===== *)
theory Indicator_Registry
  imports Indicators
begin

text \<open>
  The registry of indicators: \<open>app/providers/ibge/datasets.py\<close> (the data sets of IBGE and the derivations, without
  their names and notes), \<open>app/jobs/seed_indicators.py\<close> (the catalogue, without names and descriptions) and the
  import \<open>app/jobs/import_indicators.py\<close>.
\<close>

section \<open>Data sets\<close>

record sourced_spec =
  sp_key :: string
  sp_table :: string
  sp_variable :: string
  sp_multiplier :: rat
  sp_periods :: string
  sp_levels :: "string list"
  sp_classification :: "string option"

definition NATIONAL_LEVELS :: "string list" where "NATIONAL_LEVELS = [''N1'', ''N2'', ''N3'']"
definition MUNICIPAL_LEVEL :: string where "MUNICIPAL_LEVEL = ''N6''"

definition sourced :: "string \<Rightarrow> string \<Rightarrow> string \<Rightarrow> sourced_spec" where
  "sourced key tab var = \<lparr>sp_key = key, sp_table = tab, sp_variable = var, sp_multiplier = 1, sp_periods = ''all'',
     sp_levels = NATIONAL_LEVELS @ [MUNICIPAL_LEVEL], sp_classification = None\<rparr>"

definition sourced_dataset_code :: "sourced_spec \<Rightarrow> string" where
  "sourced_dataset_code s =
     (let code = ''agregados/'' @ sp_table s @ ''/v/'' @ sp_variable s in
      case sp_classification s of Some (c # cs) \<Rightarrow> code @ ''/c/'' @ (c # cs) | _ \<Rightarrow> code)"

definition national_levels :: "sourced_spec \<Rightarrow> string list" where
  "national_levels s = filter (\<lambda>l. l \<in> set NATIONAL_LEVELS) (sp_levels s)"

definition includes_municipalities :: "sourced_spec \<Rightarrow> bool" where
  "includes_municipalities s \<longleftrightarrow> MUNICIPAL_LEVEL \<in> set (sp_levels s)"

definition SOURCED_INDICATORS :: "sourced_spec list" where
  "SOURCED_INDICATORS =
    [sourced ''population'' ''6579'' ''9324'',
     sourced ''population'' ''4714'' ''93'',
     (sourced ''population'' ''202'' ''93'')\<lparr>sp_periods := ''2010''\<rparr>,
     (sourced ''area_km2'' ''1301'' ''615'')\<lparr>sp_periods := ''2010''\<rparr>,
     sourced ''area_km2'' ''4714'' ''6318'',
     (sourced ''gdp'' ''5938'' ''37'')\<lparr>sp_multiplier := 1000\<rparr>,
     (sourced ''gdp_agriculture'' ''5938'' ''513'')\<lparr>sp_multiplier := 1000\<rparr>,
     (sourced ''gdp_industry'' ''5938'' ''517'')\<lparr>sp_multiplier := 1000\<rparr>,
     (sourced ''gdp_services'' ''5938'' ''6575|525'')\<lparr>sp_multiplier := 1000\<rparr>,
     (sourced ''urban_population'' ''202'' ''93'')\<lparr>sp_periods := ''2010'', sp_classification := Some ''1[1]''\<rparr>,
     (sourced ''urban_population'' ''9923'' ''93'')\<lparr>sp_classification := Some ''1[1]''\<rparr>,
     (sourced ''household_income_per_capita'' ''7395'' ''4196'')\<lparr>sp_levels := NATIONAL_LEVELS\<rparr>,
     (sourced ''unemployment_rate'' ''6468'' ''4099'')\<lparr>sp_levels := NATIONAL_LEVELS\<rparr>,
     (sourced ''unemployment_rate'' ''4562'' ''4099'')\<lparr>sp_levels := NATIONAL_LEVELS\<rparr>]"

definition DERIVED_INDICATORS :: "derived_spec list" where
  "DERIVED_INDICATORS =
    [Ratio ''population_density'' ''population'' ''area_km2'' 1,
     Ratio ''gdp_per_capita'' ''gdp'' ''population'' 1,
     Ratio ''urbanization_rate'' ''urban_population'' ''population'' 100,
     Growth ''population_growth'' ''population'' 100,
     Share ''gdp_share_national'' ''gdp'' 100]"

text \<open>\<open>supported_levels\<close>: the levels of an indicator's data sets, and of all the dependencies of a derived one.\<close>

definition sourced_levels :: "(string \<times> territory_level set) list" where
  "sourced_levels =
     foldl (\<lambda>m s. AList.update (sp_key s)
         ((case map_of m (sp_key s) of None \<Rightarrow> {} | Some ls \<Rightarrow> ls) \<union> set (List.map_filter level_by_sidra (sp_levels s))) m)
       [] SOURCED_INDICATORS"

definition levels_with_derived :: "(string \<times> territory_level set) list" where
  "levels_with_derived =
     foldl (\<lambda>m s. AList.update (spec_key s)
         (\<Inter>k \<in> set (spec_dependencies s). case map_of m k of None \<Rightarrow> {} | Some ls \<Rightarrow> ls) m) sourced_levels DERIVED_INDICATORS"

definition level_order :: "territory_level list" where
  "level_order = [Country, Municipality, Region, State]"

definition supported_levels :: "string \<Rightarrow> territory_level list option" where
  "supported_levels key = map_option (\<lambda>ls. filter (\<lambda>l. l \<in> ls) level_order) (map_of levels_with_derived key)"

section \<open>The catalogue\<close>

record indicator_seed =
  sd_key :: string
  sd_unit :: string
  sd_origin :: indicator_origin
  sd_decimal_places :: int
  sd_display_order :: int
  sd_context :: string

definition seed :: "string \<Rightarrow> string \<Rightarrow> indicator_origin \<Rightarrow> int \<Rightarrow> int \<Rightarrow> string \<Rightarrow> indicator_seed" where
  "seed key unit origin places order context = \<lparr>sd_key = key, sd_unit = unit, sd_origin = origin,
     sd_decimal_places = places, sd_display_order = order, sd_context = context\<rparr>"

definition CATALOG :: "indicator_seed list" where
  "CATALOG =
    [seed ''population'' ''people'' Sourced 0 10 ''socioeconomic'',
     seed ''population_growth'' ''%/year'' Derived 2 15 ''socioeconomic'',
     seed ''area_km2'' ''km2'' Sourced 0 20 ''socioeconomic'',
     seed ''population_density'' ''people/km2'' Derived 2 30 ''socioeconomic'',
     seed ''gdp'' ''BRL'' Sourced 0 40 ''socioeconomic'',
     seed ''gdp_per_capita'' ''BRL'' Derived 2 50 ''socioeconomic'',
     seed ''urban_population'' ''people'' Sourced 0 32 ''socioeconomic'',
     seed ''urbanization_rate'' ''%'' Derived 1 34 ''socioeconomic'',
     seed ''gdp_share_national'' ''%'' Derived 2 45 ''socioeconomic'',
     seed ''gdp_agriculture'' ''BRL'' Sourced 0 55 ''socioeconomic'',
     seed ''gdp_industry'' ''BRL'' Sourced 0 56 ''socioeconomic'',
     seed ''gdp_services'' ''BRL'' Sourced 0 57 ''socioeconomic'',
     seed ''household_income_per_capita'' ''BRL'' Sourced 0 60 ''socioeconomic'',
     seed ''unemployment_rate'' ''%'' Sourced 1 70 ''socioeconomic'']"

definition ENVIRONMENT_CATALOG :: "indicator_seed list" where
  "ENVIRONMENT_CATALOG =
    [seed ''deforestation_prodes'' ''km2'' Sourced 2 110 ''environment'',
     seed ''forest_cover'' ''%'' Sourced 1 120 ''environment'']"

definition EDUCATION_NETWORKS :: "(string \<times> int) list" where
  "EDUCATION_NETWORKS = [(''federal'', 220), (''state'', 230), (''municipal'', 240)]"

definition EDUCATION_KINDS :: "string list" where
  "EDUCATION_KINDS = ['''', ''university_'', ''institute_'', ''college_'']"

definition EDUCATION_CATALOG :: "indicator_seed list" where
  "EDUCATION_CATALOG =
     concat (List.map (\<lambda>(network, order). List.map (\<lambda>(index, kind).
         seed (''higher_ed_'' @ network @ ''_'' @ kind @ ''enrollment'') ''enrollments'' Sourced 0 (order + int index) ''education'')
       (zip [0..<length EDUCATION_KINDS] EDUCATION_KINDS)) EDUCATION_NETWORKS)"

text \<open>The upsert of a seed: a new row takes the next number, an old one keeps its own. Texts are parameters.\<close>

definition seed_row :: "(string \<Rightarrow> string) \<Rightarrow> (string \<Rightarrow> string) \<Rightarrow> int \<Rightarrow> indicator_seed \<Rightarrow> indicator" where
  "seed_row name_of description_of i s =
     \<lparr>in_id = i, in_key = sd_key s, in_name = name_of (sd_key s), in_description = Some (description_of (sd_key s)),
      in_unit = sd_unit s, in_origin = sd_origin s, in_decimal_places = sd_decimal_places s,
      in_display_order = sd_display_order s, in_context = sd_context s\<rparr>"

definition same_indicator :: "indicator \<Rightarrow> indicator \<Rightarrow> bool" where
  "same_indicator a b \<longleftrightarrow> in_key a = in_key b"

definition merge_indicator :: "indicator \<Rightarrow> indicator \<Rightarrow> indicator" where
  "merge_indicator r x = r\<lparr>in_id := in_id x\<rparr>"

definition seed_catalog ::
    "(string \<Rightarrow> string) \<Rightarrow> (string \<Rightarrow> string) \<Rightarrow> (nat \<Rightarrow> int) \<Rightarrow> indicator_seed list \<Rightarrow> socio_db \<Rightarrow> nat \<times> socio_db" where
  "seed_catalog name_of description_of new_id catalog so =
     (length catalog,
      so\<lparr>so_indicators := fold (\<lambda>(i, s). insert_or_update same_indicator merge_indicator (seed_row name_of description_of (new_id i) s))
        (zip [0..<length catalog] catalog) (so_indicators so)\<rparr>)"

section \<open>The import of a data set\<close>

record import_options =
  op_periods :: "string option"
  op_latest :: bool
  op_states :: "string list option"
  op_indicators :: "string list option"
  op_skip_municipalities :: bool

definition wanted_periods :: "string list \<Rightarrow> sourced_spec \<Rightarrow> import_options \<Rightarrow> string list" where
  "wanted_periods available spec options =
     (let requested = (case op_periods options of Some (c # cs) \<Rightarrow> c # cs | _ \<Rightarrow> sp_periods spec);
          named = py_split (CHR ''|'') requested;
          periods = (if requested = ''all'' then available
                     else filter (\<lambda>p. p \<in> set named \<or> take 4 p \<in> set named) available) in
      if op_latest options \<and> periods \<noteq> []
      then (let latest_year = foldl max (take 4 (hd periods)) (List.map (take 4) (tl periods)) in
            filter (is_prefix latest_year) periods)
      else periods)"

text \<open>The scopes of a data set: the national levels together, then the municipalities of each state.\<close>

definition import_scopes :: "sourced_spec \<Rightarrow> string list \<Rightarrow> import_options \<Rightarrow> (string \<times> string set) list" where
  "import_scopes spec states options =
     (if national_levels spec = [] then []
      else [(join ''|'' (List.map (\<lambda>l. l @ ''[all]'') (national_levels spec)), set (national_levels spec))]) @
     (if includes_municipalities spec \<and> \<not> op_skip_municipalities options
      then List.map (\<lambda>code. (''N6[N3['' @ code @ '']]'', {''N6''})) states else [])"

definition import_states :: "(string \<Rightarrow> string) \<Rightarrow> import_options \<Rightarrow> db \<Rightarrow> string list" where
  "import_states collate options d =
     sort_key collate (List.map t_ibge_code (filter (\<lambda>t. t_level t = State \<and>
       (case op_states options of None \<Rightarrow> True | Some [] \<Rightarrow> True | Some codes \<Rightarrow> t_ibge_code t \<in> set codes)) (territories d)))"

record import_counts =
  ic_observations :: nat
  ic_written :: nat
  ic_discarded :: nat

definition no_counts :: import_counts where
  "no_counts = \<lparr>ic_observations = 0, ic_written = 0, ic_discarded = 0\<rparr>"

text \<open>
  The scopes are asked for in batches. The answers of a batch are stored in order and the first failure ends the
  import (its job rolls back). \<open>ask\<close> is what the source answers for a scope.
\<close>

definition store_answer ::
    "int \<Rightarrow> int \<Rightarrow> int \<Rightarrow> db \<Rightarrow> import_counts \<times> socio_db \<Rightarrow> raised + (observation list \<times> nat) \<Rightarrow> raised + import_counts \<times> socio_db" where
  "store_answer indicator dataset run d acc answer =
     and_then answer (\<lambda>(observations, discarded).
     and_then (persist observations indicator dataset run d (snd acc)) (\<lambda>(written, so).
       Inr ((fst acc)\<lparr>ic_observations := ic_observations (fst acc) + length observations,
              ic_written := ic_written (fst acc) + written, ic_discarded := ic_discarded (fst acc) + discarded\<rparr>, so)))"

definition import_batch ::
    "(string \<times> string set \<Rightarrow> raised + (observation list \<times> nat)) \<Rightarrow> int \<Rightarrow> int \<Rightarrow> int \<Rightarrow> db
     \<Rightarrow> import_counts \<times> socio_db \<Rightarrow> (string \<times> string set) list \<Rightarrow> raised + import_counts \<times> socio_db" where
  "import_batch ask indicator dataset run d acc batch =
     fold_each (store_answer indicator dataset run d) acc (List.map ask batch)"

definition batch_size :: "int \<Rightarrow> nat" where
  "batch_size max_concurrency = nat (min 4 (max 1 max_concurrency))"

definition import_spec ::
    "(string \<Rightarrow> string) \<Rightarrow> string list \<Rightarrow> (string \<times> string set \<Rightarrow> raised + (observation list \<times> nat)) \<Rightarrow> int
     \<Rightarrow> sourced_spec \<Rightarrow> import_options \<Rightarrow> int \<Rightarrow> int \<Rightarrow> int \<Rightarrow> db \<Rightarrow> socio_db \<Rightarrow> raised + import_counts \<times> socio_db" where
  "import_spec collate available ask max_concurrency spec options indicator dataset run d so =
     (if wanted_periods available spec options = [] then Inr (no_counts, so)
      else fold_each (import_batch ask indicator dataset run d) (no_counts, so)
        (batches (batch_size max_concurrency) (import_scopes spec (import_states collate options d) options)))"

section \<open>The import\<close>

text \<open>Keys asked for must be known; a derived one brings its dependencies, the last registered first.\<close>

definition known_keys :: "string set" where
  "known_keys = sp_key ` set SOURCED_INDICATORS \<union> spec_key ` set DERIVED_INDICATORS"

definition wanted_keys :: "string list option \<Rightarrow> raised + string set" where
  "wanted_keys indicators =
     (let keys = set (case indicators of None \<Rightarrow> [] | Some ks \<Rightarrow> ks) in
      if \<not> keys \<subseteq> known_keys then Inl RaisedOther
      else Inr (foldl (\<lambda>keys s. if spec_key s \<in> keys then keys \<union> set (spec_dependencies s) else keys) keys (rev DERIVED_INDICATORS)))"

text \<open>
  The body of the job: the catalogue is seeded, then every data set wanted is imported in order, then every
  derivation runs. The answers of the source, the data sets' identifiers, the numbers of new rows and the texts are
  parameters; the report counts as the job does.
\<close>

record import_env =
  ie_collate :: "string \<Rightarrow> string"
  ie_name_of :: "string \<Rightarrow> string"
  ie_description_of :: "string \<Rightarrow> string"
  ie_new_id :: "nat \<Rightarrow> int"
  ie_periods :: "sourced_spec \<Rightarrow> raised + string list"
  ie_ask :: "sourced_spec \<Rightarrow> string list \<Rightarrow> string \<times> string set \<Rightarrow> raised + (observation list \<times> nat)"
  ie_max_concurrency :: int
  ie_dataset :: "string \<Rightarrow> int"
  ie_ops :: numeric_ops
  ie_run :: int

definition import_one ::
    "import_env \<Rightarrow> import_options \<Rightarrow> (string \<Rightarrow> int option) \<Rightarrow> string set \<Rightarrow> db \<Rightarrow> run_report \<times> socio_db \<Rightarrow> sourced_spec
     \<Rightarrow> raised + run_report \<times> socio_db" where
  "import_one n options ids keys d acc spec =
     (if keys \<noteq> {} \<and> sp_key spec \<notin> keys then Inr acc
      else
        and_then (from_option RaisedOther (ids (sp_key spec))) (\<lambda>indicator.
        and_then (ie_periods n spec) (\<lambda>available.
        and_then (import_spec (ie_collate n) available (ie_ask n spec (wanted_periods available spec options)) (ie_max_concurrency n)
            spec options indicator (ie_dataset n (sourced_dataset_code spec)) (ie_run n) d (snd acc)) (\<lambda>(counts, so).
          Inr ((fst acc)\<lparr>rp_processed := rp_processed (fst acc) + int (ic_observations counts),
                 rp_written := rp_written (fst acc) + int (ic_written counts)\<rparr>, so)))))"

definition derive_one ::
    "import_env \<Rightarrow> (string \<Rightarrow> int option) \<Rightarrow> db \<Rightarrow> run_report \<times> socio_db \<Rightarrow> derived_spec \<Rightarrow> raised + run_report \<times> socio_db" where
  "derive_one n ids d acc spec =
     and_then (derive (ie_ops n) spec ids (ie_dataset n (spec_dataset_code spec)) (Some (ie_run n)) d (snd acc)) (\<lambda>(written, so).
       Inr ((fst acc)\<lparr>rp_written := rp_written (fst acc) + int written\<rparr>, so))"

definition import_indicators ::
    "import_env \<Rightarrow> import_options \<Rightarrow> db \<Rightarrow> socio_db \<Rightarrow> raised + run_report \<times> socio_db" where
  "import_indicators n options d so =
     and_then (wanted_keys (op_indicators options)) (\<lambda>keys.
     let (_, so1) = seed_catalog (ie_name_of n) (ie_description_of n) (ie_new_id n) CATALOG so;
         ids = (\<lambda>key. indicator_id key so1) in
     and_then (fold_each (import_one n options ids keys d) (new_report, so1) SOURCED_INDICATORS) (\<lambda>acc.
       fold_each (derive_one n ids d) acc DERIVED_INDICATORS))"

section \<open>The registry is consistent\<close>


end
