(* ===== verification/Socioeconomic.thy ===== *)
theory Socioeconomic
  imports Indicator_Registry Classification
begin

text \<open>
  \<open>app/services/socioeconomic.py\<close>: the catalogue of a context, the values of an indicator with their classes, and
  the overview of a territory, with their caches. Responses are kept in the caches as values: reading back the
  JSON text that the code stores gives the response again.
\<close>

datatype indicator_context = SocioContext | EnvironmentContext | EducationContext

fun context_value :: "indicator_context \<Rightarrow> string" where
  "context_value SocioContext = ''socioeconomic''"
| "context_value EnvironmentContext = ''environment''"
| "context_value EducationContext = ''education''"

section \<open>Years\<close>

text \<open>\<open>isdigit\<close> on ASCII text is a digit string; the empty text is none.\<close>

definition parse_year :: "string \<Rightarrow> domain_error + int option" where
  "parse_year year =
     (if year = ''latest'' then Inr None
      else if \<not> list_all (\<lambda>c. (of_char c :: nat) < 128) year \<or> \<not> all_digits year
        \<or> \<not> (1900 \<le> digits_to_int year \<and> digits_to_int year \<le> 2100)
      then Inl (invalid_parameter (Some ''year'') [])
      else Inr (Some (digits_to_int year)))"

section \<open>The catalogue\<close>

record indicator_out =
  io_key :: string
  io_name :: string
  io_description :: "string option"
  io_unit :: string
  io_origin :: indicator_origin
  io_decimal_places :: int
  io_available_years :: "int list"
  io_latest_year :: "int option"
  io_supported_levels :: "territory_level list"

record catalog_response =
  ca_version :: string
  ca_indicators :: "indicator_out list"

definition last_year :: "int list \<Rightarrow> int option" where
  "last_year years = (if years = [] then None else Some (last years))"

definition indicator_out_of :: "indicator_context \<Rightarrow> indicator \<times> int list \<Rightarrow> raised + indicator_out" where
  "indicator_out_of context row =
     (let (i, years) = row in
      and_then (if context = SocioContext then from_option RaisedOther (supported_levels (in_key i)) else Inr level_order) (\<lambda>levels.
        Inr \<lparr>io_key = in_key i, io_name = in_name i, io_description = in_description i, io_unit = in_unit i,
             io_origin = in_origin i, io_decimal_places = in_decimal_places i, io_available_years = years,
             io_latest_year = last_year years, io_supported_levels = levels\<rparr>))"

definition build_catalog ::
    "(string \<Rightarrow> string) \<Rightarrow> territory_level \<Rightarrow> indicator_context \<Rightarrow> db \<Rightarrow> socio_db \<Rightarrow> raised + catalog_response" where
  "build_catalog collate level context d so =
     and_then (map_each (indicator_out_of context) (catalog_rows collate level (context_value context) d so)) (\<lambda>indicators.
       Inr \<lparr>ca_version = socio_version d, ca_indicators = indicators\<rparr>)"

section \<open>Values\<close>

record map_classification =
  mk_min :: rat
  mk_max :: rat
  mk_classes :: nat
  mk_breaks :: "rat list"

record map_value =
  mv_ibge_code :: string
  mv_value :: "rat option"
  mv_class_index :: "nat option"

record indicator_meta =
  im_key :: string
  im_name :: string
  im_unit :: string
  im_decimal_places :: int
  im_year :: "int option"
  im_requested_year :: string
  im_available_years :: "int list"

record values_response =
  vr_level :: territory_level
  vr_parent :: "string option"
  vr_version :: string
  vr_indicator :: indicator_meta
  vr_statistics :: "value_statistics option"
  vr_classification :: "map_classification option"
  vr_values :: "map_value list"

type_synonym value_row = "string \<times> string option \<times> rat option"

record snapshot =
  sn_rows :: "value_row list"
  sn_distribution :: value_distribution

definition row_values :: "value_row list \<Rightarrow> rat option list" where
  "row_values rows = List.map (snd \<circ> snd) rows"

definition take_snapshot :: "value_row list \<Rightarrow> snapshot" where
  "take_snapshot rows = \<lparr>sn_rows = rows, sn_distribution = describe (row_values rows) DEFAULT_CLASS_COUNT\<rparr>"

text \<open>The classes are always the national ones; the statistics are those of the scope.\<close>

definition scoped_rows :: "string option \<Rightarrow> value_row list \<Rightarrow> value_row list" where
  "scoped_rows parent rows = filter (\<lambda>r. parent = None \<or> fst (snd r) = parent) rows"

definition build_values ::
    "territory_level \<Rightarrow> string option \<Rightarrow> string \<Rightarrow> indicator_meta \<Rightarrow> snapshot \<Rightarrow> values_response" where
  "build_values level parent version meta snap =
     (let distribution = sn_distribution snap;
          scoped = scoped_rows parent (sn_rows snap);
          scoped_distribution = (if parent = None then distribution else describe (row_values scoped) DEFAULT_CLASS_COUNT) in
      \<lparr>vr_level = level, vr_parent = parent, vr_version = version, vr_indicator = meta,
       vr_statistics = vd_statistics scoped_distribution,
       vr_classification = (case (vd_statistics distribution, vd_classification distribution) of
           (Some s, Some c) \<Rightarrow> Some \<lparr>mk_min = st_min s, mk_max = st_max s, mk_classes = cl_classes c, mk_breaks = cl_breaks c\<rparr>
         | _ \<Rightarrow> None),
       vr_values = List.map (\<lambda>(code, p, v). \<lparr>mv_ibge_code = code, mv_value = v, mv_class_index = class_index distribution v\<rparr>) scoped\<rparr>)"

section \<open>The caches\<close>

datatype cached_socio = CachedCatalog catalog_response | CachedValues values_response

record overview_value =
  ov_key :: string
  ov_name :: string
  ov_unit :: string
  ov_decimal_places :: int
  ov_origin :: indicator_origin
  ov_value :: "rat option"
  ov_year :: "int option"
  ov_source :: "string option"

record overview = territory_detail +
  ow_indicators :: "overview_value list"

record socio_state =
  ss_cache :: "(string, cached_socio) ttl_cache"
  ss_overviews :: "(string, overview) ttl_cache"
  ss_snapshots :: "(string, snapshot) ttl_cache"
  ss_version :: version_cache

definition new_socio_state :: socio_state where
  "new_socio_state = \<lparr>ss_cache = new_cache 300 32, ss_overviews = new_cache 300 64, ss_snapshots = new_cache 300 8,
     ss_version = new_version_cache\<rparr>"

definition clear_socio_cache :: "socio_state \<Rightarrow> socio_state" where
  "clear_socio_cache st = st\<lparr>ss_cache := cache_clear (ss_cache st), ss_overviews := cache_clear (ss_overviews st),
     ss_snapshots := cache_clear (ss_snapshots st)\<rparr>"

record socio_env =
  sv_clock :: clock
  sv_collate :: "string \<Rightarrow> string"
  sv_db :: db
  sv_socio :: socio_db

definition colon_join :: "string list \<Rightarrow> string" where
  "colon_join parts = join '':'' parts"

definition list_indicators ::
    "socio_env \<Rightarrow> territory_level \<Rightarrow> indicator_context \<Rightarrow> socio_state \<Rightarrow> (raised + catalog_response) \<times> socio_state" where
  "list_indicators n level context st =
     (let key = colon_join [''catalog'', context_value context, level_value level, socio_version (sv_db n)] in
      case cache_get (sv_clock n) key (ss_cache st) of
        (Some (CachedCatalog c), c1) \<Rightarrow> (Inr c, st\<lparr>ss_cache := c1\<rparr>)
      | (Some _, c1) \<Rightarrow> (Inl RaisedOther, st\<lparr>ss_cache := c1\<rparr>)
      | (None, c1) \<Rightarrow>
          (case build_catalog (sv_collate n) level context (sv_db n) (sv_socio n) of
             Inl e \<Rightarrow> (Inl e, st\<lparr>ss_cache := c1\<rparr>)
           | Inr c \<Rightarrow> (Inr c, st\<lparr>ss_cache := cache_set (sv_clock n) key (CachedCatalog c) None c1\<rparr>)))"

definition check_values_parent :: "territory_level \<Rightarrow> string option \<Rightarrow> db \<Rightarrow> domain_error option" where
  "check_values_parent level parent d =
     (case parent of
        None \<Rightarrow> None
      | Some [] \<Rightarrow> None
      | Some code \<Rightarrow>
          if level = Country then Some (invalid_parameter (Some ''parent'') [])
          else case get_identity_by_code code d of
            None \<Rightarrow> Some (territory_not_found code)
          | Some (i, l) \<Rightarrow> if expected_parent_level level \<noteq> Some l then Some (invalid_parameter (Some ''parent'') []) else None)"

definition year_text :: "int option \<Rightarrow> string" where
  "year_text y = (case y of None \<Rightarrow> ''None'' | Some n \<Rightarrow> int_to_string n)"

definition parent_text :: "string option \<Rightarrow> string" where
  "parent_text p = (case p of None \<Rightarrow> ''None'' | Some c \<Rightarrow> c)"

definition find_snapshot ::
    "socio_env \<Rightarrow> string \<Rightarrow> territory_level \<Rightarrow> string \<Rightarrow> int option \<Rightarrow> (string, snapshot) ttl_cache
     \<Rightarrow> (raised + snapshot) \<times> (string, snapshot) ttl_cache" where
  "find_snapshot n key level indicator year c =
     (case cache_get (sv_clock n) key c of
        (Some s, c1) \<Rightarrow> (Inr s, c1)
      | (None, c1) \<Rightarrow>
          (case indicator_id indicator (sv_socio n) of
             None \<Rightarrow> (Inl (RaisedDomain (mk_error NotFoundError [(''indicator'', DText indicator)])), c1)
           | Some i \<Rightarrow>
               (let s = take_snapshot (level_values (sv_collate n) level i year (sv_db n) (sv_socio n)) in
                (Inr s, cache_set (sv_clock n) key s None c1))))"

definition values_of_catalog ::
    "socio_env \<Rightarrow> territory_level \<Rightarrow> string option \<Rightarrow> string \<Rightarrow> string \<Rightarrow> int option \<Rightarrow> catalog_response \<Rightarrow> socio_state
     \<Rightarrow> (raised + values_response) \<times> socio_state" where
  "values_of_catalog n level parent indicator year requested catalog st =
     (case List.find (\<lambda>i. io_key i = indicator) (ca_indicators catalog) of
        None \<Rightarrow> (Inl (RaisedDomain (mk_error NotFoundError [(''indicator'', DText indicator)])), st)
      | Some selected \<Rightarrow>
          (let resolved = (case requested of Some y \<Rightarrow> Some y | None \<Rightarrow> io_latest_year selected);
               (version, v1) = data_version (sv_clock n) (sv_clock n) (sv_db n) (ss_version st);
               st1 = st\<lparr>ss_version := v1\<rparr> in
           case version of
             Inl e \<Rightarrow> (Inl e, st1)
           | Inr geography \<Rightarrow>
               (let geo = int_to_string geography;
                    key = colon_join [''values'', ca_version catalog, geo, level_value level, parent_text parent, indicator, year] in
                case cache_get (sv_clock n) key (ss_cache st1) of
                  (Some (CachedValues r), c1) \<Rightarrow> (Inr r, st1\<lparr>ss_cache := c1\<rparr>)
                | (Some _, c1) \<Rightarrow> (Inl RaisedOther, st1\<lparr>ss_cache := c1\<rparr>)
                | (None, c1) \<Rightarrow>
                    (let snapshot_key = colon_join [ca_version catalog, geo, level_value level, indicator, year_text resolved];
                         (found, s1) = find_snapshot n snapshot_key level indicator resolved (ss_snapshots st1);
                         st2 = st1\<lparr>ss_cache := c1, ss_snapshots := s1\<rparr> in
                     case found of
                       Inl e \<Rightarrow> (Inl e, st2)
                     | Inr snap \<Rightarrow>
                         (let meta = \<lparr>im_key = io_key selected, im_name = io_name selected, im_unit = io_unit selected,
                                im_decimal_places = io_decimal_places selected, im_year = resolved,
                                im_requested_year = year, im_available_years = io_available_years selected\<rparr>;
                              r = build_values level parent (colon_join [ca_version catalog, geo]) meta snap in
                          (Inr r, st2\<lparr>ss_cache := cache_set (sv_clock n) key (CachedValues r) None (ss_cache st2)\<rparr>))))))"

definition get_values ::
    "socio_env \<Rightarrow> territory_level \<Rightarrow> string option \<Rightarrow> string \<Rightarrow> string \<Rightarrow> indicator_context \<Rightarrow> socio_state
     \<Rightarrow> (raised + values_response) \<times> socio_state" where
  "get_values n level parent indicator year context st =
     (case parse_year year of
        Inl e \<Rightarrow> (Inl (RaisedDomain e), st)
      | Inr requested \<Rightarrow>
          (case check_values_parent level parent (sv_db n) of
             Some e \<Rightarrow> (Inl (RaisedDomain e), st)
           | None \<Rightarrow>
               (case list_indicators n level context st of
                  (Inl e, st1) \<Rightarrow> (Inl e, st1)
                | (Inr catalog, st1) \<Rightarrow> values_of_catalog n level parent indicator year requested catalog st1)))"

section \<open>The overview of a territory\<close>

definition overview_value_of :: "(string \<times> int \<times> rat \<times> string) list \<Rightarrow> indicator_out \<Rightarrow> overview_value" where
  "overview_value_of found i =
     (let v = map_of found (io_key i) in
      \<lparr>ov_key = io_key i, ov_name = io_name i, ov_unit = io_unit i, ov_decimal_places = io_decimal_places i,
       ov_origin = io_origin i, ov_value = map_option (fst \<circ> snd) v, ov_year = map_option fst v,
       ov_source = map_option (snd \<circ> snd) v\<rparr>)"

definition get_overview ::
    "socio_env \<Rightarrow> string \<Rightarrow> string \<Rightarrow> indicator_context \<Rightarrow> socio_state \<Rightarrow> (raised + overview) \<times> socio_state" where
  "get_overview n code year context st =
     (case parse_year year of
        Inl e \<Rightarrow> (Inl (RaisedDomain e), st)
      | Inr target_year \<Rightarrow>
          (let (version, v1) = data_version (sv_clock n) (sv_clock n) (sv_db n) (ss_version st); st1 = st\<lparr>ss_version := v1\<rparr> in
           case version of
             Inl e \<Rightarrow> (Inl e, st1)
           | Inr geography \<Rightarrow>
               (let key = colon_join [''overview'', context_value context, socio_version (sv_db n), int_to_string geography, code, year] in
                case cache_get (sv_clock n) key (ss_overviews st1) of
                  (Some o1, c1) \<Rightarrow> (Inr o1, st1\<lparr>ss_overviews := c1\<rparr>)
                | (None, c1) \<Rightarrow>
                    (let st2 = st1\<lparr>ss_overviews := c1\<rparr> in
                     case get_detail code (sv_db n) of
                       Inl e \<Rightarrow> (Inl e, st2)
                     | Inr detail \<Rightarrow>
                         (case list_indicators n (ts_level detail) context st2 of
                            (Inl e, st3) \<Rightarrow> (Inl e, st3)
                          | (Inr catalog, st3) \<Rightarrow>
                              (let found = territory_values code target_year (context_value context) (sv_db n) (sv_socio n);
                                   o1 = territory_detail.extend detail
                                     (overview.fields (List.map (overview_value_of found) (ca_indicators catalog))) in
                               (Inr o1, st3\<lparr>ss_overviews := cache_set (sv_clock n) key o1 None (ss_overviews st3)\<rparr>)))))))"

end
