(* ===== verification/Socioeconomic_Laws.thy ===== *)
theory Socioeconomic_Laws
  imports Socioeconomic
begin

text \<open>
  What \<open>app/services/socioeconomic.py\<close> promises of the values of a scope: they carry the classes of the whole level.
\<close>

section \<open>Requests on cleared caches\<close>

lemma cache_get_empty [simp]:
  assumes "tc_data c = []"
  shows "fst (cache_get now k c) = None" and "tc_data (snd (cache_get now k c)) = []"
  using assms by (auto simp: cache_get_def)

lemma cache_get_other_key:
  assumes "set (List.map fst (tc_data c)) \<subseteq> {k}" and "k' \<noteq> k"
  shows "fst (cache_get now k' c) = None"
proof -
  have "map_of (tc_data c) k' = None" using assms by (auto simp: map_of_eq_None_iff)
  then show ?thesis by (simp add: cache_get_def)
qed

lemma evict_only_key: "fst ` set (evict_oldest m (od_move_to_end k [(k, x)])) \<subseteq> {k}"
  using set_evict_oldest [of m "od_move_to_end k [(k, x)]"] by (auto simp: od_move_to_end_def od_delete_def)

lemma cache_set_only_key:
  assumes "tc_data c = []"
  shows "set (List.map fst (tc_data (cache_set now k v t c))) \<subseteq> {k}"
  using assms by (simp add: cache_set_def Let_def evict_only_key)

text \<open>A catalogue asked for on cleared caches comes from the tables and leaves one entry.\<close>

definition catalog_key :: "socio_env \<Rightarrow> territory_level \<Rightarrow> indicator_context \<Rightarrow> string" where
  "catalog_key n level context = colon_join [''catalog'', context_value context, level_value level, socio_version (sv_db n)]"

lemma list_indicators_cold:
  assumes cold: "tc_data (ss_cache st) = []"
    and answer: "list_indicators n level context st = (Inr catalog, st')"
  shows "build_catalog (sv_collate n) level context (sv_db n) (sv_socio n) = Inr catalog"
    and "set (List.map fst (tc_data (ss_cache st'))) \<subseteq> {catalog_key n level context}"
    and "ss_snapshots st' = ss_snapshots st" and "ss_version st' = ss_version st"
proof -
  let ?k = "catalog_key n level context"
  obtain c1 where g: "cache_get (sv_clock n) ?k (ss_cache st) = (None, c1)" and c1: "tc_data c1 = []"
    using cache_get_empty [OF cold, of "sv_clock n" ?k] by (metis prod.collapse)
  have step: "list_indicators n level context st =
      (case build_catalog (sv_collate n) level context (sv_db n) (sv_socio n) of
         Inl e \<Rightarrow> (Inl e, st\<lparr>ss_cache := c1\<rparr>)
       | Inr c \<Rightarrow> (Inr c, st\<lparr>ss_cache := cache_set (sv_clock n) ?k (CachedCatalog c) None c1\<rparr>))"
    using g unfolding list_indicators_def Let_def catalog_key_def by simp
  have b: "build_catalog (sv_collate n) level context (sv_db n) (sv_socio n) = Inr catalog"
    and s: "st' = st\<lparr>ss_cache := cache_set (sv_clock n) ?k (CachedCatalog catalog) None c1\<rparr>"
    using answer step by (auto split: sum.splits)
  show "build_catalog (sv_collate n) level context (sv_db n) (sv_socio n) = Inr catalog" by (rule b)
  show "set (List.map fst (tc_data (ss_cache st'))) \<subseteq> {?k}" unfolding s using cache_set_only_key [OF c1] by simp
  show "ss_snapshots st' = ss_snapshots st" "ss_version st' = ss_version st" by (simp_all add: s)
qed

lemma colon_join_head: "colon_join ((a # as) # b # bs) \<noteq> [] \<and> hd (colon_join ((a # as) # b # bs)) = a"
  by (simp add: colon_join_def)

text \<open>The snapshot found on cleared caches is that of the level in the year.\<close>

lemma find_snapshot_cold:
  assumes "tc_data c = []" and "find_snapshot n key level indicator year c = (Inr snap, c')"
  obtains i where "indicator_id indicator (sv_socio n) = Some i"
    and "snap = take_snapshot (level_values (sv_collate n) level i year (sv_db n) (sv_socio n))"
proof -
  obtain c1 where "cache_get (sv_clock n) key c = (None, c1)"
    using cache_get_empty(1) [OF assms(1), of "sv_clock n" key] by (metis prod.collapse)
  then show thesis using assms(2) by (auto simp: find_snapshot_def Let_def intro!: that split: option.splits)
qed

text \<open>A successful request on cleared caches.\<close>

definition answer_of ::
    "socio_env \<Rightarrow> territory_level \<Rightarrow> string option \<Rightarrow> string \<Rightarrow> string \<Rightarrow> int option \<Rightarrow> int \<Rightarrow> indicator_out \<Rightarrow> int
     \<Rightarrow> catalog_response \<Rightarrow> values_response" where
  "answer_of n level parent indicator year requested geography selected i catalog =
     (let resolved = (case requested of Some y \<Rightarrow> Some y | None \<Rightarrow> io_latest_year selected) in
      build_values level parent (colon_join [ca_version catalog, int_to_string geography])
        \<lparr>im_key = io_key selected, im_name = io_name selected, im_unit = io_unit selected,
         im_decimal_places = io_decimal_places selected, im_year = resolved, im_requested_year = year,
         im_available_years = io_available_years selected\<rparr>
        (take_snapshot (level_values (sv_collate n) level i resolved (sv_db n) (sv_socio n))))"

lemma values_key_differs:
  "colon_join [''values'', v, geo, l, p, indicator, year] \<noteq> catalog_key n level context"
  using colon_join_head [of "CHR ''v''" "''alues''" v "[geo, l, p, indicator, year]"]
    colon_join_head [of "CHR ''c''" "''atalog''" "context_value context" "[level_value level, socio_version (sv_db n)]"]
  by (auto simp: catalog_key_def)

lemma values_of_catalog_cold:
  assumes keys: "set (List.map fst (tc_data (ss_cache st))) \<subseteq> {catalog_key n level context}"
    and snaps: "tc_data (ss_snapshots st) = []"
    and answer: "values_of_catalog n level parent indicator year requested catalog st = (Inr r, st')"
  obtains selected geography i where
    "List.find (\<lambda>i. io_key i = indicator) (ca_indicators catalog) = Some selected"
    and "fst (data_version (sv_clock n) (sv_clock n) (sv_db n) (ss_version st)) = Inr geography"
    and "indicator_id indicator (sv_socio n) = Some i"
    and "r = answer_of n level parent indicator year requested geography selected i catalog"
proof -
  obtain selected where sel: "List.find (\<lambda>i. io_key i = indicator) (ca_indicators catalog) = Some selected"
    using answer by (cases "List.find (\<lambda>i. io_key i = indicator) (ca_indicators catalog)") (simp_all add: values_of_catalog_def)
  obtain geography v1 where ver: "data_version (sv_clock n) (sv_clock n) (sv_db n) (ss_version st) = (Inr geography, v1)"
    using answer sel by (auto simp: values_of_catalog_def Let_def split: prod.splits sum.splits)
  let ?resolved = "case requested of Some y \<Rightarrow> Some y | None \<Rightarrow> io_latest_year selected"
  let ?geo = "int_to_string geography"
  let ?key = "colon_join [''values'', ca_version catalog, ?geo, level_value level, parent_text parent, indicator, year]"
  obtain c1 where miss: "cache_get (sv_clock n) ?key (ss_cache st) = (None, c1)"
    using cache_get_other_key [OF keys values_key_differs] by (metis prod.collapse)
  let ?skey = "colon_join [ca_version catalog, ?geo, level_value level, indicator, year_text ?resolved]"
  obtain found s1 where f: "find_snapshot n ?skey level indicator ?resolved (ss_snapshots st) = (found, s1)" by fastforce
  obtain snap where "found = Inr snap" and r: "r = build_values level parent (colon_join [ca_version catalog, ?geo])
      \<lparr>im_key = io_key selected, im_name = io_name selected, im_unit = io_unit selected,
       im_decimal_places = io_decimal_places selected, im_year = ?resolved, im_requested_year = year,
       im_available_years = io_available_years selected\<rparr> snap"
    using answer sel ver miss f
    by (cases found) (simp_all add: values_of_catalog_def Let_def)
  then obtain i where i: "indicator_id indicator (sv_socio n) = Some i"
    and "snap = take_snapshot (level_values (sv_collate n) level i ?resolved (sv_db n) (sv_socio n))"
    using find_snapshot_cold [OF snaps, of n ?skey level indicator ?resolved snap s1] f by auto
  then show thesis using that [OF sel _ i, of geography] ver r by (simp add: answer_of_def Let_def)
qed

section \<open>The classes of a scope\<close>

lemma get_values_cold:
  assumes "tc_data (ss_cache st) = []" and snaps: "tc_data (ss_snapshots st) = []"
    and answer: "get_values n level parent indicator year context st = (Inr r, st')"
  obtains requested catalog selected geography i where
    "parse_year year = Inr requested"
    and "build_catalog (sv_collate n) level context (sv_db n) (sv_socio n) = Inr catalog"
    and "List.find (\<lambda>i. io_key i = indicator) (ca_indicators catalog) = Some selected"
    and "fst (data_version (sv_clock n) (sv_clock n) (sv_db n) (ss_version st)) = Inr geography"
    and "indicator_id indicator (sv_socio n) = Some i"
    and "r = answer_of n level parent indicator year requested geography selected i catalog"
proof -
  obtain requested where y: "parse_year year = Inr requested" and "check_values_parent level parent (sv_db n) = None"
    using answer by (auto simp: get_values_def split: sum.splits option.splits)
  then obtain catalog st1 where l: "list_indicators n level context st = (Inr catalog, st1)"
    and v: "values_of_catalog n level parent indicator year requested catalog st1 = (Inr r, st')"
    using answer by (auto simp: get_values_def split: sum.splits prod.splits)
  note cold = list_indicators_cold [OF assms(1) l]
  have "tc_data (ss_snapshots st1) = []" using snaps cold(3) by simp
  then show thesis
    using values_of_catalog_cold [OF cold(2) _ v] that [OF y cold(1)] cold(4) by metis
qed

definition answer_row :: "value_distribution \<Rightarrow> value_row \<Rightarrow> map_value" where
  "answer_row d row = \<lparr>mv_ibge_code = fst row, mv_value = snd (snd row), mv_class_index = class_index d (snd (snd row))\<rparr>"

lemma answer_of_values:
  "vr_values (answer_of n level parent indicator year requested geography selected i catalog) =
     (let resolved = (case requested of Some y \<Rightarrow> Some y | None \<Rightarrow> io_latest_year selected);
          rows = level_values (sv_collate n) level i resolved (sv_db n) (sv_socio n) in
      List.map (answer_row (describe (row_values rows) DEFAULT_CLASS_COUNT)) (scoped_rows parent rows))"
  by (auto simp: answer_of_def build_values_def take_snapshot_def answer_row_def Let_def)


section \<open>A run\<close>

lemma data_version_answers: "\<exists>v c'. data_version now later d c = (Inr v, c')"
  by (auto simp: data_version_def read_through_def split: prod.splits option.splits)

lemma get_values_answers:
  assumes cold: "tc_data (ss_cache st) = []" "tc_data (ss_snapshots st) = []"
    and "parse_year year = Inr requested" and "check_values_parent level parent (sv_db n) = None"
    and "build_catalog (sv_collate n) level context (sv_db n) (sv_socio n) = Inr catalog"
    and "List.find (\<lambda>i. io_key i = indicator) (ca_indicators catalog) = Some selected"
    and "indicator_id indicator (sv_socio n) = Some i"
  shows "\<exists>r st'. get_values n level parent indicator year context st = (Inr r, st')"
proof -
  let ?k = "catalog_key n level context"
  obtain c1 where "cache_get (sv_clock n) ?k (ss_cache st) = (None, c1)"
    using cache_get_empty(1) [OF cold(1)] by (metis prod.collapse)
  then obtain st1 where l: "list_indicators n level context st = (Inr catalog, st1)"
    using assms(5) unfolding list_indicators_def Let_def catalog_key_def by simp
  note st1 = list_indicators_cold [OF cold(1) l]
  obtain geography v1 where ver: "data_version (sv_clock n) (sv_clock n) (sv_db n) (ss_version st1) = (Inr geography, v1)"
    using data_version_answers by blast
  let ?resolved = "case requested of Some y \<Rightarrow> Some y | None \<Rightarrow> io_latest_year selected"
  let ?geo = "int_to_string geography"
  let ?key = "colon_join [''values'', ca_version catalog, ?geo, level_value level, parent_text parent, indicator, year]"
  let ?skey = "colon_join [ca_version catalog, ?geo, level_value level, indicator, year_text ?resolved]"
  obtain c2 where c2: "cache_get (sv_clock n) ?key (ss_cache st1) = (None, c2)"
    using cache_get_other_key [OF st1(2) values_key_differs [of "ca_version catalog"]] by (metis prod.collapse)
  obtain s1 where "cache_get (sv_clock n) ?skey (ss_snapshots st1) = (None, s1)"
    using cache_get_empty(1) [of "ss_snapshots st1"] cold(2) st1(3) by (metis prod.collapse)
  then obtain snap s2 where f: "find_snapshot n ?skey level indicator ?resolved (ss_snapshots st1) = (Inr snap, s2)"
    using assms(7) by (simp add: find_snapshot_def Let_def)
  have "\<exists>r st'. values_of_catalog n level parent indicator year requested catalog st1 = (Inr r, st')"
    using assms(6) ver c2 f by (simp add: values_of_catalog_def Let_def)
  then show ?thesis using assms(3,4) l by (simp add: get_values_def)
qed

definition region_in_brazil :: "int \<Rightarrow> string \<Rightarrow> int option \<Rightarrow> territory" where
  "region_in_brazil i code parent = \<lparr>t_id = i, t_level = Region, t_ibge_code = code, t_name = code, t_abbreviation = None,
     t_parent_id = parent, t_capital_id = None, t_west = None, t_south = None, t_east = None, t_north = None,
     t_normalized_name = None, t_normalized_abbreviation = None\<rparr>"

definition brazil :: territory where
  "brazil = (region_in_brazil 1 ''BR'' None)\<lparr>t_level := Country\<rparr>"

definition forest :: indicator where
  "forest = \<lparr>in_id = 5, in_key = ''forest_cover'', in_name = ''Forest'', in_description = None, in_unit = ''%'',
     in_origin = Sourced, in_decimal_places = 1, in_display_order = 120, in_context = ''environment''\<rparr>"

definition forest_of :: "int \<Rightarrow> rat \<Rightarrow> indicator_value" where
  "forest_of t x = \<lparr>iv_territory_id = t, iv_indicator_id = 5, iv_year = 2020, iv_value = x, iv_dataset_id = 1, iv_run_id = None\<rparr>"

definition socio_env0 :: socio_env where
  "socio_env0 = \<lparr>sv_clock = 0, sv_collate = id,
     sv_db = empty_db\<lparr>territories := [brazil, region_in_brazil 2 ''1'' (Some 1), region_in_brazil 3 ''2'' None]\<rparr>,
     sv_socio = \<lparr>so_indicators = [forest], so_values = [forest_of 2 10, forest_of 3 20]\<rparr>\<rparr>"


end
