(* ===== verification/Territory_Import.thy ===== *)
theory Territory_Import
  imports Python_Values Providers_Base Jobs Territories
begin

text \<open>
  The import of the territories: the records of IBGE's Localidades (\<open>app/providers/ibge/localidades.py\<close>), the
  reference of capitals (\<open>app/providers/ibge/reference.py\<close>) and the job \<open>app/jobs/import_territories.py\<close>.
  \<open>to_int\<close> is Pydantic's conversion to \<open>int\<close>; the numbers the identity sequence gives new rows are a parameter.
\<close>

section \<open>Records of the source\<close>

record territory_record =
  tc_code :: string
  tc_name :: string
  tc_level :: territory_level
  tc_parent :: "string option"
  tc_abbreviation :: "string option"

definition BRAZIL_CODE :: string where "BRAZIL_CODE = ''BR''"

definition country_record :: territory_record where
  "country_record = \<lparr>tc_code = BRAZIL_CODE, tc_name = ''Brasil'', tc_level = Country, tc_parent = None, tc_abbreviation = None\<rparr>"

definition int_field :: "(json \<Rightarrow> int option) \<Rightarrow> json \<Rightarrow> string \<Rightarrow> int option" where
  "int_field to_int v k = (if has_key v k then to_int (jget v k) else None)"

definition text_field :: "json \<Rightarrow> string \<Rightarrow> string option" where
  "text_field v k = as_string (jget v k)"

text \<open>\<open>None\<close>: Pydantic refuses the item.\<close>

definition read_region :: "(json \<Rightarrow> int option) \<Rightarrow> json \<Rightarrow> territory_record option" where
  "read_region to_int v =
     (case (int_field to_int v ''id'', text_field v ''sigla'', text_field v ''nome'') of
        (Some i, Some sigla, Some nome) \<Rightarrow>
          Some \<lparr>tc_code = int_to_string i, tc_name = nome, tc_level = Region, tc_parent = Some BRAZIL_CODE,
                tc_abbreviation = Some sigla\<rparr>
      | _ \<Rightarrow> None)"

definition read_state :: "(json \<Rightarrow> int option) \<Rightarrow> json \<Rightarrow> territory_record option" where
  "read_state to_int v =
     (let region = jget v ''regiao'' in
      case (int_field to_int v ''id'', text_field v ''sigla'', text_field v ''nome'', int_field to_int region ''id'',
            text_field region ''sigla'', text_field region ''nome'') of
        (Some i, Some sigla, Some nome, Some r, Some _, Some _) \<Rightarrow>
          Some \<lparr>tc_code = int_to_string i, tc_name = nome, tc_level = State, tc_parent = Some (int_to_string r),
                tc_abbreviation = Some sigla\<rparr>
      | _ \<Rightarrow> None)"

text \<open>The state of a municipality, by either division: \<open>Some None\<close> when the division is left out.\<close>

definition micro_state :: "(json \<Rightarrow> int option) \<Rightarrow> json \<Rightarrow> int option option" where
  "micro_state to_int v =
     (let micro = jget v ''microrregiao''; uf = jget (jget micro ''mesorregiao'') ''UF'' in
      if micro = JNull then Some None
      else case (int_field to_int uf ''id'', text_field uf ''sigla'') of (Some i, Some _) \<Rightarrow> Some (Some i) | _ \<Rightarrow> None)"

definition immediate_state :: "(json \<Rightarrow> int option) \<Rightarrow> json \<Rightarrow> int option option" where
  "immediate_state to_int v =
     (let immediate = jget v ''regiao-imediata''; uf = jget (jget immediate ''regiao-intermediaria'') ''UF'' in
      if immediate = JNull then Some None
      else case int_field to_int uf ''id'' of Some i \<Rightarrow> Some (Some i) | None \<Rightarrow> None)"

record raw_municipality =
  rm_id :: int
  rm_name :: string
  rm_micro :: "int option"
  rm_immediate :: "int option"

definition read_municipality :: "(json \<Rightarrow> int option) \<Rightarrow> json \<Rightarrow> raw_municipality option" where
  "read_municipality to_int v =
     (case (int_field to_int v ''id'', text_field v ''nome'', micro_state to_int v, immediate_state to_int v) of
        (Some i, Some nome, Some micro, Some immediate) \<Rightarrow>
          Some \<lparr>rm_id = i, rm_name = nome, rm_micro = micro, rm_immediate = immediate\<rparr>
      | _ \<Rightarrow> None)"

definition state_code :: "raw_municipality \<Rightarrow> raised + string" where
  "state_code m =
     (case rm_micro m of
        Some i \<Rightarrow> Inr (int_to_string i)
      | None \<Rightarrow>
          (case rm_immediate m of
             Some i \<Rightarrow> Inr (int_to_string i)
           | None \<Rightarrow> Inl (RaisedDomain (mk_error ProviderError [(''municipality'', DInt (rm_id m))]))))"

definition municipality_record :: "raw_municipality \<Rightarrow> raised + territory_record" where
  "municipality_record m =
     and_then (state_code m) (\<lambda>state. Inr \<lparr>tc_code = int_to_string (rm_id m), tc_name = rm_name m, tc_level = Municipality,
       tc_parent = Some state, tc_abbreviation = None\<rparr>)"

definition get_records :: "string \<Rightarrow> (nat \<Rightarrow> http_outcome) \<Rightarrow> (json \<Rightarrow> 'a option) \<Rightarrow> raised + 'a list" where
  "get_records path net read =
     (case fst (get_json path net) of
        Inl e \<Rightarrow> Inl e
      | Inr (JList items) \<Rightarrow> map_each (\<lambda>item. from_option RaisedOther (read item)) items
      | Inr _ \<Rightarrow> Inl (RaisedDomain (mk_error ProviderError [(''path'', DText path)])))"

definition fetch_regions :: "(json \<Rightarrow> int option) \<Rightarrow> (nat \<Rightarrow> http_outcome) \<Rightarrow> raised + territory_record list" where
  "fetch_regions to_int net = get_records ''/api/v1/localidades/regioes'' net (read_region to_int)"

definition fetch_states :: "(json \<Rightarrow> int option) \<Rightarrow> (nat \<Rightarrow> http_outcome) \<Rightarrow> raised + territory_record list" where
  "fetch_states to_int net = get_records ''/api/v1/localidades/estados'' net (read_state to_int)"

definition fetch_municipalities :: "(json \<Rightarrow> int option) \<Rightarrow> (nat \<Rightarrow> http_outcome) \<Rightarrow> raised + territory_record list" where
  "fetch_municipalities to_int net =
     and_then (get_records ''/api/v1/localidades/municipios'' net (read_municipality to_int)) (map_each municipality_record)"

section \<open>Storing a level\<close>

definition same_territory :: "territory \<Rightarrow> territory \<Rightarrow> bool" where
  "same_territory a b \<longleftrightarrow> t_ibge_code a = t_ibge_code b"

definition merge_territory :: "territory \<Rightarrow> territory \<Rightarrow> territory" where
  "merge_territory r x =
     x\<lparr>t_name := t_name r, t_level := t_level r, t_abbreviation := t_abbreviation r, t_parent_id := t_parent_id r,
       t_normalized_name := t_normalized_name r, t_normalized_abbreviation := t_normalized_abbreviation r\<rparr>"

definition text_fits :: "nat \<Rightarrow> string option \<Rightarrow> bool" where
  "text_fits n s = (case s of None \<Rightarrow> True | Some s \<Rightarrow> length s \<le> n)"

text \<open>The column sizes and the constraint \<open>country_is_root\<close>.\<close>

definition territory_fits :: "territory \<Rightarrow> bool" where
  "territory_fits t \<longleftrightarrow>
     length (t_ibge_code t) \<le> 9 \<and> length (t_name t) \<le> 120 \<and> text_fits 4 (t_abbreviation t) \<and>
     text_fits 120 (t_normalized_name t) \<and> text_fits 4 (t_normalized_abbreviation t) \<and>
     (t_level t = Country \<longleftrightarrow> t_parent_id t = None)"

definition territory_of :: "(string \<Rightarrow> int) \<Rightarrow> territory_record \<Rightarrow> int option \<Rightarrow> territory" where
  "territory_of new_id r parent_id =
     \<lparr>t_id = new_id (tc_code r), t_level = tc_level r, t_ibge_code = tc_code r, t_name = tc_name r,
      t_abbreviation = tc_abbreviation r, t_parent_id = parent_id, t_capital_id = None, t_west = None, t_south = None,
      t_east = None, t_north = None, t_normalized_name = Some (normalize_text (tc_name r)),
      t_normalized_abbreviation =
        (case tc_abbreviation r of Some (c # cs) \<Rightarrow> Some (normalize_text (c # cs)) | _ \<Rightarrow> None)\<rparr>"

definition parent_of :: "territory_record \<Rightarrow> string option" where
  "parent_of r = (case tc_parent r of Some (c # cs) \<Rightarrow> Some (c # cs) | _ \<Rightarrow> None)"

definition id_of_code :: "db \<Rightarrow> string \<Rightarrow> int option" where
  "id_of_code d code = map_option t_id (select_first (\<lambda>t. t_ibge_code t = code) (territories d))"

definition add_record ::
    "(string \<Rightarrow> int) \<Rightarrow> db \<Rightarrow> run_report \<times> territory list \<Rightarrow> territory_record \<Rightarrow> run_report \<times> territory list" where
  "add_record new_id d acc r =
     (let rep = (fst acc)\<lparr>rp_processed := rp_processed (fst acc) + 1\<rparr> in
      case parent_of r of
        None \<Rightarrow> (rep, snd acc @ [territory_of new_id r None])
      | Some parent \<Rightarrow>
          (case id_of_code d parent of
             Some i \<Rightarrow> (rep, snd acc @ [territory_of new_id r (Some i)])
           | None \<Rightarrow>
               (let rep1 = record_failure (''territory:'' @ tc_code r) (''pai '' @ parent) rep in
                (rep1\<lparr>rp_failed := rp_failed rep1 + 1\<rparr>, snd acc))))"

text \<open>One \<open>INSERT ... ON CONFLICT DO UPDATE\<close>: it may not meet a row twice.\<close>

definition upsert_territories :: "db \<Rightarrow> territory list \<Rightarrow> raised + db" where
  "upsert_territories d rows =
     (if distinct (List.map t_ibge_code rows) \<and> list_all territory_fits rows
      then Inr (d\<lparr>territories := fold (insert_or_update same_territory merge_territory) rows (territories d)\<rparr>)
      else Inl RaisedOther)"

definition UPSERT_BATCH_SIZE :: nat where "UPSERT_BATCH_SIZE = 4000"

text \<open>A level is committed as a whole; a statement that fails leaves the database as it was before it.\<close>

definition upsert_level ::
    "(string \<Rightarrow> int) \<Rightarrow> territory_record list \<Rightarrow> run_report \<Rightarrow> db \<Rightarrow> (raised + nat) \<times> run_report \<times> db" where
  "upsert_level new_id records rep d =
     (let (rep1, payload) = foldl (add_record new_id d) (rep, []) records in
      if payload = [] then (Inr 0, rep1, d)
      else case fold_each upsert_territories d (batches UPSERT_BATCH_SIZE payload) of
        Inl e \<Rightarrow> (Inl e, rep1, d)
      | Inr d1 \<Rightarrow> (Inr (length payload), rep1, d1))"

section \<open>Capitals\<close>

definition STATE_CAPITALS :: "(string \<times> string) list" where
  "STATE_CAPITALS =
    [(''11'', ''1100205''), (''12'', ''1200401''), (''13'', ''1302603''), (''14'', ''1400100''), (''15'', ''1501402''),
     (''16'', ''1600303''), (''17'', ''1721000''), (''21'', ''2111300''), (''22'', ''2211001''), (''23'', ''2304400''),
     (''24'', ''2408102''), (''25'', ''2507507''), (''26'', ''2611606''), (''27'', ''2704302''), (''28'', ''2800308''),
     (''29'', ''2927408''), (''31'', ''3106200''), (''32'', ''3205309''), (''33'', ''3304557''), (''35'', ''3550308''),
     (''41'', ''4106902''), (''42'', ''4205407''), (''43'', ''4314902''), (''50'', ''5002704''), (''51'', ''5103403''),
     (''52'', ''5208707''), (''53'', ''5300108'')]"

definition COUNTRY_CAPITAL :: string where "COUNTRY_CAPITAL = ''5300108''"

definition capital_pairs :: "(string \<times> string) list" where
  "capital_pairs = (BRAZIL_CODE, COUNTRY_CAPITAL) # STATE_CAPITALS"

definition link_capital :: "(string \<Rightarrow> int option) \<Rightarrow> int \<times> db \<Rightarrow> string \<times> string \<Rightarrow> raised + int \<times> db" where
  "link_capital ids acc pair =
     (case ids (snd pair) of
        None \<Rightarrow> Inl RaisedOther
      | Some capital \<Rightarrow>
          Inr (fst acc + int (length (filter (\<lambda>t. t_ibge_code t = fst pair) (territories (snd acc)))),
               (snd acc)\<lparr>territories := update_where (\<lambda>t. t_ibge_code t = fst pair) (\<lambda>t. t\<lparr>t_capital_id := Some capital\<rparr>)
                 (territories (snd acc))\<rparr>))"

text \<open>A reference capital that is missing raises before any update.\<close>

definition link_capitals :: "run_report \<Rightarrow> db \<Rightarrow> (raised + int) \<times> run_report \<times> db" where
  "link_capitals rep d =
     (if list_ex (\<lambda>code. id_of_code d code = None) (COUNTRY_CAPITAL # List.map snd STATE_CAPITALS) then (Inl RaisedOther, rep, d)
      else case fold_each (link_capital (id_of_code d)) (0, d) capital_pairs of
        Inl e \<Rightarrow> (Inl e, rep, d)
      | Inr (linked, d1) \<Rightarrow>
          (Inr linked, rep\<lparr>rp_details := AList.update ''capitals_linked'' (int_to_string linked) (rp_details rep)\<rparr>, d1))"

section \<open>The job\<close>

fun import_levels ::
    "(string \<Rightarrow> int) \<Rightarrow> (territory_level \<times> territory_record list) list \<Rightarrow> (territory_level \<times> nat) list \<Rightarrow> run_report \<Rightarrow> db
     \<Rightarrow> (raised + (territory_level \<times> nat) list) \<times> run_report \<times> db" where
  "import_levels new_id [] counts rep d = (Inr counts, rep, d)"
| "import_levels new_id ((level, records) # rest) counts rep d =
     (case upsert_level new_id records rep d of
        (Inl e, rep1, d1) \<Rightarrow> (Inl e, rep1, d1)
      | (Inr written, rep1, d1) \<Rightarrow>
          import_levels new_id rest (counts @ [(level, written)]) (rep1\<lparr>rp_written := rp_written rep1 + int written\<rparr>) d1)"

definition counts_text :: "(territory_level \<times> nat) list \<Rightarrow> string" where
  "counts_text counts = join '', '' (List.map (\<lambda>(l, n). level_value l @ '': '' @ int_to_string (int n)) counts)"

record territory_source =
  tf_regions :: "nat \<Rightarrow> http_outcome"
  tf_states :: "nat \<Rightarrow> http_outcome"
  tf_municipalities :: "nat \<Rightarrow> http_outcome"

definition fetch_hierarchy ::
    "(json \<Rightarrow> int option) \<Rightarrow> territory_source \<Rightarrow> raised + (territory_level \<times> territory_record list) list" where
  "fetch_hierarchy to_int source =
     and_then (fetch_regions to_int (tf_regions source)) (\<lambda>regions.
     and_then (fetch_states to_int (tf_states source)) (\<lambda>states.
     and_then (fetch_municipalities to_int (tf_municipalities source)) (\<lambda>municipalities.
       Inr [(Country, [country_record]), (Region, regions), (State, states), (Municipality, municipalities)])))"

text \<open>The body given to the job runner: the exit code, the report, and what was committed.\<close>

definition store_hierarchy ::
    "(string \<Rightarrow> int) \<Rightarrow> (territory_level \<times> territory_record list) list \<Rightarrow> db \<Rightarrow> (raised + int) \<times> run_report \<times> db" where
  "store_hierarchy new_id levels d =
     (case import_levels new_id levels [] new_report d of
        (Inl e, rep, d1) \<Rightarrow> (Inl e, rep, d1)
      | (Inr counts, rep, d1) \<Rightarrow>
          (case link_capitals (rep\<lparr>rp_details := AList.update ''counts'' (counts_text counts) (rp_details rep)\<rparr>) d1 of
             (Inl e, rep2, d2) \<Rightarrow> (Inl e, rep2, d2)
           | (Inr _, rep2, d2) \<Rightarrow> (Inr (if rp_failures rep2 \<noteq> [] then 1 else 0), rep2, d2)))"

definition import_territories ::
    "(json \<Rightarrow> int option) \<Rightarrow> (string \<Rightarrow> int) \<Rightarrow> territory_source \<Rightarrow> dataset \<Rightarrow> int \<Rightarrow> db \<Rightarrow> (raised + int) \<times> run_report \<times> db" where
  "import_territories to_int new_id source dataset_row run_id d =
     (let (_, d1) = upsert_dataset dataset_row d in
      case fetch_hierarchy to_int source of
        Inl e \<Rightarrow> (Inl e, new_report, d1)
      | Inr levels \<Rightarrow> store_hierarchy new_id levels d1)"

end
