(* ===== verification/Territory_Import_Laws.thy ===== *)
theory Territory_Import_Laws
  imports Territory_Import
begin

text \<open>
  What the import of the territories leaves in the table: the table is read as a map from codes to rows, of which a
  statement is an update, and each step of the job is shown to keep the numbers of the rows.
\<close>

section \<open>The table as a map\<close>

interpretation territories_table: upsert_table same_territory "insert_ignore same_territory"
    "insert_or_update same_territory merge_territory" merge_territory
  by (rule insert_or_update_table) (auto simp: same_territory_def merge_territory_def)

definition by_code :: "territory list \<Rightarrow> string \<Rightarrow> territory option" where
  "by_code t code = select_first (\<lambda>x. t_ibge_code x = code) t"

lemma id_of_code_by_code: "id_of_code d code = map_option t_id (by_code (territories d) code)"
  by (simp add: id_of_code_def by_code_def)

lemma by_code_Cons [simp]: "by_code (x # t) c = (if t_ibge_code x = c then Some x else by_code t c)"
  by (simp add: by_code_def select_first_def)

lemma by_code_Nil [simp]: "by_code [] c = None"
  by (simp add: by_code_def select_first_def)

lemma by_code_append: "by_code (t @ u) c = (case by_code t c of None \<Rightarrow> by_code u c | Some x \<Rightarrow> Some x)"
  by (induction t) auto

lemma by_code_map: "(\<And>x. t_ibge_code (f x) = t_ibge_code x) \<Longrightarrow> by_code (List.map f t) c = map_option f (by_code t c)"
  by (induction t) auto

lemma by_code_Some: "by_code t c = Some x \<Longrightarrow> x \<in> set t \<and> t_ibge_code x = c"
  unfolding by_code_def by (rule select_first_Some)

lemma by_code_unique:
  "no_conflicts same_territory t \<Longrightarrow> x \<in> set t \<Longrightarrow> by_code t (t_ibge_code x) = Some x"
  unfolding by_code_def
  by (rule select_first_unique) (auto simp: same_territory_def intro: no_conflicts_unique [where c = same_territory])

lemma merge_territory_key [simp]:
  "t_ibge_code (merge_territory r x) = t_ibge_code x" "t_id (merge_territory r x) = t_id x"
  "t_name (merge_territory r x) = t_name r" "t_level (merge_territory r x) = t_level r"
  "t_abbreviation (merge_territory r x) = t_abbreviation r" "t_parent_id (merge_territory r x) = t_parent_id r"
  by (simp_all add: merge_territory_def)

lemma by_code_upsert:
  "by_code (insert_or_update same_territory merge_territory r t) c =
     (if c = t_ibge_code r then Some (case by_code t c of None \<Rightarrow> r | Some x \<Rightarrow> merge_territory r x) else by_code t c)"
proof -
  have "list_ex (same_territory r) t \<longleftrightarrow> by_code t (t_ibge_code r) \<noteq> None"
    by (induction t) (auto simp: same_territory_def)
  moreover have "by_code (List.map (\<lambda>x. if same_territory r x then merge_territory r x else x) t) c =
      map_option (\<lambda>x. if same_territory r x then merge_territory r x else x) (by_code t c)"
    by (rule by_code_map) simp
  ultimately show ?thesis
    by (auto simp: insert_or_update_def by_code_append same_territory_def split: option.splits dest: by_code_Some)
qed

lemma by_code_upserts:
  assumes "distinct (List.map t_ibge_code rows)"
  shows "by_code (fold (insert_or_update same_territory merge_territory) rows t) c =
     (case by_code rows c of None \<Rightarrow> by_code t c
      | Some r \<Rightarrow> Some (case by_code t c of None \<Rightarrow> r | Some x \<Rightarrow> merge_territory r x))"
  using assms
proof (induction rows arbitrary: t)
  case (Cons q rows)
  have "by_code rows (t_ibge_code q) = None"
    using Cons.prems by (cases "by_code rows (t_ibge_code q)") (auto dest!: by_code_Some simp: image_iff)
  then show ?case using Cons by (auto simp: by_code_upsert split: option.splits)
qed simp

text \<open>The rows have the numbers \<open>new_id\<close> tells, and one row a code.\<close>

definition numbered :: "(string \<Rightarrow> int) \<Rightarrow> territory list \<Rightarrow> bool" where
  "numbered new_id t \<longleftrightarrow> no_conflicts same_territory t \<and> (\<forall>x \<in> set t. t_id x = new_id (t_ibge_code x))"

lemma numbered_by_code: "numbered new_id t \<Longrightarrow> by_code t c = Some x \<Longrightarrow> t_id x = new_id c"
  by (auto simp: numbered_def dest!: by_code_Some)

lemma numbered_upserts:
  assumes "numbered new_id t" and "\<forall>r \<in> set rows. t_id r = new_id (t_ibge_code r)"
  shows "numbered new_id (fold (insert_or_update same_territory merge_territory) rows t)"
  using assms
proof (induction rows arbitrary: t)
  case (Cons q rows)
  have "t_id y = new_id (t_ibge_code y)" if "y \<in> set (insert_or_update same_territory merge_territory q t)" for y
    using territories_table.ups_rows [OF that] Cons.prems by (elim disjE bexE) (auto simp: numbered_def)
  then have "numbered new_id (insert_or_update same_territory merge_territory q t)"
    using Cons.prems(1) territories_table.ups_unique [of t q] by (simp add: numbered_def)
  then show ?case using Cons.IH Cons.prems(2) by simp
qed simp

lemma upsert_batches:
  assumes "fold_each upsert_territories d bs = Inr d1"
  shows "d1 = d\<lparr>territories := fold (insert_or_update same_territory merge_territory) (concat bs) (territories d)\<rparr>"
  using assms
proof (induction bs arbitrary: d)
  case (Cons b bs)
  obtain d2 where "upsert_territories d b = Inr d2" and "fold_each upsert_territories d2 bs = Inr d1"
    using Cons.prems by (auto simp: and_then_Inr)
  moreover from this(1) have "d2 = d\<lparr>territories := fold (insert_or_update same_territory merge_territory) b (territories d)\<rparr>"
    by (simp add: upsert_territories_def split: if_splits)
  ultimately show ?case using Cons.IH [of d2] by simp
qed simp

section \<open>A level\<close>

definition resolved :: "db \<Rightarrow> territory_record \<Rightarrow> bool" where
  "resolved d r \<longleftrightarrow> (case parent_of r of None \<Rightarrow> True | Some p \<Rightarrow> id_of_code d p \<noteq> None)"

definition parent_id_of :: "db \<Rightarrow> territory_record \<Rightarrow> int option" where
  "parent_id_of d r = (case parent_of r of None \<Rightarrow> None | Some p \<Rightarrow> id_of_code d p)"

definition level_rows :: "(string \<Rightarrow> int) \<Rightarrow> db \<Rightarrow> territory_record list \<Rightarrow> territory list" where
  "level_rows new_id d records = List.map (\<lambda>r. territory_of new_id r (parent_id_of d r)) (filter (resolved d) records)"

text \<open>The report of a failed record.\<close>

definition failed_scope :: "territory_record \<Rightarrow> string" where
  "failed_scope r = ''territory:'' @ tc_code r"

lemma add_records:
  "\<exists>rep'. foldl (add_record new_id d) (rep, rows) records = (rep', rows @ level_rows new_id d records) \<and>
     set (List.map fst (rp_failures rep)) \<subseteq> set (List.map fst (rp_failures rep')) \<and>
     (\<forall>r \<in> set records. resolved d r \<or> failed_scope r \<in> set (List.map fst (rp_failures rep'))) \<and>
     rp_processed rep' = rp_processed rep + int (length records) \<and>
     rp_failed rep' = rp_failed rep + int (length (filter (\<lambda>r. \<not> resolved d r) records))"
proof (induction records arbitrary: rep rows)
  case (Cons q records)
  obtain rep1 rows1 where s: "add_record new_id d (rep, rows) q = (rep1, rows1)" by force
  have step: "rows1 = rows @ level_rows new_id d [q]"
    "set (List.map fst (rp_failures rep)) \<subseteq> set (List.map fst (rp_failures rep1))"
    "resolved d q \<or> failed_scope q \<in> set (List.map fst (rp_failures rep1))"
    "rp_processed rep1 = rp_processed rep + 1" "rp_failed rep1 = rp_failed rep + (if resolved d q then 0 else 1)"
    using s by (auto simp: add_record_def level_rows_def resolved_def parent_id_of_def record_failure_def failed_scope_def Let_def
        split: option.splits)
  obtain rep' where ih: "foldl (add_record new_id d) (rep1, rows1) records = (rep', rows1 @ level_rows new_id d records)"
    "set (List.map fst (rp_failures rep1)) \<subseteq> set (List.map fst (rp_failures rep'))"
    "\<forall>r \<in> set records. resolved d r \<or> failed_scope r \<in> set (List.map fst (rp_failures rep'))"
    "rp_processed rep' = rp_processed rep1 + int (length records)"
    "rp_failed rep' = rp_failed rep1 + int (length (filter (\<lambda>r. \<not> resolved d r) records))"
    using Cons.IH [of rep1 rows1] by blast
  have "level_rows new_id d (q # records) = level_rows new_id d [q] @ level_rows new_id d records"
    by (simp add: level_rows_def)
  then show ?case using s step ih by auto
qed (simp add: level_rows_def)

lemma distinct_codes: "distinct (List.map t_ibge_code rows) \<Longrightarrow> no_conflicts same_territory rows"
  by (induction rows) (auto simp: no_conflicts_def same_territory_def image_iff)

text \<open>A record is stored: its row has its data and points to the row of its parent.\<close>

definition stored :: "(string \<Rightarrow> int) \<Rightarrow> territory list \<Rightarrow> territory_record \<Rightarrow> bool" where
  "stored new_id t r \<longleftrightarrow>
     (case by_code t (tc_code r) of
        None \<Rightarrow> False
      | Some x \<Rightarrow> t_name x = tc_name r \<and> t_level x = tc_level r \<and> t_abbreviation x = tc_abbreviation r \<and>
          t_parent_id x = map_option new_id (parent_of r)) \<and>
     (case parent_of r of None \<Rightarrow> True | Some p \<Rightarrow> by_code t p \<noteq> None)"

text \<open>\<open>extends t t' codes\<close>: only rows with the codes changed, and none was lost.\<close>

definition extends :: "territory list \<Rightarrow> territory list \<Rightarrow> string set \<Rightarrow> bool" where
  "extends t t' codes \<longleftrightarrow> (\<forall>c. c \<notin> codes \<longrightarrow> by_code t' c = by_code t c) \<and> (\<forall>c. by_code t c \<noteq> None \<longrightarrow> by_code t' c \<noteq> None)"

lemma stored_extends:
  assumes "stored new_id t r" and "extends t t' codes" and "tc_code r \<notin> codes"
  shows "stored new_id t' r"
  using assms unfolding stored_def extends_def by (auto split: option.splits)

lemma extends_trans: "extends t u A \<Longrightarrow> extends u v B \<Longrightarrow> extends t v (A \<union> B)"
  by (simp add: extends_def)

lemma territory_of_sel [simp]:
  "t_ibge_code (territory_of new_id r p) = tc_code r" "t_id (territory_of new_id r p) = new_id (tc_code r)"
  "t_name (territory_of new_id r p) = tc_name r" "t_level (territory_of new_id r p) = tc_level r"
  "t_abbreviation (territory_of new_id r p) = tc_abbreviation r" "t_parent_id (territory_of new_id r p) = p"
  by (simp_all add: territory_of_def)

lemma parent_id_resolved:
  assumes "numbered new_id (territories d)" and "resolved d r"
  shows "parent_id_of d r = map_option new_id (parent_of r)"
    and "case parent_of r of None \<Rightarrow> True | Some p \<Rightarrow> by_code (territories d) p \<noteq> None"
  using assms numbered_by_code [OF assms(1)]
  by (auto simp: resolved_def parent_id_of_def id_of_code_by_code split: option.splits)

lemma level_rows_stored:
  assumes num: "numbered new_id (territories d)" and dis: "distinct (List.map tc_code records)"
    and t': "t' = fold (insert_or_update same_territory merge_territory) (level_rows new_id d records) (territories d)"
  shows "numbered new_id t'" and "extends (territories d) t' (tc_code ` set records)"
    and "\<forall>r \<in> set records. resolved d r \<longrightarrow> stored new_id t' r"
proof -
  let ?rows = "level_rows new_id d records"
  have codes: "List.map t_ibge_code ?rows = List.map tc_code (filter (resolved d) records)"
    by (simp add: level_rows_def comp_def)
  have dist: "distinct (List.map t_ibge_code ?rows)" unfolding codes using dis by (rule distinct_map_filter)
  note map = by_code_upserts [OF dist, of "territories d", folded t']
  show "numbered new_id t'"
    unfolding t' by (rule numbered_upserts [OF num]) (auto simp: level_rows_def)
  have none: "by_code ?rows c = None" if "c \<notin> tc_code ` set records" for c
    using that by (cases "by_code ?rows c") (auto simp: level_rows_def dest!: by_code_Some)
  show ext: "extends (territories d) t' (tc_code ` set records)"
    by (auto simp: extends_def map none split: option.splits)
  show "\<forall>r \<in> set records. resolved d r \<longrightarrow> stored new_id t' r"
  proof (intro ballI impI)
    fix r assume r: "r \<in> set records" "resolved d r"
    let ?q = "territory_of new_id r (parent_id_of d r)"
    have "?q \<in> set ?rows" using r by (auto simp: level_rows_def)
    moreover have "no_conflicts same_territory ?rows"
      using dist by (rule distinct_codes)
    ultimately have "by_code ?rows (tc_code r) = Some ?q" using by_code_unique by fastforce
    then show "stored new_id t' r"
      using parent_id_resolved [OF num r(2)] ext
      by (auto simp: stored_def map extends_def split: option.splits)
  qed
qed

section \<open>The levels\<close>

definition reported :: "run_report \<Rightarrow> territory_record \<Rightarrow> bool" where
  "reported rep r \<longleftrightarrow> failed_scope r \<in> set (List.map fst (rp_failures rep))"

lemma upsert_level_stores:
  assumes num: "numbered new_id (territories d)" and dis: "distinct (List.map tc_code records)"
    and run: "upsert_level new_id records rep d = (Inr n, rep1, d1)"
  shows "numbered new_id (territories d1)" and "extends (territories d) (territories d1) (tc_code ` set records)"
    and "\<forall>r \<in> set records. stored new_id (territories d1) r \<or> reported rep1 r"
    and "\<forall>r. reported rep r \<longrightarrow> reported rep1 r"
proof -
  let ?rows = "level_rows new_id d records"
  let ?t = "fold (insert_or_update same_territory merge_territory) ?rows (territories d)"
  obtain rep' where add: "foldl (add_record new_id d) (rep, []) records = (rep', ?rows)"
    and mono: "set (List.map fst (rp_failures rep)) \<subseteq> set (List.map fst (rp_failures rep'))"
    and fails: "\<forall>r \<in> set records. resolved d r \<or> reported rep' r"
    using add_records [of new_id d rep "[]" records] by (auto simp: reported_def)
  have d1: "territories d1 = ?t \<and> rep1 = rep'"
  proof (cases "?rows = []")
    case True
    then show ?thesis using run by (simp add: upsert_level_def add)
  next
    case False
    then obtain d2 where f: "fold_each upsert_territories d (batches UPSERT_BATCH_SIZE ?rows) = Inr d2" and "d1 = d2" "rep1 = rep'"
      using run by (auto simp: upsert_level_def add split: sum.splits)
    then show ?thesis using upsert_batches [OF f] by (simp add: concat_batches UPSERT_BATCH_SIZE_def)
  qed
  note rows = level_rows_stored [OF num dis refl]
  show "numbered new_id (territories d1)" "extends (territories d) (territories d1) (tc_code ` set records)"
    using rows(1,2) d1 by simp_all
  show "\<forall>r \<in> set records. stored new_id (territories d1) r \<or> reported rep1 r"
    using rows(3) fails d1 by auto
  show "\<forall>r. reported rep r \<longrightarrow> reported rep1 r" using mono d1 by (auto simp: reported_def)
qed

lemma import_levels_store:
  assumes "numbered new_id (territories d)" and "distinct (List.map tc_code (concat (List.map snd levels)))"
    and "import_levels new_id levels counts rep d = (Inr c, rep1, d1)"
  shows "numbered new_id (territories d1) \<and>
    extends (territories d) (territories d1) (tc_code ` set (concat (List.map snd levels))) \<and>
    (\<forall>r \<in> set (concat (List.map snd levels)). stored new_id (territories d1) r \<or> reported rep1 r) \<and>
    (\<forall>r. reported rep r \<longrightarrow> reported rep1 r)"
  using assms
proof (induction levels arbitrary: counts rep d)
  case Nil
  then show ?case by (simp add: extends_def)
next
  case (Cons q rest)
  obtain level records where q: "q = (level, records)" by force
  obtain n rep2 d2 where u: "upsert_level new_id records rep d = (Inr n, rep2, d2)"
    using Cons.prems(3) by (auto simp: q split: prod.splits sum.splits)
  let ?rep = "rep2\<lparr>rp_written := rp_written rep2 + int n\<rparr>" and ?rest = "concat (List.map snd rest)"
  have run: "import_levels new_id rest (counts @ [(level, n)]) ?rep d2 = (Inr c, rep1, d1)"
    using Cons.prems(3) u by (simp add: q)
  have dis: "distinct (List.map tc_code records)" "distinct (List.map tc_code ?rest)"
    "tc_code ` set records \<inter> tc_code ` set ?rest = {}"
    using Cons.prems(2) by (auto simp: q)
  note level = upsert_level_stores [OF Cons.prems(1) dis(1) u]
  note rest = Cons.IH [OF level(1) dis(2) run]
  have keep: "reported ?rep r = reported rep2 r" for r by (simp add: reported_def)
  have "\<forall>r \<in> set records. stored new_id (territories d1) r \<or> reported rep1 r"
  proof
    fix r assume r: "r \<in> set records"
    then have "tc_code r \<notin> tc_code ` set ?rest" using dis(3) by blast
    then show "stored new_id (territories d1) r \<or> reported rep1 r"
      using level(3) r rest keep stored_extends by blast
  qed
  moreover have "extends (territories d) (territories d1) (tc_code ` set records \<union> tc_code ` set ?rest)"
    using extends_trans [OF level(2)] rest by blast
  ultimately show ?case using rest level(4) keep by (auto simp: q image_Un)
qed

section \<open>The capitals\<close>

definition set_capital :: "(string \<Rightarrow> int option) \<Rightarrow> territory list \<Rightarrow> string \<times> string \<Rightarrow> territory list" where
  "set_capital ids t pair =
     update_where (\<lambda>x. t_ibge_code x = fst pair) (\<lambda>x. x\<lparr>t_capital_id := ids (snd pair)\<rparr>) t"

lemma link_each:
  "fold_each (link_capital ids) acc pairs = Inr acc' \<Longrightarrow>
     territories (snd acc') = foldl (set_capital ids) (territories (snd acc)) pairs"
proof (induction pairs arbitrary: acc)
  case (Cons q pairs)
  then obtain b where b: "link_capital ids acc q = Inr b" "fold_each (link_capital ids) b pairs = Inr acc'"
    by (auto simp: and_then_Inr)
  then have "territories (snd b) = set_capital ids (territories (snd acc)) q"
    by (auto simp: link_capital_def set_capital_def split: option.splits)
  then show ?case using Cons.IH [OF b(2)] by simp
qed simp

lemma by_code_set_capital:
  "by_code (set_capital ids t q) c = map_option (\<lambda>x. if c = fst q then x\<lparr>t_capital_id := ids (snd q)\<rparr> else x) (by_code t c)"
proof -
  have "by_code (set_capital ids t q) c =
      map_option (\<lambda>x. if t_ibge_code x = fst q then x\<lparr>t_capital_id := ids (snd q)\<rparr> else x) (by_code t c)"
    unfolding set_capital_def update_where_def by (rule by_code_map) simp
  then show ?thesis by (cases "by_code t c") (auto dest: by_code_Some)
qed

lemma by_code_capitals:
  "distinct (List.map fst pairs) \<Longrightarrow>
   by_code (foldl (set_capital ids) t pairs) c =
     map_option (\<lambda>x. case map_of pairs c of None \<Rightarrow> x | Some k \<Rightarrow> x\<lparr>t_capital_id := ids k\<rparr>) (by_code t c)"
proof (induction pairs arbitrary: t)
  case (Cons q pairs)
  have "map_of pairs (fst q) = None" using Cons.prems by (auto simp: map_of_eq_None_iff)
  then show ?case
    using Cons by (cases "by_code t c"; cases q) (auto simp: by_code_set_capital)
qed (simp add: option.map_ident)

lemma capital_pairs_distinct: "distinct (List.map fst capital_pairs)"
  by code_simp

section \<open>The import\<close>

lemma upsert_dataset_territories: "territories (snd (upsert_dataset r d)) = territories d"
  by (simp add: upsert_dataset_def Let_def)

lemma store_hierarchy_parts:
  assumes "store_hierarchy new_id levels d = (Inr code, rep, d1)"
  obtains counts rep0 d0 where "import_levels new_id levels [] new_report d = (Inr counts, rep0, d0)"
    and "rp_failures rep = rp_failures rep0" and "code = (if rp_failures rep = [] then 0 else 1)"
    and "\<forall>pair \<in> set capital_pairs. id_of_code d0 (snd pair) \<noteq> None"
    and "territories d1 = foldl (set_capital (id_of_code d0)) (territories d0) capital_pairs"
proof -
  obtain counts rep0 d0 where levels: "import_levels new_id levels [] new_report d = (Inr counts, rep0, d0)"
    using assms by (auto simp: store_hierarchy_def split: prod.splits sum.splits)
  let ?rep = "rep0\<lparr>rp_details := AList.update ''counts'' (counts_text counts) (rp_details rep0)\<rparr>"
  obtain linked rep2 where link: "link_capitals ?rep d0 = (Inr linked, rep2, d1)" "rep2 = rep"
    and code: "code = (if rp_failures rep = [] then 0 else 1)"
    using assms levels by (auto simp: store_hierarchy_def split: prod.splits sum.splits)
  have all: "\<not> list_ex (\<lambda>code. id_of_code d0 code = None) (COUNTRY_CAPITAL # List.map snd STATE_CAPITALS)"
    using link(1) by (auto simp: link_capitals_def split: if_splits)
  then have "\<exists>acc. fold_each (link_capital (id_of_code d0)) (0, d0) capital_pairs = Inr acc \<and> d1 = snd acc \<and> rp_failures rep2 = rp_failures rep0"
    using link(1) by (auto simp: link_capitals_def split: sum.splits)
  then obtain acc where "fold_each (link_capital (id_of_code d0)) (0, d0) capital_pairs = Inr acc" "d1 = snd acc"
    and rep: "rp_failures rep2 = rp_failures rep0" by blast
  then have "territories d1 = foldl (set_capital (id_of_code d0)) (territories d0) capital_pairs"
    using link_each by fastforce
  moreover have "\<forall>pair \<in> set capital_pairs. id_of_code d0 (snd pair) \<noteq> None"
    using all by (auto simp: capital_pairs_def list_ex_iff)
  ultimately show thesis using that [OF levels] rep link(2) code by simp
qed

text \<open>
  Property C27. An import that finishes leaves the hierarchy of the source: every record of it is either in the
  report of failures (its parent was not found) or is the row of its code, with its name, level and abbreviation,
  and points to the row of its parent, which is there; the exit code is 0 exactly when nothing failed. Codes the
  source does not name keep their rows, up to the link to the capital, and no row disappears. The rows of the
  country and of every state point to the rows of their capitals.
\<close>

theorem import_builds_hierarchy:
  assumes "numbered new_id (territories d)"
    and "fetch_hierarchy to_int source = Inr levels" and "records = concat (List.map snd levels)"
    and "distinct (List.map tc_code records)"
    and "import_territories to_int new_id source dataset_row run_id d = (Inr code, rep, d1)"
  shows "(\<forall>r \<in> set records. reported rep r \<or> stored new_id (territories d1) r) \<and>
    (code = 0 \<longleftrightarrow> rp_failures rep = []) \<and>
    (\<forall>x. (\<exists>c. by_code (territories d1) c = Some x) \<longrightarrow> t_id x = new_id (t_ibge_code x)) \<and>
    (\<forall>c. c \<notin> tc_code ` set records \<longrightarrow>
       map_option (\<lambda>x. x\<lparr>t_capital_id := None\<rparr>) (by_code (territories d1) c) =
       map_option (\<lambda>x. x\<lparr>t_capital_id := None\<rparr>) (by_code (territories d) c)) \<and>
    (\<forall>c. by_code (territories d) c \<noteq> None \<longrightarrow> by_code (territories d1) c \<noteq> None) \<and>
    (\<forall>c k x. map_of capital_pairs c = Some k \<and> by_code (territories d1) c = Some x \<longrightarrow>
       (\<exists>y. by_code (territories d1) k = Some y \<and> t_capital_id x = Some (t_id y)))"
proof -
  let ?d = "snd (upsert_dataset dataset_row d)"
  have same: "territories ?d = territories d" by (rule upsert_dataset_territories)
  have run: "store_hierarchy new_id levels ?d = (Inr code, rep, d1)"
    using assms(2,5) by (simp add: import_territories_def split: prod.splits)
  obtain counts rep0 d0 where levels: "import_levels new_id levels [] new_report ?d = (Inr counts, rep0, d0)"
    and rep: "rp_failures rep = rp_failures rep0" and code: "code = (if rp_failures rep = [] then 0 else 1)"
    and there: "\<forall>pair \<in> set capital_pairs. id_of_code d0 (snd pair) \<noteq> None"
    and t1: "territories d1 = foldl (set_capital (id_of_code d0)) (territories d0) capital_pairs"
    by (rule store_hierarchy_parts [OF run])
  have num0: "numbered new_id (territories ?d)" using assms(1) same by simp
  have dis: "distinct (List.map tc_code (concat (List.map snd levels)))" using assms(3,4) by simp
  note sound = import_levels_store [OF num0 dis levels, folded assms(3), unfolded same]
  note by1 = by_code_capitals [OF capital_pairs_distinct, of "id_of_code d0" "territories d0", folded t1]
  have fields: "by_code (territories d1) c = Some x \<Longrightarrow> \<exists>y. by_code (territories d0) c = Some y \<and> t_id x = t_id y \<and>
      t_ibge_code x = t_ibge_code y" for c x
    by (auto simp: by1 split: option.splits)
  have "reported rep r \<or> stored new_id (territories d1) r" if "r \<in> set records" for r
  proof -
    have "stored new_id (territories d0) r \<Longrightarrow> stored new_id (territories d1) r"
      unfolding stored_def by1 by (auto split: option.splits)
    then show ?thesis using sound that rep by (auto simp: reported_def)
  qed
  moreover have "code = 0 \<longleftrightarrow> rp_failures rep = []" using code by simp
  moreover have "\<forall>x. (\<exists>c. by_code (territories d1) c = Some x) \<longrightarrow> t_id x = new_id (t_ibge_code x)"
    using fields sound numbered_by_code by (metis by_code_Some)
  moreover have "\<forall>c. c \<notin> tc_code ` set records \<longrightarrow>
       map_option (\<lambda>x. x\<lparr>t_capital_id := None\<rparr>) (by_code (territories d1) c) =
       map_option (\<lambda>x. x\<lparr>t_capital_id := None\<rparr>) (by_code (territories d) c)"
    using sound by (auto simp: by1 extends_def option.map_comp comp_def intro!: option.map_cong split: option.splits)
  moreover have "\<forall>c. by_code (territories d) c \<noteq> None \<longrightarrow> by_code (territories d1) c \<noteq> None"
    using sound by (simp add: by1 extends_def)
  moreover have "\<forall>c k x. map_of capital_pairs c = Some k \<and> by_code (territories d1) c = Some x \<longrightarrow>
       (\<exists>y. by_code (territories d1) k = Some y \<and> t_capital_id x = Some (t_id y))"
  proof (intro allI impI)
    fix c k x assume ck: "map_of capital_pairs c = Some k \<and> by_code (territories d1) c = Some x"
    then have "(c, k) \<in> set capital_pairs" by (auto dest: map_of_SomeD)
    then obtain y where y: "by_code (territories d0) k = Some y" "id_of_code d0 k = Some (t_id y)"
      using there by (force simp: id_of_code_by_code)
    have "t_capital_id x = Some (t_id y)" using ck y by (auto simp: by1)
    then show "\<exists>y. by_code (territories d1) k = Some y \<and> t_capital_id x = Some (t_id y)"
      using y by (auto simp: by1 split: option.splits)
  qed
  ultimately show ?thesis by blast
qed

section \<open>A run\<close>

definition capital_row :: "string \<Rightarrow> territory" where
  "capital_row code = \<lparr>t_id = digits_to_int code, t_level = Municipality, t_ibge_code = code, t_name = code,
     t_abbreviation = None, t_parent_id = Some 0, t_capital_id = None, t_west = None, t_south = None, t_east = None,
     t_north = None, t_normalized_name = None, t_normalized_abbreviation = None\<rparr>"

definition db_capitals :: db where
  "db_capitals = empty_db\<lparr>territories := List.map (capital_row \<circ> snd) STATE_CAPITALS\<rparr>"

definition answers :: "json \<Rightarrow> nat \<Rightarrow> http_outcome" where
  "answers v k = Answered \<lparr>h_status = 200, h_url = [], h_text = [], h_json = Some v, h_retry_after = []\<rparr>"

definition json_int :: "json \<Rightarrow> int option" where
  "json_int v = (case v of JInt n \<Rightarrow> Some n | _ \<Rightarrow> None)"

definition municipality_in :: "int \<Rightarrow> int \<Rightarrow> json" where
  "municipality_in i uf = JObject [(''id'', JInt i), (''nome'', JString ''M''), (''microrregiao'', JObject [(''mesorregiao'',
     JObject [(''UF'', JObject [(''id'', JInt uf), (''sigla'', JString ''UF'')])])])]"

definition norte :: json where
  "norte = JObject [(''id'', JInt 1), (''sigla'', JString ''N''), (''nome'', JString ''Norte'')]"

text \<open>A region, a state, its capital, and a municipality of a state that the source does not have.\<close>

definition source0 :: territory_source where
  "source0 = \<lparr>tf_regions = answers (JList [norte]),
     tf_states = answers (JList [JObject [(''id'', JInt 11), (''sigla'', JString ''RO''), (''nome'', JString ''Rondonia''), (''regiao'', norte)]]),
     tf_municipalities = answers (JList [municipality_in 1100205 11, municipality_in 9900000 99])\<rparr>"

definition levels0 :: "(territory_level \<times> territory_record list) list" where
  "levels0 = [(Country, [country_record]),
     (Region, [\<lparr>tc_code = ''1'', tc_name = ''Norte'', tc_level = Region, tc_parent = Some ''BR'', tc_abbreviation = Some ''N''\<rparr>]),
     (State, [\<lparr>tc_code = ''11'', tc_name = ''Rondonia'', tc_level = State, tc_parent = Some ''1'', tc_abbreviation = Some ''RO''\<rparr>]),
     (Municipality, [\<lparr>tc_code = ''1100205'', tc_name = ''M'', tc_level = Municipality, tc_parent = Some ''11'', tc_abbreviation = None\<rparr>,
       \<lparr>tc_code = ''9900000'', tc_name = ''M'', tc_level = Municipality, tc_parent = Some ''99'', tc_abbreviation = None\<rparr>])]"

lemma get_json_answers: "fst (get_json path (answers v)) = Inr v"
  by (simp add: answers_def get_json_def get_with_retry_def get_with_retry_from.simps MAX_ATTEMPTS_def TRANSIENT_STATUS_def)

lemma ids0: "int_to_string 1 = ''1''" "int_to_string 11 = ''11''" "int_to_string 99 = ''99''"
  "int_to_string 1100205 = ''1100205''" "int_to_string 9900000 = ''9900000''"
  by (simp_all add: int_to_string_def nat_to_string.simps char_of_def bit_0)

lemma source0_levels: "fetch_hierarchy json_int source0 = Inr levels0"
proof -
  have "read_region json_int norte = Some \<lparr>tc_code = ''1'', tc_name = ''Norte'', tc_level = Region, tc_parent = Some ''BR'', tc_abbreviation = Some ''N''\<rparr>"
    by (simp add: read_region_def norte_def int_field_def text_field_def has_key_def jget_def json_int_def ids0 BRAZIL_CODE_def)
  moreover have "read_state json_int (JObject [(''id'', JInt 11), (''sigla'', JString ''RO''), (''nome'', JString ''Rondonia''), (''regiao'', norte)]) =
      Some \<lparr>tc_code = ''11'', tc_name = ''Rondonia'', tc_level = State, tc_parent = Some ''1'', tc_abbreviation = Some ''RO''\<rparr>"
    by (simp add: read_state_def norte_def int_field_def text_field_def has_key_def jget_def json_int_def ids0)
  moreover have "read_municipality json_int (municipality_in i uf) = Some \<lparr>rm_id = i, rm_name = ''M'', rm_micro = Some uf, rm_immediate = None\<rparr>" for i uf
    by (simp add: read_municipality_def municipality_in_def micro_state_def immediate_state_def int_field_def text_field_def
        has_key_def jget_def json_int_def)
  ultimately show ?thesis
    by (simp add: fetch_hierarchy_def fetch_regions_def fetch_states_def fetch_municipalities_def get_records_def source0_def
        get_json_answers levels0_def from_option_def municipality_record_def state_code_def ids0)
qed

text \<open>A level of at most a batch of rows that fit is stored.\<close>

definition record_fits :: "territory_record \<Rightarrow> bool" where
  "record_fits r \<longleftrightarrow> territory_fits (territory_of (\<lambda>_. 0) r (map_option (\<lambda>_. 0) (parent_of r)))"

lemma record_fits_row:
  "record_fits r \<Longrightarrow> resolved d r \<Longrightarrow> territory_fits (territory_of new_id r (parent_id_of d r))"
  by (auto simp: record_fits_def territory_fits_def territory_of_def parent_id_of_def resolved_def split: option.splits)

lemma upsert_level_succeeds:
  assumes "\<forall>r \<in> set records. record_fits r" and "distinct (List.map tc_code records)" and "length records \<le> 4000"
  shows "\<exists>n rep1 d1. upsert_level new_id records rep d = (Inr n, rep1, d1)"
proof -
  let ?rows = "level_rows new_id d records"
  obtain rep' where add: "foldl (add_record new_id d) (rep, []) records = (rep', ?rows)"
    using add_records [of new_id d rep "[]" records] by auto
  have "List.map t_ibge_code ?rows = List.map tc_code (filter (resolved d) records)"
    by (simp add: level_rows_def comp_def)
  then have "distinct (List.map t_ibge_code ?rows)" using assms(2) distinct_map_filter by metis
  moreover have "list_all territory_fits ?rows"
    using assms(1) record_fits_row by (auto simp: level_rows_def list_all_iff)
  moreover have "length ?rows \<le> 4000" using assms(3) by (simp add: level_rows_def) (meson le_trans length_filter_le)
  then have "?rows \<noteq> [] \<Longrightarrow> batches UPSERT_BATCH_SIZE ?rows = [?rows]"
    by (simp add: batches.simps UPSERT_BATCH_SIZE_def)
  ultimately show ?thesis by (simp add: upsert_level_def add upsert_territories_def)
qed

lemma import_levels_succeeds:
  assumes "\<forall>q \<in> set levels. (\<forall>r \<in> set (snd q). record_fits r) \<and> distinct (List.map tc_code (snd q)) \<and> length (snd q) \<le> 4000"
  shows "\<exists>c rep1 d1. import_levels new_id levels counts rep d = (Inr c, rep1, d1)"
  using assms
proof (induction levels arbitrary: counts rep d)
  case (Cons q levels)
  obtain level records where q: "q = (level, records)" by force
  obtain n rep1 d1 where "upsert_level new_id records rep d = (Inr n, rep1, d1)"
    using upsert_level_succeeds [of records] Cons.prems q by fastforce
  then show ?case using Cons by (simp add: q)
qed simp

lemma link_each_succeeds:
  "\<forall>q \<in> set pairs. ids (snd q) \<noteq> None \<Longrightarrow> \<exists>acc'. fold_each (link_capital ids) acc pairs = Inr acc'"
  by (induction pairs arbitrary: acc) (auto simp: link_capital_def)

lemma levels0_ok: "\<forall>q \<in> set levels0. (\<forall>r \<in> set (snd q). record_fits r) \<and> distinct (List.map tc_code (snd q)) \<and> length (snd q) \<le> 4000"
proof -
  have "list_all (\<lambda>q. list_all record_fits (snd q) \<and> distinct (List.map tc_code (snd q))) levels0" by code_simp
  moreover have "\<forall>q \<in> set levels0. length (snd q) \<le> 4000" by (simp add: levels0_def)
  ultimately show ?thesis by (simp add: list_all_iff)
qed

lemma capitals_numbered: "numbered digits_to_int (territories db_capitals)"
proof -
  have "distinct (List.map t_ibge_code (territories db_capitals))" by code_simp
  moreover have "\<forall>x \<in> set (territories db_capitals). t_id x = digits_to_int (t_ibge_code x)"
    by (auto simp: db_capitals_def capital_row_def)
  ultimately show ?thesis by (simp add: numbered_def distinct_codes)
qed

lemma run0:
  assumes "territories d = territories db_capitals"
  shows "\<exists>code rep d1. store_hierarchy digits_to_int levels0 d = (Inr code, rep, d1)"
proof -
  obtain c rep0 d0 where l: "import_levels digits_to_int levels0 [] new_report d = (Inr c, rep0, d0)"
    using import_levels_succeeds [OF levels0_ok] by blast
  have "distinct (List.map tc_code (concat (List.map snd levels0)))" by code_simp
  note sound = import_levels_store [OF capitals_numbered [folded assms] this l]
  have "List.map (by_code (territories db_capitals)) (List.map snd STATE_CAPITALS) =
      List.map (Some \<circ> capital_row) (List.map snd STATE_CAPITALS)"
    by code_simp
  then have "\<forall>k \<in> set (List.map snd STATE_CAPITALS). by_code (territories db_capitals) k \<noteq> None" by auto
  then have k: "\<forall>k \<in> set (List.map snd STATE_CAPITALS). id_of_code d0 k \<noteq> None"
    using sound by (auto simp: extends_def id_of_code_by_code assms)
  moreover have c: "COUNTRY_CAPITAL \<in> set (List.map snd STATE_CAPITALS)" by code_simp
  ultimately have "\<not> list_ex (\<lambda>k. id_of_code d0 k = None) (COUNTRY_CAPITAL # List.map snd STATE_CAPITALS)"
    by (auto simp: list_ex_iff)
  moreover have all: "\<forall>q \<in> set capital_pairs. id_of_code d0 (snd q) \<noteq> None"
    using k c by (auto simp: capital_pairs_def)
  moreover obtain acc where "fold_each (link_capital (id_of_code d0)) (0, d0) capital_pairs = Inr acc"
    using link_each_succeeds [of capital_pairs "id_of_code d0" "(0, d0)"] all by blast
  ultimately show ?thesis using l by (cases acc) (simp add: store_hierarchy_def link_capitals_def)
qed

theorem import_builds_hierarchy_witness:
  "\<exists>code rep d1. import_territories json_int digits_to_int source0
       \<lparr>ds_id = 1, ds_source = ''ibge'', ds_code = ''localidades/v1'', ds_name = [], ds_url = None, ds_source_updated_at = None\<rparr> 1
       db_capitals = (Inr code, rep, d1) \<and>
     (\<forall>r \<in> set (concat (List.map snd levels0)). reported rep r \<or> stored digits_to_int (territories d1) r)"
proof -
  let ?r = "\<lparr>ds_id = 1, ds_source = ''ibge'', ds_code = ''localidades/v1'', ds_name = [], ds_url = None, ds_source_updated_at = None\<rparr>"
  have "\<exists>code rep d1. import_territories json_int digits_to_int source0 ?r 1 db_capitals = (Inr code, rep, d1)"
    using run0 [OF upsert_dataset_territories [of ?r]]
    by (cases "upsert_dataset ?r db_capitals") (simp add: import_territories_def source0_levels)
  then obtain code rep d1 where run: "import_territories json_int digits_to_int source0 ?r 1 db_capitals = (Inr code, rep, d1)"
    by blast
  have "distinct (List.map tc_code (concat (List.map snd levels0)))" by code_simp
  from import_builds_hierarchy [OF capitals_numbered source0_levels refl this run] run show ?thesis by blast
qed

end
