(* ===== verification/Election_Stage.thy ===== *)
theory Election_Stage
  imports Agregados
begin

text \<open>
  The consolidation of an election, \<open>app/providers/tse.py\<close>: the rows of TSE's open files (and of its live documents)
  are added up per municipality in a stage, then for each state and the country. A row is the dictionary of its
  columns; any exception ends the ingestion, so errors carry no class. The stage's SQLite tables are lists of keys
  and contents. \<open>parse_stamp\<close> reads a time of day in Brasilia.
\<close>

section \<open>Offices and columns\<close>

datatype office = President | Governor | Senator | FederalDeputy | StateDeputy | Mayor | Councillor

fun office_value :: "office \<Rightarrow> string" where
  "office_value President = ''president''"
| "office_value Governor = ''governor''"
| "office_value Senator = ''senator''"
| "office_value FederalDeputy = ''federal_deputy''"
| "office_value StateDeputy = ''state_deputy''"
| "office_value Mayor = ''mayor''"
| "office_value Councillor = ''councillor''"

definition OFFICES :: "(int \<times> office) list" where
  "OFFICES = [(1, President), (3, Governor), (5, Senator), (6, FederalDeputy), (7, StateDeputy), (8, StateDeputy),
     (11, Mayor), (13, Councillor)]"

definition MUNICIPAL_OFFICES :: "office list" where "MUNICIPAL_OFFICES = [Mayor, Councillor]"

datatype total_field = Eligible | Turnout | Abstention | TotalVotes | ValidVotes | BlankVotes | NullVotes

fun total_column :: "total_field \<Rightarrow> string" where
  "total_column Eligible = ''QT_APTOS''"
| "total_column Turnout = ''QT_COMPARECIMENTO''"
| "total_column Abstention = ''QT_ABSTENCOES''"
| "total_column TotalVotes = ''QT_VOTOS''"
| "total_column ValidVotes = ''QT_TOTAL_VOTOS_VALIDOS''"
| "total_column BlankVotes = ''QT_VOTOS_BRANCOS''"
| "total_column NullVotes = ''QT_TOTAL_VOTOS_NULOS''"

type_synonym totals = "total_field \<Rightarrow> int option"

definition number_text :: "string \<Rightarrow> int option" where
  "number_text v = (case parse_int v of None \<Rightarrow> None | Some n \<Rightarrow> if n \<ge> 0 then Some n else None)"

type_synonym csv_row = "(string \<times> string) list"

definition column :: "csv_row \<Rightarrow> string \<Rightarrow> raised + string" where
  "column row k = from_option RaisedOther (map_of row k)"

definition int_column :: "csv_row \<Rightarrow> string \<Rightarrow> raised + int" where
  "int_column row k = and_then (column row k) (\<lambda>text. from_option RaisedOther (parse_int text))"

section \<open>The stage\<close>

record candidate_data =
  cd_id :: string
  cd_name :: string
  cd_number :: string
  cd_party :: string
  cd_party_number :: string
  cd_status :: string

record candidate =
  ca_id :: string
  ca_office :: office
  ca_scope :: string
  ca_elected :: "int option"
  ca_data :: candidate_data

type_synonym place = "office \<times> int \<times> string"
type_synonym vote_table = "((place \<times> string) \<times> int) list"

record stage =
  sg_year :: int
  sg_territories :: "string list"
  sg_crosswalk :: "string \<rightharpoonup> string"
  sg_updated_at :: "instant option"
  sg_processed :: nat
  sg_other_election :: nat
  sg_outside_geography :: nat
  sg_candidates :: "(string \<times> candidate) list"
  sg_votes :: vote_table
  sg_parties :: vote_table
  sg_totals :: "(place \<times> totals) list"

definition new_stage :: "int \<Rightarrow> string list \<Rightarrow> stage" where
  "new_stage year codes =
     \<lparr>sg_year = year, sg_territories = codes, sg_crosswalk = Map.empty, sg_updated_at = None, sg_processed = 0,
      sg_other_election = 0, sg_outside_geography = 0, sg_candidates = [], sg_votes = [], sg_parties = [], sg_totals = []\<rparr>"

text \<open>\<open>INSERT ... ON CONFLICT DO UPDATE\<close> with the rule \<open>f new old\<close>, and a plain \<open>INSERT ... SELECT\<close>.\<close>

definition upsert_entry :: "('v \<Rightarrow> 'v \<Rightarrow> 'v) \<Rightarrow> 'k \<times> 'v \<Rightarrow> ('k \<times> 'v) list \<Rightarrow> ('k \<times> 'v) list" where
  "upsert_entry f kv t =
     (case map_of t (fst kv) of None \<Rightarrow> t @ [kv] | Some old \<Rightarrow> AList.update (fst kv) (f (snd kv) old) t)"

definition insert_entries :: "('k \<times> 'v) list \<Rightarrow> ('k \<times> 'v) list \<Rightarrow> raised + ('k \<times> 'v) list" where
  "insert_entries rows t = (if distinct (List.map fst (t @ rows)) then Inr (t @ rows) else Inl RaisedOther)"

definition plus_votes :: "int \<Rightarrow> int \<Rightarrow> int" where "plus_votes n old = old + n"

definition plus_totals :: "totals \<Rightarrow> totals \<Rightarrow> totals" where
  "plus_totals n old = (\<lambda>f. case (old f, n f) of (Some a, Some b) \<Rightarrow> Some (a + b) | _ \<Rightarrow> None)"

definition max_elected :: "int option \<Rightarrow> int option \<Rightarrow> int option" where
  "max_elected a b = (case (a, b) of (Some x, Some y) \<Rightarrow> Some (max x y) | (Some x, None) \<Rightarrow> Some x | (None, _) \<Rightarrow> b)"

definition merge_candidate :: "candidate \<Rightarrow> candidate \<Rightarrow> candidate" where
  "merge_candidate new old =
     old\<lparr>ca_elected := max_elected (ca_elected old) (ca_elected new),
         ca_data := (if ca_elected new \<noteq> None \<or> ca_elected old = None then ca_data new else ca_data old)\<rparr>"

section \<open>The place of a row\<close>

definition is_other_election :: "int \<Rightarrow> csv_row \<Rightarrow> raised + bool" where
  "is_other_election wanted row =
     and_then (int_column row ''ANO_ELEICAO'') (\<lambda>year.
       if year \<noteq> wanted then Inr True
       else and_then (column row ''CD_TIPO_ELEICAO'') (\<lambda>kind. Inr (kind \<noteq> ''2'')))"

definition municipality_code :: "stage \<Rightarrow> csv_row \<Rightarrow> raised + string" where
  "municipality_code st row =
     and_then (int_column row ''CD_MUNICIPIO'') (\<lambda>m.
       case sg_crosswalk st (int_to_string m) of
         None \<Rightarrow> Inl RaisedOther
       | Some code \<Rightarrow> if code \<in> set (sg_territories st) then Inr code else Inl RaisedOther)"

definition generated_at :: "(string \<Rightarrow> instant option) \<Rightarrow> csv_row \<Rightarrow> raised + instant" where
  "generated_at parse_stamp row =
     and_then (column row ''DT_GERACAO'') (\<lambda>d. and_then (column row ''HH_GERACAO'') (\<lambda>h.
       from_option RaisedOther (parse_stamp (d @ '' '' @ h))))"

definition latest :: "instant \<Rightarrow> instant option \<Rightarrow> instant option" where
  "latest t updated = (case updated of None \<Rightarrow> Some t | Some u \<Rightarrow> if t > u then Some t else Some u)"

definition dimensions :: "(string \<Rightarrow> instant option) \<Rightarrow> csv_row \<Rightarrow> stage \<Rightarrow> raised + place option \<times> stage" where
  "dimensions parse_stamp row st =
     (let st1 = st\<lparr>sg_processed := sg_processed st + 1\<rparr> in
      and_then (is_other_election (sg_year st) row) (\<lambda>other.
      if other then Inr (None, st1\<lparr>sg_other_election := sg_other_election st1 + 1\<rparr>)
      else
      and_then (column row ''SG_UF'') (\<lambda>uf.
      if uf = ''ZZ'' \<or> uf = ''VT'' then Inr (None, st1\<lparr>sg_outside_geography := sg_outside_geography st1 + 1\<rparr>)
      else
      and_then (int_column row ''CD_CARGO'') (\<lambda>cargo.
      case map_of OFFICES cargo of
        None \<Rightarrow> Inr (None, st1)
      | Some office \<Rightarrow>
          and_then (municipality_code st1 row) (\<lambda>code.
          and_then (generated_at parse_stamp row) (\<lambda>generated.
          and_then (int_column row ''NR_TURNO'') (\<lambda>election_round.
            Inr (Some (office, election_round, code), st1\<lparr>sg_updated_at := latest generated (sg_updated_at st1)\<rparr>))))))))"

section \<open>Loading the rows of a family\<close>

datatype family = Details | PartyVotes | CandidateVotes

text \<open>What waits for the next write: rows of one table, and the candidates met.\<close>

record load_buffer =
  bf_totals :: "(place \<times> totals) list"
  bf_votes :: vote_table
  bf_candidates :: "(string \<times> candidate) list"

definition no_buffer :: load_buffer where
  "no_buffer = \<lparr>bf_totals = [], bf_votes = [], bf_candidates = []\<rparr>"

definition TOTAL_FIELDS :: "total_field list" where
  "TOTAL_FIELDS = [Eligible, Turnout, Abstention, TotalVotes, ValidVotes, BlankVotes, NullVotes]"

definition read_totals :: "csv_row \<Rightarrow> raised + totals" where
  "read_totals row =
     and_then (map_each (\<lambda>f. and_then (column row (total_column f)) (\<lambda>text. Inr (f, number_text text))) TOTAL_FIELDS)
       (\<lambda>fs. Inr (\<lambda>f. case map_of fs f of None \<Rightarrow> None | Some n \<Rightarrow> n))"

definition party_votes_row :: "csv_row \<Rightarrow> raised + (string \<times> int) option" where
  "party_votes_row row =
     and_then (column row ''QT_VOTOS_NOMINAIS_VALIDOS'') (\<lambda>nominal.
     and_then (column row ''QT_TOTAL_VOTOS_LEG_VALIDOS'') (\<lambda>legend.
       case (number_text nominal, number_text legend) of
         (Some n, Some l) \<Rightarrow> if n + l > 0 then and_then (column row ''SG_PARTIDO'') (\<lambda>party. Inr (Some (party, n + l))) else Inr None
       | _ \<Rightarrow> Inr None))"

definition candidate_scope :: "office \<Rightarrow> string \<Rightarrow> string" where
  "candidate_scope office code =
     (if office = President then ''BR'' else if office \<in> set MUNICIPAL_OFFICES then code else take 2 code)"

definition won :: "string \<Rightarrow> bool" where
  "won status = is_prefix ''ELEITO'' status"

text \<open>Whether the previous entry of the dictionary counts as elected: a round that is not zero.\<close>

definition was_elected :: "candidate option \<Rightarrow> bool" where
  "was_elected previous = (case previous of None \<Rightarrow> False | Some p \<Rightarrow> ca_elected p \<noteq> None \<and> ca_elected p \<noteq> Some 0)"

definition elected_round :: "string \<Rightarrow> int \<Rightarrow> candidate option \<Rightarrow> int option" where
  "elected_round status election_round previous =
     (let elected = (if won status then Some election_round else None) in
      if was_elected previous
      then Some (max (case elected of None \<Rightarrow> 0 | Some r \<Rightarrow> r) (the (ca_elected (the previous))))
      else elected)"

definition next_candidate :: "candidate option \<Rightarrow> office \<Rightarrow> string \<Rightarrow> int \<Rightarrow> candidate_data \<Rightarrow> candidate" where
  "next_candidate previous office scope election_round data =
     \<lparr>ca_id = cd_id data, ca_office = office, ca_scope = scope,
      ca_elected = elected_round (cd_status data) election_round previous,
      ca_data = (if was_elected previous \<and> \<not> won (cd_status data) then ca_data (the previous) else data)\<rparr>"

definition read_candidate :: "string \<Rightarrow> csv_row \<Rightarrow> raised + candidate_data" where
  "read_candidate i row =
     and_then (column row ''DS_SIT_TOT_TURNO'') (\<lambda>status.
     and_then (column row ''NM_URNA_CANDIDATO'') (\<lambda>name.
     and_then (column row ''NR_CANDIDATO'') (\<lambda>number.
     and_then (column row ''SG_PARTIDO'') (\<lambda>party.
     and_then (column row ''NR_PARTIDO'') (\<lambda>party_number.
       Inr \<lparr>cd_id = i, cd_name = name, cd_number = number, cd_party = party, cd_party_number = party_number, cd_status = status\<rparr>)))))"

definition buffer_candidate :: "place \<Rightarrow> csv_row \<Rightarrow> load_buffer \<Rightarrow> raised + load_buffer" where
  "buffer_candidate p row buf =
     (let (office, election_round, code) = p in
      and_then (column row ''SQ_CANDIDATO'') (\<lambda>i.
      if number_text i = None then Inr buf
      else
      and_then (read_candidate i row) (\<lambda>data.
      and_then (column row ''QT_VOTOS_NOMINAIS_VALIDOS'') (\<lambda>text.
        let c = next_candidate (map_of (bf_candidates buf) i) office (candidate_scope office code) election_round data;
            buf1 = buf\<lparr>bf_candidates := AList.update i c (bf_candidates buf)\<rparr> in
        Inr (case number_text text of
          Some votes \<Rightarrow> if votes > 0 then buf1\<lparr>bf_votes := bf_votes buf1 @ [((p, i), votes)]\<rparr> else buf1
        | None \<Rightarrow> buf1)))))"

definition buffer_row :: "family \<Rightarrow> place \<Rightarrow> csv_row \<Rightarrow> load_buffer \<Rightarrow> raised + load_buffer" where
  "buffer_row family p row buf =
     (case family of
        Details \<Rightarrow> and_then (read_totals row) (\<lambda>t. Inr (buf\<lparr>bf_totals := bf_totals buf @ [(p, t)]\<rparr>))
      | PartyVotes \<Rightarrow> and_then (party_votes_row row) (\<lambda>r.
          Inr (case r of None \<Rightarrow> buf | Some (party, votes) \<Rightarrow> buf\<lparr>bf_votes := bf_votes buf @ [((p, party), votes)]\<rparr>))
      | CandidateVotes \<Rightarrow> buffer_candidate p row buf)"

definition save_candidates :: "(string \<times> candidate) list \<Rightarrow> stage \<Rightarrow> stage" where
  "save_candidates cs st = st\<lparr>sg_candidates := fold (upsert_entry merge_candidate) cs (sg_candidates st)\<rparr>"

definition write_buffer :: "family \<Rightarrow> load_buffer \<Rightarrow> stage \<Rightarrow> stage" where
  "write_buffer family buf st =
     save_candidates (bf_candidates buf)
       (case family of
          Details \<Rightarrow> st\<lparr>sg_totals := fold (upsert_entry plus_totals) (bf_totals buf) (sg_totals st)\<rparr>
        | PartyVotes \<Rightarrow> st\<lparr>sg_parties := fold (upsert_entry plus_votes) (bf_votes buf) (sg_parties st)\<rparr>
        | CandidateVotes \<Rightarrow> st\<lparr>sg_votes := fold (upsert_entry plus_votes) (bf_votes buf) (sg_votes st)\<rparr>)"

definition BATCH_ROWS :: nat where "BATCH_ROWS = 20000"

text \<open>A row outside the election leaves the buffer alone, even a full one.\<close>

definition load_row ::
    "(string \<Rightarrow> instant option) \<Rightarrow> nat \<Rightarrow> family \<Rightarrow> load_buffer \<times> stage \<Rightarrow> csv_row \<Rightarrow> raised + load_buffer \<times> stage" where
  "load_row parse_stamp batch family acc row =
     and_then (dimensions parse_stamp row (snd acc)) (\<lambda>(p, st1).
       case p of
         None \<Rightarrow> Inr (fst acc, st1)
       | Some p \<Rightarrow>
           and_then (buffer_row family p row (fst acc)) (\<lambda>buf.
             if length (bf_totals buf) + length (bf_votes buf) \<ge> batch
             then Inr (no_buffer, write_buffer family buf st1) else Inr (buf, st1)))"

definition load_rows ::
    "(string \<Rightarrow> instant option) \<Rightarrow> nat \<Rightarrow> family \<Rightarrow> csv_row list \<Rightarrow> stage \<Rightarrow> raised + stage" where
  "load_rows parse_stamp batch family rows st =
     and_then (fold_each (load_row parse_stamp batch family) (no_buffer, st) rows) (\<lambda>(buf, st1). Inr (write_buffer family buf st1))"

section \<open>Files and addresses\<close>

definition archive_files :: "string list \<Rightarrow> string list" where
  "archive_files names =
     (let files = filter (\<lambda>name. ends_with (py_lower name) ''.csv'') names;
          national = filter (\<lambda>name. ends_with name ''_BRASIL.csv'') files in
      if national \<noteq> [] then national else files)"

section \<open>The live documents\<close>

text \<open>Every figure and name in them is a text; one of another type counts as an error.\<close>

definition lift_error :: "py_error + 'a \<Rightarrow> raised + 'a" where
  "lift_error r = (case r of Inl _ \<Rightarrow> Inl RaisedOther | Inr x \<Rightarrow> Inr x)"

definition key_of :: "json \<Rightarrow> string \<Rightarrow> raised + json" where
  "key_of v k = lift_error (sub_key v k)"

definition text_of_key :: "json \<Rightarrow> string \<Rightarrow> raised + string" where
  "text_of_key v k = and_then (key_of v k) (\<lambda>x. from_option RaisedOther (as_string x))"

definition items_of_key :: "json \<Rightarrow> string \<Rightarrow> raised + json list" where
  "items_of_key v k = and_then (key_of v k) (\<lambda>x. lift_error (iter_values x))"

text \<open>\<open>f"{n:06d}"\<close>: the sign counts for the width.\<close>

definition zero_padded :: "nat \<Rightarrow> int \<Rightarrow> string" where
  "zero_padded width n =
     (let digits = nat_to_string (nat \<bar>n\<bar>); sign = (if n < 0 then ''-'' else []) in
      sign @ replicate (width - length sign - length digits) (CHR ''0'') @ digits)"

definition ORDINARY :: string where "ORDINARY = ''Ordin'' @ [CHR 0xE1] @ ''ria''"

definition filter_each :: "('a \<Rightarrow> 'e + bool) \<Rightarrow> 'a list \<Rightarrow> 'e + 'a list" where
  "filter_each keep xs =
     and_then (map_each (\<lambda>x. and_then (keep x) (\<lambda>b. Inr (b, x))) xs) (\<lambda>ps. Inr (List.map snd (filter fst ps)))"

definition live_elections :: "int \<Rightarrow> int \<Rightarrow> json \<Rightarrow> raised + json list" where
  "live_elections year election_round config =
     and_then (items_of_key config ''pl'') (\<lambda>polls.
     and_then (filter_each (\<lambda>p. and_then (text_of_key p ''c'') (\<lambda>c. Inr (c = ''ele'' @ int_to_string year))) polls) (\<lambda>polls.
     and_then (map_each (\<lambda>p. items_of_key p ''e'') polls) (\<lambda>elections.
       filter_each (\<lambda>e. and_then (text_of_key e ''t'') (\<lambda>t.
           if t \<noteq> int_to_string election_round then Inr False
           else and_then (text_of_key e ''nm'') (\<lambda>nm. Inr (contains_text ORDINARY nm)))) (concat elections))))"

definition live_offices :: "json \<Rightarrow> raised + int list" where
  "live_offices scope =
     and_then (items_of_key scope ''cp'') (\<lambda>cps.
     and_then (map_each (\<lambda>cp. and_then (text_of_key cp ''cd'') (\<lambda>cd. from_option RaisedOther (parse_int cd))) cps) (\<lambda>cds.
       Inr (filter (\<lambda>cd. map_of OFFICES cd \<noteq> None) cds)))"

text \<open>The states of a scope and the names of their municipalities' documents.\<close>

definition live_names :: "string \<Rightarrow> json \<Rightarrow> json \<Rightarrow> raised + (string \<times> string) list" where
  "live_names code municipalities scope =
     and_then (live_offices scope) (\<lambda>offices.
     and_then (items_of_key municipalities ''abr'') (\<lambda>states.
     and_then (map_each (\<lambda>state.
         and_then (text_of_key state ''cd'') (\<lambda>uf.
         if uf = ''zz'' then Inr []
         else
         and_then (text_of_key scope ''cd'') (\<lambda>scope_uf.
         if scope_uf \<notin> {''br'', uf} then Inr []
         else
         and_then (items_of_key state ''mu'') (\<lambda>mus.
         and_then (map_each (\<lambda>m. text_of_key m ''cd'') mus) (\<lambda>cds.
           Inr [(uf, uf @ cd @ ''-c'' @ zero_padded 4 o1 @ ''-e'' @ code @ ''-u.json''). cd \<leftarrow> cds, o1 \<leftarrow> offices]))))) states) (\<lambda>rs.
       Inr (concat rs))))"

definition live_election_names :: "(string \<Rightarrow> raised + json) \<Rightarrow> json \<Rightarrow> raised + (string \<times> string) list" where
  "live_election_names municipalities_of election =
     and_then (text_of_key election ''cd'') (\<lambda>cd.
     and_then (from_option RaisedOther (parse_int cd)) (\<lambda>n.
     and_then (municipalities_of cd) (\<lambda>municipalities.
     and_then (items_of_key election ''abr'') (\<lambda>scopes.
     and_then (map_each (live_names (zero_padded 6 n) municipalities) scopes) (\<lambda>rs. Inr (concat rs))))))"

text \<open>
  The documents of a round: \<open>config\<close> is the configuration, \<open>municipalities_of\<close> the municipalities of an election and
  \<open>get\<close> the document of a name. No document to fetch is an error.
\<close>

definition live_documents ::
    "int \<Rightarrow> int \<Rightarrow> (raised + json) \<Rightarrow> (string \<Rightarrow> raised + json) \<Rightarrow> (string \<times> string \<Rightarrow> raised + json)
     \<Rightarrow> raised + (string \<times> json) list" where
  "live_documents year election_round config municipalities_of get =
     and_then config (\<lambda>config.
     and_then (live_elections year election_round config) (\<lambda>elections.
     and_then (map_each (live_election_names municipalities_of) elections) (\<lambda>names.
       if concat names = [] then Inl RaisedOther
       else map_each (\<lambda>name. and_then (get name) (\<lambda>document. Inr (fst name, document))) (concat names))))"

definition upper_char :: "char \<Rightarrow> char" where
  "upper_char c = (let n = of_char c :: nat in
     if (97 \<le> n \<and> n \<le> 122) \<or> (224 \<le> n \<and> n \<le> 254 \<and> n \<noteq> 247) then char_of (n - 32) else c)"

definition VALID_PREFIX :: string where "VALID_PREFIX = [CHR ''V'', CHR 0xE1] @ ''lido''"

definition live_candidate :: "csv_row \<Rightarrow> json \<Rightarrow> json \<Rightarrow> raised + (int \<times> csv_row) option" where
  "live_candidate common party person =
     and_then (text_of_key person ''dvt'') (\<lambda>dvt.
     if \<not> is_prefix VALID_PREFIX dvt then Inr None
     else
     and_then (text_of_key person ''vap'') (\<lambda>vap.
     and_then (from_option RaisedOther (parse_int vap)) (\<lambda>votes.
     and_then (text_of_key person ''sqcand'') (\<lambda>i.
     and_then (text_of_key person ''nmu'') (\<lambda>name.
     and_then (text_of_key person ''n'') (\<lambda>n.
     and_then (text_of_key party ''sg'') (\<lambda>sg.
     and_then (text_of_key party ''n'') (\<lambda>pn.
     and_then (text_of_key person ''st'') (\<lambda>status.
       Inr (Some (votes, common @ [(''SQ_CANDIDATO'', i), (''NM_URNA_CANDIDATO'', name), (''NR_CANDIDATO'', n),
         (''SG_PARTIDO'', sg), (''NR_PARTIDO'', pn), (''DS_SIT_TOT_TURNO'', List.map upper_char status),
         (''QT_VOTOS_NOMINAIS_VALIDOS'', vap)])))))))))))"

definition live_party :: "csv_row \<Rightarrow> json \<Rightarrow> raised + (csv_row list \<times> csv_row)" where
  "live_party common party =
     and_then (items_of_key party ''cand'') (\<lambda>persons.
     and_then (map_each (live_candidate common party) persons) (\<lambda>rs.
     and_then (text_of_key party ''sg'') (\<lambda>sg.
       let found = List.map_filter id rs in
       Inr (List.map snd found, common @ [(''SG_PARTIDO'', sg),
         (''QT_VOTOS_NOMINAIS_VALIDOS'', int_to_string (sum_list (List.map fst found))), (''QT_TOTAL_VOTOS_LEG_VALIDOS'', ''0'')]))))"

definition live_details :: "csv_row \<Rightarrow> json \<Rightarrow> json \<Rightarrow> raised + csv_row" where
  "live_details common electorate votes =
     and_then (map_each (\<lambda>(col, v, k). and_then (text_of_key v k) (\<lambda>x. Inr (col, x)))
       [(''QT_APTOS'', electorate, ''te''), (''QT_COMPARECIMENTO'', electorate, ''c''), (''QT_ABSTENCOES'', electorate, ''a''),
        (''QT_VOTOS'', votes, ''tv''), (''QT_TOTAL_VOTOS_VALIDOS'', votes, ''vv''), (''QT_VOTOS_BRANCOS'', votes, ''vb''),
        (''QT_TOTAL_VOTOS_NULOS'', votes, ''tvn'')])
       (\<lambda>fields. Inr (common @ fields))"

type_synonym family_rows = "family \<Rightarrow> csv_row list"

definition no_rows :: family_rows where "no_rows = (\<lambda>_. [])"

definition add_rows :: "family_rows \<Rightarrow> family_rows \<Rightarrow> family_rows" where
  "add_rows a b = (\<lambda>f. a f @ b f)"

definition live_office :: "csv_row \<Rightarrow> json \<Rightarrow> json \<Rightarrow> json \<Rightarrow> raised + family_rows" where
  "live_office base electorate votes office =
     and_then (text_of_key office ''cd'') (\<lambda>cd.
     let common = base @ [(''CD_CARGO'', cd)] in
     and_then (live_details common electorate votes) (\<lambda>details.
     and_then (items_of_key office ''agr'') (\<lambda>groups.
     and_then (map_each (\<lambda>g. items_of_key g ''par'') groups) (\<lambda>parties.
     and_then (map_each (live_party common) (concat parties)) (\<lambda>rs.
       Inr (\<lambda>f. case f of Details \<Rightarrow> [details] | PartyVotes \<Rightarrow> List.map snd rs | CandidateVotes \<Rightarrow> concat (List.map fst rs)))))))"

definition live_base :: "string \<Rightarrow> json \<Rightarrow> raised + csv_row" where
  "live_base state document =
     and_then (text_of_key document ''dt'') (\<lambda>dt.
     and_then (text_of_key document ''cdabr'') (\<lambda>cdabr.
     and_then (text_of_key document ''t'') (\<lambda>t.
     and_then (text_of_key document ''dg'') (\<lambda>dg.
     and_then (text_of_key document ''hg'') (\<lambda>hg.
       Inr [(''ANO_ELEICAO'', drop (length dt - 4) dt), (''CD_TIPO_ELEICAO'', ''2''), (''SG_UF'', List.map upper_char state),
         (''CD_MUNICIPIO'', cdabr), (''NR_TURNO'', t), (''DT_GERACAO'', dg), (''HH_GERACAO'', hg)])))))"

text \<open>An incomplete count raises.\<close>

definition live_rows :: "string \<Rightarrow> json \<Rightarrow> raised + family_rows" where
  "live_rows state document =
     (if jget document ''tf'' \<noteq> JString ''s'' then Inl RaisedOther
      else
      and_then (live_base state document) (\<lambda>base.
      and_then (key_of document ''e'') (\<lambda>electorate.
      and_then (key_of document ''v'') (\<lambda>votes.
      and_then (items_of_key document ''carg'') (\<lambda>offices.
      and_then (map_each (live_office base electorate votes) offices) (\<lambda>rs. Inr (foldl add_rows no_rows rs)))))))"

text \<open>A sum over the values that are there; \<open>None\<close> when none is.\<close>

definition total_votes :: "(place \<times> totals) list \<Rightarrow> office \<times> int \<Rightarrow> int option" where
  "total_votes ts key =
     (let found = List.map_filter (\<lambda>((o1, r, c), t). if (o1, r) = key then t TotalVotes else None) ts in
      if found = [] then None else Some (sum_list found))"

definition published :: "stage \<Rightarrow> office \<times> int \<Rightarrow> bool" where
  "published st key = (case total_votes (sg_totals st) key of None \<Rightarrow> False | Some n \<Rightarrow> n > 0)"

definition not_published :: "stage \<Rightarrow> csv_row \<Rightarrow> raised + bool" where
  "not_published st item =
     and_then (int_column item ''CD_CARGO'') (\<lambda>cargo.
     and_then (int_column item ''NR_TURNO'') (\<lambda>election_round.
       Inr (case map_of OFFICES cargo of None \<Rightarrow> True | Some office \<Rightarrow> \<not> published st (office, election_round))))"

definition live_family_rows :: "stage \<Rightarrow> (string \<times> json) list \<Rightarrow> raised + family_rows" where
  "live_family_rows st documents =
     fold_each (\<lambda>acc (state, document).
       and_then (live_rows state document) (\<lambda>rs.
       and_then (filter_each (not_published st) (rs Details)) (\<lambda>details.
       and_then (filter_each (not_published st) (rs CandidateVotes)) (\<lambda>candidates.
       and_then (filter_each (not_published st) (rs PartyVotes)) (\<lambda>parties.
         Inr (add_rows acc (\<lambda>f. case f of Details \<Rightarrow> details | PartyVotes \<Rightarrow> parties | CandidateVotes \<Rightarrow> candidates)))))))
       no_rows documents"

definition load_families :: "(string \<Rightarrow> instant option) \<Rightarrow> family_rows \<Rightarrow> stage \<Rightarrow> raised + stage" where
  "load_families parse_stamp rows st =
     fold_each (\<lambda>s family. load_rows parse_stamp BATCH_ROWS family (rows family) s) st [Details, PartyVotes, CandidateVotes]"

definition load_live :: "(string \<Rightarrow> instant option) \<Rightarrow> (string \<times> json) list \<Rightarrow> stage \<Rightarrow> raised + bool \<times> stage" where
  "load_live parse_stamp documents st =
     and_then (live_family_rows st documents) (\<lambda>rows.
       if rows Details = [] then Inr (False, st)
       else and_then (load_families parse_stamp rows st) (\<lambda>st1. Inr (True, st1)))"

section \<open>The sums of the states and the country\<close>

definition group_rows :: "('v \<Rightarrow> 'v \<Rightarrow> 'v) \<Rightarrow> ('k \<Rightarrow> 'g option) \<Rightarrow> ('k \<times> 'v) list \<Rightarrow> ('g \<times> 'v) list" where
  "group_rows add g t =
     fold (\<lambda>(k, v) acc. case g k of None \<Rightarrow> acc | Some q \<Rightarrow> upsert_entry add (q, v) acc) t []"

text \<open>The place of the sum a municipality's row goes to.\<close>

definition state_place :: "place \<Rightarrow> place option" where
  "state_place p = (let (office, election_round, code) = p in
     if length code = 7 then Some (office, election_round, take 2 code) else None)"

definition country_place :: "place \<Rightarrow> place option" where
  "country_place p = (let (office, election_round, code) = p in
     if length code = 7 then Some (office, election_round, ''BR'') else None)"

definition sum_place :: "(office \<Rightarrow> bool) \<Rightarrow> (place \<Rightarrow> place option) \<Rightarrow> place \<times> string \<Rightarrow> (place \<times> string) option" where
  "sum_place wanted to k = (if wanted (fst (fst k)) then map_option (\<lambda>p. (p, snd k)) (to (fst k)) else None)"

definition with_sums :: "('v \<Rightarrow> 'v \<Rightarrow> 'v) \<Rightarrow> ('k \<Rightarrow> 'k option) \<Rightarrow> ('k \<Rightarrow> 'k option) \<Rightarrow> ('k \<times> 'v) list \<Rightarrow> raised + ('k \<times> 'v) list" where
  "with_sums add to_state to_country t =
     and_then (insert_entries (group_rows add to_state t) t) (\<lambda>t1. insert_entries (group_rows add to_country t1) t1)"

definition usable_total :: "(place \<times> totals) list \<Rightarrow> place \<times> totals \<Rightarrow> bool" where
  "usable_total ts row \<longleftrightarrow> total_votes ts (fst (fst row), fst (snd (fst row))) \<noteq> Some 0"

definition published_totals :: "(place \<times> totals) list \<Rightarrow> (place \<times> totals) list" where
  "published_totals ts =
     (let ts1 = filter (\<lambda>row. fst (snd (fst row)) \<in> {1, 2}) ts in filter (usable_total ts1) ts1)"

definition aggregate :: "stage \<Rightarrow> raised + stage" where
  "aggregate st =
     and_then (with_sums plus_votes (sum_place (\<lambda>o1. o1 \<notin> set MUNICIPAL_OFFICES) state_place)
         (sum_place (\<lambda>o1. o1 = President) country_place) (sg_votes st)) (\<lambda>votes.
     and_then (with_sums plus_votes (sum_place (\<lambda>_. True) state_place) (sum_place (\<lambda>_. True) country_place) (sg_parties st)) (\<lambda>parties.
     and_then (with_sums plus_totals state_place country_place (published_totals (sg_totals st))) (\<lambda>totals.
       Inr (st\<lparr>sg_votes := votes, sg_parties := parties, sg_totals := totals\<rparr>))))"

section \<open>The ingestion\<close>

record election_files =
  ef_mapping :: "csv_row list"
  ef_rows :: family_rows
  ef_live :: "(string \<times> json) list option"

definition read_crosswalk :: "csv_row list \<Rightarrow> stage \<Rightarrow> raised + stage" where
  "read_crosswalk rows st =
     fold_each (\<lambda>s row.
       and_then (int_column row ''CD_MUNICIPIO_TSE'') (\<lambda>tse.
       and_then (column row ''CD_MUNICIPIO_IBGE'') (\<lambda>ibge.
         Inr (s\<lparr>sg_crosswalk := (sg_crosswalk s)(int_to_string tse \<mapsto> ibge)\<rparr>)))) st rows"

definition ingest_election :: "(string \<Rightarrow> instant option) \<Rightarrow> election_files \<Rightarrow> stage \<Rightarrow> raised + stage" where
  "ingest_election parse_stamp files st =
     and_then (read_crosswalk (ef_mapping files) st) (\<lambda>st1.
     and_then (load_families parse_stamp (ef_rows files) st1) (\<lambda>st2.
     and_then (case ef_live files of None \<Rightarrow> Inr (False, st2) | Some documents \<Rightarrow> load_live parse_stamp documents st2) (\<lambda>(_, st3).
       aggregate st3)))"

end
