(* ===== verification/Election_Results.thy ===== *)
theory Election_Results
  imports Election_Stage
begin

text \<open>
  What \<open>app/providers/tse.py\<close> publishes of a consolidated stage: the summary of each place, the representatives, the
  candidates named by them and the metadata. SQLite returns rows in an order of its own where the code does not
  order them; it is the order of the stage's lists here.
\<close>

section \<open>The summary of a place\<close>

record summary =
  su_totals :: "totals option"
  su_representatives :: "int option"
  su_leaders :: "(string \<times> int option) list"
  su_party :: "string option"
  su_party_votes :: "int option"
  su_party_seats :: "int option"
  su_candidate_tie :: "bool option"
  su_party_tie :: bool

record result_row =
  rr_year :: int
  rr_office :: office
  rr_round :: int
  rr_code :: string
  rr_data :: summary

text \<open>The two best of a place: by votes, then by key.\<close>

definition place_votes :: "place \<Rightarrow> vote_table \<Rightarrow> (string \<times> int) list" where
  "place_votes p t = List.map (\<lambda>((q, k), n). (k, n)) (filter (\<lambda>row. fst (fst row) = p) t)"

definition top_two :: "place \<Rightarrow> vote_table \<Rightarrow> (string \<times> int) list" where
  "top_two p t = take 2 (sort_key (\<lambda>kn. - snd kn) (sort_key fst (place_votes p t)))"

definition tied :: "(string \<times> int) list \<Rightarrow> bool" where
  "tied ranked = (case ranked of a # b # _ \<Rightarrow> snd a = snd b | _ \<Rightarrow> False)"

definition first_of :: "'a list \<Rightarrow> 'a option" where
  "first_of xs = (case xs of [] \<Rightarrow> None | x # _ \<Rightarrow> Some x)"

definition place_summary :: "stage \<Rightarrow> place \<times> totals \<Rightarrow> summary" where
  "place_summary st row =
     (let leaders = top_two (fst row) (sg_votes st); parties = top_two (fst row) (sg_parties st) in
      \<lparr>su_totals = Some (snd row), su_representatives = None, su_leaders = List.map (\<lambda>(i, n). (i, Some n)) leaders,
       su_party = map_option fst (first_of parties), su_party_votes = map_option snd (first_of parties), su_party_seats = None,
       su_candidate_tie = Some (tied leaders), su_party_tie = tied parties\<rparr>)"

definition total_rows :: "stage \<Rightarrow> result_row list" where
  "total_rows st =
     List.map (\<lambda>row. \<lparr>rr_year = sg_year st, rr_office = fst (fst row), rr_round = fst (snd (fst row)), rr_code = snd (snd (fst row)),
       rr_data = place_summary st row\<rparr>) (sg_totals st)"

section \<open>Representatives\<close>

text \<open>The scopes an elected candidate counts for.\<close>

definition candidate_scopes :: "candidate \<Rightarrow> (office \<times> string) list" where
  "candidate_scopes c =
     (let office = ca_office c; scope = ca_scope c in
      [(office, scope)] @ (if scope \<noteq> ''BR'' then [(office, ''BR'')] else []) @
      (if length scope = 7 then [(office, take 2 scope)] else []))"

definition by_scope :: "stage \<Rightarrow> ((office \<times> string) \<times> candidate_data list) list" where
  "by_scope st =
     fold (\<lambda>c m. fold (\<lambda>k. append_to k (ca_data c)) (candidate_scopes c) m)
       (filter (\<lambda>c. ca_elected c \<noteq> None) (List.map snd (sg_candidates st))) []"

text \<open>\<open>Counter(...).most_common()\<close>: by count, then by first occurrence.\<close>

definition most_common :: "string list \<Rightarrow> (string \<times> int) list" where
  "most_common xs =
     sort_key (\<lambda>kn. - snd kn) (List.map (\<lambda>x. (x, int (count_list xs x))) (rev (remdups (rev xs))))"

definition representation :: "candidate_data list \<Rightarrow> summary" where
  "representation cs =
     (let counts = most_common (List.map cd_party cs) in
      \<lparr>su_totals = None, su_representatives = Some (int (length cs)),
       su_leaders = (case cs of [c] \<Rightarrow> [(cd_id c, None)] | _ \<Rightarrow> []),
       su_party = map_option fst (first_of counts), su_party_votes = None, su_party_seats = map_option snd (first_of counts),
       su_candidate_tie = None, su_party_tie = tied counts\<rparr>)"

definition representation_codes :: "string list \<Rightarrow> office \<Rightarrow> string \<Rightarrow> string list" where
  "representation_codes codes office scope =
     [scope] @
     (if office \<in> set MUNICIPAL_OFFICES then []
      else filter (\<lambda>code. length code = 7 \<and> (if office = President then scope = ''BR'' else is_prefix scope code)) (sort codes) @
        (if office = President then filter (\<lambda>code. length code = 2 \<and> code \<noteq> ''BR'') (sort codes) else []))"

definition representation_rows :: "stage \<Rightarrow> result_row list" where
  "representation_rows st =
     concat (List.map (\<lambda>((office, scope), cs).
       List.map (\<lambda>code. \<lparr>rr_year = sg_year st, rr_office = office, rr_round = 0, rr_code = code, rr_data = representation cs\<rparr>)
         (representation_codes (sg_territories st) office scope)) (by_scope st))"

definition result_rows :: "stage \<Rightarrow> result_row list" where
  "result_rows st = total_rows st @ representation_rows st"

section \<open>Candidates and metadata\<close>

record candidate_row =
  cr_year :: int
  cr_id :: string
  cr_office :: office
  cr_scope :: string
  cr_elected_round :: "int option"
  cr_data :: candidate_data

definition named_in_tops :: "stage \<Rightarrow> string \<Rightarrow> bool" where
  "named_in_tops st i \<longleftrightarrow> list_ex (\<lambda>row. list_ex (\<lambda>kn. fst kn = i) (top_two (fst (fst row)) (sg_votes st))) (sg_votes st)"

definition candidate_rows :: "stage \<Rightarrow> candidate_row list" where
  "candidate_rows st =
     List.map (\<lambda>c. \<lparr>cr_year = sg_year st, cr_id = ca_id c, cr_office = ca_office c, cr_scope = ca_scope c,
         cr_elected_round = ca_elected c, cr_data = ca_data c\<rparr>)
       (filter (\<lambda>c. ca_elected c \<noteq> None \<or> named_in_tops st (ca_id c)) (List.map snd (sg_candidates st)))"

record release_metadata =
  md_year :: int
  md_status :: string
  md_updated_at :: "instant option"
  md_contests :: "(office \<times> int list) list"
  md_excluded :: "nat \<times> nat"

definition office_order :: "office list" where
  "office_order = [Councillor, FederalDeputy, Governor, Mayor, President, Senator, StateDeputy]"

definition contests :: "stage \<Rightarrow> (office \<times> int list) list" where
  "contests st =
     List.map (\<lambda>o1. (o1, sort (remdups (List.map (\<lambda>row. fst (snd (fst row))) (filter (\<lambda>row. fst (fst row) = o1) (sg_totals st))))))
       (filter (\<lambda>o1. list_ex (\<lambda>row. fst (fst row) = o1) (sg_totals st)) office_order)"

definition stage_metadata :: "stage \<Rightarrow> release_metadata" where
  "stage_metadata st =
     \<lparr>md_year = sg_year st, md_status = (if sg_year st = 2026 then ''partial'' else ''ok''), md_updated_at = sg_updated_at st,
      md_contests = contests st, md_excluded = (sg_other_election st, sg_outside_geography st)\<rparr>"

lemma office_order_sorted: "sorted_wrt (<) (List.map office_value office_order)"
  by code_simp

end
