(* ===== verification/Election_Laws.thy ===== *)
theory Election_Laws
  imports Election_Results
begin

text \<open>
  What the consolidation of \<open>app/providers/tse.py\<close> computes: a table written with additions is the sum of the
  rows written to it, however they were batched, and the sums of the states and the country are the sums of their
  municipalities.
\<close>

section \<open>Tables written by additions\<close>

text \<open>\<open>mass P t\<close>: the sum of the rows whose key satisfies \<open>P\<close>; one row a key in a table.\<close>

definition mass :: "('k \<Rightarrow> bool) \<Rightarrow> ('k \<times> int) list \<Rightarrow> int" where
  "mass P rows = sum_list (List.map snd (filter (\<lambda>r. P (fst r)) rows))"

definition keyed :: "('k \<times> 'v) list \<Rightarrow> bool" where
  "keyed t \<longleftrightarrow> distinct (List.map fst t)"

lemma mass_simps [simp]:
  "mass P [] = 0" "mass P (r # rows) = (if P (fst r) then snd r else 0) + mass P rows" "mass P (xs @ ys) = mass P xs + mass P ys"
  by (simp_all add: mass_def)

lemma mass_none: "\<forall>r \<in> set t. \<not> P (fst r) \<Longrightarrow> mass P t = 0"
  by (simp add: mass_def filter_False)

lemma mass_cong: "(\<And>r. r \<in> set t \<Longrightarrow> P (fst r) = Q (fst r)) \<Longrightarrow> mass P t = mass Q t"
  unfolding mass_def by (metis (mono_tags, lifting) filter_cong)

lemma mass_update:
  assumes "distinct (List.map fst t)" and "map_of t k = Some old"
  shows "mass P (AList.update k (old + n) t) = mass P t + (if P k then n else 0)"
  using assms
proof (induction t)
  case (Cons r t)
  then show ?case by (cases r) auto
qed simp

lemma mass_upsert: "keyed t \<Longrightarrow> mass P (upsert_entry plus_votes kv t) = mass P t + (if P (fst kv) then snd kv else 0)"
  by (auto simp: upsert_entry_def plus_votes_def keyed_def mass_update split: option.splits)

lemma keyed_upsert: "keyed t \<Longrightarrow> keyed (upsert_entry f kv t)"
  by (cases kv) (auto simp: keyed_def upsert_entry_def distinct_update map_of_eq_None_iff split: option.splits)

lemma keyed_upserts: "keyed t \<Longrightarrow> keyed (fold (upsert_entry f) rows t)"
  by (induction rows arbitrary: t) (auto intro: keyed_upsert)

lemma mass_upserts: "keyed t \<Longrightarrow> mass P (fold (upsert_entry plus_votes) rows t) = mass P t + mass P rows"
  by (induction rows arbitrary: t) (auto simp: mass_upsert keyed_upsert)

lemma keys_upserts: "fst ` set (fold (upsert_entry f) rows t) \<subseteq> fst ` set t \<union> fst ` set rows"
proof (induction rows arbitrary: t)
  case (Cons kv rows)
  have "fst ` set (upsert_entry f kv t) \<subseteq> insert (fst kv) (fst ` set t)"
    by (auto simp: upsert_entry_def dom_update split: option.splits)
  moreover have "fst ` set (fold (upsert_entry f) (kv # rows) t) \<subseteq> fst ` set (upsert_entry f kv t) \<union> fst ` set rows"
    using Cons.IH [of "upsert_entry f kv t"] by simp
  ultimately show ?case by (simp only: list.set image_insert) blast
qed simp

lemma mass_entry: "keyed t \<Longrightarrow> mass (\<lambda>q. q = k) t = (case map_of t k of None \<Rightarrow> 0 | Some n \<Rightarrow> n)"
proof (induction t)
  case (Cons r t)
  have "fst r = k \<Longrightarrow> mass (\<lambda>q. q = k) t = 0"
    using Cons.prems by (intro mass_none) (auto simp: keyed_def image_iff)
  then show ?case using Cons by (auto simp: keyed_def)
qed simp

section \<open>Loading the votes\<close>

text \<open>What the place of a row depends on does not change while rows are loaded.\<close>

definition same_frame :: "stage \<Rightarrow> stage \<Rightarrow> bool" where
  "same_frame a b \<longleftrightarrow> sg_year a = sg_year b \<and> sg_crosswalk a = sg_crosswalk b \<and> sg_territories a = sg_territories b"

lemma same_frame_refl [simp]: "same_frame a a"
  by (simp add: same_frame_def)

lemma same_frame_trans: "same_frame a b \<Longrightarrow> same_frame b c \<Longrightarrow> same_frame a c"
  by (simp add: same_frame_def)

definition place_of :: "(string \<Rightarrow> instant option) \<Rightarrow> stage \<Rightarrow> csv_row \<Rightarrow> place option" where
  "place_of parse_stamp st row = (case dimensions parse_stamp row st of Inr (p, _) \<Rightarrow> p | Inl _ \<Rightarrow> None)"

lemma dimensions_parts:
  assumes "dimensions parse_stamp row st = Inr (p, st1)"
  shows "same_frame st st1" and "sg_votes st1 = sg_votes st" and "sg_parties st1 = sg_parties st" and "sg_totals st1 = sg_totals st"
    and "sg_candidates st1 = sg_candidates st"
  using assms by (auto simp: dimensions_def Let_def and_then_Inr same_frame_def split: if_splits option.splits)

lemma dimensions_code:
  assumes "dimensions parse_stamp row st = Inr (Some (office, election_round, code), st1)"
  shows "code \<in> ran (sg_crosswalk st) \<and> code \<in> set (sg_territories st)"
  using assms
  by (auto simp: dimensions_def Let_def and_then_Inr municipality_code_def ran_def split: if_splits option.splits)

lemma municipality_code_frame:
  "municipality_code (st\<lparr>sg_processed := n\<rparr>) row = municipality_code st row"
  "same_frame st st' \<Longrightarrow> municipality_code st' row = municipality_code st row"
  by (simp_all add: municipality_code_def same_frame_def cong: option.case_cong)

lemma dimensions_frame:
  assumes "same_frame st st'" and "dimensions parse_stamp row st = Inr (p, st1)"
  shows "\<exists>st2. dimensions parse_stamp row st' = Inr (p, st2)"
proof -
  have year: "sg_year st' = sg_year st" using assms(1) by (simp add: same_frame_def)
  note m = municipality_code_frame(1) municipality_code_frame(2) [OF assms(1)]
  obtain other where o1: "is_other_election (sg_year st) row = Inr other"
    using assms(2) by (cases "is_other_election (sg_year st) row") (simp_all add: dimensions_def Let_def)
  show ?thesis
  proof (cases other)
    case True
    then show ?thesis using assms(2) o1 year by (simp add: dimensions_def Let_def)
  next
    case False
    then obtain uf where uf: "column row ''SG_UF'' = Inr uf"
      using assms(2) o1 by (cases "column row ''SG_UF''") (simp_all add: dimensions_def Let_def)
    show ?thesis
    proof (cases "uf = ''ZZ'' \<or> uf = ''VT''")
      case True
      then show ?thesis using assms(2) o1 uf False year by (simp add: dimensions_def Let_def)
    next
      case abroad: False
      obtain cargo where cargo: "int_column row ''CD_CARGO'' = Inr cargo"
        using assms(2) o1 uf False abroad by (cases "int_column row ''CD_CARGO''") (simp_all add: dimensions_def Let_def)
      then show ?thesis
        using assms(2) o1 uf False abroad year
        by (cases "municipality_code st row"; cases "generated_at parse_stamp row"; cases "int_column row ''NR_TURNO''")
          (auto simp: dimensions_def Let_def m split: option.splits)
    qed
  qed
qed

text \<open>The votes of a row for a candidate.\<close>

definition row_votes :: "(string \<Rightarrow> instant option) \<Rightarrow> stage \<Rightarrow> csv_row \<Rightarrow> ((place \<times> string) \<times> int) option" where
  "row_votes parse_stamp st row =
     (case (place_of parse_stamp st row, map_of row ''SQ_CANDIDATO'', map_of row ''QT_VOTOS_NOMINAIS_VALIDOS'') of
        (Some p, Some i, Some text) \<Rightarrow>
          (case (number_text i, number_text text) of (Some _, Some n) \<Rightarrow> if n > 0 then Some ((p, i), n) else None | _ \<Rightarrow> None)
      | _ \<Rightarrow> None)"

lemma column_Inr: "column row k = Inr x \<longleftrightarrow> map_of row k = Some x"
  by (auto simp: column_def from_option_def split: option.splits)

lemma buffer_candidate_votes:
  assumes "buffer_candidate p row buf = Inr buf1" and "place_of parse_stamp st row = Some p"
  shows "bf_votes buf1 = bf_votes buf @ (case row_votes parse_stamp st row of None \<Rightarrow> [] | Some r \<Rightarrow> [r])"
proof -
  obtain office election_round code where p: "p = (office, election_round, code)" by (cases p)
  obtain i where i: "map_of row ''SQ_CANDIDATO'' = Some i"
    using assms(1) by (auto simp: buffer_candidate_def p and_then_Inr column_Inr)
  show ?thesis
  proof (cases "number_text i")
    case None
    then show ?thesis using assms i
      by (auto simp: buffer_candidate_def p and_then_Inr column_Inr row_votes_def split: option.splits)
  next
    case (Some n)
    obtain data shown where data: "read_candidate i row = Inr data" and shown: "map_of row ''QT_VOTOS_NOMINAIS_VALIDOS'' = Some shown"
      using assms(1) i Some by (auto simp: buffer_candidate_def p and_then_Inr column_Inr Let_def)
    show ?thesis using assms i Some data shown
      by (cases "number_text shown") (auto simp: buffer_candidate_def p and_then_Inr column_Inr row_votes_def Let_def)
  qed
qed

lemma write_buffer_votes:
  "sg_votes (write_buffer CandidateVotes buf st) = fold (upsert_entry plus_votes) (bf_votes buf) (sg_votes st)"
  "same_frame st (write_buffer family buf st)"
  "family \<noteq> CandidateVotes \<Longrightarrow> sg_votes (write_buffer family buf st) = sg_votes st"
  by (auto simp: write_buffer_def save_candidates_def same_frame_def split: family.split)

definition code_of :: "place \<times> string \<Rightarrow> string" where "code_of k = snd (snd (fst k))"

lemma row_votes_key:
  assumes "row_votes parse_stamp st row = Some r"
  shows "code_of (fst r) \<in> ran (sg_crosswalk st)"
proof -
  obtain p where "place_of parse_stamp st row = Some p" "fst (fst r) = p"
    using assms by (auto simp: row_votes_def split: option.splits if_splits)
  then obtain st1 where "dimensions parse_stamp row st = Inr (Some (fst (fst r)), st1)"
    by (auto simp: place_of_def split: sum.splits prod.splits)
  then show ?thesis using dimensions_code by (cases "fst (fst r)") (fastforce simp: code_of_def)
qed

text \<open>The votes of the stage and of its buffer together, while rows are loaded.\<close>

definition loaded :: "stage \<Rightarrow> ((place \<times> string) \<times> int) list \<Rightarrow> load_buffer \<times> stage \<Rightarrow> bool" where
  "loaded st0 rows acc \<longleftrightarrow> same_frame st0 (snd acc) \<and> keyed (sg_votes (snd acc)) \<and>
     (\<forall>P. mass P (sg_votes (snd acc)) + mass P (bf_votes (fst acc)) = mass P (sg_votes st0) + mass P rows) \<and>
     fst ` set (sg_votes (snd acc)) \<union> fst ` set (bf_votes (fst acc)) \<subseteq> fst ` set (sg_votes st0) \<union> fst ` set rows"

lemma loaded_write:
  assumes "loaded st0 rows (buf, st)"
  shows "loaded st0 rows (no_buffer, write_buffer CandidateVotes buf st)"
proof -
  let ?t = "fold (upsert_entry plus_votes) (bf_votes buf) (sg_votes st)"
  have a: "same_frame st0 st" "keyed (sg_votes st)"
    "\<And>P. mass P (sg_votes st) + mass P (bf_votes buf) = mass P (sg_votes st0) + mass P rows"
    "fst ` set (sg_votes st) \<union> fst ` set (bf_votes buf) \<subseteq> fst ` set (sg_votes st0) \<union> fst ` set rows"
    using assms by (simp_all add: loaded_def)
  have "same_frame st0 (write_buffer CandidateVotes buf st)"
    using a(1) write_buffer_votes(2) by (rule same_frame_trans)
  moreover have "keyed ?t" using a(2) by (rule keyed_upserts)
  moreover have "mass P ?t = mass P (sg_votes st0) + mass P rows" for P
    using mass_upserts [OF a(2)] a(3) by simp
  moreover have "fst ` set ?t \<subseteq> fst ` set (sg_votes st0) \<union> fst ` set rows"
    using keys_upserts [of plus_votes "bf_votes buf" "sg_votes st"] a(4) by blast
  ultimately show ?thesis by (simp add: loaded_def write_buffer_votes(1) no_buffer_def)
qed

lemma load_row_votes:
  assumes "loaded st0 rows acc" and "load_row parse_stamp batch CandidateVotes acc row = Inr acc1"
  shows "loaded st0 (rows @ List.map_filter (row_votes parse_stamp st0) [row]) acc1"
proof -
  obtain buf st where acc: "acc = (buf, st)" by (cases acc)
  obtain p st2 where d: "dimensions parse_stamp row st = Inr (p, st2)"
    using assms(2) by (auto simp: acc load_row_def and_then_Inr)
  have st: "same_frame st0 st" using assms(1) by (simp add: loaded_def acc)
  have st2: "same_frame st0 st2" using st dimensions_parts(1) [OF d] by (rule same_frame_trans)
  have place: "place_of parse_stamp st0 row = p"
    using dimensions_frame [OF _ d, of st0] st by (auto simp: place_of_def same_frame_def)
  show ?thesis
  proof (cases p)
    case None
    then have "row_votes parse_stamp st0 row = None" using place by (simp add: row_votes_def)
    moreover have "acc1 = (buf, st2)" using assms(2) d None by (simp add: acc load_row_def)
    ultimately show ?thesis
      using assms(1) st2 dimensions_parts(2) [OF d] by (simp add: loaded_def acc map_filter_simps)
  next
    case (Some q)
    obtain buf2 where b: "buffer_candidate q row buf = Inr buf2"
      and out: "acc1 = (if batch \<le> length (bf_totals buf2) + length (bf_votes buf2)
        then (no_buffer, write_buffer CandidateVotes buf2 st2) else (buf2, st2))"
      using assms(2) d Some by (auto simp: acc load_row_def and_then_Inr buffer_row_def split: if_splits)
    have votes: "bf_votes buf2 = bf_votes buf @ List.map_filter (row_votes parse_stamp st0) [row]"
      using buffer_candidate_votes [OF b, of parse_stamp st0] place Some by (simp add: map_filter_simps split: option.splits)
    have "loaded st0 (rows @ List.map_filter (row_votes parse_stamp st0) [row]) (buf2, st2)"
      using assms(1) st2 dimensions_parts(2) [OF d] votes by (auto simp: loaded_def acc)
    then show ?thesis using out loaded_write by (auto split: if_splits)
  qed
qed

lemma load_rows_votes_from:
  assumes "loaded st0 rows acc" and "fold_each (load_row parse_stamp batch CandidateVotes) acc csv = Inr acc1"
  shows "loaded st0 (rows @ List.map_filter (row_votes parse_stamp st0) csv) acc1"
  using assms
proof (induction csv arbitrary: rows acc)
  case (Cons row csv)
  then obtain acc2 where "load_row parse_stamp batch CandidateVotes acc row = Inr acc2"
    and "fold_each (load_row parse_stamp batch CandidateVotes) acc2 csv = Inr acc1"
    by (auto simp: and_then_Inr)
  then have "loaded st0 ((rows @ List.map_filter (row_votes parse_stamp st0) [row]) @ List.map_filter (row_votes parse_stamp st0) csv) acc1"
    using Cons.IH load_row_votes [OF Cons.prems(1)] by blast
  moreover have "List.map_filter (row_votes parse_stamp st0) (row # csv) =
      List.map_filter (row_votes parse_stamp st0) [row] @ List.map_filter (row_votes parse_stamp st0) csv"
    by (simp add: map_filter_simps split: option.splits)
  ultimately show ?case by simp
qed (simp add: map_filter_simps)

text \<open>However the rows are batched, the votes are the sums of the rows.\<close>

lemma load_rows_votes:
  assumes "keyed (sg_votes st)" and "load_rows parse_stamp batch CandidateVotes csv st = Inr st1"
  shows "loaded st (List.map_filter (row_votes parse_stamp st) csv) (no_buffer, st1)"
proof -
  obtain buf st2 where "fold_each (load_row parse_stamp batch CandidateVotes) (no_buffer, st) csv = Inr (buf, st2)"
    and st1: "st1 = write_buffer CandidateVotes buf st2"
    using assms(2) by (auto simp: load_rows_def and_then_Inr)
  moreover have "loaded st [] (no_buffer, st)" using assms(1) by (simp add: loaded_def no_buffer_def)
  ultimately have "loaded st (List.map_filter (row_votes parse_stamp st) csv) (buf, st2)"
    using load_rows_votes_from by fastforce
  then show ?thesis unfolding st1 by (rule loaded_write)
qed

lemma load_rows_other:
  assumes "family \<noteq> CandidateVotes" and "load_rows parse_stamp batch family csv st = Inr st1"
  shows "same_frame st st1 \<and> sg_votes st1 = sg_votes st"
proof -
  have step: "same_frame st (snd acc1) \<and> sg_votes (snd acc1) = sg_votes st"
    if before: "same_frame st (snd acc) \<and> sg_votes (snd acc) = sg_votes st" and run: "load_row parse_stamp batch family acc row = Inr acc1" for acc acc1 row
  proof -
    obtain p st2 where d: "dimensions parse_stamp row (snd acc) = Inr (p, st2)"
      using run by (auto simp: load_row_def and_then_Inr)
    then have "same_frame st st2 \<and> sg_votes st2 = sg_votes st"
      using before dimensions_parts [OF d] same_frame_trans by metis
    then show ?thesis
      using run d write_buffer_votes(2) [of st2 family] write_buffer_votes(3) [OF assms(1)] same_frame_trans
      by (auto simp: load_row_def and_then_Inr split: option.splits if_splits)
  qed
  have all: "same_frame st (snd acc1) \<and> sg_votes (snd acc1) = sg_votes st"
    if "same_frame st (snd acc) \<and> sg_votes (snd acc) = sg_votes st" "fold_each (load_row parse_stamp batch family) acc csv = Inr acc1"
    for acc acc1
    using that
  proof (induction csv arbitrary: acc)
    case (Cons row csv)
    obtain acc2 where "load_row parse_stamp batch family acc row = Inr acc2"
      and "fold_each (load_row parse_stamp batch family) acc2 csv = Inr acc1"
      using Cons.prems(2) by (auto simp: and_then_Inr)
    then show ?case using Cons.IH step [OF Cons.prems(1)] by blast
  qed simp
  obtain buf st2 where f: "fold_each (load_row parse_stamp batch family) (no_buffer, st) csv = Inr (buf, st2)"
    and st1: "st1 = write_buffer family buf st2"
    using assms(2) by (auto simp: load_rows_def and_then_Inr)
  have "same_frame st st2 \<and> sg_votes st2 = sg_votes st" using all [OF _ f] by simp
  then show ?thesis
    unfolding st1 using same_frame_trans [OF _ write_buffer_votes(2)] write_buffer_votes(3) [OF assms(1)] by simp
qed

section \<open>The sums\<close>

definition regroup :: "('k \<Rightarrow> 'g option) \<Rightarrow> ('k \<times> 'v) list \<Rightarrow> ('g \<times> 'v) list" where
  "regroup g t = List.map_filter (\<lambda>(k, v). map_option (\<lambda>q. (q, v)) (g k)) t"

lemma group_rows_upserts: "group_rows add g t = fold (upsert_entry add) (regroup g t) []"
proof -
  have "fold (\<lambda>(k, v) acc. case g k of None \<Rightarrow> acc | Some q \<Rightarrow> upsert_entry add (q, v) acc) t acc =
      fold (upsert_entry add) (regroup g t) acc" for acc
    by (induction t arbitrary: acc) (auto simp: regroup_def map_filter_simps split: option.splits)
  then show ?thesis by (simp add: group_rows_def)
qed

lemma keyed_Nil [simp]: "keyed []"
  by (simp add: keyed_def)

lemma group_rows_keyed: "keyed (group_rows add g t)"
  unfolding group_rows_upserts by (rule keyed_upserts) simp

text \<open>The mass of the groups is that of the rows that go to them.\<close>

definition goes_to :: "('k \<Rightarrow> 'g option) \<Rightarrow> ('g \<Rightarrow> bool) \<Rightarrow> 'k \<Rightarrow> bool" where
  "goes_to g P k \<longleftrightarrow> (case g k of None \<Rightarrow> False | Some q \<Rightarrow> P q)"

lemma mass_regroup: "mass P (regroup g t) = mass (goes_to g P) t"
  by (induction t) (auto simp: regroup_def map_filter_simps goes_to_def split: option.splits)

lemma group_rows_mass: "mass P (group_rows plus_votes g t) = mass (goes_to g P) t"
  by (simp add: group_rows_upserts mass_upserts mass_regroup)

lemma regroup_key: "(q, v) \<in> set (regroup g t) \<Longrightarrow> \<exists>k \<in> fst ` set t. g k = Some q"
  by (induction t) (auto simp: regroup_def map_filter_simps split: option.splits)

lemma group_rows_keys: "q \<in> fst ` set (group_rows add g t) \<Longrightarrow> \<exists>k \<in> fst ` set t. g k = Some q"
proof -
  assume "q \<in> fst ` set (group_rows add g t)"
  then have "q \<in> fst ` set (regroup g t)"
    using keys_upserts [of add "regroup g t" "[]"] unfolding group_rows_upserts by auto
  then show ?thesis using regroup_key [of q _ g t] by fastforce
qed

lemma insert_entries_Inr: "insert_entries rows t = Inr t' \<longleftrightarrow> keyed (t @ rows) \<and> t' = t @ rows"
  by (auto simp: insert_entries_def keyed_def)

text \<open>The sums of a table of municipalities.\<close>

lemma with_sums_mass:
  assumes "with_sums plus_votes to_state to_country t = Inr t1"
    and "\<And>k. k \<in> fst ` set (group_rows plus_votes to_state t) \<Longrightarrow> to_country k = None"
  shows "keyed t1 \<and> mass P t1 = mass P t + mass (goes_to to_state P) t + mass (goes_to to_country P) t"
proof -
  let ?s = "group_rows plus_votes to_state t" and ?c = "group_rows plus_votes to_country (t @ group_rows plus_votes to_state t)"
  have k: "keyed t1" and t1: "t1 = (t @ ?s) @ ?c" using assms(1) by (auto simp: with_sums_def and_then_Inr insert_entries_Inr)
  have "mass (goes_to to_country P) ?s = 0"
    by (rule mass_none) (use assms(2) in \<open>force simp: goes_to_def\<close>)
  then have "mass P t1 = mass P t + mass (goes_to to_state P) t + mass (goes_to to_country P) t"
    by (simp add: t1 group_rows_mass)
  then show ?thesis using k by blast
qed

section \<open>Votes add up\<close>

lemma place_of_frame: "same_frame st st' \<Longrightarrow> place_of parse_stamp st' row = place_of parse_stamp st row"
proof -
  assume f: "same_frame st st'"
  then have b: "same_frame st' st" by (simp add: same_frame_def)
  show ?thesis
    using dimensions_frame [OF f, of parse_stamp row] dimensions_frame [OF b, of parse_stamp row]
    by (cases "dimensions parse_stamp row st"; cases "dimensions parse_stamp row st'") (fastforce simp: place_of_def)+
qed

lemma row_votes_frame: "same_frame st st' \<Longrightarrow> row_votes parse_stamp st' = row_votes parse_stamp st"
  by (rule ext) (simp add: row_votes_def place_of_frame)

lemma same_frame_sym: "same_frame a b \<Longrightarrow> same_frame b a"
  by (simp add: same_frame_def)

text \<open>The rows of the candidates' file, and the table they leave when no live document is read.\<close>

lemma load_families_votes:
  assumes "keyed (sg_votes st)" and "load_families parse_stamp rows st = Inr st1"
  shows "loaded st (List.map_filter (row_votes parse_stamp st) (rows CandidateVotes)) (no_buffer, st1)"
proof -
  obtain a b where a: "load_rows parse_stamp BATCH_ROWS Details (rows Details) st = Inr a"
    and b: "load_rows parse_stamp BATCH_ROWS PartyVotes (rows PartyVotes) a = Inr b"
    and c: "load_rows parse_stamp BATCH_ROWS CandidateVotes (rows CandidateVotes) b = Inr st1"
    using assms(2) by (auto simp: load_families_def and_then_Inr)
  have ab: "same_frame st b" "sg_votes b = sg_votes st"
    using load_rows_other [OF _ a] load_rows_other [OF _ b] same_frame_trans by auto
  have "loaded b (List.map_filter (row_votes parse_stamp b) (rows CandidateVotes)) (no_buffer, st1)"
    using load_rows_votes [OF _ c] assms(1) ab(2) by simp
  then show ?thesis using ab same_frame_trans [OF ab(1)] by (simp add: loaded_def row_votes_frame [OF ab(1)])
qed

lemma read_crosswalk_votes: "read_crosswalk rows st = Inr st1 \<Longrightarrow> sg_votes st1 = sg_votes st"
proof (induction rows arbitrary: st)
  case (Cons row rows)
  then show ?case by (fastforce simp: read_crosswalk_def and_then_Inr)
qed (simp add: read_crosswalk_def)

text \<open>The votes for a candidate in the places whose code satisfies \<open>Q\<close>.\<close>

definition votes_where :: "(string \<Rightarrow> bool) \<Rightarrow> office \<Rightarrow> int \<Rightarrow> string \<Rightarrow> vote_table \<Rightarrow> int" where
  "votes_where Q office election_round i rows =
     sum_list (List.map snd (filter (\<lambda>(k, n). fst (fst k) = office \<and> fst (snd (fst k)) = election_round \<and> snd k = i \<and> Q (code_of k)) rows))"

lemma votes_where_mass:
  "votes_where Q office election_round i rows =
     mass (\<lambda>k. fst (fst k) = office \<and> fst (snd (fst k)) = election_round \<and> snd k = i \<and> Q (code_of k)) rows"
  by (simp add: votes_where_def mass_def case_prod_unfold)

definition voted :: "vote_table \<Rightarrow> place \<times> string \<Rightarrow> int" where
  "voted t k = (case map_of t k of None \<Rightarrow> 0 | Some n \<Rightarrow> n)"

lemma election_sums:
  assumes "ingest_election parse_stamp files (new_stage year codes) = Inr st" and "ef_live files = None"
    and "read_crosswalk (ef_mapping files) (new_stage year codes) = Inr st0"
    and "\<forall>c \<in> ran (sg_crosswalk st0). length c = 7"
    and "votes = List.map_filter (row_votes parse_stamp st0) (ef_rows files CandidateVotes)"
  shows "voted (sg_votes st) k = mass (\<lambda>q. q = k) votes +
      mass (goes_to (sum_place (\<lambda>o1. o1 \<notin> set MUNICIPAL_OFFICES) state_place) (\<lambda>q. q = k)) votes +
      mass (goes_to (sum_place (\<lambda>o1. o1 = President) country_place) (\<lambda>q. q = k)) votes"
    and "\<forall>r \<in> set votes. length (code_of (fst r)) = 7"
proof -
  let ?s = "sum_place (\<lambda>o1. o1 \<notin> set MUNICIPAL_OFFICES) state_place" and ?c = "sum_place (\<lambda>o1. o1 = President) country_place"
  have none: "sg_votes st0 = []" using read_crosswalk_votes [OF assms(3)] by (simp add: new_stage_def)
  obtain st1 where load: "load_families parse_stamp (ef_rows files) st0 = Inr st1" and agg: "aggregate st1 = Inr st"
    using assms(1,2,3) by (auto simp: ingest_election_def and_then_Inr)
  have l: "loaded st0 votes (no_buffer, st1)"
    using load_families_votes [OF _ load] none assms(5) by (simp add: keyed_def)
  then have m: "mass P (sg_votes st1) = mass P votes" for P by (simp add: loaded_def none no_buffer_def)
  have w: "with_sums plus_votes ?s ?c (sg_votes st1) = Inr (sg_votes st)"
    using agg by (auto simp: aggregate_def and_then_Inr)
  have short: "?c k = None" if key: "k \<in> fst ` set (group_rows plus_votes ?s (sg_votes st1))" for k
  proof -
    obtain q where q: "?s q = Some k" using group_rows_keys [OF key] by blast
    obtain a b c j where "q = ((a, b, c), j)" by (metis surj_pair)
    then have "length (code_of k) = 2"
      using q by (auto simp: sum_place_def state_place_def code_of_def split: if_splits)
    then show ?thesis by (auto simp: sum_place_def country_place_def code_of_def split: prod.splits)
  qed
  note sums = with_sums_mass [OF w short]
  have "voted (sg_votes st) k = mass (\<lambda>q. q = k) (sg_votes st)"
    using sums mass_entry [of "sg_votes st" k] by (simp only: voted_def)
  then show "voted (sg_votes st) k = mass (\<lambda>q. q = k) votes + mass (goes_to ?s (\<lambda>q. q = k)) votes + mass (goes_to ?c (\<lambda>q. q = k)) votes"
    using sums m by simp
  show "\<forall>r \<in> set votes. length (code_of (fst r)) = 7"
    using assms(4,5) row_votes_key by (fastforce simp: map_filter_def)
qed

lemma goes_to_sum:
  "goes_to (sum_place wanted to) (\<lambda>q. q = (p, i)) k \<longleftrightarrow> wanted (fst (fst k)) \<and> snd k = i \<and> to (fst k) = Some p"
  by (auto simp: goes_to_def sum_place_def split: option.splits)


section \<open>A run\<close>

definition vote_row0 :: "string \<Rightarrow> string \<Rightarrow> csv_row" where
  "vote_row0 tse votes =
     [(''ANO_ELEICAO'', ''2022''), (''CD_TIPO_ELEICAO'', ''2''), (''SG_UF'', ''SP''), (''CD_CARGO'', ''1''), (''CD_MUNICIPIO'', tse),
      (''DT_GERACAO'', ''d''), (''HH_GERACAO'', ''h''), (''NR_TURNO'', ''1''), (''SQ_CANDIDATO'', ''9''), (''DS_SIT_TOT_TURNO'', ''ELEITO''),
      (''NM_URNA_CANDIDATO'', ''A''), (''NR_CANDIDATO'', ''10''), (''SG_PARTIDO'', ''P''), (''NR_PARTIDO'', ''10''),
      (''QT_VOTOS_NOMINAIS_VALIDOS'', votes)]"

text \<open>Two municipalities of a state, the first with votes of two zones.\<close>

definition files0 :: election_files where
  "files0 = \<lparr>ef_mapping = [[(''CD_MUNICIPIO_TSE'', ''01''), (''CD_MUNICIPIO_IBGE'', ''3550308'')],
       [(''CD_MUNICIPIO_TSE'', ''2''), (''CD_MUNICIPIO_IBGE'', ''3509502'')]],
     ef_rows = (\<lambda>f. case f of CandidateVotes \<Rightarrow> [vote_row0 ''1'' ''70'', vote_row0 ''1'' ''80'', vote_row0 ''2'' ''5''] | _ \<Rightarrow> []),
     ef_live = None\<rparr>"

definition stamp0 :: "string \<Rightarrow> instant option" where "stamp0 s = Some 0"

text \<open>Fewer rows than a batch are written at the end, whatever the batch.\<close>

definition waiting :: "load_buffer \<Rightarrow> nat" where
  "waiting buf = length (bf_totals buf) + length (bf_votes buf)"

lemma waiting_buffer_row: "buffer_row family p row buf = Inr buf1 \<Longrightarrow> waiting buf1 \<le> waiting buf + 1"
  by (cases family)
    (auto simp: buffer_row_def buffer_candidate_def and_then_Inr waiting_def Let_def split: option.splits if_splits prod.splits)

lemma load_row_small:
  assumes "waiting (fst acc) + 1 < b"
  shows "load_row parse_stamp b family acc row =
    and_then (dimensions parse_stamp row (snd acc)) (\<lambda>(p, st1).
      case p of None \<Rightarrow> Inr (fst acc, st1) | Some p \<Rightarrow> and_then (buffer_row family p row (fst acc)) (\<lambda>buf. Inr (buf, st1)))"
    and "load_row parse_stamp b family acc row = Inr acc1 \<Longrightarrow> waiting (fst acc1) \<le> waiting (fst acc) + 1"
proof -
  have small: "\<not> b \<le> waiting buf" if "buffer_row family p row (fst acc) = Inr buf" for p buf
    using waiting_buffer_row [OF that] assms by simp
  show eq: "load_row parse_stamp b family acc row =
    and_then (dimensions parse_stamp row (snd acc)) (\<lambda>(p, st1).
      case p of None \<Rightarrow> Inr (fst acc, st1) | Some p \<Rightarrow> and_then (buffer_row family p row (fst acc)) (\<lambda>buf. Inr (buf, st1)))"
  proof (cases "dimensions parse_stamp row (snd acc)")
    case (Inr r)
    obtain p st1 where r: "r = (p, st1)" by force
    show ?thesis
    proof (cases p)
      case (Some q)
      then show ?thesis
        using small [of q] by (cases "buffer_row family q row (fst acc)") (simp_all add: load_row_def Inr r waiting_def)
    qed (simp add: load_row_def Inr r)
  qed (simp add: load_row_def)
  show "load_row parse_stamp b family acc row = Inr acc1 \<Longrightarrow> waiting (fst acc1) \<le> waiting (fst acc) + 1"
    unfolding eq by (auto simp: and_then_Inr split: option.splits dest!: waiting_buffer_row)
qed

lemma load_rows_small:
  assumes "length csv + 1 < b" and "length csv + 1 < b'"
  shows "load_rows parse_stamp b family csv st = load_rows parse_stamp b' family csv st"
proof -
  have "waiting (fst acc) + length csv + 1 < b \<Longrightarrow> waiting (fst acc) + length csv + 1 < b' \<Longrightarrow>
      fold_each (load_row parse_stamp b family) acc csv = fold_each (load_row parse_stamp b' family) acc csv" for acc
  proof (induction csv arbitrary: acc)
    case (Cons row csv)
    have same: "load_row parse_stamp b family acc row = load_row parse_stamp b' family acc row"
      using Cons.prems by (simp add: load_row_small(1))
    show ?case
    proof (cases "load_row parse_stamp b family acc row")
      case (Inr acc1)
      then have "waiting (fst acc1) \<le> waiting (fst acc) + 1"
        using load_row_small(2) [of acc b, OF _ Inr] Cons.prems(1) by simp
      then show ?thesis using Cons.IH [of acc1] Cons.prems by (simp add: Inr same [symmetric])
    qed (use same in simp)
  qed simp
  then show ?thesis using assms by (simp add: load_rows_def waiting_def no_buffer_def)
qed

lemma ingest_small:
  assumes "\<And>family. length (ef_rows files family) + 1 < b" and "b \<le> 20000" and "ef_live files = None"
  shows "ingest_election parse_stamp files st =
    and_then (read_crosswalk (ef_mapping files) st) (\<lambda>st1.
    and_then (fold_each (\<lambda>s family. load_rows parse_stamp b family (ef_rows files family) s) st1 [Details, PartyVotes, CandidateVotes])
      aggregate)"
proof -
  have "load_rows parse_stamp BATCH_ROWS family (ef_rows files family) s = load_rows parse_stamp b family (ef_rows files family) s" for family s
    using assms(1) [of family] assms(2) by (intro load_rows_small) (auto simp: BATCH_ROWS_def)
  then show ?thesis by (simp add: ingest_election_def load_families_def assms(3))
qed

lemma run0_votes:
  "case ingest_election stamp0 files0 (new_stage 2022 [''3550308'', ''3509502'']) of Inl _ \<Rightarrow> False
   | Inr st \<Rightarrow> voted (sg_votes st) ((President, 1, ''35''), ''9'') = 155"
proof -
  have "length (ef_rows files0 family) + 1 < 10" for family by (cases family) (simp_all add: files0_def)
  then have eq: "ingest_election stamp0 files0 st = and_then (read_crosswalk (ef_mapping files0) st) (\<lambda>st1.
    and_then (fold_each (\<lambda>s family. load_rows stamp0 10 family (ef_rows files0 family) s) st1 [Details, PartyVotes, CandidateVotes])
      aggregate)" for st
    by (rule ingest_small) (simp_all add: files0_def)
  show ?thesis unfolding eq by code_simp
qed


end
