(* ===== verification/Political.thy ===== *)
theory Political
  imports Election_Results Jobs Territories
begin

text \<open>
  The published elections: the tables of \<open>app/models/political.py\<close>, their publication by
  \<open>app/jobs/import_elections.py\<close>, the queries of \<open>app/repositories/political.py\<close> and the service
  \<open>app/services/political.py\<close> with the responses of \<open>app/schemas/political.py\<close>. The notes of a release are texts
  for people and are left out; percentages are exact fractions.
\<close>

section \<open>Tables\<close>

record release =
  rl_year :: int
  rl_run_id :: int
  rl_metadata :: release_metadata

record political_db =
  pd_releases :: "release list"
  pd_candidates :: "candidate_row list"
  pd_results :: "result_row list"

definition same_release :: "release \<Rightarrow> release \<Rightarrow> bool" where
  "same_release a b \<longleftrightarrow> rl_year a = rl_year b"

definition merge_release :: "release \<Rightarrow> release \<Rightarrow> release" where
  "merge_release r x = x\<lparr>rl_run_id := rl_run_id r, rl_metadata := rl_metadata r\<rparr>"

definition candidate_key :: "candidate_row \<Rightarrow> int \<times> string" where
  "candidate_key c = (cr_year c, cr_id c)"

definition same_candidate :: "candidate_row \<Rightarrow> candidate_row \<Rightarrow> bool" where
  "same_candidate a b \<longleftrightarrow> candidate_key a = candidate_key b"

definition merge_candidate_row :: "candidate_row \<Rightarrow> candidate_row \<Rightarrow> candidate_row" where
  "merge_candidate_row r x =
     (if cr_office x \<noteq> cr_office r \<or> cr_scope x \<noteq> cr_scope r \<or> cr_elected_round x \<noteq> cr_elected_round r \<or> cr_data x \<noteq> cr_data r
      then x\<lparr>cr_office := cr_office r, cr_scope := cr_scope r, cr_elected_round := cr_elected_round r, cr_data := cr_data r\<rparr> else x)"

definition result_key :: "result_row \<Rightarrow> int \<times> office \<times> int \<times> string" where
  "result_key r = (rr_year r, rr_office r, rr_round r, rr_code r)"

definition same_result :: "result_row \<Rightarrow> result_row \<Rightarrow> bool" where
  "same_result a b \<longleftrightarrow> result_key a = result_key b"

definition merge_result_row :: "result_row \<Rightarrow> result_row \<Rightarrow> result_row" where
  "merge_result_row r x = (if rr_data x \<noteq> rr_data r then x\<lparr>rr_data := rr_data r\<rparr> else x)"

text \<open>Column sizes and the foreign key of a result's territory.\<close>

definition candidate_fits :: "candidate_row \<Rightarrow> bool" where
  "candidate_fits c \<longleftrightarrow> length (cr_id c) \<le> 24 \<and> length (cr_scope c) \<le> 9"

definition result_fits :: "db \<Rightarrow> result_row \<Rightarrow> bool" where
  "result_fits d r \<longleftrightarrow> length (rr_code r) \<le> 9 \<and> list_ex (\<lambda>t. t_ibge_code t = rr_code r) (territories d)"

section \<open>Publication\<close>

text \<open>One statement of at most a thousand rows, which may not meet a row twice.\<close>

definition upsert_rows ::
    "('r \<Rightarrow> 'r \<Rightarrow> bool) \<Rightarrow> ('r \<Rightarrow> 'r \<Rightarrow> 'r) \<Rightarrow> ('r \<Rightarrow> bool) \<Rightarrow> 'r list \<Rightarrow> 'r list \<Rightarrow> raised + 'r list" where
  "upsert_rows same merge fits t rows =
     (if no_conflicts same rows \<and> list_all fits rows then Inr (fold (insert_or_update same merge) rows t) else Inl RaisedOther)"

definition CHUNK_ROWS :: nat where "CHUNK_ROWS = 1000"

definition publish_candidates :: "stage \<Rightarrow> candidate_row list \<Rightarrow> raised + candidate_row list" where
  "publish_candidates st t =
     fold_each (upsert_rows same_candidate merge_candidate_row candidate_fits) t (batches CHUNK_ROWS (candidate_rows st))"

definition publish_results :: "db \<Rightarrow> stage \<Rightarrow> result_row list \<Rightarrow> raised + result_row list" where
  "publish_results d st t =
     fold_each (upsert_rows same_result merge_result_row (result_fits d)) t (batches CHUNK_ROWS (result_rows st))"

definition stale_candidate :: "stage \<Rightarrow> candidate_row list \<Rightarrow> candidate_row \<Rightarrow> bool" where
  "stale_candidate st old c \<longleftrightarrow>
     cr_year c = sg_year st \<and>
     cr_id c \<in> set (List.map cr_id (filter (\<lambda>x. cr_year x = sg_year st) old)) - set (List.map cr_id (candidate_rows st))"

definition stale_result :: "stage \<Rightarrow> result_row list \<Rightarrow> result_row \<Rightarrow> bool" where
  "stale_result st old r \<longleftrightarrow>
     rr_year r = sg_year st \<and>
     (rr_office r, rr_round r, rr_code r) \<in>
       set (List.map (\<lambda>x. (rr_office x, rr_round x, rr_code x)) (filter (\<lambda>x. rr_year x = sg_year st) old)) -
       set (List.map (\<lambda>x. (rr_office x, rr_round x, rr_code x)) (result_rows st))"

text \<open>Everything is one transaction: an error leaves nothing of it.\<close>

definition publish ::
    "stage \<Rightarrow> int \<Rightarrow> release_metadata \<Rightarrow> dataset \<Rightarrow> db \<Rightarrow> political_db \<Rightarrow> raised + nat \<times> db \<times> political_db" where
  "publish st run_id metadata dataset_row d pd =
     (let (_, d1) = upsert_dataset dataset_row d;
          releases = insert_or_update same_release merge_release
            \<lparr>rl_year = sg_year st, rl_run_id = run_id, rl_metadata = metadata\<rparr> (pd_releases pd) in
      and_then (publish_candidates st (pd_candidates pd)) (\<lambda>candidates.
      and_then (publish_results d1 st (pd_results pd)) (\<lambda>results.
        Inr (length (candidate_rows st) + length (result_rows st), d1,
          \<lparr>pd_releases = releases,
           pd_candidates = delete_where (stale_candidate st (pd_candidates pd)) candidates,
           pd_results = delete_where (stale_result st (pd_results pd)) results\<rparr>))))"

text \<open>
  The body of the job: the written rows, the processed ones and what was committed. \<open>files\<close> is what the downloads gave.
\<close>

definition import_elections ::
    "(string \<Rightarrow> instant option) \<Rightarrow> int \<Rightarrow> bool \<Rightarrow> election_files \<Rightarrow> dataset \<Rightarrow> int \<Rightarrow> db \<Rightarrow> political_db
     \<Rightarrow> raised + (nat \<times> nat) \<times> db \<times> political_db" where
  "import_elections parse_stamp year final files dataset_row run_id d pd =
     (if territories d = [] then Inl RaisedOther
      else
      and_then (ingest_election parse_stamp files (new_stage year (List.map t_ibge_code (territories d)))) (\<lambda>st.
      let metadata = (if final then (stage_metadata st)\<lparr>md_status := ''ok''\<rparr> else stage_metadata st) in
      if md_contests metadata = [] then Inl RaisedOther
      else
      and_then (publish st run_id metadata dataset_row d pd) (\<lambda>(written, d1, pd1). Inr ((written, sg_processed st), d1, pd1))))"

section \<open>Queries\<close>

definition releases :: "political_db \<Rightarrow> release list" where
  "releases pd = sort_key rl_year (pd_releases pd)"

definition results_of ::
    "(string \<Rightarrow> string) \<Rightarrow> int \<Rightarrow> office \<Rightarrow> int \<Rightarrow> territory_level \<Rightarrow> string option \<Rightarrow> db \<Rightarrow> political_db \<Rightarrow> (string \<times> summary) list" where
  "results_of collate year office election_round level parent d pd =
     sort_key (\<lambda>cs. collate (fst cs))
       [(rr_code r, rr_data r). r \<leftarrow> pd_results pd, t \<leftarrow> territories d,
          t_ibge_code t = rr_code r \<and> rr_year r = year \<and> rr_office r = office \<and> rr_round r = election_round \<and> t_level t = level \<and>
          (case parent of Some (c # cs) \<Rightarrow> is_prefix (c # cs) (t_ibge_code t) | _ \<Rightarrow> True)]"

definition candidates_of :: "int \<Rightarrow> string list \<Rightarrow> political_db \<Rightarrow> string \<Rightarrow> candidate_data option" where
  "candidates_of year ids pd i =
     (if i \<in> set ids then map_option cr_data (select_first (\<lambda>c. cr_year c = year \<and> cr_id c = i) (pd_candidates pd)) else None)"

definition result_of :: "int \<Rightarrow> office \<Rightarrow> int \<Rightarrow> string \<Rightarrow> political_db \<Rightarrow> summary option" where
  "result_of year office election_round code pd =
     map_option rr_data (select_first (\<lambda>r. result_key r = (year, office, election_round, code)) (pd_results pd))"

definition elected_in :: "office \<Rightarrow> string \<Rightarrow> candidate_row \<Rightarrow> bool" where
  "elected_in office code c \<longleftrightarrow>
     (if office = President then cr_scope c = ''BR''
      else if office \<in> {Mayor, Councillor} then code = ''BR'' \<or> is_prefix code (cr_scope c)
      else code = ''BR'' \<or> cr_scope c = take 2 code)"

definition elected ::
    "(string \<Rightarrow> string) \<Rightarrow> int \<Rightarrow> office \<Rightarrow> string \<Rightarrow> nat \<Rightarrow> nat \<Rightarrow> political_db \<Rightarrow> nat \<times> candidate_data list" where
  "elected collate year office code offset limit pd =
     (let found = filter (\<lambda>c. cr_year c = year \<and> cr_office c = office \<and> cr_elected_round c \<noteq> None \<and> elected_in office code c)
            (pd_candidates pd);
          ranked = sort_key (\<lambda>c. collate (cr_scope c)) (sort_key (\<lambda>c. collate (cd_party (cr_data c)))
            (sort_key (\<lambda>c. collate (cd_name (cr_data c))) (sort_key (\<lambda>c. collate (cr_id c)) found))) in
      (length found, List.map cr_data (take limit (drop offset ranked))))"

section \<open>Values\<close>

datatype metric =
    LeadingCandidate | LeadingParty | LeaderShare | Margin | TurnoutShare | AbstentionShare | BlankShare | NullShare
  | InvalidShare | Representation

record political_value =
  pv_code :: string
  pv_value :: "rat option"
  pv_label :: "string option"
  pv_party :: "string option"
  pv_tie :: bool

definition percentage :: "int option \<Rightarrow> int option \<Rightarrow> rat option" where
  "percentage numerator denominator =
     (case (numerator, denominator) of
        (Some n, Some m) \<Rightarrow> if m \<noteq> 0 then Some (round_places 2 (100 * of_int n / of_int m)) else None
      | _ \<Rightarrow> None)"

definition total_of :: "summary \<Rightarrow> total_field \<Rightarrow> int option" where
  "total_of data f = (case su_totals data of None \<Rightarrow> None | Some t \<Rightarrow> t f)"

definition first_leader :: "summary \<Rightarrow> string \<times> int option" where
  "first_leader data = (case su_leaders data of [] \<Rightarrow> ([], None) | l # _ \<Rightarrow> l)"

definition metric_tie :: "metric \<Rightarrow> summary \<Rightarrow> bool" where
  "metric_tie m data =
     (if m = LeadingCandidate then su_candidate_tie data = Some True
      else if m \<in> {LeadingParty, Representation} then su_party_tie data else False)"

text \<open>The difference of the two leaders; without a count it is a \<open>TypeError\<close>.\<close>

definition margin :: "summary \<Rightarrow> raised + rat option" where
  "margin data =
     (case su_leaders data of
        a # b # _ \<Rightarrow>
          (case (snd a, snd b) of
             (Some x, Some y) \<Rightarrow> Inr (percentage (Some (x - y)) (total_of data ValidVotes))
           | _ \<Rightarrow> Inl RaisedOther)
      | _ \<Rightarrow> Inr None)"

definition invalid_votes :: "summary \<Rightarrow> int option" where
  "invalid_votes data =
     (case (total_of data BlankVotes, total_of data NullVotes) of (Some b, Some n) \<Rightarrow> Some (b + n) | _ \<Rightarrow> None)"

definition metric_value :: "metric \<Rightarrow> summary \<Rightarrow> raised + rat option" where
  "metric_value m data =
     (case m of
        LeadingCandidate \<Rightarrow> Inr (map_option of_int (snd (first_leader data)))
      | LeadingParty \<Rightarrow> Inr (map_option of_int (su_party_votes data))
      | Representation \<Rightarrow> Inr (map_option of_int (su_party_seats data))
      | LeaderShare \<Rightarrow> Inr (percentage (snd (first_leader data)) (total_of data ValidVotes))
      | Margin \<Rightarrow> margin data
      | TurnoutShare \<Rightarrow> Inr (percentage (total_of data Turnout) (total_of data Eligible))
      | AbstentionShare \<Rightarrow> Inr (percentage (total_of data Abstention) (total_of data Eligible))
      | BlankShare \<Rightarrow> Inr (percentage (total_of data BlankVotes) (total_of data TotalVotes))
      | NullShare \<Rightarrow> Inr (percentage (total_of data NullVotes) (total_of data TotalVotes))
      | InvalidShare \<Rightarrow> Inr (percentage (invalid_votes data) (total_of data TotalVotes)))"

definition mapped_value :: "string \<Rightarrow> summary \<Rightarrow> metric \<Rightarrow> (string \<Rightarrow> candidate_data option) \<Rightarrow> raised + political_value" where
  "mapped_value code data m candidates =
     (let candidate = candidates (fst (first_leader data)); tie = metric_tie m data;
          name = map_option cd_name candidate;
          label = (case m of
             LeadingCandidate \<Rightarrow> if tie then Some ''Empate'' else name
           | LeadingParty \<Rightarrow> if tie then Some ''Empate'' else su_party data
           | Representation \<Rightarrow> if tie then Some ''Empate'' else (case name of Some (c # cs) \<Rightarrow> name | _ \<Rightarrow> su_party data)
           | _ \<Rightarrow> None);
          party = (if m = LeadingCandidate then map_option cd_party candidate else su_party data) in
      and_then (metric_value m data) (\<lambda>v.
        Inr \<lparr>pv_code = code, pv_value = v, pv_label = label, pv_party = party, pv_tie = tie\<rparr>))"

section \<open>The service\<close>

record political_values =
  pl_year :: int
  pl_office :: office
  pl_round :: int
  pl_metric :: metric
  pl_status :: string
  pl_updated_at :: "instant option"
  pl_values :: "political_value list"

record political_detail =
  dt_code :: string
  dt_name :: string
  dt_level :: string
  dt_year :: int
  dt_office :: office
  dt_round :: int
  dt_status :: string
  dt_updated_at :: "instant option"
  dt_summary :: "summary option"
  dt_leaders :: "(candidate_data \<times> int option) list"
  dt_representatives :: "candidate_data list"
  dt_representative_total :: nat
  dt_offset :: nat
  dt_limit :: nat

definition political_catalog :: "political_db \<Rightarrow> release_metadata list" where
  "political_catalog pd = List.map rl_metadata (releases pd)"

definition release_for :: "political_db \<Rightarrow> int \<Rightarrow> office \<Rightarrow> int \<Rightarrow> raised + int \<times> release_metadata" where
  "release_for pd year office election_round =
     (case List.find (\<lambda>r. rl_year r = year) (releases pd) of
        None \<Rightarrow> Inl (RaisedDomain (invalid_parameter (Some ''year'') []))
      | Some release \<Rightarrow>
          (case List.find (\<lambda>c. fst c = office) (md_contests (rl_metadata release)) of
             None \<Rightarrow> Inl (RaisedDomain (invalid_parameter (Some ''year'') []))
           | Some contest \<Rightarrow>
               if election_round \<noteq> 0 \<and> election_round \<notin> set (snd contest)
               then Inl (RaisedDomain (invalid_parameter (Some ''year'') []))
               else Inr (rl_run_id release, rl_metadata release)))"

text \<open>The checks of a request for values.\<close>

definition check_political_values ::
    "db \<Rightarrow> int \<Rightarrow> metric \<Rightarrow> territory_level \<Rightarrow> string option \<Rightarrow> domain_error option" where
  "check_political_values d election_round m level parent =
     (if level \<notin> {State, Municipality} then Some (invalid_parameter (Some ''level'') [])
      else if (case parent of
          None \<Rightarrow> False
        | Some code \<Rightarrow>
            (case select_first (\<lambda>t. t_ibge_code t = code) (territories d) of
               None \<Rightarrow> True
             | Some t \<Rightarrow> t_level t \<noteq> State \<or> level \<noteq> Municipality))
      then Some (invalid_parameter (Some ''parent'') [])
      else if (m = Representation) \<noteq> (election_round = 0) then Some (invalid_parameter (Some ''round'') [])
      else None)"

type_synonym political_key = "int \<times> int \<times> int \<times> office \<times> int \<times> metric \<times> territory_level \<times> string option"
type_synonym political_cache = "(political_key, political_values) ttl_cache"

definition new_political_cache :: political_cache where
  "new_political_cache = new_cache 300 24"

record political_env =
  pe_clock :: clock
  pe_collate :: "string \<Rightarrow> string"
  pe_db :: db
  pe_political :: political_db
  pe_shared :: "political_key \<Rightarrow> political_values option"

definition build_political_values ::
    "political_env \<Rightarrow> int \<Rightarrow> office \<Rightarrow> int \<Rightarrow> metric \<Rightarrow> territory_level \<Rightarrow> string option \<Rightarrow> release_metadata \<Rightarrow> raised + political_values" where
  "build_political_values n year office election_round m level parent metadata =
     (let rows = results_of (pe_collate n) year office election_round level parent (pe_db n) (pe_political n);
          ids = (if m \<in> {LeadingCandidate, Representation} then concat (List.map (\<lambda>(_, data). List.map fst (take 1 (su_leaders data))) rows) else []);
          candidates = candidates_of year ids (pe_political n) in
      and_then (map_each (\<lambda>(code, data). mapped_value code data m candidates) rows) (\<lambda>values.
        Inr \<lparr>pl_year = year, pl_office = office, pl_round = election_round, pl_metric = m, pl_status = md_status metadata,
             pl_updated_at = md_updated_at metadata, pl_values = values\<rparr>))"

definition political_lookup ::
    "political_env \<Rightarrow> political_key \<Rightarrow> (unit \<Rightarrow> raised + political_values) \<Rightarrow> political_cache
     \<Rightarrow> (raised + political_values) \<times> political_cache" where
  "political_lookup n key build c =
     (case cache_get (pe_clock n) key c of
        (Some v, c1) \<Rightarrow> (Inr v, c1)
      | (None, c1) \<Rightarrow>
          (case pe_shared n key of
             Some v \<Rightarrow> (Inr v, cache_set (pe_clock n) key v None c1)
           | None \<Rightarrow>
               (case build () of
                  Inl e \<Rightarrow> (Inl e, c1)
                | Inr v \<Rightarrow> (Inr v, cache_set (pe_clock n) key v None c1))))"

definition get_political_values ::
    "political_env \<Rightarrow> int \<Rightarrow> office \<Rightarrow> int \<Rightarrow> metric \<Rightarrow> territory_level \<Rightarrow> string option \<Rightarrow> version_cache \<Rightarrow> political_cache
     \<Rightarrow> (raised + political_values) \<times> version_cache \<times> political_cache" where
  "get_political_values n year office election_round m level parent vc c =
     (case check_political_values (pe_db n) election_round m level parent of
        Some e \<Rightarrow> (Inl (RaisedDomain e), vc, c)
      | None \<Rightarrow>
          (case release_for (pe_political n) year office election_round of
             Inl e \<Rightarrow> (Inl e, vc, c)
           | Inr (version, metadata) \<Rightarrow>
               (case data_version (pe_clock n) (pe_clock n) (pe_db n) vc of
                  (Inl e, vc1) \<Rightarrow> (Inl e, vc1, c)
                | (Inr geography, vc1) \<Rightarrow>
                    (let (r, c1) = political_lookup n (version, geography, year, office, election_round, m, level, parent)
                           (\<lambda>_. build_political_values n year office election_round m level parent metadata) c in
                     (r, vc1, c1)))))"

definition get_political_detail ::
    "political_env \<Rightarrow> string \<Rightarrow> int \<Rightarrow> office \<Rightarrow> int \<Rightarrow> nat \<Rightarrow> nat \<Rightarrow> raised + political_detail" where
  "get_political_detail n code year office election_round offset limit =
     and_then (release_for (pe_political n) year office election_round) (\<lambda>(_, metadata).
     case select_first (\<lambda>t. t_ibge_code t = code) (territories (pe_db n)) of
       None \<Rightarrow> Inl (RaisedDomain (territory_not_found code))
     | Some t \<Rightarrow>
         (let data = result_of year office election_round code (pe_political n);
              leaders = (case data of None \<Rightarrow> [] | Some s \<Rightarrow> su_leaders s);
              candidates = candidates_of year (List.map fst leaders) (pe_political n);
              (total, representatives) = (if election_round = 0
                then elected (pe_collate n) year office code offset limit (pe_political n) else (0, [])) in
          Inr \<lparr>dt_code = code, dt_name = t_name t, dt_level = level_value (t_level t), dt_year = year, dt_office = office,
               dt_round = election_round, dt_status = md_status metadata, dt_updated_at = md_updated_at metadata,
               dt_summary = data,
               dt_leaders = List.map_filter (\<lambda>(i, votes). map_option (\<lambda>c. (c, votes)) (candidates i)) leaders,
               dt_representatives = representatives, dt_representative_total = total, dt_offset = offset, dt_limit = limit\<rparr>))"

end
