(* ===== verification/Political_Laws.thy ===== *)
theory Political_Laws
  imports Political
begin

text \<open>
  What a publication of \<open>app/jobs/import_elections.py\<close> leaves: the tables of the year are the stage, the other years
  are as they were, and publishing again changes nothing.
\<close>

section \<open>Tables whose rows are replaced as a whole\<close>

interpretation releases_table: upsert_table same_release "insert_ignore same_release"
    "insert_or_update same_release merge_release" merge_release
  by (rule insert_or_update_table) (auto simp: same_release_def merge_release_def)

interpretation candidates_table: upsert_table same_candidate "insert_ignore same_candidate"
    "insert_or_update same_candidate merge_candidate_row" merge_candidate_row
  by (rule insert_or_update_table) (auto simp: same_candidate_def candidate_key_def merge_candidate_row_def)

interpretation results_table: upsert_table same_result "insert_ignore same_result"
    "insert_or_update same_result merge_result_row" merge_result_row
  by (rule insert_or_update_table) (auto simp: same_result_def result_key_def merge_result_row_def)

lemma merge_candidate_row_eq: "candidate_key x = candidate_key r \<Longrightarrow> merge_candidate_row r x = r"
  by (auto simp: merge_candidate_row_def candidate_key_def intro: candidate_row.equality)

lemma merge_result_row_eq: "result_key x = result_key r \<Longrightarrow> merge_result_row r x = r"
  by (auto simp: merge_result_row_def result_key_def intro: result_row.equality)

text \<open>Upserts of rows of different keys, where the new row replaces the old one.\<close>

locale replacing =
  fixes same :: "'r \<Rightarrow> 'r \<Rightarrow> bool" and merge :: "'r \<Rightarrow> 'r \<Rightarrow> 'r" and key :: "'r \<Rightarrow> 'k"
  assumes same_key: "same a b \<longleftrightarrow> key a = key b"
    and merge_eq: "key x = key r \<Longrightarrow> merge r x = r"
begin

lemma upsert_set: "set (insert_or_update same merge r t) = insert r {x \<in> set t. key x \<noteq> key r}"
  by (auto simp: insert_or_update_def list_ex_iff same_key merge_eq image_iff split: if_splits)

lemma upserts_set:
  assumes "distinct (List.map key rows)"
  shows "set (fold (insert_or_update same merge) rows t) = {x \<in> set t. key x \<notin> key ` set rows} \<union> set rows"
  using assms
proof (induction rows arbitrary: t)
  case (Cons r rows)
  then show ?case by (auto simp: upsert_set)
qed simp

lemma upsert_filter:
  assumes "\<not> P r" and "\<And>x. key x = key r \<Longrightarrow> P x = P r"
  shows "filter P (insert_or_update same merge r t) = filter P t"
proof -
  have "filter P (List.map (\<lambda>x. if same r x then merge r x else x) t) = filter P t"
    by (induction t) (auto simp: same_key merge_eq assms)
  then show ?thesis using assms(1) by (simp add: insert_or_update_def)
qed

lemma upserts_filter:
  assumes "\<forall>r \<in> set rows. \<not> P r" and "\<And>x y. key x = key y \<Longrightarrow> P x = P y"
  shows "filter P (fold (insert_or_update same merge) rows t) = filter P t"
  using assms(1)
proof (induction rows arbitrary: t)
  case (Cons r rows)
  then have "filter P (insert_or_update same merge r t) = filter P t" for t
    using upsert_filter [of P r t] assms(2) by (meson list.set_intros(1))
  then show ?case using Cons by simp
qed simp

lemma upserts_again:
  assumes "set rows \<subseteq> set t" and "distinct (List.map key t)"
  shows "fold (insert_or_update same merge) rows t = t"
  using assms(1)
proof (induction rows)
  case (Cons r rows)
  have "List.map (\<lambda>x. if same r x then merge r x else x) t = t"
  proof (rule map_idI)
    fix x assume "x \<in> set t"
    then show "(if same r x then merge r x else x) = x"
      using Cons.prems assms(2) by (auto simp: same_key merge_eq distinct_map inj_on_def)
  qed
  moreover have "list_ex (same r) t" using Cons.prems by (auto simp: list_ex_iff same_key)
  ultimately show ?case using Cons by (simp add: insert_or_update_def)
qed simp

text \<open>A part of the table is replaced by the rows: the rows are written and the others of the part deleted.\<close>

lemma part_replaced:
  assumes "distinct (List.map key rows)" and "\<And>r. r \<in> set rows \<Longrightarrow> part r" and "\<And>x y. key x = key y \<Longrightarrow> part x = part y"
    and "\<And>x. x \<in> set t \<or> x \<in> set rows \<Longrightarrow> stale x \<longleftrightarrow> part x \<and> key x \<notin> key ` set rows"
  shows "set (filter part (delete_where stale (fold (insert_or_update same merge) rows t))) = set rows"
    and "filter (\<lambda>x. \<not> part x) (delete_where stale (fold (insert_or_update same merge) rows t)) = filter (\<lambda>x. \<not> part x) t"
proof -
  let ?u = "fold (insert_or_update same merge) rows t"
  have u: "set ?u = {x \<in> set t. key x \<notin> key ` set rows} \<union> set rows" by (rule upserts_set [OF assms(1)])
  show "set (filter part (delete_where stale ?u)) = set rows"
    using u assms(2,4) by (auto simp: set_delete_where)
  have "filter (\<lambda>x. \<not> part x) (delete_where stale ?u) = filter (\<lambda>x. \<not> part x) ?u"
    unfolding delete_where_def filter_filter by (rule filter_cong) (use u assms(4) in auto)
  also have "\<dots> = filter (\<lambda>x. \<not> part x) t"
    by (rule upserts_filter) (use assms(2,3) in blast)+
  finally show "filter (\<lambda>x. \<not> part x) (delete_where stale ?u) = filter (\<lambda>x. \<not> part x) t" .
qed

lemma keys_distinct: "no_conflicts same t \<longleftrightarrow> distinct (List.map key t)"
  by (induction t) (auto simp: no_conflicts_def same_key image_iff)

end

interpretation candidates: replacing same_candidate merge_candidate_row candidate_key
  by unfold_locales (auto simp: same_candidate_def merge_candidate_row_eq)

interpretation results: replacing same_result merge_result_row result_key
  by unfold_locales (auto simp: same_result_def merge_result_row_eq)

lemma upsert_batches_rows:
  "fold_each (upsert_rows same merge fits) t bs =
     (if \<forall>b \<in> set bs. no_conflicts same b \<and> list_all fits b then Inr (fold (insert_or_update same merge) (concat bs) t) else Inl RaisedOther)"
  by (induction bs arbitrary: t) (auto simp: upsert_rows_def)

lemma publish_candidates_Inr:
  assumes "publish_candidates st t = Inr t1"
  shows "t1 = fold (insert_or_update same_candidate merge_candidate_row) (candidate_rows st) t"
    and "publish_candidates st u = Inr (fold (insert_or_update same_candidate merge_candidate_row) (candidate_rows st) u)"
  using assms by (auto simp: publish_candidates_def upsert_batches_rows concat_batches CHUNK_ROWS_def split: if_splits)

lemma publish_results_Inr:
  assumes "publish_results d st t = Inr t1" and "territories d' = territories d"
  shows "t1 = fold (insert_or_update same_result merge_result_row) (result_rows st) t"
    and "publish_results d' st u = Inr (fold (insert_or_update same_result merge_result_row) (result_rows st) u)"
proof -
  have "result_fits d' = result_fits d" by (rule ext) (simp add: result_fits_def assms(2))
  then show "t1 = fold (insert_or_update same_result merge_result_row) (result_rows st) t"
    and "publish_results d' st u = Inr (fold (insert_or_update same_result merge_result_row) (result_rows st) u)"
    using assms by (auto simp: publish_results_def upsert_batches_rows concat_batches CHUNK_ROWS_def split: if_splits)
qed

section \<open>The rows of a year\<close>

lemma candidate_rows_year: "c \<in> set (candidate_rows st) \<Longrightarrow> cr_year c = sg_year st"
  by (auto simp: candidate_rows_def)

lemma result_rows_year: "r \<in> set (result_rows st) \<Longrightarrow> rr_year r = sg_year st"
  by (auto simp: result_rows_def total_rows_def representation_rows_def)

lemma stale_candidate_iff:
  assumes "c \<in> set t \<or> c \<in> set (candidate_rows st)"
  shows "stale_candidate st t c \<longleftrightarrow> cr_year c = sg_year st \<and> candidate_key c \<notin> candidate_key ` set (candidate_rows st)"
  using assms candidate_rows_year by (fastforce simp: stale_candidate_def candidate_key_def)

lemma stale_result_iff:
  assumes "r \<in> set t \<or> r \<in> set (result_rows st)"
  shows "stale_result st t r \<longleftrightarrow> rr_year r = sg_year st \<and> result_key r \<notin> result_key ` set (result_rows st)"
  using assms result_rows_year by (fastforce simp: stale_result_def result_key_def)

lemma published_candidates:
  assumes "distinct (List.map candidate_key (candidate_rows st))"
    and "u = fold (insert_or_update same_candidate merge_candidate_row) (candidate_rows st) t"
  shows "set (filter (\<lambda>c. cr_year c = sg_year st) (delete_where (stale_candidate st t) u)) = set (candidate_rows st)"
    and "filter (\<lambda>c. cr_year c \<noteq> sg_year st) (delete_where (stale_candidate st t) u) = filter (\<lambda>c. cr_year c \<noteq> sg_year st) t"
  unfolding assms(2)
  by (rule candidates.part_replaced [OF assms(1)];
      auto simp: stale_candidate_iff candidate_key_def candidate_rows_year)+

lemma published_results:
  assumes "distinct (List.map result_key (result_rows st))"
    and "u = fold (insert_or_update same_result merge_result_row) (result_rows st) t"
  shows "set (filter (\<lambda>r. rr_year r = sg_year st) (delete_where (stale_result st t) u)) = set (result_rows st)"
    and "filter (\<lambda>r. rr_year r \<noteq> sg_year st) (delete_where (stale_result st t) u) = filter (\<lambda>r. rr_year r \<noteq> sg_year st) t"
  unfolding assms(2)
  by (rule results.part_replaced [OF assms(1)];
      auto simp: stale_result_iff result_key_def result_rows_year)+

section \<open>A publication\<close>

lemma publish_parts:
  "publish st run_id metadata dataset_row d pd = Inr (n, d1, pd1) \<longleftrightarrow>
   n = length (candidate_rows st) + length (result_rows st) \<and> d1 = snd (upsert_dataset dataset_row d) \<and>
   (\<exists>cs rs. publish_candidates st (pd_candidates pd) = Inr cs \<and> publish_results d1 st (pd_results pd) = Inr rs \<and>
     pd1 = \<lparr>pd_releases = insert_or_update same_release merge_release
              \<lparr>rl_year = sg_year st, rl_run_id = run_id, rl_metadata = metadata\<rparr> (pd_releases pd),
            pd_candidates = delete_where (stale_candidate st (pd_candidates pd)) cs,
            pd_results = delete_where (stale_result st (pd_results pd)) rs\<rparr>)"
  by (cases "upsert_dataset dataset_row d") (auto simp: publish_def Let_def and_then_Inr)

lemma delete_where_all_kept: "(\<And>x. x \<in> set t \<Longrightarrow> \<not> P x) \<Longrightarrow> delete_where P t = t"
  by (rule delete_where_none) blast

lemma candidates_again:
  assumes "no_conflicts same_candidate t" and "set (filter (\<lambda>c. cr_year c = sg_year st) t) = set (candidate_rows st)"
  shows "delete_where (stale_candidate st t) (fold (insert_or_update same_candidate merge_candidate_row) (candidate_rows st) t) = t"
proof -
  have "set (candidate_rows st) \<subseteq> set t" using assms(2) by auto
  then have "fold (insert_or_update same_candidate merge_candidate_row) (candidate_rows st) t = t"
    using assms(1) by (intro candidates.upserts_again) (simp_all add: candidates.keys_distinct)
  moreover have "\<not> stale_candidate st t x" for x
    unfolding stale_candidate_def set_map assms(2) by simp
  ultimately show ?thesis by (simp add: delete_where_all_kept)
qed

lemma results_again:
  assumes "no_conflicts same_result t" and "set (filter (\<lambda>r. rr_year r = sg_year st) t) = set (result_rows st)"
  shows "delete_where (stale_result st t) (fold (insert_or_update same_result merge_result_row) (result_rows st) t) = t"
proof -
  have "set (result_rows st) \<subseteq> set t" using assms(2) by auto
  then have "fold (insert_or_update same_result merge_result_row) (result_rows st) t = t"
    using assms(1) by (intro results.upserts_again) (simp_all add: results.keys_distinct)
  moreover have "\<not> stale_result st t x" for x
    unfolding stale_result_def set_map assms(2) by simp
  ultimately show ?thesis by (simp add: delete_where_all_kept)
qed

lemma releases_replaced:
  fixes r :: release
  assumes "no_conflicts same_release t" and "t1 = insert_or_update same_release merge_release r t"
  shows "filter (\<lambda>x. rl_year x = rl_year r) t1 = [r]" and "filter (\<lambda>x. rl_year x \<noteq> rl_year r) t1 = filter (\<lambda>x. rl_year x \<noteq> rl_year r) t"
    and "insert_or_update same_release merge_release r t1 = t1"
proof -
  have key: "same_release r x \<longleftrightarrow> rl_year x = rl_year r" "rl_year (merge_release r x) = rl_year x" for x
    by (auto simp: same_release_def merge_release_def)
  note f = filter_upsert [where c = same_release and u = merge_release and r = r and f = rl_year, OF key]
  show "filter (\<lambda>x. rl_year x \<noteq> rl_year r) t1 = filter (\<lambda>x. rl_year x \<noteq> rl_year r) t"
    unfolding assms(2) by (rule f(1))
  show one: "filter (\<lambda>x. rl_year x = rl_year r) t1 = [r]"
  proof (cases "list_ex (same_release r) t")
    case True
    then obtain x where x: "x \<in> set t" "rl_year x = rl_year r" by (auto simp: list_ex_iff key)
    have "filter (\<lambda>y. rl_year y = rl_year x) t = [x]"
      by (rule filter_key_unique [OF assms(1) _ x(1)]) (auto simp: same_release_def)
    then have "filter (\<lambda>y. rl_year y = rl_year r) t1 = [merge_release r x]"
      unfolding assms(2) f(2) using True x(2) by simp
    also have "merge_release r x = r" using x(2) by (simp add: merge_release_def)
    finally show ?thesis .
  qed (simp add: assms(2) f(2))
  have "x = r" if "x \<in> set t1" "same_release r x" for x
  proof -
    have "x \<in> set (filter (\<lambda>x. rl_year x = rl_year r) t1)" using that by (simp add: key)
    then show ?thesis unfolding one by simp
  qed
  moreover have "r \<in> set t1"
  proof -
    have "r \<in> set (filter (\<lambda>x. rl_year x = rl_year r) t1)" unfolding one by simp
    then show ?thesis by simp
  qed
  ultimately show "insert_or_update same_release merge_release r t1 = t1"
    by (intro releases_table.ups_noop) (auto simp: merge_release_def same_release_def)
qed

text \<open>
  Property C26. A publication replaces its year: afterwards the candidates and the results of the year are exactly
  the rows of the stage, the year has one release, with the run and its metadata, and the other years keep their
  candidates, results and releases, in place. Publishing the same stage again leaves the tables as they are.
\<close>

theorem publish_replaces_year:
  assumes "publish st run_id metadata dataset_row d pd = Inr (n, d1, pd1)"
    and "no_conflicts same_release (pd_releases pd)" and "no_conflicts same_candidate (pd_candidates pd)"
    and "no_conflicts same_result (pd_results pd)"
    and "distinct (List.map candidate_key (candidate_rows st))" and "distinct (List.map result_key (result_rows st))"
  shows "set (filter (\<lambda>c. cr_year c = sg_year st) (pd_candidates pd1)) = set (candidate_rows st) \<and>
    set (filter (\<lambda>r. rr_year r = sg_year st) (pd_results pd1)) = set (result_rows st) \<and>
    filter (\<lambda>r. rl_year r = sg_year st) (pd_releases pd1) =
      [\<lparr>rl_year = sg_year st, rl_run_id = run_id, rl_metadata = metadata\<rparr>] \<and>
    filter (\<lambda>c. cr_year c \<noteq> sg_year st) (pd_candidates pd1) = filter (\<lambda>c. cr_year c \<noteq> sg_year st) (pd_candidates pd) \<and>
    filter (\<lambda>r. rr_year r \<noteq> sg_year st) (pd_results pd1) = filter (\<lambda>r. rr_year r \<noteq> sg_year st) (pd_results pd) \<and>
    filter (\<lambda>r. rl_year r \<noteq> sg_year st) (pd_releases pd1) = filter (\<lambda>r. rl_year r \<noteq> sg_year st) (pd_releases pd) \<and>
    (\<exists>d2. publish st run_id metadata dataset_row d1 pd1 = Inr (n, d2, pd1))"
proof -
  let ?r = "\<lparr>rl_year = sg_year st, rl_run_id = run_id, rl_metadata = metadata\<rparr>"
  obtain cs rs where pc: "publish_candidates st (pd_candidates pd) = Inr cs" and pr: "publish_results d1 st (pd_results pd) = Inr rs"
    and d1: "d1 = snd (upsert_dataset dataset_row d)" and n: "n = length (candidate_rows st) + length (result_rows st)"
    and pd1: "pd1 = \<lparr>pd_releases = insert_or_update same_release merge_release ?r (pd_releases pd),
        pd_candidates = delete_where (stale_candidate st (pd_candidates pd)) cs,
        pd_results = delete_where (stale_result st (pd_results pd)) rs\<rparr>"
    using assms(1) unfolding publish_parts by blast
  note c = published_candidates [OF assms(5) publish_candidates_Inr(1) [OF pc]]
  note r = published_results [OF assms(6) publish_results_Inr(1) [OF pr refl]]
  note l = releases_replaced [OF assms(2) refl, of ?r]
  have "territories (snd (upsert_dataset dataset_row d1)) = territories d1" by (simp add: upsert_dataset_def Let_def)
  note again = publish_candidates_Inr(2) [OF pc] publish_results_Inr(2) [OF pr this]
  have "no_conflicts same_candidate (pd_candidates pd1)" "no_conflicts same_result (pd_results pd1)"
    using assms(3,4) publish_candidates_Inr(1) [OF pc] publish_results_Inr(1) [OF pr refl]
    by (auto simp: pd1 intro: candidates_table.ups_all_unique results_table.ups_all_unique)
  then have "publish st run_id metadata dataset_row d1 pd1 = Inr (n, snd (upsert_dataset dataset_row d1), pd1)"
    unfolding publish_parts again
    using candidates_again [of "pd_candidates pd1" st] results_again [of "pd_results pd1" st] c(1) r(1) l(3) n
    by (simp add: pd1)
  then show ?thesis using c r l(1,2) by (simp add: pd1)
qed

section \<open>A run\<close>

definition sao_paulo :: territory where
  "sao_paulo = \<lparr>t_id = 1, t_level = State, t_ibge_code = ''35'', t_name = ''SP'', t_abbreviation = Some ''SP'', t_parent_id = Some 0,
     t_capital_id = None, t_west = None, t_south = None, t_east = None, t_north = None, t_normalized_name = None,
     t_normalized_abbreviation = None\<rparr>"

definition db_sp :: db where "db_sp = empty_db\<lparr>territories := [sao_paulo]\<rparr>"

definition stage_sp :: stage where
  "stage_sp = (new_stage 2022 [''35''])\<lparr>sg_totals := [((President, 1, ''35''), (\<lambda>_. Some 10))]\<rparr>"

definition old_result :: result_row where
  "old_result = \<lparr>rr_year = 2022, rr_office = Mayor, rr_round = 1, rr_code = ''35'', rr_data = representation []\<rparr>"

definition political_sp :: political_db where
  "political_sp = \<lparr>pd_releases = [], pd_candidates = [], pd_results = [old_result]\<rparr>"

theorem publish_replaces_year_witness:
  "\<exists>d1 pd1. publish stage_sp 7 (stage_metadata stage_sp)
       \<lparr>ds_id = 1, ds_source = ''TSE'', ds_code = ''elections_2022'', ds_name = [], ds_url = None, ds_source_updated_at = None\<rparr>
       db_sp political_sp = Inr (1, d1, pd1) \<and>
     set (pd_results pd1) = set (result_rows stage_sp) \<and> old_result \<notin> set (pd_results pd1)"
proof -
  let ?ds = "\<lparr>ds_id = 1, ds_source = ''TSE'', ds_code = ''elections_2022'', ds_name = [], ds_url = None, ds_source_updated_at = None\<rparr>"
  have cands: "candidate_rows stage_sp = []" by (simp add: candidate_rows_def stage_sp_def new_stage_def)
  have keys: "List.map result_key (result_rows stage_sp) = [(2022, President, 1, ''35'')]"
    by (simp add: result_rows_def total_rows_def representation_rows_def by_scope_def stage_sp_def new_stage_def result_key_def)
  then obtain r where r: "result_rows stage_sp = [r]" "rr_code r = ''35''" "rr_office r = President" "rr_year r = 2022"
    by (auto simp: result_key_def map_eq_Cons_conv)
  have fits: "result_fits (snd (upsert_dataset ?ds db_sp)) r"
    by (simp add: result_fits_def r(2) upsert_dataset_def Let_def db_sp_def sao_paulo_def)
  have "publish_results (snd (upsert_dataset ?ds db_sp)) stage_sp (pd_results political_sp) \<in> range Inr"
    using fits by (simp add: publish_results_def r(1) upsert_rows_def batches.simps CHUNK_ROWS_def no_conflicts_def)
  moreover have "publish_candidates stage_sp (pd_candidates political_sp) \<in> range Inr"
    by (simp add: publish_candidates_def cands batches.simps)
  ultimately obtain d1 pd1 where run: "publish stage_sp 7 (stage_metadata stage_sp) ?ds db_sp political_sp = Inr (1, d1, pd1)"
    using publish_parts [of stage_sp 7 "stage_metadata stage_sp" ?ds db_sp political_sp 1] by (auto simp: cands r(1))
  have "no_conflicts same_release (pd_releases political_sp)" "no_conflicts same_candidate (pd_candidates political_sp)"
    "no_conflicts same_result (pd_results political_sp)" by (simp_all add: political_sp_def no_conflicts_def)
  note all = publish_replaces_year [OF run this]
  have year: "sg_year stage_sp = 2022" by (simp add: stage_sp_def new_stage_def)
  have "distinct (List.map candidate_key (candidate_rows stage_sp))" "distinct (List.map result_key (result_rows stage_sp))"
    by (simp_all add: cands r(1))
  note rows = all [OF this]
  have y: "set (filter (\<lambda>r. rr_year r = 2022) (pd_results pd1)) = {r}"
    using rows unfolding year r(1) by simp
  have "filter (\<lambda>r. rr_year r \<noteq> 2022) (pd_results political_sp) = []" by (simp add: political_sp_def old_result_def)
  then have others: "filter (\<lambda>r. rr_year r \<noteq> 2022) (pd_results pd1) = []"
    using rows unfolding year by argo
  have "set (pd_results pd1) = {r}"
    using y others by (auto simp: filter_empty_conv)
  moreover have "old_result \<noteq> r" using r(3) by (auto simp: old_result_def)
  ultimately show ?thesis using run r(1) by auto
qed

end
