(* ===== verification/Areas.thy ===== *)
theory Areas
  imports Territories
begin

text \<open>
  The areas of the territories, \<open>municipality_areas\<close> and \<open>state_areas\<close> of \<open>app/repositories/boundaries.py\<close>, which the
  summaries of fires and of deforestation spread over the map. The geodesic area of a geometry, in square metres, is a
  parameter (PostGIS).
\<close>

record area_row =
  ar_code :: string
  ar_name :: string
  ar_state :: "string option"
  ar_km2 :: "real option"

text \<open>\<open>outerjoin\<close> of a territory with its canonical geometries: one row per geometry, or one without.\<close>

definition canonical_areas :: "(geometry \<Rightarrow> real) \<Rightarrow> territory \<Rightarrow> db \<Rightarrow> real option list" where
  "canonical_areas area t d =
     (case filter (\<lambda>g. g_territory_id g = t_id t \<and> g_lod g = Canonical) (territory_geometries d) of
        [] \<Rightarrow> [None]
      | gs \<Rightarrow> List.map (\<lambda>g. Some (area (g_geom g) / 1000000)) gs)"

text \<open>\<open>float(area) if area else None\<close>\<close>

definition area_or_none :: "real option \<Rightarrow> real option" where
  "area_or_none a = (if a = Some 0 then None else a)"

definition fetch_municipality_areas :: "(geometry \<Rightarrow> real) \<Rightarrow> db \<Rightarrow> area_row list" where
  "fetch_municipality_areas area d =
     [\<lparr>ar_code = t_ibge_code t, ar_name = t_name t, ar_state = t_abbreviation s, ar_km2 = area_or_none a\<rparr>.
        t \<leftarrow> territories d, t_level t = Municipality, s \<leftarrow> territories d, t_parent_id t = Some (t_id s),
        a \<leftarrow> canonical_areas area t d]"

definition fetch_state_areas :: "(geometry \<Rightarrow> real) \<Rightarrow> db \<Rightarrow> area_row list" where
  "fetch_state_areas area d =
     [\<lparr>ar_code = t_ibge_code t, ar_name = t_name t, ar_state = t_abbreviation t, ar_km2 = area_or_none a\<rparr>.
        t \<leftarrow> territories d, t_level t = State, a \<leftarrow> canonical_areas area t d]"

text \<open>The caches of the module and of the version of the data; \<open>now\<close> and \<open>later\<close> are the readings of the clock.\<close>

type_synonym area_cache = "(string \<times> int, area_row list) ttl_cache"

record area_state =
  as_versions :: version_cache
  as_areas :: area_cache

definition new_area_cache :: area_cache where "new_area_cache = new_cache 86400 2"

definition cached_areas ::
    "string \<Rightarrow> (db \<Rightarrow> area_row list) \<Rightarrow> clock \<Rightarrow> clock \<Rightarrow> db \<Rightarrow> area_state \<Rightarrow> (raised + area_row list) \<times> area_state" where
  "cached_areas kind fetch now later d st =
     (case data_version now later d (as_versions st) of
        (Inl e, vs) \<Rightarrow> (Inl e, st\<lparr>as_versions := vs\<rparr>)
      | (Inr version, vs) \<Rightarrow>
          (case cache_get now (kind, version) (as_areas st) of
             (Some areas, c) \<Rightarrow> (Inr areas, \<lparr>as_versions = vs, as_areas = c\<rparr>)
           | (None, c) \<Rightarrow>
               (let result = fetch d in
                (Inr result, \<lparr>as_versions = vs,
                   as_areas = (if result = [] then c else cache_set later (kind, version) result None c)\<rparr>))))"

definition municipality_areas where
  "municipality_areas area = cached_areas ''municipalities'' (fetch_municipality_areas area)"

definition state_areas where
  "state_areas area = cached_areas ''states'' (fetch_state_areas area)"

section \<open>The areas are always answered\<close>

lemma data_version_Inr: "\<exists>v. fst (data_version now later d c) = Inr v"
  by (auto simp: data_version_def read_through_def split: prod.split option.split)

lemma cached_areas_Inr: "\<exists>areas. fst (cached_areas kind fetch now later d st) = Inr areas"
  using data_version_Inr [of now later d "as_versions st"]
  by (auto simp: cached_areas_def Let_def split: prod.split sum.split option.split)

end
