(* ===== verification/Csv.thy ===== *)
theory Csv
  imports Prelude
begin

text \<open>
  Python's \<open>csv\<close> module as the providers use it: \<open>csv.reader\<close> (the state machine of the default dialect, with the
  delimiter as an argument) over the lines of a text, and \<open>csv.DictReader\<close> on top of it. The reader runs a line
  to its end and gives a record when the line closes one; a quoted field goes on in the next line.
\<close>

section \<open>The reader\<close>

datatype csv_state = StartRecord | StartField | InField | InQuotedField | QuoteInQuotedField | EatCrnl

record csv_reader =
  cs_state :: csv_state
  cs_field :: string
  cs_row :: "string list"

definition csv_start :: csv_reader where
  "csv_start = \<lparr>cs_state = StartRecord, cs_field = [], cs_row = []\<rparr>"

abbreviation quote_char :: char where "quote_char \<equiv> CHR 0x22"
abbreviation newline :: char where "newline \<equiv> CHR 0x0A"
abbreviation carriage_return :: char where "carriage_return \<equiv> CHR 0x0D"

definition is_line_end :: "char \<Rightarrow> bool" where
  "is_line_end c \<longleftrightarrow> c = newline \<or> c = carriage_return"

text \<open>\<open>csv.field_size_limit()\<close>\<close>

definition FIELD_LIMIT :: nat where "FIELD_LIMIT = 131072"

definition add_char :: "char \<Rightarrow> csv_state \<Rightarrow> csv_reader \<Rightarrow> csv_reader option" where
  "add_char c state r =
     (if FIELD_LIMIT \<le> length (cs_field r) then None
      else Some (r\<lparr>cs_field := cs_field r @ [c], cs_state := state\<rparr>))"

definition save_field :: "csv_state \<Rightarrow> csv_reader \<Rightarrow> csv_reader" where
  "save_field state r = r\<lparr>cs_row := cs_row r @ [cs_field r], cs_field := [], cs_state := state\<rparr>"

definition unquoted_char :: "char \<Rightarrow> char \<Rightarrow> csv_reader \<Rightarrow> csv_reader option" where
  "unquoted_char sep c r =
     (if is_line_end c then Some (save_field EatCrnl r)
      else if c = sep then Some (save_field StartField r)
      else add_char c InField r)"

text \<open>One character (\<open>None\<close> is \<open>csv.Error\<close>), and the end of a line.\<close>

fun csv_char :: "char \<Rightarrow> char \<Rightarrow> csv_reader \<Rightarrow> csv_reader option" where
  "csv_char sep c r =
     (case cs_state r of
        StartRecord \<Rightarrow>
          if is_line_end c then Some (r\<lparr>cs_state := EatCrnl\<rparr>)
          else if c = quote_char then Some (r\<lparr>cs_state := InQuotedField\<rparr>)
          else unquoted_char sep c r
      | StartField \<Rightarrow> if c = quote_char then Some (r\<lparr>cs_state := InQuotedField\<rparr>) else unquoted_char sep c r
      | InField \<Rightarrow> unquoted_char sep c r
      | InQuotedField \<Rightarrow>
          if c = quote_char then Some (r\<lparr>cs_state := QuoteInQuotedField\<rparr>) else add_char c InQuotedField r
      | QuoteInQuotedField \<Rightarrow> if c = quote_char then add_char c InQuotedField r else unquoted_char sep c r
      | EatCrnl \<Rightarrow> if is_line_end c then Some r else None)"

definition csv_line_end :: "csv_reader \<Rightarrow> csv_reader" where
  "csv_line_end r =
     (case cs_state r of
        StartRecord \<Rightarrow> r
      | InQuotedField \<Rightarrow> r
      | EatCrnl \<Rightarrow> r\<lparr>cs_state := StartRecord\<rparr>
      | _ \<Rightarrow> save_field StartRecord r)"

fun csv_chars :: "char \<Rightarrow> string \<Rightarrow> csv_reader \<Rightarrow> csv_reader option" where
  "csv_chars sep [] r = Some r"
| "csv_chars sep (c # cs) r = (case csv_char sep c r of None \<Rightarrow> None | Some q \<Rightarrow> csv_chars sep cs q)"

text \<open>The lines of \<open>io.StringIO\<close>, each with its line feed.\<close>

fun text_lines :: "string \<Rightarrow> string list" where
  "text_lines [] = []"
| "text_lines (c # s) =
     (if c = newline then [c] # text_lines s
      else (case text_lines s of [] \<Rightarrow> [[c]] | l # ls \<Rightarrow> (c # l) # ls))"

text \<open>The lines of a text opened with \<open>newline=""\<close>, which also end at a carriage return.\<close>

fun universal_lines :: "string \<Rightarrow> string list" where
  "universal_lines [] = []"
| "universal_lines (c # s) =
     (if c = newline then [c] # universal_lines s
      else if c = carriage_return \<and> (s = [] \<or> hd s \<noteq> newline) then [c] # universal_lines s
      else (case universal_lines s of [] \<Rightarrow> [[c]] | l # ls \<Rightarrow> (c # l) # ls))"

text \<open>
  The records of a text, up to an error (the second part: there was one); an open quoted field is closed by the end of
  the text.
\<close>

fun csv_records :: "char \<Rightarrow> string list \<Rightarrow> csv_reader \<Rightarrow> string list list \<times> bool" where
  "csv_records sep [] r =
     (if cs_field r \<noteq> [] \<or> cs_state r = InQuotedField then [cs_row r @ [cs_field r]] else [], False)"
| "csv_records sep (l # ls) r =
     (case csv_chars sep l r of
        None \<Rightarrow> ([], True)
      | Some r1 \<Rightarrow>
          (let r2 = csv_line_end r1 in
           if cs_state r2 = StartRecord
           then (case csv_records sep ls csv_start of (rs, failed) \<Rightarrow> (cs_row r2 # rs, failed))
           else csv_records sep ls r2))"

definition csv_reader_rows :: "char \<Rightarrow> string \<Rightarrow> string list list option" where
  "csv_reader_rows sep s = (case csv_records sep (text_lines s) csv_start of (rows, failed) \<Rightarrow> if failed then None else Some rows)"

section \<open>DictReader\<close>

text \<open>
  A row is a dictionary from the names of the header; a name without a field has the value \<open>None\<close> and fields
  without a name are kept under \<open>None\<close>, which nobody reads. Blank rows are left out.
\<close>

type_synonym csv_dict = "(string \<times> string option) list"

fun dict_row :: "string list \<Rightarrow> string list \<Rightarrow> csv_dict \<Rightarrow> csv_dict" where
  "dict_row [] fs d = d"
| "dict_row (n # ns) [] d = dict_row ns [] (AList.update n None d)"
| "dict_row (n # ns) (f # fs) d = dict_row ns fs (AList.update n (Some f) d)"

definition dict_rows :: "char \<Rightarrow> string \<Rightarrow> csv_dict list option" where
  "dict_rows sep s =
     map_option (\<lambda>rows. case rows of [] \<Rightarrow> [] | header # rest \<Rightarrow>
       List.map (\<lambda>fs. dict_row header fs []) (filter (\<lambda>fs. fs \<noteq> []) rest)) (csv_reader_rows sep s)"

section \<open>Texts without quotes\<close>

text \<open>A line without quotes and line ends is split at the delimiters.\<close>

definition plain_line :: "string \<Rightarrow> bool" where
  "plain_line s \<longleftrightarrow> quote_char \<notin> set s \<and> newline \<notin> set s \<and> carriage_return \<notin> set s \<and> length s \<le> FIELD_LIMIT"

lemma csv_chars_append:
  "csv_chars sep (s @ t) r = (case csv_chars sep s r of None \<Rightarrow> None | Some q \<Rightarrow> csv_chars sep t q)"
  by (induction s arbitrary: r) (auto split: option.split)

lemma csv_chars_plain:
  assumes "quote_char \<notin> set s" and "newline \<notin> set s" and "carriage_return \<notin> set s"
    and "cs_state r \<in> {StartRecord, StartField, InField}" and "length (cs_field r) + length s \<le> FIELD_LIMIT"
    and "sep \<noteq> quote_char" and "\<not> is_line_end sep" and "s \<noteq> []"
  shows "\<exists>q. csv_chars sep s r = Some q \<and> cs_state q \<in> {StartField, InField} \<and>
    cs_row q @ [cs_field q] = cs_row r @ (case py_split sep s of w # ws \<Rightarrow> (cs_field r @ w) # ws | [] \<Rightarrow> [])"
  using assms
proof (induction s arbitrary: r)
  case (Cons c s)
  let ?split = "\<lambda>s f. case py_split sep s of w # ws \<Rightarrow> (f @ w) # ws | [] \<Rightarrow> []"
  obtain q where q: "csv_char sep c r = Some q" "cs_state q \<in> {StartField, InField}"
      "length (cs_field q) + length s \<le> FIELD_LIMIT"
      "cs_row q @ ?split s (cs_field q) = cs_row r @ ?split (c # s) (cs_field r)"
  proof (cases "c = sep")
    case True
    show ?thesis by (rule that [of "save_field StartField r"])
      (use Cons.prems True in \<open>auto simp: unquoted_char_def is_line_end_def save_field_def split: list.split\<close>)
  next
    case False
    show ?thesis by (rule that [of "r\<lparr>cs_field := cs_field r @ [c], cs_state := InField\<rparr>"])
      (use Cons.prems False in \<open>auto simp: unquoted_char_def is_line_end_def add_char_def split: list.split\<close>)
  qed
  show ?case
  proof (cases "s = []")
    case True
    then show ?thesis using q by auto
  next
    case False
    have "\<exists>q'. csv_chars sep s q = Some q' \<and> cs_state q' \<in> {StartField, InField} \<and>
        cs_row q' @ [cs_field q'] = cs_row q @ ?split s (cs_field q)"
      by (rule Cons.IH) (use q Cons.prems False in auto)
    then show ?thesis using q by auto
  qed
qed simp

lemma csv_line_plain:
  assumes "plain_line s" and "s \<noteq> []" and "sep \<noteq> quote_char" and "\<not> is_line_end sep"
  shows "\<exists>q. csv_chars sep (s @ [newline]) csv_start = Some q \<and> cs_state (csv_line_end q) = StartRecord \<and>
    cs_row (csv_line_end q) = py_split sep s"
proof -
  have "\<exists>q. csv_chars sep s csv_start = Some q \<and> cs_state q \<in> {StartField, InField} \<and>
      cs_row q @ [cs_field q] = cs_row csv_start @
        (case py_split sep s of w # ws \<Rightarrow> (cs_field csv_start @ w) # ws | [] \<Rightarrow> [])"
    using assms by (intro csv_chars_plain) (auto simp: plain_line_def csv_start_def)
  then obtain q where q: "csv_chars sep s csv_start = Some q" "cs_state q \<in> {StartField, InField}"
      "cs_row q @ [cs_field q] = py_split sep s"
    using py_split_neq_Nil [of sep s] by (auto simp: csv_start_def split: list.splits)
  have "csv_chars sep (s @ [newline]) csv_start = Some (save_field EatCrnl q)"
    using q(1,2) by (auto simp: csv_chars_append unquoted_char_def is_line_end_def)
  then show ?thesis using q(3) by (intro exI [of _ "save_field EatCrnl q"]) (simp add: csv_line_end_def save_field_def)
qed

lemma csv_blank_line: "csv_chars sep [newline] csv_start = Some (csv_start\<lparr>cs_state := EatCrnl\<rparr>)"
  by (simp add: csv_start_def is_line_end_def)

lemma text_lines_newline:
  "newline \<notin> set s \<Longrightarrow> text_lines (s @ newline # t) = (s @ [newline]) # text_lines t"
  by (induction s) auto

text \<open>
  The rows of a text whose lines have no quotes and are ended by line feeds are its lines, split at
  the delimiter; a blank line is an empty row.
\<close>

lemma csv_records_plain_lines:
  assumes "list_all plain_line ls" and "sep \<noteq> quote_char" and "\<not> is_line_end sep"
  shows "csv_records sep (List.map (\<lambda>l. l @ [newline]) ls) csv_start =
    (List.map (\<lambda>l. if l = [] then [] else py_split sep l) ls, False)"
  using assms(1)
proof (induction ls)
  case (Cons l ls)
  show ?case
  proof (cases "l = []")
    case True
    then show ?thesis using Cons by (simp add: is_line_end_def csv_start_def csv_line_end_def)
  next
    case False
    have "\<exists>q. csv_chars sep (l @ [newline]) csv_start = Some q \<and> cs_state (csv_line_end q) = StartRecord \<and>
        cs_row (csv_line_end q) = py_split sep l"
      using Cons.prems False assms(2,3) by (intro csv_line_plain) auto
    then show ?thesis using Cons False by auto
  qed
qed (simp add: csv_start_def)

lemma text_lines_plain:
  "list_all plain_line ls \<Longrightarrow> text_lines (concat (List.map (\<lambda>l. l @ [newline]) ls)) = List.map (\<lambda>l. l @ [newline]) ls"
  by (induction ls) (simp_all add: text_lines_newline plain_line_def)

lemma universal_lines_plain:
  "list_all plain_line ls \<Longrightarrow> universal_lines (concat (List.map (\<lambda>l. l @ [newline]) ls)) = List.map (\<lambda>l. l @ [newline]) ls"
proof (induction ls)
  case (Cons l ls)
  have "newline \<notin> set w \<Longrightarrow> carriage_return \<notin> set w \<Longrightarrow> universal_lines (w @ newline # t) = (w @ [newline]) # universal_lines t" for w t
    by (induction w) auto
  then show ?case using Cons by (simp add: plain_line_def)
qed simp

lemma csv_splits_plain_lines:
  assumes "list_all plain_line ls" and "sep \<noteq> quote_char" and "\<not> is_line_end sep"
  shows "csv_reader_rows sep (concat (List.map (\<lambda>l. l @ [newline]) ls)) =
    Some (List.map (\<lambda>l. if l = [] then [] else py_split sep l) ls)"
  by (simp add: csv_reader_rows_def text_lines_plain [OF assms(1)] csv_records_plain_lines [OF assms])

lemma csv_splits_plain_lines_example:
  "csv_reader_rows (CHR '','') (concat (List.map (\<lambda>l. l @ [newline]) [''a,b'', '''', ''c''])) =
    Some [[''a'', ''b''], [], [''c'']]"
  using csv_splits_plain_lines [of "[''a,b'', '''', ''c'']" "CHR '',''"]
  by (simp add: plain_line_def is_line_end_def FIELD_LIMIT_def)

end
