(* ===== verification/Calendar.thy ===== *)
theory Calendar
  imports Prelude
begin

text \<open>
  Dates of the proleptic Gregorian calendar, as \<open>datetime\<close> counts them: a date is a number of days since
  1970-01-01, written \<open>YYYY-MM-DD\<close>; an instant (microseconds since then, in UTC) is written with its time of day.
\<close>

section \<open>Days and civil dates\<close>

text \<open>Years begin in March here, so that the leap day is the last; an era has 400 years.\<close>

definition year_of_era :: "int \<Rightarrow> int" where
  "year_of_era doe = (doe - doe div 1460 + doe div 36524 - doe div 146096) div 365"

definition civil_of_days :: "int \<Rightarrow> int \<times> int \<times> int" where
  "civil_of_days n =
     (let z = n + 719468; era = z div 146097; doe = z mod 146097; yoe = year_of_era doe;
          doy = doe - (365 * yoe + yoe div 4 - yoe div 100); mp = (5 * doy + 2) div 153;
          month = (if mp < 10 then mp + 3 else mp - 9) in
      (era * 400 + yoe + (if month \<le> 2 then 1 else 0), month, doy - (153 * mp + 2) div 5 + 1))"

definition days_of_civil :: "int \<Rightarrow> int \<Rightarrow> int \<Rightarrow> int" where
  "days_of_civil year month day =
     (let y = (if month \<le> 2 then year - 1 else year); era = y div 400; yoe = y mod 400;
          mp = (if month > 2 then month - 3 else month + 9); doy = (153 * mp + 2) div 5 + day - 1 in
      era * 146097 + (yoe * 365 + yoe div 4 - yoe div 100 + doy) - 719468)"

definition leap_year :: "int \<Rightarrow> bool" where
  "leap_year y \<longleftrightarrow> y mod 4 = 0 \<and> (y mod 100 \<noteq> 0 \<or> y mod 400 = 0)"

definition days_in_month :: "int \<Rightarrow> int \<Rightarrow> int" where
  "days_in_month y m = (if m = 2 then (if leap_year y then 29 else 28) else if m \<in> {4, 6, 9, 11} then 30 else 31)"

definition valid_date :: "int \<Rightarrow> int \<Rightarrow> int \<Rightarrow> bool" where
  "valid_date y m d \<longleftrightarrow> 1 \<le> y \<and> y \<le> 9999 \<and> 1 \<le> m \<and> m \<le> 12 \<and> 1 \<le> d \<and> d \<le> days_in_month y m"

section \<open>Texts\<close>

definition pad :: "nat \<Rightarrow> int \<Rightarrow> string" where
  "pad n i = (let s = int_to_string i in replicate (n - length s) CHR ''0'' @ s)"

definition iso_date :: "int \<Rightarrow> string" where
  "iso_date n = (case civil_of_days n of (y, m, d) \<Rightarrow> pad 4 y @ ''-'' @ pad 2 m @ ''-'' @ pad 2 d)"

text \<open>\<open>strftime("%Y-%m-%dT%H:%M:%SZ")\<close>, without the fraction of a second.\<close>

definition iso_instant :: "instant \<Rightarrow> string" where
  "iso_instant t =
     (let s = t div 1000000; clock = s mod 86400 in
      iso_date (s div 86400) @ ''T'' @ pad 2 (clock div 3600) @ '':'' @ pad 2 (clock div 60 mod 60) @ '':'' @
      pad 2 (clock mod 60) @ ''Z'')"

text \<open>\<open>date.fromisoformat\<close> of a text \<open>YYYY-MM-DD\<close> or \<open>YYYYMMDD\<close>; the week dates are left out.\<close>

definition date_of_digits :: "string \<Rightarrow> string \<Rightarrow> string \<Rightarrow> int option" where
  "date_of_digits y m d =
     (if all_digits y \<and> all_digits m \<and> all_digits d \<and> valid_date (digits_to_int y) (digits_to_int m) (digits_to_int d)
      then Some (days_of_civil (digits_to_int y) (digits_to_int m) (digits_to_int d)) else None)"

definition date_fromisoformat :: "string \<Rightarrow> int option" where
  "date_fromisoformat s =
     (if length s = 10 \<and> s ! 4 = CHR ''-'' \<and> s ! 7 = CHR ''-'' then date_of_digits (take 4 s) (take 2 (drop 5 s)) (drop 8 s)
      else if length s = 8 then date_of_digits (take 4 s) (take 2 (drop 4 s)) (drop 6 s) else None)"

end
