(* ===== verification/Fires.thy ===== *)
theory Fires
  imports Areas Csv Calendar Python_Values Providers_Base Shared_Cache Spatial Agregados
begin

text \<open>
  The fires of INPE: the scope and the window of a query (\<open>app/services/fire_scope.py\<close>), the answers of the source
  (\<open>app/providers/inpe.py\<close>), the map's collection with its fallback (\<open>app/services/fire_hotspots.py\<close>) and the summary
  by municipality (\<open>app/services/fire_summary.py\<close>). What each request meets is a parameter, as are
  \<open>datetime.fromisoformat\<close> (a time without zone is read as UTC), \<open>float\<close> of a text (\<open>None\<close> when it is not a finite
  number) and Pydantic's conversion of a coordinate.
\<close>

section \<open>Scope and window\<close>

datatype fire_scope = FireCountry | FireState | FireMunicipality

fun fire_level :: "fire_scope \<Rightarrow> territory_level" where
  "fire_level FireCountry = Country"
| "fire_level FireState = State"
| "fire_level FireMunicipality = Municipality"

definition scope_filter :: "fire_scope \<Rightarrow> string option \<Rightarrow> db \<Rightarrow> domain_error + string" where
  "scope_filter level parent d =
     (if level = FireCountry
      then (if parent \<noteq> None then Inl (invalid_parameter (Some ''parent'') []) else Inr ''id_0=33'')
      else case parent of
        None \<Rightarrow> Inl (invalid_parameter (Some ''parent'') [])
      | Some code \<Rightarrow>
          if length code \<noteq> (if level = FireState then 2 else 7) \<or> \<not> all_digits code
          then Inl (invalid_parameter (Some ''parent'') [])
          else case get_by_code code d of
            None \<Rightarrow> Inl (territory_not_found code)
          | Some t \<Rightarrow>
              if tr_level t \<noteq> fire_level level then Inl (invalid_parameter (Some ''parent'') [])
              else Inr (''id_0=33 AND '' @ (if level = FireState then ''id_1'' else ''id_2'') @ ''='' @
                int_to_string (digits_to_int code)))"

definition time_filter :: "string \<Rightarrow> instant \<Rightarrow> int \<Rightarrow> string" where
  "time_filter scope until n =
     scope @ '' AND data_hora_gmt >= '' @ [CHR 0x27] @ iso_instant (until - hours n) @ [CHR 0x27] @
     '' AND data_hora_gmt <= '' @ [CHR 0x27] @ iso_instant until @ [CHR 0x27]"

section \<open>The features of the source\<close>

record fire_conversions =
  fc_time :: "string \<Rightarrow> instant option"
  fc_float :: "string \<Rightarrow> real option"
  fc_coordinate :: "json \<Rightarrow> real option"
  fc_repr :: "json \<Rightarrow> string"

record fire_feature =
  ff_id :: string
  ff_longitude :: real
  ff_latitude :: real
  ff_detected_at :: instant
  ff_satellite :: string
  ff_state :: "string option"
  ff_municipality :: "string option"
  ff_municipality_code :: "string option"
  ff_biome :: "string option"
  ff_days_without_rain :: "int option"
  ff_precipitation_mm :: "real option"
  ff_fire_risk :: "real option"
  ff_frp :: "real option"

text \<open>\<open>int(value)\<close> and \<open>value.replace("Z", "+00:00")\<close> read by \<open>fromisoformat\<close>.\<close>

fun to_int :: "json \<Rightarrow> py_error + int" where
  "to_int (JInt n) = Inr n"
| "to_int (JFloat x) = Inr (if x < 0 then \<lceil>x\<rceil> else \<lfloor>x\<rfloor>)"
| "to_int (JBool b) = Inr (if b then 1 else 0)"
| "to_int (JString s) = from_option ValueError (parse_int s)"
| "to_int v = Inl TypeError"

definition utc_suffix :: "string \<Rightarrow> string" where
  "utc_suffix s = concat (List.map (\<lambda>c. if c = CHR ''Z'' then ''+00:00'' else [c]) s)"

fun read_time :: "(string \<Rightarrow> instant option) \<Rightarrow> json \<Rightarrow> py_error + instant" where
  "read_time parse (JString s) = from_option ValueError (parse (utc_suffix s))"
| "read_time parse v = Inl AttributeError"

text \<open>\<open>_number\<close>: a finite number that is not negative; an integer beyond the floats overflows.\<close>

definition FLOAT_LIMIT :: int where "FLOAT_LIMIT = 2 ^ 1024 - 2 ^ 970"

fun fire_number :: "(string \<Rightarrow> real option) \<Rightarrow> json \<Rightarrow> py_error + real option" where
  "fire_number f (JInt n) =
     (if FLOAT_LIMIT \<le> \<bar>n\<bar> then Inl OverflowError else Inr (if 0 \<le> n then Some (of_int n) else None))"
| "fire_number f (JFloat x) = Inr (if 0 \<le> x then Some x else None)"
| "fire_number f (JString s) = Inr (case f s of Some x \<Rightarrow> if 0 \<le> x then Some x else None | None \<Rightarrow> None)"
| "fire_number f v = Inr None"

text \<open>Fields of the model: a text, an optional text, a point inside the globe.\<close>

definition text_field :: "json \<Rightarrow> py_error + string" where
  "text_field v = from_option ValueError (as_string v)"

definition optional_text :: "json \<Rightarrow> py_error + string option" where
  "optional_text v = (if v = JNull then Inr None else and_then (text_field v) (\<lambda>s. Inr (Some s)))"

definition within_globe :: "real \<Rightarrow> real \<Rightarrow> bool" where
  "within_globe lon lat \<longleftrightarrow> - 180 \<le> lon \<and> lon \<le> 180 \<and> - 90 \<le> lat \<and> lat \<le> 90"

definition fire_point :: "fire_conversions \<Rightarrow> json \<Rightarrow> py_error + real \<times> real" where
  "fire_point cv v =
     (case v of
        JObject kvs \<Rightarrow>
          (if map_of kvs ''type'' \<notin> {None, Some (JString ''Point'')} then Inl ValueError
           else case map_of kvs ''coordinates'' of
             Some (JList [x, y]) \<Rightarrow>
               (case (fc_coordinate cv x, fc_coordinate cv y) of
                  (Some lon, Some lat) \<Rightarrow> if within_globe lon lat then Inr (lon, lat) else Inl ValueError
                | _ \<Rightarrow> Inl ValueError)
           | _ \<Rightarrow> Inl ValueError)
      | _ \<Rightarrow> Inl ValueError)"

definition parse_feature :: "fire_conversions \<Rightarrow> json \<Rightarrow> py_error + fire_feature" where
  "parse_feature cv raw =
     and_then (sub_key raw ''properties'') (\<lambda>props.
     and_then (and_then (sub_key props ''id_foco_bdq'') to_int) (\<lambda>n.
     and_then (and_then (sub_key props ''data_hora_gmt'') (read_time (fc_time cv))) (\<lambda>detected.
     and_then (fire_number (fc_float cv) (jget props ''numero_dias_sem_chuva'')) (\<lambda>dry.
     let code = jget props ''id_2''; measure = fire_number (fc_float cv) \<circ> jget props in
     and_then (and_then (sub_key raw ''geometry'') (fire_point cv)) (\<lambda>(lon, lat).
     and_then (sub_key props ''satelite'') (\<lambda>satellite.
     and_then (measure ''precipitacao'') (\<lambda>rain.
     and_then (measure ''risco_fogo'') (\<lambda>risk.
     and_then (measure ''frp'') (\<lambda>frp.
     and_then (text_field satellite) (\<lambda>satellite.
     and_then (optional_text (jget props ''estado'')) (\<lambda>state.
     and_then (optional_text (jget props ''municipio'')) (\<lambda>municipality.
     and_then (optional_text (jget props ''bioma'')) (\<lambda>biome.
       Inr \<lparr>ff_id = ''inpe:'' @ int_to_string n, ff_longitude = lon, ff_latitude = lat,
         ff_detected_at = detected, ff_satellite = satellite, ff_state = state, ff_municipality = municipality,
         ff_municipality_code = (if code = JNull then None else Some (py_str (fc_repr cv) code)), ff_biome = biome,
         ff_days_without_rain = map_option floor dry, ff_precipitation_mm = rain, ff_fire_risk = risk, ff_frp = frp\<rparr>)))))))))))))"

definition read_features :: "fire_conversions \<Rightarrow> json option \<Rightarrow> py_error + fire_feature list \<times> int" where
  "read_features cv body =
     and_then (from_option ValueError body) (\<lambda>data.
     and_then (sub_key data ''type'') (\<lambda>kind.
       if kind \<noteq> JString ''FeatureCollection'' then Inl ValueError
       else and_then (sub_key data ''features'') (\<lambda>raw.
     and_then (from_option ValueError (as_list raw)) (\<lambda>items.
     and_then (and_then (sub_key data ''numberMatched'') to_int) (\<lambda>total.
     and_then (map_each (parse_feature cv) items) (\<lambda>features.
       if total < int (length features) \<or> (total > 0 \<and> features = []) then Inl ValueError
       else Inr (features, total)))))))"

text \<open>\<open>raise_for_status\<close> refuses every status that is not a success.\<close>

fun successful :: "http_outcome \<Rightarrow> http_response option" where
  "successful (Answered r) = (if 200 \<le> h_status r \<and> h_status r < 300 then Some r else None)"
| "successful _ = None"

definition caught_by_inpe :: "py_error \<Rightarrow> bool" where
  "caught_by_inpe e \<longleftrightarrow> e \<in> {ValueError, TypeError, KeyError, AttributeError}"

definition provider_unavailable :: raised where
  "provider_unavailable = RaisedDomain (mk_error ProviderError [])"

text \<open>
  \<open>fetch_features\<close>: what the source answers, whether it is asked (\<open>now\<close> reads the clock), and whether it failed, in
  which case it is left alone for a minute.
\<close>

definition fetch_features ::
    "fire_conversions \<Rightarrow> clock \<Rightarrow> http_outcome \<Rightarrow> source_cooldown \<Rightarrow> (raised + fire_feature list \<times> int) \<times> bool \<times> bool" where
  "fetch_features cv now outcome cooldown =
     (if cooldown_active now cooldown then (Inl provider_unavailable, False, False)
      else case successful outcome of
        None \<Rightarrow> (Inl provider_unavailable, True, True)
      | Some r \<Rightarrow>
          (case read_features cv (h_json r) of
             Inr page \<Rightarrow> (Inr page, True, False)
           | Inl e \<Rightarrow> if caught_by_inpe e then (Inl provider_unavailable, True, True) else (Inl RaisedOther, True, False)))"

definition trip_if :: "bool \<Rightarrow> clock \<Rightarrow> source_cooldown \<Rightarrow> source_cooldown" where
  "trip_if failed later cooldown = (if failed then cooldown_trip later cooldown else cooldown)"

section \<open>All the rows of a window\<close>

datatype rows_failure = HttpFailure | BadRows | CsvFailure

definition PAGE_SIZE :: nat where "PAGE_SIZE = 10000"

text \<open>The requests of the pages (\<open>startIndex\<close> and \<open>count\<close>), and what one of them gives.\<close>

definition page_requests :: "nat \<Rightarrow> nat \<Rightarrow> (nat \<times> nat) list" where
  "page_requests page_size matched =
     List.map (\<lambda>k. (k * page_size, min page_size (matched - k * page_size))) [0..<(matched + page_size - 1) div page_size]"

definition has_column :: "string \<Rightarrow> csv_dict \<Rightarrow> bool" where
  "has_column name row \<longleftrightarrow> map_of row name \<noteq> None"

definition read_page :: "http_outcome \<Rightarrow> rows_failure + csv_dict list" where
  "read_page outcome =
     (case successful outcome of
        None \<Rightarrow> Inl HttpFailure
      | Some r \<Rightarrow>
          (case dict_rows (CHR '','') (h_text r) of
             None \<Rightarrow> Inl CsvFailure
           | Some rows \<Rightarrow>
               if rows = [] \<or> \<not> has_column ''id_foco_bdq'' (hd rows) then Inl BadRows else Inr rows))"

text \<open>\<open>asyncio.gather\<close>: the results in their order, or the first failure in the order in which the tasks finish.\<close>

definition gather :: "nat list \<Rightarrow> ('e + 'a) list \<Rightarrow> 'e + 'a list" where
  "gather finished results =
     (case List.find (\<lambda>i. isl (results ! i)) (filter (\<lambda>i. i < length results) finished @ [0..<length results]) of
        Some i \<Rightarrow> Inl (projl (results ! i))
      | None \<Rightarrow> Inr (List.map projr results))"

definition fetch_rows ::
    "nat \<Rightarrow> (nat \<times> nat \<Rightarrow> http_outcome) \<Rightarrow> nat list \<Rightarrow> nat \<Rightarrow> rows_failure + csv_dict list" where
  "fetch_rows page_size net finished matched =
     (case gather finished (List.map (\<lambda>q. read_page (net q)) (page_requests page_size matched)) of
        Inl e \<Rightarrow> Inl e
      | Inr pages \<Rightarrow>
          (let rows = concat pages in
           if length rows \<noteq> matched \<or> \<not> list_all (has_column ''id_foco_bdq'') rows \<or>
              card (set (List.map (\<lambda>row. the (map_of row ''id_foco_bdq'')) rows)) \<noteq> matched
           then Inl BadRows else Inr rows))"

end
