(* ===== verification/Fire_Service.thy ===== *)
theory Fire_Service
  imports Fires
begin

text \<open>
  \<open>app/services/fire_hotspots.py\<close> and \<open>app/services/fire_summary.py\<close>: the collection of a scope with its caches and its
  fallback when INPE fails, the fires near a point, and the summary by municipality. A request reads the clock when it
  starts, when it asks the source, when the source has answered and when it stores; other requests change the state in
  between (\<open>during\<close>). A lock per key keeps requests for one key apart.
\<close>

section \<open>The collection of a scope\<close>

type_synonym fire_key = "fire_scope \<times> string option \<times> int"

datatype fire_status = Fresh | Stale

record fire_collection =
  fo_level :: fire_scope
  fo_parent :: "string option"
  fo_count :: int
  fo_hours :: int
  fo_fetched_at :: instant
  fo_window_start :: instant
  fo_window_end :: instant
  fo_latest :: "instant option"
  fo_status :: fire_status
  fo_filter :: string
  fo_features :: "fire_feature list"

record fire_municipality =
  fm_code :: string
  fm_name :: string
  fm_state :: string
  fm_area :: "real option"
  fm_count :: int
  fm_count_48h :: int
  fm_density :: "real option"
  fm_latest :: "instant option"

record fire_summary =
  fu_start :: instant
  fu_end :: instant
  fu_hours :: int
  fu_total :: int
  fu_municipalities :: "fire_municipality list"
  fu_states :: "fire_municipality list"
  fu_ranked :: "fire_municipality list"
  fu_unassigned :: int

text \<open>An aware date and time: its local reading and its offset.\<close>

type_synonym zoned = "instant \<times> duration"
type_synonym summary_key = "string \<times> int \<times> zoned \<times> int"

record fire_state =
  fs_cooldown :: source_cooldown
  fs_cache :: "(fire_key, fire_collection) ttl_cache"
  fs_fallback :: "(fire_key, fire_collection) ttl_cache"
  fs_failures :: "(fire_key, bool) ttl_cache"
  fs_summaries :: "(summary_key, fire_summary) ttl_cache"
  fs_summary_failures :: "(summary_key, bool) ttl_cache"
  fs_areas :: area_state

definition new_fire_state :: "version_cache \<Rightarrow> area_cache \<Rightarrow> fire_state" where
  "new_fire_state versions areas =
     \<lparr>fs_cooldown = new_cooldown 60, fs_cache = new_cache 600 64, fs_fallback = new_cache 3600 64,
      fs_failures = new_cache 60 64, fs_summaries = new_cache 7200 32, fs_summary_failures = new_cache 60 32,
      fs_areas = \<lparr>as_versions = versions, as_areas = areas\<rparr>\<rparr>"

record fire_env =
  fe_db :: db
  fe_conv :: fire_conversions
  fe_clock :: clock
  fe_clock_asking :: clock
  fe_clock_asked :: clock
  fe_clock_stored :: clock
  fe_now :: instant
  fe_fetched :: instant
  fe_shared :: "fire_key \<Rightarrow> fire_collection option"
  fe_shared_fallback :: "fire_key \<Rightarrow> fire_collection option"
  fe_outcome :: "string \<Rightarrow> http_outcome"
  fe_during_read :: "fire_state \<Rightarrow> fire_state"
  fe_during_fetch :: "fire_state \<Rightarrow> fire_state"
  fe_during_write :: "fire_state \<Rightarrow> fire_state"

definition is_provider_error :: "raised \<Rightarrow> bool" where
  "is_provider_error e = (case e of RaisedDomain d \<Rightarrow> is_instance (err_kind d) ProviderError | _ \<Rightarrow> False)"

definition collection_of ::
    "fire_env \<Rightarrow> fire_key \<Rightarrow> string \<Rightarrow> fire_feature list \<times> int \<Rightarrow> fire_collection" where
  "collection_of n key cql answer =
     (case key of (level, parent, h) \<Rightarrow>
        \<lparr>fo_level = level, fo_parent = parent, fo_count = snd answer, fo_hours = h, fo_fetched_at = fe_fetched n,
         fo_window_start = fe_now n - hours h, fo_window_end = fe_now n,
         fo_latest = (case fst answer of [] \<Rightarrow> None | f # _ \<Rightarrow> Some (ff_detected_at f)),
         fo_status = Fresh, fo_filter = cql, fo_features = fst answer\<rparr>)"

text \<open>A question to the source, during which others go on.\<close>

definition ask_inpe ::
    "fire_env \<Rightarrow> http_outcome \<Rightarrow> fire_state \<Rightarrow> (raised + fire_feature list \<times> int) \<times> bool \<times> fire_state" where
  "ask_inpe n outcome st =
     (case fetch_features (fe_conv n) (fe_clock_asking n) outcome (fs_cooldown st) of
        (result, asked, failed) \<Rightarrow>
          (let st1 = (if asked then fe_during_fetch n st else st) in
           (result, asked, st1\<lparr>fs_cooldown := trip_if failed (fe_clock_asked n) (fs_cooldown st1)\<rparr>)))"

text \<open>What is written to the shared cache, with its name space and its seconds to live.\<close>

type_synonym fire_writes = "(string \<times> fire_key \<times> fire_collection \<times> int) list"

text \<open>The branch of \<open>except ProviderError\<close>: the previous answer, marked as stale, or the error.\<close>

definition serve_fallback ::
    "fire_env \<Rightarrow> fire_key \<Rightarrow> raised \<Rightarrow> fire_state \<Rightarrow> (raised + fire_collection) \<times> fire_state" where
  "serve_fallback n key e st =
     (case cache_get (fe_clock_asked n) key (fs_failures st) of
        (failed, failures) \<Rightarrow>
     (case cache_get (fe_clock_asked n) key (fs_fallback st) of
        (kept, fallback) \<Rightarrow>
          (let st1 = st\<lparr>fs_failures := (if failed = Some True then failures
                                    else cache_set (fe_clock_asked n) key True None failures),
                       fs_fallback := fallback\<rparr>;
               previous = (case kept of Some c \<Rightarrow> Some c | None \<Rightarrow> fe_shared_fallback n key) in
           case previous of
             Some c \<Rightarrow> (Inr (c\<lparr>fo_status := Stale\<rparr>), st1)
           | None \<Rightarrow> (Inl e, st1))))"

text \<open>The answer, the writes to the shared cache, whether INPE was asked, and the state.\<close>

definition load_collection ::
    "fire_env \<Rightarrow> fire_key \<Rightarrow> string \<Rightarrow> fire_state
     \<Rightarrow> (raised + fire_collection) \<times> fire_writes \<times> bool \<times> fire_state" where
  "load_collection n key scope st =
     (case cache_get (fe_clock_asking n) key (fs_failures st) of
        (failed, failures) \<Rightarrow>
          (let st1 = st\<lparr>fs_failures := failures\<rparr> in
           if failed = Some True
           then (case serve_fallback n key provider_unavailable st1 of (r, st2) \<Rightarrow> (r, [], False, st2))
           else let cql = time_filter scope (fe_now n) (snd (snd key)) in
             (case ask_inpe n (fe_outcome n cql) st1 of
                (result, asked, st2) \<Rightarrow>
                  (case result of
                     Inl e \<Rightarrow>
                       (if is_provider_error e
                        then (case serve_fallback n key e st2 of (r, st3) \<Rightarrow> (r, [], asked, st3))
                        else (Inl e, [], asked, st2))
                   | Inr answer \<Rightarrow>
                       (let c = collection_of n key cql answer;
                            st3 = fe_during_write n (st2\<lparr>fs_cache := cache_set (fe_clock_asked n) key c None (fs_cache st2)\<rparr>) in
                        (Inr c, [(''fire-metadata'', key, c, 600), (''fire-fallback'', key, c, 3600)], asked,
                         st3\<lparr>fs_fallback := cache_set (fe_clock_stored n) key c None (fs_fallback st3)\<rparr>))))))"

definition get_fire_hotspots ::
    "fire_env \<Rightarrow> fire_scope \<Rightarrow> string option \<Rightarrow> int \<Rightarrow> fire_state
     \<Rightarrow> (raised + fire_collection) \<times> fire_writes \<times> bool \<times> fire_state" where
  "get_fire_hotspots n level parent h st =
     (case scope_filter level parent (fe_db n) of
        Inl e \<Rightarrow> (Inl (RaisedDomain e), [], False, st)
      | Inr scope \<Rightarrow>
          (let key = (level, parent, h) in
           case cache_get (fe_clock n) key (fs_cache st) of
             (Some c, cache) \<Rightarrow> (Inr c, [], False, st\<lparr>fs_cache := cache\<rparr>)
           | (None, cache) \<Rightarrow>
               (let st1 = fe_during_read n (st\<lparr>fs_cache := cache\<rparr>) in
                case fe_shared n key of
                  Some c \<Rightarrow> (Inr c, [], False,
                    st1\<lparr>fs_cache := cache_set (fe_clock_asking n) key c (Some 30) (fs_cache st1)\<rparr>)
                | None \<Rightarrow> load_collection n key scope st1)))"

section \<open>The fires near a point\<close>

text \<open>\<open>f"{x:.6f}"\<close>\<close>

definition fixed6 :: "real \<Rightarrow> string" where
  "fixed6 x = (let n = round_half_even (\<bar>x\<bar> * 1000000) in
     (if x < 0 then ''-'' else []) @ int_to_string (n div 1000000) @ ''.'' @ pad 6 (n mod 1000000))"

definition valid_at :: "instant \<Rightarrow> instant \<times> duration option \<Rightarrow> bool" where
  "valid_at now at_time =
     (case snd at_time of None \<Rightarrow> False
      | Some offset \<Rightarrow> let age = now - (fst at_time - offset) in - minutes 1 \<le> age \<and> age \<le> hours 2)"

definition nearness :: "real \<Rightarrow> real \<Rightarrow> fire_feature \<Rightarrow> real" where
  "nearness lon lat f = (ff_longitude f - lon) ^ 2 * cos (radians lat) ^ 2 + (ff_latitude f - lat) ^ 2"

definition identify_filter :: "string \<Rightarrow> instant \<Rightarrow> int \<Rightarrow> real \<Rightarrow> real \<Rightarrow> real \<Rightarrow> string" where
  "identify_filter scope until h lat lon tolerance =
     time_filter scope until h @ '' AND BBOX(geometria,'' @
       join '','' (List.map fixed6 [max (- 180) (lon - tolerance), max (- 90) (lat - tolerance),
         min 180 (lon + tolerance), min 90 (lat + tolerance)]) @ '','' @ [CHR 0x27] @ ''EPSG:4326'' @ [CHR 0x27] @ '')''"

definition identify_fire_hotspots ::
    "fire_env \<Rightarrow> fire_scope \<Rightarrow> string option \<Rightarrow> int \<Rightarrow> real \<Rightarrow> real \<Rightarrow> real \<Rightarrow> instant \<times> duration option \<Rightarrow> fire_state
     \<Rightarrow> (raised + fire_feature list \<times> int) \<times> fire_state" where
  "identify_fire_hotspots n level parent h lat lon tolerance at_time st =
     (if \<not> valid_at (fe_now n) at_time then (Inl (RaisedDomain (invalid_parameter (Some ''at'') [])), st)
      else case scope_filter level parent (fe_db n) of
        Inl e \<Rightarrow> (Inl (RaisedDomain e), st)
      | Inr scope \<Rightarrow>
          (case ask_inpe n (fe_outcome n (identify_filter scope (fst at_time - the (snd at_time)) h lat lon tolerance)) st of
             (Inl e, _, st1) \<Rightarrow> (Inl e, st1)
           | (Inr (features, matched), _, st1) \<Rightarrow> (Inr (sort_key (nearness lon lat) features, matched), st1)))"

section \<open>The summary\<close>

text \<open>The counters, and what the rows leave in them; the code of a row may be missing.\<close>

type_synonym 'v by_code = "(string option \<times> 'v) list"

record tally =
  ta_counts :: "int by_code"
  ta_recent :: "int by_code"
  ta_latest :: "instant by_code"

definition count_of :: "int by_code \<Rightarrow> string option \<Rightarrow> int" where
  "count_of m k = (case map_of m k of None \<Rightarrow> 0 | Some n \<Rightarrow> n)"

definition count_one :: "string option \<Rightarrow> int by_code \<Rightarrow> int by_code" where
  "count_one k m = AList.update k (count_of m k + 1) m"

definition keep_latest :: "string option \<Rightarrow> instant \<Rightarrow> instant by_code \<Rightarrow> instant by_code" where
  "keep_latest k t m = AList.update k (case map_of m k of None \<Rightarrow> t | Some u \<Rightarrow> max u t) m"

definition column :: "csv_dict \<Rightarrow> string \<Rightarrow> py_error + string option" where
  "column row name = from_option KeyError (map_of row name)"

text \<open>\<open>row.get("id_1") or code[:2]\<close>\<close>

definition state_of_row :: "csv_dict \<Rightarrow> string option \<Rightarrow> py_error + string option" where
  "state_of_row row code =
     (case map_of row ''id_1'' of
        Some (Some s) \<Rightarrow> if s \<noteq> [] then Inr (Some s) else (case code of None \<Rightarrow> Inl TypeError | Some c \<Rightarrow> Inr (Some (take 2 c)))
      | _ \<Rightarrow> (case code of None \<Rightarrow> Inl TypeError | Some c \<Rightarrow> Inr (Some (take 2 c))))"

definition row_time :: "(string \<Rightarrow> instant option) \<Rightarrow> csv_dict \<Rightarrow> py_error + instant" where
  "row_time parse row =
     and_then (column row ''data_hora_gmt'') (\<lambda>v.
     and_then (from_option AttributeError v) (\<lambda>s. from_option ValueError (parse (utc_suffix s))))"

definition read_row :: "(string \<Rightarrow> instant option) \<Rightarrow> instant \<Rightarrow> int \<Rightarrow> csv_dict \<Rightarrow> py_error + string option \<times> string option \<times> instant" where
  "read_row parse until h row =
     and_then (column row ''id_2'') (\<lambda>code.
     and_then (row_time parse row) (\<lambda>t.
       if \<not> (until - hours h \<le> t \<and> t \<le> until) then Inl ValueError
       else and_then (state_of_row row code) (\<lambda>state. Inr (code, state, t))))"

definition tally_row :: "instant \<Rightarrow> tally \<Rightarrow> string option \<times> string option \<times> instant \<Rightarrow> tally" where
  "tally_row until ta r =
     (case r of (code, state, t) \<Rightarrow>
        \<lparr>ta_counts = count_one state (count_one code (ta_counts ta)),
         ta_recent = (if until - hours 48 \<le> t then count_one state (count_one code (ta_recent ta)) else ta_recent ta),
         ta_latest = keep_latest code t (keep_latest state t (ta_latest ta))\<rparr>)"

definition empty_tally :: tally where "empty_tally = \<lparr>ta_counts = [], ta_recent = [], ta_latest = []\<rparr>"

definition tally_rows :: "(string \<Rightarrow> instant option) \<Rightarrow> instant \<Rightarrow> int \<Rightarrow> csv_dict list \<Rightarrow> py_error + tally" where
  "tally_rows parse until h rows =
     fold_each (\<lambda>ta row. and_then (read_row parse until h row) (\<lambda>r. Inr (tally_row until ta r))) empty_tally rows"

definition valid_area :: "real option \<Rightarrow> bool" where
  "valid_area a \<longleftrightarrow> (case a of None \<Rightarrow> False | Some x \<Rightarrow> x > 0)"

definition summary_entry :: "tally \<Rightarrow> area_row \<Rightarrow> py_error + fire_municipality" where
  "summary_entry ta a =
     (let code = ar_code a; n = count_of (ta_counts ta) (Some code) in
      and_then (from_option ValueError (ar_state a)) (\<lambda>state.
        Inr \<lparr>fm_code = code, fm_name = ar_name a, fm_state = state,
          fm_area = (if valid_area (ar_km2 a) then Some (round_places 3 (the (ar_km2 a))) else None),
          fm_count = n, fm_count_48h = count_of (ta_recent ta) (Some code),
          fm_density = (if valid_area (ar_km2 a) then Some (round_places 3 (of_int n * 1000 / the (ar_km2 a))) else None),
          fm_latest = map_of (ta_latest ta) (Some code)\<rparr>))"

definition rank_municipalities :: "fire_municipality list \<Rightarrow> fire_municipality list" where
  "rank_municipalities ms =
     take 5 (sort_key (\<lambda>m. - the (fm_density m)) (filter (\<lambda>m. fm_density m \<noteq> None \<and> fm_count m > 0) ms))"

definition aggregate_fires ::
    "(string \<Rightarrow> instant option) \<Rightarrow> csv_dict list \<Rightarrow> area_row list \<Rightarrow> instant \<Rightarrow> int \<Rightarrow> area_row list \<Rightarrow> py_error + fire_summary" where
  "aggregate_fires parse rows areas until h states =
     and_then (tally_rows parse until h rows) (\<lambda>ta.
     and_then (map_each (summary_entry ta) (areas @ states)) (\<lambda>entries.
       let ms = filter (\<lambda>m. length (fm_code m) = 7) entries in
       Inr \<lparr>fu_start = until - hours h, fu_end = until, fu_hours = h, fu_total = int (length rows),
         fu_municipalities = ms, fu_states = filter (\<lambda>m. length (fm_code m) = 2) entries,
         fu_ranked = rank_municipalities ms,
         fu_unassigned = int (length rows) - sum_list (List.map fm_count ms)\<rparr>))"

text \<open>What the summary meets: the two counts around the pages, the pages and the areas of the database.\<close>

record summary_env =
  se_base :: fire_env
  se_recount :: "string \<Rightarrow> http_outcome"
  se_pages :: "string \<Rightarrow> nat \<times> nat \<Rightarrow> http_outcome"
  se_finished :: "nat list"
  se_area :: "geometry \<Rightarrow> real"
  se_shared :: "summary_key \<Rightarrow> fire_summary option"

fun caught_by_summary :: "py_error \<Rightarrow> bool" where
  "caught_by_summary ValueError = True"
| "caught_by_summary KeyError = True"
| "caught_by_summary TypeError = True"
| "caught_by_summary (DomainFailure e) = is_instance (err_kind e) ProviderError"
| "caught_by_summary _ = False"

definition summary_areas ::
    "summary_env \<Rightarrow> fire_scope \<Rightarrow> string option \<Rightarrow> area_state \<Rightarrow> (raised + area_row list \<times> area_row list) \<times> area_state" where
  "summary_areas m level parent st =
     (let n = se_base m; given = (parent \<noteq> None \<and> parent \<noteq> Some []); prefix = (case parent of None \<Rightarrow> [] | Some p \<Rightarrow> p) in
      case municipality_areas (se_area m) (fe_clock_asked n) (fe_clock_asked n) (fe_db n) st of
        (Inl e, st1) \<Rightarrow> (Inl e, st1)
      | (Inr areas, st1) \<Rightarrow>
          (case (if level \<noteq> FireMunicipality
                 then state_areas (se_area m) (fe_clock_asked n) (fe_clock_asked n) (fe_db n) st1 else (Inr [], st1)) of
             (Inl e, st2) \<Rightarrow> (Inl e, st2)
           | (Inr states, st2) \<Rightarrow>
               (Inr (if given then filter (\<lambda>a. is_prefix prefix (ar_code a)) areas else areas,
                     if given then filter (\<lambda>a. ar_code a = take 2 prefix) states else states), st2)))"

definition load_rows :: "summary_env \<Rightarrow> string \<Rightarrow> fire_state \<Rightarrow> (raised + csv_dict list) \<times> fire_state" where
  "load_rows m cql st =
     (case ask_inpe (se_base m) (fe_outcome (se_base m) cql) st of
        (Inl e, _, st1) \<Rightarrow> (Inl e, st1)
      | (Inr (_, matched), _, st1) \<Rightarrow>
          (case fetch_rows PAGE_SIZE (se_pages m cql) (se_finished m) (nat matched) of
             Inl CsvFailure \<Rightarrow> (Inl RaisedOther, st1)
           | Inl _ \<Rightarrow> (Inl provider_unavailable, st1)
           | Inr rows \<Rightarrow>
               (case ask_inpe (se_base m) (se_recount m cql) st1 of
                  (Inl e, _, st2) \<Rightarrow> (Inl e, st2)
                | (Inr (_, again), _, st2) \<Rightarrow>
                    (if again \<noteq> matched then (Inl provider_unavailable, st2) else (Inr rows, st2)))))"

definition load_summary ::
    "summary_env \<Rightarrow> fire_scope \<Rightarrow> string option \<Rightarrow> string \<Rightarrow> instant \<Rightarrow> int \<Rightarrow> fire_state \<Rightarrow> (raised + fire_summary) \<times> fire_state" where
  "load_summary m level parent scope until h st =
     (case load_rows m (time_filter scope until h) st of
        (Inl e, st1) \<Rightarrow> (Inl e, st1)
      | (Inr rows, st1) \<Rightarrow>
          (case summary_areas m level parent (fs_areas st1) of
             (Inl e, areas) \<Rightarrow> (Inl e, st1\<lparr>fs_areas := areas\<rparr>)
           | (Inr (municipalities, states), areas) \<Rightarrow>
               (case aggregate_fires (fc_time (fe_conv (se_base m))) rows municipalities until h states of
                  Inl e \<Rightarrow> (Inl (if caught_by_summary e then provider_unavailable else RaisedOther), st1\<lparr>fs_areas := areas\<rparr>)
                | Inr s \<Rightarrow> (Inr s, st1\<lparr>fs_areas := areas\<rparr>))))"

definition get_summary ::
    "summary_env \<Rightarrow> fire_scope \<Rightarrow> string option \<Rightarrow> int \<Rightarrow> instant \<times> duration option \<Rightarrow> fire_state
     \<Rightarrow> (raised + fire_summary) \<times> (summary_key \<times> fire_summary \<times> int) list \<times> fire_state" where
  "get_summary m level parent h at_time st =
     (let n = se_base m in
      if \<not> valid_at (fe_now n) at_time then (Inl (RaisedDomain (invalid_parameter (Some ''at'') [])), [], st)
      else case scope_filter level parent (fe_db n) of
        Inl e \<Rightarrow> (Inl (RaisedDomain e), [], st)
      | Inr scope \<Rightarrow>
      (let local = fst at_time - fst at_time mod 1000000; offset = the (snd at_time) in
       case data_version (fe_clock n) (fe_clock n) (fe_db n) (as_versions (fs_areas st)) of
         (Inl e, vs) \<Rightarrow> (Inl e, [], st\<lparr>fs_areas := (fs_areas st)\<lparr>as_versions := vs\<rparr>\<rparr>)
       | (Inr version, vs) \<Rightarrow>
      (let key = (scope, h, (local, offset), version); st1 = st\<lparr>fs_areas := (fs_areas st)\<lparr>as_versions := vs\<rparr>\<rparr> in
       case cache_get (fe_clock n) key (fs_summaries st1) of
         (Some s, cache) \<Rightarrow> (Inr s, [], st1\<lparr>fs_summaries := cache\<rparr>)
       | (None, cache) \<Rightarrow>
      (let st2 = fe_during_read n (st1\<lparr>fs_summaries := cache\<rparr>) in
       case se_shared m key of
         Some s \<Rightarrow> (Inr s, [], st2\<lparr>fs_summaries := cache_set (fe_clock_asking n) key s (Some 30) (fs_summaries st2)\<rparr>)
       | None \<Rightarrow>
      (case cache_get (fe_clock_asking n) key (fs_summary_failures st2) of
         (failed, failures) \<Rightarrow>
           (let st3 = st2\<lparr>fs_summary_failures := failures\<rparr> in
            if failed = Some True then (Inl provider_unavailable, [], st3)
            else case load_summary m level parent scope (local - offset) h st3 of
              (Inr s, st4) \<Rightarrow>
                (Inr s, [(key, s, 7200)], st4\<lparr>fs_summaries := cache_set (fe_clock_asked n) key s None (fs_summaries st4)\<rparr>)
            | (Inl e, st4) \<Rightarrow>
                (Inl e, [], if is_provider_error e
                  then st4\<lparr>fs_summary_failures := cache_set (fe_clock_asked n) key True None (fs_summary_failures st4)\<rparr>
                  else st4)))))))"

end
