(* ===== verification/Fire_Laws.thy ===== *)
theory Fire_Laws
  imports Fire_Service
begin

text \<open>
  What the fires promise: the summary counts every row of the window once for its municipality and once for its
  state, and a collection served is the one of the scope asked.
\<close>

section \<open>The counters\<close>

lemma fold_each_after_map_each:
  "fold_each (\<lambda>s x. and_then (f x) (\<lambda>y. Inr (g s y))) s xs = and_then (map_each f xs) (\<lambda>ys. Inr (foldl g s ys))"
proof (induction xs arbitrary: s)
  case (Cons x xs)
  show ?case
  proof (cases "f x")
    case (Inr y)
    then show ?thesis using Cons by (cases "map_each f xs") simp_all
  qed simp
qed simp

type_synonym read_rows = "(string option \<times> string option \<times> instant) list"

text \<open>The rows of a place, under its code or that of its state.\<close>

definition mentions :: "string option \<Rightarrow> read_rows \<Rightarrow> int" where
  "mentions k rs = int (length (filter (\<lambda>(code, _, _). code = k) rs)) + int (length (filter (\<lambda>(_, state, _). state = k) rs))"

definition times_of :: "string option \<Rightarrow> read_rows \<Rightarrow> instant list" where
  "times_of k rs = [t. (code, state, t) \<leftarrow> rs, code = k \<or> state = k]"

lemma count_of_count_one: "count_of (count_one k m) j = count_of m j + (if j = k then 1 else 0)"
  by (simp add: count_of_def count_one_def update_conv')

lemma mentions_Cons: "mentions k (r # rs) = (case r of (code, state, t) \<Rightarrow> (if code = k then 1 else 0) + (if state = k then 1 else 0)) + mentions k rs"
  by (auto simp: mentions_def split: prod.split)

lemma mentions_Nil [simp]: "mentions k [] = 0"
  by (simp add: mentions_def)

lemma count_of_empty [simp]: "count_of [] k = 0"
  by (simp add: count_of_def)

lemma tally_counts: "count_of (ta_counts (foldl (tally_row until) ta rs)) k = count_of (ta_counts ta) k + mentions k rs"
proof (induction rs arbitrary: ta)
  case (Cons r rs)
  then show ?case by (cases r) (auto simp: tally_row_def mentions_Cons count_of_count_one)
qed simp

lemma tally_recent:
  "count_of (ta_recent (foldl (tally_row until) ta rs)) k =
     count_of (ta_recent ta) k + mentions k (filter (\<lambda>(_, _, t). until - hours 48 \<le> t) rs)"
proof (induction rs arbitrary: ta)
  case (Cons r rs)
  then show ?case by (cases r) (auto simp: tally_row_def mentions_Cons count_of_count_one)
qed simp

definition latest_of :: "instant option \<Rightarrow> instant list \<Rightarrow> instant option" where
  "latest_of = foldl (\<lambda>m t. Some (case m of None \<Rightarrow> t | Some u \<Rightarrow> max u t))"

lemma map_of_keep_latest:
  "map_of (keep_latest k t m) j = (if j = k then Some (case map_of m k of None \<Rightarrow> t | Some u \<Rightarrow> max u t) else map_of m j)"
  by (simp add: keep_latest_def update_conv')

lemma tally_latest: "map_of (ta_latest (foldl (tally_row until) ta rs)) k = latest_of (map_of (ta_latest ta) k) (times_of k rs)"
proof (induction rs arbitrary: ta)
  case (Cons r rs)
  obtain code state t where r: "r = (code, state, t)" by (cases r)
  have "latest_of (map_of (ta_latest (tally_row until ta r)) k) ts =
      latest_of (map_of (ta_latest ta) k) ((if code = k \<or> state = k then [t] else []) @ ts)" for ts
    by (auto simp: tally_row_def r map_of_keep_latest latest_of_def split: option.split)
  then show ?case using Cons by (simp add: r times_of_def)
qed (simp add: latest_of_def times_of_def)

lemma latest_of_Max: "latest_of None ts = (if ts = [] then None else Some (Max (set ts)))"
proof -
  have "latest_of (Some u) ys = Some (Max (insert u (set ys)))" for u ys
  proof (induction ys arbitrary: u)
    case (Cons t ts)
    have "latest_of (Some u) (t # ts) = latest_of (Some (max u t)) ts" by (simp add: latest_of_def)
    also have "\<dots> = Some (Max (insert (max u t) (set ts)))" by (rule Cons.IH)
    also have "Max (insert (max u t) (set ts)) = Max (insert u (set (t # ts)))"
      by (cases "set ts = {}") (simp_all add: max.assoc)
    finally show ?case .
  qed (simp add: latest_of_def)
  moreover have "latest_of None (t # ts') = latest_of (Some t) ts'" for t ts' by (simp add: latest_of_def)
  moreover have "latest_of None [] = None" by (simp add: latest_of_def)
  ultimately show ?thesis by (cases ts) simp_all
qed

section \<open>The ranking\<close>

lemma sorted_take_drop:
  assumes "sorted (List.map f xs)" and "x \<in> set (take n xs)" and "y \<in> set (drop n xs)"
  shows "f x \<le> f y"
proof -
  have "sorted (List.map f (take n xs) @ List.map f (drop n xs))" using assms(1) by (metis append_take_drop_id map_append)
  then show ?thesis using assms(2,3) by (auto simp: sorted_append)
qed

lemma rank_municipalities_best:
  defines "eligible \<equiv> \<lambda>m. fm_density m \<noteq> None \<and> fm_count m > 0"
  shows "set (rank_municipalities ms) \<subseteq> {m \<in> set ms. eligible m}"
    and "length (rank_municipalities ms) = min 5 (length (filter eligible ms))"
    and "m \<in> set (rank_municipalities ms) \<Longrightarrow> k \<in> set ms \<Longrightarrow> eligible k \<Longrightarrow> k \<notin> set (rank_municipalities ms) \<Longrightarrow>
      the (fm_density k) \<le> the (fm_density m)"
proof -
  let ?f = "\<lambda>m. - the (fm_density m)"
  let ?s = "sort_key ?f (filter eligible ms)"
  have r: "rank_municipalities ms = take 5 ?s" by (simp add: rank_municipalities_def eligible_def)
  show "set (rank_municipalities ms) \<subseteq> {m \<in> set ms. eligible m}"
    unfolding r using set_take_subset [of 5 ?s] by auto
  show "length (rank_municipalities ms) = min 5 (length (filter eligible ms))" by (simp add: r min.commute)
  assume m: "m \<in> set (rank_municipalities ms)" and k: "k \<in> set ms" "eligible k" "k \<notin> set (rank_municipalities ms)"
  have "k \<in> set ?s" using k by simp
  then have "k \<in> set (drop 5 ?s)" using k(3) unfolding r by (metis Un_iff append_take_drop_id set_append)
  then have "?f m \<le> ?f k" using m unfolding r by (intro sorted_take_drop [of ?f ?s]) simp_all
  then show "the (fm_density k) \<le> the (fm_density m)" by simp
qed

section \<open>The summary\<close>

lemma summary_entry_Inr:
  "summary_entry ta a = Inr m \<Longrightarrow> fm_code m = ar_code a \<and> fm_count m = count_of (ta_counts ta) (Some (fm_code m)) \<and>
     fm_count_48h m = count_of (ta_recent ta) (Some (fm_code m)) \<and> fm_latest m = map_of (ta_latest ta) (Some (fm_code m))"
  by (auto simp: summary_entry_def Let_def and_then_Inr)

lemma mentions_unlisted:
  assumes "distinct codes" and "\<forall>(_, state, _) \<in> set rs. \<forall>c. state = Some c \<longrightarrow> c \<notin> set codes"
  shows "int (length rs) - sum_list (List.map (\<lambda>c. mentions (Some c) rs) codes) =
    int (length (filter (\<lambda>(code, _, _). \<forall>c. code = Some c \<longrightarrow> c \<notin> set codes) rs))"
  using assms(2)
proof (induction rs)
  case (Cons r rs)
  obtain code state t where r: "r = (code, state, t)" by (cases r)
  have no: "c \<in> set codes \<Longrightarrow> state \<noteq> Some c" for c using Cons.prems by (auto simp: r)
  have one: "sum_list (List.map (\<lambda>c. if code = Some c then 1 else 0) codes) =
      (if \<exists>c. code = Some c \<and> c \<in> set codes then 1 else (0 :: int))"
    using assms(1) by (induction codes) auto
  have eq: "List.map (\<lambda>c. mentions (Some c) (r # rs)) codes =
      List.map (\<lambda>c. (if code = Some c then 1 else 0) + mentions (Some c) rs) codes"
    using no by (intro map_cong) (simp_all add: r mentions_Cons)
  have "sum_list (List.map (\<lambda>c. mentions (Some c) (r # rs)) codes) =
      (if \<exists>c. code = Some c \<and> c \<in> set codes then 1 else 0) + sum_list (List.map (\<lambda>c. mentions (Some c) rs) codes)"
    unfolding eq sum_list_addf one ..
  then show ?case using Cons by (auto simp: r)
qed simp

lemma aggregate_fires_parts:
  assumes "aggregate_fires parse rows areas until h states = Inr s"
  obtains rs entries where "map_each (read_row parse until h) rows = Inr rs"
    "list_all2 (\<lambda>a m. summary_entry (foldl (tally_row until) empty_tally rs) a = Inr m) (areas @ states) entries"
    "fu_municipalities s = filter (\<lambda>m. length (fm_code m) = 7) entries" "fu_states s = filter (\<lambda>m. length (fm_code m) = 2) entries"
    "fu_ranked s = rank_municipalities (fu_municipalities s)" "fu_total s = int (length rows)"
    "fu_unassigned s = int (length rows) - sum_list (List.map fm_count (fu_municipalities s))"
  using assms
  by (auto simp: aggregate_fires_def tally_rows_def fold_each_after_map_each and_then_Inr map_each_Inr Let_def)

lemma list_all2_entries:
  assumes "list_all2 (\<lambda>a m. summary_entry ta a = Inr m) as ms"
  shows "List.map fm_code ms = List.map ar_code as"
  using assms by (induction) (auto dest: summary_entry_Inr)

lemma read_row_window: "read_row parse until h row = Inr (code, state, t) \<Longrightarrow> until - hours h \<le> t \<and> t \<le> until"
  by (auto simp: read_row_def and_then_Inr split: if_splits)

lemma map_filter_key:
  assumes "List.map f xs = List.map g ys"
  shows "List.map f (filter (P \<circ> f) xs) = List.map g (filter (P \<circ> g) ys)"
  using arg_cong [OF assms, of "filter P"] by (simp add: filter_map comp_def)

text \<open>What the entry of a territory says of the rows read.\<close>

lemma entries_count:
  assumes "list_all2 (\<lambda>a m. summary_entry (foldl (tally_row until) empty_tally rs) a = Inr m) as entries" and "m \<in> set entries"
  shows "fm_count m = mentions (Some (fm_code m)) rs \<and>
    fm_count_48h m = mentions (Some (fm_code m)) (filter (\<lambda>(_, _, t). until - hours 48 \<le> t) rs) \<and>
    fm_latest m = (let ts = times_of (Some (fm_code m)) rs in if ts = [] then None else Some (Max (set ts)))"
proof -
  obtain a where "summary_entry (foldl (tally_row until) empty_tally rs) a = Inr m"
    using assms by (auto simp: list_all2_conv_all_nth in_set_conv_nth)
  from summary_entry_Inr [OF this] show ?thesis
    by (simp add: tally_counts tally_recent tally_latest latest_of_Max empty_tally_def Let_def)
qed

lemma rows_in_window:
  assumes "map_each (read_row parse until h) rows = Inr rs"
  shows "\<forall>(_, _, t) \<in> set rs. until - hours h \<le> t \<and> t \<le> until"
proof
  fix r assume "r \<in> set rs"
  then obtain row where "read_row parse until h row = Inr r"
    using assms by (auto simp: map_each_Inr list_all2_conv_all_nth in_set_conv_nth)
  then show "case r of (_, _, t) \<Rightarrow> until - hours h \<le> t \<and> t \<le> until"
    by (cases r) (auto dest: read_row_window)
qed

text \<open>
  Property C36. A summary of fires comes from rows that all lie in its window: each municipality and each state
  listed has the number of rows under its code, of those of the last 48 hours, and the time of the last of them;
  the rows without a municipality of the list are the unassigned ones (when the codes are distinct and a row's state
  is not one of them); and the ranking has the five municipalities with most fires for their area.
\<close>

theorem summary_counts_fires:
  assumes "aggregate_fires parse rows areas until h states = Inr s"
  shows "\<exists>rs. map_each (read_row parse until h) rows = Inr rs \<and> fu_total s = int (length rs) \<and>
    (\<forall>(_, _, t) \<in> set rs. until - hours h \<le> t \<and> t \<le> until) \<and>
    List.map fm_code (fu_municipalities s) = filter (\<lambda>c. length c = 7) (List.map ar_code (areas @ states)) \<and>
    List.map fm_code (fu_states s) = filter (\<lambda>c. length c = 2) (List.map ar_code (areas @ states)) \<and>
    (\<forall>m \<in> set (fu_municipalities s @ fu_states s).
       fm_count m = mentions (Some (fm_code m)) rs \<and>
       fm_count_48h m = mentions (Some (fm_code m)) (filter (\<lambda>(_, _, t). until - hours 48 \<le> t) rs) \<and>
       fm_latest m = (let ts = times_of (Some (fm_code m)) rs in if ts = [] then None else Some (Max (set ts)))) \<and>
    (distinct (List.map fm_code (fu_municipalities s)) \<and>
     (\<forall>(_, state, _) \<in> set rs. \<forall>c. state = Some c \<longrightarrow> c \<notin> set (List.map fm_code (fu_municipalities s))) \<longrightarrow>
       fu_unassigned s = int (length (filter (\<lambda>(code, _, _).
         \<forall>c. code = Some c \<longrightarrow> c \<notin> set (List.map fm_code (fu_municipalities s))) rs))) \<and>
    length (fu_ranked s) = min 5 (length (filter (\<lambda>m. fm_density m \<noteq> None \<and> fm_count m > 0) (fu_municipalities s))) \<and>
    (\<forall>m \<in> set (fu_ranked s). \<forall>k \<in> set (fu_municipalities s).
       fm_density k \<noteq> None \<and> fm_count k > 0 \<and> k \<notin> set (fu_ranked s) \<longrightarrow> the (fm_density k) \<le> the (fm_density m))"
proof -
  obtain rs entries where parts: "map_each (read_row parse until h) rows = Inr rs"
      "list_all2 (\<lambda>a m. summary_entry (foldl (tally_row until) empty_tally rs) a = Inr m) (areas @ states) entries"
      "fu_municipalities s = filter (\<lambda>m. length (fm_code m) = 7) entries" "fu_states s = filter (\<lambda>m. length (fm_code m) = 2) entries"
      "fu_ranked s = rank_municipalities (fu_municipalities s)" "fu_total s = int (length rows)"
      "fu_unassigned s = int (length rows) - sum_list (List.map fm_count (fu_municipalities s))"
    using aggregate_fires_parts [OF assms] by metis
  have len: "length rs = length rows" using parts(1) by (auto simp: map_each_Inr list_all2_lengthD)
  note window = rows_in_window [OF parts(1)]
  note entry = entries_count [OF parts(2)]
  have codes: "List.map fm_code entries = List.map ar_code (areas @ states)" by (rule list_all2_entries [OF parts(2)])
  have sel: "List.map fm_code (filter (\<lambda>m. length (fm_code m) = k) entries) =
      filter (\<lambda>c. length c = k) (List.map ar_code (areas @ states))" for k
    unfolding codes [symmetric] by (simp add: filter_map comp_def)
  have counts: "List.map fm_count (fu_municipalities s) = List.map (\<lambda>c. mentions (Some c) rs) (List.map fm_code (fu_municipalities s))"
    using entry by (simp add: parts(3))
  have unassigned: "fu_unassigned s = int (length rs) - sum_list (List.map (\<lambda>c. mentions (Some c) rs) (List.map fm_code (fu_municipalities s)))"
    by (simp only: parts(7) counts len)
  show ?thesis
  proof (intro exI [of _ rs] conjI)
    show "\<forall>m \<in> set (fu_municipalities s @ fu_states s).
       fm_count m = mentions (Some (fm_code m)) rs \<and>
       fm_count_48h m = mentions (Some (fm_code m)) (filter (\<lambda>(_, _, t). until - hours 48 \<le> t) rs) \<and>
       fm_latest m = (let ts = times_of (Some (fm_code m)) rs in if ts = [] then None else Some (Max (set ts)))"
      using entry by (auto simp: parts(3,4))
    show "distinct (List.map fm_code (fu_municipalities s)) \<and>
       (\<forall>(_, state, _) \<in> set rs. \<forall>c. state = Some c \<longrightarrow> c \<notin> set (List.map fm_code (fu_municipalities s))) \<longrightarrow>
       fu_unassigned s = int (length (filter (\<lambda>(code, _, _).
         \<forall>c. code = Some c \<longrightarrow> c \<notin> set (List.map fm_code (fu_municipalities s))) rs))"
      unfolding unassigned by (intro impI mentions_unlisted) blast+
    show "\<forall>m \<in> set (fu_ranked s). \<forall>k \<in> set (fu_municipalities s).
       fm_density k \<noteq> None \<and> fm_count k > 0 \<and> k \<notin> set (fu_ranked s) \<longrightarrow> the (fm_density k) \<le> the (fm_density m)"
      unfolding parts(5) using rank_municipalities_best(3) by blast
    show "length (fu_ranked s) = min 5 (length (filter (\<lambda>m. fm_density m \<noteq> None \<and> fm_count m > 0) (fu_municipalities s)))"
      unfolding parts(5) by (rule rank_municipalities_best)
  qed (use parts(1,6) len window sel in \<open>simp_all add: parts(3,4)\<close>)
qed

section \<open>The collection of a scope\<close>

text \<open>The collection a key stands for, as it was when it was fetched.\<close>

fun answers_key :: "fire_key \<Rightarrow> fire_collection \<Rightarrow> bool" where
  "answers_key (level, parent, h) c \<longleftrightarrow>
     fo_level c = level \<and> fo_parent c = parent \<and> fo_hours c = h \<and> fo_status c = Fresh \<and>
     fo_window_start c = fo_window_end c - hours h \<and> int (length (fo_features c)) \<le> fo_count c \<and>
     (0 < fo_count c \<longrightarrow> fo_features c \<noteq> [])"

definition fire_ok :: "fire_state \<Rightarrow> bool" where
  "fire_ok st \<longleftrightarrow> cache_all answers_key (fs_cache st) \<and> cache_all answers_key (fs_fallback st)"

lemma read_features_counts:
  "read_features cv body = Inr (features, matched) \<Longrightarrow> int (length features) \<le> matched \<and> (0 < matched \<longrightarrow> features \<noteq> [])"
  by (auto simp: read_features_def and_then_Inr split: if_splits)

lemma fetch_features_cases:
  assumes "fetch_features cv now outcome cooldown = (result, asked, failed)"
  shows "(asked \<longrightarrow> \<not> cooldown_active now cooldown) \<and> (failed \<longrightarrow> asked) \<and>
    (case result of
       Inr (features, matched) \<Rightarrow> \<not> failed \<and> asked \<and> int (length features) \<le> matched \<and> (0 < matched \<longrightarrow> features \<noteq> [])
     | Inl e \<Rightarrow> (e = provider_unavailable \<and> failed = asked) \<or> (e = RaisedOther \<and> asked \<and> \<not> failed))"
  using assms read_features_counts by (auto simp: fetch_features_def split: if_splits option.splits sum.splits)

lemma is_provider_error_cases [simp]: "is_provider_error provider_unavailable" "\<not> is_provider_error RaisedOther"
  by (simp_all add: is_provider_error_def provider_unavailable_def is_instance_def mk_error_def)

lemma serve_fallback_ok:
  assumes "fire_ok st" and "\<And>c. fe_shared_fallback n key = Some c \<Longrightarrow> answers_key key c"
    and "serve_fallback n key e st = (r, st')"
  shows "fire_ok st' \<and> fs_cooldown st' = fs_cooldown st \<and>
    (case r of Inl e' \<Rightarrow> e' = e | Inr c \<Rightarrow> fo_status c = Stale \<and> answers_key key (c\<lparr>fo_status := Fresh\<rparr>))"
proof -
  obtain failed failures where f: "cache_get (fe_clock_asked n) key (fs_failures st) = (failed, failures)" by fastforce
  obtain kept fallback where k: "cache_get (fe_clock_asked n) key (fs_fallback st) = (kept, fallback)" by fastforce
  have all: "cache_all answers_key fallback" and hit: "kept = Some c \<Longrightarrow> answers_key key c" for c
    using cache_all_get_eq [OF k] assms(1) by (auto simp: fire_ok_def)
  have stale: "answers_key key c \<Longrightarrow> answers_key key (c\<lparr>fo_status := Stale, fo_status := Fresh\<rparr>)" for c by (cases key) simp
  show ?thesis
    using assms hit all stale by (auto simp: serve_fallback_def f k fire_ok_def Let_def split: option.splits)
qed

lemma ask_inpe_ok:
  assumes "ask_inpe n outcome st = (result, asked, st')" and "fire_ok st" and "\<And>s. fire_ok s \<Longrightarrow> fire_ok (fe_during_fetch n s)"
  shows "fire_ok st' \<and> (asked \<longrightarrow> \<not> cooldown_active (fe_clock_asking n) (fs_cooldown st)) \<and>
    (case result of
       Inr (features, matched) \<Rightarrow> asked \<and> int (length features) \<le> matched \<and> (0 < matched \<longrightarrow> features \<noteq> [])
     | Inl e \<Rightarrow> (e = RaisedOther \<and> asked) \<or> (e = provider_unavailable \<and>
         (asked \<longrightarrow> fs_cooldown st' = cooldown_trip (fe_clock_asked n) (fs_cooldown (fe_during_fetch n st)))))"
proof -
  obtain failed where f: "fetch_features (fe_conv n) (fe_clock_asking n) outcome (fs_cooldown st) = (result, asked, failed)"
    using assms(1) by (auto simp: ask_inpe_def Let_def split: prod.splits)
  define s1 where "s1 = (if asked then fe_during_fetch n st else st)"
  have st': "st' = s1\<lparr>fs_cooldown := trip_if failed (fe_clock_asked n) (fs_cooldown s1)\<rparr>"
    using assms(1) by (simp add: ask_inpe_def f Let_def s1_def)
  have "fire_ok s1" using assms(2,3) by (simp add: s1_def)
  then have "fire_ok st'" by (simp add: fire_ok_def st')
  moreover have "failed \<Longrightarrow> asked \<Longrightarrow> fs_cooldown st' = cooldown_trip (fe_clock_asked n) (fs_cooldown (fe_during_fetch n st))"
    by (simp add: st' s1_def trip_if_def)
  ultimately show ?thesis using fetch_features_cases [OF f] by (cases result) auto
qed

text \<open>What a request leaves and answers.\<close>

definition fire_outcome_ok ::
    "fire_env \<Rightarrow> fire_key \<Rightarrow> (raised + fire_collection) \<times> fire_writes \<times> bool \<times> fire_state \<Rightarrow> bool" where
  "fire_outcome_ok n key out \<longleftrightarrow>
     (case out of (r, writes, asked, st') \<Rightarrow>
        fire_ok st' \<and> (\<forall>(_, k, c, _) \<in> set writes. k = key \<and> answers_key key c) \<and>
        (case r of
           Inr c \<Rightarrow> answers_key key (c\<lparr>fo_status := Fresh\<rparr>) \<and> (writes \<noteq> [] \<longrightarrow> fo_status c = Fresh \<and> asked)
         | Inl e \<Rightarrow> writes = [] \<and> e \<in> {provider_unavailable, RaisedOther}))"

lemma load_collection_ok:
  assumes "fire_ok st" and "\<And>c. fe_shared_fallback n key = Some c \<Longrightarrow> answers_key key c"
    and "\<And>s. fire_ok s \<Longrightarrow> fire_ok (fe_during_fetch n s)" and "\<And>s. fire_ok s \<Longrightarrow> fire_ok (fe_during_write n s)"
  shows "fire_outcome_ok n key (load_collection n key scope st)"
proof -
  obtain failed failures where f: "cache_get (fe_clock_asking n) key (fs_failures st) = (failed, failures)" by fastforce
  let ?st1 = "st\<lparr>fs_failures := failures\<rparr>"
  have st1: "fire_ok ?st1" using assms(1) by (simp add: fire_ok_def)
  show ?thesis
  proof (cases "failed = Some True")
    case True
    obtain r st2 where s: "serve_fallback n key provider_unavailable ?st1 = (r, st2)" by fastforce
    have "load_collection n key scope st = (r, [], False, st2)" by (simp add: load_collection_def f True s Let_def)
    then show ?thesis using serve_fallback_ok [OF st1 assms(2) s] by (auto simp: fire_outcome_ok_def split: sum.splits)
  next
    case False
    obtain result asked st2 where a: "ask_inpe n (fe_outcome n (time_filter scope (fe_now n) (snd (snd key)))) ?st1 = (result, asked, st2)" by (metis prod_cases3)
    note ok = ask_inpe_ok [OF a st1 assms(3)]
    show ?thesis
    proof (cases result)
      case (Inl e)
      obtain r st3 where s: "serve_fallback n key e st2 = (r, st3)" by fastforce
      show ?thesis
      proof (cases "is_provider_error e")
        case True
        have "load_collection n key scope st = (r, [], asked, st3)"
          using False True by (simp add: load_collection_def f a Inl s Let_def)
        moreover have "e = provider_unavailable" using ok True Inl by auto
        ultimately show ?thesis using serve_fallback_ok [OF _ assms(2) s] ok by (auto simp: fire_outcome_ok_def split: sum.splits)
      next
        case other: False
        have "load_collection n key scope st = (Inl e, [], asked, st2)"
          using False other by (simp add: load_collection_def f a Inl Let_def)
        then show ?thesis using ok Inl by (auto simp: fire_outcome_ok_def)
      qed
    next
      case (Inr answer)
      let ?c = "collection_of n key (time_filter scope (fe_now n) (snd (snd key))) answer"
      let ?st3 = "fe_during_write n (st2\<lparr>fs_cache := cache_set (fe_clock_asked n) key ?c None (fs_cache st2)\<rparr>)"
      have c: "answers_key key ?c" "fo_status ?c = Fresh" using ok Inr by (cases key; cases answer; auto simp: collection_of_def)+
      have "fire_ok ?st3" using ok c by (intro assms(4)) (auto simp: fire_ok_def)
      then have "fire_ok (?st3\<lparr>fs_fallback := cache_set (fe_clock_stored n) key ?c None (fs_fallback ?st3)\<rparr>)"
        using c by (auto simp: fire_ok_def)
      moreover have "load_collection n key scope st = (Inr ?c, [(''fire-metadata'', key, ?c, 600), (''fire-fallback'', key, ?c, 3600)],
          asked, ?st3\<lparr>fs_fallback := cache_set (fe_clock_stored n) key ?c None (fs_fallback ?st3)\<rparr>)"
        using False by (simp add: load_collection_def f a Inr Let_def)
      moreover have "answers_key key (?c\<lparr>fo_status := Fresh\<rparr>)" using c by (cases key) simp
      ultimately show ?thesis using c ok Inr by (auto simp: fire_outcome_ok_def split: prod.splits)
    qed
  qed
qed


text \<open>
  A source that failed is left alone for a minute, whatever the scope of the next request.
\<close>

lemma failed_source_left_alone:
  assumes "ask_inpe n outcome st = (Inl provider_unavailable, True, st1)" and "cd_seconds (fs_cooldown (fe_during_fetch n st)) = 60"
    and "fe_clock_asking m < fe_clock_asked n + 60"
  shows "fst (snd (ask_inpe m outcome' st1)) = False"
proof -
  obtain failed where f: "fetch_features (fe_conv n) (fe_clock_asking n) outcome (fs_cooldown st) = (Inl provider_unavailable, True, failed)"
    using assms(1) by (auto simp: ask_inpe_def Let_def split: prod.splits)
  have "failed" using fetch_features_cases [OF f] by (simp add: provider_unavailable_def)
  then have "fs_cooldown st1 = cooldown_trip (fe_clock_asked n) (fs_cooldown (fe_during_fetch n st))"
    using assms(1) by (auto simp: ask_inpe_def f trip_if_def Let_def)
  then have "cooldown_active (fe_clock_asking m) (fs_cooldown st1)" using assms(2,3) by (simp add: cooldown_active_after_trip)
  then show ?thesis by (simp add: ask_inpe_def fetch_features_def Let_def)
qed

end
