(* ===== verification/Fire_Witnesses.thy ===== *)
theory Fire_Witnesses
  imports Fire_Laws
begin

text \<open>Concrete runs of the fires: the properties of \<open>Fire_Laws\<close> at closed inputs.\<close>

definition rows0 :: "csv_dict list" where
  "rows0 = [[(''id_2'', Some ''3550308''), (''data_hora_gmt'', Some ''b'')],
     [(''id_2'', Some ''3304557''), (''data_hora_gmt'', Some ''b'')],
     [(''id_2'', Some ''3550308''), (''data_hora_gmt'', Some ''a'')]]"

definition parse0 :: "string \<Rightarrow> instant option" where
  "parse0 s = (if s = ''a'' then Some 0 else if s = ''b'' then Some 9 else None)"

definition areas0 :: "area_row list" where
  "areas0 = [\<lparr>ar_code = ''3550308'', ar_name = ''Sao Paulo'', ar_state = Some ''SP'', ar_km2 = None\<rparr>]"

definition states0 :: "area_row list" where
  "states0 = [\<lparr>ar_code = ''35'', ar_name = ''SP'', ar_state = Some ''SP'', ar_km2 = None\<rparr>]"

lemma rows0_read:
  "map_each (read_row parse0 9 1) rows0 =
     Inr [(Some ''3550308'', Some ''35'', 9), (Some ''3304557'', Some ''33'', 9), (Some ''3550308'', Some ''35'', 0)]"
  by code_simp

theorem summary_counts_fires_witness:
  "\<exists>s. aggregate_fires parse0 rows0 areas0 9 1 states0 = Inr s \<and> fu_unassigned s = 1 \<and>
     List.map fm_code (fu_municipalities s) = [''3550308''] \<and> (\<forall>m \<in> set (fu_municipalities s @ fu_states s). fm_count m = 2)"
proof -
  have "\<not> isl (aggregate_fires parse0 rows0 areas0 9 1 states0)" by code_simp
  then obtain s where s: "aggregate_fires parse0 rows0 areas0 9 1 states0 = Inr s"
    by (cases "aggregate_fires parse0 rows0 areas0 9 1 states0") auto
  let ?codes = "List.map fm_code (fu_municipalities s)"
  from summary_counts_fires [OF s] obtain rs where rs: "map_each (read_row parse0 9 1) rows0 = Inr rs"
    and codes: "?codes = filter (\<lambda>c. length c = 7) (List.map ar_code (areas0 @ states0))"
      "List.map fm_code (fu_states s) = filter (\<lambda>c. length c = 2) (List.map ar_code (areas0 @ states0))"
    and counts: "\<forall>m \<in> set (fu_municipalities s @ fu_states s). fm_count m = mentions (Some (fm_code m)) rs"
    and unassigned: "distinct ?codes \<and> (\<forall>(_, state, _) \<in> set rs. \<forall>c. state = Some c \<longrightarrow> c \<notin> set ?codes) \<longrightarrow>
       fu_unassigned s = int (length (filter (\<lambda>(code, _, _). \<forall>c. code = Some c \<longrightarrow> c \<notin> set ?codes) rs))" by blast
  note lit = rs [unfolded rows0_read, THEN sum.inject(2) [THEN iffD1], symmetric]
  have codes: "?codes = [''3550308'']" "List.map fm_code (fu_states s) = [''35'']"
    unfolding codes by (simp_all add: areas0_def states0_def)
  have two: "mentions (Some ''3550308'') rs = 2" "mentions (Some ''35'') rs = 2" unfolding lit by (simp_all add: mentions_def)
  have "\<forall>m \<in> set (fu_municipalities s @ fu_states s). fm_count m = 2"
  proof
    fix m assume m: "m \<in> set (fu_municipalities s @ fu_states s)"
    then have "fm_code m \<in> set (?codes @ List.map fm_code (fu_states s))" by auto
    then have "fm_code m = ''3550308'' \<or> fm_code m = ''35''" unfolding codes by simp
    then show "fm_count m = 2" using counts [THEN bspec, OF m] two by metis
  qed
  moreover have "fu_unassigned s = 1" using unassigned unfolding codes lit by simp
  ultimately show ?thesis using s codes(1) by (intro exI [of _ s] conjI)
qed

definition fire_env0 :: fire_env where
  "fire_env0 = \<lparr>fe_db = empty_db, fe_conv = \<lparr>fc_time = parse0, fc_float = \<lambda>_. None, fc_coordinate = \<lambda>_. None, fc_repr = \<lambda>_. []\<rparr>,
     fe_clock = 100, fe_clock_asking = 100, fe_clock_asked = 101, fe_clock_stored = 102, fe_now = 9, fe_fetched = 9,
     fe_shared = \<lambda>_. None, fe_shared_fallback = \<lambda>_. None,
     fe_outcome = \<lambda>_. Answered \<lparr>h_status = 200, h_url = [], h_text = [],
       h_json = Some (JObject [(''type'', JString ''FeatureCollection''), (''features'', JList []), (''numberMatched'', JInt 0)]),
       h_retry_after = []\<rparr>,
     fe_during_read = id, fe_during_fetch = id, fe_during_write = id\<rparr>"


end
