(* ===== verification/Deforestation.thy ===== *)
theory Deforestation
  imports Fire_Service
begin

text \<open>
  The deforestation alerts of DETER: the answers of the source, per biome, with their retries
  (\<open>app/providers/deter.py\<close>) and their summary by municipality (\<open>app/services/deforestation_alerts.py\<close>). A date is a
  number of days. \<open>float\<close> of a text and the text of a number are parameters.
\<close>

section \<open>Names\<close>

text \<open>\<open>NFKD\<close> of a Latin-1 character, without what is not ASCII.\<close>

definition ascii_base :: "char \<Rightarrow> string" where
  "ascii_base c = (let n = of_char c :: nat in
     if n < 128 then [c]
     else if n \<in> {160, 168, 175, 180, 184} then '' ''
     else if n = 170 then ''a'' else if n = 186 then ''o''
     else if n = 178 then ''2'' else if n = 179 then ''3'' else if n = 185 then ''1''
     else if n = 188 then ''14'' else if n = 189 then ''12'' else if n = 190 then ''34''
     else if base_letter c \<noteq> c then [base_letter c] else [])"

fun words_from :: "string \<Rightarrow> string \<Rightarrow> string list" where
  "words_from w [] = (if w = [] then [] else [w])"
| "words_from w (c # s) =
     (if is_space c then (if w = [] then [] else [w]) @ words_from [] s else words_from (w @ [c]) s)"

definition normalize_name :: "string \<Rightarrow> string" where
  "normalize_name name = join '' '' (words_from [] (py_lower (concat (List.map ascii_base name))))"

section \<open>The answers of the source\<close>

definition AMAZON :: string where "AMAZON = ''Amaz'' @ [CHR 0xF4] @ ''nia''"

definition BIOMES :: "(string \<times> string \<times> string) list" where
  "BIOMES = [(AMAZON, ''deter-amz'', ''deter_amz''), (''Cerrado'', ''deter-cerrado-nb'', ''deter_cerrado'')]"

definition CLASSES :: "string list" where
  "CLASSES = [''DESMATAMENTO_CR'', ''DESMATAMENTO_VEG'', ''MINERACAO'']"

definition MAX_FEATURES :: nat where "MAX_FEATURES = 20000"

definition ATTEMPTS :: nat where "ATTEMPTS = 3"

definition alerts_filter :: "int \<Rightarrow> string" where
  "alerts_filter since = ''view_date >= '' @ [CHR 0x27] @ iso_date since @ [CHR 0x27] @ '' AND classname IN ('' @
     join '','' (List.map (\<lambda>name. [CHR 0x27] @ name @ [CHR 0x27]) CLASSES) @ '')''"

record deter_alert =
  da_biome :: string
  da_view_date :: int
  da_area :: real
  da_municipality :: string
  da_state :: string
  da_code :: "string option"
  da_longitude :: real
  da_latitude :: real

datatype float_text = NotANumber | NotFinite | Finite real

record deter_conversions =
  dc_float :: "string \<Rightarrow> float_text"
  dc_repr :: "json \<Rightarrow> string"

text \<open>\<open>float(value)\<close>, or \<open>None\<close> when it is infinite or not a number.\<close>

fun to_float :: "(string \<Rightarrow> float_text) \<Rightarrow> json \<Rightarrow> py_error + real option" where
  "to_float f (JInt n) = (if FLOAT_LIMIT \<le> \<bar>n\<bar> then Inl OverflowError else Inr (Some (of_int n)))"
| "to_float f (JFloat x) = Inr (Some x)"
| "to_float f (JBool b) = Inr (Some (if b then 1 else 0))"
| "to_float f (JString s) = (case f s of NotANumber \<Rightarrow> Inl ValueError | NotFinite \<Rightarrow> Inr None | Finite x \<Rightarrow> Inr (Some x))"
| "to_float f v = Inl TypeError"

fun is_json_number :: "json \<Rightarrow> bool" where
  "is_json_number (JInt n) = True"
| "is_json_number (JFloat x) = True"
| "is_json_number (JBool b) = True"
| "is_json_number v = False"

text \<open>
  \<open>_positions\<close>: the pairs of numbers of nested lists. A text that is not empty is its own first character's
  container, so its walk does not end; the \<open>RecursionError\<close> is one of the errors nobody catches, like \<open>OverflowError\<close>,
  which stands for it.
\<close>

fun positions :: "(string \<Rightarrow> float_text) \<Rightarrow> json \<Rightarrow> py_error + (real option \<times> real option) list"
and positions_list :: "(string \<Rightarrow> float_text) \<Rightarrow> json list \<Rightarrow> py_error + (real option \<times> real option) list" where
  "positions f (JList (x # y # rest)) =
     (if is_json_number x then and_then (to_float f x) (\<lambda>lon. and_then (to_float f y) (\<lambda>lat. Inr [(lon, lat)]))
      else positions_list f (x # y # rest))"
| "positions f (JList []) = Inr []"
| "positions f (JList [x]) = positions_list f [x]"
| "positions f (JString s) = (if s = [] then Inr [] else Inl OverflowError)"
| "positions f (JObject kvs) = (if list_all (\<lambda>(k, v). k = []) kvs then Inr [] else Inl OverflowError)"
| "positions f (JInt n) = Inl TypeError"
| "positions f (JFloat r) = Inl TypeError"
| "positions f (JBool b) = Inl TypeError"
| "positions f JNull = Inl TypeError"
| "positions_list f [] = Inr []"
| "positions_list f (x # xs) = and_then (positions f x) (\<lambda>p. and_then (positions_list f xs) (\<lambda>ps. Inr (p @ ps)))"

text \<open>The middle of the extent; a coordinate that is not finite is left out of the model.\<close>

definition centre :: "real list \<Rightarrow> py_error + real" where
  "centre xs = (case xs of [] \<Rightarrow> Inl ValueError
     | x # rest \<Rightarrow> Inr (round_places 4 ((foldl min x rest + foldl max x rest) / 2)))"

definition view_date :: "json \<Rightarrow> py_error + int" where
  "view_date v = (case v of JString s \<Rightarrow> from_option ValueError (date_fromisoformat (take 10 s)) | _ \<Rightarrow> Inl TypeError)"

definition text_or_empty :: "(json \<Rightarrow> string) \<Rightarrow> json \<Rightarrow> string" where
  "text_or_empty repr v = (if truthy v then py_str repr v else [])"

definition parse_alert :: "deter_conversions \<Rightarrow> string \<Rightarrow> json \<Rightarrow> py_error + deter_alert" where
  "parse_alert cv biome raw =
     and_then (sub_key raw ''properties'') (\<lambda>props.
     and_then (and_then (and_then (sub_key raw ''geometry'') (\<lambda>g. sub_key g ''coordinates'')) (positions (dc_float cv))) (\<lambda>points.
     and_then (get_key props ''areamunkm'' JNull) (\<lambda>raw_area.
     and_then (if raw_area = JNull then Inr None else to_float (dc_float cv) raw_area) (\<lambda>area.
     let code = jget props ''mun_geocod''; code_text = py_str (dc_repr cv) code in
     and_then (and_then (sub_key props ''view_date'') view_date) (\<lambda>date.
     and_then (centre (List.map (\<lambda>p. the (fst p)) points)) (\<lambda>lon.
     and_then (centre (List.map (\<lambda>p. the (snd p)) points)) (\<lambda>lat.
       Inr \<lparr>da_biome = biome, da_view_date = date, da_area = max (case area of None \<Rightarrow> 0 | Some x \<Rightarrow> x) 0,
         da_municipality = text_or_empty (dc_repr cv) (jget props ''municipality''),
         da_state = text_or_empty (dc_repr cv) (jget props ''uf''),
         da_code = (if truthy code \<and> length code_text = 7 then Some code_text else None),
         da_longitude = lon, da_latitude = lat\<rparr>)))))))"

datatype biome_failure = BiomeHttp | BiomeError py_error

definition read_biome :: "deter_conversions \<Rightarrow> string \<Rightarrow> json option \<Rightarrow> py_error + deter_alert list" where
  "read_biome cv biome body =
     and_then (from_option ValueError body) (\<lambda>data.
     and_then (sub_key data ''type'') (\<lambda>kind.
       if kind \<noteq> JString ''FeatureCollection'' then Inl ValueError
       else and_then (sub_key data ''features'') (\<lambda>raw.
     and_then (from_option ValueError (as_list raw)) (\<lambda>items.
       if MAX_FEATURES \<le> length items then Inl ValueError else map_each (parse_alert cv biome) items))))"

text \<open>A transport failure or a status from 500 is worth another try.\<close>

fun retryable :: "http_outcome \<Rightarrow> bool" where
  "retryable (Answered r) = (500 \<le> h_status r)"
| "retryable TransportFailure = True"
| "retryable OtherHttpFailure = False"

definition fetch_biome :: "deter_conversions \<Rightarrow> string \<Rightarrow> http_outcome \<Rightarrow> biome_failure + deter_alert list" where
  "fetch_biome cv biome outcome =
     (case successful outcome of
        None \<Rightarrow> Inl BiomeHttp
      | Some r \<Rightarrow> (case read_biome cv biome (h_json r) of Inl e \<Rightarrow> Inl (BiomeError e) | Inr alerts \<Rightarrow> Inr alerts))"

text \<open>The result, and the requests made: the \<open>k\<close>-th meets \<open>net k\<close>.\<close>

function fetch_biome_from ::
    "deter_conversions \<Rightarrow> string \<Rightarrow> (nat \<Rightarrow> http_outcome) \<Rightarrow> nat \<Rightarrow> (biome_failure + deter_alert list) \<times> nat" where
  "fetch_biome_from cv biome net attempt =
     (if successful (net attempt) = None \<and> retryable (net attempt) \<and> attempt + 1 < ATTEMPTS
      then (case fetch_biome_from cv biome net (attempt + 1) of (r, n) \<Rightarrow> (r, n + 1))
      else (fetch_biome cv biome (net attempt), 1))"
  by pat_completeness auto
termination
  by (relation "measure (\<lambda>(_, _, _, attempt). ATTEMPTS - attempt)") auto

declare fetch_biome_from.simps [simp del]

definition fetch_biome_retrying ::
    "deter_conversions \<Rightarrow> string \<Rightarrow> (nat \<Rightarrow> http_outcome) \<Rightarrow> (biome_failure + deter_alert list) \<times> nat" where
  "fetch_biome_retrying cv biome net = fetch_biome_from cv biome net 0"

fun biome_failure_caught :: "biome_failure \<Rightarrow> bool" where
  "biome_failure_caught BiomeHttp = True"
| "biome_failure_caught (BiomeError e) = caught_by_inpe e"

text \<open>The biomes in their order: the alerts and the names of those that answered; an unexpected error stops.\<close>

fun collect_biomes :: "(string \<times> (biome_failure + deter_alert list)) list \<Rightarrow> (deter_alert list \<times> string list) option" where
  "collect_biomes [] = Some ([], [])"
| "collect_biomes ((biome, Inr alerts) # rest) =
     map_option (\<lambda>(as, bs). (alerts @ as, biome # bs)) (collect_biomes rest)"
| "collect_biomes ((biome, Inl e) # rest) = (if biome_failure_caught e then collect_biomes rest else None)"

text \<open>The answer, and whether the source failed and is to be left alone.\<close>

definition fetch_alerts ::
    "deter_conversions \<Rightarrow> clock \<Rightarrow> (string \<Rightarrow> nat \<Rightarrow> http_outcome) \<Rightarrow> source_cooldown
     \<Rightarrow> (raised + deter_alert list \<times> string list) \<times> bool" where
  "fetch_alerts cv now net cooldown =
     (if cooldown_active now cooldown then (Inl provider_unavailable, False)
      else case collect_biomes (List.map (\<lambda>(biome, _, _). (biome, fst (fetch_biome_retrying cv biome (net biome)))) BIOMES) of
        None \<Rightarrow> (Inl RaisedOther, False)
      | Some (alerts, answered) \<Rightarrow>
          if answered = [] then (Inl provider_unavailable, True) else (Inr (alerts, answered), False))"

section \<open>The summary\<close>

record alert_municipality =
  am_code :: string
  am_name :: string
  am_state :: string
  am_area :: "real option"
  am_count :: nat
  am_km2 :: real
  am_density :: "real option"
  am_latest :: "int option"

record alert_point =
  ap_code :: "string option"
  ap_longitude :: real
  ap_latitude :: real
  ap_area :: real
  ap_view_date :: int
  ap_municipality :: string
  ap_state :: string
  ap_biome :: string

record deforestation =
  df_start :: "int option"
  df_end :: "int option"
  df_days :: int
  df_fetched_at :: instant
  df_total :: nat
  df_total_km2 :: real
  df_unassigned :: nat
  df_biomes :: "string list"
  df_partial :: bool
  df_municipalities :: "alert_municipality list"
  df_states :: "alert_municipality list"
  df_ranked :: "alert_municipality list"
  df_points :: "alert_point list"

definition WINDOW_DAYS :: int where "WINDOW_DAYS = 14"

definition LOOKBACK_DAYS :: int where "LOOKBACK_DAYS = 30"

text \<open>\<open>by_name\<close>: the last municipality of a name and a state.\<close>

definition code_by_name :: "area_row list \<Rightarrow> string \<Rightarrow> string \<Rightarrow> string option" where
  "code_by_name areas name state =
     map_of (rev (List.map (\<lambda>a. ((normalize_name (ar_name a), ar_state a), ar_code a)) areas)) (normalize_name name, Some state)"

definition alert_code :: "area_row list \<Rightarrow> deter_alert \<Rightarrow> string option" where
  "alert_code areas a =
     (case da_code a of Some c \<Rightarrow> Some c | None \<Rightarrow> code_by_name areas (da_municipality a) (da_state a))"

record alert_tally =
  at_km2 :: "(string \<times> real) list"
  at_counts :: "(string \<times> nat) list"
  at_latest :: "(string \<times> int) list"

definition lookup_or :: "'v \<Rightarrow> ('k \<times> 'v) list \<Rightarrow> 'k \<Rightarrow> 'v" where
  "lookup_or z m k = (case map_of m k of None \<Rightarrow> z | Some v \<Rightarrow> v)"

definition tally_scope :: "deter_alert \<Rightarrow> alert_tally \<Rightarrow> string \<Rightarrow> alert_tally" where
  "tally_scope a ta scope =
     \<lparr>at_km2 = AList.update scope (lookup_or 0 (at_km2 ta) scope + da_area a) (at_km2 ta),
      at_counts = AList.update scope (lookup_or 0 (at_counts ta) scope + 1) (at_counts ta),
      at_latest = AList.update scope (max (lookup_or (da_view_date a) (at_latest ta) scope) (da_view_date a)) (at_latest ta)\<rparr>"

definition tally_alert :: "alert_tally \<times> nat \<Rightarrow> deter_alert \<times> string option \<Rightarrow> alert_tally \<times> nat" where
  "tally_alert acc coded =
     (case snd coded of
        None \<Rightarrow> (fst acc, snd acc + 1)
      | Some code \<Rightarrow> (foldl (tally_scope (fst coded)) (fst acc) [code, take 2 code], snd acc))"

definition empty_alert_tally :: alert_tally where
  "empty_alert_tally = \<lparr>at_km2 = [], at_counts = [], at_latest = []\<rparr>"

definition build_alert_municipality :: "alert_tally \<Rightarrow> area_row \<Rightarrow> py_error + alert_municipality" where
  "build_alert_municipality ta a =
     (let code = ar_code a; km2 = lookup_or 0 (at_km2 ta) code in
      and_then (from_option ValueError (ar_state a)) (\<lambda>state.
        Inr \<lparr>am_code = code, am_name = ar_name a, am_state = state,
          am_area = (if valid_area (ar_km2 a) then Some (round_places 3 (the (ar_km2 a))) else None),
          am_count = lookup_or 0 (at_counts ta) code, am_km2 = round_places 4 km2,
          am_density = (if valid_area (ar_km2 a) then Some (round_places 3 (km2 * 1000 / the (ar_km2 a))) else None),
          am_latest = map_of (at_latest ta) code\<rparr>))"

definition rank_alerts :: "alert_municipality list \<Rightarrow> alert_municipality list" where
  "rank_alerts ms = take 5 (sort_key (\<lambda>m. - the (am_density m)) (filter (\<lambda>m. am_density m \<noteq> None) ms))"

definition point_of_alert :: "deter_alert \<times> string option \<Rightarrow> alert_point" where
  "point_of_alert coded =
     (let a = fst coded in
      \<lparr>ap_code = snd coded, ap_longitude = da_longitude a, ap_latitude = da_latitude a,
       ap_area = round_places 4 (da_area a), ap_view_date = da_view_date a, ap_municipality = da_municipality a,
       ap_state = da_state a, ap_biome = da_biome a\<rparr>)"

definition aggregate_alerts ::
    "deter_alert list \<Rightarrow> area_row list \<Rightarrow> area_row list \<Rightarrow> instant \<Rightarrow> int \<Rightarrow> string list \<Rightarrow> py_error + deforestation" where
  "aggregate_alerts alerts areas states fetched n biomes =
     (let partial = length biomes < length BIOMES in
      case alerts of
        [] \<Rightarrow> Inr \<lparr>df_start = None, df_end = None, df_days = n, df_fetched_at = fetched, df_total = 0, df_total_km2 = 0,
                df_unassigned = 0, df_biomes = biomes, df_partial = partial, df_municipalities = [], df_states = [],
                df_ranked = [], df_points = []\<rparr>
      | a # rest \<Rightarrow>
          (let until = foldl max (da_view_date a) (List.map da_view_date rest); start = until - (n - 1);
               recent = filter (\<lambda>x. da_view_date x \<ge> start) alerts;
               coded = List.map (\<lambda>x. (x, alert_code areas x)) recent;
               (ta, unassigned) = foldl tally_alert (empty_alert_tally, 0) coded;
               counted = filter (\<lambda>r. lookup_or 0 (at_counts ta) (ar_code r) \<noteq> 0) in
           and_then (map_each (build_alert_municipality ta) (counted areas)) (\<lambda>ms.
           and_then (map_each (build_alert_municipality ta) (counted states)) (\<lambda>ss.
             Inr \<lparr>df_start = Some start, df_end = Some until, df_days = n, df_fetched_at = fetched,
               df_total = length recent, df_total_km2 = round_places 3 (sum_list (List.map da_area recent)),
               df_unassigned = unassigned, df_biomes = biomes, df_partial = partial, df_municipalities = ms,
               df_states = ss, df_ranked = rank_alerts ms, df_points = List.map point_of_alert coded\<rparr>))))"

section \<open>The service\<close>

type_synonym deter_key = "int \<times> int \<times> int"

record deter_state =
  dt_cooldown :: source_cooldown
  dt_cache :: "(deter_key, deforestation) ttl_cache"
  dt_failures :: "(deter_key, bool) ttl_cache"
  dt_areas :: area_state

definition new_deter_state :: "version_cache \<Rightarrow> area_cache \<Rightarrow> deter_state" where
  "new_deter_state versions areas =
     \<lparr>dt_cooldown = new_cooldown 60, dt_cache = new_cache 7200 4, dt_failures = new_cache 60 4,
      dt_areas = \<lparr>as_versions = versions, as_areas = areas\<rparr>\<rparr>"

record deter_env =
  de_db :: db
  de_conv :: deter_conversions
  de_area :: "geometry \<Rightarrow> real"
  de_clock :: clock
  de_clock_asking :: clock
  de_clock_asked :: clock
  de_now :: instant
  de_shared :: "deter_key \<Rightarrow> deforestation option"
  de_net :: "string \<Rightarrow> string \<Rightarrow> nat \<Rightarrow> http_outcome"
  de_during_read :: "deter_state \<Rightarrow> deter_state"
  de_during_fetch :: "deter_state \<Rightarrow> deter_state"

definition summarize_alerts ::
    "deter_env \<Rightarrow> deter_alert list \<times> string list \<Rightarrow> area_state \<Rightarrow> (raised + deforestation) \<times> area_state" where
  "summarize_alerts n answer st =
     (case municipality_areas (de_area n) (de_clock_asked n) (de_clock_asked n) (de_db n) st of
        (Inl e, st1) \<Rightarrow> (Inl e, st1)
      | (Inr areas, st1) \<Rightarrow>
          (case state_areas (de_area n) (de_clock_asked n) (de_clock_asked n) (de_db n) st1 of
             (Inl e, st2) \<Rightarrow> (Inl e, st2)
           | (Inr states, st2) \<Rightarrow>
               (case aggregate_alerts (fst answer) areas states (de_now n) WINDOW_DAYS (snd answer) of
                  Inl e \<Rightarrow> (Inl RaisedOther, st2)
                | Inr r \<Rightarrow> (Inr r, st2))))"

text \<open>The answer, what is written to the shared cache with its seconds to live, and the state.\<close>

definition load_alerts ::
    "deter_env \<Rightarrow> deter_key \<Rightarrow> deter_state \<Rightarrow> (raised + deforestation) \<times> (deter_key \<times> deforestation \<times> int) list \<times> deter_state" where
  "load_alerts n key st =
     (let asked = \<not> cooldown_active (de_clock_asking n) (dt_cooldown st);
          cql = alerts_filter (de_now n div days 1 - LOOKBACK_DAYS);
          (result, failed) = fetch_alerts (de_conv n) (de_clock_asking n) (\<lambda>biome. de_net n biome cql) (dt_cooldown st);
          st1 = (if asked then de_during_fetch n st else st);
          st2 = st1\<lparr>dt_cooldown := trip_if failed (de_clock_asked n) (dt_cooldown st1)\<rparr> in
      case result of
        Inl e \<Rightarrow>
          (Inl e, [], if is_provider_error e
            then st2\<lparr>dt_failures := cache_set (de_clock_asked n) key True None (dt_failures st2)\<rparr> else st2)
      | Inr answer \<Rightarrow>
          (case summarize_alerts n answer (dt_areas st2) of
             (Inl e, areas) \<Rightarrow> (Inl e, [], st2\<lparr>dt_areas := areas\<rparr>)
           | (Inr r, areas) \<Rightarrow>
               (let ttl = (if df_partial r then Some 300 else None) in
                (Inr r, [(key, r, if df_partial r then 300 else 7200)],
                 st2\<lparr>dt_areas := areas, dt_cache := cache_set (de_clock_asked n) key r ttl (dt_cache st2)\<rparr>))))"

definition get_deforestation ::
    "deter_env \<Rightarrow> deter_state \<Rightarrow> (raised + deforestation) \<times> (deter_key \<times> deforestation \<times> int) list \<times> deter_state" where
  "get_deforestation n st =
     (case data_version (de_clock n) (de_clock n) (de_db n) (as_versions (dt_areas st)) of
        (Inl e, vs) \<Rightarrow> (Inl e, [], st\<lparr>dt_areas := (dt_areas st)\<lparr>as_versions := vs\<rparr>\<rparr>)
      | (Inr version, vs) \<Rightarrow>
      (let key = (de_now n div days 1, WINDOW_DAYS, version); st1 = st\<lparr>dt_areas := (dt_areas st)\<lparr>as_versions := vs\<rparr>\<rparr> in
       case cache_get (de_clock n) key (dt_cache st1) of
         (Some r, cache) \<Rightarrow> (Inr r, [], st1\<lparr>dt_cache := cache\<rparr>)
       | (None, cache) \<Rightarrow>
      (let st2 = de_during_read n (st1\<lparr>dt_cache := cache\<rparr>) in
       case de_shared n key of
         Some r \<Rightarrow> (Inr r, [], st2\<lparr>dt_cache := cache_set (de_clock_asking n) key r (Some 30) (dt_cache st2)\<rparr>)
       | None \<Rightarrow>
      (case cache_get (de_clock_asking n) key (dt_failures st2) of
         (failed, failures) \<Rightarrow>
           (let st3 = st2\<lparr>dt_failures := failures\<rparr> in
            if failed = Some True then (Inl provider_unavailable, [], st3) else load_alerts n key st3)))))"

end
