(* ===== verification/Deforestation_Laws.thy ===== *)
theory Deforestation_Laws
  imports Deforestation Fire_Laws
begin

text \<open>
  What the deforestation alerts promise: the summary adds up the alerts of the last days published, and an answer
  is given as long as one biome answers.
\<close>

section \<open>The counters\<close>

type_synonym coded_alerts = "(deter_alert \<times> string option) list"

text \<open>How often an alert counts for a place: once under its code and once under the code of its state.\<close>

definition times_counted :: "string \<Rightarrow> string option \<Rightarrow> nat" where
  "times_counted scope code = (case code of None \<Rightarrow> 0 | Some c \<Rightarrow> count_list [c, take 2 c] scope)"

definition alerts_under :: "string \<Rightarrow> coded_alerts \<Rightarrow> nat" where
  "alerts_under scope coded = sum_list (List.map (\<lambda>(a, code). times_counted scope code) coded)"

definition km2_under :: "string \<Rightarrow> coded_alerts \<Rightarrow> real" where
  "km2_under scope coded = sum_list (List.map (\<lambda>(a, code). of_nat (times_counted scope code) * da_area a) coded)"

lemma lookup_or_update: "lookup_or z (AList.update k v m) j = (if j = k then v else lookup_or z m j)"
  by (simp add: lookup_or_def update_conv')

lemma lookup_or_Nil [simp]: "lookup_or z [] k = z"
  by (simp add: lookup_or_def)

lemma tally_scope_counts:
  "lookup_or 0 (at_counts (tally_scope a ta s)) k = lookup_or 0 (at_counts ta) k + (if k = s then 1 else 0)"
  "lookup_or 0 (at_km2 (tally_scope a ta s)) k = lookup_or 0 (at_km2 ta) k + (if k = s then da_area a else 0)"
  by (simp_all add: tally_scope_def lookup_or_update)

lemma tally_alerts:
  assumes "foldl tally_alert (ta, u) coded = (ta', u')"
  shows "lookup_or 0 (at_counts ta') k = lookup_or 0 (at_counts ta) k + alerts_under k coded \<and>
    lookup_or 0 (at_km2 ta') k = lookup_or 0 (at_km2 ta) k + km2_under k coded \<and>
    u' = u + length (filter (\<lambda>c. snd c = None) coded)"
  using assms
proof (induction coded arbitrary: ta u)
  case (Cons c coded)
  obtain a code where c: "c = (a, code)" by (cases c)
  obtain ta1 u1 where one: "tally_alert (ta, u) c = (ta1, u1)" by fastforce
  have short: "s = take 2 s \<Longrightarrow> length s \<le> 2" for s :: string by (metis length_take min.cobounded2)
  have step: "lookup_or 0 (at_counts ta1) k = lookup_or 0 (at_counts ta) k + times_counted k code \<and>
      lookup_or 0 (at_km2 ta1) k = lookup_or 0 (at_km2 ta) k + of_nat (times_counted k code) * da_area a \<and>
      u1 = u + (if code = None then 1 else 0)"
    using one short by (cases code) (auto simp: tally_alert_def c times_counted_def tally_scope_counts)
  have "foldl tally_alert (ta1, u1) coded = (ta', u')" using Cons.prems one by simp
  from Cons.IH [OF this] step show ?case by (simp add: c alerts_under_def km2_under_def)
qed (simp add: alerts_under_def km2_under_def)

lemma build_alert_municipality_Inr:
  "build_alert_municipality ta a = Inr m \<Longrightarrow> am_code m = ar_code a \<and> am_count m = lookup_or 0 (at_counts ta) (am_code m) \<and>
     am_km2 m = round_places 4 (lookup_or 0 (at_km2 ta) (am_code m))"
  by (auto simp: build_alert_municipality_def Let_def and_then_Inr)

lemma map_each_codes:
  assumes "map_each (build_alert_municipality ta) rows = Inr ms"
  shows "List.map am_code ms = List.map ar_code rows"
  using assms unfolding map_each_Inr by (induction rule: list_all2_induct) (auto dest: build_alert_municipality_Inr)

lemma map_each_member:
  assumes "map_each f xs = Inr ys" and "y \<in> set ys"
  shows "\<exists>x \<in> set xs. f x = Inr y"
proof -
  obtain i where "i < length ys" "y = ys ! i" using assms(2) by (auto simp: in_set_conv_nth)
  then show ?thesis using assms(1) by (intro bexI [of _ "xs ! i"]) (auto simp: map_each_Inr list_all2_conv_all_nth)
qed

lemma foldl_max: "foldl max (x :: int) xs = Max (insert x (set xs))"
proof (induction xs arbitrary: x)
  case (Cons y xs)
  have "Max (insert (max x y) (set xs)) = Max (insert x (set (y # xs)))"
    by (cases "xs = []") (simp_all add: max.assoc)
  then show ?case using Cons [of "max x y"] by simp
qed simp

text \<open>A summary fails only on a municipality of a state without abbreviation.\<close>

lemma aggregate_alerts_fails:
  assumes "aggregate_alerts alerts areas states fetched n biomes = Inl e"
  shows "\<exists>a \<in> set (areas @ states). ar_state a = None"
proof -
  have row: "build_alert_municipality ta a = Inl e \<Longrightarrow> ar_state a = None" for ta a
    by (auto simp: build_alert_municipality_def Let_def and_then_Inl)
  have "\<exists>ta P rows. map_each (build_alert_municipality ta) (filter P rows) = Inl e \<and> rows \<in> {areas, states}"
    using assms unfolding aggregate_alerts_def Let_def
    by (auto simp: and_then_Inl split: list.splits prod.splits)
  then obtain ta P rows where "map_each (build_alert_municipality ta) (filter P rows) = Inl e" "rows \<in> {areas, states}" by blast
  then show ?thesis using map_each_Inl row by fastforce
qed

text \<open>
  The summary of a list of alerts that is not empty is of the days up to the last alert, \<open>n\<close> of them.
  It lists the territories with an alert in those days; each has the number of the alerts of the window under its
  code (or, for a state, under a code of it) and the sum of their areas, to four decimals. The alerts whose
  municipality is unknown are the unassigned ones, each alert of the window is a point, and the answer is partial
  exactly when a biome is missing.
\<close>

theorem deforestation_adds_up:
  assumes "aggregate_alerts alerts areas states fetched n biomes = Inr r" and "alerts \<noteq> []"
  shows "let until = Max (set (List.map da_view_date alerts));
      recent = filter (\<lambda>a. until - n < da_view_date a) alerts; coded = List.map (\<lambda>a. (a, alert_code areas a)) recent in
    df_end r = Some until \<and> df_start r = Some (until - n + 1) \<and> df_total r = length recent \<and>
    df_total_km2 r = round_places 3 (sum_list (List.map da_area recent)) \<and>
    df_unassigned r = length (filter (\<lambda>c. snd c = None) coded) \<and>
    df_points r = List.map point_of_alert coded \<and> (df_partial r \<longleftrightarrow> length biomes < 2) \<and>
    List.map am_code (df_municipalities r) = filter (\<lambda>c. alerts_under c coded > 0) (List.map ar_code areas) \<and>
    List.map am_code (df_states r) = filter (\<lambda>c. alerts_under c coded > 0) (List.map ar_code states) \<and>
    (\<forall>m \<in> set (df_municipalities r @ df_states r).
       am_count m = alerts_under (am_code m) coded \<and> am_km2 m = round_places 4 (km2_under (am_code m) coded))"
proof -
  obtain a rest where al: "alerts = a # rest" using assms(2) by (cases alerts) auto
  define until where "until = Max (set (List.map da_view_date alerts))"
  define recent where "recent = filter (\<lambda>a. until - n < da_view_date a) alerts"
  define coded where "coded = List.map (\<lambda>a. (a, alert_code areas a)) recent"
  obtain ta u where tally: "foldl tally_alert (empty_alert_tally, 0) coded = (ta, u)" by fastforce
  have counts: "lookup_or 0 (at_counts ta) k = alerts_under k coded" "lookup_or 0 (at_km2 ta) k = km2_under k coded"
    and u: "u = length (filter (\<lambda>c. snd c = None) coded)" for k
    using tally_alerts [OF tally] by (simp_all add: empty_alert_tally_def)
  have last: "foldl max (da_view_date a) (List.map da_view_date rest) = until" by (simp add: until_def al foldl_max)
  have window: "filter (\<lambda>x. until - (n - 1) \<le> da_view_date x) alerts = recent"
    unfolding recent_def by (rule filter_cong) auto
  define chosen :: "area_row list \<Rightarrow> area_row list" where "chosen = filter (\<lambda>r. alerts_under (ar_code r) coded \<noteq> 0)"
  obtain ms ss where ms: "map_each (build_alert_municipality ta) (chosen areas) = Inr ms"
    and ss: "map_each (build_alert_municipality ta) (chosen states) = Inr ss"
    and r: "r = \<lparr>df_start = Some (until - (n - 1)), df_end = Some until, df_days = n, df_fetched_at = fetched,
      df_total = length recent, df_total_km2 = round_places 3 (sum_list (List.map da_area recent)),
      df_unassigned = u, df_biomes = biomes, df_partial = (length biomes < length BIOMES), df_municipalities = ms,
      df_states = ss, df_ranked = rank_alerts ms, df_points = List.map point_of_alert coded\<rparr>"
    using assms(1) unfolding aggregate_alerts_def al list.case Let_def last [unfolded al] window [unfolded al]
      coded_def [symmetric] tally prod.case counts chosen_def
    by (auto simp: and_then_Inr)
  have codes: "List.map ar_code (chosen rows) = filter (\<lambda>c. alerts_under c coded > 0) (List.map ar_code rows)" for rows
    by (simp add: chosen_def filter_map comp_def)
  have each: "am_count m = alerts_under (am_code m) coded \<and> am_km2 m = round_places 4 (km2_under (am_code m) coded)"
    if m: "m \<in> set (ms @ ss)" for m
  proof -
    obtain x where "build_alert_municipality ta x = Inr m"
      using m map_each_member [OF ms] map_each_member [OF ss] by auto
    then show ?thesis by (auto dest: build_alert_municipality_Inr simp: counts)
  qed
  show ?thesis
    unfolding Let_def until_def [symmetric] recent_def [symmetric] coded_def [symmetric]
    using each map_each_codes [OF ms] map_each_codes [OF ss] by (simp add: r u codes BIOMES_def numeral_2_eq_2)
qed

section \<open>The answers of the biomes\<close>

lemma fetch_biome_from_requests:
  "attempt < ATTEMPTS \<Longrightarrow> snd (fetch_biome_from cv biome net attempt) \<le> ATTEMPTS - attempt \<and> 0 < snd (fetch_biome_from cv biome net attempt) \<and>
     fst (fetch_biome_from cv biome net attempt) = fetch_biome cv biome (net (attempt + snd (fetch_biome_from cv biome net attempt) - 1)) \<and>
     (\<forall>k. attempt \<le> k \<and> k + 1 < attempt + snd (fetch_biome_from cv biome net attempt) \<longrightarrow>
        successful (net k) = None \<and> retryable (net k))"
proof (induction cv biome net attempt rule: fetch_biome_from.induct)
  case (1 cv biome net attempt)
  let ?again = "successful (net attempt) = None \<and> retryable (net attempt) \<and> attempt + 1 < ATTEMPTS"
  show ?case
  proof (cases ?again)
    case False
    then have "fetch_biome_from cv biome net attempt = (fetch_biome cv biome (net attempt), 1)"
      by (subst fetch_biome_from.simps) auto
    then show ?thesis using "1.prems" by auto
  next
    case True
    obtain r k where rec: "fetch_biome_from cv biome net (attempt + 1) = (r, k)" by fastforce
    have eq: "fetch_biome_from cv biome net attempt = (r, k + 1)" using True rec by (subst fetch_biome_from.simps) simp
    have ih: "k \<le> ATTEMPTS - (attempt + 1) \<and> 0 < k \<and> r = fetch_biome cv biome (net (attempt + 1 + k - 1)) \<and>
        (\<forall>j. attempt + 1 \<le> j \<and> j + 1 < attempt + 1 + k \<longrightarrow> successful (net j) = None \<and> retryable (net j))"
      using "1.IH" [OF True] True rec by simp
    have "successful (net j) = None \<and> retryable (net j)" if "attempt \<le> j \<and> j + 1 < attempt + (k + 1)" for j
    proof (cases "j = attempt")
      case True': True
      then show ?thesis using True by simp
    next
      case False
      then show ?thesis using ih that by simp
    qed
    then show ?thesis using ih True unfolding eq by auto
  qed
qed

lemma collect_biomes_answered:
  "collect_biomes results = Some (alerts, answered) \<Longrightarrow>
     answered = List.map fst (filter (\<lambda>(_, r). \<not> isl r) results) \<and>
     alerts = concat (List.map (\<lambda>(_, r). case r of Inl e \<Rightarrow> [] | Inr as \<Rightarrow> as) results) \<and>
     (\<forall>(_, r) \<in> set results. \<forall>e. r = Inl e \<longrightarrow> biome_failure_caught e)"
  by (induction results arbitrary: alerts answered rule: collect_biomes.induct) (fastforce split: if_splits)+

text \<open>
  A question to DETER asks each biome at most three times, again only after a network failure or a
  status from 500, and takes the outcome of the last request; it answers with the alerts of the biomes that
  answered, and fails with a \<open>ProviderError\<close> only when the source is left alone or no biome answered.
\<close>

theorem deter_answers_if_a_biome_does:
  "case fetch_alerts cv now net cooldown of (result, failed) \<Rightarrow>
     (let requests = \<lambda>b. snd (fetch_biome_retrying cv b (net b)); outcome = \<lambda>b. fetch_biome cv b (net b (requests b - 1)) in
      (\<forall>b. 1 \<le> requests b \<and> requests b \<le> 3 \<and> (\<forall>k < requests b - 1. successful (net b k) = None \<and> retryable (net b k))) \<and>
      (case result of
         Inr (alerts, answered) \<Rightarrow> \<not> cooldown_active now cooldown \<and> \<not> failed \<and> answered \<noteq> [] \<and>
           answered = filter (\<lambda>b. \<not> isl (outcome b)) (List.map fst BIOMES) \<and>
           alerts = concat (List.map (\<lambda>b. case outcome b of Inl e \<Rightarrow> [] | Inr as \<Rightarrow> as) (List.map fst BIOMES))
       | Inl e \<Rightarrow> (e = provider_unavailable \<and> \<not> failed \<and> cooldown_active now cooldown) \<or>
           (e = provider_unavailable \<and> failed \<and> (\<forall>b \<in> set (List.map fst BIOMES). isl (outcome b))) \<or>
           (e = RaisedOther \<and> \<not> failed)))"
proof -
  define requests where "requests = (\<lambda>b. snd (fetch_biome_retrying cv b (net b)))"
  define outcome where "outcome = (\<lambda>b. fetch_biome cv b (net b (requests b - 1)))"
  have req: "1 \<le> requests b \<and> requests b \<le> 3 \<and> (\<forall>k < requests b - 1. successful (net b k) = None \<and> retryable (net b k)) \<and>
      fst (fetch_biome_retrying cv b (net b)) = outcome b" for b
    using fetch_biome_from_requests [of 0 cv b "net b"]
    by (auto simp: requests_def outcome_def fetch_biome_retrying_def ATTEMPTS_def)
  have folds: "snd (fetch_biome_retrying cv b (net b)) = requests b" "fetch_biome cv b (net b (requests b - 1)) = outcome b" for b
    by (simp_all add: requests_def outcome_def)
  let ?results = "List.map (\<lambda>(biome, _, _). (biome, fst (fetch_biome_retrying cv biome (net biome)))) BIOMES"
  have results: "?results = List.map (\<lambda>b. (b, outcome b)) (List.map fst BIOMES)" using req by (simp add: BIOMES_def)
  show ?thesis
  proof (cases "cooldown_active now cooldown \<or> collect_biomes ?results = None")
    case True
    then show ?thesis using req by (auto simp: fetch_alerts_def Let_def requests_def split: option.split)
  next
    case False
    then obtain alerts answered where c: "collect_biomes ?results = Some (alerts, answered)" by (cases "collect_biomes ?results") auto
    have "answered = filter (\<lambda>b. \<not> isl (outcome b)) (List.map fst BIOMES)"
      "alerts = concat (List.map (\<lambda>b. case outcome b of Inl e \<Rightarrow> [] | Inr as \<Rightarrow> as) (List.map fst BIOMES))"
      using collect_biomes_answered [OF c] unfolding results by (simp_all add: BIOMES_def)
    moreover have "fetch_alerts cv now net cooldown =
        (if answered = [] then (Inl provider_unavailable, True) else (Inr (alerts, answered), False))"
      using False c by (auto simp: fetch_alerts_def)
    ultimately show ?thesis using False req
      unfolding Let_def folds by (auto simp: filter_empty_conv)
  qed
qed

section \<open>Concrete runs\<close>

definition alerts0 :: "deter_alert list" where
  "alerts0 = List.map (\<lambda>(day, area, code). \<lparr>da_biome = ''Cerrado'', da_view_date = day, da_area = area, da_municipality = ''x'',
     da_state = ''GO'', da_code = code, da_longitude = 0, da_latitude = 0\<rparr>)
     [(100, 2, Some ''5208707''), (80, 7, Some ''5208707''), (99, 3, None)]"

definition goias :: area_row where
  "goias = \<lparr>ar_code = ''52'', ar_name = ''Goias'', ar_state = Some ''GO'', ar_km2 = None\<rparr>"

theorem deforestation_adds_up_witness:
  "\<exists>r. aggregate_alerts alerts0 [] [goias] 0 14 [''Cerrado''] = Inr r \<and> df_end r = Some 100 \<and> df_total r = 2 \<and> df_unassigned r = 1 \<and>
     df_partial r \<and> List.map am_code (df_states r) = [''52''] \<and> (\<forall>m \<in> set (df_states r). am_count m = 1)"
proof -
  obtain r where r: "aggregate_alerts alerts0 [] [goias] 0 14 [''Cerrado''] = Inr r"
    using aggregate_alerts_fails [of alerts0 "[]" "[goias]" 0 14 "[''Cerrado'']"]
    by (cases "aggregate_alerts alerts0 [] [goias] 0 14 [''Cerrado'']") (auto simp: goias_def)
  let ?a = "alerts0 ! 0" and ?c = "alerts0 ! 2"
  let ?coded = "[(?a, Some ''5208707''), (?c, None)]"
  have ne: "alerts0 \<noteq> []" by (simp add: alerts0_def)
  have until: "Max (set (List.map da_view_date alerts0)) = 100" by (simp add: alerts0_def)
  have recent: "filter (\<lambda>a. 100 - 14 < da_view_date a) alerts0 = [?a, ?c]" by (simp add: alerts0_def)
  have coded: "List.map (\<lambda>a. (a, alert_code [] a)) [?a, ?c] = ?coded"
    by (simp add: alerts0_def alert_code_def code_by_name_def)
  have under: "alerts_under ''52'' ?coded = 1" by (simp add: alerts_under_def times_counted_def)
  note facts = deforestation_adds_up [OF r ne, unfolded Let_def until recent coded]
  have codes: "List.map am_code (df_states r) = [''52'']" using facts under by (simp add: goias_def)
  have "am_count m = 1" if m: "m \<in> set (df_states r)" for m
  proof -
    have "am_code m \<in> set (List.map am_code (df_states r))" using m by simp
    then have "am_code m = ''52''" unfolding codes by simp
    moreover have "am_count m = alerts_under (am_code m) ?coded" using facts m by simp
    ultimately show ?thesis using under by simp
  qed
  moreover have "df_end r = Some 100 \<and> df_total r = 2 \<and> df_unassigned r = 1 \<and> df_partial r" using facts by simp
  ultimately show ?thesis using r codes by (intro exI [of _ r]) simp
qed

theorem deter_answers_if_a_biome_does_witness:
  "let net = (\<lambda>b k. TransportFailure); cv = \<lparr>dc_float = \<lambda>_. NotANumber, dc_repr = \<lambda>_. []\<rparr> in
   fetch_alerts cv 5 net (new_cooldown 60) = (Inl provider_unavailable, True) \<and>
   (\<forall>b. snd (fetch_biome_retrying cv b (net b)) \<le> 3)"
proof -
  let ?net = "\<lambda>b k. TransportFailure" and ?cv = "\<lparr>dc_float = \<lambda>_. NotANumber, dc_repr = \<lambda>_. []\<rparr>"
  have "fst (fetch_biome_retrying ?cv b (?net b)) = Inl BiomeHttp" for b
    using fetch_biome_from_requests [of 0 ?cv b "?net b"]
    by (simp add: fetch_biome_retrying_def ATTEMPTS_def fetch_biome_def)
  then have "fetch_alerts ?cv 5 ?net (new_cooldown 60) = (Inl provider_unavailable, True)"
    by (simp add: fetch_alerts_def BIOMES_def cooldown_active_def new_cooldown_def)
  then show ?thesis
    using deter_answers_if_a_biome_does [where cv = ?cv and now = 5 and net = ?net and cooldown = "new_cooldown 60"] by (simp add: Let_def)
qed

end
