(* ===== verification/Shapefile.thy ===== *)
theory Shapefile
  imports Fires "HOL-Library.Word" "HOL-Library.AList"
begin

text \<open>
  The reader of shapefiles and of their tables (\<open>app/providers/shapefile.py\<close>). A file is the list of its bytes. A
  double is not converted by the program, only moved: it is its eight bytes. Offsets are Python's: a negative one
  counts from the end, and a file whose lengths are negative can send the reader back, so that reading is a partial
  function, whose value \<open>None\<close> is a reading that does not end.
\<close>

section \<open>Bytes\<close>

type_synonym bytes = "8 word list"

text \<open>\<open>xs[a:b]\<close>.\<close>

definition bound_in :: "int \<Rightarrow> int \<Rightarrow> nat" where
  "bound_in n i = nat (if i < 0 then max 0 (n + i) else min i n)"

definition slice :: "int \<Rightarrow> int \<Rightarrow> 'a list \<Rightarrow> 'a list" where
  "slice a b xs = (let n = int (length xs) in take (bound_in n b - bound_in n a) (drop (bound_in n a) xs))"

text \<open>\<open>struct.unpack_from\<close>: the \<open>k\<close> bytes at an offset, an error where there are fewer.\<close>

definition read_at :: "nat \<Rightarrow> bytes \<Rightarrow> int \<Rightarrow> raised + bytes" where
  "read_at k data offset =
     (let n = int (length data); start = (if offset < 0 then offset + n else offset) in
      if start < 0 \<or> n < start + int k then Inl RaisedOther else Inr (take k (drop (nat start) data)))"

definition unsigned_be :: "bytes \<Rightarrow> nat" where
  "unsigned_be bs = foldl (\<lambda>n b. 256 * n + unat b) 0 bs"

definition unsigned_le :: "bytes \<Rightarrow> nat" where
  "unsigned_le bs = unsigned_be (rev bs)"

definition as_signed :: "nat \<Rightarrow> int" where
  "as_signed n = (if n < 2 ^ 31 then int n else int n - 2 ^ 32)"

definition be_int :: "bytes \<Rightarrow> int \<Rightarrow> raised + int" where
  "be_int data offset = and_then (read_at 4 data offset) (\<lambda>bs. Inr (as_signed (unsigned_be bs)))"

definition le_int :: "bytes \<Rightarrow> int \<Rightarrow> raised + int" where
  "le_int data offset = and_then (read_at 4 data offset) (\<lambda>bs. Inr (as_signed (unsigned_le bs)))"

text \<open>\<open>struct.pack\<close> of an unsigned number of four bytes.\<close>

definition pack_be :: "nat \<Rightarrow> bytes" where
  "pack_be n = [word_of_nat (n div 2 ^ 24), word_of_nat (n div 2 ^ 16), word_of_nat (n div 2 ^ 8), word_of_nat n]"

definition pack_le :: "nat \<Rightarrow> bytes" where
  "pack_le n = rev (pack_be n)"

section \<open>WKB\<close>

definition NULL_SHAPE :: int where "NULL_SHAPE = 0"
definition POINT :: int where "POINT = 1"
definition POLYLINE :: int where "POLYLINE = 3"

definition WKB_POINT :: nat where "WKB_POINT = 1"
definition WKB_LINESTRING :: nat where "WKB_LINESTRING = 2"
definition WKB_MULTILINESTRING :: nat where "WKB_MULTILINESTRING = 5"

text \<open>A header of two numbers: the order of the bytes, the type and the count.\<close>

definition wkb_header :: "nat \<Rightarrow> nat \<Rightarrow> bytes" where
  "wkb_header kind n = 1 # pack_le kind @ pack_le n"

text \<open>A point is the sixteen bytes of its two doubles.\<close>

definition wkb_point :: "bytes \<Rightarrow> bytes" where
  "wkb_point xy = 1 # pack_le WKB_POINT @ xy"

definition wkb_linestring :: "bytes list \<Rightarrow> bytes" where
  "wkb_linestring part = wkb_header WKB_LINESTRING (length part) @ concat part"

definition wkb_multilinestring :: "bytes list list \<Rightarrow> bytes" where
  "wkb_multilinestring parts = wkb_header WKB_MULTILINESTRING (length parts) @ concat (List.map wkb_linestring parts)"

section \<open>Shapes\<close>

text \<open>The indices where the parts begin; a negative count is not a format.\<close>

definition part_starts :: "bytes \<Rightarrow> int \<Rightarrow> raised + int list" where
  "part_starts content num_parts =
     (if num_parts < 0 then Inl RaisedOther
      else and_then (read_at (4 * nat num_parts) content 44) (\<lambda>_.
        map_each (\<lambda>i. le_int content (44 + 4 * int i)) [0..<nat num_parts]))"

definition part_ends :: "int list \<Rightarrow> int \<Rightarrow> int list" where
  "part_ends starts num_points = tl (starts @ [num_points])"

definition polyline_parts :: "bytes \<Rightarrow> int \<Rightarrow> (int \<times> int) list \<Rightarrow> bytes list" where
  "polyline_parts content offset bounds =
     List.map (\<lambda>(start, stop). wkb_header WKB_LINESTRING (nat (stop - start)) @ slice (offset + 16 * start) (offset + 16 * stop) content)
       (filter (\<lambda>(start, stop). 2 \<le> stop - start) bounds)"

definition polyline_wkb :: "bytes \<Rightarrow> raised + bytes option" where
  "polyline_wkb content =
     and_then (read_at 8 content 36) (\<lambda>_.
     and_then (le_int content 36) (\<lambda>num_parts.
     and_then (le_int content 40) (\<lambda>num_points.
     and_then (part_starts content num_parts) (\<lambda>starts.
       let chunks = polyline_parts content (44 + 4 * num_parts) (zip starts (part_ends starts num_points)) in
       Inr (if chunks = [] then None
            else Some (wkb_header WKB_MULTILINESTRING (length chunks) @ concat chunks))))))"

definition read_record :: "bytes \<Rightarrow> int \<Rightarrow> raised + bytes option \<times> int" where
  "read_record data offset =
     and_then (be_int data (offset + 4)) (\<lambda>half.
       let span = half * 2; content = slice (offset + 8) (offset + 8 + span) data; rest = offset + (8 + span) in
       and_then (le_int content 0) (\<lambda>kind.
         if kind = NULL_SHAPE then Inr (None, rest)
         else if kind = POINT then and_then (read_at 16 content 4) (\<lambda>xy. Inr (Some (wkb_point xy), rest))
         else if kind = POLYLINE then and_then (polyline_wkb content) (\<lambda>g. Inr (g, rest))
         else Inl provider_unavailable))"

partial_function (option) read_records :: "bytes \<Rightarrow> int \<Rightarrow> (raised + bytes option list) option" where
  "read_records data offset =
     (if offset + 8 \<le> int (length data)
      then (case read_record data offset of
              Inl e \<Rightarrow> Some (Inl e)
            | Inr (g, rest) \<Rightarrow>
                Option.bind (read_records data rest) (\<lambda>r. Some (and_then r (\<lambda>gs. Inr (g # gs)))))
      else Some (Inr []))"

declare read_records.simps [code]

definition read_shapes :: "bytes \<Rightarrow> (raised + bytes option list) option" where
  "read_shapes data =
     (if length data < 100 \<or> be_int data 0 \<noteq> Inr 9994 then Some (Inl provider_unavailable)
      else case le_int data 32 of
          Inl e \<Rightarrow> Some (Inl e)
        | Inr kind \<Rightarrow>
            if kind \<noteq> POINT \<and> kind \<noteq> POLYLINE then Some (Inl provider_unavailable) else read_records data 100)"

section \<open>Tables\<close>

text \<open>\<open>decode encoding bs\<close> is \<open>bs.decode(encoding, "replace")\<close>, \<open>None\<close> for an encoding that does not exist.\<close>

type_synonym decoder = "string \<Rightarrow> bytes \<Rightarrow> string option"

definition ascii_name :: "bytes \<Rightarrow> raised + string" where
  "ascii_name bs =
     (let name = takeWhile (\<lambda>b. b \<noteq> 0) bs in
      if list_ex (\<lambda>b. 128 \<le> unat b) name then Inl RaisedOther
      else Inr (py_lower (List.map (\<lambda>b. char_of (unat b)) name)))"

function read_fields :: "bytes \<Rightarrow> nat \<Rightarrow> nat \<Rightarrow> raised + (string \<times> nat) list" where
  "read_fields data header_length position =
     (if header_length \<le> position + 1 then Inr []
      else if length data \<le> position then Inl RaisedOther
      else if data ! position = 0x0D then Inr []
      else and_then (ascii_name (take 11 (drop position data))) (\<lambda>name.
        if length data \<le> position + 16 then Inl RaisedOther
        else and_then (read_fields data header_length (position + 32)) (\<lambda>columns.
          Inr ((name, unat (data ! (position + 16))) # columns))))"
  by pat_completeness auto
termination
  by (relation "measure (\<lambda>(_, header_length, position). header_length - position)") auto

declare read_fields.simps [simp del]

text \<open>A value of asterisks alone is an absent number.\<close>

definition cell_text :: "string \<Rightarrow> string" where
  "cell_text s = (if s \<noteq> [] \<and> list_all (\<lambda>c. c = CHR ''*'') s then [] else s)"

fun read_cells :: "decoder \<Rightarrow> string \<Rightarrow> bytes \<Rightarrow> nat \<Rightarrow> (string \<times> nat) list \<Rightarrow> (string \<times> string) list \<Rightarrow> raised + (string \<times> string) list" where
  "read_cells decode encoding record column [] cells = Inr cells"
| "read_cells decode encoding record column ((name, width) # columns) cells =
     (case decode encoding (take width (drop column record)) of
        None \<Rightarrow> Inl RaisedOther
      | Some s \<Rightarrow>
          read_cells decode encoding record (column + width) columns (AList.update name (cell_text (py_strip s)) cells))"

definition read_row :: "decoder \<Rightarrow> string \<Rightarrow> (string \<times> nat) list \<Rightarrow> bytes \<Rightarrow> raised + (string \<times> string) list" where
  "read_row decode encoding columns record =
     (if take 1 record = [0x2A] then Inr [] else read_cells decode encoding record 1 columns [])"

definition read_dbf :: "decoder \<Rightarrow> bytes \<Rightarrow> string \<Rightarrow> raised + (string \<times> string) list list" where
  "read_dbf decode data encoding =
     (if length data < 32 then Inl provider_unavailable
      else (let rows = unsigned_le (take 4 (drop 4 data)); header_length = unsigned_le (take 2 (drop 8 data));
                record_length = unsigned_le (take 2 (drop 10 data)) in
        and_then (read_fields data header_length 32) (\<lambda>columns.
          map_each (\<lambda>i. read_row decode encoding columns (take record_length (drop (header_length + i * record_length) data)))
            [0..<rows])))"

end
