(* ===== verification/Weather_Feeds.thy ===== *)
theory Weather_Feeds
  imports Weather_Alerts Fire_Service
begin

text \<open>
  The official alerts: the answers of INMET and CEMADEN as records (\<open>app/providers/inmet/alerts.py\<close>,
  \<open>app/providers/cemaden/alerts.py\<close>) and the two jobs that store them (\<open>app/jobs/import_weather_inmet_alerts.py\<close>,
  \<open>app/jobs/import_weather_cemaden_alerts.py\<close>). The fields of an answer are any JSON: those that are not checked
  travel as they are to the statement, which refuses what is not a text. Time stamps, the JSON in a text, the text of
  a JSON value and the GeoJSON that PostGIS accepts as a polygon are parameters.
\<close>

section \<open>Records\<close>

record feed_record =
  fr_external_id :: string
  fr_event :: json
  fr_severity :: json
  fr_onset :: instant
  fr_expires :: instant
  fr_polygon :: json
  fr_color :: json
  fr_description :: "string option"
  fr_affected :: "string list"
  fr_risks :: "json list"
  fr_instructions :: "json list"

record feed_conversions =
  fc_instant :: "string \<Rightarrow> instant option"
  fc_loads :: "string \<Rightarrow> json option"
  fc_dumps :: "json \<Rightarrow> string"
  fc_repr :: "json \<Rightarrow> string"
  fc_polygon :: "string \<Rightarrow> bool"

text \<open>\<open>_parse_iso\<close>: \<open>fc_instant\<close> is \<open>datetime.fromisoformat\<close>.\<close>

definition parse_iso :: "feed_conversions \<Rightarrow> json \<Rightarrow> instant option" where
  "parse_iso cv v = (case v of JString s \<Rightarrow> fc_instant cv (utc_suffix s) | _ \<Rightarrow> None)"

definition or_text :: "json \<Rightarrow> string \<Rightarrow> json" where
  "or_text v fallback = (if truthy v then v else JString fallback)"

section \<open>INMET\<close>

definition parse_polygon :: "feed_conversions \<Rightarrow> json \<Rightarrow> json option" where
  "parse_polygon cv v =
     (case v of
        JObject _ \<Rightarrow> Some v
      | JString s \<Rightarrow> (case fc_loads cv s of Some (JObject kvs) \<Rightarrow> Some (JObject kvs) | _ \<Rightarrow> None)
      | _ \<Rightarrow> None)"

definition split_codes :: "json \<Rightarrow> string list" where
  "split_codes v =
     (case v of
        JString s \<Rightarrow> if py_strip s = [] then [] else filter py_isdigit (List.map py_strip (py_split (CHR '','') s))
      | _ \<Rightarrow> [])"

text \<open>\<open>tuple(value or ())\<close>.\<close>

definition tuple_or_empty :: "json \<Rightarrow> raised + json list" where
  "tuple_or_empty v =
     (if truthy v then (case iter_values v of Inl _ \<Rightarrow> Inl RaisedOther | Inr xs \<Rightarrow> Inr xs) else Inr [])"

definition NO_EVENT :: string where "NO_EVENT = ''Aviso meteorol'' @ [CHR 0xF3] @ ''gico''"

definition inmet_alert :: "feed_conversions \<Rightarrow> json \<Rightarrow> raised + feed_record option" where
  "inmet_alert cv entry =
     (case (jget entry ''id_aviso'', parse_iso cv (jget entry ''data_inicio''), parse_iso cv (jget entry ''data_fim''),
            parse_polygon cv (jget entry ''poligono'')) of
        (external_id, Some onset, Some expires, Some polygon) \<Rightarrow>
          if external_id = JNull then Inr None
          else and_then (tuple_or_empty (jget entry ''riscos'')) (\<lambda>risks.
            and_then (tuple_or_empty (jget entry ''instrucoes'')) (\<lambda>instructions.
              Inr (Some \<lparr>fr_external_id = py_str (fc_repr cv) external_id,
                fr_event = or_text (jget entry ''descricao'') NO_EVENT,
                fr_severity = or_text (jget entry ''severidade'') ''Desconhecida'',
                fr_onset = onset, fr_expires = expires, fr_polygon = polygon, fr_color = jget entry ''aviso_cor'',
                fr_description = None, fr_affected = split_codes (jget entry ''geocodes''),
                fr_risks = risks, fr_instructions = instructions\<rparr>)))
      | _ \<Rightarrow> Inr None)"

text \<open>The records of the entries of a list, in order; the first exception ends the reading.\<close>

fun collect_records :: "(json \<Rightarrow> bool) \<Rightarrow> (json \<Rightarrow> raised + feed_record option) \<Rightarrow> json list \<Rightarrow> raised + feed_record list" where
  "collect_records keep read [] = Inr []"
| "collect_records keep read (e # es) =
     (if keep e
      then and_then (read e) (\<lambda>r. and_then (collect_records keep read es) (\<lambda>rs. Inr (case r of None \<Rightarrow> rs | Some x \<Rightarrow> x # rs)))
      else collect_records keep read es)"

definition inmet_records :: "feed_conversions \<Rightarrow> json \<Rightarrow> raised + feed_record list" where
  "inmet_records cv raw =
     (case (is_dict raw, as_list (jget raw ''hoje'')) of
        (True, Some entries) \<Rightarrow>
          collect_records (\<lambda>e. is_dict e \<and> \<not> truthy (jget e ''encerrado'')) (inmet_alert cv) entries
      | _ \<Rightarrow> Inl provider_unavailable)"

definition fetch_inmet_alerts :: "feed_conversions \<Rightarrow> (nat \<Rightarrow> http_outcome) \<Rightarrow> raised + feed_record list" where
  "fetch_inmet_alerts cv net = and_then (fst (get_json ''/avisos/ativos'' net)) (inmet_records cv)"

section \<open>CEMADEN\<close>

definition LEVEL_COLORS :: "(string \<times> string) list" where
  "LEVEL_COLORS = [(''Moderado'', ''#FFFF00''), (''Alto'', ''#FFA500''), (''Muito Alto'', ''#FF0000'')]"

definition VALIDITY_SECONDS :: int where "VALIDITY_SECONDS = 3 * 600"

definition event_type :: "json \<Rightarrow> json \<Rightarrow> string option" where
  "event_type event level =
     (case event of
        JString s \<Rightarrow>
          if py_strip s = [] then None
          else (let cleaned = py_strip s;
                    suffix = (case level of JString n \<Rightarrow> if n = [] then [] else '' - '' @ n | _ \<Rightarrow> []);
                    rest = (if suffix \<noteq> [] \<and> ends_with cleaned suffix then take (length cleaned - length suffix) cleaned else cleaned) in
                if py_strip rest = [] then None else Some (py_strip rest))
      | _ \<Rightarrow> None)"

definition place_description :: "json \<Rightarrow> json \<Rightarrow> string option" where
  "place_description city state =
     (case city of
        JString c \<Rightarrow>
          if py_strip c = [] then None
          else Some (case state of
                 JString u \<Rightarrow> if py_strip u = [] then py_strip c else py_strip c @ ''/'' @ py_strip u
               | _ \<Rightarrow> py_strip c)
      | _ \<Rightarrow> None)"

definition ibge_code :: "json \<Rightarrow> string list" where
  "ibge_code v =
     (case v of JInt n \<Rightarrow> [int_to_string n] | JString s \<Rightarrow> if py_isdigit (py_strip s) then [py_strip s] else [] | _ \<Rightarrow> [])"

definition pdf_instruction :: "json \<Rightarrow> string list" where
  "pdf_instruction v =
     (case v of JString s \<Rightarrow> if py_strip s = [] then [] else [''Boletim oficial do CEMADEN: '' @ py_strip s] | _ \<Rightarrow> [])"

text \<open>\<open>value == 1\<close>.\<close>

fun equals_one :: "json \<Rightarrow> bool" where
  "equals_one (JInt n) = (n = 1)"
| "equals_one (JFloat x) = (x = 1)"
| "equals_one (JBool b) = b"
| "equals_one _ = False"

definition level_color :: "json \<Rightarrow> json" where
  "level_color level =
     (case level of JString n \<Rightarrow> (case map_of LEVEL_COLORS n of None \<Rightarrow> JNull | Some c \<Rightarrow> JString c) | _ \<Rightarrow> JNull)"

definition cemaden_alert :: "feed_conversions \<Rightarrow> instant \<Rightarrow> json \<Rightarrow> feed_record option" where
  "cemaden_alert cv fetched_at feature =
     (let props = jget feature ''properties''; geometry = jget feature ''geometry''; level = jget props ''nivel'' in
      if \<not> is_dict props \<or> \<not> is_dict geometry \<or> \<not> equals_one (jget props ''status'') then None
      else case (jget props ''id_alerta'', parse_iso cv (jget props ''datahoracriacao''), event_type (jget props ''evento'') level) of
          (external_id, Some onset, Some event) \<Rightarrow>
            if external_id = JNull then None
            else Some \<lparr>fr_external_id = py_str (fc_repr cv) external_id, fr_event = JString event,
              fr_severity = (case level of JString n \<Rightarrow> or_text level ''Desconhecida'' | _ \<Rightarrow> JString ''Desconhecida''),
              fr_onset = onset, fr_expires = fetched_at + seconds VALIDITY_SECONDS, fr_polygon = geometry,
              fr_color = level_color level, fr_description = place_description (jget props ''cidade'') (jget props ''uf''),
              fr_affected = ibge_code (jget props ''codibge''), fr_risks = [],
              fr_instructions = List.map JString (pdf_instruction (jget props ''path_pdf''))\<rparr>
        | _ \<Rightarrow> None)"

definition cemaden_records :: "feed_conversions \<Rightarrow> instant \<Rightarrow> json \<Rightarrow> raised + feed_record list" where
  "cemaden_records cv fetched_at raw =
     (case (is_dict raw, as_list (jget raw ''features'')) of
        (True, Some fs) \<Rightarrow> collect_records is_dict (\<lambda>f. Inr (cemaden_alert cv fetched_at f)) fs
      | _ \<Rightarrow> Inl provider_unavailable)"

definition fetch_cemaden_alerts :: "feed_conversions \<Rightarrow> instant \<Rightarrow> (nat \<Rightarrow> http_outcome) \<Rightarrow> raised + feed_record list" where
  "fetch_cemaden_alerts cv fetched_at net = and_then (fst (get_json ''/ows'' net)) (cemaden_records cv fetched_at)"

section \<open>The statement\<close>

text \<open>
  The parameters of the upsert: arrays of texts, which refuse a value that is neither a text nor \<open>None\<close>; the columns
  that are not null refuse \<open>None\<close>, and the columns a text too long or a polygon that is none. An element of the lists of risks and instructions
  is kept as JSON; here one that is not a text is kept as the text of its JSON.
\<close>

definition text_parameter :: "json \<Rightarrow> raised + string option" where
  "text_parameter v = (case v of JNull \<Rightarrow> Inr None | JString s \<Rightarrow> Inr (Some s) | _ \<Rightarrow> Inl RaisedOther)"

definition fits_column :: "nat \<Rightarrow> string option \<Rightarrow> bool" where
  "fits_column n v = (case v of None \<Rightarrow> True | Some s \<Rightarrow> length s \<le> n)"

definition element_text :: "feed_conversions \<Rightarrow> json \<Rightarrow> string" where
  "element_text cv v = (case v of JString s \<Rightarrow> s | _ \<Rightarrow> fc_dumps cv v)"

definition bind_record :: "feed_conversions \<Rightarrow> feed_record \<Rightarrow> raised + alert_record" where
  "bind_record cv r =
     and_then (text_parameter (fr_event r)) (\<lambda>event.
     and_then (text_parameter (fr_severity r)) (\<lambda>severity.
     and_then (text_parameter (fr_color r)) (\<lambda>color.
     and_then (from_option RaisedOther event) (\<lambda>ev.
     and_then (from_option RaisedOther severity) (\<lambda>sv.
       if length (fr_external_id r) \<le> 120 \<and> length ev \<le> 80 \<and> length sv \<le> 40 \<and> fits_column 16 color \<and> fits_column 200 (fr_description r) \<and>
          fc_polygon cv (fc_dumps cv (fr_polygon r))
       then Inr \<lparr>ar_external_id = fr_external_id r, ar_event = ev, ar_severity = sv, ar_color = color,
              ar_description = fr_description r, ar_onset = fr_onset r, ar_expires = fr_expires r,
              ar_polygon = fc_dumps cv (fr_polygon r), ar_affected_ibge_codes = fr_affected r,
              ar_risks = List.map (element_text cv) (fr_risks r), ar_instructions = List.map (element_text cv) (fr_instructions r)\<rparr>
       else Inl RaisedOther)))))"

section \<open>The jobs\<close>

text \<open>What PostGIS, the sequence of the table and the message of an error are to a job.\<close>

record feed_env =
  fx_conversions :: feed_conversions
  fx_to_polygon :: "geometry \<Rightarrow> geometry"
  fx_st_equals :: "geometry \<Rightarrow> geometry \<Rightarrow> bool"
  fx_new_id :: "nat \<Rightarrow> int"
  fx_message :: "raised \<Rightarrow> string"
  fx_dataset :: dataset

text \<open>
  The body of a job: the exit code, the report and the database, where the data set is committed first. A
  \<open>ProviderError\<close> ends the job with a failure in the report; another exception is passed on.
\<close>

definition import_alerts ::
    "feed_env \<Rightarrow> string \<Rightarrow> weather_provider \<Rightarrow> raised + feed_record list \<Rightarrow> int \<Rightarrow> db \<Rightarrow> (raised + int) \<times> run_report \<times> db" where
  "import_alerts n scope provider fetched run d =
     (let d1 = snd (upsert_dataset (fx_dataset n) d) in
      case fetched of
        Inl e \<Rightarrow>
          if is_provider_error e
          then (let rep = record_failure scope (fx_message n e) new_report in (Inr 1, rep\<lparr>rp_failed := rp_failed rep + 1\<rparr>, d1))
          else (Inl e, new_report, d1)
      | Inr records \<Rightarrow>
          (let rep = new_report\<lparr>rp_processed := int (length records)\<rparr> in
           case and_then (map_each (bind_record (fx_conversions n)) records)
                  (\<lambda>rs. upsert_alerts (fx_to_polygon n) (fx_st_equals n) (fx_new_id n) provider rs d1) of
             Inl e \<Rightarrow> (Inl e, rep, d1)
           | Inr (written, d2) \<Rightarrow>
               (Inr 0, rep\<lparr>rp_written := written, rp_details := [(''alerts'', int_to_string (int (length records)))]\<rparr>, d2)))"

definition import_inmet_alerts ::
    "feed_env \<Rightarrow> (nat \<Rightarrow> http_outcome) \<Rightarrow> int \<Rightarrow> db \<Rightarrow> (raised + int) \<times> run_report \<times> db" where
  "import_inmet_alerts n net = import_alerts n ''avisos'' Inmet (fetch_inmet_alerts (fx_conversions n) net)"

definition import_cemaden_alerts ::
    "feed_env \<Rightarrow> instant \<Rightarrow> (nat \<Rightarrow> http_outcome) \<Rightarrow> int \<Rightarrow> db \<Rightarrow> (raised + int) \<times> run_report \<times> db" where
  "import_cemaden_alerts n fetched_at net =
     import_alerts n ''alertas'' Cemaden (fetch_cemaden_alerts (fx_conversions n) fetched_at net)"

end
