(* ===== verification/Weather_Stations.thy ===== *)
theory Weather_Stations
  imports Weather_Feeds Deforestation Indicators
begin

text \<open>
  The automatic stations of INMET: the answers of the source (\<open>app/providers/inmet/stations.py\<close>), the import of the
  stations and of their last readings (\<open>app/jobs/import_weather_inmet_stations.py\<close>), the query of the current readings
  (\<open>app/repositories/weather.py\<close>) and its cached collection (\<open>app/services/weather.py\<close>); and the loop that repeats
  the jobs of the alerts (\<open>app/jobs/weather_scheduler.py\<close>).
\<close>

section \<open>Records and rows\<close>

text \<open>
  A decimal of a text: \<open>Decimal\<close> also reads infinities and what is not a number. A column \<open>numeric\<close> refuses the
  infinities.
\<close>

datatype decimal_text = NotADecimal | DecimalNaN | DecimalInfinity bool | DecimalValue rat

datatype reading = Reading rat | InfiniteReading

record station_record =
  sr_code :: json
  sr_name :: json
  sr_latitude :: float_text
  sr_longitude :: float_text
  sr_state :: json

record observation_record =
  or_at :: instant
  or_temperature :: "reading option"
  or_humidity :: "reading option"
  or_pressure :: "reading option"
  or_precipitation :: "reading option"

record station =
  ws_id :: int
  ws_provider :: weather_provider
  ws_code :: string
  ws_name :: string
  ws_geom :: geometry
  ws_state :: "string option"

record observation_row =
  wo_station_id :: int
  wo_at :: instant
  wo_temperature :: "rat option"
  wo_humidity :: "rat option"
  wo_pressure :: "rat option"
  wo_precipitation :: "rat option"
  wo_dataset_id :: int
  wo_run_id :: "int option"

record station_db =
  sb_stations :: "station list"
  sb_observations :: "observation_row list"

record station_conversions =
  sc_float :: "string \<Rightarrow> float_text"
  sc_decimal :: "string \<Rightarrow> decimal_text"
  sc_repr :: "json \<Rightarrow> string"

section \<open>The source\<close>

definition RATE_LIMIT_MARKER :: string where
  "RATE_LIMIT_MARKER = ''limite de requisi'' @ [CHR 0xE7, CHR 0xF5] @ ''es''"

definition RATE_LIMIT_ATTEMPTS :: nat where "RATE_LIMIT_ATTEMPTS = 5"

definition RATE_LIMIT_BACKOFF :: real where "RATE_LIMIT_BACKOFF = 4"

definition LOOKBACK :: int where "LOOKBACK = 2"

definition MISSING_THRESHOLD :: rat where "MISSING_THRESHOLD = - 9990"

definition error_text :: "domain_error \<Rightarrow> string \<Rightarrow> string" where
  "error_text e key = (case map_of (err_details e) key of Some (DText s) \<Rightarrow> s | _ \<Rightarrow> [])"

text \<open>
  The source tells a limit in the body of an error. \<open>net a k\<close> is what request \<open>k\<close> of attempt \<open>a\<close> meets; the result,
  the attempts made, and the seconds slept between them.
\<close>

function get_json_limited_from :: "string \<Rightarrow> (nat \<Rightarrow> nat \<Rightarrow> http_outcome) \<Rightarrow> nat \<Rightarrow> (raised + json) \<times> nat \<times> real list" where
  "get_json_limited_from path net attempt =
     (if RATE_LIMIT_ATTEMPTS < attempt then (Inl RaisedOther, 0, [])
      else case fst (get_json path (net attempt)) of
          Inr v \<Rightarrow> (Inr v, 1, [])
        | Inl (RaisedDomain e) \<Rightarrow>
            if \<not> is_instance (err_kind e) ProviderError \<or> \<not> contains_text RATE_LIMIT_MARKER (error_text e ''body'') \<or>
              attempt = RATE_LIMIT_ATTEMPTS
            then (Inl (RaisedDomain e), 1, [])
            else (case get_json_limited_from path net (attempt + 1) of
                    (r, made, slept) \<Rightarrow> (r, Suc made, RATE_LIMIT_BACKOFF * of_nat attempt # slept))
        | Inl e \<Rightarrow> (Inl e, 1, []))"
  by pat_completeness auto
termination
  by (relation "measure (\<lambda>(_, _, attempt). Suc RATE_LIMIT_ATTEMPTS - attempt)") auto

declare get_json_limited_from.simps [simp del]

definition get_json_limited :: "string \<Rightarrow> (nat \<Rightarrow> nat \<Rightarrow> http_outcome) \<Rightarrow> (raised + json) \<times> nat \<times> real list" where
  "get_json_limited path net = get_json_limited_from path net 1"

definition comma_to_point :: "string \<Rightarrow> string" where
  "comma_to_point s = List.map (\<lambda>c. if c = CHR '','' then CHR ''.'' else c) s"

definition to_float :: "station_conversions \<Rightarrow> json \<Rightarrow> float_text" where
  "to_float cv v = sc_float cv (comma_to_point (py_str (sc_repr cv) v))"

definition to_decimal :: "station_conversions \<Rightarrow> json \<Rightarrow> raised + reading option" where
  "to_decimal cv v =
     (if v = JNull \<or> v = JString [] then Inr None
      else case sc_decimal cv (comma_to_point (py_str (sc_repr cv) v)) of
          NotADecimal \<Rightarrow> Inr None
        | DecimalNaN \<Rightarrow> Inl RaisedOther
        | DecimalInfinity positive \<Rightarrow> Inr (if positive then Some InfiniteReading else None)
        | DecimalValue x \<Rightarrow> Inr (if x \<le> MISSING_THRESHOLD then None else Some (Reading x)))"

definition read_stations :: "station_conversions \<Rightarrow> json \<Rightarrow> raised + station_record list" where
  "read_stations cv raw =
     (case as_list raw of
        None \<Rightarrow> Inl provider_unavailable
      | Some entries \<Rightarrow> Inr (concat (List.map (\<lambda>e.
          let code = jget e ''CD_ESTACAO''; latitude = to_float cv (jget e ''VL_LATITUDE'');
              longitude = to_float cv (jget e ''VL_LONGITUDE'') in
          if \<not> is_dict e \<or> jget e ''CD_SITUACAO'' \<noteq> JString ''Operante'' \<or> \<not> truthy code \<or>
            latitude = NotANumber \<or> longitude = NotANumber then []
          else [\<lparr>sr_code = code, sr_name = (if truthy (jget e ''DC_NOME'') then jget e ''DC_NOME'' else code),
                 sr_latitude = latitude, sr_longitude = longitude, sr_state = jget e ''SG_ESTADO''\<rparr>]) entries)))"

definition fetch_stations :: "station_conversions \<Rightarrow> (nat \<Rightarrow> http_outcome) \<Rightarrow> raised + station_record list" where
  "fetch_stations cv net = and_then (fst (get_json ''/estacoes/T'' net)) (read_stations cv)"

text \<open>\<open>str.zfill(4)\<close>, which keeps a sign in front.\<close>

definition zfill4 :: "string \<Rightarrow> string" where
  "zfill4 s =
     (let zeros = replicate (4 - length s) CHR ''0'' in
      case s of c # cs \<Rightarrow> if c = CHR ''+'' \<or> c = CHR ''-'' then c # zeros @ cs else zeros @ s | [] \<Rightarrow> zeros)"

definition measured_at :: "station_conversions \<Rightarrow> json \<Rightarrow> json \<Rightarrow> instant option" where
  "measured_at cv raw_date raw_time =
     (if \<not> truthy raw_date \<or> raw_time = JNull then None
      else let padded = zfill4 (py_strip (py_str (sc_repr cv) raw_time)) in
        case (date_fromisoformat (take 10 (py_str (sc_repr cv) raw_date)), parse_int (take 2 padded), parse_int (take 2 (drop 2 padded))) of
          (Some day, Some hour, Some minute) \<Rightarrow>
            if 0 \<le> hour \<and> hour \<le> 23 \<and> 0 \<le> minute \<and> minute \<le> 59 then Some (days day + hours hour + minutes minute) else None
        | _ \<Rightarrow> None)"

definition to_observation :: "station_conversions \<Rightarrow> json \<Rightarrow> raised + observation_record option" where
  "to_observation cv entry =
     (case measured_at cv (jget entry ''DT_MEDICAO'') (jget entry ''HR_MEDICAO'') of
        None \<Rightarrow> Inr None
      | Some t \<Rightarrow>
          and_then (to_decimal cv (jget entry ''TEM_INS'')) (\<lambda>temperature.
          and_then (to_decimal cv (jget entry ''UMD_INS'')) (\<lambda>humidity.
          and_then (to_decimal cv (jget entry ''PRE_INS'')) (\<lambda>pressure.
          and_then (to_decimal cv (jget entry ''CHUVA'')) (\<lambda>rain.
            Inr (Some \<lparr>or_at = t, or_temperature = temperature, or_humidity = humidity, or_pressure = pressure,
              or_precipitation = rain\<rparr>))))))"

text \<open>\<open>max(observations, key=...)\<close>: the first of the latest.\<close>

fun latest_of :: "observation_record \<Rightarrow> observation_record list \<Rightarrow> observation_record" where
  "latest_of o1 [] = o1"
| "latest_of o1 (o2 # os) = latest_of (if or_at o1 < or_at o2 then o2 else o1) os"

definition latest_observation :: "station_conversions \<Rightarrow> json \<Rightarrow> raised + observation_record option" where
  "latest_observation cv raw =
     (case raw of
        JList entries \<Rightarrow>
          and_then (map_each (to_observation cv) (filter is_dict entries)) (\<lambda>os.
            Inr (case List.map_filter id os of [] \<Rightarrow> None | o1 # rest \<Rightarrow> Some (latest_of o1 rest)))
      | _ \<Rightarrow> Inr None)"

definition observation_path :: "int \<Rightarrow> string \<Rightarrow> string" where
  "observation_path today code =
     ''/estacao/'' @ iso_date (today - LOOKBACK) @ ''/'' @ iso_date today @ ''/'' @ code"

text \<open>An answer 204 (no content) is a \<open>ProviderError\<close> of that status; the station has no reading then.\<close>

definition fetch_latest_observation ::
    "station_conversions \<Rightarrow> int \<Rightarrow> string \<Rightarrow> (nat \<Rightarrow> nat \<Rightarrow> http_outcome) \<Rightarrow> raised + observation_record option" where
  "fetch_latest_observation cv today code net =
     (case fst (get_json_limited (observation_path today code) net) of
        Inl (RaisedDomain e) \<Rightarrow>
          if is_instance (err_kind e) ProviderError \<and> map_of (err_details e) ''status'' = Some (DInt 204) then Inr None
          else Inl (RaisedDomain e)
      | Inl e \<Rightarrow> Inl e
      | Inr raw \<Rightarrow> latest_observation cv raw)"

section \<open>Upserts that skip equal rows\<close>

text \<open>
  \<open>INSERT ... ON CONFLICT DO UPDATE ... WHERE changed\<close>: a row that meets one this statement wrote is an error; the
  length of the rows written is the number of affected rows.
\<close>

definition upsert_changed_row ::
    "('r \<Rightarrow> 'r \<Rightarrow> bool) \<Rightarrow> ('r \<Rightarrow> 'r \<Rightarrow> bool) \<Rightarrow> ('r \<Rightarrow> 'r \<Rightarrow> 'r) \<Rightarrow> 'r list \<times> 'r list \<Rightarrow> 'r \<Rightarrow> raised + 'r list \<times> 'r list" where
  "upsert_changed_row same changed merge = (\<lambda>(touched, t) r.
     if list_ex (same r) touched then Inl RaisedOther
     else Inr ((case select_first (same r) t of
                  None \<Rightarrow> touched @ [r]
                | Some x \<Rightarrow> if changed x r then touched @ [r] else touched),
               insert_or_update same (\<lambda>r x. if changed x r then merge r x else x) r t))"

definition same_station :: "station \<Rightarrow> station \<Rightarrow> bool" where
  "same_station a b \<longleftrightarrow> ws_provider a = ws_provider b \<and> ws_code a = ws_code b"

definition station_changed :: "(geometry \<Rightarrow> geometry \<Rightarrow> bool) \<Rightarrow> station \<Rightarrow> station \<Rightarrow> bool" where
  "station_changed st_equals target excluded \<longleftrightarrow>
     ws_name target \<noteq> ws_name excluded \<or> \<not> st_equals (ws_geom target) (ws_geom excluded) \<or> ws_state target \<noteq> ws_state excluded"

definition merge_station :: "station \<Rightarrow> station \<Rightarrow> station" where
  "merge_station excluded target =
     target\<lparr>ws_name := ws_name excluded, ws_geom := ws_geom excluded, ws_state := ws_state excluded\<rparr>"

definition same_observation :: "observation_row \<Rightarrow> observation_row \<Rightarrow> bool" where
  "same_observation a b \<longleftrightarrow> wo_station_id a = wo_station_id b \<and> wo_at a = wo_at b"

definition observation_changed :: "observation_row \<Rightarrow> observation_row \<Rightarrow> bool" where
  "observation_changed target excluded \<longleftrightarrow>
     wo_temperature target \<noteq> wo_temperature excluded \<or> wo_humidity target \<noteq> wo_humidity excluded \<or>
     wo_pressure target \<noteq> wo_pressure excluded \<or> wo_precipitation target \<noteq> wo_precipitation excluded"

definition merge_observation :: "observation_row \<Rightarrow> observation_row \<Rightarrow> observation_row" where
  "merge_observation excluded target =
     excluded\<lparr>wo_station_id := wo_station_id target, wo_at := wo_at target\<rparr>"

section \<open>The import\<close>

record station_env =
  sx_conversions :: station_conversions
  sx_point :: "float_text \<Rightarrow> float_text \<Rightarrow> geometry"
  sx_st_equals :: "geometry \<Rightarrow> geometry \<Rightarrow> bool"
  sx_new_id :: "nat \<Rightarrow> int"
  sx_message :: "raised \<Rightarrow> string"
  sx_dataset :: dataset

definition MAX_CONCURRENCY :: nat where "MAX_CONCURRENCY = 2"

definition bind_station :: "station_env \<Rightarrow> nat \<times> station_record \<Rightarrow> raised + station" where
  "bind_station n ir =
     (case ir of (i, r) \<Rightarrow>
        and_then (and_then (text_parameter (sr_code r)) (from_option RaisedOther)) (\<lambda>code.
        and_then (and_then (text_parameter (sr_name r)) (from_option RaisedOther)) (\<lambda>name.
        and_then (text_parameter (sr_state r)) (\<lambda>state.
          if length code \<le> 32 \<and> length name \<le> 160 \<and> fits_column 4 state
          then Inr \<lparr>ws_id = sx_new_id n i, ws_provider = Inmet, ws_code = code, ws_name = name,
                 ws_geom = sx_point n (sr_longitude r) (sr_latitude r), ws_state = state\<rparr>
          else Inl RaisedOther))))"

definition upsert_stations :: "station_env \<Rightarrow> station_record list \<Rightarrow> station_db \<Rightarrow> raised + nat \<times> station_db" where
  "upsert_stations n records s =
     (if records = [] then Inr (0, s)
      else and_then (map_each (bind_station n) (zip [0..<length records] records)) (\<lambda>rows.
        and_then (fold_each (upsert_changed_row same_station (station_changed (sx_st_equals n)) merge_station) ([], sb_stations s) rows)
          (\<lambda>(touched, t). Inr (length touched, s\<lparr>sb_stations := t\<rparr>))))"

definition station_ids :: "json list \<Rightarrow> station_db \<Rightarrow> (string \<times> int) list" where
  "station_ids codes s =
     List.map (\<lambda>r. (ws_code r, ws_id r)) (filter (\<lambda>r. ws_provider r = Inmet \<and> JString (ws_code r) \<in> set codes) (sb_stations s))"

text \<open>\<open>numeric(p, s)\<close>.\<close>

definition numeric_column :: "nat \<Rightarrow> nat \<Rightarrow> reading option \<Rightarrow> raised + rat option" where
  "numeric_column p s v =
     (case v of
        None \<Rightarrow> Inr None
      | Some InfiniteReading \<Rightarrow> Inl RaisedOther
      | Some (Reading x) \<Rightarrow> (let r = round_away s x in if \<bar>r\<bar> < 10 ^ (p - s) then Inr (Some r) else Inl RaisedOther))"

definition bind_observation :: "int \<Rightarrow> int \<Rightarrow> int \<times> observation_record \<Rightarrow> raised + observation_row" where
  "bind_observation dataset run io =
     (case io of (station_id, o1) \<Rightarrow>
        and_then (numeric_column 5 2 (or_temperature o1)) (\<lambda>temperature.
        and_then (numeric_column 5 2 (or_humidity o1)) (\<lambda>humidity.
        and_then (numeric_column 6 2 (or_pressure o1)) (\<lambda>pressure.
        and_then (numeric_column 7 2 (or_precipitation o1)) (\<lambda>rain.
          Inr \<lparr>wo_station_id = station_id, wo_at = or_at o1, wo_temperature = temperature, wo_humidity = humidity,
            wo_pressure = pressure, wo_precipitation = rain, wo_dataset_id = dataset, wo_run_id = Some run\<rparr>)))))"

definition persist_observations :: "int \<Rightarrow> int \<Rightarrow> (int \<times> observation_record) list \<Rightarrow> station_db \<Rightarrow> raised + nat \<times> station_db" where
  "persist_observations dataset run obs s =
     (if obs = [] then Inr (0, s)
      else and_then (map_each (bind_observation dataset run) obs) (\<lambda>rows.
        and_then (fold_each (upsert_changed_row same_observation observation_changed merge_observation) ([], sb_observations s) rows)
          (\<lambda>(touched, t). Inr (length touched, s\<lparr>sb_observations := t\<rparr>))))"

text \<open>
  The results of the stations, asked two at a time, are taken in order: a station that is not in the table is passed
  over, a failure is reported, a reading is kept.
\<close>

definition take_result ::
    "(raised \<Rightarrow> string) \<Rightarrow> (string \<times> int) list \<Rightarrow> (int \<times> observation_record) list \<times> run_report
     \<Rightarrow> string \<times> (raised + observation_record option) \<Rightarrow> (int \<times> observation_record) list \<times> run_report" where
  "take_result message ids acc cr =
     (case (acc, cr) of ((obs, rep), (code, result)) \<Rightarrow>
        (case map_of (rev ids) code of
           None \<Rightarrow> (obs, rep)
         | Some i \<Rightarrow>
             (case result of
                Inl e \<Rightarrow> (obs, let rep1 = record_failure (''estacao:'' @ code) (message e) rep in rep1\<lparr>rp_failed := rp_failed rep1 + 1\<rparr>)
              | Inr None \<Rightarrow> (obs, rep)
              | Inr (Some o1) \<Rightarrow> (obs @ [(i, o1)], rep))))"

definition import_stations ::
    "station_env \<Rightarrow> (nat \<Rightarrow> http_outcome) \<Rightarrow> (string \<Rightarrow> raised + observation_record option) \<Rightarrow> int \<Rightarrow> db \<Rightarrow> station_db
     \<Rightarrow> (raised + int) \<times> run_report \<times> db \<times> station_db" where
  "import_stations n net observe run d s =
     (let (dataset, d1) = upsert_dataset (sx_dataset n) d in
      case fetch_stations (sx_conversions n) net of
        Inl e \<Rightarrow>
          if is_provider_error e
          then (let rep = record_failure ''estacoes'' (sx_message n e) new_report in (Inr 1, rep\<lparr>rp_failed := rp_failed rep + 1\<rparr>, d1, s))
          else (Inl e, new_report, d1, s)
      | Inr records \<Rightarrow>
          (let rep = new_report\<lparr>rp_processed := int (length records)\<rparr> in
           case upsert_stations n records s of
             Inl e \<Rightarrow> (Inl e, rep, d1, s)
           | Inr (written, s1) \<Rightarrow>
               (let codes = List.map sr_code records; ids = station_ids codes s1;
                    asked = List.map_filter as_string codes;
                    (obs, rep1) = foldl (take_result (sx_message n) ids) ([], rep\<lparr>rp_written := int written\<rparr>)
                      (List.map (\<lambda>code. (code, observe code)) (concat (batches MAX_CONCURRENCY asked))) in
                case persist_observations dataset run obs s1 of
                  Inl e \<Rightarrow> (Inl e, rep1, d1, s1)
                | Inr (stored, s2) \<Rightarrow>
                    (Inr 0, rep1\<lparr>rp_written := rp_written rep1 + int stored,
                       rp_details := [(''stations'', int_to_string (int (length records))), (''observations'', int_to_string (int (length obs)))]\<rparr>,
                     d1, s2))))"

section \<open>The current readings\<close>

record station_row =
  cr_provider :: string
  cr_code :: string
  cr_name :: string
  cr_state :: "string option"
  cr_at :: instant
  cr_temperature :: "rat option"
  cr_humidity :: "rat option"
  cr_pressure :: "rat option"
  cr_precipitation :: "rat option"
  cr_geometry :: string

definition last_observation :: "int \<Rightarrow> station_db \<Rightarrow> observation_row option" where
  "last_observation station_id s =
     (case sort_key (\<lambda>o1. - wo_at o1) (filter (\<lambda>o1. wo_station_id o1 = station_id) (sb_observations s)) of
        [] \<Rightarrow> None | o1 # _ \<Rightarrow> Some o1)"

definition station_row_of :: "(geometry \<Rightarrow> string) \<Rightarrow> station \<Rightarrow> observation_row \<Rightarrow> station_row" where
  "station_row_of geojson st o1 =
     \<lparr>cr_provider = provider_value (ws_provider st), cr_code = ws_code st, cr_name = ws_name st, cr_state = ws_state st,
      cr_at = wo_at o1, cr_temperature = wo_temperature o1, cr_humidity = wo_humidity o1, cr_pressure = wo_pressure o1,
      cr_precipitation = wo_precipitation o1, cr_geometry = geojson (ws_geom st)\<rparr>"

definition list_current_stations :: "(string \<Rightarrow> string) \<Rightarrow> (geometry \<Rightarrow> string) \<Rightarrow> station_db \<Rightarrow> station_row list" where
  "list_current_stations collate geojson s =
     sort_key (\<lambda>r. collate (cr_code r))
       (List.map_filter (\<lambda>st. map_option (station_row_of geojson st) (last_observation (ws_id st) s)) (sb_stations s))"

text \<open>The feature of a row: its identifier and the row.\<close>

definition station_feature :: "station_row \<Rightarrow> string \<times> station_row" where
  "station_feature r = (cr_provider r @ '':'' @ cr_code r, r)"

type_synonym station_cache = "(string, (string \<times> station_row) list) ttl_cache"

definition new_station_cache :: station_cache where "new_station_cache = new_cache 90 1"

definition get_stations ::
    "(string \<Rightarrow> string) \<Rightarrow> (geometry \<Rightarrow> string) \<Rightarrow> clock \<Rightarrow> clock \<Rightarrow> station_db \<Rightarrow> station_cache
     \<Rightarrow> (raised + (string \<times> station_row) list) \<times> station_cache" where
  "get_stations collate geojson now later s c =
     read_through now later ''stations'' (\<lambda>_. Inr (List.map station_feature (list_current_stations collate geojson s))) c"

section \<open>The scheduler\<close>

datatype scheduled = InmetAlerts | CemadenAlerts | DispatchNotifications

definition SCHEDULED :: "scheduled list" where "SCHEDULED = [InmetAlerts, CemadenAlerts, DispatchNotifications]"

text \<open>\<open>start\<close> and \<open>stop\<close>: the tasks that run.\<close>

definition start_scheduler :: "bool \<Rightarrow> scheduled list \<Rightarrow> scheduled list" where
  "start_scheduler enabled tasks = (if \<not> enabled \<or> tasks \<noteq> [] then tasks else SCHEDULED)"

definition stop_scheduler :: "scheduled list \<Rightarrow> scheduled list" where
  "stop_scheduler tasks = []"

text \<open>The first cycles of a task: an exception of the job is logged and the next cycle comes after the pause.\<close>

primrec cycles :: "(nat \<Rightarrow> 'd \<Rightarrow> (raised + int) \<times> 'd) \<Rightarrow> nat \<Rightarrow> 'd \<Rightarrow> 'd" where
  "cycles job 0 d = d"
| "cycles job (Suc k) d = snd (job k (cycles job k d))"

end
