(* ===== verification/Transport_Sources.thy ===== *)
theory Transport_Sources
  imports Shapefile Weather_Stations
begin

text \<open>
  The sources of the transport network: the continuous map of IBGE, read from the shapefiles of an archive
  (\<open>app/providers/bc250.py\<close>), and the federal roads of DNIT, read in pages (\<open>app/providers/dnit.py\<close>). Texts are
  Latin-1, so the stretch of a road, whose two ends the program joins with a long dash, keeps its two ends. Opening an
  archive is \<open>zipfile\<close>'s: an archive is the names of its members with their bytes, \<open>None\<close> for a damaged one.
\<close>

section \<open>Features\<close>

datatype transport_layer = RoadFederal | RoadState | RoadLocal | Rail | Waterway | Port

fun layer_key :: "transport_layer \<Rightarrow> string" where
  "layer_key RoadFederal = ''road_federal''"
| "layer_key RoadState = ''road_state''"
| "layer_key RoadLocal = ''road_local''"
| "layer_key Rail = ''rail''"
| "layer_key Waterway = ''waterway''"
| "layer_key Port = ''port''"

datatype attribute_text = Plain string | Stretch string string

record transport_feature =
  tf_layer :: transport_layer
  tf_name :: "string option"
  tf_geometry :: bytes
  tf_attributes :: "(string \<times> attribute_text) list"

text \<open>\<open>text or None\<close>\<close>

definition or_absent :: "string \<Rightarrow> string option" where
  "or_absent s = (if s = [] then None else Some s)"

section \<open>A remote file\<close>

text \<open>A file read by ranges: \<open>server a b\<close> is the answer to the bytes \<open>a\<close> to \<open>b\<close>, a status and a body, or no answer.\<close>

datatype remote_failure = HttpFailure | RemoteRaised raised

record remote_file =
  rf_position :: int
  rf_size :: int

definition open_remote :: "(nat \<times> int option) option \<Rightarrow> remote_failure + remote_file" where
  "open_remote head =
     (case head of
        None \<Rightarrow> Inl HttpFailure
      | Some (status, header) \<Rightarrow>
          (case header of
             Some n \<Rightarrow>
               if status = 200 then Inr \<lparr>rf_position = 0, rf_size = n\<rparr> else Inl (RemoteRaised provider_unavailable)
           | None \<Rightarrow> Inl (RemoteRaised provider_unavailable)))"

datatype whence = SeekSet | SeekCur | SeekEnd

definition seek :: "int \<Rightarrow> whence \<Rightarrow> remote_file \<Rightarrow> int \<times> remote_file" where
  "seek offset whence f =
     (let position = (case whence of SeekSet \<Rightarrow> 0 | SeekCur \<Rightarrow> rf_position f | SeekEnd \<Rightarrow> rf_size f) + offset in
      (position, f\<lparr>rf_position := position\<rparr>))"

text \<open>\<open>readinto\<close> a buffer of \<open>k\<close> bytes, which refuses a body that is longer.\<close>

definition readinto ::
    "(int \<Rightarrow> int \<Rightarrow> (nat \<times> bytes) option) \<Rightarrow> nat \<Rightarrow> remote_file \<Rightarrow> (remote_failure + bytes) \<times> remote_file" where
  "readinto server k f =
     (if rf_size f \<le> rf_position f then (Inr [], f)
      else case server (rf_position f) (min (rf_position f + int k) (rf_size f) - 1) of
          None \<Rightarrow> (Inl HttpFailure, f)
        | Some (status, data) \<Rightarrow>
            if status \<noteq> 206 then (Inl (RemoteRaised provider_unavailable), f)
            else if k < length data then (Inl (RemoteRaised RaisedOther), f)
            else (Inr data, f\<lparr>rf_position := rf_position f + int (length data)\<rparr>))"

section \<open>The layers of the archive\<close>

definition MEMBERS :: "string list" where
  "MEMBERS = [''rod_trecho_rodoviario_l'', ''fer_trecho_ferroviario_l'', ''hdv_trecho_hidroviario_l'', ''hdv_complexo_portuario_p'']"

type_synonym archive = "(string \<times> bytes option) list"

type_synonym map_layer = "bytes \<times> bytes \<times> string"

text \<open>\<open>Path(name).name\<close>\<close>

definition path_name :: "string \<Rightarrow> string" where
  "path_name s = (case rev (filter (\<lambda>p. p \<noteq> [] \<and> p \<noteq> ''.'') (py_split (CHR ''/'') s)) of [] \<Rightarrow> [] | p # _ \<Rightarrow> p)"

datatype archive_failure = BadArchive | ArchiveHttp | ArchiveRaised raised

definition read_member :: "archive \<Rightarrow> string \<Rightarrow> archive_failure + bytes" where
  "read_member z name =
     (case map_of (rev (List.map (\<lambda>(n, bs). (path_name n, n)) z)) name of
        None \<Rightarrow> Inl (ArchiveRaised provider_unavailable)
      | Some full \<Rightarrow> (case map_of (rev z) full of Some (Some bs) \<Rightarrow> Inr bs | _ \<Rightarrow> Inl BadArchive))"

definition member_encoding :: "archive \<Rightarrow> string \<Rightarrow> archive_failure + string" where
  "member_encoding z name =
     (if name \<notin> path_name ` fst ` set z then Inr ''latin-1''
      else and_then (read_member z name) (\<lambda>bs.
        if list_ex (\<lambda>b. 128 \<le> unat b) bs then Inl (ArchiveRaised RaisedOther)
        else Inr (py_strip (List.map (\<lambda>b. char_of (unat b)) bs))))"

definition read_layers :: "archive \<Rightarrow> archive_failure + (string \<times> map_layer) list" where
  "read_layers z =
     map_each (\<lambda>m.
       and_then (read_member z (m @ ''.shp'')) (\<lambda>shp.
       and_then (read_member z (m @ ''.dbf'')) (\<lambda>dbf.
       and_then (member_encoding z (m @ ''.cpg'')) (\<lambda>encoding. Inr (m, shp, dbf, encoding))))) MEMBERS"

text \<open>
  The layers of a local file, or of the remote one, where a failure of the connection or a damaged archive becomes a
  \<open>ProviderError\<close>.
\<close>

definition download_layers :: "bool \<Rightarrow> archive_failure + archive \<Rightarrow> raised + (string \<times> map_layer) list" where
  "download_layers from_file opened =
     (case and_then opened read_layers of
        Inr layers \<Rightarrow> Inr layers
      | Inl (ArchiveRaised e) \<Rightarrow> Inl e
      | Inl _ \<Rightarrow> Inl (if from_file then RaisedOther else provider_unavailable))"

section \<open>The features of the map of IBGE\<close>

definition BUILT :: string where "BUILT = ''Constru'' @ [CHR 0xED] @ ''da''"

definition EXISTING :: "string list" where
  "EXISTING = [BUILT, BUILT @ '', mas em obras'', ''Desconhecida'', []]"

definition NOT_APPLICABLE :: string where "NOT_APPLICABLE = ''N'' @ [CHR 0xE3] @ ''o aplic'' @ [CHR 0xE1] @ ''vel''"

definition UNKNOWN :: "string list" where
  "UNKNOWN = [[], ''Desconhecida'', ''Desconhecido'', NOT_APPLICABLE, ''Outros'']"

type_synonym dbf_row = "(string \<times> string) list"

definition cell :: "dbf_row \<Rightarrow> string \<Rightarrow> string" where
  "cell row key = (case map_of row key of None \<Rightarrow> [] | Some s \<Rightarrow> s)"

definition known_attributes :: "(string \<times> string) list \<Rightarrow> (string \<times> attribute_text) list" where
  "known_attributes kvs = List.map (\<lambda>(k, v). (k, Plain v)) (filter (\<lambda>(_, v). v \<notin> set UNKNOWN) kvs)"

definition map_records :: "decoder \<Rightarrow> map_layer \<Rightarrow> (raised + (bytes \<times> dbf_row) list) option" where
  "map_records decode layer =
     (case layer of (shp, dbf, encoding) \<Rightarrow>
        map_option (\<lambda>shapes.
          and_then shapes (\<lambda>gs. and_then (read_dbf decode dbf encoding) (\<lambda>rows.
            if length gs \<noteq> length rows then Inl provider_unavailable
            else Inr (List.map_filter (\<lambda>(g, row). if row = [] then None else map_option (\<lambda>b. (b, row)) g) (zip gs rows)))))
          (read_shapes shp))"

definition existing :: "dbf_row \<Rightarrow> bool" where
  "existing row \<longleftrightarrow> cell row ''situacaofi'' \<in> set EXISTING"

definition road_feature :: "bytes \<times> dbf_row \<Rightarrow> transport_feature option" where
  "road_feature gr =
     (case gr of (geometry, row) \<Rightarrow>
        let jurisdiction = cell row ''jurisdicao''; state = (jurisdiction = ''Estadual/Distrital'') in
        if jurisdiction = ''Federal'' \<or> jurisdiction = ''Propriedade particular'' \<or> \<not> existing row then None
        else Some \<lparr>tf_layer = (if state then RoadState else RoadLocal), tf_name = or_absent (cell row ''sigla''),
               tf_geometry = geometry,
               tf_attributes = known_attributes
                 (if state then [(''surface'', cell row ''revestimen''), (''administration'', cell row ''administra''),
                                 (''concession'', cell row ''concession'')]
                  else [(''surface'', cell row ''revestimen'')])\<rparr>)"

definition rail_feature :: "bytes \<times> dbf_row \<Rightarrow> transport_feature option" where
  "rail_feature gr =
     (case gr of (geometry, row) \<Rightarrow>
        if \<not> existing row then None
        else Some \<lparr>tf_layer = Rail, tf_name = or_absent (cell row ''nome''), tf_geometry = geometry,
               tf_attributes = known_attributes
                 [(''gauge'', cell row ''bitola''), (''electrified'', cell row ''eletrifica''),
                  (''operator'', if cell row ''concession'' = [] then cell row ''administra'' else cell row ''concession''),
                  (''operating'', cell row ''operaciona'')]\<rparr>)"

definition waterway_feature :: "bytes \<times> dbf_row \<Rightarrow> transport_feature option" where
  "waterway_feature gr =
     (case gr of (geometry, row) \<Rightarrow>
        if \<not> existing row then None
        else Some \<lparr>tf_layer = Waterway, tf_name = or_absent (cell row ''nome''), tf_geometry = geometry,
               tf_attributes = known_attributes [(''regime'', cell row ''regime''), (''operating'', cell row ''operaciona'')]\<rparr>)"

definition NO_TEXT :: string where "NO_TEXT = ''N'' @ [CHR 0xE3] @ ''o''"

definition port_feature :: "bytes \<times> dbf_row \<Rightarrow> transport_feature option" where
  "port_feature gr =
     (case gr of (geometry, row) \<Rightarrow>
        if \<not> existing row \<or> map_of row ''operaciona'' = Some NO_TEXT then None
        else Some \<lparr>tf_layer = Port, tf_name = or_absent (cell row ''nome''), tf_geometry = geometry,
               tf_attributes = known_attributes [(''cargo'', cell row ''tipotransp''), (''administration'', cell row ''administra'')]\<rparr>)"

text \<open>\<open>features\<close>: one generator after the other; the first that fails ends them all.\<close>

definition layer_features ::
    "decoder \<Rightarrow> (bytes \<times> dbf_row \<Rightarrow> transport_feature option) \<Rightarrow> map_layer \<Rightarrow> (raised + transport_feature list) option" where
  "layer_features decode feature layer =
     map_option (\<lambda>r. and_then r (\<lambda>records. Inr (List.map_filter feature records))) (map_records decode layer)"

fun chain_features :: "(raised + transport_feature list) option list \<Rightarrow> (raised + transport_feature list) option" where
  "chain_features [] = Some (Inr [])"
| "chain_features (None # rs) = None"
| "chain_features (Some (Inl e) # rs) = Some (Inl e)"
| "chain_features (Some (Inr fs) # rs) = map_option (\<lambda>r. and_then r (\<lambda>gs. Inr (fs @ gs))) (chain_features rs)"

definition map_features :: "decoder \<Rightarrow> (string \<times> map_layer) list \<Rightarrow> (raised + transport_feature list) option" where
  "map_features decode layers =
     chain_features (List.map (\<lambda>(member, feature). case map_of layers member of
         None \<Rightarrow> Some (Inl RaisedOther) | Some layer \<Rightarrow> layer_features decode feature layer)
       (zip MEMBERS [road_feature, rail_feature, waterway_feature, port_feature]))"

section \<open>The roads of DNIT\<close>

definition WFS_URL :: string where "WFS_URL = ''https://servicos.dnit.gov.br/dnitgeo/geoserver/ows''"

definition SNV_PAGE :: nat where "SNV_PAGE = 2000"

definition DUPLICATION :: string where "DUPLICATION = ''Em obras de duplica'' @ [CHR 0xE7, CHR 0xE3] @ ''o''"

definition PAVING :: string where "PAVING = ''Em obras de pavimenta'' @ [CHR 0xE7, CHR 0xE3] @ ''o''"

definition SURFACES :: "(string \<times> string) list" where
  "SURFACES = [(''DUP'', ''Duplicada''), (''EOD'', DUPLICATION), (''PAV'', ''Pavimentada''), (''EOP'', PAVING),
     (''IMP'', ''Implantada (sem pavimento)''), (''LEN'', ''Leito natural'')]"

definition NOT_EXISTING :: "string list" where "NOT_EXISTING = [''PLA'', ''EOI'', ''TRV'']"

definition latest_version :: "(json \<Rightarrow> string) \<Rightarrow> (nat \<Rightarrow> http_outcome) \<Rightarrow> raised + string" where
  "latest_version repr net =
     and_then (fst (get_json WFS_URL net)) (\<lambda>payload.
       case and_then (sub_key payload ''features'') (\<lambda>fs. and_then (sub_index fs 0) (\<lambda>f.
              and_then (sub_key f ''properties'') (\<lambda>props. sub_key props ''Versao_SNV''))) of
         Inl _ \<Rightarrow> Inl provider_unavailable
       | Inr v \<Rightarrow>
           if py_strip (py_str repr v) = [] then Inl provider_unavailable else Inr (py_str repr v))"

text \<open>
  The pages from a start, each asked after the one before: a short page is the last. A source whose pages are always
  full is read for ever.
\<close>

partial_function (option) fetch_pages ::
    "(nat \<Rightarrow> nat \<Rightarrow> http_outcome) \<Rightarrow> nat \<Rightarrow> (raised + json list) option" where
  "fetch_pages net start =
     (case fst (get_json WFS_URL (net start)) of
        Inl e \<Rightarrow> Some (Inl e)
      | Inr payload \<Rightarrow>
          (case as_list (jget payload ''features'') of
             None \<Rightarrow> Some (Inl provider_unavailable)
           | Some page \<Rightarrow>
               if length page < SNV_PAGE then Some (Inr page)
               else Option.bind (fetch_pages net (start + length page)) (\<lambda>r. Some (and_then r (\<lambda>rest. Inr (page @ rest))))))"

declare fetch_pages.simps [code]

definition fetch_roads :: "(nat \<Rightarrow> nat \<Rightarrow> http_outcome) \<Rightarrow> (raised + json list) option" where
  "fetch_roads net = fetch_pages net 0"

text \<open>\<open>pack v\<close> is \<open>struct.pack("<d", v)\<close>, \<open>None\<close> for a value that is not a number a double can hold.\<close>

definition point_bytes :: "(json \<Rightarrow> bytes option) \<Rightarrow> json \<Rightarrow> raised + bytes" where
  "point_bytes pack p =
     (case p of
        JList (x # y # _) \<Rightarrow>
          (case (pack x, pack y) of (Some a, Some b) \<Rightarrow> Inr (a @ b) | _ \<Rightarrow> Inl RaisedOther)
      | _ \<Rightarrow> Inl RaisedOther)"

definition line_part :: "(json \<Rightarrow> bytes option) \<Rightarrow> json \<Rightarrow> raised + bytes list option" where
  "line_part pack line =
     (case (Python_Values.len_of line, iter_values line) of
        (Inr n, Inr points) \<Rightarrow>
          if n < 2 then Inr None else and_then (map_each (point_bytes pack) points) (\<lambda>ps. Inr (Some ps))
      | _ \<Rightarrow> Inl RaisedOther)"

definition road_parts :: "(json \<Rightarrow> bytes option) \<Rightarrow> json \<Rightarrow> raised + bytes list list" where
  "road_parts pack geometry =
     (if \<not> truthy geometry then Inr []
      else if \<not> is_dict geometry then Inl RaisedOther
      else and_then
        (if jget geometry ''type'' = JString ''LineString'' then Inr [or_empty_list (jget geometry ''coordinates'')]
         else if jget geometry ''type'' = JString ''MultiLineString''
         then (case iter_values (or_empty_list (jget geometry ''coordinates'')) of Inl _ \<Rightarrow> Inl RaisedOther | Inr ls \<Rightarrow> Inr ls)
         else Inl provider_unavailable)
        (\<lambda>ls. and_then (map_each (line_part pack) ls) (\<lambda>ps. Inr (List.map_filter id ps))))"

definition stripped_text :: "(json \<Rightarrow> string) \<Rightarrow> json \<Rightarrow> string option" where
  "stripped_text repr v = (if v = JNull then None else or_absent (py_strip (py_str repr v)))"

definition surface_label :: "string option \<Rightarrow> string option" where
  "surface_label surface =
     (case surface of
        None \<Rightarrow> None
      | Some s \<Rightarrow> (case map_of SURFACES s of None \<Rightarrow> Some s | Some label \<Rightarrow> Some label))"

definition dnit_road :: "(json \<Rightarrow> string) \<Rightarrow> (json \<Rightarrow> bytes option) \<Rightarrow> json \<Rightarrow> raised + transport_feature option" where
  "dnit_road repr pack feature =
     (if \<not> is_dict feature then Inl RaisedOther
      else (let raw = jget feature ''properties''; props = (if truthy raw then raw else JObject []) in
        if \<not> is_dict props then Inl RaisedOther
        else (let field = (\<lambda>key. stripped_text repr (jget props key)); surface = field ''Superficie_Federal'' in
          if (case surface of None \<Rightarrow> False | Some s \<Rightarrow> s \<in> set NOT_EXISTING) then Inr None
          else and_then (road_parts pack (jget feature ''geometry'')) (\<lambda>parts.
            Inr (if parts = [] then None
              else Some \<lparr>tf_layer = RoadFederal, tf_name = map_option (\<lambda>code. ''BR-'' @ code) (field ''Codigo_BR''),
                tf_geometry = wkb_multilinestring parts,
                tf_attributes = List.map_filter (\<lambda>(k, v). map_option (\<lambda>t. (k, t)) v)
                  [(''snv'', map_option Plain (field ''Codigo_SNV'')), (''surface'', map_option Plain (surface_label surface)),
                   (''administration'', map_option Plain (field ''Administracao'')),
                   (''stretch'', case (field ''Local_Inicio'', field ''Local_Fim'') of
                      (Some a, Some b) \<Rightarrow> Some (Stretch a b) | _ \<Rightarrow> None)]\<rparr>)))))"

definition dnit_roads ::
    "(json \<Rightarrow> string) \<Rightarrow> (json \<Rightarrow> bytes option) \<Rightarrow> json list \<Rightarrow> raised + transport_feature list" where
  "dnit_roads repr pack features =
     and_then (map_each (dnit_road repr pack) features) (\<lambda>rs. Inr (List.map_filter id rs))"

end
