(* ===== verification/Transport.thy ===== *)
theory Transport
  imports Transport_Sources
begin

text \<open>
  The transport network: its tables (\<open>app/models/transport.py\<close>), the import that replaces it
  (\<open>app/jobs/import_transport.py\<close>), its queries (\<open>app/repositories/transport.py\<close>), its service with two caches
  (\<open>app/services/transport.py\<close>) and the box of a request (\<open>app/services/viewport.py\<close>). What PostGIS computes from
  geometries is a parameter. A response is its value.
\<close>

section \<open>Tables\<close>

record network_row =
  nf_id :: int
  nf_layer :: transport_layer
  nf_name :: "string option"
  nf_attributes :: "(string \<times> attribute_text) list"
  nf_geom :: geometry
  nf_dataset_id :: "int option"

record transport_db =
  tr_features :: "network_row list"
  tr_overviews :: "(transport_layer \<times> geometry) list"
  tr_totals :: "((int \<times> transport_layer) \<times> rat) list"

section \<open>The import\<close>

definition BATCH_SIZE :: nat where "BATCH_SIZE = 2000"

definition OVERVIEW_LAYERS :: "transport_layer list" where "OVERVIEW_LAYERS = [RoadFederal, Rail, Waterway]"

definition PORT_DISTANCE :: real where "PORT_DISTANCE = 1 / 20"

text \<open>
  \<open>tx_store\<close> is the stored geometry of a WKB, an error for bytes that are none; \<open>tx_parts\<close> the parts of a geometry,
  \<open>tx_merge\<close> the line they make in the overview; \<open>tx_shared\<close> the metres of a geometry in another, if they meet;
  \<open>tx_distance\<close> the distance of two geometries; \<open>tx_numeric\<close> the decimal of a float.
\<close>

record transport_env =
  tx_store :: "bytes \<Rightarrow> geometry option"
  tx_parts :: "geometry \<Rightarrow> geometry list"
  tx_merge :: "geometry list \<Rightarrow> geometry"
  tx_shared :: "geometry \<Rightarrow> geometry \<Rightarrow> real option"
  tx_distance :: "geometry \<Rightarrow> geometry \<Rightarrow> real"
  tx_numeric :: "real \<Rightarrow> rat"
  tx_new_id :: "nat \<Rightarrow> int"
  tx_show :: "(transport_layer \<times> nat) list \<Rightarrow> string"
  tx_snv_dataset :: "string \<Rightarrow> dataset"
  tx_map_dataset :: dataset

definition add_count :: "transport_layer \<Rightarrow> nat \<Rightarrow> (transport_layer \<times> nat) list \<Rightarrow> (transport_layer \<times> nat) list" where
  "add_count layer n counts = AList.update layer ((case map_of counts layer of None \<Rightarrow> 0 | Some k \<Rightarrow> k) + n) counts"

text \<open>The row of a feature, the \<open>i\<close>-th that the sequence of the table numbers.\<close>

definition network_row_of :: "transport_env \<Rightarrow> int \<Rightarrow> nat \<times> transport_feature \<Rightarrow> raised + network_row" where
  "network_row_of n dataset_id = (\<lambda>(i, f).
     case tx_store n (tf_geometry f) of
       None \<Rightarrow> Inl RaisedOther
     | Some g \<Rightarrow>
         Inr \<lparr>nf_id = tx_new_id n i, nf_layer = tf_layer f, nf_name = map_option (take 160) (tf_name f),
           nf_attributes = tf_attributes f, nf_geom = g, nf_dataset_id = Some dataset_id\<rparr>)"

text \<open>
  \<open>_insert\<close>: the features go in batches; \<open>start\<close> is how many rows the sequence has numbered.
\<close>

definition insert_features ::
    "transport_env \<Rightarrow> nat \<Rightarrow> int \<Rightarrow> transport_feature list \<Rightarrow> transport_db \<Rightarrow> raised + (transport_layer \<times> nat) list \<times> transport_db" where
  "insert_features n start dataset_id features t =
     and_then (fold_each (\<lambda>rows batch. and_then (map_each (network_row_of n dataset_id) batch) (\<lambda>rs. Inr (rows @ rs)))
         [] (batches BATCH_SIZE (enumerate start features))) (\<lambda>rows.
       Inr (foldl (\<lambda>counts f. add_count (tf_layer f) 1 counts) [] features,
            t\<lparr>tr_features := tr_features t @ rows\<rparr>))"

definition overview_rows :: "transport_env \<Rightarrow> network_row list \<Rightarrow> (transport_layer \<times> geometry) list" where
  "overview_rows n rows =
     List.map_filter (\<lambda>layer.
       case concat (List.map (\<lambda>r. tx_parts n (nf_geom r)) (filter (\<lambda>r. nf_layer r = layer) rows)) of
         [] \<Rightarrow> None | parts \<Rightarrow> Some (layer, tx_merge n parts)) OVERVIEW_LAYERS"

text \<open>The municipalities with their detailed geometry.\<close>

definition detailed_municipalities :: "db \<Rightarrow> (string \<times> geometry) list" where
  "detailed_municipalities d =
     [(t_ibge_code t, g_geom g). t \<leftarrow> territories d, g \<leftarrow> territory_geometries d,
        g_territory_id g = t_id t \<and> g_lod g = Detail \<and> t_level t = Municipality]"

text \<open>The lengths in a municipality, in km, and the ports, each in the nearest one within the distance.\<close>

definition length_items :: "transport_env \<Rightarrow> db \<Rightarrow> network_row list \<Rightarrow> (string \<times> transport_layer \<times> real) list" where
  "length_items n d rows =
     concat (List.map (\<lambda>(code, area).
       List.map_filter (\<lambda>r. if nf_layer r = Port then None
         else map_option (\<lambda>m. (code, nf_layer r, m / 1000)) (tx_shared n (nf_geom r) area)) rows) (detailed_municipalities d))"

definition nearest_municipality :: "transport_env \<Rightarrow> db \<Rightarrow> geometry \<Rightarrow> string option" where
  "nearest_municipality n d g =
     (case filter (\<lambda>(_, area). tx_distance n area g \<le> PORT_DISTANCE) (detailed_municipalities d) of
        [] \<Rightarrow> None
      | m # ms \<Rightarrow> Some (fst (min_by (\<lambda>(_, area). tx_distance n area g) m ms)))"

definition port_items :: "transport_env \<Rightarrow> db \<Rightarrow> network_row list \<Rightarrow> (string \<times> transport_layer \<times> real) list" where
  "port_items n d rows =
     List.map_filter (\<lambda>r. if nf_layer r = Port then map_option (\<lambda>code. (code, Port, 1)) (nearest_municipality n d (nf_geom r)) else None) rows"

definition scope_codes :: "string \<Rightarrow> string list" where
  "scope_codes code = [code, take 2 code, take 1 code, ''BR'']"

text \<open>The sum of the items of a scope and a layer, over each occurrence of the scope among the codes of an item.\<close>

definition scope_total :: "(string \<times> transport_layer \<times> real) list \<Rightarrow> string \<Rightarrow> transport_layer \<Rightarrow> real" where
  "scope_total items scope layer =
     (\<Sum>(code, l, v) \<leftarrow> items. if l = layer then of_nat (length (filter (\<lambda>c. c = scope) (scope_codes code))) * v else 0)"

definition scope_groups :: "(string \<times> transport_layer \<times> real) list \<Rightarrow> (string \<times> transport_layer) list" where
  "scope_groups items = remdups (concat (List.map (\<lambda>(code, l, _). List.map (\<lambda>c. (c, l)) (scope_codes code)) items))"

definition total_rows :: "transport_env \<Rightarrow> db \<Rightarrow> network_row list \<Rightarrow> raised + ((int \<times> transport_layer) \<times> rat) list" where
  "total_rows n d rows =
     (let items = length_items n d rows @ port_items n d rows in
      map_each (\<lambda>((t, layer), v). if \<bar>v\<bar> < 10 ^ 13 then Inr ((t, layer), v) else Inl RaisedOther)
        [((t_id t, layer), round_away 1 (tx_numeric n (scope_total items scope layer))).
           (scope, layer) \<leftarrow> scope_groups items, t \<leftarrow> territories d, t_ibge_code t = scope])"

text \<open>
  The body of the job on what the sources answered: everything is replaced in one transaction. The name of a local
  file is left out of the details.
\<close>

definition replace_network ::
    "transport_env \<Rightarrow> string \<Rightarrow> nat \<Rightarrow> transport_feature list \<Rightarrow> raised + transport_feature list \<Rightarrow> db
     \<Rightarrow> raised + run_report \<times> db \<times> transport_db" where
  "replace_network n version federal roads features d =
     (let (snv, d1) = upsert_dataset (tx_snv_dataset n version) d; (map_id, d2) = upsert_dataset (tx_map_dataset n) d1 in
      and_then (insert_features n 0 snv roads \<lparr>tr_features = [], tr_overviews = [], tr_totals = []\<rparr>) (\<lambda>(counts, t1).
      and_then features (\<lambda>fs.
      and_then (insert_features n (length roads) map_id fs t1) (\<lambda>(more_counts, t2).
      and_then (total_rows n d2 (tr_features t2)) (\<lambda>totals.
        let all_counts = foldl (\<lambda>cs (layer, k). add_count layer k cs) counts more_counts;
            written = sum_list (List.map snd all_counts) in
        Inr (new_report\<lparr>rp_processed := int (federal + written), rp_written := int written,
               rp_details := [(''snv_version'', version), (''bc250'', ''2025''), (''features'', tx_show n all_counts),
                 (''totals'', int_to_string (int (length totals)))]\<rparr>,
             d2, t2\<lparr>tr_overviews := overview_rows n (tr_features t2), tr_totals := totals\<rparr>))))))"

definition import_body ::
    "transport_env \<Rightarrow> string \<Rightarrow> nat \<Rightarrow> transport_feature list \<Rightarrow> raised + transport_feature list \<Rightarrow> db \<Rightarrow> transport_db
     \<Rightarrow> (raised + int) \<times> run_report \<times> db \<times> transport_db" where
  "import_body n version federal roads features d t =
     (case replace_network n version federal roads features d of
        Inl e \<Rightarrow> (Inl e, new_report, d, t)
      | Inr (rep, d1, t1) \<Rightarrow> (Inr 0, rep, d1, t1))"

record transport_sources =
  ts_repr :: "json \<Rightarrow> string"
  ts_pack :: "json \<Rightarrow> bytes option"
  ts_decode :: decoder
  ts_version :: "nat \<Rightarrow> http_outcome"
  ts_pages :: "string \<Rightarrow> nat \<Rightarrow> nat \<Rightarrow> http_outcome"
  ts_from_file :: bool
  ts_opened :: "archive_failure + archive"

text \<open>
  \<open>ingest\<close>: the sources are read before the run opens; the features are made inside it, those of DNIT first. \<open>None\<close> is a
  reading that does not end. The features of the map are all read before they are stored, where the program
  alternates, which only matters to which of two failures ends a run.
\<close>

definition import_network ::
    "transport_env \<Rightarrow> transport_sources \<Rightarrow> db \<Rightarrow> transport_db \<Rightarrow> ((raised + int) \<times> run_report \<times> db \<times> transport_db) option" where
  "import_network n s d t =
     (case latest_version (ts_repr s) (ts_version s) of
        Inl e \<Rightarrow> Some (Inl e, new_report, d, t)
      | Inr version \<Rightarrow>
          Option.bind (fetch_roads (ts_pages s version)) (\<lambda>pages.
            case pages of
              Inl e \<Rightarrow> Some (Inl e, new_report, d, t)
            | Inr federal \<Rightarrow>
                (case download_layers (ts_from_file s) (ts_opened s) of
                   Inl e \<Rightarrow> Some (Inl e, new_report, d, t)
                 | Inr layers \<Rightarrow>
                     (case dnit_roads (ts_repr s) (ts_pack s) federal of
                        Inl e \<Rightarrow> Some (Inl e, new_report, d, t)
                      | Inr roads \<Rightarrow>
                          map_option (\<lambda>features. import_body n version (length federal) roads features d t)
                            (map_features (ts_decode s) layers)))))"

section \<open>Queries\<close>

type_synonym box = "real \<times> real \<times> real \<times> real"

definition fetch_version :: "string \<Rightarrow> db \<Rightarrow> int" where
  "fetch_version job d =
     (case List.map r_id (filter (\<lambda>r. r_job r = job \<and> r_status r = Succeeded) (ingestion_runs d)) of
        [] \<Rightarrow> 0 | i # is \<Rightarrow> foldl max i is)"

definition fetch_run_details :: "int \<Rightarrow> db \<Rightarrow> (string \<times> string) list" where
  "fetch_run_details run d =
     (case select_first (\<lambda>r. r_id r = run) (ingestion_runs d) of
        None \<Rightarrow> [] | Some r \<Rightarrow> (case r_details r of None \<Rightarrow> [] | Some kvs \<Rightarrow> kvs))"

text \<open>
  \<open>tq_meets\<close> tells whether the box of a geometry meets a box, \<open>tq_clip\<close> the parts of a geometry in a box, \<open>tq_dimension\<close>
  their dimension, \<open>tq_lines\<close> the GeoJSON of parts joined and simplified to a tolerance and some digits, \<open>tq_json\<close> the
  GeoJSON of a geometry, \<open>tq_from_point\<close> its distance in degrees from a point.
\<close>

record transport_geo =
  tq_meets :: "box \<Rightarrow> geometry \<Rightarrow> bool"
  tq_clip :: "box \<Rightarrow> geometry \<Rightarrow> geometry list"
  tq_dimension :: "geometry \<Rightarrow> nat"
  tq_lines :: "real \<Rightarrow> nat \<Rightarrow> geometry list \<Rightarrow> string"
  tq_json :: "nat \<Rightarrow> geometry \<Rightarrow> string"
  tq_from_point :: "real \<times> real \<Rightarrow> geometry \<Rightarrow> real"

definition fetch_overview :: "transport_geo \<Rightarrow> transport_layer \<Rightarrow> nat \<Rightarrow> transport_db \<Rightarrow> string option" where
  "fetch_overview q layer digits t = map_option (tq_json q digits) (map_of (tr_overviews t) layer)"

definition fetch_lines :: "transport_geo \<Rightarrow> transport_layer \<Rightarrow> box \<Rightarrow> real \<Rightarrow> nat \<Rightarrow> transport_db \<Rightarrow> string option" where
  "fetch_lines q layer area tolerance digits t =
     (case filter (\<lambda>p. tq_dimension q p = 1)
         (concat (List.map (\<lambda>r. tq_clip q area (nf_geom r))
           (filter (\<lambda>r. nf_layer r = layer \<and> tq_meets q area (nf_geom r)) (tr_features t)))) of
        [] \<Rightarrow> None | parts \<Rightarrow> Some (tq_lines q tolerance digits parts))"

definition fetch_points :: "transport_layer \<Rightarrow> transport_db \<Rightarrow> network_row list" where
  "fetch_points layer t = sort_key nf_id (filter (\<lambda>r. nf_layer r = layer) (tr_features t))"

definition nearest_feature :: "transport_geo \<Rightarrow> transport_layer \<Rightarrow> real \<times> real \<Rightarrow> real \<Rightarrow> transport_db \<Rightarrow> network_row option" where
  "nearest_feature q layer p tolerance t =
     (case filter (\<lambda>r. nf_layer r = layer \<and> tq_from_point q p (nf_geom r) \<le> tolerance) (tr_features t) of
        [] \<Rightarrow> None | r # rs \<Rightarrow> Some (min_by (\<lambda>r. tq_from_point q p (nf_geom r)) r rs))"

section \<open>The service\<close>

definition LINE_LAYERS :: "transport_layer list" where "LINE_LAYERS = [RoadFederal, RoadState, RoadLocal, Rail, Waterway]"

definition LAYERS :: "(transport_layer \<times> string \<times> real) list" where
  "LAYERS = [(RoadFederal, ''dnit'', 3), (RoadState, ''ibge'', 6), (RoadLocal, ''ibge'', 9), (Rail, ''ibge'', 3),
     (Waterway, ''ibge'', 3), (Port, ''ibge'', 3)]"

definition min_zoom_of :: "transport_layer \<Rightarrow> real" where
  "min_zoom_of layer = (case map_of LAYERS layer of None \<Rightarrow> 0 | Some (_, z) \<Rightarrow> z)"

datatype detail_name = OverviewDetail | Regional | Local | Street

record detail_level =
  dl_name :: detail_name
  dl_min_zoom :: real
  dl_tolerance :: real
  dl_digits :: nat
  dl_max_span :: real

definition DETAILS :: "detail_level list" where
  "DETAILS =
     [\<lparr>dl_name = OverviewDetail, dl_min_zoom = 0, dl_tolerance = 0, dl_digits = 2, dl_max_span = 360\<rparr>,
      \<lparr>dl_name = Regional, dl_min_zoom = 6, dl_tolerance = 5 / 1000, dl_digits = 3, dl_max_span = 36\<rparr>,
      \<lparr>dl_name = Local, dl_min_zoom = 8, dl_tolerance = 1 / 1000, dl_digits = 4, dl_max_span = 12\<rparr>,
      \<lparr>dl_name = Street, dl_min_zoom = 10, dl_tolerance = 2 / 10000, dl_digits = 5, dl_max_span = 4\<rparr>]"

definition detail_for :: "real \<Rightarrow> detail_level option" where
  "detail_for zoom = List.find (\<lambda>dl. dl_min_zoom dl \<le> zoom) (rev DETAILS)"

text \<open>A feature of an answer: the name of a line layer, or the id of a port, its properties and its GeoJSON.\<close>

record network_feature =
  gf_id :: string
  gf_layer :: transport_layer
  gf_name :: "string option"
  gf_attributes :: "(string \<times> attribute_text) list option"
  gf_geometry :: string

record network_answer =
  na_layer :: transport_layer
  na_detail :: detail_name
  na_version :: int
  na_features :: "network_feature list"

type_synonym network_key = "transport_layer \<times> detail_name \<times> box option \<times> int"

record transport_caches =
  tc_network :: "(network_key, network_answer) ttl_cache"
  tc_version :: "(string, int) ttl_cache"

definition new_transport_caches :: transport_caches where
  "new_transport_caches = \<lparr>tc_network = new_cache (24 * 60 * 60) 256, tc_version = new_cache 60 1\<rparr>"

definition attributes_or_none :: "(string \<times> attribute_text) list \<Rightarrow> (string \<times> attribute_text) list option" where
  "attributes_or_none kvs = (if kvs = [] then None else Some kvs)"

text \<open>The checks of a request: the detail of its zoom and the area that counts.\<close>

definition network_request :: "transport_layer \<Rightarrow> real \<Rightarrow> box option \<Rightarrow> raised + detail_level \<times> box option" where
  "network_request layer zoom area =
     (if zoom < min_zoom_of layer then Inl (RaisedDomain (invalid_parameter (Some ''zoom'') []))
      else and_then (from_option RaisedOther (detail_for zoom)) (\<lambda>dl.
        if layer \<in> set LINE_LAYERS \<and> dl_name dl \<noteq> OverviewDetail
        then (case area of
                None \<Rightarrow> Inl (RaisedDomain (invalid_parameter (Some ''bbox'') []))
              | Some (west, south, east, north) \<Rightarrow>
                  if dl_max_span dl < east - west \<or> dl_max_span dl < north - south
                  then Inl (RaisedDomain (invalid_parameter (Some ''bbox'') [])) else Inr (dl, area))
        else Inr (dl, None)))"

definition network_features ::
    "transport_geo \<Rightarrow> transport_layer \<Rightarrow> detail_level \<Rightarrow> box option \<Rightarrow> transport_db \<Rightarrow> network_feature list" where
  "network_features q layer dl area t =
     (if layer \<notin> set LINE_LAYERS
      then List.map (\<lambda>r. \<lparr>gf_id = int_to_string (nf_id r), gf_layer = layer, gf_name = nf_name r,
             gf_attributes = attributes_or_none (nf_attributes r), gf_geometry = tq_json q 5 (nf_geom r)\<rparr>) (fetch_points layer t)
      else (case (case area of
                    Some a \<Rightarrow> fetch_lines q layer a (dl_tolerance dl) (dl_digits dl) t
                  | None \<Rightarrow> fetch_overview q layer (dl_digits dl) t) of
              None \<Rightarrow> []
            | Some g \<Rightarrow> [\<lparr>gf_id = layer_key layer, gf_layer = layer, gf_name = None, gf_attributes = None, gf_geometry = g\<rparr>]))"

definition shown_detail :: "transport_layer \<Rightarrow> detail_level \<Rightarrow> detail_name" where
  "shown_detail layer dl = (if layer \<in> set LINE_LAYERS then dl_name dl else OverviewDetail)"

text \<open>\<open>now\<close> and \<open>later\<close> are the readings of the clock before and after the work of each cache.\<close>

definition transport_version :: "clock \<Rightarrow> clock \<Rightarrow> db \<Rightarrow> (string, int) ttl_cache \<Rightarrow> (raised + int) \<times> (string, int) ttl_cache" where
  "transport_version now later d c = read_through now later ''version'' (\<lambda>_. Inr (fetch_version ''import_transport'' d)) c"

definition get_network ::
    "transport_geo \<Rightarrow> clock \<Rightarrow> clock \<Rightarrow> transport_layer \<Rightarrow> real \<Rightarrow> box option \<Rightarrow> db \<Rightarrow> transport_db \<Rightarrow> transport_caches
     \<Rightarrow> (raised + network_answer) \<times> transport_caches" where
  "get_network q now later layer zoom area d t c =
     (case network_request layer zoom area of
        Inl e \<Rightarrow> (Inl e, c)
      | Inr (dl, used) \<Rightarrow>
          (case transport_version now later d (tc_version c) of
             (Inl e, vs) \<Rightarrow> (Inl e, c\<lparr>tc_version := vs\<rparr>)
           | (Inr version, vs) \<Rightarrow>
               (case read_through now later (layer, shown_detail layer dl, used, version)
                   (\<lambda>_. Inr \<lparr>na_layer = layer, na_detail = shown_detail layer dl, na_version = version,
                      na_features = network_features q layer dl used t\<rparr>) (tc_network c) of
                  (r, ns) \<Rightarrow> (r, \<lparr>tc_network = ns, tc_version = vs\<rparr>))))"

definition identify ::
    "transport_geo \<Rightarrow> transport_layer \<Rightarrow> real \<times> real \<Rightarrow> real \<Rightarrow> transport_db
     \<Rightarrow> (transport_layer \<times> string option \<times> (string \<times> attribute_text) list option) option" where
  "identify q layer p tolerance t =
     map_option (\<lambda>r. (nf_layer r, nf_name r, attributes_or_none (nf_attributes r)))
       (nearest_feature q layer p (min (max tolerance (1 / 10000)) (5 / 100)) t)"

record transport_summary =
  tm_code :: string
  tm_name :: string
  tm_totals :: "(transport_layer \<times> rat option) list"

definition get_summary ::
    "clock \<Rightarrow> clock \<Rightarrow> string \<Rightarrow> db \<Rightarrow> transport_db \<Rightarrow> transport_caches \<Rightarrow> (raised + transport_summary) \<times> transport_caches" where
  "get_summary now later code d t c =
     (case select_first (\<lambda>x. t_ibge_code x = code) (territories d) of
        None \<Rightarrow> (Inl (RaisedDomain (territory_not_found code)), c)
      | Some x \<Rightarrow>
          (case transport_version now later d (tc_version c) of
             (Inl e, vs) \<Rightarrow> (Inl e, c\<lparr>tc_version := vs\<rparr>)
           | (Inr version, vs) \<Rightarrow>
               (Inr \<lparr>tm_code = t_ibge_code x, tm_name = t_name x,
                  tm_totals = List.map (\<lambda>(layer, _). (layer,
                    if 0 < version then Some (case map_of (tr_totals t) (t_id x, layer) of None \<Rightarrow> 0 | Some v \<Rightarrow> v) else None)) LAYERS\<rparr>,
                c\<lparr>tc_version := vs\<rparr>)))"

section \<open>The catalogue\<close>

record transport_source =
  to_key :: string
  to_edition :: "string option"
  to_description :: string
  to_url :: "string option"

record tiles_info =
  ti_run :: int
  ti_min_zoom :: int
  ti_max_zoom :: int
  ti_description :: string

record transport_catalog =
  tg_version :: int
  tg_sources :: "transport_source list"
  tg_tiles :: "tiles_info option"

definition fetch_sources :: "db \<Rightarrow> (string \<times> dataset) list" where
  "fetch_sources d =
     List.map (\<lambda>x. (ds_source x, x)) (filter (\<lambda>x. (ds_source x, ds_code x) \<in>
       {(''dnit'', ''snv/rodovias-federais''), (''ibge'', ''bc250/transportes''), (''osm'', ''geofabrik/brasil-transporte'')}) (datasets d))"

definition fetch_tiles_run :: "db \<Rightarrow> ingestion_run option" where
  "fetch_tiles_run d =
     (case sort_key (\<lambda>r. - r_id r) (filter (\<lambda>r. r_job r = ''import_transport_tiles'' \<and> r_status r = Succeeded) (ingestion_runs d)) of
        [] \<Rightarrow> None | r # _ \<Rightarrow> Some r)"

text \<open>A text with its prefix, when the details have it and it is not empty.\<close>

definition edition_of :: "string \<Rightarrow> string \<Rightarrow> (string \<times> string) list \<Rightarrow> string option" where
  "edition_of prefix key details =
     (case map_of details key of None \<Rightarrow> None | Some s \<Rightarrow> if s = [] then None else Some (prefix @ s))"

definition detail_int :: "string \<Rightarrow> int \<Rightarrow> (string \<times> string) list \<Rightarrow> raised + int" where
  "detail_int key fallback details =
     (case map_of details key of None \<Rightarrow> Inr fallback | Some s \<Rightarrow> from_option RaisedOther (parse_int s))"

definition get_catalog :: "clock \<Rightarrow> clock \<Rightarrow> db \<Rightarrow> transport_caches \<Rightarrow> (raised + transport_catalog) \<times> transport_caches" where
  "get_catalog now later d c =
     (case transport_version now later d (tc_version c) of
        (Inl e, vs) \<Rightarrow> (Inl e, c\<lparr>tc_version := vs\<rparr>)
      | (Inr version, vs) \<Rightarrow>
          (let rows = fetch_sources d;
               details = (if version = 0 then [] else fetch_run_details version d);
               run = fetch_tiles_run d;
               tiles = (case run of None \<Rightarrow> [] | Some r \<Rightarrow> (case r_details r of None \<Rightarrow> [] | Some kvs \<Rightarrow> kvs));
               edition = (\<lambda>key. if key = ''dnit'' then edition_of ''SNV '' ''snv_version'' details
                 else if key = ''ibge'' then edition_of ''BC250 '' ''bc250'' details else edition_of ''OSM '' ''osm_date'' tiles);
               sources = List.map (\<lambda>(key, x). \<lparr>to_key = key, to_edition = edition key, to_description = ds_name x, to_url = ds_url x\<rparr>)
                 (sort_key fst rows) in
           (case run of
              None \<Rightarrow> Inr \<lparr>tg_version = version, tg_sources = sources, tg_tiles = None\<rparr>
            | Some r \<Rightarrow>
                and_then (detail_int ''minzoom'' 4 tiles) (\<lambda>low. and_then (detail_int ''maxzoom'' 13 tiles) (\<lambda>high.
                  Inr \<lparr>tg_version = version, tg_sources = sources,
                    tg_tiles = Some \<lparr>ti_run = r_id r, ti_min_zoom = low, ti_max_zoom = high,
                      ti_description = (case map_of rows ''osm'' of None \<Rightarrow> ''OpenStreetMap'' | Some x \<Rightarrow> ds_name x)\<rparr>\<rparr>)),
            c\<lparr>tc_version := vs\<rparr>)))"

section \<open>The box of a request\<close>

text \<open>\<open>parse_bbox\<close>: \<open>float_of\<close> is \<open>float\<close> of a text.\<close>

definition parse_bbox :: "(string \<Rightarrow> float_text) \<Rightarrow> string \<Rightarrow> real \<Rightarrow> domain_error + box" where
  "parse_bbox float_of s max_span =
     (case List.map float_of (py_split (CHR '','') s) of
        [Finite west, Finite south, Finite east, Finite north] \<Rightarrow>
          if - 180 \<le> west \<and> west < east \<and> east \<le> 180 \<and> - 90 \<le> south \<and> south < north \<and> north \<le> 90 \<and>
            east - west \<le> max_span \<and> north - south \<le> max_span
          then Inr (west, south, east, north) else Inl (invalid_parameter (Some ''bbox'') [])
      | _ \<Rightarrow> Inl (invalid_parameter (Some ''bbox'') []))"

end
