(* ===== verification/Transport_Tiles.thy ===== *)
theory Transport_Tiles
  imports Transport
begin

text \<open>
  The vector tiles of the map: their import in batches that a second run takes up where the first stopped
  (\<open>app/jobs/import_transport_tiles.py\<close>), and their service (\<open>get_tile\<close> of \<open>app/services/transport.py\<close>). An \<open>.mbtiles\<close>
  file, which SQLite reads, is its metadata and its rows.
\<close>

section \<open>The file\<close>

type_synonym tile_key = "int \<times> int \<times> int"

type_synonym tile = "tile_key \<times> bytes"

record mbtiles =
  mb_name :: string
  mb_size :: nat
  mb_metadata :: "(string \<times> string) list"
  mb_tiles :: "(int \<times> int \<times> int \<times> bytes) list"

definition read_metadata :: "mbtiles \<Rightarrow> string \<Rightarrow> string option" where
  "read_metadata file = map_of (rev (mb_metadata file))"

definition TILE_BATCH :: nat where "TILE_BATCH = 1000"

text \<open>The file numbers the rows from the bottom, the map from the top; a negative shift is an error.\<close>

definition xyz_tile :: "int \<times> int \<times> int \<times> bytes \<Rightarrow> raised + tile" where
  "xyz_tile = (\<lambda>(zoom, x, row, data). if zoom < 0 then Inl RaisedOther else Inr ((zoom, x, 2 ^ nat zoom - 1 - row), data))"

definition STAMP :: string where "STAMP = ''planetiler:osm:osmosisreplicationtime''"

definition stamp_of :: "mbtiles \<Rightarrow> string" where
  "stamp_of file = (case read_metadata file STAMP of None \<Rightarrow> [] | Some s \<Rightarrow> s)"

definition osm_date :: "mbtiles \<Rightarrow> string option" where
  "osm_date file =
     (if stamp_of file \<noteq> [] \<and> \<not> is_prefix ''1970'' (stamp_of file) then Some (take 10 (stamp_of file)) else None)"

definition fingerprint :: "mbtiles \<Rightarrow> string" where
  "fingerprint file = nat_to_string (mb_size file) @ '':'' @ stamp_of file"

section \<open>The staging table\<close>

text \<open>The table of the tiles, and the staging table with its comment, when it exists.\<close>

record tiles_db =
  tb_tiles :: "tile list"
  tb_staging :: "(string option \<times> tile list) option"

text \<open>A mark with a quote is not a comment; the rest of the transaction is undone then.\<close>

definition prepare_staging :: "string \<Rightarrow> tiles_db \<Rightarrow> (raised + tile_key list) \<times> tiles_db" where
  "prepare_staging mark s =
     (case (case tb_staging s of None \<Rightarrow> (None, []) | Some st \<Rightarrow> st) of (current, rows) \<Rightarrow>
        if current \<noteq> Some mark
        then (if CHR 0x27 \<in> set mark then (Inl RaisedOther, s) else (Inr [], s\<lparr>tb_staging := Some (Some mark, [])\<rparr>))
        else (Inr (List.map fst rows), s))"

text \<open>The columns are a \<open>smallint\<close> and two \<open>integer\<close>.\<close>

definition tile_fits :: "tile \<Rightarrow> bool" where
  "tile_fits = (\<lambda>((zoom, x, y), _). - (2 ^ 15) \<le> zoom \<and> zoom < 2 ^ 15 \<and> - (2 ^ 31) \<le> x \<and> x < 2 ^ 31 \<and> - (2 ^ 31) \<le> y \<and> y < 2 ^ 31)"

definition same_tile :: "tile \<Rightarrow> tile \<Rightarrow> bool" where
  "same_tile a b \<longleftrightarrow> fst a = fst b"

definition insert_tiles :: "tile list \<Rightarrow> tile list \<Rightarrow> tile list" where
  "insert_tiles batch rows = foldl (\<lambda>t r. snd (insert_ignore same_tile r t)) rows batch"

text \<open>
  What a transaction meets: it is accepted, the connection is lost before or after its commit, or another exception
  ends it.
\<close>

datatype attempt = Accepted | LostBefore | LostAfter | OtherFailure

definition WRITE_ATTEMPTS :: nat where "WRITE_ATTEMPTS = 5"

definition outcome_of :: "tile list \<Rightarrow> attempt \<Rightarrow> attempt" where
  "outcome_of batch a = (if list_all tile_fits batch \<or> a = OtherFailure then a else LostBefore)"

text \<open>\<open>_write\<close> from an attempt on: the result, the rows, and the seconds slept between the attempts.\<close>

function write_from :: "(nat \<Rightarrow> attempt) \<Rightarrow> tile list \<Rightarrow> nat \<Rightarrow> tile list \<Rightarrow> (raised + unit) \<times> tile list \<times> nat list" where
  "write_from net batch attempt rows =
     (if WRITE_ATTEMPTS < attempt then (Inr (), rows, [])
      else case outcome_of batch (net attempt) of
          Accepted \<Rightarrow> (Inr (), insert_tiles batch rows, [])
        | OtherFailure \<Rightarrow> (Inl RaisedOther, rows, [])
        | lost \<Rightarrow>
            (let rows1 = (if lost = LostAfter then insert_tiles batch rows else rows) in
             if attempt = WRITE_ATTEMPTS then (Inl RaisedOther, rows1, [])
             else (case write_from net batch (attempt + 1) rows1 of (r, rows2, slept) \<Rightarrow> (r, rows2, 2 ^ attempt # slept))))"
  by pat_completeness auto
termination
  by (relation "measure (\<lambda>(_, _, attempt, _). Suc WRITE_ATTEMPTS - attempt)") auto

declare write_from.simps [simp del]

definition write_batch :: "(nat \<Rightarrow> attempt) \<Rightarrow> tile list \<Rightarrow> tile list \<Rightarrow> (raised + unit) \<times> tile list \<times> nat list" where
  "write_batch net batch rows = write_from net batch 1 rows"

section \<open>The job\<close>

text \<open>The batches, with the tiles and the bytes counted so far; \<open>net k\<close> is what the attempts of batch \<open>k\<close> meet.\<close>

fun load_batches ::
    "(nat \<Rightarrow> nat \<Rightarrow> attempt) \<Rightarrow> tile_key list \<Rightarrow> nat \<Rightarrow> (int \<times> int \<times> int \<times> bytes) list list \<Rightarrow> tile list \<Rightarrow> nat \<Rightarrow> nat
     \<Rightarrow> (raised + nat \<times> nat) \<times> tile list" where
  "load_batches net stored k [] rows tiles bytes = (Inr (tiles, bytes), rows)"
| "load_batches net stored k (b # bs) rows tiles bytes =
     (case map_each xyz_tile b of
        Inl e \<Rightarrow> (Inl e, rows)
      | Inr items \<Rightarrow>
          let tiles1 = tiles + length items; bytes1 = bytes + sum_list (List.map (\<lambda>i. length (snd i)) items);
              pending = filter (\<lambda>i. fst i \<notin> set stored) items in
          if pending = [] then load_batches net stored (Suc k) bs rows tiles1 bytes1
          else (case write_batch (net k) pending rows of
                  (Inl e, rows1, _) \<Rightarrow> (Inl e, rows1)
                | (Inr _, rows1, _) \<Rightarrow> load_batches net stored (Suc k) bs rows1 tiles1 bytes1))"

definition int_metadata :: "mbtiles \<Rightarrow> string \<Rightarrow> raised + int" where
  "int_metadata file key =
     (case read_metadata file key of None \<Rightarrow> Inr 0 | Some s \<Rightarrow> from_option RaisedOther (parse_int s))"

definition set_rows :: "tile list \<Rightarrow> tiles_db \<Rightarrow> tiles_db" where
  "set_rows rows s = s\<lparr>tb_staging := map_option (\<lambda>(mark, _). (mark, rows)) (tb_staging s)\<rparr>"

text \<open>The transaction that puts the staged rows in place of the tiles.\<close>

definition swap_tiles ::
    "dataset \<Rightarrow> mbtiles \<Rightarrow> nat \<Rightarrow> nat \<Rightarrow> db \<Rightarrow> tiles_db \<Rightarrow> raised + run_report \<times> db \<times> tiles_db" where
  "swap_tiles ds file tiles bytes d s =
     (let rows = (case tb_staging s of None \<Rightarrow> [] | Some (_, rs) \<Rightarrow> rs) in
      if length rows \<noteq> tiles then Inl RaisedOther
      else and_then (int_metadata file ''minzoom'') (\<lambda>low. and_then (int_metadata file ''maxzoom'') (\<lambda>high.
        Inr (new_report\<lparr>rp_processed := int tiles, rp_written := int tiles,
               rp_details := [(''file'', mb_name file), (''bytes'', int_to_string (int bytes)), (''minzoom'', int_to_string low),
                   (''maxzoom'', int_to_string high)] @
                 List.map_filter (\<lambda>(key, v). map_option (\<lambda>x. (key, x)) v)
                   [(''bounds'', read_metadata file ''bounds''), (''osm_date'', osm_date file)] @ [(''compression'', ''gzip'')]\<rparr>,
             snd (upsert_dataset ds d), \<lparr>tb_tiles = rows, tb_staging = None\<rparr>))))"

definition import_tiles ::
    "dataset \<Rightarrow> (nat \<Rightarrow> nat \<Rightarrow> attempt) \<Rightarrow> mbtiles \<Rightarrow> db \<Rightarrow> tiles_db \<Rightarrow> (raised + int) \<times> run_report \<times> db \<times> tiles_db" where
  "import_tiles ds net file d s =
     (if read_metadata file ''format'' \<noteq> Some ''pbf'' then (Inl RaisedOther, new_report, d, s)
      else case prepare_staging (fingerprint file) s of
          (Inl e, s1) \<Rightarrow> (Inl e, new_report, d, s1)
        | (Inr stored, s1) \<Rightarrow>
            (case load_batches net stored 0 (batches TILE_BATCH (mb_tiles file))
                (case tb_staging s1 of None \<Rightarrow> [] | Some (_, rs) \<Rightarrow> rs) 0 0 of
               (Inl e, rows) \<Rightarrow> (Inl e, new_report, d, set_rows rows s1)
             | (Inr (tiles, bytes), rows) \<Rightarrow>
                 (case swap_tiles ds file tiles bytes d (set_rows rows s1) of
                    Inl e \<Rightarrow> (Inl e, new_report, d, set_rows rows s1)
                  | Inr (rep, d1, s2) \<Rightarrow> (Inr 0, rep, d1, s2))))"

section \<open>The service\<close>

definition MAX_TILE_ZOOM :: int where "MAX_TILE_ZOOM = 16"

definition get_tile :: "int \<Rightarrow> int \<Rightarrow> int \<Rightarrow> tiles_db \<Rightarrow> domain_error + bytes option" where
  "get_tile zoom x y s =
     (if \<not> (0 \<le> zoom \<and> zoom \<le> MAX_TILE_ZOOM \<and> 0 \<le> x \<and> x < 2 ^ nat zoom \<and> 0 \<le> y \<and> y < 2 ^ nat zoom)
      then Inl (invalid_parameter (Some ''tile'') []) else Inr (map_of (tb_tiles s) (zoom, x, y)))"

end
