(* ===== verification/Shapefile_Laws.thy ===== *)
theory Shapefile_Laws
  imports Shapefile
begin

text \<open>
  What the reader of shapefiles gives on a file written as the format says: the writer of the format is stated here, and
  the reader takes back the geometry of each record.
\<close>

section \<open>The format\<close>

text \<open>A point is the sixteen bytes of its coordinates; a line has its box and its parts.\<close>

datatype shape = NullShape | PointShape bytes | LineShape bytes "bytes list list"

fun starts_from :: "nat \<Rightarrow> 'a list list \<Rightarrow> nat list" where
  "starts_from k [] = []"
| "starts_from k (p # ps) = k # starts_from (k + length p) ps"

fun shape_content :: "shape \<Rightarrow> bytes" where
  "shape_content NullShape = pack_le 0"
| "shape_content (PointShape xy) = pack_le 1 @ xy"
| "shape_content (LineShape box parts) =
     pack_le 3 @ box @ pack_le (length parts) @ pack_le (length (concat parts)) @
     concat (List.map pack_le (starts_from 0 parts)) @ concat (concat parts)"

definition shape_record :: "nat \<times> shape \<Rightarrow> bytes" where
  "shape_record = (\<lambda>(i, s). pack_be i @ pack_be (length (shape_content s) div 2) @ shape_content s)"

definition shp_file :: "bytes \<Rightarrow> shape list \<Rightarrow> bytes" where
  "shp_file header shapes = header @ concat (List.map shape_record (enumerate 1 shapes))"

text \<open>The bytes of a coordinate and of a box, and lengths that fit their numbers.\<close>

fun shape_ok :: "shape \<Rightarrow> bool" where
  "shape_ok NullShape = True"
| "shape_ok (PointShape xy) = (length xy = 16)"
| "shape_ok (LineShape box parts) =
     (length box = 32 \<and> (\<forall>p \<in> set (concat parts). length p = 16) \<and> length (shape_content (LineShape box parts)) < 2 ^ 32)"

definition header_ok :: "bytes \<Rightarrow> bool" where
  "header_ok header \<longleftrightarrow> length header = 100 \<and> take 4 header = pack_be 9994 \<and>
     (take 4 (drop 32 header) = pack_le 1 \<or> take 4 (drop 32 header) = pack_le 3)"

text \<open>The geometry of a shape: parts of one point are not lines.\<close>

fun shape_wkb :: "shape \<Rightarrow> bytes option" where
  "shape_wkb NullShape = None"
| "shape_wkb (PointShape xy) = Some (wkb_point xy)"
| "shape_wkb (LineShape box parts) =
     (let lines = filter (\<lambda>p. 2 \<le> length p) parts in
      if lines = [] then None else Some (wkb_multilinestring lines))"

section \<open>Numbers and slices\<close>

lemma length_pack [simp]: "length (pack_be n) = 4" "length (pack_le n) = 4"
  by (simp_all add: pack_be_def pack_le_def)

lemma unsigned_be_pack: "n < 2 ^ 32 \<Longrightarrow> unsigned_be (pack_be n) = n"
proof -
  assume "n < 2 ^ 32"
  have byte: "unat (word_of_nat m :: 8 word) = m mod 256" for m by (simp add: unat_of_nat)
  define a b c where "a = n div 256" and "b = a div 256" and "c = b div 256"
  have "n div 2 ^ 8 = a" "n div 2 ^ 16 = b" "n div 2 ^ 24 = c"
    by (simp_all add: a_def b_def c_def div_mult2_eq [symmetric])
  moreover have "c < 256" using \<open>n < 2 ^ 32\<close> by (simp add: a_def b_def c_def div_mult2_eq [symmetric] less_mult_imp_div_less)
  moreover have "n = 256 * a + n mod 256" "a = 256 * b + a mod 256" "b = 256 * c + b mod 256"
    by (simp_all add: a_def b_def c_def)
  ultimately show ?thesis by (simp add: unsigned_be_def pack_be_def byte)
qed

lemma unsigned_le_pack: "n < 2 ^ 32 \<Longrightarrow> unsigned_le (pack_le n) = n"
  by (simp add: unsigned_le_def pack_le_def unsigned_be_pack)

lemma read_at_middle: "length ys = k \<Longrightarrow> read_at k (xs @ ys @ zs) (int (length xs)) = Inr ys"
  by (simp add: read_at_def Let_def)

lemma be_int_middle: "n < 2 ^ 31 \<Longrightarrow> be_int (xs @ pack_be n @ zs) (int (length xs)) = Inr (int n)"
  by (simp add: be_int_def read_at_middle unsigned_be_pack as_signed_def)

lemma le_int_middle: "n < 2 ^ 31 \<Longrightarrow> le_int (xs @ pack_le n @ zs) (int (length xs)) = Inr (int n)"
  by (simp add: le_int_def read_at_middle unsigned_le_pack as_signed_def)

lemma slice_middle: "slice (int (length xs)) (int (length xs) + int (length ys)) (xs @ ys @ zs) = ys"
  by (simp add: slice_def bound_in_def Let_def nat_add_distrib)

section \<open>Lines\<close>

lemma length_concat_pack [simp]: "length (concat (List.map pack_le ns)) = 4 * length ns"
  by (induction ns) simp_all

lemma length_concat_points: "\<forall>p \<in> set ps. length p = 16 \<Longrightarrow> length (concat ps) = 16 * length ps"
  by (induction ps) simp_all

lemma starts_from_props:
  "length (starts_from k parts) = length parts" "n \<in> set (starts_from k parts) \<Longrightarrow> n \<le> k + length (concat parts)"
proof -
  show "length (starts_from k parts) = length parts" by (induction parts arbitrary: k) simp_all
  show "n \<in> set (starts_from k parts) \<Longrightarrow> n \<le> k + length (concat parts)"
    by (induction parts arbitrary: k) fastforce+
qed

lemma map_each_all: "(\<And>x. x \<in> set xs \<Longrightarrow> f x = Inr (g x)) \<Longrightarrow> map_each f xs = Inr (List.map g xs)"
  by (induction xs) simp_all

lemma part_starts_middle:
  assumes "length pre = 44" and "\<forall>n \<in> set ns. n < 2 ^ 31"
  shows "part_starts (pre @ concat (List.map pack_le ns) @ rest) (int (length ns)) = Inr (List.map int ns)"
proof -
  let ?content = "pre @ concat (List.map pack_le ns) @ rest"
  have whole: "read_at (4 * length ns) ?content 44 = Inr (concat (List.map pack_le ns))"
    using read_at_middle [of "concat (List.map pack_le ns)" "4 * length ns" pre rest] assms(1) by simp
  have "le_int ?content (44 + 4 * int i) = Inr (int (ns ! i))" if "i < length ns" for i
  proof -
    have "concat (List.map pack_le ns) =
        concat (List.map pack_le (take i ns)) @ pack_le (ns ! i) @ concat (List.map pack_le (drop (Suc i) ns))"
      using id_take_nth_drop [OF that] by (metis concat_append concat.simps(2) list.simps(9) map_append)
    moreover have "int (length (pre @ concat (List.map pack_le (take i ns)))) = 44 + 4 * int i" using that assms(1) by simp
    ultimately show ?thesis
      using le_int_middle [of "ns ! i" "pre @ concat (List.map pack_le (take i ns))" "concat (List.map pack_le (drop (Suc i) ns)) @ rest"]
        assms(2) that by simp
  qed
  then have "map_each (\<lambda>i. le_int ?content (44 + 4 * int i)) [0..<length ns] = Inr (List.map (\<lambda>i. int (ns ! i)) [0..<length ns])"
    by (intro map_each_all) simp
  moreover have "List.map (\<lambda>i. int (ns ! i)) [0..<length ns] = List.map int ns"
    by (rule nth_equalityI) simp_all
  ultimately show ?thesis by (simp add: part_starts_def whole)
qed

fun part_bounds :: "nat \<Rightarrow> 'a list list \<Rightarrow> (int \<times> int) list" where
  "part_bounds k [] = []"
| "part_bounds k (p # ps) = (int k, int (k + length p)) # part_bounds (k + length p) ps"

lemma zip_part_ends:
  "zip (List.map int (starts_from k parts)) (part_ends (List.map int (starts_from k parts)) (int (k + length (concat parts)))) =
    part_bounds k parts"
proof (induction parts arbitrary: k)
  case Nil
  then show ?case by (simp add: part_ends_def)
next
  case (Cons p ps)
  have "zip (starts) (tl (starts @ [n])) = part_bounds (k + length p) ps"
    if "starts = List.map int (starts_from (k + length p) ps)" "n = int (k + length p + length (concat ps))" for starts n
    using Cons.IH [of "k + length p"] that by (simp add: part_ends_def)
  note IH = this [OF refl refl]
  show ?case
  proof (cases ps)
    case Nil
    then show ?thesis by (simp add: part_ends_def)
  next
    case (Cons q qs)
    then show ?thesis using IH by (simp add: part_ends_def add.assoc)
  qed
qed

lemma polyline_parts_middle:
  assumes "int (length pre) = offset + 16 * int k" and "\<forall>p \<in> set (concat parts). length p = 16"
  shows "polyline_parts (pre @ concat (concat parts)) offset (part_bounds k parts) =
    List.map wkb_linestring (filter (\<lambda>p. 2 \<le> length p) parts)"
  using assms
proof (induction parts arbitrary: pre k)
  case Nil
  then show ?case by (simp add: polyline_parts_def)
next
  case (Cons p ps)
  have len: "length (concat p) = 16 * length p" using Cons.prems(2) by (intro length_concat_points) simp
  have rest: "polyline_parts ((pre @ concat p) @ concat (concat ps)) offset (part_bounds (k + length p) ps) =
      List.map wkb_linestring (filter (\<lambda>p. 2 \<le> length p) ps)"
    using Cons.prems len by (intro Cons.IH) simp_all
  have "slice (offset + 16 * int k) (offset + 16 * int (k + length p)) (pre @ concat p @ concat (concat ps)) = concat p"
    using slice_middle [of pre "concat p" "concat (concat ps)"] Cons.prems(1) len by (simp add: algebra_simps)
  then show ?case using rest by (simp add: polyline_parts_def wkb_linestring_def)
qed

lemma polyline_wkb_content:
  assumes "shape_ok (LineShape box parts)"
  shows "polyline_wkb (shape_content (LineShape box parts)) = Inr (shape_wkb (LineShape box parts))"
proof -
  let ?total = "length (concat parts)"
  let ?starts = "starts_from 0 parts"
  let ?content = "shape_content (LineShape box parts)"
  have box: "length box = 32" and points: "\<forall>p \<in> set (concat parts). length p = 16" and small: "length ?content < 2 ^ 32"
    using assms by simp_all
  have "length ?content = 44 + 4 * length parts + 16 * ?total"
    using box length_concat_points [OF points] by (simp add: starts_from_props)
  then have bounds: "length parts < 2 ^ 31" "?total < 2 ^ 31" using small by simp_all
  have counts: "le_int ?content 36 = Inr (int (length parts))" "le_int ?content 40 = Inr (int ?total)"
    using le_int_middle [OF bounds(1), of "pack_le 3 @ box" "pack_le ?total @ concat (List.map pack_le ?starts) @ concat (concat parts)"]
      le_int_middle [OF bounds(2), of "pack_le 3 @ box @ pack_le (length parts)" "concat (List.map pack_le ?starts) @ concat (concat parts)"] box
    by simp_all
  have both: "\<exists>bs. read_at 8 ?content 36 = Inr bs"
    using read_at_middle [of "pack_le (length parts) @ pack_le ?total" 8 "pack_le 3 @ box"
        "concat (List.map pack_le ?starts) @ concat (concat parts)"] box by auto
  have "n < 2 ^ 31" if "n \<in> set ?starts" for n using starts_from_props(2) [OF that] bounds(2) by simp
  then have starts: "part_starts ?content (int (length parts)) = Inr (List.map int ?starts)"
    using part_starts_middle [of "pack_le 3 @ box @ pack_le (length parts) @ pack_le ?total" ?starts "concat (concat parts)"] box
    by (simp add: starts_from_props)
  have ends: "zip (List.map int ?starts) (part_ends (List.map int ?starts) (int ?total)) = part_bounds 0 parts"
    using zip_part_ends [of 0 parts] by simp
  have chunks: "polyline_parts ?content (44 + 4 * int (length parts)) (part_bounds 0 parts) =
      List.map wkb_linestring (filter (\<lambda>p. 2 \<le> length p) parts)"
    using polyline_parts_middle [of "pack_le 3 @ box @ pack_le (length parts) @ pack_le ?total @ concat (List.map pack_le ?starts)"
        "44 + 4 * int (length parts)" 0 parts] box points by (simp add: starts_from_props)
  show ?thesis
    using both counts by (auto simp: polyline_wkb_def starts ends chunks Let_def wkb_multilinestring_def simp del: shape_content.simps)
qed

section \<open>Files\<close>

lemma shape_content_even: "shape_ok s \<Longrightarrow> 2 * (length (shape_content s) div 2) = length (shape_content s)"
  by (cases s) (auto simp: length_concat_points starts_from_props)

lemma shape_content_length: "shape_ok s \<Longrightarrow> 4 \<le> length (shape_content s) \<and> length (shape_content s) div 2 < 2 ^ 31"
  by (cases s) auto

lemma shape_kind:
  "le_int (shape_content s) 0 = Inr (case s of NullShape \<Rightarrow> 0 | PointShape _ \<Rightarrow> 1 | LineShape _ _ \<Rightarrow> 3)"
proof -
  have "le_int (pack_le n @ zs) 0 = Inr (int n)" if "n < 2 ^ 31" for n zs using le_int_middle [OF that, of "[]"] by simp
  from this [of 0 "[]"] this [of 1] this [of 3] show ?thesis by (cases s) simp_all
qed

lemma read_record_middle:
  assumes "shape_ok s"
  shows "read_record (pre @ shape_record (i, s) @ post) (int (length pre)) =
    Inr (shape_wkb s, int (length (pre @ shape_record (i, s))))"
proof -
  let ?content = "shape_content s"
  let ?data = "pre @ shape_record (i, s) @ post"
  have half: "be_int ?data (int (length pre) + 4) = Inr (int (length ?content div 2))"
    using be_int_middle [of "length ?content div 2" "pre @ pack_be i" "?content @ post"] shape_content_length [OF assms]
    by (simp add: shape_record_def)
  have double: "int (length ?content div 2) * 2 = int (length ?content)" using shape_content_even [OF assms] by linarith
  have content: "slice (int (length pre) + 8) (int (length pre) + 8 + int (length ?content)) ?data = ?content"
    using slice_middle [of "pre @ pack_be i @ pack_be (length ?content div 2)" ?content post] by (simp add: shape_record_def)
  have rest: "int (length pre) + (8 + int (length ?content)) = int (length (pre @ shape_record (i, s)))"
    by (simp add: shape_record_def)
  have point: "read_at 16 (pack_le 1 @ xy) 4 = Inr xy" if "length xy = 16" for xy :: bytes
    using read_at_middle [OF that, of "pack_le 1" "[]"] by simp
  note step = read_record_def half and_then.simps Let_def double content rest shape_kind
  show ?thesis
  proof (cases s)
    case NullShape
    then show ?thesis unfolding step by (simp add: NULL_SHAPE_def)
  next
    case (PointShape xy)
    then have "read_at 16 ?content 4 = Inr xy" using point assms by simp
    then show ?thesis unfolding step by (simp add: PointShape NULL_SHAPE_def POINT_def del: shape_content.simps)
  next
    case (LineShape box parts)
    then have "polyline_wkb ?content = Inr (shape_wkb s)" using polyline_wkb_content assms by simp
    then show ?thesis unfolding step by (simp add: LineShape NULL_SHAPE_def POINT_def POLYLINE_def del: shape_content.simps shape_wkb.simps)
  qed
qed

lemma read_records_middle:
  assumes "\<forall>(i, s) \<in> set shapes. shape_ok s"
  shows "read_records (pre @ concat (List.map shape_record shapes)) (int (length pre)) =
    Some (Inr (List.map (shape_wkb \<circ> snd) shapes))"
  using assms
proof (induction shapes arbitrary: pre)
  case Nil
  then show ?case by (subst read_records.simps) simp
next
  case (Cons x xs)
  obtain i s where x: "x = (i, s)" by (cases x)
  have ok: "shape_ok s" using Cons.prems x by simp
  have rest: "read_records ((pre @ shape_record x) @ concat (List.map shape_record xs)) (int (length (pre @ shape_record x))) =
      Some (Inr (List.map (shape_wkb \<circ> snd) xs))"
    using Cons.prems by (intro Cons.IH) auto
  have "8 \<le> length (shape_record x)" by (simp add: x shape_record_def)
  then show ?case
    using read_record_middle [OF ok, of pre i "concat (List.map shape_record xs)"] rest
    by (subst read_records.simps) (simp add: x)
qed

text \<open>
  Property C35. Reading a file of shapes written in the documented format ends and gives, for each record in order, its
  geometry: nothing for a null shape, the point with the bytes of its coordinates, and for a line exactly the WKB that
  the program writes for its parts of at least two points.
\<close>

theorem read_shapes_of_file:
  assumes "header_ok header" and "\<forall>s \<in> set shapes. shape_ok s"
  shows "read_shapes (shp_file header shapes) = Some (Inr (List.map shape_wkb shapes))"
proof -
  let ?data = "shp_file header shapes"
  obtain t1 where h1: "header = pack_be 9994 @ t1" using assms(1) by (metis append_take_drop_id header_ok_def)
  have len: "length header = 100" using assms(1) by (simp add: header_ok_def)
  define k :: nat where "k = (if take 4 (drop 32 header) = pack_le 1 then 1 else 3)"
  have "take 4 (drop 32 header) = pack_le k" using assms(1) by (auto simp: header_ok_def k_def)
  then have "header = take 32 header @ pack_le k @ drop 4 (drop 32 header)"
    using append_take_drop_id [of 32 header] append_take_drop_id [of 4 "drop 32 header"] by simp
  moreover define t2 t3 where "t2 = take 32 header" and "t3 = drop 4 (drop 32 header)"
  ultimately have h2: "header = t2 @ pack_le k @ t3" and "length t2 = 32" using len by simp_all
  have magic: "be_int ?data 0 = Inr 9994"
    using be_int_middle [of 9994 "[]" "t1 @ concat (List.map shape_record (enumerate 1 shapes))"] by (simp add: shp_file_def h1)
  have "k < 2 ^ 31" by (simp add: k_def)
  have kind: "le_int ?data 32 = Inr (int k)"
    using le_int_middle [of k t2 "t3 @ concat (List.map shape_record (enumerate 1 shapes))"] \<open>length t2 = 32\<close> \<open>k < 2 ^ 31\<close>
    by (simp add: shp_file_def h2)
  have "\<forall>(i, s) \<in> set (enumerate 1 shapes). shape_ok s" using assms(2) by (auto dest: set_zip_rightD simp: enumerate_eq_zip)
  from read_records_middle [OF this, of header]
  have "read_records ?data 100 = Some (Inr (List.map shape_wkb shapes))"
    by (simp add: shp_file_def len flip: List.map_map)
  moreover have "int k = POINT \<or> int k = POLYLINE" by (simp add: k_def POINT_def POLYLINE_def)
  moreover have "100 \<le> length ?data" by (simp add: shp_file_def len)
  ultimately show ?thesis
    using magic kind by (auto simp: read_shapes_def)
qed

section \<open>A file that is never read to its end\<close>

text \<open>
  Lengths may be negative: a record of \<open>-112\<close> bytes sends the reader of this file to the offset \<open>-4\<close>, where the number of
  the format counts as a length and sends it forward again.
\<close>

definition zeros :: "nat \<Rightarrow> bytes" where "zeros n = replicate n 0"

lemma zeros_props [simp]: "length (zeros n) = n" "take k (zeros n) = zeros (min k n)" "drop k (zeros n) = zeros (n - k)" "zeros 0 = []"
  by (simp_all add: zeros_def)

definition looping_file :: bytes where
  "looping_file = pack_be 9994 @ zeros 28 @ pack_le 1 @ zeros 68 @ pack_be 4294967240 @ zeros 19888 @
     pack_be 4294957294 @ zeros 12"

lemma signed_be_middle: "n < 2 ^ 32 \<Longrightarrow> be_int (xs @ pack_be n @ zs) (int (length xs)) = Inr (as_signed n)"
  by (simp add: be_int_def read_at_middle unsigned_be_pack)

lemma looping_lengths:
  "be_int looping_file 104 = Inr (- 56)" "be_int looping_file 0 = Inr 9994" "be_int looping_file 19996 = Inr (- 10002)"
  "length looping_file = 20012"
proof -
  have signed: "as_signed 4294967240 = - 56" "as_signed 9994 = 9994" "as_signed 4294957294 = - 10002"
    by (simp_all add: as_signed_def)
  define a b c :: bytes where "a = pack_be 9994 @ zeros 28 @ pack_le 1 @ zeros 68" and "b = zeros 19888" and "c = zeros 12"
  have parts: "looping_file = a @ pack_be 4294967240 @ b @ pack_be 4294957294 @ c" by (simp add: looping_file_def a_def b_def c_def)
  have len: "length a = 104" "length b = 19888" "length c = 12" by (simp_all add: a_def b_def c_def)
  show "be_int looping_file 104 = Inr (- 56)"
    using signed_be_middle [of 4294967240 a "b @ pack_be 4294957294 @ c"] by (simp add: parts len signed)
  show "be_int looping_file 0 = Inr 9994"
    using signed_be_middle [of 9994 "[]" "zeros 28 @ pack_le 1 @ zeros 68 @ pack_be 4294967240 @ b @ pack_be 4294957294 @ c"]
    by (simp add: parts a_def signed)
  show "be_int looping_file 19996 = Inr (- 10002)"
    using signed_be_middle [of 4294957294 "a @ pack_be 4294967240 @ b" c] by (simp add: parts len signed)
  show "length looping_file = 20012" by (simp add: parts len)
qed

lemma null_kind: "le_int (zeros 4 @ zs) 0 = Inr 0"
proof -
  have "zeros 4 = [0, 0, 0, 0]" by (simp add: zeros_def numeral_eq_Suc)
  then have "zeros 4 = pack_le 0" by (simp add: pack_le_def pack_be_def)
  then show ?thesis using le_int_middle [of 0 "[]" zs] by simp
qed

lemma looping_contents:
  "le_int (slice 108 (- 4) looping_file) 0 = Inr 0" "le_int (slice 4 19992 looping_file) 0 = Inr 0"
  "le_int (slice 20000 (- 4) looping_file) 0 = Inr 0"
proof -
  have split: "xs = zeros 4 @ drop 4 xs" if "take 4 xs = zeros 4" for xs :: bytes
    using append_take_drop_id [of 4 xs] that by simp
  have "take 4 (slice 108 (- 4) looping_file) = zeros 4" "take 4 (slice 4 19992 looping_file) = zeros 4"
    "take 4 (slice 20000 (- 4) looping_file) = zeros 4"
    by (simp_all add: slice_def bound_in_def Let_def looping_lengths(4)) (simp_all add: looping_file_def)
  then show "le_int (slice 108 (- 4) looping_file) 0 = Inr 0" "le_int (slice 4 19992 looping_file) 0 = Inr 0"
    "le_int (slice 20000 (- 4) looping_file) 0 = Inr 0"
    using null_kind split by metis+
qed

lemma looping_records:
  "read_record looping_file 100 = Inr (None, - 4)" "read_record looping_file (- 4) = Inr (None, 19992)"
  "read_record looping_file 19992 = Inr (None, - 4)"
  by (simp_all add: read_record_def looping_lengths looping_contents NULL_SHAPE_def Let_def)

lemma looping_offsets:
  assumes "read_records data offset = Some r"
  shows "offset \<in> {100, - 4, 19992} \<longrightarrow> data \<noteq> looping_file"
  using assms
proof (induct rule: read_records.raw_induct [rotated 1, consumes 1])
  case (1 rec data offset r)
  show ?case
  proof (intro impI notI)
    assume at1: "offset \<in> {100, - 4, 19992}" and same: "data = looping_file"
    then obtain rest where step: "read_record data offset = Inr (None, rest)" "rest \<in> {100, - 4, 19992}"
      using looping_records by auto
    have "offset + 8 \<le> int (length data)" using at1 same looping_lengths(4) by auto
    then obtain r' where "rec data rest = Some r'" using 1(2) step(1) by (auto simp: bind_eq_Some_conv)
    from 1(1) [OF this] show False using step(2) same by blast
  qed
qed

lemma looping_file_never_read: "read_shapes looping_file = None"
proof -
  have "read_records looping_file 100 = None" using looping_offsets by (cases "read_records looping_file 100") auto
  moreover have "le_int looping_file 32 = Inr 1"
    using le_int_middle [of 1 "pack_be 9994 @ zeros 28"] by (simp add: looping_file_def)
  ultimately show ?thesis using looping_lengths by (simp add: read_shapes_def POINT_def)
qed

end
