(* ===== verification/Transport_Laws.thy ===== *)
theory Transport_Laws
  imports Transport Shapefile_Laws
begin

text \<open>
  What an import of the transport network leaves, and what a request of the network answers.
\<close>

section \<open>Lists\<close>

lemma map_each_append:
  "map_each f (xs @ ys) = and_then (map_each f xs) (\<lambda>as. and_then (map_each f ys) (\<lambda>bs. Inr (as @ bs)))"
proof (induction xs)
  case Nil
  then show ?case by (cases "map_each f ys") simp_all
next
  case (Cons x xs)
  then show ?case by (cases "f x"; cases "map_each f xs"; cases "map_each f ys") simp_all
qed

lemma fold_each_batches:
  "fold_each (\<lambda>rows batch. and_then (map_each f batch) (\<lambda>rs. Inr (rows @ rs))) acc bs =
    and_then (map_each f (concat bs)) (\<lambda>rs. Inr (acc @ rs))"
proof (induction bs arbitrary: acc)
  case (Cons b bs)
  then show ?case
    by (cases "map_each f b"; cases "map_each f (concat bs)") (simp_all add: map_each_append)
qed simp

lemma map_of_agreed:
  assumes "\<And>k' v. (k', v) \<in> set xs \<Longrightarrow> k' = k \<Longrightarrow> v = w"
  shows "map_of xs k = (if k \<in> fst ` set xs then Some w else None)"
proof (cases "map_of xs k")
  case None
  then show ?thesis by (simp add: map_of_eq_None_iff)
next
  case (Some v)
  then show ?thesis using assms map_of_SomeD [OF Some] by (force simp: image_iff)
qed

section \<open>Counts\<close>

lemma add_count_sum:
  assumes "distinct (List.map fst counts)"
  shows "distinct (List.map fst (add_count layer k counts)) \<and>
    sum_list (List.map snd (add_count layer k counts)) = sum_list (List.map snd counts) + k"
proof -
  have "sum_list (List.map snd (AList.update layer ((case map_of cs layer of None \<Rightarrow> 0 | Some j \<Rightarrow> j) + k) cs)) =
      sum_list (List.map snd cs) + k" if "distinct (List.map fst cs)" for cs
    using that
  proof (induction cs)
    case (Cons c cs)
    have "map_of cs layer = None" if "fst c = layer" using that Cons.prems by (auto simp: map_of_eq_None_iff)
    then show ?case using Cons by (cases c) (auto simp: update_conv')
  qed simp
  then show ?thesis using assms by (simp add: add_count_def distinct_update)
qed

lemma feature_counts:
  "distinct (List.map fst counts) \<Longrightarrow>
    distinct (List.map fst (foldl (\<lambda>cs f. add_count (tf_layer f) 1 cs) counts fs)) \<and>
    sum_list (List.map snd (foldl (\<lambda>cs f. add_count (tf_layer f) 1 cs) counts fs)) = sum_list (List.map snd counts) + length fs"
  by (induction fs arbitrary: counts) (simp_all add: add_count_sum)

lemma merged_counts:
  "distinct (List.map fst counts) \<Longrightarrow>
    sum_list (List.map snd (foldl (\<lambda>cs (layer, k). add_count layer k cs) counts ms)) =
      sum_list (List.map snd counts) + sum_list (List.map snd ms)"
  by (induction ms arbitrary: counts) (auto simp: add_count_sum)

section \<open>The stored features\<close>

definition stored_as :: "network_row \<Rightarrow> transport_feature \<Rightarrow> bool" where
  "stored_as r f \<longleftrightarrow> nf_layer r = tf_layer f \<and> nf_name r = map_option (take 160) (tf_name f) \<and> nf_attributes r = tf_attributes f"

lemma row_stored: "network_row_of n dataset (i, f) = Inr r \<Longrightarrow> stored_as r f"
  by (auto simp: network_row_of_def stored_as_def split: option.splits)

lemma insert_features_Inr:
  assumes "insert_features n start dataset fs t = Inr (counts, t')"
  obtains rows where "t' = t\<lparr>tr_features := tr_features t @ rows\<rparr>" and "list_all2 stored_as rows fs"
    and "sum_list (List.map snd counts) = length fs" and "distinct (List.map fst counts)"
proof -
  obtain rows where rows: "map_each (network_row_of n dataset) (enumerate start fs) = Inr rows"
    and t': "t' = t\<lparr>tr_features := tr_features t @ rows\<rparr>"
    and counts: "counts = foldl (\<lambda>cs f. add_count (tf_layer f) 1 cs) [] fs"
    using assms by (auto simp: insert_features_def fold_each_batches concat_batches BATCH_SIZE_def and_then_Inr)
  have "list_all2 stored_as rows fs"
    unfolding list_all2_conv_all_nth
  proof (intro conjI allI impI)
    have all: "list_all2 (\<lambda>x r. network_row_of n dataset x = Inr r) (enumerate start fs) rows" using rows by (simp add: map_each_Inr)
    then show len: "length rows = length fs" by (auto dest: list_all2_lengthD)
    fix i assume i: "i < length rows"
    then have "network_row_of n dataset (start + i, fs ! i) = Inr (rows ! i)"
      using list_all2_nthD2 [OF all i] len by (simp add: nth_enumerate_eq)
    then show "stored_as (rows ! i) (fs ! i)" by (rule row_stored)
  qed
  then show thesis using that t' feature_counts [of "[]" fs] counts by simp
qed

section \<open>The totals\<close>

text \<open>A municipality counts for itself, its state, its region and the country.\<close>

definition counts_for :: "string \<Rightarrow> string \<Rightarrow> bool" where
  "counts_for code scope \<longleftrightarrow> code = scope \<or> take 2 code = scope \<or> take 1 code = scope \<or> scope = ''BR''"

definition municipal_code :: "string \<Rightarrow> bool" where
  "municipal_code code \<longleftrightarrow> length code = 7 \<and> list_all is_ascii_digit code"

definition scope_values :: "(string \<times> transport_layer \<times> real) list \<Rightarrow> string \<Rightarrow> transport_layer \<Rightarrow> real list" where
  "scope_values items scope layer = [v. (code, l, v) \<leftarrow> items, l = layer \<and> counts_for code scope]"

lemma scope_codes_once:
  assumes "municipal_code code"
  shows "length (filter (\<lambda>c. c = scope) (scope_codes code)) = (if counts_for code scope then 1 else 0)"
proof -
  obtain a b rest where code: "code = a # b # rest" "rest \<noteq> []" and digits: "is_ascii_digit a" "is_ascii_digit b"
    using assms by (cases code; cases "tl code"; cases "tl (tl code)") (auto simp: municipal_code_def)
  have "a \<noteq> CHR ''B''" using digits(1) by (auto simp: is_ascii_digit_def)
  then show ?thesis using code by (auto simp: scope_codes_def counts_for_def)
qed

lemma scope_total_values:
  assumes "\<forall>(code, l, v) \<in> set items. municipal_code code"
  shows "scope_total items scope layer = sum_list (scope_values items scope layer)"
  using assms
proof (induction items)
  case (Cons item items)
  obtain code l v where item: "item = (code, l, v)" by (cases item)
  then show ?case
    using Cons scope_codes_once [of code scope] by (auto simp: scope_total_def scope_values_def)
qed (simp add: scope_total_def scope_values_def)

lemma scope_groups_values: "(scope, layer) \<in> set (scope_groups items) \<longleftrightarrow> scope_values items scope layer \<noteq> []"
  by (induction items) (auto simp: scope_groups_def scope_values_def scope_codes_def counts_for_def split: if_splits)

lemma item_codes:
  assumes "(code, l, v) \<in> set (length_items n d rows @ port_items n d rows)"
  shows "\<exists>t \<in> set (territories d). t_level t = Municipality \<and> t_ibge_code t = code"
proof -
  have "code \<in> fst ` set (detailed_municipalities d)"
    using assms
  proof (simp, elim disjE)
    assume "(code, l, v) \<in> set (length_items n d rows)"
    then show ?thesis by (force simp: length_items_def List.map_filter_def split: if_splits)
  next
    assume "(code, l, v) \<in> set (port_items n d rows)"
    then obtain g where "nearest_municipality n d g = Some code"
      by (auto simp: port_items_def List.map_filter_def split: if_splits)
    then obtain m ms where ms: "filter (\<lambda>(_, area). tx_distance n area g \<le> PORT_DISTANCE) (detailed_municipalities d) = m # ms"
      and "code = fst (min_by (\<lambda>(_, area). tx_distance n area g) m ms)"
      by (auto simp: nearest_municipality_def split: list.splits)
    moreover have "set (m # ms) \<subseteq> set (detailed_municipalities d)" unfolding ms [symmetric] by auto
    ultimately show ?thesis using min_by_in [of "\<lambda>(_, area). tx_distance n area g" m ms] by auto
  qed
  then show ?thesis by (auto simp: detailed_municipalities_def)
qed

lemma map_each_kept:
  "map_each (\<lambda>((t, layer), v). if P v then Inr ((t, layer), v) else Inl e) xs = Inr ys \<Longrightarrow> ys = xs"
  by (induction xs arbitrary: ys) (auto simp: and_then_Inr split: if_splits)

lemma total_rows_Inr:
  assumes "total_rows n d rows = Inr totals" and "distinct (List.map t_ibge_code (territories d))"
    and "distinct (List.map t_id (territories d))"
    and "\<forall>t \<in> set (territories d). t_level t = Municipality \<longrightarrow> municipal_code (t_ibge_code t)" and "x \<in> set (territories d)"
  shows "map_of totals (t_id x, layer) =
    (let km = scope_values (length_items n d rows @ port_items n d rows) (t_ibge_code x) layer in
     if km = [] then None else Some (round_away 1 (tx_numeric n (sum_list km))))"
proof -
  let ?items = "length_items n d rows @ port_items n d rows"
  let ?amount = "\<lambda>scope layer. round_away 1 (tx_numeric n (scope_total ?items scope layer))"
  let ?all = "[((t_id t, layer), ?amount scope layer).
      (scope, layer) \<leftarrow> scope_groups ?items, t \<leftarrow> territories d, t_ibge_code t = scope]"
  have totals: "totals = ?all" by (rule map_each_kept [OF assms(1) [unfolded total_rows_def Let_def]])
  have same: "t = x" if "t \<in> set (territories d)" "t_id t = t_id x" for t
    using that assms(3,5) by (auto simp: distinct_map inj_on_def)
  have agreed: "v = ?amount (t_ibge_code x) layer" if "(k, v) \<in> set totals" "k = (t_id x, layer)" for k v
    using that same by (auto simp: totals)
  have present: "(t_id x, layer) \<in> fst ` set totals \<longleftrightarrow> scope_values ?items (t_ibge_code x) layer \<noteq> []"
    unfolding scope_groups_values [symmetric] using same assms(5) by (force simp: totals image_iff)
  have "\<forall>(code, l, v) \<in> set ?items. municipal_code code" using item_codes assms(4) by blast
  note summed = scope_total_values [OF this]
  have "map_of totals (t_id x, layer) =
      (if (t_id x, layer) \<in> fst ` set totals then Some (?amount (t_ibge_code x) layer) else None)"
    by (rule map_of_agreed) (rule agreed)
  then show ?thesis unfolding present summed Let_def by simp
qed

section \<open>The import\<close>

lemma dataset_keeps_territories:
  "territories (snd (upsert_dataset r d)) = territories d" "territory_geometries (snd (upsert_dataset r d)) = territory_geometries d"
  by (simp_all add: upsert_dataset_def Let_def)

lemma items_territories:
  assumes "territories d' = territories d" and "territory_geometries d' = territory_geometries d"
  shows "length_items n d' = length_items n d" and "port_items n d' = port_items n d"
proof -
  have "detailed_municipalities d' = detailed_municipalities d" by (simp add: detailed_municipalities_def assms)
  then have near: "nearest_municipality n d' = nearest_municipality n d" and lengths: "length_items n d' = length_items n d"
    by (simp_all add: nearest_municipality_def [abs_def] length_items_def [abs_def])
  show "length_items n d' = length_items n d" by (rule lengths)
  show "port_items n d' = port_items n d" unfolding port_items_def [abs_def] near ..
qed

lemma replace_network_Inr:
  assumes "replace_network n version federal roads features d = Inr (rep, d', t')"
  obtains fs totals where "features = Inr fs" and "list_all2 stored_as (tr_features t') (roads @ fs)"
    and "tr_totals t' = totals" and "tr_overviews t' = overview_rows n (tr_features t')"
    and "total_rows n d' (tr_features t') = Inr totals" and "rp_written rep = int (length (tr_features t'))"
    and "territories d' = territories d" and "territory_geometries d' = territory_geometries d"
proof -
  obtain snv d1 where snv: "upsert_dataset (tx_snv_dataset n version) d = (snv, d1)" by (cases "upsert_dataset (tx_snv_dataset n version) d")
  obtain map_id d2 where map_id: "upsert_dataset (tx_map_dataset n) d1 = (map_id, d2)" by (cases "upsert_dataset (tx_map_dataset n) d1")
  let ?empty = "\<lparr>tr_features = [], tr_overviews = [], tr_totals = []\<rparr>"
  obtain counts t1 fs more_counts t2 totals where steps:
      "insert_features n 0 snv roads ?empty = Inr (counts, t1)" "features = Inr fs"
      "insert_features n (length roads) map_id fs t1 = Inr (more_counts, t2)" "total_rows n d2 (tr_features t2) = Inr totals"
    and results: "d' = d2" "t' = t2\<lparr>tr_overviews := overview_rows n (tr_features t2), tr_totals := totals\<rparr>"
      "rp_written rep = int (sum_list (List.map snd (foldl (\<lambda>cs (layer, k). add_count layer k cs) counts more_counts)))"
    using assms by (auto simp: replace_network_def snv map_id Let_def and_then_Inr)
  obtain rows1 where r1: "t1 = ?empty\<lparr>tr_features := tr_features ?empty @ rows1\<rparr>" "list_all2 stored_as rows1 roads"
    "sum_list (List.map snd counts) = length roads" "distinct (List.map fst counts)"
    by (rule insert_features_Inr [OF steps(1)])
  obtain rows2 where r2: "t2 = t1\<lparr>tr_features := tr_features t1 @ rows2\<rparr>" "list_all2 stored_as rows2 fs"
    "sum_list (List.map snd more_counts) = length fs" "distinct (List.map fst more_counts)"
    by (rule insert_features_Inr [OF steps(3)])
  have stored: "tr_features t' = rows1 @ rows2" using r1(1) r2(1) results(2) by simp
  have "list_all2 stored_as (tr_features t') (roads @ fs)" unfolding stored by (rule list_all2_appendI [OF r1(2) r2(2)])
  moreover have "rp_written rep = int (length (tr_features t'))"
    using merged_counts [OF r1(4), of more_counts] r1(2,3) r2(2,3) results(3) stored by (simp add: list_all2_lengthD)
  moreover have "territories d' = territories d" "territory_geometries d' = territory_geometries d"
    using dataset_keeps_territories [of "tx_snv_dataset n version" d] dataset_keeps_territories [of "tx_map_dataset n" d1]
    by (simp_all add: snv map_id results(1))
  ultimately show thesis using that [OF steps(2)] steps(4) results by simp
qed

lemma import_network_cases:
  assumes "import_network n s d t = Some (result, rep, d', t')"
  obtains (failed) e where "result = Inl e" and "d' = d" and "t' = t"
  | (stored) version federal layers roads features where "result = Inr 0"
    and "fetch_roads (ts_pages s version) = Some (Inr federal)" and "dnit_roads (ts_repr s) (ts_pack s) federal = Inr roads"
    and "download_layers (ts_from_file s) (ts_opened s) = Inr layers" and "map_features (ts_decode s) layers = Some features"
    and "replace_network n version (length federal) roads features d = Inr (rep, d', t')"
proof (cases "latest_version (ts_repr s) (ts_version s)")
  case (Inl e)
  then show thesis using assms failed by (auto simp: import_network_def)
next
  case (Inr version)
  note v = this
  obtain pages where pages: "fetch_roads (ts_pages s version) = Some pages"
    using assms v by (cases "fetch_roads (ts_pages s version)") (simp_all add: import_network_def)
  show thesis
  proof (cases pages)
    case (Inl e)
    then show thesis using assms v pages failed by (auto simp: import_network_def)
  next
    case (Inr federal)
    note p = pages [unfolded Inr]
    show thesis
    proof (cases "download_layers (ts_from_file s) (ts_opened s)")
      case (Inl e)
      then show thesis using assms v p failed by (auto simp: import_network_def)
    next
      case (Inr layers)
      note l = this
      show thesis
      proof (cases "dnit_roads (ts_repr s) (ts_pack s) federal")
        case (Inl e)
        then show thesis using assms v p l failed by (auto simp: import_network_def)
      next
        case (Inr roads)
        then obtain features where fs: "map_features (ts_decode s) layers = Some features"
          and body: "import_body n version (length federal) roads features d t = (result, rep, d', t')"
          using assms v p l by (auto simp: import_network_def)
        show thesis
          using body failed stored [OF _ p Inr l fs]
          by (cases "replace_network n version (length federal) roads features d") (auto simp: import_body_def)
      qed
    qed
  qed
qed


section \<open>Requests of the network\<close>

record network_call =
  nc_at :: clock
  nc_layer :: transport_layer
  nc_zoom :: real
  nc_box :: "box option"
  nc_db :: db
  nc_tables :: transport_db

text \<open>The answers to a sequence of requests against changing tables.\<close>

fun network_run :: "transport_geo \<Rightarrow> network_call list \<Rightarrow> transport_caches \<Rightarrow> (raised + network_answer) list" where
  "network_run q [] c = []"
| "network_run q (x # xs) c =
     (let (r, c1) = get_network q (nc_at x) (nc_at x) (nc_layer x) (nc_zoom x) (nc_box x) (nc_db x) (nc_tables x) c in
      r # network_run q xs c1)"

text \<open>The widest area of a zoom, and the requests that are refused.\<close>

definition widest :: "real \<Rightarrow> real" where
  "widest zoom = (if zoom < 8 then 36 else if zoom < 10 then 12 else 4)"

definition refused :: "transport_layer \<Rightarrow> real \<Rightarrow> box option \<Rightarrow> bool" where
  "refused layer zoom area \<longleftrightarrow> zoom < min_zoom_of layer \<or>
     (layer \<noteq> Port \<and> 6 \<le> zoom \<and>
      (case area of None \<Rightarrow> True | Some (w, s, e, n) \<Rightarrow> widest zoom < e - w \<or> widest zoom < n - s))"

lemma line_layers: "layer \<in> set LINE_LAYERS \<longleftrightarrow> layer \<noteq> Port"
  by (cases layer) (simp_all add: LINE_LAYERS_def)

lemma min_zoom_positive: "3 \<le> min_zoom_of layer"
  by (cases layer) (simp_all add: min_zoom_of_def LAYERS_def)

lemma detail_for_cases:
  assumes "0 \<le> zoom"
  obtains dl where "detail_for zoom = Some dl" and "dl \<in> set DETAILS" and "dl_name dl \<noteq> OverviewDetail \<longleftrightarrow> 6 \<le> zoom"
    and "6 \<le> zoom \<Longrightarrow> dl_max_span dl = widest zoom"
proof -
  consider "zoom < 6" | "6 \<le> zoom" "zoom < 8" | "8 \<le> zoom" "zoom < 10" | "10 \<le> zoom" by linarith
  then show thesis
    using assms that [of "DETAILS ! 0"] that [of "DETAILS ! 1"] that [of "DETAILS ! 2"] that [of "DETAILS ! 3"]
    by cases (simp_all add: detail_for_def DETAILS_def widest_def)
qed

lemma network_request_outcome:
  "case network_request layer zoom area of
      Inl e \<Rightarrow> refused layer zoom area \<and> (\<exists>p. e = RaisedDomain (invalid_parameter p []))
    | Inr (dl, used) \<Rightarrow> \<not> refused layer zoom area \<and> detail_for zoom = Some dl \<and> dl \<in> set DETAILS"
proof (cases "zoom < min_zoom_of layer")
  case True
  then show ?thesis by (auto simp: network_request_def refused_def)
next
  case False
  then have "0 \<le> zoom" using min_zoom_positive [of layer] by linarith
  then obtain dl where dl: "detail_for zoom = Some dl" "dl \<in> set DETAILS" "dl_name dl \<noteq> OverviewDetail \<longleftrightarrow> 6 \<le> zoom"
      "6 \<le> zoom \<longrightarrow> dl_max_span dl = widest zoom" using detail_for_cases by metis
  show ?thesis
    using False dl by (auto simp: network_request_def refused_def from_option_def line_layers split: option.split)
qed

text \<open>What an entry of the cache was made from: a level of detail, and the tables of an earlier request.\<close>

definition answer_from :: "transport_geo \<Rightarrow> (clock \<times> transport_db) set \<Rightarrow> network_key \<Rightarrow> clock \<Rightarrow> network_answer \<Rightarrow> bool" where
  "answer_from q past key at1 v \<longleftrightarrow>
     (case key of (layer, detail, used, version) \<Rightarrow>
        \<exists>dl t. dl \<in> set DETAILS \<and> shown_detail layer dl = detail \<and> (at1, t) \<in> past \<and>
          v = \<lparr>na_layer = layer, na_detail = detail, na_version = version, na_features = network_features q layer dl used t\<rparr>)"

lemma answer_from_mono: "answer_from q past k at1 v \<Longrightarrow> past \<subseteq> past' \<Longrightarrow> answer_from q past' k at1 v"
  by (cases k) (force simp: answer_from_def)

lemma same_features:
  assumes "dl \<in> set DETAILS" and "dl' \<in> set DETAILS" and "shown_detail layer dl = shown_detail layer dl'"
  shows "network_features q layer dl used t = network_features q layer dl' used t"
proof (cases "layer \<in> set LINE_LAYERS")
  case True
  then have "dl = dl'" using assms by (auto simp: shown_detail_def DETAILS_def)
  then show ?thesis by simp
next
  case False
  then show ?thesis by (simp add: network_features_def)
qed

lemma transport_version_Inr: "\<exists>v. fst (transport_version now later d c) = Inr v"
  by (auto simp: transport_version_def read_through_def split: prod.split option.split)

definition network_ok :: "transport_geo \<Rightarrow> (clock \<times> transport_db) set \<Rightarrow> transport_caches \<Rightarrow> bool" where
  "network_ok q past c \<longleftrightarrow> cache_loaded (answer_from q past) (tc_network c) \<and> tc_ttl (tc_network c) = 24 * 60 * 60"

lemma get_network_step:
  assumes "network_ok q past c" and "get_network q now now layer zoom area d t c = (r, c')"
  shows "network_ok q (insert (now, t) past) c' \<and>
    (case r of
       Inl e \<Rightarrow> refused layer zoom area \<and> (\<exists>p. e = RaisedDomain (invalid_parameter p []))
     | Inr v \<Rightarrow> \<not> refused layer zoom area \<and> na_layer v = layer \<and>
         (\<exists>dl used t' at1. network_request layer zoom area = Inr (dl, used) \<and> na_detail v = shown_detail layer dl \<and>
            (at1, t') \<in> insert (now, t) past \<and> now \<le> at1 + 86400 \<and> na_features v = network_features q layer dl used t'))"
proof -
  let ?past = "insert (now, t) past"
  have past: "network_ok q ?past c"
    using assms(1) unfolding network_ok_def by (auto intro: cache_loaded_mono answer_from_mono)
  show ?thesis
  proof (cases "network_request layer zoom area")
    case (Inl e)
    then show ?thesis using past assms(2) network_request_outcome [of layer zoom area] by (auto simp: get_network_def)
  next
    case (Inr x)
    obtain dl used where x: "x = (dl, used)" by (cases x)
    note request = Inr [unfolded x]
    have ok: "\<not> refused layer zoom area" "dl \<in> set DETAILS" using network_request_outcome [of layer zoom area] request by auto
    obtain version vs where version: "transport_version now now d (tc_version c) = (Inr version, vs)"
      using transport_version_Inr [of now now d "tc_version c"] by (metis prod.collapse)
    let ?key = "(layer, shown_detail layer dl, used, version)"
    let ?load = "\<lambda>_ :: unit. Inr \<lparr>na_layer = layer, na_detail = shown_detail layer dl, na_version = version,
        na_features = network_features q layer dl used t\<rparr> :: raised + network_answer"
    obtain ns where read: "read_through now now ?key ?load (tc_network c) = (r, ns)" and c': "c' = \<lparr>tc_network = ns, tc_version = vs\<rparr>"
      using assms(2) by (auto simp: get_network_def request version split: prod.splits)
    have loads: "answer_from q ?past ?key now v" if "?load () = Inr v" for v
      using that ok(2) by (auto simp: answer_from_def)
    have kept: "network_ok q ?past c'"
      using past read_through_loaded [of "answer_from q ?past" "tc_network c" ?load ?key now now] loads read
        read_through_params [of now now ?key ?load "tc_network c"] unfolding network_ok_def c' by simp
    obtain v where r: "r = Inr v" using read_through_error [of now now ?key ?load "tc_network c"] read by (cases r) auto
    have "?load () = Inr v \<or> (\<exists>at1. answer_from q ?past ?key at1 v \<and> now \<le> at1 + of_int (tc_ttl (tc_network c)))"
      using past read_through_value [of "answer_from q ?past" "tc_network c" ?load ?key now now v] loads read r
      unfolding network_ok_def by (metis fst_conv)
    then obtain at1 where "answer_from q ?past ?key at1 v" "now \<le> at1 + 86400"
      using loads [of v] past unfolding network_ok_def by fastforce
    then obtain dl' t' where origin: "dl' \<in> set DETAILS" "shown_detail layer dl' = shown_detail layer dl" "(at1, t') \<in> ?past" "now \<le> at1 + 86400"
      "v = \<lparr>na_layer = layer, na_detail = shown_detail layer dl, na_version = version, na_features = network_features q layer dl' used t'\<rparr>"
      by (auto simp: answer_from_def)
    have "network_features q layer dl' used t' = network_features q layer dl used t'"
      by (rule same_features [OF origin(1) ok(2) origin(2)])
    then have "na_layer v = layer \<and> (\<exists>dl used t' at1. network_request layer zoom area = Inr (dl, used) \<and>
        na_detail v = shown_detail layer dl \<and> (at1, t') \<in> ?past \<and> now \<le> at1 + 86400 \<and>
        na_features v = network_features q layer dl used t')"
      using origin(3,4,5) request by auto
    then show ?thesis using kept r ok(1) by simp
  qed
qed

lemma network_run_step:
  assumes "network_ok q past c" and "i < length xs" and "network_run q xs c ! i = r"
  shows "case r of
      Inl e \<Rightarrow> refused (nc_layer (xs ! i)) (nc_zoom (xs ! i)) (nc_box (xs ! i)) \<and> (\<exists>p. e = RaisedDomain (invalid_parameter p []))
    | Inr v \<Rightarrow> \<not> refused (nc_layer (xs ! i)) (nc_zoom (xs ! i)) (nc_box (xs ! i)) \<and> na_layer v = nc_layer (xs ! i) \<and>
        (\<exists>dl used t' at1. network_request (nc_layer (xs ! i)) (nc_zoom (xs ! i)) (nc_box (xs ! i)) = Inr (dl, used) \<and>
           na_detail v = shown_detail (nc_layer (xs ! i)) dl \<and>
           (at1, t') \<in> past \<union> (\<lambda>x. (nc_at x, nc_tables x)) ` set (take (Suc i) xs) \<and> nc_at (xs ! i) \<le> at1 + 86400 \<and>
           na_features v = network_features q (nc_layer (xs ! i)) dl used t')"
  using assms
proof (induction xs arbitrary: past c i)
  case (Cons x xs)
  obtain r1 c1 where step: "get_network q (nc_at x) (nc_at x) (nc_layer x) (nc_zoom x) (nc_box x) (nc_db x) (nc_tables x) c = (r1, c1)"
    by (cases "get_network q (nc_at x) (nc_at x) (nc_layer x) (nc_zoom x) (nc_box x) (nc_db x) (nc_tables x) c")
  note first = get_network_step [OF Cons.prems(1) step]
  show ?case
  proof (cases i)
    case 0
    then have "r = r1" using Cons.prems(3) by (simp add: step)
    then show ?thesis using first 0 by (cases r) fastforce+
  next
    case (Suc j)
    have ok: "network_ok q (insert (nc_at x, nc_tables x) past) c1" using first by blast
    have j: "j < length xs" "network_run q xs c1 ! j = r" using Cons.prems(2,3) Suc by (simp_all add: step)
    have "insert (nc_at x, nc_tables x) past \<union> (\<lambda>x. (nc_at x, nc_tables x)) ` set (take (Suc j) xs) =
        past \<union> (\<lambda>x. (nc_at x, nc_tables x)) ` set (take (Suc i) (x # xs))"
      using Suc by auto
    then show ?thesis using Cons.IH [OF ok j] unfolding Suc nth_Cons_Suc by metis
  qed
qed simp

text \<open>
  In a sequence of requests of the network, against tables that may change in between, a request is refused
  exactly when its zoom is below the layer's, or it is for lines at a zoom of 6 or more without an area or with one too
  wide for that zoom. Any other is answered with the layer asked, at the level of detail of the zoom, and its features
  are those of the area asked in the tables of this or of an earlier request, at most a day before.
\<close>

theorem network_answers_what_was_asked:
  assumes "i < length xs" and "network_run q xs new_transport_caches ! i = r" and "x = xs ! i"
  shows "case r of
      Inl e \<Rightarrow> (nc_zoom x < min_zoom_of (nc_layer x) \<or>
          (nc_layer x \<noteq> Port \<and> 6 \<le> nc_zoom x \<and>
           (case nc_box x of None \<Rightarrow> True | Some (w, s, e, n) \<Rightarrow> widest (nc_zoom x) < e - w \<or> widest (nc_zoom x) < n - s))) \<and>
        (\<exists>p. e = RaisedDomain (invalid_parameter p []))
    | Inr v \<Rightarrow> \<not> refused (nc_layer x) (nc_zoom x) (nc_box x) \<and> na_layer v = nc_layer x \<and>
        (\<exists>dl used. network_request (nc_layer x) (nc_zoom x) (nc_box x) = Inr (dl, used) \<and>
           na_detail v = (if nc_layer x = Port then OverviewDetail else dl_name dl) \<and>
           (\<exists>y \<in> set (take (Suc i) xs). nc_at x \<le> nc_at y + 86400 \<and>
              na_features v = network_features q (nc_layer x) dl used (nc_tables y)))"
proof -
  have "network_ok q {} new_transport_caches" by (simp add: network_ok_def new_transport_caches_def new_cache_def cache_loaded_def)
  from network_run_step [OF this assms(1,2)] show ?thesis
    unfolding assms(3) refused_def shown_detail_def line_layers by (cases r) fastforce+
qed

end
