(* ===== verification/Transport_Tile_Laws.thy ===== *)
theory Transport_Tile_Laws
  imports Transport_Tiles Transport_Laws
begin

text \<open>
  Importing the tiles can be interrupted at any point and taken up again: what is staged always comes from the file of
  its mark, and what is served at the end is the file.
\<close>

section \<open>Batches\<close>

lemma insert_tiles_props:
  "distinct (List.map fst rows) \<Longrightarrow> distinct (List.map fst (insert_tiles batch rows))"
  "set rows \<subseteq> set (insert_tiles batch rows)" "set (insert_tiles batch rows) \<subseteq> set rows \<union> set batch"
  "fst ` set (insert_tiles batch rows) = fst ` set rows \<union> fst ` set batch"
proof -
  have step: "snd (insert_ignore same_tile r t) = (if fst r \<in> fst ` set t then t else t @ [r])" for r and t :: "tile list"
    by (auto simp: insert_ignore_def same_tile_def list_ex_iff)
  show "distinct (List.map fst rows) \<Longrightarrow> distinct (List.map fst (insert_tiles batch rows))"
    by (induction batch arbitrary: rows) (auto simp: insert_tiles_def step)
  show "set rows \<subseteq> set (insert_tiles batch rows)"
    by (induction batch arbitrary: rows) (fastforce simp: insert_tiles_def step)+
  show "set (insert_tiles batch rows) \<subseteq> set rows \<union> set batch"
    by (induction batch arbitrary: rows) (fastforce simp: insert_tiles_def step split: if_splits)+
  show "fst ` set (insert_tiles batch rows) = fst ` set rows \<union> fst ` set batch"
  proof (induction batch arbitrary: rows)
    case Nil
    then show ?case by (simp add: insert_tiles_def)
  next
    case (Cons b bs)
    let ?rows = "snd (insert_ignore same_tile b rows)"
    have "fst ` set ?rows = insert (fst b) (fst ` set rows)" unfolding step by (simp add: insert_absorb)
    moreover have "insert_tiles (b # bs) rows = insert_tiles bs ?rows" by (simp add: insert_tiles_def)
    ultimately show ?case using Cons.IH [of ?rows] by simp
  qed
qed

text \<open>What writing a batch can have done to the rows, whatever the attempts meet.\<close>

definition written_from :: "tile list \<Rightarrow> tile list \<Rightarrow> tile list \<Rightarrow> bool" where
  "written_from batch rows rows' \<longleftrightarrow>
     (distinct (List.map fst rows) \<longrightarrow> distinct (List.map fst rows')) \<and> set rows' \<subseteq> set rows \<union> set batch \<and>
     fst ` set rows \<subseteq> fst ` set rows'"

lemma written_from_refl [simp]: "written_from batch rows rows"
  by (auto simp: written_from_def)

lemma written_from_insert [simp]: "written_from batch rows (insert_tiles batch rows)"
  using insert_tiles_props(1) [of rows batch] insert_tiles_props(3,4) [of batch rows] by (auto simp: written_from_def)

lemma written_from_trans: "written_from batch a b \<Longrightarrow> written_from batch b c \<Longrightarrow> written_from batch a c"
  unfolding written_from_def by blast

lemma write_from_rows:
  assumes "write_from net batch attempt rows = (r, rows', slept)" and "attempt \<le> WRITE_ATTEMPTS"
  shows "written_from batch rows rows' \<and> (r = Inr () \<longrightarrow> fst ` set batch \<subseteq> fst ` set rows')"
  using assms
proof (induction net batch attempt rows arbitrary: r rows' slept rule: write_from.induct)
  case (1 net batch attempt rows)
  note run = 1(3) [unfolded write_from.simps [of net batch attempt rows]]
  show ?case
  proof (cases "outcome_of batch (net attempt)")
    case Accepted
    then show ?thesis using run 1(4) insert_tiles_props(4) [of batch rows] by auto
  next
    case OtherFailure
    then show ?thesis using run 1(4) by auto
  next
    case LostBefore
    show ?thesis
    proof (cases "attempt = WRITE_ATTEMPTS")
      case True
      then show ?thesis using run LostBefore by auto
    next
      case False
      obtain r2 rows2 slept2 where again: "write_from net batch (attempt + 1) (rows) = (r2, rows2, slept2)"
        by (cases "write_from net batch (attempt + 1) (rows)")
      have "r = r2" "rows' = rows2" using run False LostBefore again 1(4) by auto
      moreover have "written_from batch (rows) rows2 \<and> (r2 = Inr () \<longrightarrow> fst ` set batch \<subseteq> fst ` set rows2)"
        using 1(1) [OF _ LostBefore refl False] again False 1(4) by simp
      ultimately show ?thesis by simp
    qed
  next
    case LostAfter
    show ?thesis
    proof (cases "attempt = WRITE_ATTEMPTS")
      case True
      then show ?thesis using run LostAfter by auto
    next
      case False
      obtain r2 rows2 slept2 where again: "write_from net batch (attempt + 1) (insert_tiles batch rows) = (r2, rows2, slept2)"
        by (cases "write_from net batch (attempt + 1) (insert_tiles batch rows)")
      have "r = r2" "rows' = rows2" using run False LostAfter again 1(4) by auto
      moreover have "written_from batch (insert_tiles batch rows) rows2 \<and> (r2 = Inr () \<longrightarrow> fst ` set batch \<subseteq> fst ` set rows2)"
        using 1(2) [OF _ LostAfter refl False] again False 1(4) by simp
      ultimately show ?thesis using written_from_trans [OF written_from_insert, of batch rows rows2] by simp
    qed
  qed
qed

section \<open>The load\<close>

lemma map_each_in: "map_each f xs = Inr ys \<Longrightarrow> y \<in> set ys \<Longrightarrow> \<exists>x \<in> set xs. f x = Inr y"
  by (induction xs arbitrary: ys) (auto simp: and_then_Inr)

text \<open>The tiles of a file, in the numbers of the map.\<close>

definition staged_ok :: "mbtiles \<Rightarrow> tile list \<Rightarrow> bool" where
  "staged_ok file rows \<longleftrightarrow> distinct (List.map fst rows) \<and> (\<forall>r \<in> set rows. \<exists>m \<in> set (mb_tiles file). xyz_tile m = Inr r)"

lemma staged_ok_written:
  assumes "staged_ok file rows" and "written_from batch rows rows'" and "\<forall>r \<in> set batch. \<exists>m \<in> set (mb_tiles file). xyz_tile m = Inr r"
  shows "staged_ok file rows'"
  using assms unfolding staged_ok_def written_from_def by blast

lemma load_batches_rows:
  assumes "load_batches net stored k bs rows tiles bytes = (r, rows')" and "staged_ok file rows"
    and "set (concat bs) \<subseteq> set (mb_tiles file)" and "set stored \<subseteq> fst ` set rows"
  shows "staged_ok file rows' \<and> fst ` set rows \<subseteq> fst ` set rows' \<and>
    (\<forall>n b. r = Inr (n, b) \<longrightarrow> (\<exists>items. map_each xyz_tile (concat bs) = Inr items \<and> n = tiles + length items \<and>
       fst ` set items \<subseteq> fst ` set rows'))"
  using assms
proof (induction net stored k bs rows tiles bytes arbitrary: r rows' rule: load_batches.induct)
  case (1 net stored k rows tiles bytes)
  then show ?case by auto
next
  case (2 net stored k b bs rows tiles bytes)
  show ?case
  proof (cases "map_each xyz_tile b")
    case (Inl e)
    then show ?thesis using 2(3,4) by auto
  next
    case (Inr items)
    note items = this
    have "\<forall>i \<in> set items. \<exists>m \<in> set b. xyz_tile m = Inr i" using map_each_in [OF items] by blast
    then have source: "\<forall>i \<in> set items. \<exists>m \<in> set (mb_tiles file). xyz_tile m = Inr i" using 2(5) by fastforce
    define pending where "pending = filter (\<lambda>i. fst i \<notin> set stored) items"
    have rest: "set (concat bs) \<subseteq> set (mb_tiles file)" using 2(5) by simp
    have finish: "staged_ok file rows' \<and> fst ` set rows \<subseteq> fst ` set rows' \<and>
        (\<forall>n b'. r = Inr (n, b') \<longrightarrow> (\<exists>is. map_each xyz_tile (concat (b # bs)) = Inr is \<and> n = tiles + length is \<and>
           fst ` set is \<subseteq> fst ` set rows'))"
      if ih: "staged_ok file rows' \<and> fst ` set rows1 \<subseteq> fst ` set rows' \<and>
          (\<forall>n b'. r = Inr (n, b') \<longrightarrow> (\<exists>is. map_each xyz_tile (concat bs) = Inr is \<and> n = tiles + length items + length is \<and>
             fst ` set is \<subseteq> fst ` set rows'))"
        and keys: "fst ` set rows \<subseteq> fst ` set rows1" "fst ` set pending \<subseteq> fst ` set rows1" for rows1
    proof -
      have grown: "fst ` set rows1 \<subseteq> fst ` set rows'" using ih by (rule conjunct1 [OF conjunct2])
      have "fst ` set items \<subseteq> fst ` set pending \<union> set stored" by (auto simp: pending_def)
      also have "\<dots> \<subseteq> fst ` set rows1" by (rule Un_least [OF keys(2) subset_trans [OF 2(6) keys(1)]])
      finally have "fst ` set items \<subseteq> fst ` set rows'" using grown by (rule subset_trans)
      moreover have "map_each xyz_tile (concat (b # bs)) = Inr (items @ is)" if "map_each xyz_tile (concat bs) = Inr is" for "is"
        using that items by (simp add: map_each_append)
      moreover have "fst ` set rows \<subseteq> fst ` set rows'" by (rule subset_trans [OF keys(1) grown])
      moreover have "fst ` set (items @ is) \<subseteq> fst ` set rows'" if "fst ` set is \<subseteq> fst ` set rows'" for "is"
        using that \<open>fst ` set items \<subseteq> fst ` set rows'\<close> by (simp add: image_Un)
      moreover have "tiles + length items + length is = tiles + length (items @ is)" for "is" :: "tile list" by simp
      ultimately show ?thesis using ih by metis
    qed
    show ?thesis
    proof (cases "pending = []")
      case True
      then have "load_batches net stored (Suc k) bs rows (tiles + length items) (bytes + sum_list (List.map (\<lambda>i. length (snd i)) items)) = (r, rows')"
        using 2(3) items by (simp add: pending_def Let_def)
      from 2(1) [OF items refl refl pending_def True this 2(4) rest 2(6)] show ?thesis
        using True by (intro finish [of rows]) auto
    next
      case False
      obtain r1 rows1 slept where w: "write_from (net k) pending 1 rows = (r1, rows1, slept)" by (cases "write_from (net k) pending 1 rows")
      have written: "written_from pending rows rows1" "r1 = Inr () \<longrightarrow> fst ` set pending \<subseteq> fst ` set rows1"
        using write_from_rows [OF w] by (simp_all add: WRITE_ATTEMPTS_def)
      have ok: "staged_ok file rows1"
        by (rule staged_ok_written [OF 2(4) written(1)]) (use source in \<open>auto simp: pending_def\<close>)
      have grown: "fst ` set rows \<subseteq> fst ` set rows1" using written(1) by (simp add: written_from_def)
      show ?thesis
      proof (cases r1)
        case (Inl e)
        then show ?thesis using 2(3) items False w ok grown by (auto simp: pending_def [symmetric] Let_def write_batch_def)
      next
        case (Inr u)
        then have next_run: "load_batches net stored (Suc k) bs rows1 (tiles + length items)
            (bytes + sum_list (List.map (\<lambda>i. length (snd i)) items)) = (r, rows')"
          using 2(3) items False w by (simp add: pending_def [symmetric] Let_def write_batch_def)
        have "(Inr (), rows1, slept) = write_batch (net k) pending rows" using w Inr by (simp add: write_batch_def)
        from 2(2) [OF items refl refl pending_def False this refl refl next_run ok rest] 2(6) grown written(2) Inr
        show ?thesis by (intro finish [of rows1]) auto
      qed
    qed
  qed
qed

section \<open>The import\<close>

text \<open>What is staged under the mark of a file comes from that file.\<close>

definition staged_from :: "mbtiles \<Rightarrow> tiles_db \<Rightarrow> bool" where
  "staged_from file s \<longleftrightarrow>
     (\<forall>rows. tb_staging s = Some (Some (fingerprint file), rows) \<longrightarrow>
        distinct (List.map fst rows) \<and> (\<forall>r \<in> set rows. \<exists>m \<in> set (mb_tiles file). xyz_tile m = Inr r))"

text \<open>Rows with distinct keys that are as many as the tiles of the file, and come from it, are the file.\<close>

lemma all_staged:
  assumes "staged_ok file rows" and "map_each xyz_tile (mb_tiles file) = Inr items" and "fst ` set items \<subseteq> fst ` set rows"
    and "length rows = length items"
  shows "set rows = set items" and "distinct (List.map fst rows)"
proof -
  have keys: "distinct (List.map fst rows)" using assms(1) by (simp add: staged_ok_def)
  then show "distinct (List.map fst rows)" .
  have each: "list_all2 (\<lambda>m i. xyz_tile m = Inr i) (mb_tiles file) items" using assms(2) by (simp add: map_each_Inr)
  have sub: "set rows \<subseteq> set items"
  proof
    fix r assume "r \<in> set rows"
    then obtain m where "m \<in> set (mb_tiles file)" "xyz_tile m = Inr r" using assms(1) by (auto simp: staged_ok_def)
    then show "r \<in> set items" using each by (auto simp: list_all2_conv_all_nth in_set_conv_nth)
  qed
  have "card (set rows) = length rows" using keys by (simp add: distinct_card distinct_map)
  moreover have "card (set items) \<le> length items" by (rule card_length)
  ultimately show "set rows = set items" using sub assms(4) by (metis List.finite_set card_seteq)
qed

lemma swap_tiles_Inr:
  assumes "swap_tiles ds file tiles bytes d s = Inr (rep, d', s')"
  shows "s' = \<lparr>tb_tiles = (case tb_staging s of None \<Rightarrow> [] | Some (_, rs) \<Rightarrow> rs), tb_staging = None\<rparr>"
    and "length (tb_tiles s') = tiles"
  using assms by (auto simp: swap_tiles_def Let_def and_then_Inr split: if_splits)

lemma prepare_staging_props:
  assumes "prepare_staging (fingerprint file) s = (r, s1)" and "staged_from file s"
  shows "tb_tiles s1 = tb_tiles s" and "r = Inl e \<Longrightarrow> s1 = s"
    and "r = Inr stored \<Longrightarrow> \<exists>rows. tb_staging s1 = Some (Some (fingerprint file), rows) \<and> staged_ok file rows \<and> stored = List.map fst rows"
  using assms
  by (auto simp: prepare_staging_def staged_from_def staged_ok_def split: option.splits prod.splits if_splits)

text \<open>Tables with the tiles of a file serve exactly them.\<close>

lemma file_served:
  assumes "map_each xyz_tile (mb_tiles file) = Inr items" and "set (tb_tiles s) = set items" and "distinct (List.map fst (tb_tiles s))"
  shows "(zoom, x, row, data) \<in> set (mb_tiles file) \<Longrightarrow> 0 \<le> zoom \<and> zoom \<le> 16 \<and> 0 \<le> x \<and> x < 2 ^ nat zoom \<and> 0 \<le> row \<and> row < 2 ^ nat zoom \<Longrightarrow>
      get_tile zoom x (2 ^ nat zoom - 1 - row) s = Inr (Some data)"
    and "get_tile zoom x y s = Inr (Some data) \<Longrightarrow> (zoom, x, 2 ^ nat zoom - 1 - y, data) \<in> set (mb_tiles file)"
proof -
  have find: "map_of (tb_tiles s) k = Some v \<longleftrightarrow> (k, v) \<in> set items" for k v using assms(2,3) map_of_eq_Some_iff by metis
  have each: "list_all2 (\<lambda>m i. xyz_tile m = Inr i) (mb_tiles file) items" using assms(1) by (simp add: map_each_Inr)
  show "get_tile zoom x (2 ^ nat zoom - 1 - row) s = Inr (Some data)"
    if member: "(zoom, x, row, data) \<in> set (mb_tiles file)"
      and grid: "0 \<le> zoom \<and> zoom \<le> 16 \<and> 0 \<le> x \<and> x < 2 ^ nat zoom \<and> 0 \<le> row \<and> row < 2 ^ nat zoom"
  proof -
    obtain i where i: "i < length (mb_tiles file)" "mb_tiles file ! i = (zoom, x, row, data)" using member by (auto simp: in_set_conv_nth)
    then have "xyz_tile (zoom, x, row, data) = Inr (items ! i)" "items ! i \<in> set items" using each by (auto simp: list_all2_conv_all_nth)
    then have "((zoom, x, 2 ^ nat zoom - 1 - row), data) \<in> set items" using grid by (simp add: xyz_tile_def)
    then show ?thesis using grid find by (simp add: get_tile_def MAX_TILE_ZOOM_def)
  qed
  show "(zoom, x, 2 ^ nat zoom - 1 - y, data) \<in> set (mb_tiles file)" if "get_tile zoom x y s = Inr (Some data)"
  proof -
    have "((zoom, x, y), data) \<in> set items" using that find by (simp add: get_tile_def split: if_splits)
    then obtain m where "m \<in> set (mb_tiles file)" and m: "xyz_tile m = Inr ((zoom, x, y), data)" using map_each_in [OF assms(1)] by blast
    moreover have "m = (zoom, x, 2 ^ nat zoom - 1 - y, data)" using m by (cases m) (auto simp: xyz_tile_def split: if_splits)
    ultimately show ?thesis by simp
  qed
qed

text \<open>A run that gets past the staging: what it has staged, and how it ends.\<close>

lemma import_tiles_loaded:
  assumes "read_metadata file ''format'' = Some ''pbf''" and "prepare_staging (fingerprint file) s = (Inr stored, s1)" and "staged_from file s"
  obtains r2 rows where "staged_ok file rows" and "tb_staging (set_rows rows s1) = Some (Some (fingerprint file), rows)"
    and "tb_tiles (set_rows rows s1) = tb_tiles s"
    and "\<And>n b. r2 = Inr (n, b) \<Longrightarrow> \<exists>items. map_each xyz_tile (mb_tiles file) = Inr items \<and> n = length items \<and> fst ` set items \<subseteq> fst ` set rows"
    and "import_tiles ds net file d s = (case r2 of Inl e \<Rightarrow> (Inl e, new_report, d, set_rows rows s1)
        | Inr (tiles, bytes) \<Rightarrow> (case swap_tiles ds file tiles bytes d (set_rows rows s1) of
            Inl e \<Rightarrow> (Inl e, new_report, d, set_rows rows s1) | Inr (rep, d1, s2) \<Rightarrow> (Inr 0, rep, d1, s2)))"
proof -
  note prepared = prepare_staging_props [OF assms(2,3)]
  obtain rows where staged: "tb_staging s1 = Some (Some (fingerprint file), rows)" "staged_ok file rows" "stored = List.map fst rows"
    using prepared(3) by blast
  obtain r2 rows' where load: "load_batches net stored 0 (batches TILE_BATCH (mb_tiles file)) rows 0 0 = (r2, rows')"
    by (cases "load_batches net stored 0 (batches TILE_BATCH (mb_tiles file)) rows 0 0")
  have all: "concat (batches TILE_BATCH (mb_tiles file)) = mb_tiles file" by (simp add: concat_batches TILE_BATCH_def)
  have loaded: "staged_ok file rows' \<and> fst ` set rows \<subseteq> fst ` set rows' \<and>
      (\<forall>n b. r2 = Inr (n, b) \<longrightarrow> (\<exists>items. map_each xyz_tile (mb_tiles file) = Inr items \<and> n = 0 + length items \<and>
         fst ` set items \<subseteq> fst ` set rows'))"
    using load_batches_rows [OF load staged(2)] unfolding all by (simp add: staged(3))
  show thesis
  proof (rule that)
    show "staged_ok file rows'" using loaded by blast
    show "tb_staging (set_rows rows' s1) = Some (Some (fingerprint file), rows')" by (simp add: set_rows_def staged(1))
    show "tb_tiles (set_rows rows' s1) = tb_tiles s" using prepared(1) by (simp add: set_rows_def)
    show "\<exists>items. map_each xyz_tile (mb_tiles file) = Inr items \<and> n = length items \<and> fst ` set items \<subseteq> fst ` set rows'"
      if "r2 = Inr (n, b)" for n b using loaded that by simp
    show "import_tiles ds net file d s = (case r2 of Inl e \<Rightarrow> (Inl e, new_report, d, set_rows rows' s1)
        | Inr (tiles, bytes) \<Rightarrow> (case swap_tiles ds file tiles bytes d (set_rows rows' s1) of
            Inl e \<Rightarrow> (Inl e, new_report, d, set_rows rows' s1) | Inr (rep, d1, s2) \<Rightarrow> (Inr 0, rep, d1, s2)))"
      by (simp add: import_tiles_def assms(1,2) staged(1) load)
  qed
qed

text \<open>
  Property C32. Whatever the attempts to write meet, a run of the import of the tiles leaves only tiles of its file
  staged under the mark of the file, so that another run can take it up. If it fails, the tiles served are those from
  before; if it ends with 0, they are exactly the tiles of the file, each at its row counted from the top.
\<close>

theorem tiles_import_resumable:
  assumes "import_tiles ds net file d s = (result, rep, d', s')" and "staged_from file s"
  shows "staged_from file s' \<and>
    (case result of
       Inl e \<Rightarrow> tb_tiles s' = tb_tiles s \<and> d' = d
     | Inr code \<Rightarrow> code = 0 \<and>
         (\<forall>(zoom, x, row, data) \<in> set (mb_tiles file). 0 \<le> zoom \<and> zoom \<le> 16 \<and> 0 \<le> x \<and> x < 2 ^ nat zoom \<and> 0 \<le> row \<and> row < 2 ^ nat zoom \<longrightarrow>
            get_tile zoom x (2 ^ nat zoom - 1 - row) s' = Inr (Some data)) \<and>
         (\<forall>zoom x y data. get_tile zoom x y s' = Inr (Some data) \<longrightarrow> (zoom, x, 2 ^ nat zoom - 1 - y, data) \<in> set (mb_tiles file)))"
proof (cases "read_metadata file ''format'' = Some ''pbf'' \<and> \<not> isl (fst (prepare_staging (fingerprint file) s))")
  case False
  obtain r s1 where prep: "prepare_staging (fingerprint file) s = (r, s1)" by (cases "prepare_staging (fingerprint file) s")
  have "result = Inl RaisedOther \<and> s' = s \<and> d' = d \<or> (\<exists>e. r = Inl e \<and> result = Inl e \<and> s' = s1 \<and> d' = d)"
  proof (cases "read_metadata file ''format'' = Some ''pbf''")
    case pbf: True
    then obtain e where "r = Inl e" using False prep by (auto simp: isl_def)
    then show ?thesis using assms(1) by (simp add: import_tiles_def pbf prep)
  qed (use assms(1) in \<open>simp add: import_tiles_def\<close>)
  then show ?thesis using assms(2) prepare_staging_props(2) [OF prep assms(2)] by auto
next
  case True
  then obtain stored s1 where pbf: "read_metadata file ''format'' = Some ''pbf''" and prep: "prepare_staging (fingerprint file) s = (Inr stored, s1)"
    by (cases "prepare_staging (fingerprint file) s"; cases "fst (prepare_staging (fingerprint file) s)") auto
  show ?thesis
  proof (rule import_tiles_loaded [OF pbf prep assms(2), where ds = ds and net = net and d = d])
    fix r2 rows
    let ?s = "set_rows rows s1"
    assume ok: "staged_ok file rows" and staging: "tb_staging ?s = Some (Some (fingerprint file), rows)" and served: "tb_tiles ?s = tb_tiles s"
      and read: "\<And>n b. r2 = Inr (n, b) \<Longrightarrow>
        \<exists>items. map_each xyz_tile (mb_tiles file) = Inr items \<and> n = length items \<and> fst ` set items \<subseteq> fst ` set rows"
      and run: "import_tiles ds net file d s = (case r2 of Inl e \<Rightarrow> (Inl e, new_report, d, ?s)
        | Inr (tiles, bytes) \<Rightarrow> (case swap_tiles ds file tiles bytes d ?s of
            Inl e \<Rightarrow> (Inl e, new_report, d, ?s) | Inr (rep, d1, s2) \<Rightarrow> (Inr 0, rep, d1, s2)))"
    show ?thesis
    proof (cases result)
      case (Inl e)
      then have "s' = ?s \<and> d' = d" using assms(1) run by (auto split: sum.splits prod.splits)
      then show ?thesis using ok staging served Inl by (simp add: staged_from_def staged_ok_def)
    next
      case (Inr code)
      then obtain tiles bytes where r2: "r2 = Inr (tiles, bytes)" and swap: "swap_tiles ds file tiles bytes d ?s = Inr (rep, d', s')"
        and code: "code = 0" using assms(1) run by (auto split: sum.splits prod.splits)
      obtain items where items: "map_each xyz_tile (mb_tiles file) = Inr items" "tiles = length items" "fst ` set items \<subseteq> fst ` set rows"
        using read [OF r2] by blast
      have s': "tb_tiles s' = rows" "tb_staging s' = None" and len: "length rows = tiles"
        using swap_tiles_Inr [OF swap] staging by simp_all
      note tiles_served = file_served [OF items(1), of s', unfolded s'(1), OF all_staged [OF ok items(1,3) len [unfolded items(2)]]]
      show ?thesis using Inr code tiles_served s'(2) by (auto simp: staged_from_def)
    qed
  qed
qed

end
