(* ===== verification/Weather_Feed_Laws.thy ===== *)
theory Weather_Feed_Laws
  imports Weather_Stations
begin

text \<open>
  What the weather jobs make of the tables: the alerts of a feed are stored or nothing is, the stations shown are
  those of the tables with their last reading, and the source of the stations is asked a bounded number of times.
\<close>

section \<open>The alerts of a feed\<close>

text \<open>The entry of INMET a record comes from: not closed, with an identifier, both dates and a polygon.\<close>

definition usable_inmet :: "feed_conversions \<Rightarrow> json \<Rightarrow> bool" where
  "usable_inmet cv e \<longleftrightarrow>
     is_dict e \<and> \<not> truthy (jget e ''encerrado'') \<and> jget e ''id_aviso'' \<noteq> JNull \<and> parse_iso cv (jget e ''data_inicio'') \<noteq> None \<and>
     parse_iso cv (jget e ''data_fim'') \<noteq> None \<and> parse_polygon cv (jget e ''poligono'') \<noteq> None"

lemma inmet_alert_usable:
  assumes "inmet_alert cv e = Inr r" and "is_dict e" and "\<not> truthy (jget e ''encerrado'')"
  shows "(case r of None \<Rightarrow> \<not> usable_inmet cv e
    | Some x \<Rightarrow> usable_inmet cv e \<and> fr_external_id x = py_str (fc_repr cv) (jget e ''id_aviso'') \<and>
        Some (fr_onset x) = parse_iso cv (jget e ''data_inicio'') \<and> Some (fr_expires x) = parse_iso cv (jget e ''data_fim''))"
  using assms
  by (auto simp: inmet_alert_def usable_inmet_def and_then_Inr split: option.splits if_splits)

lemma bind_record_Inr:
  assumes "bind_record cv r = Inr a"
  shows "ar_external_id a = fr_external_id r \<and> ar_onset a = fr_onset r \<and> ar_expires a = fr_expires r \<and>
    fr_event r = JString (ar_event a) \<and> fr_severity r = JString (ar_severity a) \<and>
    ar_description a = fr_description r \<and> ar_affected_ibge_codes a = fr_affected r"
  using assms
  by (auto simp: bind_record_def and_then_Inr text_parameter_def split: json.splits if_splits)

text \<open>What a record, and then a row, keeps of its entry.\<close>

definition tells_inmet :: "feed_conversions \<Rightarrow> json \<Rightarrow> string \<Rightarrow> instant \<Rightarrow> instant \<Rightarrow> bool" where
  "tells_inmet cv e external_id onset expires \<longleftrightarrow>
     external_id = py_str (fc_repr cv) (jget e ''id_aviso'') \<and> parse_iso cv (jget e ''data_inicio'') = Some onset \<and>
     parse_iso cv (jget e ''data_fim'') = Some expires"

lemma inmet_records_of:
  assumes "collect_records (\<lambda>e. is_dict e \<and> \<not> truthy (jget e ''encerrado'')) (inmet_alert cv) es = Inr rs"
  shows "list_all2 (\<lambda>e x. tells_inmet cv e (fr_external_id x) (fr_onset x) (fr_expires x)) (filter (usable_inmet cv) es) rs"
  using assms
proof (induction es arbitrary: rs)
  case (Cons e es)
  show ?case
  proof (cases "is_dict e \<and> \<not> truthy (jget e ''encerrado'')")
    case True
    then obtain r rest where r: "inmet_alert cv e = Inr r"
      and rest: "collect_records (\<lambda>e. is_dict e \<and> \<not> truthy (jget e ''encerrado'')) (inmet_alert cv) es = Inr rest"
      and rs: "rs = (case r of None \<Rightarrow> rest | Some x \<Rightarrow> x # rest)"
      using Cons.prems by (auto simp: and_then_Inr)
    show ?thesis using inmet_alert_usable [OF r] True Cons.IH [OF rest] rs by (auto simp: tells_inmet_def split: option.splits)
  next
    case False
    then have "\<not> usable_inmet cv e" by (auto simp: usable_inmet_def)
    then show ?thesis using Cons False by auto
  qed
qed simp

definition inmet_entries :: "(nat \<Rightarrow> http_outcome) \<Rightarrow> json list" where
  "inmet_entries net =
     (case fst (get_json ''/avisos/ativos'' net) of
        Inl _ \<Rightarrow> [] | Inr raw \<Rightarrow> (case as_list (jget raw ''hoje'') of None \<Rightarrow> [] | Some es \<Rightarrow> es))"

lemma fetch_inmet_alerts_Inr:
  assumes "fetch_inmet_alerts cv net = Inr rs"
  shows "list_all2 (\<lambda>e x. tells_inmet cv e (fr_external_id x) (fr_onset x) (fr_expires x))
    (filter (usable_inmet cv) (inmet_entries net)) rs"
  using assms inmet_records_of
  by (auto simp: fetch_inmet_alerts_def inmet_records_def inmet_entries_def and_then_Inr split: bool.splits option.splits)

lemma upsert_dataset_alerts [simp]: "weather_alerts (snd (upsert_dataset r d)) = weather_alerts d"
  by (simp add: upsert_dataset_def Let_def)

text \<open>The outcomes of a job that stores alerts, in terms of what it fetched.\<close>

lemma upsert_alert_rows_Inl: "upsert_alert_rows q rs st = Inl e \<Longrightarrow> e = RaisedOther"
  by (induction rs arbitrary: st) (auto simp: upsert_alert_row_def split: prod.splits sum.splits if_splits)

lemma upsert_alerts_Inl: "upsert_alerts tp q new_id p rs d = Inl e \<Longrightarrow> e = RaisedOther"
  by (auto simp: upsert_alerts_def dest: upsert_alert_rows_Inl split: sum.splits if_splits)

lemma bind_record_Inl: "bind_record cv r = Inl e \<Longrightarrow> e = RaisedOther"
  by (auto simp: bind_record_def and_then_Inl text_parameter_def split: json.splits if_splits)

lemma import_alerts_outcome:
  assumes "import_alerts n scope provider fetched run d = (result, rep, d')"
  shows "case fetched of
      Inl e \<Rightarrow> weather_alerts d' = weather_alerts d \<and>
        (if is_provider_error e then result = Inr 1 \<and> report_status rep = Failed else result = Inl e)
    | Inr records \<Rightarrow> rp_processed rep = int (length records) \<and>
        (case result of
           Inl e \<Rightarrow> e = RaisedOther \<and> weather_alerts d' = weather_alerts d
         | Inr code \<Rightarrow> code = 0 \<and> report_status rep = Succeeded \<and>
             (\<exists>rs. map_each (bind_record (fx_conversions n)) records = Inr rs \<and>
               upsert_alerts (fx_to_polygon n) (fx_st_equals n) (fx_new_id n) provider rs (snd (upsert_dataset (fx_dataset n) d)) =
                 Inr (rp_written rep, d')))"
proof (cases fetched)
  case (Inl e)
  then show ?thesis using assms
    by (auto simp: import_alerts_def Let_def record_failure_def new_report_def report_status_def)
next
  case (Inr records)
  let ?run = "and_then (map_each (bind_record (fx_conversions n)) records)
      (\<lambda>rs. upsert_alerts (fx_to_polygon n) (fx_st_equals n) (fx_new_id n) provider rs (snd (upsert_dataset (fx_dataset n) d)))"
  show ?thesis
  proof (cases ?run)
    case (Inl e)
    then have "e = RaisedOther" by (auto simp: and_then_Inl dest!: map_each_Inl bind_record_Inl upsert_alerts_Inl)
    then show ?thesis using assms Inl Inr by (auto simp: import_alerts_def Let_def)
  next
    case (Inr wd)
    then show ?thesis using assms \<open>fetched = Inr records\<close>
      by (cases wd) (auto simp: import_alerts_def Let_def and_then_Inr report_status_def new_report_def)
  qed
qed

lemma bound_inmet_records:
  assumes "fetch_inmet_alerts cv net = Inr records" and "map_each (bind_record cv) records = Inr rs"
  shows "list_all2 (\<lambda>e a. tells_inmet cv e (ar_external_id a) (ar_onset a) (ar_expires a)) (filter (usable_inmet cv) (inmet_entries net)) rs"
proof -
  have "list_all2 (\<lambda>r a. ar_external_id a = fr_external_id r \<and> ar_onset a = fr_onset r \<and> ar_expires a = fr_expires r) records rs"
    using assms(2) unfolding map_each_Inr by (rule list_all2_mono) (auto dest: bind_record_Inr)
  from list_all2_trans [OF _ fetch_inmet_alerts_Inr [OF assms(1)] this]
  show ?thesis by (simp add: tells_inmet_def)
qed

text \<open>A feed that was read and stored.\<close>

lemma stored_inmet_feed:
  fixes n :: feed_env
  defines "usable \<equiv> \<lambda>net. filter (usable_inmet (fx_conversions n)) (inmet_entries net)"
    and "ids \<equiv> \<lambda>net. List.map (\<lambda>e. py_str (fc_repr (fx_conversions n)) (jget e ''id_aviso'')) (filter (usable_inmet (fx_conversions n)) (inmet_entries net))"
  assumes "fetch_inmet_alerts (fx_conversions n) net = Inr records" and "map_each (bind_record (fx_conversions n)) records = Inr rs"
    and "upsert_alerts (fx_to_polygon n) (fx_st_equals n) (fx_new_id n) Inmet rs d1 = Inr (w, d')"
    and "distinct (ids net)" and "\<And>g. fx_st_equals n g g" and "no_conflicts same_alert (weather_alerts d1)"
  shows "length records = length (usable net)" and "no_conflicts same_alert (weather_alerts d')"
    and "e \<in> set (usable net) \<Longrightarrow> \<exists>a \<in> set (weather_alerts d'). a_provider a = Inmet \<and>
      tells_inmet (fx_conversions n) e (a_external_id a) (a_onset a) (a_expires a)"
    and "a \<in> set (weather_alerts d1) \<Longrightarrow> a_provider a \<noteq> Inmet \<or> a_external_id a \<notin> set (ids net) \<Longrightarrow> a \<in> set (weather_alerts d')"
proof -
  let ?cv = "fx_conversions n"
  note told = bound_inmet_records [OF assms(3,4), folded usable_def]
  have ids: "List.map ar_external_id rs = ids net"
    using told unfolding ids_def usable_def by (induction rule: list_all2_induct) (auto simp: tells_inmet_def)
  have dist: "distinct (List.map ar_external_id rs)" unfolding ids by (rule assms(6))
  have d': "d' = fed (fx_to_polygon n) (fx_st_equals n) (fx_new_id n) Inmet rs d1"
    using upsert_alerts_run [OF dist] assms(5) by (metis Inr_inject prod.inject)
  show "length records = length (usable net)"
    using list_all2_lengthD [OF fetch_inmet_alerts_Inr [OF assms(3)]] by (simp add: usable_def)
  show "no_conflicts same_alert (weather_alerts d')" unfolding d' by (rule fed_unique) (rule assms(8))
  show "\<exists>a \<in> set (weather_alerts d'). a_provider a = Inmet \<and> tells_inmet ?cv e (a_external_id a) (a_onset a) (a_expires a)"
    if e: "e \<in> set (usable net)"
  proof -
    obtain r where r: "r \<in> set rs" "tells_inmet ?cv e (ar_external_id r) (ar_onset r) (ar_expires r)"
      using told e unfolding usable_def list_all2_conv_all_nth in_set_conv_nth by metis
    from fed_stores [where q = "fx_st_equals n", OF dist assms(7) r(1)] obtain a where
      "a \<in> set (weather_alerts d')" "a_provider a = Inmet" "carries (fx_st_equals n) (fx_to_polygon n) r a"
      using unchanged_carries unfolding d' by blast
    then show ?thesis using r(2) by (auto simp: carries_def)
  qed
  show "a \<in> set (weather_alerts d')" if "a \<in> set (weather_alerts d1)" "a_provider a \<noteq> Inmet \<or> a_external_id a \<notin> set (ids net)"
  proof -
    have "a_provider a \<noteq> Inmet \<or> a_external_id a \<notin> ar_external_id ` set rs" using that(2) unfolding ids [symmetric] by simp
    then show ?thesis unfolding d' using that(1) by (intro fed_keeps) simp_all
  qed
qed

text \<open>
  Property C10. A run of the job that stores INMET's alerts ends in one of three ways. Exit code 0: the source answered
  a list, the run counts its usable entries (open, with an identifier, two dates and a polygon), and the table then
  has a row of each of them with its identifier and dates, besides every row of another provider or alert, and
  still one row per alert. Exit code 1: the source failed, no alert changed and the run is recorded as failed. An exception:
  no alert changed.
\<close>

theorem inmet_alerts_stored_or_nothing:
  assumes "import_inmet_alerts n net run d = (result, rep, d')" and "no_conflicts same_alert (weather_alerts d)"
    and "\<And>g. fx_st_equals n g g"
    and "distinct (List.map (\<lambda>e. py_str (fc_repr (fx_conversions n)) (jget e ''id_aviso''))
           (filter (usable_inmet (fx_conversions n)) (inmet_entries net)))"
  shows "case result of
      Inr code \<Rightarrow>
        if code = 0
        then (let usable = filter (usable_inmet (fx_conversions n)) (inmet_entries net);
                  ids = List.map (\<lambda>e. py_str (fc_repr (fx_conversions n)) (jget e ''id_aviso'')) usable in
          report_status rep = Succeeded \<and> rp_processed rep = int (length usable) \<and> no_conflicts same_alert (weather_alerts d') \<and>
          (\<forall>e \<in> set usable. \<exists>a \<in> set (weather_alerts d'). a_provider a = Inmet \<and>
             tells_inmet (fx_conversions n) e (a_external_id a) (a_onset a) (a_expires a)) \<and>
          (\<forall>a \<in> set (weather_alerts d). a_provider a \<noteq> Inmet \<or> a_external_id a \<notin> set ids \<longrightarrow> a \<in> set (weather_alerts d')))
        else code = 1 \<and> weather_alerts d' = weather_alerts d \<and> report_status rep = Failed \<and>
          (\<exists>e. fetch_inmet_alerts (fx_conversions n) net = Inl e \<and> is_provider_error e)
    | Inl e \<Rightarrow> weather_alerts d' = weather_alerts d \<and> \<not> is_provider_error e"
proof -
  let ?cv = "fx_conversions n"
  let ?usable = "filter (usable_inmet ?cv) (inmet_entries net)"
  let ?ids = "List.map (\<lambda>e. py_str (fc_repr ?cv) (jget e ''id_aviso'')) ?usable"
  note outcome = import_alerts_outcome [OF assms(1) [unfolded import_inmet_alerts_def]]
  show ?thesis
  proof (cases "fetch_inmet_alerts ?cv net")
    case (Inl e)
    then show ?thesis using outcome by (auto split: if_splits)
  next
    case (Inr records)
    show ?thesis
    proof (cases result)
      case (Inl e)
      then show ?thesis using outcome \<open>fetch_inmet_alerts ?cv net = Inr records\<close> by (auto simp: is_provider_error_def)
    next
      case (Inr code)
      obtain rs where ok: "code = 0" "report_status rep = Succeeded" "rp_processed rep = int (length records)"
        and rs: "map_each (bind_record ?cv) records = Inr rs"
        and ups: "upsert_alerts (fx_to_polygon n) (fx_st_equals n) (fx_new_id n) Inmet rs (snd (upsert_dataset (fx_dataset n) d)) =
          Inr (rp_written rep, d')"
        using outcome Inr \<open>fetch_inmet_alerts ?cv net = Inr records\<close> by auto
      have "no_conflicts same_alert (weather_alerts (snd (upsert_dataset (fx_dataset n) d)))" by (simp add: assms(2))
      note stored = stored_inmet_feed [OF \<open>fetch_inmet_alerts ?cv net = Inr records\<close> rs ups assms(4,3) this]
      show ?thesis using ok stored Inr by (simp add: Let_def)
    qed
  qed
qed

end
