(* ===== verification/Weather_Station_Laws.thy ===== *)
theory Weather_Station_Laws
  imports Weather_Feed_Laws Indicator_Laws
begin

text \<open>
  The stations: the source is asked a bounded number of times, a station that fails stops no other, and what is shown
  of each station is its last reading.
\<close>

section \<open>Asking again\<close>

definition limited :: "raised + json \<Rightarrow> bool" where
  "limited r = (case r of
     Inl (RaisedDomain e) \<Rightarrow> is_instance (err_kind e) ProviderError \<and> contains_text RATE_LIMIT_MARKER (error_text e ''body'')
   | _ \<Rightarrow> False)"

lemma get_json_limited_from_effect:
  assumes "1 \<le> attempt" and "attempt \<le> RATE_LIMIT_ATTEMPTS"
  shows "\<exists>made slept. get_json_limited_from path net attempt = (fst (get_json path (net (attempt + made - 1))), made, slept) \<and>
    1 \<le> made \<and> attempt + made \<le> Suc RATE_LIMIT_ATTEMPTS \<and> length slept = made - 1 \<and>
    (\<forall>k < made - 1. slept ! k = 4 * of_nat (attempt + k) \<and> limited (fst (get_json path (net (attempt + k))))) \<and>
    (attempt + made < Suc RATE_LIMIT_ATTEMPTS \<longrightarrow> \<not> limited (fst (get_json path (net (attempt + made - 1)))))"
  using assms
proof (induction "RATE_LIMIT_ATTEMPTS - attempt" arbitrary: attempt)
  case (0 attempt)
  then have a: "attempt = RATE_LIMIT_ATTEMPTS" by simp
  have "get_json_limited_from path net attempt = (fst (get_json path (net attempt)), 1, [])"
    by (subst get_json_limited_from.simps) (simp add: a split: sum.splits raised.splits)
  then show ?case by (intro exI [of _ 1] exI [of _ "[]"]) (simp add: a)
next
  case (Suc j attempt)
  let ?r = "fst (get_json path (net attempt))"
  show ?case
  proof (cases "limited ?r")
    case True
    then have step: "get_json_limited_from path net attempt =
        (case get_json_limited_from path net (attempt + 1) of (r, made, slept) \<Rightarrow> (r, Suc made, RATE_LIMIT_BACKOFF * of_nat attempt # slept))"
      using Suc.hyps(2) by (subst get_json_limited_from.simps) (auto simp: limited_def split: sum.splits raised.splits)
    have "j = RATE_LIMIT_ATTEMPTS - (attempt + 1)" "1 \<le> attempt + 1" "attempt + 1 \<le> RATE_LIMIT_ATTEMPTS"
      using Suc.hyps(2) by simp_all
    from Suc.hyps(1) [OF this] obtain made slept where rest:
      "get_json_limited_from path net (attempt + 1) = (fst (get_json path (net (attempt + 1 + made - 1))), made, slept)"
      "1 \<le> made" "attempt + 1 + made \<le> Suc RATE_LIMIT_ATTEMPTS" "length slept = made - 1"
      "\<forall>k < made - 1. slept ! k = 4 * of_nat (attempt + 1 + k) \<and> limited (fst (get_json path (net (attempt + 1 + k))))"
      "attempt + 1 + made < Suc RATE_LIMIT_ATTEMPTS \<longrightarrow> \<not> limited (fst (get_json path (net (attempt + 1 + made - 1))))"
      by blast
    show ?thesis
    proof (intro exI conjI)
      show "get_json_limited_from path net attempt =
          (fst (get_json path (net (attempt + Suc made - 1))), Suc made, RATE_LIMIT_BACKOFF * of_nat attempt # slept)"
        using rest(1) by (simp add: step)
      show "\<forall>k < Suc made - 1. (RATE_LIMIT_BACKOFF * of_nat attempt # slept) ! k = 4 * of_nat (attempt + k) \<and>
          limited (fst (get_json path (net (attempt + k))))"
      proof (intro allI impI)
        fix k assume k: "k < Suc made - 1"
        show "(RATE_LIMIT_BACKOFF * of_nat attempt # slept) ! k = 4 * of_nat (attempt + k) \<and> limited (fst (get_json path (net (attempt + k))))"
          using True rest(5) k by (cases k) (auto simp: RATE_LIMIT_BACKOFF_def)
      qed
    qed (use rest in auto)
  next
    case False
    then have "get_json_limited_from path net attempt = (?r, 1, [])"
      using Suc.hyps(2) by (subst get_json_limited_from.simps) (auto simp: limited_def split: sum.splits raised.splits)
    then show ?thesis using False Suc.prems by (intro exI [of _ 1] exI [of _ "[]"]) auto
  qed
qed

text \<open>
  A question with the limit of the source is asked at most five times, again only after an error that names the
  limit, sleeping 4, 8, 12, 16 seconds between them, and takes the outcome of the last time.
\<close>

lemma limited_questions:
  "\<exists>made slept. get_json_limited path net = (fst (get_json path (net made)), made, slept) \<and> 1 \<le> made \<and> made \<le> 5 \<and>
     slept = List.map (\<lambda>k. 4 * of_nat (Suc k)) [0..<made - 1] \<and> (\<forall>k < made - 1. limited (fst (get_json path (net (Suc k))))) \<and>
     (made < 5 \<longrightarrow> \<not> limited (fst (get_json path (net made))))"
proof -
  obtain made slept where "get_json_limited_from path net 1 = (fst (get_json path (net made)), made, slept)"
      "1 \<le> made" "made \<le> 5" "length slept = made - 1"
      "\<forall>k < made - 1. slept ! k = 4 * of_nat (Suc k) \<and> limited (fst (get_json path (net (Suc k))))"
      "made < 5 \<longrightarrow> \<not> limited (fst (get_json path (net made)))"
    using get_json_limited_from_effect [of 1 path net] by (auto simp: RATE_LIMIT_ATTEMPTS_def)
  moreover from this have "slept = List.map (\<lambda>k. 4 * of_nat (Suc k)) [0..<made - 1]" by (intro nth_equalityI) auto
  ultimately show ?thesis unfolding get_json_limited_def by blast
qed

section \<open>The stations shown\<close>

lemma last_observation_latest:
  "case last_observation i s of
     None \<Rightarrow> \<forall>o1 \<in> set (sb_observations s). wo_station_id o1 \<noteq> i
   | Some o1 \<Rightarrow> o1 \<in> set (sb_observations s) \<and> wo_station_id o1 = i \<and>
       (\<forall>o2 \<in> set (sb_observations s). wo_station_id o2 = i \<longrightarrow> wo_at o2 \<le> wo_at o1)"
proof (cases "sort_key (\<lambda>o1. - wo_at o1) (filter (\<lambda>o1. wo_station_id o1 = i) (sb_observations s))")
  case Nil
  then have "filter (\<lambda>o1. wo_station_id o1 = i) (sb_observations s) = []" by (metis set_empty set_sort)
  then show ?thesis using Nil by (auto simp: last_observation_def filter_empty_conv)
next
  case (Cons o1 os)
  have mem: "set (o1 # os) = {x \<in> set (sb_observations s). wo_station_id x = i}"
    unfolding Cons [symmetric] set_sort by simp
  have "sorted (List.map (\<lambda>o1. - wo_at o1) (o1 # os))" unfolding Cons [symmetric] by simp
  then have le: "wo_at o2 \<le> wo_at o1" if "o2 \<in> set (o1 # os)" for o2 using that by auto
  have "o1 \<in> {x \<in> set (sb_observations s). wo_station_id x = i}" unfolding mem [symmetric] by simp
  moreover have "wo_at o2 \<le> wo_at o1" if "o2 \<in> set (sb_observations s)" "wo_station_id o2 = i" for o2
  proof -
    have "o2 \<in> set (o1 # os)" unfolding mem using that by simp
    then show ?thesis by (rule le)
  qed
  ultimately show ?thesis by (simp add: last_observation_def Cons)
qed

text \<open>
  The list of current stations is in the order of their codes and has, for each station with a reading,
  one entry with its last reading, and nothing else.
\<close>

theorem stations_shown_with_last_reading:
  "let rows = list_current_stations collate geojson s; read = (\<lambda>st. \<exists>o1 \<in> set (sb_observations s). wo_station_id o1 = ws_id st) in
     sorted (List.map (\<lambda>r. collate (cr_code r)) rows) \<and>
     mset (List.map cr_code rows) = mset (List.map ws_code (filter read (sb_stations s))) \<and>
     (\<forall>r \<in> set rows. \<exists>st \<in> set (sb_stations s). \<exists>o1 \<in> set (sb_observations s). wo_station_id o1 = ws_id st \<and>
        r = station_row_of geojson st o1 \<and> (\<forall>o2 \<in> set (sb_observations s). wo_station_id o2 = ws_id st \<longrightarrow> wo_at o2 \<le> wo_at o1))"
proof -
  let ?f = "\<lambda>st. map_option (station_row_of geojson st) (last_observation (ws_id st) s)"
  let ?read = "\<lambda>st. \<exists>o1 \<in> set (sb_observations s). wo_station_id o1 = ws_id st"
  have read: "last_observation (ws_id st) s \<noteq> None \<longleftrightarrow> ?read st" for st
    using last_observation_latest [where i = "ws_id st" and s = s] by (auto split: option.splits)
  have codes: "List.map cr_code (List.map_filter ?f xs) = List.map ws_code (filter ?read xs)" for xs
  proof (induction xs)
    case (Cons st xs)
    show ?case
    proof (cases "last_observation (ws_id st) s")
      case None
      then have "\<not> ?read st" using read [of st] by simp
      then show ?thesis using Cons None by (simp add: List.map_filter_def)
    next
      case (Some o1)
      then have "?read st" using read [of st] by simp
      then show ?thesis using Cons Some by (simp add: List.map_filter_def station_row_of_def)
    qed
  qed (simp add: List.map_filter_def)
  have "mset (List.map cr_code (list_current_stations collate geojson s)) = mset (List.map cr_code (List.map_filter ?f (sb_stations s)))"
    by (simp add: list_current_stations_def)
  moreover have "\<exists>st \<in> set (sb_stations s). \<exists>o1 \<in> set (sb_observations s). wo_station_id o1 = ws_id st \<and>
        r = station_row_of geojson st o1 \<and> (\<forall>o2 \<in> set (sb_observations s). wo_station_id o2 = ws_id st \<longrightarrow> wo_at o2 \<le> wo_at o1)"
    if r: "r \<in> set (list_current_stations collate geojson s)" for r
  proof -
    obtain st where "st \<in> set (sb_stations s)" "?f st = Some r"
      using r unfolding list_current_stations_def set_sort set_map_filter by blast
    then obtain o1 where "st \<in> set (sb_stations s)" "last_observation (ws_id st) s = Some o1" "r = station_row_of geojson st o1" by auto
    then show ?thesis using last_observation_latest [where i = "ws_id st" and s = s] by auto
  qed
  ultimately show ?thesis unfolding Let_def codes by (simp add: list_current_stations_def)
qed

section \<open>The import of the stations\<close>

lemma upsert_changed_fold:
  "fold_each (upsert_changed_row same changed merge) (touched, t) rs = Inr (w, t') \<Longrightarrow>
   t' = fold (insert_or_update same (\<lambda>r x. if changed x r then merge r x else x)) rs t"
  by (induction rs arbitrary: touched t) (auto simp: upsert_changed_row_def and_then_Inr split: if_splits)

definition keep_station :: "(geometry \<Rightarrow> geometry \<Rightarrow> bool) \<Rightarrow> station \<Rightarrow> station \<Rightarrow> station" where
  "keep_station q r x = (if station_changed q x r then merge_station r x else x)"

definition keep_observation :: "observation_row \<Rightarrow> observation_row \<Rightarrow> observation_row" where
  "keep_observation r x = (if observation_changed x r then merge_observation r x else x)"

lemma keep_station_key [simp]:
  "ws_id (keep_station q r x) = ws_id x" "ws_provider (keep_station q r x) = ws_provider x" "ws_code (keep_station q r x) = ws_code x"
  by (simp_all add: keep_station_def merge_station_def)

lemma keep_observation_key [simp]:
  "wo_station_id (keep_observation r x) = wo_station_id x" "wo_at (keep_observation r x) = wo_at x"
  by (simp_all add: keep_observation_def merge_observation_def)

interpretation stations_table: upsert_table same_station "insert_ignore same_station"
    "insert_or_update same_station (keep_station q)" "keep_station q" for q
  by (rule insert_or_update_table) (auto simp: same_station_def)

interpretation observations_table: upsert_table same_observation "insert_ignore same_observation"
    "insert_or_update same_observation keep_observation" keep_observation
  by (rule insert_or_update_table) (auto simp: same_observation_def)

text \<open>The rows of the stations: each record has its row, and the numbers of the rows stay distinct.\<close>

lemma bind_station_Inr:
  assumes "bind_station n (i, r) = Inr st"
  shows "ws_id st = sx_new_id n i \<and> ws_provider st = Inmet \<and> JString (ws_code st) = sr_code r"
  using assms
  by (auto simp: bind_station_def and_then_Inr text_parameter_def split: json.splits if_splits)

lemma bound_stations:
  assumes "map_each (bind_station n) (zip [0..<length records] records) = Inr rows"
  shows "List.map ws_id rows = List.map (sx_new_id n) [0..<length records]"
    and "list_all2 (\<lambda>r st. ws_provider st = Inmet \<and> JString (ws_code st) = sr_code r) records rows"
proof -
  have all: "list_all2 (\<lambda>ir st. ws_id st = sx_new_id n (fst ir) \<and> ws_provider st = Inmet \<and> JString (ws_code st) = sr_code (snd ir))
      (zip [0..<length records] records) rows"
    using assms unfolding map_each_Inr by (rule list_all2_mono) (auto dest: bind_station_Inr)
  then have "length rows = length records" by (simp add: list_all2_lengthD [symmetric])
  then show "List.map ws_id rows = List.map (sx_new_id n) [0..<length records]"
    and "list_all2 (\<lambda>r st. ws_provider st = Inmet \<and> JString (ws_code st) = sr_code r) records rows"
    using all by (auto simp: list_all2_conv_all_nth intro: nth_equalityI)
qed

lemma fold_station_ids:
  "\<exists>new. List.map ws_id (fold (insert_or_update same_station (keep_station q)) rs t) = List.map ws_id t @ new \<and>
     set new \<subseteq> ws_id ` set rs \<and> (distinct (List.map ws_id rs) \<longrightarrow> distinct new)"
proof (induction rs arbitrary: t)
  case (Cons r rs)
  let ?t = "insert_or_update same_station (keep_station q) r t"
  have step: "List.map ws_id ?t = List.map ws_id t @ (if list_ex (same_station r) t then [] else [ws_id r])"
    by (auto simp: insert_or_update_def)
  obtain new where new: "List.map ws_id (fold (insert_or_update same_station (keep_station q)) rs ?t) = List.map ws_id ?t @ new"
      "set new \<subseteq> ws_id ` set rs" "distinct (List.map ws_id rs) \<longrightarrow> distinct new"
    using Cons.IH by blast
  have "distinct ((if list_ex (same_station r) t then [] else [ws_id r]) @ new)" if "distinct (List.map ws_id (r # rs))"
    using new(2,3) that by (auto split: if_splits)
  then show ?case using new(1,2) step
    by (intro exI [of _ "(if list_ex (same_station r) t then [] else [ws_id r]) @ new"]) auto
qed simp

definition stations_wf :: "station_db \<Rightarrow> bool" where
  "stations_wf s \<longleftrightarrow> distinct (List.map ws_id (sb_stations s)) \<and> no_conflicts same_station (sb_stations s) \<and>
     no_conflicts same_observation (sb_observations s)"

text \<open>The numbers drawn are new.\<close>

definition fresh_ids :: "station_env \<Rightarrow> station_db \<Rightarrow> bool" where
  "fresh_ids n s \<longleftrightarrow> inj (sx_new_id n) \<and> (\<forall>i. sx_new_id n i \<notin> ws_id ` set (sb_stations s))"

lemma upsert_stations_effect:
  assumes "upsert_stations n records s = Inr (w, s1)" and "stations_wf s" and "fresh_ids n s" and "distinct (List.map sr_code records)"
  shows "stations_wf s1 \<and> sb_observations s1 = sb_observations s \<and>
    (\<forall>r \<in> set records. \<exists>st \<in> set (sb_stations s1). ws_provider st = Inmet \<and> JString (ws_code st) = sr_code r)"
proof (cases "records = []")
  case True
  then show ?thesis using assms(1,2) by (simp add: upsert_stations_def)
next
  case False
  then obtain rows touched t where rows: "map_each (bind_station n) (zip [0..<length records] records) = Inr rows"
    and run: "fold_each (upsert_changed_row same_station (station_changed (sx_st_equals n)) merge_station) ([], sb_stations s) rows = Inr (touched, t)"
    and s1: "s1 = s\<lparr>sb_stations := t\<rparr>"
    using assms(1) by (auto simp: upsert_stations_def and_then_Inr)
  have t: "t = fold (insert_or_update same_station (keep_station (sx_st_equals n))) rows (sb_stations s)"
    using upsert_changed_fold [OF run] by (simp add: keep_station_def [abs_def])
  note bound = bound_stations [OF rows]
  have codes: "List.map (\<lambda>st. JString (ws_code st)) rows = List.map sr_code records"
    using bound(2) by (auto simp: list_all2_conv_all_nth intro: nth_equalityI)
  have nc: "no_conflicts same_station rows"
  proof -
    have "distinct (List.map (\<lambda>st. JString (ws_code st)) rows)" unfolding codes by (rule assms(4))
    then show ?thesis by (auto simp: no_conflicts_def sorted_wrt_iff_nth_less same_station_def distinct_conv_nth)
  qed
  have "distinct (List.map ws_id rows)" unfolding bound(1) using assms(3) by (simp add: fresh_ids_def distinct_map inj_on_def)
  then obtain new where new: "List.map ws_id t = List.map ws_id (sb_stations s) @ new" "set new \<subseteq> ws_id ` set rows" "distinct new"
    using fold_station_ids [of "sx_st_equals n" rows "sb_stations s"] unfolding t by blast
  have range: "set (List.map ws_id rows) \<subseteq> range (sx_new_id n)" unfolding bound(1) by auto
  have "x \<notin> ws_id ` set (sb_stations s)" if x: "x \<in> set new" for x
  proof -
    have "x \<in> set (List.map ws_id rows)" using new(2) x by auto
    then obtain i where i: "x = sx_new_id n i" using range by blast
    show ?thesis unfolding i using assms(3) by (simp add: fresh_ids_def)
  qed
  then have "set new \<inter> ws_id ` set (sb_stations s) = {}" by blast
  then have "distinct (List.map ws_id t)" using new assms(2) by (simp add: stations_wf_def inf_commute)
  moreover have "no_conflicts same_station t" unfolding t using assms(2) by (intro stations_table.ups_all_unique) (simp add: stations_wf_def)
  moreover have "\<exists>st \<in> set t. ws_provider st = Inmet \<and> JString (ws_code st) = sr_code r" if r: "r \<in> set records" for r
  proof -
    obtain row where row: "row \<in> set rows" "ws_provider row = Inmet" "JString (ws_code row) = sr_code r"
      using bound(2) r unfolding list_all2_conv_all_nth in_set_conv_nth by metis
    obtain st where "st \<in> set t" "st = row \<or> (\<exists>y \<in> set (sb_stations s). same_station row y \<and> st = keep_station (sx_st_equals n) row y)"
      using stations_table.ups_all_written [OF nc row(1)] unfolding t by blast
    then show ?thesis using row by (intro bexI [of _ st]) (auto simp: same_station_def)
  qed
  ultimately show ?thesis using assms(2) by (simp add: s1 stations_wf_def)
qed

text \<open>What the results of the stations make of the readings and the report.\<close>

definition taken :: "(string \<times> int) list \<Rightarrow> string \<times> (raised + observation_record option) \<Rightarrow> (int \<times> observation_record) option" where
  "taken ids cr = (case (map_of (rev ids) (fst cr), snd cr) of (Some i, Inr (Some o1)) \<Rightarrow> Some (i, o1) | _ \<Rightarrow> None)"

definition failed_station :: "(raised \<Rightarrow> string) \<Rightarrow> (string \<times> int) list \<Rightarrow> string \<times> (raised + observation_record option) \<Rightarrow> (string \<times> string) option" where
  "failed_station message ids cr =
     (case (map_of (rev ids) (fst cr), snd cr) of (Some i, Inl e) \<Rightarrow> Some (''estacao:'' @ fst cr, message e) | _ \<Rightarrow> None)"

lemma take_one_result:
  "\<exists>rep1. take_result message ids (obs, rep) cr = (obs @ List.map_filter (taken ids) [cr], rep1) \<and>
     rp_failures rep1 = rp_failures rep @ List.map_filter (failed_station message ids) [cr] \<and>
     rp_failed rep1 = rp_failed rep + int (length (List.map_filter (failed_station message ids) [cr])) \<and>
     rp_processed rep1 = rp_processed rep \<and> rp_written rep1 = rp_written rep"
proof -
  obtain code result where cr: "cr = (code, result)" by (cases cr)
  show ?thesis
  proof (cases "map_of (rev ids) code")
    case None
    then show ?thesis by (simp add: cr take_result_def taken_def failed_station_def map_filter_simps)
  next
    case (Some i)
    then show ?thesis
      by (cases result; (cases "projr result")?)
        (auto simp: cr take_result_def taken_def failed_station_def map_filter_simps record_failure_def Let_def split: option.split)
  qed
qed

lemma map_filter_append1: "List.map_filter f (x # xs) = List.map_filter f [x] @ List.map_filter f xs"
  by (simp add: map_filter_simps split: option.split)

lemma take_results:
  "foldl (take_result message ids) (obs0, rep0) crs = (obs, rep) \<Longrightarrow>
     obs = obs0 @ List.map_filter (taken ids) crs \<and> rp_failures rep = rp_failures rep0 @ List.map_filter (failed_station message ids) crs \<and>
     rp_failed rep = rp_failed rep0 + int (length (List.map_filter (failed_station message ids) crs)) \<and>
     rp_processed rep = rp_processed rep0 \<and> rp_written rep = rp_written rep0"
proof (induction crs arbitrary: obs0 rep0)
  case (Cons cr crs)
  obtain rep1 where one: "take_result message ids (obs0, rep0) cr = (obs0 @ List.map_filter (taken ids) [cr], rep1)"
      "rp_failures rep1 = rp_failures rep0 @ List.map_filter (failed_station message ids) [cr]"
      "rp_failed rep1 = rp_failed rep0 + int (length (List.map_filter (failed_station message ids) [cr]))"
      "rp_processed rep1 = rp_processed rep0" "rp_written rep1 = rp_written rep0"
    using take_one_result by blast
  have "foldl (take_result message ids) (obs0 @ List.map_filter (taken ids) [cr], rep1) crs = (obs, rep)"
    using Cons.prems one(1) by simp
  from Cons.IH [OF this] one(2-5) show ?case
    unfolding map_filter_append1 [of "taken ids" cr crs] map_filter_append1 [of "failed_station message ids" cr crs] by simp
qed (simp add: List.map_filter_def)

lemma station_ids_lookup:
  assumes "stations_wf s" and "st \<in> set (sb_stations s)" and "ws_provider st = Inmet" and "JString (ws_code st) \<in> set codes"
  shows "map_of (rev (station_ids codes s)) (ws_code st) = Some (ws_id st)"
proof -
  let ?found = "filter (\<lambda>r. ws_provider r = Inmet \<and> JString (ws_code r) \<in> set codes) (sb_stations s)"
  have "r = r'" if "r \<in> set ?found" "r' \<in> set ?found" "ws_code r = ws_code r'" for r r'
    using assms(1) that by (intro no_conflicts_unique [where c = same_station and t = "sb_stations s"]) (auto simp: stations_wf_def same_station_def)
  moreover have "distinct ?found" using assms(1) by (simp add: stations_wf_def distinct_map)
  ultimately have "distinct (List.map fst (rev (station_ids codes s)))"
    by (simp add: station_ids_def comp_def distinct_map inj_on_def rev_map)
  moreover have "(ws_code st, ws_id st) \<in> set (rev (station_ids codes s))" using assms by (auto simp: station_ids_def)
  ultimately show ?thesis by (rule map_of_is_SomeI)
qed

lemma station_ids_Some:
  assumes "map_of (rev (station_ids codes s)) code = Some i"
  shows "\<exists>st \<in> set (sb_stations s). ws_provider st = Inmet \<and> ws_code st = code \<and> ws_id st = i"
  using map_of_SomeD [OF assms] by (auto simp: station_ids_def)

text \<open>A row keeps a reading: its numbers, as the columns round them.\<close>

definition keeps_reading :: "observation_record \<Rightarrow> observation_row \<Rightarrow> bool" where
  "keeps_reading o1 row \<longleftrightarrow> wo_at row = or_at o1 \<and> numeric_column 5 2 (or_temperature o1) = Inr (wo_temperature row) \<and>
     numeric_column 5 2 (or_humidity o1) = Inr (wo_humidity row) \<and> numeric_column 6 2 (or_pressure o1) = Inr (wo_pressure row) \<and>
     numeric_column 7 2 (or_precipitation o1) = Inr (wo_precipitation row)"

lemma persist_observations_effect:
  assumes "persist_observations dataset run obs s = Inr (w, s1)" and "stations_wf s" and "distinct (List.map fst obs)"
  shows "sb_stations s1 = sb_stations s \<and> stations_wf s1 \<and>
    (\<forall>(i, o1) \<in> set obs. \<exists>row \<in> set (sb_observations s1). wo_station_id row = i \<and> keeps_reading o1 row) \<and>
    (\<forall>row \<in> set (sb_observations s). (wo_station_id row, wo_at row) \<notin> (\<lambda>(i, o1). (i, or_at o1)) ` set obs \<longrightarrow> row \<in> set (sb_observations s1))"
proof (cases "obs = []")
  case True
  then show ?thesis using assms by (simp add: persist_observations_def)
next
  case False
  then obtain rows touched t where rows: "map_each (bind_observation dataset run) obs = Inr rows"
    and run: "fold_each (upsert_changed_row same_observation observation_changed merge_observation) ([], sb_observations s) rows = Inr (touched, t)"
    and s1: "s1 = s\<lparr>sb_observations := t\<rparr>"
    using assms(1) by (auto simp: persist_observations_def and_then_Inr)
  have t: "t = fold (insert_or_update same_observation keep_observation) rows (sb_observations s)"
    using upsert_changed_fold [OF run] by (simp add: keep_observation_def [abs_def])
  have bound: "list_all2 (\<lambda>io row. wo_station_id row = fst io \<and> keeps_reading (snd io) row) obs rows"
    using rows unfolding map_each_Inr
    by (rule list_all2_mono) (auto simp: bind_observation_def and_then_Inr keeps_reading_def)
  have keys: "List.map (\<lambda>row. (wo_station_id row, wo_at row)) rows = List.map (\<lambda>(i, o1). (i, or_at o1)) obs"
    using bound by (induction rule: list_all2_induct) (auto simp: keeps_reading_def)
  have "List.map wo_station_id rows = List.map fst obs" using bound by (induction rule: list_all2_induct) auto
  then have "distinct (List.map wo_station_id rows)" using assms(3) by simp
  then have nc: "no_conflicts same_observation rows"
    by (auto simp: no_conflicts_def sorted_wrt_iff_nth_less same_observation_def distinct_conv_nth)
  have stored: "\<exists>row \<in> set t. wo_station_id row = i \<and> keeps_reading o1 row" if io: "(i, o1) \<in> set obs" for i o1
  proof -
    obtain r where r: "r \<in> set rows" "wo_station_id r = i" "keeps_reading o1 r"
      using bound io unfolding list_all2_conv_all_nth in_set_conv_nth by force
    obtain x where "x \<in> set t" "x = r \<or> (\<exists>y \<in> set (sb_observations s). same_observation r y \<and> x = keep_observation r y)"
      using observations_table.ups_all_written [OF nc r(1)] unfolding t by blast
    then show ?thesis using r
      by (intro bexI [of _ x]) (auto simp: same_observation_def keep_observation_def observation_changed_def merge_observation_def keeps_reading_def)
  qed
  have others: "row \<in> set t" if "row \<in> set (sb_observations s)" "(wo_station_id row, wo_at row) \<notin> (\<lambda>(i, o1). (i, or_at o1)) ` set obs" for row
    unfolding t
  proof (rule observations_table.ups_all_others [OF that(1)], intro ballI)
    fix r assume "r \<in> set rows"
    then have "(wo_station_id r, wo_at r) \<in> set (List.map (\<lambda>row. (wo_station_id row, wo_at row)) rows)" by force
    then have "(wo_station_id r, wo_at r) \<in> (\<lambda>(i, o1). (i, or_at o1)) ` set obs" unfolding keys by simp
    then show "\<not> same_observation r row" using that(2) by (auto simp: same_observation_def)
  qed
  have "no_conflicts same_observation t" unfolding t using assms(2) by (intro observations_table.ups_all_unique) (simp add: stations_wf_def)
  then show ?thesis using stored others assms(2) by (auto simp: s1 stations_wf_def)
qed

lemma import_stations_parts:
  assumes "import_stations n net observe run d s = (Inr 0, rep, d', s')"
  obtains records w s1 obs rep1 w2 where "fetch_stations (sx_conversions n) net = Inr records"
    and "upsert_stations n records s = Inr (w, s1)"
    and "foldl (take_result (sx_message n) (station_ids (List.map sr_code records) s1))
        ([], new_report\<lparr>rp_processed := int (length records), rp_written := int w\<rparr>)
        (List.map (\<lambda>code. (code, observe code)) (List.map_filter as_string (List.map sr_code records))) = (obs, rep1)"
    and "persist_observations (fst (upsert_dataset (sx_dataset n) d)) run obs s1 = Inr (w2, s')"
    and "rp_failures rep = rp_failures rep1" and "rp_failed rep = rp_failed rep1"
proof -
  obtain dataset d1 where d1: "upsert_dataset (sx_dataset n) d = (dataset, d1)" by (cases "upsert_dataset (sx_dataset n) d")
  have "\<exists>records. fetch_stations (sx_conversions n) net = Inr records"
    using assms by (cases "fetch_stations (sx_conversions n) net") (auto simp: import_stations_def d1 Let_def split: if_splits)
  then obtain records where records: "fetch_stations (sx_conversions n) net = Inr records" by blast
  have "\<exists>w s1. upsert_stations n records s = Inr (w, s1)"
    using assms records by (cases "upsert_stations n records s") (auto simp: import_stations_def d1 Let_def)
  then obtain w s1 where ups: "upsert_stations n records s = Inr (w, s1)" by blast
  let ?fold = "foldl (take_result (sx_message n) (station_ids (List.map sr_code records) s1))
        ([], new_report\<lparr>rp_processed := int (length records), rp_written := int w\<rparr>)
        (List.map (\<lambda>code. (code, observe code)) (List.map_filter as_string (List.map sr_code records)))"
  obtain obs rep1 where folded: "?fold = (obs, rep1)" by (cases ?fold)
  have "MAX_CONCURRENCY \<noteq> 0" by (simp add: MAX_CONCURRENCY_def)
  then have "\<exists>w2 s2. persist_observations dataset run obs s1 = Inr (w2, s2) \<and> s2 = s' \<and> rp_failures rep = rp_failures rep1 \<and> rp_failed rep = rp_failed rep1"
    using assms records ups folded
    by (cases "persist_observations dataset run obs s1") (auto simp: import_stations_def d1 Let_def concat_batches)
  then show ?thesis using that records ups folded d1 by auto
qed

lemma station_ids_inj:
  assumes "stations_wf s" and "distinct codes"
  shows "distinct (List.map fst (List.map_filter (taken (station_ids js s)) (List.map (\<lambda>code. (code, observe code)) codes)))"
proof -
  have key: "\<exists>o1. taken ids (code, observe code) = Some (i, o1) \<Longrightarrow> map_of (rev ids) code = Some i" for ids code i
    by (auto simp: taken_def split: option.splits sum.splits)
  have "code = code'" if a: "map_of (rev (station_ids js s)) code = Some i" and b: "map_of (rev (station_ids js s)) code' = Some i" for code code' i
  proof -
    obtain st st' where "st \<in> set (sb_stations s)" "ws_code st = code" "ws_id st = i"
      "st' \<in> set (sb_stations s)" "ws_code st' = code'" "ws_id st' = i"
      using station_ids_Some [OF a] station_ids_Some [OF b] by blast
    then show ?thesis using assms(1) by (auto simp: stations_wf_def distinct_map dest: inj_onD)
  qed
  note same = this
  show ?thesis using assms(2)
  proof (induction codes)
    case (Cons code codes)
    show ?case
    proof (cases "taken (station_ids js s) (code, observe code)")
      case None
      then show ?thesis using Cons by (simp add: map_filter_simps)
    next
      case (Some io)
      have "fst io \<notin> set (List.map fst (List.map_filter (taken (station_ids js s)) (List.map (\<lambda>code. (code, observe code)) codes)))"
      proof
        assume "fst io \<in> set (List.map fst (List.map_filter (taken (station_ids js s)) (List.map (\<lambda>code. (code, observe code)) codes)))"
        then obtain code' where code': "code' \<in> set codes" "\<exists>o1. taken (station_ids js s) (code', observe code') = Some (fst io, o1)"
          by (fastforce simp: set_map_filter)
        have "\<exists>o1. taken (station_ids js s) (code, observe code) = Some (fst io, o1)" using Some by (cases io) simp
        then have "code = code'" using same key code'(2) by blast
        then show False using code'(1) Cons.prems by simp
      qed
      then show ?thesis using Cons Some by (simp add: map_filter_simps)
    qed
  qed (simp add: List.map_filter_def)
qed

text \<open>
  A run over the stations of \<open>codes\<close>: \<open>ids\<close> are their rows of the table, \<open>obs\<close> the readings taken, \<open>s1\<close> the tables
  before the readings are stored.
\<close>

definition asked_stations ::
    "station_env \<Rightarrow> (string \<Rightarrow> raised + observation_record option) \<Rightarrow> string list \<Rightarrow> (string \<times> int) list
     \<Rightarrow> (int \<times> observation_record) list \<Rightarrow> station_db \<Rightarrow> station_db \<Rightarrow> run_report \<Rightarrow> bool" where
  "asked_stations n observe codes ids obs s1 s' rep \<longleftrightarrow>
     (let crs = List.map (\<lambda>code. (code, observe code)) codes; failed = List.map_filter (failed_station (sx_message n) ids) crs in
      sb_stations s' = sb_stations s1 \<and> obs = List.map_filter (taken ids) crs \<and>
      rp_failures rep = failed \<and> rp_failed rep = int (length failed) \<and>
      (\<forall>code \<in> set codes. \<exists>st \<in> set (sb_stations s1). ws_provider st = Inmet \<and> ws_code st = code \<and> map_of (rev ids) code = Some (ws_id st)) \<and>
      (\<forall>code i. map_of (rev ids) code = Some i \<longrightarrow> (\<exists>st \<in> set (sb_stations s1). ws_code st = code \<and> ws_id st = i)) \<and>
      (\<forall>(i, o1) \<in> set obs. \<exists>row \<in> set (sb_observations s'). wo_station_id row = i \<and> keeps_reading o1 row) \<and>
      (\<forall>row \<in> set (sb_observations s1). (wo_station_id row, wo_at row) \<notin> (\<lambda>(i, o1). (i, or_at o1)) ` set obs \<longrightarrow>
         row \<in> set (sb_observations s')))"

lemma import_stations_asked:
  assumes "import_stations n net observe run d s = (Inr 0, rep, d', s')" and "stations_wf s" and "fresh_ids n s"
    and "\<And>records. fetch_stations (sx_conversions n) net = Inr records \<Longrightarrow> distinct (List.map sr_code records)"
  shows "\<exists>records codes ids obs s1. fetch_stations (sx_conversions n) net = Inr records \<and> List.map sr_code records = List.map JString codes \<and>
    sb_observations s1 = sb_observations s \<and> stations_wf s' \<and> asked_stations n observe codes ids obs s1 s' rep"
proof -
  obtain records w s1 obs rep1 w2 where records: "fetch_stations (sx_conversions n) net = Inr records"
    and ups: "upsert_stations n records s = Inr (w, s1)"
    and folded: "foldl (take_result (sx_message n) (station_ids (List.map sr_code records) s1))
        ([], new_report\<lparr>rp_processed := int (length records), rp_written := int w\<rparr>)
        (List.map (\<lambda>code. (code, observe code)) (List.map_filter as_string (List.map sr_code records))) = (obs, rep1)"
    and stored: "persist_observations (fst (upsert_dataset (sx_dataset n) d)) run obs s1 = Inr (w2, s')"
    and rep: "rp_failures rep = rp_failures rep1" "rp_failed rep = rp_failed rep1"
    by (rule import_stations_parts [OF assms(1)])
  let ?ids = "station_ids (List.map sr_code records) s1"
  define codes where "codes = List.map_filter as_string (List.map sr_code records)"
  note effect = upsert_stations_effect [OF ups assms(2,3) assms(4) [OF records]]
  have wf1: "stations_wf s1" and seen: "\<forall>r \<in> set records. \<exists>st \<in> set (sb_stations s1). ws_provider st = Inmet \<and> JString (ws_code st) = sr_code r"
    using effect by blast+
  have js: "List.map sr_code records = List.map JString codes"
  proof -
    have "List.map JString (List.map_filter as_string ys) = ys" if "\<forall>y \<in> set ys. \<exists>c. JString c = y" for ys
      using that by (induction ys) (auto simp: List.map_filter_def)
    moreover have "\<forall>y \<in> set (List.map sr_code records). \<exists>c. JString c = y" using seen by auto
    ultimately show ?thesis by (simp only: codes_def)
  qed
  have dist: "distinct codes" using assms(4) [OF records] unfolding js by (simp add: distinct_map)
  note results = take_results [OF folded, folded codes_def]
  have "\<exists>st \<in> set (sb_stations s1). ws_provider st = Inmet \<and> ws_code st = code \<and> map_of (rev ?ids) code = Some (ws_id st)"
    if "code \<in> set codes" for code
  proof -
    have listed: "JString code \<in> set (List.map sr_code records)" unfolding js using that by simp
    then obtain st where st: "st \<in> set (sb_stations s1)" "ws_provider st = Inmet" "ws_code st = code"
      using seen by (metis (no_types, lifting) image_iff json.inject(4) list.set_map)
    then show ?thesis using station_ids_lookup [OF wf1 st(1,2)] listed by auto
  qed
  moreover have "distinct (List.map fst obs)" using results station_ids_inj [OF wf1 dist] by simp
  note kept = persist_observations_effect [OF stored wf1 this]
  ultimately have "asked_stations n observe codes ?ids obs s1 s' rep"
    using results rep station_ids_Some by (simp add: asked_stations_def new_report_def) blast
  then show ?thesis using records js effect kept by blast
qed

lemma asked_counted:
  assumes "asked_stations n observe codes ids obs s1 s' rep"
  shows "rp_failed rep = int (length (filter (\<lambda>c. \<exists>e. observe c = Inl e) codes))"
proof -
  have known: "\<forall>code \<in> set codes. map_of (rev ids) code \<noteq> None" using assms by (fastforce simp: asked_stations_def Let_def)
  have "length (List.map_filter (failed_station (sx_message n) ids) (List.map (\<lambda>code. (code, observe code)) cs)) =
      length (filter (\<lambda>c. \<exists>e. observe c = Inl e) cs)" if "set cs \<subseteq> set codes" for cs
    using that
  proof (induction cs)
    case (Cons c cs)
    then have "map_of (rev ids) c \<noteq> None" using known by simp
    then show ?case using Cons by (cases "observe c") (auto simp: map_filter_simps failed_station_def)
  qed (simp add: List.map_filter_def)
  then show ?thesis using assms by (simp add: asked_stations_def Let_def)
qed

lemma asked_outcome:
  assumes "asked_stations n observe codes ids obs s1 s' rep" and "code \<in> set codes"
  shows "\<exists>st \<in> set (sb_stations s'). ws_provider st = Inmet \<and> ws_code st = code \<and>
     (case observe code of
        Inl e \<Rightarrow> (''estacao:'' @ code, sx_message n e) \<in> set (rp_failures rep)
      | Inr None \<Rightarrow> True
      | Inr (Some o1) \<Rightarrow> \<exists>row \<in> set (sb_observations s'). wo_station_id row = ws_id st \<and> keeps_reading o1 row)"
proof -
  obtain st where st: "st \<in> set (sb_stations s')" "ws_provider st = Inmet" "ws_code st = code"
    and found: "map_of (rev ids) code = Some (ws_id st)"
    using assms by (auto simp: asked_stations_def Let_def)
  have mem: "(code, observe code) \<in> set (List.map (\<lambda>code. (code, observe code)) codes)" using assms(2) by simp
  have "case observe code of
        Inl e \<Rightarrow> (''estacao:'' @ code, sx_message n e) \<in> set (rp_failures rep)
      | Inr None \<Rightarrow> True
      | Inr (Some o1) \<Rightarrow> \<exists>row \<in> set (sb_observations s'). wo_station_id row = ws_id st \<and> keeps_reading o1 row"
  proof (cases "observe code")
    case (Inl e)
    have "failed_station (sx_message n) ids (code, observe code) = Some (''estacao:'' @ code, sx_message n e)"
      by (simp add: failed_station_def found Inl)
    then have "(''estacao:'' @ code, sx_message n e) \<in>
        set (List.map_filter (failed_station (sx_message n) ids) (List.map (\<lambda>code. (code, observe code)) codes))"
      unfolding set_map_filter using mem by blast
    then have "(''estacao:'' @ code, sx_message n e) \<in> set (rp_failures rep)"
      using assms(1) by (simp add: asked_stations_def Let_def)
    then show ?thesis using Inl by simp
  next
    case (Inr reading)
    show ?thesis
    proof (cases reading)
      case (Some o1)
      have "taken ids (code, observe code) = Some (ws_id st, o1)" by (simp add: taken_def found Inr Some)
      then have "(ws_id st, o1) \<in> set (List.map_filter (taken ids) (List.map (\<lambda>code. (code, observe code)) codes))"
        unfolding set_map_filter using mem by blast
      then have "(ws_id st, o1) \<in> set obs" using assms(1) by (simp add: asked_stations_def Let_def)
      moreover have "\<forall>(i, o1) \<in> set obs. \<exists>row \<in> set (sb_observations s'). wo_station_id row = i \<and> keeps_reading o1 row"
        using assms(1) unfolding asked_stations_def Let_def by blast
      ultimately show ?thesis using Inr Some by auto
    qed (simp add: Inr)
  qed
  then show ?thesis using st by blast
qed

lemma asked_untouched:
  assumes "asked_stations n observe codes ids obs s1 s' rep" and "row \<in> set (sb_observations s1)"
  shows "row \<in> set (sb_observations s') \<or>
    (\<exists>st \<in> set (sb_stations s'). \<exists>o1. ws_id st = wo_station_id row \<and> observe (ws_code st) = Inr (Some o1) \<and> or_at o1 = wo_at row)"
proof (cases "(wo_station_id row, wo_at row) \<in> (\<lambda>(i, o1). (i, or_at o1)) ` set obs")
  case True
  then obtain o1 where o1: "(wo_station_id row, o1) \<in> set obs" "or_at o1 = wo_at row" by auto
  then obtain code where "taken ids (code, observe code) = Some (wo_station_id row, o1)"
    using assms(1) by (auto simp: asked_stations_def Let_def set_map_filter)
  then have "map_of (rev ids) code = Some (wo_station_id row)" and "observe code = Inr (Some o1)"
    by (auto simp: taken_def split: option.splits sum.splits)
  then show ?thesis using assms(1) o1(2) unfolding asked_stations_def Let_def by metis
next
  case False
  then show ?thesis using assms by (auto simp: asked_stations_def Let_def)
qed


end
