(* ===== verification/Weather_Feed_Witnesses.thy ===== *)
theory Weather_Feed_Witnesses
  imports Weather_Station_Laws
begin

text \<open>Concrete runs of the theorems on the jobs of the weather.\<close>

definition cv0 :: feed_conversions where
  "cv0 = \<lparr>fc_instant = \<lambda>s. if s = ''T'' then Some 5 else None, fc_loads = \<lambda>_. None, fc_dumps = \<lambda>_. ''P'', fc_repr = \<lambda>_. [],
     fc_polygon = \<lambda>_. True\<rparr>"

definition dataset0 :: dataset where
  "dataset0 = \<lparr>ds_id = 1, ds_source = ''inmet'', ds_code = ''avisos'', ds_name = ''INMET'', ds_url = None, ds_source_updated_at = None\<rparr>"

definition feed_env0 :: feed_env where
  "feed_env0 = \<lparr>fx_conversions = cv0, fx_to_polygon = \<lambda>g. g, fx_st_equals = (=), fx_new_id = int, fx_message = \<lambda>_. ''erro'',
     fx_dataset = dataset0\<rparr>"

definition aviso :: json where
  "aviso = JObject [(''id_aviso'', JInt 7), (''data_inicio'', JString ''T''), (''data_fim'', JString ''T''), (''poligono'', JObject [])]"

definition answer :: "json \<Rightarrow> nat \<Rightarrow> http_outcome" where
  "answer v k = Answered \<lparr>h_status = 200, h_url = [], h_text = [], h_json = Some v, h_retry_after = []\<rparr>"

lemma get_json_answer: "fst (get_json path (answer v)) = Inr v"
  by (simp add: get_json_def get_with_retry_deciding answer_def deciding_attempt_def TRANSIENT_STATUS_def)

definition avisos :: json where
  "avisos = JObject [(''hoje'', JList [aviso, JObject [(''encerrado'', JBool True)]])]"

lemma entries0: "filter (usable_inmet cv0) (inmet_entries (answer avisos)) = [aviso]"
  by (simp add: inmet_entries_def get_json_answer avisos_def jget_def usable_inmet_def aviso_def parse_iso_def cv0_def utc_suffix_def
      parse_polygon_def)

lemma seven: "int_to_string 7 = ''7''"
  by code_simp

lemma fetch0: "fetch_inmet_alerts cv0 (answer avisos) = Inr [\<lparr>fr_external_id = ''7'', fr_event = JString NO_EVENT,
    fr_severity = JString ''Desconhecida'', fr_onset = 5, fr_expires = 5, fr_polygon = JObject [], fr_color = JNull,
    fr_description = None, fr_affected = [], fr_risks = [], fr_instructions = []\<rparr>]"
  by (simp add: fetch_inmet_alerts_def inmet_records_def get_json_answer avisos_def aviso_def jget_def inmet_alert_def cv0_def
      parse_iso_def utc_suffix_def parse_polygon_def tuple_or_empty_def or_text_def split_codes_def seven)

lemma bind0: "bind_record cv0 \<lparr>fr_external_id = ''7'', fr_event = JString NO_EVENT,
    fr_severity = JString ''Desconhecida'', fr_onset = 5, fr_expires = 5, fr_polygon = JObject [], fr_color = JNull,
    fr_description = None, fr_affected = [], fr_risks = [], fr_instructions = []\<rparr> =
  Inr \<lparr>ar_external_id = ''7'', ar_event = NO_EVENT, ar_severity = ''Desconhecida'', ar_color = None, ar_description = None,
    ar_onset = 5, ar_expires = 5, ar_polygon = ''P'', ar_affected_ibge_codes = [], ar_risks = [], ar_instructions = []\<rparr>"
  by (simp add: bind_record_def text_parameter_def fits_column_def from_option_def NO_EVENT_def cv0_def)

lemma import0: "fst (import_inmet_alerts feed_env0 (answer avisos) 1 empty_db) = Inr 0"
proof -
  have cv: "fx_conversions feed_env0 = cv0" by (simp add: feed_env0_def)
  show ?thesis
    unfolding import_inmet_alerts_def import_alerts_def cv fetch0
    by (simp add: bind0 upsert_alerts_def upsert_alert_row_def proposed_row_def select_first_def Let_def empty_db_def
        upsert_dataset_def)
qed

theorem inmet_alerts_stored_or_nothing_witness:
  "\<exists>a \<in> set (weather_alerts (snd (snd (import_inmet_alerts feed_env0 (answer avisos) 1 empty_db)))).
     a_provider a = Inmet \<and> a_external_id a = ''7'' \<and> a_expires a = 5"
proof -
  obtain rep d' where run: "import_inmet_alerts feed_env0 (answer avisos) 1 empty_db = (Inr 0, rep, d')"
    using import0 by (metis prod.collapse)
  have cv: "fx_conversions feed_env0 = cv0" by (simp add: feed_env0_def)
  have eq: "fx_st_equals feed_env0 g g" for g by (simp add: feed_env0_def)
  have dist: "distinct (List.map (\<lambda>e. py_str (fc_repr (fx_conversions feed_env0)) (jget e ''id_aviso''))
      (filter (usable_inmet (fx_conversions feed_env0)) (inmet_entries (answer avisos))))"
    by (simp add: cv entries0)
  have id: "py_str (fc_repr cv0) (jget aviso ''id_aviso'') = ''7''" by (simp add: aviso_def jget_def seven)
  have "parse_iso cv0 (jget aviso ''data_fim'') = Some 5" by (simp add: aviso_def jget_def parse_iso_def cv0_def utc_suffix_def)
  moreover have "no_conflicts same_alert (weather_alerts empty_db)" by (simp add: empty_db_def)
  ultimately show ?thesis
    using inmet_alerts_stored_or_nothing [OF run _ eq dist] by (auto simp: cv entries0 run tells_inmet_def id)
qed

section \<open>Stations\<close>

definition station_env0 :: station_env where
  "station_env0 = \<lparr>sx_conversions = \<lparr>sc_float = \<lambda>_. Finite 0, sc_decimal = \<lambda>_. NotADecimal, sc_repr = \<lambda>_. []\<rparr>,
     sx_point = \<lambda>_ _. ''P'', sx_st_equals = (=), sx_new_id = int, sx_message = \<lambda>_. ''erro'', sx_dataset = dataset0\<rparr>"

definition estacao :: "string \<Rightarrow> json" where
  "estacao code = JObject [(''CD_ESTACAO'', JString code), (''CD_SITUACAO'', JString ''Operante'')]"

definition estacoes :: json where "estacoes = JList [estacao ''A1'', estacao ''A2'']"

definition observe0 :: "string \<Rightarrow> raised + observation_record option" where
  "observe0 code = (if code = ''A1'' then Inl RaisedOther
     else Inr (Some \<lparr>or_at = 9, or_temperature = None, or_humidity = None, or_pressure = None, or_precipitation = None\<rparr>))"

definition no_stations :: station_db where "no_stations = \<lparr>sb_stations = [], sb_observations = []\<rparr>"

definition record_of :: "string \<Rightarrow> station_record" where
  "record_of code = \<lparr>sr_code = JString code, sr_name = JString code, sr_latitude = Finite 0, sr_longitude = Finite 0, sr_state = JNull\<rparr>"

lemma stations0: "fetch_stations (sx_conversions station_env0) (answer estacoes) = Inr [record_of ''A1'', record_of ''A2'']"
  by (simp add: fetch_stations_def get_json_answer read_stations_def estacoes_def estacao_def jget_def to_float_def station_env0_def record_of_def Let_def)

definition row_of :: "int \<Rightarrow> string \<Rightarrow> station" where
  "row_of i code = \<lparr>ws_id = i, ws_provider = Inmet, ws_code = code, ws_name = code, ws_geom = ''P'', ws_state = None\<rparr>"

lemma bound0: "bind_station station_env0 (i, record_of code) =
    (if length code \<le> 32 then Inr (row_of (int i) code) else Inl RaisedOther)"
  by (simp add: bind_station_def text_parameter_def fits_column_def from_option_def record_of_def station_env0_def row_of_def)

definition stored0 :: station_db where
  "stored0 = \<lparr>sb_stations = [row_of 0 ''A1'', row_of 1 ''A2''], sb_observations = []\<rparr>"

lemma upserted0: "upsert_stations station_env0 [record_of ''A1'', record_of ''A2''] no_stations =
    Inr (2, stored0)"
  by (simp add: upsert_stations_def bound0 upsert_changed_row_def select_first_def same_station_def insert_or_update_def
      no_stations_def row_of_def stored0_def)

lemma station_ids0: "station_ids [JString ''A1'', JString ''A2''] stored0 =
    [(''A1'', 0), (''A2'', 1)]"
  by (simp add: station_ids_def row_of_def stored0_def)

lemma observations0: "sb_observations stored0 = []"
  by (simp add: stored0_def)

lemma import_stations0: "fst (import_stations station_env0 (answer estacoes) observe0 1 empty_db no_stations) = Inr 0"
proof -
  have two: "batches 2 [''A1'', ''A2''] = [[''A1'', ''A2'']]" by (subst batches.simps) (simp add: batches.simps)
  have codes: "sr_code (record_of code) = JString code" for code by (simp add: record_of_def)
  have asked: "List.map_filter as_string [JString ''A1'', JString ''A2''] = [''A1'', ''A2'']" by (simp add: List.map_filter_def)
  show ?thesis
    by (simp add: import_stations_def stations0 upserted0 Let_def prod.case_eq_if del: list.map prod.case)
      (simp add: codes station_ids0 asked MAX_CONCURRENCY_def two take_result_def observe0_def Let_def persist_observations_def
        bind_observation_def numeric_column_def upsert_changed_row_def select_first_def insert_or_update_def observations0 split_beta)
qed


theorem stations_shown_with_last_reading_witness:
  "let s = \<lparr>sb_stations = [\<lparr>ws_id = 1, ws_provider = Inmet, ws_code = ''A1'', ws_name = ''A'', ws_geom = ''P'', ws_state = None\<rparr>],
       sb_observations = [\<lparr>wo_station_id = 1, wo_at = 3, wo_temperature = Some 20, wo_humidity = None, wo_pressure = None,
         wo_precipitation = None, wo_dataset_id = 1, wo_run_id = None\<rparr>]\<rparr> in
     \<forall>r \<in> set (list_current_stations id id s). cr_at r = 3"
  unfolding Let_def
proof
  fix r
  let ?s = "\<lparr>sb_stations = [\<lparr>ws_id = 1, ws_provider = Inmet, ws_code = ''A1'', ws_name = ''A'', ws_geom = ''P'', ws_state = None\<rparr>],
       sb_observations = [\<lparr>wo_station_id = 1, wo_at = 3, wo_temperature = Some 20, wo_humidity = None, wo_pressure = None,
         wo_precipitation = None, wo_dataset_id = 1, wo_run_id = None\<rparr>]\<rparr>"
  assume "r \<in> set (list_current_stations id id ?s)"
  then show "cr_at r = 3"
    using stations_shown_with_last_reading [of id id ?s] by (auto simp: Let_def station_row_of_def)
qed

end
