(* ===== verification/Transport_Witnesses.thy ===== *)
theory Transport_Witnesses
  imports Transport_Tile_Laws Weather_Feed_Witnesses
begin

text \<open>Concrete runs of the theorems on the transport network.\<close>

section \<open>Shapes\<close>

definition shp_header :: "nat \<Rightarrow> bytes" where
  "shp_header kind = pack_be 9994 @ replicate 28 0 @ pack_le kind @ replicate 64 0"

definition line0 :: shape where
  "line0 = LineShape (replicate 32 0) [[replicate 16 1, replicate 16 2], [replicate 16 3]]"

lemma header0: "header_ok (shp_header 1)" "header_ok (shp_header 3)"
  by (simp_all add: header_ok_def shp_header_def)

theorem read_shapes_of_file_witness:
  "read_shapes (shp_file (shp_header 3) [line0, NullShape]) =
     Some (Inr [Some (wkb_multilinestring [[replicate 16 1, replicate 16 2]]), None])"
proof -
  have ok: "\<forall>s \<in> set [line0, NullShape]. shape_ok s" by (simp add: line0_def)
  show ?thesis using read_shapes_of_file [OF header0(2) ok] by (simp add: line0_def)
qed

section \<open>An import of a country without roads\<close>

definition shp0 :: bytes where "shp0 = shp_file (shp_header 1) []"

definition dbf0 :: bytes where "dbf0 = replicate 32 0"

definition archive0 :: archive where
  "archive0 = concat (List.map (\<lambda>m. [(m @ ''.shp'', Some shp0), (m @ ''.dbf'', Some dbf0)]) MEMBERS)"

definition sources0 :: transport_sources where
  "sources0 = \<lparr>ts_repr = \<lambda>_. [], ts_pack = \<lambda>_. None, ts_decode = \<lambda>_ _. None,
     ts_version = answer (JObject [(''features'', JList [JObject [(''properties'', JObject [(''Versao_SNV'', JString ''A'')])]])]),
     ts_pages = \<lambda>_ _. answer (JObject [(''features'', JList [])]), ts_from_file = True, ts_opened = Inr archive0\<rparr>"

definition transport_env0 :: transport_env where
  "transport_env0 = \<lparr>tx_store = \<lambda>_. None, tx_parts = \<lambda>g. [g], tx_merge = hd, tx_shared = \<lambda>_ _. None, tx_distance = \<lambda>_ _. 0,
     tx_numeric = \<lambda>_. 0, tx_new_id = int, tx_show = \<lambda>_. [], tx_snv_dataset = \<lambda>_. dataset0, tx_map_dataset = dataset0\<rparr>"

definition town0 :: territory where
  "town0 = \<lparr>t_id = 1, t_level = Municipality, t_ibge_code = ''3550308'', t_name = ''A'', t_abbreviation = None, t_parent_id = None,
     t_capital_id = None, t_west = None, t_south = None, t_east = None, t_north = None, t_normalized_name = None,
     t_normalized_abbreviation = None\<rparr>"

definition db0 :: db where "db0 = empty_db\<lparr>territories := [town0]\<rparr>"

definition tables0 :: transport_db where
  "tables0 = \<lparr>tr_features = [], tr_overviews = [], tr_totals = [((1, Rail), 7)]\<rparr>"

lemma version0: "latest_version (ts_repr sources0) (ts_version sources0) = Inr ''A''"
  by (simp add: latest_version_def sources0_def get_json_answer from_option_def py_strip_def is_space_def)

lemma pages0: "fetch_roads (ts_pages sources0 v) = Some (Inr [])"
  unfolding fetch_roads_def by (subst fetch_pages.simps) (simp add: sources0_def get_json_answer jget_def SNV_PAGE_def)

lemma layers0: "download_layers (ts_from_file sources0) (ts_opened sources0) = Inr (List.map (\<lambda>m. (m, shp0, dbf0, ''latin-1'')) MEMBERS)"
  by (simp add: download_layers_def sources0_def read_layers_def read_member_def member_encoding_def archive0_def MEMBERS_def path_name_def)

lemma features0: "map_features (ts_decode sources0) (List.map (\<lambda>m. (m, shp0, dbf0, ''latin-1'')) MEMBERS) = Some (Inr [])"
proof -
  have "read_shapes shp0 = Some (Inr [])" using read_shapes_of_file [OF header0(1), of "[]"] by (simp add: shp0_def)
  moreover have "read_dbf decode dbf0 encoding = Inr []" for decode encoding
    by (simp add: read_dbf_def dbf0_def unsigned_le_def unsigned_be_def read_fields.simps numeral_eq_Suc)
  ultimately have "layer_features decode f (shp0, dbf0, encoding) = Some (Inr [])" for decode f encoding
    by (simp add: layer_features_def map_records_def List.map_filter_def)
  then show ?thesis by (simp add: map_features_def MEMBERS_def)
qed

lemma import_network0: "\<exists>rep d' t'. import_network transport_env0 sources0 db0 tables0 = Some (Inr 0, rep, d', t')"
proof -
  have insert0: "insert_features n k i [] t = Inr ([], t)" for n k i t
    by (simp add: insert_features_def batches.simps)
  have "length_items n d [] = []" "port_items n d [] = []" for n d
    by (simp_all add: length_items_def port_items_def List.map_filter_def concat_eq_Nil_conv split_beta)
  then have "total_rows n d [] = Inr []" for n d by (simp add: total_rows_def scope_groups_def)
  then have "\<exists>x. replace_network n v k [] (Inr []) d = Inr x" for n v k d
    by (auto simp: replace_network_def insert0 Let_def split: prod.splits)
  then obtain rep d' t' where replaced: "replace_network transport_env0 ''A'' 0 [] (Inr []) db0 = Inr (rep, d', t')"
    by (metis prod_cases3)
  have "dnit_roads r p [] = Inr []" for r p by (simp add: dnit_roads_def List.map_filter_def)
  then have "import_network transport_env0 sources0 db0 tables0 = Some (Inr 0, rep, d', t')"
    by (simp add: import_network_def version0 pages0 layers0 features0 import_body_def replaced)
  then show ?thesis by blast
qed


section \<open>Requests\<close>

definition geo0 :: transport_geo where
  "geo0 = \<lparr>tq_meets = \<lambda>_ _. True, tq_clip = \<lambda>_ g. [g], tq_dimension = \<lambda>_. 1, tq_lines = \<lambda>_ _ _. ''L'', tq_json = \<lambda>_ g. g,
     tq_from_point = \<lambda>_ _. 0\<rparr>"

definition call0 :: network_call where
  "call0 = \<lparr>nc_at = 5, nc_layer = Port, nc_zoom = 4, nc_box = None, nc_db = db0, nc_tables = tables0\<rparr>"

theorem network_answers_what_was_asked_witness:
  "case network_run geo0 [call0] new_transport_caches ! 0 of
     Inl e \<Rightarrow> False | Inr v \<Rightarrow> na_layer v = Port \<and> na_detail v = OverviewDetail \<and> na_features v = []"
proof -
  have "\<not> refused Port 4 None" by (simp add: refused_def min_zoom_of_def LAYERS_def)
  moreover have "network_features geo0 Port dl used tables0 = []" for dl used
    by (simp add: network_features_def LINE_LAYERS_def fetch_points_def tables0_def)
  ultimately show ?thesis
    using network_answers_what_was_asked [of 0 "[call0]" geo0 _ call0, OF _ refl]
    by (cases "network_run geo0 [call0] new_transport_caches ! 0") (auto simp: call0_def refused_def)
qed

section \<open>Tiles\<close>

definition tiles0 :: mbtiles where
  "tiles0 = \<lparr>mb_name = ''a'', mb_size = 1, mb_metadata = [(''format'', ''pbf'')], mb_tiles = [(1, 0, 0, [7])]\<rparr>"

definition lost_once :: "nat \<Rightarrow> nat \<Rightarrow> attempt" where
  "lost_once k a = (if a = 1 then LostAfter else Accepted)"

definition no_tiles :: tiles_db where "no_tiles = \<lparr>tb_tiles = [], tb_staging = None\<rparr>"

lemma tiles0_fields:
  "mb_metadata tiles0 = [(''format'', ''pbf'')]" "mb_tiles tiles0 = [(1, 0, 0, [7])]"
  by (simp_all add: tiles0_def)

lemma import_tiles0: "\<exists>rep d' s'. import_tiles dataset0 lost_once tiles0 db0 no_tiles = (Inr 0, rep, d', s')"
proof -
  have one: "batches TILE_BATCH [m] = [[m]]" for m :: "int \<times> int \<times> int \<times> bytes"
    by (subst batches.simps) (simp add: TILE_BATCH_def batches.simps)
  have mark: "CHR 0x27 \<notin> set (fingerprint tiles0)" by code_simp
  have "write_batch (lost_once 0) [((1, 0, 1), [7])] [] = (Inr (), [((1, 0, 1), [7])], [2])"
    unfolding write_batch_def
    by (subst write_from.simps, simp add: WRITE_ATTEMPTS_def outcome_of_def lost_once_def tile_fits_def insert_tiles_def
        insert_ignore_def same_tile_def, subst write_from.simps, simp add: WRITE_ATTEMPTS_def outcome_of_def lost_once_def tile_fits_def
        insert_tiles_def insert_ignore_def same_tile_def)
  then show ?thesis
    by (simp add: import_tiles_def prepare_staging_def no_tiles_def mark tiles0_fields read_metadata_def one xyz_tile_def Let_def
        swap_tiles_def set_rows_def int_metadata_def)
qed

theorem tiles_import_resumable_witness:
  "get_tile 1 0 1 (snd (snd (snd (import_tiles dataset0 lost_once tiles0 db0 no_tiles)))) = Inr (Some [7])"
proof -
  obtain rep d' s' where run: "import_tiles dataset0 lost_once tiles0 db0 no_tiles = (Inr 0, rep, d', s')"
    using import_tiles0 by blast
  have "staged_from tiles0 no_tiles" by (simp add: staged_from_def no_tiles_def)
  then show ?thesis using tiles_import_resumable [OF run] by (simp add: run tiles0_fields)
qed

end
