(* ===== verification/Education.thy ===== *)
theory Education
  imports Csv Socioeconomic
begin

text \<open>
  Public higher education: INEP's census (\<open>app/providers/inep_higher_education.py\<close>), its import
  (\<open>app/jobs/import_education.py\<close>, \<open>app/models/education.py\<close>), the queries (\<open>app/repositories/education.py\<close>) and the
  service (\<open>app/services/education.py\<close>). An archive is the list of its members with their texts, or \<open>None\<close> when it is
  not a ZIP file; downloading is left out.
\<close>

section \<open>The census\<close>

datatype network = FederalNetwork | StateNetwork | MunicipalNetwork
datatype organization = University | UniversityCenter | College | FederalInstitute | Cefet
datatype edu_kind = UniversityKind | InstituteKind | CollegeKind

fun network_value :: "network \<Rightarrow> string" where
  "network_value FederalNetwork = ''federal''"
| "network_value StateNetwork = ''state''"
| "network_value MunicipalNetwork = ''municipal''"

fun kind_value :: "edu_kind \<Rightarrow> string" where
  "kind_value UniversityKind = ''university''"
| "kind_value InstituteKind = ''institute''"
| "kind_value CollegeKind = ''college''"

fun kind_of :: "organization \<Rightarrow> edu_kind" where
  "kind_of University = UniversityKind"
| "kind_of FederalInstitute = InstituteKind"
| "kind_of Cefet = InstituteKind"
| "kind_of UniversityCenter = CollegeKind"
| "kind_of College = CollegeKind"

definition CATEGORIES :: "(string \<times> network) list" where
  "CATEGORIES = [(''1'', FederalNetwork), (''2'', StateNetwork), (''3'', MunicipalNetwork)]"

definition ORGANIZATIONS :: "(string \<times> organization) list" where
  "ORGANIZATIONS = [(''1'', University), (''2'', UniversityCenter), (''3'', College), (''4'', FederalInstitute), (''5'', Cefet)]"

definition INSTITUTION_COLUMNS :: "string list" where
  "INSTITUTION_COLUMNS = [''CO_IES'', ''NO_IES'', ''SG_IES'', ''TP_CATEGORIA_ADMINISTRATIVA'', ''TP_ORGANIZACAO_ACADEMICA'',
     ''CO_MUNICIPIO_IES'', ''QT_DOC_EXE'', ''QT_TEC_TOTAL'']"

definition COURSE_COLUMNS :: "string list" where
  "COURSE_COLUMNS = [''CO_IES'', ''CO_MUNICIPIO'', ''TP_CATEGORIA_ADMINISTRATIVA'', ''TP_MODALIDADE_ENSINO'', ''TP_NIVEL_ACADEMICO'',
     ''QT_CURSO'', ''QT_MAT'', ''QT_ING'', ''QT_CONC'']"

record institution =
  hi_code :: int
  hi_name :: string
  hi_acronym :: "string option"
  hi_category :: network
  hi_organization :: organization
  hi_seat :: "string option"
  hi_faculty :: "int option"
  hi_staff :: "int option"

record offer =
  of_courses :: int
  of_enrollment :: int
  of_entrants :: int
  of_graduates :: int

record census =
  ce_year :: int
  ce_institutions :: "(int \<times> institution) list"
  ce_offers :: "((int \<times> string) \<times> offer) list"
  ce_distance :: "(int \<times> int) list"

definition new_census :: "int \<Rightarrow> census" where
  "new_census year = \<lparr>ce_year = year, ce_institutions = [], ce_offers = [], ce_distance = []\<rparr>"

text \<open>\<open>_int\<close>, \<open>_optional_int\<close> and \<open>str.upper\<close>.\<close>

definition int_or_zero :: "string \<Rightarrow> int option" where
  "int_or_zero v = (if py_strip v \<noteq> [] then parse_int v else Some 0)"

definition optional_int :: "string \<Rightarrow> int option option" where
  "optional_int v = (if py_strip v \<noteq> [] then map_option Some (parse_int v) else Some None)"

definition upper_char :: "char \<Rightarrow> string" where
  "upper_char c = (let n = of_char c :: nat in
     if (97 \<le> n \<and> n \<le> 122) \<or> (224 \<le> n \<and> n \<le> 254 \<and> n \<noteq> 247) then [char_of (n - 32)]
     else if n = 223 then ''SS'' else [c])"

definition py_upper :: "string \<Rightarrow> string" where
  "py_upper s = concat (List.map upper_char s)"

text \<open>
  Reading stops at the first failure: an error of the domain (also for \<open>ValueError\<close> and \<open>IndexError\<close>), or the
  \<open>csv.Error\<close> of a broken file, which is not caught.
\<close>

datatype census_failure = BadCensus | BrokenCsv

definition or_none :: "string \<Rightarrow> string option" where
  "or_none s = (if s = [] then None else Some s)"

text \<open>A row of a file, in the columns asked: the first column of each name.\<close>

definition pick_columns :: "nat list \<Rightarrow> string list \<Rightarrow> census_failure + string list" where
  "pick_columns indexes row = (if list_all (\<lambda>i. i < length row) indexes then Inr (List.map (\<lambda>i. row ! i) indexes) else Inl BadCensus)"

definition column_index :: "string list \<Rightarrow> string \<Rightarrow> nat" where
  "column_index header name = length (takeWhile (\<lambda>h. h \<noteq> name) header)"

text \<open>The rows of the member with a suffix, each handled by \<open>step\<close> as it is read.\<close>

definition fold_file ::
    "string \<Rightarrow> string list \<Rightarrow> ('s \<Rightarrow> string list \<Rightarrow> census_failure + 's) \<Rightarrow> 's \<Rightarrow> (string \<times> string) list \<Rightarrow> census_failure + 's" where
  "fold_file suffix columns step s archive =
     (case filter (\<lambda>m. ends_with (py_upper (fst m)) suffix) archive of
        [(_, body)] \<Rightarrow>
          (let (rows, failed) = csv_records (CHR '';'') (universal_lines body) csv_start in
           if rows = [] \<and> failed then Inl BrokenCsv
           else let header = (case rows of [] \<Rightarrow> [] | h # _ \<Rightarrow> h) in
             if \<not> list_all (\<lambda>c. c \<in> set header) columns then Inl BadCensus
             else and_then (fold_each (\<lambda>s row. and_then (pick_columns (List.map (column_index header) columns) row) (step s)) s (tl rows))
               (\<lambda>s1. if failed then Inl BrokenCsv else Inr s1))
      | _ \<Rightarrow> Inl BadCensus)"

definition need :: "'a option \<Rightarrow> census_failure + 'a" where
  "need = from_option BadCensus"

definition add_institution :: "census \<Rightarrow> string list \<Rightarrow> census_failure + census" where
  "add_institution ce row =
     (case row of
        [code, name, acronym, category, org, seat, faculty, staff] \<Rightarrow>
          (case map_of CATEGORIES category of
             None \<Rightarrow> Inr ce
           | Some network \<Rightarrow>
               and_then (need (map_of ORGANIZATIONS org)) (\<lambda>organization.
               and_then (need (parse_int code)) (\<lambda>n.
               and_then (need (optional_int faculty)) (\<lambda>faculty.
               and_then (need (optional_int staff)) (\<lambda>staff.
                 Inr (ce\<lparr>ce_institutions := AList.update n
                   \<lparr>hi_code = n, hi_name = py_strip name, hi_acronym = or_none (py_strip acronym), hi_category = network,
                    hi_organization = organization, hi_seat = or_none (py_strip seat), hi_faculty = faculty, hi_staff = staff\<rparr>
                   (ce_institutions ce)\<rparr>))))))
      | _ \<Rightarrow> Inl BadCensus)"

definition add_to_offer :: "offer \<Rightarrow> offer \<Rightarrow> offer" where
  "add_to_offer a b =
     \<lparr>of_courses = of_courses a + of_courses b, of_enrollment = of_enrollment a + of_enrollment b,
      of_entrants = of_entrants a + of_entrants b, of_graduates = of_graduates a + of_graduates b\<rparr>"

definition no_offer :: offer where
  "no_offer = \<lparr>of_courses = 0, of_enrollment = 0, of_entrants = 0, of_graduates = 0\<rparr>"

definition get_or :: "'v \<Rightarrow> ('k \<times> 'v) list \<Rightarrow> 'k \<Rightarrow> 'v" where
  "get_or z m k = (case map_of m k of None \<Rightarrow> z | Some v \<Rightarrow> v)"

definition add_course :: "census \<Rightarrow> string list \<Rightarrow> census_failure + census" where
  "add_course ce row =
     (case row of
        [code, municipality, category, modality, level, courses, enrollment, entrants, graduates] \<Rightarrow>
          and_then (need (parse_int code)) (\<lambda>n.
            if map_of CATEGORIES category = None \<or> map_of (ce_institutions ce) n = None then Inr ce
            else if modality \<noteq> ''1''
            then and_then (need (int_or_zero enrollment)) (\<lambda>e.
              Inr (ce\<lparr>ce_distance := AList.update n (get_or 0 (ce_distance ce) n + e) (ce_distance ce)\<rparr>))
            else if level \<noteq> ''1'' \<or> py_strip municipality = [] then Inr ce
            else
              and_then (need (int_or_zero courses)) (\<lambda>c.
              and_then (need (int_or_zero enrollment)) (\<lambda>e.
              and_then (need (int_or_zero entrants)) (\<lambda>i.
              and_then (need (int_or_zero graduates)) (\<lambda>g.
                let key = (n, py_strip municipality); one = \<lparr>of_courses = c, of_enrollment = e, of_entrants = i, of_graduates = g\<rparr> in
                Inr (ce\<lparr>ce_offers := AList.update key (add_to_offer (get_or no_offer (ce_offers ce) key) one) (ce_offers ce)\<rparr>))))))
      | _ \<Rightarrow> Inl BadCensus)"

definition fill_census :: "(string \<times> string) list \<Rightarrow> int \<Rightarrow> census_failure + census" where
  "fill_census archive year =
     and_then (fold_file (''_IES_'' @ int_to_string year @ ''.CSV'') INSTITUTION_COLUMNS add_institution (new_census year) archive) (\<lambda>ce.
     and_then (fold_file (''_CURSOS_'' @ int_to_string year @ ''.CSV'') COURSE_COLUMNS add_course ce archive) (\<lambda>ce1.
       if ce_institutions ce1 = [] \<or> ce_offers ce1 = [] then Inl BadCensus else Inr ce1))"

definition read_census :: "(string \<times> string) list option \<Rightarrow> int \<Rightarrow> raised + census" where
  "read_census archive year =
     (case archive of
        None \<Rightarrow> Inl (RaisedDomain (mk_error ProviderError []))
      | Some members \<Rightarrow>
          (case fill_census members year of
             Inl BadCensus \<Rightarrow> Inl (RaisedDomain (mk_error ProviderError []))
           | Inl BrokenCsv \<Rightarrow> Inl RaisedOther
           | Inr ce \<Rightarrow> Inr ce))"

section \<open>The totals of the indicators\<close>

definition scopes_of :: "string \<Rightarrow> string list" where
  "scopes_of code = [code, take 2 code, take 1 code, ''BR'']"

definition enrollment_key :: "network \<Rightarrow> edu_kind option \<Rightarrow> string" where
  "enrollment_key network kind =
     ''higher_ed_'' @ network_value network @ ''_'' @ (case kind of None \<Rightarrow> [] | Some k \<Rightarrow> kind_value k @ ''_'') @ ''enrollment''"

type_synonym totals = "(string \<times> (string \<times> int) list) list"

definition add_total :: "int \<Rightarrow> string \<Rightarrow> (string \<times> int) list \<Rightarrow> (string \<times> int) list" where
  "add_total n scope m = AList.update scope (get_or 0 m scope + n) m"

definition add_enrollment :: "string list \<Rightarrow> int \<Rightarrow> string \<Rightarrow> totals \<Rightarrow> raised + totals" where
  "add_enrollment scopes n key totals =
     (case map_of totals key of
        None \<Rightarrow> Inl RaisedOther
      | Some m \<Rightarrow> Inr (AList.update key (fold (add_total n) scopes m) totals))"

definition add_offer_total :: "census \<Rightarrow> totals \<Rightarrow> (int \<times> string) \<times> offer \<Rightarrow> raised + totals" where
  "add_offer_total ce totals entry =
     (case entry of ((code, municipality), offer) \<Rightarrow>
        (case map_of (ce_institutions ce) code of
           None \<Rightarrow> Inl RaisedOther
         | Some i \<Rightarrow>
             fold_each (\<lambda>t key. add_enrollment (scopes_of municipality) (of_enrollment offer) key t) totals
               [enrollment_key (hi_category i) None, enrollment_key (hi_category i) (Some (kind_of (hi_organization i)))]))"

definition enrollment_totals :: "census \<Rightarrow> raised + totals" where
  "enrollment_totals ce =
     fold_each (add_offer_total ce) (List.map (\<lambda>s. (sd_key s, [])) EDUCATION_CATALOG) (ce_offers ce)"

definition total_observations :: "(string \<times> int) list \<Rightarrow> int \<Rightarrow> observation list" where
  "total_observations m year =
     List.map (\<lambda>(code, v). \<lparr>ob_code = code, ob_year = year, ob_value = of_int v\<rparr>) (sort_key fst m)"

section \<open>The tables and their replacement\<close>

record edu_institution =
  ei_year :: int
  ei_code :: int
  ei_name :: string
  ei_acronym :: "string option"
  ei_category :: network
  ei_organization :: organization
  ei_seat_id :: "int option"
  ei_faculty :: "int option"
  ei_staff :: "int option"
  ei_distance :: int
  ei_dataset_id :: int

record edu_offer =
  eo_year :: int
  eo_code :: int
  eo_territory_id :: int
  eo_courses :: int
  eo_enrollment :: int
  eo_entrants :: int
  eo_graduates :: int

record edu_db =
  ed_institutions :: "edu_institution list"
  ed_offers :: "edu_offer list"

definition same_institution :: "edu_institution \<Rightarrow> edu_institution \<Rightarrow> bool" where
  "same_institution a b \<longleftrightarrow> ei_year a = ei_year b \<and> ei_code a = ei_code b"

definition same_offer :: "edu_offer \<Rightarrow> edu_offer \<Rightarrow> bool" where
  "same_offer a b \<longleftrightarrow> eo_year a = eo_year b \<and> eo_code a = eo_code b \<and> eo_territory_id a = eo_territory_id b"

definition fits_integer :: "int \<Rightarrow> bool" where
  "fits_integer n \<longleftrightarrow> - (2 ^ 31) \<le> n \<and> n < 2 ^ 31"

definition institution_fits :: "edu_institution \<Rightarrow> bool" where
  "institution_fits i \<longleftrightarrow> - 32768 \<le> ei_year i \<and> ei_year i \<le> 32767 \<and> length (ei_name i) \<le> 200 \<and>
     (case ei_acronym i of None \<Rightarrow> True | Some a \<Rightarrow> length a \<le> 20) \<and>
     list_all fits_integer ([ei_code i, ei_distance i] @ List.map_filter id [ei_faculty i, ei_staff i])"

definition offer_fits :: "edu_offer \<Rightarrow> bool" where
  "offer_fits o1 \<longleftrightarrow> list_all fits_integer [eo_code o1, eo_courses o1, eo_enrollment o1, eo_entrants o1, eo_graduates o1]"

text \<open>The delete of a year's institutions, with the offers that refer to them.\<close>

definition delete_year :: "int \<Rightarrow> edu_db \<Rightarrow> edu_db" where
  "delete_year year ed =
     (let gone = filter (\<lambda>i. ei_year i = year) (ed_institutions ed) in
      \<lparr>ed_institutions = delete_where (\<lambda>i. ei_year i = year) (ed_institutions ed),
       ed_offers = delete_where (\<lambda>o1. \<exists>i \<in> set gone. eo_year o1 = ei_year i \<and> eo_code o1 = ei_code i) (ed_offers ed)\<rparr>)"

definition seat_ids :: "string option \<Rightarrow> db \<Rightarrow> int option list" where
  "seat_ids seat d =
     (case filter (\<lambda>t. Some (t_ibge_code t) = seat) (territories d) of [] \<Rightarrow> [None] | ts \<Rightarrow> List.map (\<lambda>t. Some (t_id t)) ts)"

definition institution_rows :: "census \<Rightarrow> int \<Rightarrow> db \<Rightarrow> edu_institution list" where
  "institution_rows ce dataset d =
     [\<lparr>ei_year = ce_year ce, ei_code = hi_code i, ei_name = hi_name i, ei_acronym = hi_acronym i, ei_category = hi_category i,
       ei_organization = hi_organization i, ei_seat_id = seat, ei_faculty = hi_faculty i, ei_staff = hi_staff i,
       ei_distance = get_or 0 (ce_distance ce) (hi_code i), ei_dataset_id = dataset\<rparr>.
        (_, i) \<leftarrow> ce_institutions ce, seat \<leftarrow> seat_ids (hi_seat i) d]"

definition offer_rows :: "census \<Rightarrow> db \<Rightarrow> edu_offer list" where
  "offer_rows ce d =
     [\<lparr>eo_year = ce_year ce, eo_code = code, eo_territory_id = t_id t, eo_courses = of_courses v,
       eo_enrollment = of_enrollment v, eo_entrants = of_entrants v, eo_graduates = of_graduates v\<rparr>.
        ((code, municipality), v) \<leftarrow> ce_offers ce, t \<leftarrow> territories d,
        t_ibge_code t = municipality \<and> t_level t = Municipality]"

text \<open>An \<open>INSERT\<close> of rows that fit and meet no other; the offers name institutions of their year.\<close>

definition insert_institutions :: "edu_institution list \<Rightarrow> edu_db \<Rightarrow> raised + edu_db" where
  "insert_institutions rows ed =
     (if list_all institution_fits rows \<and> no_conflicts same_institution (ed_institutions ed @ rows)
      then Inr (ed\<lparr>ed_institutions := ed_institutions ed @ rows\<rparr>) else Inl RaisedOther)"

definition insert_offers :: "edu_offer list \<Rightarrow> edu_db \<Rightarrow> raised + edu_db" where
  "insert_offers rows ed =
     (if list_all offer_fits rows \<and> no_conflicts same_offer (ed_offers ed @ rows) \<and>
         list_all (\<lambda>o1. \<exists>i \<in> set (ed_institutions ed). ei_year i = eo_year o1 \<and> ei_code i = eo_code o1) rows
      then Inr (ed\<lparr>ed_offers := ed_offers ed @ rows\<rparr>) else Inl RaisedOther)"

definition delete_values :: "int \<Rightarrow> int \<Rightarrow> socio_db \<Rightarrow> socio_db" where
  "delete_values indicator year so =
     so\<lparr>so_values := delete_where (\<lambda>v. iv_indicator_id v = indicator \<and> iv_year v = year) (so_values so)\<rparr>"

definition replace_values ::
    "(string \<Rightarrow> int option) \<Rightarrow> int \<Rightarrow> int \<Rightarrow> int \<Rightarrow> db \<Rightarrow> nat \<times> socio_db \<Rightarrow> string \<times> (string \<times> int) list \<Rightarrow> raised + nat \<times> socio_db" where
  "replace_values ids year dataset run d acc entry =
     and_then (from_option RaisedOther (ids (fst entry))) (\<lambda>indicator.
     and_then (persist (total_observations (snd entry) year) indicator dataset run d (delete_values indicator year (snd acc)))
       (\<lambda>(n, so). Inr (fst acc + n, so)))"

record year_details =
  yd_institutions :: nat
  yd_offers :: nat
  yd_without_territory :: int
  yd_values :: nat

definition replace_year ::
    "census \<Rightarrow> int \<Rightarrow> int \<Rightarrow> (string \<Rightarrow> int option) \<Rightarrow> db \<Rightarrow> socio_db \<Rightarrow> edu_db \<Rightarrow> raised + year_details \<times> socio_db \<times> edu_db" where
  "replace_year ce dataset run ids d so ed =
     and_then (insert_institutions (institution_rows ce dataset d) (delete_year (ce_year ce) ed)) (\<lambda>ed1.
     and_then (insert_offers (offer_rows ce d) ed1) (\<lambda>ed2.
     and_then (enrollment_totals ce) (\<lambda>totals.
     and_then (fold_each (replace_values ids (ce_year ce) dataset run d) (0, so) totals) (\<lambda>(written, so1).
       Inr (\<lparr>yd_institutions = length (ce_institutions ce), yd_offers = length (ce_offers ce),
             yd_without_territory = int (length (ce_offers ce)) - int (length (offer_rows ce d)), yd_values = written\<rparr>,
            so1, ed2)))))"

section \<open>The import\<close>

definition RETIRED_KEYS :: "string list" where "RETIRED_KEYS = [''higher_ed_public_enrollment'']"

definition delete_retired :: "socio_db \<Rightarrow> socio_db" where
  "delete_retired so =
     (let gone = List.map in_id (filter (\<lambda>i. in_key i \<in> set RETIRED_KEYS) (so_indicators so)) in
      \<lparr>so_indicators = delete_where (\<lambda>i. in_key i \<in> set RETIRED_KEYS) (so_indicators so),
       so_values = delete_where (\<lambda>v. iv_indicator_id v \<in> set gone) (so_values so)\<rparr>)"

definition education_ids :: "socio_db \<Rightarrow> string \<Rightarrow> int option" where
  "education_ids so key = map_option in_id (select_first (\<lambda>i. in_context i = ''education'' \<and> in_key i = key) (so_indicators so))"

record import_env =
  im_name_of :: "string \<Rightarrow> string"
  im_description_of :: "string \<Rightarrow> string"
  im_new_id :: "nat \<Rightarrow> int"
  im_dataset :: dataset

text \<open>
  The body of the job: the details of each year, and the tables. The catalogue is committed before the years, which
  are one transaction.
\<close>

definition ingest_census ::
    "import_env \<Rightarrow> census list \<Rightarrow> int \<Rightarrow> db \<Rightarrow> socio_db \<Rightarrow> edu_db
     \<Rightarrow> (raised + (int \<times> year_details) list) \<times> db \<times> socio_db \<times> edu_db" where
  "ingest_census n censuses run d so ed =
     (let so1 = snd (seed_catalog (im_name_of n) (im_description_of n) (im_new_id n) EDUCATION_CATALOG (delete_retired so));
          (dataset, d1) = upsert_dataset (im_dataset n) d in
      case fold_each (\<lambda>(acc, s, e) ce.
             and_then (replace_year ce dataset run (education_ids so1) d1 s e) (\<lambda>(details, s1, e1).
               Inr (acc @ [(ce_year ce, details)], s1, e1))) ([], so1, ed) censuses of
        Inl e \<Rightarrow> (Inl e, d, so1, ed)
      | Inr (years, so2, ed2) \<Rightarrow> (Inr years, d1, so2, ed2))"

definition read_years :: "(int \<Rightarrow> (string \<times> string) list option) \<Rightarrow> int list \<Rightarrow> raised + census list" where
  "read_years archive years = map_each (\<lambda>y. read_census (archive y) y) (sort (remdups years))"

text \<open>The argument \<open>--years\<close>.\<close>

definition parse_years :: "string \<Rightarrow> int list option" where
  "parse_years v =
     (if CHR ''-'' \<in> set v
      then (case (parse_int (takeWhile (\<lambda>c. c \<noteq> CHR ''-'') v), parse_int (tl (dropWhile (\<lambda>c. c \<noteq> CHR ''-'') v))) of
              (Some a, Some b) \<Rightarrow> Some [a..b] | _ \<Rightarrow> None)
      else all_some (List.map parse_int (py_split (CHR '','') v)))"

section \<open>Queries\<close>

definition education_version :: "db \<Rightarrow> int" where
  "education_version d =
     (case List.map r_id (filter (\<lambda>r. r_job r = ''import_education'' \<and> r_status r = Succeeded) (ingestion_runs d)) of
        [] \<Rightarrow> 0 | i # is \<Rightarrow> foldl max i is)"

definition education_years :: "edu_db \<Rightarrow> int list" where
  "education_years ed = sort (remdups (List.map ei_year (ed_institutions ed)))"

record edu_place =
  ep_code :: string
  ep_name :: string
  ep_state :: "string option"

definition seat_of :: "db \<Rightarrow> edu_institution \<Rightarrow> edu_place option" where
  "seat_of d i =
     map_option (\<lambda>s. \<lparr>ep_code = t_ibge_code s, ep_name = t_name s,
         ep_state = (case territory_by_id (t_parent_id s) d of None \<Rightarrow> None | Some p \<Rightarrow> t_abbreviation p)\<rparr>)
       (territory_by_id (ei_seat_id i) d)"

record edu_summary =
  es_code :: int
  es_name :: string
  es_acronym :: "string option"
  es_category :: network
  es_organization :: organization
  es_seat :: "edu_place option"
  es_enrollment :: int
  es_courses :: int
  es_municipalities :: nat

definition offers_in :: "string \<Rightarrow> db \<Rightarrow> edu_db \<Rightarrow> edu_institution \<Rightarrow> edu_offer list" where
  "offers_in prefix d ed i =
     [o1. o1 \<leftarrow> ed_offers ed, m \<leftarrow> territories d, t_id m = eo_territory_id o1 \<and> eo_year o1 = ei_year i \<and> eo_code o1 = ei_code i \<and>
        is_prefix prefix (t_ibge_code m)]"

definition summary_of_institution :: "string \<Rightarrow> db \<Rightarrow> edu_db \<Rightarrow> edu_institution \<Rightarrow> edu_summary" where
  "summary_of_institution prefix d ed i =
     (let os = offers_in prefix d ed i in
      \<lparr>es_code = ei_code i, es_name = ei_name i, es_acronym = ei_acronym i, es_category = ei_category i,
       es_organization = ei_organization i, es_seat = seat_of d i, es_enrollment = sum_list (List.map eo_enrollment os),
       es_courses = sum_list (List.map eo_courses os), es_municipalities = length os\<rparr>)"

definition fetch_institutions_in ::
    "(string \<Rightarrow> string) \<Rightarrow> int \<Rightarrow> string \<Rightarrow> network \<Rightarrow> organization list option \<Rightarrow> db \<Rightarrow> edu_db \<Rightarrow> edu_summary list" where
  "fetch_institutions_in collate year prefix category organizations d ed =
     sort_key (\<lambda>r. - es_enrollment r) (sort_key (\<lambda>r. collate (es_name r))
       (List.map (summary_of_institution prefix d ed)
         (filter (\<lambda>i. ei_year i = year \<and> ei_category i = category \<and>
             (case organizations of None \<Rightarrow> True | Some os \<Rightarrow> ei_organization i \<in> set os) \<and> offers_in prefix d ed i \<noteq> [])
           (ed_institutions ed))))"

definition all_organizations :: "organization list" where
  "all_organizations = [University, FederalInstitute, Cefet, UniversityCenter, College]"

definition organizations_of :: "edu_kind option \<Rightarrow> organization list option" where
  "organizations_of kind = map_option (\<lambda>k. filter (\<lambda>x. kind_of x = k) all_organizations) kind"

section \<open>The service\<close>

record edu_territory =
  et_code :: string
  et_name :: string
  et_year :: "int option"
  et_years :: "int list"
  et_network :: network
  et_kind :: "edu_kind option"
  et_enrollment :: "int option"
  et_courses :: "int option"
  et_institutions :: "edu_summary list"

record edu_campus = edu_place +
  cp_enrollment :: int
  cp_courses :: int
  cp_entrants :: int
  cp_graduates :: int

record edu_detail =
  dt_code :: int
  dt_year :: int
  dt_name :: string
  dt_acronym :: "string option"
  dt_category :: network
  dt_organization :: organization
  dt_seat :: "edu_place option"
  dt_faculty :: "int option"
  dt_staff :: "int option"
  dt_enrollment :: int
  dt_distance :: int
  dt_courses :: int
  dt_campuses :: "edu_campus list"

text \<open>The requested year, or the last one, with the years there are.\<close>

definition resolve_year :: "edu_db \<Rightarrow> string \<Rightarrow> domain_error + int option \<times> int list" where
  "resolve_year ed year =
     (let years = education_years ed in
      and_then (parse_year year) (\<lambda>requested.
        case requested of
          None \<Rightarrow> Inr (last_year years, years)
        | Some y \<Rightarrow> if y \<notin> set years then Inl (invalid_parameter (Some ''year'') [(''available'', DInts years)]) else Inr (Some y, years)))"

definition build_territory ::
    "(string \<Rightarrow> string) \<Rightarrow> string \<Rightarrow> string \<Rightarrow> network \<Rightarrow> edu_kind option \<Rightarrow> db \<Rightarrow> edu_db \<Rightarrow> domain_error + edu_territory" where
  "build_territory collate code year network kind d ed =
     (case select_first (\<lambda>t. t_ibge_code t = code) (territories d) of
        None \<Rightarrow> Inl (territory_not_found code)
      | Some t \<Rightarrow>
          and_then (resolve_year ed year) (\<lambda>(resolved, years).
            let rows = (case resolved of None \<Rightarrow> []
                  | Some y \<Rightarrow> fetch_institutions_in collate y (if code = ''BR'' then [] else code) network (organizations_of kind) d ed) in
            Inr \<lparr>et_code = t_ibge_code t, et_name = t_name t, et_year = resolved, et_years = years, et_network = network,
              et_kind = kind, et_enrollment = (if rows = [] then None else Some (sum_list (List.map es_enrollment rows))),
              et_courses = (if rows = [] then None else Some (sum_list (List.map es_courses rows))), et_institutions = rows\<rparr>))"

definition campus_of :: "db \<Rightarrow> edu_offer \<times> territory \<Rightarrow> edu_campus" where
  "campus_of d om =
     (case om of (o1, m) \<Rightarrow>
        \<lparr>ep_code = t_ibge_code m, ep_name = t_name m,
         ep_state = (case territory_by_id (t_parent_id m) d of None \<Rightarrow> None | Some p \<Rightarrow> t_abbreviation p),
         cp_enrollment = eo_enrollment o1, cp_courses = eo_courses o1, cp_entrants = eo_entrants o1, cp_graduates = eo_graduates o1\<rparr>)"

definition fetch_campuses :: "(string \<Rightarrow> string) \<Rightarrow> int \<Rightarrow> int \<Rightarrow> db \<Rightarrow> edu_db \<Rightarrow> edu_campus list" where
  "fetch_campuses collate code year d ed =
     sort_key (\<lambda>c. - cp_enrollment c) (sort_key (\<lambda>c. collate (ep_name c))
       (List.map (campus_of d) [(o1, m). o1 \<leftarrow> ed_offers ed, m \<leftarrow> territories d,
          t_id m = eo_territory_id o1 \<and> eo_code o1 = code \<and> eo_year o1 = year]))"

definition build_institution :: "(string \<Rightarrow> string) \<Rightarrow> int \<Rightarrow> string \<Rightarrow> db \<Rightarrow> edu_db \<Rightarrow> domain_error + edu_detail" where
  "build_institution collate code year d ed =
     and_then (resolve_year ed year) (\<lambda>(resolved, _).
       case (case resolved of None \<Rightarrow> None | Some y \<Rightarrow> select_first (\<lambda>i. ei_code i = code \<and> ei_year i = y) (ed_institutions ed)) of
         None \<Rightarrow> Inl (mk_error NotFoundError [(''institution'', DInt code)])
       | Some i \<Rightarrow>
           (let campuses = fetch_campuses collate code (ei_year i) d ed in
            Inr \<lparr>dt_code = ei_code i, dt_year = ei_year i, dt_name = ei_name i, dt_acronym = ei_acronym i,
              dt_category = ei_category i, dt_organization = ei_organization i, dt_seat = seat_of d i, dt_faculty = ei_faculty i,
              dt_staff = ei_staff i, dt_enrollment = sum_list (List.map cp_enrollment campuses), dt_distance = ei_distance i,
              dt_courses = sum_list (List.map cp_courses campuses), dt_campuses = campuses\<rparr>))"

datatype education_key = TerritoryKey int string string network "edu_kind option" | InstitutionKey int int string
datatype education_answer = TerritoryAnswer edu_territory | InstitutionAnswer edu_detail

type_synonym education_cache = "(education_key, education_answer) ttl_cache"

definition new_education_cache :: education_cache where "new_education_cache = new_cache 300 64"

definition lift_domain :: "domain_error + 'a \<Rightarrow> raised + 'a" where
  "lift_domain r = (case r of Inl e \<Rightarrow> Inl (RaisedDomain e) | Inr x \<Rightarrow> Inr x)"

definition get_education_territory ::
    "(string \<Rightarrow> string) \<Rightarrow> clock \<Rightarrow> clock \<Rightarrow> string \<Rightarrow> string \<Rightarrow> network \<Rightarrow> edu_kind option \<Rightarrow> db \<Rightarrow> edu_db \<Rightarrow> education_cache
     \<Rightarrow> (raised + education_answer) \<times> education_cache" where
  "get_education_territory collate now later code year network kind d ed c =
     read_through now later (TerritoryKey (education_version d) code year network kind)
       (\<lambda>_. lift_domain (and_then (build_territory collate code year network kind d ed) (\<lambda>r. Inr (TerritoryAnswer r)))) c"

definition get_education_institution ::
    "(string \<Rightarrow> string) \<Rightarrow> clock \<Rightarrow> clock \<Rightarrow> int \<Rightarrow> string \<Rightarrow> db \<Rightarrow> edu_db \<Rightarrow> education_cache
     \<Rightarrow> (raised + education_answer) \<times> education_cache" where
  "get_education_institution collate now later code year d ed c =
     read_through now later (InstitutionKey (education_version d) code year)
       (\<lambda>_. lift_domain (and_then (build_institution collate code year d ed) (\<lambda>r. Inr (InstitutionAnswer r)))) c"

end
