(* ===== verification/Environment.thy ===== *)
theory Environment
  imports Education Weather_Stations "HOL-Library.Product_Lexorder"
begin

text \<open>
  The environment: the yearly deforestation of PRODES (\<open>app/providers/prodes.py\<close>), the forest cover of MapBiomas
  (\<open>app/providers/mapbiomas.py\<close>) and the import of both as indicators (\<open>app/jobs/import_environment.py\<close>). Decimals are
  exact and finite. The archive and the XML of the spreadsheet are the standard library's: a sheet is its rows of
  cells.
\<close>

section \<open>PRODES\<close>

definition PRODES_BIOMES :: "string list" where
  "PRODES_BIOMES = [''amazon'', ''cerrado'', ''caatinga'', ''mata_atlantica'', ''pampa'', ''pantanal'']"

record biome_increments =
  bi_biome :: string
  bi_municipalities :: "string list"
  bi_annual :: "(int \<times> (string \<times> rat) list) list"

record deforestation_record =
  de_code :: string
  de_year :: int
  de_value :: rat

text \<open>
  The errors of the standard library that the reader turns into a \<open>ProviderError\<close>, and the others, such as a text that
  is not a decimal or a value without \<open>get\<close>.
\<close>

datatype format_failure = CaughtFormat | UncaughtFormat

definition caught_format :: "py_error + 'a \<Rightarrow> format_failure + 'a" where
  "caught_format r =
     (case r of
        Inr x \<Rightarrow> Inr x
      | Inl e \<Rightarrow> Inl (if e = KeyError \<or> e = TypeError \<or> e = ValueError then CaughtFormat else UncaughtFormat))"

definition decimal_of :: "(json \<Rightarrow> string) \<Rightarrow> json \<Rightarrow> format_failure + rat" where
  "decimal_of repr v = from_option UncaughtFormat (parse_decimal (py_str repr v))"

text \<open>\<open>next(item for item in names["lois"] if item["name"] == "mun")\<close>\<close>

fun municipal_loi :: "json list \<Rightarrow> format_failure + json" where
  "municipal_loi [] = Inl CaughtFormat"
| "municipal_loi (item # rest) =
     and_then (caught_format (sub_key item ''name'')) (\<lambda>name.
       if name = JString ''mun'' then Inr item else municipal_loi rest)"

definition add_code :: "(json \<Rightarrow> string) \<Rightarrow> (int \<times> string) list \<Rightarrow> json \<Rightarrow> format_failure + (int \<times> string) list" where
  "add_code repr codes item =
     and_then (caught_format (get_key item ''codibge'' JNull)) (\<lambda>code.
       if \<not> truthy code then Inr codes
       else and_then (caught_format (and_then (sub_key item ''gid'') to_int)) (\<lambda>gid.
         and_then (caught_format (sub_key item ''codibge'')) (\<lambda>value1. Inr (AList.update gid (py_str repr value1) codes))))"

definition feature_area :: "(json \<Rightarrow> string) \<Rightarrow> json \<Rightarrow> format_failure + rat" where
  "feature_area repr feature =
     and_then (caught_format (and_then (sub_key feature ''areas'') iter_values)) (\<lambda>items.
     and_then (map_each (\<lambda>item. and_then (caught_format (sub_key item ''area'')) (decimal_of repr)) items) (\<lambda>xs.
       Inr (sum_list xs)))"

definition add_area ::
    "(json \<Rightarrow> string) \<Rightarrow> (int \<times> string) list \<Rightarrow> int \<Rightarrow> (string \<times> rat) list \<Rightarrow> json \<Rightarrow> format_failure + (string \<times> rat) list" where
  "add_area repr codes loi areas feature =
     and_then (caught_format (and_then (sub_key feature ''loi'') to_int)) (\<lambda>l.
       if l \<noteq> loi then Inr areas
       else and_then (caught_format (and_then (sub_key feature ''loiname'') to_int)) (\<lambda>name.
         case map_of codes name of
           None \<Rightarrow> Inr areas
         | Some code \<Rightarrow>
             and_then (feature_area repr feature) (\<lambda>area. Inr (AList.update code (get_or 0 areas code + area) areas))))"

definition year_of :: "json \<Rightarrow> string \<Rightarrow> format_failure + int" where
  "year_of period key =
     caught_format (and_then (sub_key period key) (\<lambda>v. and_then (sub_key v ''year'') to_int))"

text \<open>The order of the two reads does not matter to the result: both fail alike.\<close>

definition add_period ::
    "(json \<Rightarrow> string) \<Rightarrow> (int \<times> string) list \<Rightarrow> int \<Rightarrow> (int \<times> (string \<times> rat) list) list \<Rightarrow> json
     \<Rightarrow> format_failure + (int \<times> (string \<times> rat) list) list" where
  "add_period repr codes loi annual period =
     and_then (year_of period ''startDate'') (\<lambda>first. and_then (year_of period ''endDate'') (\<lambda>last_year.
       if last_year - first \<noteq> 1 then Inr annual
       else and_then (caught_format (and_then (sub_key period ''features'') iter_values)) (\<lambda>features.
         and_then (fold_each (add_area repr codes loi) (get_or [] annual last_year) features) (\<lambda>areas.
           Inr (AList.update last_year areas annual)))))"

definition read_biome_file ::
    "(json \<Rightarrow> string) \<Rightarrow> json \<Rightarrow> json \<Rightarrow> format_failure + (int \<times> string) list \<times> (int \<times> (string \<times> rat) list) list" where
  "read_biome_file repr data names =
     and_then (caught_format (and_then (sub_key names ''lois'') iter_values)) (\<lambda>lois.
     and_then (municipal_loi lois) (\<lambda>mun.
     and_then (caught_format (and_then (sub_key mun ''loinames'') iter_values)) (\<lambda>items.
     and_then (fold_each (add_code repr) [] items) (\<lambda>codes.
     and_then (caught_format (and_then (sub_key mun ''gid'') to_int)) (\<lambda>loi.
     and_then (caught_format (and_then (sub_key data ''periods'') iter_values)) (\<lambda>periods.
     and_then (fold_each (add_period repr codes loi) [] periods) (\<lambda>annual. Inr (codes, annual))))))))"

definition valid_code :: "string \<Rightarrow> bool" where
  "valid_code code \<longleftrightarrow> length code = 7 \<and> py_isdigit code"

definition parse_biome :: "(json \<Rightarrow> string) \<Rightarrow> string \<Rightarrow> json \<Rightarrow> json \<Rightarrow> raised + biome_increments" where
  "parse_biome repr biome data names =
     (case read_biome_file repr data names of
        Inl CaughtFormat \<Rightarrow> Inl provider_unavailable
      | Inl UncaughtFormat \<Rightarrow> Inl RaisedOther
      | Inr (codes, annual) \<Rightarrow>
          if codes = [] \<or> annual = [] \<or> \<not> list_all (\<lambda>(_, code). valid_code code) codes then Inl provider_unavailable
          else Inr \<lparr>bi_biome = biome, bi_municipalities = remdups (List.map snd codes), bi_annual = annual\<rparr>)"

text \<open>\<open>combine\<close>: the years of all biomes; a municipality of a biome without an area in a year has none lost there.\<close>

definition common_years :: "biome_increments list \<Rightarrow> int list" where
  "common_years items =
     (case items of
        [] \<Rightarrow> []
      | item # _ \<Rightarrow> filter (\<lambda>y. list_all (\<lambda>b. y \<in> fst ` set (bi_annual b)) items) (remdups (List.map fst (bi_annual item))))"

definition biome_area :: "biome_increments \<Rightarrow> int \<Rightarrow> string \<Rightarrow> rat" where
  "biome_area item year code = get_or 0 (get_or [] (bi_annual item) year) code"

definition add_biome ::
    "int list \<Rightarrow> biome_increments \<Rightarrow> ((string \<times> int) \<times> rat) list \<Rightarrow> ((string \<times> int) \<times> rat) list" where
  "add_biome years item totals =
     fold (\<lambda>(code, year) t. AList.update (code, year) (get_or 0 t (code, year) + biome_area item year code) t)
       [(code, year). year \<leftarrow> years, code \<leftarrow> bi_municipalities item] totals"

definition combine :: "biome_increments list \<Rightarrow> deforestation_record list" where
  "combine items =
     List.map (\<lambda>((code, year), v). \<lparr>de_code = code, de_year = year, de_value = v\<rparr>)
       (sort_key fst (fold (add_biome (common_years items)) items []))"

definition DASHBOARD_FILES :: string where
  "DASHBOARD_FILES = ''https://terrabrasilis.dpi.inpe.br/app/prodes/dashboard/deforestation/files''"

text \<open>\<open>net path\<close> is what the requests of a path meet.\<close>

definition fetch_prodes_biome ::
    "(json \<Rightarrow> string) \<Rightarrow> (string \<Rightarrow> nat \<Rightarrow> http_outcome) \<Rightarrow> string \<Rightarrow> raised + biome_increments" where
  "fetch_prodes_biome repr net biome =
     (let data = DASHBOARD_FILES @ ''/data/prodes_'' @ biome @ ''.json'';
          names = DASHBOARD_FILES @ ''/config/loinames/prodes_'' @ biome @ ''.json'' in
      and_then (fst (get_json data (net data))) (\<lambda>d. and_then (fst (get_json names (net names))) (\<lambda>n. parse_biome repr biome d n)))"

definition fetch_last_update :: "(json \<Rightarrow> string) \<Rightarrow> (string \<Rightarrow> nat \<Rightarrow> http_outcome) \<Rightarrow> raised + int option" where
  "fetch_last_update repr net =
     (let path = DASHBOARD_FILES @ ''/last_update_date.json'' in
      and_then (fst (get_json path (net path))) (\<lambda>payload.
        case sub_key payload ''last_date'' of Inl _ \<Rightarrow> Inr None | Inr v \<Rightarrow> Inr (date_fromisoformat (py_str repr v))))"

section \<open>MapBiomas\<close>

record forest_area =
  fa_code :: string
  fa_year :: int
  fa_forest :: rat
  fa_total :: rat

definition FIRST_ANNUAL_YEAR :: int where "FIRST_ANNUAL_YEAR = 2021"

definition selected_year :: "int \<Rightarrow> bool" where
  "selected_year year \<longleftrightarrow> FIRST_ANNUAL_YEAR \<le> year \<or> year mod 5 = 0"

text \<open>\<open>str.isalpha\<close> of a Latin-1 character.\<close>

definition is_alpha :: "char \<Rightarrow> bool" where
  "is_alpha c \<longleftrightarrow>
     (let n = (of_char c :: nat) in
      (65 \<le> n \<and> n \<le> 90) \<or> (97 \<le> n \<and> n \<le> 122) \<or> n = 170 \<or> n = 181 \<or> n = 186 \<or> (192 \<le> n \<and> n \<noteq> 215 \<and> n \<noteq> 247))"

definition column_of :: "string \<Rightarrow> int" where
  "column_of reference = foldl (\<lambda>index c. index * 26 + (int (of_char c) - 64)) 0 (takeWhile is_alpha reference) - 1"

text \<open>A cell: its reference and its type, its value, and the texts of its inline string.\<close>

record sheet_cell =
  sc_reference :: "string option"
  sc_type :: "string option"
  sc_value :: "string option"
  sc_inline :: "string option list option"

definition joined :: "string option list \<Rightarrow> string" where
  "joined texts = concat (List.map (\<lambda>t. case t of None \<Rightarrow> [] | Some s \<Rightarrow> s) texts)"

type_synonym sheet_row = "(int \<times> string) list"

definition shared_string :: "string list \<Rightarrow> string \<Rightarrow> format_failure + string" where
  "shared_string strings v =
     (case parse_int v of
        None \<Rightarrow> Inl CaughtFormat
      | Some i \<Rightarrow>
          if 0 \<le> i \<and> i < int (length strings) then Inr (strings ! nat i)
          else if i < 0 \<and> - int (length strings) \<le> i then Inr (strings ! nat (int (length strings) + i))
          else Inl UncaughtFormat)"

definition add_cell :: "string list \<Rightarrow> sheet_row \<Rightarrow> sheet_cell \<Rightarrow> format_failure + sheet_row" where
  "add_cell strings row c =
     (let index = column_of (case sc_reference c of None \<Rightarrow> ''A'' | Some r \<Rightarrow> r) in
      case sc_value c of
        None \<Rightarrow> Inr (case sc_inline c of None \<Rightarrow> row | Some texts \<Rightarrow> AList.update index (joined texts) row)
      | Some v \<Rightarrow>
          if sc_type c = Some ''s'' then and_then (shared_string strings v) (\<lambda>s. Inr (AList.update index s row))
          else Inr (AList.update index v row))"

definition sheet_row :: "string list \<Rightarrow> sheet_cell list \<Rightarrow> format_failure + sheet_row" where
  "sheet_row strings cells = fold_each (add_cell strings) [] cells"

definition year_column :: "string \<Rightarrow> int option" where
  "year_column name =
     (case name of
        c # digits \<Rightarrow>
          if c = CHR ''y'' \<and> length digits = 4 \<and> all_digits digits \<and> selected_year (digits_to_int digits)
          then Some (digits_to_int digits) else None
      | [] \<Rightarrow> None)"

record coverage_columns =
  cc_geocode :: int
  cc_level :: int
  cc_years :: "(int \<times> int) list"

definition read_header :: "sheet_row \<Rightarrow> format_failure + coverage_columns" where
  "read_header header =
     (let columns = fold (\<lambda>(index, name) m. AList.update name index m) header [] in
      and_then (from_option CaughtFormat (map_of columns ''geocode'')) (\<lambda>geocode.
      and_then (from_option CaughtFormat (map_of columns ''class_level_1'')) (\<lambda>level.
        Inr \<lparr>cc_geocode = geocode, cc_level = level,
          cc_years = List.map_filter (\<lambda>(name, index). map_option (\<lambda>y. (index, y)) (year_column name)) columns\<rparr>)))"

type_synonym forest_sums = "((string \<times> int) \<times> rat) list \<times> ((string \<times> int) \<times> rat) list"

text \<open>The two sums, of the forest and of everything, with the area of a column of a row.\<close>

definition add_year :: "sheet_row \<Rightarrow> string \<Rightarrow> bool \<Rightarrow> forest_sums \<Rightarrow> int \<times> int \<Rightarrow> format_failure + forest_sums" where
  "add_year row code is_forest sums1 = (\<lambda>(index, year).
     case sums1 of (forest, whole) \<Rightarrow>
       (case map_of row index of
          None \<Rightarrow> Inr (forest, whole)
        | Some [] \<Rightarrow> Inr (forest, whole)
        | Some raw \<Rightarrow>
            and_then (from_option UncaughtFormat (parse_decimal raw)) (\<lambda>area.
              Inr (if is_forest then AList.update (code, year) (get_or 0 forest (code, year) + area) forest else forest,
                   AList.update (code, year) (get_or 0 whole (code, year) + area) whole))))"

definition row_text :: "sheet_row \<Rightarrow> int \<Rightarrow> string" where
  "row_text row index = py_strip (get_or [] row index)"

definition add_sheet_row :: "string list \<Rightarrow> coverage_columns \<Rightarrow> forest_sums \<Rightarrow> sheet_cell list \<Rightarrow> format_failure + forest_sums" where
  "add_sheet_row strings cc sums1 cells =
     and_then (sheet_row strings cells) (\<lambda>row.
       let code = row_text row (cc_geocode cc) in
       if \<not> valid_code code then Inr sums1
       else fold_each (add_year row code (row_text row (cc_level cc) = ''1. Forest'')) sums1 (cc_years cc))"

text \<open>
  A spreadsheet, as the archive and the XML give it: the shared strings and the rows of the sheet, or the failure to
  open it. An empty sheet is a \<open>ProviderError\<close>.
\<close>

record spreadsheet =
  xs_strings :: "string option list list"
  xs_rows :: "sheet_cell list list"

definition read_sheet :: "spreadsheet \<Rightarrow> format_failure + forest_sums" where
  "read_sheet x =
     (let strings = List.map joined (xs_strings x) in
      case xs_rows x of
        [] \<Rightarrow> Inl CaughtFormat
      | header # rows \<Rightarrow>
          and_then (and_then (sheet_row strings header) read_header) (\<lambda>cc. fold_each (add_sheet_row strings cc) ([], []) rows))"

definition read_forest_areas :: "raised + spreadsheet \<Rightarrow> raised + forest_area list" where
  "read_forest_areas opened =
     and_then opened (\<lambda>x.
       case read_sheet x of
         Inl CaughtFormat \<Rightarrow> Inl provider_unavailable
       | Inl UncaughtFormat \<Rightarrow> Inl RaisedOther
       | Inr (forest, whole) \<Rightarrow>
           if whole = [] then Inl provider_unavailable
           else Inr (List.map_filter (\<lambda>((code, year), area).
               if 0 < area then Some \<lparr>fa_code = code, fa_year = year, fa_forest = get_or 0 forest (code, year), fa_total = area\<rparr> else None)
             (sort_key fst whole)))"

section \<open>The totals\<close>

definition add_deforestation :: "deforestation_record \<Rightarrow> ((string \<times> int) \<times> rat) list \<Rightarrow> ((string \<times> int) \<times> rat) list" where
  "add_deforestation r totals =
     fold (\<lambda>code t. AList.update (code, de_year r) (get_or 0 t (code, de_year r) + de_value r) t) (scopes_of (de_code r)) totals"

definition deforestation_totals :: "deforestation_record list \<Rightarrow> ((string \<times> int) \<times> rat) list" where
  "deforestation_totals records = fold add_deforestation records []"

definition add_forest ::
    "forest_area \<Rightarrow> ((string \<times> int) \<times> rat \<times> rat) list \<Rightarrow> ((string \<times> int) \<times> rat \<times> rat) list" where
  "add_forest a sums1 =
     fold (\<lambda>code t. case get_or (0, 0) t (code, fa_year a) of (forest, whole) \<Rightarrow>
         AList.update (code, fa_year a) (forest + fa_forest a, whole + fa_total a) t) (scopes_of (fa_code a)) sums1"

text \<open>The share in per cent, with four decimals, halves to even.\<close>

definition forest_cover :: "forest_area list \<Rightarrow> ((string \<times> int) \<times> rat) list" where
  "forest_cover areas =
     List.map_filter (\<lambda>(key, forest, whole). if 0 < whole then Some (key, round_places 4 (forest * 100 / whole)) else None)
       (fold add_forest areas [])"

definition environment_observations :: "((string \<times> int) \<times> rat) list \<Rightarrow> observation list" where
  "environment_observations values1 =
     List.map (\<lambda>((code, year), v). \<lparr>ob_code = code, ob_year = year, ob_value = v\<rparr>) (sort_key fst values1)"

section \<open>The job\<close>

record environment_env =
  ev_repr :: "json \<Rightarrow> string"
  ev_net :: "string \<Rightarrow> nat \<Rightarrow> http_outcome"
  ev_sheet :: "raised + spreadsheet"
  ev_name_of :: "string \<Rightarrow> string"
  ev_description_of :: "string \<Rightarrow> string"
  ev_new_id :: "nat \<Rightarrow> int"
  ev_prodes_dataset :: "int option \<Rightarrow> dataset"
  ev_mapbiomas_dataset :: dataset
  ev_show_years :: "int list \<Rightarrow> string"

text \<open>\<open>{key: id for key, id in rows}\<close>: the last of a key.\<close>

definition indicator_ids :: "socio_db \<Rightarrow> string \<Rightarrow> int option" where
  "indicator_ids so key = map_of (rev (List.map (\<lambda>i. (in_key i, in_id i)) (so_indicators so))) key"

text \<open>The observations under the key of an indicator, and the report with what was read and written.\<close>

definition store_series ::
    "string \<Rightarrow> dataset \<Rightarrow> observation list \<Rightarrow> nat \<Rightarrow> string \<times> string \<Rightarrow> int \<Rightarrow> run_report \<times> db \<times> socio_db
     \<Rightarrow> raised + run_report \<times> db \<times> socio_db" where
  "store_series key ds obs records detail run = (\<lambda>(rep, d, so).
     case upsert_dataset ds d of (dataset, d1) \<Rightarrow>
       and_then (from_option RaisedOther (indicator_ids so key)) (\<lambda>indicator.
       and_then (persist obs indicator dataset run d1 so) (\<lambda>(written, so1).
         Inr (rep\<lparr>rp_processed := rp_processed rep + int records, rp_written := rp_written rep + int written,
                rp_details := AList.update (fst detail) (snd detail) (rp_details rep)\<rparr>, d1, so1))))"

definition import_prodes ::
    "environment_env \<Rightarrow> int \<Rightarrow> run_report \<times> db \<times> socio_db \<Rightarrow> raised + run_report \<times> db \<times> socio_db" where
  "import_prodes n run st =
     and_then (map_each (fetch_prodes_biome (ev_repr n) (ev_net n)) PRODES_BIOMES) (\<lambda>biomes.
     and_then (fetch_last_update (ev_repr n) (ev_net n)) (\<lambda>updated.
       let records = combine biomes in
       store_series ''deforestation_prodes'' (ev_prodes_dataset n updated)
         (environment_observations (deforestation_totals records)) (length records)
         (''prodes'', ev_show_years n (sort (remdups (List.map de_year records)))) run st))"

definition import_mapbiomas ::
    "environment_env \<Rightarrow> int \<Rightarrow> run_report \<times> db \<times> socio_db \<Rightarrow> raised + run_report \<times> db \<times> socio_db" where
  "import_mapbiomas n run st =
     and_then (read_forest_areas (ev_sheet n)) (\<lambda>areas.
       store_series ''forest_cover'' (ev_mapbiomas_dataset n) (environment_observations (forest_cover areas)) (length areas)
         (''mapbiomas'', ev_show_years n (sort (remdups (List.map fa_year areas)))) run st)"

text \<open>
  The body of the job for the sources asked. The catalogue commits on its own; the rest is one transaction, so that a
  failure leaves the series as they were.
\<close>

definition import_environment ::
    "environment_env \<Rightarrow> bool \<Rightarrow> bool \<Rightarrow> int \<Rightarrow> db \<Rightarrow> socio_db \<Rightarrow> (raised + int) \<times> run_report \<times> db \<times> socio_db" where
  "import_environment n prodes mapbiomas run d so =
     (let so1 = snd (seed_catalog (ev_name_of n) (ev_description_of n) (ev_new_id n) ENVIRONMENT_CATALOG so) in
      case and_then (if prodes then import_prodes n run (new_report, d, so1) else Inr (new_report, d, so1))
          (\<lambda>st. if mapbiomas then import_mapbiomas n run st else Inr st) of
        Inl e \<Rightarrow> (Inl e, new_report, d, so1)
      | Inr (rep, d1, so2) \<Rightarrow> (Inr 0, rep, d1, so2))"

end
