(* ===== verification/Education_Laws.thy ===== *)
theory Education_Laws
  imports Education Indicator_Laws
begin

text \<open>
  The map of higher education (the totals stored as indicator values) and the list of institutions of a territory
  come from the same census by two ways, the sums of the import and the query of the service. This theory shows
  that they agree.
\<close>

section \<open>The census is well formed\<close>

definition census_wf :: "census \<Rightarrow> bool" where
  "census_wf ce \<longleftrightarrow>
     distinct (List.map fst (ce_institutions ce)) \<and> (\<forall>(n, i) \<in> set (ce_institutions ce). hi_code i = n) \<and>
     distinct (List.map fst (ce_offers ce)) \<and> (\<forall>((n, _), _) \<in> set (ce_offers ce). map_of (ce_institutions ce) n \<noteq> None)"

lemma set_update_distinct:
  "distinct (List.map fst m) \<Longrightarrow> set (AList.update k v m) = insert (k, v) {p \<in> set m. fst p \<noteq> k}"
  by (induction m) (auto simp: image_iff)

lemma fold_each_invariant:
  assumes "fold_each f s xs = Inr t" and "P s" and "\<And>s x s'. P s \<Longrightarrow> f s x = Inr s' \<Longrightarrow> P s'"
  shows "P t"
  using assms(1,2) by (induction xs arbitrary: s) (auto simp: and_then_Inr intro: assms(3))

lemma fold_file_invariant:
  assumes "fold_file suffix columns step s archive = Inr t" and "P s" and "\<And>s row s'. P s \<Longrightarrow> step s row = Inr s' \<Longrightarrow> P s'"
  shows "P t"
proof -
  have run: "P s'" if "fold_each (\<lambda>s row. and_then (pick_columns ix row) (step s)) s rows = Inr s'" for ix rows s'
    by (rule fold_each_invariant [where P = P, OF that assms(2)]) (auto simp: and_then_Inr intro: assms(3))
  show ?thesis using assms(1,2) run
    by (auto simp: fold_file_def Let_def and_then_Inr split: list.splits prod.splits if_splits)
qed

lemma add_institution_wf:
  assumes "census_wf ce \<and> ce_offers ce = []" and "add_institution ce row = Inr ce'"
  shows "census_wf ce' \<and> ce_offers ce' = []"
  using assms by (auto simp: add_institution_def census_wf_def and_then_Inr distinct_update set_update_distinct
      split: list.splits option.splits)

lemma add_course_wf:
  assumes "census_wf ce" and "add_course ce row = Inr ce'"
  shows "census_wf ce'"
  using assms by (auto simp: add_course_def census_wf_def and_then_Inr distinct_update set_update_distinct Let_def
      split: list.splits if_splits)

lemma add_row_year:
  "add_institution ce row = Inr ce' \<Longrightarrow> ce_year ce' = ce_year ce"
  "add_course ce row = Inr ce' \<Longrightarrow> ce_year ce' = ce_year ce"
  by (auto simp: add_institution_def add_course_def and_then_Inr Let_def split: list.splits option.splits if_splits)

lemma read_census_wf:
  assumes "read_census archive year = Inr ce"
  shows "census_wf ce \<and> ce_year ce = year"
proof -
  obtain members ce1 where m: "fold_file (''_IES_'' @ int_to_string year @ ''.CSV'') INSTITUTION_COLUMNS add_institution (new_census year) members = Inr ce1"
    and c: "fold_file (''_CURSOS_'' @ int_to_string year @ ''.CSV'') COURSE_COLUMNS add_course ce1 members = Inr ce"
    using assms by (auto simp: read_census_def fill_census_def and_then_Inr split: option.splits sum.splits census_failure.splits if_splits)
  have "(census_wf ce1 \<and> ce_offers ce1 = []) \<and> ce_year ce1 = year"
    by (rule fold_file_invariant [where P = "\<lambda>ce. (census_wf ce \<and> ce_offers ce = []) \<and> ce_year ce = year", OF m])
      (simp add: new_census_def census_wf_def, metis add_institution_wf add_row_year(1))
  then show ?thesis
    by (intro fold_file_invariant [where P = "\<lambda>ce. census_wf ce \<and> ce_year ce = year", OF c])
      (blast, metis add_course_wf add_row_year(2))
qed

section \<open>Totals\<close>

text \<open>The entries of a census that count for a network and a kind of institution, and a place.\<close>

definition counts_for :: "census \<Rightarrow> network \<Rightarrow> edu_kind option \<Rightarrow> (int \<times> string) \<times> offer \<Rightarrow> bool" where
  "counts_for ce network kind e \<longleftrightarrow>
     (case map_of (ce_institutions ce) (fst (fst e)) of
        None \<Rightarrow> False
      | Some i \<Rightarrow> hi_category i = network \<and> (kind = None \<or> kind = Some (kind_of (hi_organization i))))"

definition total_of :: "('x \<Rightarrow> bool) \<Rightarrow> ('x \<Rightarrow> int) \<Rightarrow> 'x list \<Rightarrow> int option" where
  "total_of P f xs = (let ys = filter P xs in if ys = [] then None else Some (sum_list (List.map f ys)))"

lemma total_of_Nil [simp]: "total_of P f [] = None"
  by (simp add: total_of_def)

lemma total_of_snoc:
  "total_of P f (xs @ [x]) = (if P x then Some ((case total_of P f xs of None \<Rightarrow> 0 | Some v \<Rightarrow> v) + f x) else total_of P f xs)"
  by (auto simp: total_of_def Let_def)

lemma enrollment_key_inj: "enrollment_key n k = enrollment_key n' k' \<longleftrightarrow> n = n' \<and> k = k'"
  by (cases n; cases n'; cases k; cases k'; (cases "the k")?; (cases "the k'")?; auto simp: enrollment_key_def)

lemma map_of_add_total: "map_of (add_total n scope m) s = (if s = scope then Some (get_or 0 m s + n) else map_of m s)"
  by (simp add: add_total_def update_conv')

lemma map_of_add_totals:
  "distinct scopes \<Longrightarrow> map_of (fold (add_total n) scopes m) s = (if s \<in> set scopes then Some (get_or 0 m s + n) else map_of m s)"
proof (induction scopes arbitrary: m)
  case (Cons c scopes)
  then show ?case by (auto simp: map_of_add_total get_or_def)
qed simp

lemma distinct_add_totals: "distinct (List.map fst m) \<Longrightarrow> distinct (List.map fst (fold (add_total n) scopes m))"
  by (induction scopes arbitrary: m) (auto simp: add_total_def intro: distinct_update)

definition lookup_total :: "totals \<Rightarrow> string \<Rightarrow> string \<Rightarrow> int option" where
  "lookup_total t key s = (case map_of t key of None \<Rightarrow> None | Some m \<Rightarrow> map_of m s)"

definition totals_wf :: "totals \<Rightarrow> bool" where
  "totals_wf t \<longleftrightarrow> List.map fst t = List.map sd_key EDUCATION_CATALOG \<and> (\<forall>(_, m) \<in> set t. distinct (List.map fst m))"

lemma map_fst_update: "map_of m k \<noteq> None \<Longrightarrow> List.map fst (AList.update k v m) = List.map fst m"
  by (induction m) (auto split: if_splits)

lemma set_update_subset: "set (AList.update k v m) \<subseteq> insert (k, v) (set m)"
  by (induction m) auto

lemma add_enrollment_effect:
  assumes "add_enrollment scopes n key t = Inr t'" and "distinct scopes" and "totals_wf t"
  shows "totals_wf t' \<and> lookup_total t' k s =
    (if k = key \<and> s \<in> set scopes then Some ((case lookup_total t k s of None \<Rightarrow> 0 | Some v \<Rightarrow> v) + n) else lookup_total t k s)"
proof -
  obtain m where m: "map_of t key = Some m" and t': "t' = AList.update key (fold (add_total n) scopes m) t"
    using assms(1) by (auto simp: add_enrollment_def split: option.splits)
  have "distinct (List.map fst m)" using assms(3) map_of_SomeD [OF m] by (auto simp: totals_wf_def)
  then have "totals_wf t'" using assms(3) set_update_subset [of key "fold (add_total n) scopes m" t]
    by (fastforce simp: totals_wf_def t' map_fst_update m intro: distinct_add_totals)
  then show ?thesis
    by (auto simp: lookup_total_def t' update_conv' m map_of_add_totals [OF assms(2)] get_or_def split: option.splits)
qed

text \<open>A municipality's code: seven digits.\<close>

definition municipality_code :: "string \<Rightarrow> bool" where
  "municipality_code code \<longleftrightarrow> length code = 7 \<and> all_digits code"

lemma scopes_distinct:
  assumes "municipality_code code"
  shows "distinct (scopes_of code)"
proof -
  have "length code = Suc (Suc (Suc (Suc (Suc (Suc (Suc 0))))))" using assms by (simp add: municipality_code_def)
  then obtain a b c d e f g where code: "code = [a, b, c, d, e, f, g]" by (auto simp: length_Suc_conv)
  have "a \<noteq> CHR ''B''" using assms by (auto simp: municipality_code_def code all_digits_def is_ascii_digit_def)
  then show ?thesis by (simp add: scopes_of_def code)
qed

lemma add_offer_total_effect:
  assumes "add_offer_total ce t e = Inr t'" and "municipality_code (snd (fst e))" and "totals_wf t"
  shows "totals_wf t' \<and> lookup_total t' (enrollment_key nw kd) s =
    (if counts_for ce nw kd e \<and> s \<in> set (scopes_of (snd (fst e)))
     then Some ((case lookup_total t (enrollment_key nw kd) s of None \<Rightarrow> 0 | Some v \<Rightarrow> v) + of_enrollment (snd e))
     else lookup_total t (enrollment_key nw kd) s)"
proof -
  obtain code mun o1 where e: "e = ((code, mun), o1)" by (metis surj_pair)
  obtain i where i: "map_of (ce_institutions ce) code = Some i"
    using assms(1) by (auto simp: add_offer_total_def e split: option.splits)
  let ?k1 = "enrollment_key (hi_category i) None" and ?k2 = "enrollment_key (hi_category i) (Some (kind_of (hi_organization i)))"
  obtain t1 where t1: "add_enrollment (scopes_of mun) (of_enrollment o1) ?k1 t = Inr t1"
    and t2: "add_enrollment (scopes_of mun) (of_enrollment o1) ?k2 t1 = Inr t'"
    using assms(1) by (auto simp: add_offer_total_def e i and_then_Inr)
  have d: "distinct (scopes_of mun)" using assms(2) scopes_distinct by (simp add: e)
  note one = add_enrollment_effect [OF t1 d assms(3)]
  have wf1: "totals_wf t1" using one by blast
  note two = add_enrollment_effect [OF t2 d wf1]
  show ?thesis using one two by (auto simp: counts_for_def e i enrollment_key_inj)
qed

lemma lookup_total_empty: "lookup_total (List.map (\<lambda>x. (f x, [])) xs) k s = None"
  by (induction xs) (auto simp: lookup_total_def)

lemma enrollment_totals_effect:
  assumes "enrollment_totals ce = Inr totals" and "\<forall>((_, mun), _) \<in> set (ce_offers ce). municipality_code mun"
  shows "totals_wf totals \<and> lookup_total totals (enrollment_key nw kd) s =
    total_of (\<lambda>e. counts_for ce nw kd e \<and> s \<in> set (scopes_of (snd (fst e)))) (\<lambda>e. of_enrollment (snd e)) (ce_offers ce)"
proof -
  let ?t0 = "List.map (\<lambda>s. (sd_key s, [])) EDUCATION_CATALOG"
  let ?P = "\<lambda>e. counts_for ce nw kd e \<and> s \<in> set (scopes_of (snd (fst e)))"
  have "fold_each (add_offer_total ce) ?t0 es = Inr t \<Longrightarrow> \<forall>((_, mun), _) \<in> set es. municipality_code mun \<Longrightarrow>
      totals_wf t \<and> lookup_total t (enrollment_key nw kd) s = total_of ?P (\<lambda>e. of_enrollment (snd e)) es" for es t
  proof (induction es arbitrary: t rule: rev_induct)
    case Nil
    then show ?case by (auto simp: totals_wf_def lookup_total_empty comp_def)
  next
    case (snoc e es)
    obtain t1 where t1: "fold_each (add_offer_total ce) ?t0 es = Inr t1" "add_offer_total ce t1 e = Inr t"
      using snoc.prems(1) by (auto simp: fold_each_append and_then_Inr)
    have m: "municipality_code (snd (fst e))" using snoc.prems(2) by (auto split: prod.splits)
    from snoc.IH [OF t1(1)] snoc.prems(2) add_offer_total_effect [OF t1(2) m]
    show ?case by (auto simp: total_of_snoc)
  qed
  from this [of "ce_offers ce" totals] assms show ?thesis by (simp add: enrollment_totals_def)
qed

section \<open>The values stored\<close>

lemma round_away_int: "round_away n (of_int v) = of_int v"
proof -
  have "\<lfloor>\<bar>of_int v :: rat\<bar> * 10 ^ n + 1 / 2\<rfloor> = \<bar>v\<bar> * 10 ^ n"
    by (rule floor_unique) (simp_all flip: of_int_abs)
  then show ?thesis by (simp add: round_away_def sgn_if abs_if)
qed

lemma value_keys_ups: "value_key ` set (fold (insert_or_update same_value merge_value) ss t) \<subseteq> value_key ` set t \<union> value_key ` set ss"
proof (induction ss arbitrary: t)
  case (Cons s ss)
  have "value_key ` set (insert_or_update same_value merge_value s t) \<subseteq> insert (value_key s) (value_key ` set t)"
    by (auto simp: insert_or_update_def same_value_def)
  then have "value_key ` set (insert_or_update same_value merge_value s t) \<union> value_key ` set ss \<subseteq>
      value_key ` set t \<union> value_key ` set (s # ss)" by (simp, blast)
  with Cons [of "insert_or_update same_value merge_value s t"] show ?case unfolding fold.simps comp_def by (rule order_trans)
qed simp

lemma upsert_values_keys:
  assumes "upsert_values rows so = Inr (n, so')"
  shows "value_key ` set (so_values so') \<subseteq> value_key ` set (so_values so) \<union> value_key ` set rows"
proof -
  obtain touched t where run: "fold_each upsert_value ([], so_values so) rows = Inr (touched, t)" "so' = so\<lparr>so_values := t\<rparr>"
    using assms(1) by (auto simp: upsert_values_def split: sum.splits)
  obtain ss where ss: "list_all2 (\<lambda>r s. stored_row r = Some s) rows ss" "t = fold (insert_or_update same_value merge_value) ss (so_values so)"
    using upsert_values_fold [OF run(1)] by blast
  have "value_key ` set ss \<subseteq> value_key ` set rows"
    using ss(1) by (induction rule: list_all2_induct) (auto dest: stored_row_Some)
  then have "value_key ` set (so_values so) \<union> value_key ` set ss \<subseteq> value_key ` set (so_values so) \<union> value_key ` set rows" by blast
  with value_keys_ups [of ss "so_values so"] show ?thesis unfolding run ss by (simp, rule order_trans)
qed

text \<open>The value of a territory, an indicator and a year.\<close>

definition value_at :: "int \<times> int \<times> int \<Rightarrow> socio_db \<Rightarrow> rat option" where
  "value_at k so = map_option iv_value (select_first (\<lambda>v. value_key v = k) (so_values so))"

lemma value_at_Some:
  assumes "no_conflicts same_value (so_values so)" and "v \<in> set (so_values so)" and "value_key v = k"
  shows "value_at k so = Some (iv_value v)"
proof -
  have "select_first (\<lambda>v. value_key v = k) (so_values so) = Some v"
    using assms by (intro select_first_unique) (auto intro: same_value_unique)
  then show ?thesis by (simp add: value_at_def)
qed

lemma value_at_None: "k \<notin> value_key ` set (so_values so) \<Longrightarrow> value_at k so = None"
  by (auto simp: value_at_def select_first_None)

definition territories_wf :: "db \<Rightarrow> bool" where
  "territories_wf d \<longleftrightarrow> distinct (List.map t_id (territories d)) \<and> distinct (List.map t_ibge_code (territories d))"

lemma territories_wf_eq:
  assumes "territories_wf d" and "t \<in> set (territories d)" and "u \<in> set (territories d)"
  shows "t_id t = t_id u \<longleftrightarrow> t = u" and "t_ibge_code t = t_ibge_code u \<longleftrightarrow> t = u"
  using assms by (auto simp: territories_wf_def distinct_map dest: inj_onD)

lemma filter_code_territories:
  assumes "territories_wf d" and "t \<in> set (territories d)"
  shows "filter (\<lambda>u. t_ibge_code u = t_ibge_code t) (territories d) = [t]"
proof -
  have "distinct (territories d)" using assms(1) by (simp add: territories_wf_def distinct_map)
  moreover have "filter (\<lambda>u. t_ibge_code u = t_ibge_code t) (territories d) = filter (\<lambda>u. u = t) (territories d)"
    using territories_wf_eq(2) [OF assms(1) _ assms(2)] by (intro filter_cong) auto
  moreover have "distinct ts \<Longrightarrow> t \<in> set ts \<Longrightarrow> filter (\<lambda>u. u = t) ts = [t]" for ts
    by (induction ts) (auto simp: filter_empty_conv)
  ultimately show ?thesis using assms(2) by simp
qed

definition total_row :: "int \<Rightarrow> int \<Rightarrow> int \<Rightarrow> int \<Rightarrow> territory \<Rightarrow> int \<Rightarrow> indicator_value" where
  "total_row target year dataset run t v =
     \<lparr>iv_territory_id = t_id t, iv_indicator_id = target, iv_year = year, iv_value = of_int v, iv_dataset_id = dataset, iv_run_id = Some run\<rparr>"

lemma proposed_totals:
  assumes "territories_wf d" and "distinct (List.map fst m)"
    and "rows = proposed_values (total_observations m year) target dataset run d"
  shows "r \<in> set rows \<longleftrightarrow> (\<exists>t \<in> set (territories d). \<exists>v. map_of m (t_ibge_code t) = Some v \<and> r = total_row target year dataset run t v)"
    and "no_conflicts same_value rows"
proof -
  have mem: "(c, v) \<in> set m \<longleftrightarrow> map_of m c = Some v" for c v using assms(2) by simp
  have rows: "rows = concat (List.map (\<lambda>(c, v). List.map (\<lambda>t. total_row target year dataset run t v)
      (filter (\<lambda>t. t_ibge_code t = c) (territories d))) (sort_key fst m))"
  proof -
    have "concat (List.map (\<lambda>t. if P t then [g t] else []) ts) = List.map g (filter P ts)" for P ts and g :: "territory \<Rightarrow> indicator_value"
      by (induction ts) auto
    then show ?thesis
      by (simp add: assms(3) proposed_values_def total_observations_def total_row_def comp_def case_prod_unfold)
  qed
  show "r \<in> set rows \<longleftrightarrow> (\<exists>t \<in> set (territories d). \<exists>v. map_of m (t_ibge_code t) = Some v \<and> r = total_row target year dataset run t v)"
    using mem unfolding rows by (auto simp: image_iff)
  have sorted: "sorted_wrt (\<lambda>a b. fst a \<noteq> fst b) (sort_key fst m)"
  proof -
    have "distinct (List.map fst (sort_key fst m))" using assms(2) by (simp add: distinct_map)
    then show ?thesis by (auto simp: distinct_conv_nth sorted_wrt_iff_nth_less)
  qed
  show "no_conflicts same_value rows"
    unfolding rows no_conflicts_def
  proof (rule sorted_wrt_concat_map [OF sorted])
    fix x y :: "string \<times> int" and a b
    assume "fst x \<noteq> fst y"
      and "a \<in> set (case x of (c, v) \<Rightarrow> List.map (\<lambda>t. total_row target year dataset run t v) (filter (\<lambda>t. t_ibge_code t = c) (territories d)))"
      and "b \<in> set (case y of (c, v) \<Rightarrow> List.map (\<lambda>t. total_row target year dataset run t v) (filter (\<lambda>t. t_ibge_code t = c) (territories d)))"
    then show "\<not> same_value a b"
      using territories_wf_eq(1) [OF assms(1)] by (auto simp: same_value_def value_key_def total_row_def split: prod.splits)
  next
    fix x :: "string \<times> int"
    have "length (filter (\<lambda>t. t_ibge_code t = c) (territories d)) \<le> 1" for c
    proof (cases "filter (\<lambda>t. t_ibge_code t = c) (territories d)")
      case (Cons t ts)
      then have "t \<in> set (territories d)" "t_ibge_code t = c" by (auto simp: filter_eq_Cons_iff)
      then show ?thesis using filter_code_territories [OF assms(1)] by auto
    qed simp
    then show "length (case x of (c, v) \<Rightarrow> List.map (\<lambda>t. total_row target year dataset run t v) (filter (\<lambda>t. t_ibge_code t = c) (territories d))) \<le> 1"
      by (cases x) simp
  qed
qed

lemma persist_totals:
  assumes "persist (total_observations m year) target dataset run d so = Inr (n, so1)"
    and "territories_wf d" and "distinct (List.map fst m)" and "no_conflicts same_value (so_values so)"
    and "\<forall>v \<in> set (so_values so). \<not> (iv_indicator_id v = target \<and> iv_year v = year)"
  shows "no_conflicts same_value (so_values so1) \<and>
    filter (\<lambda>v. iv_indicator_id v \<noteq> target) (so_values so1) = filter (\<lambda>v. iv_indicator_id v \<noteq> target) (so_values so) \<and>
    (\<forall>t \<in> set (territories d). value_at (t_id t, target, year) so1 = map_option of_int (map_of m (t_ibge_code t)))"
proof (cases "m = []")
  case True
  then have "so1 = so" using assms(1) by (auto simp: persist_def total_observations_def)
  moreover have "value_at (t_id t, target, year) so = None" for t :: territory
    by (rule value_at_None) (use assms(5) in \<open>auto simp: value_key_def\<close>)
  ultimately show ?thesis using True assms(4) by simp
next
  case False
  define rows where "rows = proposed_values (total_observations m year) target dataset run d"
  note r = proposed_totals [OF assms(2,3) rows_def]
  have ups: "upsert_values rows so = Inr (n, so1)"
  proof -
    have "sort_key fst m \<noteq> []" using False by (metis set_empty set_sort)
    then show ?thesis using assms(1) by (auto simp: persist_def rows_def total_observations_def split: if_splits)
  qed
  note effect = upsert_values_effect [OF ups assms(4) r(2)]
  have unique: "no_conflicts same_value (so_values so1)" using effect by blast
  have target: "\<forall>x \<in> set rows. iv_indicator_id x = target"
  proof
    fix x assume "x \<in> set rows"
    then show "iv_indicator_id x = target" unfolding r(1) by (auto simp: total_row_def)
  qed
  note others = upsert_values_filter [OF ups target]
  have "value_at (t_id t, target, year) so1 = map_option of_int (map_of m (t_ibge_code t))" if t: "t \<in> set (territories d)" for t
  proof (cases "map_of m (t_ibge_code t)")
    case None
    have "(t_id t, target, year) \<notin> value_key ` set rows"
    proof
      assume "(t_id t, target, year) \<in> value_key ` set rows"
      then obtain x where "x \<in> set rows" and k: "value_key x = (t_id t, target, year)" by (metis imageE)
      then obtain u v where u: "u \<in> set (territories d)" "map_of m (t_ibge_code u) = Some v" "x = total_row target year dataset run u v"
        unfolding r(1) by blast
      then have "t_id u = t_id t" using k by (simp add: value_key_def total_row_def)
      then show False using None t u territories_wf_eq(1) [OF assms(2)] by auto
    qed
    moreover have "(t_id t, target, year) \<notin> value_key ` set (so_values so)" using assms(5) by (auto simp: value_key_def)
    ultimately have "(t_id t, target, year) \<notin> value_key ` set (so_values so1)" using upsert_values_keys [OF ups] by blast
    then show ?thesis using None by (simp add: value_at_None)
  next
    case (Some v)
    let ?r = "total_row target year dataset run t v"
    have "?r \<in> set rows" using t Some unfolding r(1) by blast
    then obtain x where x: "x \<in> set (so_values so1)" "value_key x = value_key ?r" "Some (iv_value x) = numeric_24_6 (iv_value ?r)"
      using effect by blast
    have "value_at (t_id t, target, year) so1 = Some (iv_value x)"
      using x(1,2) by (intro value_at_Some [OF unique]) (simp_all add: value_key_def total_row_def)
    then show ?thesis using x(3) Some by (auto simp: total_row_def numeric_24_6_def Let_def round_away_int split: if_splits)
  qed
  then show ?thesis using unique others by blast
qed

lemma replace_values_effect:
  assumes "replace_values ids year dataset run d acc (key, m) = Inr (n, so1)"
    and "territories_wf d" and "distinct (List.map fst m)" and "no_conflicts same_value (so_values (snd acc))"
  shows "\<exists>target. ids key = Some target \<and> no_conflicts same_value (so_values so1) \<and>
    filter (\<lambda>v. iv_indicator_id v \<noteq> target) (so_values so1) = filter (\<lambda>v. iv_indicator_id v \<noteq> target) (so_values (snd acc)) \<and>
    (\<forall>t \<in> set (territories d). value_at (t_id t, target, year) so1 = map_option of_int (map_of m (t_ibge_code t)))"
proof -
  obtain target k where target: "ids key = Some target"
    and p: "persist (total_observations m year) target dataset run d (delete_values target year (snd acc)) = Inr (k, so1)"
    using assms(1) by (auto simp: replace_values_def and_then_Inr)
  have kept: "filter (\<lambda>v. iv_indicator_id v \<noteq> target) (so_values (delete_values target year so)) =
      filter (\<lambda>v. iv_indicator_id v \<noteq> target) (so_values so)" for so
    unfolding delete_values_def delete_where_def by (auto intro!: filter_cong simp: filter_filter)
  have "no_conflicts same_value (so_values (delete_values target year (snd acc)))"
    using assms(4) by (auto simp: delete_values_def)
  from persist_totals [OF p assms(2,3) this] show ?thesis
    using target by (auto simp: kept) (auto simp: delete_values_def delete_where_def)
qed

lemma value_at_filter:
  assumes "filter (\<lambda>v. iv_indicator_id v \<noteq> target) (so_values so1) = filter (\<lambda>v. iv_indicator_id v \<noteq> target) (so_values so)"
    and "i \<noteq> target"
  shows "value_at (t, i, year) so1 = value_at (t, i, year) so"
proof -
  have find: "List.find (\<lambda>v. value_key v = (t, i, year)) (filter (\<lambda>v. iv_indicator_id v \<noteq> target) vs) =
      List.find (\<lambda>v. value_key v = (t, i, year)) vs" for vs
    using assms(2) by (induction vs) (auto simp: value_key_def)
  show ?thesis unfolding value_at_def select_first_def using find [of "so_values so1"] find [of "so_values so"] assms(1) by simp
qed

text \<open>After the values of all keys were replaced, each holds its totals.\<close>

lemma replace_all_values:
  assumes "fold_each (replace_values ids year dataset run d) (k, so) totals = Inr (n, so1)"
    and "territories_wf d" and "\<forall>(_, m) \<in> set totals. distinct (List.map fst m)" and "distinct (List.map fst totals)"
    and "inj_on ids (set (List.map fst totals))" and "no_conflicts same_value (so_values so)"
  shows "no_conflicts same_value (so_values so1) \<and>
    (\<forall>(key, m) \<in> set totals. \<exists>target. ids key = Some target \<and>
       (\<forall>t \<in> set (territories d). value_at (t_id t, target, year) so1 = map_option of_int (map_of m (t_ibge_code t)))) \<and>
    (\<forall>t i. i \<notin> {target. \<exists>key \<in> set (List.map fst totals). ids key = Some target} \<longrightarrow> value_at (t, i, year) so1 = value_at (t, i, year) so)"
  using assms(1,3,4,5,6)
proof (induction totals arbitrary: k so)
  case (Cons e totals)
  obtain key m where e: "e = (key, m)" by (cases e)
  obtain k2 so2 where one: "replace_values ids year dataset run d (k, so) (key, m) = Inr (k2, so2)"
    and rest: "fold_each (replace_values ids year dataset run d) (k2, so2) totals = Inr (n, so1)"
    using Cons.prems(1) by (auto simp: e and_then_Inr)
  have m: "distinct (List.map fst m)" using Cons.prems(2) by (simp add: e)
  from replace_values_effect [OF one assms(2) m] Cons.prems(5) obtain target where target: "ids key = Some target"
      "no_conflicts same_value (so_values so2)"
      "filter (\<lambda>v. iv_indicator_id v \<noteq> target) (so_values so2) = filter (\<lambda>v. iv_indicator_id v \<noteq> target) (so_values so)"
      "\<forall>t \<in> set (territories d). value_at (t_id t, target, year) so2 = map_option of_int (map_of m (t_ibge_code t))"
    by auto
  have inj: "inj_on ids (set (List.map fst totals))" using Cons.prems(4) by (auto intro: inj_on_subset)
  have ih: "no_conflicts same_value (so_values so1) \<and>
    (\<forall>(key, m) \<in> set totals. \<exists>target. ids key = Some target \<and>
       (\<forall>t \<in> set (territories d). value_at (t_id t, target, year) so1 = map_option of_int (map_of m (t_ibge_code t)))) \<and>
    (\<forall>t i. i \<notin> {target. \<exists>key \<in> set (List.map fst totals). ids key = Some target} \<longrightarrow> value_at (t, i, year) so1 = value_at (t, i, year) so2)"
    by (rule Cons.IH [OF rest _ _ inj target(2)]) (use Cons.prems(2,3) in auto)
  have "target \<notin> {target. \<exists>key \<in> set (List.map fst totals). ids key = Some target}"
  proof
    assume "target \<in> {target. \<exists>key \<in> set (List.map fst totals). ids key = Some target}"
    then obtain key' where key': "key' \<in> set (List.map fst totals)" "ids key' = Some target" by blast
    then have "key' = key" using Cons.prems(4) target(1) by (intro inj_onD [OF Cons.prems(4)]) (auto simp: e)
    then show False using key'(1) Cons.prems(3) by (simp add: e)
  qed
  then have "value_at (t, target, year) so1 = value_at (t, target, year) so2" for t using ih by blast
  then have "\<forall>t \<in> set (territories d). value_at (t_id t, target, year) so1 = map_option of_int (map_of m (t_ibge_code t))"
    using target(4) by simp
  moreover have "value_at (t, i, year) so2 = value_at (t, i, year) so" if "i \<noteq> target" for t i
    by (rule value_at_filter [OF target(3) that])
  ultimately have mine: "\<exists>target. ids key = Some target \<and>
       (\<forall>t \<in> set (territories d). value_at (t_id t, target, year) so1 = map_option of_int (map_of m (t_ibge_code t)))"
    and frame: "i \<noteq> target \<Longrightarrow> value_at (t, i, year) so2 = value_at (t, i, year) so" for t i
    using target(1) by blast+
  show ?case
  proof (intro conjI allI impI)
    show "no_conflicts same_value (so_values so1)" using ih by blast
    show "\<forall>(key, m) \<in> set (e # totals). \<exists>target. ids key = Some target \<and>
       (\<forall>t \<in> set (territories d). value_at (t_id t, target, year) so1 = map_option of_int (map_of m (t_ibge_code t)))"
      using conjunct1 [OF conjunct2 [OF ih]] mine by (simp add: e)
    fix t i assume i: "i \<notin> {target. \<exists>key \<in> set (List.map fst (e # totals)). ids key = Some target}"
    have "i \<noteq> target" using i target(1) by (auto simp: e)
    have "i \<notin> {target. \<exists>key \<in> set (List.map fst totals). ids key = Some target}" using i by (simp add: e)
    then have "value_at (t, i, year) so1 = value_at (t, i, year) so2" using ih by blast
    then show "value_at (t, i, year) so1 = value_at (t, i, year) so" using frame [OF \<open>i \<noteq> target\<close>] by simp
  qed
qed simp

section \<open>The tables\<close>

text \<open>Every offer names an institution of its year.\<close>

definition edu_ok :: "edu_db \<Rightarrow> bool" where
  "edu_ok ed \<longleftrightarrow> (\<forall>o1 \<in> set (ed_offers ed). \<exists>i \<in> set (ed_institutions ed). ei_year i = eo_year o1 \<and> ei_code i = eo_code o1)"

lemma replaced_tables:
  assumes "edu_ok ed" and "insert_institutions (institution_rows ce dataset d) (delete_year (ce_year ce) ed) = Inr ed1"
    and "insert_offers (offer_rows ce d) ed1 = Inr ed2"
  shows "filter (\<lambda>i. ei_year i = ce_year ce) (ed_institutions ed2) = institution_rows ce dataset d"
    and "filter (\<lambda>o1. eo_year o1 = ce_year ce) (ed_offers ed2) = offer_rows ce d" and "edu_ok ed2"
proof -
  let ?y = "ce_year ce"
  have i: "ed_institutions ed2 = filter (\<lambda>i. ei_year i \<noteq> ?y) (ed_institutions ed) @ institution_rows ce dataset d"
    using assms(2,3) by (auto simp: insert_institutions_def insert_offers_def delete_year_def Let_def delete_where_def split: if_splits)
  have "ed_offers (delete_year ?y ed) = filter (\<lambda>o1. eo_year o1 \<noteq> ?y) (ed_offers ed)"
    unfolding delete_year_def Let_def delete_where_def edu_db.simps
  proof (rule filter_cong [OF refl])
    fix x assume "x \<in> set (ed_offers ed)"
    then obtain i where "i \<in> set (ed_institutions ed)" "ei_year i = eo_year x" "ei_code i = eo_code x"
      using assms(1) by (auto simp: edu_ok_def)
    then show "(\<not> (\<exists>i \<in> set (filter (\<lambda>i. ei_year i = ?y) (ed_institutions ed)). eo_year x = ei_year i \<and> eo_code x = ei_code i)) \<longleftrightarrow>
        eo_year x \<noteq> ?y" by auto
  qed
  moreover have "ed_offers ed2 = ed_offers (delete_year ?y ed) @ offer_rows ce d"
    using assms(2,3) by (auto simp: insert_institutions_def insert_offers_def split: if_splits)
  ultimately have o1: "ed_offers ed2 = filter (\<lambda>o1. eo_year o1 \<noteq> ?y) (ed_offers ed) @ offer_rows ce d" by simp
  have iy: "\<forall>i \<in> set (institution_rows ce dataset d). ei_year i = ?y" by (auto simp: institution_rows_def)
  have oy: "\<forall>o1 \<in> set (offer_rows ce d). eo_year o1 = ?y" by (auto simp: offer_rows_def)
  show "filter (\<lambda>i. ei_year i = ?y) (ed_institutions ed2) = institution_rows ce dataset d"
    unfolding i using iy by (simp add: filter_id_conv filter_empty_conv)
  show "filter (\<lambda>o1. eo_year o1 = ?y) (ed_offers ed2) = offer_rows ce d"
    unfolding o1 using oy by (simp add: filter_id_conv filter_empty_conv)
  have fresh: "\<forall>o1 \<in> set (offer_rows ce d). \<exists>i \<in> set (ed_institutions ed2). ei_year i = eo_year o1 \<and> ei_code i = eo_code o1"
    using assms(3) by (auto simp: insert_offers_def list_all_iff split: if_splits)
  show "edu_ok ed2"
    unfolding edu_ok_def
  proof
    fix x assume "x \<in> set (ed_offers ed2)"
    then consider (old) "x \<in> set (ed_offers ed)" "eo_year x \<noteq> ?y" | (new) "x \<in> set (offer_rows ce d)" unfolding o1 by auto
    then show "\<exists>i \<in> set (ed_institutions ed2). ei_year i = eo_year x \<and> ei_code i = eo_code x"
    proof cases
      case old
      then obtain r where "r \<in> set (ed_institutions ed)" "ei_year r = eo_year x" "ei_code r = eo_code x"
        using assms(1) by (auto simp: edu_ok_def)
      then show ?thesis using old(2) unfolding i by (intro bexI [of _ r]) auto
    next
      case new
      then show ?thesis using fresh by blast
    qed
  qed
qed

definition institution_row :: "census \<Rightarrow> int \<Rightarrow> db \<Rightarrow> institution \<Rightarrow> edu_institution" where
  "institution_row ce dataset d i =
     \<lparr>ei_year = ce_year ce, ei_code = hi_code i, ei_name = hi_name i, ei_acronym = hi_acronym i, ei_category = hi_category i,
      ei_organization = hi_organization i, ei_seat_id = hd (seat_ids (hi_seat i) d), ei_faculty = hi_faculty i,
      ei_staff = hi_staff i, ei_distance = get_or 0 (ce_distance ce) (hi_code i), ei_dataset_id = dataset\<rparr>"

lemma seat_ids_one: "territories_wf d \<Longrightarrow> \<exists>x. seat_ids seat d = [x]"
proof (cases "filter (\<lambda>t. Some (t_ibge_code t) = seat) (territories d)")
  case (Cons t ts)
  assume wf: "territories_wf d"
  have t: "t \<in> set (territories d)" "Some (t_ibge_code t) = seat" using Cons by (auto simp: filter_eq_Cons_iff)
  then have "filter (\<lambda>t. Some (t_ibge_code t) = seat) (territories d) = [t]"
    using filter_code_territories [OF wf t(1)] by (metis (mono_tags, lifting) filter_cong option.inject)
  then show ?thesis by (simp add: seat_ids_def)
qed (simp add: seat_ids_def)

lemma institution_rows_map:
  assumes "territories_wf d"
  shows "institution_rows ce dataset d = List.map (institution_row ce dataset d \<circ> snd) (ce_institutions ce)"
proof -
  have "List.map (\<lambda>seat. f seat) (seat_ids seat d) = [f (hd (seat_ids seat d))]" for seat and f :: "int option \<Rightarrow> edu_institution"
    using seat_ids_one [OF assms, of seat] by auto
  then show ?thesis by (induction "ce_institutions ce") (auto simp: institution_rows_def institution_row_def comp_def case_prod_unfold)
qed

text \<open>Where the offers of a census are: each in the municipality of its code.\<close>

definition placed :: "db \<Rightarrow> census \<Rightarrow> bool" where
  "placed d ce \<longleftrightarrow> (\<forall>((_, mun), _) \<in> set (ce_offers ce). municipality_code mun \<and>
     (\<exists>t \<in> set (territories d). t_ibge_code t = mun \<and> t_level t = Municipality))"

definition territory_of :: "db \<Rightarrow> string \<Rightarrow> territory" where
  "territory_of d code = hd (filter (\<lambda>t. t_ibge_code t = code) (territories d))"

definition offer_row :: "census \<Rightarrow> db \<Rightarrow> (int \<times> string) \<times> offer \<Rightarrow> edu_offer" where
  "offer_row ce d e =
     \<lparr>eo_year = ce_year ce, eo_code = fst (fst e), eo_territory_id = t_id (territory_of d (snd (fst e))),
      eo_courses = of_courses (snd e), eo_enrollment = of_enrollment (snd e), eo_entrants = of_entrants (snd e),
      eo_graduates = of_graduates (snd e)\<rparr>"

lemma territory_of_code:
  assumes "territories_wf d" and "t \<in> set (territories d)"
  shows "territory_of d (t_ibge_code t) = t"
  using filter_code_territories [OF assms] by (simp add: territory_of_def)

lemma concat_map_single: "(\<And>x. x \<in> set xs \<Longrightarrow> f x = [g x]) \<Longrightarrow> concat (List.map f xs) = List.map g xs"
  by (induction xs) auto

lemma concat_map_guard: "concat (List.map (\<lambda>t. if P t then [g t] else []) ts) = List.map g (filter P ts)"
  by (induction ts) auto

lemma offer_rows_map:
  assumes "territories_wf d" and "placed d ce"
  shows "offer_rows ce d = List.map (offer_row ce d) (ce_offers ce)"
proof -
  have key: "filter (\<lambda>t. t_ibge_code t = mun \<and> t_level t = Municipality) (territories d) = [territory_of d mun]"
    if "t \<in> set (territories d)" "t_ibge_code t = mun" "t_level t = Municipality" for mun t
  proof -
    have "filter (\<lambda>u. t_ibge_code u = mun \<and> t_level u = Municipality) (territories d) =
        filter (\<lambda>u. t_level u = Municipality) (filter (\<lambda>u. t_ibge_code u = t_ibge_code t) (territories d))"
      by (simp add: that(2) conj_commute)
    also have "\<dots> = filter (\<lambda>u. t_level u = Municipality) [t]" by (simp only: filter_code_territories [OF assms(1) that(1)])
    also have "\<dots> = [territory_of d mun]" using that territory_of_code [OF assms(1) that(1)] by simp
    finally show ?thesis .
  qed
  have "filter (\<lambda>t. t_ibge_code t = mun \<and> t_level t = Municipality) (territories d) = [territory_of d mun]"
    if "((code, mun), v) \<in> set (ce_offers ce)" for code mun v
    using assms(2) that key by (fastforce simp: placed_def)
  then show ?thesis
    unfolding offer_rows_def by (intro concat_map_single) (auto simp: concat_map_guard offer_row_def)
qed

section \<open>The list of a territory\<close>

lemma offers_in_filter:
  assumes "territories_wf d"
  shows "offers_in prefix d ed i = filter (\<lambda>o1. eo_year o1 = ei_year i \<and> eo_code o1 = ei_code i \<and>
    (\<exists>m \<in> set (territories d). t_id m = eo_territory_id o1 \<and> is_prefix prefix (t_ibge_code m))) (ed_offers ed)"
proof -
  let ?P = "\<lambda>o1 m. t_id m = eo_territory_id o1 \<and> eo_year o1 = ei_year i \<and> eo_code o1 = ei_code i \<and> is_prefix prefix (t_ibge_code m)"
  have one: "List.map (\<lambda>_. o1) (filter (?P o1) (territories d)) = (if \<exists>m \<in> set (territories d). ?P o1 m then [o1] else [])" for o1 :: edu_offer
  proof (cases "filter (?P o1) (territories d)")
    case Nil
    then show ?thesis by (auto simp: filter_empty_conv)
  next
    case (Cons m ms)
    have "distinct (filter (?P o1) (territories d))" using assms by (simp add: territories_wf_def distinct_map)
    moreover have "x = m" if x: "x \<in> set ms" for x
    proof -
      have "x \<in> set (filter (?P o1) (territories d))" "m \<in> set (filter (?P o1) (territories d))" using x Cons by simp_all
      then show ?thesis using territories_wf_eq(1) [OF assms, of x m] by auto
    qed
    ultimately have "ms = []" unfolding Cons by (cases ms) auto
    moreover have "\<exists>m \<in> set (territories d). ?P o1 m"
    proof -
      have "m \<in> set (filter (?P o1) (territories d))" by (simp add: Cons)
      then show ?thesis by auto
    qed
    ultimately show ?thesis unfolding Cons by simp
  qed
  have "offers_in prefix d ed i = concat (List.map (\<lambda>o1. if \<exists>m \<in> set (territories d). ?P o1 m then [o1] else []) (ed_offers ed))"
    unfolding offers_in_def concat_map_guard one ..
  also have "\<dots> = filter (\<lambda>o1. \<exists>m \<in> set (territories d). ?P o1 m) (ed_offers ed)"
    using concat_map_guard [of "\<lambda>o1. \<exists>m \<in> set (territories d). ?P o1 m" id "ed_offers ed"] by (simp only: id_apply list.map_id)
  also have "\<dots> = filter (\<lambda>o1. eo_year o1 = ei_year i \<and> eo_code o1 = ei_code i \<and>
    (\<exists>m \<in> set (territories d). t_id m = eo_territory_id o1 \<and> is_prefix prefix (t_ibge_code m))) (ed_offers ed)"
    by (rule filter_cong) auto
  finally show ?thesis .
qed

text \<open>The offers of an institution of the census under a prefix, as rows.\<close>

definition entries_in :: "string \<Rightarrow> census \<Rightarrow> int \<Rightarrow> ((int \<times> string) \<times> offer) list" where
  "entries_in prefix ce code = filter (\<lambda>e. fst (fst e) = code \<and> is_prefix prefix (snd (fst e))) (ce_offers ce)"

lemma offers_in_entries:
  assumes "territories_wf d" and "placed d ce" and "filter (\<lambda>o1. eo_year o1 = ce_year ce) (ed_offers ed) = offer_rows ce d"
    and "ei_year i = ce_year ce"
  shows "offers_in prefix d ed i = List.map (offer_row ce d) (entries_in prefix ce (ei_code i))"
proof -
  let ?Q = "\<lambda>o1. eo_code o1 = ei_code i \<and> (\<exists>m \<in> set (territories d). t_id m = eo_territory_id o1 \<and> is_prefix prefix (t_ibge_code m))"
  have "offers_in prefix d ed i = filter ?Q (filter (\<lambda>o1. eo_year o1 = ce_year ce) (ed_offers ed))"
    unfolding offers_in_filter [OF assms(1)] filter_filter assms(4) by (rule filter_cong) auto
  also have "\<dots> = filter ?Q (List.map (offer_row ce d) (ce_offers ce))" by (simp only: assms(3) offer_rows_map [OF assms(1,2)])
  also have "\<dots> = List.map (offer_row ce d) (filter (?Q \<circ> offer_row ce d) (ce_offers ce))" by (simp only: filter_map)
  also have "filter (?Q \<circ> offer_row ce d) (ce_offers ce) = entries_in prefix ce (ei_code i)"
    unfolding entries_in_def
  proof (rule filter_cong [OF refl])
    fix e assume e: "e \<in> set (ce_offers ce)"
    obtain code mun v where ev: "e = ((code, mun), v)" by (metis surj_pair)
    obtain t where t: "t \<in> set (territories d)" "t_ibge_code t = mun" using assms(2) e by (auto simp: placed_def ev)
    have "(\<exists>m \<in> set (territories d). t_id m = t_id t \<and> is_prefix prefix (t_ibge_code m)) \<longleftrightarrow> is_prefix prefix mun"
      using t territories_wf_eq(1) [OF assms(1) _ t(1)] by auto
    then show "(?Q \<circ> offer_row ce d) e \<longleftrightarrow> fst (fst e) = ei_code i \<and> is_prefix prefix (snd (fst e))"
      using territory_of_code [OF assms(1) t(1)] by (simp add: ev offer_row_def t(2))
  qed
  finally show ?thesis .
qed

lemma sum_list_sort_key: "sum_list (List.map f (sort_key g xs)) = sum_list (List.map (f :: 'x \<Rightarrow> int) xs)"
  by (metis mset_map mset_sort sum_mset_sum_list)

lemma sort_key_Nil_iff: "sort_key f xs = [] \<longleftrightarrow> xs = []"
  by (metis length_sort length_0_conv)

lemma sum_over_owners:
  fixes f :: "'e \<Rightarrow> int"
  assumes "distinct (List.map code xs)"
  shows "sum_list (List.map (\<lambda>i. sum_list (List.map f (filter (\<lambda>e. owner e = code i \<and> R e) es))) xs) =
    sum_list (List.map f (filter (\<lambda>e. owner e \<in> code ` set xs \<and> R e) es))"
  using assms
proof (induction xs)
  case (Cons i xs)
  have "sum_list (List.map f (filter (\<lambda>e. owner e = code i \<and> R e) es)) +
      sum_list (List.map f (filter (\<lambda>e. owner e \<in> code ` set xs \<and> R e) es)) =
      sum_list (List.map f (filter (\<lambda>e. owner e \<in> code ` set (i # xs) \<and> R e) es))"
    using Cons.prems by (induction es) auto
  then show ?case using Cons by simp
qed simp

lemma kind_organizations:
  "(case organizations_of kind of None \<Rightarrow> True | Some os \<Rightarrow> x \<in> set os) \<longleftrightarrow> kind = None \<or> kind = Some (kind_of x)"
  by (cases kind; cases x) (auto simp: organizations_of_def all_organizations_def)

text \<open>The institutions of a network and kind, and those of them with an offer under the prefix.\<close>

definition wanted :: "network \<Rightarrow> edu_kind option \<Rightarrow> institution \<Rightarrow> bool" where
  "wanted network kind i \<longleftrightarrow> hi_category i = network \<and> (kind = None \<or> kind = Some (kind_of (hi_organization i)))"

definition chosen :: "string \<Rightarrow> census \<Rightarrow> network \<Rightarrow> edu_kind option \<Rightarrow> institution list" where
  "chosen prefix ce network kind =
     filter (\<lambda>i. wanted network kind i \<and> entries_in prefix ce (hi_code i) \<noteq> []) (List.map snd (ce_institutions ce))"

lemma institution_row_simps [simp]:
  "ei_year (institution_row ce dataset d i) = ce_year ce" "ei_code (institution_row ce dataset d i) = hi_code i"
  "ei_category (institution_row ce dataset d i) = hi_category i"
  "ei_organization (institution_row ce dataset d i) = hi_organization i"
  by (simp_all add: institution_row_def)

lemma offers_of_row:
  assumes "territories_wf d" and "placed d ce" and "filter (\<lambda>o1. eo_year o1 = ce_year ce) (ed_offers ed) = offer_rows ce d"
  shows "offers_in prefix d ed (institution_row ce dataset d i) = List.map (offer_row ce d) (entries_in prefix ce (hi_code i))"
  using offers_in_entries [OF assms, of "institution_row ce dataset d i" prefix] by simp

lemma fetched_institutions:
  assumes "territories_wf d" and "placed d ce"
    and "filter (\<lambda>i. ei_year i = ce_year ce) (ed_institutions ed) = institution_rows ce dataset d"
    and "filter (\<lambda>o1. eo_year o1 = ce_year ce) (ed_offers ed) = offer_rows ce d"
  shows "fetch_institutions_in collate (ce_year ce) prefix network (organizations_of kind) d ed =
    sort_key (\<lambda>r. - es_enrollment r) (sort_key (\<lambda>r. collate (es_name r))
      (List.map (summary_of_institution prefix d ed) (List.map (institution_row ce dataset d) (chosen prefix ce network kind))))"
proof -
  let ?Q = "\<lambda>i. ei_category i = network \<and> (kind = None \<or> kind = Some (kind_of (ei_organization i))) \<and> offers_in prefix d ed i \<noteq> []"
  have "filter (\<lambda>i. ei_year i = ce_year ce \<and> ei_category i = network \<and>
      (case organizations_of kind of None \<Rightarrow> True | Some os \<Rightarrow> ei_organization i \<in> set os) \<and> offers_in prefix d ed i \<noteq> []) (ed_institutions ed) =
      filter ?Q (filter (\<lambda>i. ei_year i = ce_year ce) (ed_institutions ed))"
    unfolding kind_organizations filter_filter by (rule filter_cong) auto
  also have "\<dots> = filter ?Q (List.map (institution_row ce dataset d) (List.map snd (ce_institutions ce)))"
    unfolding assms(3) institution_rows_map [OF assms(1)] by simp
  also have "\<dots> = List.map (institution_row ce dataset d) (filter (?Q \<circ> institution_row ce dataset d) (List.map snd (ce_institutions ce)))"
    by (simp only: filter_map)
  also have "filter (?Q \<circ> institution_row ce dataset d) (List.map snd (ce_institutions ce)) = chosen prefix ce network kind"
    unfolding chosen_def by (rule filter_cong) (simp_all add: wanted_def offers_of_row [OF assms(1,2,4)])
  finally show ?thesis by (simp only: fetch_institutions_in_def)
qed

lemma institution_codes:
  assumes "census_wf ce"
  shows "List.map hi_code (List.map snd (ce_institutions ce)) = List.map fst (ce_institutions ce)"
proof -
  have "hi_code (snd p) = fst p" if "p \<in> set (ce_institutions ce)" for p
    using assms that unfolding census_wf_def by (cases p) fastforce
  then show ?thesis by simp
qed

lemma counts_owner:
  assumes "census_wf ce" and "e \<in> set (ce_offers ce)"
  shows "counts_for ce network kind e \<longleftrightarrow> fst (fst e) \<in> hi_code ` set (filter (wanted network kind) (List.map snd (ce_institutions ce)))"
proof -
  let ?insts = "List.map snd (ce_institutions ce)"
  obtain i where i: "map_of (ce_institutions ce) (fst (fst e)) = Some i"
  proof -
    obtain n mun v where e: "e = ((n, mun), v)" by (metis surj_pair)
    have "map_of (ce_institutions ce) n \<noteq> None" using assms unfolding census_wf_def e by fast
    then show ?thesis using that by (auto simp: e)
  qed
  have code: "hi_code i = fst (fst e)" using assms(1) map_of_SomeD [OF i] by (auto simp: census_wf_def)
  have mem: "i \<in> set ?insts" using map_of_SomeD [OF i] by force
  have "distinct (List.map hi_code ?insts)" unfolding institution_codes [OF assms(1)] using assms(1) by (simp add: census_wf_def)
  then have inj: "inj_on hi_code (set ?insts)" by (metis distinct_map)
  have only: "j = i" if "j \<in> set ?insts" "hi_code j = fst (fst e)" for j
    using inj_onD [OF inj _ that(1) mem] that(2) code by simp
  have "fst (fst e) \<in> hi_code ` set (filter (wanted network kind) ?insts) \<longleftrightarrow> wanted network kind i"
  proof
    assume "fst (fst e) \<in> hi_code ` set (filter (wanted network kind) ?insts)"
    then obtain j where "j \<in> set ?insts" "wanted network kind j" "hi_code j = fst (fst e)" unfolding image_iff set_filter by force
    then show "wanted network kind i" using only by blast
  next
    assume "wanted network kind i"
    then have "i \<in> set (filter (wanted network kind) ?insts)" using mem by (simp only: set_filter mem_Collect_eq)
    then show "fst (fst e) \<in> hi_code ` set (filter (wanted network kind) ?insts)" using code by (metis imageI)
  qed
  then show ?thesis by (simp only: counts_for_def i option.case wanted_def)
qed

text \<open>The enrolments of the list add up to those of the census under the prefix.\<close>

lemma institutions_total:
  assumes wf: "territories_wf d" and placed: "placed d ce" and ce: "census_wf ce"
    and is_rows: "filter (\<lambda>i. ei_year i = ce_year ce) (ed_institutions ed) = institution_rows ce dataset d"
    and os: "filter (\<lambda>o1. eo_year o1 = ce_year ce) (ed_offers ed) = offer_rows ce d"
    and rows: "rows = fetch_institutions_in collate (ce_year ce) prefix network (organizations_of kind) d ed"
  shows "(if rows = [] then None else Some (sum_list (List.map es_enrollment rows))) =
    total_of (\<lambda>e. counts_for ce network kind e \<and> is_prefix prefix (snd (fst e))) (\<lambda>e. of_enrollment (snd e)) (ce_offers ce)"
proof -
  let ?insts = "List.map snd (ce_institutions ce)" and ?c = "chosen prefix ce network kind"
  let ?R = "\<lambda>e. is_prefix prefix (snd (fst e))" and ?f = "\<lambda>e. of_enrollment (snd e)"
  let ?owned = "\<lambda>i. sum_list (List.map ?f (entries_in prefix ce (hi_code i)))"
  note fetched = rows [unfolded fetched_institutions [OF wf placed is_rows os]]
  have hits: "filter (\<lambda>e. fst (fst e) \<in> hi_code ` set (filter (wanted network kind) ?insts) \<and> ?R e) (ce_offers ce) =
      filter (\<lambda>e. counts_for ce network kind e \<and> ?R e) (ce_offers ce)"
    using counts_owner [OF ce] by (intro filter_cong) auto
  have enrolled: "es_enrollment (summary_of_institution prefix d ed (institution_row ce dataset d i)) = ?owned i" for i
    by (simp add: summary_of_institution_def Let_def offers_of_row [OF wf placed os] comp_def offer_row_def)
  have skipped: "sum_list (List.map ?owned (filter (\<lambda>i. W i \<and> entries_in prefix ce (hi_code i) \<noteq> []) xs)) =
      sum_list (List.map ?owned (filter W xs))" for W xs
    by (induction xs) auto
  have codes: "distinct (List.map hi_code (filter (wanted network kind) ?insts))"
  proof -
    have "distinct (List.map hi_code ?insts)" unfolding institution_codes [OF ce] using ce by (simp add: census_wf_def)
    then show ?thesis by (rule distinct_map_filter)
  qed
  have "sum_list (List.map es_enrollment rows) = sum_list (List.map ?owned ?c)"
    unfolding fetched sum_list_sort_key List.map_map comp_def enrolled ..
  also have "\<dots> = sum_list (List.map ?owned (filter (wanted network kind) ?insts))" unfolding chosen_def skipped ..
  also have "\<dots> = sum_list (List.map ?f (filter (\<lambda>e. counts_for ce network kind e \<and> ?R e) (ce_offers ce)))"
    unfolding entries_in_def sum_over_owners [OF codes, where owner = "\<lambda>e. fst (fst e)" and R = ?R] hits ..
  finally have total: "sum_list (List.map es_enrollment rows) = \<dots>" .
  have "rows = [] \<longleftrightarrow> ?c = []" unfolding fetched sort_key_Nil_iff list.map_disc_iff ..
  also have "\<dots> \<longleftrightarrow> filter (\<lambda>e. fst (fst e) \<in> hi_code ` set (filter (wanted network kind) ?insts) \<and> ?R e) (ce_offers ce) = []"
    unfolding chosen_def entries_in_def filter_empty_conv set_filter by blast
  finally show ?thesis unfolding total_of_def Let_def hits using total by simp
qed

section \<open>The list and the map\<close>

text \<open>The places whose totals are kept: the country, the regions, the states and the municipalities.\<close>

definition census_place :: "string \<Rightarrow> bool" where
  "census_place code \<longleftrightarrow> code = ''BR'' \<or> (all_digits code \<and> length code \<in> {1, 2, 7})"

lemma scope_iff_prefix:
  assumes "municipality_code mun" and "census_place code"
  shows "code \<in> set (scopes_of mun) \<longleftrightarrow> is_prefix (if code = ''BR'' then [] else code) mun"
proof -
  have "length mun = Suc (Suc (Suc (Suc (Suc (Suc (Suc 0))))))" using assms by (simp add: municipality_code_def)
  then obtain a b c d e f g where mun: "mun = [a, b, c, d, e, f, g]" by (auto simp: length_Suc_conv)
  show ?thesis
  proof (cases "code = ''BR''")
    case True
    then show ?thesis by (simp add: scopes_of_def)
  next
    case False
    then have "length code \<in> {1, 2, 7}" using assms(2) by (simp add: census_place_def)
    then show ?thesis using False
      by (auto simp: scopes_of_def mun numeral_eq_Suc length_Suc_conv)
  qed
qed

lemma education_keys: "enrollment_key network kind \<in> set (List.map sd_key EDUCATION_CATALOG)"
proof -
  have "\<forall>k \<in> {None, Some UniversityKind, Some InstituteKind, Some CollegeKind}.
      \<forall>n \<in> {FederalNetwork, StateNetwork, MunicipalNetwork}. enrollment_key n k \<in> set (List.map sd_key EDUCATION_CATALOG)"
    by code_simp
  moreover have "kind \<in> {None, Some UniversityKind, Some InstituteKind, Some CollegeKind}" by (cases kind; cases "the kind") auto
  moreover have "network \<in> {FederalNetwork, StateNetwork, MunicipalNetwork}" by (cases network) auto
  ultimately show ?thesis by blast
qed

lemma education_keys_distinct: "distinct (List.map sd_key EDUCATION_CATALOG)"
  by code_simp

lemma replace_year_parts:
  assumes "replace_year ce dataset run ids d so ed = Inr (det, so1, ed2)"
  obtains ed1 totals n where "insert_institutions (institution_rows ce dataset d) (delete_year (ce_year ce) ed) = Inr ed1"
    and "insert_offers (offer_rows ce d) ed1 = Inr ed2" and "enrollment_totals ce = Inr totals"
    and "fold_each (replace_values ids (ce_year ce) dataset run d) (0, so) totals = Inr (n, so1)"
  using assms by (auto simp: replace_year_def and_then_Inr)

lemma stored_total:
  assumes "enrollment_totals ce = Inr totals" and "fold_each (replace_values ids (ce_year ce) dataset run d) (0, so) totals = Inr (n, so1)"
    and "territories_wf d" and "placed d ce" and "no_conflicts same_value (so_values so)"
    and "inj_on ids (set (List.map sd_key EDUCATION_CATALOG))" and "t \<in> set (territories d)"
  shows "\<exists>target. ids (enrollment_key network kind) = Some target \<and> value_at (t_id t, target, ce_year ce) so1 =
    map_option of_int (total_of (\<lambda>e. counts_for ce network kind e \<and> t_ibge_code t \<in> set (scopes_of (snd (fst e))))
      (\<lambda>e. of_enrollment (snd e)) (ce_offers ce))"
proof -
  have mun: "\<forall>((_, mun), _) \<in> set (ce_offers ce). municipality_code mun" using assms(4) by (auto simp: placed_def)
  note totals = enrollment_totals_effect [OF assms(1) mun, of network kind "t_ibge_code t"]
  have wf: "List.map fst totals = List.map sd_key EDUCATION_CATALOG" "\<forall>(_, m) \<in> set totals. distinct (List.map fst m)"
    using conjunct1 [OF totals] by (auto simp: totals_wf_def)
  have dist: "distinct (List.map fst totals)" unfolding wf(1) by (rule education_keys_distinct)
  have inj: "inj_on ids (set (List.map fst totals))" unfolding wf(1) by (rule assms(6))
  have "enrollment_key network kind \<in> set (List.map fst totals)" unfolding wf(1) by (rule education_keys)
  then obtain m where m: "(enrollment_key network kind, m) \<in> set totals" by auto
  then have look: "lookup_total totals (enrollment_key network kind) (t_ibge_code t) = map_of m (t_ibge_code t)"
    using dist by (simp add: lookup_total_def)
  from replace_all_values [OF assms(2,3) wf(2) dist inj assms(5)] m assms(7)
  show ?thesis unfolding conjunct2 [OF totals, symmetric] look by fast
qed


end
