(* ===== verification/Environment_Laws.thy ===== *)
theory Environment_Laws
  imports Environment Education_Laws
begin

text \<open>
  The series of the environment: the tables of sums of PRODES and MapBiomas hold, for each place and year, the sum of
  what was read in its scope; the import stores them and leaves every other number alone.
\<close>

section \<open>Tables of sums\<close>

text \<open>\<open>totals[key] = totals.get(key, Decimal(0)) + value\<close>, for the entries in order.\<close>

definition tally :: "('k \<times> rat) list \<Rightarrow> ('k \<times> rat) list \<Rightarrow> ('k \<times> rat) list" where
  "tally = fold (\<lambda>(k, w) t. AList.update k (get_or 0 t k + w) t)"

definition weight :: "('k \<Rightarrow> bool) \<Rightarrow> ('k \<times> rat) list \<Rightarrow> rat" where
  "weight P es = sum_list (List.map snd (filter (\<lambda>e. P (fst e)) es))"

lemma weight_simps [simp]:
  "weight P [] = 0" "weight P (e # es) = (if P (fst e) then snd e else 0) + weight P es" "weight P (xs @ ys) = weight P xs + weight P ys"
  by (simp_all add: weight_def)

lemma weight_concat: "weight P (concat xss) = sum_list (List.map (weight P) xss)"
  by (induction xss) simp_all

lemma weight_none: "(\<And>e. e \<in> set es \<Longrightarrow> \<not> P (fst e)) \<Longrightarrow> weight P es = 0"
  by (induction es) simp_all

lemma weight_entry: "distinct (List.map fst t) \<Longrightarrow> map_of t k = Some w \<Longrightarrow> weight (\<lambda>q. q = k) t = w"
proof (induction t)
  case (Cons e t)
  have "fst e = k \<Longrightarrow> weight (\<lambda>q. q = k) t = 0"
    using Cons.prems(1) by (intro weight_none) (auto simp: image_iff)
  then show ?case using Cons by (auto split: if_splits)
qed simp

lemma weight_update: "weight P (AList.update k (get_or 0 t k + w) t) = weight P t + (if P k then w else 0)"
proof (induction t)
  case (Cons e t)
  then show ?case by (cases e) (auto simp: get_or_def)
qed (simp add: get_or_def)

lemma weight_tally: "weight P (tally es t) = weight P t + weight P es"
  by (induction es arbitrary: t) (auto simp: tally_def weight_update split: prod.splits)

lemma keys_tally: "fst ` set (tally es t) = fst ` set t \<union> fst ` set es"
proof (induction es arbitrary: t)
  case (Cons e es)
  obtain k w where e: "e = (k, w)" by (cases e)
  have "fst ` set (AList.update k v t) = insert k (fst ` set t)" for v :: rat
    by (simp add: dom_update)
  then show ?case using Cons by (simp add: tally_def e)
qed (simp add: tally_def)

lemma distinct_tally: "distinct (List.map fst t) \<Longrightarrow> distinct (List.map fst (tally es t))"
  by (induction es arbitrary: t) (auto simp: tally_def distinct_update split: prod.splits)

lemma map_of_tally: "map_of (tally es []) k = (if k \<in> fst ` set es then Some (weight (\<lambda>q. q = k) es) else None)"
proof (cases "map_of (tally es []) k")
  case None
  then show ?thesis using keys_tally [of es "[]"] by (simp add: map_of_eq_None_iff)
next
  case (Some w)
  then have "k \<in> fst ` set (tally es [])" by (metis domI dom_map_of_conv_image_fst)
  moreover have "weight (\<lambda>q. q = k) (tally es []) = w" using Some by (intro weight_entry) (simp_all add: distinct_tally)
  ultimately show ?thesis using Some by (simp add: keys_tally weight_tally)
qed

lemma tally_append: "tally [] t = t" "tally (xs @ ys) t = tally ys (tally xs t)"
  by (simp_all add: tally_def)

lemma tally_concat: "tally (concat ess) t = fold tally ess t"
  by (induction ess arbitrary: t) (simp_all add: tally_def)

lemma tally_map: "tally (List.map (\<lambda>x. (f x, g x)) xs) t = fold (\<lambda>x t. AList.update (f x) (get_or 0 t (f x) + g x) t) xs t"
  by (simp add: tally_def fold_map comp_def)

lemma weight_sort: "weight P (sort_key f es) = weight P es"
proof -
  have "mset (List.map snd (filter (\<lambda>e. P (fst e)) (sort_key f es))) = mset (List.map snd (filter (\<lambda>e. P (fst e)) es))"
    by (simp only: mset_map mset_filter mset_sort)
  then show ?thesis unfolding weight_def by (metis sum_mset_sum_list)
qed

section \<open>Deforestation\<close>

definition biome_entries :: "int list \<Rightarrow> biome_increments \<Rightarrow> ((string \<times> int) \<times> rat) list" where
  "biome_entries years item =
     List.map (\<lambda>k. (k, biome_area item (snd k) (fst k))) [(code, year). year \<leftarrow> years, code \<leftarrow> bi_municipalities item]"

lemma combine_tally:
  "combine items = List.map (\<lambda>((code, year), v). \<lparr>de_code = code, de_year = year, de_value = v\<rparr>)
     (sort_key fst (tally (concat (List.map (biome_entries (common_years items)) items)) []))"
proof -
  have "add_biome years = (\<lambda>item. tally (biome_entries years item))" for years
    unfolding biome_entries_def fun_eq_iff tally_map by (simp add: add_biome_def case_prod_unfold)
  then show ?thesis by (simp add: combine_def tally_concat fold_map comp_def)
qed

definition record_entries :: "deforestation_record \<Rightarrow> ((string \<times> int) \<times> rat) list" where
  "record_entries r = List.map (\<lambda>code. ((code, de_year r), de_value r)) (scopes_of (de_code r))"

lemma deforestation_tally: "deforestation_totals records = tally (concat (List.map record_entries records)) []"
proof -
  have "add_deforestation = (\<lambda>r. tally (record_entries r))"
    unfolding record_entries_def fun_eq_iff tally_map by (simp add: add_deforestation_def)
  then show ?thesis by (simp add: deforestation_totals_def tally_concat fold_map comp_def)
qed

text \<open>What the biomes lost in a scope in a year, and whether they list a municipality of the scope.\<close>

definition deforested :: "biome_increments list \<Rightarrow> string \<Rightarrow> int \<Rightarrow> rat" where
  "deforested items scope year =
     (\<Sum>item \<leftarrow> items. \<Sum>code \<leftarrow> bi_municipalities item. if scope \<in> set (scopes_of code) then biome_area item year code else 0)"

definition covered :: "biome_increments list \<Rightarrow> string \<Rightarrow> bool" where
  "covered items scope \<longleftrightarrow> (\<exists>item \<in> set items. \<exists>code \<in> set (bi_municipalities item). scope \<in> set (scopes_of code))"

lemma scopes_of_valid:
  assumes "valid_code code"
  shows "distinct (scopes_of code)"
proof -
  have "length code = Suc (Suc (Suc (Suc (Suc (Suc (Suc 0))))))" using assms by (simp add: valid_code_def)
  then obtain a b c d e f g where code: "code = [a, b, c, d, e, f, g]" by (auto simp: length_Suc_conv)
  have "is_digit_char a" using assms by (simp add: valid_code_def code py_isdigit_def)
  moreover have "\<not> is_digit_char (CHR ''B'')" by (simp add: is_digit_char_def is_ascii_digit_def)
  ultimately have "a \<noteq> CHR ''B''" by metis
  then show ?thesis by (simp add: scopes_of_def code)
qed

lemma weight_scopes:
  assumes "distinct (scopes_of code)"
  shows "weight (\<lambda>q. q = (scope, year)) (List.map (\<lambda>c. ((c, y), v)) (scopes_of code)) =
    (if y = year \<and> scope \<in> set (scopes_of code) then v else 0)"
proof -
  have "distinct cs \<Longrightarrow> weight (\<lambda>q. q = (scope, year)) (List.map (\<lambda>c. ((c, y), v)) cs) = (if y = year \<and> scope \<in> set cs then v else 0)" for cs
    by (induction cs) auto
  then show ?thesis using assms .
qed


lemma scope_total:
  assumes "distinct years" and "\<forall>item \<in> set items. \<forall>code \<in> set (bi_municipalities item). distinct (scopes_of code)"
  shows "weight (\<lambda>q. snd q = year \<and> scope \<in> set (scopes_of (fst q))) (concat (List.map (biome_entries years) items)) =
    (if year \<in> set years then deforested items scope year else 0)"
proof -
  let ?P = "\<lambda>q. snd q = year \<and> scope \<in> set (scopes_of (fst q))"
  let ?w = "\<lambda>item code. if scope \<in> set (scopes_of code) then biome_area item year code else 0"
  have codes: "weight ?P (List.map (\<lambda>k. (k, biome_area item (snd k) (fst k))) (List.map (\<lambda>code. (code, y)) cs)) =
      (if y = year then sum_list (List.map (?w item) cs) else 0)" for item y cs
    by (induction cs) auto
  have "weight ?P (biome_entries ys item) = (if year \<in> set ys then sum_list (List.map (?w item) (bi_municipalities item)) else 0)"
    if "distinct ys" for ys item
    using that
  proof (induction ys)
    case (Cons y ys)
    then show ?case using codes [of item y] by (auto simp: biome_entries_def)
  qed (simp add: biome_entries_def)
  then show ?thesis using assms(1) by (induction items) (simp_all add: deforested_def)
qed

lemma sum_list_keys: "sum_list (List.map (\<lambda>e. if P (fst e) then snd e else 0) es) = weight P es"
  by (induction es) simp_all

lemma deforestation_sums:
  assumes "\<forall>item \<in> set items. \<forall>code \<in> set (bi_municipalities item). distinct (scopes_of code)"
  shows "map_of (deforestation_totals (combine items)) (scope, year) =
    (if year \<in> set (common_years items) \<and> covered items scope then Some (deforested items scope year) else None)"
proof -
  let ?years = "common_years items"
  let ?table = "tally (concat (List.map (biome_entries ?years) items)) []"
  let ?entries = "concat (List.map record_entries (combine items))"
  have records: "(de_code r, de_year r) \<in> fst ` set ?table" if "r \<in> set (combine items)" for r
    using that unfolding combine_tally by (auto intro!: rev_image_eqI)
  have keys: "fst ` set ?table = {(code, y). y \<in> set ?years \<and> (\<exists>item \<in> set items. code \<in> set (bi_municipalities item))}"
    unfolding keys_tally by (auto simp: biome_entries_def image_iff)
  have "(scope, year) \<in> fst ` set ?entries \<longleftrightarrow> (\<exists>r \<in> set (combine items). de_year r = year \<and> scope \<in> set (scopes_of (de_code r)))"
    by (auto simp: record_entries_def image_iff)
  also have "\<dots> \<longleftrightarrow> (\<exists>k \<in> fst ` set ?table. snd k = year \<and> scope \<in> set (scopes_of (fst k)))"
    unfolding combine_tally by (force simp: image_iff)
  also have "\<dots> \<longleftrightarrow> year \<in> set ?years \<and> covered items scope"
    unfolding keys by (auto simp: covered_def)
  finally have listed: "(scope, year) \<in> fst ` set ?entries \<longleftrightarrow> year \<in> set ?years \<and> covered items scope" .
  have codes: "distinct (scopes_of (de_code r))" if "r \<in> set (combine items)" for r
    using records [OF that] assms unfolding keys by auto
  have "weight (\<lambda>q. q = (scope, year)) ?entries =
      sum_list (List.map (\<lambda>r. if de_year r = year \<and> scope \<in> set (scopes_of (de_code r)) then de_value r else 0) (combine items))"
  proof -
    have "List.map (\<lambda>r. weight (\<lambda>q. q = (scope, year)) (record_entries r)) (combine items) =
        List.map (\<lambda>r. if de_year r = year \<and> scope \<in> set (scopes_of (de_code r)) then de_value r else 0) (combine items)"
      by (intro map_cong refl) (simp only: record_entries_def weight_scopes [OF codes])
    then show ?thesis by (simp only: weight_concat map_map comp_def)
  qed
  also have "\<dots> = weight (\<lambda>q. snd q = year \<and> scope \<in> set (scopes_of (fst q))) (sort_key fst ?table)"
    unfolding combine_tally by (simp add: comp_def case_prod_unfold cong: if_cong flip: sum_list_keys)
  also have "\<dots> = (if year \<in> set ?years then deforested items scope year else 0)"
    using scope_total [OF _ assms, of ?years year scope]
    by (simp add: weight_sort weight_tally common_years_def split: list.split)
  finally have sum: "weight (\<lambda>q. q = (scope, year)) ?entries = (if year \<in> set ?years then deforested items scope year else 0)" .
  show ?thesis unfolding deforestation_tally map_of_tally listed sum by simp
qed


section \<open>Forests\<close>

definition place_sum :: "(forest_area \<Rightarrow> rat) \<Rightarrow> forest_area list \<Rightarrow> string \<Rightarrow> int \<Rightarrow> rat" where
  "place_sum f areas scope year = (\<Sum>a \<leftarrow> areas. if fa_year a = year \<and> scope \<in> set (scopes_of (fa_code a)) then f a else 0)"

definition area_entries :: "(forest_area \<Rightarrow> rat) \<Rightarrow> forest_area \<Rightarrow> ((string \<times> int) \<times> rat) list" where
  "area_entries f a = List.map (\<lambda>code. ((code, fa_year a), f a)) (scopes_of (fa_code a))"

text \<open>The table of pairs of sums is two tables of sums.\<close>

definition part :: "('v \<Rightarrow> 'w) \<Rightarrow> ('k \<times> 'v) list \<Rightarrow> ('k \<times> 'w) list" where
  "part g t = List.map (\<lambda>(k, v). (k, g v)) t"

lemma part_simps:
  "List.map fst (part g t) = List.map fst t" "map_of (part g t) k = map_option g (map_of t k)"
  "part g (AList.update k v t) = AList.update k (g v) (part g t)"
proof -
  show "List.map fst (part g t) = List.map fst t" by (simp add: part_def comp_def case_prod_unfold)
  show "map_of (part g t) k = map_option g (map_of t k)" by (simp add: part_def map_of_map)
  show "part g (AList.update k v t) = AList.update k (g v) (part g t)" by (induction t) (auto simp: part_def)
qed

lemma add_forest_parts:
  "part fst (add_forest a t) = tally (area_entries fa_forest a) (part fst t)"
  "part snd (add_forest a t) = tally (area_entries fa_total a) (part snd t)"
proof -
  let ?step = "\<lambda>code t. case get_or (0, 0) t (code, fa_year a) of (forest, whole) \<Rightarrow>
      AList.update (code, fa_year a) (forest + fa_forest a, whole + fa_total a) t"
  have old: "get_or 0 (part fst t) k = fst (get_or (0, 0) t k)" "get_or 0 (part snd t) k = snd (get_or (0, 0) t k)"
    for t :: "((string \<times> int) \<times> rat \<times> rat) list" and k
    by (simp_all add: get_or_def part_simps split: option.split)
  have "part fst (fold ?step cs t) = fold (\<lambda>c t. AList.update (c, fa_year a) (get_or 0 t (c, fa_year a) + fa_forest a) t) cs (part fst t)"
    "part snd (fold ?step cs t) = fold (\<lambda>c t. AList.update (c, fa_year a) (get_or 0 t (c, fa_year a) + fa_total a) t) cs (part snd t)" for cs
    by (induction cs arbitrary: t) (simp_all add: part_simps old case_prod_unfold)
  then show "part fst (add_forest a t) = tally (area_entries fa_forest a) (part fst t)"
    "part snd (add_forest a t) = tally (area_entries fa_total a) (part snd t)"
    unfolding area_entries_def tally_map add_forest_def by blast+
qed

lemma forest_parts:
  "part fst (fold add_forest areas t) = tally (concat (List.map (area_entries fa_forest) areas)) (part fst t)"
  "part snd (fold add_forest areas t) = tally (concat (List.map (area_entries fa_total) areas)) (part snd t)"
  by (induction areas arbitrary: t) (simp_all add: add_forest_parts tally_append)

lemma area_weight:
  assumes "\<forall>a \<in> set areas. distinct (scopes_of (fa_code a))"
  shows "weight (\<lambda>q. q = (scope, year)) (concat (List.map (area_entries f) areas)) = place_sum f areas scope year"
  using assms by (induction areas) (simp_all add: place_sum_def area_entries_def weight_scopes)

lemma forest_table:
  assumes "\<forall>a \<in> set areas. distinct (scopes_of (fa_code a))"
  shows "distinct (List.map fst (fold add_forest areas []))"
    and "map_of (fold add_forest areas []) (scope, year) = None \<Longrightarrow> place_sum fa_total areas scope year = 0"
    and "map_of (fold add_forest areas []) (scope, year) = Some (x, y) \<Longrightarrow>
      x = place_sum fa_forest areas scope year \<and> y = place_sum fa_total areas scope year"
proof -
  let ?t = "fold add_forest areas []"
  have parts: "part fst ?t = tally (concat (List.map (area_entries fa_forest) areas)) []"
    "part snd ?t = tally (concat (List.map (area_entries fa_total) areas)) []"
    using forest_parts [of areas "[]"] by (simp_all add: part_def)
  have "distinct (List.map fst (part snd ?t))" unfolding parts by (rule distinct_tally) simp
  then show "distinct (List.map fst ?t)" by (simp only: part_simps)
  note first = map_of_tally [of "concat (List.map (area_entries fa_forest) areas)" "(scope, year)", folded parts, unfolded part_simps]
  note second = map_of_tally [of "concat (List.map (area_entries fa_total) areas)" "(scope, year)", folded parts, unfolded part_simps]
  show "place_sum fa_total areas scope year = 0" if none: "map_of ?t (scope, year) = None"
  proof -
    have "(scope, year) \<notin> fst ` set (concat (List.map (area_entries fa_total) areas))"
      using second none by (simp split: if_splits)
    then have "weight (\<lambda>q. q = (scope, year)) (concat (List.map (area_entries fa_total) areas)) = 0"
      by (intro weight_none) (force simp: image_iff)
    then show ?thesis by (simp only: area_weight [OF assms])
  qed
  show "x = place_sum fa_forest areas scope year \<and> y = place_sum fa_total areas scope year" if some: "map_of ?t (scope, year) = Some (x, y)"
    using first second some by (simp add: area_weight [OF assms] split: if_splits)
qed

lemma map_of_kept:
  "distinct (List.map fst t) \<Longrightarrow> map_of (List.map_filter (\<lambda>(k, x, y). if P x y then Some (k, h x y) else None) t) k =
    (case map_of t k of None \<Rightarrow> None | Some (x, y) \<Rightarrow> if P x y then Some (h x y) else None) \<and>
    distinct (List.map fst (List.map_filter (\<lambda>(k, x, y). if P x y then Some (k, h x y) else None) t)) \<and>
    fst ` set (List.map_filter (\<lambda>(k, x, y). if P x y then Some (k, h x y) else None) t) \<subseteq> fst ` set t"
proof (induction t)
  case (Cons e t)
  obtain q x y where e: "e = (q, x, y)" by (metis surj_pair)
  have q: "q \<notin> fst ` set t" using Cons.prems by (simp add: e)
  then have "map_of t q = None" by (simp add: map_of_eq_None_iff)
  then show ?case using Cons q by (auto simp: e map_filter_simps)
qed (simp add: map_filter_simps)

lemma forest_shares:
  assumes "\<forall>a \<in> set areas. distinct (scopes_of (fa_code a))"
  shows "distinct (List.map fst (forest_cover areas))"
    and "map_of (forest_cover areas) (scope, year) =
      (if 0 < place_sum fa_total areas scope year
       then Some (round_places 4 (place_sum fa_forest areas scope year * 100 / place_sum fa_total areas scope year)) else None)"
proof -
  note kept = map_of_kept [OF forest_table(1) [OF assms], of "\<lambda>x y. 0 < y" "\<lambda>x y. round_places 4 (x * 100 / y)"]
  show "distinct (List.map fst (forest_cover areas))" using kept by (simp add: forest_cover_def)
  have "map_of (forest_cover areas) (scope, year) = (case map_of (fold add_forest areas []) (scope, year) of None \<Rightarrow> None
      | Some (x, y) \<Rightarrow> if 0 < y then Some (round_places 4 (x * 100 / y)) else None)"
    using kept by (simp add: forest_cover_def)
  then show "map_of (forest_cover areas) (scope, year) =
      (if 0 < place_sum fa_total areas scope year
       then Some (round_places 4 (place_sum fa_forest areas scope year * 100 / place_sum fa_total areas scope year)) else None)"
    using forest_table(2,3) [OF assms, of scope year] by (auto split: option.splits)
qed


section \<open>The series stored\<close>

lemma value_kept:
  assumes "upsert_values rows so = Inr (n, so1)" and "no_conflicts same_value (so_values so)" and "no_conflicts same_value rows"
    and "k \<notin> value_key ` set rows"
  shows "value_at k so1 = value_at k so"
proof (cases "k \<in> value_key ` set (so_values so)")
  case True
  note effect = upsert_values_effect [OF assms(1-3)]
  obtain v where v: "v \<in> set (so_values so)" "value_key v = k" using True by blast
  then have "v \<in> set (so_values so1)" using effect assms(4) by blast
  then show ?thesis using value_at_Some v assms(2) effect by metis
next
  case False
  then have "k \<notin> value_key ` set (so_values so1)" using upsert_values_keys [OF assms(1)] assms(4) by blast
  then show ?thesis using False by (simp add: value_at_None)
qed

definition series_row :: "int \<Rightarrow> int \<Rightarrow> int \<Rightarrow> (string \<times> int) \<times> rat \<Rightarrow> territory \<Rightarrow> indicator_value" where
  "series_row target dataset run e t =
     \<lparr>iv_territory_id = t_id t, iv_indicator_id = target, iv_year = snd (fst e), iv_value = snd e, iv_dataset_id = dataset, iv_run_id = Some run\<rparr>"

lemma proposed_series:
  assumes "territories_wf d" and "distinct (List.map fst m)"
    and "rows = proposed_values (environment_observations m) target dataset run d"
  shows "r \<in> set rows \<longleftrightarrow> (\<exists>t \<in> set (territories d). \<exists>y v. map_of m (t_ibge_code t, y) = Some v \<and> r = series_row target dataset run ((t_ibge_code t, y), v) t)"
    and "no_conflicts same_value rows"
proof -
  have rows: "rows = concat (List.map (\<lambda>e. List.map (series_row target dataset run e)
      (filter (\<lambda>t. t_ibge_code t = fst (fst e)) (territories d))) (sort_key fst m))"
    by (simp add: assms(3) proposed_values_def environment_observations_def series_row_def [abs_def] comp_def case_prod_unfold concat_map_guard)
  have mem: "e \<in> set m \<longleftrightarrow> map_of m (fst e) = Some (snd e)" for e using assms(2) by simp
  show "r \<in> set rows \<longleftrightarrow> (\<exists>t \<in> set (territories d). \<exists>y v. map_of m (t_ibge_code t, y) = Some v \<and> r = series_row target dataset run ((t_ibge_code t, y), v) t)"
  proof -
    have "r \<in> set rows \<longleftrightarrow> (\<exists>e \<in> set m. \<exists>t \<in> set (territories d). t_ibge_code t = fst (fst e) \<and> r = series_row target dataset run e t)"
      unfolding rows by (auto simp: image_iff)
    also have "\<dots> \<longleftrightarrow> (\<exists>t \<in> set (territories d). \<exists>y v. ((t_ibge_code t, y), v) \<in> set m \<and> r = series_row target dataset run ((t_ibge_code t, y), v) t)"
    proof
      assume "\<exists>t \<in> set (territories d). \<exists>y v. ((t_ibge_code t, y), v) \<in> set m \<and> r = series_row target dataset run ((t_ibge_code t, y), v) t"
      then obtain t y v where "t \<in> set (territories d)" "((t_ibge_code t, y), v) \<in> set m"
        "r = series_row target dataset run ((t_ibge_code t, y), v) t" by blast
      then show "\<exists>e \<in> set m. \<exists>t \<in> set (territories d). t_ibge_code t = fst (fst e) \<and> r = series_row target dataset run e t"
        by (intro bexI [of _ "((t_ibge_code t, y), v)"] bexI [of _ t]) simp_all
    qed (clarsimp, blast)
    finally show ?thesis by (simp add: mem)
  qed
  have sorted: "sorted_wrt (\<lambda>a b. fst a \<noteq> fst b) (sort_key fst m)"
  proof -
    have "distinct (List.map fst (sort_key fst m))" using assms(2) by (simp add: distinct_map)
    then show ?thesis by (auto simp: distinct_conv_nth sorted_wrt_iff_nth_less)
  qed
  show "no_conflicts same_value rows"
    unfolding rows no_conflicts_def
  proof (rule sorted_wrt_concat_map [OF sorted])
    fix x y :: "(string \<times> int) \<times> rat" and a b
    assume "fst x \<noteq> fst y" and "a \<in> set (List.map (series_row target dataset run x) (filter (\<lambda>t. t_ibge_code t = fst (fst x)) (territories d)))"
      and "b \<in> set (List.map (series_row target dataset run y) (filter (\<lambda>t. t_ibge_code t = fst (fst y)) (territories d)))"
    then show "\<not> same_value a b"
      using territories_wf_eq(1) [OF assms(1)] by (auto simp: same_value_def value_key_def series_row_def prod_eq_iff)
  next
    fix x :: "(string \<times> int) \<times> rat"
    have "length (filter (\<lambda>t. t_ibge_code t = c) (territories d)) \<le> 1" for c
    proof (cases "filter (\<lambda>t. t_ibge_code t = c) (territories d)")
      case (Cons t ts)
      then have "t \<in> set (territories d)" "t_ibge_code t = c" by (auto simp: filter_eq_Cons_iff)
      then show ?thesis using filter_code_territories [OF assms(1)] by auto
    qed simp
    then show "length (List.map (series_row target dataset run x) (filter (\<lambda>t. t_ibge_code t = fst (fst x)) (territories d))) \<le> 1"
      by simp
  qed
qed

text \<open>\<open>series_stored m target d so so1\<close>: the numbers of the table are under the indicator, all else is as before.\<close>

definition series_stored ::
    "(string \<Rightarrow> int \<Rightarrow> rat option) \<Rightarrow> int \<Rightarrow> db \<Rightarrow> socio_db \<Rightarrow> socio_db \<Rightarrow> bool" where
  "series_stored m target d so so1 \<longleftrightarrow>
     (\<forall>t \<in> set (territories d). \<forall>year. value_at (t_id t, target, year) so1 =
        (case m (t_ibge_code t) year of None \<Rightarrow> value_at (t_id t, target, year) so | Some v \<Rightarrow> numeric_24_6 v)) \<and>
     (\<forall>t i year. i \<noteq> target \<longrightarrow> value_at (t, i, year) so1 = value_at (t, i, year) so)"

lemma series_stored_at:
  assumes "series_stored m target d so so1" and "t \<in> set (territories d)"
  shows "value_at (t_id t, i, year) so1 =
    (case (if target = i then m (t_ibge_code t) year else None) of None \<Rightarrow> value_at (t_id t, i, year) so | Some v \<Rightarrow> numeric_24_6 v)"
  using assms by (cases "target = i") (simp_all add: series_stored_def)

lemma persist_series:
  assumes "persist (environment_observations m) target dataset run d so = Inr (n, so1)" and "territories_wf d"
    and "distinct (List.map fst m)" and "no_conflicts same_value (so_values so)"
  shows "no_conflicts same_value (so_values so1) \<and> so_indicators so1 = so_indicators so \<and>
    series_stored (\<lambda>code year. map_of m (code, year)) target d so so1"
proof (cases "m = []")
  case True
  then have "so1 = so" using assms(1) by (simp add: persist_def environment_observations_def)
  then show ?thesis using True assms(4) by (simp add: series_stored_def)
next
  case False
  define rows where "rows = proposed_values (environment_observations m) target dataset run d"
  note r = proposed_series [OF assms(2,3) rows_def]
  have ups: "upsert_values rows so = Inr (n, so1)"
  proof -
    have "sort_key fst m \<noteq> []" using False by (metis set_empty set_sort)
    then show ?thesis using assms(1) by (auto simp: persist_def rows_def environment_observations_def split: if_splits)
  qed
  note effect = upsert_values_effect [OF ups assms(4) r(2)]
  note kept = value_kept [OF ups assms(4) r(2)]
  have "value_at (t_id t, target, year) so1 =
      (case map_of m (t_ibge_code t, year) of None \<Rightarrow> value_at (t_id t, target, year) so | Some v \<Rightarrow> numeric_24_6 v)"
    if t: "t \<in> set (territories d)" for t year
  proof (cases "map_of m (t_ibge_code t, year)")
    case None
    have "(t_id t, target, year) \<notin> value_key ` set rows"
    proof
      assume "(t_id t, target, year) \<in> value_key ` set rows"
      then obtain x where "x \<in> set rows" and k: "value_key x = (t_id t, target, year)" by (metis imageE)
      then obtain u y v where u: "u \<in> set (territories d)" "map_of m (t_ibge_code u, y) = Some v"
          "x = series_row target dataset run ((t_ibge_code u, y), v) u"
        unfolding r(1) by blast
      then have "t_id u = t_id t" "y = year" using k by (simp_all add: value_key_def series_row_def)
      then show False using None t u territories_wf_eq(1) [OF assms(2) u(1) t] by simp
    qed
    then show ?thesis using None kept by simp
  next
    case (Some v)
    let ?r = "series_row target dataset run ((t_ibge_code t, year), v) t"
    have "?r \<in> set rows" using t Some unfolding r(1) by blast
    then obtain x where x: "x \<in> set (so_values so1)" "value_key x = value_key ?r" "Some (iv_value x) = numeric_24_6 (iv_value ?r)"
      using effect by blast
    then have "value_at (value_key ?r) so1 = numeric_24_6 (iv_value ?r)" using effect value_at_Some by metis
    then show ?thesis using Some by (simp add: value_key_def series_row_def)
  qed
  moreover have "value_at (t, i, year) so1 = value_at (t, i, year) so" if "i \<noteq> target" for t i year
    using that by (intro kept) (auto simp: r(1) value_key_def series_row_def)
  ultimately show ?thesis using effect by (simp add: series_stored_def)
qed


section \<open>The codes read\<close>

lemma fetched_codes:
  assumes "map_each (fetch_prodes_biome repr net) biomes = Inr items" and "item \<in> set items" and "code \<in> set (bi_municipalities item)"
  shows "distinct (scopes_of code)"
proof -
  have each: "list_all2 (\<lambda>biome item. fetch_prodes_biome repr net biome = Inr item) biomes items" using assms(1) by (simp add: map_each_Inr)
  obtain i where i: "i < length items" "items ! i = item" using assms(2) by (auto simp: in_set_conv_nth)
  have "fetch_prodes_biome repr net (biomes ! i) = Inr item" using list_all2_nthD2 [OF each i(1)] i(2) by simp
  then obtain biome answer names where "parse_biome repr biome answer names = Inr item"
    by (auto simp: fetch_prodes_biome_def Let_def and_then_Inr)
  then have "valid_code code" using assms(3)
    by (fastforce simp: parse_biome_def list_all_iff split: sum.splits format_failure.splits prod.splits if_splits)
  then show ?thesis by (rule scopes_of_valid)
qed

definition sums_valid :: "forest_sums \<Rightarrow> bool" where
  "sums_valid s \<longleftrightarrow> (\<forall>k \<in> fst ` set (snd s). valid_code (fst k))"

lemma add_year_valid:
  assumes "sums_valid s" and "valid_code code" and "add_year row code is_forest s e = Inr s'"
  shows "sums_valid s'"
proof (cases "map_of row (fst e)")
  case None
  then show ?thesis using assms by (simp add: add_year_def case_prod_unfold)
next
  case (Some raw)
  have "snd s' = snd s \<or> (\<exists>v. snd s' = AList.update (code, snd e) v (snd s))"
    using assms(3) Some by (auto simp: add_year_def and_then_Inr case_prod_unfold split: list.splits)
  then have "fst ` set (snd s') \<subseteq> insert (code, snd e) (fst ` set (snd s))" by (elim disjE exE) (simp_all only: dom_update, blast+)
  then show ?thesis using assms(1,2) unfolding sums_valid_def by fastforce
qed

lemma add_sheet_row_valid:
  assumes "sums_valid s" and "add_sheet_row strings cc s cells = Inr s'"
  shows "sums_valid s'"
proof -
  have "sums_valid s'" if "fold_each (add_year row code b) s es = Inr s'" and "valid_code code" for row code b es
    by (rule fold_each_invariant [where P = sums_valid, OF that(1) assms(1)]) (rule add_year_valid [OF _ that(2)])
  then show ?thesis using assms by (auto simp: add_sheet_row_def and_then_Inr Let_def split: if_splits)
qed

lemma read_areas_codes:
  assumes "read_forest_areas opened = Inr areas" and "a \<in> set areas"
  shows "distinct (scopes_of (fa_code a))"
proof -
  obtain x where x0: "opened = Inr x" using assms(1) by (auto simp: read_forest_areas_def and_then_Inr)
  obtain forest whole where x: "read_sheet x = Inr (forest, whole)"
    and areas: "areas = List.map_filter (\<lambda>((code, year), area).
        if 0 < area then Some \<lparr>fa_code = code, fa_year = year, fa_forest = get_or 0 forest (code, year), fa_total = area\<rparr> else None)
      (sort_key fst whole)"
    using assms(1) by (cases "read_sheet x") (auto simp: read_forest_areas_def x0 split: format_failure.splits if_splits)
  obtain strings cc rows where "fold_each (add_sheet_row strings cc) ([], []) rows = Inr (forest, whole)"
    using x by (auto simp: read_sheet_def Let_def and_then_Inr split: list.splits)
  then have "sums_valid (forest, whole)"
    by (rule fold_each_invariant [where P = sums_valid]) (simp add: sums_valid_def, rule add_sheet_row_valid)
  moreover have "fa_code a \<in> fst ` fst ` set whole"
    using assms(2) unfolding areas set_map_filter by (force split: if_splits)
  ultimately have "valid_code (fa_code a)" by (auto simp: sums_valid_def)
  then show ?thesis by (rule scopes_of_valid)
qed

section \<open>The job\<close>

definition deforestation_series :: "biome_increments list \<Rightarrow> string \<Rightarrow> int \<Rightarrow> rat option" where
  "deforestation_series items scope year =
     (if year \<in> set (common_years items) \<and> covered items scope then Some (deforested items scope year) else None)"

definition forest_series :: "forest_area list \<Rightarrow> string \<Rightarrow> int \<Rightarrow> rat option" where
  "forest_series areas scope year =
     (if 0 < place_sum fa_total areas scope year
      then Some (round_places 4 (place_sum fa_forest areas scope year * 100 / place_sum fa_total areas scope year)) else None)"

lemma store_series_effect:
  assumes "store_series key ds (environment_observations m) records detail run (rep, d, so) = Inr (rep', d', so')"
    and "territories_wf d" and "distinct (List.map fst m)" and "no_conflicts same_value (so_values so)"
  shows "territories d' = territories d \<and> no_conflicts same_value (so_values so') \<and> so_indicators so' = so_indicators so \<and>
    (\<exists>target. indicator_ids so key = Some target \<and> series_stored (\<lambda>code year. map_of m (code, year)) target d so so')"
proof -
  obtain dataset d1 where ds: "upsert_dataset ds d = (dataset, d1)" by fastforce
  have d1: "territories d1 = territories d" using ds by (auto simp: upsert_dataset_def Let_def)
  then have wf: "territories_wf d1" using assms(2) by (simp add: territories_wf_def)
  obtain target k where target: "indicator_ids so key = Some target" and d': "d' = d1"
    and p: "persist (environment_observations m) target dataset run d1 so = Inr (k, so')"
    using assms(1) by (auto simp: store_series_def ds and_then_Inr)
  from persist_series [OF p wf assms(3,4)] show ?thesis
    using target d1 by (simp add: d' series_stored_def)
qed


lemma import_prodes_effect:
  assumes "import_prodes n run (rep, d, so) = Inr (rep', d', so')" and "territories_wf d" and "no_conflicts same_value (so_values so)"
  shows "territories d' = territories d \<and> no_conflicts same_value (so_values so') \<and> so_indicators so' = so_indicators so \<and>
    (\<exists>items target. map_each (fetch_prodes_biome (ev_repr n) (ev_net n)) PRODES_BIOMES = Inr items \<and>
       indicator_ids so ''deforestation_prodes'' = Some target \<and> series_stored (deforestation_series items) target d so so')"
proof -
  obtain items updated records detail where items: "map_each (fetch_prodes_biome (ev_repr n) (ev_net n)) PRODES_BIOMES = Inr items"
    and store: "store_series ''deforestation_prodes'' (ev_prodes_dataset n updated)
      (environment_observations (deforestation_totals (combine items))) records detail run (rep, d, so) = Inr (rep', d', so')"
    using assms(1) by (auto simp: import_prodes_def and_then_Inr Let_def)
  have once: "\<forall>item \<in> set items. \<forall>code \<in> set (bi_municipalities item). distinct (scopes_of code)"
    using fetched_codes [OF items] by blast
  have "distinct (List.map fst (deforestation_totals (combine items)))" unfolding deforestation_tally by (rule distinct_tally) simp
  from store_series_effect [OF store assms(2) this assms(3)] show ?thesis
    using items unfolding deforestation_sums [OF once] deforestation_series_def by blast
qed

lemma import_mapbiomas_effect:
  assumes "import_mapbiomas n run (rep, d, so) = Inr (rep', d', so')" and "territories_wf d" and "no_conflicts same_value (so_values so)"
  shows "territories d' = territories d \<and> no_conflicts same_value (so_values so') \<and> so_indicators so' = so_indicators so \<and>
    (\<exists>areas target. read_forest_areas (ev_sheet n) = Inr areas \<and>
       indicator_ids so ''forest_cover'' = Some target \<and> series_stored (forest_series areas) target d so so')"
proof -
  obtain areas records detail where areas: "read_forest_areas (ev_sheet n) = Inr areas"
    and store: "store_series ''forest_cover'' (ev_mapbiomas_dataset n) (environment_observations (forest_cover areas))
      records detail run (rep, d, so) = Inr (rep', d', so')"
    using assms(1) by (auto simp: import_mapbiomas_def and_then_Inr)
  have once: "\<forall>a \<in> set areas. distinct (scopes_of (fa_code a))" using read_areas_codes [OF areas] by blast
  from store_series_effect [OF store assms(2) forest_shares(1) [OF once] assms(3)] show ?thesis
    using areas unfolding forest_shares(2) [OF once] forest_series_def by blast
qed

lemma indicator_ids_inj:
  assumes "distinct (List.map in_id (so_indicators so))" and "indicator_ids so k1 = Some i" and "indicator_ids so k2 = Some i"
  shows "k1 = k2"
proof -
  have "\<exists>x \<in> set (so_indicators so). in_key x = k \<and> in_id x = i" if "indicator_ids so k = Some i" for k
    using map_of_SomeD [OF that [unfolded indicator_ids_def]] by auto
  then obtain x y where "x \<in> set (so_indicators so)" "in_key x = k1" "in_id x = i" "y \<in> set (so_indicators so)" "in_key y = k2" "in_id y = i"
    using assms(2,3) by metis
  then show ?thesis using assms(1) by (auto simp: distinct_map dest: inj_onD)
qed

lemma seeded_values: "so_values (snd (seed_catalog f g h catalog so)) = so_values so"
  by (simp add: seed_catalog_def)

lemma value_at_cong: "so_values so' = so_values so \<Longrightarrow> value_at k so' = value_at k so"
  by (simp add: value_at_def)

text \<open>The two sources one after the other; a source that is not asked for changes nothing.\<close>

lemma prodes_if_asked:
  assumes "(if prodes then import_prodes n run (rep, d, so) else Inr (rep, d, so)) = Inr (rep1, d1, so1)"
    and "territories_wf d" and "no_conflicts same_value (so_values so)"
  obtains items where "territories d1 = territories d" and "no_conflicts same_value (so_values so1)"
    and "indicator_ids so1 = indicator_ids so"
    and "prodes \<longrightarrow> map_each (fetch_prodes_biome (ev_repr n) (ev_net n)) PRODES_BIOMES = Inr items \<and>
      indicator_ids so ''deforestation_prodes'' \<noteq> None"
    and "\<And>t i year. t \<in> set (territories d) \<Longrightarrow> value_at (t_id t, i, year) so1 =
      (if prodes \<and> indicator_ids so ''deforestation_prodes'' = Some i \<and> year \<in> set (common_years items) \<and> covered items (t_ibge_code t)
       then numeric_24_6 (deforested items (t_ibge_code t) year) else value_at (t_id t, i, year) so)"
proof (cases prodes)
  case True
  then have "import_prodes n run (rep, d, so) = Inr (rep1, d1, so1)" using assms(1) by simp
  from import_prodes_effect [OF this assms(2,3)] obtain items target
    where same: "territories d1 = territories d" "no_conflicts same_value (so_values so1)" "indicator_ids so1 = indicator_ids so"
      and found: "map_each (fetch_prodes_biome (ev_repr n) (ev_net n)) PRODES_BIOMES = Inr items"
        "indicator_ids so ''deforestation_prodes'' = Some target"
      and stored: "series_stored (deforestation_series items) target d so so1"
    by (auto simp: indicator_ids_def fun_eq_iff)
  show thesis
    by (rule that [OF same]) (auto simp: found True series_stored_at [OF stored] deforestation_series_def)
next
  case False
  then have "d1 = d" "so1 = so" using assms(1) by simp_all
  then show thesis using False assms(3) by (intro that [of "[]"]) simp_all
qed

lemma mapbiomas_if_asked:
  assumes "(if mapbiomas then import_mapbiomas n run (rep, d, so) else Inr (rep, d, so)) = Inr (rep1, d1, so1)"
    and "territories_wf d" and "no_conflicts same_value (so_values so)"
  obtains areas where "territories d1 = territories d" and "indicator_ids so1 = indicator_ids so"
    and "mapbiomas \<longrightarrow> read_forest_areas (ev_sheet n) = Inr areas \<and> indicator_ids so ''forest_cover'' \<noteq> None"
    and "\<And>t i year. t \<in> set (territories d) \<Longrightarrow> value_at (t_id t, i, year) so1 =
      (if mapbiomas \<and> indicator_ids so ''forest_cover'' = Some i \<and> 0 < place_sum fa_total areas (t_ibge_code t) year
       then numeric_24_6 (round_places 4
         (place_sum fa_forest areas (t_ibge_code t) year * 100 / place_sum fa_total areas (t_ibge_code t) year))
       else value_at (t_id t, i, year) so)"
proof (cases mapbiomas)
  case True
  then have "import_mapbiomas n run (rep, d, so) = Inr (rep1, d1, so1)" using assms(1) by simp
  from import_mapbiomas_effect [OF this assms(2,3)] obtain areas target
    where same: "territories d1 = territories d" "indicator_ids so1 = indicator_ids so"
      and found: "read_forest_areas (ev_sheet n) = Inr areas" "indicator_ids so ''forest_cover'' = Some target"
      and stored: "series_stored (forest_series areas) target d so so1"
    by (auto simp: indicator_ids_def fun_eq_iff)
  show thesis
    by (rule that [OF same]) (auto simp: found True series_stored_at [OF stored] forest_series_def)
next
  case False
  then have "d1 = d" "so1 = so" using assms(1) by simp_all
  then show thesis using False by (intro that [of "[]"]) simp_all
qed

text \<open>
  Property C38. The import of the environment. One that fails leaves every number and data set as they were. One that
  ends stores, for each territory and year: under the deforestation indicator, for a year that all biomes published and
  a territory with a municipality of a biome, the area the biomes lost in the territory's municipalities; under the
  forest indicator, for a year with a mapped area, the percentage of the area of the territory's municipalities that is
  forest; every number as its column rounds it. Every other number stays as it was.
\<close>

theorem environment_series_add_up:
  assumes "import_environment n prodes mapbiomas run d so = (result, rep, d', so')" and "territories_wf d"
    and "no_conflicts same_value (so_values so)" and "distinct (List.map in_id (so_indicators so'))"
  shows "case result of
      Inl e \<Rightarrow> so_values so' = so_values so \<and> d' = d
    | Inr _ \<Rightarrow> territories d' = territories d \<and> (\<exists>items areas.
        (prodes \<longrightarrow> map_each (fetch_prodes_biome (ev_repr n) (ev_net n)) PRODES_BIOMES = Inr items \<and>
           indicator_ids so' ''deforestation_prodes'' \<noteq> None) \<and>
        (mapbiomas \<longrightarrow> read_forest_areas (ev_sheet n) = Inr areas \<and> indicator_ids so' ''forest_cover'' \<noteq> None) \<and>
        (\<forall>t \<in> set (territories d). \<forall>i year. value_at (t_id t, i, year) so' =
           (if prodes \<and> indicator_ids so' ''deforestation_prodes'' = Some i \<and>
              year \<in> set (common_years items) \<and> covered items (t_ibge_code t)
            then numeric_24_6 (deforested items (t_ibge_code t) year)
            else if mapbiomas \<and> indicator_ids so' ''forest_cover'' = Some i \<and> 0 < place_sum fa_total areas (t_ibge_code t) year
            then numeric_24_6 (round_places 4
              (place_sum fa_forest areas (t_ibge_code t) year * 100 / place_sum fa_total areas (t_ibge_code t) year))
            else value_at (t_id t, i, year) so)))"
proof -
  obtain so1 where so1: "so1 = snd (seed_catalog (ev_name_of n) (ev_description_of n) (ev_new_id n) ENVIRONMENT_CATALOG so)" by blast
  have before: "so_values so1 = so_values so" by (simp add: so1 seeded_values)
  then have unique: "no_conflicts same_value (so_values so1)" using assms(3) by simp
  show ?thesis
  proof (cases result)
    case (Inl e)
    then show ?thesis using assms(1) before by (auto simp: import_environment_def Let_def simp flip: so1 split: sum.splits)
  next
    case (Inr v)
    obtain rep1 d1 so2 where first: "(if prodes then import_prodes n run (new_report, d, so1) else Inr (new_report, d, so1)) = Inr (rep1, d1, so2)"
      and second: "(if mapbiomas then import_mapbiomas n run (rep1, d1, so2) else Inr (rep1, d1, so2)) = Inr (rep, d', so')"
      using assms(1) Inr by (auto simp: import_environment_def Let_def and_then_Inr simp flip: so1 split: sum.splits)
    obtain items where one: "territories d1 = territories d" "no_conflicts same_value (so_values so2)" "indicator_ids so2 = indicator_ids so1"
        "prodes \<longrightarrow> map_each (fetch_prodes_biome (ev_repr n) (ev_net n)) PRODES_BIOMES = Inr items \<and>
          indicator_ids so1 ''deforestation_prodes'' \<noteq> None"
      and values_one: "\<And>t i year. t \<in> set (territories d) \<Longrightarrow> value_at (t_id t, i, year) so2 =
        (if prodes \<and> indicator_ids so1 ''deforestation_prodes'' = Some i \<and> year \<in> set (common_years items) \<and> covered items (t_ibge_code t)
         then numeric_24_6 (deforested items (t_ibge_code t) year) else value_at (t_id t, i, year) so1)"
      by (rule prodes_if_asked [OF first assms(2) unique]) blast
    have wf1: "territories_wf d1" using assms(2) one(1) by (simp add: territories_wf_def)
    show ?thesis
    proof (rule mapbiomas_if_asked [OF second wf1 one(2)])
      fix areas
      assume two: "territories d' = territories d1" "indicator_ids so' = indicator_ids so2"
          "mapbiomas \<longrightarrow> read_forest_areas (ev_sheet n) = Inr areas \<and> indicator_ids so2 ''forest_cover'' \<noteq> None"
        and values_two: "\<And>t i year. t \<in> set (territories d1) \<Longrightarrow> value_at (t_id t, i, year) so' =
          (if mapbiomas \<and> indicator_ids so2 ''forest_cover'' = Some i \<and> 0 < place_sum fa_total areas (t_ibge_code t) year
           then numeric_24_6 (round_places 4
             (place_sum fa_forest areas (t_ibge_code t) year * 100 / place_sum fa_total areas (t_ibge_code t) year))
           else value_at (t_id t, i, year) so2)"
      have ids: "indicator_ids so1 = indicator_ids so'" "indicator_ids so2 = indicator_ids so'" using one(3) two(2) by simp_all
      have apart: "indicator_ids so' ''forest_cover'' \<noteq> Some i" if "indicator_ids so' ''deforestation_prodes'' = Some i" for i
        using indicator_ids_inj [OF assms(4) that, of "''forest_cover''"] by auto
      show ?thesis unfolding Inr sum.case
        by (intro conjI exI [of _ items] exI [of _ areas] ballI allI)
          (use one(1,4) two(1,3) values_one values_two apart in \<open>simp_all add: ids value_at_cong [OF before]\<close>)
    qed
  qed
qed

end
