(* ===== verification/Education_Witnesses.thy ===== *)
theory Education_Witnesses
  imports Education_Laws
begin

text \<open>A small census, read, imported and listed: a concrete run of the theorem of \<open>Education_Laws\<close>.\<close>

section \<open>A concrete census\<close>

definition institution_lines :: "string list" where
  "institution_lines =
     [''CO_IES;NO_IES;SG_IES;TP_CATEGORIA_ADMINISTRATIVA;TP_ORGANIZACAO_ACADEMICA;CO_MUNICIPIO_IES;QT_DOC_EXE;QT_TEC_TOTAL'',
      ''55;Universidade;U;1;1;3550308;10;'']"

definition course_lines :: "string list" where
  "course_lines =
     [''CO_IES;CO_MUNICIPIO;TP_CATEGORIA_ADMINISTRATIVA;TP_MODALIDADE_ENSINO;TP_NIVEL_ACADEMICO;QT_CURSO;QT_MAT;QT_ING;QT_CONC'',
      ''55;3550308;1;1;1;1;30;9;4'', ''55;3550308;1;2;1;1;7;1;1'']"

definition census_archive :: "(string \<times> string) list" where
  "census_archive =
     [(''dados/MICRODADOS_ED_SUP_IES_2023.CSV'', concat (List.map (\<lambda>l. l @ [newline]) institution_lines)),
      (''dados/MICRODADOS_CADASTRO_CURSOS_2023.CSV'', concat (List.map (\<lambda>l. l @ [newline]) course_lines))]"

definition brazil :: territory where
  "brazil = \<lparr>t_id = 1, t_level = Country, t_ibge_code = ''BR'', t_name = ''Brasil'', t_abbreviation = None, t_parent_id = None,
     t_capital_id = None, t_west = None, t_south = None, t_east = None, t_north = None, t_normalized_name = None,
     t_normalized_abbreviation = None\<rparr>"

definition two_places :: db where
  "two_places = empty_db\<lparr>territories := [brazil, brazil\<lparr>t_id := 2, t_level := Municipality, t_ibge_code := ''3550308''\<rparr>]\<rparr>"

definition key_number :: "string \<Rightarrow> int option" where
  "key_number key = (let keys = List.map sd_key EDUCATION_CATALOG in
     if key \<in> set keys then Some (int (length (takeWhile (\<lambda>k. k \<noteq> key) keys))) else None)"

definition census_read :: census where
  "census_read = \<lparr>ce_year = 2023,
     ce_institutions = [(55, \<lparr>hi_code = 55, hi_name = ''Universidade'', hi_acronym = Some ''U'', hi_category = FederalNetwork,
       hi_organization = University, hi_seat = Some ''3550308'', hi_faculty = Some 10, hi_staff = None\<rparr>)],
     ce_offers = [((55, ''3550308''), \<lparr>of_courses = 1, of_enrollment = 30, of_entrants = 9, of_graduates = 4\<rparr>)],
     ce_distance = [(55, 7)]\<rparr>"

definition empty_tables :: edu_db where "empty_tables = \<lparr>ed_institutions = [], ed_offers = []\<rparr>"
definition empty_values :: socio_db where "empty_values = \<lparr>so_indicators = [], so_values = []\<rparr>"

lemma fold_file_plain:
  assumes "filter (\<lambda>m. ends_with (py_upper (fst m)) suffix) archive = [(member, concat (List.map (\<lambda>l. l @ [newline]) ls))]"
    and "list_all plain_line ls" and "rows = List.map (\<lambda>l. if l = [] then [] else py_split (CHR '';'') l) ls"
    and "list_all (\<lambda>c. c \<in> set (hd rows)) columns" and "rows \<noteq> []"
  shows "fold_file suffix columns step s archive =
    fold_each (\<lambda>s row. and_then (pick_columns (List.map (column_index (hd rows)) columns) row) (step s)) s (tl rows)"
proof -
  have read: "csv_records (CHR '';'') (universal_lines (concat (List.map (\<lambda>l. l @ [newline]) ls))) csv_start = (rows, False)"
    unfolding universal_lines_plain [OF assms(2)] assms(3) by (rule csv_records_plain_lines [OF assms(2)]) (simp_all add: is_line_end_def)
  have id: "and_then x Inr = x" for x :: "census_failure + 'a" by (cases x) simp_all
  from assms(4,5) show ?thesis
    unfolding fold_file_def assms(1) by (cases rows) (simp_all add: read id)
qed

lemma institutions_read:
  "fold_file (''_IES_'' @ int_to_string 2023 @ ''.CSV'') INSTITUTION_COLUMNS add_institution (new_census 2023) census_archive =
    Inr (census_read\<lparr>ce_offers := [], ce_distance := []\<rparr>)"
proof -
  have member: "filter (\<lambda>m. ends_with (py_upper (fst m)) (''_IES_'' @ int_to_string 2023 @ ''.CSV'')) census_archive =
      [(''dados/MICRODADOS_ED_SUP_IES_2023.CSV'', concat (List.map (\<lambda>l. l @ [newline]) institution_lines))]"
    by code_simp
  have plain: "list_all plain_line institution_lines"
    by (simp add: institution_lines_def plain_line_def FIELD_LIMIT_def)
  have columns: "list_all (\<lambda>c. c \<in> set (hd (List.map (\<lambda>l. if l = [] then [] else py_split (CHR '';'') l) institution_lines))) INSTITUTION_COLUMNS"
    by code_simp
  have run: "fold_each (\<lambda>s row. and_then (pick_columns (List.map (column_index (hd
        (List.map (\<lambda>l. if l = [] then [] else py_split (CHR '';'') l) institution_lines))) INSTITUTION_COLUMNS) row) (add_institution s))
      (new_census 2023) (tl (List.map (\<lambda>l. if l = [] then [] else py_split (CHR '';'') l) institution_lines)) =
      Inr (census_read\<lparr>ce_offers := [], ce_distance := []\<rparr>)"
    by code_simp
  have some: "List.map (\<lambda>l. if l = [] then [] else py_split (CHR '';'') l) institution_lines \<noteq> []"
    by (simp add: institution_lines_def)
  show ?thesis by (rule trans [OF fold_file_plain [OF member plain refl columns some] run])
qed

lemma courses_read:
  "fold_file (''_CURSOS_'' @ int_to_string 2023 @ ''.CSV'') COURSE_COLUMNS add_course
     (census_read\<lparr>ce_offers := [], ce_distance := []\<rparr>) census_archive = Inr census_read"
proof -
  have member: "filter (\<lambda>m. ends_with (py_upper (fst m)) (''_CURSOS_'' @ int_to_string 2023 @ ''.CSV'')) census_archive =
      [(''dados/MICRODADOS_CADASTRO_CURSOS_2023.CSV'', concat (List.map (\<lambda>l. l @ [newline]) course_lines))]"
    by code_simp
  have plain: "list_all plain_line course_lines"
    by (simp add: course_lines_def plain_line_def FIELD_LIMIT_def)
  have columns: "list_all (\<lambda>c. c \<in> set (hd (List.map (\<lambda>l. if l = [] then [] else py_split (CHR '';'') l) course_lines))) COURSE_COLUMNS"
    by code_simp
  have run: "fold_each (\<lambda>s row. and_then (pick_columns (List.map (column_index (hd
        (List.map (\<lambda>l. if l = [] then [] else py_split (CHR '';'') l) course_lines))) COURSE_COLUMNS) row) (add_course s))
      (census_read\<lparr>ce_offers := [], ce_distance := []\<rparr>) (tl (List.map (\<lambda>l. if l = [] then [] else py_split (CHR '';'') l) course_lines)) =
      Inr census_read"
    by code_simp
  have some: "List.map (\<lambda>l. if l = [] then [] else py_split (CHR '';'') l) course_lines \<noteq> []"
    by (simp add: course_lines_def)
  show ?thesis by (rule trans [OF fold_file_plain [OF member plain refl columns some] run])
qed

lemma census_read_ok: "read_census (Some census_archive) 2023 = Inr census_read"
  unfolding read_census_def option.case fill_census_def institutions_read courses_read and_then.simps
  by (simp add: census_read_def)

definition census_stored :: "year_details \<times> socio_db \<times> edu_db" where
  "census_stored =
     (case replace_year census_read 7 9 key_number two_places empty_values empty_tables of Inl _ \<Rightarrow> undefined | Inr r \<Rightarrow> r)"

lemma census_stored_ok: "replace_year census_read 7 9 key_number two_places empty_values empty_tables = Inr census_stored"
proof -
  have "\<not> isl (replace_year census_read 7 9 key_number two_places empty_values empty_tables)" by code_simp
  then show ?thesis by (cases "replace_year census_read 7 9 key_number two_places empty_values empty_tables") (simp_all add: census_stored_def)
qed


end
