(* ===== verification/Environment_Witnesses.thy ===== *)
theory Environment_Witnesses
  imports Environment_Laws Education_Witnesses Weather_Feed_Witnesses
begin

text \<open>A small import of the environment: a concrete run of the theorem of \<open>Environment_Laws\<close>.\<close>

definition panel :: json where
  "panel = JObject
     [(''lois'', JList [JObject [(''name'', JString ''mun''), (''gid'', JInt 1),
         (''loinames'', JList [JObject [(''gid'', JInt 5), (''codibge'', JString ''3550308'')]])]]),
      (''periods'', JList [JObject [(''startDate'', JObject [(''year'', JInt 2020)]), (''endDate'', JObject [(''year'', JInt 2021)]),
         (''features'', JList [JObject [(''loi'', JInt 1), (''loiname'', JInt 5), (''areas'', JList [JObject [(''area'', JString ''2'')]])]])]])]"

definition plain_cell :: "string \<Rightarrow> string \<Rightarrow> sheet_cell" where
  "plain_cell reference v = \<lparr>sc_reference = Some reference, sc_type = None, sc_value = Some v, sc_inline = None\<rparr>"

definition coverage :: spreadsheet where
  "coverage = \<lparr>xs_strings = [],
     xs_rows = [[plain_cell ''A1'' ''geocode'', plain_cell ''B1'' ''class_level_1'', plain_cell ''C1'' ''y2021''],
       [plain_cell ''A2'' ''3550308'', plain_cell ''B2'' ''1. Forest'', plain_cell ''C2'' ''10''],
       [plain_cell ''A3'' ''3550308'', plain_cell ''B3'' ''3. Farming'', plain_cell ''C3'' ''30'']]\<rparr>"

definition environment0 :: environment_env where
  "environment0 = \<lparr>ev_repr = \<lambda>_. [], ev_net = \<lambda>_. answer panel, ev_sheet = Inr coverage, ev_name_of = id, ev_description_of = id,
     ev_new_id = int, ev_prodes_dataset = \<lambda>_. dataset0, ev_mapbiomas_dataset = dataset0\<lparr>ds_code := ''cobertura''\<rparr>,
     ev_show_years = \<lambda>_. ''anos''\<rparr>"

definition biome0 :: "string \<Rightarrow> biome_increments" where
  "biome0 biome = \<lparr>bi_biome = biome, bi_municipalities = [''3550308''], bi_annual = [(2021, [(''3550308'', 2)])]\<rparr>"

lemma biome_read: "parse_biome (\<lambda>_. []) biome panel panel = Inr (biome0 biome)"
  by code_simp

text \<open>An area that is no decimal leaves \<open>parse_biome\<close> as another error than a \<open>ProviderError\<close>.\<close>

definition malformed_panel :: json where
  "malformed_panel = JObject [(''periods'', JList [JObject [(''startDate'', JObject [(''year'', JInt 2020)]),
     (''endDate'', JObject [(''year'', JInt 2021)]),
     (''features'', JList [JObject [(''loi'', JInt 1), (''loiname'', JInt 5), (''areas'', JList [JObject [(''area'', JString ''-'')]])]])]])]"

lemma malformed_area_escapes: "parse_biome (\<lambda>_. []) biome malformed_panel panel = Inl RaisedOther"
  by code_simp

definition areas0 :: "forest_area list" where
  "areas0 = [\<lparr>fa_code = ''3550308'', fa_year = 2021, fa_forest = 10, fa_total = 40\<rparr>]"

lemma areas_read: "read_forest_areas (Inr coverage) = Inr areas0"
  by code_simp

definition shares0 :: "((string \<times> int) \<times> rat) list" where
  "shares0 = [((''3550308'', 2021), 25), ((''35'', 2021), 25), ((''3'', 2021), 25), ((''BR'', 2021), 25)]"

lemma forest_share: "round_places 4 (10 * 100 / 40 :: rat) = 25" "round_places 4 (25 :: rat) = 25"
  by (simp_all add: round_places_def round_half_even_def)

lemma areas_shares: "forest_cover areas0 = shares0"
proof -
  have "fold add_forest areas0 [] = List.map (\<lambda>(k, _). (k, 10, 40)) shares0" by code_simp
  then show ?thesis by (simp add: forest_cover_def shares0_def map_filter_simps forest_share)
qed

lemma biomes_fetched:
  "map_each (fetch_prodes_biome (ev_repr environment0) (ev_net environment0)) PRODES_BIOMES = Inr (List.map biome0 PRODES_BIOMES)"
proof -
  have "fetch_prodes_biome (ev_repr environment0) (ev_net environment0) b = Inr (biome0 b)" for b
    by (simp add: fetch_prodes_biome_def environment0_def get_json_answer biome_read)
  then have "map_each (fetch_prodes_biome (ev_repr environment0) (ev_net environment0)) bs = Inr (List.map biome0 bs)" for bs
    by (induction bs) simp_all
  then show ?thesis .
qed

lemma update_fetched: "fetch_last_update (ev_repr environment0) (ev_net environment0) = Inr None"
  by (simp add: fetch_last_update_def environment0_def get_json_answer panel_def from_option_def)

definition seeded0 :: socio_db where
  "seeded0 = snd (seed_catalog id id int ENVIRONMENT_CATALOG empty_values)"

definition environment_stored :: "run_report \<times> db \<times> socio_db" where
  "environment_stored =
     (case and_then (store_series ''deforestation_prodes'' dataset0
         (environment_observations (deforestation_totals (combine (List.map biome0 PRODES_BIOMES)))) 1 (''prodes'', ''anos'') 9
         (new_report, two_places, seeded0))
       (store_series ''forest_cover'' (dataset0\<lparr>ds_code := ''cobertura''\<rparr>) (environment_observations shares0) 1
         (''mapbiomas'', ''anos'') 9) of Inl _ \<Rightarrow> undefined | Inr r \<Rightarrow> r)"


lemma environment_run:
  "\<exists>rep d1 so1. environment_stored = (rep, d1, so1) \<and> import_environment environment0 True True 9 two_places empty_values = (Inr 0, rep, d1, so1)"
proof -
  let ?prodes = "store_series ''deforestation_prodes'' dataset0
      (environment_observations (deforestation_totals (combine (List.map biome0 PRODES_BIOMES)))) 1 (''prodes'', ''anos'') 9
      (new_report, two_places, seeded0)"
  let ?forest = "store_series ''forest_cover'' (dataset0\<lparr>ds_code := ''cobertura''\<rparr>) (environment_observations shares0) 1
      (''mapbiomas'', ''anos'') 9"
  have "\<not> isl (and_then ?prodes ?forest)" by code_simp
  then have ok: "and_then ?prodes ?forest = Inr environment_stored"
    unfolding environment_stored_def by (cases "and_then ?prodes ?forest") simp_all
  have fields: "ev_prodes_dataset environment0 = (\<lambda>_. dataset0)" "ev_show_years environment0 = (\<lambda>_. ''anos'')"
    by (simp_all add: environment0_def)
  have "length (combine (List.map biome0 PRODES_BIOMES)) = 1" by code_simp
  then have first: "import_prodes environment0 9 st = store_series ''deforestation_prodes'' dataset0
      (environment_observations (deforestation_totals (combine (List.map biome0 PRODES_BIOMES)))) 1 (''prodes'', ''anos'') 9 st" for st
    unfolding import_prodes_def biomes_fetched update_fetched and_then.simps Let_def fields
    by (simp only:)
  have "ev_sheet environment0 = Inr coverage" by (simp add: environment0_def)
  then have second: "import_mapbiomas environment0 9 = ?forest"
    by (simp add: import_mapbiomas_def areas_read areas_shares fun_eq_iff) (simp add: environment0_def areas0_def)
  have seeded: "snd (seed_catalog (ev_name_of environment0) (ev_description_of environment0) (ev_new_id environment0) ENVIRONMENT_CATALOG empty_values) = seeded0"
    by (simp add: environment0_def seeded0_def)
  obtain rep d1 so1 where parts: "environment_stored = (rep, d1, so1)" by (metis surj_pair)
  have "import_environment environment0 True True 9 two_places empty_values = (Inr 0, rep, d1, so1)"
    unfolding import_environment_def seeded Let_def if_True first second ok parts by simp
  then show ?thesis using parts by blast
qed

theorem environment_series_add_up_witness:
  "value_at (2, 0, 2021) (snd (snd environment_stored)) = Some 12 \<and> value_at (1, 1, 2021) (snd (snd environment_stored)) = Some 25"
proof -
  obtain rep d1 so1 where stored: "environment_stored = (rep, d1, so1)"
    and run: "import_environment environment0 True True 9 two_places empty_values = (Inr 0, rep, d1, so1)"
    using environment_run by blast
  have wf: "territories_wf two_places" by (simp add: territories_wf_def two_places_def brazil_def)
  have unique: "no_conflicts same_value (so_values empty_values)" by (simp add: empty_values_def)
  have ids: "distinct (List.map in_id (so_indicators so1))" "indicator_ids so1 ''deforestation_prodes'' = Some 0"
      "indicator_ids so1 ''forest_cover'' = Some 1"
  proof -
    have "List.map (\<lambda>i. (in_key i, in_id i)) (so_indicators (snd (snd environment_stored))) = [(''deforestation_prodes'', 0), (''forest_cover'', 1)]"
      by code_simp
    then have pairs: "List.map (\<lambda>i. (in_key i, in_id i)) (so_indicators so1) = [(''deforestation_prodes'', 0), (''forest_cover'', 1)]"
      by (simp only: stored snd_conv)
    have "List.map in_id (so_indicators so1) = List.map snd (List.map (\<lambda>i. (in_key i, in_id i)) (so_indicators so1))" by simp
    then have "List.map in_id (so_indicators so1) = [0, 1]" unfolding pairs by simp
    then show "distinct (List.map in_id (so_indicators so1))" by simp
    show "indicator_ids so1 ''deforestation_prodes'' = Some 0" "indicator_ids so1 ''forest_cover'' = Some 1"
      unfolding indicator_ids_def pairs by simp_all
  qed
  let ?items = "List.map biome0 PRODES_BIOMES"
  have sums: "2021 \<in> set (common_years ?items)" "covered ?items ''3550308''" "numeric_24_6 (deforested ?items ''3550308'' 2021) = Some 12"
    by code_simp+
  have shares: "place_sum fa_forest areas0 ''BR'' 2021 = 10" "place_sum fa_total areas0 ''BR'' 2021 = 40"
    by (simp_all add: place_sum_def areas0_def scopes_of_def)
  have "numeric_24_6 25 = Some 25" by code_simp
  then have share: "numeric_24_6 (round_places 4 (10 * 100 / 40)) = Some 25" by (simp only: forest_share)
  have sheet: "ev_sheet environment0 = Inr coverage" by (simp add: environment0_def)
  obtain b where b: "b \<in> set (territories two_places)" "t_id b = 2" "t_ibge_code b = ''3550308''" by (fastforce simp: two_places_def)
  have br: "brazil \<in> set (territories two_places)" "t_id brazil = 1" "t_ibge_code brazil = ''BR''"
    by (simp_all add: two_places_def brazil_def)
  obtain items areas where "Inr ?items = (Inr items :: raised + biome_increments list)" "Inr areas0 = (Inr areas :: raised + forest_area list)"
    and all: "\<forall>t \<in> set (territories two_places). \<forall>i year. value_at (t_id t, i, year) so1 =
       (if True \<and> indicator_ids so1 ''deforestation_prodes'' = Some i \<and> year \<in> set (common_years items) \<and> covered items (t_ibge_code t)
        then numeric_24_6 (deforested items (t_ibge_code t) year)
        else if True \<and> indicator_ids so1 ''forest_cover'' = Some i \<and> 0 < place_sum fa_total areas (t_ibge_code t) year
        then numeric_24_6 (round_places 4 (place_sum fa_forest areas (t_ibge_code t) year * 100 / place_sum fa_total areas (t_ibge_code t) year))
        else value_at (t_id t, i, year) empty_values)"
    using environment_series_add_up [OF run wf unique ids(1)] unfolding biomes_fetched sheet areas_read sum.case by blast
  then have eq: "items = ?items" "areas = areas0" by simp_all
  have "value_at (2, 0, 2021) so1 = Some 12"
    using bspec [OF all b(1), rule_format, of 0 2021] sums(1-3) unfolding eq b ids by simp
  moreover have "value_at (1, 1, 2021) so1 = Some 25"
    using bspec [OF all br(1), rule_format, of 1 2021] share unfolding eq br ids shares by simp
  ultimately show ?thesis by (simp add: stored)
qed

end
