(* ===== verification/Geometries.thy ===== *)
theory Geometries
  imports Fire_Service Jobs "HOL-Library.Product_Lexorder"
begin

text \<open>
  The import of the geometries: the meshes of IBGE (\<open>app/providers/ibge/malhas.py\<close>) and the job
  \<open>app/jobs/import_geometries.py\<close>. What PostGIS computes of a geometry is a parameter; the rows and columns the
  statements write are the code's.
\<close>

section \<open>The meshes\<close>

record geometry_record =
  gr_code :: string
  gr_geojson :: json

text \<open>\<open>mesh path division\<close> is what the requests of a path and an \<open>intrarregiao\<close> meet.\<close>

type_synonym mesh = "string \<Rightarrow> string option \<Rightarrow> nat \<Rightarrow> http_outcome"

definition or_empty :: "json \<Rightarrow> json" where
  "or_empty v = (if truthy v then v else JObject [])"

definition read_feature :: "(json \<Rightarrow> string) \<Rightarrow> json \<Rightarrow> raised + geometry_record" where
  "read_feature repr feature =
     (case and_then (get_key feature ''properties'' JNull) (\<lambda>props. and_then (get_key (or_empty props) ''codarea'' JNull) (\<lambda>code.
             and_then (get_key feature ''geometry'' JNull) (\<lambda>geometry. Inr (code, geometry)))) of
        Inl _ \<Rightarrow> Inl RaisedOther
      | Inr (code, geometry) \<Rightarrow>
          if \<not> truthy code \<or> \<not> truthy geometry then Inl provider_unavailable
          else Inr \<lparr>gr_code = py_str repr code, gr_geojson = geometry\<rparr>)"

definition read_collection :: "(json \<Rightarrow> string) \<Rightarrow> json \<Rightarrow> raised + geometry_record list" where
  "read_collection repr payload =
     (if \<not> is_dict payload \<or> jget payload ''type'' \<noteq> JString ''FeatureCollection'' then Inl provider_unavailable
      else case and_then (get_key payload ''features'' (JList [])) iter_values of
        Inl _ \<Rightarrow> Inl RaisedOther
      | Inr items \<Rightarrow> map_each (read_feature repr) items)"

definition fetch_mesh :: "(json \<Rightarrow> string) \<Rightarrow> mesh \<Rightarrow> string \<Rightarrow> string option \<Rightarrow> raised + geometry_record list" where
  "fetch_mesh repr net path division = and_then (fst (get_json path (net path division))) (read_collection repr)"

definition single :: "geometry_record list \<Rightarrow> raised + geometry_record" where
  "single records = (case records of [r] \<Rightarrow> Inr r | _ \<Rightarrow> Inl provider_unavailable)"

definition COUNTRY_PATH :: string where "COUNTRY_PATH = ''/api/v3/malhas/paises/BR''"

definition fetch_municipalities_of_state :: "(json \<Rightarrow> string) \<Rightarrow> mesh \<Rightarrow> string \<Rightarrow> raised + geometry_record list" where
  "fetch_municipalities_of_state repr net state =
     fetch_mesh repr net (''/api/v3/malhas/estados/'' @ state) (Some ''municipio'')"

fun fetch_level :: "(json \<Rightarrow> string) \<Rightarrow> mesh \<Rightarrow> territory_level \<Rightarrow> raised + geometry_record list" where
  "fetch_level repr net Country =
     and_then (fetch_mesh repr net COUNTRY_PATH None) (\<lambda>records. and_then (single records) (\<lambda>r. Inr [r]))"
| "fetch_level repr net Region = fetch_mesh repr net COUNTRY_PATH (Some ''regiao'')"
| "fetch_level repr net State = fetch_mesh repr net COUNTRY_PATH (Some ''UF'')"
| "fetch_level repr net Municipality = Inl RaisedOther"

section \<open>The statements\<close>

text \<open>
  PostGIS: the polygons of a GeoJSON, made valid (\<open>None\<close>: the text is refused and the statement fails), whether a
  geometry is empty, its points, its simplification (\<open>None\<close>: \<open>NULL\<close>) and its bounds.
\<close>

record postgis =
  pg_polygons :: "json \<Rightarrow> geometry option"
  pg_is_empty :: "geometry \<Rightarrow> bool"
  pg_points :: "geometry \<Rightarrow> int"
  pg_simplify :: "real \<Rightarrow> geometry \<Rightarrow> geometry option"
  pg_bounds :: "geometry \<Rightarrow> real \<times> real \<times> real \<times> real"

definition same_geometry :: "territory_geometry \<Rightarrow> territory_geometry \<Rightarrow> bool" where
  "same_geometry a b \<longleftrightarrow> g_territory_id a = g_territory_id b \<and> g_lod a = g_lod b"

definition merge_canonical :: "territory_geometry \<Rightarrow> territory_geometry \<Rightarrow> territory_geometry" where
  "merge_canonical excluded target =
     target\<lparr>g_geom := g_geom excluded, g_vertex_count := g_vertex_count excluded, g_dataset_id := g_dataset_id excluded\<rparr>"

definition merge_derived :: "territory_geometry \<Rightarrow> territory_geometry \<Rightarrow> territory_geometry" where
  "merge_derived excluded target =
     target\<lparr>g_geom := g_geom excluded, g_simplify_tolerance := g_simplify_tolerance excluded,
       g_vertex_count := g_vertex_count excluded, g_dataset_id := g_dataset_id excluded\<rparr>"

text \<open>\<open>_UPSERT_CANONICAL_SQL\<close>, with whether it wrote a row; the GeoJSON is read for the row of its territory.\<close>

definition upsert_canonical :: "postgis \<Rightarrow> int \<Rightarrow> geometry_record \<Rightarrow> db \<Rightarrow> raised + bool \<times> db" where
  "upsert_canonical pg dataset r d =
     (case select_first (\<lambda>t. t_ibge_code t = gr_code r) (territories d) of
        None \<Rightarrow> Inr (False, d)
      | Some t \<Rightarrow>
          (case pg_polygons pg (gr_geojson r) of
             None \<Rightarrow> Inl RaisedOther
           | Some g \<Rightarrow>
               if pg_is_empty pg g then Inr (False, d)
               else Inr (True, d\<lparr>territory_geometries := insert_or_update same_geometry merge_canonical
                 \<lparr>g_territory_id = t_id t, g_lod = Canonical, g_geom = g, g_simplify_tolerance = None,
                   g_vertex_count = pg_points pg g, g_dataset_id = Some dataset\<rparr> (territory_geometries d)\<rparr>)))"

definition resolved :: "postgis \<Rightarrow> real \<Rightarrow> geometry \<Rightarrow> geometry" where
  "resolved pg tolerance g =
     (case pg_simplify pg tolerance g of None \<Rightarrow> g | Some s \<Rightarrow> if pg_is_empty pg s then g else s)"

text \<open>\<open>_DERIVE_LOD_SQL\<close>: every canonical geometry of a level, simplified under its own level of detail.\<close>

definition lod_rows :: "postgis \<Rightarrow> geometry_lod \<Rightarrow> real \<Rightarrow> territory_level \<Rightarrow> int \<Rightarrow> db \<Rightarrow> territory_geometry list" where
  "lod_rows pg lod tolerance level dataset d =
     [\<lparr>g_territory_id = g_territory_id g, g_lod = lod, g_geom = resolved pg tolerance (g_geom g),
        g_simplify_tolerance = Some tolerance, g_vertex_count = pg_points pg (resolved pg tolerance (g_geom g)),
        g_dataset_id = Some dataset\<rparr>.
      g \<leftarrow> territory_geometries d, t \<leftarrow> territories d,
      t_id t = g_territory_id g \<and> g_lod g = Canonical \<and> t_level t = level]"

definition derive_lod :: "postgis \<Rightarrow> geometry_lod \<Rightarrow> real \<Rightarrow> territory_level \<Rightarrow> int \<Rightarrow> db \<Rightarrow> db" where
  "derive_lod pg lod tolerance level dataset d =
     d\<lparr>territory_geometries :=
       fold (insert_or_update same_geometry merge_derived) (lod_rows pg lod tolerance level dataset d) (territory_geometries d)\<rparr>"

definition update_bbox :: "postgis \<Rightarrow> db \<Rightarrow> db" where
  "update_bbox pg d =
     d\<lparr>territories := List.map (\<lambda>t.
       case select_first (\<lambda>g. g_territory_id g = t_id t \<and> g_lod g = Canonical) (territory_geometries d) of
         None \<Rightarrow> t
       | Some g \<Rightarrow> (case pg_bounds pg (g_geom g) of (west, south, east, north) \<Rightarrow>
           t\<lparr>t_west := Some west, t_south := Some south, t_east := Some east, t_north := Some north\<rparr>)) (territories d)\<rparr>"

definition missing_geometry :: "(string \<Rightarrow> string) \<Rightarrow> db \<Rightarrow> territory list" where
  "missing_geometry collate d =
     sort_key (\<lambda>t. (t_level t, collate (t_ibge_code t)))
       (filter (\<lambda>t. \<not> list_ex (\<lambda>g. g_territory_id g = t_id t \<and> g_lod g = Canonical) (territory_geometries d)) (territories d))"

text \<open>\<open>_VERTEX_REPORT_SQL\<close>: the geometries and their points, by level and level of detail, in the order of the types.\<close>

definition vertex_report :: "db \<Rightarrow> ((territory_level \<times> geometry_lod) \<times> nat \<times> int) list" where
  "vertex_report d =
     (let rows = [((t_level t, g_lod g), g_vertex_count g). g \<leftarrow> territory_geometries d, t \<leftarrow> territories d, t_id t = g_territory_id g] in
      [(key, length (filter (\<lambda>r. fst r = key) rows), sum_list (List.map snd (filter (\<lambda>r. fst r = key) rows))).
       key \<leftarrow> [(level, lod). level \<leftarrow> [Country, Region, State, Municipality], lod \<leftarrow> [Canonical, Overview, Detail]],
       key \<in> fst ` set rows])"


section \<open>The job\<close>

record geometry_env =
  gv_repr :: "json \<Rightarrow> string"
  gv_net :: mesh
  gv_postgis :: postgis
  gv_collate :: "string \<Rightarrow> string"
  gv_message :: "raised \<Rightarrow> string"
  gv_overview_tolerance :: real
  gv_detail_tolerance :: real
  gv_max_concurrency :: int
  gv_dataset :: dataset
  gv_show_summary :: "((territory_level \<times> geometry_lod) \<times> nat \<times> int) list \<Rightarrow> string"
  gv_show_missing :: "territory list \<Rightarrow> string"

definition failed_scope :: "string \<Rightarrow> string \<Rightarrow> run_report \<Rightarrow> run_report" where
  "failed_scope scope message rep = (let rep1 = record_failure scope message rep in rep1\<lparr>rp_failed := rp_failed rep1 + 1\<rparr>)"

text \<open>The records of one commit: what was written, or the failure; the report keeps what was counted on the way.\<close>

fun store_records ::
    "postgis \<Rightarrow> int \<Rightarrow> geometry_record list \<Rightarrow> nat \<Rightarrow> run_report \<Rightarrow> db \<Rightarrow> (raised + nat \<times> db) \<times> run_report" where
  "store_records pg dataset [] written rep d = (Inr (written, d), rep)"
| "store_records pg dataset (r # rs) written rep d =
     (let rep1 = rep\<lparr>rp_processed := rp_processed rep + 1\<rparr> in
      case upsert_canonical pg dataset r d of
        Inl e \<Rightarrow> (Inl e, rep1)
      | Inr (True, d1) \<Rightarrow> store_records pg dataset rs (written + 1) rep1 d1
      | Inr (False, d1) \<Rightarrow>
          store_records pg dataset rs written (failed_scope (''geometry:'' @ gr_code r) ''territorio inexistente no banco'' rep1) d1)"

definition store_canonical ::
    "postgis \<Rightarrow> int \<Rightarrow> geometry_record list \<Rightarrow> run_report \<Rightarrow> db \<Rightarrow> (raised + nat) \<times> run_report \<times> db" where
  "store_canonical pg dataset records rep d =
     (case store_records pg dataset records 0 rep d of
        (Inl e, rep1) \<Rightarrow> (Inl e, rep1, d)
      | (Inr (written, d1), rep1) \<Rightarrow> (Inr written, rep1, d1))"

definition derive_lods :: "geometry_env \<Rightarrow> territory_level \<Rightarrow> int \<Rightarrow> db \<Rightarrow> db" where
  "derive_lods n level dataset d =
     derive_lod (gv_postgis n) Detail (gv_detail_tolerance n) level dataset
       (derive_lod (gv_postgis n) Overview (gv_overview_tolerance n) level dataset d)"

definition state_codes :: "(string \<Rightarrow> string) \<Rightarrow> string list option \<Rightarrow> db \<Rightarrow> raised + string list" where
  "state_codes collate requested d =
     (let wanted = (case requested of None \<Rightarrow> [] | Some cs \<Rightarrow> cs);
          codes = List.map t_ibge_code (sort_key (\<lambda>t. collate (t_ibge_code t))
            (filter (\<lambda>t. t_level t = State \<and> (wanted = [] \<or> t_ibge_code t \<in> set wanted)) (territories d))) in
      if list_all (\<lambda>c. c \<in> set codes) wanted then Inr codes else Inl RaisedOther)"

fun import_each_state ::
    "geometry_env \<Rightarrow> int \<Rightarrow> (string \<times> (raised + geometry_record list)) list \<Rightarrow> nat \<Rightarrow> run_report \<Rightarrow> db
     \<Rightarrow> (raised + nat) \<times> run_report \<times> db" where
  "import_each_state n dataset [] written rep d = (Inr written, rep, d)"
| "import_each_state n dataset ((code, result) # rest) written rep d =
     (case result of
        Inl e \<Rightarrow> import_each_state n dataset rest written (failed_scope (''state:'' @ code) (gv_message n e) rep) d
      | Inr records \<Rightarrow>
          (case store_canonical (gv_postgis n) dataset records rep d of
             (Inl e, rep1, d1) \<Rightarrow> (Inl e, rep1, d1)
           | (Inr stored, rep1, d1) \<Rightarrow> import_each_state n dataset rest (written + stored) rep1 d1))"

text \<open>The states of a batch are asked at once and taken in order.\<close>

definition import_municipalities ::
    "geometry_env \<Rightarrow> int \<Rightarrow> string list \<Rightarrow> run_report \<Rightarrow> db \<Rightarrow> (raised + nat) \<times> run_report \<times> db" where
  "import_municipalities n dataset codes rep d =
     import_each_state n dataset
       (List.map (\<lambda>code. (code, fetch_municipalities_of_state (gv_repr n) (gv_net n) code))
         (concat (batches (nat (max 1 (gv_max_concurrency n))) codes))) 0 rep d"

definition import_level ::
    "geometry_env \<Rightarrow> int \<Rightarrow> territory_level \<Rightarrow> run_report \<Rightarrow> db \<Rightarrow> (raised + unit) \<times> run_report \<times> db" where
  "import_level n dataset level rep d =
     (case fetch_level (gv_repr n) (gv_net n) level of
        Inl e \<Rightarrow>
          if is_provider_error e then (Inr (), failed_scope (''level:'' @ level_value level) (gv_message n e) rep, d)
          else (Inl e, rep, d)
      | Inr records \<Rightarrow>
          (case store_canonical (gv_postgis n) dataset records rep d of
             (Inl e, rep1, d1) \<Rightarrow> (Inl e, rep1, d1)
           | (Inr written, rep1, d1) \<Rightarrow>
               (Inr (), rep1\<lparr>rp_written := rp_written rep1 + int written\<rparr>, derive_lods n level dataset d1)))"

fun import_aggregates ::
    "geometry_env \<Rightarrow> int \<Rightarrow> territory_level list \<Rightarrow> run_report \<Rightarrow> db \<Rightarrow> (raised + unit) \<times> run_report \<times> db" where
  "import_aggregates n dataset [] rep d = (Inr (), rep, d)"
| "import_aggregates n dataset (level # levels) rep d =
     (case import_level n dataset level rep d of
        (Inl e, rep1, d1) \<Rightarrow> (Inl e, rep1, d1)
      | (Inr _, rep1, d1) \<Rightarrow> import_aggregates n dataset levels rep1 d1)"

definition import_local ::
    "geometry_env \<Rightarrow> int \<Rightarrow> string list option \<Rightarrow> run_report \<Rightarrow> db \<Rightarrow> (raised + unit) \<times> run_report \<times> db" where
  "import_local n dataset states rep d =
     (case state_codes (gv_collate n) states d of
        Inl e \<Rightarrow> (Inl e, rep, d)
      | Inr codes \<Rightarrow>
          (case import_municipalities n dataset codes rep d of
             (Inl e, rep1, d1) \<Rightarrow> (Inl e, rep1, d1)
           | (Inr written, rep1, d1) \<Rightarrow>
               (Inr (), rep1\<lparr>rp_written := rp_written rep1 + int written\<rparr>, derive_lods n Municipality dataset d1)))"

definition report_vertices :: "geometry_env \<Rightarrow> run_report \<Rightarrow> db \<Rightarrow> run_report" where
  "report_vertices n rep d =
     rep\<lparr>rp_details := AList.update ''missing_geometry'' (gv_show_missing n (missing_geometry (gv_collate n) d))
       (AList.update ''geometry_summary'' (gv_show_summary n (vertex_report d)) (rp_details rep))\<rparr>"

text \<open>
  The body of the job. Each commit stays, so that an error leaves what was committed before it: the result is the exit
  code or the error, with the report and the database.
\<close>

definition import_geometries ::
    "geometry_env \<Rightarrow> bool \<Rightarrow> string list option \<Rightarrow> int \<Rightarrow> db \<Rightarrow> (raised + int) \<times> run_report \<times> db" where
  "import_geometries n skip states run d =
     (case upsert_dataset (gv_dataset n) d of (dataset, d0) \<Rightarrow>
       (case import_aggregates n dataset [Country, Region, State] new_report d0 of
          (Inl e, rep1, d1) \<Rightarrow> (Inl e, rep1, d1)
        | (Inr _, rep1, d1) \<Rightarrow>
            (case (if skip then (Inr (), rep1, d1) else import_local n dataset states rep1 d1) of
               (Inl e, rep2, d2) \<Rightarrow> (Inl e, rep2, d2)
             | (Inr _, rep2, d2) \<Rightarrow>
                 (let d3 = update_bbox (gv_postgis n) d2; rep3 = report_vertices n rep2 d3 in
                  (Inr (if rp_failures rep3 = [] then 0 else 1), rep3, d3)))))"

text \<open>The option \<open>--states\<close>.\<close>

definition parse_states :: "string \<Rightarrow> string list option" where
  "parse_states arg = (if arg = [] then None else Some (List.map py_strip (py_split (CHR '','') arg)))"

end
