(* ===== verification/Geometry_Laws.thy ===== *)
theory Geometry_Laws
  imports Geometries Education_Witnesses Weather_Feed_Witnesses
begin

text \<open>
  The import of the geometries keeps the table consistent, also when it fails on the way, and leaves the levels of
  detail and the bounds in step with the geometries they derive from.
\<close>

section \<open>The table\<close>

interpretation canonical_table: upsert_table same_geometry "insert_ignore same_geometry"
    "insert_or_update same_geometry merge_canonical" merge_canonical
  by (rule insert_or_update_table) (auto simp: same_geometry_def merge_canonical_def)

interpretation derived_table: upsert_table same_geometry "insert_ignore same_geometry"
    "insert_or_update same_geometry merge_derived" merge_derived
  by (rule insert_or_update_table) (auto simp: same_geometry_def merge_derived_def)

definition geometry_ok :: "postgis \<Rightarrow> territory list \<Rightarrow> territory_geometry \<Rightarrow> bool" where
  "geometry_ok pg ts g \<longleftrightarrow> g_territory_id g \<in> t_id ` set ts \<and> \<not> pg_is_empty pg (g_geom g) \<and>
     g_vertex_count g = pg_points pg (g_geom g) \<and> (g_lod g = Canonical \<longleftrightarrow> g_simplify_tolerance g = None)"

definition geometries_ok :: "postgis \<Rightarrow> db \<Rightarrow> bool" where
  "geometries_ok pg d \<longleftrightarrow> no_conflicts same_geometry (territory_geometries d) \<and>
     (\<forall>g \<in> set (territory_geometries d). geometry_ok pg (territories d) g)"

text \<open>What every step of the job does: no territory changes, no row is lost and the table stays consistent.\<close>

definition kept :: "postgis \<Rightarrow> db \<Rightarrow> db \<Rightarrow> bool" where
  "kept pg d d' \<longleftrightarrow> territories d' = territories d \<and>
     (\<forall>g \<in> set (territory_geometries d). \<exists>g' \<in> set (territory_geometries d'). same_geometry g g') \<and>
     (geometries_ok pg d \<longrightarrow> geometries_ok pg d')"

lemma kept_refl: "kept pg d d"
  by (auto simp: kept_def same_geometry_def)

lemma kept_trans: "kept pg d d1 \<Longrightarrow> kept pg d1 d2 \<Longrightarrow> kept pg d d2"
  unfolding kept_def by (metis canonical_table.conflict_trans)

text \<open>A statement that puts a good row into the table keeps it.\<close>

lemma ups_ok:
  assumes "\<forall>g \<in> set t. geometry_ok pg ts g" and "geometry_ok pg ts r"
    and "\<And>x. x \<in> set t \<Longrightarrow> same_geometry r x \<Longrightarrow> geometry_ok pg ts (upd r x)"
  shows "\<forall>g \<in> set (insert_or_update same_geometry upd r t). geometry_ok pg ts g"
  using assms by (auto simp: insert_or_update_def)

lemma merged_ok:
  assumes "geometry_ok pg ts r" and "geometry_ok pg ts x" and "same_geometry r x"
  shows "g_lod r = Canonical \<Longrightarrow> geometry_ok pg ts (merge_canonical r x)" and "geometry_ok pg ts (merge_derived r x)"
  using assms by (auto simp: geometry_ok_def merge_canonical_def merge_derived_def same_geometry_def)

lemma ups_carries:
  assumes "\<And>r x. same_geometry x (upd r x)"
  shows "\<forall>g \<in> set t. \<exists>g' \<in> set (insert_or_update same_geometry upd r t). same_geometry g g'"
proof
  fix g assume g: "g \<in> set t"
  show "\<exists>g' \<in> set (insert_or_update same_geometry upd r t). same_geometry g g'"
  proof (cases "list_ex (same_geometry r) t")
    case True
    then show ?thesis using g assms
      by (intro bexI [of _ "if same_geometry r g then upd r g else g"]) (auto simp: insert_or_update_def canonical_table.conflict_refl)
  next
    case False
    then show ?thesis using g by (intro bexI [of _ g]) (auto simp: insert_or_update_def canonical_table.conflict_refl)
  qed
qed

lemma upsert_canonical_kept:
  assumes "upsert_canonical pg dataset r d = Inr (written, d')"
  shows "kept pg d d'"
proof (cases "select_first (\<lambda>t. t_ibge_code t = gr_code r) (territories d)")
  case None
  then show ?thesis using assms by (simp add: upsert_canonical_def kept_refl)
next
  case (Some t)
  have t: "t \<in> set (territories d)" using select_first_Some [OF Some] by blast
  obtain g where g: "pg_polygons pg (gr_geojson r) = Some g" using assms Some by (auto simp: upsert_canonical_def split: option.splits)
  show ?thesis
  proof (cases "pg_is_empty pg g")
    case True
    then show ?thesis using assms Some g by (simp add: upsert_canonical_def kept_refl)
  next
    case False
    let ?r = "\<lparr>g_territory_id = t_id t, g_lod = Canonical, g_geom = g, g_simplify_tolerance = None,
      g_vertex_count = pg_points pg g, g_dataset_id = Some dataset\<rparr>"
    have d': "d' = d\<lparr>territory_geometries := insert_or_update same_geometry merge_canonical ?r (territory_geometries d)\<rparr>"
      using assms Some g False by (simp add: upsert_canonical_def)
    have ok: "geometry_ok pg (territories d) ?r" using t False by (simp add: geometry_ok_def)
    have "geometries_ok pg d'" if good: "geometries_ok pg d"
    proof -
      have rows: "\<forall>x \<in> set (territory_geometries d). geometry_ok pg (territories d) x" using good by (simp add: geometries_ok_def)
      have "\<forall>x \<in> set (insert_or_update same_geometry merge_canonical ?r (territory_geometries d)). geometry_ok pg (territories d) x"
        by (rule ups_ok [OF rows ok]) (use rows merged_ok(1) [OF ok] in simp)
      then show ?thesis using good canonical_table.ups_unique by (simp add: geometries_ok_def d')
    qed
    moreover have "\<forall>x \<in> set (territory_geometries d). \<exists>x' \<in> set (territory_geometries d'). same_geometry x x'"
    proof -
      have "same_geometry x (merge_canonical r x)" for r x by (simp add: same_geometry_def merge_canonical_def)
      then show ?thesis using ups_carries [of merge_canonical] by (simp add: d')
    qed
    ultimately show ?thesis by (simp add: kept_def d')
  qed
qed

lemma lod_rows_ok:
  assumes "geometries_ok pg d" and "lod \<noteq> Canonical" and "r \<in> set (lod_rows pg lod tolerance level dataset d)"
  shows "geometry_ok pg (territories d) r"
  using assms by (auto simp: lod_rows_def geometries_ok_def geometry_ok_def resolved_def split: option.splits if_splits)

lemma fold_derived:
  "(\<forall>g \<in> set t. geometry_ok pg ts g) \<Longrightarrow> (\<forall>r \<in> set rs. geometry_ok pg ts r) \<Longrightarrow>
     \<forall>g \<in> set (fold (insert_or_update same_geometry merge_derived) rs t). geometry_ok pg ts g"
proof (induction rs arbitrary: t)
  case (Cons r rs)
  have r: "geometry_ok pg ts r" using Cons.prems(2) by simp
  have "\<forall>g \<in> set (insert_or_update same_geometry merge_derived r t). geometry_ok pg ts g"
  proof (rule ups_ok [OF Cons.prems(1) r])
    fix x assume "x \<in> set t" and "same_geometry r x"
    then show "geometry_ok pg ts (merge_derived r x)" using merged_ok(2) [OF r] Cons.prems(1) by blast
  qed
  from Cons.IH [OF this] Cons.prems(2) show ?case by simp
qed simp

lemma fold_carries: "\<forall>g \<in> set t. \<exists>g' \<in> set (fold (insert_or_update same_geometry merge_derived) rs t). same_geometry g g'"
proof (induction rs arbitrary: t)
  case (Cons r rs)
  have one: "\<forall>g \<in> set t. \<exists>g' \<in> set (insert_or_update same_geometry merge_derived r t). same_geometry g g'"
    by (rule ups_carries) (simp add: same_geometry_def merge_derived_def)
  note rest = Cons.IH [of "insert_or_update same_geometry merge_derived r t"]
  show ?case
  proof
    fix g assume "g \<in> set t"
    then obtain x where x: "x \<in> set (insert_or_update same_geometry merge_derived r t)" "same_geometry g x" using one by blast
    then obtain y where "y \<in> set (fold (insert_or_update same_geometry merge_derived) rs (insert_or_update same_geometry merge_derived r t))"
      "same_geometry x y" using rest by blast
    then show "\<exists>g' \<in> set (fold (insert_or_update same_geometry merge_derived) (r # rs) t). same_geometry g g'"
      using canonical_table.conflict_trans [OF x(2)] by auto
  qed
qed (simp, blast intro: canonical_table.conflict_refl)

lemma derive_lod_kept:
  assumes "lod \<noteq> Canonical"
  shows "kept pg d (derive_lod pg lod tolerance level dataset d)"
proof -
  have "geometries_ok pg (derive_lod pg lod tolerance level dataset d)" if ok: "geometries_ok pg d"
    using fold_derived [of "territory_geometries d" pg "territories d" "lod_rows pg lod tolerance level dataset d"]
      derived_table.ups_all_unique ok lod_rows_ok [OF ok assms]
    by (simp add: geometries_ok_def derive_lod_def)
  then show ?thesis unfolding kept_def derive_lod_def using fold_carries by simp
qed

lemma derive_lods_kept: "kept (gv_postgis n) d (derive_lods n level dataset d)"
  unfolding derive_lods_def by (rule kept_trans [OF derive_lod_kept derive_lod_kept]) simp_all

section \<open>The steps of the job\<close>

lemma store_records_kept:
  "store_records pg dataset rs written rep d = (Inr (k, d'), rep') \<Longrightarrow> kept pg d d'"
proof (induction rs arbitrary: written rep d)
  case (Cons r rs)
  obtain b d1 where one: "upsert_canonical pg dataset r d = Inr (b, d1)"
    using Cons.prems by (cases "upsert_canonical pg dataset r d") (auto simp: Let_def)
  have "kept pg d1 d'" using Cons.prems Cons.IH by (cases b) (auto simp: one Let_def)
  then show ?case by (rule kept_trans [OF upsert_canonical_kept [OF one]])
qed (simp add: kept_refl)

lemma store_canonical_kept: "store_canonical pg dataset records rep d = (res, rep', d') \<Longrightarrow> kept pg d d'"
  by (auto simp: store_canonical_def kept_refl split: sum.splits prod.splits dest: store_records_kept)

lemma import_each_state_kept:
  "import_each_state n dataset rest written rep d = (res, rep', d') \<Longrightarrow> kept (gv_postgis n) d d'"
proof (induction rest arbitrary: written rep d)
  case (Cons cr rest)
  obtain code result where cr: "cr = (code, result)" by (cases cr)
  show ?case
  proof (cases result)
    case (Inl e)
    then show ?thesis using Cons by (simp add: cr)
  next
    case (Inr records)
    obtain r1 rep1 d1 where one: "store_canonical (gv_postgis n) dataset records rep d = (r1, rep1, d1)" by (metis surj_pair)
    note first = store_canonical_kept [OF one]
    show ?thesis
    proof (cases r1)
      case (Inl e)
      then show ?thesis using Cons.prems first by (simp add: cr Inr one)
    next
      case (Inr k)
      then show ?thesis using Cons.prems Cons.IH kept_trans [OF first] by (simp add: cr \<open>result = Inr records\<close> one)
    qed
  qed
qed (simp add: kept_refl)

lemma import_level_kept:
  assumes "import_level n dataset level rep d = (res, rep', d')"
  shows "kept (gv_postgis n) d d'"
proof (cases "fetch_level (gv_repr n) (gv_net n) level")
  case (Inl e)
  then show ?thesis using assms by (auto simp: import_level_def kept_refl split: if_splits)
next
  case (Inr records)
  obtain r1 rep1 d1 where one: "store_canonical (gv_postgis n) dataset records rep d = (r1, rep1, d1)" by (metis surj_pair)
  note first = store_canonical_kept [OF one]
  show ?thesis
  proof (cases r1)
    case (Inl e)
    then have "d' = d1" using assms by (simp add: import_level_def Inr one)
    then show ?thesis using first by simp
  next
    case (Inr k)
    then have "d' = derive_lods n level dataset d1" using assms by (simp add: import_level_def \<open>fetch_level (gv_repr n) (gv_net n) level = Inr records\<close> one)
    then show ?thesis using kept_trans [OF first derive_lods_kept] by simp
  qed
qed

lemma import_aggregates_kept: "import_aggregates n dataset levels rep d = (res, rep', d') \<Longrightarrow> kept (gv_postgis n) d d'"
proof (induction levels arbitrary: rep d)
  case (Cons level levels)
  obtain r1 rep1 d1 where one: "import_level n dataset level rep d = (r1, rep1, d1)" by (metis surj_pair)
  note first = import_level_kept [OF one]
  show ?case
  proof (cases r1)
    case (Inl e)
    then have "d' = d1" using Cons.prems by (simp add: one)
    then show ?thesis using first by simp
  next
    case (Inr u)
    then have "import_aggregates n dataset levels rep1 d1 = (res, rep', d')" using Cons.prems by (simp add: one)
    then show ?thesis using Cons.IH kept_trans [OF first] by blast
  qed
qed (simp add: kept_refl)

lemma import_local_kept:
  assumes "import_local n dataset states rep d = (res, rep', d')"
  shows "kept (gv_postgis n) d d'"
proof (cases "state_codes (gv_collate n) states d")
  case (Inl e)
  then show ?thesis using assms by (auto simp: import_local_def kept_refl)
next
  case (Inr codes)
  obtain r1 rep1 d1 where one: "import_municipalities n dataset codes rep d = (r1, rep1, d1)" by (metis surj_pair)
  have first: "kept (gv_postgis n) d d1" using one unfolding import_municipalities_def by (rule import_each_state_kept)
  show ?thesis using assms first kept_trans [OF first derive_lods_kept]
    by (cases r1) (auto simp: import_local_def Inr one)
qed


section \<open>The levels of detail follow the geometry\<close>

text \<open>\<open>shows pg d t lod tolerance\<close>: the geometry of a territory under a level of detail is the simplification of its own.\<close>

definition derived_from_own :: "postgis \<Rightarrow> db \<Rightarrow> territory_level \<Rightarrow> geometry_lod \<Rightarrow> real \<Rightarrow> bool" where
  "derived_from_own pg d level lod tolerance \<longleftrightarrow>
     (\<forall>t \<in> set (territories d). \<forall>g \<in> set (territory_geometries d). t_level t = level \<and> g_territory_id g = t_id t \<and> g_lod g = Canonical \<longrightarrow>
        (\<exists>x \<in> set (territory_geometries d). g_territory_id x = t_id t \<and> g_lod x = lod \<and>
           g_geom x = resolved pg tolerance (g_geom g) \<and> g_simplify_tolerance x = Some tolerance))"

lemma merge_derived_same: "same_geometry r x \<Longrightarrow> merge_derived r x = r"
  by (simp add: same_geometry_def merge_derived_def)

lemma fold_lod_rows:
  "x \<in> set (fold (insert_or_update same_geometry merge_derived) rs t) \<Longrightarrow> x \<in> set rs \<or> x \<in> set t"
proof (induction rs arbitrary: t)
  case (Cons r rs)
  have "y = r \<or> y \<in> set t" if "y \<in> set (insert_or_update same_geometry merge_derived r t)" for y
    using derived_table.ups_rows [OF that] merge_derived_same by blast
  then show ?case using Cons by auto
qed simp

lemma derived_lod: "r \<in> set (lod_rows pg lod tolerance level dataset d) \<Longrightarrow> g_lod r = lod"
  by (auto simp: lod_rows_def)

text \<open>A derivation writes the rows of its own level of detail only.\<close>

lemma derive_lod_others:
  assumes "g_lod x \<noteq> lod"
  shows "x \<in> set (territory_geometries (derive_lod pg lod tolerance level dataset d)) \<longleftrightarrow> x \<in> set (territory_geometries d)"
proof
  assume "x \<in> set (territory_geometries (derive_lod pg lod tolerance level dataset d))"
  then show "x \<in> set (territory_geometries d)"
    using fold_lod_rows derived_lod assms by (fastforce simp: derive_lod_def)
next
  assume "x \<in> set (territory_geometries d)"
  moreover have "\<forall>r \<in> set (lod_rows pg lod tolerance level dataset d). \<not> same_geometry r x"
    using derived_lod assms by (auto simp: same_geometry_def)
  ultimately show "x \<in> set (territory_geometries (derive_lod pg lod tolerance level dataset d))"
    by (simp add: derive_lod_def derived_table.ups_all_others)
qed

lemma lod_rows_unique:
  assumes "no_conflicts same_geometry (territory_geometries d)" and "distinct (List.map t_id (territories d))"
  shows "no_conflicts same_geometry (lod_rows pg lod tolerance level dataset d)"
proof -
  let ?row = "\<lambda>g. \<lparr>g_territory_id = g_territory_id g, g_lod = lod, g_geom = resolved pg tolerance (g_geom g),
      g_simplify_tolerance = Some tolerance, g_vertex_count = pg_points pg (resolved pg tolerance (g_geom g)), g_dataset_id = Some dataset\<rparr>"
  let ?rows = "\<lambda>g. concat (List.map (\<lambda>t. if t_id t = g_territory_id g \<and> g_lod g = Canonical \<and> t_level t = level then [?row g] else []) (territories d))"
  have one: "length (?rows g) \<le> 1" for g
  proof -
    have "length (concat (List.map (\<lambda>t. if t_id t = g_territory_id g \<and> g_lod g = Canonical \<and> t_level t = level then [?row g] else []) ts)) \<le> 1"
      if "distinct (List.map t_id ts)" for ts
      using that
    proof (induction ts)
      case (Cons t ts)
      have "concat (List.map (\<lambda>u. if t_id u = g_territory_id g \<and> g_lod g = Canonical \<and> t_level u = level then [?row g] else []) ts) = []"
        if "t_id t = g_territory_id g"
        using Cons.prems that by (auto simp: image_iff)
      then show ?case using Cons by auto
    qed simp
    then show ?thesis using assms(2) .
  qed
  have "sorted_wrt (\<lambda>a b. \<not> same_geometry a b) (territory_geometries d)" using assms(1) by (simp add: no_conflicts_def)
  then show ?thesis unfolding no_conflicts_def lod_rows_def
  proof (rule sorted_wrt_concat_map)
    fix g h a b
    assume "\<not> same_geometry g h" and "a \<in> set (?rows g)" and "b \<in> set (?rows h)"
    then show "\<not> same_geometry a b" by (auto simp: same_geometry_def split: if_splits)
  qed (rule one)
qed

lemma derive_lod_derives:
  assumes "geometries_ok pg d" and "distinct (List.map t_id (territories d))" and "lod \<noteq> Canonical"
  shows "derived_from_own pg (derive_lod pg lod tolerance level dataset d) level lod tolerance"
  unfolding derived_from_own_def
proof (intro ballI impI)
  fix t g
  let ?d = "derive_lod pg lod tolerance level dataset d"
  assume t: "t \<in> set (territories ?d)" and g: "g \<in> set (territory_geometries ?d)"
    and match: "t_level t = level \<and> g_territory_id g = t_id t \<and> g_lod g = Canonical"
  have g0: "g \<in> set (territory_geometries d)" using g match assms(3) by (simp add: derive_lod_others)
  let ?r = "\<lparr>g_territory_id = g_territory_id g, g_lod = lod, g_geom = resolved pg tolerance (g_geom g),
      g_simplify_tolerance = Some tolerance, g_vertex_count = pg_points pg (resolved pg tolerance (g_geom g)), g_dataset_id = Some dataset\<rparr>"
  have "?r \<in> set (lod_rows pg lod tolerance level dataset d)"
    unfolding lod_rows_def using t g0 match by (auto simp: derive_lod_def intro!: bexI [of _ g] bexI [of _ t])
  moreover have "no_conflicts same_geometry (lod_rows pg lod tolerance level dataset d)"
    using assms(1,2) by (simp add: lod_rows_unique geometries_ok_def)
  ultimately have "?r \<in> set (territory_geometries ?d)"
    unfolding derive_lod_def using derived_table.ups_all_written merge_derived_same by fastforce
  then show "\<exists>x \<in> set (territory_geometries ?d). g_territory_id x = t_id t \<and> g_lod x = lod \<and>
      g_geom x = resolved pg tolerance (g_geom g) \<and> g_simplify_tolerance x = Some tolerance"
    using match by (intro bexI [of _ ?r]) simp_all
qed


lemma derived_from_own_kept:
  assumes "derived_from_own pg d level lod tolerance" and "lod \<noteq> lod2" and "lod2 \<noteq> Canonical"
  shows "derived_from_own pg (derive_lod pg lod2 tolerance2 level dataset d) level lod tolerance"
  unfolding derived_from_own_def
proof (intro ballI impI)
  fix t g
  let ?d = "derive_lod pg lod2 tolerance2 level dataset d"
  assume t: "t \<in> set (territories ?d)" and g: "g \<in> set (territory_geometries ?d)"
    and match: "t_level t = level \<and> g_territory_id g = t_id t \<and> g_lod g = Canonical"
  have "t \<in> set (territories d)" "g \<in> set (territory_geometries d)"
    using t g match assms(3) by (auto simp: derive_lod_others) (simp add: derive_lod_def)
  then obtain x where "x \<in> set (territory_geometries d)" and x: "g_territory_id x = t_id t" "g_lod x = lod"
      "g_geom x = resolved pg tolerance (g_geom g)" "g_simplify_tolerance x = Some tolerance"
    using assms(1) match by (auto simp: derived_from_own_def)
  then have "x \<in> set (territory_geometries ?d)" using assms(2) by (simp add: derive_lod_others)
  then show "\<exists>x \<in> set (territory_geometries ?d). g_territory_id x = t_id t \<and> g_lod x = lod \<and>
      g_geom x = resolved pg tolerance (g_geom g) \<and> g_simplify_tolerance x = Some tolerance"
    using x by blast
qed

lemma derive_lods_derive:
  assumes "geometries_ok (gv_postgis n) d" and "distinct (List.map t_id (territories d))"
  shows "derived_from_own (gv_postgis n) (derive_lods n level dataset d) level Overview (gv_overview_tolerance n) \<and>
    derived_from_own (gv_postgis n) (derive_lods n level dataset d) level Detail (gv_detail_tolerance n)"
proof -
  let ?d = "derive_lod (gv_postgis n) Overview (gv_overview_tolerance n) level dataset d"
  have kept: "kept (gv_postgis n) d ?d" by (rule derive_lod_kept) simp
  then have "geometries_ok (gv_postgis n) ?d" "distinct (List.map t_id (territories ?d))" using assms by (simp_all add: kept_def)
  then have "derived_from_own (gv_postgis n) (derive_lods n level dataset d) level Detail (gv_detail_tolerance n)"
    unfolding derive_lods_def by (rule derive_lod_derives) simp
  moreover have "derived_from_own (gv_postgis n) ?d level Overview (gv_overview_tolerance n)"
    by (rule derive_lod_derives [OF assms]) simp
  then have "derived_from_own (gv_postgis n) (derive_lods n level dataset d) level Overview (gv_overview_tolerance n)"
    unfolding derive_lods_def by (rule derived_from_own_kept) simp_all
  ultimately show ?thesis by blast
qed

lemma municipalities_derived:
  assumes "import_local n dataset states rep d = (Inr u, rep', d')" and "geometries_ok (gv_postgis n) d"
    and "distinct (List.map t_id (territories d))"
  shows "derived_from_own (gv_postgis n) d' Municipality Overview (gv_overview_tolerance n) \<and>
    derived_from_own (gv_postgis n) d' Municipality Detail (gv_detail_tolerance n)"
proof -
  obtain codes where codes: "state_codes (gv_collate n) states d = Inr codes"
    using assms(1) by (auto simp: import_local_def split: sum.splits)
  obtain r1 rep1 d1 where one: "import_municipalities n dataset codes rep d = (r1, rep1, d1)" by (metis surj_pair)
  then have "kept (gv_postgis n) d d1" unfolding import_municipalities_def by (rule import_each_state_kept)
  then have "geometries_ok (gv_postgis n) d1" "distinct (List.map t_id (territories d1))" using assms(2,3) by (simp_all add: kept_def)
  moreover have "d' = derive_lods n Municipality dataset d1"
    using assms(1) by (cases r1) (auto simp: import_local_def codes one)
  ultimately show ?thesis using derive_lods_derive by simp
qed

section \<open>The bounds\<close>

definition same_but_bounds :: "territory \<Rightarrow> territory \<Rightarrow> bool" where
  "same_but_bounds t u \<longleftrightarrow> u = t\<lparr>t_west := t_west u, t_south := t_south u, t_east := t_east u, t_north := t_north u\<rparr>"

definition has_bounds :: "territory \<Rightarrow> real \<times> real \<times> real \<times> real \<Rightarrow> bool" where
  "has_bounds t b \<longleftrightarrow> (case b of (west, south, east, north) \<Rightarrow>
     t_west t = Some west \<and> t_south t = Some south \<and> t_east t = Some east \<and> t_north t = Some north)"

lemma update_bbox_frame:
  "territory_geometries (update_bbox pg d) = territory_geometries d"
  "list_all2 same_but_bounds (territories d) (territories (update_bbox pg d))"
  by (simp_all add: update_bbox_def list_all2_map2 list_all2_same same_but_bounds_def split: option.split prod.split)

lemma update_bbox_ok:
  assumes "geometries_ok pg d"
  shows "geometries_ok pg (update_bbox pg d)"
proof -
  have "List.map t_id (territories (update_bbox pg d)) = List.map t_id (territories d)"
    by (simp add: update_bbox_def comp_def split: option.split prod.split)
  then have "t_id ` set (territories (update_bbox pg d)) = t_id ` set (territories d)" by (metis set_map)
  then show ?thesis using assms by (simp add: geometries_ok_def geometry_ok_def update_bbox_frame)
qed

lemma update_bbox_bounds:
  assumes "no_conflicts same_geometry (territory_geometries d)" and "t \<in> set (territories (update_bbox pg d))"
    and "g \<in> set (territory_geometries d)" and "g_territory_id g = t_id t" and "g_lod g = Canonical"
  shows "has_bounds t (pg_bounds pg (g_geom g))"
proof -
  obtain t0 where t0: "t0 \<in> set (territories d)" and t: "t = (case select_first (\<lambda>g. g_territory_id g = t_id t0 \<and> g_lod g = Canonical)
      (territory_geometries d) of None \<Rightarrow> t0
      | Some g \<Rightarrow> (case pg_bounds pg (g_geom g) of (west, south, east, north) \<Rightarrow>
          t0\<lparr>t_west := Some west, t_south := Some south, t_east := Some east, t_north := Some north\<rparr>))"
    using assms(2) by (auto simp: update_bbox_def)
  then have id: "t_id t = t_id t0" by (simp split: option.split prod.split)
  have "select_first (\<lambda>g. g_territory_id g = t_id t0 \<and> g_lod g = Canonical) (territory_geometries d) = Some g"
  proof (rule select_first_unique [OF assms(3)])
    fix x assume x: "x \<in> set (territory_geometries d)" and "g_territory_id x = t_id t0 \<and> g_lod x = Canonical"
    then have "same_geometry x g" "same_geometry g x" using assms(4,5) id by (simp_all add: same_geometry_def)
    then show "x = g" by (rule no_conflicts_unique [OF assms(1) x assms(3)])
  qed (use assms(4,5) id in simp)
  then show ?thesis by (simp add: t has_bounds_def split: prod.split)
qed

lemma derived_from_own_bbox: "derived_from_own pg d level lod tolerance \<Longrightarrow> derived_from_own pg (update_bbox pg d) level lod tolerance"
proof -
  assume own: "derived_from_own pg d level lod tolerance"
  have "\<exists>u \<in> set (territories d). t_id u = t_id t \<and> t_level u = t_level t" if "t \<in> set (territories (update_bbox pg d))" for t
    using that by (auto simp: update_bbox_def split: option.split prod.split)
  then show ?thesis using own unfolding derived_from_own_def update_bbox_frame by metis
qed


text \<open>
  Property C34. The import of the geometries. However it ends, also by an error on the way, the table has one row per
  territory and level of detail, of an existing territory, with a geometry that is not empty, its number of points, and
  a tolerance exactly when it is not the canonical one; no row is lost and territories change in their bounds at most.
  When it ends, the exit code is 0 exactly when nothing failed, every territory with a canonical geometry has its
  bounds, and, unless the municipalities were skipped, the overview and the detail of each municipality are the
  simplifications of its canonical geometry.
\<close>

theorem geometries_stay_consistent:
  assumes "import_geometries n skip states run d = (result, rep, d')" and "geometries_ok (gv_postgis n) d"
    and "distinct (List.map t_id (territories d))"
  shows "geometries_ok (gv_postgis n) d' \<and> list_all2 same_but_bounds (territories d) (territories d') \<and>
    (\<forall>g \<in> set (territory_geometries d). \<exists>g' \<in> set (territory_geometries d'). same_geometry g g') \<and>
    (\<forall>code. result = Inr code \<longrightarrow> (code = 0 \<longleftrightarrow> rp_failures rep = []) \<and>
       (\<forall>t \<in> set (territories d'). \<forall>g \<in> set (territory_geometries d'). g_territory_id g = t_id t \<and> g_lod g = Canonical \<longrightarrow>
          has_bounds t (pg_bounds (gv_postgis n) (g_geom g))) \<and>
       (\<not> skip \<longrightarrow> derived_from_own (gv_postgis n) d' Municipality Overview (gv_overview_tolerance n) \<and>
          derived_from_own (gv_postgis n) d' Municipality Detail (gv_detail_tolerance n)))"
proof -
  let ?pg = "gv_postgis n"
  obtain dataset d0 where d0: "upsert_dataset (gv_dataset n) d = (dataset, d0)" by (metis surj_pair)
  have "territories d0 = territories d" "territory_geometries d0 = territory_geometries d"
    using d0 by (auto simp: upsert_dataset_def Let_def)
  then have "kept ?pg d d0" using kept_refl [of ?pg d] by (simp add: kept_def geometries_ok_def)
  moreover obtain r1 rep1 d1 where one: "import_aggregates n dataset [Country, Region, State] new_report d0 = (r1, rep1, d1)" by (metis surj_pair)
  ultimately have k1: "kept ?pg d d1" using import_aggregates_kept kept_trans by blast
  obtain r2 rep2 d2 where two: "(if skip then (Inr (), rep1, d1) else import_local n dataset states rep1 d1) = (r2, rep2, d2)" by (metis surj_pair)
  have k2: "kept ?pg d d2"
    using k1 two kept_trans [OF k1 import_local_kept] by (cases skip) simp_all
  have frame: "list_all2 same_but_bounds ts ts" for ts by (simp add: list_all2_same same_but_bounds_def)
  show ?thesis
  proof (cases "isl r1 \<or> isl r2")
    case True
    have "isl result \<and> (d' = d1 \<or> d' = d2)"
    proof (cases r1)
      case (Inl e)
      then show ?thesis using assms(1) by (auto simp: import_geometries_def d0 one simp del: import_aggregates.simps)
    next
      case (Inr u)
      then obtain e where "r2 = Inl e" using True by (auto simp: isl_def)
      then show ?thesis using assms(1) two by (auto simp: import_geometries_def d0 one Inr simp del: import_aggregates.simps)
    qed
    then show ?thesis using k1 k2 assms(2) frame unfolding kept_def by (metis isl_def sum.disc(2))
  next
    case False
    then obtain u1 u2 where r: "r1 = Inr u1" "r2 = Inr u2" by (cases r1; cases r2) auto
    have rep: "result = Inr (if rp_failures rep = [] then 0 else 1)" and d': "d' = update_bbox ?pg d2"
      using assms(1) two by (auto simp: import_geometries_def d0 one r Let_def simp del: import_aggregates.simps)
    have ok2: "geometries_ok ?pg d2" "territories d2 = territories d" using k2 assms(2) by (auto simp: kept_def)
    have bounds: "\<forall>t \<in> set (territories d'). \<forall>g \<in> set (territory_geometries d'). g_territory_id g = t_id t \<and> g_lod g = Canonical \<longrightarrow>
        has_bounds t (pg_bounds ?pg (g_geom g))"
      unfolding d' update_bbox_frame using update_bbox_bounds ok2(1) by (auto simp: geometries_ok_def)
    have "derived_from_own ?pg d' Municipality Overview (gv_overview_tolerance n) \<and>
        derived_from_own ?pg d' Municipality Detail (gv_detail_tolerance n)" if "\<not> skip"
      using municipalities_derived [of n dataset states rep1 d1 u2 rep2 d2] two r that k1 assms(2,3) derived_from_own_bbox
      unfolding d' kept_def by auto
    moreover have "\<forall>g \<in> set (territory_geometries d). \<exists>g' \<in> set (territory_geometries d'). same_geometry g g'"
      using k2 unfolding d' update_bbox_frame kept_def by blast
    ultimately show ?thesis using bounds update_bbox_ok [OF ok2(1)] update_bbox_frame(2) [of d2 ?pg] ok2(2) rep by (simp add: d')
  qed
qed

section \<open>A concrete run\<close>

definition mesh0 :: json where
  "mesh0 = JObject [(''type'', JString ''FeatureCollection''),
     (''features'', JList [JObject [(''properties'', JObject [(''codarea'', JString ''3550308'')]),
        (''geometry'', JObject [(''type'', JString ''Polygon'')])]])]"

definition postgis0 :: postgis where
  "postgis0 = \<lparr>pg_polygons = \<lambda>_. Some ''polygon'', pg_is_empty = \<lambda>g. g = [], pg_points = \<lambda>g. int (length g),
     pg_simplify = \<lambda>_ g. Some (take 4 g), pg_bounds = \<lambda>_. (0, 0, 1, 1)\<rparr>"

definition geometry_env0 :: geometry_env where
  "geometry_env0 = \<lparr>gv_repr = \<lambda>_. [], gv_net = \<lambda>_ _. answer mesh0, gv_postgis = postgis0, gv_collate = id, gv_message = \<lambda>_. [],
     gv_overview_tolerance = 2, gv_detail_tolerance = 1, gv_max_concurrency = 4, gv_dataset = dataset0, gv_show_summary = \<lambda>_. [],
     gv_show_missing = \<lambda>_. []\<rparr>"

definition feature0 :: geometry_record where
  "feature0 = \<lparr>gr_code = ''3550308'', gr_geojson = JObject [(''type'', JString ''Polygon'')]\<rparr>"

lemma collection_read: "fetch_mesh (gv_repr geometry_env0) (gv_net geometry_env0) path division = Inr [feature0]"
  by (simp add: fetch_mesh_def geometry_env0_def get_json_answer read_collection_def mesh0_def jget_def read_feature_def or_empty_def feature0_def)

lemma levels_read:
  "fetch_level (gv_repr geometry_env0) (gv_net geometry_env0) Country = Inr [feature0]"
  "fetch_level (gv_repr geometry_env0) (gv_net geometry_env0) Region = Inr [feature0]"
  "fetch_level (gv_repr geometry_env0) (gv_net geometry_env0) State = Inr [feature0]"
  by (simp_all add: collection_read single_def)

definition own_geometry :: territory_geometry where
  "own_geometry = \<lparr>g_territory_id = 2, g_lod = Canonical, g_geom = ''polygon'', g_simplify_tolerance = None, g_vertex_count = 7,
     g_dataset_id = Some 1\<rparr>"

lemma feature_stored:
  assumes "territories d = territories two_places" and "territory_geometries d = [] \<or> territory_geometries d = [own_geometry]"
  shows "store_canonical postgis0 1 [feature0] rep d =
    (Inr 1, rep\<lparr>rp_processed := rp_processed rep + 1\<rparr>, d\<lparr>territory_geometries := [own_geometry]\<rparr>)"
  using assms
  by (auto simp: store_canonical_def upsert_canonical_def feature0_def two_places_def brazil_def select_first_def postgis0_def
      insert_or_update_def same_geometry_def merge_canonical_def own_geometry_def Let_def)


lemma nothing_derived:
  assumes "territories d = territories two_places" and "territory_geometries d = [own_geometry]" and "level \<noteq> Municipality"
  shows "derive_lods n level dataset d = d"
proof -
  have "lod_rows pg lod tolerance level dataset d = []" for pg lod tolerance
    using assms by (auto simp: lod_rows_def two_places_def brazil_def own_geometry_def)
  then have "derive_lod pg lod tolerance level dataset d = d" for pg lod tolerance by (simp add: derive_lod_def)
  then show ?thesis by (simp add: derive_lods_def)
qed

lemma level_imported:
  assumes "territories d = territories two_places" and "territory_geometries d = [] \<or> territory_geometries d = [own_geometry]"
    and "level \<in> {Country, Region, State}"
  shows "import_level geometry_env0 1 level rep d = (Inr (), rep\<lparr>rp_processed := rp_processed rep + 1, rp_written := rp_written rep + 1\<rparr>,
    d\<lparr>territory_geometries := [own_geometry]\<rparr>)"
proof -
  have "fetch_level (gv_repr geometry_env0) (gv_net geometry_env0) level = Inr [feature0]" using assms(3) levels_read by auto
  moreover have "gv_postgis geometry_env0 = postgis0" by (simp add: geometry_env0_def)
  moreover have "level \<noteq> Municipality" using assms(3) by auto
  ultimately show ?thesis using assms(1)
    by (simp add: import_level_def feature_stored [OF assms(1,2)] nothing_derived)
qed

definition geometry_run :: "(raised + int) \<times> run_report \<times> db" where
  "geometry_run = import_geometries geometry_env0 False None 1 two_places"

lemma geometry_run_ok: "fst geometry_run = Inr 0 \<and> own_geometry \<in> set (territory_geometries (snd (snd geometry_run)))"
proof -
  obtain d0 where d0: "upsert_dataset (gv_dataset geometry_env0) two_places = (1, d0)"
    and same: "territories d0 = territories two_places" "territory_geometries d0 = []"
    by (simp add: upsert_dataset_def geometry_env0_def dataset0_def two_places_def empty_db_def insert_or_update_def select_first_def
        same_dataset_def Let_def)
  let ?d1 = "d0\<lparr>territory_geometries := [own_geometry]\<rparr>"
  obtain rep1 where one: "import_aggregates geometry_env0 1 [Country, Region, State] new_report d0 = (Inr (), rep1, ?d1)"
      and ok1: "rp_failures rep1 = []"
    using same by (simp add: level_imported new_report_def)
  have codes: "state_codes (gv_collate geometry_env0) None ?d1 = Inr []"
    using same by (simp add: state_codes_def two_places_def brazil_def)
  have rest: "import_municipalities geometry_env0 1 [] rep1 ?d1 = (Inr 0, rep1, ?d1)"
    by (simp add: import_municipalities_def batches.simps)
  let ?d2 = "derive_lods geometry_env0 Municipality 1 ?d1"
  have rows: "own_geometry \<in> set (territory_geometries ?d2)"
    by (simp add: derive_lods_def derive_lod_others own_geometry_def)
  have places: "territories ?d2 = territories two_places" using same by (simp add: derive_lods_def derive_lod_def)
  have two: "import_local geometry_env0 1 None rep1 ?d1 = (Inr (), rep1, ?d2)"
    by (simp add: import_local_def codes rest)
  have pg: "gv_postgis geometry_env0 = postgis0" by (simp add: geometry_env0_def)
  have run: "geometry_run = (Inr 0, report_vertices geometry_env0 rep1 (update_bbox postgis0 ?d2), update_bbox postgis0 ?d2)"
    using ok1 by (simp add: geometry_run_def import_geometries_def d0 one two Let_def report_vertices_def pg
        del: import_aggregates.simps)
  show ?thesis using rows by (simp add: run update_bbox_frame)
qed


theorem geometries_stay_consistent_witness:
  "\<exists>x \<in> set (territory_geometries (snd (snd geometry_run))). g_territory_id x = 2 \<and> g_lod x = Detail \<and> g_geom x = ''poly''"
proof -
  obtain rep d' where run: "import_geometries geometry_env0 False None 1 two_places = (Inr 0, rep, d')"
    and own: "own_geometry \<in> set (territory_geometries d')" and d': "snd (snd geometry_run) = d'"
    using geometry_run_ok by (cases geometry_run) (auto simp: geometry_run_def)
  have fields: "gv_postgis geometry_env0 = postgis0" by (simp add: geometry_env0_def)
  have ok: "geometries_ok (gv_postgis geometry_env0) two_places" by (simp add: geometries_ok_def two_places_def empty_db_def)
  have ids: "distinct (List.map t_id (territories two_places))" by (simp add: two_places_def brazil_def)
  note all = geometries_stay_consistent [OF run ok ids]
  have "list_all2 same_but_bounds (territories two_places) (territories d')" using all by blast
  then obtain z t where "territories d' = [z, t]"
    and t: "same_but_bounds (brazil\<lparr>t_id := 2, t_level := Municipality, t_ibge_code := ''3550308''\<rparr>) t"
    by (auto simp: two_places_def list_all2_Cons1)
  then have "t \<in> set (territories d')" by simp
  moreover have "t_id t = 2 \<and> t_level t = Municipality"
    using t unfolding same_but_bounds_def by (cases t) (simp add: brazil_def)
  moreover have "derived_from_own postgis0 d' Municipality Detail (gv_detail_tolerance geometry_env0)" using all fields by simp
  ultimately have "\<exists>x \<in> set (territory_geometries d'). g_territory_id x = 2 \<and> g_lod x = Detail \<and>
      g_geom x = resolved postgis0 (gv_detail_tolerance geometry_env0) (g_geom own_geometry)"
    using own by (fastforce simp: derived_from_own_def own_geometry_def)
  then show ?thesis by (simp add: d' resolved_def postgis0_def own_geometry_def)
qed

end
