(* ===== verification/Spec2Isabelle.thy ===== *)
theory Spec2Isabelle
  imports Account_Witnesses Providers_Base Notification_Witnesses Forecast_Witnesses Hydro_Laws Classification Weather_Regions Open_Meteo Map_Laws Agregados_Laws Indicator_Laws Socioeconomic_Laws Territory_Import_Laws Election_Laws Political_Laws Fire_Witnesses Deforestation_Laws Transport_Witnesses Environment_Witnesses Geometry_Laws
begin

text \<open>
  The back end of Brasil Lens (\<open>src/app\<close>, Python) serves maps of Brazil with weather, official alerts, indicators,
  elections and hydrography, keeps accounts that follow municipalities, and sends notifications to their devices.
  Its routes (\<open>api\<close>) call services (\<open>services\<close>), which hold in-process caches, read the database through repositories
  (\<open>repositories\<close>) and call public sources (\<open>providers\<close>); jobs (\<open>jobs\<close>) fill the database from those sources. This
  library models that code function by function, in the order of the layers.

  \<^bold>\<open>How the code is read.\<close> A class of data is a \<open>record\<close> or a \<open>datatype\<close> with the fields of the source. A function that
  raises returns \<open>raised + 'a\<close> (or its own error type), with \<open>Inl\<close> for the exception. An object with state (a cache, a
  service, a session) is a record that its methods take and return. A table is the list of its rows; a statement is a
  function on it (\<open>Tables\<close>), and the constraints of the schema are predicates that every operation is shown to keep.
  Points where the code awaits are steps: other requests and sessions may change the state there, which is a
  parameter (\<open>Notifications.dispatch\<close>, \<open>Weather_Forecast.resolve\<close>). Floats are exact reals and \<open>Decimal\<close>s exact rationals;
  dates are counted in microseconds, clocks are reals. Strings are Latin-1 code points. What is not under \<open>src/\<close> is a
  parameter: scrypt, SHA-256 and random tokens, Redis, httpx, PostGIS and the collation of PostgreSQL, the push service,
  the division and power of PostgreSQL, Pydantic's conversions and the parsing of time stamps.

  \<^bold>\<open>Foundations.\<close> \<open>Prelude\<close> has Python's rounding, insertion-ordered dictionaries and text; \<open>Errors\<close> the exceptions and
  handlers (\<open>core/errors.py\<close>, \<open>main.py\<close>); \<open>Json\<close> and \<open>Python_Values\<close> decoded JSON with the operations that raise on it;
  \<open>Tables\<close> the statements of SQL, whose \<open>INSERT ... ON CONFLICT\<close> is the locale \<open>upsert_table\<close>, interpreted on every table
  written that way; \<open>Database\<close> the tables of accounts, territories, data sets and runs.
  \<open>TTL_Cache\<close> (\<open>core/cache.py\<close>), \<open>Shared_Cache\<close> (\<open>core/redis_cache.py\<close>, \<open>core/cooldown.py\<close>) and \<open>Read_Through\<close>, the pattern
  by which the services answer from a cache, have the locale \<open>read_through\<close> with the promise that what is answered was
  computed at most a time to live before.

  \<^bold>\<open>Accounts.\<close> \<open>Auth_Limits\<close> (\<open>core/auth.py\<close>: digests, the counters of attempts, the ladder of locks), \<open>Accounts\<close> (the
  statements of \<open>repositories/users.py\<close>, \<open>services/auth.py\<close> and the handlers of \<open>api/v1/auth.py\<close> with the transaction of
  \<open>db/session.py\<close>). \<open>Account_Laws\<close> shows that every handler keeps the keys of the schema and a well-formed cache of attempts, what
  registration, login, logout and deletion do, and what the limits admit; \<open>Account_Witnesses\<close> runs them.

  \<^bold>\<open>Followed places, alerts and notifications.\<close> \<open>Followed\<close> (follow, unfollow, the switch), \<open>Weather_Alerts\<close> (the upsert of a
  feed, the alerts in force and their cache), \<open>Notifications\<close> (devices, events, the queue and the dispatcher),
  \<open>Notification_Laws\<close> and \<open>Notification_Witnesses\<close> (nothing is sent twice, to a stranger or after opting out; the outcome of
  every refusal). \<open>Jobs\<close> is the runner every import goes through.

  \<^bold>\<open>Weather.\<close> \<open>Weather_Summary\<close> and \<open>Spatial\<close> (summary and inverse-distance estimates), \<open>Weather_Forecast\<close> (the readings of
  \<open>services/weather_forecast.py\<close>: two caches, flights shared by concurrent requests, batches, cooldowns and age rules),
  \<open>Forecast_Laws\<close> and \<open>Forecast_Witnesses\<close> (what a resolution may answer and that it answers every place),
  \<open>Weather_Regions\<close> and \<open>Sampling\<close> (which places stand for a region), \<open>Open_Meteo\<close> and \<open>Providers_Base\<close> (the source and the
  retries of an HTTP request).

  \<^bold>\<open>Territories and maps.\<close> \<open>Territories\<close> (search, ranking, pages), \<open>Territory_Import\<close> and its laws (the five levels of IBGE are
  stored under their parents), \<open>Map_Projection\<close> and \<open>Map_Laws\<close> (the features of a scope and the keys of their caches),
  \<open>Hydro_Lines\<close>, \<open>Hydrography\<close> and \<open>Hydro_Laws\<close> (rivers joined, simplified, clipped and consolidated; partial answers),
  \<open>Geometries\<close> and \<open>Geometry_Laws\<close> (\<open>providers/ibge/malhas.py\<close>, \<open>jobs/import_geometries.py\<close>: the
  table stays consistent however the import ends; bounds and levels of detail follow the canonical geometries).

  \<^bold>\<open>Indicators.\<close> \<open>Agregados\<close> and its laws (the answers of IBGE's aggregates against their meaning), \<open>Indicators\<close> and
  \<open>Indicator_Laws\<close> (import in batches and derivations), \<open>Indicator_Registry\<close> (the registry and the catalogue),
  \<open>Classification\<close> (statistics and quantile classes), \<open>Socioeconomic\<close> and its laws (the values of a scope).

  \<^bold>\<open>Elections.\<close> \<open>Election_Stage\<close> (the tables of the consolidation and the loading of TSE's files in batches),
  \<open>Election_Results\<close> (what is published of them), \<open>Election_Laws\<close> (the votes of every place add up), \<open>Political\<close> and
  \<open>Political_Laws\<close> (the publication of a year is atomic and replaces it).

  \<^bold>\<open>Feeds of the weather.\<close> \<open>Weather_Feeds\<close> (the alerts of INMET and CEMADEN, \<open>providers/inmet/alerts.py\<close> and
  \<open>providers/cemaden/alerts.py\<close>, with their jobs), \<open>Weather_Stations\<close> (\<open>providers/inmet/stations.py\<close>, the import, the query of the
  current readings and the scheduler), \<open>Weather_Feed_Laws\<close>, \<open>Weather_Station_Laws\<close> and \<open>Weather_Feed_Witnesses\<close> (an import stores
  what is usable or nothing; the failure of a station touches no other).

  \<^bold>\<open>Fires and deforestation.\<close> \<open>Areas\<close>, \<open>Csv\<close> and \<open>Calendar\<close> (areas of municipalities, Python's \<open>csv\<close> reader, dates), \<open>Fires\<close>,
  \<open>Fire_Service\<close>, \<open>Fire_Laws\<close> and \<open>Fire_Witnesses\<close> (the hotspots of INPE: counts, scopes, three caches), \<open>Deforestation\<close> and
  \<open>Deforestation_Laws\<close> (the alerts of DETER with their retries), \<open>Environment\<close>, \<open>Environment_Laws\<close> and \<open>Environment_Witnesses\<close>
  (\<open>providers/prodes.py\<close>, \<open>providers/mapbiomas.py\<close>, \<open>jobs/import_environment.py\<close>: the series stored are the sums of what was read).

  \<^bold>\<open>Education.\<close> \<open>Education\<close>, \<open>Education_Laws\<close> and \<open>Education_Witnesses\<close> (\<open>providers/inep_higher_education.py\<close>,
  \<open>jobs/import_education.py\<close>, \<open>services/education.py\<close>: what the list of a place adds up to is what its map shows).

  \<^bold>\<open>Transport.\<close> \<open>Shapefile\<close> and \<open>Shapefile_Laws\<close> (\<open>providers/shapefile.py\<close>, byte by byte, against a writer of the format),
  \<open>Transport_Sources\<close> (\<open>providers/dnit.py\<close>, \<open>providers/bc250.py\<close>), \<open>Transport\<close> and \<open>Transport_Laws\<close> (the import and the
  requests of \<open>services/transport.py\<close>), \<open>Transport_Tiles\<close> and \<open>Transport_Tile_Laws\<close> (\<open>jobs/import_transport_tiles.py\<close>: staging,
  attempts and the swap), \<open>Transport_Witnesses\<close>.

  \<^bold>\<open>Bounds.\<close> Loops of the code are structural recursions, or functions with a measure: the attempts of an HTTP request (three),
  the ladder of locks, the bisection of a line (its length). The loop over the records of a shapefile follows lengths of
  the file and need not end: it is a \<open>partial_function\<close>, shown to end on files as the format says. The dispatcher and the retries need no fuel: the
  numbers of turns and attempts are bounded by the code's own constants.

  \<^bold>\<open>Not modelled.\<close> Texts shown to people; logging; the reading of the environment and of command lines; Pydantic's and FastAPI's
  declarations beyond the checks written by hand, and the routes that only call a service; Alembic's migrations (the
  constraints they create are modelled with the tables); what PostGIS computes of one geometry; downloads, zip archives,
  SQLite and XML, which are the standard library's. The exact reals leave out rounding of floats.
\<close>

end
